(* ===== verification/Prelude.thy ===== *)
theory Prelude
  imports Main "HOL-Library.Word" "HOL-Library.AList"
begin

text \<open>
  The shared prelude of the development: the Python values the code is made of (bytes, text,
  exceptions), the state-and-exception monad in which the parsing code is modelled, and the
  binary stream every parser reads from.  No component of the repository is modelled here
  except the exception hierarchy of \<^verbatim>\<open>elftools/common/exceptions.py\<close> and
  \<^verbatim>\<open>elftools/construct/core.py\<close>.

  \<^item> \<open>byte\<close>, \<open>bytes\<close>, \<open>pystr\<close>: Python \<open>bytes\<close> are lists of 8-bit words, Python \<open>str\<close> are lists
    of Unicode code points; \<open>lit ''abc''\<close> is the \<open>str\<close> literal.
  \<^item> \<open>exn\<close>, \<open>res\<close>, \<open>M\<close>: exceptions are values; a computation takes a state and returns a result
    (\<open>Ok\<close>, \<open>Err\<close>, or \<open>NoFuel\<close> for a loop that was cut off by its bound) with the new state.
    The state survives an exception, as a Python object's mutations do.
  \<^item> \<open>stream\<close>: an \<open>io.BytesIO\<close> (contents and position).
\<close>

unbundle bit_operations_syntax

section \<open>Collections of facts\<close>

named_theorems monad_simps \<open>unfolding of the monad's combinators at a state\<close>
named_theorems stream_simps \<open>the stream operations at a state\<close>

section \<open>Python values\<close>

type_synonym byte = "8 word"
type_synonym bytes = "byte list"
type_synonym pystr = "int list"

text \<open>A \<open>str\<close> literal of the source: its characters' code points.\<close>

definition lit :: "string \<Rightarrow> pystr" where
  "lit s = map of_char s"

lemma lit_inject [simp]: "lit s = lit t \<longleftrightarrow> s = t"
proof -
  have "inj (map (of_char :: char \<Rightarrow> int))"
    by (rule inj_mapI) (rule inj_of_char)
  then show ?thesis
    by (simp add: lit_def inj_eq)
qed

lemma lit_eq_Nil [simp]: "lit s = [] \<longleftrightarrow> s = []"
  by (simp add: lit_def)

lemma length_lit [simp]: "length (lit s) = length s"
  by (simp add: lit_def)

section \<open>Exceptions\<close>

text \<open>
  The exceptions the modelled code raises or handles.  The subclass relation that an
  \<^verbatim>\<open>except\<close> clause tests is spelled out by the predicates below.
\<close>

datatype exn =
    ConstructError | FieldError | SizeofError | AdaptationError | ArrayError | RangeError
  | SwitchError | SelectError | TerminatorError
  | BitIntegerError | MappingError | ConstError | ValidationError | PaddingError
  | ELFError | ELFRelocationError | ELFParseError | ELFCompressionError | DWARFError
  | ValueError | UnicodeDecodeError | UnicodeEncodeError | KeyError | IndexError | TypeError | AttributeError
  | AssertionError | StructError | OverflowError | OSError | CalledProcessError
  | NotImplementedError | UnboundLocalError | StopIteration | ZeroDivisionError | RuntimeError

fun is_AdaptationError :: "exn \<Rightarrow> bool" where
  "is_AdaptationError e = (e \<in> {AdaptationError, BitIntegerError, MappingError, ConstError,
     ValidationError, PaddingError})"

fun is_ConstructError :: "exn \<Rightarrow> bool" where
  "is_ConstructError e = (is_AdaptationError e \<or> e \<in> {ConstructError, FieldError, SizeofError,
     ArrayError, RangeError, SwitchError, SelectError, TerminatorError})"

fun is_ELFError :: "exn \<Rightarrow> bool" where
  "is_ELFError e = (e \<in> {ELFError, ELFRelocationError, ELFParseError, ELFCompressionError})"

fun is_ValueError :: "exn \<Rightarrow> bool" where
  "is_ValueError e = (e \<in> {ValueError, UnicodeDecodeError, UnicodeEncodeError})"

section \<open>Results and the monad\<close>

datatype 'a res = Ok 'a | Err exn | NoFuel

type_synonym ('s, 'a) M = "'s \<Rightarrow> 'a res \<times> 's"

definition ret :: "'a \<Rightarrow> ('s, 'a) M" where
  "ret a = (\<lambda>s. (Ok a, s))"

definition raise :: "exn \<Rightarrow> ('s, 'a) M" where
  "raise e = (\<lambda>s. (Err e, s))"

definition lift_res :: "'a res \<Rightarrow> ('s, 'a) M" where
  "lift_res r = (\<lambda>s. (r, s))"

definition mbind :: "('s, 'a) M \<Rightarrow> ('a \<Rightarrow> ('s, 'b) M) \<Rightarrow> ('s, 'b) M" where
  "mbind m f = (\<lambda>s. case m s of (r, s') \<Rightarrow>
     (case r of Ok a \<Rightarrow> f a s' | Err e \<Rightarrow> (Err e, s') | NoFuel \<Rightarrow> (NoFuel, s')))"

text \<open>\<open>try_except m P h\<close>: \<^verbatim>\<open>try: m  except <classes P> as e: h(e)\<close>.\<close>

definition try_except :: "('s, 'a) M \<Rightarrow> (exn \<Rightarrow> bool) \<Rightarrow> (exn \<Rightarrow> ('s, 'a) M) \<Rightarrow> ('s, 'a) M" where
  "try_except m P h = (\<lambda>s. case m s of (r, s') \<Rightarrow>
     (case r of Err e \<Rightarrow> (if P e then h e s' else (Err e, s')) | _ \<Rightarrow> (r, s')))"

definition get_state :: "('s, 's) M" where
  "get_state = (\<lambda>s. (Ok s, s))"

definition put_state :: "'s \<Rightarrow> ('s, unit) M" where
  "put_state s' = (\<lambda>s. (Ok (), s'))"

text \<open>\<^verbatim>\<open>[f(x) for x in xs]\<close>, left to right, stopping at the first exception.\<close>

fun mmap :: "('a \<Rightarrow> ('s, 'b) M) \<Rightarrow> 'a list \<Rightarrow> ('s, 'b list) M" where
  "mmap f [] = ret []"
| "mmap f (x # xs) = mbind (f x) (\<lambda>y. mbind (mmap f xs) (\<lambda>ys. ret (y # ys)))"

lemma ret_run [monad_simps, simp]: "ret a s = (Ok a, s)"
  by (simp add: ret_def)

lemma raise_run [monad_simps, simp]: "raise e s = (Err e, s)"
  by (simp add: raise_def)

lemma lift_res_run [monad_simps, simp]: "lift_res r s = (r, s)"
  by (simp add: lift_res_def)

lemma get_state_run [monad_simps, simp]: "get_state s = (Ok s, s)"
  by (simp add: get_state_def)

lemma put_state_run [monad_simps, simp]: "put_state t s = (Ok (), t)"
  by (simp add: put_state_def)

lemma mbind_Ok: "m s = (Ok a, s') \<Longrightarrow> mbind m f s = f a s'"
  by (simp add: mbind_def)

lemma mbind_Err: "m s = (Err e, s') \<Longrightarrow> mbind m f s = (Err e, s')"
  by (simp add: mbind_def)

lemma mbind_NoFuel: "m s = (NoFuel, s') \<Longrightarrow> mbind m f s = (NoFuel, s')"
  by (simp add: mbind_def)

lemma mbind_eq_Ok:
  "mbind m f s = (Ok b, s'') \<longleftrightarrow> (\<exists>a s'. m s = (Ok a, s') \<and> f a s' = (Ok b, s''))"
  by (auto simp: mbind_def split: prod.splits res.splits)

lemma mbind_ret [simp]: "mbind (ret a) f = f a"
  by (simp add: mbind_def ret_def)

lemma mbind_raise [simp]: "mbind (raise e) f = raise e"
  by (simp add: mbind_def raise_def)

lemma mbind_get_state [simp]: "mbind get_state f s = f s s"
  by (simp add: mbind_def)

lemma mbind_put_state [simp]: "mbind (put_state t) f s = f () t"
  by (simp add: mbind_def)

lemma mbind_lift_res [simp]:
  "mbind (lift_res r) f s = (case r of Ok a \<Rightarrow> f a s | Err e \<Rightarrow> (Err e, s) | NoFuel \<Rightarrow> (NoFuel, s))"
  by (simp add: mbind_def)

lemma res_case_Ok:
  "(case r of Ok a \<Rightarrow> g a | Err e \<Rightarrow> (Err e, s) | NoFuel \<Rightarrow> (NoFuel, s)) = (Ok b, s') \<longleftrightarrow>
   (\<exists>a. r = Ok a \<and> g a = (Ok b, s'))"
  by (cases r) auto

lemma mbind_cong_Ok: "(\<And>a s'. m s = (Ok a, s') \<Longrightarrow> f a s' = g a s') \<Longrightarrow> mbind m f s = mbind m g s"
  by (auto simp: mbind_def split: prod.split res.split)

lemma mbind_assoc: "mbind (mbind m f) g = mbind m (\<lambda>a. mbind (f a) g)"
  by (rule ext) (auto simp: mbind_def split: prod.splits res.splits)

lemma mbind_ret_right [simp]: "mbind m ret = m"
  by (rule ext) (auto simp: mbind_def split: prod.splits res.splits)

lemma try_except_Ok: "m s = (Ok a, s') \<Longrightarrow> try_except m P h s = (Ok a, s')"
  by (simp add: try_except_def)

lemma try_except_Err: "m s = (Err e, s') \<Longrightarrow> P e \<Longrightarrow> try_except m P h s = h e s'"
  by (simp add: try_except_def)

lemma try_except_pass: "m s = (Err e, s') \<Longrightarrow> \<not> P e \<Longrightarrow> try_except m P h s = (Err e, s')"
  by (simp add: try_except_def)

lemma try_except_ret [simp]: "try_except (ret a) P h = ret a"
  by (rule ext) (simp add: try_except_def)

section \<open>Streams\<close>

record stream =
  sdata :: bytes
  spos :: nat

text \<open>
  \<open>read n\<close> returns at most \<open>n\<close> bytes from the position on and advances by what it returned;
  a negative count reads to the end.  \<open>seek\<close> may go past the end; a negative position is a
  \<open>ValueError\<close>, one beyond the machine's \<open>Py_ssize_t\<close> an \<open>OverflowError\<close>.  \<open>write\<close> overwrites
  from the position on, filling a gap with zero bytes.
\<close>

definition s_tell :: "stream \<Rightarrow> int" where
  "s_tell s = int (spos s)"

definition s_seek :: "int \<Rightarrow> (stream, unit) M" where
  "s_seek p = (\<lambda>s. if p < 0 then (Err ValueError, s)
     else if 2 ^ 63 \<le> p then (Err OverflowError, s)
     else (Ok (), s\<lparr>spos := nat p\<rparr>))"

definition s_read :: "int \<Rightarrow> (stream, bytes) M" where
  "s_read n = (\<lambda>s.
     if 2 ^ 63 \<le> n then (Err OverflowError, s)
     else let avail = drop (spos s) (sdata s);
              out = (if n < 0 then avail else take (nat n) avail)
          in (Ok out, s\<lparr>spos := spos s + length out\<rparr>))"

definition s_write :: "bytes \<Rightarrow> (stream, unit) M" where
  "s_write bs = (\<lambda>s.
     if bs = [] then (Ok (), s)
     else (Ok (), s\<lparr>sdata := take (spos s) (sdata s) @ replicate (spos s - length (sdata s)) 0
                      @ bs @ drop (spos s + length bs) (sdata s),
                  spos := spos s + length bs\<rparr>))"

definition bytesio :: "bytes \<Rightarrow> stream" where
  "bytesio bs = \<lparr>sdata = bs, spos = 0\<rparr>"

definition remaining :: "stream \<Rightarrow> nat" where
  "remaining s = length (sdata s) - spos s"

lemma bytesio_simps [simp]: "sdata (bytesio bs) = bs" "spos (bytesio bs) = 0"
  by (simp_all add: bytesio_def)

lemma s_read_enough [stream_simps]:
  assumes "0 \<le> n" "n < 2 ^ 63" "nat n \<le> remaining s"
  shows "s_read n s = (Ok (take (nat n) (drop (spos s) (sdata s))), s\<lparr>spos := spos s + nat n\<rparr>)"
  using assms by (simp add: s_read_def remaining_def Let_def min_def)

lemma s_read_data:
  assumes "s_read n s = (r, s')"
  shows "sdata s' = sdata s" and "spos s \<le> spos s'"
  using assms by (auto simp: s_read_def Let_def split: if_splits)

lemma s_seek_ok [stream_simps]:
  "0 \<le> p \<Longrightarrow> p < 2 ^ 63 \<Longrightarrow> s_seek p s = (Ok (), s\<lparr>spos := nat p\<rparr>)"
  by (simp add: s_seek_def)

lemma s_seek_data: "s_seek p s = (r, s') \<Longrightarrow> sdata s' = sdata s"
  by (auto simp: s_seek_def split: if_splits)

text \<open>Seeking forgets where the stream was.\<close>

lemma s_seek_forgets:
  "sdata s = sdata t \<Longrightarrow> 0 \<le> p \<Longrightarrow> p < 2 ^ 63 \<Longrightarrow> s_seek p s = s_seek p t"
  by (simp add: s_seek_def)

lemma s_write_end:
  "spos s = length (sdata s) \<Longrightarrow>
   s_write bs s = (Ok (), s\<lparr>sdata := sdata s @ bs, spos := spos s + length bs\<rparr>)"
  by (simp add: s_write_def)

section \<open>Dictionaries and containers\<close>

text \<open>
  A Python dict keyed by strings keeps insertion order and updates a key in place:
  \<open>AList.update\<close>, with \<open>map_of\<close> as the lookup and \<open>AList.delete\<close> as \<^verbatim>\<open>del\<close>.
\<close>

type_synonym 'v dict = "(string \<times> 'v) list"

definition dget :: "'v dict \<Rightarrow> string \<Rightarrow> 'v res" where
  "dget d k = (case map_of d k of None \<Rightarrow> Err KeyError | Some v \<Rightarrow> Ok v)"

abbreviation dput :: "string \<Rightarrow> 'v \<Rightarrow> 'v dict \<Rightarrow> 'v dict" where
  "dput k v d \<equiv> AList.update k v d"

lemma dget_dput: "dget (dput k v d) k' = (if k = k' then Ok v else dget d k')"
  by (simp add: dget_def update_conv')

lemma dget_dput_same [simp]: "dget (dput k v d) k = Ok v"
  by (simp add: dget_dput)

lemma dget_dput_other [simp]: "k \<noteq> k' \<Longrightarrow> dget (dput k v d) k' = dget d k'"
  by (simp add: dget_dput)

lemma dget_Nil [simp]: "dget [] k = Err KeyError"
  by (simp add: dget_def)

lemma dget_Cons [simp]: "dget ((k', v) # d) k = (if k = k' then Ok v else dget d k)"
  by (simp add: dget_def)

section \<open>Results without state\<close>

definition rbind :: "'a res \<Rightarrow> ('a \<Rightarrow> 'b res) \<Rightarrow> 'b res" where
  "rbind r f = (case r of Ok a \<Rightarrow> f a | Err e \<Rightarrow> Err e | NoFuel \<Rightarrow> NoFuel)"

lemma rbind_simps [simp]:
  "rbind (Ok a) f = f a" "rbind (Err e) f = Err e" "rbind NoFuel f = NoFuel"
  by (simp_all add: rbind_def)

lemma rbind_eq_Ok: "rbind r f = Ok b \<longleftrightarrow> (\<exists>a. r = Ok a \<and> f a = Ok b)"
  by (cases r) auto

fun rmap :: "('a \<Rightarrow> 'b res) \<Rightarrow> 'a list \<Rightarrow> 'b list res" where
  "rmap f [] = Ok []"
| "rmap f (x # xs) = rbind (f x) (\<lambda>y. rbind (rmap f xs) (\<lambda>ys. Ok (y # ys)))"

lemma rmap_Ok: "(\<And>x. x \<in> set xs \<Longrightarrow> f x = Ok (g x)) \<Longrightarrow> rmap f xs = Ok (map g xs)"
  by (induction xs) auto

lemma rmap_length: "rmap f xs = Ok ys \<Longrightarrow> length ys = length xs"
  by (induction xs arbitrary: ys) (auto simp: rbind_eq_Ok)

text \<open>\<^verbatim>\<open>xs[i]\<close> of a Python sequence: a negative index counts from the end.\<close>

definition py_index :: "'a list \<Rightarrow> int \<Rightarrow> 'a res" where
  "py_index xs i = (let n = int (length xs); j = (if i < 0 then n + i else i) in
     if 0 \<le> j \<and> j < n then Ok (xs ! nat j) else Err IndexError)"

lemma py_index_ok: "0 \<le> i \<Longrightarrow> i < int (length xs) \<Longrightarrow> py_index xs i = Ok (xs ! nat i)"
  by (simp add: py_index_def)

lemma py_index_nat [simp]: "i < length xs \<Longrightarrow> py_index xs (int i) = Ok (xs ! i)"
  by (simp add: py_index_def)

end
