(* ===== verification/PyText.thy ===== *)
theory PyText
  imports Prelude
begin

text \<open>
  What the repository uses of Python's text and integer libraries: UTF-8 and Latin-1 codecs,
  decimal digits, \<open>int(str)\<close>, substring search, and the integer formats of the \<open>struct\<close> module.
  These are the language's own operations, so they have no lines under \<^verbatim>\<open>src/\<close>.
\<close>

section \<open>UTF-8\<close>

definition is_cont :: "int \<Rightarrow> bool" where
  "is_cont c \<longleftrightarrow> 128 \<le> c \<and> c \<le> 191"

text \<open>
  The second byte that may follow a lead byte of a three- or four-byte sequence (the table of
  well-formed sequences: no overlong forms, no surrogates, nothing above \<open>U+10FFFF\<close>).
\<close>

definition second_ok :: "int \<Rightarrow> int \<Rightarrow> bool" where
  "second_ok b c \<longleftrightarrow>
     (if b = 224 then 160 \<le> c \<and> c \<le> 191
      else if b = 237 then 128 \<le> c \<and> c \<le> 159
      else if b = 240 then 144 \<le> c \<and> c \<le> 191
      else if b = 244 then 128 \<le> c \<and> c \<le> 143
      else is_cont c)"

text \<open>
  One decoding step after the lead byte \<open>b\<close>: the code point (or \<open>None\<close> where the bytes are
  malformed: the maximal well-formed prefix is skipped), and the bytes left.
\<close>

definition utf8_step :: "int \<Rightarrow> int list \<Rightarrow> int option \<times> int list" where
  "utf8_step b bs =
     (if b < 128 then (Some b, bs)
      else if 194 \<le> b \<and> b \<le> 223 then
        (case bs of
           c # r \<Rightarrow> if is_cont c then (Some ((b - 192) * 64 + (c - 128)), r) else (None, bs)
         | [] \<Rightarrow> (None, bs))
      else if 224 \<le> b \<and> b \<le> 239 then
        (case bs of
           c # r \<Rightarrow> if second_ok b c then
             (case r of
                d # r' \<Rightarrow> if is_cont d
                  then (Some ((b - 224) * 4096 + (c - 128) * 64 + (d - 128)), r') else (None, r)
              | [] \<Rightarrow> (None, r))
             else (None, bs)
         | [] \<Rightarrow> (None, bs))
      else if 240 \<le> b \<and> b \<le> 244 then
        (case bs of
           c # r \<Rightarrow> if second_ok b c then
             (case r of
                d # r' \<Rightarrow> if is_cont d then
                  (case r' of
                     e # r'' \<Rightarrow> if is_cont e
                       then (Some ((b - 240) * 262144 + (c - 128) * 4096 + (d - 128) * 64 + (e - 128)), r'')
                       else (None, r')
                   | [] \<Rightarrow> (None, r'))
                  else (None, r)
              | [] \<Rightarrow> (None, r))
             else (None, bs)
         | [] \<Rightarrow> (None, bs))
      else (None, bs))"

lemma utf8_step_length: "utf8_step b bs = (cp, r) \<Longrightarrow> length r \<le> length bs"
  by (auto simp: utf8_step_def split: if_splits list.splits)

lemma utf8_step_decreases [dest]: "(cp, r) = utf8_step b bs \<Longrightarrow> length r < Suc (length bs)"
  using utf8_step_length [of b bs cp r] by simp

lemma utf8_step_ascii [simp]: "b < 128 \<Longrightarrow> utf8_step b bs = (Some b, bs)"
  by (simp add: utf8_step_def)

text \<open>\<^verbatim>\<open>b.decode('utf-8', errors='replace')\<close> and \<^verbatim>\<open>b.decode('utf-8')\<close>.\<close>

function utf8_replace :: "int list \<Rightarrow> pystr" where
  "utf8_replace [] = []"
| "utf8_replace (b # bs) =
     (case utf8_step b bs of (cp, r) \<Rightarrow>
        (case cp of Some c \<Rightarrow> c | None \<Rightarrow> 65533) # utf8_replace r)"
  by pat_completeness auto
termination
  by (relation "measure length") auto

function utf8_strict :: "int list \<Rightarrow> pystr res" where
  "utf8_strict [] = Ok []"
| "utf8_strict (b # bs) =
     (case utf8_step b bs of (cp, r) \<Rightarrow>
        (case cp of None \<Rightarrow> Err UnicodeDecodeError
         | Some c \<Rightarrow> rbind (utf8_strict r) (\<lambda>s. Ok (c # s))))"
  by pat_completeness auto
termination
  by (relation "measure length") auto

definition decode_utf8_replace :: "bytes \<Rightarrow> pystr" where
  "decode_utf8_replace bs = utf8_replace (map uint bs)"

definition decode_utf8 :: "bytes \<Rightarrow> pystr res" where
  "decode_utf8 bs = utf8_strict (map uint bs)"

definition decode_latin1 :: "bytes \<Rightarrow> pystr" where
  "decode_latin1 bs = map uint bs"

lemma utf8_replace_ascii: "(\<And>b. b \<in> set bs \<Longrightarrow> b < 128) \<Longrightarrow> utf8_replace bs = bs"
  by (induction bs) auto

lemma utf8_strict_ascii: "(\<And>b. b \<in> set bs \<Longrightarrow> b < 128) \<Longrightarrow> utf8_strict bs = Ok bs"
  by (induction bs) auto

text \<open>The two error handlers agree wherever the strict one succeeds.\<close>

lemma utf8_strict_replace: "utf8_strict bs = Ok s \<Longrightarrow> utf8_replace bs = s"
proof (induction bs arbitrary: s rule: utf8_strict.induct)
  case 1
  then show ?case by simp
next
  case (2 b bs)
  then show ?case
    by (auto simp: rbind_eq_Ok split: prod.splits option.splits)
qed

text \<open>\<^verbatim>\<open>s.encode('utf-8')\<close>: a surrogate has no encoding.\<close>

definition utf8_char :: "int \<Rightarrow> int list res" where
  "utf8_char c =
     (if c < 128 then Ok [c]
      else if c < 2048 then Ok [192 + c div 64, 128 + c mod 64]
      else if 55296 \<le> c \<and> c \<le> 57343 then Err UnicodeEncodeError
      else if c < 65536 then Ok [224 + c div 4096, 128 + (c div 64) mod 64, 128 + c mod 64]
      else Ok [240 + c div 262144, 128 + (c div 4096) mod 64, 128 + (c div 64) mod 64,
               128 + c mod 64])"

definition encode_utf8 :: "pystr \<Rightarrow> bytes res" where
  "encode_utf8 s = rbind (rmap utf8_char s) (\<lambda>bss. Ok (map word_of_int (concat bss)))"

lemma encode_utf8_ascii:
  assumes "\<And>c. c \<in> set s \<Longrightarrow> c < 128"
  shows "encode_utf8 s = Ok (map word_of_int s)"
proof -
  have "rmap utf8_char s = Ok (map (\<lambda>c. [c]) s)"
    by (rule rmap_Ok) (simp add: assms utf8_char_def)
  then show ?thesis
    by (simp add: encode_utf8_def)
qed

section \<open>Decimal digits and int\<close>

text \<open>
  The zeros of the runs of ten decimal digits (general category Nd) of the Unicode database:
  what the \<open>\d\<close> of a \<open>str\<close> pattern matches and \<open>int\<close> reads.
\<close>

definition nd_zeros :: "int list" where
  "nd_zeros = [48, 1632, 1776, 1984, 2406, 2534, 2662, 2790, 2918, 3046, 3174, 3302, 3430, 3558,
     3664, 3792, 3872, 4160, 4240, 6112, 6160, 6470, 6608, 6784, 6800, 6992, 7088, 7232, 7248,
     42528, 43216, 43264, 43472, 43504, 43600, 44016, 65296, 66720, 68912, 69734, 69872, 69942,
     70096, 70384, 70736, 70864, 71248, 71360, 71472, 71904, 72016, 72784, 73040, 73120, 92768,
     92864, 93008, 120782, 120792, 120802, 120812, 120822, 123200, 123632, 125264, 130032]"

definition digit_value :: "int \<Rightarrow> int option" where
  "digit_value c = (case filter (\<lambda>z. z \<le> c \<and> c < z + 10) nd_zeros of
     [] \<Rightarrow> None | z # _ \<Rightarrow> Some (c - z))"

definition is_digit :: "int \<Rightarrow> bool" where
  "is_digit c \<longleftrightarrow> digit_value c \<noteq> None"

lemma digit_value_bounds: "digit_value c = Some d \<Longrightarrow> 0 \<le> d \<and> d < 10"
proof -
  assume d: "digit_value c = Some d"
  then obtain z zs where f: "filter (\<lambda>z. z \<le> c \<and> c < z + 10) nd_zeros = z # zs" and dz: "d = c - z"
    by (auto simp: digit_value_def split: list.splits)
  have "z \<in> set (filter (\<lambda>z. z \<le> c \<and> c < z + 10) nd_zeros)"
    by (simp add: f)
  then show "0 \<le> d \<and> d < 10"
    using dz by auto
qed

lemma digit_value_ascii: "0 \<le> c \<Longrightarrow> c < 128 \<Longrightarrow> digit_value c = (if 48 \<le> c \<and> c \<le> 57 then Some (c - 48) else None)"
  by (simp add: digit_value_def nd_zeros_def)

lemma is_digit_ascii: "0 \<le> c \<Longrightarrow> c < 128 \<Longrightarrow> is_digit c \<longleftrightarrow> 48 \<le> c \<and> c \<le> 57"
  by (simp add: is_digit_def digit_value_ascii)

lemma dot_not_digit [simp]: "\<not> is_digit 46"
  by (simp add: is_digit_ascii)

fun digits_value :: "int list \<Rightarrow> int \<Rightarrow> int" where
  "digits_value [] acc = acc"
| "digits_value (c # cs) acc =
     digits_value cs (acc * 10 + (case digit_value c of Some d \<Rightarrow> d | None \<Rightarrow> 0))"

text \<open>
  \<open>int(s)\<close> on a string of digits, the only kind it gets here: beyond the interpreter's limit of
  4300 digits it is a \<open>ValueError\<close>.
\<close>

definition int_max_str_digits :: nat where
  "int_max_str_digits = 4300"

definition py_int_of_digits :: "pystr \<Rightarrow> int res" where
  "py_int_of_digits s = (if int_max_str_digits < length s then Err ValueError
     else Ok (digits_value s 0))"

section \<open>Substrings\<close>

text \<open>\<^verbatim>\<open>p in s\<close>, \<^verbatim>\<open>s.startswith(p)\<close> and \<^verbatim>\<open>s.endswith(p)\<close> of strings and bytes.\<close>

fun starts_with :: "'a list \<Rightarrow> 'a list \<Rightarrow> bool" where
  "starts_with [] s = True"
| "starts_with (p # ps) [] = False"
| "starts_with (p # ps) (c # cs) = (p = c \<and> starts_with ps cs)"

fun occurs_in :: "'a list \<Rightarrow> 'a list \<Rightarrow> bool" where
  "occurs_in p [] = (p = [])"
| "occurs_in p (c # cs) = (starts_with p (c # cs) \<or> occurs_in p cs)"

definition ends_with :: "'a list \<Rightarrow> 'a list \<Rightarrow> bool" where
  "ends_with p s = starts_with (rev p) (rev s)"

lemma starts_with_iff: "starts_with p s \<longleftrightarrow> (\<exists>t. s = p @ t)"
  by (induction p s rule: starts_with.induct) auto

lemma occurs_in_iff: "occurs_in p s \<longleftrightarrow> (\<exists>a b. s = a @ p @ b)"
proof (induction s)
  case Nil
  then show ?case by simp
next
  case (Cons c cs)
  show ?case
  proof
    assume "occurs_in p (c # cs)"
    then consider "starts_with p (c # cs)" | "occurs_in p cs" by auto
    then show "\<exists>a b. c # cs = a @ p @ b"
    proof cases
      case 1
      then show ?thesis
        by (metis append_Nil starts_with_iff)
    next
      case 2
      then show ?thesis
        using Cons.IH by (metis append_Cons)
    qed
  next
    assume "\<exists>a b. c # cs = a @ p @ b"
    then obtain a b where ab: "c # cs = a @ p @ b" by blast
    show "occurs_in p (c # cs)"
    proof (cases a)
      case Nil
      with ab have "starts_with p (c # cs)"
        by (auto simp: starts_with_iff)
      then show ?thesis by simp
    next
      case (Cons x a')
      with ab have "cs = a' @ p @ b" by simp
      with Cons.IH show ?thesis by auto
    qed
  qed
qed

lemma ends_with_iff: "ends_with p s \<longleftrightarrow> (\<exists>t. s = t @ p)"
proof -
  have "ends_with p s \<longleftrightarrow> (\<exists>t. rev s = rev p @ t)"
    by (simp add: ends_with_def starts_with_iff)
  also have "\<dots> \<longleftrightarrow> (\<exists>t. s = t @ p)"
    by (metis rev_append rev_rev_ident)
  finally show ?thesis .
qed

end
