(* ===== verification/ConstructLib.thy ===== *)
theory ConstructLib
  imports PyText
begin

text \<open>
  \<^verbatim>\<open>elftools/construct/lib\<close>: the bit-string conversions of \<^verbatim>\<open>binary.py\<close> and the values that
  parsing produces and building consumes.  A \<open>Container\<close> (\<^verbatim>\<open>container.py\<close>) is a dict of named
  values, a \<open>ListContainer\<close> a list.
\<close>

section \<open>Bit strings (binary.py)\<close>

text \<open>
  The loop of \<open>int_to_bin\<close> fills a zeroed buffer from its last position, one bit of the number
  at a time; positions not reached keep their zero.
\<close>

primrec itb_loop :: "nat \<Rightarrow> int \<Rightarrow> bytes \<Rightarrow> bytes" where
  "itb_loop 0 number done = done"
| "itb_loop (Suc i) number done =
     (if number = 0 then replicate (Suc i) 0 @ done
      else itb_loop i (drop_bit 1 number) (word_of_int (number AND 1) # done))"

definition int_to_bin :: "int \<Rightarrow> int \<Rightarrow> bytes res" where
  "int_to_bin number width =
     (if width < 0 then Err ValueError
      else Ok (itb_loop (nat width) (if number < 0 then number + push_bit (nat width) 1 else number) []))"

definition bit_values :: "byte \<Rightarrow> int res" where
  "bit_values b = (if b = 0 \<or> b = 48 then Ok 0 else if b = 1 \<or> b = 49 then Ok 1 else Err KeyError)"

fun bti_loop :: "bytes \<Rightarrow> int \<Rightarrow> int res" where
  "bti_loop [] number = Ok number"
| "bti_loop (b # bs) number = rbind (bit_values b) (\<lambda>v. bti_loop bs (push_bit 1 number OR v))"

definition bin_to_int :: "bytes \<Rightarrow> bool \<Rightarrow> int res" where
  "bin_to_int bits sgnd =
     (if sgnd then
        (case bits of
           [] \<Rightarrow> Err IndexError
         | b # bs \<Rightarrow> rbind (bit_values b) (\<lambda>v.
             if v = 1 then rbind (bti_loop bs 0) (\<lambda>n. Ok (n - push_bit (length bs) 1))
             else bti_loop bits 0))
      else bti_loop bits 0)"

text \<open>\<open>swap_bytes\<close> writes the chunks of \<open>bytesize\<close> bits back to front.\<close>

function swap_loop :: "nat \<Rightarrow> bytes \<Rightarrow> bytes \<Rightarrow> bytes" where
  "swap_loop bytesize bits out =
     (if bits = [] \<or> bytesize = 0 then out
      else swap_loop bytesize (drop bytesize bits) (take bytesize bits @ out))"
  by pat_completeness auto
termination
  by (relation "measure (\<lambda>(n, bs, out). length bs)") auto

declare swap_loop.simps [simp del]

definition swap_bytes :: "bytes \<Rightarrow> nat \<Rightarrow> bytes res" where
  "swap_bytes bits bytesize =
     (if bytesize = 0 then Err ZeroDivisionError else Ok (swap_loop bytesize bits []))"

text \<open>The two tables of all bytes, filled by one loop at import.\<close>

definition char_to_bin :: "byte \<Rightarrow> bytes" where
  "char_to_bin b = itb_loop 8 (uint b) []"

definition bin_to_char_table :: "(bytes \<times> byte) list" where
  "bin_to_char_table = map (\<lambda>i. (char_to_bin (word_of_int i), word_of_int i)) [0..255]"

definition encode_bin :: "bytes \<Rightarrow> bytes" where
  "encode_bin data = concat (map char_to_bin data)"

definition bin_to_char :: "bytes \<Rightarrow> byte res" where
  "bin_to_char bits = (case map_of bin_to_char_table bits of None \<Rightarrow> Err KeyError | Some c \<Rightarrow> Ok c)"

fun decode_loop :: "nat \<Rightarrow> bytes \<Rightarrow> bytes res" where
  "decode_loop 0 data = Ok []"
| "decode_loop (Suc j) data =
     rbind (bin_to_char (take 8 data)) (\<lambda>c. rbind (decode_loop j (drop 8 data)) (\<lambda>cs. Ok (c # cs)))"

definition decode_bin :: "bytes \<Rightarrow> bytes res" where
  "decode_bin data =
     (if length data mod 8 \<noteq> 0 then Err ValueError else decode_loop (length data div 8) data)"

subsection \<open>The conversions invert each other\<close>

text \<open>The bits of a number, most significant first.\<close>

definition msb_bits :: "nat \<Rightarrow> int \<Rightarrow> bytes" where
  "msb_bits w n = map (\<lambda>i. word_of_int (drop_bit i n AND 1)) (rev [0..<w])"

lemma msb_bits_Suc: "msb_bits (Suc w) n = msb_bits w (drop_bit 1 n) @ [word_of_int (n AND 1)]"
proof -
  have "rev [0..<Suc w] = map Suc (rev [0..<w]) @ [0]"
    by (simp add: rev_map [symmetric] map_Suc_upt upt_conv_Cons del: upt_Suc)
  then show ?thesis
    by (simp add: msb_bits_def comp_def)
qed

lemma msb_bits_zero: "msb_bits w 0 = replicate w 0"
  by (simp add: msb_bits_def map_replicate_const)

lemma length_msb_bits [simp]: "length (msb_bits w n) = w"
  by (simp add: msb_bits_def)

lemma itb_loop_msb: "itb_loop w n acc = msb_bits w n @ acc"
proof (induction w arbitrary: n acc)
  case 0
  then show ?case by (simp add: msb_bits_def)
next
  case (Suc w)
  show ?case
  proof (cases "n = 0")
    case True
    then show ?thesis by (simp add: msb_bits_zero del: replicate_Suc)
  next
    case False
    then show ?thesis by (simp add: Suc msb_bits_Suc)
  qed
qed

lemma bti_loop_append:
  "bti_loop (xs @ ys) n = rbind (bti_loop xs n) (\<lambda>m. bti_loop ys m)"
  by (induction xs arbitrary: n) (auto simp: rbind_def split: res.splits)

lemma bit_values_bit: "bit_values (word_of_int (n AND 1)) = Ok (n AND 1)"
proof -
  have "n AND 1 = 0 \<or> n AND 1 = 1"
    by (simp add: and_one_eq mod2_eq_if)
  then show ?thesis by (auto simp: bit_values_def)
qed

lemma push_or_bit: "push_bit (Suc 0) m OR (n AND 1) = 2 * m + n mod (2 :: int)"
proof -
  have "n AND 1 = 0 \<or> n AND 1 = 1"
    by (simp add: and_one_eq mod2_eq_if)
  then show ?thesis
    by (auto simp: push_bit_eq_mult or_one_eq and_one_eq)
qed

lemma bti_loop_msb: "bti_loop (msb_bits w n) 0 = Ok (n mod 2 ^ w)"
proof (induction w arbitrary: n)
  case 0
  then show ?case by (simp add: msb_bits_def)
next
  case (Suc w)
  have "n mod 2 ^ Suc w = 2 * (drop_bit 1 n mod 2 ^ w) + n mod 2"
    using zmod_zmult2_eq [of "2 ^ w" n 2] by (simp add: drop_bit_eq_div)
  then show ?case
    by (simp add: msb_bits_Suc bti_loop_append Suc bit_values_bit push_or_bit del: push_bit_of_Suc_0 push_bit_Suc)
qed

theorem bin_to_int_int_to_bin:
  assumes "int_to_bin n w = Ok bits"
  shows "bin_to_int bits False = Ok (n mod 2 ^ nat w)"
proof -
  from assms have bits: "bits = msb_bits (nat w) (if n < 0 then n + 2 ^ nat w else n)"
    by (auto simp: int_to_bin_def itb_loop_msb push_bit_eq_mult split: if_splits)
  show ?thesis
    by (simp add: bits bin_to_int_def bti_loop_msb)
qed

lemma char_to_bin_msb: "char_to_bin b = msb_bits 8 (uint b)"
  by (simp add: char_to_bin_def itb_loop_msb)

lemma length_char_to_bin [simp]: "length (char_to_bin b) = 8"
  by (simp add: char_to_bin_msb)

lemma char_to_bin_inject [simp]: "char_to_bin a = char_to_bin b \<longleftrightarrow> a = b"
proof
  assume "char_to_bin a = char_to_bin b"
  then have "uint a mod 2 ^ 8 = uint b mod 2 ^ 8"
    by (metis bti_loop_msb char_to_bin_msb res.inject(1))
  moreover have "uint a < 2 ^ 8" "uint b < 2 ^ 8"
    using uint_lt2p [of a] uint_lt2p [of b] by simp_all
  ultimately show "a = b"
    by (simp add: word_uint_eq_iff)
qed simp

lemma bin_to_char_char [simp]: "bin_to_char (char_to_bin c) = Ok c"
proof -
  have d: "distinct (map fst bin_to_char_table)"
    unfolding bin_to_char_table_def map_map
  proof (rule distinct_map [THEN iffD2], intro conjI inj_onI)
    show "distinct [0..255 :: int]" by simp
  next
    fix i j :: int
    assume "i \<in> set [0..255]" "j \<in> set [0..255]"
      and "(fst \<circ> (\<lambda>i. (char_to_bin (word_of_int i), word_of_int i :: byte))) i =
           (fst \<circ> (\<lambda>i. (char_to_bin (word_of_int i), word_of_int i :: byte))) j"
    then have "uint (word_of_int i :: byte) = uint (word_of_int j :: byte)"
      and "0 \<le> i" "i < 256" "0 \<le> j" "j < 256" by auto
    then show "i = j"
      by (simp add: uint_word_of_int)
  qed
  have "uint c \<in> set [0..255]"
    using uint_lt2p [of c] by simp
  then have "(char_to_bin (word_of_int (uint c)), word_of_int (uint c)) \<in> set bin_to_char_table"
    unfolding bin_to_char_table_def set_map by (rule imageI)
  then have "map_of bin_to_char_table (char_to_bin c) = Some c"
    using map_of_is_SomeI [OF d] by simp
  then show ?thesis by (simp add: bin_to_char_def)
qed

lemma length_encode_bin [simp]: "length (encode_bin data) = 8 * length data"
  by (induction data) (simp_all add: encode_bin_def)

theorem decode_bin_encode_bin: "decode_bin (encode_bin data) = Ok data"
proof -
  have "decode_loop (length data) (encode_bin data) = Ok data"
    by (induction data) (simp_all add: encode_bin_def)
  then show ?thesis by (simp add: decode_bin_def)
qed

section \<open>Values\<close>

text \<open>
  The Python values that constructs produce and consume.  A \<open>VCont\<close> is a \<open>Container\<close> (or a
  \<open>FlagsContainer\<close>), a \<open>VList\<close> a list.
\<close>

datatype val =
    VNone
  | VBool bool
  | VInt int
  | VBytes bytes
  | VStr pystr
  | VList "val list"
  | VTuple "val list"
  | VCont "(string \<times> val) list"

type_synonym ctx = "val dict"

text \<open>Python's \<open>==\<close> takes \<open>True\<close> and \<open>1\<close> (\<open>False\<close> and \<open>0\<close>) for equal, also inside sequences.
  (The code compares containers nowhere; here two are equal when their items are, in order.)\<close>

primrec vnorm :: "val \<Rightarrow> val" where
  "vnorm VNone = VNone"
| "vnorm (VBool b) = VInt (of_bool b)"
| "vnorm (VInt i) = VInt i"
| "vnorm (VBytes b) = VBytes b"
| "vnorm (VStr s) = VStr s"
| "vnorm (VList vs) = VList (map vnorm vs)"
| "vnorm (VTuple vs) = VTuple (map vnorm vs)"
| "vnorm (VCont d) = VCont (map (map_prod id vnorm) d)"

definition py_eq :: "val \<Rightarrow> val \<Rightarrow> bool" where
  "py_eq v w \<longleftrightarrow> vnorm v = vnorm w"

lemma py_eq_VInt [simp]: "py_eq (VInt i) (VInt j) \<longleftrightarrow> i = j"
  by (simp add: py_eq_def)

lemma py_eq_VStr [simp]: "py_eq (VStr s) (VStr t) \<longleftrightarrow> s = t"
  by (simp add: py_eq_def)

lemma py_eq_VStr_VInt [simp]: "\<not> py_eq (VStr s) (VInt i)" "\<not> py_eq (VInt i) (VStr s)"
  by (simp_all add: py_eq_def)

lemma py_eq_refl [simp]: "py_eq v v"
  by (simp add: py_eq_def)

text \<open>A dict literal with arbitrary keys; the lookup \<^verbatim>\<open>d[k]\<close> needs a hashable key.\<close>

primrec hashable :: "val \<Rightarrow> bool" where
  "hashable VNone = True"
| "hashable (VBool b) = True"
| "hashable (VInt i) = True"
| "hashable (VBytes b) = True"
| "hashable (VStr s) = True"
| "hashable (VList vs) = False"
| "hashable (VTuple vs) = list_all id (map hashable vs)"
| "hashable (VCont d) = False"

fun vlookup :: "(val \<times> 'a) list \<Rightarrow> val \<Rightarrow> 'a option" where
  "vlookup [] k = None"
| "vlookup ((k', a) # d) k = (if py_eq k' k then Some a else vlookup d k)"

text \<open>\<^verbatim>\<open>bool(v)\<close>.\<close>

primrec truthy :: "val \<Rightarrow> bool" where
  "truthy VNone = False"
| "truthy (VBool b) = b"
| "truthy (VInt i) = (i \<noteq> 0)"
| "truthy (VBytes b) = (b \<noteq> [])"
| "truthy (VStr s) = (s \<noteq> [])"
| "truthy (VList vs) = (vs \<noteq> [])"
| "truthy (VTuple vs) = (vs \<noteq> [])"
| "truthy (VCont d) = (d \<noteq> [])"

text \<open>Reading a field of a parsed container as the kind of value the code uses it as.\<close>

definition as_int :: "val \<Rightarrow> int res" where
  "as_int v = (case v of VInt i \<Rightarrow> Ok i | VBool b \<Rightarrow> Ok (of_bool b) | _ \<Rightarrow> Err TypeError)"

definition get_item :: "val \<Rightarrow> string \<Rightarrow> val res" where
  "get_item v k = (case v of VCont d \<Rightarrow> dget d k | _ \<Rightarrow> Err TypeError)"

definition get_int :: "val \<Rightarrow> string \<Rightarrow> int res" where
  "get_int v k = rbind (get_item v k) as_int"

lemma as_int_VInt [simp]: "as_int (VInt i) = Ok i"
  by (simp add: as_int_def)

lemma get_item_VCont [simp]: "get_item (VCont d) k = dget d k"
  by (simp add: get_item_def)

text \<open>Iterating over a value: the elements of a sequence, the integers of a bytes object.\<close>

definition viter :: "val \<Rightarrow> val list res" where
  "viter v = (case v of
     VList vs \<Rightarrow> Ok vs | VTuple vs \<Rightarrow> Ok vs | VBytes bs \<Rightarrow> Ok (map (VInt \<circ> uint) bs)
   | VStr s \<Rightarrow> Ok (map (\<lambda>c. VStr [c]) s) | VCont d \<Rightarrow> Ok (map (VStr \<circ> lit \<circ> fst) d)
   | _ \<Rightarrow> Err TypeError)"

lemma viter_VList [simp]: "viter (VList vs) = Ok vs"
  by (simp add: viter_def)

definition vlen :: "val \<Rightarrow> int res" where
  "vlen v = rbind (viter v) (\<lambda>vs. Ok (int (length vs)))"

end
