(* ===== verification/PyStruct.thy ===== *)
theory PyStruct
  imports Prelude
begin

text \<open>
  The integer formats of Python's \<open>struct\<close> module, with an explicit byte order: the format
  characters, their sizes, \<open>unpack\<close> and \<open>pack\<close>, and the facts that the two invert each other.
\<close>

section \<open>Positional notation\<close>

fun le_uint :: "bytes \<Rightarrow> int" where
  "le_uint [] = 0"
| "le_uint (b # bs) = uint b + 256 * le_uint bs"

fun le_bytes :: "nat \<Rightarrow> int \<Rightarrow> bytes" where
  "le_bytes 0 v = []"
| "le_bytes (Suc n) v = word_of_int (v mod 256) # le_bytes n (v div 256)"

lemma length_le_bytes [simp]: "length (le_bytes n v) = n"
  by (induction n arbitrary: v) auto

lemma uint_byte_bounds: "0 \<le> uint (b :: byte)" "uint (b :: byte) < 256"
  using uint_lt2p [of b] by simp_all

lemma le_uint_nonneg [simp]: "0 \<le> le_uint bs"
  by (induction bs) (auto simp: uint_byte_bounds)

lemma le_uint_less: "le_uint bs < 256 ^ length bs"
proof (induction bs)
  case Nil
  then show ?case by simp
next
  case (Cons b bs)
  have "uint b < 256" by (rule uint_byte_bounds)
  moreover have "le_uint bs + 1 \<le> 256 ^ length bs"
    using Cons by simp
  then have "256 * (le_uint bs + 1) \<le> 256 * 256 ^ length bs"
    by simp
  ultimately show ?case by simp
qed

lemma le_uint_bytes: "le_uint (le_bytes n v) = v mod 256 ^ n"
proof (induction n arbitrary: v)
  case 0
  then show ?case by simp
next
  case (Suc n)
  have "uint (word_of_int (v mod 256) :: byte) = v mod 256"
    by (simp add: uint_word_of_int)
  then show ?case
    using Suc zmod_zmult2_eq [of "256 ^ n" v 256] by simp
qed

lemma le_bytes_uint: "length bs = n \<Longrightarrow> le_bytes n (le_uint bs) = bs"
proof (induction bs arbitrary: n)
  case Nil
  then show ?case by simp
next
  case (Cons b bs)
  then obtain m where n: "n = Suc m" and m: "length bs = m" by (cases n) auto
  have "(uint b + 256 * le_uint bs) mod 256 = uint b"
    using uint_byte_bounds [of b] by simp
  moreover have "(uint b + 256 * le_uint bs) div 256 = le_uint bs"
    using uint_byte_bounds [of b] by simp
  ultimately show ?case
    using Cons.IH [OF m] n by simp
qed

section \<open>Formats\<close>

datatype endian = LE | BE

text \<open>The format characters \<^verbatim>\<open>B H L Q\<close> (unsigned) and \<^verbatim>\<open>b h l q\<close> (signed); \<^verbatim>\<open>I\<close> is \<^verbatim>\<open>L\<close>.\<close>

datatype fmt = FmtB | FmtH | FmtL | FmtQ | Fmtb | Fmth | Fmtl | Fmtq

fun fmt_size :: "fmt \<Rightarrow> nat" where
  "fmt_size FmtB = 1" | "fmt_size FmtH = 2" | "fmt_size FmtL = 4" | "fmt_size FmtQ = 8"
| "fmt_size Fmtb = 1" | "fmt_size Fmth = 2" | "fmt_size Fmtl = 4" | "fmt_size Fmtq = 8"

fun fmt_signed :: "fmt \<Rightarrow> bool" where
  "fmt_signed FmtB = False" | "fmt_signed FmtH = False" | "fmt_signed FmtL = False"
| "fmt_signed FmtQ = False" | "fmt_signed Fmtb = True" | "fmt_signed Fmth = True"
| "fmt_signed Fmtl = True" | "fmt_signed Fmtq = True"

definition order_bytes :: "endian \<Rightarrow> bytes \<Rightarrow> bytes" where
  "order_bytes e bs = (case e of LE \<Rightarrow> bs | BE \<Rightarrow> rev bs)"

definition to_signed :: "nat \<Rightarrow> int \<Rightarrow> int" where
  "to_signed n v = (if 2 * v < 256 ^ n then v else v - 256 ^ n)"

definition fmt_min :: "fmt \<Rightarrow> int" where
  "fmt_min f = (if fmt_signed f then - (256 ^ fmt_size f div 2) else 0)"

definition fmt_max :: "fmt \<Rightarrow> int" where
  "fmt_max f = (if fmt_signed f then 256 ^ fmt_size f div 2 else 256 ^ fmt_size f)"

text \<open>\<^verbatim>\<open>Struct(endian + format).unpack(data)[0]\<close> and \<^verbatim>\<open>.pack(value)\<close>.\<close>

definition unpack :: "endian \<Rightarrow> fmt \<Rightarrow> bytes \<Rightarrow> int res" where
  "unpack e f bs =
     (if length bs \<noteq> fmt_size f then Err StructError
      else let v = le_uint (order_bytes e bs) in
        Ok (if fmt_signed f then to_signed (fmt_size f) v else v))"

definition pack :: "endian \<Rightarrow> fmt \<Rightarrow> int \<Rightarrow> bytes res" where
  "pack e f v =
     (if fmt_min f \<le> v \<and> v < fmt_max f
      then Ok (order_bytes e (le_bytes (fmt_size f) (v mod 256 ^ fmt_size f)))
      else Err StructError)"

lemma fmt_size_pos [simp]: "0 < fmt_size f"
  by (cases f) auto

lemma fmt_size_le: "fmt_size f \<le> 8"
  by (cases f) auto

lemma length_order_bytes [simp]: "length (order_bytes e bs) = length bs"
  by (cases e) (simp_all add: order_bytes_def)

lemma order_bytes_twice [simp]: "order_bytes e (order_bytes e bs) = bs"
  by (cases e) (simp_all add: order_bytes_def)

lemma unpack_ok:
  "length bs = fmt_size f \<Longrightarrow>
   unpack e f bs = Ok (if fmt_signed f then to_signed (fmt_size f) (le_uint (order_bytes e bs))
                       else le_uint (order_bytes e bs))"
  by (simp add: unpack_def Let_def)

lemma fmt_half: obtains h :: int where "256 ^ fmt_size f = 2 * h" and "0 < h"
proof -
  have "(256 :: int) ^ fmt_size f = 2 * (256 ^ fmt_size f div 2) \<and> (0 :: int) < 256 ^ fmt_size f div 2"
    by (cases f) simp_all
  then show thesis
    using that by blast
qed

lemma unpack_range:
  assumes "unpack e f bs = Ok v"
  shows "fmt_min f \<le> v" "v < fmt_max f"
proof -
  have l: "length (order_bytes e bs) = fmt_size f"
    using assms by (simp add: unpack_def split: if_splits)
  define w where "w = le_uint (order_bytes e bs)"
  have n: "0 \<le> w" "w < 256 ^ fmt_size f"
    using le_uint_less [of "order_bytes e bs"] l by (simp_all add: w_def)
  have v: "v = (if fmt_signed f then to_signed (fmt_size f) w else w)"
    using assms by (simp add: unpack_def Let_def w_def split: if_splits)
  obtain h :: int where h: "256 ^ fmt_size f = 2 * h" "0 < h"
    by (rule fmt_half)
  show "fmt_min f \<le> v" "v < fmt_max f"
    using v n h by (auto simp: fmt_min_def fmt_max_def to_signed_def split: if_splits)
qed

lemma unpack_pack: "pack e f v = Ok bs \<Longrightarrow> unpack e f bs = Ok v"
proof -
  assume p: "pack e f v = Ok bs"
  then have r: "fmt_min f \<le> v" "v < fmt_max f"
    and bs: "bs = order_bytes e (le_bytes (fmt_size f) (v mod 256 ^ fmt_size f))"
    by (auto simp: pack_def split: if_splits)
  have u: "le_uint (order_bytes e bs) = v mod 256 ^ fmt_size f"
    by (simp add: bs le_uint_bytes)
  obtain h :: int where ev: "256 ^ fmt_size f = 2 * h" "0 < h"
    by (rule fmt_half)
  show "unpack e f bs = Ok v"
  proof (cases "fmt_signed f")
    case False
    with r have "v mod 256 ^ fmt_size f = v"
      by (simp add: fmt_min_def fmt_max_def)
    with False u bs show ?thesis
      by (simp add: unpack_def Let_def)
  next
    case True
    show ?thesis
    proof (cases "0 \<le> v")
      case True
      with \<open>fmt_signed f\<close> r ev have "v mod 256 ^ fmt_size f = v" "2 * v < 256 ^ fmt_size f"
        by (auto simp: fmt_min_def fmt_max_def)
      with \<open>fmt_signed f\<close> u bs show ?thesis
        by (simp add: unpack_def Let_def to_signed_def)
    next
      case False
      have "(v + 256 ^ fmt_size f) mod 256 ^ fmt_size f = v + 256 ^ fmt_size f"
        using False \<open>fmt_signed f\<close> r ev by (intro mod_pos_pos_trivial) (auto simp: fmt_min_def)
      then have m: "v mod 256 ^ fmt_size f = v + 256 ^ fmt_size f"
        by simp
      have "\<not> 2 * (v + 256 ^ fmt_size f) < 256 ^ fmt_size f"
        using \<open>fmt_signed f\<close> r ev by (auto simp: fmt_min_def)
      with m \<open>fmt_signed f\<close> u bs show ?thesis
        by (simp add: unpack_def Let_def to_signed_def)
    qed
  qed
qed

lemma pack_ok: "fmt_min f \<le> v \<Longrightarrow> v < fmt_max f \<Longrightarrow> \<exists>bs. pack e f v = Ok bs \<and> length bs = fmt_size f"
  by (simp add: pack_def)

lemma pack_length: "pack e f v = Ok bs \<Longrightarrow> length bs = fmt_size f"
  by (auto simp: pack_def split: if_splits)

lemma pack_unpack:
  assumes "unpack e f bs = Ok v"
  shows "pack e f v = Ok bs"
proof -
  let ?u = "le_uint (order_bytes e bs)"
  have l: "length bs = fmt_size f"
    using assms by (simp add: unpack_def split: if_splits)
  have v: "v = (if fmt_signed f then to_signed (fmt_size f) ?u else ?u)"
    using assms by (simp add: unpack_def Let_def split: if_splits)
  have "?u < 256 ^ fmt_size f"
    using le_uint_less [of "order_bytes e bs"] l by simp
  then have "v mod 256 ^ fmt_size f = ?u"
    using v by (auto simp: to_signed_def)
  moreover have "le_bytes (fmt_size f) ?u = order_bytes e bs"
    by (rule le_bytes_uint) (simp add: l)
  ultimately show ?thesis
    using unpack_range [OF assms] by (simp add: pack_def)
qed

end
