(* ===== verification/ConstructCore.thy ===== *)
theory ConstructCore
  imports ConstructLib PyStruct
begin

text \<open>
  \<^verbatim>\<open>elftools/construct/core.py\<close> and the extra constructs of \<^verbatim>\<open>common/construct_utils.py\<close>: for
  each class, its \<open>_parse\<close>, \<open>_build\<close> and \<open>_sizeof\<close> as combinators over the methods of its
  subconstructs.  The state of a run is the context (the dict that the lambdas of a format
  read) and the stream.  The theory \<^verbatim>\<open>Construct\<close> ties them into one datatype of constructs.

  Embedding: an enclosing struct hands its own container to an embedded one through the
  context key \<^verbatim>\<open><obj>\<close>, and the embedded struct mutates that shared container.  As containers
  are values here, the embedded struct also leaves the result under \<^verbatim>\<open><ret>\<close>, from where the
  encloser takes it back.

  Loops: a \<open>RepeatUntil\<close> is bounded by the number of bytes left (plus one); a run is cut off
  (\<open>NoFuel\<close>) only when some repetition consumed nothing.
\<close>

record pst =
  pctx :: ctx
  pstm :: stream

type_synonym 'a P = "(pst, 'a) M"

type_synonym parser = "val P"
type_synonym builder = "val \<Rightarrow> unit P"
type_synonym sizer = "ctx \<Rightarrow> int res"

section \<open>State access\<close>

definition on_stream :: "(stream, 'a) M \<Rightarrow> 'a P" where
  "on_stream m = (\<lambda>s. case m (pstm s) of (r, t) \<Rightarrow> (r, s\<lparr>pstm := t\<rparr>))"

definition get_ctx :: "ctx P" where
  "get_ctx = (\<lambda>s. (Ok (pctx s), s))"

definition put_ctx :: "ctx \<Rightarrow> unit P" where
  "put_ctx c = (\<lambda>s. (Ok (), s\<lparr>pctx := c\<rparr>))"

definition set_ctx :: "string \<Rightarrow> val \<Rightarrow> unit P" where
  "set_ctx k v = (\<lambda>s. (Ok (), s\<lparr>pctx := dput k v (pctx s)\<rparr>))"

definition del_ctx :: "string \<Rightarrow> unit P" where
  "del_ctx k = (\<lambda>s. (Ok (), s\<lparr>pctx := AList.delete k (pctx s)\<rparr>))"

text \<open>Run with another context object; the caller's own is back afterwards, also on an exception.\<close>

definition with_ctx :: "(ctx \<Rightarrow> ctx) \<Rightarrow> 'a P \<Rightarrow> 'a P" where
  "with_ctx f m = (\<lambda>s. case m (s\<lparr>pctx := f (pctx s)\<rparr>) of (r, s') \<Rightarrow> (r, s'\<lparr>pctx := pctx s\<rparr>))"

text \<open>\<^verbatim>\<open>Container(_ = context)\<close>.\<close>

definition nest_ctx :: "ctx \<Rightarrow> ctx" where
  "nest_ctx c = [(''_'', VCont c)]"

lemma on_stream_run [monad_simps]:
  "on_stream m s = (fst (m (pstm s)), s\<lparr>pstm := snd (m (pstm s))\<rparr>)"
  by (simp add: on_stream_def split: prod.splits)

lemma get_ctx_run [monad_simps, simp]: "get_ctx s = (Ok (pctx s), s)"
  by (simp add: get_ctx_def)

lemma put_ctx_run [monad_simps, simp]: "put_ctx c s = (Ok (), s\<lparr>pctx := c\<rparr>)"
  by (simp add: put_ctx_def)

lemma set_ctx_run [monad_simps, simp]: "set_ctx k v s = (Ok (), s\<lparr>pctx := dput k v (pctx s)\<rparr>)"
  by (simp add: set_ctx_def)

lemma del_ctx_run [monad_simps, simp]: "del_ctx k s = (Ok (), s\<lparr>pctx := AList.delete k (pctx s)\<rparr>)"
  by (simp add: del_ctx_def)

section \<open>Flags\<close>

definition FLAG_COPY_CONTEXT :: int where "FLAG_COPY_CONTEXT = 1"
definition FLAG_DYNAMIC :: int where "FLAG_DYNAMIC = 2"
definition FLAG_EMBED :: int where "FLAG_EMBED = 4"
definition FLAG_NESTING :: int where "FLAG_NESTING = 8"

lemmas flag_defs = FLAG_COPY_CONTEXT_def FLAG_DYNAMIC_def FLAG_EMBED_def FLAG_NESTING_def

definition set_flag :: "int \<Rightarrow> int \<Rightarrow> int" where
  "set_flag conflags flag = conflags OR flag"

definition clear_flag :: "int \<Rightarrow> int \<Rightarrow> int" where
  "clear_flag conflags flag = conflags AND NOT flag"

definition inherit_flags :: "int \<Rightarrow> int list \<Rightarrow> int" where
  "inherit_flags conflags subs = foldl set_flag conflags subs"

definition is_flag :: "int \<Rightarrow> int \<Rightarrow> bool" where
  "is_flag conflags flag \<longleftrightarrow> conflags AND flag \<noteq> 0"

section \<open>Fields\<close>

definition read_stream :: "int \<Rightarrow> bytes P" where
  "read_stream len =
     (if len < 0 then raise ValueError
      else mbind (on_stream (s_read len)) (\<lambda>data.
        if int (length data) \<noteq> len then raise FieldError else ret data))"

definition write_stream :: "int \<Rightarrow> bytes \<Rightarrow> unit P" where
  "write_stream len data =
     (if len < 0 then raise ValueError
      else if int (length data) \<noteq> len then raise FieldError
      else on_stream (s_write data))"

text \<open>A bytes argument of a \<open>_build\<close>.\<close>

definition bytes_arg :: "val \<Rightarrow> bytes P" where
  "bytes_arg v = (case v of VBytes b \<Rightarrow> ret b | _ \<Rightarrow> raise TypeError)"

definition StaticField_parse :: "int \<Rightarrow> parser" where
  "StaticField_parse len = mbind (read_stream len) (\<lambda>d. ret (VBytes d))"

definition StaticField_build :: "int \<Rightarrow> builder" where
  "StaticField_build len obj = mbind (bytes_arg obj) (write_stream len)"

text \<open>
  A \<open>FormatField\<close> of an integer letter: every exception of the body becomes a \<open>FieldError\<close>.  (A field of \<^verbatim>\<open>f\<close> or \<^verbatim>\<open>d\<close>,
  a floating-point number, is not modelled: no structure of the package has one.)
\<close>

definition FormatField_parse :: "endian \<Rightarrow> fmt \<Rightarrow> parser" where
  "FormatField_parse e f =
     try_except (mbind (read_stream (int (fmt_size f))) (\<lambda>d.
        lift_res (rbind (unpack e f d) (\<lambda>v. Ok (VInt v))))) (\<lambda>_. True) (\<lambda>_. raise FieldError)"

definition FormatField_build :: "endian \<Rightarrow> fmt \<Rightarrow> builder" where
  "FormatField_build e f obj =
     try_except (mbind (lift_res (rbind (case obj of VInt i \<Rightarrow> Ok i | VBool b \<Rightarrow> Ok (of_bool b)
                                          | _ \<Rightarrow> Err StructError) (pack e f)))
        (write_stream (int (fmt_size f)))) (\<lambda>_. True) (\<lambda>_. raise FieldError)"

definition MetaField_parse :: "(ctx \<Rightarrow> int res) \<Rightarrow> parser" where
  "MetaField_parse lengthfunc =
     mbind get_ctx (\<lambda>c. mbind (lift_res (lengthfunc c)) (\<lambda>n.
       mbind (read_stream n) (\<lambda>d. ret (VBytes d))))"

definition MetaField_build :: "(ctx \<Rightarrow> int res) \<Rightarrow> builder" where
  "MetaField_build lengthfunc obj =
     mbind get_ctx (\<lambda>c. mbind (lift_res (lengthfunc c)) (\<lambda>n.
       mbind (bytes_arg obj) (write_stream n)))"

section \<open>Arrays and repeaters\<close>

text \<open>The subconstruct with a copy of the context where its flag asks for one.\<close>

definition maybe_copy :: "int \<Rightarrow> 'a P \<Rightarrow> 'a P" where
  "maybe_copy flags m = (if is_flag flags FLAG_COPY_CONTEXT then with_ctx id m else m)"

primrec times_loop :: "nat \<Rightarrow> parser \<Rightarrow> val list P" where
  "times_loop 0 p = ret []"
| "times_loop (Suc n) p = mbind p (\<lambda>v. mbind (times_loop n p) (\<lambda>vs. ret (v # vs)))"

definition MetaArray_parse :: "(ctx \<Rightarrow> int res) \<Rightarrow> int \<Rightarrow> parser \<Rightarrow> parser" where
  "MetaArray_parse countfunc flags p =
     mbind get_ctx (\<lambda>c. mbind (lift_res (countfunc c)) (\<lambda>count.
       try_except (mbind (times_loop (nat count) (maybe_copy flags p)) (\<lambda>vs. ret (VList vs)))
         is_ConstructError (\<lambda>_. raise ArrayError)))"

fun each_build :: "builder \<Rightarrow> val list \<Rightarrow> unit P" where
  "each_build b [] = ret ()"
| "each_build b (v # vs) = mbind (b v) (\<lambda>_. each_build b vs)"

definition MetaArray_build :: "(ctx \<Rightarrow> int res) \<Rightarrow> int \<Rightarrow> builder \<Rightarrow> builder" where
  "MetaArray_build countfunc flags b obj =
     mbind get_ctx (\<lambda>c. mbind (lift_res (countfunc c)) (\<lambda>count.
       mbind (lift_res (viter obj)) (\<lambda>vs.
         if int (length vs) \<noteq> count then raise ArrayError
         else each_build (\<lambda>v. maybe_copy flags (b v)) vs)))"

definition MetaArray_sizeof :: "(ctx \<Rightarrow> int res) \<Rightarrow> sizer \<Rightarrow> sizer" where
  "MetaArray_sizeof countfunc sz c = rbind (sz c) (\<lambda>n. rbind (countfunc c) (\<lambda>k. Ok (n * k)))"

text \<open>
  \<open>Range\<close>: at most \<open>maxcount\<close> repetitions; the first construct error ends the loop, and the
  stream goes back to where that repetition began.
\<close>

primrec range_loop :: "nat \<Rightarrow> int \<Rightarrow> int \<Rightarrow> parser \<Rightarrow> val list P" where
  "range_loop 0 c mincount p = ret []"
| "range_loop (Suc n) c mincount p = (\<lambda>s.
     case p s of (r, s') \<Rightarrow>
       (case r of
          Ok v \<Rightarrow> mbind (range_loop n (c + 1) mincount p) (\<lambda>vs. ret (v # vs)) s'
        | NoFuel \<Rightarrow> (NoFuel, s')
        | Err e \<Rightarrow>
            if is_ConstructError e then
              (if c < mincount then (Err RangeError, s')
               else mbind (on_stream (s_seek (s_tell (pstm s)))) (\<lambda>_. ret []) s')
            else (Err e, s')))"

definition Range_parse :: "int \<Rightarrow> int \<Rightarrow> int \<Rightarrow> parser \<Rightarrow> parser" where
  "Range_parse mincount maxcout flags p =
     mbind (range_loop (nat maxcout) 0 mincount (maybe_copy flags p)) (\<lambda>vs. ret (VList vs))"

text \<open>Elements of a bytes object are handed on as one-byte bytes objects.\<close>

definition sub_objs :: "val \<Rightarrow> val list res" where
  "sub_objs obj = (case obj of VBytes bs \<Rightarrow> Ok (map (\<lambda>b. VBytes [b]) bs) | _ \<Rightarrow> viter obj)"

fun range_build :: "builder \<Rightarrow> int \<Rightarrow> int \<Rightarrow> val list \<Rightarrow> unit P" where
  "range_build b cnt mincount [] = ret ()"
| "range_build b cnt mincount (v # vs) = (\<lambda>s.
     case b v s of (r, s') \<Rightarrow>
       (case r of
          Ok _ \<Rightarrow> range_build b (cnt + 1) mincount vs s'
        | NoFuel \<Rightarrow> (NoFuel, s')
        | Err e \<Rightarrow> if is_ConstructError e
                  then (if cnt < mincount then (Err RangeError, s') else (Ok (), s'))
                  else (Err e, s')))"

definition Range_build :: "int \<Rightarrow> int \<Rightarrow> int \<Rightarrow> builder \<Rightarrow> builder" where
  "Range_build mincount maxcout flags b obj =
     mbind (lift_res (sub_objs obj)) (\<lambda>vs.
       if int (length vs) < mincount \<or> maxcout < int (length vs) then raise RangeError
       else range_build (\<lambda>v. maybe_copy flags (b v)) 0 mincount vs)"

primrec until_loop :: "nat \<Rightarrow> (val \<Rightarrow> ctx \<Rightarrow> bool res) \<Rightarrow> bool \<Rightarrow> parser \<Rightarrow> val list P" where
  "until_loop 0 predicate incl p = lift_res NoFuel"
| "until_loop (Suc fuel) predicate incl p =
     mbind p (\<lambda>v. mbind get_ctx (\<lambda>c. mbind (lift_res (predicate v c)) (\<lambda>stop.
       if stop then ret (if incl then [v] else [])
       else mbind (until_loop fuel predicate incl p) (\<lambda>vs. ret (v # vs)))))"

definition bytes_left :: "nat P" where
  "bytes_left = (\<lambda>s. (Ok (remaining (pstm s)), s))"

text \<open>\<open>incl\<close>: the terminating element is part of the result (\<open>RepeatUntil\<close>) or not.\<close>

definition RepeatUntil_parse :: "(val \<Rightarrow> ctx \<Rightarrow> bool res) \<Rightarrow> int \<Rightarrow> parser \<Rightarrow> parser" where
  "RepeatUntil_parse predicate flags p =
     mbind bytes_left (\<lambda>n.
       try_except (mbind (until_loop (Suc n) predicate True (maybe_copy flags p)) (\<lambda>vs. ret (VList vs)))
         is_ConstructError (\<lambda>_. raise ArrayError))"

text \<open>\<^verbatim>\<open>bchr(i)\<close> of the element, an integer below 256.\<close>

definition bchr :: "val \<Rightarrow> val res" where
  "bchr v = (case v of
     VInt i \<Rightarrow> if 0 \<le> i \<and> i < 256 then Ok (VBytes [word_of_int i]) else Err ValueError
   | VBool b \<Rightarrow> Ok (VBytes [of_bool b])
   | _ \<Rightarrow> Err TypeError)"

fun until_build :: "(val \<Rightarrow> ctx \<Rightarrow> bool res) \<Rightarrow> bool \<Rightarrow> builder \<Rightarrow> val list \<Rightarrow> unit P" where
  "until_build predicate copying b [] = raise ArrayError"
| "until_build predicate copying b (v # vs) =
     mbind (lift_res (if copying then Ok v else bchr v)) (\<lambda>x.
     mbind (with_ctx id (b x)) (\<lambda>_.
     mbind get_ctx (\<lambda>c. mbind (lift_res (predicate x c)) (\<lambda>stop.
       if stop then ret () else until_build predicate copying b vs))))"

definition RepeatUntil_build :: "(val \<Rightarrow> ctx \<Rightarrow> bool res) \<Rightarrow> int \<Rightarrow> builder \<Rightarrow> builder" where
  "RepeatUntil_build predicate flags b obj =
     mbind (lift_res (viter obj)) (until_build predicate (is_flag flags FLAG_COPY_CONTEXT) b)"

text \<open>
  \<open>RepeatUntilExcluding\<close> copies the context at most once, before the loop.
\<close>

definition RepeatUntilExcluding_parse :: "(val \<Rightarrow> ctx \<Rightarrow> bool res) \<Rightarrow> int \<Rightarrow> parser \<Rightarrow> parser" where
  "RepeatUntilExcluding_parse predicate flags p =
     mbind bytes_left (\<lambda>n.
       try_except (maybe_copy flags
           (mbind (until_loop (Suc n) predicate False p) (\<lambda>vs. ret (VList vs))))
         is_ConstructError (\<lambda>_. raise ArrayError))"

section \<open>Structures and sequences\<close>

text \<open>A subconstruct as its encloser sees it: name, flags and method.\<close>

type_synonym 'm sub = "string option \<times> int \<times> 'm"

definition take_ret :: "val \<Rightarrow> val P" where
  "take_ret obj = mbind get_ctx (\<lambda>c. case map_of c ''<ret>'' of
     None \<Rightarrow> ret obj | Some obj' \<Rightarrow> mbind (del_ctx ''<ret>'') (\<lambda>_. ret obj'))"

text \<open>\<^verbatim>\<open>obj[name] = subobj\<close> of a struct, \<^verbatim>\<open>obj.append(subobj)\<close> of a sequence.\<close>

definition add_field :: "bool \<Rightarrow> val \<Rightarrow> string \<Rightarrow> val \<Rightarrow> val P" where
  "add_field seq obj n v = (case obj of
     VCont d \<Rightarrow> if seq then raise AttributeError else ret (VCont (dput n v d))
   | VList vs \<Rightarrow> if seq then ret (VList (vs @ [v])) else raise TypeError
   | _ \<Rightarrow> raise TypeError)"

fun fields_parse :: "bool \<Rightarrow> parser sub list \<Rightarrow> val \<Rightarrow> val P" where
  "fields_parse seq [] obj = ret obj"
| "fields_parse seq ((n, fl, p) # scs) obj =
     (if is_flag fl FLAG_EMBED then
        mbind (set_ctx ''<obj>'' obj) (\<lambda>_. mbind p (\<lambda>_.
          mbind (take_ret obj) (\<lambda>obj'. fields_parse seq scs obj')))
      else
        mbind p (\<lambda>v. (case n of
            None \<Rightarrow> fields_parse seq scs obj
          | Some n' \<Rightarrow> mbind (add_field seq obj n' v) (\<lambda>obj'.
              mbind (set_ctx n' v) (\<lambda>_. fields_parse seq scs obj')))))"

definition Struct_parse :: "bool \<Rightarrow> bool \<Rightarrow> parser sub list \<Rightarrow> parser" where
  "Struct_parse seq nested scs =
     mbind get_ctx (\<lambda>c. case map_of c ''<obj>'' of
       Some obj \<Rightarrow>
         mbind (del_ctx ''<obj>'') (\<lambda>_.
         mbind (fields_parse seq scs obj) (\<lambda>obj'.
         mbind (set_ctx ''<ret>'' obj') (\<lambda>_. ret obj')))
     | None \<Rightarrow>
         (if nested then with_ctx nest_ctx else id)
           (fields_parse seq scs (if seq then VList [] else VCont [])))"

text \<open>\<^verbatim>\<open>getattr(obj, name)\<close> of a container.\<close>

definition get_attr :: "val \<Rightarrow> string \<Rightarrow> val res" where
  "get_attr v n = (case v of
     VCont d \<Rightarrow> (case map_of d n of None \<Rightarrow> Err AttributeError | Some x \<Rightarrow> Ok x)
   | _ \<Rightarrow> Err AttributeError)"

fun struct_build :: "builder sub list \<Rightarrow> val \<Rightarrow> unit P" where
  "struct_build [] obj = ret ()"
| "struct_build ((n, fl, b) # scs) obj =
     (if is_flag fl FLAG_EMBED then
        mbind (set_ctx ''<unnested>'' (VBool True)) (\<lambda>_. mbind (b obj) (\<lambda>_. struct_build scs obj))
      else (case n of
          None \<Rightarrow> mbind (b VNone) (\<lambda>_. struct_build scs obj)
        | Some n' \<Rightarrow> mbind (lift_res (get_attr obj n')) (\<lambda>v. mbind (set_ctx n' v) (\<lambda>_.
            mbind (b v) (\<lambda>_. struct_build scs obj)))))"

text \<open>The entry of both builders: an embedded construct stays in its encloser's context.\<close>

definition in_build_ctx :: "bool \<Rightarrow> unit P \<Rightarrow> unit P" where
  "in_build_ctx nested m =
     mbind get_ctx (\<lambda>c.
       if map_of c ''<unnested>'' \<noteq> None then mbind (del_ctx ''<unnested>'') (\<lambda>_. m)
       else (if nested then with_ctx nest_ctx m else m))"

definition Struct_build :: "bool \<Rightarrow> builder sub list \<Rightarrow> builder" where
  "Struct_build nested scs obj = in_build_ctx nested (struct_build scs obj)"

text \<open>
  A sequence takes its elements from an iterator, which it shares with an embedded sequence:
  the embedded one leaves what it did not take under \<^verbatim>\<open><ret>\<close>.
\<close>

fun seq_build :: "builder sub list \<Rightarrow> val list \<Rightarrow> val list P" where
  "seq_build [] its = ret its"
| "seq_build ((n, fl, b) # scs) its =
     (if is_flag fl FLAG_EMBED then
        mbind (set_ctx ''<unnested>'' (VBool True)) (\<lambda>_. mbind (b (VList its)) (\<lambda>_.
          mbind (take_ret (VList its)) (\<lambda>rest. mbind (lift_res (viter rest)) (seq_build scs))))
      else (case n of
          None \<Rightarrow> mbind (b VNone) (\<lambda>_. seq_build scs its)
        | Some n' \<Rightarrow> (case its of
              [] \<Rightarrow> raise StopIteration
            | v # its' \<Rightarrow> mbind (set_ctx n' v) (\<lambda>_. mbind (b v) (\<lambda>_. seq_build scs its')))))"

definition Sequence_build :: "bool \<Rightarrow> builder sub list \<Rightarrow> builder" where
  "Sequence_build nested scs obj =
     mbind get_ctx (\<lambda>c.
       if map_of c ''<unnested>'' \<noteq> None then
         mbind (del_ctx ''<unnested>'') (\<lambda>_. mbind (lift_res (viter obj)) (\<lambda>its.
           mbind (seq_build scs its) (\<lambda>rest. set_ctx ''<ret>'' (VList rest))))
       else (if nested then with_ctx nest_ctx else id)
         (mbind (lift_res (viter obj)) (\<lambda>its. mbind (seq_build scs its) (\<lambda>_. ret ()))))"

fun sum_sizes :: "sizer list \<Rightarrow> sizer" where
  "sum_sizes [] c = Ok 0"
| "sum_sizes (sz # szs) c = rbind (sz c) (\<lambda>n. rbind (sum_sizes szs c) (\<lambda>m. Ok (n + m)))"

definition Struct_sizeof :: "bool \<Rightarrow> sizer list \<Rightarrow> sizer" where
  "Struct_sizeof nested szs c = sum_sizes szs (if nested then nest_ctx c else c)"

section \<open>Conditional constructs\<close>

text \<open>\<^verbatim>\<open>cases.get(key, default)\<close>, where the default may be the one that only raises.\<close>

definition switch_case :: "(val \<times> 'm) list \<Rightarrow> 'm option \<Rightarrow> val \<Rightarrow> 'm res" where
  "switch_case cases dflt key =
     (if \<not> hashable key then Err TypeError
      else case vlookup cases key of
        Some m \<Rightarrow> Ok m
      | None \<Rightarrow> (case dflt of Some m \<Rightarrow> Ok m | None \<Rightarrow> Err SwitchError))"

definition Switch_parse ::
  "(ctx \<Rightarrow> val res) \<Rightarrow> (val \<times> parser) list \<Rightarrow> parser option \<Rightarrow> bool \<Rightarrow> parser" where
  "Switch_parse keyfunc cases dflt include_key =
     mbind get_ctx (\<lambda>c. mbind (lift_res (keyfunc c)) (\<lambda>key.
     mbind (lift_res (switch_case cases dflt key)) (\<lambda>p. mbind p (\<lambda>obj.
       ret (if include_key then VTuple [key, obj] else obj)))))"

definition Switch_build ::
  "(ctx \<Rightarrow> val res) \<Rightarrow> (val \<times> builder) list \<Rightarrow> builder option \<Rightarrow> bool \<Rightarrow> builder" where
  "Switch_build keyfunc cases dflt include_key obj =
     (if include_key then
        mbind (lift_res (viter obj)) (\<lambda>vs. case vs of
            [key, obj'] \<Rightarrow> mbind (lift_res (switch_case cases dflt key)) (\<lambda>b. b obj')
          | _ \<Rightarrow> raise ValueError)
      else
        mbind get_ctx (\<lambda>c. mbind (lift_res (keyfunc c)) (\<lambda>key.
          mbind (lift_res (switch_case cases dflt key)) (\<lambda>b. b obj))))"

definition Switch_sizeof ::
  "(ctx \<Rightarrow> val res) \<Rightarrow> (val \<times> sizer) list \<Rightarrow> sizer option \<Rightarrow> sizer" where
  "Switch_sizeof keyfunc cases dflt c =
     rbind (keyfunc c) (\<lambda>key. rbind (switch_case cases dflt key) (\<lambda>sz. sz c))"

text \<open>\<^verbatim>\<open>context.__update__(context2)\<close>.\<close>

definition dupdate :: "'v dict \<Rightarrow> 'v dict \<Rightarrow> 'v dict" where
  "dupdate d d2 = fold (\<lambda>(k, v) acc. dput k v acc) d2 d"

definition name_val :: "string option \<Rightarrow> val" where
  "name_val n = (case n of None \<Rightarrow> VNone | Some s \<Rightarrow> VStr (lit s))"

fun Select_parse :: "parser sub list \<Rightarrow> bool \<Rightarrow> parser" where
  "Select_parse [] include_name = raise SelectError"
| "Select_parse ((n, fl, p) # scs) include_name = (\<lambda>s.
     case p s of (r, s') \<Rightarrow>
       (case r of
          Ok v \<Rightarrow> (Ok (if include_name then VTuple [name_val n, v] else v),
                   s'\<lparr>pctx := dupdate (pctx s) (pctx s')\<rparr>)
        | NoFuel \<Rightarrow> (NoFuel, s'\<lparr>pctx := pctx s\<rparr>)
        | Err e \<Rightarrow>
            if is_ConstructError e then
              mbind (on_stream (s_seek (s_tell (pstm s)))) (\<lambda>_. Select_parse scs include_name)
                (s'\<lparr>pctx := pctx s\<rparr>)
            else (Err e, s'\<lparr>pctx := pctx s\<rparr>)))"

text \<open>Building tries each subconstruct on a fresh stream and a copy of the context.\<close>

fun select_first :: "builder sub list \<Rightarrow> val \<Rightarrow> unit P" where
  "select_first [] obj = raise SelectError"
| "select_first ((n, fl, b) # scs) obj = (\<lambda>s.
     case b obj (s\<lparr>pstm := bytesio []\<rparr>) of (r, s') \<Rightarrow>
       (case r of
          Ok _ \<Rightarrow> on_stream (s_write (sdata (pstm s')))
                   (s\<lparr>pctx := dupdate (pctx s) (pctx s')\<rparr>)
        | NoFuel \<Rightarrow> (NoFuel, s)
        | Err e \<Rightarrow> select_first scs obj s))"

fun select_named :: "builder sub list \<Rightarrow> val \<Rightarrow> val \<Rightarrow> unit P" where
  "select_named [] nm obj = raise SelectError"
| "select_named ((n, fl, b) # scs) nm obj =
     (if py_eq (name_val n) nm then b obj else select_named scs nm obj)"

definition Select_build :: "builder sub list \<Rightarrow> bool \<Rightarrow> builder" where
  "Select_build scs include_name obj =
     (if include_name then
        mbind (lift_res (viter obj)) (\<lambda>vs. case vs of
            [nm, obj'] \<Rightarrow> select_named scs nm obj' | _ \<Rightarrow> raise ValueError)
      else select_first scs obj)"

section \<open>Stream manipulation\<close>

definition Pointer_parse :: "(ctx \<Rightarrow> int res) \<Rightarrow> parser \<Rightarrow> parser" where
  "Pointer_parse offsetfunc p =
     mbind get_ctx (\<lambda>c. mbind (lift_res (offsetfunc c)) (\<lambda>newpos.
     mbind (on_stream (\<lambda>t. (Ok (s_tell t), t))) (\<lambda>origpos.
     mbind (on_stream (s_seek newpos)) (\<lambda>_. mbind p (\<lambda>obj.
     mbind (on_stream (s_seek origpos)) (\<lambda>_. ret obj))))))"

definition Pointer_build :: "(ctx \<Rightarrow> int res) \<Rightarrow> builder \<Rightarrow> builder" where
  "Pointer_build offsetfunc b obj =
     mbind get_ctx (\<lambda>c. mbind (lift_res (offsetfunc c)) (\<lambda>newpos.
     mbind (on_stream (\<lambda>t. (Ok (s_tell t), t))) (\<lambda>origpos.
     mbind (on_stream (s_seek newpos)) (\<lambda>_. mbind (b obj) (\<lambda>_.
       on_stream (s_seek origpos))))))"

text \<open>The position is restored in any case; only a \<open>FieldError\<close> is turned into \<^verbatim>\<open>None\<close>.\<close>

definition Peek_parse :: "parser \<Rightarrow> parser" where
  "Peek_parse p = (\<lambda>s.
     case try_except p (\<lambda>e. e = FieldError) (\<lambda>_. ret VNone) s of (r, s') \<Rightarrow>
       mbind (on_stream (s_seek (s_tell (pstm s)))) (\<lambda>_. lift_res r) s')"

definition Peek_build :: "bool \<Rightarrow> builder \<Rightarrow> builder" where
  "Peek_build perform_build b obj = (if perform_build then b obj else ret ())"

definition Buffered_sizeof :: "(int \<Rightarrow> int res) \<Rightarrow> sizer \<Rightarrow> sizer" where
  "Buffered_sizeof resizer sz c = rbind (sz c) resizer"

text \<open>The subconstruct runs on a stream of its own over the decoded bytes.\<close>

definition with_stream :: "stream \<Rightarrow> 'a P \<Rightarrow> ('a \<times> stream) P" where
  "with_stream t m = (\<lambda>s. case m (s\<lparr>pstm := t\<rparr>) of (r, s') \<Rightarrow>
     ((case r of Ok a \<Rightarrow> Ok (a, pstm s') | Err e \<Rightarrow> Err e | NoFuel \<Rightarrow> NoFuel), s'\<lparr>pstm := pstm s\<rparr>))"

definition Buffered_parse ::
  "(bytes \<Rightarrow> bytes res) \<Rightarrow> (int \<Rightarrow> int res) \<Rightarrow> sizer \<Rightarrow> parser \<Rightarrow> parser" where
  "Buffered_parse decoder resizer sz p =
     mbind get_ctx (\<lambda>c. mbind (lift_res (Buffered_sizeof resizer sz c)) (\<lambda>n.
     mbind (read_stream n) (\<lambda>data. mbind (lift_res (decoder data)) (\<lambda>bits.
     mbind (with_stream (bytesio bits) p) (\<lambda>(v, _). ret v)))))"

definition Buffered_build ::
  "(bytes \<Rightarrow> bytes res) \<Rightarrow> (int \<Rightarrow> int res) \<Rightarrow> sizer \<Rightarrow> builder \<Rightarrow> builder" where
  "Buffered_build encoder resizer sz b obj =
     mbind get_ctx (\<lambda>c. mbind (lift_res (Buffered_sizeof resizer sz c)) (\<lambda>size.
     mbind (with_stream (bytesio []) (b obj)) (\<lambda>(_, t).
     mbind (lift_res (encoder (sdata t))) (\<lambda>data.
       if int (length data) \<noteq> size then raise AssertionError
       else mbind get_ctx (\<lambda>c'. mbind (lift_res (Buffered_sizeof resizer sz c')) (\<lambda>n.
         write_stream n data))))))"

section \<open>Miscellaneous\<close>

definition Anchor_parse :: parser where
  "Anchor_parse = on_stream (\<lambda>t. (Ok (VInt (s_tell t)), t))"

text \<open>\<^verbatim>\<open>context[self.name] = stream.tell()\<close>; the name may be \<^verbatim>\<open>None\<close>, a key nothing reads.\<close>

definition Anchor_build :: "string option \<Rightarrow> builder" where
  "Anchor_build n obj = mbind Anchor_parse (\<lambda>v.
     case n of None \<Rightarrow> ret () | Some n' \<Rightarrow> set_ctx n' v)"

definition Value_parse :: "(ctx \<Rightarrow> val res) \<Rightarrow> parser" where
  "Value_parse func = mbind get_ctx (\<lambda>c. lift_res (func c))"

definition Value_build :: "string option \<Rightarrow> (ctx \<Rightarrow> val res) \<Rightarrow> builder" where
  "Value_build n func obj = mbind (Value_parse func) (\<lambda>v.
     case n of None \<Rightarrow> ret () | Some n' \<Rightarrow> set_ctx n' v)"

definition Pass_parse :: parser where
  "Pass_parse = ret VNone"

definition Pass_build :: builder where
  "Pass_build obj = (if obj = VNone then ret () else raise AssertionError)"

definition Terminator_parse :: parser where
  "Terminator_parse = mbind (on_stream (s_read 1)) (\<lambda>d.
     if d \<noteq> [] then raise TerminatorError else ret VNone)"

section \<open>Variable-length integers and 24-bit fields (construct_utils.py)\<close>

primrec leb_loop :: "nat \<Rightarrow> bool \<Rightarrow> int \<Rightarrow> nat \<Rightarrow> parser" where
  "leb_loop 0 sgnd value shift = lift_res NoFuel"
| "leb_loop (Suc fuel) sgnd value shift =
     mbind (on_stream (s_read 1)) (\<lambda>data.
       (case data of
          [b] \<Rightarrow>
            let value' = value OR push_bit shift (uint b AND 127); shift' = shift + 7 in
            if uint b AND 128 = 0 then
              ret (VInt (if sgnd \<and> uint b AND 64 \<noteq> 0
                         then value' OR push_bit shift' (NOT 0) else value'))
            else leb_loop fuel sgnd value' shift'
        | _ \<Rightarrow> raise FieldError))"

definition ULEB128_parse :: parser where
  "ULEB128_parse = mbind bytes_left (\<lambda>n. leb_loop (Suc n) False 0 0)"

definition SLEB128_parse :: parser where
  "SLEB128_parse = mbind bytes_left (\<lambda>n. leb_loop (Suc n) True 0 0)"

text \<open>The 24-bit integers: a 16-bit and an 8-bit part, packed in the byte order of the class.\<close>

definition Int24_parse :: "endian \<Rightarrow> parser" where
  "Int24_parse e = mbind (read_stream 3) (\<lambda>d.
     case e of
       BE \<Rightarrow> lift_res (rbind (unpack BE FmtB (take 1 d)) (\<lambda>h. rbind (unpack BE FmtH (drop 1 d)) (\<lambda>l.
               Ok (VInt (l OR push_bit 16 h)))))
     | LE \<Rightarrow> lift_res (rbind (unpack LE FmtH (take 2 d)) (\<lambda>l. rbind (unpack LE FmtB (drop 2 d)) (\<lambda>h.
               Ok (VInt (l OR push_bit 16 h))))))"

definition Int24_build :: "endian \<Rightarrow> builder" where
  "Int24_build e obj = mbind (lift_res (as_int obj)) (\<lambda>v.
     mbind (lift_res (rbind (pack e FmtB (drop_bit 16 v)) (\<lambda>h.
             rbind (pack e FmtH (v AND 65535)) (\<lambda>l.
               Ok (case e of BE \<Rightarrow> h @ l | LE \<Rightarrow> l @ h))))) (write_stream 3))"

end
