(* ===== verification/Construct.thy ===== *)
theory Construct
  imports ConstructCore
begin

text \<open>
  The constructs as one datatype: \<^verbatim>\<open>con\<close> has a constructor per class of \<^verbatim>\<open>construct/core.py\<close>
  (and \<^verbatim>\<open>common/construct_utils.py\<close>), \<open>adapter\<close> one per class of \<^verbatim>\<open>construct/adapters.py\<close>.
  \<open>con_parse\<close>, \<open>con_build\<close>, \<open>con_sizeof\<close>, \<open>con_flags\<close> and \<open>con_name\<close> dispatch to the methods of
  the class.  The format-building functions of \<^verbatim>\<open>construct/macros.py\<close> follow.

  Not here: \<open>OnDemand\<close> and \<open>LazyBound\<close> (values that hold a live stream), \<open>Restream\<close> and the bit
  streams (chosen by \<open>Bitwise\<close> only for dynamic formats, of which the repository has none),
  floating-point and native-order fields (no format of the repository uses them).
\<close>

section \<open>Adapters (adapters.py)\<close>

datatype mdefault = NoDefault | PassDefault | ValDefault val

datatype codec = Utf8 | Latin1

datatype paddir = PadRight | PadLeft | PadCenter

datatype adapter =
    BitIntegerA int bool bool nat
  | MappingA "(val \<times> val) list" "(val \<times> val) list" mdefault mdefault
  | FlagsA "(string \<times> int) list"
  | StringA "codec option"
  | PaddedStringA bytes paddir bool
  | LengthValueA
  | CStringA bytes "codec option"
  | ExprA "val \<Rightarrow> ctx \<Rightarrow> val res" "val \<Rightarrow> ctx \<Rightarrow> val res"
  | HexDumpA
  | ConstA val
  | SlicingA "int option" "int option"
  | IndexingA int
  | PaddingA bytes bool
  | OneOfA "val list"
  | NoneOfA "val list"

definition BitInteger_decode :: "bool \<Rightarrow> bool \<Rightarrow> nat \<Rightarrow> val \<Rightarrow> val res" where
  "BitInteger_decode swapped sgnd bytesize obj = (case obj of
     VBytes b \<Rightarrow> rbind (if swapped then swap_bytes b bytesize else Ok b) (\<lambda>b'.
       rbind (bin_to_int b' sgnd) (\<lambda>i. Ok (VInt i)))
   | _ \<Rightarrow> Err TypeError)"

definition BitInteger_encode :: "int \<Rightarrow> bool \<Rightarrow> bool \<Rightarrow> nat \<Rightarrow> val \<Rightarrow> val res" where
  "BitInteger_encode width swapped sgnd bytesize obj = rbind (as_int obj) (\<lambda>i.
     if i < 0 \<and> \<not> sgnd then Err BitIntegerError
     else rbind (int_to_bin i width) (\<lambda>b.
       rbind (if swapped then swap_bytes b bytesize else Ok b) (\<lambda>b'. Ok (VBytes b'))))"

text \<open>
  The lookup of a mapping adapter, in either direction: a missing or unhashable key takes the
  default, which may be absent (an error) or \<open>Pass\<close> (the object itself).
\<close>

definition mapping_code :: "(val \<times> val) list \<Rightarrow> mdefault \<Rightarrow> val \<Rightarrow> val res" where
  "mapping_code m dflt obj =
     (case (if hashable obj then vlookup m obj else None) of
        Some v \<Rightarrow> Ok v
      | None \<Rightarrow> (case dflt of NoDefault \<Rightarrow> Err MappingError | PassDefault \<Rightarrow> Ok obj
                  | ValDefault v \<Rightarrow> Ok v))"

definition Flags_decode :: "(string \<times> int) list \<Rightarrow> val \<Rightarrow> val res" where
  "Flags_decode flags obj = rbind (as_int obj) (\<lambda>i.
     Ok (VCont (fold (\<lambda>(n, v) d. dput n (VBool (i AND v \<noteq> 0)) d) flags [])))"

definition Flags_encode :: "(string \<times> int) list \<Rightarrow> val \<Rightarrow> val res" where
  "Flags_encode flags obj =
     Ok (VInt (fold (\<lambda>(n, v) acc.
       if (case get_attr obj n of Ok x \<Rightarrow> truthy x | _ \<Rightarrow> False) then acc OR v else acc) flags 0))"

definition decode_with :: "codec \<Rightarrow> bytes \<Rightarrow> pystr res" where
  "decode_with c b = (case c of Utf8 \<Rightarrow> decode_utf8 b | Latin1 \<Rightarrow> Ok (decode_latin1 b))"

definition encode_with :: "codec \<Rightarrow> pystr \<Rightarrow> bytes res" where
  "encode_with c s = (case c of
     Utf8 \<Rightarrow> encode_utf8 s
   | Latin1 \<Rightarrow> if list_all (\<lambda>x. x < 256) s then Ok (map word_of_int s) else Err UnicodeEncodeError)"

definition String_decode :: "codec option \<Rightarrow> val \<Rightarrow> val res" where
  "String_decode enc obj = (case enc of
     None \<Rightarrow> Ok obj
   | Some c \<Rightarrow> (case obj of VBytes b \<Rightarrow> rbind (decode_with c b) (\<lambda>s. Ok (VStr s))
               | _ \<Rightarrow> Err AttributeError))"

definition String_encode :: "codec option \<Rightarrow> val \<Rightarrow> val res" where
  "String_encode enc obj = (case enc of
     None \<Rightarrow> Ok obj
   | Some c \<Rightarrow> (case obj of VStr s \<Rightarrow> rbind (encode_with c s) (\<lambda>b. Ok (VBytes b))
               | _ \<Rightarrow> Err AttributeError))"

definition rstrip :: "bytes \<Rightarrow> bytes \<Rightarrow> bytes" where
  "rstrip pad b = rev (dropWhile (\<lambda>x. x \<in> set pad) (rev b))"

definition lstrip :: "bytes \<Rightarrow> bytes \<Rightarrow> bytes" where
  "lstrip pad b = dropWhile (\<lambda>x. x \<in> set pad) b"

definition PaddedString_decode :: "bytes \<Rightarrow> paddir \<Rightarrow> val \<Rightarrow> val res" where
  "PaddedString_decode pad dir obj = (case obj of
     VBytes b \<Rightarrow> Ok (VBytes (case dir of
         PadRight \<Rightarrow> rstrip pad b | PadLeft \<Rightarrow> lstrip pad b
       | PadCenter \<Rightarrow> lstrip pad (rstrip pad b)))
   | _ \<Rightarrow> Err AttributeError)"

text \<open>\<open>ljust\<close>, \<open>rjust\<close> and \<open>center\<close> of a bytes object, then the trimming of what is too long.\<close>

definition justify :: "paddir \<Rightarrow> byte \<Rightarrow> nat \<Rightarrow> bytes \<Rightarrow> bytes" where
  "justify dir p width b =
     (let m = width - length b in
      case dir of
        PadRight \<Rightarrow> b @ replicate m p
      | PadLeft \<Rightarrow> replicate m p @ b
      | PadCenter \<Rightarrow>
          (let l = m div 2 + (if odd m \<and> odd width then 1 else 0) in
           replicate l p @ b @ replicate (m - l) p))"

definition PaddedString_encode :: "bytes \<Rightarrow> paddir \<Rightarrow> bool \<Rightarrow> int res \<Rightarrow> val \<Rightarrow> val res" where
  "PaddedString_encode pad dir trim_right sz obj = rbind sz (\<lambda>n. (case obj of
     VBytes b \<Rightarrow> (case pad of
         [p] \<Rightarrow> (let b' = justify dir p (nat n) b in
           Ok (VBytes (if int (length b') > n
             then (if trim_right then take (nat n) b' else drop (length b' - nat n) b')
             else b')))
       | _ \<Rightarrow> Err TypeError)
   | _ \<Rightarrow> Err AttributeError))"

definition LengthValue_decode :: "val \<Rightarrow> val res" where
  "LengthValue_decode obj = rbind (viter obj) (\<lambda>vs. py_index vs 1)"

definition LengthValue_encode :: "val \<Rightarrow> val res" where
  "LengthValue_encode obj = rbind (vlen obj) (\<lambda>n. Ok (VTuple [VInt n, obj]))"

text \<open>\<^verbatim>\<open>b''.join(obj[:-1])\<close>.\<close>

fun join_bytes :: "val list \<Rightarrow> bytes res" where
  "join_bytes [] = Ok []"
| "join_bytes (v # vs) = (case v of VBytes b \<Rightarrow> rbind (join_bytes vs) (\<lambda>r. Ok (b @ r)) | _ \<Rightarrow> Err TypeError)"

definition CString_decode :: "codec option \<Rightarrow> val \<Rightarrow> val res" where
  "CString_decode enc obj = (case obj of
     VList vs \<Rightarrow> rbind (join_bytes (butlast vs)) (\<lambda>b. String_decode enc (VBytes b))
   | _ \<Rightarrow> Err TypeError)"

definition CString_encode :: "bytes \<Rightarrow> codec option \<Rightarrow> val \<Rightarrow> val res" where
  "CString_encode terminators enc obj = rbind (String_encode enc obj) (\<lambda>v. (case v of
     VBytes b \<Rightarrow> Ok (VBytes (b @ take 1 terminators)) | _ \<Rightarrow> Err TypeError))"

definition Const_encode :: "val \<Rightarrow> val \<Rightarrow> val res" where
  "Const_encode value obj = (if obj = VNone \<or> py_eq obj value then Ok value else Err ConstError)"

definition Const_decode :: "val \<Rightarrow> val \<Rightarrow> val res" where
  "Const_decode value obj = (if py_eq obj value then Ok obj else Err ConstError)"

text \<open>\<^verbatim>\<open>xs[start:stop]\<close>.\<close>

definition slice_bound :: "nat \<Rightarrow> int \<Rightarrow> nat" where
  "slice_bound n i = (if i < 0 then nat (int n + i) else min (nat i) n)"

definition py_slice :: "int option \<Rightarrow> int option \<Rightarrow> 'a list \<Rightarrow> 'a list" where
  "py_slice start stop xs =
     (let n = length xs;
          a = (case start of None \<Rightarrow> 0 | Some i \<Rightarrow> slice_bound n i);
          b = (case stop of None \<Rightarrow> n | Some i \<Rightarrow> slice_bound n i)
      in drop a (take b xs))"

definition Slicing_decode :: "int option \<Rightarrow> int option \<Rightarrow> val \<Rightarrow> val res" where
  "Slicing_decode start stop obj = (case obj of
     VList vs \<Rightarrow> Ok (VList (py_slice start stop vs))
   | VTuple vs \<Rightarrow> Ok (VTuple (py_slice start stop vs))
   | VBytes b \<Rightarrow> Ok (VBytes (py_slice start stop b))
   | VStr s \<Rightarrow> Ok (VStr (py_slice start stop s))
   | _ \<Rightarrow> Err TypeError)"

definition Slicing_encode :: "int option \<Rightarrow> val \<Rightarrow> val res" where
  "Slicing_encode start obj = (case start of
     None \<Rightarrow> Ok obj
   | Some n \<Rightarrow> (case obj of VList vs \<Rightarrow> Ok (VList (replicate (nat n) VNone @ vs)) | _ \<Rightarrow> Err TypeError))"

definition Indexing_decode :: "int \<Rightarrow> val \<Rightarrow> val res" where
  "Indexing_decode i obj = (case obj of
     VCont d \<Rightarrow> Err KeyError
   | _ \<Rightarrow> rbind (viter obj) (\<lambda>vs. py_index vs i))"

definition Indexing_encode :: "int \<Rightarrow> val \<Rightarrow> val res" where
  "Indexing_encode i obj = Ok (VList (replicate (nat i) VNone @ [obj]))"

text \<open>\<^verbatim>\<open>n * pattern\<close>.\<close>

definition repeat_bytes :: "int \<Rightarrow> bytes \<Rightarrow> bytes" where
  "repeat_bytes n b = concat (replicate (nat n) b)"

definition Padding_decode :: "bytes \<Rightarrow> bool \<Rightarrow> int res \<Rightarrow> val \<Rightarrow> val res" where
  "Padding_decode pattern strict sz obj =
     (if strict then rbind sz (\<lambda>n.
        if py_eq obj (VBytes (repeat_bytes n pattern)) then Ok obj else Err PaddingError)
      else Ok obj)"

definition Padding_encode :: "bytes \<Rightarrow> int res \<Rightarrow> val \<Rightarrow> val res" where
  "Padding_encode pattern sz obj = rbind sz (\<lambda>n. Ok (VBytes (repeat_bytes n pattern)))"

definition validate :: "bool \<Rightarrow> val \<Rightarrow> val res" where
  "validate ok obj = (if ok then Ok obj else Err ValidationError)"

text \<open>
  \<open>_decode\<close> and \<open>_encode\<close> of each adapter; \<open>sz\<close> is what \<^verbatim>\<open>self._sizeof(context)\<close> gives.
\<close>

primrec adapter_decode :: "adapter \<Rightarrow> int res \<Rightarrow> ctx \<Rightarrow> val \<Rightarrow> val res" where
  "adapter_decode (BitIntegerA w sw sg bs) sz c obj = BitInteger_decode sw sg bs obj"
| "adapter_decode (MappingA dec enc dd ed) sz c obj = mapping_code dec dd obj"
| "adapter_decode (FlagsA fs) sz c obj = Flags_decode fs obj"
| "adapter_decode (StringA enc) sz c obj = String_decode enc obj"
| "adapter_decode (PaddedStringA p d t) sz c obj = PaddedString_decode p d obj"
| "adapter_decode LengthValueA sz c obj = LengthValue_decode obj"
| "adapter_decode (CStringA t enc) sz c obj = CString_decode enc obj"
| "adapter_decode (ExprA enc dec) sz c obj = dec obj c"
| "adapter_decode HexDumpA sz c obj = Ok obj"
| "adapter_decode (ConstA v) sz c obj = Const_decode v obj"
| "adapter_decode (SlicingA a b) sz c obj = Slicing_decode a b obj"
| "adapter_decode (IndexingA i) sz c obj = Indexing_decode i obj"
| "adapter_decode (PaddingA p st) sz c obj = Padding_decode p st sz obj"
| "adapter_decode (OneOfA vs) sz c obj = validate (list_ex (py_eq obj) vs) obj"
| "adapter_decode (NoneOfA vs) sz c obj = validate (\<not> list_ex (py_eq obj) vs) obj"

primrec adapter_encode :: "adapter \<Rightarrow> int res \<Rightarrow> ctx \<Rightarrow> val \<Rightarrow> val res" where
  "adapter_encode (BitIntegerA w sw sg bs) sz c obj = BitInteger_encode w sw sg bs obj"
| "adapter_encode (MappingA dec enc dd ed) sz c obj = mapping_code enc ed obj"
| "adapter_encode (FlagsA fs) sz c obj = Flags_encode fs obj"
| "adapter_encode (StringA enc) sz c obj = String_encode enc obj"
| "adapter_encode (PaddedStringA p d t) sz c obj = PaddedString_encode p d t sz obj"
| "adapter_encode LengthValueA sz c obj = LengthValue_encode obj"
| "adapter_encode (CStringA t enc) sz c obj = CString_encode t enc obj"
| "adapter_encode (ExprA enc dec) sz c obj = enc obj c"
| "adapter_encode HexDumpA sz c obj = Ok obj"
| "adapter_encode (ConstA v) sz c obj = Const_encode v obj"
| "adapter_encode (SlicingA a b) sz c obj = Slicing_encode a obj"
| "adapter_encode (IndexingA i) sz c obj = Indexing_encode i obj"
| "adapter_encode (PaddingA p st) sz c obj = Padding_encode p sz obj"
| "adapter_encode (OneOfA vs) sz c obj = validate (list_ex (py_eq obj) vs) obj"
| "adapter_encode (NoneOfA vs) sz c obj = validate (\<not> list_ex (py_eq obj) vs) obj"

section \<open>Constructs\<close>

text \<open>
  \<open>MetaArrayC\<close> carries whether the macro \<open>Array\<close> cleared its dynamic flag (a constant count);
  \<open>StructC\<close> and \<open>SequenceC\<close> whether they nest a new context; \<open>SwitchC\<close> the optional default.
\<close>

datatype con =
    StaticFieldC "string option" int
  | FormatFieldC "string option" endian fmt
  | MetaFieldC "string option" "ctx \<Rightarrow> int res"
  | MetaArrayC "ctx \<Rightarrow> int res" con bool
  | RangeC int int con
  | RepeatUntilC "val \<Rightarrow> ctx \<Rightarrow> bool res" con
  | RepeatUntilExcludingC "val \<Rightarrow> ctx \<Rightarrow> bool res" con
  | StructC "string option" "con list" bool
  | SequenceC "string option" "con list" bool
  | SwitchC "string option" "ctx \<Rightarrow> val res" "(val \<times> con) list" "con option" bool
  | SelectC "string option" "con list" bool
  | PointerC "ctx \<Rightarrow> int res" con
  | PeekC con bool
  | BufferedC con "bytes \<Rightarrow> bytes res" "bytes \<Rightarrow> bytes res" "int \<Rightarrow> int res"
  | ReconfigC "string option" con int int
  | AnchorC "string option"
  | ValueC "string option" "ctx \<Rightarrow> val res"
  | PassC
  | TerminatorC
  | AdapterC con adapter
  | TunnelC con con
  | ULEB128C "string option"
  | SLEB128C "string option"
  | StreamOffsetC "string option"
  | Int24C "string option" endian
  | ContextAdapterC con "val \<Rightarrow> ctx \<Rightarrow> (val \<times> ctx) res"
  | FormattedEntryC "string option" string "(val \<times> con option) list"

primrec con_name :: "con \<Rightarrow> string option" where
  "con_name (StaticFieldC n l) = n"
| "con_name (FormatFieldC n e f) = n"
| "con_name (MetaFieldC n lf) = n"
| "con_name (MetaArrayC cf sc dyn) = con_name sc"
| "con_name (RangeC mn mx sc) = con_name sc"
| "con_name (RepeatUntilC p sc) = con_name sc"
| "con_name (RepeatUntilExcludingC p sc) = con_name sc"
| "con_name (StructC n scs nst) = n"
| "con_name (SequenceC n scs nst) = n"
| "con_name (SwitchC n kf cases d ik) = n"
| "con_name (SelectC n scs inm) = n"
| "con_name (PointerC off sc) = con_name sc"
| "con_name (PeekC sc pb) = con_name sc"
| "con_name (BufferedC sc enc dec rs) = con_name sc"
| "con_name (ReconfigC n sc sf cf) = n"
| "con_name (AnchorC n) = n"
| "con_name (ValueC n f) = n"
| "con_name PassC = None"
| "con_name TerminatorC = None"
| "con_name (AdapterC sc a) = con_name sc"
| "con_name (TunnelC sc inner) = con_name sc"
| "con_name (ULEB128C n) = n"
| "con_name (SLEB128C n) = n"
| "con_name (StreamOffsetC n) = n"
| "con_name (Int24C n e) = n"
| "con_name (ContextAdapterC sc dec) = con_name sc"
| "con_name (FormattedEntryC n field forms) = n"

primrec con_flags :: "con \<Rightarrow> int" where
  "con_flags (StaticFieldC n l) = 0"
| "con_flags (FormatFieldC n e f) = 0"
| "con_flags (MetaFieldC n lf) = FLAG_DYNAMIC"
| "con_flags (MetaArrayC cf sc dyn) =
     (let fl = set_flag (clear_flag (con_flags sc) FLAG_COPY_CONTEXT) FLAG_DYNAMIC in
      if dyn then fl else clear_flag fl FLAG_DYNAMIC)"
| "con_flags (RangeC mn mx sc) = set_flag (clear_flag (con_flags sc) FLAG_COPY_CONTEXT) FLAG_DYNAMIC"
| "con_flags (RepeatUntilC p sc) =
     set_flag (clear_flag (con_flags sc) FLAG_COPY_CONTEXT) FLAG_DYNAMIC"
| "con_flags (RepeatUntilExcludingC p sc) =
     set_flag (clear_flag (con_flags sc) FLAG_COPY_CONTEXT) FLAG_DYNAMIC"
| "con_flags (StructC n scs nst) = clear_flag (inherit_flags 0 (map con_flags scs)) FLAG_EMBED"
| "con_flags (SequenceC n scs nst) = clear_flag (inherit_flags 0 (map con_flags scs)) FLAG_EMBED"
| "con_flags (SwitchC n kf cases d ik) =
     set_flag (inherit_flags 0 (map snd (map (map_prod id con_flags) cases))) FLAG_DYNAMIC"
| "con_flags (SelectC n scs inm) = set_flag (inherit_flags 0 (map con_flags scs)) FLAG_DYNAMIC"
| "con_flags (PointerC off sc) = con_flags sc"
| "con_flags (PeekC sc pb) = con_flags sc"
| "con_flags (BufferedC sc enc dec rs) = con_flags sc"
| "con_flags (ReconfigC n sc sf cf) = clear_flag (set_flag (con_flags sc) sf) cf"
| "con_flags (AnchorC n) = 0"
| "con_flags (ValueC n f) = FLAG_DYNAMIC"
| "con_flags PassC = 0"
| "con_flags TerminatorC = 0"
| "con_flags (AdapterC sc a) = con_flags sc"
| "con_flags (TunnelC sc inner) = con_flags sc"
| "con_flags (ULEB128C n) = 0"
| "con_flags (SLEB128C n) = 0"
| "con_flags (StreamOffsetC n) = FLAG_DYNAMIC"
| "con_flags (Int24C n e) = 0"
| "con_flags (ContextAdapterC sc dec) = con_flags sc"
| "con_flags (FormattedEntryC n field forms) = 0"

primrec con_sizeof :: "con \<Rightarrow> sizer" where
  "con_sizeof (StaticFieldC n l) = (\<lambda>c. Ok l)"
| "con_sizeof (FormatFieldC n e f) = (\<lambda>c. Ok (int (fmt_size f)))"
| "con_sizeof (MetaFieldC n lf) = lf"
| "con_sizeof (MetaArrayC cf sc dyn) = MetaArray_sizeof cf (con_sizeof sc)"
| "con_sizeof (RangeC mn mx sc) = (\<lambda>c. Err SizeofError)"
| "con_sizeof (RepeatUntilC p sc) = (\<lambda>c. Err SizeofError)"
| "con_sizeof (RepeatUntilExcludingC p sc) = (\<lambda>c. Err SizeofError)"
| "con_sizeof (StructC n scs nst) = Struct_sizeof nst (map con_sizeof scs)"
| "con_sizeof (SequenceC n scs nst) = Struct_sizeof nst (map con_sizeof scs)"
| "con_sizeof (SwitchC n kf cases d ik) =
     Switch_sizeof kf (map (map_prod id con_sizeof) cases) (map_option con_sizeof d)"
| "con_sizeof (SelectC n scs inm) = (\<lambda>c. Err SizeofError)"
| "con_sizeof (PointerC off sc) = (\<lambda>c. Ok 0)"
| "con_sizeof (PeekC sc pb) = (\<lambda>c. Ok 0)"
| "con_sizeof (BufferedC sc enc dec rs) = Buffered_sizeof rs (con_sizeof sc)"
| "con_sizeof (ReconfigC n sc sf cf) = con_sizeof sc"
| "con_sizeof (AnchorC n) = (\<lambda>c. Ok 0)"
| "con_sizeof (ValueC n f) = (\<lambda>c. Ok 0)"
| "con_sizeof PassC = (\<lambda>c. Ok 0)"
| "con_sizeof TerminatorC = (\<lambda>c. Ok 0)"
| "con_sizeof (AdapterC sc a) = con_sizeof sc"
| "con_sizeof (TunnelC sc inner) = con_sizeof sc"
| "con_sizeof (ULEB128C n) = (\<lambda>c. Err SizeofError)"
| "con_sizeof (SLEB128C n) = (\<lambda>c. Err SizeofError)"
| "con_sizeof (StreamOffsetC n) = (\<lambda>c. Ok 0)"
| "con_sizeof (Int24C n e) = (\<lambda>c. Ok 3)"
| "con_sizeof (ContextAdapterC sc dec) = con_sizeof sc"
| "con_sizeof (FormattedEntryC n field forms) = (\<lambda>c. Err SizeofError)"

text \<open>\<open>Adapter._parse\<close> and \<open>Adapter._build\<close>.\<close>

definition Adapter_parse :: "(int res \<Rightarrow> ctx \<Rightarrow> val \<Rightarrow> val res) \<Rightarrow> sizer \<Rightarrow> parser \<Rightarrow> parser" where
  "Adapter_parse dec sz p = mbind p (\<lambda>obj. mbind get_ctx (\<lambda>c. lift_res (dec (sz c) c obj)))"

definition Adapter_build :: "(int res \<Rightarrow> ctx \<Rightarrow> val \<Rightarrow> val res) \<Rightarrow> sizer \<Rightarrow> builder \<Rightarrow> builder" where
  "Adapter_build enc sz b obj = mbind get_ctx (\<lambda>c. mbind (lift_res (enc (sz c) c obj)) b)"

text \<open>A tunnel parses what the lower layer delivered with the upper one.\<close>

definition Tunnel_parse :: "parser \<Rightarrow> parser \<Rightarrow> parser" where
  "Tunnel_parse p inner = mbind p (\<lambda>obj. mbind (bytes_arg obj) (\<lambda>b.
     mbind (with_stream (bytesio b) inner) (\<lambda>(v, _). ret v)))"

definition Tunnel_build :: "builder \<Rightarrow> builder \<Rightarrow> builder" where
  "Tunnel_build b inner obj = mbind (with_stream (bytesio []) (inner obj)) (\<lambda>(_, t).
     b (VBytes (sdata t)))"

text \<open>
  Two constructs of \<^verbatim>\<open>dwarf/structs.py\<close>.  The decoding of an initial length also writes the context.
  A \<open>FormattedEntry\<close> is a struct whose fields an earlier field of the context lists: for each of them
  a content type, which becomes the name, and a form, which chooses the parser.  (The source keeps the
  struct it made in the context, for the next entry; it depends on nothing that changes meanwhile.)
  The content types are names of an enumeration.
\<close>

definition ContextAdapter_parse :: "(val \<Rightarrow> ctx \<Rightarrow> (val \<times> ctx) res) \<Rightarrow> parser \<Rightarrow> parser" where
  "ContextAdapter_parse dec p = mbind p (\<lambda>obj. mbind get_ctx (\<lambda>c.
     mbind (lift_res (dec obj c)) (\<lambda>(v, c'). mbind (put_ctx c') (\<lambda>_. ret v))))"

definition unlit :: "pystr \<Rightarrow> string" where
  "unlit s = map char_of s"

definition formatted_field ::
  "(val \<times> int option) list \<Rightarrow> (val \<times> parser option) list \<Rightarrow> val \<Rightarrow> parser sub res" where
  "formatted_field flags forms f =
     rbind (get_attr f ''content_type'') (\<lambda>content.
     rbind (get_attr f ''form'') (\<lambda>form.
       if \<not> hashable form then Err TypeError
       else (case (vlookup flags form, vlookup forms form) of
           (Some (Some fl), Some (Some p)) \<Rightarrow>
             (case content of VStr n \<Rightarrow> Ok (Some (unlit n), fl, p) | _ \<Rightarrow> Err TypeError)
         | (Some None, _) \<Rightarrow> Err AttributeError
         | _ \<Rightarrow> Err KeyError)))"

definition FormattedEntry_parse ::
  "string \<Rightarrow> (val \<times> int option) list \<Rightarrow> (val \<times> parser option) list \<Rightarrow> parser" where
  "FormattedEntry_parse field flags forms =
     mbind get_ctx (\<lambda>c. mbind (lift_res (rbind (dget c field) viter)) (\<lambda>fs.
     mbind (lift_res (rmap (formatted_field flags forms) fs)) (\<lambda>subs. Struct_parse False True subs)))"

primrec con_parse :: "con \<Rightarrow> parser" where
  "con_parse (StaticFieldC n l) = StaticField_parse l"
| "con_parse (FormatFieldC n e f) = FormatField_parse e f"
| "con_parse (MetaFieldC n lf) = MetaField_parse lf"
| "con_parse (MetaArrayC cf sc dyn) = MetaArray_parse cf (con_flags sc) (con_parse sc)"
| "con_parse (RangeC mn mx sc) = Range_parse mn mx (con_flags sc) (con_parse sc)"
| "con_parse (RepeatUntilC p sc) = RepeatUntil_parse p (con_flags sc) (con_parse sc)"
| "con_parse (RepeatUntilExcludingC p sc) = RepeatUntilExcluding_parse p (con_flags sc) (con_parse sc)"
| "con_parse (StructC n scs nst) =
     Struct_parse False nst (zip (map con_name scs) (zip (map con_flags scs) (map con_parse scs)))"
| "con_parse (SequenceC n scs nst) =
     Struct_parse True nst (zip (map con_name scs) (zip (map con_flags scs) (map con_parse scs)))"
| "con_parse (SwitchC n kf cases d ik) =
     Switch_parse kf (map (map_prod id con_parse) cases) (map_option con_parse d) ik"
| "con_parse (SelectC n scs inm) =
     Select_parse (zip (map con_name scs) (zip (map con_flags scs) (map con_parse scs))) inm"
| "con_parse (PointerC off sc) = Pointer_parse off (con_parse sc)"
| "con_parse (PeekC sc pb) = Peek_parse (con_parse sc)"
| "con_parse (BufferedC sc enc dec rs) = Buffered_parse dec rs (con_sizeof sc) (con_parse sc)"
| "con_parse (ReconfigC n sc sf cf) = con_parse sc"
| "con_parse (AnchorC n) = Anchor_parse"
| "con_parse (ValueC n f) = Value_parse f"
| "con_parse PassC = Pass_parse"
| "con_parse TerminatorC = Terminator_parse"
| "con_parse (AdapterC sc a) = Adapter_parse (adapter_decode a) (con_sizeof sc) (con_parse sc)"
| "con_parse (TunnelC sc inner) = Tunnel_parse (con_parse sc) (con_parse inner)"
| "con_parse (ULEB128C n) = ULEB128_parse"
| "con_parse (SLEB128C n) = SLEB128_parse"
| "con_parse (StreamOffsetC n) = Anchor_parse"
| "con_parse (Int24C n e) = Int24_parse e"
| "con_parse (ContextAdapterC sc dec) = ContextAdapter_parse dec (con_parse sc)"
| "con_parse (FormattedEntryC n field forms) = FormattedEntry_parse field
     (map (map_prod id (map_option con_flags)) forms) (map (map_prod id (map_option con_parse)) forms)"

primrec con_build :: "con \<Rightarrow> builder" where
  "con_build (StaticFieldC n l) = StaticField_build l"
| "con_build (FormatFieldC n e f) = FormatField_build e f"
| "con_build (MetaFieldC n lf) = MetaField_build lf"
| "con_build (MetaArrayC cf sc dyn) = MetaArray_build cf (con_flags sc) (con_build sc)"
| "con_build (RangeC mn mx sc) = Range_build mn mx (con_flags sc) (con_build sc)"
| "con_build (RepeatUntilC p sc) = RepeatUntil_build p (con_flags sc) (con_build sc)"
| "con_build (RepeatUntilExcludingC p sc) = (\<lambda>obj. raise NotImplementedError)"
| "con_build (StructC n scs nst) =
     Struct_build nst (zip (map con_name scs) (zip (map con_flags scs) (map con_build scs)))"
| "con_build (SequenceC n scs nst) =
     Sequence_build nst (zip (map con_name scs) (zip (map con_flags scs) (map con_build scs)))"
| "con_build (SwitchC n kf cases d ik) =
     Switch_build kf (map (map_prod id con_build) cases) (map_option con_build d) ik"
| "con_build (SelectC n scs inm) =
     Select_build (zip (map con_name scs) (zip (map con_flags scs) (map con_build scs))) inm"
| "con_build (PointerC off sc) = Pointer_build off (con_build sc)"
| "con_build (PeekC sc pb) = Peek_build pb (con_build sc)"
| "con_build (BufferedC sc enc dec rs) = Buffered_build enc rs (con_sizeof sc) (con_build sc)"
| "con_build (ReconfigC n sc sf cf) = con_build sc"
| "con_build (AnchorC n) = Anchor_build n"
| "con_build (ValueC n f) = Value_build n f"
| "con_build PassC = Pass_build"
| "con_build TerminatorC = Pass_build"
| "con_build (AdapterC sc a) = Adapter_build (adapter_encode a) (con_sizeof sc) (con_build sc)"
| "con_build (TunnelC sc inner) = Tunnel_build (con_build sc) (con_build inner)"
| "con_build (ULEB128C n) = (\<lambda>obj. raise NotImplementedError)"
| "con_build (SLEB128C n) = (\<lambda>obj. raise NotImplementedError)"
| "con_build (StreamOffsetC n) = Anchor_build n"
| "con_build (Int24C n e) = Int24_build e"
| "con_build (ContextAdapterC sc dec) = (\<lambda>obj. raise NotImplementedError)"
| "con_build (FormattedEntryC n field forms) = (\<lambda>obj. raise NotImplementedError)"

section \<open>The external interface\<close>

definition parse_stream :: "con \<Rightarrow> (stream, val) M" where
  "parse_stream c = (\<lambda>t. case con_parse c \<lparr>pctx = [], pstm = t\<rparr> of (r, s) \<Rightarrow> (r, pstm s))"

definition parse_bytes :: "con \<Rightarrow> bytes \<Rightarrow> val res" where
  "parse_bytes c data = fst (parse_stream c (bytesio data))"

definition build_bytes :: "con \<Rightarrow> val \<Rightarrow> bytes res" where
  "build_bytes c obj = (case con_build c obj \<lparr>pctx = [], pstm = bytesio []\<rparr> of (r, s) \<Rightarrow>
     (case r of Ok _ \<Rightarrow> Ok (sdata (pstm s)) | Err e \<Rightarrow> Err e | NoFuel \<Rightarrow> NoFuel))"

definition sizeof :: "con \<Rightarrow> ctx \<Rightarrow> int res" where
  "sizeof c context = (case con_sizeof c context of Err e \<Rightarrow> Err SizeofError | r \<Rightarrow> r)"

section \<open>Format builders (macros.py)\<close>

definition Field :: "string option \<Rightarrow> int \<Rightarrow> con" where
  "Field n len = StaticFieldC n len"

definition DynField :: "string option \<Rightarrow> (ctx \<Rightarrow> int res) \<Rightarrow> con" where
  "DynField n lenf = MetaFieldC n lenf"

definition BitField :: "string \<Rightarrow> int \<Rightarrow> con" where
  "BitField n len = AdapterC (Field (Some n) len) (BitIntegerA len False False 8)"

definition Padding :: "int \<Rightarrow> con" where
  "Padding len = AdapterC (Field None len) (PaddingA [0] False)"

definition DynPadding :: "(ctx \<Rightarrow> int res) \<Rightarrow> con" where
  "DynPadding lenf = AdapterC (DynField None lenf) (PaddingA [0] False)"

definition UBInt8 :: "string \<Rightarrow> con" where "UBInt8 n = FormatFieldC (Some n) BE FmtB"
definition UBInt16 :: "string \<Rightarrow> con" where "UBInt16 n = FormatFieldC (Some n) BE FmtH"
definition UBInt32 :: "string \<Rightarrow> con" where "UBInt32 n = FormatFieldC (Some n) BE FmtL"
definition UBInt64 :: "string \<Rightarrow> con" where "UBInt64 n = FormatFieldC (Some n) BE FmtQ"
definition SBInt8 :: "string \<Rightarrow> con" where "SBInt8 n = FormatFieldC (Some n) BE Fmtb"
definition SBInt16 :: "string \<Rightarrow> con" where "SBInt16 n = FormatFieldC (Some n) BE Fmth"
definition SBInt32 :: "string \<Rightarrow> con" where "SBInt32 n = FormatFieldC (Some n) BE Fmtl"
definition SBInt64 :: "string \<Rightarrow> con" where "SBInt64 n = FormatFieldC (Some n) BE Fmtq"
definition ULInt8 :: "string \<Rightarrow> con" where "ULInt8 n = FormatFieldC (Some n) LE FmtB"
definition ULInt16 :: "string \<Rightarrow> con" where "ULInt16 n = FormatFieldC (Some n) LE FmtH"
definition ULInt32 :: "string \<Rightarrow> con" where "ULInt32 n = FormatFieldC (Some n) LE FmtL"
definition ULInt64 :: "string \<Rightarrow> con" where "ULInt64 n = FormatFieldC (Some n) LE FmtQ"
definition SLInt8 :: "string \<Rightarrow> con" where "SLInt8 n = FormatFieldC (Some n) LE Fmtb"
definition SLInt16 :: "string \<Rightarrow> con" where "SLInt16 n = FormatFieldC (Some n) LE Fmth"
definition SLInt32 :: "string \<Rightarrow> con" where "SLInt32 n = FormatFieldC (Some n) LE Fmtl"
definition SLInt64 :: "string \<Rightarrow> con" where "SLInt64 n = FormatFieldC (Some n) LE Fmtq"

lemmas int_field_defs = UBInt8_def UBInt16_def UBInt32_def UBInt64_def SBInt8_def SBInt16_def
  SBInt32_def SBInt64_def ULInt8_def ULInt16_def ULInt32_def ULInt64_def SLInt8_def SLInt16_def
  SLInt32_def SLInt64_def

text \<open>The format \<^verbatim>\<open>=\<close> is the byte order of the machine, which is the argument \<open>native\<close>.\<close>

definition UNInt8 :: "endian \<Rightarrow> string \<Rightarrow> con" where "UNInt8 native n = FormatFieldC (Some n) native FmtB"
definition UNInt16 :: "endian \<Rightarrow> string \<Rightarrow> con" where "UNInt16 native n = FormatFieldC (Some n) native FmtH"
definition UNInt32 :: "endian \<Rightarrow> string \<Rightarrow> con" where "UNInt32 native n = FormatFieldC (Some n) native FmtL"
definition UNInt64 :: "endian \<Rightarrow> string \<Rightarrow> con" where "UNInt64 native n = FormatFieldC (Some n) native FmtQ"
definition SNInt8 :: "endian \<Rightarrow> string \<Rightarrow> con" where "SNInt8 native n = FormatFieldC (Some n) native Fmtb"
definition SNInt16 :: "endian \<Rightarrow> string \<Rightarrow> con" where "SNInt16 native n = FormatFieldC (Some n) native Fmth"
definition SNInt32 :: "endian \<Rightarrow> string \<Rightarrow> con" where "SNInt32 native n = FormatFieldC (Some n) native Fmtl"
definition SNInt64 :: "endian \<Rightarrow> string \<Rightarrow> con" where "SNInt64 native n = FormatFieldC (Some n) native Fmtq"
lemmas native_field_defs = UNInt8_def UNInt16_def UNInt32_def UNInt64_def SNInt8_def SNInt16_def SNInt32_def SNInt64_def

definition Struct :: "string \<Rightarrow> con list \<Rightarrow> con" where
  "Struct n scs = StructC (Some n) scs True"

definition Array :: "int \<Rightarrow> con \<Rightarrow> con" where
  "Array count sc = MetaArrayC (\<lambda>_. Ok count) sc False"

definition DynArray :: "(ctx \<Rightarrow> int res) \<Rightarrow> con \<Rightarrow> con" where
  "DynArray countf sc = MetaArrayC countf sc True"

definition name_of :: "con \<Rightarrow> string" where
  "name_of sc = (case con_name sc of None \<Rightarrow> '''' | Some n \<Rightarrow> n)"

definition PrefixedArray :: "con \<Rightarrow> con \<Rightarrow> con" where
  "PrefixedArray sc length_field =
     AdapterC (SequenceC (con_name sc)
        [length_field, DynArray (\<lambda>c. rbind (dget c (name_of length_field)) as_int) sc] False) LengthValueA"

definition OpenRange :: "int \<Rightarrow> con \<Rightarrow> con" where
  "OpenRange mincount sc = RangeC mincount (2 ^ 63 - 1) sc"

definition GreedyRange :: "con \<Rightarrow> con" where
  "GreedyRange sc = OpenRange 1 sc"

definition OptionalGreedyRange :: "con \<Rightarrow> con" where
  "OptionalGreedyRange sc = OpenRange 0 sc"

definition OptionalC :: "con \<Rightarrow> con" where
  "OptionalC sc = SelectC (con_name sc) [sc, PassC] False"

definition bit_resizer :: "int \<Rightarrow> int res" where
  "bit_resizer len = (if len AND 7 \<noteq> 0 then Err SizeofError else Ok (drop_bit 3 len))"

text \<open>
  \<open>Bitwise\<close> of a format that is not dynamic and below the size limit; for any other the source
  picks \<open>Restream\<close>, which is not modelled (\<open>None\<close>).
\<close>

definition Bitwise :: "con \<Rightarrow> con option" where
  "Bitwise sc = (if \<not> is_flag (con_flags sc) FLAG_DYNAMIC \<and>
       (case sizeof sc [] of Ok n \<Rightarrow> n < 8192 | _ \<Rightarrow> False)
     then Some (BufferedC sc decode_bin (\<lambda>b. Ok (encode_bin b)) bit_resizer) else None)"

definition BitStruct :: "string \<Rightarrow> con list \<Rightarrow> con" where
  "BitStruct n scs = BufferedC (Struct n scs) decode_bin (\<lambda>b. Ok (encode_bin b)) bit_resizer"

definition SeqOfOne :: "string option \<Rightarrow> con list \<Rightarrow> bool \<Rightarrow> con" where
  "SeqOfOne n scs nested = AdapterC (SequenceC n scs nested) (IndexingA 0)"

definition Aligned :: "con \<Rightarrow> int \<Rightarrow> bytes \<Rightarrow> con res" where
  "Aligned sc modulus pattern =
     (if modulus < 2 then Err ValueError
      else Ok (SeqOfOne (con_name sc)
        [sc, AdapterC (DynField None (\<lambda>c. rbind (con_sizeof sc c) (\<lambda>n.
               Ok ((modulus - n mod modulus) mod modulus)))) (PaddingA pattern False)] False))"

definition Embedded :: "con \<Rightarrow> con" where
  "Embedded sc = ReconfigC (con_name sc) sc FLAG_EMBED 0"

definition Rename :: "string \<Rightarrow> con \<Rightarrow> con" where
  "Rename n sc = ReconfigC (Some n) sc 0 0"

definition Alias :: "string \<Rightarrow> string \<Rightarrow> con" where
  "Alias n old = ValueC (Some n) (\<lambda>c. dget c old)"

text \<open>
  Reversing a dict by inserting its swapped items in order: of several keys with one value the
  last one stays, so a lookup may search the items from the end.
\<close>

definition reverse_mapping :: "(val \<times> val) list \<Rightarrow> (val \<times> val) list" where
  "reverse_mapping m = rev (map (\<lambda>(k, v). (v, k)) m)"

definition SymmetricMapping :: "con \<Rightarrow> (val \<times> val) list \<Rightarrow> mdefault \<Rightarrow> con" where
  "SymmetricMapping sc m dflt = AdapterC sc (MappingA (reverse_mapping m) m dflt dflt)"

text \<open>An enumeration table: names with their values, and the \<^verbatim>\<open>_default_\<close> entry.\<close>

type_synonym enum = "(string \<times> int) list \<times> mdefault"

definition enum_items :: "(string \<times> int) list \<Rightarrow> (val \<times> val) list" where
  "enum_items t = map (\<lambda>(n, v). (VStr (lit n), VInt v)) t"

definition Enum :: "con \<Rightarrow> enum \<Rightarrow> con" where
  "Enum sc e = SymmetricMapping sc (enum_items (fst e)) (snd e)"

definition FlagsEnum :: "con \<Rightarrow> (string \<times> int) list \<Rightarrow> con" where
  "FlagsEnum sc t = AdapterC sc (FlagsA t)"

definition String :: "string \<Rightarrow> int \<Rightarrow> con" where
  "String n len = AdapterC (Field (Some n) len) (StringA None)"

definition PascalString :: "string \<Rightarrow> con \<Rightarrow> codec option \<Rightarrow> con" where
  "PascalString n length_field enc =
     AdapterC (AdapterC (SequenceC (Some n)
        [length_field, DynField (Some ''data'') (\<lambda>c. rbind (dget c (name_of length_field)) as_int)] True)
        LengthValueA) (StringA enc)"

text \<open>The default terminator and character field: NUL-terminated single bytes.\<close>

definition CString :: "string \<Rightarrow> codec option \<Rightarrow> con" where
  "CString n enc = Rename n (AdapterC
     (RepeatUntilC (\<lambda>obj c. Ok (py_eq obj (VBytes [0]) \<or> py_eq obj (VBytes []))) (Field None 1))
     (CStringA [0] enc))"

definition IfThenElse :: "string option \<Rightarrow> (ctx \<Rightarrow> val res) \<Rightarrow> con \<Rightarrow> con \<Rightarrow> con" where
  "IfThenElse n predicate then_c else_c =
     SwitchC n (\<lambda>c. rbind (predicate c) (\<lambda>v. Ok (VBool (truthy v))))
       [(VBool True, then_c), (VBool False, else_c)] None False"

definition If_else :: "(ctx \<Rightarrow> val res) \<Rightarrow> con \<Rightarrow> val \<Rightarrow> con" where
  "If_else predicate sc elsevalue =
     IfThenElse (con_name sc) predicate sc (ValueC (Some ''elsevalue'') (\<lambda>_. Ok elsevalue))"

definition If :: "(ctx \<Rightarrow> val res) \<Rightarrow> con \<Rightarrow> con" where
  "If predicate sc = If_else predicate sc VNone"

definition Magic :: "bytes \<Rightarrow> con" where
  "Magic data = AdapterC (Field None (int (length data))) (ConstA (VBytes data))"

end
