(* ===== verification/CommonUtils.thy ===== *)
theory CommonUtils
  imports Construct
begin

text \<open>
  \<^verbatim>\<open>elftools/common/utils.py\<close>: the helpers every ELF and DWARF component calls, and what they
  promise.  \<open>struct_parse\<close> turns any construct error into an \<open>ELFParseError\<close>;
  \<open>parse_cstring_from_stream\<close> finds a NUL-terminated string by reading chunks of 64 bytes;
  \<open>roundup\<close> aligns a number.
\<close>

section \<open>The operations\<close>

text \<open>\<^verbatim>\<open>merge_dicts(*dicts)\<close>.\<close>

definition merge_dicts :: "'v dict list \<Rightarrow> 'v dict" where
  "merge_dicts dicts = foldl dupdate [] dicts"

definition bytes2str :: "bytes \<Rightarrow> pystr" where
  "bytes2str b = decode_latin1 b"

definition bytelist2string :: "int list \<Rightarrow> bytes res" where
  "bytelist2string bytelist = rbind
     (rmap (\<lambda>b. if 0 \<le> b \<and> b < 256 then Ok [word_of_int b] else Err ValueError) bytelist)
     (\<lambda>bs. Ok (concat bs))"

definition struct_parse :: "con \<Rightarrow> int option \<Rightarrow> (stream, val) M" where
  "struct_parse struct stream_pos =
     try_except
       (mbind (case stream_pos of None \<Rightarrow> ret () | Some p \<Rightarrow> s_seek p) (\<lambda>_. parse_stream struct))
       is_ConstructError (\<lambda>_. raise ELFParseError)"

text \<open>\<^verbatim>\<open>chunk.find(b'\x00')\<close>: the index of the first NUL, or -1.\<close>

definition find_nul :: "bytes \<Rightarrow> int" where
  "find_nul chunk = (if 0 \<in> set chunk then int (length (takeWhile (\<lambda>b. b \<noteq> 0) chunk)) else -1)"

definition CHUNKSIZE :: int where "CHUNKSIZE = 64"

primrec cstring_loop :: "nat \<Rightarrow> bytes list \<Rightarrow> (stream, bytes list \<times> bool) M" where
  "cstring_loop 0 chunks = lift_res NoFuel"
| "cstring_loop (Suc fuel) chunks =
     mbind (s_read CHUNKSIZE) (\<lambda>chunk.
       let end_index = find_nul chunk in
       if 0 \<le> end_index then ret (chunks @ [take (nat end_index) chunk], True)
       else if int (length chunk) < CHUNKSIZE then ret (chunks @ [chunk], False)
       else cstring_loop fuel (chunks @ [chunk]))"

text \<open>The bound on the loop: every round but the last consumes a whole chunk.\<close>

definition parse_cstring_from_stream :: "int option \<Rightarrow> (stream, bytes option) M" where
  "parse_cstring_from_stream stream_pos =
     mbind (case stream_pos of None \<Rightarrow> ret () | Some p \<Rightarrow> s_seek p) (\<lambda>_.
     mbind get_state (\<lambda>s.
     mbind (cstring_loop (Suc (remaining s div 64)) []) (\<lambda>(chunks, found).
       ret (if found then Some (concat chunks) else None))))"

definition elf_assert :: "bool \<Rightarrow> ('s, unit) M" where
  "elf_assert cond = (if cond then ret () else raise ELFError)"

definition dwarf_assert :: "bool \<Rightarrow> ('s, unit) M" where
  "dwarf_assert cond = (if cond then ret () else raise DWARFError)"

text \<open>
  \<open>preserve_stream_pos\<close>: the position is put back when the body ends normally (the generator is
  not wrapped in a \<^verbatim>\<open>try\<close>, so an exception leaves the stream where it was raised).
\<close>

definition preserve_stream_pos :: "(stream, 'a) M \<Rightarrow> (stream, 'a) M" where
  "preserve_stream_pos body = mbind get_state (\<lambda>s. mbind body (\<lambda>a.
     mbind (s_seek (s_tell s)) (\<lambda>_. ret a)))"

definition roundup :: "int \<Rightarrow> nat \<Rightarrow> int" where
  "roundup num bits = ((num - 1) OR (push_bit bits 1 - 1)) + 1"

definition read_blob :: "int \<Rightarrow> (stream, val list) M" where
  "read_blob len = mmap (\<lambda>_. struct_parse (ULInt8 '''') None) [0..<nat len]"

definition iterbytes :: "bytes \<Rightarrow> bytes list" where
  "iterbytes b = map (\<lambda>i. take 1 (drop i b)) [0..<length b]"

definition hex_digit :: "int \<Rightarrow> int" where
  "hex_digit d = (if d < 10 then 48 + d else 87 + d)"

definition hex_byte :: "byte \<Rightarrow> pystr" where
  "hex_byte b = [hex_digit (uint b div 16), hex_digit (uint b mod 16)]"

text \<open>\<^verbatim>\<open>bytes2hex(b)\<close> with the default (empty) separator, and with one.\<close>

definition bytes2hex :: "bytes \<Rightarrow> pystr \<Rightarrow> pystr" where
  "bytes2hex b sep = (case b of [] \<Rightarrow> []
     | x # xs \<Rightarrow> hex_byte x @ concat (map (\<lambda>y. sep @ hex_byte y) xs))"

section \<open>roundup\<close>

lemma or_mask_eq: "x OR (2 ^ n - 1) = (x div 2 ^ n) * 2 ^ n + (2 ^ n - 1 :: int)"
proof -
  have "x OR mask n = (x div 2 ^ n) * 2 ^ n OR mask n"
  proof (rule bit_eqI)
    fix k
    show "bit (x OR mask n) k \<longleftrightarrow> bit ((x div 2 ^ n) * 2 ^ n OR mask n) k"
      by (auto simp: bit_or_iff bit_mask_iff push_bit_eq_mult [symmetric] drop_bit_eq_div [symmetric]
          bit_push_bit_iff bit_drop_bit_eq)
  qed
  moreover have "(x div 2 ^ n) * 2 ^ n AND mask n = 0"
    by (simp flip: push_bit_eq_mult take_bit_eq_mask) (simp add: take_bit_push_bit)
  then have "(x div 2 ^ n) * 2 ^ n OR mask n = (x div 2 ^ n) * 2 ^ n + mask n"
    by (rule disjunctive_add_eq_or [symmetric])
  ultimately show ?thesis
    by (simp add: mask_eq_exp_minus_1)
qed

lemma roundup_eq: "roundup num bits = ((num - 1) div 2 ^ bits + 1) * 2 ^ bits"
  by (simp add: roundup_def push_bit_eq_mult or_mask_eq algebra_simps)

text \<open>The result is the least multiple of \<open>2 ^ bits\<close> that is not below the number.\<close>

lemma roundup_least:
  shows "2 ^ bits dvd roundup num bits"
    and "num \<le> roundup num bits"
    and "roundup num bits < num + 2 ^ bits"
proof -
  let ?q = "(num - 1) div (2 :: int) ^ bits" and ?r = "(num - 1) mod (2 :: int) ^ bits"
  have e: "?q * 2 ^ bits + ?r = num - 1" "0 \<le> ?r" "?r < 2 ^ bits"
    by (simp_all only: div_mult_mod_eq) simp_all
  have "roundup num bits = ?q * 2 ^ bits + 2 ^ bits"
    by (simp add: roundup_eq algebra_simps)
  then show "num \<le> roundup num bits" "roundup num bits < num + 2 ^ bits"
    using e by linarith+
  show "2 ^ bits dvd roundup num bits"
    by (simp add: roundup_eq)
qed

section \<open>C strings\<close>

lemma find_nul_none: "0 \<notin> set chunk \<Longrightarrow> find_nul chunk = -1"
  by (simp add: find_nul_def)

lemma find_nul_some:
  "0 \<in> set chunk \<Longrightarrow> find_nul chunk = int (length (takeWhile (\<lambda>b. b \<noteq> 0) chunk))"
  by (simp add: find_nul_def)

lemma takeWhile_is_take: "take (length (takeWhile P xs)) xs = takeWhile P xs"
  by (metis takeWhile_eq_take)

lemma takeWhile_take_in:
  "\<exists>x \<in> set (take n xs). \<not> P x \<Longrightarrow> takeWhile P (take n xs) = takeWhile P xs"
  by (metis append_take_drop_id takeWhile_append1)

lemma takeWhile_all: "(\<And>x. x \<in> set (take n xs) \<Longrightarrow> P x) \<Longrightarrow>
   takeWhile P xs = take n xs @ takeWhile P (drop n xs)"
  by (metis append_take_drop_id takeWhile_append2)

text \<open>The bytes from the current position on.\<close>

definition tail_bytes :: "stream \<Rightarrow> bytes" where
  "tail_bytes s = drop (spos s) (sdata s)"

lemma length_tail_bytes: "length (tail_bytes s) = remaining s"
  by (simp add: tail_bytes_def remaining_def)

lemma s_read_chunk:
  "s_read CHUNKSIZE s = (Ok (take 64 (tail_bytes s)), s\<lparr>spos := spos s + min 64 (remaining s)\<rparr>)"
  by (simp add: s_read_def CHUNKSIZE_def tail_bytes_def remaining_def Let_def min.commute)

lemma cstring_loop_step:
  "cstring_loop (Suc fuel) chunks s =
     (let chunk = take 64 (tail_bytes s); s1 = s\<lparr>spos := spos s + min 64 (remaining s)\<rparr> in
      if 0 \<in> set chunk then (Ok (chunks @ [takeWhile (\<lambda>b. b \<noteq> 0) chunk], True), s1)
      else if remaining s < 64 then (Ok (chunks @ [chunk], False), s1)
      else cstring_loop fuel (chunks @ [chunk]) s1)"
proof -
  have short: "int (length (take 64 (tail_bytes s))) < CHUNKSIZE \<longleftrightarrow> remaining s < 64"
    by (auto simp: CHUNKSIZE_def length_tail_bytes min_def)
  show ?thesis
    unfolding cstring_loop.simps mbind_Ok [OF s_read_chunk] Let_def short
    by (cases "0 \<in> set (take 64 (tail_bytes s))")
      (simp_all only: find_nul_some find_nul_none takeWhile_is_take nat_int if_True if_False ret_run not_False_eq_True, simp_all)
qed

lemma tail_bytes_advance:
  "tail_bytes (s\<lparr>spos := spos s + k\<rparr>) = drop k (tail_bytes s)"
  by (simp add: tail_bytes_def add.commute)

lemma remaining_advance: "remaining (s\<lparr>spos := spos s + k\<rparr>) = remaining s - k"
  by (simp add: remaining_def)

lemma set_chunks: "set xs = set (take k xs) \<union> set (drop k xs)"
  by (metis append_take_drop_id set_append)

lemma cstring_loop_found:
  assumes "0 \<in> set (tail_bytes s)" "remaining s < 64 * fuel"
  shows "\<exists>cs s'. cstring_loop fuel chunks s = (Ok (cs, True), s') \<and> sdata s' = sdata s \<and>
    concat cs = concat chunks @ takeWhile (\<lambda>b. b \<noteq> 0) (tail_bytes s)"
  using assms
proof (induction fuel arbitrary: s chunks)
  case 0
  then show ?case by simp
next
  case (Suc fuel)
  let ?chunk = "take 64 (tail_bytes s)"
  show ?case
  proof (cases "0 \<in> set ?chunk")
    case True
    then have "takeWhile (\<lambda>b. b \<noteq> 0) ?chunk = takeWhile (\<lambda>b. b \<noteq> 0) (tail_bytes s)"
      by (intro takeWhile_take_in) auto
    with True show ?thesis
      by (simp only: cstring_loop_step Let_def if_True) simp
  next
    case False
    with Suc.prems(1) set_chunks [of "tail_bytes s" 64] have nz: "0 \<in> set (drop 64 (tail_bytes s))"
      by auto
    then have "64 < remaining s"
      by (metis drop_all empty_iff length_tail_bytes linorder_not_le list.set(1))
    then have s1: "s\<lparr>spos := spos s + min 64 (remaining s)\<rparr> = s\<lparr>spos := spos s + 64\<rparr>"
      and nl: "\<not> remaining s < 64" by simp_all
    have tw: "takeWhile (\<lambda>b. b \<noteq> 0) (tail_bytes s) =
        ?chunk @ takeWhile (\<lambda>b. b \<noteq> 0) (drop 64 (tail_bytes s))"
      by (rule takeWhile_all) (use False in auto)
    have "\<exists>cs s'. cstring_loop fuel (chunks @ [?chunk]) (s\<lparr>spos := spos s + 64\<rparr>) = (Ok (cs, True), s') \<and>
        sdata s' = sdata (s\<lparr>spos := spos s + 64\<rparr>) \<and>
        concat cs = concat (chunks @ [?chunk]) @
          takeWhile (\<lambda>b. b \<noteq> 0) (tail_bytes (s\<lparr>spos := spos s + 64\<rparr>))"
      by (rule Suc.IH) (use nz Suc.prems(2) nl in \<open>simp_all add: tail_bytes_advance remaining_advance\<close>)
    with False nl tw show ?thesis
      by (simp only: cstring_loop_step Let_def s1 if_False) (simp add: tail_bytes_advance)
  qed
qed

lemma cstring_loop_missing:
  assumes "0 \<notin> set (tail_bytes s)" "remaining s < 64 * fuel"
  shows "\<exists>cs s'. cstring_loop fuel chunks s = (Ok (cs, False), s') \<and> sdata s' = sdata s"
  using assms
proof (induction fuel arbitrary: s chunks)
  case 0
  then show ?case by simp
next
  case (Suc fuel)
  let ?chunk = "take 64 (tail_bytes s)"
  from Suc.prems(1) set_chunks [of "tail_bytes s" 64]
  have nz: "0 \<notin> set ?chunk" "0 \<notin> set (drop 64 (tail_bytes s))" by auto
  show ?case
  proof (cases "remaining s < 64")
    case True
    with nz show ?thesis
      by (simp only: cstring_loop_step Let_def if_False if_True) simp
  next
    case False
    then have s1: "s\<lparr>spos := spos s + min 64 (remaining s)\<rparr> = s\<lparr>spos := spos s + 64\<rparr>" by simp
    have "\<exists>cs s'. cstring_loop fuel (chunks @ [?chunk]) (s\<lparr>spos := spos s + 64\<rparr>) = (Ok (cs, False), s') \<and>
        sdata s' = sdata (s\<lparr>spos := spos s + 64\<rparr>)"
      by (rule Suc.IH) (use nz Suc.prems(2) False in \<open>simp_all add: tail_bytes_advance remaining_advance\<close>)
    with False nz show ?thesis
      by (simp only: cstring_loop_step Let_def s1 if_False) simp
  qed
qed

text \<open>What is at a position of the stream's data.\<close>

definition cstring_at :: "bytes \<Rightarrow> nat \<Rightarrow> bytes option" where
  "cstring_at d p = (if 0 \<in> set (drop p d) then Some (takeWhile (\<lambda>b. b \<noteq> 0) (drop p d)) else None)"

lemma parse_cstring_at:
  assumes "0 \<le> p" "p < 2 ^ 63"
  shows "\<exists>s'. parse_cstring_from_stream (Some p) s = (Ok (cstring_at (sdata s) (nat p)), s') \<and>
    sdata s' = sdata s"
proof -
  let ?s = "s\<lparr>spos := nat p\<rparr>"
  let ?fuel = "Suc (remaining ?s div 64)"
  have fuel: "remaining ?s < 64 * ?fuel" by presburger
  have at: "tail_bytes ?s = drop (nat p) (sdata s)" by (simp add: tail_bytes_def)
  have run: "parse_cstring_from_stream (Some p) s =
      mbind (cstring_loop ?fuel []) (\<lambda>(chunks, found). ret (if found then Some (concat chunks) else None)) ?s"
    using assms by (simp add: parse_cstring_from_stream_def mbind_Ok [OF s_seek_ok] del: cstring_loop.simps)
  show ?thesis
  proof (cases "0 \<in> set (tail_bytes ?s)")
    case True
    from cstring_loop_found [OF this fuel, of "[]"] show ?thesis
      using True by (auto simp: run mbind_Ok cstring_at_def at simp del: cstring_loop.simps)
  next
    case False
    from cstring_loop_missing [OF this fuel, of "[]"] show ?thesis
      using False by (auto simp: run mbind_Ok cstring_at_def at simp del: cstring_loop.simps)
  qed
qed

end
