(* ===== verification/ConstructFacts.thy ===== *)
theory ConstructFacts
  imports CommonUtils
begin

text \<open>
  The contract of a fixed-size format, as the locale \<open>fixed_format\<close>: what the code that parses
  headers and tables relies on.  A format of size \<open>n\<close> with the decoding function \<open>f\<close> consumes
  exactly the \<open>n\<close> bytes at the stream's position and yields what \<open>f\<close> makes of them; when fewer
  bytes are left, or \<open>f\<close> rejects them, it raises a construct error.  The introduction rules
  derive the contract of a composed format from those of its parts, so that the layouts in
  \<^verbatim>\<open>ElfFormats\<close> are obtained by composing them.

  \<open>B\<close> is the set of byte values the stream may hold (all, or the bits 0 and 1 inside a bit
  struct), \<open>K\<close> the names of the context that are known to hold integers.
\<close>

section \<open>Decoding and encoding with a table\<close>

definition enum_decode :: "enum \<Rightarrow> int \<Rightarrow> val res" where
  "enum_decode e i = mapping_code (reverse_mapping (enum_items (fst e))) (snd e) (VInt i)"

definition enum_encode :: "enum \<Rightarrow> val \<Rightarrow> val res" where
  "enum_encode e v = mapping_code (enum_items (fst e)) (snd e) v"

definition distinct_values :: "enum \<Rightarrow> bool" where
  "distinct_values e \<longleftrightarrow> distinct (map snd (fst e))"

fun ascending :: "int list \<Rightarrow> bool" where
  "ascending [] = True"
| "ascending [x] = True"
| "ascending (x # y # zs) = (x < y \<and> ascending (y # zs))"

lemma ascending_above: "ascending (x # zs) \<Longrightarrow> z \<in> set zs \<Longrightarrow> x < z"
  by (induction zs arbitrary: x) fastforce+

lemma ascending_distinct: "ascending xs \<Longrightarrow> distinct xs"
proof (induction xs)
  case (Cons x xs)
  then have "x \<notin> set xs"
    using ascending_above [of x xs x] by auto
  moreover have "ascending xs"
    using Cons.prems by (cases xs) auto
  ultimately show ?case
    using Cons.IH by simp
qed simp

lemma distinct_values_ascending: "ascending (map snd t) \<Longrightarrow> distinct_values (t, d)"
  by (simp add: distinct_values_def ascending_distinct)

lemma vlookup_items_first:
  assumes "(n, v) \<in> set t"
  shows "\<exists>v'. vlookup (enum_items t) (VStr (lit n)) = Some (VInt v') \<and> (n, v') \<in> set t"
  using assms by (induction t) (auto simp: enum_items_def)

lemma vlookup_append: "vlookup (xs @ ys) k = (case vlookup xs k of None \<Rightarrow> vlookup ys k | Some a \<Rightarrow> Some a)"
  by (induction xs) auto

lemma vlookup_reverse_None:
  "v \<notin> snd ` set t \<Longrightarrow> vlookup (reverse_mapping (enum_items t)) (VInt v) = None"
  by (induction t) (auto simp: reverse_mapping_def enum_items_def vlookup_append)

lemma vlookup_reverse_items:
  "(n, v) \<in> set t \<Longrightarrow> distinct (map snd t) \<Longrightarrow>
   vlookup (reverse_mapping (enum_items t)) (VInt v) = Some (VStr (lit n))"
proof (induction t)
  case (Cons p t)
  have step: "vlookup (reverse_mapping (enum_items (p # t))) (VInt v) =
      (case vlookup (reverse_mapping (enum_items t)) (VInt v) of
         None \<Rightarrow> if snd p = v then Some (VStr (lit (fst p))) else None | Some a \<Rightarrow> Some a)"
    by (cases p) (simp add: reverse_mapping_def enum_items_def vlookup_append cong: option.case_cong)
  show ?case
  proof (cases "p = (n, v)")
    case True
    then have "v \<notin> snd ` set t" using Cons.prems(2) by auto
    with True step show ?thesis by (simp add: vlookup_reverse_None)
  next
    case False
    with Cons step show ?thesis by simp
  qed
qed simp

text \<open>A value that has a name decodes to it, and the name encodes back to a value that decodes
  to it again, when no two names of the table share a value.\<close>

lemma enum_decode_named:
  "distinct_values e \<Longrightarrow> (n, v) \<in> set (fst e) \<Longrightarrow> enum_decode e v = Ok (VStr (lit n))"
  by (simp add: enum_decode_def mapping_code_def vlookup_reverse_items distinct_values_def)

lemma enum_decode_unnamed:
  "v \<notin> snd ` set (fst e) \<Longrightarrow> enum_decode e v =
     (case snd e of NoDefault \<Rightarrow> Err MappingError | PassDefault \<Rightarrow> Ok (VInt v) | ValDefault x \<Rightarrow> Ok x)"
  by (simp add: enum_decode_def mapping_code_def vlookup_reverse_None)

lemma enum_encode_named:
  assumes "(n, v) \<in> set (fst e)"
  shows "\<exists>v'. enum_encode e (VStr (lit n)) = Ok (VInt v') \<and> (n, v') \<in> set (fst e)"
  using vlookup_items_first [OF assms] by (auto simp: enum_encode_def mapping_code_def)

section \<open>Runs\<close>

lemma mbind_ctx [simp]:
  "mbind get_ctx g s = g (pctx s) s"
  "mbind (put_ctx c) h s = h () (s\<lparr>pctx := c\<rparr>)"
  "mbind (set_ctx k v) h s = h () (s\<lparr>pctx := dput k v (pctx s)\<rparr>)"
  "mbind (del_ctx k) h s = h () (s\<lparr>pctx := AList.delete k (pctx s)\<rparr>)"
  by (simp_all add: mbind_def)

lemma is_flag_EMBED: "is_flag fl FLAG_EMBED \<longleftrightarrow> bit fl 2"
  using bit_iff_and_push_bit_not_eq_0 [of fl 2] by (simp add: is_flag_def flag_defs)

lemma embed_flags [simp]:
  "is_flag (set_flag fl FLAG_DYNAMIC) FLAG_EMBED = is_flag fl FLAG_EMBED"
  "is_flag (set_flag fl 0) FLAG_EMBED = is_flag fl FLAG_EMBED"
  "is_flag (clear_flag fl FLAG_DYNAMIC) FLAG_EMBED = is_flag fl FLAG_EMBED"
  "is_flag (clear_flag fl FLAG_COPY_CONTEXT) FLAG_EMBED = is_flag fl FLAG_EMBED"
  "is_flag (clear_flag fl 0) FLAG_EMBED = is_flag fl FLAG_EMBED"
  "\<not> is_flag (clear_flag fl FLAG_EMBED) FLAG_EMBED"
  unfolding is_flag_EMBED
  by (simp_all add: set_flag_def clear_flag_def bit_or_iff bit_and_iff bit_not_iff flag_defs)

section \<open>The contract\<close>

definition fmt_ctx :: "string set \<Rightarrow> ctx \<Rightarrow> bool" where
  "fmt_ctx K c \<longleftrightarrow> map_of c ''<obj>'' = None \<and> (\<forall>k \<in> K. \<exists>i. map_of c k = Some (VInt i))"

definition advance :: "nat \<Rightarrow> pst \<Rightarrow> pst" where
  "advance n s = s\<lparr>pstm := (pstm s)\<lparr>spos := spos (pstm s) + n\<rparr>\<rparr>"

lemma advance_sel [simp]:
  "pctx (advance n s) = pctx s" "sdata (pstm (advance n s)) = sdata (pstm s)"
  "spos (pstm (advance n s)) = spos (pstm s) + n"
  by (simp_all add: advance_def)

lemma advance_advance [simp]: "advance n (advance m s) = advance (m + n) s"
  by (simp add: advance_def add.assoc)

lemma advance_0 [simp]: "advance 0 s = s"
  by (simp add: advance_def)

lemma advance_pctx [simp]: "(advance n s)\<lparr>pctx := c\<rparr> = advance n (s\<lparr>pctx := c\<rparr>)"
  by (simp add: advance_def)

lemma tail_advance [simp]: "tail_bytes (pstm (advance n s)) = drop n (tail_bytes (pstm s))"
  by (simp add: advance_def tail_bytes_advance)

lemma remaining_advance_pst [simp]: "remaining (pstm (advance n s)) = remaining (pstm s) - n"
  by (simp add: advance_def remaining_advance)

abbreviation ptail :: "pst \<Rightarrow> bytes" where
  "ptail s \<equiv> tail_bytes (pstm s)"

text \<open>A run that raises a construct error and leaves the data alone.\<close>

definition fails :: "pst \<Rightarrow> 'a res \<times> pst \<Rightarrow> bool" where
  "fails s out \<longleftrightarrow> (\<exists>e s'. out = (Err e, s') \<and> is_ConstructError e \<and>
     sdata (pstm s') = sdata (pstm s))"

locale fixed_format =
  fixes B :: "byte set" and K :: "string set" and sc :: con and n :: nat
    and f :: "ctx \<Rightarrow> bytes \<Rightarrow> val option"
  assumes not_embedded: "\<not> is_flag (con_flags sc) FLAG_EMBED"
    and size: "con_sizeof sc c = Ok (int n)"
    and parse_ok: "\<lbrakk>fmt_ctx K (pctx s); set (ptail s) \<subseteq> B; n \<le> length (ptail s);
        f (pctx s) (take n (ptail s)) = Some v\<rbrakk> \<Longrightarrow> con_parse sc s = (Ok v, advance n s)"
    and parse_fail: "\<lbrakk>fmt_ctx K (pctx s); set (ptail s) \<subseteq> B;
        length (ptail s) < n \<or> f (pctx s) (take n (ptail s)) = None\<rbrakk> \<Longrightarrow> fails s (con_parse sc s)"

section \<open>Atomic formats\<close>

lemma fails_raise: "is_ConstructError e \<Longrightarrow> sdata (pstm s') = sdata (pstm s) \<Longrightarrow> fails s (Err e, s')"
  by (simp add: fails_def)

lemma read_stream_enough:
  "n \<le> length (ptail s) \<Longrightarrow> n < 2 ^ 63 \<Longrightarrow> read_stream (int n) s = (Ok (take n (ptail s)), advance n s)"
proof -
  assume n: "n \<le> length (ptail s)" "n < 2 ^ 63"
  then have "(int n :: int) < 2 ^ 63"
    by (metis of_nat_less_numeral_power_cancel_iff)
  then show ?thesis
    using n by (simp add: read_stream_def mbind_def on_stream_run s_read_def Let_def tail_bytes_def
        advance_def min_def)
qed

lemma read_stream_short:
  "length (ptail s) < n \<Longrightarrow> n < 2 ^ 63 \<Longrightarrow>
   \<exists>s'. read_stream (int n) s = (Err FieldError, s') \<and> pctx s' = pctx s \<and>
        sdata (pstm s') = sdata (pstm s)"
proof -
  assume n: "length (ptail s) < n" "n < 2 ^ 63"
  then have "(int n :: int) < 2 ^ 63"
    by (metis of_nat_less_numeral_power_cancel_iff)
  then show ?thesis
    using n by (auto simp: read_stream_def mbind_def on_stream_run s_read_def Let_def tail_bytes_def min_def)
qed

named_theorems formats \<open>introduction rules of the contract\<close>

lemma is_flag_0 [simp]: "\<not> is_flag 0 fl"
  by (simp add: is_flag_def)

lemma format_StaticField [formats]:
  assumes "l = int n" "n < 2 ^ 63"
  shows "fixed_format B K (StaticFieldC nm l) n (\<lambda>c b. Some (VBytes b))"
proof
  fix s :: pst and v
  assume "n \<le> length (ptail s)" "Some (VBytes (take n (ptail s))) = Some v"
  then show "con_parse (StaticFieldC nm l) s = (Ok v, advance n s)"
    using assms by (simp add: StaticField_parse_def mbind_Ok [OF read_stream_enough])
next
  fix s :: pst
  assume "length (ptail s) < n \<or> Some (VBytes (take n (ptail s))) = None"
  then obtain s' where "read_stream (int n) s = (Err FieldError, s')" "sdata (pstm s') = sdata (pstm s)"
    using read_stream_short [of s n] assms by auto
  then show "fails s (con_parse (StaticFieldC nm l) s)"
    using assms by (simp add: StaticField_parse_def mbind_Err fails_raise)
qed (simp_all add: assms)

text \<open>The number a field of format \<open>fm\<close> holds.\<close>

definition num :: "endian \<Rightarrow> fmt \<Rightarrow> bytes \<Rightarrow> int" where
  "num e fm b = (let v = le_uint (order_bytes e b) in
     if fmt_signed fm then to_signed (fmt_size fm) v else v)"

lemma fmt_size_small: "fmt_size fm < 2 ^ 63"
  using fmt_size_le [of fm] by simp

lemma format_FormatField [formats]:
  "fixed_format B K (FormatFieldC nm e fm) (fmt_size fm) (\<lambda>c b. Some (VInt (num e fm b)))"
proof
  fix s :: pst and v
  assume n: "fmt_size fm \<le> length (ptail s)"
    and v: "Some (VInt (num e fm (take (fmt_size fm) (ptail s)))) = Some v"
  have "unpack e fm (take (fmt_size fm) (ptail s)) = Ok (num e fm (take (fmt_size fm) (ptail s)))"
    using n by (subst unpack_ok) (simp_all add: num_def Let_def min_def)
  moreover have "read_stream (int (fmt_size fm)) s =
      (Ok (take (fmt_size fm) (ptail s)), advance (fmt_size fm) s)"
    by (rule read_stream_enough [OF n fmt_size_small])
  ultimately show "con_parse (FormatFieldC nm e fm) s = (Ok v, advance (fmt_size fm) s)"
    using v by (auto simp: FormatField_parse_def mbind_Ok intro!: try_except_Ok)
next
  fix s :: pst
  assume "length (ptail s) < fmt_size fm \<or> Some (VInt (num e fm (take (fmt_size fm) (ptail s)))) = None"
  then obtain s' where "read_stream (int (fmt_size fm)) s = (Err FieldError, s')"
    "sdata (pstm s') = sdata (pstm s)"
    using read_stream_short [of s "fmt_size fm"] fmt_size_small by auto
  then show "fails s (con_parse (FormatFieldC nm e fm) s)"
    by (simp add: FormatField_parse_def try_except_def mbind_Err fails_raise)
qed simp_all

lemma format_Value [formats]:
  assumes "\<And>c. fmt_ctx K c \<Longrightarrow> \<exists>v. g c = Ok v"
  shows "fixed_format B K (ValueC nm g) 0 (\<lambda>c b. case g c of Ok v \<Rightarrow> Some v | _ \<Rightarrow> None)"
proof
  fix s :: pst and v
  assume "(case g (pctx s) of Ok v \<Rightarrow> Some v | _ \<Rightarrow> None) = Some v"
  then show "con_parse (ValueC nm g) s = (Ok v, advance 0 s)"
    by (auto simp: Value_parse_def mbind_def split: res.splits)
next
  fix s :: pst
  assume "fmt_ctx K (pctx s)" and "length (ptail s) < 0 \<or> (case g (pctx s) of Ok v \<Rightarrow> Some v | _ \<Rightarrow> None) = None"
  then show "fails s (con_parse (ValueC nm g) s)"
    using assms [of "pctx s"] by auto
qed (simp_all add: flag_defs is_flag_def)

section \<open>Adapters\<close>

text \<open>
  An adapter over a format: the decoding either gives a value or a construct error on every
  value the inner format can yield.
\<close>

lemma format_Adapter:
  assumes "fixed_format B K sc n f"
    and dec: "\<And>c b v. set b \<subseteq> B \<Longrightarrow> length b = n \<Longrightarrow> f c b = Some v \<Longrightarrow>
      (case adapter_decode a (Ok (int n)) c v of Ok w \<Rightarrow> g c v = Some w
       | Err e \<Rightarrow> is_ConstructError e \<and> g c v = None | NoFuel \<Rightarrow> False)"
  shows "fixed_format B K (AdapterC sc a) n (\<lambda>c b. case f c b of None \<Rightarrow> None | Some v \<Rightarrow> g c v)"
proof
  fix s :: pst and w
  assume s: "fmt_ctx K (pctx s)" "set (ptail s) \<subseteq> B" "n \<le> length (ptail s)"
    and w: "(case f (pctx s) (take n (ptail s)) of None \<Rightarrow> None | Some v \<Rightarrow> g (pctx s) v) = Some w"
  then obtain v where v: "f (pctx s) (take n (ptail s)) = Some v" and gw: "g (pctx s) v = Some w"
    by (auto split: option.splits)
  have "set (take n (ptail s)) \<subseteq> B" using s(2) set_take_subset by fastforce
  from dec [OF this _ v] s(3) gw have "adapter_decode a (Ok (int n)) (pctx s) v = Ok w"
    by (auto split: res.splits)
  with s v show "con_parse (AdapterC sc a) s = (Ok w, advance n s)"
    by (simp add: Adapter_parse_def mbind_Ok [OF fixed_format.parse_ok [OF assms(1)]]
        fixed_format.size [OF assms(1)])
next
  fix s :: pst
  assume s: "fmt_ctx K (pctx s)" "set (ptail s) \<subseteq> B"
    and bad: "length (ptail s) < n \<or>
      (case f (pctx s) (take n (ptail s)) of None \<Rightarrow> None | Some v \<Rightarrow> g (pctx s) v) = None"
  show "fails s (con_parse (AdapterC sc a) s)"
  proof (cases "length (ptail s) < n \<or> f (pctx s) (take n (ptail s)) = None")
    case True
    from fixed_format.parse_fail [OF assms(1) s this] show ?thesis
      by (auto simp: fails_def Adapter_parse_def mbind_Err)
  next
    case False
    then obtain v where v: "f (pctx s) (take n (ptail s)) = Some v" and n: "n \<le> length (ptail s)"
      by auto
    with bad have "g (pctx s) v = None" by simp
    have "set (take n (ptail s)) \<subseteq> B" using s(2) set_take_subset by fastforce
    from dec [OF this _ v] n \<open>g (pctx s) v = None\<close> obtain e
      where "adapter_decode a (Ok (int n)) (pctx s) v = Err e" "is_ConstructError e"
      by (auto split: res.splits)
    with s n v show ?thesis
      by (simp add: Adapter_parse_def mbind_Ok [OF fixed_format.parse_ok [OF assms(1)]]
          fixed_format.size [OF assms(1)] fails_def)
  qed
qed (simp_all add: fixed_format.not_embedded [OF assms(1)] fixed_format.size [OF assms(1)])

definition enum_value :: "enum \<Rightarrow> int \<Rightarrow> val option" where
  "enum_value e i = (case enum_decode e i of Ok v \<Rightarrow> Some v | _ \<Rightarrow> None)"

lemma format_Enum [formats]:
  assumes "fixed_format B K sc n (\<lambda>c b. Some (VInt (h b)))"
  shows "fixed_format B K (Enum sc e) n (\<lambda>c b. enum_value e (h b))"
proof -
  let ?g = "\<lambda>c v. case v of VInt i \<Rightarrow> enum_value e i | _ \<Rightarrow> None"
  have "fixed_format B K (AdapterC sc (MappingA (reverse_mapping (enum_items (fst e))) (enum_items (fst e)) (snd e) (snd e))) n
      (\<lambda>c b. case Some (VInt (h b)) of None \<Rightarrow> None | Some v \<Rightarrow> ?g c v)"
    by (rule format_Adapter [OF assms])
      (auto simp: enum_value_def enum_decode_def mapping_code_def split: res.splits option.splits mdefault.splits)
  then show ?thesis
    by (simp add: Enum_def SymmetricMapping_def)
qed

lemma format_Padding [formats]:
  assumes "l = int n" "n < 2 ^ 63"
  shows "fixed_format B K (Padding l) n (\<lambda>c b. Some (VBytes b))"
proof -
  have "fixed_format B K (AdapterC (StaticFieldC None l) (PaddingA [0] False)) n
      (\<lambda>c b. case Some (VBytes b) of None \<Rightarrow> None | Some v \<Rightarrow> Some v)"
    by (rule format_Adapter [OF format_StaticField [OF assms]]) (simp add: Padding_decode_def)
  then show ?thesis
    by (simp add: Padding_def Field_def)
qed

lemma format_String [formats]:
  assumes "l = int n" "n < 2 ^ 63"
  shows "fixed_format B K (String nm l) n (\<lambda>c b. Some (VBytes b))"
proof -
  have "fixed_format B K (AdapterC (StaticFieldC (Some nm) l) (StringA None)) n
      (\<lambda>c b. case Some (VBytes b) of None \<Rightarrow> None | Some v \<Rightarrow> Some v)"
    by (rule format_Adapter [OF format_StaticField [OF assms]]) (simp add: String_decode_def)
  then show ?thesis
    by (simp add: String_def Field_def)
qed

lemma format_Rename [formats]:
  assumes "fixed_format B K sc n f"
  shows "fixed_format B K (Rename nm sc) n f"
proof
  show "\<not> is_flag (con_flags (Rename nm sc)) FLAG_EMBED"
    using fixed_format.not_embedded [OF assms]
    by (simp add: Rename_def clear_flag_def set_flag_def is_flag_def)
qed (use fixed_format.parse_ok [OF assms] fixed_format.parse_fail [OF assms]
      fixed_format.size [OF assms] in \<open>auto simp: Rename_def\<close>)

text \<open>A bit field: the number its bits denote, most significant first.\<close>

definition bits_value :: "bytes \<Rightarrow> int" where
  "bits_value b = foldl (\<lambda>a x. 2 * a + uint x) 0 b"

lemma bti_loop_bits:
  "set b \<subseteq> {0, 1} \<Longrightarrow> bti_loop b n = Ok (foldl (\<lambda>a x. 2 * a + uint x) n b)"
proof (induction b arbitrary: n)
  case (Cons x b)
  then have "x = 0 \<or> x = 1" by auto
  moreover have "n * 2 OR 1 = n * 2 + 1" for n :: int
    by (simp add: or_one_eq)
  ultimately show ?case
    using Cons by (auto simp: bit_values_def push_bit_eq_mult mult.commute simp del: push_bit_of_Suc_0 push_bit_Suc)
qed simp

lemma format_BitField [formats]:
  assumes "l = int n" "n < 2 ^ 63"
  shows "fixed_format {0, 1} K (BitField nm l) n (\<lambda>c b. Some (VInt (bits_value b)))"
proof -
  let ?g = "\<lambda>c v. case v of VBytes b \<Rightarrow> Some (VInt (bits_value b)) | _ \<Rightarrow> None"
  have "fixed_format {0, 1} K (AdapterC (StaticFieldC (Some nm) l) (BitIntegerA l False False 8)) n
      (\<lambda>c b. case Some (VBytes b) of None \<Rightarrow> None | Some v \<Rightarrow> ?g c v)"
    by (rule format_Adapter [OF format_StaticField [OF assms]])
      (auto simp: BitInteger_decode_def bin_to_int_def bti_loop_bits bits_value_def)
  then show ?thesis
    by (simp add: BitField_def Field_def)
qed

section \<open>Arrays\<close>

definition chunks :: "nat \<Rightarrow> nat \<Rightarrow> bytes \<Rightarrow> bytes list" where
  "chunks k n b = map (\<lambda>i. take n (drop (i * n) b)) [0..<k]"

lemma chunks_Suc: "chunks (Suc k) n b = take n b # chunks k n (drop n b)"
  by (simp add: chunks_def upt_conv_Cons map_Suc_upt [symmetric] comp_def add.commute del: upt_Suc)

lemma chunks_0 [simp]: "chunks 0 n b = []"
  by (simp add: chunks_def)

lemma chunks_take: "k * n \<le> m \<Longrightarrow> chunks k n (take m b) = chunks k n b"
proof (induction k arbitrary: m b)
  case (Suc k)
  then have "n \<le> m" "k * n \<le> m - n" by simp_all
  with Suc.IH [of "m - n" "drop n b"] show ?case
    by (simp add: chunks_Suc drop_take min_def)
qed simp

lemma with_ctx_id: "with_ctx id m s = (case m s of (r, s') \<Rightarrow> (r, s'\<lparr>pctx := pctx s\<rparr>))"
  by (simp add: with_ctx_def)

lemma maybe_copy_ok: "m s = (Ok v, advance n s) \<Longrightarrow> maybe_copy fl m s = (Ok v, advance n s)"
  by (simp add: maybe_copy_def with_ctx_id)

lemma maybe_copy_fails: "fails s (m s) \<Longrightarrow> fails s (maybe_copy fl m s)"
  by (auto simp: maybe_copy_def with_ctx_id fails_def)

lemma set_ptail_advance: "set (ptail s) \<subseteq> B \<Longrightarrow> set (ptail (advance n s)) \<subseteq> B"
  using set_drop_subset by fastforce

lemma times_loop_ok:
  assumes "fixed_format B K sc n f"
  shows "\<lbrakk>fmt_ctx K (pctx s); set (ptail s) \<subseteq> B; k * n \<le> length (ptail s);
      those (map (f (pctx s)) (chunks k n (ptail s))) = Some vs\<rbrakk> \<Longrightarrow>
    times_loop k (maybe_copy fl (con_parse sc)) s = (Ok vs, advance (k * n) s)"
proof (induction k arbitrary: s vs)
  case (Suc k)
  then obtain w ws where w: "f (pctx s) (take n (ptail s)) = Some w" and vs: "vs = w # ws"
    and ws: "those (map (f (pctx s)) (chunks k n (drop n (ptail s)))) = Some ws"
    by (auto simp: chunks_Suc split: option.splits)
  have one: "maybe_copy fl (con_parse sc) s = (Ok w, advance n s)"
    by (rule maybe_copy_ok) (use Suc.prems w in \<open>auto intro!: fixed_format.parse_ok [OF assms]\<close>)
  have "times_loop k (maybe_copy fl (con_parse sc)) (advance n s) = (Ok ws, advance (k * n) (advance n s))"
    by (rule Suc.IH) (use Suc.prems ws set_ptail_advance [of s B n] in auto)
  then show ?case
    by (simp add: mbind_def one vs)
qed simp

lemma times_loop_fails:
  assumes "fixed_format B K sc n f"
  shows "\<lbrakk>fmt_ctx K (pctx s); set (ptail s) \<subseteq> B;
      length (ptail s) < k * n \<or> those (map (f (pctx s)) (chunks k n (ptail s))) = None\<rbrakk> \<Longrightarrow>
    fails s (times_loop k (maybe_copy fl (con_parse sc)) s)"
proof (induction k arbitrary: s)
  case (Suc k)
  let ?p = "maybe_copy fl (con_parse sc)"
  show ?case
  proof (cases "length (ptail s) < n \<or> f (pctx s) (take n (ptail s)) = None")
    case True
    have "fails s (?p s)"
      by (rule maybe_copy_fails) (use Suc.prems True in \<open>auto intro!: fixed_format.parse_fail [OF assms]\<close>)
    then show ?thesis
      by (auto simp: fails_def mbind_Err)
  next
    case False
    then obtain w where w: "f (pctx s) (take n (ptail s)) = Some w" and n: "n \<le> length (ptail s)"
      by auto
    have one: "?p s = (Ok w, advance n s)"
      by (rule maybe_copy_ok) (use Suc.prems w n in \<open>auto intro!: fixed_format.parse_ok [OF assms]\<close>)
    have "length (ptail (advance n s)) < k * n \<or>
        those (map (f (pctx s)) (chunks k n (ptail (advance n s)))) = None"
      using Suc.prems(3) n w by (auto simp: chunks_Suc split: option.splits)
    then have "fails (advance n s) (times_loop k ?p (advance n s))"
      using Suc.prems set_ptail_advance [of s B n] by (intro Suc.IH) auto
    then show ?thesis
      by (auto simp: mbind_def one fails_def)
  qed
qed simp

lemma format_Array [formats]:
  assumes "fixed_format B K sc n f" "count = int k"
  shows "fixed_format B K (Array count sc) (k * n)
    (\<lambda>c b. map_option VList (those (map (f c) (chunks k n b))))"
proof
  show "con_sizeof (Array count sc) c = Ok (int (k * n))" for c
    using fixed_format.size [OF assms(1)] assms(2) by (simp add: Array_def MetaArray_sizeof_def mult.commute)
next
  show "\<not> is_flag (con_flags (Array count sc)) FLAG_EMBED"
    using fixed_format.not_embedded [OF assms(1)]
    by (simp add: Array_def Let_def)
next
  fix s :: pst and v
  assume s: "fmt_ctx K (pctx s)" "set (ptail s) \<subseteq> B" "k * n \<le> length (ptail s)"
    and "map_option VList (those (map (f (pctx s)) (chunks k n (take (k * n) (ptail s))))) = Some v"
  then obtain vs where v: "v = VList vs"
    and vs: "those (map (f (pctx s)) (chunks k n (ptail s))) = Some vs"
    by (auto simp: chunks_take)
  show "con_parse (Array count sc) s = (Ok v, advance (k * n) s)"
    by (simp add: Array_def MetaArray_parse_def assms(2) v mbind_def
        try_except_def times_loop_ok [OF assms(1) s vs])
next
  fix s :: pst
  assume s: "fmt_ctx K (pctx s)" "set (ptail s) \<subseteq> B"
    and "length (ptail s) < k * n \<or>
      map_option VList (those (map (f (pctx s)) (chunks k n (take (k * n) (ptail s))))) = None"
  then have "length (ptail s) < k * n \<or> those (map (f (pctx s)) (chunks k n (ptail s))) = None"
    by (auto simp: chunks_take)
  from times_loop_fails [OF assms(1) s this, of "con_flags sc"]
  show "fails s (con_parse (Array count sc) s)"
    by (auto simp: Array_def MetaArray_parse_def assms(2) fails_def mbind_Err try_except_def)
qed

section \<open>Structures\<close>

text \<open>
  A layout lists, for each field, its name, size and decoding function; a later field may
  look at the earlier ones, which the context then holds.
\<close>

type_synonym field_spec = "string option \<times> nat \<times> (ctx \<Rightarrow> bytes \<Rightarrow> val option)"

fun fields_value :: "field_spec list \<Rightarrow> ctx \<Rightarrow> (string \<times> val) list \<Rightarrow> bytes \<Rightarrow> (string \<times> val) list option" where
  "fields_value [] c d b = Some d"
| "fields_value ((nm, n, f) # specs) c d b =
     (case f c (take n b) of
        None \<Rightarrow> None
      | Some v \<Rightarrow> (case nm of
            None \<Rightarrow> fields_value specs c d (drop n b)
          | Some k \<Rightarrow> fields_value specs (dput k v c) (dput k v d) (drop n b)))"

fun layout_size :: "field_spec list \<Rightarrow> nat" where
  "layout_size [] = 0"
| "layout_size ((nm, n, f) # specs) = n + layout_size specs"

inductive fields_format :: "byte set \<Rightarrow> string set \<Rightarrow> con list \<Rightarrow> field_spec list \<Rightarrow> bool" where
  fields_Nil: "fields_format B K [] []"
| fields_Int: "\<lbrakk>fixed_format B K sc n (\<lambda>c b. Some (VInt (h c b))); con_name sc = Some nm; nm \<noteq> ''<obj>'';
     fields_format B (insert nm K) scs specs\<rbrakk> \<Longrightarrow>
   fields_format B K (sc # scs) ((Some nm, n, \<lambda>c b. Some (VInt (h c b))) # specs)"
| fields_Named: "\<lbrakk>fixed_format B K sc n f; con_name sc = Some nm; nm \<noteq> ''<obj>'';
     fields_format B (K - {nm}) scs specs\<rbrakk> \<Longrightarrow>
   fields_format B K (sc # scs) ((Some nm, n, f) # specs)"
| fields_Unnamed: "\<lbrakk>fixed_format B K sc n f; con_name sc = None; fields_format B K scs specs\<rbrakk> \<Longrightarrow>
   fields_format B K (sc # scs) ((None, n, f) # specs)"

abbreviation subs_of :: "con list \<Rightarrow> parser sub list" where
  "subs_of scs \<equiv> zip (map con_name scs) (zip (map con_flags scs) (map con_parse scs))"

lemma fields_format_size:
  "fields_format B K scs specs \<Longrightarrow> sum_sizes (map con_sizeof scs) c = Ok (int (layout_size specs))"
  by (induction rule: fields_format.induct) (simp_all add: fixed_format.size)

lemma fmt_ctx_insert: "fmt_ctx K c \<Longrightarrow> k \<noteq> ''<obj>'' \<Longrightarrow> fmt_ctx (insert k K) (dput k (VInt i) c)"
  by (auto simp: fmt_ctx_def update_conv')

lemma fmt_ctx_remove: "fmt_ctx K c \<Longrightarrow> k \<noteq> ''<obj>'' \<Longrightarrow> fmt_ctx (K - {k}) (dput k v c)"
  by (auto simp: fmt_ctx_def update_conv')

text \<open>One field: it is parsed, or the parse fails there.\<close>

lemma fields_parse_step:
  assumes "fixed_format B K sc n f" "fmt_ctx K (pctx s)" "set (ptail s) \<subseteq> B" "n \<le> length (ptail s)"
    "f (pctx s) (take n (ptail s)) = Some v"
  shows "con_name sc = None \<Longrightarrow> fields_parse False (subs_of (sc # scs)) (VCont d) s =
      fields_parse False (subs_of scs) (VCont d) (advance n s)"
    and "con_name sc = Some nm \<Longrightarrow> fields_parse False (subs_of (sc # scs)) (VCont d) s =
      fields_parse False (subs_of scs) (VCont (dput nm v d)) (advance n (s\<lparr>pctx := dput nm v (pctx s)\<rparr>))"
  using assms fixed_format.not_embedded [OF assms(1)]
  by (simp_all add: mbind_def fixed_format.parse_ok [OF assms(1)] add_field_def)

lemma fields_parse_stop:
  assumes "fixed_format B K sc n f" "fmt_ctx K (pctx s)" "set (ptail s) \<subseteq> B"
    "length (ptail s) < n \<or> f (pctx s) (take n (ptail s)) = None"
  shows "fails s (fields_parse False (subs_of (sc # scs)) (VCont d) s)"
  using fixed_format.parse_fail [OF assms] fixed_format.not_embedded [OF assms(1)]
  by (auto simp: fails_def mbind_def)

lemma ptail_pctx [simp]: "ptail (s\<lparr>pctx := c\<rparr>) = ptail s"
  by simp

lemma fields_parse_ok:
  "fields_format B K scs specs \<Longrightarrow> fmt_ctx K (pctx s) \<Longrightarrow> set (ptail s) \<subseteq> B \<Longrightarrow>
   layout_size specs \<le> length (ptail s) \<Longrightarrow>
   fields_value specs (pctx s) d (take (layout_size specs) (ptail s)) = Some d' \<Longrightarrow>
   \<exists>c'. fields_parse False (subs_of scs) (VCont d) s =
      (Ok (VCont d'), advance (layout_size specs) (s\<lparr>pctx := c'\<rparr>))"
proof (induction arbitrary: s d rule: fields_format.induct)
  case (fields_Nil B K)
  then show ?case by (auto intro: exI [of _ "pctx s"])
next
  case (fields_Int B K sc n h nm scs specs)
  let ?v = "VInt (h (pctx s) (take n (ptail s)))"
  let ?s = "advance n (s\<lparr>pctx := dput nm ?v (pctx s)\<rparr>)"
  have "\<exists>c'. fields_parse False (subs_of scs) (VCont (dput nm ?v d)) ?s =
      (Ok (VCont d'), advance (layout_size specs) (?s\<lparr>pctx := c'\<rparr>))"
    by (rule fields_Int.IH)
      (use fields_Int.prems set_ptail_advance [of s B n] fmt_ctx_insert [OF fields_Int.prems(1) \<open>nm \<noteq> _\<close>]
        in \<open>auto simp: drop_take min_def\<close>)
  moreover have "fields_parse False (subs_of (sc # scs)) (VCont d) s =
      fields_parse False (subs_of scs) (VCont (dput nm ?v d)) ?s"
    by (rule fields_parse_step(2) [OF fields_Int.hyps(1)]) (use fields_Int in auto)
  ultimately show ?case
    by (auto simp del: list.map zip_Cons_Cons)
next
  case (fields_Named B K sc n f nm scs specs)
  then obtain v where v: "f (pctx s) (take n (ptail s)) = Some v"
    by (auto simp: min_def split: option.splits if_splits)
  let ?s = "advance n (s\<lparr>pctx := dput nm v (pctx s)\<rparr>)"
  have "\<exists>c'. fields_parse False (subs_of scs) (VCont (dput nm v d)) ?s =
      (Ok (VCont d'), advance (layout_size specs) (?s\<lparr>pctx := c'\<rparr>))"
    by (rule fields_Named.IH)
      (use fields_Named.prems v set_ptail_advance [of s B n] fmt_ctx_remove [OF fields_Named.prems(1) \<open>nm \<noteq> _\<close>]
        in \<open>auto simp: drop_take min_def\<close>)
  moreover have "fields_parse False (subs_of (sc # scs)) (VCont d) s =
      fields_parse False (subs_of scs) (VCont (dput nm v d)) ?s"
    by (rule fields_parse_step(2) [OF fields_Named.hyps(1)]) (use fields_Named v in auto)
  ultimately show ?case
    by (auto simp del: list.map zip_Cons_Cons)
next
  case (fields_Unnamed B K sc n f scs specs)
  then obtain v where v: "f (pctx s) (take n (ptail s)) = Some v"
    by (auto simp: min_def split: option.splits if_splits)
  have "\<exists>c'. fields_parse False (subs_of scs) (VCont d) (advance n s) =
      (Ok (VCont d'), advance (layout_size specs) ((advance n s)\<lparr>pctx := c'\<rparr>))"
    by (rule fields_Unnamed.IH)
      (use fields_Unnamed.prems v set_ptail_advance [of s B n] in \<open>auto simp: drop_take min_def\<close>)
  moreover have "fields_parse False (subs_of (sc # scs)) (VCont d) s =
      fields_parse False (subs_of scs) (VCont d) (advance n s)"
    by (rule fields_parse_step(1) [OF fields_Unnamed.hyps(1)]) (use fields_Unnamed v in auto)
  ultimately show ?case
    by (auto simp del: list.map zip_Cons_Cons)
qed

lemma fails_trans: "fails s' r \<Longrightarrow> sdata (pstm s') = sdata (pstm s) \<Longrightarrow> fails s r"
  by (auto simp: fails_def)

lemma fields_parse_fails:
  "fields_format B K scs specs \<Longrightarrow> fmt_ctx K (pctx s) \<Longrightarrow> set (ptail s) \<subseteq> B \<Longrightarrow>
   length (ptail s) < layout_size specs \<or>
     fields_value specs (pctx s) d (take (layout_size specs) (ptail s)) = None \<Longrightarrow>
   fails s (fields_parse False (subs_of scs) (VCont d) s)"
proof (induction arbitrary: s d rule: fields_format.induct)
  case (fields_Nil B K)
  then show ?case by simp
next
  case (fields_Int B K sc n h nm scs specs)
  show ?case
  proof (cases "length (ptail s) < n")
    case True
    then show ?thesis
      by (intro fields_parse_stop [OF fields_Int.hyps(1) fields_Int.prems(1, 2)]) simp
  next
    case False
    let ?v = "VInt (h (pctx s) (take n (ptail s)))"
    let ?s = "advance n (s\<lparr>pctx := dput nm ?v (pctx s)\<rparr>)"
    have "fails ?s (fields_parse False (subs_of scs) (VCont (dput nm ?v d)) ?s)"
      by (rule fields_Int.IH)
        (use False fields_Int.prems set_ptail_advance [of s B n] fmt_ctx_insert [OF fields_Int.prems(1) \<open>nm \<noteq> _\<close>]
          in \<open>auto simp: drop_take min_def\<close>)
    moreover have "fields_parse False (subs_of (sc # scs)) (VCont d) s =
        fields_parse False (subs_of scs) (VCont (dput nm ?v d)) ?s"
      by (rule fields_parse_step(2) [OF fields_Int.hyps(1)]) (use False fields_Int in auto)
    ultimately show ?thesis
      by (auto simp del: list.map zip_Cons_Cons elim: fails_trans)
  qed
next
  case (fields_Named B K sc n f nm scs specs)
  show ?case
  proof (cases "length (ptail s) < n \<or> f (pctx s) (take n (ptail s)) = None")
    case True
    then show ?thesis
      by (rule fields_parse_stop [OF fields_Named.hyps(1) fields_Named.prems(1, 2)])
  next
    case False
    then obtain v where v: "f (pctx s) (take n (ptail s)) = Some v" and n: "n \<le> length (ptail s)" by auto
    let ?s = "advance n (s\<lparr>pctx := dput nm v (pctx s)\<rparr>)"
    have "fails ?s (fields_parse False (subs_of scs) (VCont (dput nm v d)) ?s)"
      by (rule fields_Named.IH)
        (use n v fields_Named.prems set_ptail_advance [of s B n] fmt_ctx_remove [OF fields_Named.prems(1) \<open>nm \<noteq> _\<close>]
          in \<open>auto simp: drop_take min_def\<close>)
    moreover have "fields_parse False (subs_of (sc # scs)) (VCont d) s =
        fields_parse False (subs_of scs) (VCont (dput nm v d)) ?s"
      by (rule fields_parse_step(2) [OF fields_Named.hyps(1)]) (use n v fields_Named in auto)
    ultimately show ?thesis
      by (auto simp del: list.map zip_Cons_Cons elim: fails_trans)
  qed
next
  case (fields_Unnamed B K sc n f scs specs)
  show ?case
  proof (cases "length (ptail s) < n \<or> f (pctx s) (take n (ptail s)) = None")
    case True
    then show ?thesis
      by (rule fields_parse_stop [OF fields_Unnamed.hyps(1) fields_Unnamed.prems(1, 2)])
  next
    case False
    then obtain v where v: "f (pctx s) (take n (ptail s)) = Some v" and n: "n \<le> length (ptail s)" by auto
    have "fails (advance n s) (fields_parse False (subs_of scs) (VCont d) (advance n s))"
      by (rule fields_Unnamed.IH)
        (use n v fields_Unnamed.prems set_ptail_advance [of s B n] in \<open>auto simp: drop_take min_def\<close>)
    moreover have "fields_parse False (subs_of (sc # scs)) (VCont d) s =
        fields_parse False (subs_of scs) (VCont d) (advance n s)"
      by (rule fields_parse_step(1) [OF fields_Unnamed.hyps(1)]) (use n v fields_Unnamed in auto)
    ultimately show ?thesis
      by (auto simp del: list.map zip_Cons_Cons elim: fails_trans)
  qed
qed

lemma fmt_ctx_nest: "fmt_ctx {} (nest_ctx c)"
  by (simp add: fmt_ctx_def nest_ctx_def)

lemma with_ctx_nest:
  "with_ctx nest_ctx m s = (case m (s\<lparr>pctx := nest_ctx (pctx s)\<rparr>) of (r, s') \<Rightarrow> (r, s'\<lparr>pctx := pctx s\<rparr>))"
  by (simp add: with_ctx_def)

lemma format_Struct [formats]:
  assumes "fields_format B {} scs specs"
  shows "fixed_format B K (Struct nm scs) (layout_size specs)
    (\<lambda>c b. map_option VCont (fields_value specs (nest_ctx c) [] b))"
proof
  show "con_sizeof (Struct nm scs) c = Ok (int (layout_size specs))" for c
    by (simp add: Struct_def Struct_sizeof_def fields_format_size [OF assms])
next
  show "\<not> is_flag (con_flags (Struct nm scs)) FLAG_EMBED"
    by (simp add: Struct_def)
next
  fix s :: pst and v
  assume s: "fmt_ctx K (pctx s)" "set (ptail s) \<subseteq> B" "layout_size specs \<le> length (ptail s)"
    and "map_option VCont (fields_value specs (nest_ctx (pctx s)) [] (take (layout_size specs) (ptail s))) = Some v"
  then obtain d where v: "v = VCont d"
    and d: "fields_value specs (nest_ctx (pctx s)) [] (take (layout_size specs) (ptail s)) = Some d" by auto
  let ?s = "s\<lparr>pctx := nest_ctx (pctx s)\<rparr>"
  obtain c' where run: "fields_parse False (subs_of scs) (VCont []) ?s =
      (Ok (VCont d), advance (layout_size specs) (?s\<lparr>pctx := c'\<rparr>))"
    using fields_parse_ok [OF assms, of ?s "[]" d] s d fmt_ctx_nest by auto
  have "map_of (pctx s) ''<obj>'' = None" using s(1) by (simp add: fmt_ctx_def)
  then show "con_parse (Struct nm scs) s = (Ok v, advance (layout_size specs) s)"
    by (simp add: Struct_def Struct_parse_def with_ctx_nest run v)
next
  fix s :: pst
  assume s: "fmt_ctx K (pctx s)" "set (ptail s) \<subseteq> B"
    and bad: "length (ptail s) < layout_size specs \<or>
      map_option VCont (fields_value specs (nest_ctx (pctx s)) [] (take (layout_size specs) (ptail s))) = None"
  let ?s = "s\<lparr>pctx := nest_ctx (pctx s)\<rparr>"
  have "fails ?s (fields_parse False (subs_of scs) (VCont []) ?s)"
    by (rule fields_parse_fails [OF assms]) (use s bad fmt_ctx_nest in auto)
  moreover have "map_of (pctx s) ''<obj>'' = None" using s(1) by (simp add: fmt_ctx_def)
  ultimately show "fails s (con_parse (Struct nm scs) s)"
    by (auto simp: Struct_def Struct_parse_def with_ctx_nest fails_def)
qed

subsection \<open>Bit structures\<close>

lemma msb_bits_set: "set (msb_bits w n) \<subseteq> {0, 1}"
proof
  fix x assume "x \<in> set (msb_bits w n)"
  then obtain i where "x = word_of_int (drop_bit i n AND 1)"
    by (auto simp: msb_bits_def)
  then show "x \<in> {0, 1}"
    by (auto simp: and_one_eq mod2_eq_if)
qed

lemma encode_bin_set: "set (encode_bin b) \<subseteq> {0, 1}"
  using msb_bits_set by (auto simp: encode_bin_def char_to_bin_msb)

lemma bit_resizer_8: "bit_resizer (8 * int m) = Ok (int m)"
proof -
  have "(8 * int m) AND 7 = 0"
    using and_eq_not_not_or [of "8 * int m" 7] take_bit_eq_mask [of 3 "8 * int m"]
    by (simp add: take_bit_eq_mod mask_eq_exp_minus_1)
  moreover have "drop_bit 3 (8 * int m) = int m"
    by (simp add: drop_bit_eq_div)
  ultimately show ?thesis by (simp add: bit_resizer_def)
qed

lemma format_BitStruct [formats]:
  assumes inner: "fixed_format {0, 1} {} (Struct nm scs) k g" and k: "k = 8 * m" and m: "m < 2 ^ 63"
  shows "fixed_format B K (BitStruct nm scs) m (\<lambda>c b. g c (encode_bin b))"
proof
  show sz: "con_sizeof (BitStruct nm scs) c = Ok (int m)" for c
    using fixed_format.size [OF inner] by (simp add: BitStruct_def Buffered_sizeof_def k bit_resizer_8)
  show "\<not> is_flag (con_flags (BitStruct nm scs)) FLAG_EMBED"
    using fixed_format.not_embedded [OF inner] by (simp add: BitStruct_def)
next
  fix s :: pst and v
  assume s: "fmt_ctx K (pctx s)" "m \<le> length (ptail s)"
    and v: "g (pctx s) (encode_bin (take m (ptail s))) = Some v"
  let ?bits = "encode_bin (take m (ptail s))"
  let ?s = "(advance m s)\<lparr>pstm := bytesio ?bits\<rparr>"
  have t: "ptail ?s = ?bits" by (simp add: tail_bytes_def)
  have "con_parse (Struct nm scs) ?s = (Ok v, advance k ?s)"
    by (rule fixed_format.parse_ok [OF inner])
      (use s v encode_bin_set k t in \<open>auto simp: fmt_ctx_def min_def\<close>)
  moreover have "read_stream (int m) s = (Ok (take m (ptail s)), advance m s)"
    by (rule read_stream_enough [OF s(2) m])
  ultimately show "con_parse (BitStruct nm scs) s = (Ok v, advance m s)"
    using fixed_format.size [OF inner]
    by (simp add: BitStruct_def Buffered_parse_def Buffered_sizeof_def k bit_resizer_8 mbind_def
        with_stream_def advance_def)
next
  fix s :: pst
  assume s: "fmt_ctx K (pctx s)"
    and bad: "length (ptail s) < m \<or> g (pctx s) (encode_bin (take m (ptail s))) = None"
  show "fails s (con_parse (BitStruct nm scs) s)"
  proof (cases "length (ptail s) < m")
    case True
    from read_stream_short [OF this m] show ?thesis
      using fixed_format.size [OF inner]
      by (auto simp: BitStruct_def Buffered_parse_def Buffered_sizeof_def k bit_resizer_8 mbind_def fails_def)
  next
    case False
    let ?bits = "encode_bin (take m (ptail s))"
    let ?s = "(advance m s)\<lparr>pstm := bytesio ?bits\<rparr>"
    have t: "ptail ?s = ?bits" by (simp add: tail_bytes_def)
    have "fails ?s (con_parse (Struct nm scs) ?s)"
      by (rule fixed_format.parse_fail [OF inner])
        (use s bad False encode_bin_set k t in \<open>auto simp: fmt_ctx_def min_def\<close>)
    moreover have "read_stream (int m) s = (Ok (take m (ptail s)), advance m s)"
      by (rule read_stream_enough [OF _ m]) (use False in simp)
    ultimately show ?thesis
      using fixed_format.size [OF inner]
      by (auto simp: BitStruct_def Buffered_parse_def Buffered_sizeof_def k bit_resizer_8 mbind_def
          with_stream_def fails_def)
  qed
qed

section \<open>Layouts field by field\<close>

text \<open>One rule per kind of field, so that a layout is derived by following the format's text.\<close>

named_theorems layout \<open>rules that derive the layout of a structure\<close>

lemma con_names [simp]:
  "con_name (Enum sc e) = con_name sc" "con_name (BitField nm l) = Some nm"
  "con_name (Padding l) = None" "con_name (String nm l) = Some nm" "con_name (Struct nm scs) = Some nm"
  "con_name (Array k sc) = con_name sc" "con_name (BitStruct nm scs) = Some nm"
  "con_name (Field nm' l) = nm'" "con_name (Rename nm sc) = Some nm"
  by (simp_all add: Enum_def SymmetricMapping_def BitField_def Field_def Padding_def String_def
      Struct_def Array_def BitStruct_def Rename_def)

declare fields_Nil [layout]

lemma layout_uint [layout]:
  "fields_format B (insert nm K) scs specs \<Longrightarrow> nm \<noteq> ''<obj>'' \<Longrightarrow>
   fields_format B K (FormatFieldC (Some nm) e fm # scs)
     ((Some nm, fmt_size fm, \<lambda>c b. Some (VInt (num e fm b))) # specs)"
  by (rule fields_Int [OF format_FormatField]) simp_all

lemma layout_enum [layout]:
  "fields_format B (K - {nm}) scs specs \<Longrightarrow> nm \<noteq> ''<obj>'' \<Longrightarrow>
   fields_format B K (Enum (FormatFieldC (Some nm) e fm) en # scs)
     ((Some nm, fmt_size fm, \<lambda>c b. enum_value en (num e fm b)) # specs)"
  by (rule fields_Named [OF format_Enum [OF format_FormatField]]) simp_all

lemma layout_enum_bits [layout]:
  "fields_format {0, 1} (K - {nm}) scs specs \<Longrightarrow> nm \<noteq> ''<obj>'' \<Longrightarrow> l = int n \<Longrightarrow> n < 2 ^ 63 \<Longrightarrow>
   fields_format {0, 1} K (Enum (BitField nm l) en # scs)
     ((Some nm, n, \<lambda>c b. enum_value en (bits_value b)) # specs)"
  by (rule fields_Named [OF format_Enum [OF format_BitField]]) simp_all

lemma layout_pad [layout]:
  "fields_format B K scs specs \<Longrightarrow> l = int n \<Longrightarrow> n < 2 ^ 63 \<Longrightarrow>
   fields_format B K (Padding l # scs) ((None, n, \<lambda>c b. Some (VBytes b)) # specs)"
  by (rule fields_Unnamed [OF format_Padding]) simp_all

lemma layout_string [layout]:
  "fields_format B (K - {nm}) scs specs \<Longrightarrow> nm \<noteq> ''<obj>'' \<Longrightarrow> l = int n \<Longrightarrow> n < 2 ^ 63 \<Longrightarrow>
   fields_format B K (String nm l # scs) ((Some nm, n, \<lambda>c b. Some (VBytes b)) # specs)"
  by (rule fields_Named [OF format_String]) simp_all

lemma layout_value [layout]:
  "(\<And>c. fmt_ctx K c \<Longrightarrow> \<exists>v. g c = Ok v) \<Longrightarrow> fields_format B (K - {nm}) scs specs \<Longrightarrow>
   nm \<noteq> ''<obj>'' \<Longrightarrow>
   fields_format B K (ValueC (Some nm) g # scs)
     ((Some nm, 0, \<lambda>c b. case g c of Ok v \<Rightarrow> Some v | _ \<Rightarrow> None) # specs)"
  by (rule fields_Named [OF format_Value]) simp_all

lemma layout_struct [layout]:
  "fields_format B {} scs' specs' \<Longrightarrow> fields_format B (K - {nm}) scs specs \<Longrightarrow> nm \<noteq> ''<obj>'' \<Longrightarrow>
   fields_format B K (Struct nm scs' # scs)
     ((Some nm, layout_size specs', \<lambda>c b. map_option VCont (fields_value specs' (nest_ctx c) [] b)) # specs)"
  by (rule fields_Named [OF format_Struct]) simp_all

lemma layout_bitstruct [layout]:
  "fields_format {0, 1} {} scs' specs' \<Longrightarrow> layout_size specs' = 8 * m \<Longrightarrow> m < 2 ^ 63 \<Longrightarrow>
   fields_format B (K - {nm}) scs specs \<Longrightarrow> nm \<noteq> ''<obj>'' \<Longrightarrow>
   fields_format B K (BitStruct nm scs' # scs)
     ((Some nm, m, \<lambda>c b. map_option VCont (fields_value specs' (nest_ctx c) [] (encode_bin b))) # specs)"
  by (rule fields_Named [OF format_BitStruct [OF format_Struct]]) simp_all

lemma layout_array_uint [layout]:
  "fields_format B (K - {nm}) scs specs \<Longrightarrow> nm \<noteq> ''<obj>'' \<Longrightarrow> l = int k \<Longrightarrow>
   fields_format B K (Array l (FormatFieldC (Some nm) e fm) # scs)
     ((Some nm, k * fmt_size fm, \<lambda>c b. map_option VList
         (those (map (\<lambda>x. Some (VInt (num e fm x))) (chunks k (fmt_size fm) b)))) # specs)"
  by (rule fields_Named [OF format_Array [OF format_FormatField]]) simp_all

lemma those_map_Some [simp]: "those (map (\<lambda>x. Some (h x)) xs) = Some (map h xs)"
  by (induction xs) auto

text \<open>The decoding function only matters on inputs of the right size.\<close>

lemma format_eq:
  assumes "fixed_format B K sc n f" "n' = n" "\<And>c b. length b = n \<Longrightarrow> f' c b = f c b"
  shows "fixed_format B K sc n' f'"
proof
  fix s :: pst and v
  assume "fmt_ctx K (pctx s)" "set (ptail s) \<subseteq> B" "n' \<le> length (ptail s)"
    "f' (pctx s) (take n' (ptail s)) = Some v"
  then show "con_parse sc s = (Ok v, advance n' s)"
    using assms(2, 3) fixed_format.parse_ok [OF assms(1)] by (simp add: min_def)
next
  fix s :: pst
  assume s: "fmt_ctx K (pctx s)" "set (ptail s) \<subseteq> B"
    and bad: "length (ptail s) < n' \<or> f' (pctx s) (take n' (ptail s)) = None"
  have "length (ptail s) < n \<or> f (pctx s) (take n (ptail s)) = None"
    using bad assms(2, 3) by (cases "length (ptail s) < n") (auto simp: min_def)
  then show "fails s (con_parse sc s)"
    by (rule fixed_format.parse_fail [OF assms(1) s])
qed (simp_all add: fixed_format.not_embedded [OF assms(1)] fixed_format.size [OF assms(1)] assms(2))

section \<open>Parsing a fixed-size format out of a file\<close>

text \<open>The bytes \<open>p .. p + n\<close> of a file.\<close>

definition bytes_at :: "bytes \<Rightarrow> nat \<Rightarrow> nat \<Rightarrow> bytes" where
  "bytes_at d p n = take n (drop p d)"

lemma length_bytes_at: "p + n \<le> length d \<Longrightarrow> length (bytes_at d p n) = n"
  by (simp add: bytes_at_def)

locale file_format = fixed_format UNIV "{}" sc n f for sc n f
begin

lemma parse_stream_ok:
  assumes "spos t + n \<le> length (sdata t)" "f [] (bytes_at (sdata t) (spos t) n) = Some v"
  shows "parse_stream sc t = (Ok v, t\<lparr>spos := spos t + n\<rparr>) \<and>
    con_parse sc \<lparr>pctx = [], pstm = t\<rparr> = (Ok v, \<lparr>pctx = [], pstm = t\<lparr>spos := spos t + n\<rparr>\<rparr>)"
  using parse_ok [of "\<lparr>pctx = [], pstm = t\<rparr>" v] assms
  by (cases "n = 0") (auto simp: parse_stream_def fmt_ctx_def tail_bytes_def bytes_at_def advance_def)

lemma parse_stream_fail:
  assumes "length (sdata t) < spos t + n \<or> f [] (bytes_at (sdata t) (spos t) n) = None" "0 < n"
  shows "\<exists>e t'. parse_stream sc t = (Err e, t') \<and> is_ConstructError e \<and> sdata t' = sdata t"
  using parse_fail [of "\<lparr>pctx = [], pstm = t\<rparr>"] assms
  by (force simp: parse_stream_def fmt_ctx_def tail_bytes_def bytes_at_def fails_def)

text \<open>\<open>struct_parse\<close> at an offset: the value is a function of the \<open>n\<close> bytes there.\<close>

lemma struct_parse_at:
  assumes "0 \<le> p" "p < 2 ^ 63" "nat p + n \<le> length (sdata t)"
    and "f [] (bytes_at (sdata t) (nat p) n) = Some v"
  shows "struct_parse sc (Some p) t = (Ok v, t\<lparr>spos := nat p + n\<rparr>)"
  using parse_stream_ok [of "t\<lparr>spos := nat p\<rparr>" v] assms
  by (simp add: struct_parse_def mbind_def s_seek_ok try_except_Ok)

lemma struct_parse_here:
  assumes "spos t + n \<le> length (sdata t)" "f [] (bytes_at (sdata t) (spos t) n) = Some v"
  shows "struct_parse sc None t = (Ok v, t\<lparr>spos := spos t + n\<rparr>)"
  using parse_stream_ok [of t v] assms by (simp add: struct_parse_def try_except_Ok)

text \<open>A file that ends too early, or bytes that decode to nothing, are an \<open>ELFParseError\<close>.\<close>

lemma struct_parse_error:
  assumes "0 \<le> p" "p < 2 ^ 63" "0 < n"
    and "length (sdata t) < nat p + n \<or> f [] (bytes_at (sdata t) (nat p) n) = None"
  shows "\<exists>t'. struct_parse sc (Some p) t = (Err ELFParseError, t') \<and> sdata t' = sdata t"
  using parse_stream_fail [of "t\<lparr>spos := nat p\<rparr>"] assms
  by (fastforce simp: struct_parse_def mbind_def s_seek_ok try_except_def)

lemma struct_parse_here_error:
  assumes "0 < n" "length (sdata t) < spos t + n \<or> f [] (bytes_at (sdata t) (spos t) n) = None"
  shows "\<exists>t'. struct_parse sc None t = (Err ELFParseError, t') \<and> sdata t' = sdata t"
  using parse_stream_fail [of t] assms by (fastforce simp: struct_parse_def try_except_def)

lemma parse_bytes_ok:
  "n \<le> length d \<Longrightarrow> f [] (take n d) = Some v \<Longrightarrow> parse_bytes sc d = Ok v"
  using parse_stream_ok [of "bytesio d" v] by (simp add: parse_bytes_def bytes_at_def)

lemma sizeof_ok: "sizeof sc c = Ok (int n)"
  by (simp add: sizeof_def size)

end

end
