(* ===== verification/ElfEnums.thy ===== *)
theory ElfEnums
  imports ConstructFacts
begin

text \<open>
  \<^verbatim>\<open>elftools/elf/enums.py\<close>: the tables that name the numbers of an ELF file.  A table is an
  \<open>enum\<close>: its names with their values in source order, and the \<^verbatim>\<open>_default_\<close> entry, which says
  what a value without a name decodes to (\<open>PassDefault\<close>: itself; \<open>NoDefault\<close>: an error).
  The lemmas at the end say which tables can be inverted and which cannot.
\<close>

text \<open>
  \<open>merge_dicts\<close> on tables: the items of later tables replace those of earlier ones, and so does
  the \<^verbatim>\<open>_default_\<close> entry, where a later table has one.
\<close>

definition merge_defaults :: "mdefault list \<Rightarrow> mdefault" where
  "merge_defaults ds = foldl (\<lambda>acc d. if d = NoDefault then acc else d) NoDefault ds"

definition merge_enums :: "enum list \<Rightarrow> enum" where
  "merge_enums es = (merge_dicts (map fst es), merge_defaults (map snd es))"

section \<open>The tables\<close>

definition ENUM_EI_CLASS :: enum where
  "ENUM_EI_CLASS =
  ([
     (''ELFCLASSNONE'', 0), (''ELFCLASS32'', 1), (''ELFCLASS64'', 2)], NoDefault)"

definition ENUM_EI_DATA :: enum where
  "ENUM_EI_DATA =
  ([
     (''ELFDATANONE'', 0), (''ELFDATA2LSB'', 1), (''ELFDATA2MSB'', 2)], NoDefault)"

definition ENUM_E_VERSION :: enum where
  "ENUM_E_VERSION =
  ([
     (''EV_NONE'', 0), (''EV_CURRENT'', 1)], PassDefault)"

definition ENUM_EI_OSABI :: enum where
  "ENUM_EI_OSABI =
  ([
     (''ELFOSABI_SYSV'', 0), (''ELFOSABI_HPUX'', 1), (''ELFOSABI_NETBSD'', 2),
     (''ELFOSABI_LINUX'', 3), (''ELFOSABI_HURD'', 4), (''ELFOSABI_SOLARIS'', 6),
     (''ELFOSABI_AIX'', 7), (''ELFOSABI_IRIX'', 8), (''ELFOSABI_FREEBSD'', 9),
     (''ELFOSABI_TRU64'', 10), (''ELFOSABI_MODESTO'', 11), (''ELFOSABI_OPENBSD'', 12),
     (''ELFOSABI_OPENVMS'', 13), (''ELFOSABI_NSK'', 14), (''ELFOSABI_AROS'', 15),
     (''ELFOSABI_FENIXOS'', 16), (''ELFOSABI_CLOUD'', 17), (''ELFOSABI_SORTIX'', 53),
     (''ELFOSABI_ARM_AEABI'', 64), (''ELFOSABI_ARM'', 97), (''ELFOSABI_CELL_LV2'', 102),
     (''ELFOSABI_STANDALONE'', 255)], PassDefault)"

definition ENUM_E_TYPE :: enum where
  "ENUM_E_TYPE =
  ([
     (''ET_NONE'', 0), (''ET_REL'', 1), (''ET_EXEC'', 2), (''ET_DYN'', 3), (''ET_CORE'', 4),
     (''ET_LOPROC'', 65280), (''ET_HIPROC'', 65535)], PassDefault)"

definition ENUM_E_MACHINE :: enum where
  "ENUM_E_MACHINE =
  ([
     (''EM_NONE'', 0), (''EM_M32'', 1), (''EM_SPARC'', 2), (''EM_386'', 3), (''EM_68K'', 4),
     (''EM_88K'', 5), (''EM_IAMCU'', 6), (''EM_860'', 7), (''EM_MIPS'', 8), (''EM_S370'', 9),
     (''EM_MIPS_RS3_LE'', 10), (''EM_PARISC'', 15), (''EM_VPP500'', 17),
     (''EM_SPARC32PLUS'', 18), (''EM_960'', 19), (''EM_PPC'', 20), (''EM_PPC64'', 21),
     (''EM_S390'', 22), (''EM_SPU'', 23), (''EM_V800'', 36), (''EM_FR20'', 37),
     (''EM_RH32'', 38), (''EM_RCE'', 39), (''EM_ARM'', 40), (''EM_ALPHA'', 41), (''EM_SH'', 42),
     (''EM_SPARCV9'', 43), (''EM_TRICORE'', 44), (''EM_ARC'', 45), (''EM_H8_300'', 46),
     (''EM_H8_300H'', 47), (''EM_H8S'', 48), (''EM_H8_500'', 49), (''EM_IA_64'', 50),
     (''EM_MIPS_X'', 51), (''EM_COLDFIRE'', 52), (''EM_68HC12'', 53), (''EM_MMA'', 54),
     (''EM_PCP'', 55), (''EM_NCPU'', 56), (''EM_NDR1'', 57), (''EM_STARCORE'', 58),
     (''EM_ME16'', 59), (''EM_ST100'', 60), (''EM_TINYJ'', 61), (''EM_X86_64'', 62),
     (''EM_PDSP'', 63), (''EM_PDP10'', 64), (''EM_PDP11'', 65), (''EM_FX66'', 66),
     (''EM_ST9PLUS'', 67), (''EM_ST7'', 68), (''EM_68HC16'', 69), (''EM_68HC11'', 70),
     (''EM_68HC08'', 71), (''EM_68HC05'', 72), (''EM_SVX'', 73), (''EM_ST19'', 74),
     (''EM_VAX'', 75), (''EM_CRIS'', 76), (''EM_JAVELIN'', 77), (''EM_FIREPATH'', 78),
     (''EM_ZSP'', 79), (''EM_MMIX'', 80), (''EM_HUANY'', 81), (''EM_PRISM'', 82),
     (''EM_AVR'', 83), (''EM_FR30'', 84), (''EM_D10V'', 85), (''EM_D30V'', 86),
     (''EM_V850'', 87), (''EM_M32R'', 88), (''EM_MN10300'', 89), (''EM_MN10200'', 90),
     (''EM_PJ'', 91), (''EM_OPENRISC'', 92), (''EM_ARC_COMPACT'', 93), (''EM_XTENSA'', 94),
     (''EM_VIDEOCORE'', 95), (''EM_TMM_GPP'', 96), (''EM_NS32K'', 97), (''EM_TPC'', 98),
     (''EM_SNP1K'', 99), (''EM_ST200'', 100), (''EM_IP2K'', 101), (''EM_MAX'', 102),
     (''EM_CR'', 103), (''EM_F2MC16'', 104), (''EM_MSP430'', 105), (''EM_BLACKFIN'', 106),
     (''EM_SE_C33'', 107), (''EM_SEP'', 108), (''EM_ARCA'', 109), (''EM_UNICORE'', 110),
     (''EM_EXCESS'', 111), (''EM_DXP'', 112), (''EM_ALTERA_NIOS2'', 113), (''EM_CRX'', 114),
     (''EM_XGATE'', 115), (''EM_C166'', 116), (''EM_M16C'', 117), (''EM_DSPIC30F'', 118),
     (''EM_CE'', 119), (''EM_M32C'', 120), (''EM_TSK3000'', 131), (''EM_RS08'', 132),
     (''EM_SHARC'', 133), (''EM_ECOG2'', 134), (''EM_SCORE7'', 135), (''EM_DSP24'', 136),
     (''EM_VIDEOCORE3'', 137), (''EM_LATTICEMICO32'', 138), (''EM_SE_C17'', 139),
     (''EM_TI_C6000'', 140), (''EM_TI_C2000'', 141), (''EM_TI_C5500'', 142),
     (''EM_TI_ARP32'', 143), (''EM_TI_PRU'', 144), (''EM_MMDSP_PLUS'', 160),
     (''EM_CYPRESS_M8C'', 161), (''EM_R32C'', 162), (''EM_TRIMEDIA'', 163), (''EM_QDSP6'', 164),
     (''EM_8051'', 165), (''EM_STXP7X'', 166), (''EM_NDS32'', 167), (''EM_ECOG1'', 168),
     (''EM_ECOG1X'', 168), (''EM_MAXQ30'', 169), (''EM_XIMO16'', 170), (''EM_MANIK'', 171),
     (''EM_CRAYNV2'', 172), (''EM_RX'', 173), (''EM_METAG'', 174), (''EM_MCST_ELBRUS'', 175),
     (''EM_ECOG16'', 176), (''EM_CR16'', 177), (''EM_ETPU'', 178), (''EM_SLE9X'', 179),
     (''EM_L10M'', 180), (''EM_K10M'', 181), (''EM_AARCH64'', 183), (''EM_AVR32'', 185),
     (''EM_STM8'', 186), (''EM_TILE64'', 187), (''EM_TILEPRO'', 188), (''EM_MICROBLAZE'', 189),
     (''EM_CUDA'', 190), (''EM_TILEGX'', 191), (''EM_CLOUDSHIELD'', 192),
     (''EM_COREA_1ST'', 193), (''EM_COREA_2ND'', 194), (''EM_ARC_COMPACT2'', 195),
     (''EM_OPEN8'', 196), (''EM_RL78'', 197), (''EM_VIDEOCORE5'', 198), (''EM_78KOR'', 199),
     (''EM_56800EX'', 200), (''EM_BA1'', 201), (''EM_BA2'', 202), (''EM_XCORE'', 203),
     (''EM_MCHP_PIC'', 204), (''EM_INTEL205'', 205), (''EM_INTEL206'', 206),
     (''EM_INTEL207'', 207), (''EM_INTEL208'', 208), (''EM_INTEL209'', 209), (''EM_KM32'', 210),
     (''EM_KMX32'', 211), (''EM_KMX16'', 212), (''EM_KMX8'', 213), (''EM_KVARC'', 214),
     (''EM_CDP'', 215), (''EM_COGE'', 216), (''EM_COOL'', 217), (''EM_NORC'', 218),
     (''EM_CSR_KALIMBA'', 219), (''EM_Z80'', 220), (''EM_VISIUM'', 221), (''EM_FT32'', 222),
     (''EM_MOXIE'', 223), (''EM_AMDGPU'', 224), (''EM_RISCV'', 243), (''EM_BPF'', 247),
     (''EM_CSKY'', 252), (''EM_LOONGARCH'', 258), (''EM_FRV'', 21569)], PassDefault)"

definition ENUM_SH_TYPE_BASE :: enum where
  "ENUM_SH_TYPE_BASE =
  ([
     (''SHT_NULL'', 0), (''SHT_PROGBITS'', 1), (''SHT_SYMTAB'', 2), (''SHT_STRTAB'', 3),
     (''SHT_RELA'', 4), (''SHT_HASH'', 5), (''SHT_DYNAMIC'', 6), (''SHT_NOTE'', 7),
     (''SHT_NOBITS'', 8), (''SHT_REL'', 9), (''SHT_SHLIB'', 10), (''SHT_DYNSYM'', 11),
     (''SHT_INIT_ARRAY'', 14), (''SHT_FINI_ARRAY'', 15), (''SHT_PREINIT_ARRAY'', 16),
     (''SHT_GROUP'', 17), (''SHT_SYMTAB_SHNDX'', 18), (''SHT_RELR'', 19), (''SHT_NUM'', 20),
     (''SHT_LOOS'', 1610612736), (''SHT_GNU_ATTRIBUTES'', 1879048181),
     (''SHT_GNU_HASH'', 1879048182), (''SHT_GNU_LIBLIST'', 1879048183),
     (''SHT_GNU_verdef'', 1879048189), (''SHT_GNU_verneed'', 1879048190),
     (''SHT_GNU_versym'', 1879048191), (''SHT_LOUSER'', 2147483648),
     (''SHT_HIUSER'', 4294967295), (''SHT_SUNW_LDYNSYM'', 1879048179),
     (''SHT_SUNW_syminfo'', 1879048188)], PassDefault)"

definition ENUM_SH_TYPE_AMD64 :: enum where
  "ENUM_SH_TYPE_AMD64 = merge_enums [
    ENUM_SH_TYPE_BASE,
     ([
        (''SHT_AMD64_UNWIND'', 1879048193)], NoDefault)]"

definition ENUM_SH_TYPE_ARM :: enum where
  "ENUM_SH_TYPE_ARM = merge_enums [
    ENUM_SH_TYPE_BASE,
     ([
        (''SHT_ARM_EXIDX'', 1879048193), (''SHT_ARM_PREEMPTMAP'', 1879048194),
        (''SHT_ARM_ATTRIBUTES'', 1879048195), (''SHT_ARM_DEBUGOVERLAY'', 1879048196)], NoDefault)]"

definition ENUM_SH_TYPE_AARCH64 :: enum where
  "ENUM_SH_TYPE_AARCH64 = merge_enums [
    ENUM_SH_TYPE_BASE,
     ([
        (''SHT_AARCH64_ATTRIBUTES'', 1879048195)], NoDefault)]"

definition ENUM_SH_TYPE_RISCV :: enum where
  "ENUM_SH_TYPE_RISCV = merge_enums [
    ENUM_SH_TYPE_BASE,
     ([
        (''SHT_RISCV_ATTRIBUTES'', 1879048195)], NoDefault)]"

definition ENUM_SH_TYPE_MIPS :: enum where
  "ENUM_SH_TYPE_MIPS = merge_enums [
    ENUM_SH_TYPE_BASE,
     ([
        (''SHT_MIPS_LIBLIST'', 1879048192), (''SHT_MIPS_DEBUG'', 1879048197),
        (''SHT_MIPS_REGINFO'', 1879048198), (''SHT_MIPS_PACKAGE'', 1879048199),
        (''SHT_MIPS_PACKSYM'', 1879048200), (''SHT_MIPS_RELD'', 1879048201),
        (''SHT_MIPS_IFACE'', 1879048203), (''SHT_MIPS_CONTENT'', 1879048204),
        (''SHT_MIPS_OPTIONS'', 1879048205), (''SHT_MIPS_SHDR'', 1879048208),
        (''SHT_MIPS_FDESC'', 1879048209), (''SHT_MIPS_EXTSYM'', 1879048210),
        (''SHT_MIPS_DENSE'', 1879048211), (''SHT_MIPS_PDESC'', 1879048212),
        (''SHT_MIPS_LOCSYM'', 1879048213), (''SHT_MIPS_AUXSYM'', 1879048214),
        (''SHT_MIPS_OPTSYM'', 1879048215), (''SHT_MIPS_LOCSTR'', 1879048216),
        (''SHT_MIPS_LINE'', 1879048217), (''SHT_MIPS_RFDESC'', 1879048218),
        (''SHT_MIPS_DELTASYM'', 1879048219), (''SHT_MIPS_DELTAINST'', 1879048220),
        (''SHT_MIPS_DELTACLASS'', 1879048221), (''SHT_MIPS_DWARF'', 1879048222),
        (''SHT_MIPS_DELTADECL'', 1879048223), (''SHT_MIPS_SYMBOL_LIB'', 1879048224),
        (''SHT_MIPS_EVENTS'', 1879048225), (''SHT_MIPS_TRANSLATE'', 1879048226),
        (''SHT_MIPS_PIXIE'', 1879048227), (''SHT_MIPS_XLATE'', 1879048228),
        (''SHT_MIPS_XLATE_DEBUG'', 1879048229), (''SHT_MIPS_WHIRL'', 1879048230),
        (''SHT_MIPS_EH_REGION'', 1879048231), (''SHT_MIPS_XLATE_OLD'', 1879048232),
        (''SHT_MIPS_PDR_EXCEPTION'', 1879048233), (''SHT_MIPS_ABIFLAGS'', 1879048234)], NoDefault)]"

definition ENUM_ELFCOMPRESS_TYPE :: enum where
  "ENUM_ELFCOMPRESS_TYPE =
  ([
     (''ELFCOMPRESS_ZLIB'', 1), (''ELFCOMPRESS_LOOS'', 1610612736),
     (''ELFCOMPRESS_HIOS'', 1879048191), (''ELFCOMPRESS_LOPROC'', 1879048192),
     (''ELFCOMPRESS_HIPROC'', 2147483647)], PassDefault)"

definition ENUM_P_TYPE_BASE :: enum where
  "ENUM_P_TYPE_BASE =
  ([
     (''PT_NULL'', 0), (''PT_LOAD'', 1), (''PT_DYNAMIC'', 2), (''PT_INTERP'', 3),
     (''PT_NOTE'', 4), (''PT_SHLIB'', 5), (''PT_PHDR'', 6), (''PT_TLS'', 7),
     (''PT_LOOS'', 1610612736), (''PT_HIOS'', 1879048191), (''PT_GNU_EH_FRAME'', 1685382480),
     (''PT_GNU_STACK'', 1685382481), (''PT_GNU_RELRO'', 1685382482),
     (''PT_GNU_PROPERTY'', 1685382483)], PassDefault)"

definition ENUM_P_TYPE_ARM :: enum where
  "ENUM_P_TYPE_ARM = merge_enums [
    ENUM_P_TYPE_BASE,
     ([
        (''PT_ARM_ARCHEXT'', 1879048192), (''PT_ARM_EXIDX'', 1879048193)], NoDefault)]"

definition ENUM_P_TYPE_AARCH64 :: enum where
  "ENUM_P_TYPE_AARCH64 = merge_enums [
    ENUM_P_TYPE_BASE,
     ([
        (''PT_AARCH64_ARCHEXT'', 1879048192), (''PT_AARCH64_UNWIND'', 1879048193)], NoDefault)]"

definition ENUM_P_TYPE_MIPS :: enum where
  "ENUM_P_TYPE_MIPS = merge_enums [
    ENUM_P_TYPE_BASE,
     ([
        (''PT_MIPS_ABIFLAGS'', 1879048195)], NoDefault)]"

definition ENUM_P_TYPE_RISCV :: enum where
  "ENUM_P_TYPE_RISCV = merge_enums [
    ENUM_P_TYPE_BASE,
     ([
        (''PT_RISCV_ATTRIBUTES'', 1879048195)], NoDefault)]"

definition ENUM_ST_INFO_BIND :: enum where
  "ENUM_ST_INFO_BIND =
  ([
     (''STB_LOCAL'', 0), (''STB_GLOBAL'', 1), (''STB_WEAK'', 2), (''STB_NUM'', 3),
     (''STB_LOOS'', 10), (''STB_HIOS'', 12), (''STB_LOPROC'', 13), (''STB_HIPROC'', 15)], PassDefault)"

definition ENUM_ST_INFO_TYPE :: enum where
  "ENUM_ST_INFO_TYPE =
  ([
     (''STT_NOTYPE'', 0), (''STT_OBJECT'', 1), (''STT_FUNC'', 2), (''STT_SECTION'', 3),
     (''STT_FILE'', 4), (''STT_COMMON'', 5), (''STT_TLS'', 6), (''STT_NUM'', 7),
     (''STT_RELC'', 8), (''STT_SRELC'', 9), (''STT_LOOS'', 10), (''STT_HIOS'', 12),
     (''STT_LOPROC'', 13), (''STT_HIPROC'', 15)], PassDefault)"

definition ENUM_ST_VISIBILITY :: enum where
  "ENUM_ST_VISIBILITY =
  ([
     (''STV_DEFAULT'', 0), (''STV_INTERNAL'', 1), (''STV_HIDDEN'', 2), (''STV_PROTECTED'', 3),
     (''STV_EXPORTED'', 4), (''STV_SINGLETON'', 5), (''STV_ELIMINATE'', 6)], PassDefault)"

definition ENUM_ST_LOCAL :: enum where
  "ENUM_ST_LOCAL =
  ([], PassDefault)"

definition ENUM_ST_SHNDX :: enum where
  "ENUM_ST_SHNDX =
  ([
     (''SHN_UNDEF'', 0), (''SHN_ABS'', 65521), (''SHN_COMMON'', 65522)], PassDefault)"

definition ENUM_D_TAG_COMMON :: enum where
  "ENUM_D_TAG_COMMON =
  ([
     (''DT_NULL'', 0), (''DT_NEEDED'', 1), (''DT_PLTRELSZ'', 2), (''DT_PLTGOT'', 3),
     (''DT_HASH'', 4), (''DT_STRTAB'', 5), (''DT_SYMTAB'', 6), (''DT_RELA'', 7),
     (''DT_RELASZ'', 8), (''DT_RELAENT'', 9), (''DT_STRSZ'', 10), (''DT_SYMENT'', 11),
     (''DT_INIT'', 12), (''DT_FINI'', 13), (''DT_SONAME'', 14), (''DT_RPATH'', 15),
     (''DT_SYMBOLIC'', 16), (''DT_REL'', 17), (''DT_RELSZ'', 18), (''DT_RELENT'', 19),
     (''DT_PLTREL'', 20), (''DT_DEBUG'', 21), (''DT_TEXTREL'', 22), (''DT_JMPREL'', 23),
     (''DT_BIND_NOW'', 24), (''DT_INIT_ARRAY'', 25), (''DT_FINI_ARRAY'', 26),
     (''DT_INIT_ARRAYSZ'', 27), (''DT_FINI_ARRAYSZ'', 28), (''DT_RUNPATH'', 29),
     (''DT_FLAGS'', 30), (''DT_ENCODING'', 32), (''DT_PREINIT_ARRAY'', 32),
     (''DT_PREINIT_ARRAYSZ'', 33), (''DT_SYMTAB_SHNDX'', 34), (''DT_RELRSZ'', 35),
     (''DT_RELR'', 36), (''DT_RELRENT'', 37), (''DT_NUM'', 38), (''DT_LOOS'', 1610612749),
     (''DT_ANDROID_REL'', 1610612751), (''DT_ANDROID_RELSZ'', 1610612752),
     (''DT_ANDROID_RELA'', 1610612753), (''DT_ANDROID_RELASZ'', 1610612754),
     (''DT_ANDROID_RELR'', 1879040000), (''DT_ANDROID_RELRSZ'', 1879040001),
     (''DT_ANDROID_RELRENT'', 1879040003), (''DT_ANDROID_RELRCOUNT'', 1879040005),
     (''DT_HIOS'', 1879044096), (''DT_LOPROC'', 1879048192), (''DT_HIPROC'', 2147483647),
     (''DT_PROCNUM'', 53), (''DT_VALRNGLO'', 1879047424), (''DT_GNU_PRELINKED'', 1879047669),
     (''DT_GNU_CONFLICTSZ'', 1879047670), (''DT_GNU_LIBLISTSZ'', 1879047671),
     (''DT_CHECKSUM'', 1879047672), (''DT_PLTPADSZ'', 1879047673), (''DT_MOVEENT'', 1879047674),
     (''DT_MOVESZ'', 1879047675), (''DT_SYMINSZ'', 1879047678), (''DT_SYMINENT'', 1879047679),
     (''DT_GNU_HASH'', 1879047925), (''DT_TLSDESC_PLT'', 1879047926),
     (''DT_TLSDESC_GOT'', 1879047927), (''DT_GNU_CONFLICT'', 1879047928),
     (''DT_GNU_LIBLIST'', 1879047929), (''DT_CONFIG'', 1879047930),
     (''DT_DEPAUDIT'', 1879047931), (''DT_AUDIT'', 1879047932), (''DT_PLTPAD'', 1879047933),
     (''DT_MOVETAB'', 1879047934), (''DT_SYMINFO'', 1879047935), (''DT_VERSYM'', 1879048176),
     (''DT_RELACOUNT'', 1879048185), (''DT_RELCOUNT'', 1879048186), (''DT_FLAGS_1'', 1879048187),
     (''DT_VERDEF'', 1879048188), (''DT_VERDEFNUM'', 1879048189), (''DT_VERNEED'', 1879048190),
     (''DT_VERNEEDNUM'', 1879048191), (''DT_AUXILIARY'', 2147483645), (''DT_FILTER'', 2147483647)], PassDefault)"

definition ENUM_D_TAG_SOLARIS :: enum where
  "ENUM_D_TAG_SOLARIS =
  ([
     (''DT_SUNW_AUXILIARY'', 1610612749), (''DT_SUNW_RTLDINF'', 1610612750),
     (''DT_SUNW_FILTER'', 1610612751), (''DT_SUNW_CAP'', 1610612752),
     (''DT_SUNW_SYMTAB'', 1610612753), (''DT_SUNW_SYMSZ'', 1610612754),
     (''DT_SUNW_ENCODING'', 1610612755), (''DT_SUNW_SORTENT'', 1610612755),
     (''DT_SUNW_SYMSORT'', 1610612756), (''DT_SUNW_SYMSORTSZ'', 1610612757),
     (''DT_SUNW_TLSSORT'', 1610612758), (''DT_SUNW_TLSSORTSZ'', 1610612759),
     (''DT_SUNW_CAPINFO'', 1610612760), (''DT_SUNW_STRPAD'', 1610612761),
     (''DT_SUNW_CAPCHAIN'', 1610612762), (''DT_SUNW_LDMACH'', 1610612763),
     (''DT_SUNW_CAPCHAINENT'', 1610612765), (''DT_SUNW_CAPCHAINSZ'', 1610612767)], NoDefault)"

definition ENUM_D_TAG_MIPS :: enum where
  "ENUM_D_TAG_MIPS =
  ([
     (''DT_MIPS_RLD_VERSION'', 1879048193), (''DT_MIPS_TIME_STAMP'', 1879048194),
     (''DT_MIPS_ICHECKSUM'', 1879048195), (''DT_MIPS_IVERSION'', 1879048196),
     (''DT_MIPS_FLAGS'', 1879048197), (''DT_MIPS_BASE_ADDRESS'', 1879048198),
     (''DT_MIPS_CONFLICT'', 1879048200), (''DT_MIPS_LIBLIST'', 1879048201),
     (''DT_MIPS_LOCAL_GOTNO'', 1879048202), (''DT_MIPS_CONFLICTNO'', 1879048203),
     (''DT_MIPS_LIBLISTNO'', 1879048208), (''DT_MIPS_SYMTABNO'', 1879048209),
     (''DT_MIPS_UNREFEXTNO'', 1879048210), (''DT_MIPS_GOTSYM'', 1879048211),
     (''DT_MIPS_HIPAGENO'', 1879048212), (''DT_MIPS_RLD_MAP'', 1879048214),
     (''DT_MIPS_RLD_MAP_REL'', 1879048245), (''DT_MIPS_XHASH'', 1879048246)], NoDefault)"

definition ENUM_D_TAG_AARCH64 :: enum where
  "ENUM_D_TAG_AARCH64 =
  ([
     (''DT_AARCH64_BTI_PLT'', 1879048193)], NoDefault)"

definition ENUMMAP_EXTRA_D_TAG_MACHINE :: "(string \<times> enum) list" where
  "ENUMMAP_EXTRA_D_TAG_MACHINE = [(''EM_MIPS'', ENUM_D_TAG_MIPS), (''EM_MIPS_RS3_LE'', ENUM_D_TAG_MIPS), (''EM_AARCH64'', ENUM_D_TAG_AARCH64)]"

definition ENUM_D_TAG :: enum where
  "ENUM_D_TAG = merge_enums ([ENUM_D_TAG_COMMON, ENUM_D_TAG_SOLARIS] @ map snd ENUMMAP_EXTRA_D_TAG_MACHINE)"

definition ENUM_DT_FLAGS :: enum where
  "ENUM_DT_FLAGS =
  ([
     (''DF_ORIGIN'', 1), (''DF_SYMBOLIC'', 2), (''DF_TEXTREL'', 4), (''DF_BIND_NOW'', 8),
     (''DF_STATIC_TLS'', 16)], NoDefault)"

definition ENUM_DT_FLAGS_1 :: enum where
  "ENUM_DT_FLAGS_1 =
  ([
     (''DF_1_NOW'', 1), (''DF_1_GLOBAL'', 2), (''DF_1_GROUP'', 4), (''DF_1_NODELETE'', 8),
     (''DF_1_LOADFLTR'', 16), (''DF_1_INITFIRST'', 32), (''DF_1_NOOPEN'', 64),
     (''DF_1_ORIGIN'', 128), (''DF_1_DIRECT'', 256), (''DF_1_TRANS'', 512),
     (''DF_1_INTERPOSE'', 1024), (''DF_1_NODEFLIB'', 2048), (''DF_1_NODUMP'', 4096),
     (''DF_1_CONFALT'', 8192), (''DF_1_ENDFILTEE'', 16384), (''DF_1_DISPRELDNE'', 32768),
     (''DF_1_DISPRELPND'', 65536), (''DF_1_NODIRECT'', 131072), (''DF_1_IGNMULDEF'', 262144),
     (''DF_1_NOKSYMS'', 524288), (''DF_1_NOHDR'', 1048576), (''DF_1_EDITED'', 2097152),
     (''DF_1_NORELOC'', 4194304), (''DF_1_SYMINTPOSE'', 8388608), (''DF_1_GLOBAUDIT'', 16777216),
     (''DF_1_SINGLETON'', 33554432), (''DF_1_STUB'', 67108864), (''DF_1_PIE'', 134217728)], NoDefault)"

definition ENUM_RELOC_TYPE_MIPS :: enum where
  "ENUM_RELOC_TYPE_MIPS =
  ([
     (''R_MIPS_NONE'', 0), (''R_MIPS_16'', 1), (''R_MIPS_32'', 2), (''R_MIPS_REL32'', 3),
     (''R_MIPS_26'', 4), (''R_MIPS_HI16'', 5), (''R_MIPS_LO16'', 6), (''R_MIPS_GPREL16'', 7),
     (''R_MIPS_LITERAL'', 8), (''R_MIPS_GOT16'', 9), (''R_MIPS_PC16'', 10),
     (''R_MIPS_CALL16'', 11), (''R_MIPS_GPREL32'', 12), (''R_MIPS_SHIFT5'', 16),
     (''R_MIPS_SHIFT6'', 17), (''R_MIPS_64'', 18), (''R_MIPS_GOT_DISP'', 19),
     (''R_MIPS_GOT_PAGE'', 20), (''R_MIPS_GOT_OFST'', 21), (''R_MIPS_GOT_HI16'', 22),
     (''R_MIPS_GOT_LO16'', 23), (''R_MIPS_SUB'', 24), (''R_MIPS_INSERT_A'', 25),
     (''R_MIPS_INSERT_B'', 26), (''R_MIPS_DELETE'', 27), (''R_MIPS_HIGHER'', 28),
     (''R_MIPS_HIGHEST'', 29), (''R_MIPS_CALL_HI16'', 30), (''R_MIPS_CALL_LO16'', 31),
     (''R_MIPS_SCN_DISP'', 32), (''R_MIPS_REL16'', 33), (''R_MIPS_ADD_IMMEDIATE'', 34),
     (''R_MIPS_PJUMP'', 35), (''R_MIPS_RELGOT'', 36), (''R_MIPS_JALR'', 37),
     (''R_MIPS_TLS_DTPMOD32'', 38), (''R_MIPS_TLS_DTPREL32'', 39), (''R_MIPS_TLS_DTPMOD64'', 40),
     (''R_MIPS_TLS_DTPREL64'', 41), (''R_MIPS_TLS_GD'', 42), (''R_MIPS_TLS_LDM'', 43),
     (''R_MIPS_TLS_DTPREL_HI16'', 44), (''R_MIPS_TLS_DTPREL_LO16'', 45),
     (''R_MIPS_TLS_GOTTPREL'', 46), (''R_MIPS_TLS_TPREL32'', 47), (''R_MIPS_TLS_TPREL64'', 48),
     (''R_MIPS_TLS_TPREL_HI16'', 49), (''R_MIPS_TLS_TPREL_LO16'', 50), (''R_MIPS_GLOB_DAT'', 51),
     (''R_MIPS_COPY'', 126), (''R_MIPS_JUMP_SLOT'', 127)], PassDefault)"

definition ENUM_RELOC_TYPE_i386 :: enum where
  "ENUM_RELOC_TYPE_i386 =
  ([
     (''R_386_NONE'', 0), (''R_386_32'', 1), (''R_386_PC32'', 2), (''R_386_GOT32'', 3),
     (''R_386_PLT32'', 4), (''R_386_COPY'', 5), (''R_386_GLOB_DAT'', 6),
     (''R_386_JUMP_SLOT'', 7), (''R_386_RELATIVE'', 8), (''R_386_GOTOFF'', 9),
     (''R_386_GOTPC'', 10), (''R_386_32PLT'', 11), (''R_386_TLS_TPOFF'', 14),
     (''R_386_TLS_IE'', 15), (''R_386_TLS_GOTIE'', 16), (''R_386_TLS_LE'', 17),
     (''R_386_TLS_GD'', 18), (''R_386_TLS_LDM'', 19), (''R_386_16'', 20), (''R_386_PC16'', 21),
     (''R_386_8'', 22), (''R_386_PC8'', 23), (''R_386_TLS_GD_32'', 24),
     (''R_386_TLS_GD_PUSH'', 25), (''R_386_TLS_GD_CALL'', 26), (''R_386_TLS_GD_POP'', 27),
     (''R_386_TLS_LDM_32'', 28), (''R_386_TLS_LDM_PUSH'', 29), (''R_386_TLS_LDM_CALL'', 30),
     (''R_386_TLS_LDM_POP'', 31), (''R_386_TLS_LDO_32'', 32), (''R_386_TLS_IE_32'', 33),
     (''R_386_TLS_LE_32'', 34), (''R_386_TLS_DTPMOD32'', 35), (''R_386_TLS_DTPOFF32'', 36),
     (''R_386_TLS_TPOFF32'', 37), (''R_386_TLS_GOTDESC'', 39), (''R_386_TLS_DESC_CALL'', 40),
     (''R_386_TLS_DESC'', 41), (''R_386_IRELATIVE'', 42), (''R_386_USED_BY_INTEL_200'', 200),
     (''R_386_GNU_VTINHERIT'', 250), (''R_386_GNU_VTENTRY'', 251)], PassDefault)"

definition ENUM_RELOC_TYPE_x64 :: enum where
  "ENUM_RELOC_TYPE_x64 =
  ([
     (''R_X86_64_NONE'', 0), (''R_X86_64_64'', 1), (''R_X86_64_PC32'', 2),
     (''R_X86_64_GOT32'', 3), (''R_X86_64_PLT32'', 4), (''R_X86_64_COPY'', 5),
     (''R_X86_64_GLOB_DAT'', 6), (''R_X86_64_JUMP_SLOT'', 7), (''R_X86_64_RELATIVE'', 8),
     (''R_X86_64_GOTPCREL'', 9), (''R_X86_64_32'', 10), (''R_X86_64_32S'', 11),
     (''R_X86_64_16'', 12), (''R_X86_64_PC16'', 13), (''R_X86_64_8'', 14),
     (''R_X86_64_PC8'', 15), (''R_X86_64_DTPMOD64'', 16), (''R_X86_64_DTPOFF64'', 17),
     (''R_X86_64_TPOFF64'', 18), (''R_X86_64_TLSGD'', 19), (''R_X86_64_TLSLD'', 20),
     (''R_X86_64_DTPOFF32'', 21), (''R_X86_64_GOTTPOFF'', 22), (''R_X86_64_TPOFF32'', 23),
     (''R_X86_64_PC64'', 24), (''R_X86_64_GOTOFF64'', 25), (''R_X86_64_GOTPC32'', 26),
     (''R_X86_64_GOT64'', 27), (''R_X86_64_GOTPCREL64'', 28), (''R_X86_64_GOTPC64'', 29),
     (''R_X86_64_GOTPLT64'', 30), (''R_X86_64_PLTOFF64'', 31),
     (''R_X86_64_GOTPC32_TLSDESC'', 34), (''R_X86_64_TLSDESC_CALL'', 35),
     (''R_X86_64_TLSDESC'', 36), (''R_X86_64_IRELATIVE'', 37), (''R_X86_64_REX_GOTPCRELX'', 42),
     (''R_X86_64_GNU_VTINHERIT'', 250), (''R_X86_64_GNU_VTENTRY'', 251)], PassDefault)"

definition ENUM_RELOC_TYPE_BPF :: enum where
  "ENUM_RELOC_TYPE_BPF =
  ([
     (''R_BPF_NONE'', 0), (''R_BPF_64_64'', 1), (''R_BPF_64_ABS64'', 2), (''R_BPF_64_ABS32'', 3),
     (''R_BPF_64_NODYLD32'', 4), (''R_BPF_64_32'', 10)], PassDefault)"

definition ENUM_RELOC_TYPE_LOONGARCH :: enum where
  "ENUM_RELOC_TYPE_LOONGARCH =
  ([
     (''R_LARCH_NONE'', 0), (''R_LARCH_32'', 1), (''R_LARCH_64'', 2), (''R_LARCH_RELATIVE'', 3),
     (''R_LARCH_COPY'', 4), (''R_LARCH_JUMP_SLOT'', 5), (''R_LARCH_TLS_DTPMOD32'', 6),
     (''R_LARCH_TLS_DTPMOD64'', 7), (''R_LARCH_TLS_DTPREL32'', 8), (''R_LARCH_TLS_DTPREL64'', 9),
     (''R_LARCH_TLS_TPREL32'', 10), (''R_LARCH_TLS_TPREL64'', 11), (''R_LARCH_IRELATIVE'', 12),
     (''R_LARCH_MARK_LA'', 20), (''R_LARCH_MARK_PCREL'', 21), (''R_LARCH_SOP_PUSH_PCREL'', 22),
     (''R_LARCH_SOP_PUSH_ABSOLUTE'', 23), (''R_LARCH_SOP_PUSH_DUP'', 24),
     (''R_LARCH_SOP_PUSH_GPREL'', 25), (''R_LARCH_SOP_PUSH_TLS_TPREL'', 26),
     (''R_LARCH_SOP_PUSH_TLS_GOT'', 27), (''R_LARCH_SOP_PUSH_TLS_GD'', 28),
     (''R_LARCH_SOP_PUSH_PLT_PCREL'', 29), (''R_LARCH_SOP_ASSERT'', 30),
     (''R_LARCH_SOP_NOT'', 31), (''R_LARCH_SOP_SUB'', 32), (''R_LARCH_SOP_SL'', 33),
     (''R_LARCH_SOP_SR'', 34), (''R_LARCH_SOP_ADD'', 35), (''R_LARCH_SOP_AND'', 36),
     (''R_LARCH_SOP_IF_ELSE'', 37), (''R_LARCH_SOP_POP_32_S_10_5'', 38),
     (''R_LARCH_SOP_POP_32_U_10_12'', 39), (''R_LARCH_SOP_POP_32_S_10_12'', 40),
     (''R_LARCH_SOP_POP_32_S_10_16'', 41), (''R_LARCH_SOP_POP_32_S_10_16_S2'', 42),
     (''R_LARCH_SOP_POP_32_S_5_20'', 43), (''R_LARCH_SOP_POP_32_S_0_5_10_16_S2'', 44),
     (''R_LARCH_SOP_POP_32_S_0_10_10_16_S2'', 45), (''R_LARCH_SOP_POP_32_U'', 46),
     (''R_LARCH_ADD8'', 47), (''R_LARCH_ADD16'', 48), (''R_LARCH_ADD24'', 49),
     (''R_LARCH_ADD32'', 50), (''R_LARCH_ADD64'', 51), (''R_LARCH_SUB8'', 52),
     (''R_LARCH_SUB16'', 53), (''R_LARCH_SUB24'', 54), (''R_LARCH_SUB32'', 55),
     (''R_LARCH_SUB64'', 56), (''R_LARCH_GNU_VTINHERIT'', 57), (''R_LARCH_GNU_VTENTRY'', 58),
     (''R_LARCH_B16'', 64), (''R_LARCH_B21'', 65), (''R_LARCH_B26'', 66),
     (''R_LARCH_ABS_HI20'', 67), (''R_LARCH_ABS_LO12'', 68), (''R_LARCH_ABS64_LO20'', 69),
     (''R_LARCH_ABS64_HI12'', 70), (''R_LARCH_PCALA_HI20'', 71), (''R_LARCH_PCALA_LO12'', 72),
     (''R_LARCH_PCALA64_LO20'', 73), (''R_LARCH_PCALA64_HI12'', 74),
     (''R_LARCH_GOT_PC_HI20'', 75), (''R_LARCH_GOT_PC_LO12'', 76),
     (''R_LARCH_GOT64_PC_LO20'', 77), (''R_LARCH_GOT64_PC_HI12'', 78),
     (''R_LARCH_GOT_HI20'', 79), (''R_LARCH_GOT_LO12'', 80), (''R_LARCH_GOT64_LO20'', 81),
     (''R_LARCH_GOT64_HI12'', 82), (''R_LARCH_TLS_LE_HI20'', 83), (''R_LARCH_TLS_LE_LO12'', 84),
     (''R_LARCH_TLS_LE64_LO20'', 85), (''R_LARCH_TLS_LE64_HI12'', 86),
     (''R_LARCH_TLS_IE_PC_HI20'', 87), (''R_LARCH_TLS_IE_PC_LO12'', 88),
     (''R_LARCH_TLS_IE64_PC_LO20'', 89), (''R_LARCH_TLS_IE64_PC_HI12'', 90),
     (''R_LARCH_TLS_IE_HI20'', 91), (''R_LARCH_TLS_IE_LO12'', 92),
     (''R_LARCH_TLS_IE64_LO20'', 93), (''R_LARCH_TLS_IE64_HI12'', 94),
     (''R_LARCH_TLS_LD_PC_HI20'', 95), (''R_LARCH_TLS_LD_HI20'', 96),
     (''R_LARCH_TLS_GD_PC_HI20'', 97), (''R_LARCH_TLS_GD_HI20'', 98), (''R_LARCH_32_PCREL'', 99),
     (''R_LARCH_RELAX'', 100), (''R_LARCH_DELETE'', 101), (''R_LARCH_ALIGN'', 102),
     (''R_LARCH_PCREL20_S2'', 103), (''R_LARCH_CFA'', 104), (''R_LARCH_ADD6'', 105),
     (''R_LARCH_SUB6'', 106), (''R_LARCH_ADD_ULEB128'', 107), (''R_LARCH_SUB_ULEB128'', 108),
     (''R_LARCH_64_PCREL'', 109)], PassDefault)"

definition ENUM_RELOC_TYPE_S390X :: enum where
  "ENUM_RELOC_TYPE_S390X =
  ([
     (''R_390_NONE'', 0), (''R_390_8'', 1), (''R_390_12'', 2), (''R_390_16'', 3),
     (''R_390_32'', 4), (''R_390_PC32'', 5), (''R_390_GOT12'', 6), (''R_390_GOT32'', 7),
     (''R_390_PLT32'', 8), (''R_390_COPY'', 9), (''R_390_GLOB_DAT'', 10),
     (''R_390_JMP_SLOT'', 11), (''R_390_RELATIVE'', 12), (''R_390_GOTOFF32'', 13),
     (''R_390_GOTPC'', 14), (''R_390_GOT16'', 15), (''R_390_PC16'', 16), (''R_390_PC16DBL'', 17),
     (''R_390_PLT16DBL'', 18), (''R_390_PC32DBL'', 19), (''R_390_PLT32DBL'', 20),
     (''R_390_GOTPCDBL'', 21), (''R_390_64'', 22), (''R_390_PC64'', 23), (''R_390_GOT64'', 24),
     (''R_390_PLT64'', 25), (''R_390_GOTENT'', 26), (''R_390_GOTOFF16'', 27),
     (''R_390_GOTOFF64'', 28), (''R_390_GOTPLT12'', 29), (''R_390_GOTPLT16'', 30),
     (''R_390_GOTPLT32'', 31), (''R_390_GOTPLT64'', 32), (''R_390_GOTPLTENT'', 33),
     (''R_390_PLTOFF16'', 34), (''R_390_PLTOFF32'', 35), (''R_390_PLTOFF64'', 36),
     (''R_390_TLS_LOAD'', 37), (''R_390_TLS_GDCALL'', 38), (''R_390_TLS_LDCALL'', 39),
     (''R_390_TLS_GD64'', 41), (''R_390_TLS_GOTIE12'', 42), (''R_390_TLS_GOTIE64'', 44),
     (''R_390_TLS_LDM64'', 46), (''R_390_TLS_IE64'', 48), (''R_390_TLS_IEENT'', 49),
     (''R_390_TLS_LE64'', 51), (''R_390_TLS_LDO64'', 53), (''R_390_TLS_DTPMOD'', 54),
     (''R_390_TLS_DTPOFF'', 55), (''R_390_TLS_TPOFF'', 56), (''R_390_20'', 57),
     (''R_390_GOT20'', 58), (''R_390_GOTPLT20'', 59), (''R_390_TLS_GOTIE20'', 60),
     (''R_390_IRELATIVE'', 61), (''R_390_PC12DBL'', 62), (''R_390_PLT12DBL'', 63),
     (''R_390_PC24DBL'', 64), (''R_390_PLT24DBL'', 65)], NoDefault)"

definition ENUM_VERSYM :: enum where
  "ENUM_VERSYM =
  ([
     (''VER_NDX_LOCAL'', 0), (''VER_NDX_GLOBAL'', 1), (''VER_NDX_LORESERVE'', 65280),
     (''VER_NDX_ELIMINATE'', 65281)], PassDefault)"

definition ENUM_SUNW_SYMINFO_BOUNDTO :: enum where
  "ENUM_SUNW_SYMINFO_BOUNDTO =
  ([
     (''SYMINFO_BT_SELF'', 65535), (''SYMINFO_BT_PARENT'', 65534), (''SYMINFO_BT_NONE'', 65533),
     (''SYMINFO_BT_EXTERN'', 65532)], PassDefault)"

definition ENUM_NOTE_N_TYPE :: enum where
  "ENUM_NOTE_N_TYPE =
  ([
     (''NT_GNU_ABI_TAG'', 1), (''NT_GNU_HWCAP'', 2), (''NT_GNU_BUILD_ID'', 3),
     (''NT_GNU_GOLD_VERSION'', 4), (''NT_GNU_PROPERTY_TYPE_0'', 5)], PassDefault)"

definition ENUM_CORE_NOTE_N_TYPE :: enum where
  "ENUM_CORE_NOTE_N_TYPE =
  ([
     (''NT_PRSTATUS'', 1), (''NT_FPREGSET'', 2), (''NT_PRPSINFO'', 3), (''NT_TASKSTRUCT'', 4),
     (''NT_AUXV'', 6), (''NT_SIGINFO'', 1397311305), (''NT_FILE'', 1179208773)], PassDefault)"

definition ENUM_NOTE_ABI_TAG_OS :: enum where
  "ENUM_NOTE_ABI_TAG_OS =
  ([
     (''ELF_NOTE_OS_LINUX'', 0), (''ELF_NOTE_OS_GNU'', 1), (''ELF_NOTE_OS_SOLARIS2'', 2),
     (''ELF_NOTE_OS_FREEBSD'', 3), (''ELF_NOTE_OS_NETBSD'', 4), (''ELF_NOTE_OS_SYLLABLE'', 5)], PassDefault)"

definition ENUM_NOTE_GNU_PROPERTY_TYPE :: enum where
  "ENUM_NOTE_GNU_PROPERTY_TYPE =
  ([
     (''GNU_PROPERTY_STACK_SIZE'', 1), (''GNU_PROPERTY_NO_COPY_ON_PROTECTED'', 2),
     (''GNU_PROPERTY_X86_FEATURE_1_AND'', 3221225474),
     (''GNU_PROPERTY_X86_ISA_1_NEEDED'', 3221258242),
     (''GNU_PROPERTY_X86_FEATURE_2_USED'', 3221291009),
     (''GNU_PROPERTY_X86_ISA_1_USED'', 3221291010),
     (''GNU_PROPERTY_AARCH64_FEATURE_1_AND'', 3221225472)], PassDefault)"

definition ENUM_GNU_PROPERTY_X86_FEATURE_1_FLAGS :: enum where
  "ENUM_GNU_PROPERTY_X86_FEATURE_1_FLAGS =
  ([
     (''GNU_PROPERTY_X86_FEATURE_1_IBT'', 1), (''GNU_PROPERTY_X86_FEATURE_1_SHSTK'', 2),
     (''GNU_PROPERTY_X86_FEATURE_1_LAM_U48'', 4), (''GNU_PROPERTY_X86_FEATURE_1_LAM_U57'', 8)], PassDefault)"

definition ENUM_RELOC_TYPE_ARM :: enum where
  "ENUM_RELOC_TYPE_ARM =
  ([
     (''R_ARM_NONE'', 0), (''R_ARM_PC24'', 1), (''R_ARM_ABS32'', 2), (''R_ARM_REL32'', 3),
     (''R_ARM_LDR_PC_G0'', 4), (''R_ARM_ABS16'', 5), (''R_ARM_ABS12'', 6),
     (''R_ARM_THM_ABS5'', 7), (''R_ARM_ABS8'', 8), (''R_ARM_SBREL32'', 9),
     (''R_ARM_THM_CALL'', 10), (''R_ARM_THM_PC8'', 11), (''R_ARM_BREL_ADJ'', 12),
     (''R_ARM_SWI24'', 13), (''R_ARM_THM_SWI8'', 14), (''R_ARM_XPC25'', 15),
     (''R_ARM_THM_XPC22'', 16), (''R_ARM_TLS_DTPMOD32'', 17), (''R_ARM_TLS_DTPOFF32'', 18),
     (''R_ARM_TLS_TPOFF32'', 19), (''R_ARM_COPY'', 20), (''R_ARM_GLOB_DAT'', 21),
     (''R_ARM_JUMP_SLOT'', 22), (''R_ARM_RELATIVE'', 23), (''R_ARM_GOTOFF32'', 24),
     (''R_ARM_BASE_PREL'', 25), (''R_ARM_GOT_BREL'', 26), (''R_ARM_PLT32'', 27),
     (''R_ARM_CALL'', 28), (''R_ARM_JUMP24'', 29), (''R_ARM_THM_JUMP24'', 30),
     (''R_ARM_BASE_ABS'', 31), (''R_ARM_ALU_PCREL_7_0'', 32), (''R_ARM_ALU_PCREL_15_8'', 33),
     (''R_ARM_ALU_PCREL_23_15'', 34), (''R_ARM_LDR_SBREL_11_0_NC'', 35),
     (''R_ARM_ALU_SBREL_19_12_NC'', 36), (''R_ARM_ALU_SBREL_27_20_CK'', 37),
     (''R_ARM_TARGET1'', 38), (''R_ARM_SBREL31'', 39), (''R_ARM_V4BX'', 40),
     (''R_ARM_TARGET2'', 41), (''R_ARM_PREL31'', 42), (''R_ARM_MOVW_ABS_NC'', 43),
     (''R_ARM_MOVT_ABS'', 44), (''R_ARM_MOVW_PREL_NC'', 45), (''R_ARM_MOVT_PREL'', 46),
     (''R_ARM_THM_MOVW_ABS_NC'', 47), (''R_ARM_THM_MOVT_ABS'', 48),
     (''R_ARM_THM_MOVW_PREL_NC'', 49), (''R_ARM_THM_MOVT_PREL'', 50), (''R_ARM_THM_JUMP19'', 51),
     (''R_ARM_THM_JUMP6'', 52), (''R_ARM_THM_ALU_PREL_11_0'', 53), (''R_ARM_THM_PC12'', 54),
     (''R_ARM_ABS32_NOI'', 55), (''R_ARM_REL32_NOI'', 56), (''R_ARM_ALU_PC_G0_NC'', 57),
     (''R_ARM_ALU_PC_G0'', 58), (''R_ARM_ALU_PC_G1_NC'', 59), (''R_ARM_ALU_PC_G1'', 60),
     (''R_ARM_ALU_PC_G2'', 61), (''R_ARM_LDR_PC_G1'', 62), (''R_ARM_LDR_PC_G2'', 63),
     (''R_ARM_LDRS_PC_G0'', 64), (''R_ARM_LDRS_PC_G1'', 65), (''R_ARM_LDRS_PC_G2'', 66),
     (''R_ARM_LDC_PC_G0'', 67), (''R_ARM_LDC_PC_G1'', 68), (''R_ARM_LDC_PC_G2'', 69),
     (''R_ARM_ALU_SB_G0_NC'', 70), (''R_ARM_ALU_SB_G0'', 71), (''R_ARM_ALU_SB_G1_NC'', 72),
     (''R_ARM_ALU_SB_G1'', 73), (''R_ARM_ALU_SB_G2'', 74), (''R_ARM_LDR_SB_G0'', 75),
     (''R_ARM_LDR_SB_G1'', 76), (''R_ARM_LDR_SB_G2'', 77), (''R_ARM_LDRS_SB_G0'', 78),
     (''R_ARM_LDRS_SB_G1'', 79), (''R_ARM_LDRS_SB_G2'', 80), (''R_ARM_LDC_SB_G0'', 81),
     (''R_ARM_LDC_SB_G1'', 82), (''R_ARM_LDC_SB_G2'', 83), (''R_ARM_MOVW_BREL_NC'', 84),
     (''R_ARM_MOVT_BREL'', 85), (''R_ARM_MOVW_BREL'', 86), (''R_ARM_THM_MOVW_BREL_NC'', 87),
     (''R_ARM_THM_MOVT_BREL'', 88), (''R_ARM_THM_MOVW_BREL'', 89), (''R_ARM_PLT32_ABS'', 94),
     (''R_ARM_GOT_ABS'', 95), (''R_ARM_GOT_PREL'', 96), (''R_ARM_GOT_BREL12'', 97),
     (''R_ARM_GOTOFF12'', 98), (''R_ARM_GOTRELAX'', 99), (''R_ARM_GNU_VTENTRY'', 100),
     (''R_ARM_GNU_VTINHERIT'', 101), (''R_ARM_THM_JUMP11'', 102), (''R_ARM_THM_JUMP8'', 103),
     (''R_ARM_TLS_GD32'', 104), (''R_ARM_TLS_LDM32'', 105), (''R_ARM_TLS_LDO32'', 106),
     (''R_ARM_TLS_IE32'', 107), (''R_ARM_TLS_LE32'', 108), (''R_ARM_TLS_LDO12'', 109),
     (''R_ARM_TLS_LE12'', 110), (''R_ARM_TLS_IE12GP'', 111), (''R_ARM_PRIVATE_0'', 112),
     (''R_ARM_PRIVATE_1'', 113), (''R_ARM_PRIVATE_2'', 114), (''R_ARM_PRIVATE_3'', 115),
     (''R_ARM_PRIVATE_4'', 116), (''R_ARM_PRIVATE_5'', 117), (''R_ARM_PRIVATE_6'', 118),
     (''R_ARM_PRIVATE_7'', 119), (''R_ARM_PRIVATE_8'', 120), (''R_ARM_PRIVATE_9'', 121),
     (''R_ARM_PRIVATE_10'', 122), (''R_ARM_PRIVATE_11'', 123), (''R_ARM_PRIVATE_12'', 124),
     (''R_ARM_PRIVATE_13'', 125), (''R_ARM_PRIVATE_14'', 126), (''R_ARM_PRIVATE_15'', 127),
     (''R_ARM_ME_TOO'', 128), (''R_ARM_THM_TLS_DESCSEQ16'', 129),
     (''R_ARM_THM_TLS_DESCSEQ32'', 130), (''R_ARM_THM_GOT_BREL12'', 131),
     (''R_ARM_IRELATIVE'', 140)], NoDefault)"

definition ENUM_RELOC_TYPE_AARCH64 :: enum where
  "ENUM_RELOC_TYPE_AARCH64 =
  ([
     (''R_AARCH64_NONE'', 256), (''R_AARCH64_ABS64'', 257), (''R_AARCH64_ABS32'', 258),
     (''R_AARCH64_ABS16'', 259), (''R_AARCH64_PREL64'', 260), (''R_AARCH64_PREL32'', 261),
     (''R_AARCH64_PREL16'', 262), (''R_AARCH64_MOVW_UABS_G0'', 263),
     (''R_AARCH64_MOVW_UABS_G0_NC'', 264), (''R_AARCH64_MOVW_UABS_G1'', 265),
     (''R_AARCH64_MOVW_UABS_G1_NC'', 266), (''R_AARCH64_MOVW_UABS_G2'', 267),
     (''R_AARCH64_MOVW_UABS_G2_NC'', 268), (''R_AARCH64_MOVW_UABS_G3'', 269),
     (''R_AARCH64_MOVW_SABS_G0'', 270), (''R_AARCH64_MOVW_SABS_G1'', 271),
     (''R_AARCH64_MOVW_SABS_G2'', 272), (''R_AARCH64_LD_PREL_LO19'', 273),
     (''R_AARCH64_ADR_PREL_LO21'', 274), (''R_AARCH64_ADR_PREL_PG_HI21'', 275),
     (''R_AARCH64_ADR_PREL_PG_HI21_NC'', 276), (''R_AARCH64_ADD_ABS_LO12_NC'', 277),
     (''R_AARCH64_LDST8_ABS_LO12_NC'', 278), (''R_AARCH64_TSTBR14'', 279),
     (''R_AARCH64_CONDBR19'', 280), (''R_AARCH64_JUMP26'', 282), (''R_AARCH64_CALL26'', 283),
     (''R_AARCH64_LDST16_ABS_LO12_NC'', 284), (''R_AARCH64_LDST32_ABS_LO12_NC'', 285),
     (''R_AARCH64_LDST64_ABS_LO12_NC'', 286), (''R_AARCH64_MOVW_PREL_G0'', 287),
     (''R_AARCH64_MOVW_PREL_G0_NC'', 288), (''R_AARCH64_MOVW_PREL_G1'', 289),
     (''R_AARCH64_MOVW_PREL_G1_NC'', 290), (''R_AARCH64_MOVW_PREL_G2'', 291),
     (''R_AARCH64_MOVW_PREL_G2_NC'', 292), (''R_AARCH64_MOVW_PREL_G3'', 293),
     (''R_AARCH64_MOVW_GOTOFF_G0'', 300), (''R_AARCH64_MOVW_GOTOFF_G0_NC'', 301),
     (''R_AARCH64_MOVW_GOTOFF_G1'', 302), (''R_AARCH64_MOVW_GOTOFF_G1_NC'', 303),
     (''R_AARCH64_MOVW_GOTOFF_G2'', 304), (''R_AARCH64_MOVW_GOTOFF_G2_NC'', 305),
     (''R_AARCH64_MOVW_GOTOFF_G3'', 306), (''R_AARCH64_GOTREL64'', 307),
     (''R_AARCH64_GOTREL32'', 308), (''R_AARCH64_GOT_LD_PREL19'', 309),
     (''R_AARCH64_LD64_GOTOFF_LO15'', 310), (''R_AARCH64_ADR_GOT_PAGE'', 311),
     (''R_AARCH64_LD64_GOT_LO12_NC'', 312), (''R_AARCH64_TLSGD_ADR_PREL21'', 512),
     (''R_AARCH64_TLSGD_ADR_PAGE21'', 513), (''R_AARCH64_TLSGD_ADD_LO12_NC'', 514),
     (''R_AARCH64_TLSGD_MOVW_G1'', 515), (''R_AARCH64_TLSGD_MOVW_G0_NC'', 516),
     (''R_AARCH64_TLSLD_ADR_PREL21'', 517), (''R_AARCH64_TLSLD_ADR_PAGE21'', 518),
     (''R_AARCH64_TLSLD_ADD_LO12_NC'', 519), (''R_AARCH64_TLSLD_MOVW_G1'', 520),
     (''R_AARCH64_TLSLD_MOVW_G0_NC'', 521), (''R_AARCH64_TLSLD_LD_PREL19'', 522),
     (''R_AARCH64_TLSLD_MOVW_DTPREL_G2'', 523), (''R_AARCH64_TLSLD_MOVW_DTPREL_G1'', 524),
     (''R_AARCH64_TLSLD_MOVW_DTPREL_G1_NC'', 525), (''R_AARCH64_TLSLD_MOVW_DTPREL_G0'', 526),
     (''R_AARCH64_TLSLD_MOVW_DTPREL_G0_NC'', 527), (''R_AARCH64_TLSLD_ADD_DTPREL_HI12'', 528),
     (''R_AARCH64_TLSLD_ADD_DTPREL_LO12'', 529), (''R_AARCH64_TLSLD_ADD_DTPREL_LO12_NC'', 530),
     (''R_AARCH64_TLSLD_LDST8_DTPREL_LO12'', 531),
     (''R_AARCH64_TLSLD_LDST8_DTPREL_LO12_NC'', 532),
     (''R_AARCH64_TLSLD_LDST16_DTPREL_LO12'', 533),
     (''R_AARCH64_TLSLD_LDST16_DTPREL_LO12_NC'', 534),
     (''R_AARCH64_TLSLD_LDST32_DTPREL_LO12'', 535),
     (''R_AARCH64_TLSLD_LDST32_DTPREL_LO12_NC'', 536),
     (''R_AARCH64_TLSLD_LDST64_DTPREL_LO12'', 537),
     (''R_AARCH64_TLSLD_LDST64_DTPREL_LO12_NC'', 538),
     (''R_AARCH64_TLSIE_MOVW_GOTTPREL_G1'', 539), (''R_AARCH64_TLSIE_MOVW_GOTTPREL_G0_NC'', 540),
     (''R_AARCH64_TLSIE_ADR_GOTTPREL_PAGE21'', 541),
     (''R_AARCH64_TLSIE_LD64_GOTTPREL_LO12_NC'', 542),
     (''R_AARCH64_TLSIE_LD_GOTTPREL_PREL19'', 543), (''R_AARCH64_TLSLE_MOVW_TPREL_G2'', 544),
     (''R_AARCH64_TLSLE_MOVW_TPREL_G1'', 545), (''R_AARCH64_TLSLE_MOVW_TPREL_G1_NC'', 546),
     (''R_AARCH64_TLSLE_MOVW_TPREL_G0'', 547), (''R_AARCH64_TLSLE_MOVW_TPREL_G0_NC'', 548),
     (''R_AARCH64_TLSLE_ADD_TPREL_HI12'', 549), (''R_AARCH64_TLSLE_ADD_TPREL_LO12'', 550),
     (''R_AARCH64_TLSLE_ADD_TPREL_LO12_NC'', 551), (''R_AARCH64_TLSLE_LDST8_TPREL_LO12'', 552),
     (''R_AARCH64_TLSLE_LDST8_TPREL_LO12_NC'', 553),
     (''R_AARCH64_TLSLE_LDST16_TPREL_LO12'', 554),
     (''R_AARCH64_TLSLE_LDST16_TPREL_LO12_NC'', 555),
     (''R_AARCH64_TLSLE_LDST32_TPREL_LO12'', 556),
     (''R_AARCH64_TLSLE_LDST32_TPREL_LO12_NC'', 557),
     (''R_AARCH64_TLSLE_LDST64_TPREL_LO12'', 558),
     (''R_AARCH64_TLSLE_LDST64_TPREL_LO12_NC'', 559), (''R_AARCH64_COPY'', 1024),
     (''R_AARCH64_GLOB_DAT'', 1025), (''R_AARCH64_JUMP_SLOT'', 1026),
     (''R_AARCH64_RELATIVE'', 1027), (''R_AARCH64_TLS_DTPREL64'', 1028),
     (''R_AARCH64_TLS_DTPMOD64'', 1029), (''R_AARCH64_TLS_TPREL64'', 1030),
     (''R_AARCH64_TLS_DTPREL32'', 1031), (''R_AARCH64_TLS_DTPMOD32'', 1032),
     (''R_AARCH64_TLS_TPREL32'', 1033)], NoDefault)"

definition ENUM_ATTR_TAG_ARM :: enum where
  "ENUM_ATTR_TAG_ARM =
  ([
     (''TAG_FILE'', 1), (''TAG_SECTION'', 2), (''TAG_SYMBOL'', 3), (''TAG_CPU_RAW_NAME'', 4),
     (''TAG_CPU_NAME'', 5), (''TAG_CPU_ARCH'', 6), (''TAG_CPU_ARCH_PROFILE'', 7),
     (''TAG_ARM_ISA_USE'', 8), (''TAG_THUMB_ISA_USE'', 9), (''TAG_FP_ARCH'', 10),
     (''TAG_WMMX_ARCH'', 11), (''TAG_ADVANCED_SIMD_ARCH'', 12), (''TAG_PCS_CONFIG'', 13),
     (''TAG_ABI_PCS_R9_USE'', 14), (''TAG_ABI_PCS_RW_DATA'', 15), (''TAG_ABI_PCS_RO_DATA'', 16),
     (''TAG_ABI_PCS_GOT_USE'', 17), (''TAG_ABI_PCS_WCHAR_T'', 18), (''TAG_ABI_FP_ROUNDING'', 19),
     (''TAG_ABI_FP_DENORMAL'', 20), (''TAG_ABI_FP_EXCEPTIONS'', 21),
     (''TAG_ABI_FP_USER_EXCEPTIONS'', 22), (''TAG_ABI_FP_NUMBER_MODEL'', 23),
     (''TAG_ABI_ALIGN_NEEDED'', 24), (''TAG_ABI_ALIGN_PRESERVED'', 25),
     (''TAG_ABI_ENUM_SIZE'', 26), (''TAG_ABI_HARDFP_USE'', 27), (''TAG_ABI_VFP_ARGS'', 28),
     (''TAG_ABI_WMMX_ARGS'', 29), (''TAG_ABI_OPTIMIZATION_GOALS'', 30),
     (''TAG_ABI_FP_OPTIMIZATION_GOALS'', 31), (''TAG_COMPATIBILITY'', 32),
     (''TAG_CPU_UNALIGNED_ACCESS'', 34), (''TAG_FP_HP_EXTENSION'', 36),
     (''TAG_ABI_FP_16BIT_FORMAT'', 38), (''TAG_MPEXTENSION_USE'', 42), (''TAG_DIV_USE'', 44),
     (''TAG_DSP_EXTENSION'', 46), (''TAG_MVE_ARCH'', 48), (''TAG_PAC_EXTENSION'', 50),
     (''TAG_BTI_EXTENSION'', 52), (''TAG_NODEFAULTS'', 64), (''TAG_ALSO_COMPATIBLE_WITH'', 65),
     (''TAG_T2EE_USE'', 66), (''TAG_CONFORMANCE'', 67), (''TAG_VIRTUALIZATION_USE'', 68),
     (''TAG_MPEXTENSION_USE_OLD'', 70), (''TAG_FRAMEPOINTER_USE'', 72), (''TAG_BTI_USE'', 74),
     (''TAG_PACRET_USE'', 76)], NoDefault)"

definition ENUM_ATTR_TAG_RISCV :: enum where
  "ENUM_ATTR_TAG_RISCV =
  ([
     (''TAG_FILE'', 1), (''TAG_SECTION'', 2), (''TAG_SYMBOL'', 3), (''TAG_STACK_ALIGN'', 4),
     (''TAG_ARCH'', 5), (''TAG_UNALIGNED_ACCESS'', 6), (''TAG_PRIV_SPEC'', 8),
     (''TAG_PRIV_SPEC_MINOR'', 10), (''TAG_PRIV_SPEC_REVISION'', 12), (''TAG_ATOMIC_ABI'', 14),
     (''TAG_X3_REG_USAGE'', 16)], NoDefault)"

definition ENUM_RELOC_TYPE_PPC64 :: enum where
  "ENUM_RELOC_TYPE_PPC64 =
  ([
     (''R_PPC64_NONE'', 0), (''R_PPC64_ADDR32'', 1), (''R_PPC64_ADDR24'', 2),
     (''R_PPC64_ADDR16'', 3), (''R_PPC64_ADDR16_LO'', 4), (''R_PPC64_ADDR16_HI'', 5),
     (''R_PPC64_ADDR16_HA'', 6), (''R_PPC64_ADDR14'', 7), (''R_PPC64_ADDR14_BRTAKEN'', 8),
     (''R_PPC64_ADDR14_BRNTAKEN'', 9), (''R_PPC64_REL24'', 10), (''R_PPC64_REL14'', 11),
     (''R_PPC64_REL14_BRTAKEN'', 12), (''R_PPC64_REL14_BRNTAKEN'', 13), (''R_PPC64_GOT16'', 14),
     (''R_PPC64_GOT16_LO'', 15), (''R_PPC64_GOT16_HI'', 16), (''R_PPC64_GOT16_HA'', 17),
     (''R_PPC64_COPY'', 19), (''R_PPC64_GLOB_DAT'', 20), (''R_PPC64_JMP_SLOT'', 21),
     (''R_PPC64_RELATIVE'', 22), (''R_PPC64_UADDR32'', 24), (''R_PPC64_UADDR16'', 25),
     (''R_PPC64_REL32'', 26), (''R_PPC64_PLT32'', 27), (''R_PPC64_PLTREL32'', 28),
     (''R_PPC64_PLT16_LO'', 29), (''R_PPC64_PLT16_HI'', 30), (''R_PPC64_PLT16_HA'', 31),
     (''R_PPC64_SECTOFF'', 33), (''R_PPC64_SECTOFF_LO'', 34), (''R_PPC64_SECTOFF_HI'', 35),
     (''R_PPC64_SECTOFF_HA'', 36), (''R_PPC64_ADDR30'', 37), (''R_PPC64_ADDR64'', 38),
     (''R_PPC64_ADDR16_HIGHER'', 39), (''R_PPC64_ADDR16_HIGHERA'', 40),
     (''R_PPC64_ADDR16_HIGHEST'', 41), (''R_PPC64_ADDR16_HIGHESTA'', 42),
     (''R_PPC64_UADDR64'', 43), (''R_PPC64_REL64'', 44), (''R_PPC64_PLT64'', 45),
     (''R_PPC64_PLTREL64'', 46), (''R_PPC64_TOC16'', 47), (''R_PPC64_TOC16_LO'', 48),
     (''R_PPC64_TOC16_HI'', 49), (''R_PPC64_TOC16_HA'', 50), (''R_PPC64_TOC'', 51),
     (''R_PPC64_PLTGOT16'', 52), (''R_PPC64_PLTGOT16_LO'', 53), (''R_PPC64_PLTGOT16_HI'', 54),
     (''R_PPC64_PLTGOT16_HA'', 55), (''R_PPC64_ADDR16_DS'', 56), (''R_PPC64_ADDR16_LO_DS'', 57),
     (''R_PPC64_GOT16_DS'', 58), (''R_PPC64_GOT16_LO_DS'', 59), (''R_PPC64_PLT16_LO_DS'', 60),
     (''R_PPC64_SECTOFF_DS'', 61), (''R_PPC64_SECTOFF_LO_DS'', 62), (''R_PPC64_TOC16_DS'', 63),
     (''R_PPC64_TOC16_LO_DS'', 64), (''R_PPC64_PLTGOT16_DS'', 65),
     (''R_PPC64_PLTGOT16_LO_DS'', 66), (''R_PPC64_TLS'', 67), (''R_PPC64_DTPMOD64'', 68),
     (''R_PPC64_TPREL16'', 69), (''R_PPC64_TPREL16_LO'', 70), (''R_PPC64_TPREL16_HI'', 71),
     (''R_PPC64_TPREL16_HA'', 72), (''R_PPC64_TPREL64'', 73), (''R_PPC64_DTPREL16'', 74),
     (''R_PPC64_DTPREL16_LO'', 75), (''R_PPC64_DTPREL16_HI'', 76), (''R_PPC64_DTPREL16_HA'', 77),
     (''R_PPC64_DTPREL64'', 78), (''R_PPC64_GOT_TLSGD16'', 79), (''R_PPC64_GOT_TLSGD16_LO'', 80),
     (''R_PPC64_GOT_TLSGD16_HI'', 81), (''R_PPC64_GOT_TLSGD16_HA'', 82),
     (''R_PPC64_GOT_TLSLD16'', 83), (''R_PPC64_GOT_TLSLD16_LO'', 84),
     (''R_PPC64_GOT_TLSLD16_HI'', 85), (''R_PPC64_GOT_TLSLD16_HA'', 86),
     (''R_PPC64_GOT_TPREL16_DS'', 87), (''R_PPC64_GOT_TPREL16_LO_DS'', 88),
     (''R_PPC64_GOT_TPREL16_HI'', 89), (''R_PPC64_GOT_TPREL16_HA'', 90),
     (''R_PPC64_GOT_DTPREL16_DS'', 91), (''R_PPC64_GOT_DTPREL16_LO_DS'', 92),
     (''R_PPC64_GOT_DTPREL16_HI'', 93), (''R_PPC64_GOT_DTPREL16_HA'', 94),
     (''R_PPC64_TPREL16_DS'', 95), (''R_PPC64_TPREL16_LO_DS'', 96),
     (''R_PPC64_TPREL16_HIGHER'', 97), (''R_PPC64_TPREL16_HIGHERA'', 98),
     (''R_PPC64_TPREL16_HIGHEST'', 99), (''R_PPC64_TPREL16_HIGHESTA'', 100),
     (''R_PPC64_DTPREL16_DS'', 101), (''R_PPC64_DTPREL16_LO_DS'', 102),
     (''R_PPC64_DTPREL16_HIGHER'', 103), (''R_PPC64_DTPREL16_HIGHERA'', 104),
     (''R_PPC64_DTPREL16_HIGHEST'', 105), (''R_PPC64_DTPREL16_HIGHESTA'', 106),
     (''R_PPC64_TLSGD'', 107), (''R_PPC64_TLSLD'', 108), (''R_PPC64_TOCSAVE'', 109),
     (''R_PPC64_ADDR16_HIGH'', 110), (''R_PPC64_ADDR16_HIGHA'', 111),
     (''R_PPC64_TPREL16_HIGH'', 112), (''R_PPC64_TPREL16_HIGHA'', 113),
     (''R_PPC64_DTPREL16_HIGH'', 114), (''R_PPC64_DTPREL16_HIGHA'', 115),
     (''R_PPC64_REL24_NOTOC'', 116), (''R_PPC64_ADDR64_LOCAL'', 117),
     (''R_PPC64_IRELATIVE'', 248), (''R_PPC64_REL16'', 249), (''R_PPC64_REL16_LO'', 250),
     (''R_PPC64_REL16_HI'', 251), (''R_PPC64_REL16_HA'', 252), (''R_PPC64_GNU_VTINHERIT'', 253),
     (''R_PPC64_GNU_VTENTRY'', 254)], NoDefault)"

definition ENUM_RELOC_TYPE_PPC :: enum where
  "ENUM_RELOC_TYPE_PPC =
  ([
     (''R_PPC_NONE'', 0), (''R_PPC_ADDR32'', 1), (''R_PPC_ADDR24'', 2), (''R_PPC_ADDR16'', 3),
     (''R_PPC_ADDR16_LO'', 4), (''R_PPC_ADDR16_HI'', 5), (''R_PPC_ADDR16_HA'', 6),
     (''R_PPC_ADDR14'', 7), (''R_PPC_ADDR14_BRTAKEN'', 8), (''R_PPC_ADDR14_BRNTAKEN'', 9),
     (''R_PPC_REL24'', 10), (''R_PPC_REL14'', 11), (''R_PPC_REL14_BRTAKEN'', 12),
     (''R_PPC_REL14_BRNTAKEN'', 13), (''R_PPC_GOT16'', 14), (''R_PPC_GOT16_LO'', 15),
     (''R_PPC_GOT16_HI'', 16), (''R_PPC_GOT16_HA'', 17), (''R_PPC_PLTREL24'', 18),
     (''R_PPC_COPY'', 19), (''R_PPC_GLOB_DAT'', 20), (''R_PPC_JMP_SLOT'', 21),
     (''R_PPC_RELATIVE'', 22), (''R_PPC_LOCAL24PC'', 23), (''R_PPC_UADDR32'', 24),
     (''R_PPC_UADDR16'', 25), (''R_PPC_REL32'', 26), (''R_PPC_PLT32'', 27),
     (''R_PPC_PLTREL32'', 28), (''R_PPC_PLT16_LO'', 29), (''R_PPC_PLT16_HI'', 30),
     (''R_PPC_PLT16_HA'', 31), (''R_PPC_SECTOFF'', 33), (''R_PPC_SECTOFF_LO'', 34),
     (''R_PPC_SECTOFF_HI'', 35), (''R_PPC_SECTOFF_HA'', 36), (''R_PPC_ADDR30'', 37),
     (''R_PPC_EMB_NADDR32'', 101), (''R_PPC_EMB_NADDR16'', 102), (''R_PPC_EMB_NADDR16_LO'', 103),
     (''R_PPC_EMB_NADDR16_HI'', 104), (''R_PPC_EMB_NADDR16_HA'', 105),
     (''R_PPC_EMB_SDAI16'', 106), (''R_PPC_EMB_SDA2I16'', 107), (''R_PPC_EMB_SDA2REL'', 108),
     (''R_PPC_EMB_SDA21'', 109), (''R_PPC_EMB_MRKREF'', 110), (''R_PPC_EMB_RELSEC16'', 111),
     (''R_PPC_EMB_RELST_LO'', 112), (''R_PPC_EMB_RELST_HI'', 113), (''R_PPC_EMB_RELST_HA'', 114),
     (''R_PPC_EMB_BIT_FLD'', 115), (''R_PPC_EMB_RELSDA'', 116)], NoDefault)"

definition ENUM_RELOC_TYPE_V850 :: enum where
  "ENUM_RELOC_TYPE_V850 =
  ([
     (''R_V800_NONE'', 0), (''R_V810_NONE'', 48), (''R_V810_BYTE'', 49), (''R_V810_HWORD'', 50),
     (''R_V810_WORD'', 51), (''R_V810_WLO'', 52), (''R_V810_WHI'', 53), (''R_V810_WHI1'', 54),
     (''R_V810_GPBYTE'', 55), (''R_V810_GPHWORD'', 56), (''R_V810_GPWORD'', 57),
     (''R_V810_GPWLO'', 58), (''R_V810_GPWHI'', 59), (''R_V810_GPWHI1'', 60),
     (''R_V850_HWLO'', 61), (''R_V810_reserved1'', 62), (''R_V850_EP7BIT'', 63),
     (''R_V850_EPHBYTE'', 64), (''R_V850_EPWBYTE'', 65), (''R_V850_REGHWLO'', 66),
     (''R_V810_reserved2'', 67), (''R_V850_GPHWLO'', 68), (''R_V810_reserved3'', 69),
     (''R_V850_PCR22'', 70), (''R_V850_BLO'', 71), (''R_V850_EP4BIT'', 72),
     (''R_V850_EP5BIT'', 73), (''R_V850_REGBLO'', 74), (''R_V850_GPBLO'', 75),
     (''R_V810_WLO_1'', 76), (''R_V810_GPWLO_1'', 77), (''R_V850_BLO_1'', 78),
     (''R_V850_HWLO_1'', 79), (''R_V810_reserved4'', 80), (''R_V850_GPBLO_1'', 81),
     (''R_V850_GPHWLO_1'', 82), (''R_V810_reserved5'', 83), (''R_V850_EPBLO'', 84),
     (''R_V850_EPHWLO'', 85), (''R_V810_reserved6'', 86), (''R_V850_EPWLO_N'', 87),
     (''R_V850_PC32'', 88), (''R_V850_W23BIT'', 89), (''R_V850_GPW23BIT'', 90),
     (''R_V850_EPW23BIT'', 91), (''R_V850_B23BIT'', 92), (''R_V850_GPB23BIT'', 93),
     (''R_V850_EPB23BIT'', 94), (''R_V850_PC16U'', 95), (''R_V850_PC17'', 96),
     (''R_V850_DW8'', 97), (''R_V850_GPDW8'', 98), (''R_V850_EPDW8'', 99), (''R_V850_PC9'', 100),
     (''R_V810_REGBYTE'', 101), (''R_V810_REGHWORD'', 102), (''R_V810_REGWORD'', 103),
     (''R_V810_REGWLO'', 104), (''R_V810_REGWHI'', 105), (''R_V810_REGWHI1'', 106),
     (''R_V850_REGW23BIT'', 107), (''R_V850_REGB23BIT'', 108), (''R_V850_REGDW8'', 109),
     (''R_V810_EPBYTE'', 110), (''R_V810_EPHWORD'', 111), (''R_V810_EPWORD'', 112),
     (''R_V850_WLO23'', 113), (''R_V850_WORD_E'', 114), (''R_V850_REGWORD_E'', 115),
     (''R_V850_WORD'', 116), (''R_V850_GPWORD'', 117), (''R_V850_REGWORD'', 118),
     (''R_V850_EPWORD'', 119), (''R_V810_TPBYTE'', 120), (''R_V810_TPHWORD'', 121),
     (''R_V810_TPWORD'', 122), (''R_V810_TPWLO'', 123), (''R_V810_TPWHI'', 124),
     (''R_V810_TPWHI1'', 125), (''R_V850_TPHWLO'', 126), (''R_V850_TPBLO'', 127),
     (''R_V810_TPWLO_1'', 128), (''R_V850_TPBLO_1'', 129), (''R_V850_TPHWLO_1'', 130),
     (''R_V850_TP23BIT'', 131), (''R_V850_TPW23BIT'', 132), (''R_V850_TPDW8'', 133),
     (''R_V810_ABS32'', 160), (''R_V850_SYM'', 224), (''R_V850_OPadd'', 225),
     (''R_V850_OPsub'', 226), (''R_V850_OPsctsize'', 227), (''R_V850_OPscttop'', 228)], NoDefault)"

section \<open>Which tables are invertible\<close>

text \<open>One fact per table whose values are distinct.\<close>

lemma ENUM_EI_CLASS_values: "distinct_values ENUM_EI_CLASS"
  unfolding ENUM_EI_CLASS_def by (rule distinct_values_ascending) simp

lemma ENUM_EI_DATA_values: "distinct_values ENUM_EI_DATA"
  unfolding ENUM_EI_DATA_def by (rule distinct_values_ascending) simp

lemma ENUM_E_VERSION_values: "distinct_values ENUM_E_VERSION"
  unfolding ENUM_E_VERSION_def by (rule distinct_values_ascending) simp

lemma ENUM_EI_OSABI_values: "distinct_values ENUM_EI_OSABI"
  unfolding ENUM_EI_OSABI_def by (rule distinct_values_ascending) simp

lemma ENUM_E_TYPE_values: "distinct_values ENUM_E_TYPE"
  unfolding ENUM_E_TYPE_def by (rule distinct_values_ascending) simp

lemma ENUM_ELFCOMPRESS_TYPE_values: "distinct_values ENUM_ELFCOMPRESS_TYPE"
  unfolding ENUM_ELFCOMPRESS_TYPE_def by (rule distinct_values_ascending) simp

lemma ENUM_ST_INFO_BIND_values: "distinct_values ENUM_ST_INFO_BIND"
  unfolding ENUM_ST_INFO_BIND_def by (rule distinct_values_ascending) simp

lemma ENUM_ST_INFO_TYPE_values: "distinct_values ENUM_ST_INFO_TYPE"
  unfolding ENUM_ST_INFO_TYPE_def by (rule distinct_values_ascending) simp

lemma ENUM_ST_VISIBILITY_values: "distinct_values ENUM_ST_VISIBILITY"
  unfolding ENUM_ST_VISIBILITY_def by (rule distinct_values_ascending) simp

lemma ENUM_ST_LOCAL_values: "distinct_values ENUM_ST_LOCAL"
  unfolding ENUM_ST_LOCAL_def by (rule distinct_values_ascending) simp

lemma ENUM_ST_SHNDX_values: "distinct_values ENUM_ST_SHNDX"
  unfolding ENUM_ST_SHNDX_def by (rule distinct_values_ascending) simp

lemma ENUM_D_TAG_MIPS_values: "distinct_values ENUM_D_TAG_MIPS"
  unfolding ENUM_D_TAG_MIPS_def by (rule distinct_values_ascending) simp

lemma ENUM_D_TAG_AARCH64_values: "distinct_values ENUM_D_TAG_AARCH64"
  unfolding ENUM_D_TAG_AARCH64_def by (rule distinct_values_ascending) simp

lemma ENUM_DT_FLAGS_values: "distinct_values ENUM_DT_FLAGS"
  unfolding ENUM_DT_FLAGS_def by (rule distinct_values_ascending) simp

lemma ENUM_DT_FLAGS_1_values: "distinct_values ENUM_DT_FLAGS_1"
  unfolding ENUM_DT_FLAGS_1_def by (rule distinct_values_ascending) simp

lemma ENUM_RELOC_TYPE_MIPS_values: "distinct_values ENUM_RELOC_TYPE_MIPS"
  unfolding ENUM_RELOC_TYPE_MIPS_def by (rule distinct_values_ascending) simp

lemma ENUM_RELOC_TYPE_i386_values: "distinct_values ENUM_RELOC_TYPE_i386"
  unfolding ENUM_RELOC_TYPE_i386_def by (rule distinct_values_ascending) simp

lemma ENUM_RELOC_TYPE_x64_values: "distinct_values ENUM_RELOC_TYPE_x64"
  unfolding ENUM_RELOC_TYPE_x64_def by (rule distinct_values_ascending) simp

lemma ENUM_RELOC_TYPE_BPF_values: "distinct_values ENUM_RELOC_TYPE_BPF"
  unfolding ENUM_RELOC_TYPE_BPF_def by (rule distinct_values_ascending) simp

lemma ENUM_RELOC_TYPE_LOONGARCH_values: "distinct_values ENUM_RELOC_TYPE_LOONGARCH"
  unfolding ENUM_RELOC_TYPE_LOONGARCH_def by (rule distinct_values_ascending) simp

lemma ENUM_RELOC_TYPE_S390X_values: "distinct_values ENUM_RELOC_TYPE_S390X"
  unfolding ENUM_RELOC_TYPE_S390X_def by (rule distinct_values_ascending) simp

lemma ENUM_VERSYM_values: "distinct_values ENUM_VERSYM"
  unfolding ENUM_VERSYM_def by (rule distinct_values_ascending) simp

lemma ENUM_NOTE_N_TYPE_values: "distinct_values ENUM_NOTE_N_TYPE"
  unfolding ENUM_NOTE_N_TYPE_def by (rule distinct_values_ascending) simp

lemma ENUM_NOTE_ABI_TAG_OS_values: "distinct_values ENUM_NOTE_ABI_TAG_OS"
  unfolding ENUM_NOTE_ABI_TAG_OS_def by (rule distinct_values_ascending) simp

lemma ENUM_GNU_PROPERTY_X86_FEATURE_1_FLAGS_values: "distinct_values ENUM_GNU_PROPERTY_X86_FEATURE_1_FLAGS"
  unfolding ENUM_GNU_PROPERTY_X86_FEATURE_1_FLAGS_def by (rule distinct_values_ascending) simp

lemma ENUM_RELOC_TYPE_ARM_values: "distinct_values ENUM_RELOC_TYPE_ARM"
  unfolding ENUM_RELOC_TYPE_ARM_def by (rule distinct_values_ascending) simp

lemma ENUM_RELOC_TYPE_AARCH64_values: "distinct_values ENUM_RELOC_TYPE_AARCH64"
  unfolding ENUM_RELOC_TYPE_AARCH64_def by (rule distinct_values_ascending) simp

lemma ENUM_ATTR_TAG_ARM_values: "distinct_values ENUM_ATTR_TAG_ARM"
  unfolding ENUM_ATTR_TAG_ARM_def by (rule distinct_values_ascending) simp

lemma ENUM_ATTR_TAG_RISCV_values: "distinct_values ENUM_ATTR_TAG_RISCV"
  unfolding ENUM_ATTR_TAG_RISCV_def by (rule distinct_values_ascending) simp

lemma ENUM_RELOC_TYPE_PPC64_values: "distinct_values ENUM_RELOC_TYPE_PPC64"
  unfolding ENUM_RELOC_TYPE_PPC64_def by (rule distinct_values_ascending) simp

lemma ENUM_RELOC_TYPE_PPC_values: "distinct_values ENUM_RELOC_TYPE_PPC"
  unfolding ENUM_RELOC_TYPE_PPC_def by (rule distinct_values_ascending) simp

lemma ENUM_RELOC_TYPE_V850_values: "distinct_values ENUM_RELOC_TYPE_V850"
  unfolding ENUM_RELOC_TYPE_V850_def by (rule distinct_values_ascending) simp

lemma ENUM_SH_TYPE_BASE_values: "distinct_values ENUM_SH_TYPE_BASE"
  by (simp add: distinct_values_def ENUM_SH_TYPE_BASE_def)

lemma ENUM_P_TYPE_BASE_values: "distinct_values ENUM_P_TYPE_BASE"
  by (simp add: distinct_values_def ENUM_P_TYPE_BASE_def)

lemma ENUM_SUNW_SYMINFO_BOUNDTO_values: "distinct_values ENUM_SUNW_SYMINFO_BOUNDTO"
  by (simp add: distinct_values_def ENUM_SUNW_SYMINFO_BOUNDTO_def)

lemma ENUM_CORE_NOTE_N_TYPE_values: "distinct_values ENUM_CORE_NOTE_N_TYPE"
  by (simp add: distinct_values_def ENUM_CORE_NOTE_N_TYPE_def)

lemma ENUM_NOTE_GNU_PROPERTY_TYPE_values: "distinct_values ENUM_NOTE_GNU_PROPERTY_TYPE"
  by (simp add: distinct_values_def ENUM_NOTE_GNU_PROPERTY_TYPE_def)

text \<open>What a table does with a value it does not name.\<close>

lemma tables_NoDefault [simp]:
  "snd ENUM_EI_CLASS = NoDefault"
  "snd ENUM_EI_DATA = NoDefault"
  "snd ENUM_D_TAG_SOLARIS = NoDefault"
  "snd ENUM_D_TAG_MIPS = NoDefault"
  "snd ENUM_D_TAG_AARCH64 = NoDefault"
  "snd ENUM_DT_FLAGS = NoDefault"
  "snd ENUM_DT_FLAGS_1 = NoDefault"
  "snd ENUM_RELOC_TYPE_S390X = NoDefault"
  "snd ENUM_RELOC_TYPE_ARM = NoDefault"
  "snd ENUM_RELOC_TYPE_AARCH64 = NoDefault"
  "snd ENUM_ATTR_TAG_ARM = NoDefault"
  "snd ENUM_ATTR_TAG_RISCV = NoDefault"
  "snd ENUM_RELOC_TYPE_PPC64 = NoDefault"
  "snd ENUM_RELOC_TYPE_PPC = NoDefault"
  "snd ENUM_RELOC_TYPE_V850 = NoDefault"
  by (simp_all add: merge_enums_def merge_defaults_def ENUMMAP_EXTRA_D_TAG_MACHINE_def
    ENUM_EI_CLASS_def ENUM_EI_DATA_def ENUM_D_TAG_SOLARIS_def
    ENUM_D_TAG_MIPS_def ENUM_D_TAG_AARCH64_def ENUM_DT_FLAGS_def
    ENUM_DT_FLAGS_1_def ENUM_RELOC_TYPE_S390X_def ENUM_RELOC_TYPE_ARM_def
    ENUM_RELOC_TYPE_AARCH64_def ENUM_ATTR_TAG_ARM_def ENUM_ATTR_TAG_RISCV_def
    ENUM_RELOC_TYPE_PPC64_def ENUM_RELOC_TYPE_PPC_def ENUM_RELOC_TYPE_V850_def)

lemma tables_PassDefault [simp]:
  "snd ENUM_E_VERSION = PassDefault"
  "snd ENUM_EI_OSABI = PassDefault"
  "snd ENUM_E_TYPE = PassDefault"
  "snd ENUM_E_MACHINE = PassDefault"
  "snd ENUM_SH_TYPE_BASE = PassDefault"
  "snd ENUM_SH_TYPE_AMD64 = PassDefault"
  "snd ENUM_SH_TYPE_ARM = PassDefault"
  "snd ENUM_SH_TYPE_AARCH64 = PassDefault"
  "snd ENUM_SH_TYPE_RISCV = PassDefault"
  "snd ENUM_SH_TYPE_MIPS = PassDefault"
  "snd ENUM_ELFCOMPRESS_TYPE = PassDefault"
  "snd ENUM_P_TYPE_BASE = PassDefault"
  "snd ENUM_P_TYPE_ARM = PassDefault"
  "snd ENUM_P_TYPE_AARCH64 = PassDefault"
  "snd ENUM_P_TYPE_MIPS = PassDefault"
  "snd ENUM_P_TYPE_RISCV = PassDefault"
  "snd ENUM_ST_INFO_BIND = PassDefault"
  "snd ENUM_ST_INFO_TYPE = PassDefault"
  "snd ENUM_ST_VISIBILITY = PassDefault"
  "snd ENUM_ST_LOCAL = PassDefault"
  "snd ENUM_ST_SHNDX = PassDefault"
  "snd ENUM_D_TAG_COMMON = PassDefault"
  "snd ENUM_D_TAG = PassDefault"
  "snd ENUM_RELOC_TYPE_MIPS = PassDefault"
  "snd ENUM_RELOC_TYPE_i386 = PassDefault"
  "snd ENUM_RELOC_TYPE_x64 = PassDefault"
  "snd ENUM_RELOC_TYPE_BPF = PassDefault"
  "snd ENUM_RELOC_TYPE_LOONGARCH = PassDefault"
  "snd ENUM_VERSYM = PassDefault"
  "snd ENUM_SUNW_SYMINFO_BOUNDTO = PassDefault"
  "snd ENUM_NOTE_N_TYPE = PassDefault"
  "snd ENUM_CORE_NOTE_N_TYPE = PassDefault"
  "snd ENUM_NOTE_ABI_TAG_OS = PassDefault"
  "snd ENUM_NOTE_GNU_PROPERTY_TYPE = PassDefault"
  "snd ENUM_GNU_PROPERTY_X86_FEATURE_1_FLAGS = PassDefault"
  by (simp_all add: merge_enums_def merge_defaults_def ENUMMAP_EXTRA_D_TAG_MACHINE_def
    ENUM_E_VERSION_def ENUM_EI_OSABI_def ENUM_E_TYPE_def
    ENUM_E_MACHINE_def ENUM_SH_TYPE_BASE_def ENUM_SH_TYPE_AMD64_def
    ENUM_SH_TYPE_ARM_def ENUM_SH_TYPE_AARCH64_def ENUM_SH_TYPE_RISCV_def
    ENUM_SH_TYPE_MIPS_def ENUM_ELFCOMPRESS_TYPE_def ENUM_P_TYPE_BASE_def
    ENUM_P_TYPE_ARM_def ENUM_P_TYPE_AARCH64_def ENUM_P_TYPE_MIPS_def
    ENUM_P_TYPE_RISCV_def ENUM_ST_INFO_BIND_def ENUM_ST_INFO_TYPE_def
    ENUM_ST_VISIBILITY_def ENUM_ST_LOCAL_def ENUM_ST_SHNDX_def
    ENUM_D_TAG_COMMON_def ENUM_D_TAG_def ENUM_RELOC_TYPE_MIPS_def
    ENUM_RELOC_TYPE_i386_def ENUM_RELOC_TYPE_x64_def ENUM_RELOC_TYPE_BPF_def
    ENUM_RELOC_TYPE_LOONGARCH_def ENUM_VERSYM_def ENUM_SUNW_SYMINFO_BOUNDTO_def
    ENUM_NOTE_N_TYPE_def ENUM_CORE_NOTE_N_TYPE_def ENUM_NOTE_ABI_TAG_OS_def
    ENUM_NOTE_GNU_PROPERTY_TYPE_def ENUM_GNU_PROPERTY_X86_FEATURE_1_FLAGS_def)

lemmas table_values =
  ENUM_EI_CLASS_values ENUM_EI_DATA_values ENUM_E_VERSION_values
  ENUM_EI_OSABI_values ENUM_E_TYPE_values ENUM_ELFCOMPRESS_TYPE_values
  ENUM_ST_INFO_BIND_values ENUM_ST_INFO_TYPE_values ENUM_ST_VISIBILITY_values
  ENUM_ST_LOCAL_values ENUM_ST_SHNDX_values ENUM_D_TAG_MIPS_values
  ENUM_D_TAG_AARCH64_values ENUM_DT_FLAGS_values ENUM_DT_FLAGS_1_values
  ENUM_RELOC_TYPE_MIPS_values ENUM_RELOC_TYPE_i386_values ENUM_RELOC_TYPE_x64_values
  ENUM_RELOC_TYPE_BPF_values ENUM_RELOC_TYPE_LOONGARCH_values ENUM_RELOC_TYPE_S390X_values
  ENUM_VERSYM_values ENUM_NOTE_N_TYPE_values ENUM_NOTE_ABI_TAG_OS_values
  ENUM_GNU_PROPERTY_X86_FEATURE_1_FLAGS_values ENUM_RELOC_TYPE_ARM_values ENUM_RELOC_TYPE_AARCH64_values
  ENUM_ATTR_TAG_ARM_values ENUM_ATTR_TAG_RISCV_values ENUM_RELOC_TYPE_PPC64_values
  ENUM_RELOC_TYPE_PPC_values ENUM_RELOC_TYPE_V850_values ENUM_SH_TYPE_BASE_values
  ENUM_P_TYPE_BASE_values ENUM_SUNW_SYMINFO_BOUNDTO_values ENUM_CORE_NOTE_N_TYPE_values
  ENUM_NOTE_GNU_PROPERTY_TYPE_values

end
