(* ===== verification/ElfStructs.thy ===== *)
theory ElfStructs
  imports ElfEnums
begin

text \<open>
  \<^verbatim>\<open>elftools/elf/structs.py\<close>: the class \<open>ELFStructs\<close>, which holds the binary formats of an ELF
  file.  The object is the record \<open>elf_structs\<close> of the parameters its methods read; a format
  the source keeps in an attribute is a function of that record, under the attribute's name.
  The properties of the formats are in the theory \<^verbatim>\<open>ElfFormats\<close>.
\<close>

record elf_structs =
  little_endian :: bool
  elfclass :: int
  e_type :: val
  e_machine :: val
  e_ident_osabi :: val

text \<open>A constant string of the source as a Python value.\<close>

abbreviation VLit :: "string \<Rightarrow> val" where
  "VLit s \<equiv> VStr (lit s)"

definition ELFStructs_init :: "bool \<Rightarrow> int \<Rightarrow> elf_structs res" where
  "ELFStructs_init le cls =
     (if \<not> (cls = 32 \<or> cls = 64) then Err AssertionError
      else Ok \<lparr>little_endian = le, elfclass = cls, e_type = VNone, e_machine = VNone,
               e_ident_osabi = VNone\<rparr>)"

definition create_advanced_structs :: "val \<Rightarrow> val \<Rightarrow> val \<Rightarrow> elf_structs \<Rightarrow> elf_structs" where
  "create_advanced_structs t m osabi s =
     s\<lparr>e_type := t, e_machine := m, e_ident_osabi := osabi\<rparr>"

section \<open>Data chunks (\<open>create_basic_structs\<close>)\<close>

definition Elf_byte :: "elf_structs \<Rightarrow> string \<Rightarrow> con" where
  "Elf_byte s = (if little_endian s then ULInt8 else UBInt8)"

definition Elf_half :: "elf_structs \<Rightarrow> string \<Rightarrow> con" where
  "Elf_half s = (if little_endian s then ULInt16 else UBInt16)"

definition Elf_word :: "elf_structs \<Rightarrow> string \<Rightarrow> con" where
  "Elf_word s = (if little_endian s then ULInt32 else UBInt32)"

definition Elf_word64 :: "elf_structs \<Rightarrow> string \<Rightarrow> con" where
  "Elf_word64 s = (if little_endian s then ULInt64 else UBInt64)"

definition Elf_addr :: "elf_structs \<Rightarrow> string \<Rightarrow> con" where
  "Elf_addr s = (if little_endian s then (if elfclass s = 32 then ULInt32 else ULInt64)
                 else (if elfclass s = 32 then UBInt32 else UBInt64))"

definition Elf_offset :: "elf_structs \<Rightarrow> string \<Rightarrow> con" where
  "Elf_offset s = Elf_addr s"

definition Elf_sword :: "elf_structs \<Rightarrow> string \<Rightarrow> con" where
  "Elf_sword s = (if little_endian s then SLInt32 else SBInt32)"

definition Elf_xword :: "elf_structs \<Rightarrow> string \<Rightarrow> con" where
  "Elf_xword s = (if little_endian s then (if elfclass s = 32 then ULInt32 else ULInt64)
                  else (if elfclass s = 32 then UBInt32 else UBInt64))"

definition Elf_sxword :: "elf_structs \<Rightarrow> string \<Rightarrow> con" where
  "Elf_sxword s = (if little_endian s then (if elfclass s = 32 then SLInt32 else SLInt64)
                   else (if elfclass s = 32 then SBInt32 else SBInt64))"

lemmas elf_chunk_defs = Elf_byte_def Elf_half_def Elf_word_def Elf_word64_def Elf_addr_def
  Elf_offset_def Elf_sword_def Elf_xword_def Elf_sxword_def

definition Elf_uleb128 :: "elf_structs \<Rightarrow> string \<Rightarrow> con" where
  "Elf_uleb128 s n = ULEB128C (Some n)"

definition Elf_ntbs :: "elf_structs \<Rightarrow> string \<Rightarrow> codec option \<Rightarrow> con" where
  "Elf_ntbs s n enc = CString n enc"

section \<open>The file header\<close>

definition Elf_Ehdr :: "elf_structs \<Rightarrow> con" where
  "Elf_Ehdr s = Struct ''Elf_Ehdr''
     [Struct ''e_ident''
        [Array 4 (Elf_byte s ''EI_MAG''),
         Enum (Elf_byte s ''EI_CLASS'') ENUM_EI_CLASS,
         Enum (Elf_byte s ''EI_DATA'') ENUM_EI_DATA,
         Enum (Elf_byte s ''EI_VERSION'') ENUM_E_VERSION,
         Enum (Elf_byte s ''EI_OSABI'') ENUM_EI_OSABI,
         Elf_byte s ''EI_ABIVERSION'',
         Padding 7],
      Enum (Elf_half s ''e_type'') ENUM_E_TYPE,
      Enum (Elf_half s ''e_machine'') ENUM_E_MACHINE,
      Enum (Elf_word s ''e_version'') ENUM_E_VERSION,
      Elf_addr s ''e_entry'',
      Elf_offset s ''e_phoff'',
      Elf_offset s ''e_shoff'',
      Elf_word s ''e_flags'',
      Elf_half s ''e_ehsize'',
      Elf_half s ''e_phentsize'',
      Elf_half s ''e_phnum'',
      Elf_half s ''e_shentsize'',
      Elf_half s ''e_shnum'',
      Elf_half s ''e_shstrndx'']"

section \<open>Program and section headers\<close>

definition p_type_dict :: "elf_structs \<Rightarrow> enum" where
  "p_type_dict s =
     (if e_machine s = VLit ''EM_ARM'' then ENUM_P_TYPE_ARM
      else if e_machine s = VLit ''EM_AARCH64'' then ENUM_P_TYPE_AARCH64
      else if e_machine s = VLit ''EM_MIPS'' then ENUM_P_TYPE_MIPS
      else if e_machine s = VLit ''EM_RISCV'' then ENUM_P_TYPE_RISCV
      else ENUM_P_TYPE_BASE)"

definition Elf_Phdr :: "elf_structs \<Rightarrow> con" where
  "Elf_Phdr s =
     (if elfclass s = 32 then
        Struct ''Elf_Phdr''
          [Enum (Elf_word s ''p_type'') (p_type_dict s),
           Elf_offset s ''p_offset'',
           Elf_addr s ''p_vaddr'',
           Elf_addr s ''p_paddr'',
           Elf_word s ''p_filesz'',
           Elf_word s ''p_memsz'',
           Elf_word s ''p_flags'',
           Elf_word s ''p_align'']
      else
        Struct ''Elf_Phdr''
          [Enum (Elf_word s ''p_type'') (p_type_dict s),
           Elf_word s ''p_flags'',
           Elf_offset s ''p_offset'',
           Elf_addr s ''p_vaddr'',
           Elf_addr s ''p_paddr'',
           Elf_xword s ''p_filesz'',
           Elf_xword s ''p_memsz'',
           Elf_xword s ''p_align''])"

definition sh_type_dict :: "elf_structs \<Rightarrow> enum" where
  "sh_type_dict s =
     (if e_machine s = VLit ''EM_RISCV'' then ENUM_SH_TYPE_RISCV
      else if e_machine s = VLit ''EM_ARM'' then ENUM_SH_TYPE_ARM
      else if e_machine s = VLit ''EM_AARCH64'' then ENUM_SH_TYPE_AARCH64
      else if e_machine s = VLit ''EM_X86_64'' then ENUM_SH_TYPE_AMD64
      else if e_machine s = VLit ''EM_MIPS'' then ENUM_SH_TYPE_MIPS
      else ENUM_SH_TYPE_BASE)"

definition Elf_Shdr :: "elf_structs \<Rightarrow> con" where
  "Elf_Shdr s = Struct ''Elf_Shdr''
     [Elf_word s ''sh_name'',
      Enum (Elf_word s ''sh_type'') (sh_type_dict s),
      Elf_xword s ''sh_flags'',
      Elf_addr s ''sh_addr'',
      Elf_offset s ''sh_offset'',
      Elf_xword s ''sh_size'',
      Elf_word s ''sh_link'',
      Elf_word s ''sh_info'',
      Elf_xword s ''sh_addralign'',
      Elf_xword s ''sh_entsize'']"

definition Elf_Chdr :: "elf_structs \<Rightarrow> con" where
  "Elf_Chdr s = Struct ''Elf_Chdr''
     (if elfclass s = 64 then
        [Enum (Elf_word s ''ch_type'') ENUM_ELFCOMPRESS_TYPE,
         Elf_word s ''ch_reserved'',
         Elf_xword s ''ch_size'',
         Elf_xword s ''ch_addralign'']
      else
        [Enum (Elf_word s ''ch_type'') ENUM_ELFCOMPRESS_TYPE,
         Elf_xword s ''ch_size'',
         Elf_xword s ''ch_addralign''])"

section \<open>Relocations\<close>

text \<open>A \<open>Value\<close> field computed from earlier fields of the context.\<close>

definition ctx_int :: "ctx \<Rightarrow> string \<Rightarrow> int res" where
  "ctx_int c k = rbind (dget c k) as_int"

definition rel_fields :: "elf_structs \<Rightarrow> con list" where
  "rel_fields s =
     (if elfclass s = 32 then
        [Elf_xword s ''r_info'',
         ValueC (Some ''r_info_sym'')
           (\<lambda>ctx. rbind (ctx_int ctx ''r_info'') (\<lambda>i. Ok (VInt (drop_bit 8 i AND 0xFFFFFF)))),
         ValueC (Some ''r_info_type'')
           (\<lambda>ctx. rbind (ctx_int ctx ''r_info'') (\<lambda>i. Ok (VInt (i AND 0xFF))))]
      else if e_machine s = VLit ''EM_MIPS'' then
        [Elf_word s ''r_sym'',
         Elf_byte s ''r_ssym'',
         Elf_byte s ''r_type3'',
         Elf_byte s ''r_type2'',
         Elf_byte s ''r_type'',
         ValueC (Some ''r_info_sym'') (\<lambda>ctx. dget ctx ''r_sym''),
         ValueC (Some ''r_info_ssym'') (\<lambda>ctx. dget ctx ''r_ssym''),
         ValueC (Some ''r_info_type'') (\<lambda>ctx. dget ctx ''r_type''),
         ValueC (Some ''r_info_type2'') (\<lambda>ctx. dget ctx ''r_type2''),
         ValueC (Some ''r_info_type3'') (\<lambda>ctx. dget ctx ''r_type3''),
         ValueC (Some ''r_info'')
           (\<lambda>ctx. rbind (ctx_int ctx ''r_sym'') (\<lambda>sym. rbind (ctx_int ctx ''r_ssym'') (\<lambda>ssym.
              rbind (ctx_int ctx ''r_type3'') (\<lambda>t3. rbind (ctx_int ctx ''r_type2'') (\<lambda>t2.
              rbind (ctx_int ctx ''r_type'') (\<lambda>t.
                Ok (VInt (push_bit 32 sym OR push_bit 24 ssym OR push_bit 16 t3
                          OR push_bit 8 t2 OR t))))))))]
      else
        [Elf_xword s ''r_info'',
         ValueC (Some ''r_info_sym'')
           (\<lambda>ctx. rbind (ctx_int ctx ''r_info'') (\<lambda>i. Ok (VInt (drop_bit 32 i AND 0xFFFFFFFF)))),
         ValueC (Some ''r_info_type'')
           (\<lambda>ctx. rbind (ctx_int ctx ''r_info'') (\<lambda>i. Ok (VInt (i AND 0xFFFFFFFF))))])"

definition Elf_Rel :: "elf_structs \<Rightarrow> con" where
  "Elf_Rel s = Struct ''Elf_Rel'' (Elf_addr s ''r_offset'' # rel_fields s)"

definition Elf_Rela :: "elf_structs \<Rightarrow> con" where
  "Elf_Rela s = Struct ''Elf_Rela''
     (Elf_addr s ''r_offset'' # rel_fields s @ [Elf_sxword s ''r_addend''])"

definition Elf_Relr :: "elf_structs \<Rightarrow> con" where
  "Elf_Relr s = Struct ''Elf_Relr'' [Elf_addr s ''r_offset'']"

section \<open>Dynamic tags\<close>

text \<open>\<^verbatim>\<open>d.update(extra)\<close> on a copy of the common table.\<close>

definition d_tag_dict :: "elf_structs \<Rightarrow> enum" where
  "d_tag_dict s =
     (case find (\<lambda>(m, extra). e_machine s = VLit m) ENUMMAP_EXTRA_D_TAG_MACHINE of
        Some (m, extra) \<Rightarrow> merge_enums [ENUM_D_TAG_COMMON, extra]
      | None \<Rightarrow>
          (if e_ident_osabi s = VLit ''ELFOSABI_SOLARIS''
           then merge_enums [ENUM_D_TAG_COMMON, ENUM_D_TAG_SOLARIS]
           else ENUM_D_TAG_COMMON))"

definition Elf_Dyn :: "elf_structs \<Rightarrow> con" where
  "Elf_Dyn s = Struct ''Elf_Dyn''
     [Enum (Elf_sxword s ''d_tag'') (d_tag_dict s),
      Elf_xword s ''d_val'',
      ValueC (Some ''d_ptr'') (\<lambda>ctx. dget ctx ''d_val'')]"

section \<open>Symbols\<close>

definition st_info_struct :: con where
  "st_info_struct = BitStruct ''st_info''
     [Enum (BitField ''bind'' 4) ENUM_ST_INFO_BIND,
      Enum (BitField ''type'' 4) ENUM_ST_INFO_TYPE]"

definition st_other_struct :: con where
  "st_other_struct = BitStruct ''st_other''
     [Enum (BitField ''local'' 3) ENUM_ST_LOCAL,
      Padding 2,
      Enum (BitField ''visibility'' 3) ENUM_ST_VISIBILITY]"

definition Elf_Sym :: "elf_structs \<Rightarrow> con" where
  "Elf_Sym s =
     (if elfclass s = 32 then
        Struct ''Elf_Sym''
          [Elf_word s ''st_name'',
           Elf_addr s ''st_value'',
           Elf_word s ''st_size'',
           st_info_struct,
           st_other_struct,
           Enum (Elf_half s ''st_shndx'') ENUM_ST_SHNDX]
      else
        Struct ''Elf_Sym''
          [Elf_word s ''st_name'',
           st_info_struct,
           st_other_struct,
           Enum (Elf_half s ''st_shndx'') ENUM_ST_SHNDX,
           Elf_addr s ''st_value'',
           Elf_xword s ''st_size''])"

definition Elf_Sunw_Syminfo :: "elf_structs \<Rightarrow> con" where
  "Elf_Sunw_Syminfo s = Struct ''Elf_Sunw_Syminfo''
     [Enum (Elf_half s ''si_boundto'') ENUM_SUNW_SYMINFO_BOUNDTO,
      Elf_half s ''si_flags'']"

section \<open>GNU symbol versions\<close>

definition Elf_Verneed :: "elf_structs \<Rightarrow> con" where
  "Elf_Verneed s = Struct ''Elf_Verneed''
     [Elf_half s ''vn_version'',
      Elf_half s ''vn_cnt'',
      Elf_word s ''vn_file'',
      Elf_word s ''vn_aux'',
      Elf_word s ''vn_next'']"

definition Elf_Vernaux :: "elf_structs \<Rightarrow> con" where
  "Elf_Vernaux s = Struct ''Elf_Vernaux''
     [Elf_word s ''vna_hash'',
      Elf_half s ''vna_flags'',
      Elf_half s ''vna_other'',
      Elf_word s ''vna_name'',
      Elf_word s ''vna_next'']"

definition Elf_Verdef :: "elf_structs \<Rightarrow> con" where
  "Elf_Verdef s = Struct ''Elf_Verdef''
     [Elf_half s ''vd_version'',
      Elf_half s ''vd_flags'',
      Elf_half s ''vd_ndx'',
      Elf_half s ''vd_cnt'',
      Elf_word s ''vd_hash'',
      Elf_word s ''vd_aux'',
      Elf_word s ''vd_next'']"

definition Elf_Verdaux :: "elf_structs \<Rightarrow> con" where
  "Elf_Verdaux s = Struct ''Elf_Verdaux''
     [Elf_word s ''vda_name'',
      Elf_word s ''vda_next'']"

definition Elf_Versym :: "elf_structs \<Rightarrow> con" where
  "Elf_Versym s = Struct ''Elf_Versym''
     [Enum (Elf_half s ''ndx'') ENUM_VERSYM]"

section \<open>Notes\<close>

definition Elf_abi :: "elf_structs \<Rightarrow> con" where
  "Elf_abi s = Struct ''Elf_abi''
     [Enum (Elf_word s ''abi_os'') ENUM_NOTE_ABI_TAG_OS,
      Elf_word s ''abi_major'',
      Elf_word s ''abi_minor'',
      Elf_word s ''abi_tiny'']"

definition Elf_debugaltlink :: "elf_structs \<Rightarrow> con" where
  "Elf_debugaltlink s = Struct ''Elf_debugaltlink''
     [CString ''sup_filename'' None,
      String ''sup_checksum'' 20]"

text \<open>\<^verbatim>\<open>ctx.pr_datasz\<close>: the attribute of the context.\<close>

definition ctx_attr :: "ctx \<Rightarrow> string \<Rightarrow> int res" where
  "ctx_attr c k = rbind (get_attr (VCont c) k) as_int"

definition roundup_padding :: "elf_structs \<Rightarrow> ctx \<Rightarrow> int res" where
  "roundup_padding s ctx = rbind (ctx_attr ctx ''pr_datasz'') (\<lambda>sz.
     Ok (if elfclass s = 32 then roundup sz 2 - sz else roundup sz 3 - sz))"

definition classify_pr_data :: "elf_structs \<Rightarrow> ctx \<Rightarrow> val res" where
  "classify_pr_data s ctx = rbind (get_attr (VCont ctx) ''pr_type'') (\<lambda>t. case t of
     VStr n \<Rightarrow>
       (if starts_with (lit ''GNU_PROPERTY_X86_'') n
        then Ok (VTuple [VLit ''GNU_PROPERTY_X86_*'', VInt 4, VInt 0])
        else if starts_with (lit ''GNU_PROPERTY_AARCH64_'') n
        then Ok (VTuple [VLit ''GNU_PROPERTY_AARCH64_*'', VInt 4, VInt 0])
        else if starts_with (lit ''GNU_PROPERTY_RISCV_'') n
        then Ok (VTuple [VLit ''GNU_PROPERTY_RISCV_*'', VInt 4, VInt 0])
        else rbind (get_attr (VCont ctx) ''pr_datasz'') (\<lambda>sz.
               Ok (VTuple [t, sz, VInt (elfclass s)])))
   | _ \<Rightarrow> Ok VNone)"

definition Elf_Prop :: "elf_structs \<Rightarrow> con" where
  "Elf_Prop s = Struct ''Elf_Prop''
     [Enum (Elf_word s ''pr_type'') ENUM_NOTE_GNU_PROPERTY_TYPE,
      Elf_word s ''pr_datasz'',
      SwitchC (Some ''pr_data'') (classify_pr_data s)
        [(VTuple [VLit ''GNU_PROPERTY_STACK_SIZE'', VInt 4, VInt 32], Elf_word s ''pr_data''),
         (VTuple [VLit ''GNU_PROPERTY_STACK_SIZE'', VInt 8, VInt 64], Elf_word64 s ''pr_data''),
         (VTuple [VLit ''GNU_PROPERTY_X86_*'', VInt 4, VInt 0], Elf_word s ''pr_data''),
         (VTuple [VLit ''GNU_PROPERTY_AARCH64_*'', VInt 4, VInt 0], Elf_word s ''pr_data''),
         (VTuple [VLit ''GNU_PROPERTY_RISCV_*'', VInt 4, VInt 0], Elf_word s ''pr_data'')]
        (Some (DynField (Some ''pr_data'') (\<lambda>ctx. ctx_attr ctx ''pr_datasz''))) False,
      DynPadding (roundup_padding s)]"

definition Elf_ugid :: "elf_structs \<Rightarrow> string \<Rightarrow> con" where
  "Elf_ugid s =
     (if elfclass s = 32 \<and> list_ex (\<lambda>m. e_machine s = VLit m)
           [''EM_MN10300'', ''EM_ARM'', ''EM_CRIS'', ''EM_CYGNUS_FRV'', ''EM_386'', ''EM_M32R'',
            ''EM_68K'', ''EM_S390'', ''EM_SH'', ''EM_SPARC'']
      then Elf_half s else Elf_word s)"

definition Elf_Nhdr :: "elf_structs \<Rightarrow> con" where
  "Elf_Nhdr s = Struct ''Elf_Nhdr''
     [Elf_word s ''n_namesz'',
      Elf_word s ''n_descsz'',
      Enum (Elf_word s ''n_type'')
        (if e_type s \<noteq> VLit ''ET_CORE'' then ENUM_NOTE_N_TYPE else ENUM_CORE_NOTE_N_TYPE)]"

definition Elf_Prpsinfo :: "elf_structs \<Rightarrow> con" where
  "Elf_Prpsinfo s = Struct ''Elf_Prpsinfo''
     ([Elf_byte s ''pr_state'',
       String ''pr_sname'' 1,
       Elf_byte s ''pr_zomb'',
       Elf_byte s ''pr_nice''] @
      (if elfclass s = 32 then [] else [Padding 4]) @
      [Elf_xword s ''pr_flag'',
       Elf_ugid s ''pr_uid'',
       Elf_ugid s ''pr_gid'',
       Elf_word s ''pr_pid'',
       Elf_word s ''pr_ppid'',
       Elf_word s ''pr_pgrp'',
       Elf_word s ''pr_sid'',
       String ''pr_fname'' 16,
       String ''pr_psargs'' 80])"

definition Elf_Nt_File :: "elf_structs \<Rightarrow> con" where
  "Elf_Nt_File s = Struct ''Elf_Nt_File''
     [Elf_xword s ''num_map_entries'',
      Elf_xword s ''page_size'',
      DynArray (\<lambda>ctx. ctx_attr ctx ''num_map_entries'')
        (Struct ''Elf_Nt_File_Entry''
           [Elf_addr s ''vm_start'',
            Elf_addr s ''vm_end'',
            Elf_offset s ''page_offset'']),
      DynArray (\<lambda>ctx. ctx_attr ctx ''num_map_entries'') (CString ''filename'' None)]"

section \<open>Stabs, attributes and hash tables\<close>

definition Elf_Stabs :: "elf_structs \<Rightarrow> con" where
  "Elf_Stabs s = Struct ''Elf_Stabs''
     [Elf_word s ''n_strx'',
      Elf_byte s ''n_type'',
      Elf_byte s ''n_other'',
      Elf_half s ''n_desc'',
      Elf_word s ''n_value'']"

definition Elf_Attr_Subsection_Header :: "elf_structs \<Rightarrow> con" where
  "Elf_Attr_Subsection_Header s = Struct ''Elf_Attr_Subsection''
     [Elf_word s ''length'',
      Elf_ntbs s ''vendor_name'' (Some Utf8)]"

definition Elf_Arm_Attribute_Tag :: "elf_structs \<Rightarrow> con" where
  "Elf_Arm_Attribute_Tag s = Struct ''Elf_Arm_Attribute_Tag''
     [Enum (Elf_uleb128 s ''tag'') ENUM_ATTR_TAG_ARM]"

definition Elf_RiscV_Attribute_Tag :: "elf_structs \<Rightarrow> con" where
  "Elf_RiscV_Attribute_Tag s = Struct ''Elf_RiscV_Attribute_Tag''
     [Enum (Elf_uleb128 s ''tag'') ENUM_ATTR_TAG_RISCV]"

definition Elf_Hash :: "elf_structs \<Rightarrow> con" where
  "Elf_Hash s = Struct ''Elf_Hash''
     [Elf_word s ''nbuckets'',
      Elf_word s ''nchains'',
      DynArray (\<lambda>ctx. ctx_int ctx ''nbuckets'') (Elf_word s ''buckets''),
      DynArray (\<lambda>ctx. ctx_int ctx ''nchains'') (Elf_word s ''chains'')]"

definition Gnu_Hash :: "elf_structs \<Rightarrow> con" where
  "Gnu_Hash s = Struct ''Gnu_Hash''
     [Elf_word s ''nbuckets'',
      Elf_word s ''symoffset'',
      Elf_word s ''bloom_size'',
      Elf_word s ''bloom_shift'',
      DynArray (\<lambda>ctx. ctx_int ctx ''bloom_size'') (Elf_xword s ''bloom''),
      DynArray (\<lambda>ctx. ctx_int ctx ''nbuckets'') (Elf_word s ''buckets'')]"

end
