(* ===== verification/ElfFormats.thy ===== *)
theory ElfFormats
  imports ElfStructs
begin

text \<open>
  What the formats of \<^verbatim>\<open>elf/structs.py\<close> mean: for each fixed-size structure the offsets, widths
  and decoding of its fields, as the ELF specification tabulates them.  Each is an
  interpretation of the locale \<open>file_format\<close>, so that parsing the structure at an offset of a
  file yields the tabulated values (\<open>shdr.struct_parse_at\<close>), or an \<open>ELFParseError\<close> when the file
  is too short (\<open>shdr.struct_parse_error\<close>).
\<close>

section \<open>Reading numbers at offsets\<close>

definition endn :: "elf_structs \<Rightarrow> endian" where
  "endn s = (if little_endian s then LE else BE)"

definition wsize :: "elf_structs \<Rightarrow> nat" where
  "wsize s = (if elfclass s = 32 then 4 else 8)"

definition uint_at :: "elf_structs \<Rightarrow> nat \<Rightarrow> nat \<Rightarrow> bytes \<Rightarrow> int" where
  "uint_at s off n b = le_uint (order_bytes (endn s) (take n (drop off b)))"

definition sint_at :: "elf_structs \<Rightarrow> nat \<Rightarrow> nat \<Rightarrow> bytes \<Rightarrow> int" where
  "sint_at s off n b = to_signed n (uint_at s off n b)"

definition enum_name :: "enum \<Rightarrow> int \<Rightarrow> val" where
  "enum_name e i = (case enum_decode e i of Ok v \<Rightarrow> v | _ \<Rightarrow> VNone)"

lemma enum_value_pass: "snd e = PassDefault \<Longrightarrow> enum_value e i = Some (enum_name e i)"
  by (simp add: enum_value_def enum_name_def enum_decode_def mapping_code_def split: option.splits)

lemma chunk_formats:
  "Elf_byte s nm = FormatFieldC (Some nm) (endn s) FmtB"
  "Elf_half s nm = FormatFieldC (Some nm) (endn s) FmtH"
  "Elf_word s nm = FormatFieldC (Some nm) (endn s) FmtL"
  "Elf_word64 s nm = FormatFieldC (Some nm) (endn s) FmtQ"
  "Elf_addr s nm = FormatFieldC (Some nm) (endn s) (if elfclass s = 32 then FmtL else FmtQ)"
  "Elf_offset s nm = FormatFieldC (Some nm) (endn s) (if elfclass s = 32 then FmtL else FmtQ)"
  "Elf_sword s nm = FormatFieldC (Some nm) (endn s) Fmtl"
  "Elf_xword s nm = FormatFieldC (Some nm) (endn s) (if elfclass s = 32 then FmtL else FmtQ)"
  "Elf_sxword s nm = FormatFieldC (Some nm) (endn s) (if elfclass s = 32 then Fmtl else Fmtq)"
  by (simp_all add: elf_chunk_defs int_field_defs endn_def)

lemma uint_at_drop: "uint_at s off n (drop k b) = uint_at s (off + k) n b"
  by (simp add: uint_at_def add.commute)

lemma sint_at_drop: "sint_at s off n (drop k b) = sint_at s (off + k) n b"
  by (simp add: sint_at_def uint_at_drop)

lemma num_uint_at:
  "num (endn s) FmtB (take (Suc 0) b) = uint_at s 0 1 b"
  "num (endn s) FmtH (take 2 b) = uint_at s 0 2 b"
  "num (endn s) FmtL (take 4 b) = uint_at s 0 4 b"
  "num (endn s) FmtQ (take 8 b) = uint_at s 0 8 b"
  "num (endn s) Fmtl (take 4 b) = sint_at s 0 4 b"
  "num (endn s) Fmtq (take 8 b) = sint_at s 0 8 b"
  by (simp_all add: num_def uint_at_def sint_at_def Let_def)

text \<open>The last field, where what is left is exactly its width.\<close>

lemma num_uint_at_end:
  "length b = 1 \<Longrightarrow> num (endn s) FmtB b = uint_at s 0 1 b"
  "length b = 2 \<Longrightarrow> num (endn s) FmtH b = uint_at s 0 2 b"
  "length b = 4 \<Longrightarrow> num (endn s) FmtL b = uint_at s 0 4 b"
  "length b = 8 \<Longrightarrow> num (endn s) FmtQ b = uint_at s 0 8 b"
  "length b = 4 \<Longrightarrow> num (endn s) Fmtl b = sint_at s 0 4 b"
  "length b = 8 \<Longrightarrow> num (endn s) Fmtq b = sint_at s 0 8 b"
  by (simp_all add: num_def uint_at_def sint_at_def Let_def)

lemma uint_at_2: "uint_at s (Suc (Suc 0)) n b = uint_at s 2 n b"
  by (simp add: numeral_2_eq_2)

lemmas layout_eval = uint_at_2 num_uint_at num_uint_at_end uint_at_drop sint_at_drop enum_value_pass wsize_def

section \<open>Section headers\<close>

definition shdr_value :: "elf_structs \<Rightarrow> bytes \<Rightarrow> val" where
  "shdr_value s b = (let w = wsize s in VCont
     [(''sh_name'', VInt (uint_at s 0 4 b)),
      (''sh_type'', enum_name (sh_type_dict s) (uint_at s 4 4 b)),
      (''sh_flags'', VInt (uint_at s 8 w b)),
      (''sh_addr'', VInt (uint_at s (8 + w) w b)),
      (''sh_offset'', VInt (uint_at s (8 + 2 * w) w b)),
      (''sh_size'', VInt (uint_at s (8 + 3 * w) w b)),
      (''sh_link'', VInt (uint_at s (8 + 4 * w) 4 b)),
      (''sh_info'', VInt (uint_at s (12 + 4 * w) 4 b)),
      (''sh_addralign'', VInt (uint_at s (16 + 4 * w) w b)),
      (''sh_entsize'', VInt (uint_at s (16 + 5 * w) w b))])"

lemma sh_type_dict_default: "snd (sh_type_dict s) = PassDefault"
  by (simp add: sh_type_dict_def)

interpretation shdr: file_format "Elf_Shdr s" "16 + 6 * wsize s" "\<lambda>c b. Some (shdr_value s b)" for s
  unfolding file_format_def Elf_Shdr_def chunk_formats
  by (rule format_eq [OF format_Struct], (rule layout | simp)+)
    (auto simp: layout_eval shdr_value_def sh_type_dict_default)

section \<open>Program headers\<close>

definition phdr_value :: "elf_structs \<Rightarrow> bytes \<Rightarrow> val" where
  "phdr_value s b =
     (if elfclass s = 32 then VCont
        [(''p_type'', enum_name (p_type_dict s) (uint_at s 0 4 b)),
         (''p_offset'', VInt (uint_at s 4 4 b)),
         (''p_vaddr'', VInt (uint_at s 8 4 b)),
         (''p_paddr'', VInt (uint_at s 12 4 b)),
         (''p_filesz'', VInt (uint_at s 16 4 b)),
         (''p_memsz'', VInt (uint_at s 20 4 b)),
         (''p_flags'', VInt (uint_at s 24 4 b)),
         (''p_align'', VInt (uint_at s 28 4 b))]
      else VCont
        [(''p_type'', enum_name (p_type_dict s) (uint_at s 0 4 b)),
         (''p_flags'', VInt (uint_at s 4 4 b)),
         (''p_offset'', VInt (uint_at s 8 8 b)),
         (''p_vaddr'', VInt (uint_at s 16 8 b)),
         (''p_paddr'', VInt (uint_at s 24 8 b)),
         (''p_filesz'', VInt (uint_at s 32 8 b)),
         (''p_memsz'', VInt (uint_at s 40 8 b)),
         (''p_align'', VInt (uint_at s 48 8 b))])"

lemma p_type_dict_default: "snd (p_type_dict s) = PassDefault"
  by (simp add: p_type_dict_def)

lemma phdr_format:
  "fixed_format UNIV {} (Elf_Phdr s) (if elfclass s = 32 then 32 else 56) (\<lambda>c b. Some (phdr_value s b))"
proof (cases "elfclass s = 32")
  case True
  show ?thesis
    unfolding Elf_Phdr_def chunk_formats if_P [OF True]
    by (rule format_eq [OF format_Struct], (rule layout | simp)+)
      (auto simp: True layout_eval phdr_value_def p_type_dict_default)
next
  case False
  show ?thesis
    unfolding Elf_Phdr_def chunk_formats if_not_P [OF False]
    by (rule format_eq [OF format_Struct], (rule layout | simp)+)
      (auto simp: False layout_eval phdr_value_def p_type_dict_default)
qed

interpretation phdr: file_format "Elf_Phdr s" "if elfclass s = 32 then 32 else 56"
    "\<lambda>c b. Some (phdr_value s b)" for s
  unfolding file_format_def by (rule phdr_format)

section \<open>The file header\<close>

text \<open>Only \<open>EI_CLASS\<close> and \<open>EI_DATA\<close> can be rejected: their tables have no default.\<close>

definition ehdr_value :: "elf_structs \<Rightarrow> bytes \<Rightarrow> val option" where
  "ehdr_value s b = (let w = wsize s in
     (case (enum_value ENUM_EI_CLASS (uint_at s 4 1 b), enum_value ENUM_EI_DATA (uint_at s 5 1 b)) of
        (Some cls, Some data) \<Rightarrow> Some (VCont
          [(''e_ident'', VCont
             [(''EI_MAG'', VList (map (\<lambda>i. VInt (uint_at s i 1 b)) [0, 1, 2, 3])),
              (''EI_CLASS'', cls),
              (''EI_DATA'', data),
              (''EI_VERSION'', enum_name ENUM_E_VERSION (uint_at s 6 1 b)),
              (''EI_OSABI'', enum_name ENUM_EI_OSABI (uint_at s 7 1 b)),
              (''EI_ABIVERSION'', VInt (uint_at s 8 1 b))]),
           (''e_type'', enum_name ENUM_E_TYPE (uint_at s 16 2 b)),
           (''e_machine'', enum_name ENUM_E_MACHINE (uint_at s 18 2 b)),
           (''e_version'', enum_name ENUM_E_VERSION (uint_at s 20 4 b)),
           (''e_entry'', VInt (uint_at s 24 w b)),
           (''e_phoff'', VInt (uint_at s (24 + w) w b)),
           (''e_shoff'', VInt (uint_at s (24 + 2 * w) w b)),
           (''e_flags'', VInt (uint_at s (24 + 3 * w) 4 b)),
           (''e_ehsize'', VInt (uint_at s (28 + 3 * w) 2 b)),
           (''e_phentsize'', VInt (uint_at s (30 + 3 * w) 2 b)),
           (''e_phnum'', VInt (uint_at s (32 + 3 * w) 2 b)),
           (''e_shentsize'', VInt (uint_at s (34 + 3 * w) 2 b)),
           (''e_shnum'', VInt (uint_at s (36 + 3 * w) 2 b)),
           (''e_shstrndx'', VInt (uint_at s (38 + 3 * w) 2 b))])
      | _ \<Rightarrow> None))"

lemma uint_at_take: "off + n \<le> k \<Longrightarrow> uint_at s off n (take k b) = uint_at s off n b"
  by (simp add: uint_at_def drop_take min_def)

lemma chunks_4: "chunks 4 (Suc 0) b = map (\<lambda>i. take 1 (drop i b)) [0, 1, 2, 3]"
  by (simp add: chunks_def upt_rec numeral_2_eq_2 numeral_3_eq_3)

interpretation ehdr: file_format "Elf_Ehdr s" "40 + 3 * wsize s" "\<lambda>c. ehdr_value s" for s
  unfolding file_format_def Elf_Ehdr_def chunk_formats
  by (rule format_eq [OF format_Struct], (rule layout | simp)+)
    (auto simp: layout_eval uint_at_take ehdr_value_def chunks_4 split: option.splits)

section \<open>Symbol versions\<close>

definition verneed_value :: "elf_structs \<Rightarrow> bytes \<Rightarrow> val" where
  "verneed_value s b = VCont
     [(''vn_version'', VInt (uint_at s 0 2 b)),
      (''vn_cnt'', VInt (uint_at s 2 2 b)),
      (''vn_file'', VInt (uint_at s 4 4 b)),
      (''vn_aux'', VInt (uint_at s 8 4 b)),
      (''vn_next'', VInt (uint_at s 12 4 b))]"

interpretation verneed: file_format "Elf_Verneed s" "16" "\<lambda>c b. Some (verneed_value s b)" for s
  unfolding file_format_def Elf_Verneed_def chunk_formats
  by (rule format_eq [OF format_Struct], (rule layout | simp)+)
    (auto simp: layout_eval verneed_value_def)

definition vernaux_value :: "elf_structs \<Rightarrow> bytes \<Rightarrow> val" where
  "vernaux_value s b = VCont
     [(''vna_hash'', VInt (uint_at s 0 4 b)),
      (''vna_flags'', VInt (uint_at s 4 2 b)),
      (''vna_other'', VInt (uint_at s 6 2 b)),
      (''vna_name'', VInt (uint_at s 8 4 b)),
      (''vna_next'', VInt (uint_at s 12 4 b))]"

interpretation vernaux: file_format "Elf_Vernaux s" "16" "\<lambda>c b. Some (vernaux_value s b)" for s
  unfolding file_format_def Elf_Vernaux_def chunk_formats
  by (rule format_eq [OF format_Struct], (rule layout | simp)+)
    (auto simp: layout_eval vernaux_value_def)

definition verdef_value :: "elf_structs \<Rightarrow> bytes \<Rightarrow> val" where
  "verdef_value s b = VCont
     [(''vd_version'', VInt (uint_at s 0 2 b)),
      (''vd_flags'', VInt (uint_at s 2 2 b)),
      (''vd_ndx'', VInt (uint_at s 4 2 b)),
      (''vd_cnt'', VInt (uint_at s 6 2 b)),
      (''vd_hash'', VInt (uint_at s 8 4 b)),
      (''vd_aux'', VInt (uint_at s 12 4 b)),
      (''vd_next'', VInt (uint_at s 16 4 b))]"

interpretation verdef: file_format "Elf_Verdef s" "20" "\<lambda>c b. Some (verdef_value s b)" for s
  unfolding file_format_def Elf_Verdef_def chunk_formats
  by (rule format_eq [OF format_Struct], (rule layout | simp)+)
    (auto simp: layout_eval verdef_value_def)

definition verdaux_value :: "elf_structs \<Rightarrow> bytes \<Rightarrow> val" where
  "verdaux_value s b = VCont
     [(''vda_name'', VInt (uint_at s 0 4 b)),
      (''vda_next'', VInt (uint_at s 4 4 b))]"

interpretation verdaux: file_format "Elf_Verdaux s" "8" "\<lambda>c b. Some (verdaux_value s b)" for s
  unfolding file_format_def Elf_Verdaux_def chunk_formats
  by (rule format_eq [OF format_Struct], (rule layout | simp)+)
    (auto simp: layout_eval verdaux_value_def)

definition versym_value :: "elf_structs \<Rightarrow> bytes \<Rightarrow> val" where
  "versym_value s b = VCont
     [(''ndx'', enum_name ENUM_VERSYM (uint_at s 0 2 b))]"

interpretation versym: file_format "Elf_Versym s" "2" "\<lambda>c b. Some (versym_value s b)" for s
  unfolding file_format_def Elf_Versym_def chunk_formats
  by (rule format_eq [OF format_Struct], (rule layout | simp)+)
    (auto simp: layout_eval versym_value_def)

section \<open>Notes and stabs\<close>

definition abi_value :: "elf_structs \<Rightarrow> bytes \<Rightarrow> val" where
  "abi_value s b = VCont
     [(''abi_os'', enum_name ENUM_NOTE_ABI_TAG_OS (uint_at s 0 4 b)),
      (''abi_major'', VInt (uint_at s 4 4 b)),
      (''abi_minor'', VInt (uint_at s 8 4 b)),
      (''abi_tiny'', VInt (uint_at s 12 4 b))]"

interpretation abi: file_format "Elf_abi s" "16" "\<lambda>c b. Some (abi_value s b)" for s
  unfolding file_format_def Elf_abi_def chunk_formats
  by (rule format_eq [OF format_Struct], (rule layout | simp)+)
    (auto simp: layout_eval abi_value_def)

definition n_type_dict :: "elf_structs \<Rightarrow> enum" where
  "n_type_dict s = (if e_type s \<noteq> VLit ''ET_CORE'' then ENUM_NOTE_N_TYPE else ENUM_CORE_NOTE_N_TYPE)"

lemma n_type_dict_default: "snd (n_type_dict s) = PassDefault"
  by (simp add: n_type_dict_def)

definition nhdr_value :: "elf_structs \<Rightarrow> bytes \<Rightarrow> val" where
  "nhdr_value s b = VCont
     [(''n_namesz'', VInt (uint_at s 0 4 b)),
      (''n_descsz'', VInt (uint_at s 4 4 b)),
      (''n_type'', enum_name (n_type_dict s) (uint_at s 8 4 b))]"

interpretation nhdr: file_format "Elf_Nhdr s" "12" "\<lambda>c b. Some (nhdr_value s b)" for s
  unfolding file_format_def Elf_Nhdr_def n_type_dict_def [symmetric] chunk_formats
  by (rule format_eq [OF format_Struct], (rule layout | simp)+)
    (auto simp: layout_eval nhdr_value_def n_type_dict_default)

definition stabs_value :: "elf_structs \<Rightarrow> bytes \<Rightarrow> val" where
  "stabs_value s b = VCont
     [(''n_strx'', VInt (uint_at s 0 4 b)),
      (''n_type'', VInt (uint_at s 4 1 b)),
      (''n_other'', VInt (uint_at s 5 1 b)),
      (''n_desc'', VInt (uint_at s 6 2 b)),
      (''n_value'', VInt (uint_at s 8 4 b))]"

interpretation stabs: file_format "Elf_Stabs s" "12" "\<lambda>c b. Some (stabs_value s b)" for s
  unfolding file_format_def Elf_Stabs_def chunk_formats
  by (rule format_eq [OF format_Struct], (rule layout | simp)+)
    (auto simp: layout_eval stabs_value_def)

definition syminfo_value :: "elf_structs \<Rightarrow> bytes \<Rightarrow> val" where
  "syminfo_value s b = VCont
     [(''si_boundto'', enum_name ENUM_SUNW_SYMINFO_BOUNDTO (uint_at s 0 2 b)),
      (''si_flags'', VInt (uint_at s 2 2 b))]"

interpretation syminfo: file_format "Elf_Sunw_Syminfo s" "4" "\<lambda>c b. Some (syminfo_value s b)" for s
  unfolding file_format_def Elf_Sunw_Syminfo_def chunk_formats
  by (rule format_eq [OF format_Struct], (rule layout | simp)+)
    (auto simp: layout_eval syminfo_value_def)

definition relr_value :: "elf_structs \<Rightarrow> bytes \<Rightarrow> val" where
  "relr_value s b = VCont
     [(''r_offset'', VInt (uint_at s 0 (wsize s) b))]"

interpretation relr: file_format "Elf_Relr s" "wsize s" "\<lambda>c b. Some (relr_value s b)" for s
  unfolding file_format_def Elf_Relr_def chunk_formats
  by (rule format_eq [OF format_Struct], (rule layout | simp)+)
    (auto simp: layout_eval relr_value_def)

section \<open>Dynamic entries\<close>

lemma d_tag_dict_default: "snd (d_tag_dict s) = PassDefault"
  by (auto simp: d_tag_dict_def merge_enums_def merge_defaults_def ENUMMAP_EXTRA_D_TAG_MACHINE_def
      split: option.splits)

definition dyn_value :: "elf_structs \<Rightarrow> bytes \<Rightarrow> val" where
  "dyn_value s b = (let w = wsize s in VCont
     [(''d_tag'', enum_name (d_tag_dict s) (sint_at s 0 w b)),
      (''d_val'', VInt (uint_at s w w b)),
      (''d_ptr'', VInt (uint_at s w w b))])"

interpretation dyn: file_format "Elf_Dyn s" "2 * wsize s" "\<lambda>c b. Some (dyn_value s b)" for s
  unfolding file_format_def Elf_Dyn_def chunk_formats
  by (rule format_eq [OF format_Struct], (rule layout | force simp: fmt_ctx_def dget_def | simp)+)
    (auto simp: layout_eval dyn_value_def d_tag_dict_default)

section \<open>Symbols\<close>

text \<open>The two bit structures of a symbol take a byte apart.\<close>

lemma bits_value_msb: "bits_value (msb_bits w n) = n mod 2 ^ w"
  using bti_loop_msb [of w n] bti_loop_bits [OF msb_bits_set, of w n 0] by (simp add: bits_value_def)

lemma take_msb_bits: "k \<le> w \<Longrightarrow> take k (msb_bits w n) = msb_bits k (drop_bit (w - k) n)"
  by (rule nth_equalityI) (auto simp: msb_bits_def rev_nth drop_bit_drop_bit add.commute)

lemma drop_msb_bits: "k \<le> w \<Longrightarrow> drop k (msb_bits w n) = msb_bits (w - k) n"
  by (rule nth_equalityI) (auto simp: msb_bits_def rev_nth)

text \<open>Bits \<open>k .. k + m\<close> (from the top) of a byte.\<close>

lemma byte_bits:
  assumes "length b = 1" "k + m \<le> 8"
  shows "bits_value (take m (drop k (encode_bin b))) = uint_at s 0 1 b div 2 ^ (8 - k - m) mod 2 ^ m"
proof -
  obtain x where b: "b = [x]" using assms(1) by (auto simp: length_Suc_conv)
  have "encode_bin b = msb_bits 8 (uint x)"
    by (simp add: b encode_bin_def char_to_bin_msb)
  moreover have "uint_at s 0 1 b = uint x"
    by (cases "endn s") (simp_all add: b uint_at_def order_bytes_def)
  ultimately show ?thesis
    using assms(2) by (simp add: drop_msb_bits take_msb_bits bits_value_msb drop_bit_eq_div)
qed

definition st_info_value :: "int \<Rightarrow> val" where
  "st_info_value i = VCont
     [(''bind'', enum_name ENUM_ST_INFO_BIND (i div 16)),
      (''type'', enum_name ENUM_ST_INFO_TYPE (i mod 16))]"

definition st_other_value :: "int \<Rightarrow> val" where
  "st_other_value i = VCont
     [(''local'', enum_name ENUM_ST_LOCAL (i div 32)),
      (''visibility'', enum_name ENUM_ST_VISIBILITY (i mod 8))]"

lemma uint_at_1_bounds: "0 \<le> uint_at s off 1 b" "uint_at s off 1 b < 256"
proof -
  have "length (take 1 (drop off b)) = 0 \<or> length (take 1 (drop off b)) = 1" by auto
  then show "0 \<le> uint_at s off 1 b" "uint_at s off 1 b < 256"
    using le_uint_less [of "order_bytes (endn s) (take 1 (drop off b))"] by (auto simp: uint_at_def)
qed

lemma st_bits:
  assumes "length b = 1"
  shows "bits_value (take 4 (encode_bin b)) = uint_at s 0 1 b div 16"
    and "bits_value (take 4 (drop 4 (encode_bin b))) = uint_at s 0 1 b mod 16"
    and "bits_value (take 3 (encode_bin b)) = uint_at s 0 1 b div 32"
    and "bits_value (take 3 (drop 5 (encode_bin b))) = uint_at s 0 1 b mod 8"
  using byte_bits [OF assms, of 0 4 s] byte_bits [OF assms, of 4 4 s] byte_bits [OF assms, of 0 3 s]
    byte_bits [OF assms, of 5 3 s] uint_at_1_bounds [of s 0 b] by simp_all

lemma st_bits_end:
  assumes "length b = 1"
  shows "bits_value (drop 4 (encode_bin b)) = uint_at s 0 1 b mod 16"
    and "bits_value (drop 5 (encode_bin b)) = uint_at s 0 1 b mod 8"
  using st_bits [OF assms, of s] assms by simp_all

definition sym_value :: "elf_structs \<Rightarrow> bytes \<Rightarrow> val" where
  "sym_value s b =
     (if elfclass s = 32 then VCont
        [(''st_name'', VInt (uint_at s 0 4 b)),
         (''st_value'', VInt (uint_at s 4 4 b)),
         (''st_size'', VInt (uint_at s 8 4 b)),
         (''st_info'', st_info_value (uint_at s 12 1 b)),
         (''st_other'', st_other_value (uint_at s 13 1 b)),
         (''st_shndx'', enum_name ENUM_ST_SHNDX (uint_at s 14 2 b))]
      else VCont
        [(''st_name'', VInt (uint_at s 0 4 b)),
         (''st_info'', st_info_value (uint_at s 4 1 b)),
         (''st_other'', st_other_value (uint_at s 5 1 b)),
         (''st_shndx'', enum_name ENUM_ST_SHNDX (uint_at s 6 2 b)),
         (''st_value'', VInt (uint_at s 8 8 b)),
         (''st_size'', VInt (uint_at s 16 8 b))])"

lemma uint_at_take_byte: "uint_at s 0 (Suc 0) (take (Suc 0) b) = uint_at s 0 1 b"
  by (simp add: uint_at_def)

lemma sym_format:
  "fixed_format UNIV {} (Elf_Sym s) (if elfclass s = 32 then 16 else 24) (\<lambda>c b. Some (sym_value s b))"
proof (cases "elfclass s = 32")
  case True
  show ?thesis
    unfolding Elf_Sym_def st_info_struct_def st_other_struct_def chunk_formats if_P [OF True]
    by (rule format_eq [OF format_Struct], (rule layout | simp)+)
      (auto simp: True layout_eval sym_value_def st_info_value_def st_other_value_def
        st_bits [where s = s] st_bits_end [where s = s] uint_at_take_byte)
next
  case False
  show ?thesis
    unfolding Elf_Sym_def st_info_struct_def st_other_struct_def chunk_formats if_not_P [OF False]
    by (rule format_eq [OF format_Struct], (rule layout | simp)+)
      (auto simp: False layout_eval sym_value_def st_info_value_def st_other_value_def
        st_bits [where s = s] st_bits_end [where s = s] uint_at_take_byte)
qed

interpretation sym: file_format "Elf_Sym s" "if elfclass s = 32 then 16 else 24"
    "\<lambda>c b. Some (sym_value s b)" for s
  unfolding file_format_def by (rule sym_format)

section \<open>Relocations\<close>

lemma uint_at_bounds: "0 \<le> uint_at s off n b" "uint_at s off n b < 256 ^ n"
proof -
  have "uint_at s off n b < 256 ^ length (take n (drop off b))"
    using le_uint_less [of "order_bytes (endn s) (take n (drop off b))"] by (simp add: uint_at_def)
  also have "\<dots> \<le> 256 ^ n" by (rule power_increasing) auto
  finally show "uint_at s off n b < 256 ^ n" .
qed (simp add: uint_at_def)

lemma low_bits: "i AND (2 ^ n - 1) = i mod 2 ^ n" for i :: int
  using take_bit_eq_mask [of n i] by (simp add: take_bit_eq_mod mask_eq_exp_minus_1)

lemma r_info_parts:
  "drop_bit 8 (uint_at s off 4 b) AND 0xFFFFFF = uint_at s off 4 b div 256"
  "uint_at s off 4 b AND 0xFF = uint_at s off 4 b mod 256"
  "drop_bit 32 (uint_at s off 8 b) AND 0xFFFFFFFF = uint_at s off 8 b div 2 ^ 32"
  "uint_at s off 8 b AND 0xFFFFFFFF = uint_at s off 8 b mod 2 ^ 32"
  using low_bits [of "drop_bit 8 (uint_at s off 4 b)" 24] low_bits [of "uint_at s off 4 b" 8]
    low_bits [of "drop_bit 32 (uint_at s off 8 b)" 32] low_bits [of "uint_at s off 8 b" 32]
    uint_at_bounds [of s off 4 b] uint_at_bounds [of s off 8 b]
  by (simp_all add: drop_bit_eq_div)

text \<open>
  The symbol and the type are the high and the low part of \<^verbatim>\<open>r_info\<close>, except on 64-bit MIPS,
  which lays the parts out as fields of their own.
\<close>

definition rel_items :: "elf_structs \<Rightarrow> bytes \<Rightarrow> (string \<times> val) list" where
  "rel_items s b =
     (if elfclass s = 32 then
        [(''r_offset'', VInt (uint_at s 0 4 b)),
         (''r_info'', VInt (uint_at s 4 4 b)),
         (''r_info_sym'', VInt (uint_at s 4 4 b div 256)),
         (''r_info_type'', VInt (uint_at s 4 4 b mod 256))]
      else if e_machine s = VLit ''EM_MIPS'' then
        [(''r_offset'', VInt (uint_at s 0 8 b)),
         (''r_sym'', VInt (uint_at s 8 4 b)),
         (''r_ssym'', VInt (uint_at s 12 1 b)),
         (''r_type3'', VInt (uint_at s 13 1 b)),
         (''r_type2'', VInt (uint_at s 14 1 b)),
         (''r_type'', VInt (uint_at s 15 1 b)),
         (''r_info_sym'', VInt (uint_at s 8 4 b)),
         (''r_info_ssym'', VInt (uint_at s 12 1 b)),
         (''r_info_type'', VInt (uint_at s 15 1 b)),
         (''r_info_type2'', VInt (uint_at s 14 1 b)),
         (''r_info_type3'', VInt (uint_at s 13 1 b)),
         (''r_info'', VInt (push_bit 32 (uint_at s 8 4 b) OR push_bit 24 (uint_at s 12 1 b)
            OR push_bit 16 (uint_at s 13 1 b) OR push_bit 8 (uint_at s 14 1 b) OR uint_at s 15 1 b))]
      else
        [(''r_offset'', VInt (uint_at s 0 8 b)),
         (''r_info'', VInt (uint_at s 8 8 b)),
         (''r_info_sym'', VInt (uint_at s 8 8 b div 2 ^ 32)),
         (''r_info_type'', VInt (uint_at s 8 8 b mod 2 ^ 32))])"

definition rel_value :: "elf_structs \<Rightarrow> bytes \<Rightarrow> val" where
  "rel_value s b = VCont (rel_items s b)"

definition rela_value :: "elf_structs \<Rightarrow> bytes \<Rightarrow> val" where
  "rela_value s b = VCont (rel_items s b @ [(''r_addend'', VInt (sint_at s (2 * wsize s) (wsize s) b))])"

lemmas value_field = fmt_ctx_def ctx_int_def dget_def

text \<open>The three layouts, with the addend or without.\<close>

lemma rel_format_32:
  assumes "elfclass s = 32"
  shows "fixed_format UNIV {} (Elf_Rel s) 8 (\<lambda>c b. Some (rel_value s b))"
    and "fixed_format UNIV {} (Elf_Rela s) 12 (\<lambda>c b. Some (rela_value s b))"
  unfolding Elf_Rel_def Elf_Rela_def rel_fields_def chunk_formats if_P [OF assms] append.simps
  by ((rule format_eq [OF format_Struct], (rule layout | force simp: value_field | simp)+),
      auto simp: assms layout_eval rel_value_def rela_value_def rel_items_def ctx_int_def r_info_parts)+

lemma rel_format_mips:
  assumes "elfclass s \<noteq> 32" "e_machine s = VLit ''EM_MIPS''"
  shows "fixed_format UNIV {} (Elf_Rel s) 16 (\<lambda>c b. Some (rel_value s b))"
    and "fixed_format UNIV {} (Elf_Rela s) 24 (\<lambda>c b. Some (rela_value s b))"
  unfolding Elf_Rel_def Elf_Rela_def rel_fields_def chunk_formats if_not_P [OF assms(1)] if_P [OF assms(2)]
    append.simps
  by ((rule format_eq [OF format_Struct], (rule layout | force simp: value_field | simp)+),
      auto simp: assms layout_eval rel_value_def rela_value_def rel_items_def ctx_int_def)+

lemma rel_format_64:
  assumes "elfclass s \<noteq> 32" "e_machine s \<noteq> VLit ''EM_MIPS''"
  shows "fixed_format UNIV {} (Elf_Rel s) 16 (\<lambda>c b. Some (rel_value s b))"
    and "fixed_format UNIV {} (Elf_Rela s) 24 (\<lambda>c b. Some (rela_value s b))"
  unfolding Elf_Rel_def Elf_Rela_def rel_fields_def chunk_formats if_not_P [OF assms(1)] if_not_P [OF assms(2)]
    append.simps
  by ((rule format_eq [OF format_Struct], (rule layout | force simp: value_field | simp)+),
      auto simp: assms layout_eval rel_value_def rela_value_def rel_items_def ctx_int_def r_info_parts)+

interpretation rel: file_format "Elf_Rel s" "2 * wsize s" "\<lambda>c b. Some (rel_value s b)" for s
  using rel_format_32(1) [of s] rel_format_mips(1) [of s] rel_format_64(1) [of s]
  by (cases "elfclass s = 32"; cases "e_machine s = VLit ''EM_MIPS''") (simp_all add: file_format_def wsize_def)

interpretation rela: file_format "Elf_Rela s" "3 * wsize s" "\<lambda>c b. Some (rela_value s b)" for s
  using rel_format_32(2) [of s] rel_format_mips(2) [of s] rel_format_64(2) [of s]
  by (cases "elfclass s = 32"; cases "e_machine s = VLit ''EM_MIPS''") (simp_all add: file_format_def wsize_def)

end
