(* ===== verification/ElfSections.thy ===== *)
theory ElfSections
  imports ElfFormats
begin

text \<open>
  \<^verbatim>\<open>elftools/elf/sections.py\<close> (and the flag values of \<^verbatim>\<open>constants.py\<close> that it uses): section
  objects and what can be done with one alone.  A section object is a value of the datatype
  \<open>elf_section\<close>: its class, header, name, the compression header read by the constructor, the
  section it is linked to (string or symbol table), and what the constructors of the hash and
  attribute sections read.  The object shared by all sections, the \<open>ELFFile\<close>, is in \<^verbatim>\<open>ElfFile\<close>.

  The state is that of an open file: its stream and the \<open>ELFFile\<close>'s cache of section names.
\<close>

section \<open>Flags (constants.py)\<close>

definition SHF_WRITE :: int where "SHF_WRITE = 0x1"
definition SHF_ALLOC :: int where "SHF_ALLOC = 0x2"
definition SHF_TLS :: int where "SHF_TLS = 0x400"
definition SHF_COMPRESSED :: int where "SHF_COMPRESSED = 0x800"
definition SHN_XINDEX :: int where "SHN_XINDEX = 0xffff"

lemmas sh_flag_defs = SHF_WRITE_def SHF_ALLOC_def SHF_TLS_def SHF_COMPRESSED_def SHN_XINDEX_def

section \<open>State\<close>

record fstate =
  f_stream :: stream
  f_names :: "(pystr \<times> int) list option"

type_synonym 'a F = "(fstate, 'a) M"

definition on_file :: "(stream, 'a) M \<Rightarrow> 'a F" where
  "on_file m = (\<lambda>s. case m (f_stream s) of (r, t) \<Rightarrow> (r, s\<lparr>f_stream := t\<rparr>))"

lemma on_file_run [monad_simps]:
  "on_file m s = (fst (m (f_stream s)), s\<lparr>f_stream := snd (m (f_stream s))\<rparr>)"
  by (simp add: on_file_def split: prod.splits)

lemma on_file_Ok: "m (f_stream s) = (Ok a, t) \<Longrightarrow> on_file m s = (Ok a, s\<lparr>f_stream := t\<rparr>)"
  by (simp add: on_file_def)

lemma on_file_Err: "m (f_stream s) = (Err e, t) \<Longrightarrow> on_file m s = (Err e, s\<lparr>f_stream := t\<rparr>)"
  by (simp add: on_file_def)

abbreviation fdata :: "fstate \<Rightarrow> bytes" where
  "fdata s \<equiv> sdata (f_stream s)"

section \<open>Section objects\<close>

datatype skind =
    PlainSection | NullSection | StringTableSection | SymbolTableSection | SymbolTableIndexSection
  | SUNWSyminfoTableSection | GNUVerNeedSection | GNUVerDefSection | GNUVerSymSection
  | RelocationSection | RelrRelocationSection | DynamicSection | NoteSection | StabSection
  | ARMAttributesSection | RISCVAttributesSection | ELFHashSection | GNUHashSection

datatype elf_section = Section
  (s_kind: skind) (s_header: val) (s_name: pystr) (s_chdr: "val option")
  (s_link: "elf_section option") (s_extra: val)

text \<open>\<^verbatim>\<open>section[name]\<close>.\<close>

definition sec_get :: "elf_section \<Rightarrow> string \<Rightarrow> val res" where
  "sec_get sec k = get_item (s_header sec) k"

definition sec_int :: "elf_section \<Rightarrow> string \<Rightarrow> int res" where
  "sec_int sec k = get_int (s_header sec) k"

text \<open>\<open>Section.__init__\<close>: a compressed section reads its compression header at once.\<close>

definition Section_init ::
  "elf_structs \<Rightarrow> skind \<Rightarrow> val \<Rightarrow> pystr \<Rightarrow> elf_section option \<Rightarrow> elf_section F" where
  "Section_init st kind header name link =
     mbind (lift_res (get_int header ''sh_flags'')) (\<lambda>flags.
       if flags AND SHF_COMPRESSED \<noteq> 0 then
         mbind (lift_res (get_int header ''sh_offset'')) (\<lambda>off.
         mbind (on_file (struct_parse (Elf_Chdr st) (Some off))) (\<lambda>chdr.
           ret (Section kind header name (Some chdr) link VNone)))
       else ret (Section kind header name None link VNone))"

definition compressed :: "elf_section \<Rightarrow> bool" where
  "compressed sec \<longleftrightarrow> s_chdr sec \<noteq> None"

definition data_size :: "elf_section \<Rightarrow> int res" where
  "data_size sec = (case s_chdr sec of
     Some chdr \<Rightarrow> get_int chdr ''ch_size'' | None \<Rightarrow> sec_int sec ''sh_size'')"

definition data_alignment :: "elf_section \<Rightarrow> int res" where
  "data_alignment sec = (case s_chdr sec of
     Some chdr \<Rightarrow> get_int chdr ''ch_addralign'' | None \<Rightarrow> sec_int sec ''sh_addralign'')"

definition is_null :: "elf_section \<Rightarrow> bool" where
  "is_null sec \<longleftrightarrow> s_kind sec = NullSection"

text \<open>
  \<open>data\<close>.  The decompressor (\<^verbatim>\<open>zlib.decompressobj().decompress(data, max_length)\<close>) is the
  parameter \<open>zlib\<close>.  The message of the error for an unknown compression type formats the type
  as a number, which fails with a \<open>ValueError\<close> when the type has a name.
\<close>

definition section_data :: "(bytes \<Rightarrow> int \<Rightarrow> bytes res) \<Rightarrow> elf_structs \<Rightarrow> elf_section \<Rightarrow> bytes F" where
  "section_data zlib st sec =
     mbind (lift_res (sec_get sec ''sh_type'')) (\<lambda>ty.
     if ty = VLit ''SHT_NOBITS'' then
       mbind (lift_res (data_size sec)) (\<lambda>n. ret (replicate (nat n) 0))
     else (case s_chdr sec of
       Some chdr \<Rightarrow>
         mbind (lift_res (get_item chdr ''ch_type'')) (\<lambda>c_type.
         if c_type = VLit ''ELFCOMPRESS_ZLIB'' then
           mbind (lift_res (sizeof (Elf_Chdr st) [])) (\<lambda>hdr_size.
           mbind (lift_res (sec_int sec ''sh_offset'')) (\<lambda>off.
           mbind (on_file (s_seek (off + hdr_size))) (\<lambda>_.
           mbind (lift_res (sec_int sec ''sh_size'')) (\<lambda>sz.
           mbind (on_file (s_read (sz - hdr_size))) (\<lambda>comp.
           mbind (lift_res (data_size sec)) (\<lambda>n.
           mbind (lift_res (zlib comp n)) (\<lambda>result.
             if int (length result) \<noteq> n then raise ELFCompressionError else ret result)))))))
         else (case c_type of VInt i \<Rightarrow> raise ELFCompressionError | _ \<Rightarrow> raise ValueError))
     | None \<Rightarrow>
         mbind (lift_res (sec_int sec ''sh_offset'')) (\<lambda>off.
         mbind (on_file (s_seek off)) (\<lambda>_.
         mbind (lift_res (data_size sec)) (\<lambda>n. on_file (s_read n))))))"

section \<open>String and symbol tables\<close>

text \<open>\<^verbatim>\<open>s.decode('utf-8', errors='replace') if s else ''\<close>.\<close>

definition get_string :: "elf_section \<Rightarrow> int \<Rightarrow> pystr F" where
  "get_string sec offset =
     mbind (lift_res (sec_int sec ''sh_offset'')) (\<lambda>table_offset.
     mbind (on_file (parse_cstring_from_stream (Some (table_offset + offset)))) (\<lambda>s.
       ret (case s of None \<Rightarrow> [] | Some b \<Rightarrow> decode_utf8_replace b)))"

record symbol =
  sym_entry :: val
  sym_name :: pystr

definition SymbolTableSection_init ::
  "elf_structs \<Rightarrow> val \<Rightarrow> pystr \<Rightarrow> elf_section \<Rightarrow> elf_section F" where
  "SymbolTableSection_init st header name stringtable =
     mbind (Section_init st SymbolTableSection header name (Some stringtable)) (\<lambda>sec.
     mbind (lift_res (sec_int sec ''sh_entsize'')) (\<lambda>ent.
     mbind (elf_assert (ent > 0)) (\<lambda>_.
     mbind (lift_res (sec_int sec ''sh_size'')) (\<lambda>sz.
     mbind (elf_assert (sz mod ent = 0)) (\<lambda>_. ret sec)))))"

text \<open>\<^verbatim>\<open>a // b\<close> and \<^verbatim>\<open>a % b\<close> of Python.\<close>

definition py_div :: "int \<Rightarrow> int \<Rightarrow> int res" where
  "py_div a b = (if b = 0 then Err ZeroDivisionError else Ok (a div b))"

definition num_symbols :: "elf_section \<Rightarrow> int res" where
  "num_symbols sec = rbind (sec_int sec ''sh_size'') (\<lambda>sz.
     rbind (sec_int sec ''sh_entsize'') (\<lambda>ent. py_div sz ent))"

text \<open>The position of entry \<open>n\<close> of a table section.\<close>

definition entry_offset :: "elf_section \<Rightarrow> int \<Rightarrow> int res" where
  "entry_offset sec n = rbind (sec_int sec ''sh_offset'') (\<lambda>off.
     rbind (sec_int sec ''sh_entsize'') (\<lambda>ent. Ok (off + n * ent)))"

definition linked :: "elf_section \<Rightarrow> elf_section res" where
  "linked sec = (case s_link sec of Some l \<Rightarrow> Ok l | None \<Rightarrow> Err AttributeError)"

definition get_symbol :: "elf_structs \<Rightarrow> elf_section \<Rightarrow> int \<Rightarrow> symbol F" where
  "get_symbol st sec n =
     mbind (lift_res (entry_offset sec n)) (\<lambda>off.
     mbind (on_file (struct_parse (Elf_Sym st) (Some off))) (\<lambda>entry.
     mbind (lift_res (linked sec)) (\<lambda>strtab.
     mbind (lift_res (get_int entry ''st_name'')) (\<lambda>nm.
     mbind (get_string strtab nm) (\<lambda>name.
       ret \<lparr>sym_entry = entry, sym_name = name\<rparr>)))))"

definition iter_symbols :: "elf_structs \<Rightarrow> elf_section \<Rightarrow> symbol list F" where
  "iter_symbols st sec =
     mbind (lift_res (num_symbols sec)) (\<lambda>n. mmap (get_symbol st sec) [0..n - 1])"

text \<open>
  The lookup by name goes through a dict from names to lists of indices, built on first use
  from all the symbols (kept by the object; here the dict is the argument and result).
\<close>

fun add_names :: "(pystr \<times> int list) list \<Rightarrow> int \<Rightarrow> symbol list \<Rightarrow> (pystr \<times> int list) list" where
  "add_names d i [] = d"
| "add_names d i (sy # sys) =
     add_names (AList.update (sym_name sy)
       ((case map_of d (sym_name sy) of None \<Rightarrow> [] | Some l \<Rightarrow> l) @ [i]) d) (i + 1) sys"

definition get_symbol_by_name ::
  "elf_structs \<Rightarrow> elf_section \<Rightarrow> (pystr \<times> int list) list option \<Rightarrow> pystr
   \<Rightarrow> (symbol list option \<times> (pystr \<times> int list) list option) F" where
  "get_symbol_by_name st sec cache name =
     mbind (case cache of
         Some d \<Rightarrow> ret d
       | None \<Rightarrow> mbind (iter_symbols st sec) (\<lambda>sys. ret (add_names [] 0 sys))) (\<lambda>d.
     (case map_of d name of
        None \<Rightarrow> ret (None, Some d)
      | Some [] \<Rightarrow> ret (None, Some d)
      | Some symnums \<Rightarrow> mbind (mmap (get_symbol st sec) symnums) (\<lambda>sys. ret (Some sys, Some d))))"

definition get_section_index_of_symbol :: "elf_structs \<Rightarrow> elf_section \<Rightarrow> int \<Rightarrow> val F" where
  "get_section_index_of_symbol st sec n =
     mbind (lift_res (entry_offset sec n)) (\<lambda>off. on_file (struct_parse (Elf_word st '''') (Some off)))"

subsection \<open>Solaris syminfo tables\<close>

definition syminfo_num_symbols :: "elf_section \<Rightarrow> int res" where
  "syminfo_num_symbols sec = rbind (num_symbols sec) (\<lambda>n. Ok (n - 1))"

definition syminfo_get_symbol :: "elf_structs \<Rightarrow> elf_section \<Rightarrow> int \<Rightarrow> symbol F" where
  "syminfo_get_symbol st sec n =
     mbind (lift_res (entry_offset sec n)) (\<lambda>off.
     mbind (on_file (struct_parse (Elf_Sunw_Syminfo st) (Some off))) (\<lambda>entry.
     mbind (lift_res (linked sec)) (\<lambda>symtab.
     mbind (get_symbol st symtab n) (\<lambda>sy.
       ret \<lparr>sym_entry = entry, sym_name = sym_name sy\<rparr>))))"

definition syminfo_iter_symbols :: "elf_structs \<Rightarrow> elf_section \<Rightarrow> symbol list F" where
  "syminfo_iter_symbols st sec =
     mbind (lift_res (syminfo_num_symbols sec)) (\<lambda>n. mmap (syminfo_get_symbol st sec) [1..n])"

section \<open>Stabs\<close>

text \<open>
  The entries from an offset to the end of the section, each with its own offset added.
  The loop is bounded by the number of entries that fit: each advances by the entry size.
\<close>

definition add_item :: "val \<Rightarrow> string \<Rightarrow> val \<Rightarrow> val res" where
  "add_item v k x = (case v of VCont d \<Rightarrow> Ok (VCont (dput k x d)) | _ \<Rightarrow> Err TypeError)"

primrec stabs_loop :: "nat \<Rightarrow> elf_structs \<Rightarrow> int \<Rightarrow> int \<Rightarrow> val list F" where
  "stabs_loop 0 st offset stop = lift_res NoFuel"
| "stabs_loop (Suc fuel) st offset stop =
     (if offset < stop then
        mbind (on_file (struct_parse (Elf_Stabs st) (Some offset))) (\<lambda>stabs.
        mbind (lift_res (add_item stabs ''n_offset'' (VInt offset))) (\<lambda>stabs'.
        mbind (lift_res (sizeof (Elf_Stabs st) [])) (\<lambda>sz.
        mbind (on_file (s_seek (offset + sz))) (\<lambda>_.
        mbind (stabs_loop fuel st (offset + sz) stop) (\<lambda>rest. ret (stabs' # rest))))))
      else ret [])"

definition iter_stabs :: "elf_structs \<Rightarrow> elf_section \<Rightarrow> val list F" where
  "iter_stabs st sec =
     mbind (lift_res (sec_int sec ''sh_offset'')) (\<lambda>offset.
     mbind (lift_res (sec_int sec ''sh_size'')) (\<lambda>size.
       stabs_loop (Suc (nat size)) st offset (offset + size)))"

end
