(* ===== verification/ElfFile.thy ===== *)
theory ElfFile
  imports ElfSections
begin

text \<open>
  \<^verbatim>\<open>elftools/elf/elffile.py\<close>: the class \<open>ELFFile\<close>.  Its constructor identifies the file, parses
  the header and finds the section name table; its methods find and make sections and
  segments.  The object is the record \<open>elffile\<close>; what the methods change, the stream's position
  and the cache of section names, is the state \<open>fstate\<close>.

  A section's constructor may fetch the section it is linked to.  The chain ends after at most
  three sections unless it goes through version-symbol sections, whose link is not checked and
  may even be a cycle: Python then stops at its recursion limit, and the model at \<open>max_depth\<close>
  (the result \<open>NoFuel\<close>).
  \<open>get_dwarf_info\<close>, \<open>get_ehabi_infos\<close> and what they call are in \<open>DwarfFiles\<close>; not modelled are
  \<open>load_from_path\<close> and \<open>close\<close> (pure I/O).
\<close>

record elffile =
  ef_structs :: elf_structs
  ef_stream_len :: int
  ef_header :: val
  ef_shstr :: "elf_section option"
  ef_ident_raw :: bytes

text \<open>\<^verbatim>\<open>self[name]\<close>.\<close>

definition ef_get :: "elffile \<Rightarrow> string \<Rightarrow> val res" where
  "ef_get ef k = get_item (ef_header ef) k"

definition ef_int :: "elffile \<Rightarrow> string \<Rightarrow> int res" where
  "ef_int ef k = get_int (ef_header ef) k"

section \<open>Headers by index\<close>

definition section_offset :: "elffile \<Rightarrow> int \<Rightarrow> int res" where
  "section_offset ef n =
     rbind (ef_int ef ''e_shentsize'') (\<lambda>shentsize.
     rbind (ef_int ef ''e_shoff'') (\<lambda>shoff.
     rbind (sizeof (Elf_Shdr (ef_structs ef)) []) (\<lambda>sz.
       if shoff > 0 \<and> shentsize < sz then Err ELFError else Ok (shoff + n * shentsize))))"

definition segment_offset :: "elffile \<Rightarrow> int \<Rightarrow> int res" where
  "segment_offset ef n =
     rbind (ef_int ef ''e_phentsize'') (\<lambda>phentsize.
     rbind (ef_int ef ''e_phoff'') (\<lambda>phoff.
     rbind (sizeof (Elf_Phdr (ef_structs ef)) []) (\<lambda>sz.
       if phoff > 0 \<and> phentsize < sz then Err ELFError else Ok (phoff + n * phentsize))))"

text \<open>\<open>None\<close> (\<open>VNone\<close>) when the header would lie beyond the end of the file.\<close>

definition get_section_header :: "elffile \<Rightarrow> int \<Rightarrow> val F" where
  "get_section_header ef n =
     mbind (lift_res (section_offset ef n)) (\<lambda>stream_pos.
       if stream_pos > ef_stream_len ef then ret VNone
       else on_file (struct_parse (Elf_Shdr (ef_structs ef)) (Some stream_pos)))"

definition get_segment_header :: "elffile \<Rightarrow> int \<Rightarrow> val F" where
  "get_segment_header ef n =
     mbind (lift_res (segment_offset ef n)) (\<lambda>pos.
       on_file (struct_parse (Elf_Phdr (ef_structs ef)) (Some pos)))"

definition num_sections :: "elffile \<Rightarrow> int F" where
  "num_sections ef =
     mbind (lift_res (ef_int ef ''e_shoff'')) (\<lambda>shoff.
     if shoff = 0 then ret 0
     else mbind (lift_res (ef_int ef ''e_shnum'')) (\<lambda>shnum.
       if shnum = 0 then
         mbind (get_section_header ef 0) (\<lambda>h. lift_res (get_int h ''sh_size''))
       else ret shnum))"

definition get_shstrndx :: "elffile \<Rightarrow> int F" where
  "get_shstrndx ef =
     mbind (lift_res (ef_int ef ''e_shstrndx'')) (\<lambda>i.
       if i \<noteq> SHN_XINDEX then ret i
       else mbind (get_section_header ef 0) (\<lambda>h. lift_res (get_int h ''sh_link'')))"

section \<open>The constructor\<close>

definition s_seek_end :: "(stream, int) M" where
  "s_seek_end = (\<lambda>s. (Ok (int (length (sdata s))), s\<lparr>spos := length (sdata s)\<rparr>))"

text \<open>\<open>_identify_file\<close>: byte order and class.\<close>

definition identify_file :: "(stream, bool \<times> int) M" where
  "identify_file =
     mbind (s_seek 0) (\<lambda>_. mbind (s_read 4) (\<lambda>magic.
     mbind (elf_assert (magic = [0x7f, 0x45, 0x4c, 0x46])) (\<lambda>_.
     mbind (s_read 1) (\<lambda>ei_class.
     mbind (if ei_class = [1] then ret 32 else if ei_class = [2] then ret 64 else raise ELFError) (\<lambda>cls.
     mbind (s_read 1) (\<lambda>ei_data.
     mbind (if ei_data = [1] then ret True else if ei_data = [2] then ret False else raise ELFError) (\<lambda>le.
       ret (le, cls))))))))"

definition parse_elf_header :: "elf_structs \<Rightarrow> val F" where
  "parse_elf_header st = on_file (struct_parse (Elf_Ehdr st) (Some 0))"

definition get_section_header_stringtable :: "elffile \<Rightarrow> elf_section option F" where
  "get_section_header_stringtable ef =
     mbind (get_shstrndx ef) (\<lambda>num.
     mbind (get_section_header ef num) (\<lambda>h.
       if h = VNone then ret None
       else mbind (Section_init (ef_structs ef) StringTableSection h [] None) (\<lambda>sec. ret (Some sec))))"

definition ELFFile_init :: "elffile F" where
  "ELFFile_init =
     mbind (on_file s_seek_end) (\<lambda>len.
     mbind (on_file identify_file) (\<lambda>(le, cls).
     mbind (lift_res (ELFStructs_init le cls)) (\<lambda>st0.
     mbind (parse_elf_header st0) (\<lambda>header.
     mbind (lift_res (get_item header ''e_type'')) (\<lambda>ty.
     mbind (lift_res (get_item header ''e_machine'')) (\<lambda>mach.
     mbind (lift_res (rbind (get_item header ''e_ident'') (\<lambda>i. get_item i ''EI_OSABI''))) (\<lambda>osabi.
     let st = create_advanced_structs ty mach osabi st0 in
     mbind (on_file (s_seek 0)) (\<lambda>_.
     mbind (on_file (s_read 16)) (\<lambda>raw.
     let ef = \<lparr>ef_structs = st, ef_stream_len = len, ef_header = header, ef_shstr = None,
               ef_ident_raw = raw\<rparr> in
     mbind (get_section_header_stringtable ef) (\<lambda>tab. ret (ef\<lparr>ef_shstr := tab\<rparr>)))))))))))"

section \<open>Sections\<close>

definition get_section_name :: "elffile \<Rightarrow> val \<Rightarrow> pystr F" where
  "get_section_name ef h = (case ef_shstr ef of
     None \<Rightarrow> raise ELFParseError
   | Some tab \<Rightarrow> mbind (lift_res (get_int h ''sh_name'')) (get_string tab))"

text \<open>The hash tables of linked sections (\<^verbatim>\<open>hash.py\<close>): what their constructors read.\<close>

definition ELFHashTable_init :: "elffile \<Rightarrow> int \<Rightarrow> val F" where
  "ELFHashTable_init ef start_offset =
     on_file (struct_parse (Elf_Hash (ef_structs ef)) (Some start_offset))"

text \<open>The parameters, with \<^verbatim>\<open>_chain_pos\<close> under a key of its own.\<close>

definition GNUHashTable_init :: "elffile \<Rightarrow> int \<Rightarrow> val F" where
  "GNUHashTable_init ef start_offset =
     (let st = ef_structs ef in
     mbind (on_file (struct_parse (Gnu_Hash st) (Some start_offset))) (\<lambda>params.
     mbind (lift_res (sizeof (Elf_word st '''') [])) (\<lambda>wordsize.
     mbind (lift_res (sizeof (Elf_xword st '''') [])) (\<lambda>xwordsize.
     mbind (lift_res (get_int params ''bloom_size'')) (\<lambda>bloom_size.
     mbind (lift_res (get_int params ''nbuckets'')) (\<lambda>nbuckets.
       lift_res (add_item params ''_chain_pos''
         (VInt (start_offset + 4 * wordsize + bloom_size * xwordsize + nbuckets * wordsize)))))))))"

definition with_extra :: "elf_section \<Rightarrow> val \<Rightarrow> elf_section" where
  "with_extra sec x = Section (s_kind sec) (s_header sec) (s_name sec) (s_chdr sec) (s_link sec) x"

definition ELFHashSection_init :: "elffile \<Rightarrow> val \<Rightarrow> pystr \<Rightarrow> elf_section \<Rightarrow> elf_section F" where
  "ELFHashSection_init ef h name symtab =
     mbind (Section_init (ef_structs ef) ELFHashSection h name (Some symtab)) (\<lambda>sec.
     mbind (lift_res (sec_int sec ''sh_offset'')) (\<lambda>off.
     mbind (ELFHashTable_init ef off) (\<lambda>params. ret (with_extra sec params))))"

definition GNUHashSection_init :: "elffile \<Rightarrow> val \<Rightarrow> pystr \<Rightarrow> elf_section \<Rightarrow> elf_section F" where
  "GNUHashSection_init ef h name symtab =
     mbind (Section_init (ef_structs ef) GNUHashSection h name (Some symtab)) (\<lambda>sec.
     mbind (lift_res (sec_int sec ''sh_offset'')) (\<lambda>off.
     mbind (GNUHashTable_init ef off) (\<lambda>params. ret (with_extra sec params))))"

text \<open>Relocation sections (\<^verbatim>\<open>relocation.py\<close>) check their entry size.\<close>

definition RelocationSection_init :: "elffile \<Rightarrow> val \<Rightarrow> pystr \<Rightarrow> elf_section F" where
  "RelocationSection_init ef h name =
     mbind (Section_init (ef_structs ef) RelocationSection h name None) (\<lambda>sec.
     mbind (lift_res (sec_get sec ''sh_type'')) (\<lambda>ty.
     mbind (lift_res (sizeof (if ty = VLit ''SHT_RELA'' then Elf_Rela (ef_structs ef)
                              else Elf_Rel (ef_structs ef)) [])) (\<lambda>entry_size.
     mbind (elf_assert (ty \<in> {VLit ''SHT_REL'', VLit ''SHT_RELA''})) (\<lambda>_.
     mbind (lift_res (sec_int sec ''sh_entsize'')) (\<lambda>ent.
     mbind (elf_assert (ent = entry_size)) (\<lambda>_. ret sec))))))"

definition RelrRelocationSection_init :: "elffile \<Rightarrow> val \<Rightarrow> pystr \<Rightarrow> elf_section F" where
  "RelrRelocationSection_init ef h name =
     mbind (Section_init (ef_structs ef) RelrRelocationSection h name None) (\<lambda>sec.
     mbind (lift_res (sizeof (Elf_Relr (ef_structs ef)) [])) (\<lambda>entrysize.
     mbind (lift_res (sec_int sec ''sh_entsize'')) (\<lambda>ent.
     mbind (elf_assert (entrysize = ent)) (\<lambda>_. ret sec))))"

text \<open>Attribute sections read the format version, and remember where the subsections start.\<close>

definition AttributesSection_init :: "elffile \<Rightarrow> skind \<Rightarrow> val \<Rightarrow> pystr \<Rightarrow> elf_section F" where
  "AttributesSection_init ef kind h name =
     mbind (Section_init (ef_structs ef) kind h name None) (\<lambda>sec.
     mbind (lift_res (sec_int sec ''sh_offset'')) (\<lambda>off.
     mbind (on_file (struct_parse (Elf_byte (ef_structs ef) ''format_version'') (Some off))) (\<lambda>fv.
     mbind (elf_assert (fv = VInt 65)) (\<lambda>_.
     mbind (on_file (\<lambda>t. (Ok (VInt (s_tell t)), t))) (\<lambda>start. ret (with_extra sec start))))))"

text \<open>
  \<open>_make_section\<close>, parametrised by the methods it calls back to fetch a linked section:
  \<open>get_section\<close> and the two variants that check the type of the section.
\<close>

definition make_section_with ::
  "elffile \<Rightarrow> (int \<Rightarrow> val list \<Rightarrow> elf_section F) \<Rightarrow> (int \<Rightarrow> elf_section F) \<Rightarrow> (int \<Rightarrow> elf_section F)
   \<Rightarrow> val \<Rightarrow> elf_section F" where
  "make_section_with ef get_sec get_symtab get_strtab h =
     (let st = ef_structs ef; link = lift_res (get_int h ''sh_link'') in
     mbind (get_section_name ef h) (\<lambda>name.
     mbind (lift_res (get_item h ''sh_type'')) (\<lambda>ty.
       if ty = VLit ''SHT_STRTAB'' then Section_init st StringTableSection h name None
       else if ty = VLit ''SHT_NULL'' then Section_init st NullSection h name None
       else if ty \<in> {VLit ''SHT_SYMTAB'', VLit ''SHT_DYNSYM'', VLit ''SHT_SUNW_LDYNSYM''} then
         mbind link (\<lambda>l. mbind (get_strtab l) (\<lambda>strtab. SymbolTableSection_init st h name strtab))
       else if ty = VLit ''SHT_SYMTAB_SHNDX'' then
         mbind link (\<lambda>l. mbind (Section_init st SymbolTableIndexSection h name None) (\<lambda>sec.
           ret (with_extra sec (VInt l))))
       else if ty = VLit ''SHT_SUNW_syminfo'' then
         mbind link (\<lambda>l. mbind (get_symtab l) (\<lambda>symtab.
           Section_init st SUNWSyminfoTableSection h name (Some symtab)))
       else if ty = VLit ''SHT_GNU_verneed'' then
         mbind link (\<lambda>l. mbind (get_strtab l) (\<lambda>strtab.
           Section_init st GNUVerNeedSection h name (Some strtab)))
       else if ty = VLit ''SHT_GNU_verdef'' then
         mbind link (\<lambda>l. mbind (get_strtab l) (\<lambda>strtab.
           Section_init st GNUVerDefSection h name (Some strtab)))
       else if ty = VLit ''SHT_GNU_versym'' then
         mbind link (\<lambda>l. mbind (get_sec l []) (\<lambda>symtab.
           Section_init st GNUVerSymSection h name (Some symtab)))
       else if ty \<in> {VLit ''SHT_REL'', VLit ''SHT_RELA''} then RelocationSection_init ef h name
       else if ty = VLit ''SHT_DYNAMIC'' then
         mbind (Section_init st DynamicSection h name None) (\<lambda>sec.
         mbind link (\<lambda>l. mbind (get_sec l [VLit ''SHT_STRTAB'', VLit ''SHT_NOBITS'']) (\<lambda>strtab.
           ret (Section DynamicSection (s_header sec) (s_name sec) (s_chdr sec) (Some strtab) VNone))))
       else if ty = VLit ''SHT_NOTE'' then Section_init st NoteSection h name None
       else if ty = VLit ''SHT_PROGBITS'' \<and> name = lit ''.stab'' then Section_init st StabSection h name None
       else if ty = VLit ''SHT_ARM_ATTRIBUTES'' then AttributesSection_init ef ARMAttributesSection h name
       else if ty = VLit ''SHT_RISCV_ATTRIBUTES'' then AttributesSection_init ef RISCVAttributesSection h name
       else if ty = VLit ''SHT_HASH'' then
         mbind link (\<lambda>l. mbind (get_symtab l) (\<lambda>symtab. ELFHashSection_init ef h name symtab))
       else if ty = VLit ''SHT_GNU_HASH'' then
         mbind link (\<lambda>l. mbind (get_symtab l) (\<lambda>symtab. GNUHashSection_init ef h name symtab))
       else if ty = VLit ''SHT_RELR'' then RelrRelocationSection_init ef h name
       else Section_init st PlainSection h name None)))"

text \<open>\<^verbatim>\<open>header.sh_type\<close> with a list of types; \<^verbatim>\<open>header['sh_type']\<close> with the two fixed checks.\<close>

definition checked_header :: "elffile \<Rightarrow> int \<Rightarrow> val list \<Rightarrow> val F" where
  "checked_header ef n types =
     mbind (get_section_header ef n) (\<lambda>h.
       if types = [] then ret h
       else mbind (lift_res (get_attr h ''sh_type'')) (\<lambda>ty.
         if ty \<in> set types then ret h else raise ELFError))"

definition linked_header :: "elffile \<Rightarrow> int \<Rightarrow> val list \<Rightarrow> val F" where
  "linked_header ef n types =
     mbind (get_section_header ef n) (\<lambda>h.
     mbind (lift_res (get_item h ''sh_type'')) (\<lambda>ty.
       if ty \<in> set types then ret h else raise ELFError))"

abbreviation symtab_types :: "val list" where
  "symtab_types \<equiv> [VLit ''SHT_SYMTAB'', VLit ''SHT_DYNSYM'']"

abbreviation strtab_types :: "val list" where
  "strtab_types \<equiv> [VLit ''SHT_STRTAB'']"

primrec make_section :: "nat \<Rightarrow> elffile \<Rightarrow> val \<Rightarrow> elf_section F" where
  "make_section 0 ef h = lift_res NoFuel"
| "make_section (Suc k) ef h = make_section_with ef
     (\<lambda>n types. mbind (checked_header ef n types) (make_section k ef))
     (\<lambda>n. mbind (linked_header ef n symtab_types) (make_section k ef))
     (\<lambda>n. mbind (linked_header ef n strtab_types) (make_section k ef)) h"

definition max_depth :: nat where "max_depth = 330"

definition get_section :: "elffile \<Rightarrow> int \<Rightarrow> val list \<Rightarrow> elf_section F" where
  "get_section ef n types = mbind (checked_header ef n types) (make_section max_depth ef)"

section \<open>Sections by name\<close>

text \<open>
  \<open>_make_section_name_map\<close> fills the cache section by section; an exception on the way leaves
  it half filled, and the cache is not rebuilt later.
\<close>

definition set_names :: "(pystr \<times> int) list option \<Rightarrow> unit F" where
  "set_names m = (\<lambda>s. (Ok (), s\<lparr>f_names := m\<rparr>))"

definition add_section_name :: "pystr \<Rightarrow> int \<Rightarrow> unit F" where
  "add_section_name name i = (\<lambda>s. (Ok (), s\<lparr>f_names :=
     Some (AList.update name i (case f_names s of None \<Rightarrow> [] | Some m \<Rightarrow> m))\<rparr>))"

function name_map_loop :: "elffile \<Rightarrow> int \<Rightarrow> int \<Rightarrow> unit F" where
  "name_map_loop ef i n =
     (if i < n then
        mbind (get_section ef i []) (\<lambda>sec.
        mbind (add_section_name (s_name sec) i) (\<lambda>_. name_map_loop ef (i + 1) n))
      else ret ())"
  by pat_completeness auto
termination
  by (relation "measure (\<lambda>(ef, i, n). nat (n - i))") auto

declare name_map_loop.simps [simp del]

definition make_section_name_map :: "elffile \<Rightarrow> unit F" where
  "make_section_name_map ef =
     mbind (set_names (Some [])) (\<lambda>_. mbind (num_sections ef) (\<lambda>n. name_map_loop ef 0 n))"

definition ensure_names :: "elffile \<Rightarrow> (pystr \<times> int) list F" where
  "ensure_names ef =
     mbind (\<lambda>s. (if f_names s = None then make_section_name_map ef s else (Ok (), s))) (\<lambda>_.
       (\<lambda>s. (Ok (case f_names s of None \<Rightarrow> [] | Some m \<Rightarrow> m), s)))"

definition get_section_index :: "elffile \<Rightarrow> pystr \<Rightarrow> int option F" where
  "get_section_index ef name = mbind (ensure_names ef) (\<lambda>m. ret (map_of m name))"

definition get_section_by_name :: "elffile \<Rightarrow> pystr \<Rightarrow> elf_section option F" where
  "get_section_by_name ef name =
     mbind (ensure_names ef) (\<lambda>m. (case map_of m name of
       None \<Rightarrow> ret None
     | Some secnum \<Rightarrow> mbind (get_section ef secnum []) (\<lambda>sec. ret (Some sec))))"

text \<open>\<open>iter_sections\<close>, run to its end.\<close>

definition iter_sections :: "elffile \<Rightarrow> val option \<Rightarrow> elf_section list F" where
  "iter_sections ef ty =
     mbind (num_sections ef) (\<lambda>n.
     mbind (mmap (\<lambda>i. get_section ef i []) [0..n - 1]) (\<lambda>secs.
       ret (case ty of None \<Rightarrow> secs | Some t \<Rightarrow> filter (\<lambda>sec. sec_get sec ''sh_type'' = Ok t) secs)))"

text \<open>The same generator, left at the first section that satisfies a predicate.\<close>

function find_section_loop :: "elffile \<Rightarrow> (elf_section \<Rightarrow> bool res) \<Rightarrow> int \<Rightarrow> int \<Rightarrow> elf_section option F" where
  "find_section_loop ef P i n =
     (if i < n then
        mbind (get_section ef i []) (\<lambda>sec. mbind (lift_res (P sec)) (\<lambda>hit.
          if hit then ret (Some sec) else find_section_loop ef P (i + 1) n))
      else ret None)"
  by pat_completeness auto
termination
  by (relation "measure (\<lambda>(ef, P, i, n). nat (n - i))") auto

declare find_section_loop.simps [simp del]

definition find_section :: "elffile \<Rightarrow> (elf_section \<Rightarrow> bool res) \<Rightarrow> elf_section option F" where
  "find_section ef P = mbind (num_sections ef) (find_section_loop ef P 0)"

definition has_ehabi_info :: "elffile \<Rightarrow> bool F" where
  "has_ehabi_info ef =
     mbind (find_section ef (\<lambda>sec. rbind (sec_get sec ''sh_type'') (\<lambda>t.
       Ok (t = VLit ''SHT_ARM_EXIDX'')))) (\<lambda>r. ret (r \<noteq> None))"

definition has_dwarf_info :: "elffile \<Rightarrow> bool F" where
  "has_dwarf_info ef =
     mbind (get_section_by_name ef (lit ''.debug_info'')) (\<lambda>a. if a \<noteq> None then ret True else
     mbind (get_section_by_name ef (lit ''.zdebug_info'')) (\<lambda>b. if b \<noteq> None then ret True else
     mbind (get_section_by_name ef (lit ''.eh_frame'')) (\<lambda>c. ret (c \<noteq> None))))"

definition has_phantom_bytes :: "elffile \<Rightarrow> bool res" where
  "has_phantom_bytes ef =
     rbind (ef_get ef ''e_machine'') (\<lambda>m.
       if m = VLit ''EM_DSPIC30F''
       then rbind (ef_int ef ''e_flags'') (\<lambda>fl. Ok (fl AND 0x80000000 = 0)) else Ok False)"

section \<open>The machine's name\<close>

definition architectures :: "(string \<times> string) list" where
  "architectures =
  [(''EM_M32'', ''AT&T WE 32100''),
   (''EM_SPARC'', ''SPARC''),
   (''EM_386'', ''x86''),
   (''EM_68K'', ''Motorola 68000''),
   (''EM_88K'', ''Motorola 88000''),
   (''EM_IAMCU'', ''Intel MCU''),
   (''EM_860'', ''Intel 80860''),
   (''EM_MIPS'', ''MIPS''),
   (''EM_S370'', ''IBM System/370''),
   (''EM_MIPS_RS3_LE'', ''MIPS RS3000 Little-endian''),
   (''EM_PARISC'', ''Hewlett-Packard PA-RISC''),
   (''EM_VPP500'', ''Fujitsu VPP500''),
   (''EM_SPARC32PLUS'', ''Enhanced SPARC''),
   (''EM_960'', ''Intel 80960''),
   (''EM_PPC'', ''PowerPC''),
   (''EM_PPC64'', ''64-bit PowerPC''),
   (''EM_S390'', ''IBM S/390''),
   (''EM_SPU'', ''IBM SPU/SPC''),
   (''EM_V800'', ''NEC V800''),
   (''EM_FR20'', ''Fujitsu FR20''),
   (''EM_RH32'', ''TRW RH-32''),
   (''EM_RCE'', ''Motorola RCE''),
   (''EM_ARM'', ''ARM''),
   (''EM_ALPHA'', ''Digital Alpha''),
   (''EM_SH'', ''Hitachi SH''),
   (''EM_SPARCV9'', ''SPARC Version 9''),
   (''EM_TRICORE'', ''Siemens TriCore embedded processor''),
   (''EM_ARC'', ''Argonaut RISC Core, Argonaut Technologies Inc.''),
   (''EM_H8_300'', ''Hitachi H8/300''),
   (''EM_H8_300H'', ''Hitachi H8/300H''),
   (''EM_H8S'', ''Hitachi H8S''),
   (''EM_H8_500'', ''Hitachi H8/500''),
   (''EM_IA_64'', ''Intel IA-64''),
   (''EM_MIPS_X'', ''MIPS-X''),
   (''EM_COLDFIRE'', ''Motorola ColdFire''),
   (''EM_68HC12'', ''Motorola M68HC12''),
   (''EM_MMA'', ''Fujitsu MMA''),
   (''EM_PCP'', ''Siemens PCP''),
   (''EM_NCPU'', ''Sony nCPU''),
   (''EM_NDR1'', ''Denso NDR1''),
   (''EM_STARCORE'', ''Motorola Star*Core''),
   (''EM_ME16'', ''Toyota ME16''),
   (''EM_ST100'', ''STMicroelectronics ST100''),
   (''EM_TINYJ'', ''Advanced Logic TinyJ''),
   (''EM_X86_64'', ''x64''),
   (''EM_PDSP'', ''Sony DSP''),
   (''EM_PDP10'', ''Digital Equipment PDP-10''),
   (''EM_PDP11'', ''Digital Equipment PDP-11''),
   (''EM_FX66'', ''Siemens FX66''),
   (''EM_ST9PLUS'', ''STMicroelectronics ST9+ 8/16 bit''),
   (''EM_ST7'', ''STMicroelectronics ST7 8-bit''),
   (''EM_68HC16'', ''Motorola MC68HC16''),
   (''EM_68HC11'', ''Motorola MC68HC11''),
   (''EM_68HC08'', ''Motorola MC68HC08''),
   (''EM_68HC05'', ''Motorola MC68HC05''),
   (''EM_SVX'', ''Silicon Graphics SVx''),
   (''EM_ST19'', ''STMicroelectronics ST19 8-bit''),
   (''EM_VAX'', ''Digital VAX''),
   (''EM_CRIS'', ''Axis Communications 32-bit''),
   (''EM_JAVELIN'', ''Infineon Technologies 32-bit''),
   (''EM_FIREPATH'', ''Element 14 64-bit DSP''),
   (''EM_ZSP'', ''LSI Logic 16-bit DSP''),
   (''EM_MMIX'', ''Donald Knuth'' @ [CHR 0x27] @ ''s educational 64-bit''),
   (''EM_HUANY'', ''Harvard University machine-independent object files''),
   (''EM_PRISM'', ''SiTera Prism''),
   (''EM_AVR'', ''Atmel AVR 8-bit''),
   (''EM_FR30'', ''Fujitsu FR30''),
   (''EM_D10V'', ''Mitsubishi D10V''),
   (''EM_D30V'', ''Mitsubishi D30V''),
   (''EM_V850'', ''NEC v850''),
   (''EM_M32R'', ''Mitsubishi M32R''),
   (''EM_MN10300'', ''Matsushita MN10300''),
   (''EM_MN10200'', ''Matsushita MN10200''),
   (''EM_PJ'', ''picoJava''),
   (''EM_OPENRISC'', ''OpenRISC 32-bit''),
   (''EM_ARC_COMPACT'', ''ARC International ARCompact''),
   (''EM_XTENSA'', ''Tensilica Xtensa''),
   (''EM_VIDEOCORE'', ''Alphamosaic VideoCore''),
   (''EM_TMM_GPP'', ''Thompson Multimedia''),
   (''EM_NS32K'', ''National Semiconductor 32000 series''),
   (''EM_TPC'', ''Tenor Network TPC''),
   (''EM_SNP1K'', ''Trebia SNP 1000''),
   (''EM_ST200'', ''STMicroelectronics ST200''),
   (''EM_IP2K'', ''Ubicom IP2xxx''),
   (''EM_MAX'', ''MAX''),
   (''EM_CR'', ''National Semiconductor CompactRISC''),
   (''EM_F2MC16'', ''Fujitsu F2MC16''),
   (''EM_MSP430'', ''Texas Instruments msp430''),
   (''EM_BLACKFIN'', ''Analog Devices Blackfin''),
   (''EM_SE_C33'', ''Seiko Epson S1C33''),
   (''EM_SEP'', ''Sharp''),
   (''EM_ARCA'', ''Arca RISC''),
   (''EM_UNICORE'', ''PKU-Unity MPRC''),
   (''EM_EXCESS'', ''eXcess''),
   (''EM_DXP'', ''Icera Semiconductor Deep Execution Processor''),
   (''EM_ALTERA_NIOS2'', ''Altera Nios II''),
   (''EM_CRX'', ''National Semiconductor CompactRISC CRX''),
   (''EM_XGATE'', ''Motorola XGATE''),
   (''EM_C166'', ''Infineon C16x/XC16x''),
   (''EM_M16C'', ''Renesas M16C''),
   (''EM_DSPIC30F'', ''Microchip Technology dsPIC30F''),
   (''EM_CE'', ''Freescale Communication Engine RISC core''),
   (''EM_M32C'', ''Renesas M32C''),
   (''EM_TSK3000'', ''Altium TSK3000''),
   (''EM_RS08'', ''Freescale RS08''),
   (''EM_SHARC'', ''Analog Devices SHARC''),
   (''EM_ECOG2'', ''Cyan Technology eCOG2''),
   (''EM_SCORE7'', ''Sunplus S+core7 RISC''),
   (''EM_DSP24'', ''New Japan Radio (NJR) 24-bit DSP''),
   (''EM_VIDEOCORE3'', ''Broadcom VideoCore III''),
   (''EM_LATTICEMICO32'', ''Lattice FPGA RISC''),
   (''EM_SE_C17'', ''Seiko Epson C17''),
   (''EM_TI_C6000'', ''TI TMS320C6000''),
   (''EM_TI_C2000'', ''TI TMS320C2000''),
   (''EM_TI_C5500'', ''TI TMS320C55x''),
   (''EM_TI_ARP32'', ''TI Application Specific RISC, 32bit''),
   (''EM_TI_PRU'', ''TI Programmable Realtime Unit''),
   (''EM_MMDSP_PLUS'', ''STMicroelectronics 64bit VLIW''),
   (''EM_CYPRESS_M8C'', ''Cypress M8C''),
   (''EM_R32C'', ''Renesas R32C''),
   (''EM_TRIMEDIA'', ''NXP Semiconductors TriMedia''),
   (''EM_QDSP6'', ''QUALCOMM DSP6''),
   (''EM_8051'', ''Intel 8051''),
   (''EM_STXP7X'', ''STMicroelectronics STxP7x''),
   (''EM_NDS32'', ''Andes Technology RISC''),
   (''EM_ECOG1'', ''Cyan Technology eCOG1X''),
   (''EM_ECOG1X'', ''Cyan Technology eCOG1X''),
   (''EM_MAXQ30'', ''Dallas Semiconductor MAXQ30''),
   (''EM_XIMO16'', ''New Japan Radio (NJR) 16-bit''),
   (''EM_MANIK'', ''M2000 Reconfigurable RISC''),
   (''EM_CRAYNV2'', ''Cray Inc. NV2''),
   (''EM_RX'', ''Renesas RX''),
   (''EM_METAG'', ''Imagination Technologies META''),
   (''EM_MCST_ELBRUS'', ''MCST Elbrus''),
   (''EM_ECOG16'', ''Cyan Technology eCOG16''),
   (''EM_CR16'', ''National Semiconductor CompactRISC CR16 16-bit''),
   (''EM_ETPU'', ''Freescale''),
   (''EM_SLE9X'', ''Infineon Technologies SLE9X''),
   (''EM_L10M'', ''Intel L10M''),
   (''EM_K10M'', ''Intel K10M''),
   (''EM_AARCH64'', ''AArch64''),
   (''EM_AVR32'', ''Atmel 32-bit''),
   (''EM_STM8'', ''STMicroeletronics STM8 8-bit''),
   (''EM_TILE64'', ''Tilera TILE64''),
   (''EM_TILEPRO'', ''Tilera TILEPro''),
   (''EM_MICROBLAZE'', ''Xilinx MicroBlaze 32-bit RISC''),
   (''EM_CUDA'', ''NVIDIA CUDA''),
   (''EM_TILEGX'', ''Tilera TILE-Gx''),
   (''EM_CLOUDSHIELD'', ''CloudShield''),
   (''EM_COREA_1ST'', ''KIPO-KAIST Core-A 1st generation''),
   (''EM_COREA_2ND'', ''KIPO-KAIST Core-A 2nd generation''),
   (''EM_ARC_COMPACT2'', ''Synopsys ARCompact V2''),
   (''EM_OPEN8'', ''Open8 8-bit RISC''),
   (''EM_RL78'', ''Renesas RL78''),
   (''EM_VIDEOCORE5'', ''Broadcom VideoCore V''),
   (''EM_78KOR'', ''Renesas 78KOR''),
   (''EM_56800EX'', ''Freescale 56800EX''),
   (''EM_BA1'', ''Beyond BA1''),
   (''EM_BA2'', ''Beyond BA2''),
   (''EM_XCORE'', ''XMOS xCORE''),
   (''EM_MCHP_PIC'', ''Microchip 8-bit PIC''),
   (''EM_INTEL205'', ''Reserved by Intel''),
   (''EM_INTEL206'', ''Reserved by Intel''),
   (''EM_INTEL207'', ''Reserved by Intel''),
   (''EM_INTEL208'', ''Reserved by Intel''),
   (''EM_INTEL209'', ''Reserved by Intel''),
   (''EM_KM32'', ''KM211 KM32 32-bit''),
   (''EM_KMX32'', ''KM211 KMX32 32-bit''),
   (''EM_KMX16'', ''KM211 KMX16 16-bit''),
   (''EM_KMX8'', ''KM211 KMX8 8-bit''),
   (''EM_KVARC'', ''KM211 KVARC''),
   (''EM_CDP'', ''Paneve CDP''),
   (''EM_COGE'', ''Cognitive''),
   (''EM_COOL'', ''Bluechip Systems CoolEngine''),
   (''EM_NORC'', ''Nanoradio Optimized RISC''),
   (''EM_CSR_KALIMBA'', ''CSR Kalimba''),
   (''EM_Z80'', ''Zilog Z80''),
   (''EM_VISIUM'', ''VISIUMcore''),
   (''EM_FT32'', ''FTDI Chip FT32 32-bit RISC''),
   (''EM_MOXIE'', ''Moxie''),
   (''EM_AMDGPU'', ''AMD GPU''),
   (''EM_RISCV'', ''RISC-V''),
   (''EM_BPF'', ''Linux BPF - in-kernel virtual machine''),
   (''EM_CSKY'', ''C-SKY''),
   (''EM_LOONGARCH'', ''LoongArch''),
   (''EM_FRV'', ''Fujitsu FR-V'')]"

definition get_machine_arch :: "elffile \<Rightarrow> pystr res" where
  "get_machine_arch ef = rbind (ef_get ef ''e_machine'') (\<lambda>m.
     if \<not> hashable m then Err TypeError
     else Ok (case find (\<lambda>(k, v). m = VLit k) architectures of
       Some (k, v) \<Rightarrow> lit v | None \<Rightarrow> lit ''<unknown>''))"

section \<open>Segments\<close>

datatype segkind = PlainSegment | InterpSegment | DynamicSegment | NoteSegment

text \<open>A segment object; a dynamic segment keeps the string table its constructor found.\<close>

datatype elf_segment = Segment (g_kind: segkind) (g_header: val) (g_strtab: "elf_section option")

definition seg_get :: "elf_segment \<Rightarrow> string \<Rightarrow> val res" where
  "seg_get seg k = get_item (g_header seg) k"

definition seg_int :: "elf_segment \<Rightarrow> string \<Rightarrow> int res" where
  "seg_int seg k = get_int (g_header seg) k"

text \<open>
  \<open>DynamicSegment.__init__\<close>: the string table is that of the dynamic section at the segment's
  offset, if there is one.
\<close>

definition DynamicSegment_init :: "elffile \<Rightarrow> val \<Rightarrow> elf_segment F" where
  "DynamicSegment_init ef h =
     mbind (find_section ef (\<lambda>sec.
        if s_kind sec = DynamicSection then
          rbind (sec_get sec ''sh_offset'') (\<lambda>o1. rbind (get_item h ''p_offset'') (\<lambda>o2. Ok (o1 = o2)))
        else Ok False)) (\<lambda>r.
     mbind (case r of None \<Rightarrow> ret None
       | Some sec \<Rightarrow> mbind (lift_res (sec_int sec ''sh_link'')) (\<lambda>l.
           mbind (get_section ef l []) (\<lambda>tab. ret (Some tab)))) (\<lambda>tab.
       ret (Segment DynamicSegment h tab)))"

definition make_segment :: "elffile \<Rightarrow> val \<Rightarrow> elf_segment F" where
  "make_segment ef h =
     mbind (lift_res (get_item h ''p_type'')) (\<lambda>ty.
       if ty = VLit ''PT_INTERP'' then ret (Segment InterpSegment h None)
       else if ty = VLit ''PT_DYNAMIC'' then DynamicSegment_init ef h
       else if ty = VLit ''PT_NOTE'' then ret (Segment NoteSegment h None)
       else ret (Segment PlainSegment h None))"

definition get_segment :: "elffile \<Rightarrow> int \<Rightarrow> elf_segment F" where
  "get_segment ef n = mbind (get_segment_header ef n) (make_segment ef)"

definition num_segments :: "elffile \<Rightarrow> int F" where
  "num_segments ef =
     mbind (lift_res (ef_int ef ''e_phnum'')) (\<lambda>n.
       if n < 0xffff then ret n
       else mbind (get_section ef 0 []) (\<lambda>sec. lift_res (sec_int sec ''sh_info'')))"

text \<open>\<open>iter_segments\<close>, run to its end.\<close>

definition iter_segments :: "elffile \<Rightarrow> val option \<Rightarrow> elf_segment list F" where
  "iter_segments ef ty =
     mbind (num_segments ef) (\<lambda>n.
     mbind (mmap (get_segment ef) [0..n - 1]) (\<lambda>segs.
       ret (case ty of None \<Rightarrow> segs | Some t \<Rightarrow> filter (\<lambda>g. seg_get g ''p_type'' = Ok t) segs)))"

text \<open>
  \<open>address_offsets\<close>, run to its end: the file offset of a region in each segment that holds all
  of it.
\<close>

definition region_offset :: "int \<Rightarrow> int \<Rightarrow> elf_segment \<Rightarrow> int list res" where
  "region_offset start sz seg =
     rbind (seg_int seg ''p_vaddr'') (\<lambda>vaddr.
     rbind (seg_int seg ''p_filesz'') (\<lambda>filesz.
     rbind (seg_int seg ''p_offset'') (\<lambda>off.
       Ok (if start \<ge> vaddr \<and> start + sz \<le> vaddr + filesz then [start - vaddr + off] else []))))"

definition address_offsets :: "elffile \<Rightarrow> int \<Rightarrow> int \<Rightarrow> int list F" where
  "address_offsets ef start sz =
     mbind (iter_segments ef (Some (VLit ''PT_LOAD''))) (\<lambda>segs.
     mbind (lift_res (rmap (region_offset start sz) segs)) (\<lambda>offs. ret (concat offs)))"

section \<open>Segments alone (segments.py)\<close>

definition segment_data :: "elf_segment \<Rightarrow> bytes F" where
  "segment_data seg =
     mbind (lift_res (seg_int seg ''p_offset'')) (\<lambda>off.
     mbind (on_file (s_seek off)) (\<lambda>_.
     mbind (lift_res (seg_int seg ''p_filesz'')) (\<lambda>n. on_file (s_read n))))"

definition get_interp_name :: "elf_segment \<Rightarrow> val F" where
  "get_interp_name seg =
     mbind (lift_res (seg_int seg ''p_offset'')) (\<lambda>off.
       on_file (struct_parse (CString '''' (Some Utf8)) (Some off)))"

text \<open>
  \<open>section_in_segment\<close> as a function of the fields it reads, in the order of the source's
  conditions.
\<close>

definition in_bounds :: "int \<Rightarrow> int \<Rightarrow> int \<Rightarrow> int \<Rightarrow> bool" where
  "in_bounds pos sz base extent \<longleftrightarrow>
     pos \<ge> base \<and> pos - base + sz \<le> extent \<and> (extent = 0 \<or> pos - base \<le> extent - 1)"

definition section_in_segment_fields ::
  "val \<Rightarrow> int \<Rightarrow> int \<Rightarrow> int \<Rightarrow> int \<Rightarrow> val \<Rightarrow> int \<Rightarrow> int \<Rightarrow> int \<Rightarrow> int \<Rightarrow> bool" where
  "section_in_segment_fields segtype p_vaddr p_memsz p_offset p_filesz
       sectype secflags sh_addr sh_offset sh_size =
     (if \<not> (secflags AND SHF_TLS \<noteq> 0 \<and> segtype \<in> {VLit ''PT_TLS'', VLit ''PT_GNU_RELRO'', VLit ''PT_LOAD''})
         \<and> \<not> (secflags AND SHF_TLS = 0 \<and> segtype \<notin> {VLit ''PT_TLS'', VLit ''PT_PHDR''}) then False
      else if secflags AND SHF_ALLOC = 0 \<and> segtype \<in> {VLit ''PT_LOAD'', VLit ''PT_DYNAMIC'',
           VLit ''PT_GNU_EH_FRAME'', VLit ''PT_GNU_RELRO'', VLit ''PT_GNU_STACK''} then False
      else if secflags AND SHF_ALLOC \<noteq> 0 \<and> \<not> in_bounds sh_addr sh_size p_vaddr p_memsz then False
      else if sectype = VLit ''SHT_NOBITS'' then True
      else in_bounds sh_offset sh_size p_offset p_filesz)"

definition section_in_segment :: "elf_segment \<Rightarrow> elf_section \<Rightarrow> bool res" where
  "section_in_segment seg sec =
     rbind (seg_get seg ''p_type'') (\<lambda>segtype. rbind (sec_get sec ''sh_type'') (\<lambda>sectype.
     rbind (sec_int sec ''sh_flags'') (\<lambda>secflags. rbind (sec_int sec ''sh_addr'') (\<lambda>addr.
     rbind (seg_int seg ''p_vaddr'') (\<lambda>vaddr. rbind (sec_int sec ''sh_size'') (\<lambda>size.
     rbind (seg_int seg ''p_memsz'') (\<lambda>memsz. rbind (sec_int sec ''sh_offset'') (\<lambda>off.
     rbind (seg_int seg ''p_offset'') (\<lambda>poff. rbind (seg_int seg ''p_filesz'') (\<lambda>filesz.
       Ok (section_in_segment_fields segtype vaddr memsz poff filesz sectype secflags addr off size)))))))))))"

end
