(* ===== verification/GnuVersions.thy ===== *)
theory GnuVersions
  imports ElfFile
begin

text \<open>
  \<^verbatim>\<open>elftools/elf/gnuversions.py\<close>: the version definition and version dependency sections, and the
  version symbol table.  \<open>iter_versions\<close> and \<open>_iter_version_auxiliaries\<close> are generators; the code
  that consumes them runs between two steps.  They are modelled as loops that run a body on
  every item, in a state that pairs the open file with whatever the body keeps (\<open>'w\<close>); the
  body says with \<open>Some r\<close> that the loop is left with \<open>r\<close>.
\<close>

section \<open>Generators as loops\<close>

type_synonym ('w, 'a) G = "(fstate \<times> 'w, 'a) M"

definition in_file :: "'a F \<Rightarrow> ('w, 'a) G" where
  "in_file m = (\<lambda>(s, w). case m s of (r, s') \<Rightarrow> (r, (s', w)))"

record version_aux =
  va_entry :: val
  va_name :: pystr

record version =
  ver_entry :: val
  ver_name :: "pystr option"

text \<open>What the constructors of the two section classes fix: the prefix of the field names, the
  formats of the entries.\<close>

record gnuver =
  gv_sec :: elf_section
  gv_prefix :: string
  gv_struct :: con
  gv_aux_struct :: con

definition gnuver_of :: "elf_structs \<Rightarrow> elf_section \<Rightarrow> gnuver res" where
  "gnuver_of st sec = (case s_kind sec of
     GNUVerNeedSection \<Rightarrow> Ok \<lparr>gv_sec = sec, gv_prefix = ''vn'', gv_struct = Elf_Verneed st,
       gv_aux_struct = Elf_Vernaux st\<rparr>
   | GNUVerDefSection \<Rightarrow> Ok \<lparr>gv_sec = sec, gv_prefix = ''vd'', gv_struct = Elf_Verdef st,
       gv_aux_struct = Elf_Verdaux st\<rparr>
   | _ \<Rightarrow> Err AttributeError)"

definition num_versions :: "gnuver \<Rightarrow> int res" where
  "num_versions gv = sec_int (gv_sec gv) ''sh_info''"

definition field_name :: "gnuver \<Rightarrow> string \<Rightarrow> bool \<Rightarrow> string" where
  "field_name gv name auxiliary = gv_prefix gv @ (if auxiliary then ''a_'' else ''_'') @ name"

section \<open>The two generators\<close>

text \<open>One step of \<open>_iter_version_auxiliaries\<close>, up to the yield.\<close>

definition read_auxiliary :: "gnuver \<Rightarrow> int \<Rightarrow> version_aux F" where
  "read_auxiliary gv pos =
     mbind (on_file (struct_parse (gv_aux_struct gv) (Some pos))) (\<lambda>entry.
     mbind (lift_res (linked (gv_sec gv))) (\<lambda>strtab.
     mbind (lift_res (get_int entry (field_name gv ''name'' True))) (\<lambda>nm.
     mbind (get_string strtab nm) (\<lambda>name.
       ret \<lparr>va_entry = entry, va_name = name\<rparr>))))"

primrec for_auxiliaries ::
  "nat \<Rightarrow> gnuver \<Rightarrow> int \<Rightarrow> (version_aux \<Rightarrow> ('w, 'r option) G) \<Rightarrow> ('w, 'r option) G" where
  "for_auxiliaries 0 gv pos body = ret None"
| "for_auxiliaries (Suc k) gv pos body =
     mbind (in_file (read_auxiliary gv pos)) (\<lambda>aux.
     mbind (body aux) (\<lambda>r. (case r of
         Some x \<Rightarrow> ret (Some x)
       | None \<Rightarrow>
           mbind (lift_res (get_int (va_entry aux) (field_name gv ''next'' True))) (\<lambda>nxt.
             for_auxiliaries k gv (pos + nxt) body))))"

text \<open>
  One step of \<open>iter_versions\<close>, up to the yield; the auxiliary iterator is what the body makes of
  the offset and the count.  A dependency entry also gets its file name.
\<close>

definition read_version :: "gnuver \<Rightarrow> int \<Rightarrow> (version \<times> int \<times> nat) F" where
  "read_version gv pos =
     mbind (on_file (struct_parse (gv_struct gv) (Some pos))) (\<lambda>entry.
     mbind (lift_res (get_int entry (field_name gv ''cnt'' False))) (\<lambda>cnt.
     mbind (elf_assert (cnt > 0)) (\<lambda>_.
     mbind (lift_res (get_int entry (field_name gv ''aux'' False))) (\<lambda>aux.
     mbind (if s_kind (gv_sec gv) = GNUVerNeedSection then
              mbind (lift_res (linked (gv_sec gv))) (\<lambda>strtab.
              mbind (lift_res (get_int entry ''vn_file'')) (\<lambda>f.
              mbind (get_string strtab f) (\<lambda>name. ret (Some name))))
            else ret None) (\<lambda>name.
       ret (\<lparr>ver_entry = entry, ver_name = name\<rparr>, pos + aux, nat cnt))))))"

primrec for_versions_from ::
  "nat \<Rightarrow> gnuver \<Rightarrow> int \<Rightarrow> (version \<Rightarrow> int \<Rightarrow> nat \<Rightarrow> ('w, 'r option) G) \<Rightarrow> ('w, 'r option) G" where
  "for_versions_from 0 gv pos body = ret None"
| "for_versions_from (Suc k) gv pos body =
     mbind (in_file (read_version gv pos)) (\<lambda>(ver, aux_offset, cnt).
     mbind (body ver aux_offset cnt) (\<lambda>r. (case r of
         Some x \<Rightarrow> ret (Some x)
       | None \<Rightarrow>
           mbind (lift_res (get_int (ver_entry ver) (field_name gv ''next'' False))) (\<lambda>nxt.
             for_versions_from k gv (pos + nxt) body))))"

definition for_versions ::
  "gnuver \<Rightarrow> (version \<Rightarrow> int \<Rightarrow> nat \<Rightarrow> ('w, 'r option) G) \<Rightarrow> ('w, 'r option) G" where
  "for_versions gv body =
     mbind (lift_res (sec_int (gv_sec gv) ''sh_offset'')) (\<lambda>off.
     mbind (lift_res (num_versions gv)) (\<lambda>n. for_versions_from (nat n) gv off body))"

text \<open>Both generators run to their ends.\<close>

definition collect :: "'a \<Rightarrow> ('a list, 'r option) G" where
  "collect a = (\<lambda>(s, acc). (Ok None, (s, acc @ [a])))"

definition iter_version_auxiliaries :: "gnuver \<Rightarrow> int \<Rightarrow> nat \<Rightarrow> version_aux list F" where
  "iter_version_auxiliaries gv off cnt = (\<lambda>s.
     case (for_auxiliaries cnt gv off collect :: (version_aux list, unit option) G) (s, []) of
       (r, (s', acc)) \<Rightarrow> ((case r of Ok _ \<Rightarrow> Ok acc | Err e \<Rightarrow> Err e | NoFuel \<Rightarrow> NoFuel), s'))"

section \<open>Queries\<close>

text \<open>
  \<open>has_indexes\<close>: the answer is cached in the object (the argument and result here); as soon as
  the search starts the cache says no.  An entry with an index ends only the inner loop.
\<close>

definition has_indexes :: "gnuver \<Rightarrow> (bool option, bool) G" where
  "has_indexes gv = (\<lambda>(s, cache).
     case cache of
       Some b \<Rightarrow> (Ok b, (s, cache))
     | None \<Rightarrow>
         mbind (for_versions gv (\<lambda>ver off cnt.
             mbind (for_auxiliaries cnt gv off (\<lambda>aux.
               mbind (lift_res (get_int (va_entry aux) ''vna_other'')) (\<lambda>i.
                 if i \<noteq> 0 then (\<lambda>(t, c). (Ok (Some ()), (t, Some True))) else ret None))) (\<lambda>r.
               ret (None :: unit option))))
           (\<lambda>_ (t, c). (Ok (c = Some True), (t, c))) (s, Some False))"

definition verneed_get_version :: "gnuver \<Rightarrow> int \<Rightarrow> (unit, (version \<times> version_aux) option) G" where
  "verneed_get_version gv index =
     for_versions gv (\<lambda>ver off cnt. for_auxiliaries cnt gv off (\<lambda>aux.
       mbind (lift_res (get_item (va_entry aux) ''vna_other'')) (\<lambda>i.
         ret (if py_eq i (VInt index) then Some (ver, aux) else None))))"

text \<open>The second component is the iterator: where the auxiliaries start, and how many.\<close>

definition verdef_get_version :: "gnuver \<Rightarrow> int \<Rightarrow> (unit, (version \<times> int \<times> nat) option) G" where
  "verdef_get_version gv index =
     for_versions gv (\<lambda>ver off cnt.
       mbind (lift_res (get_item (ver_entry ver) ''vd_ndx'')) (\<lambda>i.
         ret (if py_eq i (VInt index) then Some (ver, off, cnt) else None)))"

section \<open>Version symbols\<close>

text \<open>
  The linked section must be one with a \<open>get_symbol\<close> of an index; it may be a version symbol
  table again.  (The hash sections' \<open>get_symbol\<close> takes a name, and raises for a number.)
\<close>

fun versym_get_symbol :: "elf_structs \<Rightarrow> elf_section \<Rightarrow> int \<Rightarrow> symbol F" where
  "versym_get_symbol st (Section kind h name chdr link x) n =
     mbind (lift_res (entry_offset (Section kind h name chdr link x) n)) (\<lambda>off.
     mbind (on_file (struct_parse (Elf_Versym st) (Some off))) (\<lambda>entry.
     mbind (case link of
         None \<Rightarrow> raise AttributeError
       | Some symtab \<Rightarrow> (case s_kind symtab of
             SymbolTableSection \<Rightarrow> get_symbol st symtab n
           | SUNWSyminfoTableSection \<Rightarrow> syminfo_get_symbol st symtab n
           | GNUVerSymSection \<Rightarrow> versym_get_symbol st symtab n
           | _ \<Rightarrow> raise AttributeError)) (\<lambda>sy.
       ret \<lparr>sym_entry = entry, sym_name = sym_name sy\<rparr>)))"

definition versym_iter_symbols :: "elf_structs \<Rightarrow> elf_section \<Rightarrow> symbol list F" where
  "versym_iter_symbols st sec =
     mbind (lift_res (num_symbols sec)) (\<lambda>n. mmap (versym_get_symbol st sec) [0..n - 1])"

end
