(* ===== verification/AuditLib.thy ===== *)
theory AuditLib
  imports GnuVersions
begin

text \<open>
  \<^verbatim>\<open>pyaudit/audit_libstdcxx.py\<close>: the audit hook that makes sure the newest \<^verbatim>\<open>libstdc++.so.6\<close> is the
  one that gets loaded.  What the module does to the process is the record \<open>world\<close>: its two
  globals, the libraries it loaded, the registered hooks, the text written to \<^verbatim>\<open>stderr\<close>.  What it
  asks of the operating system (\<^verbatim>\<open>platform\<close>, \<^verbatim>\<open>os.path\<close>, \<^verbatim>\<open>open\<close>, \<^verbatim>\<open>ctypes\<close>, \<^verbatim>\<open>subprocess\<close>) is the
  record \<open>env\<close>, a parameter of every definition that uses it.
\<close>

section \<open>Version numbers\<close>

text \<open>
  \<^verbatim>\<open>re.fullmatch(r"(\d+)(?:\.(\d+))?(?:\.(\d+))?", v)\<close>: the runs of digits between dots, at
  least one and at most three, none empty.
\<close>

fun split_dots :: "pystr \<Rightarrow> pystr list" where
  "split_dots [] = [[]]"
| "split_dots (c # cs) = (if c = 46 then [] # split_dots cs else
     (case split_dots cs of [] \<Rightarrow> [[c]] | p # ps \<Rightarrow> (c # p) # ps))"

definition match_version :: "pystr \<Rightarrow> pystr list option" where
  "match_version v = (let ps = split_dots v in
     if length ps \<le> 3 \<and> list_all (\<lambda>p. p \<noteq> [] \<and> list_all is_digit p) ps then Some ps else None)"

type_synonym ver = "int \<times> int \<times> int"

text \<open>The warning of a name that does not match; only its first part is an f-string, so the
  placeholders of the last line are printed as they stand.\<close>

definition version_warning :: "pystr \<Rightarrow> pystr" where
  "version_warning v = lit ''audit_libstdcxx WARNING! Invalid ELF GLIBCXX version '' @ v @ [10] @
     lit ''Runtime link errors may occur'' @ [10] @
     lit ''Warning thrown from {__file__} at {__line__}''"

definition parse_version :: "pystr \<Rightarrow> (pystr list, ver) M" where
  "parse_version v = (case match_version v of
     None \<Rightarrow> (\<lambda>err. (Ok (0, 0, 0), err @ [version_warning v]))
   | Some groups \<Rightarrow>
       mbind (lift_res (rmap py_int_of_digits groups)) (\<lambda>ns. (case ns of
           [a] \<Rightarrow> ret (a, 0, 0)
         | [a, b] \<Rightarrow> ret (a, b, 0)
         | a # b # c # _ \<Rightarrow> ret (a, b, c)
         | [] \<Rightarrow> raise IndexError)))"

text \<open>\<^verbatim>\<open><\<close> on tuples.\<close>

fun ver_less :: "ver \<Rightarrow> ver \<Rightarrow> bool" where
  "ver_less (a, b, c) (a', b', c') \<longleftrightarrow> a < a' \<or> a = a' \<and> (b < b' \<or> b = b' \<and> c < c')"

section \<open>The newest GLIBCXX version of a library\<close>

text \<open>What the inner loop's body does with one auxiliary: keep the maximum.\<close>

type_synonym scan = "ver \<times> pystr list"

definition glibcxx :: pystr where "glibcxx = lit ''GLIBCXX_''"

definition version_step :: "pystr \<Rightarrow> scan \<Rightarrow> unit res \<times> scan" where
  "version_step version_name = (\<lambda>(max_ver, err).
     if occurs_in glibcxx version_name then
       (case parse_version (drop (length glibcxx) version_name) err of (r, err') \<Rightarrow>
         (case r of
            Ok ver \<Rightarrow> (Ok (), (if ver_less max_ver ver then ver else max_ver, err'))
          | Err e \<Rightarrow> (Err e, (max_ver, err'))
          | NoFuel \<Rightarrow> (NoFuel, (max_ver, err'))))
     else (Ok (), (max_ver, err)))"

definition in_scan :: "('w, 'a) M \<Rightarrow> ('w, 'a) G" where
  "in_scan m = (\<lambda>(s, w). case m w of (r, w') \<Rightarrow> (r, (s, w')))"

definition scan_versions :: "gnuver \<Rightarrow> (scan, unit option) G" where
  "scan_versions gv = for_versions gv (\<lambda>version off cnt.
     for_auxiliaries cnt gv off (\<lambda>aux.
       mbind (in_scan (version_step (va_name aux))) (\<lambda>_. ret None)))"

definition version_d_name :: pystr where "version_d_name = lit ''.gnu.version_d''"

text \<open>The work on the contents of the file; the state is what is written to \<^verbatim>\<open>stderr\<close>.\<close>

definition glibcxx_of_contents :: "bytes \<Rightarrow> (pystr list, ver) M" where
  "glibcxx_of_contents data = (\<lambda>err.
     case mbind (in_file ELFFile_init) (\<lambda>elffile.
          mbind (in_file (get_section_by_name elffile version_d_name)) (\<lambda>sec. (case sec of
              None \<Rightarrow> raise ValueError
            | Some version_d_section \<Rightarrow>
                mbind (lift_res (gnuver_of (ef_structs elffile) version_d_section)) scan_versions)))
        (\<lparr>f_stream = bytesio data, f_names = None\<rparr>, ((0, 0, 0), err))
     of (r, (_, (max_ver, err'))) \<Rightarrow>
       ((case r of Ok _ \<Rightarrow> Ok max_ver | Err e \<Rightarrow> Err e | NoFuel \<Rightarrow> NoFuel), err'))"

section \<open>The environment and the process\<close>

text \<open>
  Libraries are handles (\<open>nat\<close>).  \<open>cdll_noload\<close> is \<^verbatim>\<open>ctypes.CDLL(name, mode=os.RTLD_NOLOAD)\<close>, which loads nothing;
  \<open>cdll\<close> is \<^verbatim>\<open>ctypes.CDLL(name)\<close>, where no name (\<open>None\<close>) is the program itself.  \<open>dlinfo\<close> is the call of the
  function of this name in a library that was loaded (the first handle; it raises \<open>AttributeError\<close> when there is no
  such function) for another library (the second): the name in the link map it yields, which may be missing, or
  nothing when it leaves the pointer to the map as it was.  \<open>run_self\<close> is the standard output of
  \<^verbatim>\<open>subprocess.run([sys.executable, __file__])\<close> in a given environment, \<open>ldd\<close> that of
  \<^verbatim>\<open>subprocess.check_output(["ldd", lib_path])\<close>.
\<close>

record env =
  platform_system :: pystr
  find_library_stdcxx :: "pystr option"
  find_library_dl :: "pystr option"
  cdll_noload :: "pystr option \<Rightarrow> nat res"
  dlinfo :: "nat \<Rightarrow> nat \<Rightarrow> bytes option option res"
  os_environ :: "(pystr \<times> pystr) list"
  run_self :: "(pystr \<times> pystr) list \<Rightarrow> pystr res"
  isfile :: "pystr \<Rightarrow> bool"
  path_exists :: "pystr \<Rightarrow> bool"
  file_contents :: "pystr \<Rightarrow> bytes res"
  cdll :: "pystr option \<Rightarrow> nat res"
  ldd :: "pystr \<Rightarrow> pystr res"

record world =
  global_libstdcxx_path :: "pystr option"
  global_disable_audit_hook :: bool
  loaded :: "pystr list"
  hooks :: nat
  stderr :: "pystr list"

type_synonym 'a W = "(world, 'a) M"

definition warn :: "pystr \<Rightarrow> unit W" where
  "warn msg = (\<lambda>w. (Ok (), w\<lparr>stderr := stderr w @ [msg]\<rparr>))"

definition on_stderr :: "(pystr list, 'a) M \<Rightarrow> 'a W" where
  "on_stderr m = (\<lambda>w. case m (stderr w) of (r, e) \<Rightarrow> (r, w\<lparr>stderr := e\<rparr>))"

definition linux :: pystr where "linux = lit ''Linux''"

definition get_glibcxx_versions_from_gnu_version_d :: "env \<Rightarrow> pystr \<Rightarrow> ver W" where
  "get_glibcxx_versions_from_gnu_version_d env elf_path =
     mbind (lift_res (file_contents env elf_path)) (\<lambda>data. on_stderr (glibcxx_of_contents data))"

text \<open>Having a library loaded by its name; it stays loaded.  \<open>loaded\<close> lists what was loaded so, in order.\<close>

definition load_library :: "env \<Rightarrow> pystr option \<Rightarrow> nat W" where
  "load_library env name = (\<lambda>w. case cdll env name of
     Ok h \<Rightarrow> (Ok h, w\<lparr>loaded := loaded w @ (case name of None \<Rightarrow> [] | Some p \<Rightarrow> [p])\<rparr>) | r \<Rightarrow> (r, w))"

section \<open>Finding the system's library\<close>

text \<open>\<^verbatim>\<open>str.splitlines()[0].strip()\<close> of a nonempty string.\<close>

definition is_line_sep :: "int \<Rightarrow> bool" where
  "is_line_sep c \<longleftrightarrow> c \<in> {10, 11, 12, 13, 28, 29, 30, 0x85, 0x2028, 0x2029}"

definition is_space :: "int \<Rightarrow> bool" where
  "is_space c \<longleftrightarrow> c \<in> {9, 10, 11, 12, 13, 28, 29, 30, 31, 32, 0x85, 0xa0, 0x1680, 0x2028, 0x2029,
     0x202f, 0x205f, 0x3000} \<or> 0x2000 \<le> c \<and> c \<le> 0x200a"

definition strip :: "pystr \<Rightarrow> pystr" where
  "strip s = rev (dropWhile is_space (rev (dropWhile is_space s)))"

definition first_line :: "pystr \<Rightarrow> pystr" where
  "first_line s = takeWhile (\<lambda>c. \<not> is_line_sep c) s"

definition pythonpath :: pystr where "pythonpath = lit ''PYTHONPATH''"

text \<open>The path of a library, asked of the dynamic linker: for that \<^verbatim>\<open>libdl\<close> is loaded.\<close>

definition get_cdll_library_path :: "env \<Rightarrow> nat \<Rightarrow> pystr W" where
  "get_cdll_library_path env cdll_handle =
     mbind (load_library env (find_library_dl env)) (\<lambda>libdl.
     mbind (lift_res (dlinfo env libdl cdll_handle)) (\<lambda>lmptr. (case lmptr of
         None \<Rightarrow> raise ValueError
       | Some None \<Rightarrow> raise AttributeError
       | Some (Some l_name) \<Rightarrow> lift_res (decode_utf8 l_name))))"

text \<open>This script run in a process of its own.\<close>

definition ask_subprocess :: "env \<Rightarrow> pystr option res" where
  "ask_subprocess env =
     rbind (run_self env (AList.delete pythonpath (os_environ env))) (\<lambda>out.
       Ok (if out = [] then None else Some (strip (first_line out))))"

text \<open>
  Whether the library is loaded already, and where it is: asked of the loaded library, or, when
  that fails with an \<open>OSError\<close>, of the subprocess.
\<close>

definition find_system_libstdcxx :: "env \<Rightarrow> (bool \<times> pystr option) W" where
  "find_system_libstdcxx env =
     (let ask = \<lambda>already_loaded.
        mbind (lift_res (ask_subprocess env)) (\<lambda>system_libstdcxx. ret (already_loaded, system_libstdcxx)) in
      case cdll_noload env (find_library_stdcxx env) of
        Ok handle \<Rightarrow>
          try_except (mbind (get_cdll_library_path env handle) (\<lambda>p. ret (True, Some p)))
            (\<lambda>e. e = OSError) (\<lambda>_. ask True)
      | Err e \<Rightarrow> if e = OSError then ask False else raise e
      | NoFuel \<Rightarrow> lift_res NoFuel)"

text \<open>The script itself: the path that it prints, of the library that it loads.\<close>

definition script_main :: "env \<Rightarrow> pystr W" where
  "script_main env =
     (if platform_system env \<noteq> linux then raise RuntimeError
      else try_except (mbind (load_library env (find_library_stdcxx env)) (get_cdll_library_path env))
        (\<lambda>e. e = OSError) (\<lambda>_. raise RuntimeError))"

section \<open>Loading the newer library\<close>

text \<open>\<^verbatim>\<open>f"{x}"\<close> of a path that may be \<^verbatim>\<open>None\<close>.\<close>

definition show_path :: "pystr option \<Rightarrow> pystr" where
  "show_path p = (case p of None \<Rightarrow> lit ''None'' | Some s \<Rightarrow> s)"

definition thrown_from :: pystr where
  "thrown_from = lit ''Warning thrown from {__file__} at {__line__}''"

definition retrieve_warning :: "pystr \<Rightarrow> pystr \<Rightarrow> pystr" where
  "retrieve_warning system shipped =
     lit ''audit_libstdcxx WARNING! Failed to retrieve GLIBCXX version from '' @ system @
     lit '' or '' @ shipped @ [10] @ lit ''With OSError exception {e}'' @ [10] @
     lit ''Runtime link errors may occur'' @ [10] @ thrown_from"

definition already_loaded_warning :: pystr where
  "already_loaded_warning =
     lit ''audit_libstdcxx WARNING! Something (perhaps another sitecustomize.py) loaded an incompatible libstdc++.so.6 before this audit_libstdcxx.'' @ [10] @
     lit ''This may cause compatibility issues and runtime linking errors.'' @ [10] @
     lit ''Please examine your system to find how an upstream python module could have loaded libstdc++.so.6'' @ [10] @
     thrown_from"

definition load_warning :: "pystr \<Rightarrow> pystr" where
  "load_warning path =
     lit ''audit_libstdcxx WARNING! Failed to load shared library at '' @ path @ [10] @
     lit ''With OSError exception {e}'' @ [10] @ lit ''Runtime link errors may occur'' @ [10] @
     thrown_from"

definition shipped_path_warning :: "pystr option \<Rightarrow> pystr" where
  "shipped_path_warning p =
     lit ''audit_libstdcxx WARNING! The path to shipped libstdc++.so.6 is invalid: '' @ show_path p @
     [10] @ thrown_from"

definition system_path_warning :: "pystr option \<Rightarrow> pystr" where
  "system_path_warning p =
     lit ''audit_libstdcxx WARNING! The path to system libstdc++.so.6 is invalid: '' @ show_path p @
     [10] @ thrown_from"

definition valid_path :: "env \<Rightarrow> pystr option \<Rightarrow> bool" where
  "valid_path env p = (case p of None \<Rightarrow> False | Some s \<Rightarrow> isfile env s)"

definition compare_and_load :: "env \<Rightarrow> bool \<Rightarrow> pystr \<Rightarrow> pystr \<Rightarrow> unit W" where
  "compare_and_load env already_loaded system shipped =
     mbind (try_except
         (mbind (get_glibcxx_versions_from_gnu_version_d env system) (\<lambda>system_version.
          mbind (get_glibcxx_versions_from_gnu_version_d env shipped) (\<lambda>shipped_version.
            ret (Some (system_version, shipped_version)))))
         is_ValueError (\<lambda>_. mbind (warn (retrieve_warning system shipped)) (\<lambda>_. ret None)))
     (\<lambda>r. (case r of
         None \<Rightarrow> ret ()
       | Some (system_version, shipped_version) \<Rightarrow>
           (if ver_less system_version shipped_version then
              (if already_loaded then warn already_loaded_warning
               else try_except (mbind (load_library env (Some shipped)) (\<lambda>_. ret ()))
                      (\<lambda>e. e = OSError) (\<lambda>_. warn (load_warning shipped)))
            else ret ())))"

definition check_and_load_compatible_libstdcxx_version :: "env \<Rightarrow> unit W" where
  "check_and_load_compatible_libstdcxx_version env =
     (if platform_system env \<noteq> linux then ret ()
      else mbind (find_system_libstdcxx env) (\<lambda>(already_loaded, system_libstdcxx).
        mbind (\<lambda>w. (Ok (global_libstdcxx_path w), w)) (\<lambda>libstdcxx_path.
          (case (libstdcxx_path, system_libstdcxx) of
             (Some shipped, Some system) \<Rightarrow>
               if isfile env shipped \<and> isfile env system
               then compare_and_load env already_loaded system shipped
               else
                 mbind (if valid_path env libstdcxx_path then ret ()
                        else warn (shipped_path_warning libstdcxx_path)) (\<lambda>_.
                   if valid_path env system_libstdcxx then ret ()
                   else warn (system_path_warning system_libstdcxx))
           | _ \<Rightarrow>
               mbind (if valid_path env libstdcxx_path then ret ()
                      else warn (shipped_path_warning libstdcxx_path)) (\<lambda>_.
                 if valid_path env system_libstdcxx then ret ()
                 else warn (system_path_warning system_libstdcxx))))))"

section \<open>The audit hook\<close>

definition libstdcxx_name :: pystr where "libstdcxx_name = lit ''libstdc++.so.6''"

definition basename :: "pystr \<Rightarrow> pystr" where
  "basename p = rev (takeWhile (\<lambda>c. c \<noteq> 47) (rev p))"

definition ldd_warning :: "pystr \<Rightarrow> pystr" where
  "ldd_warning lib_path =
     lit ''audit_libstdcxx WARNING!: Error running ldd on '' @ lib_path @ [10] @
     lit ''With Exception {e}'' @ [10] @ thrown_from"

definition disable_hook :: "unit W" where
  "disable_hook = (\<lambda>w. (Ok (), w\<lparr>global_disable_audit_hook := True\<rparr>))"

lemma basename_libstdcxx [simp]: "basename libstdcxx_name = libstdcxx_name"
  by (simp add: basename_def libstdcxx_name_def lit_def)

function check_shared_lib_dependencies :: "env \<Rightarrow> pystr \<Rightarrow> unit W" where
  "check_shared_lib_dependencies env lib_path =
     (if basename lib_path = libstdcxx_name then
        mbind disable_hook (\<lambda>_. check_and_load_compatible_libstdcxx_version env)
      else if \<not> path_exists env lib_path then ret ()
      else (case ldd env lib_path of
          Ok out \<Rightarrow>
            if occurs_in libstdcxx_name out then check_shared_lib_dependencies env libstdcxx_name
            else ret ()
        | Err e \<Rightarrow> warn (ldd_warning lib_path)
        | NoFuel \<Rightarrow> lift_res NoFuel))"
  by pat_completeness auto
termination
  by (relation "measure (\<lambda>(env, p). if basename p = libstdcxx_name then 0 else 1)") auto

declare check_shared_lib_dependencies.simps [simp del]

definition so_suffix :: pystr where "so_suffix = lit ''.so''"

text \<open>\<^verbatim>\<open>filename and filename.endswith('.so')\<close>.\<close>

definition is_shared_library :: "val \<Rightarrow> bool res" where
  "is_shared_library filename =
     (if \<not> truthy filename then Ok False
      else (case filename of
          VStr s \<Rightarrow> Ok (ends_with so_suffix s)
        | VBytes b \<Rightarrow> Err TypeError
        | _ \<Rightarrow> Err AttributeError))"

definition audit_hook :: "env \<Rightarrow> pystr \<Rightarrow> val list \<Rightarrow> unit W" where
  "audit_hook env event args = (\<lambda>w.
     if global_disable_audit_hook w then (Ok (), w)
     else (let filename =
              (if event = lit ''import'' \<and> length args > 1 then Some (args ! 1)
               else if event = lit ''sys.dlload'' \<and> length args > 0 then Some (args ! 0)
               else None) in
           case filename of
             None \<Rightarrow> (Ok (), w)
           | Some f \<Rightarrow> mbind (lift_res (is_shared_library f)) (\<lambda>hit.
               (case f of VStr s \<Rightarrow> if hit then check_shared_lib_dependencies env s else ret ()
                | _ \<Rightarrow> ret ())) w))"

text \<open>\<^verbatim>\<open>os.path.join(a, b)\<close> for a relative \<open>b\<close>.\<close>

definition path_join :: "pystr \<Rightarrow> pystr \<Rightarrow> pystr" where
  "path_join a b = (if a = [] \<or> last a = 47 then a @ b else a @ [47] @ b)"

definition set_hooks_and_audit :: "env \<Rightarrow> pystr \<Rightarrow> unit W" where
  "set_hooks_and_audit env libstdcxx_path = (\<lambda>w.
     let w' = w\<lparr>global_libstdcxx_path := Some (if isfile env libstdcxx_path then libstdcxx_path
                   else path_join libstdcxx_path libstdcxx_name)\<rparr> in
     (Ok (), if platform_system env = linux then w'\<lparr>hooks := hooks w' + 1\<rparr> else w'))"

end
