(* ===== verification/ReadOnly.thy ===== *)
theory ReadOnly
  imports GnuVersions
begin

text \<open>
  Reading never writes, and reading at an offset forgets where the stream was.  The first
  part shows that no construct's \<open>_parse\<close> changes the contents of the stream; the second that
  the operations on sections and segments, which all seek before they read, have a result
  that depends on the contents of the file alone (\<open>blind\<close>), so that the iterators that share
  the file's one stream can be interleaved freely.
\<close>

section \<open>Parsing keeps the contents\<close>

definition keeps :: "'a P \<Rightarrow> bool" where
  "keeps m \<longleftrightarrow> (\<forall>s. sdata (pstm (snd (m s))) = sdata (pstm s))"

named_theorems keeps_intros \<open>what keeps the contents of the stream\<close>

lemma keepsI: "(\<And>s. sdata (pstm (snd (m s))) = sdata (pstm s)) \<Longrightarrow> keeps m"
  by (simp add: keeps_def)

lemma keepsD: "keeps m \<Longrightarrow> sdata (pstm (snd (m s))) = sdata (pstm s)"
  by (simp add: keeps_def)

lemma keepsD': "keeps m \<Longrightarrow> m s = (r, s') \<Longrightarrow> sdata (pstm s') = sdata (pstm s)"
  by (metis keepsD snd_conv)

lemma keeps_simple [keeps_intros]:
  "keeps (ret a)" "keeps (raise e)" "keeps (lift_res r)" "keeps get_ctx" "keeps (put_ctx c)"
  "keeps (set_ctx k v)" "keeps (del_ctx k)" "keeps bytes_left"
  by (simp_all add: keeps_def bytes_left_def)

lemma keeps_mbind [keeps_intros]: "keeps m \<Longrightarrow> (\<And>a. keeps (f a)) \<Longrightarrow> keeps (mbind m f)"
  by (rule keepsI) (auto simp: mbind_def keepsD dest: keepsD' split: prod.split res.split)

lemma keeps_try [keeps_intros]: "keeps m \<Longrightarrow> (\<And>e. keeps (h e)) \<Longrightarrow> keeps (try_except m P h)"
  by (rule keepsI) (auto simp: try_except_def keepsD dest: keepsD' split: prod.split res.split)

lemma keeps_if [keeps_intros]: "(b \<Longrightarrow> keeps m) \<Longrightarrow> (\<not> b \<Longrightarrow> keeps m') \<Longrightarrow> keeps (if b then m else m')"
  by simp

lemma keeps_option [keeps_intros]:
  "(x = None \<Longrightarrow> keeps m) \<Longrightarrow> (\<And>a. x = Some a \<Longrightarrow> keeps (f a)) \<Longrightarrow> keeps (case x of None \<Rightarrow> m | Some a \<Rightarrow> f a)"
  by (cases x) auto

lemma keeps_list [keeps_intros]:
  "(xs = [] \<Longrightarrow> keeps m) \<Longrightarrow> (\<And>y ys. xs = y # ys \<Longrightarrow> keeps (f y ys)) \<Longrightarrow>
   keeps (case xs of [] \<Rightarrow> m | y # ys \<Rightarrow> f y ys)"
  by (cases xs) auto

lemma keeps_with_ctx [keeps_intros]: "keeps m \<Longrightarrow> keeps (with_ctx f m)"
  by (rule keepsI) (auto simp: with_ctx_def dest: keepsD' split: prod.split)

lemma keeps_maybe_copy [keeps_intros]: "keeps m \<Longrightarrow> keeps (maybe_copy fl m)"
  by (auto simp: maybe_copy_def intro: keeps_with_ctx)

lemma keeps_stream [keeps_intros]:
  "(\<And>t. sdata (snd (m t)) = sdata t) \<Longrightarrow> keeps (on_stream m)"
  by (rule keepsI) (simp add: on_stream_run)

lemma s_read_keeps: "sdata (snd (s_read n t)) = sdata t"
  by (simp add: s_read_def Let_def)

lemma s_seek_keeps: "sdata (snd (s_seek n t)) = sdata t"
  by (simp add: s_seek_def)

lemma keeps_read [keeps_intros]: "keeps (on_stream (s_read n))" "keeps (on_stream (s_seek p))"
  by (auto intro!: keeps_stream simp: s_read_keeps s_seek_keeps)

lemma keeps_with_stream [keeps_intros]: "keeps (with_stream t m)"
  by (rule keepsI) (auto simp: with_stream_def split: prod.split)

lemma keeps_read_stream [keeps_intros]: "keeps (read_stream n)"
  by (simp add: read_stream_def, intro conjI impI keeps_intros)

lemma keeps_bytes_arg [keeps_intros]: "keeps (bytes_arg v)"
  by (cases v) (auto simp: bytes_arg_def intro: keeps_intros)

lemma keeps_times_loop [keeps_intros]: "keeps p \<Longrightarrow> keeps (times_loop n p)"
  by (induction n) (auto intro!: keeps_intros)

lemma keeps_range_loop [keeps_intros]: "keeps p \<Longrightarrow> keeps (range_loop n c mn p)"
proof (induction n arbitrary: c)
  case (Suc n)
  have "keeps (mbind (range_loop n (c + 1) mn p) (\<lambda>vs. ret (v # vs)))" for v
    by (intro keeps_intros Suc)
  moreover have "keeps (mbind (on_stream (s_seek q)) (\<lambda>_. ret ([] :: val list)))" for q
    by (intro keeps_intros)
  ultimately show ?case
    using keepsD' [OF Suc.prems] by (auto intro!: keepsI simp: keepsD split: prod.split res.split)
qed (auto intro: keeps_intros)

lemma keeps_until_loop [keeps_intros]: "keeps p \<Longrightarrow> keeps (until_loop n f incl p)"
  by (induction n) (auto intro!: keeps_intros)

lemma keeps_fields [keeps_intros]:
  "list_all (\<lambda>(n, fl, p). keeps p) scs \<Longrightarrow> keeps (fields_parse seq scs obj)"
proof (induction seq scs obj rule: fields_parse.induct)
  case (2 seq n fl p scs obj)
  have "keeps (add_field seq obj k v)" for k v
    by (cases obj) (auto simp: add_field_def intro: keeps_intros)
  moreover have "keeps (take_ret obj)"
    unfolding take_ret_def by (intro keeps_intros)
  ultimately show ?case
    using 2 by (auto intro!: keeps_intros)
qed (auto intro: keeps_intros)

lemma keeps_Struct [keeps_intros]:
  assumes "list_all (\<lambda>(n, fl, p). keeps p) scs"
  shows "keeps (Struct_parse seq nst scs)"
  unfolding Struct_parse_def
  by (cases nst) (auto intro!: keeps_intros assms)

lemma keeps_Select [keeps_intros]:
  "list_all (\<lambda>(n, fl, p). keeps p) scs \<Longrightarrow> keeps (Select_parse scs inm)"
proof (induction scs)
  case (Cons sub scs)
  obtain n fl p where sub: "sub = (n, fl, p)" by (cases sub)
  have "keeps (mbind (on_stream (s_seek q)) (\<lambda>_. Select_parse scs inm))" for q
    using Cons by (intro keeps_mbind keeps_read) auto
  note retry = this [THEN keepsD]
  show ?case
    using Cons.prems by (intro keepsI) (auto simp: sub retry dest: keepsD' split: prod.split res.split)
qed (auto intro: keeps_intros)

lemma keeps_Switch [keeps_intros]:
  assumes "\<And>k p. (k, p) \<in> set cases \<Longrightarrow> keeps p" "\<And>p. d = Some p \<Longrightarrow> keeps p"
  shows "keeps (Switch_parse kf cases d ik)"
proof -
  have look: "vlookup cs key = Some p \<Longrightarrow> \<exists>k. (k, p) \<in> set cs" for cs :: "(val \<times> parser) list" and key p
    by (induction cs) (auto split: if_splits)
  have "keeps (mbind (lift_res (switch_case cases d key)) (\<lambda>p. mbind p (\<lambda>obj.
       ret (if ik then VTuple [key, obj] else obj))))" for key
  proof (cases "switch_case cases d key")
    case (Ok p)
    then have "keeps p"
      using assms look by (fastforce simp: switch_case_def split: if_splits option.splits)
    then have "keeps (mbind p (\<lambda>obj. ret (if ik then VTuple [key, obj] else obj)))"
      by (intro keeps_intros)
    then show ?thesis
      using Ok by (auto intro!: keepsI dest: keepsD)
  qed (auto intro!: keepsI)
  then show ?thesis
    unfolding Switch_parse_def
    by (rule keeps_mbind [OF keeps_simple(4) keeps_mbind [OF keeps_simple(3)]])
qed

lemma keeps_leb [keeps_intros]: "keeps (leb_loop n sgnd v sh)"
proof (induction n arbitrary: v sh)
  case (Suc n)
  have "keeps (case data of [] \<Rightarrow> raise FieldError | [b] \<Rightarrow>
      let value' = v OR push_bit sh (uint b AND 127); shift' = sh + 7 in
        if uint b AND 128 = 0 then ret (VInt (if sgnd \<and> uint b AND 64 \<noteq> 0
             then value' OR push_bit shift' (NOT 0) else value'))
        else leb_loop n sgnd value' shift'
    | b # _ # _ \<Rightarrow> raise FieldError)" for data
    by (intro keeps_list) (simp_all add: Let_def keeps_simple keeps_if Suc)
  then show ?case
    unfolding leb_loop.simps by (intro keeps_mbind keeps_read)
qed (auto intro: keeps_intros)

lemma keeps_Peek [keeps_intros]:
  assumes "keeps p"
  shows "keeps (Peek_parse p)"
proof (rule keepsI)
  fix s
  have t: "keeps (try_except p (\<lambda>e. e = FieldError) (\<lambda>_. ret VNone))"
    using assms by (intro keeps_intros)
  obtain r s' where run: "try_except p (\<lambda>e. e = FieldError) (\<lambda>_. ret VNone) s = (r, s')" by fastforce
  have "keeps (mbind (on_stream (s_seek (s_tell (pstm s)))) (\<lambda>_. lift_res r))"
    by (intro keeps_intros)
  then show "sdata (pstm (snd (Peek_parse p s))) = sdata (pstm s)"
    using keepsD' [OF t run] by (simp add: Peek_parse_def run keepsD)
qed

lemma keeps_Int24 [keeps_intros]: "keeps (Int24_parse e)"
  unfolding Int24_parse_def by (cases e) (auto intro!: keeps_intros)

lemma keeps_Anchor [keeps_intros]: "keeps Anchor_parse"
  by (simp add: keeps_def Anchor_parse_def on_stream_run)

lemma keeps_case_prod [keeps_intros]: "(\<And>a b. keeps (f a b)) \<Longrightarrow> keeps (case p of (a, b) \<Rightarrow> f a b)"
  by (cases p) auto

lemma list_all_subs:
  "(\<And>c. c \<in> set scs \<Longrightarrow> keeps (con_parse c)) \<Longrightarrow> list_all (\<lambda>(n, fl, p). keeps p) (subs_of scs)"
  by (induction scs) auto

lemma keeps_leaves [keeps_intros]:
  "keeps (StaticField_parse l)" "keeps (FormatField_parse e fm)" "keeps (MetaField_parse lf)"
  "keeps (Value_parse g)" "keeps Pass_parse" "keeps Terminator_parse" "keeps ULEB128_parse"
  "keeps SLEB128_parse"
  unfolding StaticField_parse_def FormatField_parse_def MetaField_parse_def Value_parse_def
    Pass_parse_def Terminator_parse_def ULEB128_parse_def SLEB128_parse_def
  by (intro keeps_intros)+

lemma keeps_tell [keeps_intros]: "keeps (on_stream (\<lambda>t. (Ok (s_tell t), t)))"
  by (rule keeps_stream) simp

lemma keeps_wrappers [keeps_intros]:
  assumes "keeps p"
  shows "keeps (MetaArray_parse cf fl p)" "keeps (Range_parse mn mx fl p)"
    "keeps (RepeatUntil_parse q fl p)" "keeps (RepeatUntilExcluding_parse q fl p)"
    "keeps (Pointer_parse off p)" "keeps (Buffered_parse dec rs sz p)"
    "keeps (Adapter_parse ad sz p)" "keeps (Tunnel_parse p inner)"
  unfolding MetaArray_parse_def Range_parse_def RepeatUntil_parse_def RepeatUntilExcluding_parse_def
    Pointer_parse_def Buffered_parse_def Adapter_parse_def Tunnel_parse_def
  by (intro keeps_intros assms)+

lemma keeps_ContextAdapter [keeps_intros]: "keeps p \<Longrightarrow> keeps (ContextAdapter_parse dec p)"
  unfolding ContextAdapter_parse_def by (intro keeps_intros)

text \<open>The parsers of the fields come from the table of forms.\<close>

lemma formatted_field_parser:
  assumes "formatted_field flags forms f = Ok (n, fl, p)"
  shows "\<exists>k. (k, Some p) \<in> set forms"
proof -
  have "vlookup d k = Some x \<Longrightarrow> \<exists>k. (k, x) \<in> set d" for d :: "(val \<times> parser option) list" and k x
    by (induction d) (auto split: if_splits)
  moreover obtain form where "vlookup forms form = Some (Some p)"
    using assms by (auto simp: formatted_field_def rbind_eq_Ok split: if_splits option.splits val.splits)
  ultimately show ?thesis by blast
qed

lemma formatted_fields_keep:
  assumes "\<And>k p. (k, Some p) \<in> set forms \<Longrightarrow> keeps p" "rmap (formatted_field flags forms) fs = Ok subs"
  shows "list_all (\<lambda>(n, fl, p). keeps p) subs"
  using assms(2)
proof (induction fs arbitrary: subs)
  case Nil
  then show ?case by auto
next
  case (Cons f fs)
  then obtain n fl p subs' where sub: "formatted_field flags forms f = Ok (n, fl, p)"
    and rest: "rmap (formatted_field flags forms) fs = Ok subs'" and subs: "subs = (n, fl, p) # subs'"
    by (auto simp: rbind_eq_Ok)
  from formatted_field_parser [OF sub] assms(1) have "keeps p"
    by blast
  with Cons.IH [OF rest] subs show ?case
    by simp
qed

lemma keeps_FormattedEntry:
  assumes "\<And>k p. (k, Some p) \<in> set forms \<Longrightarrow> keeps p"
  shows "keeps (FormattedEntry_parse field flags forms)"
proof -
  have "keeps (mbind (lift_res (rmap (formatted_field flags forms) fs)) (\<lambda>subs. Struct_parse False True subs))" for fs
  proof (cases "rmap (formatted_field flags forms) fs")
    case (Ok subs)
    then show ?thesis
      using keepsD [OF keeps_Struct [OF formatted_fields_keep [OF assms Ok]]] by (auto intro!: keepsI)
  qed (auto intro!: keepsI)
  then show ?thesis
    unfolding FormattedEntry_parse_def
    by (rule keeps_mbind [OF keeps_simple(4) keeps_mbind [OF keeps_simple(3)]])
qed

text \<open>For every construct.\<close>

lemma keeps_con_parse [keeps_intros]: "keeps (con_parse c)"
proof (induction c)
  case (SwitchC n kf cases d ik)
  then show ?case
    by (auto intro!: keeps_Switch)
next
  case (FormattedEntryC n field forms)
  have "keeps p" if "(k, Some p) \<in> set (map (map_prod id (map_option con_parse)) forms)" for k p
  proof -
    from that obtain x where "(k, x) \<in> set forms" "Some p = map_option con_parse x"
      by auto
    then show ?thesis
      using FormattedEntryC by (cases x) fastforce+
  qed
  then show ?case
    unfolding con_parse.simps by (rule keeps_FormattedEntry)
qed (auto intro!: keeps_intros list_all_subs)

lemma parse_stream_keeps: "sdata (snd (parse_stream c t)) = sdata t"
  using keepsD [OF keeps_con_parse, of c "\<lparr>pctx = [], pstm = t\<rparr>"]
  by (cases "con_parse c \<lparr>pctx = [], pstm = t\<rparr>") (simp add: parse_stream_def)

section \<open>Operations on a stream that seek first\<close>

definition skeeps :: "(stream, 'a) M \<Rightarrow> bool" where
  "skeeps m \<longleftrightarrow> (\<forall>t. sdata (snd (m t)) = sdata t)"

definition sblind :: "(stream, 'a) M \<Rightarrow> bool" where
  "sblind m \<longleftrightarrow> skeeps m \<and> (\<forall>s t. sdata s = sdata t \<longrightarrow> fst (m s) = fst (m t))"

named_theorems skeeps_intros \<open>stream operations that keep the contents\<close>

lemma skeeps_simple [skeeps_intros]:
  "skeeps (ret a)" "skeeps (raise e)" "skeeps (lift_res r)" "skeeps (s_read n)" "skeeps (s_seek p)"
  "skeeps s_seek_end" "skeeps (parse_stream c)" "skeeps get_state"
  by (simp_all add: skeeps_def s_read_keeps s_seek_keeps s_seek_end_def parse_stream_keeps)

lemma skeepsD: "skeeps m \<Longrightarrow> m t = (r, t') \<Longrightarrow> sdata t' = sdata t"
  by (metis skeeps_def snd_conv)

lemma skeeps_mbind [skeeps_intros]: "skeeps m \<Longrightarrow> (\<And>a. skeeps (f a)) \<Longrightarrow> skeeps (mbind m f)"
  by (auto simp: skeeps_def mbind_def dest: skeepsD split: prod.split res.split)
    (metis skeepsD skeeps_def snd_conv)+

lemma skeeps_try [skeeps_intros]: "skeeps m \<Longrightarrow> (\<And>e. skeeps (h e)) \<Longrightarrow> skeeps (try_except m P h)"
  by (auto simp: skeeps_def try_except_def dest: skeepsD split: prod.split res.split)
    (metis skeepsD skeeps_def snd_conv)+

lemma skeeps_if [skeeps_intros]: "(b \<Longrightarrow> skeeps m) \<Longrightarrow> (\<not> b \<Longrightarrow> skeeps m') \<Longrightarrow> skeeps (if b then m else m')"
  by simp

lemma skeeps_split [skeeps_intros]: "(\<And>a b. skeeps (f a b)) \<Longrightarrow> skeeps (case p of (a, b) \<Rightarrow> f a b)"
  by (cases p) auto

lemma skeeps_elf_assert [skeeps_intros]: "skeeps (elf_assert b)"
  by (simp add: elf_assert_def skeeps_simple)

lemma skeeps_cstring_loop [skeeps_intros]: "skeeps (cstring_loop k cs)"
proof (induction k arbitrary: cs)
  case (Suc k)
  then show ?case
    unfolding cstring_loop.simps Let_def by (intro skeeps_intros)
qed (simp add: skeeps_simple)

lemma seek_forgets: "sdata s = sdata t \<Longrightarrow> s\<lparr>spos := n\<rparr> = t\<lparr>spos := n\<rparr>" for s t :: stream
  by (cases s; cases t) simp

lemma sblind_seek:
  assumes "\<And>u. skeeps (f u)"
  shows "sblind (mbind (s_seek p) f)"
  unfolding sblind_def
proof (intro conjI allI impI)
  show "skeeps (mbind (s_seek p) f)"
    by (intro skeeps_intros assms)
next
  fix s t :: stream assume "sdata s = sdata t"
  note same = seek_forgets [OF this, of "nat p"]
  show "fst (mbind (s_seek p) f s) = fst (mbind (s_seek p) f t)"
    by (simp add: mbind_def s_seek_def same)
qed

lemma sblind_try:
  assumes "sblind m" "\<And>e. h e = raise e'"
  shows "sblind (try_except m P h)"
proof -
  have r: "fst (try_except m P h s) = (case fst (m s) of Err e \<Rightarrow> if P e then Err e' else Err e | r \<Rightarrow> r)" for s
    using assms(2) by (cases "m s"; cases "fst (m s)") (auto simp: try_except_def)
  have m: "skeeps m" and eq: "\<And>s t. sdata s = sdata t \<Longrightarrow> fst (m s) = fst (m t)"
    using assms(1) unfolding sblind_def by blast+
  have "skeeps (try_except m P h)"
    by (intro skeeps_try m) (simp add: assms(2) skeeps_simple)
  moreover have "fst (try_except m P h s) = fst (try_except m P h t)" if "sdata s = sdata t" for s t
    unfolding r eq [OF that] ..
  ultimately show ?thesis
    unfolding sblind_def by blast
qed

lemma sblind_struct_parse: "sblind (struct_parse c (Some p))"
  unfolding struct_parse_def option.case
  by (intro sblind_try sblind_seek skeeps_intros) simp

lemma sblind_cstring: "sblind (parse_cstring_from_stream (Some p))"
  unfolding parse_cstring_from_stream_def option.case
  by (intro sblind_seek skeeps_intros)

lemma sblind_identify: "sblind identify_file"
  unfolding identify_file_def by (intro sblind_seek skeeps_intros)

section \<open>Operations on a file\<close>

definition same :: "fstate \<Rightarrow> fstate \<Rightarrow> bool" where
  "same s t \<longleftrightarrow> fdata s = fdata t \<and> f_names s = f_names t"

definition fkeeps :: "'a F \<Rightarrow> bool" where
  "fkeeps m \<longleftrightarrow> (\<forall>s. fdata (snd (m s)) = fdata s)"

definition blind :: "'a F \<Rightarrow> bool" where
  "blind m \<longleftrightarrow> fkeeps m \<and> (\<forall>s t. same s t \<longrightarrow> fst (m s) = fst (m t) \<and> same (snd (m s)) (snd (m t)))"

named_theorems blind_intros \<open>file operations that do not depend on the position\<close>

lemma fkeepsD: "fkeeps m \<Longrightarrow> m s = (r, s') \<Longrightarrow> fdata s' = fdata s"
  by (metis fkeeps_def snd_conv)

lemma fkeeps_mbind: "fkeeps m \<Longrightarrow> (\<And>a. fkeeps (f a)) \<Longrightarrow> fkeeps (mbind m f)"
  by (auto simp: fkeeps_def mbind_def dest: fkeepsD split: prod.split res.split)
    (metis fkeepsD fkeeps_def snd_conv)+

lemma fkeeps_on_file: "skeeps m \<Longrightarrow> fkeeps (on_file m)"
  by (simp add: fkeeps_def skeeps_def on_file_run)

lemma blind_fkeeps: "blind m \<Longrightarrow> fkeeps m"
  by (simp add: blind_def)

lemma blind_simple [blind_intros]: "blind (ret a)" "blind (raise e)" "blind (lift_res r)"
  "blind (set_names m)" "blind (add_section_name n i)" "blind (elf_assert b)"
  by (auto simp: blind_def fkeeps_def same_def set_names_def add_section_name_def elf_assert_def)

lemma blind_on_file [blind_intros]: "sblind m \<Longrightarrow> blind (on_file m)"
proof -
  assume m: "sblind m"
  have k: "sdata (snd (m t)) = sdata t" for t
    using m by (simp add: sblind_def skeeps_def)
  have e: "fst (m s) = fst (m t)" if "sdata s = sdata t" for s t
    using m that unfolding sblind_def by blast
  show ?thesis
    unfolding blind_def fkeeps_def same_def by (auto simp: on_file_run k intro: e)
qed

declare sblind_struct_parse [blind_intros] sblind_cstring [blind_intros] sblind_identify [blind_intros]

lemma blind_mbind [blind_intros]:
  assumes "blind m" "\<And>a. blind (f a)"
  shows "blind (mbind m f)"
  unfolding blind_def
proof (intro conjI allI impI)
  show "fkeeps (mbind m f)"
    using assms by (intro fkeeps_mbind) (simp_all add: blind_def)
next
  fix s t assume "same s t"
  then have m: "fst (m s) = fst (m t)" "same (snd (m s)) (snd (m t))"
    using assms(1) by (simp_all add: blind_def)
  obtain r s' t' where runs: "m s = (r, s')" "m t = (r, t')" and st: "same s' t'"
    using m by (metis prod.collapse)
  show "fst (mbind m f s) = fst (mbind m f t)" "same (snd (mbind m f s)) (snd (mbind m f t))"
    using st assms(2) by (auto simp: mbind_def runs blind_def split: res.split)
qed

lemma blind_seek [blind_intros]:
  assumes "\<And>u. fkeeps (f u)"
  shows "blind (mbind (on_file (s_seek p)) f)"
  unfolding blind_def
proof (intro conjI allI impI)
  show "fkeeps (mbind (on_file (s_seek p)) f)"
    by (intro fkeeps_mbind fkeeps_on_file skeeps_simple assms)
next
  fix s t assume st: "same s t"
  then have same: "s\<lparr>f_stream := f_stream s\<lparr>spos := nat p\<rparr>\<rparr> = t\<lparr>f_stream := f_stream t\<lparr>spos := nat p\<rparr>\<rparr>"
    by (simp add: same_def)
  from st show "fst (mbind (on_file (s_seek p)) f s) = fst (mbind (on_file (s_seek p)) f t)"
    "same (snd (mbind (on_file (s_seek p)) f s)) (snd (mbind (on_file (s_seek p)) f t))"
    by (simp_all add: mbind_def on_file_run s_seek_def same) (simp_all add: same_def)
qed

lemma blind_if [blind_intros]: "(b \<Longrightarrow> blind m) \<Longrightarrow> (\<not> b \<Longrightarrow> blind m') \<Longrightarrow> blind (if b then m else m')"
  by simp

lemma blind_option [blind_intros]:
  "blind m \<Longrightarrow> (\<And>a. blind (f a)) \<Longrightarrow> blind (case x of None \<Rightarrow> m | Some a \<Rightarrow> f a)"
  by (cases x) auto

lemma blind_split [blind_intros]: "(\<And>a b. blind (f a b)) \<Longrightarrow> blind (case p of (a, b) \<Rightarrow> f a b)"
  by (cases p) auto

lemma blind_mmap [blind_intros]: "(\<And>x. blind (f x)) \<Longrightarrow> blind (mmap f xs)"
  by (induction xs) (auto intro!: blind_intros)

lemma blind_let [blind_intros]: "(\<And>a. a = x \<Longrightarrow> blind (f a)) \<Longrightarrow> blind (let a = x in f a)"
  by simp

lemma fkeeps_read: "fkeeps (on_file (s_read n))"
  by (intro fkeeps_on_file skeeps_simple)

lemmas fkeeps_leaves = fkeeps_read blind_simple [THEN blind_fkeeps]

section \<open>Sections, symbols and versions are read blindly\<close>

lemma blind_get_string [blind_intros]: "blind (get_string sec off)"
  unfolding get_string_def by (intro blind_intros)

lemma blind_Section_init [blind_intros]: "blind (Section_init st kind h name link)"
  unfolding Section_init_def by (intro blind_intros)

lemma blind_SymbolTableSection_init [blind_intros]: "blind (SymbolTableSection_init st h name tab)"
  unfolding SymbolTableSection_init_def by (intro blind_intros)

lemma blind_get_symbol [blind_intros]: "blind (get_symbol st sec n)"
  unfolding get_symbol_def by (intro blind_intros)

lemma blind_syminfo_get_symbol [blind_intros]: "blind (syminfo_get_symbol st sec n)"
  unfolding syminfo_get_symbol_def by (intro blind_intros)

lemma blind_iter_symbols [blind_intros]: "blind (iter_symbols st sec)"
  unfolding iter_symbols_def by (intro blind_intros)

lemma blind_versym_get_symbol [blind_intros]: "blind (versym_get_symbol st sec n)"
proof (induction st sec n rule: versym_get_symbol.induct)
  case (1 st kind h name chdr link x n)
  have link: "blind (case link of None \<Rightarrow> raise AttributeError
       | Some symtab \<Rightarrow> (case s_kind symtab of SymbolTableSection \<Rightarrow> get_symbol st symtab n
           | SUNWSyminfoTableSection \<Rightarrow> syminfo_get_symbol st symtab n
           | GNUVerSymSection \<Rightarrow> versym_get_symbol st symtab n
           | _ \<Rightarrow> raise AttributeError))"
    using 1 by (auto intro: blind_intros split: option.split skind.split)
  then show ?case
    unfolding versym_get_symbol.simps
    by (intro blind_mbind blind_simple blind_on_file sblind_struct_parse link)
qed

lemma blind_section_data [blind_intros]: "blind (section_data zlib st sec)"
proof -
  have "blind (case c_type of VInt i \<Rightarrow> raise ELFCompressionError | _ \<Rightarrow> (raise ValueError :: bytes F))" for c_type
    by (cases c_type) (auto intro: blind_intros)
  then show ?thesis
    unfolding section_data_def
    by (intro blind_intros; simp?; intro fkeeps_mbind fkeeps_leaves; simp add: fkeeps_leaves)
qed

lemma blind_get_section_header [blind_intros]: "blind (get_section_header ef n)"
  unfolding get_section_header_def by (intro blind_intros)

lemma blind_num_sections [blind_intros]: "blind (num_sections ef)"
  unfolding num_sections_def by (intro blind_intros)

lemma blind_get_section_name [blind_intros]: "blind (get_section_name ef h)"
  unfolding get_section_name_def by (intro blind_intros)

lemma blind_headers [blind_intros]:
  "blind (checked_header ef n types)" "blind (linked_header ef n types)"
  unfolding checked_header_def linked_header_def by (intro blind_intros)+

lemma blind_hash_inits [blind_intros]:
  "blind (ELFHashSection_init ef h name tab)" "blind (GNUHashSection_init ef h name tab)"
  unfolding ELFHashSection_init_def GNUHashSection_init_def ELFHashTable_init_def GNUHashTable_init_def
  by (intro blind_intros)+

lemma blind_reloc_inits [blind_intros]:
  "blind (RelocationSection_init ef h name)" "blind (RelrRelocationSection_init ef h name)"
  unfolding RelocationSection_init_def RelrRelocationSection_init_def
  by (intro blind_intros)+

text \<open>After parsing at an offset the position no longer depends on where the stream was before.\<close>

lemma struct_parse_sync:
  assumes "sdata s = sdata t"
  shows "struct_parse c (Some p) s = struct_parse c (Some p) t \<or>
    (\<exists>e. struct_parse c (Some p) s = (Err e, s) \<and> struct_parse c (Some p) t = (Err e, t))"
  using seek_forgets [OF assms, of "nat p"]
  by (simp add: struct_parse_def mbind_def s_seek_def try_except_def)

lemma blind_sync:
  assumes "\<And>a. fkeeps (f a)"
  shows "blind (mbind (on_file (struct_parse c (Some p))) f)"
  unfolding blind_def
proof (intro conjI allI impI)
  show "fkeeps (mbind (on_file (struct_parse c (Some p))) f)"
    using sblind_struct_parse [of c p] by (intro fkeeps_mbind fkeeps_on_file assms) (simp add: sblind_def)
next
  fix s t assume st: "same s t"
  then consider (eq) "struct_parse c (Some p) (f_stream s) = struct_parse c (Some p) (f_stream t)"
    | (err) e where "struct_parse c (Some p) (f_stream s) = (Err e, f_stream s)"
        "struct_parse c (Some p) (f_stream t) = (Err e, f_stream t)"
    using struct_parse_sync [of "f_stream s" "f_stream t" c p] by (auto simp: same_def)
  then have "fst (mbind (on_file (struct_parse c (Some p))) f s) = fst (mbind (on_file (struct_parse c (Some p))) f t)
    \<and> same (snd (mbind (on_file (struct_parse c (Some p))) f s)) (snd (mbind (on_file (struct_parse c (Some p))) f t))"
  proof cases
    case eq
    then have "on_file (struct_parse c (Some p)) s = on_file (struct_parse c (Some p)) t"
      using st by (cases s; cases t) (simp add: on_file_run same_def)
    then show ?thesis
      by (simp add: mbind_def same_def)
  next
    case err
    then show ?thesis
      using st by (simp add: mbind_def on_file_run same_def)
  qed
  then show "fst (mbind (on_file (struct_parse c (Some p))) f s) = fst (mbind (on_file (struct_parse c (Some p))) f t)"
    "same (snd (mbind (on_file (struct_parse c (Some p))) f s)) (snd (mbind (on_file (struct_parse c (Some p))) f t))"
    by simp_all
qed

lemma fkeeps_tell: "fkeeps (on_file (\<lambda>t. (Ok (VInt (s_tell t)), t)))"
  by (simp add: fkeeps_def on_file_run)

lemma blind_AttributesSection_init [blind_intros]: "blind (AttributesSection_init ef kind h name)"
  unfolding AttributesSection_init_def
  by (intro blind_mbind blind_simple blind_Section_init blind_sync fkeeps_mbind fkeeps_tell fkeeps_leaves)

lemma blind_make_section_with [blind_intros]:
  assumes "\<And>n ty. blind (g n ty)" "\<And>n. blind (g1 n)" "\<And>n. blind (g2 n)"
  shows "blind (make_section_with ef g g1 g2 h)"
  unfolding make_section_with_def Let_def by (intro blind_intros assms)

lemma blind_make_section [blind_intros]: "blind (make_section k ef h)"
proof (induction k arbitrary: h)
  case (Suc k)
  then show ?case
    unfolding make_section.simps by (intro blind_make_section_with blind_mbind blind_headers)
qed (simp add: blind_simple)

lemma blind_get_section [blind_intros]: "blind (get_section ef n types)"
  unfolding get_section_def by (intro blind_intros)

lemma blind_name_map_loop [blind_intros]: "blind (name_map_loop ef i n)"
proof (induction ef i n rule: name_map_loop.induct)
  case (1 ef i n)
  then show ?case
    by (subst name_map_loop.simps) (intro blind_if blind_mbind blind_get_section blind_simple)
qed

lemma blind_make_section_name_map [blind_intros]: "blind (make_section_name_map ef)"
  unfolding make_section_name_map_def by (intro blind_intros)

lemma blind_names:
  assumes "\<And>b. blind (f b)"
  shows "blind (\<lambda>s. f (f_names s) s)"
proof -
  have k: "fdata (snd (f b s)) = fdata s" for b s
    using assms by (simp add: blind_def fkeeps_def)
  have e: "fst (f b s) = fst (f b t) \<and> same (snd (f b s)) (snd (f b t))" if "same s t" for b s t
    using assms that unfolding blind_def by blast
  have n: "same s t \<Longrightarrow> f_names s = f_names t" for s t
    by (simp add: same_def)
  show ?thesis
    unfolding blind_def fkeeps_def
  proof (intro conjI allI impI)
    fix s t assume st: "same s t"
    show "fst (f (f_names s) s) = fst (f (f_names t) t)"
      "same (snd (f (f_names s) s)) (snd (f (f_names t) t))"
      using e [OF st, of "f_names t"] n [OF st] by simp_all
  qed (rule k)
qed

lemma blind_ensure_names [blind_intros]: "blind (ensure_names ef)"
proof -
  have "blind (\<lambda>s. (if f_names s = None then make_section_name_map ef else ret ()) s)"
    by (rule blind_names [of "\<lambda>m. if m = None then make_section_name_map ef else ret ()"])
      (intro blind_intros)
  moreover have "(\<lambda>s. (if f_names s = None then make_section_name_map ef else ret ()) s) =
      (\<lambda>s. if f_names s = None then make_section_name_map ef s else (Ok (), s))"
    by (rule ext) simp
  ultimately have "blind (\<lambda>s. if f_names s = None then make_section_name_map ef s else (Ok (), s))"
    by simp
  moreover have "blind (\<lambda>s. (Ok (case f_names s of None \<Rightarrow> [] | Some m \<Rightarrow> m), s))"
    by (simp add: blind_def fkeeps_def same_def)
  ultimately show ?thesis
    unfolding ensure_names_def by (intro blind_mbind)
qed

lemma blind_get_section_by_name [blind_intros]: "blind (get_section_by_name ef name)"
  unfolding get_section_by_name_def by (intro blind_intros)

lemma blind_read_auxiliary [blind_intros]: "blind (read_auxiliary gv pos)"
  unfolding read_auxiliary_def by (intro blind_intros)

lemma blind_read_version [blind_intros]: "blind (read_version gv pos)"
  unfolding read_version_def by (intro blind_intros)

end
