(* ===== verification/AuditVersions.thy ===== *)
theory AuditVersions
  imports AuditLib ReadOnly
begin

text \<open>
  What the version scan of \<^verbatim>\<open>audit_libstdcxx.py\<close> computes: the two nested generators deliver the
  names of all auxiliary entries in file order, and the result is the greatest version among
  the GLIBCXX names.
\<close>

section \<open>The generators deliver a list\<close>

text \<open>All the auxiliaries of one version, and of all the versions of a section.\<close>

primrec read_auxiliaries :: "nat \<Rightarrow> gnuver \<Rightarrow> int \<Rightarrow> version_aux list F" where
  "read_auxiliaries 0 gv pos = ret []"
| "read_auxiliaries (Suc k) gv pos =
     mbind (read_auxiliary gv pos) (\<lambda>aux.
     mbind (lift_res (get_int (va_entry aux) (field_name gv ''next'' True))) (\<lambda>nxt.
     mbind (read_auxiliaries k gv (pos + nxt)) (\<lambda>auxs. ret (aux # auxs))))"

primrec read_versions :: "nat \<Rightarrow> gnuver \<Rightarrow> int \<Rightarrow> version_aux list F" where
  "read_versions 0 gv pos = ret []"
| "read_versions (Suc k) gv pos =
     mbind (read_version gv pos) (\<lambda>(ver, off, cnt).
     mbind (read_auxiliaries cnt gv off) (\<lambda>auxs.
     mbind (lift_res (get_int (ver_entry ver) (field_name gv ''next'' False))) (\<lambda>nxt.
     mbind (read_versions k gv (pos + nxt)) (\<lambda>rest. ret (auxs @ rest)))))"

text \<open>A scan whose steps all succeed on a list of names, from a state.\<close>

fun scan_list :: "pystr list \<Rightarrow> scan \<Rightarrow> scan option" where
  "scan_list [] w = Some w"
| "scan_list (n # ns) w = (case version_step n w of (Ok _, w') \<Rightarrow> scan_list ns w' | _ \<Rightarrow> None)"

lemma scan_list_append:
  "scan_list (ns @ ms) w = (case scan_list ns w of None \<Rightarrow> None | Some w' \<Rightarrow> scan_list ms w')"
  by (induction ns arbitrary: w) (auto split: prod.split res.split)

definition scan_body :: "version_aux \<Rightarrow> (scan, unit option) G" where
  "scan_body = (\<lambda>aux. mbind (in_scan (version_step (va_name aux))) (\<lambda>_. ret None))"

lemma scan_versions_body:
  "scan_versions gv = for_versions gv (\<lambda>version off cnt. for_auxiliaries cnt gv off scan_body)"
  by (simp add: scan_versions_def scan_body_def)

lemma in_file_run: "in_file m (s, w) = (fst (m s), (snd (m s), w))"
  by (simp add: in_file_def split: prod.split)

lemma in_scan_run: "in_scan m (s, w) = (fst (m w), (s, snd (m w)))"
  by (simp add: in_scan_def split: prod.split)

lemma scan_body_run:
  "scan_body aux (s, w) = (case version_step (va_name aux) w of (r, w') \<Rightarrow>
     ((case r of Ok _ \<Rightarrow> Ok None | Err e \<Rightarrow> Err e | NoFuel \<Rightarrow> NoFuel), (s, w')))"
  by (auto simp: scan_body_def mbind_def in_scan_run split: prod.split res.split)

lemma for_auxiliaries_scan:
  "read_auxiliaries k gv pos s = (Ok auxs, s') \<Longrightarrow> scan_list (map va_name auxs) w = Some w' \<Longrightarrow>
   for_auxiliaries k gv pos scan_body (s, w) = (Ok None, (s', w'))"
proof (induction k arbitrary: pos s auxs w)
  case (Suc k)
  then obtain aux s1 nxt rest where aux: "read_auxiliary gv pos s = (Ok aux, s1)"
    and nxt: "get_int (va_entry aux) (field_name gv ''next'' True) = Ok nxt"
    and rest: "read_auxiliaries k gv (pos + nxt) s1 = (Ok rest, s')" and auxs: "auxs = aux # rest"
    by (auto simp: mbind_eq_Ok res_case_Ok)
  from Suc.prems(2) auxs obtain w1 where step: "version_step (va_name aux) w = (Ok (), w1)"
    and more: "scan_list (map va_name rest) w1 = Some w'"
    by (auto split: prod.splits res.splits)
  show ?case
    using Suc.IH [OF rest more] by (simp add: mbind_def in_file_run scan_body_run aux step nxt)
qed simp

lemma for_versions_scan:
  "read_versions k gv pos s = (Ok auxs, s') \<Longrightarrow> scan_list (map va_name auxs) w = Some w' \<Longrightarrow>
   for_versions_from k gv pos (\<lambda>version off cnt. for_auxiliaries cnt gv off scan_body) (s, w) =
     (Ok None, (s', w'))"
proof (induction k arbitrary: pos s auxs w)
  case (Suc k)
  then obtain ver off cnt s1 here s2 nxt rest where
    ver: "read_version gv pos s = (Ok (ver, off, cnt), s1)"
    and here: "read_auxiliaries cnt gv off s1 = (Ok here, s2)"
    and nxt: "get_int (ver_entry ver) (field_name gv ''next'' False) = Ok nxt"
    and rest: "read_versions k gv (pos + nxt) s2 = (Ok rest, s')" and auxs: "auxs = here @ rest"
    by (auto simp: mbind_eq_Ok res_case_Ok)
  from Suc.prems(2) auxs obtain w1 where w1: "scan_list (map va_name here) w = Some w1"
    and more: "scan_list (map va_name rest) w1 = Some w'"
    by (auto simp: scan_list_append split: option.splits)
  show ?case
    using Suc.IH [OF rest more] for_auxiliaries_scan [OF here w1]
    by (simp add: mbind_def in_file_run ver nxt)
qed simp

section \<open>The greatest version\<close>

lemma ver_less_trans: "ver_less a b \<Longrightarrow> ver_less b c \<Longrightarrow> ver_less a c"
  by (cases a; cases b; cases c) auto

lemma ver_less_irrefl [simp]: "\<not> ver_less a a"
  by (cases a) auto

lemma ver_less_total: "\<not> ver_less a b \<Longrightarrow> a \<noteq> b \<Longrightarrow> ver_less b a"
  by (cases a; cases b) auto

lemma ver_less_asym: "ver_less a b \<Longrightarrow> \<not> ver_less b a"
  by (cases a; cases b) auto

lemma ver_not_less_trans: "\<not> ver_less a b \<Longrightarrow> \<not> ver_less b c \<Longrightarrow> \<not> ver_less a c"
  using ver_less_trans ver_less_total by metis

text \<open>
  The version a name stands for: none when it is not a GLIBCXX name; zero when what follows
  the first eight characters is not a version.
\<close>

definition name_version :: "pystr \<Rightarrow> ver option" where
  "name_version n = (if occurs_in glibcxx n
     then (case fst (parse_version (drop (length glibcxx) n) []) of Ok v \<Rightarrow> Some v | _ \<Rightarrow> None) else None)"

lemma parse_version_fst: "fst (parse_version v err) = fst (parse_version v [])"
proof (cases "match_version v")
  case (Some groups)
  then show ?thesis
    by (cases "rmap py_int_of_digits groups") (auto simp: parse_version_def mbind_def split: list.split)
qed (simp add: parse_version_def)

lemma version_step_cases:
  assumes "version_step n (m, err) = (Ok u, (m', err'))"
  shows "case name_version n of None \<Rightarrow> m' = m | Some v \<Rightarrow> m' = (if ver_less m v then v else m)"
  using assms parse_version_fst [of "drop (length glibcxx) n" err]
  by (auto simp: version_step_def name_version_def split: if_splits prod.splits res.splits)

lemma scan_list_max:
  "scan_list ns (m, err) = Some (m', err') \<Longrightarrow>
   \<not> ver_less m' m \<and> (\<forall>n \<in> set ns. \<forall>v. name_version n = Some v \<longrightarrow> \<not> ver_less m' v) \<and>
   (m' = m \<or> (\<exists>n \<in> set ns. name_version n = Some m'))"
proof (induction ns arbitrary: m err)
  case (Cons n ns)
  then obtain u m1 err1 where step: "version_step n (m, err) = (Ok u, (m1, err1))"
    and rest: "scan_list ns (m1, err1) = Some (m', err')"
    by (auto split: prod.splits res.splits)
  note ih = Cons.IH [OF rest]
  note m1 = version_step_cases [OF step]
  have up: "\<not> ver_less m1 m"
    using m1 ver_less_asym by (auto split: option.splits if_splits)
  have v: "\<not> ver_less m1 v" if "name_version n = Some v" for v
    using m1 that by (auto split: if_splits)
  have "\<not> ver_less m' m" "\<And>v. name_version n = Some v \<Longrightarrow> \<not> ver_less m' v"
    using ih up v ver_not_less_trans by blast+
  moreover have "m1 = m \<or> name_version n = Some m1"
    using m1 by (auto split: option.splits if_splits)
  ultimately show ?case
    using ih by auto
qed simp

lemma scan_list_total:
  "(\<And>n. n \<in> set ns \<Longrightarrow> occurs_in glibcxx n \<Longrightarrow> name_version n \<noteq> None) \<Longrightarrow>
   \<exists>m' err'. scan_list ns (m, err) = Some (m', err')"
proof (induction ns arbitrary: m err)
  case Nil
  then show ?case by (cases m) simp
next
  case (Cons n ns)
  have "\<exists>m1 err1. version_step n (m, err) = (Ok (), (m1, err1))"
  proof (cases "occurs_in glibcxx n")
    case True
    with Cons.prems obtain v where "name_version n = Some v" by force
    with True have "fst (parse_version (drop (length glibcxx) n) err) = Ok v"
      using parse_version_fst [of "drop (length glibcxx) n" err]
      by (auto simp: name_version_def split: res.splits)
    then show ?thesis
      by (cases "parse_version (drop (length glibcxx) n) err")
        (cases "ver_less m v"; cases m; cases v; simp add: version_step_def True)
  qed (cases m; simp add: version_step_def)
  then obtain m1 err1 where step: "version_step n (m, err) = (Ok (), (m1, err1))" by blast
  have "\<exists>m' err'. scan_list ns (m1, err1) = Some (m', err')"
    using Cons.prems by (intro Cons.IH) auto
  then show ?case
    by (simp add: step)
qed

text \<open>
  The names a library's version definition section holds, as the file's contents determine them.
\<close>

definition version_names :: "bytes \<Rightarrow> pystr list res" where
  "version_names data = fst (mbind ELFFile_init (\<lambda>elffile.
     mbind (get_section_by_name elffile version_d_name) (\<lambda>sec. (case sec of
         None \<Rightarrow> raise ValueError
       | Some version_d_section \<Rightarrow>
           mbind (lift_res (gnuver_of (ef_structs elffile) version_d_section)) (\<lambda>gv.
           mbind (lift_res (sec_int (gv_sec gv) ''sh_offset'')) (\<lambda>off.
           mbind (lift_res (num_versions gv)) (\<lambda>n.
           mbind (read_versions (nat n) gv off) (\<lambda>auxs. ret (map va_name auxs))))))))
     \<lparr>f_stream = bytesio data, f_names = None\<rparr>)"

lemma glibcxx_of_contents_scan:
  assumes "version_names data = Ok names" "scan_list names ((0, 0, 0), err) = Some (m, err')"
  shows "glibcxx_of_contents data err = (Ok m, err')"
proof -
  let ?s = "\<lparr>f_stream = bytesio data, f_names = None\<rparr>"
  from assms(1) obtain ef s1 sec s2 gv off n auxs s3 where
    run: "ELFFile_init ?s = (Ok ef, s1)" "get_section_by_name ef version_d_name s1 = (Ok (Some sec), s2)"
      "gnuver_of (ef_structs ef) sec = Ok gv" "sec_int (gv_sec gv) ''sh_offset'' = Ok off"
      "num_versions gv = Ok n" "read_versions (nat n) gv off s2 = (Ok auxs, s3)"
    and names: "names = map va_name auxs"
    unfolding version_names_def
    by (auto simp: mbind_def split: prod.splits res.splits option.splits)
  from assms(2) have "scan_list (map va_name auxs) ((0, 0, 0), err) = Some (m, err')"
    by (simp add: names)
  from for_versions_scan [OF run(6) this] show ?thesis
    by (simp add: glibcxx_of_contents_def mbind_def in_file_run run scan_versions_body for_versions_def)
qed

end
