(* ===== verification/AuditHook.thy ===== *)
theory AuditHook
  imports AuditVersions
begin

text \<open>
  The audit hook as a state machine.  An interpreter raises audit events in any order, and the
  environment (files, loaded libraries, the output of subprocesses) may change between them; a
  step is one call of \<open>audit_hook\<close> in some environment.  The lemmas say what each operation can
  do to the process, and the invariant what has happened to it after any number of events.
\<close>

section \<open>Invariants of a step relation\<close>

locale preserved =
  fixes step :: "'s \<Rightarrow> 's \<Rightarrow> bool" and inv :: "'s \<Rightarrow> bool"
  assumes inv_step: "step s s' \<Longrightarrow> inv s \<Longrightarrow> inv s'"
begin

lemma inv_steps: "step\<^sup>*\<^sup>* s s' \<Longrightarrow> inv s \<Longrightarrow> inv s'"
  by (induction rule: rtranclp_induct) (auto intro: inv_step)

end

section \<open>What an operation changes\<close>

text \<open>The only changes are to what is loaded (at the end) and to the text on \<^verbatim>\<open>stderr\<close>.\<close>

definition loads :: "pystr list \<Rightarrow> world \<Rightarrow> world \<Rightarrow> bool" where
  "loads ls w w' \<longleftrightarrow> loaded w' = loaded w @ ls \<and> global_libstdcxx_path w' = global_libstdcxx_path w \<and>
     global_disable_audit_hook w' = global_disable_audit_hook w \<and> hooks w' = hooks w"

lemma loads_Nil_refl [intro!, simp]: "loads [] w w"
  by (simp add: loads_def)

lemma loads_stderr [intro!, simp]: "loads [] w (w\<lparr>stderr := es\<rparr>)"
  by (simp add: loads_def)

lemma loads_trans: "loads ls w w1 \<Longrightarrow> loads ms w1 w2 \<Longrightarrow> loads (ls @ ms) w w2"
  by (auto simp: loads_def)

lemma warn_loads: "loads [] w (snd (warn msg w))"
  by (simp add: warn_def)

lemma get_glibcxx_loads: "loads [] w (snd (get_glibcxx_versions_from_gnu_version_d env p w))"
  by (simp add: get_glibcxx_versions_from_gnu_version_d_def on_stderr_def split: res.split prod.split)

lemma compare_and_load_cases:
  assumes "compare_and_load env al sys shp w = (r, w')"
  obtains "loads [] w w'"
  | v1 w1 v2 w2 h where "get_glibcxx_versions_from_gnu_version_d env sys w = (Ok v1, w1)"
      "get_glibcxx_versions_from_gnu_version_d env shp w1 = (Ok v2, w2)" "ver_less v1 v2" "\<not> al"
      "cdll env (Some shp) = Ok h" "r = Ok ()" "loads [shp] w w'"
proof (cases "get_glibcxx_versions_from_gnu_version_d env sys w")
  case run1: (Pair r1 w1)
  have l1: "loads [] w w1"
    using get_glibcxx_loads [of w env sys] by (simp add: run1)
  obtain r2 w2 where run2: "get_glibcxx_versions_from_gnu_version_d env shp w1 = (r2, w2)"
    by fastforce
  have "loads [] w1 w2"
    using get_glibcxx_loads [of w1 env shp] by (simp add: run2)
  with l1 have l2: "loads [] w w2"
    using loads_trans by fastforce
  have shpw: "loads [shp] w (w2\<lparr>loaded := loaded w2 @ [shp]\<rparr>)"
    using l2 by (auto simp: loads_def)
  show ?thesis
  proof (cases "(\<exists>v1 v2. r1 = Ok v1 \<and> r2 = Ok v2 \<and> ver_less v1 v2) \<and> \<not> al \<and> (\<exists>h. cdll env (Some shp) = Ok h)")
    case True
    then obtain v1 v2 h where v: "r1 = Ok v1" "r2 = Ok v2" "ver_less v1 v2" "\<not> al" "cdll env (Some shp) = Ok h"
      by blast
    then have "r = Ok ()" "w' = w2\<lparr>loaded := loaded w2 @ [shp]\<rparr>"
      using assms by (simp_all add: compare_and_load_def mbind_def try_except_def run1 run2
          load_library_def)
    then show ?thesis
      using that(2) [of v1 w1 v2 w2 h] run1 run2 v shpw by simp
  next
    case False
    have stderr_ok: "loads [] w (w1\<lparr>stderr := es\<rparr>)" "loads [] w (w2\<lparr>stderr := es\<rparr>)" for es
      using l1 l2 by (auto simp: loads_def)
    have "loads [] w w'"
      using assms False l1 l2 stderr_ok
      by (auto simp: compare_and_load_def mbind_def try_except_def run1 run2 load_library_def warn_def
          split: res.splits if_splits prod.splits)
    then show ?thesis
      by (rule that(1))
  qed
qed


section \<open>When the shipped library is loaded\<close>

text \<open>
  The condition under which the module loads the library it ships: on Linux, with the system's
  library found but not loaded, both files present, and the system's newest GLIBCXX version
  below the shipped one's.
\<close>

definition system_older :: "env \<Rightarrow> world \<Rightarrow> pystr \<Rightarrow> pystr \<Rightarrow> bool" where
  "system_older env w sys shp \<longleftrightarrow>
     (case get_glibcxx_versions_from_gnu_version_d env sys w of (r1, w1) \<Rightarrow>
       (case get_glibcxx_versions_from_gnu_version_d env shp w1 of (r2, w2) \<Rightarrow>
         (case (r1, r2) of (Ok v1, Ok v2) \<Rightarrow> ver_less v1 v2 | _ \<Rightarrow> False)))"

definition newer_shipped :: "env \<Rightarrow> world \<Rightarrow> pystr \<Rightarrow> bool" where
  "newer_shipped env w shp \<longleftrightarrow> platform_system env = linux \<and> global_libstdcxx_path w = Some shp \<and>
     (case find_system_libstdcxx env w of
        (Ok (al, Some sys), w1) \<Rightarrow> \<not> al \<and> isfile env shp \<and> isfile env sys \<and> system_older env w1 sys shp
      | _ \<Rightarrow> False)"

text \<open>When the system's library is loaded already, \<^verbatim>\<open>libdl\<close> is loaded to ask where it is.\<close>

definition libdl_load :: "env \<Rightarrow> pystr list" where
  "libdl_load env = (case (cdll_noload env (find_library_stdcxx env), find_library_dl env, cdll env (find_library_dl env)) of
     (Ok _, Some dl, Ok _) \<Rightarrow> [dl] | _ \<Rightarrow> [])"

lemma find_system_loads:
  "loads (libdl_load env) w (snd (find_system_libstdcxx env w))"
  by (auto simp: find_system_libstdcxx_def get_cdll_library_path_def load_library_def try_except_def mbind_def loads_def
      libdl_load_def Let_def split: res.splits option.splits)

lemma find_system_not_loaded:
  assumes "find_system_libstdcxx env w = (Ok (False, p), w1)"
  shows "w1 = w" "libdl_load env = []"
  using assms
  by (auto simp: find_system_libstdcxx_def try_except_def mbind_def libdl_load_def Let_def split: res.splits prod.splits if_splits)

lemma newer_shippedD:
  assumes "newer_shipped env w shp"
  shows "\<exists>sys. platform_system env = linux \<and> global_libstdcxx_path w = Some shp \<and>
    find_system_libstdcxx env w = (Ok (False, Some sys), w) \<and> isfile env shp \<and> isfile env sys \<and> libdl_load env = []"
proof -
  obtain sys w1 where "find_system_libstdcxx env w = (Ok (False, Some sys), w1)" "isfile env shp" "isfile env sys"
    using assms by (auto simp: newer_shipped_def split: prod.splits res.splits option.splits)
  with find_system_not_loaded [OF this(1)] assms show ?thesis
    by (auto simp: newer_shipped_def)
qed

lemma path_warnings_loads:
  "loads [] w (snd (mbind (if valid_path env p then ret () else warn m1)
     (\<lambda>_. if valid_path env q then ret () else warn m2) w))"
  by (simp add: mbind_def warn_def)

text \<open>The function does nothing but find the system's library and warn about the paths, or it compares two existing files.\<close>

definition found_loads :: "env \<Rightarrow> pystr list" where
  "found_loads env = (if platform_system env = linux then libdl_load env else [])"

lemma check_and_load_cases:
  assumes "check_and_load_compatible_libstdcxx_version env w = (r, w')"
  obtains (idle) "loads (found_loads env) w w'" "\<forall>shp. \<not> newer_shipped env w shp"
  | (compare) al sys shp w1 where "platform_system env = linux" "find_system_libstdcxx env w = (Ok (al, Some sys), w1)"
      "global_libstdcxx_path w = Some shp" "isfile env shp" "isfile env sys"
      "compare_and_load env al sys shp w1 = (r, w')"
proof -
  obtain r1 w1 where find: "find_system_libstdcxx env w = (r1, w1)" by fastforce
  have w1: "loads (libdl_load env) w w1"
    using find_system_loads [of env w] find by simp
  then have path: "global_libstdcxx_path w1 = global_libstdcxx_path w"
    by (simp add: loads_def)
  show ?thesis
  proof (cases "\<exists>al sys shp. platform_system env = linux \<and> r1 = Ok (al, Some sys) \<and>
      global_libstdcxx_path w = Some shp \<and> isfile env shp \<and> isfile env sys")
    case True
    then obtain al sys shp where "platform_system env = linux" "r1 = Ok (al, Some sys)"
      "global_libstdcxx_path w = Some shp" "isfile env shp" "isfile env sys"
      by blast
    with assms find path show ?thesis
      by (auto simp: check_and_load_compatible_libstdcxx_version_def mbind_def intro!: that(2))
  next
    case False
    have "loads (found_loads env) w w'"
    proof (cases "platform_system env = linux")
      case linux: True
      have "loads [] w1 w'"
      proof (cases "\<exists>al p. r1 = Ok (al, p)")
        case fine: True
        then obtain al p where r1: "r1 = Ok (al, p)" by blast
        let ?p = "global_libstdcxx_path w"
        have "check_and_load_compatible_libstdcxx_version env w =
            mbind (if valid_path env ?p then ret () else warn (shipped_path_warning ?p))
              (\<lambda>_. if valid_path env p then ret () else warn (system_path_warning p)) w1"
          using False linux find path r1
          by (cases ?p; cases p) (auto simp: check_and_load_compatible_libstdcxx_version_def
              mbind_def [of "find_system_libstdcxx env"] mbind_def [of "\<lambda>w. (Ok (global_libstdcxx_path w), w)"])
        with assms path_warnings_loads [of w1 env ?p "shipped_path_warning ?p" p "system_path_warning p"] show ?thesis
          by simp
      next
        case bad: False
        have "w' = w1"
        proof (cases r1)
          case (Ok x)
          with bad show ?thesis by (cases x) simp
        qed (use assms linux find in \<open>simp_all add: check_and_load_compatible_libstdcxx_version_def mbind_def\<close>)
        then show ?thesis by simp
      qed
      with loads_trans [OF w1 this] linux show ?thesis by (simp add: found_loads_def)
    qed (use assms in \<open>simp add: check_and_load_compatible_libstdcxx_version_def found_loads_def\<close>)
    moreover have "\<not> newer_shipped env w shp" for shp
    proof
      assume "newer_shipped env w shp"
      from newer_shippedD [OF this] False find show False by auto
    qed
    ultimately show ?thesis by (intro that(1)) blast+
  qed
qed

lemma compare_and_load_iff:
  assumes "find_system_libstdcxx env w = (Ok (al, Some sys), w0)" "global_libstdcxx_path w = Some shp"
    "platform_system env = linux" "isfile env shp" "isfile env sys"
  shows "loaded (snd (compare_and_load env al sys shp w0)) =
    loaded w0 @ (if newer_shipped env w shp \<and> (\<exists>h. cdll env (Some shp) = Ok h) then [shp] else [])"
proof (cases "compare_and_load env al sys shp w0")
  case (Pair r w')
  then show ?thesis
  proof (cases rule: compare_and_load_cases)
    case 1
    have "\<not> (newer_shipped env w shp \<and> (\<exists>h. cdll env (Some shp) = Ok h))"
    proof
      assume new: "newer_shipped env w shp \<and> (\<exists>h. cdll env (Some shp) = Ok h)"
      obtain r1 w1 r2 w2 where runs: "get_glibcxx_versions_from_gnu_version_d env sys w0 = (r1, w1)"
        "get_glibcxx_versions_from_gnu_version_d env shp w1 = (r2, w2)" by fastforce
      with new assms obtain v1 v2 h where "r1 = Ok v1" "r2 = Ok v2" "ver_less v1 v2" "\<not> al" "cdll env (Some shp) = Ok h"
        by (auto simp: newer_shipped_def system_older_def split: res.splits)
      then have "w' = w2\<lparr>loaded := loaded w2 @ [shp]\<rparr>"
        using Pair runs by (simp add: compare_and_load_def mbind_def try_except_def load_library_def)
      moreover have "loads [] w0 w1" "loads [] w1 w2"
        using get_glibcxx_loads [of w0 env sys] get_glibcxx_loads [of w1 env shp] runs by simp_all
      ultimately show False
        using 1 by (simp add: loads_def)
    qed
    with 1 Pair show ?thesis
      by (simp add: loads_def)
  next
    case (2 v1 w1 v2 w2 h)
    then have "newer_shipped env w shp"
      using assms by (simp add: newer_shipped_def system_older_def)
    with 2 Pair show ?thesis
      by (auto simp: loads_def)
  qed
qed

definition shipped_load :: "env \<Rightarrow> world \<Rightarrow> pystr list" where
  "shipped_load env w = (case global_libstdcxx_path w of
     Some shp \<Rightarrow> if newer_shipped env w shp \<and> (\<exists>h. cdll env (Some shp) = Ok h) then [shp] else []
   | None \<Rightarrow> [])"

lemma check_and_load_loads:
  "loads (found_loads env @ shipped_load env w) w (snd (check_and_load_compatible_libstdcxx_version env w))"
proof (cases "check_and_load_compatible_libstdcxx_version env w")
  case (Pair r w')
  then show ?thesis
  proof (cases rule: check_and_load_cases)
    case idle
    have "shipped_load env w = []"
      using idle(2) by (simp add: shipped_load_def split: option.split)
    with idle Pair show ?thesis by simp
  next
    case (compare al sys shp w1)
    have w1: "loads (libdl_load env) w w1"
      using find_system_loads [of env w] compare(2) by simp
    have "loaded w' = loaded w1 @ shipped_load env w"
      using compare_and_load_iff [OF compare(2,3,1,4,5)] by (simp add: compare shipped_load_def)
    moreover have "\<exists>ls. loads ls w1 w'"
      using compare(6) by (cases rule: compare_and_load_cases) blast+
    ultimately have "loads (shipped_load env w) w1 w'"
      by (auto simp: loads_def)
    with loads_trans [OF w1 this] Pair compare(1) show ?thesis by (simp add: found_loads_def)
  qed
qed

text \<open>At most one of the two is loaded: \<^verbatim>\<open>libdl\<close> when the system's library is loaded already, the shipped library when not.\<close>

lemma check_and_load_cases_loaded:
  "found_loads env @ shipped_load env w = [] \<or>
   (\<exists>shp. global_libstdcxx_path w = Some shp \<and> found_loads env @ shipped_load env w = [shp]) \<or>
   (\<exists>dl h. find_library_dl env = Some dl \<and> cdll_noload env (find_library_stdcxx env) = Ok h \<and>
      found_loads env @ shipped_load env w = [dl])"
proof (cases "shipped_load env w = []")
  case True
  then show ?thesis
    by (auto simp: found_loads_def libdl_load_def split: res.splits option.splits)
next
  case False
  then obtain shp where shp: "global_libstdcxx_path w = Some shp" "newer_shipped env w shp" "shipped_load env w = [shp]"
    by (auto simp: shipped_load_def split: option.splits if_splits)
  with newer_shippedD [OF shp(2)] show ?thesis
    by (auto simp: found_loads_def)
qed

section \<open>The hook\<close>

text \<open>
  A call of \<open>check_shared_lib_dependencies\<close> asks for nothing but text on \<^verbatim>\<open>stderr\<close>, unless the
  library is \<^verbatim>\<open>libstdc++.so.6\<close> or depends on it; then the hook is disabled for good.
\<close>

definition depends_on_libstdcxx :: "env \<Rightarrow> pystr \<Rightarrow> bool" where
  "depends_on_libstdcxx env lib_path \<longleftrightarrow> basename lib_path = libstdcxx_name \<or>
     (path_exists env lib_path \<and>
      (case ldd env lib_path of Ok out \<Rightarrow> occurs_in libstdcxx_name out | _ \<Rightarrow> False))"

lemma check_shared_libstdcxx:
  "basename p = libstdcxx_name \<Longrightarrow> check_shared_lib_dependencies env p w =
     check_and_load_compatible_libstdcxx_version env (w\<lparr>global_disable_audit_hook := True\<rparr>)"
  by (simp add: check_shared_lib_dependencies.simps mbind_def disable_hook_def)

lemma check_shared_yes:
  assumes "depends_on_libstdcxx env p"
  shows "check_shared_lib_dependencies env p w =
     check_and_load_compatible_libstdcxx_version env (w\<lparr>global_disable_audit_hook := True\<rparr>)"
  using assms
  by (subst check_shared_lib_dependencies.simps)
    (auto simp: depends_on_libstdcxx_def check_shared_libstdcxx mbind_def disable_hook_def split: res.splits)

lemma check_shared_no:
  assumes "\<not> depends_on_libstdcxx env p"
  shows "loads [] w (snd (check_shared_lib_dependencies env p w))"
  using assms
  by (subst check_shared_lib_dependencies.simps)
    (auto simp: depends_on_libstdcxx_def warn_def split: res.splits)

text \<open>The file an event is about, and the library when it is one the hook looks at.\<close>

definition event_file :: "pystr \<Rightarrow> val list \<Rightarrow> val option" where
  "event_file event args =
     (if event = lit ''import'' \<and> length args > 1 then Some (args ! 1)
      else if event = lit ''sys.dlload'' \<and> length args > 0 then Some (args ! 0) else None)"

definition event_library :: "pystr \<Rightarrow> val list \<Rightarrow> pystr option" where
  "event_library event args = (case event_file event args of
     Some (VStr s) \<Rightarrow> if ends_with so_suffix s then Some s else None
   | _ \<Rightarrow> None)"

lemma so_suffix_empty: "\<not> ends_with so_suffix []"
  by (simp add: ends_with_iff so_suffix_def)

lemma audit_hook_disabled: "global_disable_audit_hook w \<Longrightarrow> audit_hook env event args w = (Ok (), w)"
  by (simp add: audit_hook_def)

lemma audit_hook_file:
  "audit_hook env event args w = (if global_disable_audit_hook w then (Ok (), w)
     else case event_file event args of None \<Rightarrow> (Ok (), w)
       | Some f \<Rightarrow> mbind (lift_res (is_shared_library f)) (\<lambda>hit.
           (case f of VStr s \<Rightarrow> if hit then check_shared_lib_dependencies env s else ret ()
            | _ \<Rightarrow> ret ())) w)"
  by (simp only: audit_hook_def event_file_def Let_def)

lemma audit_hook_ignored:
  assumes "event_library event args = None"
  shows "snd (audit_hook env event args w) = w"
proof (cases "event_file event args")
  case (Some f)
  with assms show ?thesis
    by (cases f) (simp_all add: audit_hook_file event_library_def is_shared_library_def split: if_splits)
qed (simp add: audit_hook_file)

lemma audit_hook_library:
  assumes "event_library event args = Some p" "\<not> global_disable_audit_hook w"
  shows "audit_hook env event args w = check_shared_lib_dependencies env p w"
proof (cases "event_file event args")
  case (Some f)
  with assms so_suffix_empty show ?thesis
    by (cases f) (auto simp: audit_hook_file event_library_def is_shared_library_def split: if_splits)
qed (use assms in \<open>simp add: event_library_def\<close>)

section \<open>The state machine\<close>

text \<open>The environments that the events may meet are the set \<open>E\<close>.\<close>

inductive hook_step :: "env set \<Rightarrow> world \<Rightarrow> world \<Rightarrow> bool" for E where
  event: "env \<in> E \<Longrightarrow> audit_hook env event args w = (r, w') \<Longrightarrow> hook_step E w w'"

inductive_simps hook_step_iff: "hook_step E w w'"

inductive_cases hook_stepE [elim!]: "hook_step E w w'"

lemma hook_stepI: "env \<in> E \<Longrightarrow> hook_step E w (snd (audit_hook env event args w))"
  by (rule hook_step.event) (assumption, rule prod.collapse [symmetric])

text \<open>One event: nothing but text, or the hook is disabled and the library perhaps loaded.\<close>

lemma audit_hook_effect:
  fixes w :: world
  defines "w1 \<equiv> w\<lparr>global_disable_audit_hook := True\<rparr>"
  assumes "audit_hook env event args w = (r, w')"
  obtains (idle) "loads [] w w'"
  | (check) p where "\<not> global_disable_audit_hook w" "event_library event args = Some p"
      "depends_on_libstdcxx env p" "loads (found_loads env @ shipped_load env w1) w1 w'"
proof (cases "event_library event args")
  case None
  then have "loads [] w w'"
    using assms audit_hook_ignored [of event args env w] by simp
  then show ?thesis by (rule idle)
next
  case (Some p)
  consider "global_disable_audit_hook w"
    | "\<not> global_disable_audit_hook w" "\<not> depends_on_libstdcxx env p"
    | "\<not> global_disable_audit_hook w" "depends_on_libstdcxx env p" by blast
  then show ?thesis
  proof cases
    case 1
    then show ?thesis
      using assms idle by (simp add: audit_hook_disabled)
  next
    case 2
    then show ?thesis
      using assms idle check_shared_no [OF 2(2), of w] by (simp add: audit_hook_library [OF Some])
  next
    case 3
    then have "loads (found_loads env @ shipped_load env w1) w1 w'"
      using assms check_and_load_loads [of env w1]
      by (simp add: audit_hook_library [OF Some] check_shared_yes)
    with 3 Some show ?thesis by (intro check)
  qed
qed

text \<open>
  What holds of the process after any number of events: the path and the registration are as they
  were, and while the hook is enabled nothing has been loaded; afterwards at most one library, the one at
  the path, or \<^verbatim>\<open>libdl\<close> when the system's library had been loaded before.
\<close>

definition hook_inv :: "env set \<Rightarrow> world \<Rightarrow> world \<Rightarrow> bool" where
  "hook_inv E w0 w \<longleftrightarrow> global_libstdcxx_path w = global_libstdcxx_path w0 \<and> hooks w = hooks w0 \<and>
     (loaded w = loaded w0 \<or> global_disable_audit_hook w \<and>
        (\<exists>l. loaded w = loaded w0 @ [l] \<and> (global_libstdcxx_path w0 = Some l \<or>
           (\<exists>env \<in> E. find_library_dl env = Some l \<and> (\<exists>h. cdll_noload env (find_library_stdcxx env) = Ok h)))))"

lemma hook_inv_refl [simp]: "hook_inv E w w"
  by (simp add: hook_inv_def)

lemma hook_inv_step:
  assumes "hook_step E w w'" "hook_inv E w0 w"
  shows "hook_inv E w0 w'"
proof -
  from assms(1) obtain env event args r where env: "env \<in> E" and "audit_hook env event args w = (r, w')"
    by (auto simp: hook_step_iff)
  from this(2) show ?thesis
  proof (cases rule: audit_hook_effect)
    case idle
    with assms(2) show ?thesis
      by (auto simp: hook_inv_def loads_def)
  next
    case (check p)
    let ?w = "w\<lparr>global_disable_audit_hook := True\<rparr>"
    have keep: "loaded w = loaded w0" "global_libstdcxx_path w = global_libstdcxx_path w0" "hooks w = hooks w0"
      using check(1) assms(2) by (auto simp: hook_inv_def)
    consider "found_loads env @ shipped_load env ?w = []"
      | shp where "global_libstdcxx_path ?w = Some shp" "found_loads env @ shipped_load env ?w = [shp]"
      | dl h where "find_library_dl env = Some dl" "cdll_noload env (find_library_stdcxx env) = Ok h"
        "found_loads env @ shipped_load env ?w = [dl]"
      using check_and_load_cases_loaded [of env ?w] by blast
    then show ?thesis
      by cases (use check(4) keep env in \<open>auto simp: hook_inv_def loads_def\<close>)
  qed
qed

interpretation hook: preserved "hook_step E" "hook_inv E w0" for E w0
  by unfold_locales (rule hook_inv_step)

interpretation disabled: preserved "hook_step E" "\<lambda>w. global_disable_audit_hook w0 \<longrightarrow> w = w0" for E w0
  by unfold_locales (auto simp: audit_hook_disabled)

end
