(* ===== verification/AuditSamples.thy ===== *)
theory AuditSamples
  imports AuditVersions
begin

text \<open>
  Two small shared libraries (32-bit, little-endian: header, version definitions, strings, three
  section headers), their version names computed from their bytes by the parser, and a file that
  is not a library.  The concrete instances of the properties use them.
\<close>

text \<open>Version definitions \<^verbatim>\<open>GLIBCXX_3.4.30\<close> and \<^verbatim>\<open>CXXABI_1.3\<close>.\<close>

definition new_file :: bytes where
  "new_file = [
    127, 69, 76, 70, 1, 1, 1, 0, 0, 0, 0, 0, 0, 0, 0, 0, 3, 0, 3, 0, 1, 0, 0, 0, 0, 0, 0, 0, 0,
    0, 0, 0, 160, 0, 0, 0, 0, 0, 0, 0, 52, 0, 32, 0, 0, 0, 40, 0, 3, 0, 1, 0, 1, 0, 0, 0, 1, 0,
    1, 0, 0, 0, 0, 0, 20, 0, 0, 0, 28, 0, 0, 0, 26, 0, 0, 0, 0, 0, 0, 0, 1, 0, 0, 0, 2, 0, 1, 0,
    0, 0, 0, 0, 20, 0, 0, 0, 0, 0, 0, 0, 41, 0, 0, 0, 0, 0, 0, 0, 0, 46, 115, 104, 115, 116, 114,
    116, 97, 98, 0, 46, 103, 110, 117, 46, 118, 101, 114, 115, 105, 111, 110, 95, 100, 0, 71, 76,
    73, 66, 67, 88, 88, 95, 51, 46, 52, 46, 51, 48, 0, 67, 88, 88, 65, 66, 73, 95, 49, 46, 51, 0,
    0, 0, 0, 0, 0, 0, 0, 0, 0, 0, 0, 0, 0, 0, 0, 0, 0, 0, 0, 0, 0, 0, 0, 0, 0, 0, 0, 0, 0, 0, 0,
    0, 0, 0, 0, 0, 0, 0, 0, 0, 1, 0, 0, 0, 3, 0, 0, 0, 0, 0, 0, 0, 0, 0, 0, 0, 108, 0, 0, 0, 52,
    0, 0, 0, 0, 0, 0, 0, 0, 0, 0, 0, 1, 0, 0, 0, 0, 0, 0, 0, 11, 0, 0, 0, 253, 255, 255, 111, 2,
    0, 0, 0, 0, 0, 0, 0, 52, 0, 0, 0, 56, 0, 0, 0, 1, 0, 0, 0, 2, 0, 0, 0, 4, 0, 0, 0, 0, 0, 0, 0]"

text \<open>The version definition \<^verbatim>\<open>GLIBCXX_3.4.9\<close>.\<close>

definition old_file :: bytes where
  "old_file = [
    127, 69, 76, 70, 1, 1, 1, 0, 0, 0, 0, 0, 0, 0, 0, 0, 3, 0, 3, 0, 1, 0, 0, 0, 0, 0, 0, 0, 0,
    0, 0, 0, 120, 0, 0, 0, 0, 0, 0, 0, 52, 0, 32, 0, 0, 0, 40, 0, 3, 0, 1, 0, 1, 0, 0, 0, 1, 0,
    1, 0, 0, 0, 0, 0, 20, 0, 0, 0, 0, 0, 0, 0, 26, 0, 0, 0, 0, 0, 0, 0, 0, 46, 115, 104, 115,
    116, 114, 116, 97, 98, 0, 46, 103, 110, 117, 46, 118, 101, 114, 115, 105, 111, 110, 95, 100,
    0, 71, 76, 73, 66, 67, 88, 88, 95, 51, 46, 52, 46, 57, 0, 0, 0, 0, 0, 0, 0, 0, 0, 0, 0, 0, 0,
    0, 0, 0, 0, 0, 0, 0, 0, 0, 0, 0, 0, 0, 0, 0, 0, 0, 0, 0, 0, 0, 0, 0, 0, 0, 0, 0, 0, 1, 0, 0,
    0, 3, 0, 0, 0, 0, 0, 0, 0, 0, 0, 0, 0, 80, 0, 0, 0, 40, 0, 0, 0, 0, 0, 0, 0, 0, 0, 0, 0, 1,
    0, 0, 0, 0, 0, 0, 0, 11, 0, 0, 0, 253, 255, 255, 111, 2, 0, 0, 0, 0, 0, 0, 0, 52, 0, 0, 0,
    28, 0, 0, 0, 1, 0, 0, 0, 1, 0, 0, 0, 4, 0, 0, 0, 0, 0, 0, 0]"

definition script_file :: bytes where
  "script_file = [35, 33, 47, 98, 105, 110, 47, 115, 104, 10]"

abbreviation new_names :: "pystr list" where
  "new_names \<equiv> [lit ''GLIBCXX_3.4.30'', lit ''CXXABI_1.3'']"

abbreviation old_names :: "pystr list" where
  "old_names \<equiv> [lit ''GLIBCXX_3.4.9'']"

lemma new_file_names: "version_names new_file = Ok new_names"
  by code_simp

lemma old_file_names: "version_names old_file = Ok old_names"
  by code_simp

lemma new_file_version: "glibcxx_of_contents new_file err = (Ok (3, 4, 30), err)"
proof (rule glibcxx_of_contents_scan [OF new_file_names])
  show "scan_list new_names ((0, 0, 0), err) = Some ((3, 4, 30), err)"
    by code_simp
qed

lemma old_file_version: "glibcxx_of_contents old_file err = (Ok (3, 4, 9), err)"
proof (rule glibcxx_of_contents_scan [OF old_file_names])
  show "scan_list old_names ((0, 0, 0), err) = Some ((3, 4, 9), err)"
    by code_simp
qed

text \<open>What does not begin with the ELF magic number is rejected before anything else is read.\<close>

lemma identify_file_magic:
  assumes "take 4 (sdata s) \<noteq> [0x7f, 0x45, 0x4c, 0x46]"
  shows "fst (identify_file s) = Err ELFError"
  using assms by (simp add: identify_file_def mbind_def s_seek_def s_read_def Let_def elf_assert_def)

lemma glibcxx_bad_magic:
  assumes "take 4 data \<noteq> [0x7f, 0x45, 0x4c, 0x46]"
  shows "glibcxx_of_contents data err = (Err ELFError, err)"
proof -
  have "fst (identify_file ((bytesio data)\<lparr>spos := length data\<rparr>)) = Err ELFError"
    by (rule identify_file_magic) (simp add: assms)
  then show ?thesis
    by (simp add: glibcxx_of_contents_def mbind_def in_file_run ELFFile_init_def on_file_run s_seek_end_def)
qed

section \<open>A process\<close>

text \<open>A Linux machine: where its libraries are, what they contain, and what its tools answer.\<close>

definition system_path :: pystr where "system_path = lit ''/usr/lib/libstdc++.so.6''"
definition shipped_path :: pystr where "shipped_path = lit ''/opt/libstdc++.so.6''"
definition module_path :: pystr where "module_path = lit ''/opt/m.so''"

definition sample_env :: env where
  "sample_env = \<lparr>platform_system = linux, find_library_stdcxx = Some libstdcxx_name,
     find_library_dl = Some (lit ''libdl.so.2''), cdll_noload = (\<lambda>_. Err OSError),
     dlinfo = (\<lambda>_ _. Ok (Some (Some (map (\<lambda>c. word_of_int c) system_path)))),
     os_environ = [(lit ''PYTHONPATH'', lit ''/opt''), (lit ''HOME'', lit ''/root'')],
     run_self = (\<lambda>e. if pythonpath \<in> fst ` set e then Err CalledProcessError else Ok (system_path @ [10])),
     isfile = (\<lambda>p. p \<in> {system_path, shipped_path, module_path}),
     path_exists = (\<lambda>p. p \<in> {system_path, shipped_path, module_path}),
     file_contents = (\<lambda>p. if p = system_path then Ok old_file
                          else if p = shipped_path then Ok new_file else Ok script_file),
     cdll = (\<lambda>_. Ok 1), ldd = (\<lambda>_. Ok (lit ''libstdc++.so.6 => /usr/lib/libstdc++.so.6''))\<rparr>"

definition sample_world :: world where
  "sample_world = \<lparr>global_libstdcxx_path = Some shipped_path, global_disable_audit_hook = False,
     loaded = [], hooks = 1, stderr = []\<rparr>"

lemma sample_paths [simp]:
  "system_path \<noteq> shipped_path" "shipped_path \<noteq> system_path" "module_path \<noteq> system_path"
  "module_path \<noteq> shipped_path"
  by (simp_all add: system_path_def shipped_path_def module_path_def)

lemma sample_find: "find_system_libstdcxx sample_env w = (Ok (False, Some system_path), w)"
proof -
  have "cdll_noload sample_env (find_library_stdcxx sample_env) = Err OSError" by (simp add: sample_env_def)
  moreover have "ask_subprocess sample_env = Ok (Some system_path)" by code_simp
  ultimately show ?thesis by (simp add: find_system_libstdcxx_def mbind_def)
qed

lemma sample_versions:
  "get_glibcxx_versions_from_gnu_version_d sample_env system_path w = (Ok (3, 4, 9), w)"
  "get_glibcxx_versions_from_gnu_version_d sample_env shipped_path w = (Ok (3, 4, 30), w)"
  by (simp_all add: get_glibcxx_versions_from_gnu_version_d_def sample_env_def on_stderr_def
      old_file_version new_file_version)

end
