(* ===== verification/AuditProperties.thy ===== *)
theory AuditProperties
  imports AuditHook AuditSamples
begin

text \<open>
  The properties of the audit hook (\<^verbatim>\<open>pyaudit/audit_libstdcxx.py\<close>): which library it loads and when,
  what it never does, and how its parts fail.
\<close>

section \<open>Versions\<close>

text \<open>C1: when the names in the version definition section can be read and each of them that
  mentions \<^verbatim>\<open>GLIBCXX_\<close> ends in a version, \<^verbatim>\<open>get_glibcxx_versions_from_gnu_version_d\<close> returns one of
  those versions, or (0, 0, 0), and none of them is greater in the numeric order.\<close>

theorem newest_version:
  assumes "version_names data = Ok names"
    and "\<And>n. n \<in> set names \<Longrightarrow> occurs_in glibcxx n \<Longrightarrow> name_version n \<noteq> None"
  shows "\<exists>m err'. glibcxx_of_contents data err = (Ok m, err') \<and>
    (\<forall>n \<in> set names. \<forall>v. name_version n = Some v \<longrightarrow> \<not> ver_less m v) \<and>
    (m = (0, 0, 0) \<or> (\<exists>n \<in> set names. name_version n = Some m))"
proof -
  obtain m err' where scan: "scan_list names ((0, 0, 0), err) = Some (m, err')"
    using scan_list_total [of names] assms(2) by blast
  from glibcxx_of_contents_scan [OF assms(1) scan] scan_list_max [OF scan] show ?thesis
    by blast
qed

lemma new_name_versions:
  "name_version (lit ''GLIBCXX_3.4.30'') = Some (3, 4, 30)" "name_version (lit ''CXXABI_1.3'') = None"
  "\<not> occurs_in glibcxx (lit ''CXXABI_1.3'')"
  by code_simp+

theorem newest_version_witness:
  "\<exists>m err'. glibcxx_of_contents new_file [] = (Ok m, err') \<and>
    (\<forall>n \<in> set new_names. \<forall>v. name_version n = Some v \<longrightarrow> \<not> ver_less m v) \<and>
    (m = (0, 0, 0) \<or> (\<exists>n \<in> set new_names. name_version n = Some m))"
  by (rule newest_version [OF new_file_names]) (auto simp: new_name_versions)

text \<open>C4: a system library that does not begin with the ELF magic number makes the version lookup raise
  \<^verbatim>\<open>ELFError\<close>, which is not a \<^verbatim>\<open>ValueError\<close> and so is not caught: an audit event about a library that depends on
  \<^verbatim>\<open>libstdc++.so.6\<close> raises it out of the audit hook, which is disabled by then and has loaded nothing but what finding the
  system's library took.\<close>

theorem malformed_system_library_escapes:
  assumes "\<not> global_disable_audit_hook w" "event_library event args = Some p" "depends_on_libstdcxx env p"
    and "platform_system env = linux"
    and "find_system_libstdcxx env (w\<lparr>global_disable_audit_hook := True\<rparr>) = (Ok (al, Some sys), w1)"
    and "global_libstdcxx_path w = Some shp" "isfile env shp" "isfile env sys"
    and "file_contents env sys = Ok data" "take 4 data \<noteq> [0x7f, 0x45, 0x4c, 0x46]"
  shows "audit_hook env event args w = (Err ELFError, w1) \<and> global_disable_audit_hook w1 \<and> loaded w1 = loaded w @ libdl_load env"
proof -
  have w1: "loads (libdl_load env) (w\<lparr>global_disable_audit_hook := True\<rparr>) w1"
    using find_system_loads [of env "w\<lparr>global_disable_audit_hook := True\<rparr>"] assms(5) by simp
  then have "global_libstdcxx_path w1 = Some shp"
    using assms(6) by (simp add: loads_def)
  then have "audit_hook env event args w = (Err ELFError, w1)"
    using assms
    by (simp add: audit_hook_library check_shared_yes check_and_load_compatible_libstdcxx_version_def compare_and_load_def
        mbind_def try_except_def get_glibcxx_versions_from_gnu_version_d_def on_stderr_def glibcxx_bad_magic)
  with w1 show ?thesis by (simp add: loads_def)
qed

section \<open>Loading\<close>

text \<open>C3: \<^verbatim>\<open>check_and_load_compatible_libstdcxx_version\<close> changes nothing of the process but what is loaded and what
  is on \<^verbatim>\<open>stderr\<close>.  It loads \<^verbatim>\<open>libdl\<close> (\<open>found_loads\<close>) exactly when, on Linux, the system's library is loaded already
  and the dynamic linker finds and accepts \<^verbatim>\<open>libdl\<close>; and then the shipped library (\<open>shipped_load\<close>) exactly when the platform is
  Linux, the system's library was found but not loaded, both are files, the system's newest version
  is smaller than the shipped one's, and the dynamic linker accepts the file; never both.\<close>

theorem check_and_load_exactly:
  "let w' = snd (check_and_load_compatible_libstdcxx_version env w) in
    loaded w' = loaded w @ found_loads env @ shipped_load env w \<and> (found_loads env = [] \<or> shipped_load env w = []) \<and>
    global_libstdcxx_path w' = global_libstdcxx_path w \<and>
    global_disable_audit_hook w' = global_disable_audit_hook w \<and> hooks w' = hooks w"
  using check_and_load_loads [of env w] check_and_load_cases_loaded [of env w]
  by (auto simp: loads_def Let_def append_eq_Cons_conv)

text \<open>C5: the process that finds the system's library is never run with \<^verbatim>\<open>PYTHONPATH\<close> set: what
  \<^verbatim>\<open>find_system_libstdcxx\<close> returns does not depend on how a process with that variable behaves.\<close>

theorem subprocess_without_pythonpath:
  assumes "\<And>e. pythonpath \<notin> fst ` set e \<Longrightarrow> run_self env e = f e"
  shows "find_system_libstdcxx env = find_system_libstdcxx (env\<lparr>run_self := f\<rparr>)"
proof -
  have "run_self env (AList.delete pythonpath (os_environ env)) = f (AList.delete pythonpath (os_environ env))"
    by (rule assms) (simp add: delete_keys flip: set_map)
  then have "ask_subprocess env = ask_subprocess (env\<lparr>run_self := f\<rparr>)"
    by (simp add: ask_subprocess_def)
  moreover have "get_cdll_library_path env = get_cdll_library_path (env\<lparr>run_self := f\<rparr>)"
    by (simp add: get_cdll_library_path_def load_library_def fun_eq_iff)
  ultimately show ?thesis
    by (simp add: find_system_libstdcxx_def cong: res.case_cong)
qed

theorem subprocess_without_pythonpath_witness:
  "find_system_libstdcxx sample_env = find_system_libstdcxx (sample_env\<lparr>run_self := \<lambda>_. Ok (system_path @ [10])\<rparr>)"
  by (rule subprocess_without_pythonpath) (simp add: sample_env_def)

section \<open>The hook\<close>

text \<open>C2: over any sequence of audit events, in environments out of \<open>E\<close> that may change between them, the
  configured path and the registration stay, and at most one library is loaded, after which the hook is disabled: the
  one at the configured path, or, in an environment where the system's library is loaded already, \<^verbatim>\<open>libdl\<close> to ask for its path.\<close>

theorem hook_loads_at_most_once:
  assumes "(hook_step E)\<^sup>*\<^sup>* w0 w"
  shows "global_libstdcxx_path w = global_libstdcxx_path w0 \<and> hooks w = hooks w0 \<and>
    (loaded w = loaded w0 \<or> global_disable_audit_hook w \<and>
       (\<exists>l. loaded w = loaded w0 @ [l] \<and> (global_libstdcxx_path w0 = Some l \<or>
          (\<exists>env \<in> E. find_library_dl env = Some l \<and> (\<exists>h. cdll_noload env (find_library_stdcxx env) = Ok h)))))"
  using hook.inv_steps [OF assms hook_inv_refl] by (simp add: hook_inv_def)

lemma sample_event: "event_library (lit ''import'') [VStr (lit ''m''), VStr module_path] = Some module_path"
  by code_simp

lemma sample_depends: "depends_on_libstdcxx sample_env module_path"
  by code_simp

lemma sample_shipped_load:
  "shipped_load sample_env (sample_world\<lparr>global_disable_audit_hook := True\<rparr>) = [shipped_path]"
proof -
  have "system_older sample_env (sample_world\<lparr>global_disable_audit_hook := True\<rparr>) system_path shipped_path"
    by (simp add: system_older_def sample_versions)
  then have "newer_shipped sample_env (sample_world\<lparr>global_disable_audit_hook := True\<rparr>) shipped_path"
    by (simp add: newer_shipped_def sample_find) (simp add: sample_env_def sample_world_def)
  then show ?thesis
    by (simp add: shipped_load_def) (simp add: sample_env_def sample_world_def)
qed

lemma sample_run:
  "snd (audit_hook sample_env (lit ''import'') [VStr (lit ''m''), VStr module_path] sample_world)
     = sample_world\<lparr>global_disable_audit_hook := True, loaded := [shipped_path]\<rparr>"
proof -
  have run: "audit_hook sample_env (lit ''import'') [VStr (lit ''m''), VStr module_path] sample_world =
    check_and_load_compatible_libstdcxx_version sample_env (sample_world\<lparr>global_disable_audit_hook := True\<rparr>)"
    by (subst audit_hook_library [OF sample_event])
      (simp add: sample_world_def, rule check_shared_yes [OF sample_depends])
  have fields: "platform_system sample_env = linux" "isfile sample_env shipped_path"
      "isfile sample_env system_path" "cdll sample_env (Some shipped_path) = Ok 1"
      "global_libstdcxx_path sample_world = Some shipped_path" "loaded sample_world = []"
    by (simp_all add: sample_env_def sample_world_def)
  show ?thesis
    by (simp add: run check_and_load_compatible_libstdcxx_version_def sample_find compare_and_load_def
        mbind_def try_except_def sample_versions load_library_def fields)
qed

theorem hook_loads_at_most_once_witness:
  "loaded sample_world = [] \<and>
   (let w = sample_world\<lparr>global_disable_audit_hook := True, loaded := [shipped_path]\<rparr> in
    global_libstdcxx_path w = global_libstdcxx_path sample_world \<and> hooks w = hooks sample_world \<and>
    (loaded w = loaded sample_world \<or> global_disable_audit_hook w \<and>
       (\<exists>l. loaded w = loaded sample_world @ [l] \<and> (global_libstdcxx_path sample_world = Some l \<or>
          (\<exists>env \<in> {sample_env}. find_library_dl env = Some l \<and> (\<exists>h. cdll_noload env (find_library_stdcxx env) = Ok h))))))"
proof -
  have "(hook_step {sample_env})\<^sup>*\<^sup>* sample_world (sample_world\<lparr>global_disable_audit_hook := True, loaded := [shipped_path]\<rparr>)"
    using hook_stepI [of sample_env "{sample_env}" sample_world "lit ''import''" "[VStr (lit ''m''), VStr module_path]"]
    by (simp add: sample_run)
  from hook_loads_at_most_once [OF this] show ?thesis
    by (simp add: Let_def) (simp add: sample_world_def)
qed

theorem malformed_system_library_escapes_witness:
  "let env = sample_env\<lparr>file_contents := \<lambda>_. Ok script_file\<rparr>; w1 = sample_world\<lparr>global_disable_audit_hook := True\<rparr> in
   audit_hook env (lit ''import'') [VStr (lit ''m''), VStr module_path] sample_world = (Err ELFError, w1) \<and>
     global_disable_audit_hook w1 \<and> loaded w1 = loaded sample_world @ libdl_load env"
proof -
  let ?env = "sample_env\<lparr>file_contents := \<lambda>_. Ok script_file\<rparr>"
  have "depends_on_libstdcxx ?env module_path"
    using sample_depends by (simp add: depends_on_libstdcxx_def)
  moreover have "find_system_libstdcxx ?env (sample_world\<lparr>global_disable_audit_hook := True\<rparr>) =
      (Ok (False, Some system_path), sample_world\<lparr>global_disable_audit_hook := True\<rparr>)"
    using sample_find [of "sample_world\<lparr>global_disable_audit_hook := True\<rparr>"]
    by (simp add: find_system_libstdcxx_def ask_subprocess_def get_cdll_library_path_def load_library_def cong: res.case_cong)
  moreover have "take 4 script_file \<noteq> [0x7f, 0x45, 0x4c, 0x46]"
    by code_simp
  ultimately show ?thesis
    unfolding Let_def
    by (intro malformed_system_library_escapes [OF _ sample_event]) (auto simp: sample_env_def sample_world_def)
qed

text \<open>Once the hook is disabled no sequence of events changes anything.\<close>

theorem disabled_hook_is_inert:
  assumes "(hook_step E)\<^sup>*\<^sup>* w0 w" "global_disable_audit_hook w0"
  shows "w = w0"
  using disabled.inv_steps [OF assms(1)] assms(2) by blast

theorem disabled_hook_is_inert_witness:
  "let w0 = sample_world\<lparr>global_disable_audit_hook := True\<rparr> in
   snd (audit_hook sample_env (lit ''import'') [VStr (lit ''m''), VStr module_path] w0) = w0"
  unfolding Let_def
  by (rule disabled_hook_is_inert [OF r_into_rtranclp], rule hook_stepI [where E = UNIV]) simp_all

text \<open>An event changes the process only when it is an \<^verbatim>\<open>import\<close> whose second argument, or a
  \<^verbatim>\<open>sys.dlload\<close> whose first argument, is a string that ends in \<^verbatim>\<open>.so\<close>, and the hook is enabled; a
  versioned library name, like the \<^verbatim>\<open>libstdc++.so.6\<close> the module is about, does not end so.\<close>

theorem hook_ignores:
  assumes "snd (audit_hook env event args w) \<noteq> w"
  shows "\<not> global_disable_audit_hook w \<and>
    (\<exists>p. ends_with so_suffix p \<and> \<not> ends_with so_suffix (p @ lit ''.6'') \<and>
       (event = lit ''import'' \<and> length args > 1 \<and> args ! 1 = VStr p \<or>
        event = lit ''sys.dlload'' \<and> length args > 0 \<and> args ! 0 = VStr p))"
proof -
  have "event_library event args \<noteq> None" "\<not> global_disable_audit_hook w"
    using assms audit_hook_ignored [of event args env w] audit_hook_disabled [of w env event args]
    by auto
  moreover have "\<not> ends_with so_suffix (p @ lit ''.6'')" for p
    by (simp add: ends_with_def so_suffix_def lit_def)
  ultimately show ?thesis
    by (auto simp: event_library_def event_file_def split: option.splits val.splits if_splits)
qed

theorem hook_ignores_witness:
  "\<not> global_disable_audit_hook sample_world \<and>
    (\<exists>p. ends_with so_suffix p \<and> \<not> ends_with so_suffix (p @ lit ''.6'') \<and>
       (lit ''import'' = lit ''import'' \<and> length [VStr (lit ''m''), VStr module_path] > 1 \<and>
          [VStr (lit ''m''), VStr module_path] ! 1 = VStr p \<or>
        lit ''import'' = lit ''sys.dlload'' \<and> length [VStr (lit ''m''), VStr module_path] > 0 \<and>
          [VStr (lit ''m''), VStr module_path] ! 0 = VStr p))"
  by (rule hook_ignores [of sample_env]) (unfold sample_run, simp add: sample_world_def)

text \<open>\<^verbatim>\<open>set_hooks_and_audit\<close> remembers the path itself when it is a file and otherwise that of
  \<^verbatim>\<open>libstdc++.so.6\<close> in it, and registers the hook once, on Linux only; nothing is loaded yet.\<close>

theorem set_hooks_registers:
  "let w' = snd (set_hooks_and_audit env p w) in
    global_libstdcxx_path w' = Some (if isfile env p then p else path_join p libstdcxx_name) \<and>
    hooks w' = hooks w + (if platform_system env = linux then 1 else 0) \<and>
    loaded w' = loaded w \<and> stderr w' = stderr w \<and> global_disable_audit_hook w' = global_disable_audit_hook w"
  by (simp add: set_hooks_and_audit_def Let_def)

end
