(* ===== verification/FormatProperties.thy ===== *)
theory FormatProperties
  imports ElfFormats ReadOnly
begin

text \<open>
  The properties of the parsing library and of the structures of an ELF file: conversions that
  invert each other, strings found wherever they are, and, for each structure of the file
  format, the value that its bytes decode to or the exception.
\<close>

section \<open>The library\<close>

text \<open>The number that bytes spell, digit by digit, in two's complement when it is signed.\<close>

definition spelled_number :: "endian \<Rightarrow> bool \<Rightarrow> bytes \<Rightarrow> int" where
  "spelled_number e sgnd bs =
     (let n = length bs; u = (\<Sum>i<n. uint (bs ! i) * 256 ^ (case e of LE \<Rightarrow> i | BE \<Rightarrow> n - 1 - i)) in
      if sgnd \<and> 2 * u \<ge> 256 ^ n then u - 256 ^ n else u)"

text \<open>The integer builders of macros.py, with width, byte order and signedness.\<close>

definition integer_fields :: "endian \<Rightarrow> ((string \<Rightarrow> con) \<times> nat \<times> endian \<times> bool) list" where
  "integer_fields native =
     [(UBInt8, 1, BE, False), (UBInt16, 2, BE, False), (UBInt32, 4, BE, False), (UBInt64, 8, BE, False),
      (SBInt8, 1, BE, True), (SBInt16, 2, BE, True), (SBInt32, 4, BE, True), (SBInt64, 8, BE, True),
      (ULInt8, 1, LE, False), (ULInt16, 2, LE, False), (ULInt32, 4, LE, False), (ULInt64, 8, LE, False),
      (SLInt8, 1, LE, True), (SLInt16, 2, LE, True), (SLInt32, 4, LE, True), (SLInt64, 8, LE, True),
      (UNInt8 native, 1, native, False), (UNInt16 native, 2, native, False), (UNInt32 native, 4, native, False),
      (UNInt64 native, 8, native, False), (SNInt8 native, 1, native, True), (SNInt16 native, 2, native, True),
      (SNInt32 native, 4, native, True), (SNInt64 native, 8, native, True)]"

lemma le_uint_sum: "le_uint bs = (\<Sum>i<length bs. uint (bs ! i) * 256 ^ i)"
proof (induction bs)
  case (Cons b bs)
  have "(\<Sum>i<length (b # bs). uint ((b # bs) ! i) * 256 ^ i) = uint b + (\<Sum>i<length bs. uint (bs ! i) * 256 ^ Suc i)"
    by (simp add: lessThan_Suc_eq_insert_0 sum.insert_if sum.reindex)
  also have "(\<Sum>i<length bs. uint (bs ! i) * 256 ^ Suc i) = 256 * (\<Sum>i<length bs. uint (bs ! i) * 256 ^ i)"
    by (simp add: sum_distrib_left algebra_simps)
  finally show ?case using Cons by simp
qed simp

lemma rev_sum: "le_uint (rev bs) = (\<Sum>i<length bs. uint (bs ! i) * 256 ^ (length bs - 1 - i))"
proof -
  have "le_uint (rev bs) = (\<Sum>i<length bs. uint (bs ! (length bs - 1 - i)) * 256 ^ i)"
    unfolding le_uint_sum by (auto intro!: sum.cong simp: rev_nth)
  also have "\<dots> = (\<Sum>i<length bs. uint (bs ! i) * 256 ^ (length bs - 1 - i))"
    by (rule sum.reindex_bij_witness [where i = "\<lambda>i. length bs - 1 - i" and j = "\<lambda>i. length bs - 1 - i"]) auto
  finally show ?thesis .
qed

lemma unpack_spelled: "length bs = fmt_size f \<Longrightarrow> unpack e f bs = Ok (spelled_number e (fmt_signed f) bs)"
proof (cases e)
  case LE
  then show "length bs = fmt_size f \<Longrightarrow> ?thesis"
    by (auto simp: unpack_ok spelled_number_def order_bytes_def to_signed_def le_uint_sum Let_def)
next
  case BE
  then show "length bs = fmt_size f \<Longrightarrow> ?thesis"
    by (auto simp: unpack_ok spelled_number_def order_bytes_def to_signed_def rev_sum Let_def)
qed

lemma FormatField_parse_bytes:
  "parse_bytes (FormatFieldC nm e f) bs =
     (if fmt_size f \<le> length bs then Ok (VInt (spelled_number e (fmt_signed f) (take (fmt_size f) bs))) else Err FieldError)"
  using unpack_spelled [of "take (fmt_size f) bs" f e] fmt_size_le [of f] fmt_size_pos [of f]
  by (auto simp: parse_bytes_def parse_stream_def FormatField_parse_def read_stream_def mbind_def
      on_stream_def s_read_def try_except_def Let_def)

lemma FormatField_build_bytes:
  "build_bytes (FormatFieldC nm e f) (VInt v) = (case pack e f v of Ok bs \<Rightarrow> Ok bs | _ \<Rightarrow> Err FieldError)"
proof (cases "pack e f v")
  case (Ok bs)
  then show ?thesis
    using pack_length [OF Ok]
    by (auto simp: build_bytes_def FormatField_build_def mbind_def try_except_def write_stream_def on_stream_def s_write_def)
qed (auto simp: build_bytes_def FormatField_build_def mbind_def try_except_def pack_def split: if_splits)

text \<open>C7: each of the 24 integer builders of macros.py, with its width, byte order and signedness: parsing gives
  the number that the first bytes spell, and a \<open>FieldError\<close> when there are too few; building a number of the range gives
  as many bytes that spell it, and a \<open>FieldError\<close> for any other.  So what is built parses back.\<close>

theorem integer_fields_roundtrip:
  assumes "(field, n, e, sgnd) \<in> set (integer_fields native)"
  shows "parse_bytes (field nm) bs = (if n \<le> length bs then Ok (VInt (spelled_number e sgnd (take n bs))) else Err FieldError) \<and>
    (if (if sgnd then - (2 ^ (8 * n - 1)) else 0) \<le> v \<and> v < (if sgnd then 2 ^ (8 * n - 1) else 2 ^ (8 * n))
     then \<exists>out. build_bytes (field nm) (VInt v) = Ok out \<and> length out = n \<and> spelled_number e sgnd out = v
     else build_bytes (field nm) (VInt v) = Err FieldError)"
proof -
  obtain f where f: "field nm = FormatFieldC (Some nm) e f" "fmt_size f = n" "fmt_signed f = sgnd"
    using assms by (auto simp: integer_fields_def int_field_defs native_field_defs)
  have lo: "fmt_min f = (if sgnd then - (2 ^ (8 * n - 1)) else 0)"
    unfolding f(2,3) [symmetric] by (cases f) (simp_all add: fmt_min_def)
  have hi: "fmt_max f = (if sgnd then 2 ^ (8 * n - 1) else 2 ^ (8 * n))"
    unfolding f(2,3) [symmetric] by (cases f) (simp_all add: fmt_max_def)
  have parse: "parse_bytes (field nm) bs = (if n \<le> length bs then Ok (VInt (spelled_number e sgnd (take n bs))) else Err FieldError)"
    using f by (simp add: FormatField_parse_bytes)
  have yes: "\<exists>out. build_bytes (field nm) (VInt v) = Ok out \<and> length out = n \<and> spelled_number e sgnd out = v"
    if r: "fmt_min f \<le> v \<and> v < fmt_max f"
  proof -
    obtain out where out: "pack e f v = Ok out" using pack_ok [of f v e] r by blast
    then have "spelled_number e sgnd out = v"
      using unpack_pack [OF out] unpack_spelled [OF pack_length [OF out], of e] f by simp
    then show ?thesis
      using out pack_length [OF out] f by (simp add: FormatField_build_bytes)
  qed
  have no: "build_bytes (field nm) (VInt v) = Err FieldError" if "\<not> (fmt_min f \<le> v \<and> v < fmt_max f)"
  proof -
    have "pack e f v = Err StructError" unfolding pack_def using that by (rule if_not_P)
    then show ?thesis using f by (simp add: FormatField_build_bytes)
  qed
  show ?thesis
    unfolding lo [symmetric] hi [symmetric] using parse yes no by presburger
qed

theorem integer_fields_roundtrip_witness:
  "parse_bytes (SBInt16 ''x'') [0xff, 0xfe] = Ok (VInt (- 2)) \<and>
   (\<exists>out. build_bytes (SBInt16 ''x'') (VInt (- 2)) = Ok out \<and> length out = 2 \<and> spelled_number BE True out = - 2)"
proof -
  have "spelled_number BE True [0xff, 0xfe] = - 2" by code_simp
  with integer_fields_roundtrip [of SBInt16 2 BE True LE "''x''" "[0xff, 0xfe]" "- 2"] show ?thesis
    by (simp add: integer_fields_def)
qed

text \<open>\<^verbatim>\<open>decode_bin\<close> inverts \<^verbatim>\<open>encode_bin\<close>, and \<^verbatim>\<open>bin_to_int\<close> gives back the low bits of any number
  that \<^verbatim>\<open>int_to_bin\<close> wrote in a non-negative width.\<close>

theorem bit_strings_roundtrip:
  "decode_bin (encode_bin data) = Ok data \<and>
   rbind (int_to_bin n (int w)) (\<lambda>bits. bin_to_int bits False) = Ok (n mod 2 ^ w)"
proof -
  obtain bits where "int_to_bin n (int w) = Ok bits"
    by (simp add: int_to_bin_def)
  then show ?thesis
    using bin_to_int_int_to_bin [of n "int w" bits] decode_bin_encode_bin by simp
qed

text \<open>Reading a C string returns the bytes before the first NUL at or after the offset, however
  many chunks of 64 bytes that takes, and \<^verbatim>\<open>None\<close> when the file ends first.\<close>

theorem cstring_parse:
  assumes "0 \<le> p" "p < 2 ^ 63"
  shows "fst (parse_cstring_from_stream (Some p) s) = Ok (cstring_at (sdata s) (nat p))"
  using parse_cstring_at [OF assms, of s] by auto

theorem cstring_parse_witness:
  "fst (parse_cstring_from_stream (Some 1) (bytesio (7 # replicate 130 65 @ [0, 9]))) =
     Ok (Some (replicate 130 65))"
proof -
  have "cstring_at (7 # replicate 130 65 @ [0, 9]) (nat 1) = Some (replicate 130 65)"
    by (simp add: cstring_at_def takeWhile_append)
  then show ?thesis
    using cstring_parse [of 1 "bytesio (7 # replicate 130 65 @ [0, 9])"] by simp
qed

text \<open>\<^verbatim>\<open>roundup\<close> gives the least multiple of the power of two that is not below the number.\<close>

theorem roundup_spec:
  "2 ^ bits dvd roundup k bits \<and> k \<le> roundup k bits \<and> roundup k bits < k + 2 ^ bits"
  using roundup_least [where bits = bits and num = k] by simp

section \<open>The structures of an ELF file\<close>

text \<open>C6: a section header parsed at an offset of the file has the fields that its 40 (or 64) bytes
  spell in the byte order and word size of the file; a file that ends too early is an
  \<^verbatim>\<open>ELFParseError\<close>.\<close>

theorem section_header_parse:
  assumes "0 \<le> p" "p < 2 ^ 63"
  shows "fst (struct_parse (Elf_Shdr s) (Some p) t) =
    (if nat p + (16 + 6 * wsize s) \<le> length (sdata t)
     then Ok (shdr_value s (bytes_at (sdata t) (nat p) (16 + 6 * wsize s)))
     else Err ELFParseError)"
  using shdr.struct_parse_at [OF assms, where s = s and t = t] shdr.struct_parse_error [OF assms, where s = s and t = t]
  by auto

abbreviation elf64 :: elf_structs where
  "elf64 \<equiv> \<lparr>little_endian = True, elfclass = 64, e_type = VNone, e_machine = VNone, e_ident_osabi = VNone\<rparr>"

theorem section_header_parse_witness:
  "fst (struct_parse (Elf_Shdr elf64) (Some 8) (bytesio [])) = Err ELFParseError"
  by (subst section_header_parse) (simp_all add: wsize_def)

text \<open>The same for a program header (32 or 56 bytes, the flags in different places).\<close>

theorem program_header_parse:
  assumes "0 \<le> p" "p < 2 ^ 63"
  shows "fst (struct_parse (Elf_Phdr s) (Some p) t) =
    (let n = (if elfclass s = 32 then 32 else 56) in
     if nat p + n \<le> length (sdata t) then Ok (phdr_value s (bytes_at (sdata t) (nat p) n))
     else Err ELFParseError)"
  using phdr.struct_parse_at [OF assms, where s = s and t = t] phdr.struct_parse_error [OF assms, where s = s and t = t]
  by (auto simp: Let_def)

theorem program_header_parse_witness:
  "fst (struct_parse (Elf_Phdr elf64) (Some 0) (bytesio (replicate 55 0))) = Err ELFParseError"
  by (subst program_header_parse) simp_all

text \<open>The file header is 52 (or 64) bytes; it is rejected when the file is shorter or its class
  or data encoding is none of the named ones, and otherwise decodes field by field.\<close>

theorem file_header_parse:
  assumes "0 \<le> p" "p < 2 ^ 63"
  shows "fst (struct_parse (Elf_Ehdr s) (Some p) t) =
    (if nat p + (40 + 3 * wsize s) \<le> length (sdata t)
     then (case ehdr_value s (bytes_at (sdata t) (nat p) (40 + 3 * wsize s)) of
             Some v \<Rightarrow> Ok v | None \<Rightarrow> Err ELFParseError)
     else Err ELFParseError)"
  using ehdr.struct_parse_at [OF assms, where s = s and t = t] ehdr.struct_parse_error [OF assms, where s = s and t = t]
  by (cases "ehdr_value s (bytes_at (sdata t) (nat p) (40 + 3 * wsize s))") auto

theorem file_header_parse_witness:
  "fst (struct_parse (Elf_Ehdr elf64) (Some 0) (bytesio [])) = Err ELFParseError"
  by (subst file_header_parse) (simp_all add: wsize_def)

text \<open>A symbol table entry: binding and type, visibility and locality are the parts of one byte
  each.\<close>

theorem symbol_entry_parse:
  assumes "0 \<le> p" "p < 2 ^ 63"
  shows "fst (struct_parse (Elf_Sym s) (Some p) t) =
    (let n = (if elfclass s = 32 then 16 else 24) in
     if nat p + n \<le> length (sdata t) then Ok (sym_value s (bytes_at (sdata t) (nat p) n))
     else Err ELFParseError)"
  using sym.struct_parse_at [OF assms, where s = s and t = t] sym.struct_parse_error [OF assms, where s = s and t = t]
  by (auto simp: Let_def)

theorem symbol_entry_parse_witness:
  "fst (struct_parse (Elf_Sym elf64) (Some 0) (bytesio [])) = Err ELFParseError"
  by (subst symbol_entry_parse) simp_all

text \<open>A relocation entry with addend: symbol and type are the high and low part of \<^verbatim>\<open>r_info\<close>,
  except on 64-bit MIPS where they are fields of their own and \<^verbatim>\<open>r_info\<close> is put together from them.\<close>

theorem relocation_entry_parse:
  assumes "0 \<le> p" "p < 2 ^ 63"
  shows "fst (struct_parse (Elf_Rela s) (Some p) t) =
    (if nat p + 3 * wsize s \<le> length (sdata t)
     then Ok (rela_value s (bytes_at (sdata t) (nat p) (3 * wsize s)))
     else Err ELFParseError)"
  using rela.struct_parse_at [OF assms, where s = s and t = t] rela.struct_parse_error [OF assms, where s = s and t = t]
  by (auto simp: wsize_def)

theorem relocation_entry_parse_witness:
  "fst (struct_parse (Elf_Rela elf64) (Some 0) (bytesio [])) = Err ELFParseError"
  by (subst relocation_entry_parse) (simp_all add: wsize_def)

text \<open>A dynamic entry: the tag is signed and goes through the table of the file's machine and
  ABI; value and pointer are the same word.\<close>

theorem dynamic_entry_parse:
  assumes "0 \<le> p" "p < 2 ^ 63"
  shows "fst (struct_parse (Elf_Dyn s) (Some p) t) =
    (if nat p + 2 * wsize s \<le> length (sdata t)
     then Ok (dyn_value s (bytes_at (sdata t) (nat p) (2 * wsize s)))
     else Err ELFParseError)"
  using dyn.struct_parse_at [OF assms, where s = s and t = t] dyn.struct_parse_error [OF assms, where s = s and t = t]
  by (auto simp: wsize_def)

theorem dynamic_entry_parse_witness:
  "fst (struct_parse (Elf_Dyn elf64) (Some 0) (bytesio [])) = Err ELFParseError"
  by (subst dynamic_entry_parse) (simp_all add: wsize_def)

text \<open>A version definition (20 bytes) and its auxiliary entries (8 bytes).\<close>

theorem version_definition_parse:
  assumes "0 \<le> p" "p < 2 ^ 63"
  shows "fst (struct_parse (Elf_Verdef s) (Some p) t) =
      (if nat p + 20 \<le> length (sdata t) then Ok (verdef_value s (bytes_at (sdata t) (nat p) 20))
       else Err ELFParseError) \<and>
    fst (struct_parse (Elf_Verdaux s) (Some p) t) =
      (if nat p + 8 \<le> length (sdata t) then Ok (verdaux_value s (bytes_at (sdata t) (nat p) 8))
       else Err ELFParseError)"
  using verdef.struct_parse_at [OF assms, where s = s and t = t] verdef.struct_parse_error [OF assms, where s = s and t = t]
    verdaux.struct_parse_at [OF assms, where s = s and t = t] verdaux.struct_parse_error [OF assms, where s = s and t = t]
  by auto

theorem version_definition_parse_witness:
  "fst (struct_parse (Elf_Verdef elf64) (Some 0) (bytesio [])) = Err ELFParseError \<and>
   fst (struct_parse (Elf_Verdaux elf64) (Some 0) (bytesio [])) = Err ELFParseError"
  using version_definition_parse [of 0 elf64 "bytesio []"] by simp

end
