(* ===== verification/FileReads.thy ===== *)
theory FileReads
  imports ReadOnly
begin

text \<open>
  Operations of the file that are functions of its contents: they do not depend on where the
  stream was (\<open>blind\<close>, of the theory \<^verbatim>\<open>ReadOnly\<close>) and neither read nor write the cache of
  section names (\<open>nblind\<close>).  Such an operation is described by its result on the contents
  (\<open>run_on\<close>); fetching a section or a symbol is one.
\<close>

section \<open>Operations that leave the cache alone\<close>

definition nblind :: "'a F \<Rightarrow> bool" where
  "nblind m \<longleftrightarrow> (\<forall>s x. fst (m (s\<lparr>f_names := x\<rparr>)) = fst (m s) \<and>
     snd (m (s\<lparr>f_names := x\<rparr>)) = (snd (m s))\<lparr>f_names := x\<rparr>)"

named_theorems nblind_intros \<open>operations that do not use the cache of section names\<close>

lemma nblind_simple [nblind_intros]: "nblind (ret a)" "nblind (raise e)" "nblind (lift_res r)" "nblind (elf_assert b)"
  "nblind (on_file n)"
  by (simp_all add: nblind_def on_file_run elf_assert_def)

lemma nblind_mbind [nblind_intros]:
  assumes "nblind m" "\<And>a. nblind (f a)"
  shows "nblind (mbind m f)"
  unfolding nblind_def
proof (intro allI)
  fix s :: fstate and x
  obtain r s' where run: "m s = (r, s')" by fastforce
  then have "m (s\<lparr>f_names := x\<rparr>) = (r, s'\<lparr>f_names := x\<rparr>)"
    using assms(1) unfolding nblind_def by (metis fst_conv prod.collapse snd_conv)
  with run show "fst (mbind m f (s\<lparr>f_names := x\<rparr>)) = fst (mbind m f s) \<and>
      snd (mbind m f (s\<lparr>f_names := x\<rparr>)) = (snd (mbind m f s))\<lparr>f_names := x\<rparr>"
    using assms(2) by (cases r) (simp_all add: mbind_def nblind_def)
qed

lemma nblind_if [nblind_intros]: "(b \<Longrightarrow> nblind m) \<Longrightarrow> (\<not> b \<Longrightarrow> nblind m') \<Longrightarrow> nblind (if b then m else m')"
  by simp

lemma nblind_option [nblind_intros]:
  "nblind m \<Longrightarrow> (\<And>a. nblind (f a)) \<Longrightarrow> nblind (case x of None \<Rightarrow> m | Some a \<Rightarrow> f a)"
  by (cases x) auto

lemma nblind_split [nblind_intros]: "(\<And>a b. nblind (f a b)) \<Longrightarrow> nblind (case p of (a, b) \<Rightarrow> f a b)"
  by (cases p) auto

lemma nblind_mmap [nblind_intros]: "(\<And>x. nblind (f x)) \<Longrightarrow> nblind (mmap f xs)"
  by (induction xs) (auto intro!: nblind_intros)

section \<open>Results as functions of the contents\<close>

definition run_on :: "bytes \<Rightarrow> 'a F \<Rightarrow> 'a res" where
  "run_on d m = fst (m \<lparr>f_stream = bytesio d, f_names = None\<rparr>)"

definition reads :: "'a F \<Rightarrow> bool" where
  "reads m \<longleftrightarrow> blind m \<and> nblind m"

lemma readsI: "blind m \<Longrightarrow> nblind m \<Longrightarrow> reads m"
  by (simp add: reads_def)

lemma reads_run:
  assumes "reads m"
  obtains t where "m s = (run_on (fdata s) m, t)" "fdata t = fdata s" "f_names t = f_names s"
proof -
  let ?s0 = "\<lparr>f_stream = bytesio (fdata s), f_names = None\<rparr>"
  have n: "fst (m (s\<lparr>f_names := None\<rparr>)) = fst (m s)" "f_names (snd (m s)) = f_names s"
    using assms unfolding reads_def nblind_def by (metis fstate.surjective fstate.update_convs(2) fstate.select_convs(2))+
  have "same (s\<lparr>f_names := None\<rparr>) ?s0"
    by (simp add: same_def)
  then have "fst (m (s\<lparr>f_names := None\<rparr>)) = fst (m ?s0)" "fdata (snd (m s)) = fdata s"
    using assms unfolding reads_def blind_def fkeeps_def by blast+
  then show thesis
    using n that [of "snd (m s)"] by (simp add: run_on_def prod_eq_iff)
qed

lemma reads_fst: "reads m \<Longrightarrow> fst (m s) = run_on (fdata s) m"
  using reads_run [of m s] by (metis fst_conv)

lemma run_on_mbind:
  assumes "reads m" "\<And>a. reads (f a)"
  shows "run_on d (mbind m f) = rbind (run_on d m) (\<lambda>a. run_on d (f a))"
proof -
  let ?s0 = "\<lparr>f_stream = bytesio d, f_names = None\<rparr>"
  obtain t where t: "m ?s0 = (run_on d m, t)" "fdata t = d"
    using reads_run [OF assms(1), of ?s0] by auto
  show ?thesis
    unfolding run_on_def [of d "mbind m f"]
    using reads_fst [OF assms(2), of _ t] t by (cases "run_on d m") (simp_all add: mbind_def)
qed

lemma run_on_simple [simp]:
  "run_on d (ret a) = Ok a" "run_on d (raise e) = Err e" "run_on d (lift_res r) = r"
  by (simp_all add: run_on_def)

lemma reads_simple [simp]: "reads (ret a)" "reads (raise e)" "reads (lift_res r)"
  by (simp_all add: reads_def blind_simple nblind_simple)

lemma reads_mbind: "reads m \<Longrightarrow> (\<And>a. reads (f a)) \<Longrightarrow> reads (mbind m f)"
  by (simp add: reads_def blind_mbind nblind_mbind)

section \<open>Sections and symbols\<close>

lemma nblind_get_string [nblind_intros]: "nblind (get_string sec off)"
  unfolding get_string_def by (intro nblind_intros)

lemma nblind_Section_init [nblind_intros]: "nblind (Section_init st kind h name link)"
  unfolding Section_init_def by (intro nblind_intros)

lemma nblind_get_symbol [nblind_intros]: "nblind (get_symbol st sec n)"
  unfolding get_symbol_def by (intro nblind_intros)

lemma nblind_get_section_header [nblind_intros]: "nblind (get_section_header ef n)"
  unfolding get_section_header_def by (intro nblind_intros)

lemma nblind_num_sections [nblind_intros]: "nblind (num_sections ef)"
  unfolding num_sections_def by (intro nblind_intros)

lemma nblind_get_section_name [nblind_intros]: "nblind (get_section_name ef h)"
  unfolding get_section_name_def by (intro nblind_intros)

lemma nblind_headers [nblind_intros]: "nblind (checked_header ef n types)" "nblind (linked_header ef n types)"
  unfolding checked_header_def linked_header_def by (intro nblind_intros)+

lemma nblind_inits [nblind_intros]:
  "nblind (SymbolTableSection_init st h name tab)" "nblind (ELFHashSection_init ef h name tab)"
  "nblind (GNUHashSection_init ef h name tab)" "nblind (RelocationSection_init ef h name)"
  "nblind (RelrRelocationSection_init ef h name)" "nblind (AttributesSection_init ef kind h name)"
  unfolding SymbolTableSection_init_def ELFHashSection_init_def GNUHashSection_init_def ELFHashTable_init_def
    GNUHashTable_init_def RelocationSection_init_def RelrRelocationSection_init_def AttributesSection_init_def Let_def
  by (intro nblind_intros)+

lemma nblind_make_section_with:
  assumes "\<And>n ty. nblind (g n ty)" "\<And>n. nblind (g1 n)" "\<And>n. nblind (g2 n)"
  shows "nblind (make_section_with ef g g1 g2 h)"
  unfolding make_section_with_def Let_def by (intro nblind_intros assms)

lemma nblind_make_section [nblind_intros]: "nblind (make_section k ef h)"
proof (induction k arbitrary: h)
  case (Suc k)
  then show ?case
    unfolding make_section.simps by (intro nblind_make_section_with nblind_mbind nblind_headers)
qed (simp add: nblind_simple)

lemma nblind_get_section [nblind_intros]: "nblind (get_section ef n types)"
  unfolding get_section_def by (intro nblind_intros)

lemma reads_get_section [simp]: "reads (get_section ef n types)"
  by (intro readsI blind_intros nblind_intros)

lemma reads_num_sections [simp]: "reads (num_sections ef)"
  by (intro readsI blind_intros nblind_intros)

lemma reads_get_symbol [simp]: "reads (get_symbol st sec n)"
  by (intro readsI blind_intros nblind_intros)

lemma reads_get_string [simp]: "reads (get_string sec off)"
  by (intro readsI blind_intros nblind_intros)

lemma reads_get_section_header [simp]: "reads (get_section_header ef n)"
  by (intro readsI blind_intros nblind_intros)

end
