(* ===== verification/FileProperties.thy ===== *)
theory FileProperties
  imports FileReads
begin

text \<open>
  Properties of the ELF file object: sections by index and by name, the cache of names, linked
  sections, the extended numbering of large files, segments and addresses.
\<close>

section \<open>Names of sections\<close>

text \<open>The greatest index below \<open>n\<close> of a section with the name.\<close>

definition last_named :: "(int \<Rightarrow> elf_section) \<Rightarrow> int \<Rightarrow> pystr \<Rightarrow> int option" where
  "last_named secs n name = find (\<lambda>i. s_name (secs i) = name) (rev [0..n - 1])"

lemma find_SomeD: "find P xs = Some x \<Longrightarrow> x \<in> set xs \<and> P x"
  by (induction xs) (auto split: if_splits)

definition add_all :: "(int \<Rightarrow> elf_section) \<Rightarrow> int list \<Rightarrow> (pystr \<times> int) list \<Rightarrow> (pystr \<times> int) list" where
  "add_all secs is m = fold (\<lambda>i. AList.update (s_name (secs i)) i) is m"

lemma map_of_add_all:
  "map_of (add_all secs is m) name = (case find (\<lambda>i. s_name (secs i) = name) (rev is) of
     Some i \<Rightarrow> Some i | None \<Rightarrow> map_of m name)"
proof (induction "is" arbitrary: m)
  case (Cons i js)
  have "find P (xs @ [i]) = (case find P xs of None \<Rightarrow> if P i then Some i else None | r \<Rightarrow> r)" for P xs
    by (induction xs) auto
  with Cons show ?case
    by (auto simp: add_all_def update_conv' split: option.split)
qed (simp add: add_all_def)

lemma add_section_name_run:
  "add_section_name name i s = (Ok (), s\<lparr>f_names := Some (AList.update name i
     (case f_names s of None \<Rightarrow> [] | Some m \<Rightarrow> m))\<rparr>)"
  by (simp add: add_section_name_def)

text \<open>The loop from \<open>i\<close> on: it adds the names of the sections it can make, up to the first it cannot.\<close>

lemma name_map_loop_ok:
  assumes "\<And>j. i \<le> j \<Longrightarrow> j < n \<Longrightarrow> run_on (fdata s) (get_section ef j []) = Ok (secs j)"
    and "f_names s = Some m"
  shows "\<exists>s'. name_map_loop ef i n s = (Ok (), s') \<and> fdata s' = fdata s \<and>
    f_names s' = Some (add_all secs [i..n - 1] m)"
  using assms
proof (induction "nat (n - i)" arbitrary: i s m)
  case 0
  then show ?case
    by (subst name_map_loop.simps) (simp add: add_all_def)
next
  case (Suc k)
  then have less: "i < n" by simp
  obtain t where t: "get_section ef i [] s = (Ok (secs i), t)" "fdata t = fdata s" "f_names t = f_names s"
    using reads_run [OF reads_get_section, of ef i "[]" s] Suc.prems(1) [of i] less by auto
  let ?m = "AList.update (s_name (secs i)) i m"
  let ?t = "t\<lparr>f_names := Some ?m\<rparr>"
  have "\<exists>s'. name_map_loop ef (i + 1) n ?t = (Ok (), s') \<and> fdata s' = fdata ?t \<and>
      f_names s' = Some (add_all secs [i + 1..n - 1] ?m)"
    using Suc.prems Suc.hyps(2) t by (intro Suc.hyps(1)) auto
  moreover have "[i..n - 1] = i # [i + 1..n - 1]"
    using less by (simp add: upto_rec1)
  ultimately show ?case
    using less t Suc.prems(2)
    by (subst name_map_loop.simps) (simp add: mbind_def add_section_name_run add_all_def)
qed

lemma name_map_loop_err:
  assumes "\<And>j. i \<le> j \<Longrightarrow> j < b \<Longrightarrow> run_on (fdata s) (get_section ef j []) = Ok (secs j)"
    and "run_on (fdata s) (get_section ef b []) = Err e" "i \<le> b" "b < n" "f_names s = Some m"
  shows "\<exists>s'. name_map_loop ef i n s = (Err e, s') \<and> fdata s' = fdata s \<and>
    f_names s' = Some (add_all secs [i..b - 1] m)"
  using assms
proof (induction "nat (b - i)" arbitrary: i s m)
  case 0
  then have "i = b" by simp
  then obtain t where t: "get_section ef i [] s = (Err e, t)" "fdata t = fdata s" "f_names t = f_names s"
    using reads_run [OF reads_get_section, of ef i "[]" s] 0 by auto
  with 0 \<open>i = b\<close> show ?case
    by (subst name_map_loop.simps) (simp add: add_all_def mbind_def)
next
  case (Suc k)
  then have less: "i < b" by simp
  obtain t where t: "get_section ef i [] s = (Ok (secs i), t)" "fdata t = fdata s" "f_names t = f_names s"
    using reads_run [OF reads_get_section, of ef i "[]" s] Suc.prems(1) [of i] less by auto
  let ?m = "AList.update (s_name (secs i)) i m"
  let ?t = "t\<lparr>f_names := Some ?m\<rparr>"
  have "\<exists>s'. name_map_loop ef (i + 1) n ?t = (Err e, s') \<and> fdata s' = fdata ?t \<and>
      f_names s' = Some (add_all secs [i + 1..b - 1] ?m)"
    using Suc.prems Suc.hyps(2) t less by (intro Suc.hyps(1)) auto
  moreover have "[i..b - 1] = i # [i + 1..b - 1]"
    using less by (simp add: upto_rec1)
  ultimately show ?case
    using less t Suc.prems
    by (subst name_map_loop.simps) (simp add: mbind_def add_section_name_run add_all_def)
qed

lemma ensure_names_built:
  assumes "f_names s = None" "run_on (fdata s) (num_sections ef) = Ok n"
    and "\<And>i. 0 \<le> i \<Longrightarrow> i < n \<Longrightarrow> run_on (fdata s) (get_section ef i []) = Ok (secs i)"
  shows "\<exists>s'. ensure_names ef s = (Ok (add_all secs [0..n - 1] []), s') \<and> fdata s' = fdata s \<and>
    f_names s' = Some (add_all secs [0..n - 1] [])"
proof -
  obtain t where t: "num_sections ef (s\<lparr>f_names := Some []\<rparr>) = (Ok n, t)" "fdata t = fdata s" "f_names t = Some []"
    using reads_run [OF reads_num_sections, of ef "s\<lparr>f_names := Some []\<rparr>"] assms(2) by auto
  obtain s' where "name_map_loop ef 0 n t = (Ok (), s')" "fdata s' = fdata t"
      "f_names s' = Some (add_all secs [0..n - 1] [])"
    using name_map_loop_ok [of 0 n t ef secs "[]"] assms(3) t by auto
  then show ?thesis
    using assms(1) t by (simp add: ensure_names_def make_section_name_map_def mbind_def set_names_def)
qed

text \<open>C8: when every section of the file can be made, \<^verbatim>\<open>get_section_by_name\<close> returns the section with
  the greatest index among those with the name, and \<^verbatim>\<open>None\<close> exactly when there is none,
  whatever the position of the stream.  Afterwards the object's cache has the greatest index of every name, which is
  what later lookups go by; the file is as it was.\<close>

theorem section_by_name:
  assumes "f_names s = None" "run_on (fdata s) (num_sections ef) = Ok n"
    and "\<And>i. 0 \<le> i \<Longrightarrow> i < n \<Longrightarrow> run_on (fdata s) (get_section ef i []) = Ok (secs i)"
  shows "fst (get_section_by_name ef name s) = Ok (map_option secs (last_named secs n name)) \<and>
    (\<exists>m. f_names (snd (get_section_by_name ef name s)) = Some m \<and> (\<forall>nm. map_of m nm = last_named secs n nm)) \<and>
    fdata (snd (get_section_by_name ef name s)) = fdata s"
proof -
  let ?m = "add_all secs [0..n - 1] []"
  obtain s' where names: "ensure_names ef s = (Ok ?m, s')" "fdata s' = fdata s" "f_names s' = Some ?m"
    using ensure_names_built [OF assms] by auto
  have idx: "map_of ?m nm = last_named secs n nm" for nm
    by (simp add: map_of_add_all last_named_def split: option.split)
  show ?thesis
  proof (cases "last_named secs n name")
    case None
    then show ?thesis
      using names by (simp add: get_section_by_name_def mbind_def idx)
  next
    case (Some i)
    then have "0 \<le> i" "i < n"
      using find_SomeD [of _ "rev [0..n - 1]" i] by (auto simp: last_named_def)
    then obtain t where "get_section ef i [] s' = (Ok (secs i), t)" "fdata t = fdata s" "f_names t = Some ?m"
      using assms(3) [of i] reads_run [OF reads_get_section, of ef i "[]" s'] names(2,3) by auto
    then show ?thesis
      using names Some by (simp add: get_section_by_name_def mbind_def idx)
  qed
qed

text \<open>A file of one (null) section, for the instances.\<close>

definition null_file :: elffile where
  "null_file = \<lparr>ef_structs = \<lparr>little_endian = True, elfclass = 32, e_type = VNone, e_machine = VNone,
       e_ident_osabi = VNone\<rparr>, ef_stream_len = 44,
     ef_header = VCont [(''e_shoff'', VInt 4), (''e_shnum'', VInt 1), (''e_shentsize'', VInt 40),
       (''e_shstrndx'', VInt 0)],
     ef_shstr = Some (Section StringTableSection (VCont [(''sh_offset'', VInt 0)]) [] None None VNone),
     ef_ident_raw = []\<rparr>"

definition null_section :: elf_section where
  "null_section = Section NullSection (shdr_value (ef_structs null_file) (replicate 40 0)) [] None None VNone"

lemma null_file_section: "run_on (replicate 44 0) (get_section null_file 0 []) = Ok null_section"
  by code_simp

lemma null_file_count: "run_on (replicate 44 0) (num_sections null_file) = Ok 1"
  by code_simp

theorem section_by_name_witness:
  "let s = \<lparr>f_stream = bytesio (replicate 44 0), f_names = None\<rparr>; secs = (\<lambda>_. null_section) in
   fst (get_section_by_name null_file [] s) = Ok (map_option secs (last_named secs 1 [])) \<and>
    (\<exists>m. f_names (snd (get_section_by_name null_file [] s)) = Some m \<and> (\<forall>nm. map_of m nm = last_named secs 1 nm)) \<and>
    fdata (snd (get_section_by_name null_file [] s)) = fdata s"
  unfolding Let_def
proof (rule section_by_name)
  fix i :: int assume "0 \<le> i" "i < 1"
  then have "i = 0" by simp
  then show "run_on (fdata \<lparr>f_stream = bytesio (replicate 44 0), f_names = None\<rparr>) (get_section null_file i []) =
      Ok null_section"
    using null_file_section by simp
qed (simp_all add: null_file_count)

text \<open>C9: when a section cannot be made, the first lookup by name raises its exception but leaves
  the half-filled cache behind: the second lookup of the same name, of a section that exists
  beyond it or of the broken one, returns \<^verbatim>\<open>None\<close> as if it did not exist.\<close>

theorem stale_section_names:
  assumes "f_names s = None" "run_on (fdata s) (num_sections ef) = Ok n" "0 \<le> b" "b < n"
    and "\<And>i. 0 \<le> i \<Longrightarrow> i < b \<Longrightarrow> run_on (fdata s) (get_section ef i []) = Ok (secs i)"
    and "run_on (fdata s) (get_section ef b []) = Err e"
    and "\<And>i. 0 \<le> i \<Longrightarrow> i < b \<Longrightarrow> s_name (secs i) \<noteq> name"
  shows "\<exists>s'. get_section_by_name ef name s = (Err e, s') \<and> fst (get_section_by_name ef name s') = Ok None"
proof -
  obtain t where t: "num_sections ef (s\<lparr>f_names := Some []\<rparr>) = (Ok n, t)" "fdata t = fdata s" "f_names t = Some []"
    using reads_run [OF reads_num_sections, of ef "s\<lparr>f_names := Some []\<rparr>"] assms(2) by auto
  obtain s' where loop: "name_map_loop ef 0 n t = (Err e, s')" and names: "f_names s' = Some (add_all secs [0..b - 1] [])"
    using name_map_loop_err [of 0 b t ef secs e n "[]"] assms t by auto
  have "get_section_by_name ef name s = (Err e, s')"
    using assms(1) t loop
    by (simp add: get_section_by_name_def ensure_names_def make_section_name_map_def mbind_def set_names_def)
  moreover have "find (\<lambda>i. s_name (secs i) = name) (rev [0..b - 1]) = None"
    using assms(7) by (auto simp: find_None_iff)
  then have "fst (get_section_by_name ef name s') = Ok None"
    by (simp add: get_section_by_name_def ensure_names_def mbind_def names map_of_add_all)
  ultimately show ?thesis by blast
qed

theorem stale_section_names_witness:
  "\<exists>s'. get_section_by_name (null_file\<lparr>ef_shstr := None\<rparr>) [1] \<lparr>f_stream = bytesio (replicate 44 0), f_names = None\<rparr>
      = (Err ELFParseError, s') \<and>
    fst (get_section_by_name (null_file\<lparr>ef_shstr := None\<rparr>) [1] s') = Ok None"
proof (rule stale_section_names)
  show "run_on (fdata \<lparr>f_stream = bytesio (replicate 44 0), f_names = None\<rparr>)
      (num_sections (null_file\<lparr>ef_shstr := None\<rparr>)) = Ok 1"
    by code_simp
  show "run_on (fdata \<lparr>f_stream = bytesio (replicate 44 0), f_names = None\<rparr>)
      (get_section (null_file\<lparr>ef_shstr := None\<rparr>) 0 []) = Err ELFParseError"
    by code_simp
qed simp_all

section \<open>Linked sections\<close>

lemma linked_header_type:
  assumes "linked_header ef n types s = (Ok h, s')"
  shows "\<exists>ty. get_item h ''sh_type'' = Ok ty \<and> ty \<in> set types"
  using assms by (auto simp: linked_header_def mbind_eq_Ok res_case_Ok split: if_splits)

lemma checked_header_type:
  assumes "checked_header ef n types s = (Ok h, s')" "types \<noteq> []"
  shows "\<exists>ty. get_item h ''sh_type'' = Ok ty \<and> ty \<in> set types"
  using assms
  by (cases h) (auto simp: checked_header_def mbind_eq_Ok res_case_Ok get_attr_def dget_def
      split: if_splits option.splits)

text \<open>With callbacks that agree on what they are asked for, \<open>make_section_with\<close> makes the same section.\<close>

lemma make_section_with_cong:
  assumes ty: "get_item h ''sh_type'' = Ok ty" "ty \<noteq> VLit ''SHT_GNU_versym''"
    and g: "ty = VLit ''SHT_DYNAMIC'' \<Longrightarrow>
      (\<lambda>l. g l [VLit ''SHT_STRTAB'', VLit ''SHT_NOBITS'']) = (\<lambda>l. g' l [VLit ''SHT_STRTAB'', VLit ''SHT_NOBITS''])"
    and g1: "ty \<in> {VLit ''SHT_SUNW_syminfo'', VLit ''SHT_HASH'', VLit ''SHT_GNU_HASH''} \<Longrightarrow> g1 = g1'"
    and g2: "ty \<in> {VLit ''SHT_SYMTAB'', VLit ''SHT_DYNSYM'', VLit ''SHT_SUNW_LDYNSYM'',
        VLit ''SHT_GNU_verneed'', VLit ''SHT_GNU_verdef''} \<Longrightarrow> g2 = g2'"
  shows "make_section_with ef g g1 g2 h = make_section_with ef g' g1' g2' h"
  unfolding make_section_with_def Let_def ty
  apply (rule ext, rule mbind_cong_Ok)
  using ty(2) g [THEN fun_cong] g1 g2 by (auto simp: mbind_def)

declare make_section.simps [simp del]

lemma make_section_flat:
  assumes "get_item h ''sh_type'' = Ok ty" "ty \<in> {VLit ''SHT_STRTAB'', VLit ''SHT_NOBITS''}"
  shows "make_section (Suc k) ef h = make_section (Suc j) ef h"
  unfolding make_section.simps
  by (rule make_section_with_cong [OF assms(1)]) (use assms(2) in auto)

lemma make_section_symtab:
  assumes "get_item h ''sh_type'' = Ok ty" "ty \<in> set symtab_types"
  shows "make_section (Suc (Suc k)) ef h = make_section (Suc (Suc j)) ef h"
proof -
  have "mbind (linked_header ef l strtab_types) (make_section (Suc k) ef) =
      mbind (linked_header ef l strtab_types) (make_section (Suc j) ef)" for l
    by (rule ext, rule mbind_cong_Ok, drule linked_header_type, elim exE conjE)
      (rule fun_cong [OF make_section_flat], assumption, simp)
  then show ?thesis
    unfolding make_section.simps(2) [of "Suc k"] make_section.simps(2) [of "Suc j"]
    by (intro make_section_with_cong [OF assms(1)]) (use assms(2) in auto)
qed

text \<open>Making a section fetches at most two others, one linked to the next: the depth 3 is as good
  as any greater one, unless the section is a version symbol table, whose link is unchecked.\<close>

theorem make_section_depth:
  assumes "get_item h ''sh_type'' = Ok ty" "ty \<noteq> VLit ''SHT_GNU_versym''" "3 \<le> k"
  shows "make_section k ef h = make_section 3 ef h"
proof -
  obtain j where k: "k = Suc (Suc (Suc j))"
    using assms(3) by (metis add.commute le_Suc_ex numeral_3_eq_3 add_Suc_right add_0_right)
  have checked: "mbind (checked_header ef l [VLit ''SHT_STRTAB'', VLit ''SHT_NOBITS'']) (make_section (Suc (Suc j)) ef) =
      mbind (checked_header ef l [VLit ''SHT_STRTAB'', VLit ''SHT_NOBITS'']) (make_section 2 ef)" for l
    unfolding numeral_2_eq_2
    by (rule ext, rule mbind_cong_Ok, drule checked_header_type, simp, elim exE conjE)
      (rule fun_cong [OF make_section_flat], assumption, simp)
  have sym: "mbind (linked_header ef l symtab_types) (make_section (Suc (Suc j)) ef) =
      mbind (linked_header ef l symtab_types) (make_section 2 ef)" for l
    unfolding numeral_2_eq_2
    by (rule ext, rule mbind_cong_Ok, drule linked_header_type, elim exE conjE)
      (rule fun_cong [OF make_section_symtab], assumption, simp)
  have str: "mbind (linked_header ef l strtab_types) (make_section (Suc (Suc j)) ef) =
      mbind (linked_header ef l strtab_types) (make_section 2 ef)" for l
    unfolding numeral_2_eq_2
    by (rule ext, rule mbind_cong_Ok, drule linked_header_type, elim exE conjE)
      (rule fun_cong [OF make_section_flat], assumption, simp)
  show ?thesis
    unfolding k numeral_3_eq_3 make_section.simps(2) [of "Suc (Suc j)"] make_section.simps(2) [of "Suc (Suc 0)"]
    using checked sym str unfolding numeral_2_eq_2
    by (intro make_section_with_cong [OF assms(1, 2)]) auto
qed

theorem make_section_depth_witness:
  "make_section 330 null_file (shdr_value (ef_structs null_file) (replicate 40 0)) =
   make_section 3 null_file (shdr_value (ef_structs null_file) (replicate 40 0))"
proof (rule make_section_depth)
  show "get_item (shdr_value (ef_structs null_file) (replicate 40 0)) ''sh_type'' = Ok (VLit ''SHT_NULL'')"
    by code_simp
qed simp_all

text \<open>C10: a version symbol table linked to itself is never made: whatever the depth, one more section
  is fetched (the interpreter ends this with a \<^verbatim>\<open>RecursionError\<close>, which is no \<^verbatim>\<open>ELFError\<close>).\<close>

theorem versym_cycle_never_ends:
  assumes "run_on d (get_section_header ef n) = Ok h" "run_on d (get_section_name ef h) = Ok name"
    and "get_item h ''sh_type'' = Ok (VLit ''SHT_GNU_versym'')" "get_int h ''sh_link'' = Ok n"
  shows "run_on d (make_section k ef h) = NoFuel"
proof -
  have "fst (make_section k ef h s) = NoFuel" if "fdata s = d" for s
    using that
  proof (induction k arbitrary: s)
    case (Suc k)
    obtain t where t: "get_section_name ef h s = (Ok name, t)" "fdata t = d"
      using reads_run [of "get_section_name ef h" s] assms(2) Suc.prems
      by (metis blind_get_section_name nblind_get_section_name readsI)
    obtain u where u: "get_section_header ef n t = (Ok h, u)" "fdata u = d"
      using reads_run [of "get_section_header ef n" t] assms(1) t by auto
    have "make_section_with ef
         (\<lambda>n types. mbind (checked_header ef n types) (make_section k ef)) g1 g2 h s =
       mbind (make_section k ef h) (\<lambda>symtab.
         Section_init (ef_structs ef) GNUVerSymSection h name (Some symtab)) u" for g1 g2
      by (simp add: make_section_with_def mbind_def t assms(3, 4) checked_header_def u)
    then show ?case
      using Suc.IH [OF u(2)]
      by (cases "make_section k ef h u") (simp add: mbind_def make_section.simps)
  qed (simp add: make_section.simps)
  then show ?thesis
    by (simp add: run_on_def)
qed

definition cycle_data :: bytes where
  "cycle_data = replicate 8 0 @ [0xff, 0xff, 0xff, 0x6f] @ replicate 32 0"

theorem versym_cycle_never_ends_witness:
  "\<exists>h. run_on cycle_data (get_section_header null_file 0) = Ok h \<and>
     run_on cycle_data (make_section max_depth null_file h) = NoFuel"
proof (intro exI conjI)
  show "run_on cycle_data (get_section_header null_file 0) = Ok (shdr_value (ef_structs null_file) (drop 4 cycle_data))"
    by code_simp
  then show "run_on cycle_data (make_section max_depth null_file (shdr_value (ef_structs null_file) (drop 4 cycle_data)))
      = NoFuel"
  proof (rule versym_cycle_never_ends)
    show "run_on cycle_data (get_section_name null_file (shdr_value (ef_structs null_file) (drop 4 cycle_data))) = Ok []"
      by code_simp
    show "get_item (shdr_value (ef_structs null_file) (drop 4 cycle_data)) ''sh_type'' = Ok (VLit ''SHT_GNU_versym'')"
      by code_simp
    show "get_int (shdr_value (ef_structs null_file) (drop 4 cycle_data)) ''sh_link'' = Ok 0"
      by code_simp
  qed
qed

section \<open>Extended numbering\<close>

text \<open>A file whose number of sections does not fit the header's field keeps it, and the index of
  the string table, in the first section header: \<^verbatim>\<open>num_sections\<close> and \<^verbatim>\<open>get_shstrndx\<close> return the
  fields of the header unless they hold the escape values 0 and 0xffff.\<close>

theorem extended_numbering:
  assumes "ef_int ef ''e_shoff'' = Ok shoff" "ef_int ef ''e_shnum'' = Ok shnum"
    and "ef_int ef ''e_shstrndx'' = Ok strndx"
    and "shoff \<noteq> 0" "run_on d (get_section_header ef 0) = Ok h"
    and "get_int h ''sh_size'' = Ok sz" "get_int h ''sh_link'' = Ok link"
  shows "run_on d (num_sections ef) = Ok (if shnum = 0 then sz else shnum) \<and>
    run_on d (get_shstrndx ef) = Ok (if strndx = 0xffff then link else strndx)"
proof -
  have "run_on d (mbind (get_section_header ef 0) (\<lambda>h. lift_res (get_int h k))) = get_int h k" for k
    by (simp add: run_on_mbind assms(5))
  then show ?thesis
    using assms by (simp add: num_sections_def get_shstrndx_def SHN_XINDEX_def run_on_def split: if_splits)
qed

theorem extended_numbering_witness:
  "run_on (replicate 24 0 @ [5] @ replicate 19 0)
     (num_sections (null_file\<lparr>ef_header := VCont [(''e_shoff'', VInt 4), (''e_shnum'', VInt 0),
        (''e_shentsize'', VInt 40), (''e_shstrndx'', VInt 0xffff)]\<rparr>)) = Ok 5 \<and>
   run_on (replicate 24 0 @ [5] @ replicate 19 0)
     (get_shstrndx (null_file\<lparr>ef_header := VCont [(''e_shoff'', VInt 4), (''e_shnum'', VInt 0),
        (''e_shentsize'', VInt 40), (''e_shstrndx'', VInt 0xffff)]\<rparr>)) = Ok 0"
proof -
  let ?ef = "null_file\<lparr>ef_header := VCont [(''e_shoff'', VInt 4), (''e_shnum'', VInt 0),
        (''e_shentsize'', VInt 40), (''e_shstrndx'', VInt 0xffff)]\<rparr>"
  let ?d = "replicate 24 0 @ [5] @ replicate 19 0 :: bytes"
  let ?h = "shdr_value (ef_structs null_file) (drop 4 ?d)"
  have "run_on ?d (get_section_header ?ef 0) = Ok ?h" by code_simp
  moreover have "get_int ?h ''sh_size'' = Ok 5" "get_int ?h ''sh_link'' = Ok 0" by code_simp+
  ultimately show ?thesis
    using extended_numbering [of ?ef 4 0 "0xffff" ?d ?h 5 0] by (simp add: ef_int_def get_int_def)
qed

section \<open>Segments\<close>

text \<open>The bytes of a section (or, for an empty one, its position) against those of a segment.\<close>

text \<open>The last two tests of \<^verbatim>\<open>section_in_segment\<close> (in memory and in the file) say that the
  section's bytes lie within the segment's, and that an empty section is not at the very end of
  a segment that is not empty.\<close>

theorem in_bounds_spec:
  assumes "0 \<le> sz" "0 \<le> extent"
  shows "in_bounds pos sz base extent \<longleftrightarrow>
    {pos..<pos + sz} \<subseteq> {base..<base + extent} \<and> base \<le> pos \<and> pos + sz \<le> base + extent \<and>
    (pos = base + extent \<longrightarrow> extent = 0)"
  using assms by (auto simp: in_bounds_def)

theorem in_bounds_spec_witness:
  "in_bounds 8 4 0 16 \<longleftrightarrow>
    {8..<8 + 4} \<subseteq> {0..<0 + 16 :: int} \<and> (0::int) \<le> 8 \<and> (8::int) + 4 \<le> 0 + 16 \<and> ((8::int) = 0 + 16 \<longrightarrow> (16::int) = 0)"
  by (rule in_bounds_spec) simp_all

text \<open>The virtual addresses and file bytes of a loadable segment.\<close>

lemma region_offset_spec:
  assumes "seg_int seg ''p_vaddr'' = Ok v" "seg_int seg ''p_filesz'' = Ok f" "seg_int seg ''p_offset'' = Ok off"
    and "region_offset start sz seg = Ok offs"
  shows "offs = (if v \<le> start \<and> start + sz \<le> v + f then [off + (start - v)] else [])"
  using assms by (auto simp: region_offset_def)

end
