(* ===== verification/ElfHash.thy ===== *)
theory ElfHash
  imports ReadOnly
begin

text \<open>
  \<^verbatim>\<open>elftools/elf/hash.py\<close>: symbol lookup through the two kinds of hash tables.  A table's object is
  what its constructor read (\<open>params\<close>, with \<^verbatim>\<open>_chain_pos\<close> among them) and a source of symbols, a
  section or a dynamic segment: the argument \<open>getsym\<close>, its method \<open>get_symbol\<close>.
\<close>

section \<open>The hash functions\<close>

text \<open>The running value is a Python integer: it is not cut to 32 bits.\<close>

definition elf_hash_step :: "int \<Rightarrow> byte \<Rightarrow> int" where
  "elf_hash_step h c =
     (let h1 = push_bit 4 h + uint c;
          x = h1 AND 0xF0000000;
          h2 = (if x \<noteq> 0 then h1 XOR drop_bit 24 x else h1)
      in h2 AND NOT x)"

definition elf_hash :: "bytes \<Rightarrow> int" where
  "elf_hash name = foldl elf_hash_step 0 name"

definition gnu_hash :: "bytes \<Rightarrow> int" where
  "gnu_hash key = foldl (\<lambda>h c. h * 33 + uint c) 5381 key AND 0xFFFFFFFF"

section \<open>The System V table\<close>

text \<open>\<^verbatim>\<open>self.params[k][i]\<close>, a number.\<close>

definition param_at :: "val \<Rightarrow> string \<Rightarrow> int \<Rightarrow> int res" where
  "param_at params k i = rbind (get_item params k) (\<lambda>v. rbind (viter v) (\<lambda>vs. rbind (py_index vs i) as_int))"

definition sysv_number_of_symbols :: "val \<Rightarrow> int res" where
  "sysv_number_of_symbols params = get_int params ''nchains''"

text \<open>
  The walk along a chain.  Each round but the last uses an entry of \<^verbatim>\<open>chains\<close>, by an index that
  Python takes from either end; a walk with more rounds than indices uses one twice and goes on
  forever.
\<close>

primrec sysv_walk :: "nat \<Rightarrow> (int \<Rightarrow> symbol F) \<Rightarrow> val \<Rightarrow> pystr \<Rightarrow> int \<Rightarrow> symbol option F" where
  "sysv_walk 0 getsym params name symndx = lift_res NoFuel"
| "sysv_walk (Suc fuel) getsym params name symndx =
     (if symndx = 0 then ret None
      else mbind (getsym symndx) (\<lambda>sym.
        if sym_name sym = name then ret (Some sym)
        else mbind (lift_res (param_at params ''chains'' symndx)) (sysv_walk fuel getsym params name)))"

definition sysv_get_symbol :: "(int \<Rightarrow> symbol F) \<Rightarrow> val \<Rightarrow> pystr \<Rightarrow> symbol option F" where
  "sysv_get_symbol getsym params name =
     mbind (lift_res (get_int params ''nbuckets'')) (\<lambda>nbuckets.
     if nbuckets = 0 then ret None
     else mbind (lift_res (encode_utf8 name)) (\<lambda>key.
       mbind (lift_res (param_at params ''buckets'' (elf_hash key mod nbuckets))) (\<lambda>symndx.
       mbind (lift_res (sysv_number_of_symbols params)) (\<lambda>nchains.
         sysv_walk (2 * nat nchains + 2) getsym params name symndx))))"

section \<open>The GNU table\<close>

text \<open>\<^verbatim>\<open>struct.unpack(hash_format, self.elffile.stream.read(self._wordsize))[0]\<close>.\<close>

definition read_hash :: "elf_structs \<Rightarrow> int F" where
  "read_hash st =
     mbind (lift_res (sizeof (Elf_word st '''') [])) (\<lambda>wordsize.
     mbind (on_file (s_read wordsize)) (\<lambda>b. lift_res (unpack (endn st) FmtL b)))"

text \<open>The position of a symbol's entry in the chain.\<close>

definition chain_pos :: "elf_structs \<Rightarrow> val \<Rightarrow> int \<Rightarrow> int res" where
  "chain_pos st params symidx =
     rbind (get_int params ''_chain_pos'') (\<lambda>pos.
     rbind (get_int params ''symoffset'') (\<lambda>symoffset.
     rbind (sizeof (Elf_word st '''') []) (\<lambda>wordsize. Ok (pos + (symidx - symoffset) * wordsize))))"

primrec gnu_chain_end :: "nat \<Rightarrow> elf_structs \<Rightarrow> int \<Rightarrow> int F" where
  "gnu_chain_end 0 st max_idx = lift_res NoFuel"
| "gnu_chain_end (Suc fuel) st max_idx =
     mbind (read_hash st) (\<lambda>cur_hash.
       if cur_hash AND 1 \<noteq> 0 then ret (max_idx + 1) else gnu_chain_end fuel st (max_idx + 1))"

definition py_max :: "int list \<Rightarrow> int res" where
  "py_max xs = (case xs of [] \<Rightarrow> Err ValueError | y # ys \<Rightarrow> Ok (fold max ys y))"

text \<open>Every round of the walk reads a word: the words left, and one more, are enough rounds.\<close>

definition gnu_number_of_symbols :: "elf_structs \<Rightarrow> val \<Rightarrow> int F" where
  "gnu_number_of_symbols st params =
     mbind (lift_res (rbind (get_item params ''buckets'') viter)) (\<lambda>vs.
     mbind (lift_res (rbind (rmap as_int vs) py_max)) (\<lambda>max_idx.
     mbind (lift_res (get_int params ''symoffset'')) (\<lambda>symoffset.
       if max_idx < symoffset then ret symoffset
       else mbind (lift_res (chain_pos st params max_idx)) (\<lambda>pos.
         mbind (on_file (s_seek pos)) (\<lambda>_ s.
           gnu_chain_end (remaining (f_stream s) div 4 + 2) st max_idx s)))))"

definition matches_bloom :: "elf_structs \<Rightarrow> val \<Rightarrow> int \<Rightarrow> bool res" where
  "matches_bloom st params H1 =
     (let arch_bits = elfclass st in
     rbind (get_int params ''bloom_shift'') (\<lambda>shift.
     rbind (get_int params ''bloom_size'') (\<lambda>bloom_size.
     if bloom_size = 0 then Err ZeroDivisionError
     else (let H2 = drop_bit (nat shift) H1;
               word_idx = (H1 div arch_bits) mod bloom_size;
               BITMASK = push_bit (nat (H1 mod arch_bits)) 1 OR push_bit (nat (H2 mod arch_bits)) 1
           in rbind (param_at params ''bloom'' word_idx) (\<lambda>w. Ok (w AND BITMASK = BITMASK))))))"

text \<open>
  The walk along a chain of the GNU table.  It reads hash after hash from the stream, but a hash
  that agrees makes it fetch the symbol, which moves the stream; when the names differ the walk
  goes on from where that left it.
\<close>

primrec gnu_walk ::
  "nat \<Rightarrow> elf_structs \<Rightarrow> (int \<Rightarrow> symbol F) \<Rightarrow> pystr \<Rightarrow> int \<Rightarrow> int \<Rightarrow> symbol option F" where
  "gnu_walk 0 st getsym name namehash symidx = lift_res NoFuel"
| "gnu_walk (Suc fuel) st getsym name namehash symidx =
     mbind (read_hash st) (\<lambda>cur_hash.
     mbind (if cur_hash OR 1 = namehash OR 1 then
              mbind (getsym symidx) (\<lambda>symbol. ret (if name = sym_name symbol then Some symbol else None))
            else ret None) (\<lambda>r. (case r of
         Some symbol \<Rightarrow> ret (Some symbol)
       | None \<Rightarrow> if cur_hash AND 1 \<noteq> 0 then ret None
                 else gnu_walk fuel st getsym name namehash (symidx + 1))))"

text \<open>
  The bound: between two fetches of a symbol every round reads a word, and the fetched symbols
  have growing indices, hence growing offsets in a file of \<open>n\<close> bytes (unless the table's entries
  have size 0: then a walk that fetches one symbol twice goes on forever).
\<close>

definition gnu_get_symbol :: "elf_structs \<Rightarrow> (int \<Rightarrow> symbol F) \<Rightarrow> val \<Rightarrow> pystr \<Rightarrow> symbol option F" where
  "gnu_get_symbol st getsym params name =
     mbind (lift_res (encode_utf8 name)) (\<lambda>key.
     let namehash = gnu_hash key in
     mbind (lift_res (matches_bloom st params namehash)) (\<lambda>hit.
     if \<not> hit then ret None
     else
       mbind (lift_res (get_int params ''nbuckets'')) (\<lambda>nbuckets.
       mbind (lift_res (if nbuckets = 0 then Err ZeroDivisionError
                        else param_at params ''buckets'' (namehash mod nbuckets))) (\<lambda>symidx.
       mbind (lift_res (get_int params ''symoffset'')) (\<lambda>symoffset.
         if symidx < symoffset then ret None
         else mbind (lift_res (chain_pos st params symidx)) (\<lambda>pos.
           mbind (on_file (s_seek pos)) (\<lambda>_ s.
             gnu_walk ((length (fdata s) + 2) * (length (fdata s) + 2)) st getsym name namehash symidx s)))))))"

end
