(* ===== verification/Returning.thy ===== *)
theory Returning
  imports FileReads
begin

text \<open>
  Operations that always return a value or raise: they are never cut off by a bound.  The rules
  compose operations; fetching a string or a symbol returns.
\<close>

definition returns :: "('s, 'a) M \<Rightarrow> bool" where
  "returns m \<longleftrightarrow> (\<forall>s. fst (m s) \<noteq> NoFuel)"

named_theorems returns_intros \<open>operations that always return\<close>

lemma returnsD: "returns m \<Longrightarrow> m s \<noteq> (NoFuel, t)"
  unfolding returns_def by (metis fst_conv)

lemma returns_simple [returns_intros]: "returns (ret a)" "returns (raise e)" "returns get_state" "returns (put_state t)"
  by (simp_all add: returns_def)

lemma returns_lift_res [returns_intros]: "r \<noteq> NoFuel \<Longrightarrow> returns (lift_res r)"
  by (simp add: returns_def)

lemma returns_mbind [returns_intros]: "returns m \<Longrightarrow> (\<And>a. returns (f a)) \<Longrightarrow> returns (mbind m f)"
  by (auto simp: returns_def mbind_def split: prod.split res.split) (metis fst_conv)

lemma returns_try [returns_intros]: "returns m \<Longrightarrow> (\<And>e. returns (h e)) \<Longrightarrow> returns (try_except m P h)"
  by (auto simp: returns_def try_except_def split: prod.split res.split) (metis fst_conv)

lemma returns_if [returns_intros]: "(b \<Longrightarrow> returns m) \<Longrightarrow> (\<not> b \<Longrightarrow> returns m') \<Longrightarrow> returns (if b then m else m')"
  by simp

lemma returns_option [returns_intros]:
  "returns m \<Longrightarrow> (\<And>a. returns (f a)) \<Longrightarrow> returns (case x of None \<Rightarrow> m | Some a \<Rightarrow> f a)"
  by (cases x) auto

lemma returns_mmap [returns_intros]: "(\<And>x. returns (f x)) \<Longrightarrow> returns (mmap f xs)"
  by (induction xs) (auto intro!: returns_intros)

lemma returns_on_file [returns_intros]: "returns m \<Longrightarrow> returns (on_file m)"
  by (simp add: returns_def on_file_run)

lemma returns_stream [returns_intros]: "returns (s_seek p)" "returns (s_read n)"
  by (auto simp: returns_def s_seek_def s_read_def Let_def)

section \<open>Results\<close>

lemma rbind_returns [returns_intros]: "r \<noteq> NoFuel \<Longrightarrow> (\<And>a. f a \<noteq> NoFuel) \<Longrightarrow> rbind r f \<noteq> NoFuel"
  by (cases r) auto

lemma rmap_returns [returns_intros]: "(\<And>x. f x \<noteq> NoFuel) \<Longrightarrow> rmap f xs \<noteq> NoFuel"
  by (induction xs) (auto simp: rbind_def split: res.splits)

lemma value_returns [returns_intros]:
  "Ok a \<noteq> NoFuel" "Err e \<noteq> NoFuel" "dget d k \<noteq> NoFuel" "as_int v \<noteq> NoFuel" "get_item v k \<noteq> NoFuel" "get_int v k \<noteq> NoFuel"
  "viter v \<noteq> NoFuel" "py_index xs i \<noteq> NoFuel" "sec_get sec k \<noteq> NoFuel" "sec_int sec k \<noteq> NoFuel"
  by (auto simp: dget_def as_int_def get_item_def get_int_def viter_def py_index_def Let_def sec_get_def sec_int_def
      rbind_def split: val.split option.split res.split)

section \<open>Reading a structure\<close>

lemma struct_parse_bad: "\<not> (0 \<le> p \<and> p < 2 ^ 63) \<Longrightarrow> \<exists>e. struct_parse sc (Some p) t = (Err e, t)"
  by (auto simp: struct_parse_def mbind_def s_seek_def try_except_def)

context file_format
begin

lemma struct_parse_returns: "0 < n \<Longrightarrow> returns (struct_parse sc p)"
  unfolding returns_def
proof (intro allI)
  fix t assume n: "0 < n"
  show "fst (struct_parse sc p t) \<noteq> NoFuel"
  proof (cases p)
    case None
    show ?thesis
    proof (cases "spos t + n \<le> length (sdata t) \<and> f [] (bytes_at (sdata t) (spos t) n) \<noteq> None")
      case True
      then show ?thesis using struct_parse_here [of t] None by fastforce
    next
      case False
      then show ?thesis using struct_parse_here_error [OF n, of t] None by fastforce
    qed
  next
    case (Some q)
    consider "\<not> (0 \<le> q \<and> q < 2 ^ 63)"
      | "0 \<le> q" "q < 2 ^ 63" "nat q + n \<le> length (sdata t)" "f [] (bytes_at (sdata t) (nat q) n) \<noteq> None"
      | "0 \<le> q" "q < 2 ^ 63" "length (sdata t) < nat q + n \<or> f [] (bytes_at (sdata t) (nat q) n) = None"
      by fastforce
    then show ?thesis
    proof cases
      case 1
      then show ?thesis using struct_parse_bad [of q sc t] Some by fastforce
    next
      case 2
      then show ?thesis using struct_parse_at [of q t] Some by fastforce
    next
      case 3
      then show ?thesis using struct_parse_error [OF 3(1,2) n, of t] Some by fastforce
    qed
  qed
qed

end

lemma returns_cstring [returns_intros]: "returns (parse_cstring_from_stream (Some p))"
  unfolding returns_def
proof (intro allI)
  fix t
  show "fst (parse_cstring_from_stream (Some p) t) \<noteq> NoFuel"
  proof (cases "0 \<le> p \<and> p < 2 ^ 63")
    case True
    then show ?thesis using parse_cstring_at [of p t] by fastforce
  next
    case False
    then show ?thesis by (auto simp: parse_cstring_from_stream_def mbind_def s_seek_def)
  qed
qed

lemma wsize_pos: "0 < wsize s"
  by (simp add: wsize_def)

lemma returns_struct_parse [returns_intros]:
  "returns (struct_parse (Elf_Sym st) p)" "returns (struct_parse (Elf_Shdr st) p)"
  "returns (struct_parse (Elf_Phdr st) p)" "returns (struct_parse (Elf_Dyn st) p)"
  "returns (struct_parse (Elf_Rel st) p)" "returns (struct_parse (Elf_Rela st) p)"
  "returns (struct_parse (Elf_Relr st) p)" "returns (struct_parse (Elf_Nhdr st) p)"
  by (auto intro!: sym.struct_parse_returns shdr.struct_parse_returns phdr.struct_parse_returns
      dyn.struct_parse_returns rel.struct_parse_returns rela.struct_parse_returns relr.struct_parse_returns
      nhdr.struct_parse_returns simp: wsize_pos)

lemma returns_entry_offset [returns_intros]: "entry_offset sec n \<noteq> NoFuel"
  unfolding entry_offset_def by (intro returns_intros)

lemma returns_linked [returns_intros]: "linked sec \<noteq> NoFuel"
  by (simp add: linked_def split: option.split)

lemma returns_get_string [returns_intros]: "returns (get_string sec off)"
  unfolding get_string_def by (intro returns_intros)

lemma returns_get_symbol [returns_intros]: "returns (get_symbol st sec n)"
  unfolding get_symbol_def by (intro returns_intros)

lemma returns_run_on: "returns m \<Longrightarrow> run_on d m \<noteq> NoFuel"
  by (simp add: returns_def run_on_def)

end
