(* ===== verification/HashProperties.thy ===== *)
theory HashProperties
  imports ElfHash Returning
begin

text \<open>
  Properties of the hash tables: the hash functions against the 32-bit definitions of the ABI,
  and what a lookup finds.  A table serves any source of symbols (the interface \<open>symbol_source\<close>).
\<close>

section \<open>Hash functions\<close>

text \<open>The ABI's function, on 32-bit words.\<close>

definition sysv_step :: "32 word \<Rightarrow> byte \<Rightarrow> 32 word" where
  "sysv_step h c =
     (let h1 = push_bit 4 h + ucast c;
          g = h1 AND 0xF0000000
      in (if g \<noteq> 0 then h1 XOR drop_bit 24 g else h1) AND NOT g)"

definition sysv_hash :: "bytes \<Rightarrow> 32 word" where
  "sysv_hash name = foldl sysv_step 0 name"

lemma uint_of_int_small: "0 \<le> a \<Longrightarrow> a < 2 ^ LENGTH('a) \<Longrightarrow> uint (word_of_int a :: 'a::len word) = a"
  by (simp add: uint_word_of_int)

lemma word_of_int_zero:
  "0 \<le> a \<Longrightarrow> a < 2 ^ LENGTH('a) \<Longrightarrow> (word_of_int a :: 'a::len word) = 0 \<longleftrightarrow> a = 0"
  by (metis uint_of_int_small unsigned_0 of_int_0)

lemma word_of_int_drop:
  assumes "0 \<le> a" "a < 2 ^ LENGTH('a)"
  shows "word_of_int (drop_bit n a) = (drop_bit n (word_of_int a) :: 'a::len word)"
proof -
  have "uint (drop_bit n (word_of_int a :: 'a word)) = drop_bit n a"
    by (simp add: unsigned_drop_bit_eq uint_of_int_small [OF assms] take_bit_int_eq_self assms)
  then show ?thesis
    by (metis word_of_int_uint)
qed

lemma elf_hash_step_word: "word_of_int (elf_hash_step h c) = sysv_step (word_of_int h) c"
proof -
  let ?w = "word_of_int :: int \<Rightarrow> 32 word"
  define h1 where "h1 = push_bit 4 h + uint c"
  define x where "x = h1 AND 0xF0000000"
  have x: "0 \<le> x" "x < 2 ^ 32"
    using AND_upper2 [of "0xF0000000" h1] by (simp_all add: x_def)
  have h1: "push_bit 4 (?w h) + ucast c = ?w h1"
    by (simp add: h1_def push_bit_of_int)
  have g: "?w h1 AND 0xF0000000 = ?w x"
    by (simp add: x_def of_int_and_eq)
  have z: "?w x = 0 \<longleftrightarrow> x = 0"
    using word_of_int_zero [of x, where 'a = 32] x by simp
  have d: "drop_bit 24 (?w x) = ?w (drop_bit 24 x)"
    using word_of_int_drop [of x 24, where 'a = 32] x by simp
  show ?thesis
    unfolding elf_hash_step_def sysv_step_def Let_def h1 g h1_def [symmetric] x_def [symmetric] z d
    by (simp add: of_int_and_eq of_int_xor_eq of_int_not_eq)
qed

lemma elf_hash_word: "word_of_int (foldl elf_hash_step h name) = foldl sysv_step (word_of_int h) name"
  by (induction name arbitrary: h) (simp_all add: elf_hash_step_word)

text \<open>C11: \<^verbatim>\<open>elf_hash\<close> is the ABI's hash function in its low 32 bits.  Its value is not cut to 32 bits,
  though: for the symbol name \<^verbatim>\<open>8zZXzXLa\<close> a carry leaves bit 32 set, and the bucket that
  \<^verbatim>\<open>get_symbol\<close> looks in is not the one the linker put the symbol in.\<close>

theorem elf_hash_sysv:
  "elf_hash name mod 2 ^ 32 = uint (sysv_hash name) \<and>
   (let key = map word_of_int (lit ''8zZXzXLa'') in elf_hash key = 2 ^ 32 + uint (sysv_hash key))"
proof -
  have "uint (word_of_int (elf_hash name) :: 32 word) = uint (sysv_hash name)"
    using elf_hash_word [of 0 name] by (simp add: elf_hash_def sysv_hash_def)
  then have "elf_hash name mod 2 ^ 32 = uint (sysv_hash name)"
    by (simp add: uint_word_of_int)
  moreover have "let key = map word_of_int (lit ''8zZXzXLa'') in elf_hash key = 2 ^ 32 + uint (sysv_hash key)"
    by code_simp
  ultimately show ?thesis by blast
qed

text \<open>\<^verbatim>\<open>gnu_hash\<close>, cut to 32 bits at the end, is the ABI's function on 32-bit words.\<close>

theorem gnu_hash_word:
  "gnu_hash key = uint (foldl (\<lambda>h c. h * 33 + ucast c) (5381 :: 32 word) key)"
proof -
  have "word_of_int (foldl (\<lambda>h c. h * 33 + uint c) h key) =
      foldl (\<lambda>h c. h * 33 + ucast c) (word_of_int h :: 32 word) key" for h
    by (induction key arbitrary: h) simp_all
  from arg_cong [OF this [of 5381], of uint] show ?thesis
    using low_bits [of "foldl (\<lambda>h c. h * 33 + uint c) 5381 key" 32]
    by (simp add: gnu_hash_def uint_word_of_int)
qed

section \<open>Iterating a partial step\<close>

text \<open>The \<open>k\<close>-th state of an iteration, while there is one.\<close>

primrec steps :: "('a \<Rightarrow> 'a option) \<Rightarrow> nat \<Rightarrow> 'a \<Rightarrow> 'a option" where
  "steps f 0 x = Some x"
| "steps f (Suc k) x = (case f x of None \<Rightarrow> None | Some y \<Rightarrow> steps f k y)"

lemma steps_add: "steps f (a + b) x = (case steps f a x of None \<Rightarrow> None | Some y \<Rightarrow> steps f b y)"
  by (induction a arbitrary: x) (auto split: option.split)

lemma steps_Suc_end: "steps f (Suc k) x = (case steps f k x of None \<Rightarrow> None | Some y \<Rightarrow> f y)"
  using steps_add [of f k 1 x] by (auto split: option.splits)

lemma steps_le: "steps f k x \<noteq> None \<Longrightarrow> m \<le> k \<Longrightarrow> steps f m x \<noteq> None"
  using steps_add [of f m "k - m" x] by (auto split: option.splits)

text \<open>An iteration that is longer than the set of states it can continue from never ends.\<close>

lemma steps_forever:
  assumes D: "\<And>x y. f x = Some y \<Longrightarrow> x \<in> D" and "finite D" "card D < k" and run: "steps f k x \<noteq> None"
  shows "steps f m x \<noteq> None"
proof -
  let ?s = "\<lambda>j. the (steps f j x)"
  have some: "steps f j x = Some (?s j)" if "j \<le> k" for j
    using steps_le [OF run that] by simp
  have "?s j \<in> D" if "j < k" for j
  proof -
    have "steps f (Suc j) x = f (?s j)"
      using steps_Suc_end [of f j x] some [of j] that by (metis less_imp_le option.simps(5))
    with some [of "Suc j"] that D show ?thesis by auto
  qed
  then have "?s ` {..<k} \<subseteq> D" by auto
  then have "\<not> inj_on ?s {..<k}"
    using assms(2, 3) card_inj_on_le [of ?s "{..<k}" D] by auto
  then obtain a b where ab: "a < b" "b < k" "?s a = ?s b"
    by (auto simp: inj_on_def) (metis linorder_neqE_nat)
  show ?thesis
  proof (induction m rule: less_induct)
    case (less m)
    show ?case
    proof (cases "m \<le> b")
      case True
      then show ?thesis using steps_le [OF run] ab by simp
    next
      case False
      obtain y where y: "steps f a x = Some y" "steps f b x = Some y"
        using some [of a] some [of b] ab by (metis less_imp_le less_trans)
      have "steps f m x = steps f (a + (m - b)) x"
        using steps_add [of f b "m - b" x] steps_add [of f a "m - b" x] y False by simp
      then show ?thesis
        using less.IH [of "a + (m - b)"] False ab by simp
    qed
  qed
qed

section \<open>Lookups\<close>

text \<open>What a table asks of its source of symbols: a symbol is a function of the file's contents, and
  fetching it returns or raises.\<close>

declare sysv_walk.simps [simp del]

locale symbol_source =
  fixes getsym :: "int \<Rightarrow> symbol F"
  assumes reads_getsym: "reads (getsym n)"
    and getsym_returns: "run_on d (getsym n) \<noteq> NoFuel"
begin

lemma reads_sysv_walk: "reads (sysv_walk k getsym params name i)"
proof (induction k arbitrary: i)
  case 0
  show ?case unfolding sysv_walk.simps by (rule reads_simple)
next
  case (Suc k)
  have "reads (if sym_name sym = name then ret (Some sym)
      else mbind (lift_res (param_at params ''chains'' i)) (sysv_walk k getsym params name))" for sym
    using Suc by (simp add: reads_mbind)
  then show ?case
    unfolding sysv_walk.simps by (simp add: reads_mbind reads_getsym)
qed

lemma sysv_walk_0: "run_on d (sysv_walk 0 getsym params name i) = NoFuel"
  unfolding sysv_walk.simps by (rule run_on_simple)

text \<open>The next index of a walk that goes on.\<close>

definition chain_next :: "bytes \<Rightarrow> val \<Rightarrow> pystr \<Rightarrow> int \<Rightarrow> int option" where
  "chain_next d params name i = (if i = 0 then None
     else case run_on d (getsym i) of
       Ok sy \<Rightarrow> if sym_name sy = name then None
         else (case param_at params ''chains'' i of Ok j \<Rightarrow> Some j | _ \<Rightarrow> None)
     | _ \<Rightarrow> None)"

lemma sysv_walk_step:
  "run_on d (sysv_walk (Suc k) getsym params name i) =
     (if i = 0 then Ok None
      else rbind (run_on d (getsym i)) (\<lambda>sym. if sym_name sym = name then Ok (Some sym)
        else rbind (param_at params ''chains'' i) (\<lambda>j. run_on d (sysv_walk k getsym params name j))))"
proof (cases "i = 0")
  case False
  have r: "reads (if sym_name sym = name then ret (Some sym)
      else mbind (lift_res (param_at params ''chains'' i)) (sysv_walk k getsym params name))" for sym
    by (simp add: reads_mbind reads_sysv_walk)
  have e: "run_on d (if sym_name sym = name then ret (Some sym)
      else mbind (lift_res (param_at params ''chains'' i)) (sysv_walk k getsym params name)) =
    (if sym_name sym = name then Ok (Some sym)
     else rbind (param_at params ''chains'' i) (\<lambda>j. run_on d (sysv_walk k getsym params name j)))" for sym
    by (simp add: run_on_mbind reads_sysv_walk)
  from False show ?thesis
    unfolding sysv_walk.simps by (simp add: run_on_mbind [OF reads_getsym r] e)
next
  case True
  then show ?thesis unfolding sysv_walk.simps by simp
qed

lemma sysv_walk_sound:
  "run_on d (sysv_walk k getsym params name i) = Ok (Some sy) \<Longrightarrow>
   sym_name sy = name \<and> (\<exists>j. j \<noteq> 0 \<and> run_on d (getsym j) = Ok sy)"
proof (induction k arbitrary: i)
  case (Suc k)
  then show ?case
    by (auto simp: sysv_walk_step rbind_eq_Ok split: if_splits)
qed (simp_all add: sysv_walk_0)

lemma sysv_walk_cut_off:
  assumes "\<And>i. param_at params ''chains'' i \<noteq> NoFuel"
  shows "run_on d (sysv_walk k getsym params name i) = NoFuel \<longleftrightarrow> steps (chain_next d params name) k i \<noteq> None"
proof (induction k arbitrary: i)
  case (Suc k)
  show ?case
    using Suc.IH assms [of i] getsym_returns [of d i]
    by (cases "run_on d (getsym i)"; cases "param_at params ''chains'' i")
      (simp_all add: sysv_walk_step chain_next_def)
qed (simp_all add: sysv_walk_0)

lemma sysv_walk_forever:
  assumes "\<And>i. param_at params ''chains'' i \<noteq> NoFuel"
    and "\<And>i j. param_at params ''chains'' i = Ok j \<Longrightarrow> i \<in> D" "finite D" "card D < k"
    and "run_on d (sysv_walk k getsym params name i) = NoFuel"
  shows "run_on d (sysv_walk m getsym params name i) = NoFuel"
proof -
  have "x \<in> D" if "chain_next d params name x = Some y" for x y
    using that assms(2) by (auto simp: chain_next_def split: if_splits res.splits)
  then show ?thesis
    using steps_forever [of "chain_next d params name" D k i m] assms(3-5)
    by (simp add: sysv_walk_cut_off [OF assms(1)])
qed

end

interpretation section_symbols: symbol_source "get_symbol st sec" for st sec
  using returns_run_on [OF returns_get_symbol] by unfold_locales auto

lemma param_at_returns [returns_intros]: "param_at params k i \<noteq> NoFuel"
  unfolding param_at_def by (intro returns_intros)

lemma encode_returns [returns_intros]: "encode_utf8 name \<noteq> NoFuel"
  unfolding encode_utf8_def utf8_char_def Let_def by (intro returns_intros) (simp split: if_splits)

lemma rbind_is_NoFuel: "rbind r f = NoFuel \<longleftrightarrow> r = NoFuel \<or> (\<exists>a. r = Ok a \<and> f a = NoFuel)"
  by (cases r) auto

lemma reads_if: "reads m \<Longrightarrow> reads m' \<Longrightarrow> reads (if b then m else m')"
  by simp

lemma reads_sysv_get_symbol: "reads (sysv_get_symbol (get_symbol st sec) params name)"
  unfolding sysv_get_symbol_def
  by (intro reads_mbind reads_if reads_simple section_symbols.reads_sysv_walk)

text \<open>C12: What the lookup in a System V hash table returns is a symbol of the table with the asked
  name.\<close>

theorem sysv_lookup_sound:
  assumes "fst (sysv_get_symbol (get_symbol st sec) params name s) = Ok (Some sy)"
  shows "sym_name sy = name \<and> (\<exists>i. i \<noteq> 0 \<and> fst (get_symbol st sec i s) = Ok sy)"
proof -
  have "run_on (fdata s) (sysv_get_symbol (get_symbol st sec) params name) = Ok (Some sy)"
    using assms by (simp add: reads_fst reads_sysv_get_symbol)
  then obtain k i where "run_on (fdata s) (sysv_walk k (get_symbol st sec) params name i) = Ok (Some sy)"
    unfolding sysv_get_symbol_def
    by (auto simp: run_on_mbind reads_mbind reads_if section_symbols.reads_sysv_walk rbind_eq_Ok split: if_splits)
  then show ?thesis
    using section_symbols.sysv_walk_sound by (auto simp: reads_fst)
qed

text \<open>The indices that \<open>chains\<close> accepts are those of a list, from either end.\<close>

lemma param_at_index:
  assumes "get_item params k = Ok (VList vs)" "param_at params k i = Ok j"
  shows "i \<in> {- int (length vs)..<int (length vs)}"
  using assms by (auto simp: param_at_def py_index_def Let_def rbind_eq_Ok split: if_splits)

text \<open>C13: A lookup in a System V table that is cut off by the model's bound, twice the number of entries
  of \<^verbatim>\<open>chains\<close>, never ends in the code: the walk from the name's bucket is cut off by every bound.
  The code does not notice a chain with a cycle.\<close>

theorem sysv_cycle_never_ends:
  assumes "get_item params ''chains'' = Ok (VList cs)" "get_int params ''nchains'' = Ok (int (length cs))"
    and "fst (sysv_get_symbol (get_symbol st sec) params name s) = NoFuel"
  shows "\<exists>key n i. encode_utf8 name = Ok key \<and> get_int params ''nbuckets'' = Ok n \<and>
    param_at params ''buckets'' (elf_hash key mod n) = Ok i \<and>
    (\<forall>k. fst (sysv_walk k (get_symbol st sec) params name i s) = NoFuel)"
proof -
  have "run_on (fdata s) (sysv_get_symbol (get_symbol st sec) params name) = NoFuel"
    using assms(3) by (simp add: reads_fst reads_sysv_get_symbol)
  then obtain key n i where key: "encode_utf8 name = Ok key" "get_int params ''nbuckets'' = Ok n"
      "param_at params ''buckets'' (elf_hash key mod n) = Ok i"
    and cut: "run_on (fdata s) (sysv_walk (2 * length cs + 2) (get_symbol st sec) params name i) = NoFuel"
    unfolding sysv_get_symbol_def sysv_number_of_symbols_def
    by (auto simp: run_on_mbind reads_mbind reads_if section_symbols.reads_sysv_walk assms(2) rbind_is_NoFuel value_returns
        param_at_returns encode_returns split: if_splits)
  have "run_on (fdata s) (sysv_walk k (get_symbol st sec) params name i) = NoFuel" for k
    by (rule section_symbols.sysv_walk_forever [OF _ param_at_index [OF assms(1)] _ _ cut])
      (simp_all add: param_at_returns)
  then show ?thesis
    using key by (simp add: reads_fst section_symbols.reads_sysv_walk)
qed

text \<open>A file with the symbol \<^verbatim>\<open>a\<close> (index 1), and its string table.\<close>

definition tiny_structs :: elf_structs where
  "tiny_structs = \<lparr>little_endian = True, elfclass = 32, e_type = VNone, e_machine = VNone, e_ident_osabi = VNone\<rparr>"

definition tiny_strtab :: elf_section where
  "tiny_strtab = Section StringTableSection (VCont [(''sh_offset'', VInt 32)]) [] None None VNone"

definition tiny_symtab :: elf_section where
  "tiny_symtab = Section SymbolTableSection (VCont [(''sh_offset'', VInt 0), (''sh_entsize'', VInt 16)]) [] None
     (Some tiny_strtab) VNone"

definition tiny_state :: fstate where
  "tiny_state = \<lparr>f_stream = bytesio (replicate 16 0 @ [1] @ replicate 15 0 @ [0, 97, 0]), f_names = None\<rparr>"

definition tiny_table :: "int \<Rightarrow> val" where
  "tiny_table next = VCont [(''nbuckets'', VInt 1), (''nchains'', VInt 2), (''buckets'', VList [VInt 1]),
     (''chains'', VList [VInt 0, VInt next])]"

definition tiny_symbol :: symbol where
  "tiny_symbol = \<lparr>sym_entry = sym_value tiny_structs (1 # replicate 15 0), sym_name = [97]\<rparr>"

theorem sysv_lookup_sound_witness:
  "sym_name tiny_symbol = [97] \<and> (\<exists>i. i \<noteq> 0 \<and> fst (get_symbol tiny_structs tiny_symtab i tiny_state) = Ok tiny_symbol)"
proof (rule sysv_lookup_sound)
  show "fst (sysv_get_symbol (get_symbol tiny_structs tiny_symtab) (tiny_table 0) [97] tiny_state) = Ok (Some tiny_symbol)"
    by code_simp
qed

theorem sysv_cycle_never_ends_witness:
  "\<exists>key n i. encode_utf8 [98] = Ok key \<and> get_int (tiny_table 1) ''nbuckets'' = Ok n \<and>
    param_at (tiny_table 1) ''buckets'' (elf_hash key mod n) = Ok i \<and>
    (\<forall>k. fst (sysv_walk k (get_symbol tiny_structs tiny_symtab) (tiny_table 1) [98] i tiny_state) = NoFuel)"
proof (rule sysv_cycle_never_ends)
  show "get_item (tiny_table 1) ''chains'' = Ok (VList [VInt 0, VInt 1])" by code_simp
  show "get_int (tiny_table 1) ''nchains'' = Ok (int (length [VInt 0, VInt 1]))" by code_simp
  show "fst (sysv_get_symbol (get_symbol tiny_structs tiny_symtab) (tiny_table 1) [98] tiny_state) = NoFuel" by code_simp
qed

section \<open>The GNU table\<close>

lemma read_hash_at:
  assumes "spos (f_stream s) + 4 \<le> length (fdata s)"
  shows "read_hash st s = (Ok (uint_at st (spos (f_stream s)) 4 (fdata s)),
    s\<lparr>f_stream := (f_stream s)\<lparr>spos := spos (f_stream s) + 4\<rparr>\<rparr>)"
  using assms
  by (simp add: read_hash_def chunk_formats sizeof_def mbind_def on_file_run s_read_enough remaining_def
      unpack_ok uint_at_def)

text \<open>The words of a chain from a position on.\<close>

definition chain_word :: "elf_structs \<Rightarrow> bytes \<Rightarrow> nat \<Rightarrow> nat \<Rightarrow> int" where
  "chain_word st d p j = uint_at st (p + 4 * j) 4 d"

text \<open>A walk stops at the first word whose hash agrees, up to the bit that marks the end of a chain,
  or that carries this bit.\<close>

definition chain_stop :: "elf_structs \<Rightarrow> bytes \<Rightarrow> nat \<Rightarrow> int \<Rightarrow> nat \<Rightarrow> bool" where
  "chain_stop st d p namehash j \<longleftrightarrow>
     chain_word st d p j OR 1 = namehash OR 1 \<or> chain_word st d p j AND 1 \<noteq> 0"

text \<open>The words in front of the first stop are passed over.\<close>

lemma gnu_walk_skip:
  assumes "spos (f_stream s) + 4 * j \<le> length (fdata s)" "j \<le> fuel"
    and "\<And>i. i < j \<Longrightarrow> \<not> chain_stop st (fdata s) (spos (f_stream s)) namehash i"
  shows "gnu_walk fuel st getsym name namehash symidx s =
    gnu_walk (fuel - j) st getsym name namehash (symidx + int j)
      (s\<lparr>f_stream := (f_stream s)\<lparr>spos := spos (f_stream s) + 4 * j\<rparr>\<rparr>)"
  using assms
proof (induction j arbitrary: s fuel symidx)
  case (Suc j)
  then obtain k where k: "fuel = Suc k" by (cases fuel) auto
  let ?t = "s\<lparr>f_stream := (f_stream s)\<lparr>spos := spos (f_stream s) + 4\<rparr>\<rparr>"
  have stop: "chain_stop st d (p + 4) namehash i = chain_stop st d p namehash (Suc i)" for d p i
    by (simp add: chain_stop_def chain_word_def add.assoc)
  have "\<not> chain_stop st (fdata s) (spos (f_stream s)) namehash 0"
    using Suc.prems(3) by blast
  then have "gnu_walk fuel st getsym name namehash symidx s = gnu_walk k st getsym name namehash (symidx + 1) ?t"
    using Suc.prems(1) by (simp add: k mbind_def read_hash_at chain_stop_def chain_word_def)
  also have "\<dots> = gnu_walk (k - j) st getsym name namehash (symidx + 1 + int j)
      (?t\<lparr>f_stream := (f_stream ?t)\<lparr>spos := spos (f_stream ?t) + 4 * j\<rparr>\<rparr>)"
    by (rule Suc.IH) (use Suc.prems k in \<open>simp_all add: stop add.assoc\<close>)
  finally show ?case
    by (simp add: k algebra_simps)
qed simp

lemma gnu_walk_stop:
  assumes "spos (f_stream s) + 4 * (j + 1) \<le> length (fdata s)" "j < fuel"
    and "chain_stop st (fdata s) (spos (f_stream s)) namehash j"
    and "\<And>i. i < j \<Longrightarrow> \<not> chain_stop st (fdata s) (spos (f_stream s)) namehash i"
    and get: "reads (getsym (symidx + int j))" "run_on (fdata s) (getsym (symidx + int j)) = Ok sy"
    and last: "sym_name sy = name \<or> chain_word st (fdata s) (spos (f_stream s)) j AND 1 \<noteq> 0"
  shows "fst (gnu_walk fuel st getsym name namehash symidx s) =
    Ok (if chain_word st (fdata s) (spos (f_stream s)) j OR 1 = namehash OR 1 \<and> sym_name sy = name then Some sy else None)"
proof -
  let ?p = "spos (f_stream s) + 4 * j"
  let ?s = "s\<lparr>f_stream := (f_stream s)\<lparr>spos := ?p + 4\<rparr>\<rparr>"
  obtain k where k: "fuel - j = Suc k" using assms(2) by (metis Suc_diff_Suc)
  obtain t where "getsym (symidx + int j) ?s = (Ok sy, t)"
    using reads_run [OF get(1), of ?s] get(2) by auto
  with assms(1,3) last have "fst (gnu_walk (Suc k) st getsym name namehash (symidx + int j) (s\<lparr>f_stream := (f_stream s)\<lparr>spos := ?p\<rparr>\<rparr>)) =
    Ok (if chain_word st (fdata s) (spos (f_stream s)) j OR 1 = namehash OR 1 \<and> sym_name sy = name then Some sy else None)"
    by (auto simp: mbind_def read_hash_at chain_stop_def chain_word_def)
  then show ?thesis
    using gnu_walk_skip [of s j fuel st namehash getsym name symidx] assms(1,2,4) k by simp
qed

text \<open>A symbol with another name whose hash agrees: the walk goes on where fetching the symbol left the stream.\<close>

lemma gnu_walk_collision:
  assumes "spos (f_stream s) + 4 * (j + 1) \<le> length (fdata s)" "j < fuel"
    and "\<And>i. i < j \<Longrightarrow> \<not> chain_stop st (fdata s) (spos (f_stream s)) namehash i"
    and "chain_word st (fdata s) (spos (f_stream s)) j OR 1 = namehash OR 1" "chain_word st (fdata s) (spos (f_stream s)) j AND 1 = 0"
    and "getsym (symidx + int j) (s\<lparr>f_stream := (f_stream s)\<lparr>spos := spos (f_stream s) + 4 * (j + 1)\<rparr>\<rparr>) = (Ok sy, t)" "sym_name sy \<noteq> name"
  shows "gnu_walk fuel st getsym name namehash symidx s = gnu_walk (fuel - Suc j) st getsym name namehash (symidx + int j + 1) t"
proof -
  obtain k where k: "fuel - j = Suc k" using assms(2) by (metis Suc_diff_Suc)
  then have k': "fuel - Suc j = k" by simp
  have "gnu_walk (Suc k) st getsym name namehash (symidx + int j) (s\<lparr>f_stream := (f_stream s)\<lparr>spos := spos (f_stream s) + 4 * j\<rparr>\<rparr>) =
      gnu_walk k st getsym name namehash (symidx + int j + 1) t"
    using assms by (auto simp: mbind_def read_hash_at chain_word_def ac_simps)
  then show ?thesis
    using gnu_walk_skip [of s j fuel st namehash getsym name symidx] assms(1-3) k k' by simp
qed

declare gnu_walk.simps [simp del]

text \<open>C14: The lookup in a GNU hash table, when the name passes the Bloom filter: the walk goes to the
  first entry of the bucket's chain whose hash is the name's up to the lowest bit, or that ends the chain.  When that
  entry ends the chain or its symbol has the name, the lookup returns this symbol if hash and name agree, and nothing
  otherwise.  The case that is left, a symbol with another name and an agreeing hash in the middle of a chain, is treated below.\<close>

theorem gnu_lookup:
  assumes "encode_utf8 name = Ok key" "matches_bloom st params (gnu_hash key) = Ok True"
    and "get_int params ''nbuckets'' = Ok n" "n \<noteq> 0"
    and "param_at params ''buckets'' (gnu_hash key mod n) = Ok symidx"
    and "get_int params ''symoffset'' = Ok symoffset" "symoffset \<le> symidx"
    and "chain_pos st params symidx = Ok pos" "0 \<le> pos" "pos < 2 ^ 63" "nat pos + 4 * (j + 1) \<le> length (fdata s)"
    and "chain_stop st (fdata s) (nat pos) (gnu_hash key) j"
    and "\<And>i. i < j \<Longrightarrow> \<not> chain_stop st (fdata s) (nat pos) (gnu_hash key) i"
    and "fst (get_symbol st sec (symidx + int j) s) = Ok sy"
    and "sym_name sy = name \<or> chain_word st (fdata s) (nat pos) j AND 1 \<noteq> 0"
  shows "fst (gnu_get_symbol st (get_symbol st sec) params name s) =
    Ok (if chain_word st (fdata s) (nat pos) j OR 1 = gnu_hash key OR 1 \<and> sym_name sy = name then Some sy else None)"
proof -
  let ?s = "s\<lparr>f_stream := (f_stream s)\<lparr>spos := nat pos\<rparr>\<rparr>"
  let ?fuel = "(length (fdata s) + 2) * (length (fdata s) + 2)"
  have "gnu_get_symbol st (get_symbol st sec) params name s =
      gnu_walk ?fuel st (get_symbol st sec) name (gnu_hash key) symidx ?s"
    using assms(1-10) by (simp add: gnu_get_symbol_def Let_def mbind_def on_file_run s_seek_ok)
  moreover have "j < ?fuel"
    using assms(11) by (simp add: algebra_simps)
  ultimately show ?thesis
    using gnu_walk_stop [of ?s j ?fuel st "gnu_hash key" "get_symbol st sec" symidx sy name] assms(11-)
    by (simp add: reads_fst)
qed

text \<open>A GNU table with one bucket for the symbols \<^verbatim>\<open>a\<close> (index 1) and \<^verbatim>\<open>b\<close> (index 2), whose hashes
  177670 and 177671 differ in the lowest bit only.\<close>

definition gnu_symtab :: elf_section where
  "gnu_symtab = Section SymbolTableSection (VCont [(''sh_offset'', VInt 0), (''sh_entsize'', VInt 16)]) [] None
     (Some (Section StringTableSection (VCont [(''sh_offset'', VInt 48)]) [] None None VNone)) VNone"

definition gnu_state :: fstate where
  "gnu_state = \<lparr>f_stream = bytesio (replicate 16 0 @ 1 # replicate 15 0 @ 3 # replicate 15 0 @ [0, 97, 0, 98, 0, 0, 0, 0]
     @ [0x06, 0xb6, 2, 0] @ [0x07, 0xb6, 2, 0]), f_names = None\<rparr>"

definition gnu_params :: val where
  "gnu_params = VCont [(''nbuckets'', VInt 1), (''symoffset'', VInt 1), (''bloom_size'', VInt 1), (''bloom_shift'', VInt 0),
     (''bloom'', VList [VInt 0xffffffff]), (''buckets'', VList [VInt 1]), (''_chain_pos'', VInt 56)]"

definition gnu_a :: symbol where
  "gnu_a = \<lparr>sym_entry = sym_value tiny_structs (1 # replicate 15 0), sym_name = [97]\<rparr>"

definition gnu_b :: symbol where
  "gnu_b = \<lparr>sym_entry = sym_value tiny_structs (3 # replicate 15 0), sym_name = [98]\<rparr>"

theorem gnu_lookup_witness:
  "fst (gnu_get_symbol tiny_structs (get_symbol tiny_structs gnu_symtab) gnu_params [97] gnu_state) =
    Ok (if chain_word tiny_structs (fdata gnu_state) (nat 56) 0 OR 1 = gnu_hash [97] OR 1 \<and> sym_name gnu_a = [97]
        then Some gnu_a else None)"
proof (rule gnu_lookup)
  show "encode_utf8 [97] = Ok [97]" by code_simp
  show "matches_bloom tiny_structs gnu_params (gnu_hash [97]) = Ok True" by code_simp
  show "get_int gnu_params ''nbuckets'' = Ok 1" by code_simp
  show "param_at gnu_params ''buckets'' (gnu_hash [97] mod 1) = Ok 1" by code_simp
  show "get_int gnu_params ''symoffset'' = Ok 1" by code_simp
  show "chain_pos tiny_structs gnu_params 1 = Ok 56" by code_simp
  show "nat 56 + 4 * (0 + 1) \<le> length (fdata gnu_state)" by code_simp
  show "chain_stop tiny_structs (fdata gnu_state) (nat 56) (gnu_hash [97]) 0" by code_simp
  show "fst (get_symbol tiny_structs gnu_symtab (1 + int 0) gnu_state) = Ok gnu_a" by code_simp
  show "sym_name gnu_a = [97] \<or> chain_word tiny_structs (fdata gnu_state) (nat 56) 0 AND 1 \<noteq> 0" by code_simp
qed simp_all

lemma read_hash_short:
  assumes "length (fdata s) < spos (f_stream s) + 4"
  shows "fst (read_hash st s) = Err StructError"
  using assms
  by (simp add: read_hash_def chunk_formats sizeof_def mbind_def on_file_run s_read_def unpack_def Let_def)

text \<open>C15: A symbol with another name that has the name's hash up to the lowest bit makes the lookup lose its place in the
  chain: fetching the symbol moves the stream, and the walk takes the four bytes after the symbol's name was read (the
  state \<open>t\<close>) for the next hash.  So whatever follows in the chain, the symbol looked for included, a lookup is a
  \<open>struct.error\<close> when fewer than four bytes are left there, and finds nothing when they are a number that has
  another hash and the bit for the end of a chain.\<close>

theorem gnu_lookup_loses_symbol:
  assumes "encode_utf8 name = Ok key" "matches_bloom st params (gnu_hash key) = Ok True"
    and "get_int params ''nbuckets'' = Ok n" "n \<noteq> 0"
    and "param_at params ''buckets'' (gnu_hash key mod n) = Ok symidx"
    and "get_int params ''symoffset'' = Ok symoffset" "symoffset \<le> symidx"
    and "chain_pos st params symidx = Ok pos" "0 \<le> pos" "pos < 2 ^ 63" "nat pos + 4 * (j + 1) \<le> length (fdata s)"
    and "\<And>i. i < j \<Longrightarrow> \<not> chain_stop st (fdata s) (nat pos) (gnu_hash key) i"
    and "chain_word st (fdata s) (nat pos) j OR 1 = gnu_hash key OR 1" "chain_word st (fdata s) (nat pos) j AND 1 = 0"
    and "get_symbol st sec (symidx + int j) (s\<lparr>f_stream := (f_stream s)\<lparr>spos := nat pos + 4 * (j + 1)\<rparr>\<rparr>) = (Ok sy, t)"
    and "sym_name sy \<noteq> name"
  shows "(length (fdata s) < spos (f_stream t) + 4 \<longrightarrow>
      fst (gnu_get_symbol st (get_symbol st sec) params name s) = Err StructError) \<and>
    (let w = uint_at st (spos (f_stream t)) 4 (fdata s) in
     spos (f_stream t) + 4 \<le> length (fdata s) \<and> w AND 1 \<noteq> 0 \<and> w OR 1 \<noteq> gnu_hash key OR 1 \<longrightarrow>
      fst (gnu_get_symbol st (get_symbol st sec) params name s) = Ok None)"
proof -
  let ?s = "s\<lparr>f_stream := (f_stream s)\<lparr>spos := nat pos\<rparr>\<rparr>"
  let ?fuel = "(length (fdata s) + 2) * (length (fdata s) + 2)"
  have "Suc j < ?fuel" using assms(11) by (simp add: algebra_simps)
  then obtain k where k: "?fuel - Suc j = Suc k" by (metis Suc_diff_Suc)
  have "fdata t = fdata s"
    using reads_run [OF reads_get_symbol, of st sec "symidx + int j" "s\<lparr>f_stream := (f_stream s)\<lparr>spos := nat pos + 4 * (j + 1)\<rparr>\<rparr>"] assms(15)
    by auto
  have "gnu_get_symbol st (get_symbol st sec) params name s =
      gnu_walk ?fuel st (get_symbol st sec) name (gnu_hash key) symidx ?s"
    using assms(1-10) by (simp add: gnu_get_symbol_def Let_def mbind_def on_file_run s_seek_ok)
  also have "\<dots> = gnu_walk (?fuel - Suc j) st (get_symbol st sec) name (gnu_hash key) (symidx + int j + 1) t"
  proof (rule gnu_walk_collision)
    show "j < ?fuel" using assms(11) by (simp add: algebra_simps)
  qed (use assms in simp_all)
  also note k
  finally have walk: "gnu_get_symbol st (get_symbol st sec) params name s =
      gnu_walk (Suc k) st (get_symbol st sec) name (gnu_hash key) (symidx + int j + 1) t" .
  show ?thesis
  proof (rule conjI, goal_cases)
    case 1
    show ?case
    proof
      assume "length (fdata s) < spos (f_stream t) + 4"
      with read_hash_short [of t st] \<open>fdata t = fdata s\<close> obtain t' where "read_hash st t = (Err StructError, t')"
        by (cases "read_hash st t") auto
      then show "fst (gnu_get_symbol st (get_symbol st sec) params name s) = Err StructError"
        unfolding walk gnu_walk.simps by (simp add: mbind_def)
    qed
  next
    case 2
    show ?case
      unfolding walk gnu_walk.simps Let_def using \<open>fdata t = fdata s\<close> by (simp add: mbind_def read_hash_at)
  qed
qed

text \<open>The lookup of \<^verbatim>\<open>b\<close> in this table: its entry follows that of \<^verbatim>\<open>a\<close>, the symbols' names are the last
  bytes that fetching \<^verbatim>\<open>a\<close> reads, and what is left of the file is too short.\<close>

lemma gnu_b_there:
  "chain_word tiny_structs (fdata gnu_state) 56 1 = gnu_hash [98]" "fst (get_symbol tiny_structs gnu_symtab 2 gnu_state) = Ok gnu_b"
  by code_simp+

theorem gnu_lookup_loses_symbol_witness:
  "fst (gnu_get_symbol tiny_structs (get_symbol tiny_structs gnu_symtab) gnu_params [98] gnu_state) = Err StructError"
proof -
  let ?s = "gnu_state\<lparr>f_stream := (f_stream gnu_state)\<lparr>spos := nat 56 + 4 * (0 + 1)\<rparr>\<rparr>"
  obtain t where t: "get_symbol tiny_structs gnu_symtab (1 + int 0) ?s = (Ok gnu_a, t)"
  proof -
    have "fst (get_symbol tiny_structs gnu_symtab (1 + int 0) ?s) = Ok gnu_a" by code_simp
    then show thesis using that by (metis prod.collapse)
  qed
  have "length (fdata gnu_state) < spos (f_stream (snd (get_symbol tiny_structs gnu_symtab (1 + int 0) ?s))) + 4"
    by code_simp
  then have "length (fdata gnu_state) < spos (f_stream t) + 4" using t by simp
  moreover have "(length (fdata gnu_state) < spos (f_stream t) + 4 \<longrightarrow>
      fst (gnu_get_symbol tiny_structs (get_symbol tiny_structs gnu_symtab) gnu_params [98] gnu_state) = Err StructError) \<and>
    (let w = uint_at tiny_structs (spos (f_stream t)) 4 (fdata gnu_state) in
     spos (f_stream t) + 4 \<le> length (fdata gnu_state) \<and> w AND 1 \<noteq> 0 \<and> w OR 1 \<noteq> gnu_hash [98] OR 1 \<longrightarrow>
      fst (gnu_get_symbol tiny_structs (get_symbol tiny_structs gnu_symtab) gnu_params [98] gnu_state) = Ok None)"
  proof (rule gnu_lookup_loses_symbol [OF _ _ _ _ _ _ _ _ _ _ _ _ _ _ t])
    show "encode_utf8 [98] = Ok [98]" by code_simp
    show "matches_bloom tiny_structs gnu_params (gnu_hash [98]) = Ok True" by code_simp
    show "get_int gnu_params ''nbuckets'' = Ok 1" by code_simp
    show "param_at gnu_params ''buckets'' (gnu_hash [98] mod 1) = Ok 1" by code_simp
    show "get_int gnu_params ''symoffset'' = Ok 1" by code_simp
    show "chain_pos tiny_structs gnu_params 1 = Ok 56" by code_simp
    show "nat 56 + 4 * (0 + 1) \<le> length (fdata gnu_state)" by code_simp
    show "chain_word tiny_structs (fdata gnu_state) (nat 56) 0 OR 1 = gnu_hash [98] OR 1" by code_simp
    show "chain_word tiny_structs (fdata gnu_state) (nat 56) 0 AND 1 = 0" by code_simp
    show "sym_name gnu_a \<noteq> [98]" by (simp add: gnu_a_def)
  qed simp_all
  ultimately show ?thesis by blast
qed

end
