(* ===== verification/ElfRelocation.thy ===== *)
theory ElfRelocation
  imports ReadOnly
begin

text \<open>
  \<^verbatim>\<open>elftools/elf/relocation.py\<close>: tables of relocations, the compressed (RELR) tables, and the
  application of relocations to the data of a section.  The data are in a stream of their own, a
  value that the operations take and return (after an exception it is dropped); the state is that
  of the file.
\<close>

section \<open>Relocations\<close>

text \<open>A relocation is its entry.\<close>

definition is_RELA :: "val \<Rightarrow> bool res" where
  "is_RELA entry = (case entry of VCont d \<Rightarrow> Ok (map_of d ''r_addend'' \<noteq> None) | _ \<Rightarrow> Err TypeError)"

section \<open>Tables\<close>

record reloc_table =
  rt_offset :: int
  rt_size :: int
  rt_is_rela :: bool
  rt_entry_size :: int

definition entry_struct :: "elf_structs \<Rightarrow> bool \<Rightarrow> con" where
  "entry_struct st is_rela = (if is_rela then Elf_Rela st else Elf_Rel st)"

definition RelocationTable_init :: "elf_structs \<Rightarrow> int \<Rightarrow> int \<Rightarrow> bool \<Rightarrow> reloc_table res" where
  "RelocationTable_init st offset sz is_rela =
     rbind (sizeof (entry_struct st is_rela) []) (\<lambda>n.
       Ok \<lparr>rt_offset = offset, rt_size = sz, rt_is_rela = is_rela, rt_entry_size = n\<rparr>)"

definition num_relocations :: "reloc_table \<Rightarrow> int" where
  "num_relocations rt = rt_size rt div rt_entry_size rt"

definition get_relocation :: "elf_structs \<Rightarrow> reloc_table \<Rightarrow> int \<Rightarrow> val F" where
  "get_relocation st rt n =
     on_file (struct_parse (entry_struct st (rt_is_rela rt)) (Some (rt_offset rt + n * rt_entry_size rt)))"

definition iter_relocations :: "elf_structs \<Rightarrow> reloc_table \<Rightarrow> val list F" where
  "iter_relocations st rt = mmap (get_relocation st rt) [0..num_relocations rt - 1]"

text \<open>A relocation section is a table, with the attributes its constructor sets.\<close>

definition section_table :: "elf_structs \<Rightarrow> elf_section \<Rightarrow> reloc_table res" where
  "section_table st sec =
     rbind (sec_int sec ''sh_offset'') (\<lambda>off.
     rbind (sec_int sec ''sh_size'') (\<lambda>sz.
     rbind (sec_get sec ''sh_type'') (\<lambda>ty. RelocationTable_init st off sz (ty = VLit ''SHT_RELA''))))"

section \<open>Compressed tables\<close>

text \<open>
  The bits of a bitmap but the lowest, from position \<open>i\<close> on, give the addresses; the loop ends when
  no bit is left (an entry is not negative).
\<close>

function relr_bits :: "int \<Rightarrow> int \<Rightarrow> int \<Rightarrow> int \<Rightarrow> int list" where
  "relr_bits entrysize base i word =
     (let shifted = word div 2 in
      if shifted \<le> 0 then []
      else (if shifted mod 2 \<noteq> 0 then [base + i * entrysize] else [])
           @ relr_bits entrysize base (i + 1) shifted)"
  by pat_completeness auto

termination
  by (relation "measure (\<lambda>(_, _, _, w). nat w)") auto

declare relr_bits.simps [simp del]

text \<open>
  The words of a table; each is an anchor, which is a relocation and a new base, or a bitmap.  The
  accumulator is the relocations yielded so far.
\<close>

definition relr_word :: "elf_structs \<Rightarrow> int \<Rightarrow> val \<Rightarrow> int option \<Rightarrow> (val list \<times> int option) res" where
  "relr_word st entrysize entry base =
     rbind (get_int entry ''r_offset'') (\<lambda>word.
     if word AND 1 = 0 then Ok ([entry], Some (word + entrysize))
     else (case base of
       None \<Rightarrow> Err ELFError
     | Some b \<Rightarrow>
         rbind (sizeof (Elf_addr st '''') []) (\<lambda>addr_size.
           Ok (map (\<lambda>a. VCont [(''r_offset'', VInt a)]) (relr_bits entrysize b 0 word),
               Some (b + (8 * entrysize - 1) * addr_size)))))"

primrec relr_loop :: "nat \<Rightarrow> elf_structs \<Rightarrow> int \<Rightarrow> int \<Rightarrow> int \<Rightarrow> int option \<Rightarrow> val list F" where
  "relr_loop 0 st entrysize relr limit base = lift_res NoFuel"
| "relr_loop (Suc fuel) st entrysize relr limit base =
     (if relr < limit then
        mbind (on_file (struct_parse (Elf_Relr st) (Some relr))) (\<lambda>entry.
        mbind (lift_res (relr_word st entrysize entry base)) (\<lambda>(relocs, base').
        mbind (relr_loop fuel st entrysize (relr + entrysize) limit base') (\<lambda>rest. ret (relocs @ rest))))
      else ret [])"

text \<open>
  Each round advances by a word of at least four bytes, so the table's size is enough rounds.
\<close>

definition relr_iter_relocations :: "elf_structs \<Rightarrow> int \<Rightarrow> int \<Rightarrow> val list F" where
  "relr_iter_relocations st offset sz =
     (if sz = 0 then ret []
      else mbind (lift_res (sizeof (Elf_Relr st) [])) (\<lambda>entrysize.
        relr_loop (nat sz + 1) st entrysize offset (offset + sz) None))"

text \<open>The relocations are decoded once and kept by the object: the cache is argument and result.\<close>

definition relr_cached :: "elf_structs \<Rightarrow> int \<Rightarrow> int \<Rightarrow> val list option \<Rightarrow> val list F" where
  "relr_cached st offset sz cache = (case cache of Some rs \<Rightarrow> ret rs | None \<Rightarrow> relr_iter_relocations st offset sz)"

definition relr_num_relocations :: "elf_structs \<Rightarrow> int \<Rightarrow> int \<Rightarrow> val list option \<Rightarrow> (int \<times> val list option) F" where
  "relr_num_relocations st offset sz cache =
     mbind (relr_cached st offset sz cache) (\<lambda>rs. ret (int (length rs), Some rs))"

definition relr_get_relocation :: "elf_structs \<Rightarrow> int \<Rightarrow> int \<Rightarrow> val list option \<Rightarrow> int \<Rightarrow> (val res \<times> val list option) F" where
  "relr_get_relocation st offset sz cache n =
     mbind (relr_cached st offset sz cache) (\<lambda>rs. ret (py_index rs n, Some rs))"

section \<open>Recipes\<close>

type_synonym calc = "int \<Rightarrow> int \<Rightarrow> int \<Rightarrow> int \<Rightarrow> int"

text \<open>The arguments: the value, the symbol's value, the offset and the addend.\<close>

definition reloc_calc_identity :: calc where
  "reloc_calc_identity v symv offset addend = v"
definition reloc_calc_sym_plus_value :: calc where
  "reloc_calc_sym_plus_value v symv offset addend = symv + v + addend"
definition reloc_calc_sym_plus_value_pcrel :: calc where
  "reloc_calc_sym_plus_value_pcrel v symv offset addend = symv + v - offset"
definition reloc_calc_sym_plus_addend :: calc where
  "reloc_calc_sym_plus_addend v symv offset addend = symv + addend"
definition reloc_calc_sym_plus_addend_pcrel :: calc where
  "reloc_calc_sym_plus_addend_pcrel v symv offset addend = symv + addend - offset"
definition reloc_calc_value_minus_sym_addend :: calc where
  "reloc_calc_value_minus_sym_addend v symv offset addend = v - symv - addend"
definition arm_reloc_calc_sym_plus_value_pcrel :: calc where
  "arm_reloc_calc_sym_plus_value_pcrel v symv offset addend = symv div 4 + v - offset div 4"
definition bpf_64_32_reloc_calc_sym_plus_addend :: calc where
  "bpf_64_32_reloc_calc_sym_plus_addend v symv offset addend = (symv + addend) div 8 - 1"

record recipe =
  bytesize :: int
  has_addend :: bool
  calc_func :: calc

definition RECIPE :: "int \<Rightarrow> bool \<Rightarrow> calc \<Rightarrow> recipe" where
  "RECIPE n a f = \<lparr>bytesize = n, has_addend = a, calc_func = f\<rparr>"

text \<open>A table of recipes is keyed by the numbers that an enumeration gives to names.\<close>

definition reloc_recipe :: "enum \<Rightarrow> (string \<times> recipe) list \<Rightarrow> int \<Rightarrow> recipe option" where
  "reloc_recipe e rs n = map_option snd (find (\<lambda>(nm, r). map_of (fst e) nm = Some n) rs)"

definition RECIPES_ARM :: "(string \<times> recipe) list" where
  "RECIPES_ARM =
     [(''R_ARM_ABS32'', RECIPE 4 False reloc_calc_sym_plus_value),
      (''R_ARM_CALL'', RECIPE 4 False arm_reloc_calc_sym_plus_value_pcrel)]"

definition RECIPES_AARCH64 :: "(string \<times> recipe) list" where
  "RECIPES_AARCH64 =
     [(''R_AARCH64_ABS64'', RECIPE 8 True reloc_calc_sym_plus_addend),
      (''R_AARCH64_ABS32'', RECIPE 4 True reloc_calc_sym_plus_addend),
      (''R_AARCH64_PREL32'', RECIPE 4 True reloc_calc_sym_plus_addend_pcrel)]"

definition RECIPES_MIPS_REL :: "(string \<times> recipe) list" where
  "RECIPES_MIPS_REL =
     [(''R_MIPS_NONE'', RECIPE 4 False reloc_calc_identity),
      (''R_MIPS_32'', RECIPE 4 False reloc_calc_sym_plus_value)]"

definition RECIPES_MIPS_RELA :: "(string \<times> recipe) list" where
  "RECIPES_MIPS_RELA =
     [(''R_MIPS_NONE'', RECIPE 4 True reloc_calc_identity),
      (''R_MIPS_32'', RECIPE 4 True reloc_calc_sym_plus_value),
      (''R_MIPS_64'', RECIPE 8 True reloc_calc_sym_plus_value)]"

definition RECIPES_PPC64 :: "(string \<times> recipe) list" where
  "RECIPES_PPC64 =
     [(''R_PPC64_ADDR32'', RECIPE 4 True reloc_calc_sym_plus_addend),
      (''R_PPC64_REL32'', RECIPE 4 True reloc_calc_sym_plus_addend_pcrel),
      (''R_PPC64_ADDR64'', RECIPE 8 True reloc_calc_sym_plus_addend)]"

definition RECIPES_X86 :: "(string \<times> recipe) list" where
  "RECIPES_X86 =
     [(''R_386_NONE'', RECIPE 4 False reloc_calc_identity),
      (''R_386_32'', RECIPE 4 False reloc_calc_sym_plus_value),
      (''R_386_PC32'', RECIPE 4 False reloc_calc_sym_plus_value_pcrel)]"

definition RECIPES_X64 :: "(string \<times> recipe) list" where
  "RECIPES_X64 =
     [(''R_X86_64_NONE'', RECIPE 8 True reloc_calc_identity),
      (''R_X86_64_64'', RECIPE 8 True reloc_calc_sym_plus_addend),
      (''R_X86_64_PC32'', RECIPE 4 True reloc_calc_sym_plus_addend_pcrel),
      (''R_X86_64_32'', RECIPE 4 True reloc_calc_sym_plus_addend),
      (''R_X86_64_32S'', RECIPE 4 True reloc_calc_sym_plus_addend)]"

definition RECIPES_EBPF :: "(string \<times> recipe) list" where
  "RECIPES_EBPF =
     [(''R_BPF_NONE'', RECIPE 8 False reloc_calc_identity),
      (''R_BPF_64_64'', RECIPE 8 False reloc_calc_identity),
      (''R_BPF_64_32'', RECIPE 8 False bpf_64_32_reloc_calc_sym_plus_addend),
      (''R_BPF_64_NODYLD32'', RECIPE 4 False reloc_calc_identity),
      (''R_BPF_64_ABS64'', RECIPE 8 False reloc_calc_identity),
      (''R_BPF_64_ABS32'', RECIPE 4 False reloc_calc_identity)]"

definition RECIPES_LOONGARCH :: "(string \<times> recipe) list" where
  "RECIPES_LOONGARCH =
     [(''R_LARCH_NONE'', RECIPE 4 False reloc_calc_identity),
      (''R_LARCH_32'', RECIPE 4 True reloc_calc_sym_plus_addend),
      (''R_LARCH_64'', RECIPE 8 True reloc_calc_sym_plus_addend),
      (''R_LARCH_ADD8'', RECIPE 1 True reloc_calc_sym_plus_value),
      (''R_LARCH_SUB8'', RECIPE 1 True reloc_calc_value_minus_sym_addend),
      (''R_LARCH_ADD16'', RECIPE 2 True reloc_calc_sym_plus_value),
      (''R_LARCH_SUB16'', RECIPE 2 True reloc_calc_value_minus_sym_addend),
      (''R_LARCH_ADD32'', RECIPE 4 True reloc_calc_sym_plus_value),
      (''R_LARCH_SUB32'', RECIPE 4 True reloc_calc_value_minus_sym_addend),
      (''R_LARCH_ADD64'', RECIPE 8 True reloc_calc_sym_plus_value),
      (''R_LARCH_SUB64'', RECIPE 8 True reloc_calc_value_minus_sym_addend),
      (''R_LARCH_32_PCREL'', RECIPE 4 True reloc_calc_sym_plus_addend_pcrel),
      (''R_LARCH_64_PCREL'', RECIPE 8 True reloc_calc_sym_plus_addend_pcrel)]"

definition RECIPES_S390X :: "(string \<times> recipe) list" where
  "RECIPES_S390X =
     [(''R_390_32'', RECIPE 4 True reloc_calc_sym_plus_addend),
      (''R_390_PC32'', RECIPE 4 True reloc_calc_sym_plus_addend_pcrel),
      (''R_390_64'', RECIPE 8 True reloc_calc_sym_plus_addend)]"

section \<open>Applying a relocation\<close>

text \<open>The recipe for an entry, with the checks of its kind per machine (an \<^verbatim>\<open>if/elif\<close> chain).\<close>

definition mips64_single :: "val \<Rightarrow> unit res" where
  "mips64_single reloc =
     rbind (get_item reloc ''r_type2'') (\<lambda>t2. if t2 \<noteq> VInt 0 then Err ELFRelocationError
     else rbind (get_item reloc ''r_type3'') (\<lambda>t3. if t3 \<noteq> VInt 0 then Err ELFRelocationError
     else rbind (get_item reloc ''r_ssym'') (\<lambda>sy. if sy \<noteq> VInt 0 then Err ELFRelocationError else Ok ())))"

definition find_recipe :: "pystr \<Rightarrow> val \<Rightarrow> int \<Rightarrow> recipe option res" where
  "find_recipe arch reloc ty = rbind (is_RELA reloc) (\<lambda>rela.
     if arch = lit ''x86'' then
       (if rela then Err ELFRelocationError else Ok (reloc_recipe ENUM_RELOC_TYPE_i386 RECIPES_X86 ty))
     else if arch = lit ''x64'' then
       (if \<not> rela then Err ELFRelocationError else Ok (reloc_recipe ENUM_RELOC_TYPE_x64 RECIPES_X64 ty))
     else if arch = lit ''MIPS'' then
       (if rela then
          rbind (if map_of (fst ENUM_RELOC_TYPE_MIPS) ''R_MIPS_64'' = Some ty then mips64_single reloc else Ok ())
            (\<lambda>_. Ok (reloc_recipe ENUM_RELOC_TYPE_MIPS RECIPES_MIPS_RELA ty))
        else Ok (reloc_recipe ENUM_RELOC_TYPE_MIPS RECIPES_MIPS_REL ty))
     else if arch = lit ''ARM'' then
       (if rela then Err ELFRelocationError else Ok (reloc_recipe ENUM_RELOC_TYPE_ARM RECIPES_ARM ty))
     else if arch = lit ''AArch64'' then Ok (reloc_recipe ENUM_RELOC_TYPE_AARCH64 RECIPES_AARCH64 ty)
     else if arch = lit ''64-bit PowerPC'' then Ok (reloc_recipe ENUM_RELOC_TYPE_PPC64 RECIPES_PPC64 ty)
     else if arch = lit ''IBM S/390'' then Ok (reloc_recipe ENUM_RELOC_TYPE_S390X RECIPES_S390X ty)
     else if arch = lit ''Linux BPF - in-kernel virtual machine'' then
       Ok (reloc_recipe ENUM_RELOC_TYPE_BPF RECIPES_EBPF ty)
     else if arch = lit ''LoongArch'' then
       (if \<not> rela then Err ELFRelocationError
        else Ok (reloc_recipe ENUM_RELOC_TYPE_LOONGARCH RECIPES_LOONGARCH ty))
     else Ok None)"

definition value_struct :: "elf_structs \<Rightarrow> int \<Rightarrow> con res" where
  "value_struct st n =
     (if n = 4 then Ok (Elf_word st '''')
      else if n = 8 then Ok (Elf_word64 st '''')
      else if n = 1 then Ok (Elf_byte st '''')
      else if n = 2 then Ok (Elf_half st '''')
      else Err ELFRelocationError)"

text \<open>\<^verbatim>\<open>construct.build_stream(obj, stream)\<close>.\<close>

definition build_stream :: "con \<Rightarrow> val \<Rightarrow> (stream, unit) M" where
  "build_stream c obj = (\<lambda>t. case con_build c obj \<lparr>pctx = [], pstm = t\<rparr> of (r, s) \<Rightarrow>
     ((case r of Ok _ \<Rightarrow> Ok () | Err e \<Rightarrow> Err e | NoFuel \<Rightarrow> NoFuel), pstm s))"

text \<open>The three numbered steps: read, compute, write back, on the section's data.\<close>

definition patch_value :: "elf_structs \<Rightarrow> recipe \<Rightarrow> val \<Rightarrow> int \<Rightarrow> (stream, unit) M" where
  "patch_value st rcp reloc symv =
     mbind (lift_res (value_struct st (bytesize rcp))) (\<lambda>vs.
     mbind (lift_res (get_int reloc ''r_offset'')) (\<lambda>off.
     mbind (struct_parse vs (Some off)) (\<lambda>original.
     mbind (lift_res (as_int original)) (\<lambda>v.
     mbind (lift_res (if has_addend rcp then get_int reloc ''r_addend'' else Ok 0)) (\<lambda>addend.
     mbind (s_seek off) (\<lambda>_.
       build_stream vs (VInt (calc_func rcp v symv off addend mod 2 ^ nat (bytesize rcp * 8)))))))))"

text \<open>The classes with a \<^verbatim>\<open>num_symbols\<close> and a \<^verbatim>\<open>get_symbol\<close> that takes an index.\<close>

definition symbol_of :: "elf_structs \<Rightarrow> elf_section \<Rightarrow> int \<Rightarrow> symbol F" where
  "symbol_of st sec n = (case s_kind sec of
     SymbolTableSection \<Rightarrow> get_symbol st sec n
   | GNUVerSymSection \<Rightarrow> versym_get_symbol st sec n
   | SUNWSyminfoTableSection \<Rightarrow> syminfo_get_symbol st sec n
   | _ \<Rightarrow> raise AttributeError)"

definition symbols_of :: "elf_section \<Rightarrow> int res" where
  "symbols_of sec =
     (if s_kind sec = SUNWSyminfoTableSection then syminfo_num_symbols sec
      else if s_kind sec \<in> {SymbolTableSection, GNUVerSymSection} then num_symbols sec
      else Err AttributeError)"

definition do_apply_relocation :: "elffile \<Rightarrow> stream \<Rightarrow> val \<Rightarrow> elf_section \<Rightarrow> stream F" where
  "do_apply_relocation ef data reloc symtab =
     mbind (lift_res (get_int reloc ''r_info_sym'')) (\<lambda>sy.
     mbind (lift_res (symbols_of symtab)) (\<lambda>n.
     if sy \<ge> n then raise ELFRelocationError
     else mbind (symbol_of (ef_structs ef) symtab sy) (\<lambda>symbol.
       mbind (lift_res (get_int (sym_entry symbol) ''st_value'')) (\<lambda>symv.
       mbind (lift_res (get_int reloc ''r_info_type'')) (\<lambda>ty.
       mbind (lift_res (get_machine_arch ef)) (\<lambda>arch.
       mbind (lift_res (find_recipe arch reloc ty)) (\<lambda>r. (case r of
           None \<Rightarrow> raise ELFRelocationError
         | Some rcp \<Rightarrow> (case patch_value (ef_structs ef) rcp reloc symv data of
             (Ok _, data') \<Rightarrow> ret data'
           | (Err e, _) \<Rightarrow> raise e
           | (NoFuel, _) \<Rightarrow> lift_res NoFuel)))))))))"

primrec apply_relocations :: "elffile \<Rightarrow> elf_section \<Rightarrow> reloc_table \<Rightarrow> int list \<Rightarrow> stream \<Rightarrow> stream F" where
  "apply_relocations ef symtab rt [] data = ret data"
| "apply_relocations ef symtab rt (i # is) data =
     mbind (get_relocation (ef_structs ef) rt i) (\<lambda>reloc.
     mbind (do_apply_relocation ef data reloc symtab) (apply_relocations ef symtab rt is))"

definition apply_section_relocations :: "elffile \<Rightarrow> stream \<Rightarrow> elf_section \<Rightarrow> stream F" where
  "apply_section_relocations ef data reloc_section =
     mbind (lift_res (sec_int reloc_section ''sh_link'')) (\<lambda>link.
     mbind (get_section ef link []) (\<lambda>symtab.
     mbind (lift_res (section_table (ef_structs ef) reloc_section)) (\<lambda>rt.
       apply_relocations ef symtab rt [0..num_relocations rt - 1] data)))"

text \<open>The search stops at the first relocation section with one of the two names.\<close>

primrec find_reloc_section :: "elffile \<Rightarrow> pystr \<Rightarrow> int list \<Rightarrow> elf_section option F" where
  "find_reloc_section ef name [] = ret None"
| "find_reloc_section ef name (i # is) =
     mbind (get_section ef i []) (\<lambda>sec.
       if s_kind sec = RelocationSection \<and> s_name sec \<in> {lit ''.rel'' @ name, lit ''.rela'' @ name}
       then ret (Some sec) else find_reloc_section ef name is)"

definition find_relocations_for_section :: "elffile \<Rightarrow> elf_section \<Rightarrow> elf_section option F" where
  "find_relocations_for_section ef sec =
     mbind (num_sections ef) (\<lambda>n. find_reloc_section ef (s_name sec) [0..n - 1])"

end
