(* ===== verification/RelocProperties.thy ===== *)
theory RelocProperties
  imports ElfRelocation Returning
begin

text \<open>
  Properties of \<^verbatim>\<open>elf/relocation.py\<close>: what a compressed table decodes to, and what applying a
  relocation does to the data of a section.
\<close>

section \<open>Compressed tables\<close>

lemma bit_div_two: "bit (w div 2) n = bit w (Suc n)" for w :: int
  by (simp add: bit_Suc)

lemma relr_bits_upto:
  "0 \<le> w \<Longrightarrow> w < 2 ^ Suc n \<Longrightarrow>
   relr_bits e b i w = map (\<lambda>j. b + (i + int j) * e) (filter (\<lambda>j. bit w (Suc j)) [0..<n])"
proof (induction n arbitrary: i w)
  case 0
  then show ?case by (simp add: relr_bits.simps [of e b i w])
next
  case (Suc n)
  have upt: "[0..<Suc n] = 0 # map Suc [0..<n]"
    by (simp add: upt_conv_Cons map_Suc_upt del: upt_Suc)
  have step: "relr_bits e b (i + 1) (w div 2) =
      map (\<lambda>j. b + (i + 1 + int j) * e) (filter (\<lambda>j. bit w (Suc (Suc j))) [0..<n])"
    using Suc.IH [of "w div 2" "i + 1"] Suc.prems by (simp add: bit_div_two)
  show ?case
  proof (cases "w div 2 = 0")
    case True
    then have "\<not> bit w (Suc j)" for j
      using bit_div_two [of w j] by simp
    then show ?thesis
      using True by (simp add: relr_bits.simps [of e b i w])
  next
    case False
    then have "0 < w div 2" using Suc.prems(1) by simp
    then have "relr_bits e b i w = (if bit w 1 then [b + i * e] else []) @ relr_bits e b (i + 1) (w div 2)"
      by (subst relr_bits.simps) (auto simp: Let_def bit_1_iff odd_iff_mod_2_eq_one bit_div_two [symmetric, where n = 0, simplified] bit_0)
    also have "\<dots> = map (\<lambda>j. b + (i + int j) * e) (filter (\<lambda>j. bit w (Suc j)) [0..<Suc n])"
      unfolding upt step by (simp add: filter_map comp_def add.assoc)
    finally show ?thesis .
  qed
qed

text \<open>What a table means: the words one by one, with the address that the next bitmap starts at.\<close>

fun relr_addresses :: "nat \<Rightarrow> int option \<Rightarrow> int list \<Rightarrow> int list option" where
  "relr_addresses ws base [] = Some []"
| "relr_addresses ws base (w # words) =
     (if even w then map_option ((#) w) (relr_addresses ws (Some (w + int ws)) words)
      else (case base of
        None \<Rightarrow> None
      | Some b \<Rightarrow> map_option ((@) (map (\<lambda>j. b + int j * int ws) (filter (\<lambda>j. bit w (Suc j)) [0..<8 * ws - 1])))
          (relr_addresses ws (Some (b + int ((8 * ws - 1) * ws))) words)))"

definition relr_entry :: "int \<Rightarrow> val" where
  "relr_entry a = VCont [(''r_offset'', VInt a)]"

definition relr_words :: "elf_structs \<Rightarrow> bytes \<Rightarrow> nat \<Rightarrow> nat \<Rightarrow> int list" where
  "relr_words st d p n = map (\<lambda>i. uint_at st (p + i * wsize st) (wsize st) d) [0..<n]"

lemma wsize_addr: "sizeof (Elf_addr st '''') [] = Ok (int (wsize st))"
  by (simp add: chunk_formats sizeof_def wsize_def)

lemma relr_word_spec:
  assumes "0 \<le> w" "w < 256 ^ wsize st"
  shows "relr_word st (int (wsize st)) (relr_entry w) base =
    (if even w then Ok ([relr_entry w], Some (w + int (wsize st)))
     else (case base of None \<Rightarrow> Err ELFError
       | Some b \<Rightarrow> Ok (map relr_entry (map (\<lambda>j. b + int j * int (wsize st))
             (filter (\<lambda>j. bit w (Suc j)) [0..<8 * wsize st - 1])),
           Some (b + int ((8 * wsize st - 1) * wsize st)))))"
proof -
  have "(256 :: int) ^ wsize st = 2 ^ Suc (8 * wsize st - 1)"
    by (simp add: wsize_def)
  then have "relr_bits (int (wsize st)) b 0 w =
      map (\<lambda>j. b + int j * int (wsize st)) (filter (\<lambda>j. bit w (Suc j)) [0..<8 * wsize st - 1])" for b
    using relr_bits_upto [of w "8 * wsize st - 1" "int (wsize st)" b 0] assms by simp
  moreover have "int (8 * wsize st - 1) = 8 * int (wsize st) - 1"
    by (simp add: wsize_def)
  ultimately show ?thesis
    by (auto simp: relr_word_def relr_entry_def get_int_def wsize_addr and_one_eq even_iff_mod_2_eq_zero
        split: option.split)
qed

lemma uint_at_bytes_at: "n \<le> m \<Longrightarrow> uint_at st 0 n (bytes_at d p m) = uint_at st p n d"
  by (simp add: uint_at_def bytes_at_def min_def)

lemma relr_value_at: "relr_value st (bytes_at d p (wsize st)) = relr_entry (uint_at st p (wsize st) d)"
  by (simp add: relr_value_def relr_entry_def uint_at_bytes_at)

lemma relr_parse:
  assumes "p < 2 ^ 63" "p + wsize st \<le> length (fdata s)"
  shows "on_file (struct_parse (Elf_Relr st) (Some (int p))) s =
    (Ok (relr_entry (uint_at st p (wsize st) (fdata s))), s\<lparr>f_stream := (f_stream s)\<lparr>spos := p + wsize st\<rparr>\<rparr>)"
  using relr.struct_parse_at [of "int p" st "f_stream s"] assms
  by (simp add: on_file_run relr_value_at)

lemma relr_words_Suc:
  "relr_words st d p (Suc n) = uint_at st p (wsize st) d # relr_words st d (p + wsize st) n"
  by (simp add: relr_words_def upt_conv_Cons map_Suc_upt [symmetric] comp_def add.assoc [symmetric] del: upt_Suc)

lemma relr_loop_spec:
  assumes "n < fuel" "p + n * wsize st \<le> length (fdata s)" "p + n * wsize st < 2 ^ 63"
  shows "fst (relr_loop fuel st (int (wsize st)) (int p) (int (p + n * wsize st)) base s) =
    (case relr_addresses (wsize st) base (relr_words st (fdata s) p n) of
       Some as \<Rightarrow> Ok (map relr_entry as) | None \<Rightarrow> Err ELFError)"
  using assms
proof (induction n arbitrary: fuel p s base)
  case 0
  then show ?case by (cases fuel) (simp_all add: relr_words_def)
next
  case (Suc n)
  then obtain k where k: "fuel = Suc k" "n < k" by (cases fuel) auto
  let ?w = "uint_at st p (wsize st) (fdata s)"
  let ?s = "s\<lparr>f_stream := (f_stream s)\<lparr>spos := p + wsize st\<rparr>\<rparr>"
  have p: "p < 2 ^ 63" "p + wsize st \<le> length (fdata s)"
    using Suc.prems by auto
  have w: "0 \<le> ?w" "?w < 256 ^ wsize st"
    by (rule uint_at_bounds)+
  note word = relr_word_spec [OF w, of base]
  have more: "int p < int (p + Suc n * wsize st)"
    using wsize_pos [of st] by (simp add: add_pos_nonneg)
  have limit: "int (p + Suc n * wsize st) = int ((p + wsize st) + n * wsize st)" "int p + int (wsize st) = int (p + wsize st)"
    by simp_all
  have rest: "fst (relr_loop k st (int (wsize st)) (int (p + wsize st)) (int ((p + wsize st) + n * wsize st)) b ?s) =
    (case relr_addresses (wsize st) b (relr_words st (fdata s) (p + wsize st) n) of
       Some as \<Rightarrow> Ok (map relr_entry as) | None \<Rightarrow> Err ELFError)" for b
    using Suc.IH [of k "p + wsize st" ?s b] Suc.prems k(2) by simp
  show ?case
  proof (cases "even ?w")
    case True
    let ?b = "Some (?w + int (wsize st))"
    obtain r s' where run: "relr_loop k st (int (wsize st)) (int (p + wsize st)) (int ((p + wsize st) + n * wsize st)) ?b ?s = (r, s')"
      by fastforce
    then show ?thesis
      using rest [of ?b] True more
      by (cases r) (auto simp: k mbind_def relr_parse [OF p] word relr_words_Suc limit add.assoc simp del: of_nat_add of_nat_mult of_nat_Suc
          split: option.splits)
  next
    case False
    show ?thesis
    proof (cases base)
      case None
      then show ?thesis
        using False more by (simp add: k mbind_def relr_parse [OF p] word [unfolded None] relr_words_Suc)
    next
      case (Some a)
      let ?b = "Some (a + int ((8 * wsize st - 1) * wsize st))"
      obtain r s' where run: "relr_loop k st (int (wsize st)) (int (p + wsize st)) (int ((p + wsize st) + n * wsize st)) ?b ?s = (r, s')"
        by fastforce
      then show ?thesis
        using rest [of ?b] False more Some
        by (cases r) (auto simp: k mbind_def relr_parse [OF p] word [unfolded Some] relr_words_Suc limit add.assoc simp del: of_nat_add of_nat_mult of_nat_Suc
            split: option.splits)
    qed
  qed
qed

declare relr_loop.simps [simp del]

text \<open>C16: A compressed table of \<open>n\<close> words decodes to the addresses that its words mean (\<open>relr_addresses\<close>):
  an even word is an address; an odd one is a bitmap, whose bit \<open>j + 1\<close> stands for the \<open>j\<close>-th word
  after the previous ones.  A bitmap without an address before it is an \<open>ELFError\<close>.\<close>

theorem relr_decodes:
  assumes "0 \<le> off" "nat off + n * wsize st \<le> length (fdata s)" "nat off + n * wsize st < 2 ^ 63"
  shows "fst (relr_iter_relocations st off (int (n * wsize st)) s) =
    (case relr_addresses (wsize st) None (relr_words st (fdata s) (nat off) n) of
       Some as \<Rightarrow> Ok (map relr_entry as) | None \<Rightarrow> Err ELFError)"
proof (cases "n = 0")
  case False
  have "n < n * wsize st + 1"
    using wsize_pos [of st] by (simp add: less_Suc_eq_le)
  then have "fst (relr_loop (n * wsize st + 1) st (int (wsize st)) (int (nat off)) (int (nat off + n * wsize st)) None s) =
    (case relr_addresses (wsize st) None (relr_words st (fdata s) (nat off) n) of
       Some as \<Rightarrow> Ok (map relr_entry as) | None \<Rightarrow> Err ELFError)"
    using assms(2,3) by (rule relr_loop_spec)
  then show ?thesis
    using assms(1) False wsize_pos [of st]
    by (simp add: relr_iter_relocations_def relr.sizeof_ok nat_add_distrib nat_mult_distrib)
qed (simp add: relr_iter_relocations_def relr_words_def)

definition elf32 :: elf_structs where
  "elf32 = \<lparr>little_endian = True, elfclass = 32, e_type = VNone, e_machine = VNone, e_ident_osabi = VNone\<rparr>"

theorem relr_decodes_witness:
  "fst (relr_iter_relocations elf32 4 (int (2 * wsize elf32))
      \<lparr>f_stream = bytesio [0, 0, 0, 0, 0, 16, 0, 0, 11, 0, 0, 0], f_names = None\<rparr>) =
    Ok (map relr_entry [4096, 4100, 4108])"
proof -
  let ?s = "\<lparr>f_stream = bytesio [0, 0, 0, 0, 0, 16, 0, 0, 11, 0, 0, 0], f_names = None\<rparr>"
  have "relr_addresses (wsize elf32) None (relr_words elf32 (fdata ?s) (nat 4) 2) = Some [4096, 4100, 4108]"
    by code_simp
  then show ?thesis
    using relr_decodes [of 4 2 elf32 ?s] by (simp add: wsize_def elf32_def)
qed

section \<open>Applying a relocation\<close>

lemma reloc_recipe_in: "reloc_recipe e rs n = Some rcp \<Longrightarrow> rcp \<in> snd ` set rs"
  unfolding reloc_recipe_def map_option_eq_Some by (metis find_Some_iff image_eqI nth_mem)

lemma recipe_size_table: "reloc_recipe e rs n = Some rcp \<Longrightarrow> (\<And>r. r \<in> snd ` set rs \<Longrightarrow> bytesize r \<in> {1, 2, 4, 8}) \<Longrightarrow>
    bytesize rcp \<in> {1, 2, 4, 8}"
  using reloc_recipe_in by blast

lemmas recipe_tables = RECIPES_X86_def RECIPES_X64_def RECIPES_MIPS_RELA_def RECIPES_MIPS_REL_def RECIPES_ARM_def
  RECIPES_AARCH64_def RECIPES_PPC64_def RECIPES_S390X_def RECIPES_EBPF_def RECIPES_LOONGARCH_def

lemma recipe_size:
  "reloc_recipe e RECIPES_X86 n = Some rcp \<Longrightarrow> bytesize rcp \<in> {1, 2, 4, 8}"
  "reloc_recipe e RECIPES_X64 n = Some rcp \<Longrightarrow> bytesize rcp \<in> {1, 2, 4, 8}"
  "reloc_recipe e RECIPES_MIPS_RELA n = Some rcp \<Longrightarrow> bytesize rcp \<in> {1, 2, 4, 8}"
  "reloc_recipe e RECIPES_MIPS_REL n = Some rcp \<Longrightarrow> bytesize rcp \<in> {1, 2, 4, 8}"
  "reloc_recipe e RECIPES_ARM n = Some rcp \<Longrightarrow> bytesize rcp \<in> {1, 2, 4, 8}"
  "reloc_recipe e RECIPES_AARCH64 n = Some rcp \<Longrightarrow> bytesize rcp \<in> {1, 2, 4, 8}"
  "reloc_recipe e RECIPES_PPC64 n = Some rcp \<Longrightarrow> bytesize rcp \<in> {1, 2, 4, 8}"
  "reloc_recipe e RECIPES_S390X n = Some rcp \<Longrightarrow> bytesize rcp \<in> {1, 2, 4, 8}"
  "reloc_recipe e RECIPES_EBPF n = Some rcp \<Longrightarrow> bytesize rcp \<in> {1, 2, 4, 8}"
  "reloc_recipe e RECIPES_LOONGARCH n = Some rcp \<Longrightarrow> bytesize rcp \<in> {1, 2, 4, 8}"
  by (erule recipe_size_table, fastforce simp: recipe_tables RECIPE_def)+

text \<open>C18: Every recipe has a size that can be read and written (1, 2, 4 or 8 bytes), so the error for an
  invalid size is never raised.\<close>

theorem recipe_sizes:
  assumes "find_recipe arch reloc ty = Ok (Some rcp)"
  shows "bytesize rcp \<in> {1, 2, 4, 8} \<and> (\<exists>c. value_struct st (bytesize rcp) = Ok c)"
proof -
  have "bytesize rcp \<in> {1, 2, 4, 8}"
    using assms unfolding find_recipe_def rbind_eq_Ok
    by (elim exE conjE) (simp only: split: if_splits; auto simp: rbind_eq_Ok dest: recipe_size)
  then show ?thesis by (auto simp: value_struct_def)
qed

interpretation number: file_format "FormatFieldC nm e fm" "fmt_size fm" "\<lambda>c b. Some (VInt (num e fm b))" for nm e fm
  unfolding file_format_def by (rule format_FormatField)

text \<open>Writing a number over the bytes of its place.\<close>

lemma build_number:
  assumes "pack e fm v = Ok bs" "spos t + fmt_size fm \<le> length (sdata t)"
  shows "build_stream (FormatFieldC nm e fm) (VInt v) t =
    (Ok (), \<lparr>sdata = take (spos t) (sdata t) @ bs @ drop (spos t + fmt_size fm) (sdata t), spos = spos t + fmt_size fm\<rparr>)"
  using assms pack_length [OF assms(1)] fmt_size_pos [of fm] fmt_size_le [of fm]
  by (cases bs) (simp_all add: build_stream_def FormatField_build_def mbind_def try_except_def write_stream_def on_stream_def s_write_def)

lemma value_struct_number:
  assumes "value_struct st n = Ok vs"
  obtains nm fm where "vs = FormatFieldC nm (endn st) fm" "\<not> fmt_signed fm" "n = int (fmt_size fm)"
  using assms by (auto simp: value_struct_def chunk_formats split: if_splits)

lemma pack_unsigned:
  assumes "\<not> fmt_signed fm" "0 \<le> v" "v < 256 ^ fmt_size fm"
  shows "\<exists>bs. pack e fm v = Ok bs \<and> length bs = fmt_size fm \<and> le_uint (order_bytes e bs) = v"
  using assms by (simp add: pack_def fmt_min_def fmt_max_def le_uint_bytes)

text \<open>C17: A relocation rewrites exactly the bytes of its value.  They become the result of the recipe,
  wrapped to the size of the value; every other byte and the length of the data stay.\<close>

theorem relocation_patches:
  assumes "value_struct st (bytesize rcp) = Ok vs" "get_int reloc ''r_offset'' = Ok off" "0 \<le> off" "off < 2 ^ 63"
    and "nat off + nat (bytesize rcp) \<le> length (sdata data)"
    and "(if has_addend rcp then get_int reloc ''r_addend'' else Ok 0) = Ok addend"
  shows "\<exists>data'. patch_value st rcp reloc symv data = (Ok (), data') \<and>
    length (sdata data') = length (sdata data) \<and>
    take (nat off) (sdata data') = take (nat off) (sdata data) \<and>
    drop (nat off + nat (bytesize rcp)) (sdata data') = drop (nat off + nat (bytesize rcp)) (sdata data) \<and>
    uint_at st (nat off) (nat (bytesize rcp)) (sdata data') =
      calc_func rcp (uint_at st (nat off) (nat (bytesize rcp)) (sdata data)) symv off addend mod 2 ^ nat (bytesize rcp * 8)"
proof -
  obtain nm fm where fm: "vs = FormatFieldC nm (endn st) fm" "\<not> fmt_signed fm" "bytesize rcp = int (fmt_size fm)"
    using value_struct_number [OF assms(1)] .
  let ?n = "fmt_size fm" and ?d = "sdata data"
  let ?v = "uint_at st (nat off) ?n ?d"
  let ?new = "calc_func rcp ?v symv off addend mod 2 ^ nat (bytesize rcp * 8)"
  have inside: "nat off + ?n \<le> length ?d" using assms(5) fm(3) by simp
  have "num (endn st) fm (bytes_at ?d (nat off) ?n) = ?v"
    using fm(2) by (simp add: num_def uint_at_def bytes_at_def)
  then have read: "struct_parse vs (Some off) data = (Ok (VInt ?v), data\<lparr>spos := nat off + ?n\<rparr>)"
    using number.struct_parse_at [of off fm data "endn st" _ nm] inside assms(3,4) by (simp add: fm(1))
  have "(2 :: int) ^ nat (bytesize rcp * 8) = 256 ^ ?n"
    by (simp add: fm(3) nat_mult_distrib mult.commute [of ?n] power_mult)
  then obtain bs where bs: "pack (endn st) fm ?new = Ok bs" "length bs = ?n" "le_uint (order_bytes (endn st) bs) = ?new"
    using pack_unsigned [OF fm(2), of ?new "endn st"] by auto
  let ?data' = "\<lparr>sdata = take (nat off) ?d @ bs @ drop (nat off + ?n) ?d, spos = nat off + ?n\<rparr>"
  have "patch_value st rcp reloc symv data = (Ok (), ?data')"
    using build_number [OF bs(1), of "data\<lparr>spos := nat off\<rparr>" nm] inside assms
    by (simp add: patch_value_def mbind_def read [unfolded fm(1)] s_seek_ok fm(1))
  moreover have "uint_at st (nat off) ?n (sdata ?data') = ?new"
    using inside bs by (simp add: uint_at_def)
  ultimately show ?thesis
    using inside bs(2) by (auto simp: fm(3))
qed

definition tiny_reloc :: val where
  "tiny_reloc = VCont [(''r_offset'', VInt 2), (''r_info'', VInt 0x101), (''r_info_sym'', VInt 1), (''r_info_type'', VInt 1)]"

theorem relocation_patches_witness:
  "let data = \<lparr>sdata = [1, 2, 254, 255, 255, 255, 7], spos = 0\<rparr>; rcp = RECIPE 4 False reloc_calc_sym_plus_value in
   find_recipe (lit ''x86'') tiny_reloc 1 = Ok (Some rcp) \<and>
   (\<exists>data'. patch_value elf32 rcp tiny_reloc 16 data = (Ok (), data') \<and>
    length (sdata data') = length (sdata data) \<and>
    take (nat 2) (sdata data') = take (nat 2) (sdata data) \<and>
    drop (nat 2 + nat (bytesize rcp)) (sdata data') = drop (nat 2 + nat (bytesize rcp)) (sdata data) \<and>
    uint_at elf32 (nat 2) (nat (bytesize rcp)) (sdata data') =
      calc_func rcp (uint_at elf32 (nat 2) (nat (bytesize rcp)) (sdata data)) 16 2 0 mod 2 ^ nat (bytesize rcp * 8))"
  unfolding Let_def
proof (rule conjI)
  show "find_recipe (lit ''x86'') tiny_reloc 1 = Ok (Some (RECIPE 4 False reloc_calc_sym_plus_value))"
    by (simp add: find_recipe_def tiny_reloc_def is_RELA_def reloc_recipe_def RECIPES_X86_def ENUM_RELOC_TYPE_i386_def)
qed (rule relocation_patches, simp_all add: RECIPE_def value_struct_def tiny_reloc_def get_int_def)

theorem recipe_sizes_witness:
  "bytesize (RECIPE 4 False reloc_calc_sym_plus_value) \<in> {1, 2, 4, 8} \<and>
   (\<exists>c. value_struct elf32 (bytesize (RECIPE 4 False reloc_calc_sym_plus_value)) = Ok c)"
proof (rule recipe_sizes)
  show "find_recipe (lit ''x86'') tiny_reloc 1 = Ok (Some (RECIPE 4 False reloc_calc_sym_plus_value))"
    by (simp add: find_recipe_def tiny_reloc_def is_RELA_def reloc_recipe_def RECIPES_X86_def ENUM_RELOC_TYPE_i386_def)
qed

lemma recipe_addends:
  "reloc_recipe e RECIPES_AARCH64 n = Some rcp \<Longrightarrow> has_addend rcp"
  "reloc_recipe e RECIPES_PPC64 n = Some rcp \<Longrightarrow> has_addend rcp"
  "reloc_recipe e RECIPES_S390X n = Some rcp \<Longrightarrow> has_addend rcp"
  by (drule reloc_recipe_in, fastforce simp: recipe_tables RECIPE_def)+

text \<open>On AArch64, 64-bit PowerPC and S/390 the kind of the relocation is not checked, and every recipe
  takes an addend: a relocation without one ends in a \<open>KeyError\<close>, not in the \<open>ELFRelocationError\<close> that
  the other machines' checks raise.\<close>

theorem rel_without_addend:
  assumes "arch \<in> {lit ''AArch64'', lit ''64-bit PowerPC'', lit ''IBM S/390''}" "is_RELA reloc = Ok False"
    and "find_recipe arch reloc ty = Ok (Some rcp)"
    and "get_int reloc ''r_offset'' = Ok off" "0 \<le> off" "off < 2 ^ 63" "nat off + nat (bytesize rcp) \<le> length (sdata data)"
  shows "fst (patch_value st rcp reloc symv data) = Err KeyError"
proof -
  have rcp: "has_addend rcp"
    using assms(1-3) by (auto simp: find_recipe_def dest: recipe_addends)
  have "get_item reloc ''r_addend'' = Err KeyError"
    using assms(2) by (auto simp: is_RELA_def get_item_def dget_def split: val.splits)
  then have addend: "get_int reloc ''r_addend'' = Err KeyError"
    by (simp add: get_int_def)
  have "bytesize rcp \<in> {1, 2, 4, 8}"
    using assms(1-3) by (auto simp: find_recipe_def dest: recipe_size)
  then obtain vs where vs: "value_struct st (bytesize rcp) = Ok vs"
    by (auto simp: value_struct_def)
  obtain nm fm where fm: "vs = FormatFieldC nm (endn st) fm" "bytesize rcp = int (fmt_size fm)"
    using value_struct_number [OF vs] by metis
  have "struct_parse vs (Some off) data =
      (Ok (VInt (num (endn st) fm (bytes_at (sdata data) (nat off) (fmt_size fm)))), data\<lparr>spos := nat off + fmt_size fm\<rparr>)"
    using number.struct_parse_at [of off fm data "endn st" _ nm] assms(5-7) fm by simp
  then show ?thesis
    by (simp add: patch_value_def mbind_def vs assms(4) rcp addend)
qed

definition rel_entry :: val where
  "rel_entry = VCont [(''r_offset'', VInt 0), (''r_info_sym'', VInt 0), (''r_info_type'', VInt 257)]"

theorem rel_without_addend_witness:
  "fst (patch_value elf32 (RECIPE 8 True reloc_calc_sym_plus_addend) rel_entry 0 \<lparr>sdata = replicate 8 0, spos = 0\<rparr>) = Err KeyError"
proof (rule rel_without_addend)
  show "lit ''AArch64'' \<in> {lit ''AArch64'', lit ''64-bit PowerPC'', lit ''IBM S/390''}" by simp
  show "is_RELA rel_entry = Ok False" by (simp add: is_RELA_def rel_entry_def)
  show "find_recipe (lit ''AArch64'') rel_entry 257 = Ok (Some (RECIPE 8 True reloc_calc_sym_plus_addend))"
    by (simp add: find_recipe_def rel_entry_def is_RELA_def reloc_recipe_def RECIPES_AARCH64_def ENUM_RELOC_TYPE_AARCH64_def)
  show "get_int rel_entry ''r_offset'' = Ok 0" by (simp add: rel_entry_def get_int_def)
qed (simp_all add: RECIPE_def)

lemma div_eq_0_iff_range: "(x :: int) div 2 ^ 24 = 0 \<longleftrightarrow> 0 \<le> x \<and> x < 2 ^ 24"
  by (auto simp: div_eq_0_iff)

text \<open>C19: The recipe for an ARM \<^verbatim>\<open>BL\<close> instruction adds to the whole word, not to the 24-bit offset in it:
  the operation code survives exactly when the sum of the offset fields neither carries nor borrows.
  A call to an address 256 bytes ahead (whose addend, -8, is stored in the field) turns
  \<^verbatim>\<open>0xEBFFFFFE\<close> into \<^verbatim>\<open>0xEC00003E\<close>, another instruction.\<close>

theorem arm_call_opcode:
  "(arm_reloc_calc_sym_plus_value_pcrel word symv off addend div 2 ^ 24 = word div 2 ^ 24 \<longleftrightarrow>
     0 \<le> word mod 2 ^ 24 + (symv div 4 - off div 4) \<and> word mod 2 ^ 24 + (symv div 4 - off div 4) < 2 ^ 24) \<and>
   arm_reloc_calc_sym_plus_value_pcrel 0xEBFFFFFE 0x100 0 0 = 0xEC00003E"
proof -
  define q where "q = word div 2 ^ 24"
  define r where "r = word mod 2 ^ 24"
  define e where "e = symv div 4 - off div 4"
  have word: "word = q * 2 ^ 24 + r"
    by (simp add: q_def r_def)
  have "arm_reloc_calc_sym_plus_value_pcrel word symv off addend = q * 2 ^ 24 + (r + e)"
    by (simp add: arm_reloc_calc_sym_plus_value_pcrel_def e_def word)
  then have "arm_reloc_calc_sym_plus_value_pcrel word symv off addend div 2 ^ 24 = q + (r + e) div 2 ^ 24"
    by simp
  moreover have "(r + e) div 2 ^ 24 = 0 \<longleftrightarrow> 0 \<le> r + e \<and> r + e < 2 ^ 24"
    by (rule div_eq_0_iff_range)
  ultimately show ?thesis
    unfolding q_def [symmetric] r_def [symmetric] e_def [symmetric]
    by (simp add: arm_reloc_calc_sym_plus_value_pcrel_def)
qed

end
