(* ===== verification/ElfNotes.thy ===== *)
theory ElfNotes
  imports ReadOnly
begin

text \<open>
  \<^verbatim>\<open>elftools/elf/notes.py\<close>, and the methods of note sections and segments that use it.  The notes
  of a section are the list that the generator yields when it is run to its end.
\<close>

text \<open>The properties of a \<^verbatim>\<open>NT_GNU_PROPERTY_TYPE_0\<close> note, each aligned to the word size.\<close>

primrec props_loop :: "nat \<Rightarrow> elf_structs \<Rightarrow> int \<Rightarrow> int \<Rightarrow> val list F" where
  "props_loop 0 st off stop = lift_res NoFuel"
| "props_loop (Suc fuel) st off stop =
     (if off < stop then
        mbind (on_file (struct_parse (Elf_Prop st) (Some off))) (\<lambda>p.
        mbind (lift_res (rbind (get_attr p ''pr_datasz'') as_int)) (\<lambda>datasz.
        mbind (props_loop fuel st (off + roundup (datasz + 8) (if elfclass st = 32 then 2 else 3)) stop) (\<lambda>ps.
          ret (p # ps))))
      else ret [])"

text \<open>The name, in the bytes after the header; what is read there is padded to four bytes.\<close>

definition note_name :: "val \<Rightarrow> int \<Rightarrow> (pystr option \<times> int) F" where
  "note_name note offset =
     mbind (lift_res (get_int note ''n_namesz'')) (\<lambda>namesz.
     if namesz \<noteq> 0 then
       (let disk_namesz = roundup namesz 2 in
        mbind (on_file (s_read disk_namesz)) (\<lambda>b.
        mbind (lift_res (parse_bytes (CString '''' None) b)) (\<lambda>v.
          (case v of VBytes n \<Rightarrow> ret (Some (bytes2str n), offset + disk_namesz) | _ \<Rightarrow> raise TypeError))))
     else ret (None, offset))"

definition note_desc :: "elf_structs \<Rightarrow> val \<Rightarrow> pystr option \<Rightarrow> bytes \<Rightarrow> int \<Rightarrow> int \<Rightarrow> val F" where
  "note_desc st ty name desc_data descsz offset =
     (let gnu = (name = Some (lit ''GNU'')) in
      if ty = VLit ''NT_GNU_ABI_TAG'' \<and> gnu then on_file (struct_parse (Elf_abi st) (Some offset))
      else if ty = VLit ''NT_GNU_BUILD_ID'' \<and> gnu then ret (VStr (bytes2hex desc_data []))
      else if ty = VLit ''NT_GNU_GOLD_VERSION'' \<and> gnu then ret (VStr (bytes2str desc_data))
      else if ty = VLit ''NT_PRPSINFO'' then on_file (struct_parse (Elf_Prpsinfo st) (Some offset))
      else if ty = VLit ''NT_FILE'' then on_file (struct_parse (Elf_Nt_File st) (Some offset))
      else if ty = VLit ''NT_GNU_PROPERTY_TYPE_0'' \<and> gnu then
        mbind (props_loop (nat descsz + 1) st offset (offset + descsz)) (\<lambda>ps. ret (VList ps))
      else ret (VBytes desc_data))"

text \<open>One round of the loop: the note at an offset, and the offset of the next.\<close>

definition read_note :: "elf_structs \<Rightarrow> int \<Rightarrow> int \<Rightarrow> (val \<times> int) F" where
  "read_note st nhdr_size start =
     mbind (on_file (struct_parse (Elf_Nhdr st) (Some start))) (\<lambda>hdr.
     mbind (lift_res (add_item hdr ''n_offset'' (VInt start))) (\<lambda>note.
     mbind (on_file (s_seek (start + nhdr_size))) (\<lambda>_.
     mbind (note_name note (start + nhdr_size)) (\<lambda>(name, offset).
     mbind (lift_res (add_item note ''n_name'' (case name of None \<Rightarrow> VNone | Some s \<Rightarrow> VStr s))) (\<lambda>note.
     mbind (lift_res (get_int note ''n_descsz'')) (\<lambda>descsz.
     mbind (on_file (s_read descsz)) (\<lambda>desc_data.
     mbind (lift_res (add_item note ''n_descdata'' (VBytes desc_data))) (\<lambda>note.
     mbind (lift_res (get_item note ''n_type'')) (\<lambda>ty.
     mbind (note_desc st ty name desc_data descsz offset) (\<lambda>desc.
     mbind (lift_res (add_item note ''n_desc'' desc)) (\<lambda>note.
     (let next = offset + roundup descsz 2 in
     mbind (lift_res (add_item note ''n_size'' (VInt (next - start)))) (\<lambda>note. ret (note, next))))))))))))))"

text \<open>A note takes at least its header, so the size of the notes is enough rounds.\<close>

primrec notes_loop :: "nat \<Rightarrow> elf_structs \<Rightarrow> int \<Rightarrow> int \<Rightarrow> int \<Rightarrow> val list F" where
  "notes_loop 0 st nhdr_size offset stop = lift_res NoFuel"
| "notes_loop (Suc fuel) st nhdr_size offset stop =
     (if offset + nhdr_size < stop then
        mbind (read_note st nhdr_size offset) (\<lambda>(note, next).
        mbind (notes_loop fuel st nhdr_size next stop) (\<lambda>ns. ret (note # ns)))
      else ret [])"

definition iter_notes :: "elf_structs \<Rightarrow> int \<Rightarrow> int \<Rightarrow> val list F" where
  "iter_notes st offset sz =
     mbind (lift_res (sizeof (Elf_Nhdr st) [])) (\<lambda>nhdr_size.
       notes_loop (nat sz + 1) st nhdr_size offset (offset + sz))"

definition section_iter_notes :: "elf_structs \<Rightarrow> elf_section \<Rightarrow> val list F" where
  "section_iter_notes st sec =
     mbind (lift_res (sec_int sec ''sh_offset'')) (\<lambda>off.
     mbind (lift_res (sec_int sec ''sh_size'')) (\<lambda>sz. iter_notes st off sz))"

definition segment_iter_notes :: "elf_structs \<Rightarrow> elf_segment \<Rightarrow> val list F" where
  "segment_iter_notes st seg =
     mbind (lift_res (seg_int seg ''p_offset'')) (\<lambda>off.
     mbind (lift_res (seg_int seg ''p_filesz'')) (\<lambda>sz. iter_notes st off sz))"

end
