(* ===== verification/Progress.thy ===== *)
theory Progress
  imports Returning
begin

text \<open>
  Parsing comes to an end and goes forward.  \<open>con_min c\<close> is a number of bytes that the construct
  \<open>c\<close> consumes at least when it succeeds; \<open>con_ok c\<close> says that what \<open>c\<close> repeats without a count
  consumes something, and that the functions a format is made of return.  Then no parse is ever cut
  off by its bound (\<open>con_parse_returns\<close>), and a successful one leaves at most the remaining bytes
  less \<open>con_min c\<close> (\<open>con_parse_advances\<close>).
\<close>

section \<open>Operations that go forward\<close>

definition advances :: "nat \<Rightarrow> 'a P \<Rightarrow> bool" where
  "advances k m \<longleftrightarrow> (\<forall>s. sdata (pstm (snd (m s))) = sdata (pstm s)) \<and>
     (\<forall>s v s'. m s = (Ok v, s') \<longrightarrow> remaining (pstm s') + k \<le> remaining (pstm s))"

named_theorems advances_intros \<open>operations that never go back\<close>

lemma advancesI:
  "keeps m \<Longrightarrow> (\<And>s v s'. m s = (Ok v, s') \<Longrightarrow> remaining (pstm s') + k \<le> remaining (pstm s)) \<Longrightarrow> advances k m"
  by (auto simp: advances_def keeps_def)

lemma advancesD: "advances k m \<Longrightarrow> m s = (Ok v, s') \<Longrightarrow> remaining (pstm s') + k \<le> remaining (pstm s)"
  by (auto simp: advances_def)

lemma advances_keeps: "advances k m \<Longrightarrow> keeps m"
  by (simp add: advances_def keeps_def)

lemma advances_weaken: "advances k m \<Longrightarrow> j \<le> k \<Longrightarrow> advances j m"
  by (fastforce simp: advances_def)

lemma advances_weaken0: "advances k m \<Longrightarrow> advances 0 m"
  by (rule advances_weaken) simp_all

lemma advances_simple [advances_intros]:
  "advances 0 (ret a)" "advances 0 (lift_res r)" "advances 0 get_ctx" "advances 0 (put_ctx c)"
  "advances 0 (set_ctx k v)" "advances 0 (del_ctx k)" "advances 0 bytes_left"
  by (auto simp: advances_def bytes_left_def)

lemma advances_raise [advances_intros]: "advances k (raise e)"
  by (auto intro!: advancesI keeps_intros)

lemma advances_mbind:
  assumes "advances j m" "\<And>a. advances k (f a)"
  shows "advances (j + k) (mbind m f)"
proof (rule advancesI)
  show "keeps (mbind m f)"
    by (intro keeps_mbind advances_keeps [OF assms(1)] advances_keeps [OF assms(2)])
  fix s v s' assume "mbind m f s = (Ok v, s')"
  then obtain a t where "m s = (Ok a, t)" "f a t = (Ok v, s')"
    by (auto simp: mbind_eq_Ok)
  then show "remaining (pstm s') + (j + k) \<le> remaining (pstm s)"
    using advancesD [OF assms(1)] advancesD [OF assms(2)] by fastforce
qed

lemma advances_mbind_left: "advances j m \<Longrightarrow> (\<And>a. advances 0 (f a)) \<Longrightarrow> advances j (mbind m f)"
  using advances_mbind [of j m 0 f] by simp

lemma advances_mbind_right: "advances 0 m \<Longrightarrow> (\<And>a. advances k (f a)) \<Longrightarrow> advances k (mbind m f)"
  using advances_mbind [of 0 m k f] by simp

lemma advances_try:
  assumes "advances k m" "\<And>e. advances 0 (h e)" "\<And>e s v s'. h e s \<noteq> (Ok v, s')"
  shows "advances k (try_except m P h)"
proof (rule advancesI)
  show "keeps (try_except m P h)"
    by (intro keeps_try advances_keeps [OF assms(1)] advances_keeps [OF assms(2)])
  fix s v s' assume "try_except m P h s = (Ok v, s')"
  then show "remaining (pstm s') + k \<le> remaining (pstm s)"
    using assms(1,3) by (auto simp: try_except_def dest: advancesD split: prod.splits res.splits if_splits)
qed

lemma advances_try_raise: "advances k m \<Longrightarrow> advances k (try_except m P (\<lambda>_. raise e))"
  by (rule advances_try) (auto intro: advances_intros)

lemma advances_if [advances_intros]:
  "(b \<Longrightarrow> advances k m) \<Longrightarrow> (\<not> b \<Longrightarrow> advances k m') \<Longrightarrow> advances k (if b then m else m')"
  by simp

lemma advances_with_ctx [advances_intros]: "advances k m \<Longrightarrow> advances k (with_ctx f m)"
  by (rule advancesI, simp add: keeps_with_ctx advances_keeps)
    (auto simp: with_ctx_def dest: advancesD split: prod.splits)

lemma advances_maybe_copy [advances_intros]: "advances k m \<Longrightarrow> advances k (maybe_copy fl m)"
  by (auto simp: maybe_copy_def intro: advances_intros)

lemma read_remaining:
  "on_stream (s_read n) s = (Ok data, t) \<Longrightarrow> remaining (pstm t) + length data \<le> remaining (pstm s)"
  by (auto simp: on_stream_run s_read_def remaining_def Let_def split: if_splits)

lemma advances_read [advances_intros]: "advances 0 (on_stream (s_read n))"
  by (rule advancesI) (auto intro!: keeps_intros simp: on_stream_run s_read_def remaining_def Let_def split: if_splits)

lemma advances_read_stream: "advances (nat n) (read_stream n)"
proof (rule advancesI)
  fix s v s' assume "read_stream n s = (Ok v, s')"
  then show "remaining (pstm s') + nat n \<le> remaining (pstm s)"
    by (auto simp: read_stream_def mbind_eq_Ok on_stream_run s_read_def remaining_def Let_def split: if_splits)
qed (rule keeps_read_stream)

text \<open>Going back to where the parse began, whatever happened in between.\<close>

lemma advances_back:
  assumes "keeps m" "\<And>s v s'. m s = (Ok v, s') \<Longrightarrow> spos (pstm s') = spos (pstm s)"
  shows "advances 0 m"
  using assms by (intro advancesI) (auto simp: remaining_def dest: keepsD')

section \<open>What a construct consumes\<close>

primrec con_min :: "con \<Rightarrow> nat" where
  "con_min (StaticFieldC n l) = nat l"
| "con_min (FormatFieldC n e f) = fmt_size f"
| "con_min (MetaFieldC n lf) = 0"
| "con_min (MetaArrayC cf sc dyn) = 0"
| "con_min (RangeC mn mx sc) = 0"
| "con_min (RepeatUntilC p sc) = con_min sc"
| "con_min (RepeatUntilExcludingC p sc) = con_min sc"
| "con_min (StructC n scs nst) = sum_list (map con_min scs)"
| "con_min (SequenceC n scs nst) = sum_list (map con_min scs)"
| "con_min (SwitchC n kf cases d ik) = 0"
| "con_min (SelectC n scs inm) = 0"
| "con_min (PointerC off sc) = 0"
| "con_min (PeekC sc pb) = 0"
| "con_min (BufferedC sc enc dec rs) = 0"
| "con_min (ReconfigC n sc sf cf) = con_min sc"
| "con_min (AnchorC n) = 0"
| "con_min (ValueC n f) = 0"
| "con_min PassC = 0"
| "con_min TerminatorC = 0"
| "con_min (AdapterC sc a) = con_min sc"
| "con_min (TunnelC sc inner) = con_min sc"
| "con_min (ULEB128C n) = 1"
| "con_min (SLEB128C n) = 1"
| "con_min (StreamOffsetC n) = 0"
| "con_min (Int24C n e) = 3"
| "con_min (ContextAdapterC sc dec) = con_min sc"
| "con_min (FormattedEntryC n field forms) = 0"

primrec adapter_ok :: "adapter \<Rightarrow> bool" where
  "adapter_ok (BitIntegerA w sw sg bs) = True"
| "adapter_ok (MappingA dec enc dd ed) = True"
| "adapter_ok (FlagsA fs) = True"
| "adapter_ok (StringA enc) = True"
| "adapter_ok (PaddedStringA p d t) = True"
| "adapter_ok LengthValueA = True"
| "adapter_ok (CStringA t enc) = True"
| "adapter_ok (ExprA enc dec) = (\<forall>v c. dec v c \<noteq> NoFuel)"
| "adapter_ok HexDumpA = True"
| "adapter_ok (ConstA v) = True"
| "adapter_ok (SlicingA a b) = True"
| "adapter_ok (IndexingA i) = True"
| "adapter_ok (PaddingA p st) = True"
| "adapter_ok (OneOfA vs) = True"
| "adapter_ok (NoneOfA vs) = True"

primrec con_ok :: "con \<Rightarrow> bool" where
  "con_ok (StaticFieldC n l) = True"
| "con_ok (FormatFieldC n e f) = True"
| "con_ok (MetaFieldC n lf) = (\<forall>c. lf c \<noteq> NoFuel)"
| "con_ok (MetaArrayC cf sc dyn) = (con_ok sc \<and> (\<forall>c. cf c \<noteq> NoFuel))"
| "con_ok (RangeC mn mx sc) = con_ok sc"
| "con_ok (RepeatUntilC p sc) = (con_ok sc \<and> 0 < con_min sc \<and> (\<forall>v c. p v c \<noteq> NoFuel))"
| "con_ok (RepeatUntilExcludingC p sc) = (con_ok sc \<and> 0 < con_min sc \<and> (\<forall>v c. p v c \<noteq> NoFuel))"
| "con_ok (StructC n scs nst) = list_all id (map con_ok scs)"
| "con_ok (SequenceC n scs nst) = list_all id (map con_ok scs)"
| "con_ok (SwitchC n kf cases d ik) =
     ((\<forall>c. kf c \<noteq> NoFuel) \<and> list_all snd (map (map_prod id con_ok) cases) \<and>
      pred_option id (map_option con_ok d))"
| "con_ok (SelectC n scs inm) = list_all id (map con_ok scs)"
| "con_ok (PointerC off sc) = (con_ok sc \<and> (\<forall>c. off c \<noteq> NoFuel))"
| "con_ok (PeekC sc pb) = con_ok sc"
| "con_ok (BufferedC sc enc dec rs) = (con_ok sc \<and> (\<forall>b. dec b \<noteq> NoFuel) \<and> (\<forall>n. rs n \<noteq> NoFuel))"
| "con_ok (ReconfigC n sc sf cf) = con_ok sc"
| "con_ok (AnchorC n) = True"
| "con_ok (ValueC n f) = (\<forall>c. f c \<noteq> NoFuel)"
| "con_ok PassC = True"
| "con_ok TerminatorC = True"
| "con_ok (AdapterC sc a) = (con_ok sc \<and> adapter_ok a)"
| "con_ok (TunnelC sc inner) = (con_ok sc \<and> con_ok inner)"
| "con_ok (ULEB128C n) = True"
| "con_ok (SLEB128C n) = True"
| "con_ok (StreamOffsetC n) = True"
| "con_ok (Int24C n e) = True"
| "con_ok (ContextAdapterC sc dec) = (con_ok sc \<and> (\<forall>v c. dec v c \<noteq> NoFuel))"
| "con_ok (FormattedEntryC n field forms) = list_all (pred_option id \<circ> snd) (map (map_prod id (map_option con_ok)) forms)"

section \<open>The repeaters\<close>

lemma advances_times [advances_intros]: "advances 0 p \<Longrightarrow> advances 0 (times_loop n p)"
proof (induction n)
  case (Suc n)
  then show ?case
    by (auto intro!: advances_mbind_left [of 0] advances_intros)
qed (simp add: advances_simple)

lemma advances_range: "advances 0 p \<Longrightarrow> advances 0 (range_loop n c mn p)"
proof (induction n arbitrary: c)
  case (Suc n)
  let ?next = "\<lambda>v. mbind (range_loop n (c + 1) mn p) (\<lambda>vs. ret (v # vs))"
  have "advances 0 (?next v)" for v
    using Suc by (intro advances_mbind_left advances_simple) auto
  note next_step = advancesD [OF this]
  show ?case
  proof (rule advancesI)
    show "keeps (range_loop (Suc n) c mn p)"
      using Suc.prems by (intro keeps_range_loop advances_keeps)
    fix s v s' assume "range_loop (Suc n) c mn p s = (Ok v, s')"
    then consider (more) a t where "p s = (Ok a, t)" "?next a t = (Ok v, s')"
      | (stop) e t where "p s = (Err e, t)" "mbind (on_stream (s_seek (s_tell (pstm s)))) (\<lambda>_. ret []) t = (Ok v, s')"
      by (auto split: prod.splits res.splits if_splits)
    then show "remaining (pstm s') + 0 \<le> remaining (pstm s)"
    proof cases
      case more
      then show ?thesis
        using advancesD [OF Suc.prems, of s a t] next_step by fastforce
    next
      case stop
      then have "spos (pstm s') = spos (pstm s)" "sdata (pstm s') = sdata (pstm t)"
        by (auto simp: mbind_eq_Ok on_stream_run s_seek_def s_tell_def split: if_splits)
      moreover have "sdata (pstm t) = sdata (pstm s)"
        using stop keepsD' advances_keeps [OF Suc.prems] by blast
      ultimately show ?thesis
        by (simp add: remaining_def)
    qed
  qed
qed (simp add: advances_simple)

lemma advances_until: "advances k p \<Longrightarrow> advances k (until_loop n f incl p)"
proof (induction n)
  case 0
  show ?case by (simp add: advances_def)
next
  case (Suc n)
  have more: "advances 0 (mbind (until_loop n f incl p) (\<lambda>vs. ret (v # vs)))" for v
    using Suc by (intro advances_mbind_left [OF advances_weaken0] advances_simple) auto
  show ?case
    unfolding until_loop.simps
    by (rule advances_mbind_left [OF Suc.prems]) (intro more advances_mbind_right advances_if advances_simple)
qed

lemma advances_fields:
  "list_all2 (\<lambda>(n, fl, p) k. advances k p) scs ks \<Longrightarrow> advances (sum_list ks) (fields_parse seq scs obj)"
proof (induction seq scs obj arbitrary: ks rule: fields_parse.induct)
  case (2 seq n fl p scs obj)
  then obtain k ks' where ks: "ks = k # ks'" and k: "advances k p"
    and rest: "list_all2 (\<lambda>(n, fl, p) k. advances k p) scs ks'"
    by (cases ks) auto
  have add: "advances 0 (add_field seq obj n v)" for n v
    by (cases obj) (auto simp: add_field_def intro: advances_intros)
  have take: "advances 0 (take_ret obj)"
    unfolding take_ret_def
    by (rule advances_mbind_left) (auto intro!: advances_intros advances_mbind_left [of 0] split: option.split)
  show ?case
  proof (cases "is_flag fl FLAG_EMBED")
    case True
    have "advances (0 + (k + (0 + sum_list ks'))) (fields_parse seq ((n, fl, p) # scs) obj)"
      unfolding fields_parse.simps if_P [OF True]
      by (intro advances_mbind advances_simple k take 2(1) [OF True rest])
    then show ?thesis by (simp add: ks)
  next
    case False
    have "advances (sum_list ks') (case n of None \<Rightarrow> fields_parse seq scs obj
        | Some n' \<Rightarrow> mbind (add_field seq obj n' v) (\<lambda>obj'.
            mbind (set_ctx n' v) (\<lambda>_. fields_parse seq scs obj')))" for v
    proof (cases n)
      case None
      then show ?thesis
        using 2(2) [OF False None rest] by simp
    next
      case (Some m)
      then show ?thesis
        using 2(3) [OF False Some rest] by (auto intro!: advances_mbind_right add advances_simple)
    qed
    then have "advances (k + sum_list ks') (fields_parse seq ((n, fl, p) # scs) obj)"
      unfolding fields_parse.simps if_not_P [OF False] by (intro advances_mbind k)
    then show ?thesis by (simp add: ks)
  qed
qed (auto intro: advances_intros)

lemma advances_Struct:
  assumes "list_all2 (\<lambda>(n, fl, p) k. advances k p) scs ks"
  shows "advances (sum_list ks) (Struct_parse seq nst scs)"
proof -
  note fields = advances_fields [OF assms]
  have "advances (sum_list ks) ((if nst then with_ctx nest_ctx else id) (fields_parse seq scs obj))" for obj
    using fields by (auto intro: advances_intros)
  moreover have "advances (sum_list ks) (mbind (del_ctx k) (\<lambda>_. mbind (fields_parse seq scs obj) (\<lambda>obj'.
      mbind (set_ctx k' obj') (\<lambda>_. ret obj'))))" for k k' obj
    by (intro advances_mbind_right advances_mbind_left fields advances_simple)
  ultimately show ?thesis
    unfolding Struct_parse_def
    by (intro advances_mbind_right advances_simple) (auto split: option.split)
qed

text \<open>The other classes.\<close>

lemma advances_leaf [advances_intros]:
  "advances (nat l) (StaticField_parse l)" "advances (fmt_size f) (FormatField_parse e f)"
  "advances 0 (MetaField_parse lf)" "advances 0 (Value_parse g)" "advances 0 Pass_parse"
  "advances 0 Terminator_parse" "advances 0 Anchor_parse" "advances 3 (Int24_parse e)"
proof -
  show "advances (nat l) (StaticField_parse l)"
    unfolding StaticField_parse_def by (intro advances_mbind_left advances_read_stream advances_simple)
  show "advances (fmt_size f) (FormatField_parse e f)"
    unfolding FormatField_parse_def
    using advances_read_stream [of "int (fmt_size f)"]
    by (intro advances_try_raise advances_mbind_left advances_simple) simp
  show "advances 0 (MetaField_parse lf)"
    unfolding MetaField_parse_def
    by (intro advances_mbind_right advances_simple advances_mbind_left [OF advances_weaken0 [OF advances_read_stream]])
  show "advances 0 (Value_parse g)"
    unfolding Value_parse_def by (intro advances_mbind_right advances_simple)
  show "advances 0 Pass_parse"
    unfolding Pass_parse_def by (rule advances_simple)
  show "advances 0 Terminator_parse"
    unfolding Terminator_parse_def
    by (intro advances_mbind_right advances_read advances_if advances_raise advances_simple)
  show "advances 0 Anchor_parse"
    by (auto simp: advances_def Anchor_parse_def on_stream_run)
  show "advances 3 (Int24_parse e)"
    unfolding Int24_parse_def
    using advances_read_stream [of 3] by (cases e) (auto intro!: advances_mbind_left advances_simple)
qed

lemma advances_leb: "advances 1 (leb_loop n sgnd v sh)"
proof (induction n arbitrary: v sh)
  case 0
  show ?case by (simp add: advances_def)
next
  case (Suc n)
  show ?case
  proof (rule advancesI)
    show "keeps (leb_loop (Suc n) sgnd v sh)"
      by (rule keeps_leb)
    fix s x s' assume run: "leb_loop (Suc n) sgnd v sh s = (Ok x, s')"
    then obtain data t where rd: "on_stream (s_read 1) s = (Ok data, t)"
      and rest: "(case data of [b] \<Rightarrow>
            let value' = v OR push_bit sh (uint b AND 127); shift' = sh + 7 in
            if uint b AND 128 = 0 then
              ret (VInt (if sgnd \<and> uint b AND 64 \<noteq> 0
                         then value' OR push_bit shift' (NOT 0) else value'))
            else leb_loop n sgnd value' shift'
        | _ \<Rightarrow> raise FieldError) t = (Ok x, s')"
      unfolding leb_loop.simps mbind_eq_Ok by blast
    then obtain b where b: "data = [b]"
      by (cases data; cases "tl data") auto
    with rest have cont: "s' = t \<or> (\<exists>v sh. leb_loop n sgnd v sh t = (Ok x, s'))"
      by (auto simp: Let_def split: if_splits)
    from read_remaining [OF rd] b have "remaining (pstm t) + 1 \<le> remaining (pstm s)"
      by simp
    with cont show "remaining (pstm s') + 1 \<le> remaining (pstm s)"
      using advancesD [OF Suc] by fastforce
  qed
qed

lemma advances_leb128 [advances_intros]: "advances 1 ULEB128_parse" "advances 1 SLEB128_parse"
  unfolding ULEB128_parse_def SLEB128_parse_def
  by (intro advances_mbind_right advances_leb advances_simple)+

lemma advances_back_to:
  assumes "keeps m" "m s = (r, t)" "mbind (on_stream (s_seek (s_tell (pstm s)))) f t = (Ok v, s')"
    "\<And>u. sdata (pstm u) = sdata (pstm s) \<Longrightarrow> spos (pstm u) = spos (pstm s) \<Longrightarrow> f () u = (Ok v, s') \<Longrightarrow>
       remaining (pstm s') \<le> remaining (pstm s)"
  shows "remaining (pstm s') \<le> remaining (pstm s)"
proof -
  from assms(3) obtain u where u: "f () u = (Ok v, s')" "spos (pstm u) = spos (pstm s)" "sdata (pstm u) = sdata (pstm t)"
    by (auto simp: mbind_eq_Ok on_stream_run s_seek_def s_tell_def split: if_splits)
  with assms(4) [of u] keepsD' [OF assms(1,2)] show ?thesis by simp
qed

lemma advances_Peek: "keeps p \<Longrightarrow> advances 0 (Peek_parse p)"
proof (rule advancesI)
  assume p: "keeps p"
  show "keeps (Peek_parse p)" by (rule keeps_Peek [OF p])
  fix s v s' assume run: "Peek_parse p s = (Ok v, s')"
  obtain r t where t: "try_except p (\<lambda>e. e = FieldError) (\<lambda>_. ret VNone) s = (r, t)" by fastforce
  have "keeps (try_except p (\<lambda>e. e = FieldError) (\<lambda>_. ret VNone))"
    using p by (intro keeps_intros)
  from advances_back_to [OF this t] run show "remaining (pstm s') + 0 \<le> remaining (pstm s)"
    by (fastforce simp: Peek_parse_def t remaining_def)
qed

lemma advances_Pointer: "keeps p \<Longrightarrow> advances 0 (Pointer_parse off p)"
proof (rule advances_back)
  assume p: "keeps p"
  show "keeps (Pointer_parse off p)" by (rule keeps_wrappers [OF p])
  fix s v s' assume "Pointer_parse off p s = (Ok v, s')"
  then show "spos (pstm s') = spos (pstm s)"
    by (auto simp: Pointer_parse_def mbind_eq_Ok on_stream_run s_seek_def s_tell_def
      simp del: mbind_lift_res split: if_splits)
qed

lemma advances_Select:
  "list_all (\<lambda>(n, fl, p). advances 0 p) scs \<Longrightarrow> advances 0 (Select_parse scs inm)"
proof (induction scs)
  case (Cons sub scs)
  obtain n fl p where sub: "sub = (n, fl, p)" by (cases sub)
  with Cons.prems have p: "advances 0 p" and rest: "advances 0 (Select_parse scs inm)"
    using Cons.IH by auto
  show ?case
  proof (rule advancesI)
    show "keeps (Select_parse (sub # scs) inm)"
      using Cons.prems by (intro keeps_Select) (auto simp: list_all_iff advances_keeps)
    fix s v s' assume "Select_parse (sub # scs) inm s = (Ok v, s')"
    then consider (first) a t where "p s = (Ok a, t)" "pstm s' = pstm t"
      | (retry) e t where "p s = (Err e, t)"
          "mbind (on_stream (s_seek (s_tell (pstm s)))) (\<lambda>_. Select_parse scs inm) (t\<lparr>pctx := pctx s\<rparr>) = (Ok v, s')"
      by (auto simp: sub split: prod.splits res.splits if_splits)
    then show "remaining (pstm s') + 0 \<le> remaining (pstm s)"
    proof cases
      case first
      then show ?thesis using advancesD [OF p, of s a t] by simp
    next
      case retry
      have k: "keeps (\<lambda>s. case p s of (r, t) \<Rightarrow> (r, t\<lparr>pctx := pctx s\<rparr>))"
        using advances_keeps [OF p] by (auto intro!: keepsI dest: keepsD' split: prod.split)
      have "remaining (pstm s') \<le> remaining (pstm s)"
      proof (rule advances_back_to [OF k _ retry(2)])
        show "(case p s of (r, t) \<Rightarrow> (r, t\<lparr>pctx := pctx s\<rparr>)) = (Err e, t\<lparr>pctx := pctx s\<rparr>)"
          by (simp add: retry(1))
        fix u assume u: "sdata (pstm u) = sdata (pstm s)" "spos (pstm u) = spos (pstm s)"
          and run: "Select_parse scs inm u = (Ok v, s')"
        from advancesD [OF rest run] u show "remaining (pstm s') \<le> remaining (pstm s)"
          by (simp add: remaining_def)
      qed
      then show ?thesis by simp
    qed
  qed
qed (auto intro: advances_intros)

lemma switch_case_of:
  assumes "switch_case (map (map_prod id f) cases) (map_option f d) key = Ok x"
  obtains c where "x = f c" "c \<in> snd ` set cases \<union> set_option d"
proof -
  have "vlookup (map (map_prod id f) cs) key = Some x \<Longrightarrow> \<exists>c \<in> snd ` set cs. x = f c" for cs
    by (induction cs) (auto split: if_splits)
  with assms that show thesis
    by (fastforce simp: switch_case_def split: if_splits option.splits)
qed

lemma advances_Switch:
  assumes "\<And>c. c \<in> snd ` set cases \<union> set_option d \<Longrightarrow> advances (con_min c) (con_parse c)"
  shows "advances 0 (con_parse (SwitchC n kf cases d ik))"
proof (rule advancesI)
  show "keeps (con_parse (SwitchC n kf cases d ik))"
    by (rule keeps_con_parse)
  fix s v s' assume "con_parse (SwitchC n kf cases d ik) s = (Ok v, s')"
  then obtain key p obj where p: "p s = (Ok obj, s')"
    and c: "switch_case (map (map_prod id con_parse) cases) (map_option con_parse d) key = Ok p"
    by (auto simp: Switch_parse_def mbind_eq_Ok simp del: mbind_lift_res)
  from c obtain c where "p = con_parse c" "c \<in> snd ` set cases \<union> set_option d"
    by (rule switch_case_of)
  with advancesD [OF assms] p show "remaining (pstm s') + 0 \<le> remaining (pstm s)"
    by fastforce
qed

lemma advances_with_stream: "advances 0 (with_stream t m)"
  by (auto simp: advances_def with_stream_def split: prod.split)

lemma advances_wrappers:
  assumes "advances k p"
  shows "advances 0 (MetaArray_parse cf fl p)" "advances 0 (Range_parse mn mx fl p)"
    "advances k (RepeatUntil_parse q fl p)" "advances k (RepeatUntilExcluding_parse q fl p)"
    "advances k (Adapter_parse ad sz p)" "advances k (Tunnel_parse p inner)"
    "advances k (ContextAdapter_parse dec p)"
proof -
  note p0 = advances_weaken0 [OF assms]
  show "advances 0 (MetaArray_parse cf fl p)"
    unfolding MetaArray_parse_def
    by (intro advances_mbind_right advances_simple advances_try_raise advances_times advances_maybe_copy p0)
  show "advances 0 (Range_parse mn mx fl p)"
    unfolding Range_parse_def
    by (intro advances_mbind_right advances_simple advances_range advances_maybe_copy p0)
  show "advances k (RepeatUntil_parse q fl p)"
    unfolding RepeatUntil_parse_def
    by (rule advances_mbind_right, rule advances_simple, rule advances_try_raise, rule advances_mbind_left)
      (intro advances_until advances_maybe_copy advances_simple assms)+
  show "advances k (RepeatUntilExcluding_parse q fl p)"
    unfolding RepeatUntilExcluding_parse_def
    by (rule advances_mbind_right, rule advances_simple, rule advances_try_raise, rule advances_maybe_copy,
      rule advances_mbind_left) (intro advances_until advances_simple assms)+
  show "advances k (Adapter_parse ad sz p)"
    unfolding Adapter_parse_def
    by (rule advances_mbind_left [OF assms]) (intro advances_mbind_right advances_simple)
  have args: "advances 0 (bytes_arg v)" for v
    by (cases v) (auto simp: bytes_arg_def intro: advances_intros)
  show "advances k (Tunnel_parse p inner)"
    unfolding Tunnel_parse_def
    by (rule advances_mbind_left [OF assms])
      (auto intro!: advances_mbind_right advances_simple args advances_with_stream)
  show "advances k (ContextAdapter_parse dec p)"
    unfolding ContextAdapter_parse_def
    by (rule advances_mbind_left [OF assms]) (auto intro!: advances_mbind_right advances_simple)
qed

lemma advances_Buffered: "advances 0 (Buffered_parse dec rs sz p)"
  unfolding Buffered_parse_def
  by (auto intro!: advances_mbind_right advances_simple advances_with_stream
    advances_weaken0 [OF advances_read_stream])

lemma formatted_fields_advance:
  assumes "\<And>k p. (k, Some p) \<in> set forms \<Longrightarrow> advances 0 p" "rmap (formatted_field flags forms) fs = Ok subs"
  shows "list_all2 (\<lambda>(n, fl, p) k. advances k p) subs (replicate (length subs) 0)"
  using assms(2)
proof (induction fs arbitrary: subs)
  case Nil
  then show ?case by auto
next
  case (Cons f fs)
  then obtain n fl p subs' where sub: "formatted_field flags forms f = Ok (n, fl, p)"
    and rest: "rmap (formatted_field flags forms) fs = Ok subs'" and subs: "subs = (n, fl, p) # subs'"
    by (auto simp: rbind_eq_Ok)
  from formatted_field_parser [OF sub] assms(1) have "advances 0 p"
    by blast
  with Cons.IH [OF rest] subs show ?case
    by simp
qed

lemma advances_FormattedEntry:
  assumes "\<And>k p. (k, Some p) \<in> set forms \<Longrightarrow> advances 0 p"
  shows "advances 0 (FormattedEntry_parse field flags forms)"
proof (rule advancesI)
  show "keeps (FormattedEntry_parse field flags forms)"
    by (rule keeps_FormattedEntry) (auto intro: advances_keeps assms)
  fix s v s' assume "FormattedEntry_parse field flags forms s = (Ok v, s')"
  then obtain fs subs where "rmap (formatted_field flags forms) fs = Ok subs" and run: "Struct_parse False True subs s = (Ok v, s')"
    by (auto simp: FormattedEntry_parse_def mbind_eq_Ok simp del: mbind_lift_res)
  from advances_Struct [OF formatted_fields_advance [OF assms this(1)]] run
  show "remaining (pstm s') + 0 \<le> remaining (pstm s)"
    using advancesD by (fastforce simp: sum_list_replicate)
qed

lemma list_all2_subs:
  "(\<And>c. c \<in> set scs \<Longrightarrow> advances (con_min c) (con_parse c)) \<Longrightarrow>
   list_all2 (\<lambda>(n, fl, p) k. advances k p) (subs_of scs) (map con_min scs)"
  by (induction scs) auto

lemma con_parse_advances: "advances (con_min c) (con_parse c)"
proof (induction c)
  case (StructC n scs nst)
  then show ?case
    using advances_Struct [OF list_all2_subs [of scs]] by simp
next
  case (SequenceC n scs nst)
  then show ?case
    using advances_Struct [OF list_all2_subs [of scs]] by simp
next
  case (SwitchC n kf cases d ik)
  then show ?case
    unfolding con_min.simps by (intro advances_Switch) auto
next
  case (SelectC n scs inm)
  then have "list_all (\<lambda>(n, fl, p). advances 0 p) (subs_of scs)"
    by (induction scs) (auto intro: advances_weaken0)
  then show ?case
    by (simp add: advances_Select)
next
  case (FormattedEntryC n field forms)
  have "advances 0 p" if "(k, Some p) \<in> set (map (map_prod id (map_option con_parse)) forms)" for k p
  proof -
    from that obtain c where c: "(k, Some c) \<in> set forms" "p = con_parse c"
      by (auto simp: eq_commute [of "Some _" "map_option _ _"])
    then have "advances (con_min c) p"
      using FormattedEntryC by fastforce
    then show ?thesis
      by (rule advances_weaken0)
  qed
  then show ?case
    unfolding con_parse.simps con_min.simps by (rule advances_FormattedEntry)
qed (auto intro!: advances_wrappers advances_intros advances_Buffered advances_Peek advances_Pointer keeps_con_parse
  advances_leb128 [simplified])

section \<open>Formats that always parse or fail\<close>

lemma sum_sizes_returns: "(\<And>sz. sz \<in> set szs \<Longrightarrow> sz c \<noteq> NoFuel) \<Longrightarrow> sum_sizes szs c \<noteq> NoFuel"
  by (induction szs) (auto simp: rbind_def split: res.split)

lemma sizeof_returns: "con_ok c \<Longrightarrow> con_sizeof c ctx \<noteq> NoFuel"
proof (induction c arbitrary: ctx)
  case (StructC n scs nst)
  then have "sum_sizes (map con_sizeof scs) ctx' \<noteq> NoFuel" for ctx'
    by (intro sum_sizes_returns) (auto simp: list_all_iff)
  then show ?case by (simp add: Struct_sizeof_def)
next
  case (SequenceC n scs nst)
  then have "sum_sizes (map con_sizeof scs) ctx' \<noteq> NoFuel" for ctx'
    by (intro sum_sizes_returns) (auto simp: list_all_iff)
  then show ?case by (simp add: Struct_sizeof_def)
next
  case (SwitchC n kf cases d ik)
  have look: "switch_case (map (map_prod id con_sizeof) cases) (map_option con_sizeof d) key \<noteq> NoFuel" for key
    by (simp add: switch_case_def split: option.split)
  have "sz c' \<noteq> NoFuel"
    if "switch_case (map (map_prod id con_sizeof) cases) (map_option con_sizeof d) key = Ok sz" for key sz c'
  proof -
    from that obtain c where "sz = con_sizeof c" "c \<in> snd ` set cases \<union> set_option d"
      by (rule switch_case_of)
    moreover from this have "con_ok c"
      using SwitchC.prems by (auto simp: list_all_iff)
    ultimately show ?thesis
      using SwitchC.IH by auto
  qed
  with look show ?case
    using SwitchC.prems by (auto simp: Switch_sizeof_def rbind_def split: res.split)
qed (auto simp: MetaArray_sizeof_def Buffered_sizeof_def rbind_def split: res.split)

lemma returns_at: "returns m \<Longrightarrow> fst (m s) \<noteq> NoFuel"
  by (simp add: returns_def)

lemma returns_state [returns_intros]:
  "returns get_ctx" "returns (put_ctx c)" "returns (set_ctx k v)" "returns (del_ctx k)" "returns bytes_left"
  by (simp_all add: returns_def bytes_left_def)

lemma returns_on_stream [returns_intros]: "returns m \<Longrightarrow> returns (on_stream m)"
  by (simp add: returns_def on_stream_run)

lemma returns_with_ctx [returns_intros]: "returns m \<Longrightarrow> returns (with_ctx f m)"
  by (auto simp: returns_def with_ctx_def split: prod.split) (metis fst_conv)

lemma returns_maybe_copy [returns_intros]: "returns m \<Longrightarrow> returns (maybe_copy fl m)"
  by (auto simp: maybe_copy_def intro: returns_intros)

lemma returns_with_stream [returns_intros]: "returns m \<Longrightarrow> returns (with_stream t m)"
  by (auto simp: returns_def with_stream_def split: prod.split res.split) (metis fst_conv)

lemma returns_split [returns_intros]: "(\<And>a b. returns (f a b)) \<Longrightarrow> returns (case p of (a, b) \<Rightarrow> f a b)"
  by (cases p) auto

lemma returns_read_stream [returns_intros]: "returns (read_stream n)"
  unfolding read_stream_def by (intro returns_intros)

lemma returns_bytes_arg [returns_intros]: "returns (bytes_arg v)"
  by (cases v) (auto simp: bytes_arg_def intro: returns_intros)

lemma returns_tell [returns_intros]: "returns (on_stream (\<lambda>t. (Ok (g t), t)))"
  by (simp add: returns_def on_stream_run)

lemma returns_times [returns_intros]: "returns p \<Longrightarrow> returns (times_loop n p)"
  by (induction n) (auto intro!: returns_intros)

lemma returns_range [returns_intros]: "returns p \<Longrightarrow> returns (range_loop n c mn p)"
proof (induction n arbitrary: c)
  case (Suc n)
  have "returns (mbind (range_loop n (c + 1) mn p) (\<lambda>vs. ret (v # vs)))" for v
    by (intro returns_intros Suc)
  moreover have "returns (mbind (on_stream (s_seek q)) (\<lambda>_. ret ([] :: val list)))" for q
    by (intro returns_intros)
  ultimately show ?case
    using returns_at [OF Suc.prems]
    by (auto simp: returns_def split: prod.split res.split) (metis fst_conv)
qed (auto intro: returns_intros)

text \<open>A loop whose body consumes something has enough fuel when it has more than the bytes left.\<close>

lemma until_loop_returns:
  assumes "advances k p" "0 < k" "returns p" "\<And>v c. f v c \<noteq> NoFuel"
  shows "remaining (pstm s) < n \<Longrightarrow> fst (until_loop n f incl p s) \<noteq> NoFuel"
proof (induction n arbitrary: s)
  case (Suc n)
  obtain r t where run: "p s = (r, t)" by fastforce
  show ?case
  proof (cases r)
    case (Ok v)
    from advancesD [OF assms(1), of s v t] run Ok assms(2) Suc.prems have "remaining (pstm t) < n"
      by simp
    note more = Suc.IH [OF this]
    then have "fst (mbind (until_loop n f incl p) (\<lambda>vs. ret (v # vs)) t) \<noteq> NoFuel"
      by (auto simp: mbind_def split: prod.split res.split)
    then show ?thesis
      using assms(4) by (auto simp: mbind_Ok [where m = p, OF run [unfolded Ok]] mbind_def [of get_ctx] split: res.split)
  next
    case NoFuel
    then show ?thesis using returns_at [OF assms(3), of s] run by simp
  qed (simp add: mbind_Err [where m = p] run)
qed simp

lemma returns_bytes_left: "(\<And>s. fst (g (remaining (pstm s)) s) \<noteq> NoFuel) \<Longrightarrow> returns (mbind bytes_left g)"
  by (simp add: returns_def mbind_def bytes_left_def)

lemma try_returns_at: "fst (m s) \<noteq> NoFuel \<Longrightarrow> (\<And>e. returns (h e)) \<Longrightarrow> fst (try_except m P h s) \<noteq> NoFuel"
  by (auto simp: try_except_def returns_def split: prod.split res.split)

lemma copy_returns_at:
  "(\<And>s'. pstm s' = pstm s \<Longrightarrow> fst (m s') \<noteq> NoFuel) \<Longrightarrow> fst (maybe_copy fl m s) \<noteq> NoFuel"
  by (auto simp: maybe_copy_def with_ctx_def split: prod.split) (metis fst_conv pst.select_convs(2) pst.surjective pst.update_convs(1))

lemma returns_RepeatUntil:
  assumes "advances k p" "0 < k" "returns p" "\<And>v c. f v c \<noteq> NoFuel"
  shows "returns (RepeatUntil_parse f fl p)" "returns (RepeatUntilExcluding_parse f fl p)"
proof -
  have loop: "fst (mbind (until_loop (Suc (remaining (pstm s))) f incl q) (\<lambda>vs. ret (VList vs)) s') \<noteq> NoFuel"
    if "advances k q" "returns q" "pstm s' = pstm s" for incl q s s'
    using until_loop_returns [where f = f, OF that(1) assms(2) that(2) assms(4), where s = s' and n = "Suc (remaining (pstm s))" and incl = incl] that(3)
    by (auto simp: mbind_def simp del: until_loop.simps split: prod.split res.split)
  have q: "advances k (maybe_copy fl p)" "returns (maybe_copy fl p)"
    by (intro advances_intros returns_intros assms)+
  show "returns (RepeatUntil_parse f fl p)"
    unfolding RepeatUntil_parse_def
    by (rule returns_bytes_left) (intro try_returns_at loop [OF q refl] returns_simple)
  show "returns (RepeatUntilExcluding_parse f fl p)"
    unfolding RepeatUntilExcluding_parse_def
    by (rule returns_bytes_left) (intro try_returns_at copy_returns_at loop [OF assms(1,3)] returns_simple)
qed

lemma returns_fields:
  "list_all (\<lambda>(n, fl, p). returns p) scs \<Longrightarrow> returns (fields_parse seq scs obj)"
proof (induction seq scs obj rule: fields_parse.induct)
  case (2 seq n fl p scs obj)
  have add: "returns (add_field seq obj k v)" for k v
    by (cases obj) (auto simp: add_field_def intro: returns_intros)
  have take: "returns (take_ret obj)"
    unfolding take_ret_def by (intro returns_intros)
  have p: "returns p" and rest: "list_all (\<lambda>(n, fl, p). returns p) scs"
    using 2(4) by auto
  show ?case
  proof (cases "is_flag fl FLAG_EMBED")
    case True
    show ?thesis
      unfolding fields_parse.simps if_P [OF True]
      by (intro returns_mbind returns_state p take 2(1) [OF True rest])
  next
    case False
    have "returns (case n of None \<Rightarrow> fields_parse seq scs obj
        | Some n' \<Rightarrow> mbind (add_field seq obj n' v) (\<lambda>obj'.
            mbind (set_ctx n' v) (\<lambda>_. fields_parse seq scs obj')))" for v
    proof (cases n)
      case None
      then show ?thesis
        using 2(2) [OF False None rest] by simp
    next
      case (Some m)
      then show ?thesis
        using 2(3) [OF False Some rest] by (auto intro!: returns_mbind returns_state add)
    qed
    then show ?thesis
      unfolding fields_parse.simps if_not_P [OF False] by (intro returns_mbind p)
  qed
qed (auto intro: returns_intros)

lemma returns_Struct:
  assumes "list_all (\<lambda>(n, fl, p). returns p) scs"
  shows "returns (Struct_parse seq nst scs)"
proof -
  have "returns ((if nst then with_ctx nest_ctx else id) (fields_parse seq scs obj))" for obj
    using returns_fields [OF assms] by (auto intro: returns_intros)
  then show ?thesis
    unfolding Struct_parse_def by (intro returns_intros returns_fields assms)
qed

lemma returns_Select:
  "list_all (\<lambda>(n, fl, p). returns p) scs \<Longrightarrow> returns (Select_parse scs inm)"
proof (induction scs)
  case (Cons sub scs)
  obtain n fl p where sub: "sub = (n, fl, p)" by (cases sub)
  with Cons.prems Cons.IH have p: "returns p" and rest: "returns (Select_parse scs inm)" by auto
  have retry: "returns (mbind (on_stream (s_seek q)) (\<lambda>_. Select_parse scs inm))" for q
    by (intro returns_intros rest)
  show ?case
    using returns_at [OF p] returns_at [OF retry]
    by (auto simp: returns_def sub split: prod.split res.split) (metis fst_conv)
qed (auto intro: returns_intros)

lemma returns_leaf [returns_intros]:
  "returns (StaticField_parse l)" "returns (FormatField_parse e f)" "returns Pass_parse"
  "returns Terminator_parse" "returns Anchor_parse" "returns (Int24_parse e)"
proof -
  have u: "unpack e f d \<noteq> NoFuel" for e f d
    by (simp add: unpack_def Let_def)
  show "returns (StaticField_parse l)" "returns Pass_parse" "returns Terminator_parse" "returns Anchor_parse"
    unfolding StaticField_parse_def Pass_parse_def Terminator_parse_def Anchor_parse_def by (intro returns_intros)+
  show "returns (FormatField_parse e f)"
    unfolding FormatField_parse_def by (intro returns_intros u)
  show "returns (Int24_parse e)"
    unfolding Int24_parse_def by (cases e) (simp_all, (intro returns_intros u)+)
qed

lemma leb_returns: "remaining (pstm s) < n \<Longrightarrow> fst (leb_loop n sgnd v sh s) \<noteq> NoFuel"
proof (induction n arbitrary: v sh s)
  case (Suc n)
  obtain r t where run: "on_stream (s_read 1) s = (r, t)" by fastforce
  show ?case
  proof (cases r)
    case (Ok data)
    show ?thesis
    proof (cases "\<exists>b. data = [b]")
      case True
      then obtain b where b: "data = [b]" ..
      from read_remaining [OF run [unfolded Ok]] b Suc.prems have "remaining (pstm t) < n" by simp
      from Suc.IH [OF this] show ?thesis
        by (simp add: mbind_Ok [where m = "on_stream (s_read 1)", OF run [unfolded Ok]] b Let_def)
    next
      case False
      then show ?thesis
        by (auto simp: mbind_Ok [where m = "on_stream (s_read 1)", OF run [unfolded Ok]] split: list.split)
    qed
  next
    case NoFuel
    then show ?thesis using returns_at [OF returns_on_stream [OF returns_stream(2)], of 1 s] run by simp
  qed (simp add: mbind_Err [where m = "on_stream (s_read 1)"] run)
qed simp

lemma returns_leb128 [returns_intros]: "returns ULEB128_parse" "returns SLEB128_parse"
  unfolding ULEB128_parse_def SLEB128_parse_def by (intro returns_bytes_left leb_returns; simp)+

section \<open>Adapters\<close>

lemma rbind_NoFuel: "rbind r f = NoFuel \<longleftrightarrow> r = NoFuel \<or> (\<exists>a. r = Ok a \<and> f a = NoFuel)"
  by (cases r) auto

lemma utf8_returns: "utf8_strict bs \<noteq> NoFuel"
  by (induction bs rule: utf8_strict.induct) (auto simp: rbind_NoFuel split: prod.split option.split)

lemma String_decode_returns: "String_decode enc v \<noteq> NoFuel"
  by (auto simp: String_decode_def decode_with_def decode_utf8_def utf8_returns rbind_NoFuel
    split: option.split val.split codec.split)

lemma swap_returns: "swap_bytes b n \<noteq> NoFuel"
  by (simp add: swap_bytes_def)

lemma bti_returns: "bti_loop bs n \<noteq> NoFuel"
  by (induction bs arbitrary: n) (auto simp: bit_values_def rbind_NoFuel)

lemma bin_to_int_returns: "bin_to_int b sg \<noteq> NoFuel"
  by (auto simp: bin_to_int_def bit_values_def bti_returns rbind_NoFuel split: list.split)

lemma join_returns: "join_bytes vs \<noteq> NoFuel"
  by (induction vs) (auto simp: rbind_NoFuel split: val.split)

lemma adapter_decode_returns:
  assumes "adapter_ok a" "sz \<noteq> NoFuel"
  shows "adapter_decode a sz c v \<noteq> NoFuel"
  using assms
  by (cases a) (auto simp: BitInteger_decode_def mapping_code_def Flags_decode_def String_decode_returns
    PaddedString_decode_def LengthValue_decode_def CString_decode_def Const_decode_def Slicing_decode_def
    Indexing_decode_def Padding_decode_def validate_def swap_returns bin_to_int_returns join_returns rbind_NoFuel
    value_returns split: val.split option.split mdefault.split)

section \<open>For every construct\<close>

lemma returns_switch:
  assumes "\<And>c. kf c \<noteq> NoFuel"
    "\<And>c. c \<in> snd ` set cases \<union> set_option d \<Longrightarrow> returns (con_parse c)"
  shows "returns (con_parse (SwitchC n kf cases d ik))"
  unfolding returns_def con_parse.simps Switch_parse_def
proof (intro allI)
  fix s
  have key: "switch_case (map (map_prod id con_parse) cases) (map_option con_parse d) key \<noteq> NoFuel" for key
    by (simp add: switch_case_def split: option.split)
  have p: "returns p" if "switch_case (map (map_prod id con_parse) cases) (map_option con_parse d) key = Ok p" for key p
    using switch_case_of [OF that] assms(2) by metis
  have "fst (mbind p (\<lambda>obj. ret (f obj)) s) \<noteq> NoFuel"
    if "switch_case (map (map_prod id con_parse) cases) (map_option con_parse d) key = Ok p" for key p and f :: "val \<Rightarrow> val"
    by (intro returns_at returns_mbind returns_simple p [OF that])
  then show "fst (mbind get_ctx (\<lambda>c. mbind (lift_res (kf c)) (\<lambda>key.
      mbind (lift_res (switch_case (map (map_prod id con_parse) cases) (map_option con_parse d) key))
       (\<lambda>p. mbind p (\<lambda>obj. ret (if ik then VTuple [key, obj] else obj))))) s) \<noteq> NoFuel"
    using assms(1) key by (auto simp: mbind_def [of get_ctx] split: res.split)
qed

lemma returns_FormattedEntry:
  assumes "\<And>k p. (k, Some p) \<in> set forms \<Longrightarrow> returns p"
  shows "returns (FormattedEntry_parse field flags forms)"
  unfolding returns_def FormattedEntry_parse_def
proof (intro allI)
  fix s
  have one: "formatted_field flags forms f \<noteq> NoFuel" for f
    by (auto simp: formatted_field_def rbind_NoFuel get_attr_def split: val.split option.split)
  have subs: "list_all (\<lambda>(n, fl, p). returns p) subs" if "rmap (formatted_field flags forms) fs = Ok subs" for fs subs
    using that
  proof (induction fs arbitrary: subs)
    case Nil
    then show ?case by auto
  next
    case (Cons f fs)
    then obtain n fl p subs' where sub: "formatted_field flags forms f = Ok (n, fl, p)"
      and rest: "rmap (formatted_field flags forms) fs = Ok subs'" and eq: "subs = (n, fl, p) # subs'"
      by (auto simp: rbind_eq_Ok)
    with Cons.IH [OF rest] formatted_field_parser [OF sub] assms show ?case
      by auto
  qed
  have "fst (Struct_parse False True subs s) \<noteq> NoFuel" if "rmap (formatted_field flags forms) fs = Ok subs" for fs subs
    by (intro returns_at returns_Struct subs [OF that])
  moreover have "rmap (formatted_field flags forms) fs \<noteq> NoFuel" for fs
    by (intro rmap_returns one)
  moreover have "rbind (dget c field) viter \<noteq> NoFuel" for c
    by (auto simp: rbind_NoFuel value_returns)
  ultimately show "fst (mbind get_ctx (\<lambda>c. mbind (lift_res (rbind (dget c field) viter)) (\<lambda>fs.
      mbind (lift_res (rmap (formatted_field flags forms) fs)) (\<lambda>subs. Struct_parse False True subs))) s) \<noteq> NoFuel"
    by (auto simp: mbind_def [of get_ctx] split: res.split)
qed

lemma list_all_subs_returns:
  "(\<And>c. c \<in> set scs \<Longrightarrow> returns (con_parse c)) \<Longrightarrow> list_all (\<lambda>(n, fl, p). returns p) (subs_of scs)"
  by (induction scs) auto

lemma returns_wrappers:
  assumes "returns p"
  shows "(\<And>c. cf c \<noteq> NoFuel) \<Longrightarrow> returns (MetaArray_parse cf fl p)" "returns (Range_parse mn mx fl p)"
    "(\<And>c. off c \<noteq> NoFuel) \<Longrightarrow> returns (Pointer_parse off p)" "returns (Peek_parse p)"
    "(\<And>c. sz c \<noteq> NoFuel) \<Longrightarrow> (\<And>b. dec b \<noteq> NoFuel) \<Longrightarrow> (\<And>n. rs n \<noteq> NoFuel) \<Longrightarrow> returns (Buffered_parse dec rs sz p)"
    "(\<And>c v. ad (sz c) c v \<noteq> NoFuel) \<Longrightarrow> returns (Adapter_parse ad sz p)"
    "returns inner \<Longrightarrow> returns (Tunnel_parse p inner)"
    "(\<And>v c. cdec v c \<noteq> NoFuel) \<Longrightarrow> returns (ContextAdapter_parse cdec p)"
proof -
  show "returns (MetaArray_parse cf fl p)" if "\<And>c. cf c \<noteq> NoFuel"
    unfolding MetaArray_parse_def by (intro returns_intros assms that)
  show "returns (Range_parse mn mx fl p)"
    unfolding Range_parse_def by (intro returns_intros assms)
  show "returns (Pointer_parse off p)" if "\<And>c. off c \<noteq> NoFuel"
    unfolding Pointer_parse_def by (intro returns_intros assms that)
  have "returns (try_except p (\<lambda>e. e = FieldError) (\<lambda>_. ret VNone))"
    by (intro returns_intros assms)
  from returns_at [OF this] show "returns (Peek_parse p)"
    by (auto simp: returns_def Peek_parse_def mbind_def on_stream_run s_seek_def split: prod.split res.split)
      (metis fst_conv)
  show "returns (Buffered_parse dec rs sz p)" if "\<And>c. sz c \<noteq> NoFuel" "\<And>b. dec b \<noteq> NoFuel" "\<And>n. rs n \<noteq> NoFuel"
    unfolding Buffered_parse_def Buffered_sizeof_def by (intro returns_intros assms that)
  show "returns (Adapter_parse ad sz p)" if "\<And>c v. ad (sz c) c v \<noteq> NoFuel"
    unfolding Adapter_parse_def by (intro returns_intros assms that)
  show "returns (Tunnel_parse p inner)" if "returns inner"
    unfolding Tunnel_parse_def by (intro returns_intros assms that)
  show "returns (ContextAdapter_parse cdec p)" if "\<And>v c. cdec v c \<noteq> NoFuel"
    unfolding ContextAdapter_parse_def by (intro returns_intros assms that)
qed

lemma con_parse_returns: "con_ok c \<Longrightarrow> returns (con_parse c)"
proof (induction c)
  case (StructC n scs nst)
  then show ?case
    by (auto intro!: returns_Struct list_all_subs_returns simp: list_all_iff)
next
  case (SequenceC n scs nst)
  then show ?case
    by (auto intro!: returns_Struct list_all_subs_returns simp: list_all_iff)
next
  case (SwitchC n kf cases d ik)
  then show ?case
    by (intro returns_switch) (auto simp: list_all_iff)
next
  case (SelectC n scs inm)
  then show ?case
    by (auto intro!: returns_Select list_all_subs_returns simp: list_all_iff)
next
  case (RepeatUntilC f sc)
  then show ?case
    using returns_RepeatUntil [OF con_parse_advances [of sc]] by auto
next
  case (RepeatUntilExcludingC f sc)
  then show ?case
    using returns_RepeatUntil [OF con_parse_advances [of sc]] by auto
next
  case (BufferedC sc enc dec rs)
  then show ?case
    by (auto intro!: returns_wrappers sizeof_returns)
next
  case (AdapterC sc a)
  then show ?case
    using adapter_decode_returns sizeof_returns by (auto intro!: returns_wrappers)
next
  case (FormattedEntryC n field forms)
  have "returns p" if "(k, Some p) \<in> set (map (map_prod id (map_option con_parse)) forms)" for k p
  proof -
    from that obtain c where c: "(k, Some c) \<in> set forms" "p = con_parse c"
      by (auto simp: eq_commute [of "Some _" "map_option _ _"])
    then have "con_ok c"
      using FormattedEntryC.prems by (fastforce simp: list_all_iff)
    then show ?thesis
      using FormattedEntryC.IH c by fastforce
  qed
  then show ?case
    unfolding con_parse.simps by (rule returns_FormattedEntry)
qed (auto intro!: returns_wrappers returns_intros simp: MetaField_parse_def Value_parse_def)

text \<open>Reading a structure of such a format.\<close>

lemma parse_stream_returns: "con_ok c \<Longrightarrow> returns (parse_stream c)"
  using returns_at [OF con_parse_returns] by (auto simp: returns_def parse_stream_def split: prod.split) (metis fst_conv)

lemma struct_parse_ok_returns: "con_ok c \<Longrightarrow> returns (struct_parse c p)"
  unfolding struct_parse_def by (intro returns_intros parse_stream_returns)

lemma struct_parse_advances:
  assumes "struct_parse c None t = (Ok v, t')"
  shows "remaining t' + con_min c \<le> remaining t"
proof -
  obtain r s' where run: "con_parse c \<lparr>pctx = [], pstm = t\<rparr> = (r, s')" by fastforce
  with assms have "r = Ok v" "t' = pstm s'"
    by (auto simp: struct_parse_def try_except_def parse_stream_def mbind_def split: res.splits if_splits)
  with advancesD [OF con_parse_advances, of c "\<lparr>pctx = [], pstm = t\<rparr>"] run show ?thesis
    by fastforce
qed

lemma struct_parse_advances_at:
  assumes "struct_parse c (Some p) t = (Ok v, t')"
  shows "0 \<le> p" "remaining t' + con_min c \<le> length (sdata t) - nat p"
proof -
  show "0 \<le> p"
    using assms by (auto simp: struct_parse_def try_except_def mbind_def s_seek_def split: if_splits)
  with assms have "struct_parse c None (t\<lparr>spos := nat p\<rparr>) = (Ok v, t')"
    by (auto simp: struct_parse_def try_except_def mbind_def s_seek_def split: if_splits)
  from struct_parse_advances [OF this] show "remaining t' + con_min c \<le> length (sdata t) - nat p"
    by (simp add: remaining_def)
qed

lemma struct_parse_keeps: "sdata (snd (struct_parse c p t)) = sdata t"
proof -
  have "skeeps (struct_parse c p)"
    unfolding struct_parse_def by (intro skeeps_intros) (auto intro: skeeps_intros split: option.split)
  then show ?thesis by (simp add: skeeps_def)
qed

end
