(* ===== verification/DwarfEnums.thy ===== *)
theory DwarfEnums
  imports ElfEnums
begin

text \<open>
  \<^verbatim>\<open>elftools/dwarf/enums.py\<close> and \<^verbatim>\<open>elftools/dwarf/constants.py\<close>: the tables that name the numbers of
  DWARF.  A table of the first is an \<open>enum\<close>, as in \<^verbatim>\<open>ElfEnums\<close>; the constants are grouped by prefix,
  and \<open>const\<close> looks one up.
\<close>

section \<open>Enumerations\<close>

definition ENUM_DW_TAG :: enum where
  "ENUM_DW_TAG =
  ([
     (''DW_TAG_null'', 0), (''DW_TAG_array_type'', 1), (''DW_TAG_class_type'', 2),
     (''DW_TAG_entry_point'', 3), (''DW_TAG_enumeration_type'', 4),
     (''DW_TAG_formal_parameter'', 5), (''DW_TAG_global_subroutine'', 6),
     (''DW_TAG_global_variable'', 7), (''DW_TAG_imported_declaration'', 8),
     (''DW_TAG_label'', 10), (''DW_TAG_lexical_block'', 11), (''DW_TAG_local_variable'', 12),
     (''DW_TAG_member'', 13), (''DW_TAG_pointer_type'', 15), (''DW_TAG_reference_type'', 16),
     (''DW_TAG_compile_unit'', 17), (''DW_TAG_string_type'', 18),
     (''DW_TAG_structure_type'', 19), (''DW_TAG_subroutine'', 20),
     (''DW_TAG_subroutine_type'', 21), (''DW_TAG_typedef'', 22), (''DW_TAG_union_type'', 23),
     (''DW_TAG_unspecified_parameters'', 24), (''DW_TAG_variant'', 25),
     (''DW_TAG_common_block'', 26), (''DW_TAG_common_inclusion'', 27),
     (''DW_TAG_inheritance'', 28), (''DW_TAG_inlined_subroutine'', 29), (''DW_TAG_module'', 30),
     (''DW_TAG_ptr_to_member_type'', 31), (''DW_TAG_set_type'', 32),
     (''DW_TAG_subrange_type'', 33), (''DW_TAG_with_stmt'', 34),
     (''DW_TAG_access_declaration'', 35), (''DW_TAG_base_type'', 36),
     (''DW_TAG_catch_block'', 37), (''DW_TAG_const_type'', 38), (''DW_TAG_constant'', 39),
     (''DW_TAG_enumerator'', 40), (''DW_TAG_file_type'', 41), (''DW_TAG_friend'', 42),
     (''DW_TAG_namelist'', 43), (''DW_TAG_namelist_item'', 44), (''DW_TAG_namelist_items'', 44),
     (''DW_TAG_packed_type'', 45), (''DW_TAG_subprogram'', 46),
     (''DW_TAG_template_type_param'', 47), (''DW_TAG_template_value_param'', 48),
     (''DW_TAG_thrown_type'', 49), (''DW_TAG_try_block'', 50), (''DW_TAG_variant_part'', 51),
     (''DW_TAG_variable'', 52), (''DW_TAG_volatile_type'', 53), (''DW_TAG_dwarf_procedure'', 54),
     (''DW_TAG_restrict_type'', 55), (''DW_TAG_interface_type'', 56), (''DW_TAG_namespace'', 57),
     (''DW_TAG_imported_module'', 58), (''DW_TAG_unspecified_type'', 59),
     (''DW_TAG_partial_unit'', 60), (''DW_TAG_imported_unit'', 61),
     (''DW_TAG_mutable_type'', 62), (''DW_TAG_condition'', 63), (''DW_TAG_shared_type'', 64),
     (''DW_TAG_type_unit'', 65), (''DW_TAG_rvalue_reference_type'', 66),
     (''DW_TAG_template_alias'', 67), (''DW_TAG_coarray_type'', 68),
     (''DW_TAG_generic_subrange'', 69), (''DW_TAG_dynamic_type'', 70),
     (''DW_TAG_atomic_type'', 71), (''DW_TAG_call_site'', 72),
     (''DW_TAG_call_site_parameter'', 73), (''DW_TAG_skeleton_unit'', 74),
     (''DW_TAG_immutable_type'', 75), (''DW_TAG_lo_user'', 16512),
     (''DW_TAG_GNU_template_template_param'', 16646),
     (''DW_TAG_GNU_template_parameter_pack'', 16647),
     (''DW_TAG_GNU_formal_parameter_pack'', 16648), (''DW_TAG_GNU_call_site'', 16649),
     (''DW_TAG_GNU_call_site_parameter'', 16650), (''DW_TAG_APPLE_property'', 16896),
     (''DW_TAG_hi_user'', 65535)], PassDefault)"

definition ENUM_DW_CHILDREN :: enum where
  "ENUM_DW_CHILDREN =
  ([
     (''DW_CHILDREN_no'', 0), (''DW_CHILDREN_yes'', 1)], NoDefault)"

definition ENUM_DW_AT :: enum where
  "ENUM_DW_AT =
  ([
     (''DW_AT_null'', 0), (''DW_AT_sibling'', 1), (''DW_AT_location'', 2), (''DW_AT_name'', 3),
     (''DW_AT_fund_type'', 5), (''DW_AT_mod_fund_type'', 6), (''DW_AT_user_def_type'', 7),
     (''DW_AT_mod_u_d_type'', 8), (''DW_AT_ordering'', 9), (''DW_AT_subscr_data'', 10),
     (''DW_AT_byte_size'', 11), (''DW_AT_bit_offset'', 12), (''DW_AT_bit_size'', 13),
     (''DW_AT_element_list'', 15), (''DW_AT_stmt_list'', 16), (''DW_AT_low_pc'', 17),
     (''DW_AT_high_pc'', 18), (''DW_AT_language'', 19), (''DW_AT_member'', 20),
     (''DW_AT_discr'', 21), (''DW_AT_discr_value'', 22), (''DW_AT_visibility'', 23),
     (''DW_AT_import'', 24), (''DW_AT_string_length'', 25), (''DW_AT_common_reference'', 26),
     (''DW_AT_comp_dir'', 27), (''DW_AT_const_value'', 28), (''DW_AT_containing_type'', 29),
     (''DW_AT_default_value'', 30), (''DW_AT_friends'', 31), (''DW_AT_inline'', 32),
     (''DW_AT_is_optional'', 33), (''DW_AT_lower_bound'', 34), (''DW_AT_program'', 35),
     (''DW_AT_private'', 36), (''DW_AT_producer'', 37), (''DW_AT_protected'', 38),
     (''DW_AT_prototyped'', 39), (''DW_AT_public'', 40), (''DW_AT_pure_virtual'', 41),
     (''DW_AT_return_addr'', 42), (''DW_AT_start_scope'', 44), (''DW_AT_bit_stride'', 46),
     (''DW_AT_stride_size'', 46), (''DW_AT_upper_bound'', 47), (''DW_AT_virtual'', 48),
     (''DW_AT_abstract_origin'', 49), (''DW_AT_accessibility'', 50),
     (''DW_AT_address_class'', 51), (''DW_AT_artificial'', 52), (''DW_AT_base_types'', 53),
     (''DW_AT_calling_convention'', 54), (''DW_AT_count'', 55),
     (''DW_AT_data_member_location'', 56), (''DW_AT_decl_column'', 57),
     (''DW_AT_decl_file'', 58), (''DW_AT_decl_line'', 59), (''DW_AT_declaration'', 60),
     (''DW_AT_discr_list'', 61), (''DW_AT_encoding'', 62), (''DW_AT_external'', 63),
     (''DW_AT_frame_base'', 64), (''DW_AT_friend'', 65), (''DW_AT_identifier_case'', 66),
     (''DW_AT_macro_info'', 67), (''DW_AT_namelist_item'', 68), (''DW_AT_priority'', 69),
     (''DW_AT_segment'', 70), (''DW_AT_specification'', 71), (''DW_AT_static_link'', 72),
     (''DW_AT_type'', 73), (''DW_AT_use_location'', 74), (''DW_AT_variable_parameter'', 75),
     (''DW_AT_virtuality'', 76), (''DW_AT_vtable_elem_location'', 77), (''DW_AT_allocated'', 78),
     (''DW_AT_associated'', 79), (''DW_AT_data_location'', 80), (''DW_AT_byte_stride'', 81),
     (''DW_AT_stride'', 81), (''DW_AT_entry_pc'', 82), (''DW_AT_use_UTF8'', 83),
     (''DW_AT_extension'', 84), (''DW_AT_ranges'', 85), (''DW_AT_trampoline'', 86),
     (''DW_AT_call_column'', 87), (''DW_AT_call_file'', 88), (''DW_AT_call_line'', 89),
     (''DW_AT_description'', 90), (''DW_AT_binary_scale'', 91), (''DW_AT_decimal_scale'', 92),
     (''DW_AT_small'', 93), (''DW_AT_decimal_sign'', 94), (''DW_AT_digit_count'', 95),
     (''DW_AT_picture_string'', 96), (''DW_AT_mutable'', 97), (''DW_AT_threads_scaled'', 98),
     (''DW_AT_explicit'', 99), (''DW_AT_object_pointer'', 100), (''DW_AT_endianity'', 101),
     (''DW_AT_elemental'', 102), (''DW_AT_pure'', 103), (''DW_AT_recursive'', 104),
     (''DW_AT_signature'', 105), (''DW_AT_main_subprogram'', 106),
     (''DW_AT_data_bit_offset'', 107), (''DW_AT_const_expr'', 108), (''DW_AT_enum_class'', 109),
     (''DW_AT_linkage_name'', 110), (''DW_AT_string_length_bit_size'', 111),
     (''DW_AT_string_length_byte_size'', 112), (''DW_AT_rank'', 113),
     (''DW_AT_str_offsets_base'', 114), (''DW_AT_addr_base'', 115),
     (''DW_AT_rnglists_base'', 116), (''DW_AT_dwo_name'', 118), (''DW_AT_reference'', 119),
     (''DW_AT_rvalue_reference'', 120), (''DW_AT_macros'', 121), (''DW_AT_call_all_calls'', 122),
     (''DW_AT_call_all_source_calls'', 123), (''DW_AT_call_all_tail_calls'', 124),
     (''DW_AT_call_return_pc'', 125), (''DW_AT_call_value'', 126), (''DW_AT_call_origin'', 127),
     (''DW_AT_call_parameter'', 128), (''DW_AT_call_pc'', 129), (''DW_AT_call_tail_call'', 130),
     (''DW_AT_call_target'', 131), (''DW_AT_call_target_clobbered'', 132),
     (''DW_AT_call_data_location'', 133), (''DW_AT_call_data_value'', 134),
     (''DW_AT_noreturn'', 135), (''DW_AT_alignment'', 136), (''DW_AT_export_symbols'', 137),
     (''DW_AT_deleted'', 138), (''DW_AT_defaulted'', 139), (''DW_AT_loclists_base'', 140),
     (''DW_AT_MIPS_fde'', 8193), (''DW_AT_MIPS_loop_begin'', 8194),
     (''DW_AT_MIPS_tail_loop_begin'', 8195), (''DW_AT_MIPS_epilog_begin'', 8196),
     (''DW_AT_MIPS_loop_unroll_factor'', 8197), (''DW_AT_MIPS_software_pipeline_depth'', 8198),
     (''DW_AT_MIPS_linkage_name'', 8199), (''DW_AT_MIPS_stride'', 8200),
     (''DW_AT_MIPS_abstract_name'', 8201), (''DW_AT_MIPS_clone_origin'', 8202),
     (''DW_AT_MIPS_has_inlines'', 8203), (''DW_AT_MIPS_stride_byte'', 8204),
     (''DW_AT_MIPS_stride_elem'', 8205), (''DW_AT_MIPS_ptr_dopetype'', 8206),
     (''DW_AT_MIPS_allocatable_dopetype'', 8207), (''DW_AT_MIPS_assumed_shape_dopetype'', 8208),
     (''DW_AT_MIPS_assumed_size'', 8209), (''DW_AT_sf_names'', 8449), (''DW_AT_src_info'', 8450),
     (''DW_AT_mac_info'', 8451), (''DW_AT_src_coords'', 8452), (''DW_AT_body_begin'', 8453),
     (''DW_AT_body_end'', 8454), (''DW_AT_GNU_vector'', 8455),
     (''DW_AT_GNU_template_name'', 8464), (''DW_AT_GNU_odr_signature'', 8463),
     (''DW_AT_GNU_call_site_value'', 8465), (''DW_AT_GNU_call_site_data_value'', 8466),
     (''DW_AT_GNU_call_site_target'', 8467), (''DW_AT_GNU_call_site_target_clobbered'', 8468),
     (''DW_AT_GNU_tail_call'', 8469), (''DW_AT_GNU_all_tail_call_sites'', 8470),
     (''DW_AT_GNU_all_call_sites'', 8471), (''DW_AT_GNU_all_source_call_sites'', 8472),
     (''DW_AT_GNU_macros'', 8473), (''DW_AT_GNU_deleted'', 8474), (''DW_AT_GNU_dwo_name'', 8496),
     (''DW_AT_GNU_dwo_id'', 8497), (''DW_AT_GNU_ranges_base'', 8498),
     (''DW_AT_GNU_addr_base'', 8499), (''DW_AT_GNU_pubnames'', 8500),
     (''DW_AT_GNU_pubtypes'', 8501), (''DW_AT_GNU_discriminator'', 8502),
     (''DW_AT_GNU_locviews'', 8503), (''DW_AT_GNU_entry_view'', 8504),
     (''DW_AT_LLVM_include_path'', 15872), (''DW_AT_LLVM_config_macros'', 15873),
     (''DW_AT_LLVM_isysroot'', 15874), (''DW_AT_LLVM_tag_offset'', 15875),
     (''DW_AT_LLVM_apinotes'', 15879), (''DW_AT_APPLE_optimized'', 16353),
     (''DW_AT_APPLE_flags'', 16354), (''DW_AT_APPLE_isa'', 16355),
     (''DW_AT_APPLE_block'', 16356), (''DW_AT_APPLE_major_runtime_vers'', 16357),
     (''DW_AT_APPLE_runtime_class'', 16358), (''DW_AT_APPLE_omit_frame_ptr'', 16359),
     (''DW_AT_APPLE_property_name'', 16360), (''DW_AT_APPLE_property_getter'', 16361),
     (''DW_AT_APPLE_property_setter'', 16362), (''DW_AT_APPLE_property_attribute'', 16363),
     (''DW_AT_APPLE_objc_complete_type'', 16364), (''DW_AT_APPLE_property'', 16365),
     (''DW_AT_APPLE_objc_direct'', 16366), (''DW_AT_APPLE_sdk'', 16367)], PassDefault)"

definition ENUM_DW_FORM :: enum where
  "ENUM_DW_FORM =
  ([
     (''DW_FORM_null'', 0), (''DW_FORM_addr'', 1), (''DW_FORM_ref'', 2), (''DW_FORM_block2'', 3),
     (''DW_FORM_block4'', 4), (''DW_FORM_data2'', 5), (''DW_FORM_data4'', 6),
     (''DW_FORM_data8'', 7), (''DW_FORM_string'', 8), (''DW_FORM_block'', 9),
     (''DW_FORM_block1'', 10), (''DW_FORM_data1'', 11), (''DW_FORM_flag'', 12),
     (''DW_FORM_sdata'', 13), (''DW_FORM_strp'', 14), (''DW_FORM_udata'', 15),
     (''DW_FORM_ref_addr'', 16), (''DW_FORM_ref1'', 17), (''DW_FORM_ref2'', 18),
     (''DW_FORM_ref4'', 19), (''DW_FORM_ref8'', 20), (''DW_FORM_ref_udata'', 21),
     (''DW_FORM_indirect'', 22), (''DW_FORM_sec_offset'', 23), (''DW_FORM_exprloc'', 24),
     (''DW_FORM_flag_present'', 25), (''DW_FORM_strx'', 26), (''DW_FORM_addrx'', 27),
     (''DW_FORM_ref_sup4'', 28), (''DW_FORM_strp_sup'', 29), (''DW_FORM_data16'', 30),
     (''DW_FORM_line_strp'', 31), (''DW_FORM_ref_sig8'', 32), (''DW_FORM_implicit_const'', 33),
     (''DW_FORM_loclistx'', 34), (''DW_FORM_rnglistx'', 35), (''DW_FORM_ref_sup8'', 36),
     (''DW_FORM_strx1'', 37), (''DW_FORM_strx2'', 38), (''DW_FORM_strx3'', 39),
     (''DW_FORM_strx4'', 40), (''DW_FORM_addrx1'', 41), (''DW_FORM_addrx2'', 42),
     (''DW_FORM_addrx3'', 43), (''DW_FORM_addrx4'', 44), (''DW_FORM_GNU_addr_index'', 7937),
     (''DW_FORM_GNU_str_index'', 7938), (''DW_FORM_GNU_ref_alt'', 7968),
     (''DW_FORM_GNU_strp_alt'', 7969)], PassDefault)"

definition DW_EH_encoding_flags :: enum where
  "DW_EH_encoding_flags =
  ([
     (''DW_EH_PE_absptr'', 0), (''DW_EH_PE_uleb128'', 1), (''DW_EH_PE_udata2'', 2),
     (''DW_EH_PE_udata4'', 3), (''DW_EH_PE_udata8'', 4), (''DW_EH_PE_signed'', 8),
     (''DW_EH_PE_sleb128'', 9), (''DW_EH_PE_sdata2'', 10), (''DW_EH_PE_sdata4'', 11),
     (''DW_EH_PE_sdata8'', 12), (''DW_EH_PE_pcrel'', 16), (''DW_EH_PE_textrel'', 32),
     (''DW_EH_PE_datarel'', 48), (''DW_EH_PE_funcrel'', 64), (''DW_EH_PE_aligned'', 80),
     (''DW_EH_PE_indirect'', 128), (''DW_EH_PE_omit'', 255)], NoDefault)"

definition ENUM_DW_LNCT :: enum where
  "ENUM_DW_LNCT =
  ([
     (''DW_LNCT_path'', 1), (''DW_LNCT_directory_index'', 2), (''DW_LNCT_timestamp'', 3),
     (''DW_LNCT_size'', 4), (''DW_LNCT_MD5'', 5), (''DW_LNCT_lo_user'', 8192),
     (''DW_LNCT_LLVM_source'', 8193), (''DW_LNCT_LLVM_is_MD5'', 8194),
     (''DW_LNCT_hi_user'', 16383)], NoDefault)"

definition ENUM_DW_UT :: enum where
  "ENUM_DW_UT =
  ([
     (''DW_UT_compile'', 1), (''DW_UT_type'', 2), (''DW_UT_partial'', 3),
     (''DW_UT_skeleton'', 4), (''DW_UT_split_compile'', 5), (''DW_UT_split_type'', 6),
     (''DW_UT_lo_user'', 128), (''DW_UT_hi_user'', 255)], NoDefault)"

definition ENUM_DW_LLE :: enum where
  "ENUM_DW_LLE =
  ([
     (''DW_LLE_end_of_list'', 0), (''DW_LLE_base_addressx'', 1), (''DW_LLE_startx_endx'', 2),
     (''DW_LLE_startx_length'', 3), (''DW_LLE_offset_pair'', 4),
     (''DW_LLE_default_location'', 5), (''DW_LLE_base_address'', 6), (''DW_LLE_start_end'', 7),
     (''DW_LLE_start_length'', 8)], NoDefault)"

definition ENUM_DW_RLE :: enum where
  "ENUM_DW_RLE =
  ([
     (''DW_RLE_end_of_list'', 0), (''DW_RLE_base_addressx'', 1), (''DW_RLE_startx_endx'', 2),
     (''DW_RLE_startx_length'', 3), (''DW_RLE_offset_pair'', 4), (''DW_RLE_base_address'', 5),
     (''DW_RLE_start_end'', 6), (''DW_RLE_start_length'', 7)], NoDefault)"

definition ENUM_DW_LANG :: enum where
  "ENUM_DW_LANG =
  ([
     (''DW_LANG_C89'', 1), (''DW_LANG_C'', 2), (''DW_LANG_Ada83'', 3),
     (''DW_LANG_C_plus_plus'', 4), (''DW_LANG_Cobol74'', 5), (''DW_LANG_Cobol85'', 6),
     (''DW_LANG_Fortran77'', 7), (''DW_LANG_Fortran90'', 8), (''DW_LANG_Pascal83'', 9),
     (''DW_LANG_Modula2'', 10), (''DW_LANG_Java'', 11), (''DW_LANG_C99'', 12),
     (''DW_LANG_Ada95'', 13), (''DW_LANG_Fortran95'', 14), (''DW_LANG_PLI'', 15),
     (''DW_LANG_ObjC'', 16), (''DW_LANG_ObjC_plus_plus'', 17), (''DW_LANG_UPC'', 18),
     (''DW_LANG_D'', 19), (''DW_LANG_Python'', 20), (''DW_LANG_OpenCL'', 21),
     (''DW_LANG_Go'', 22), (''DW_LANG_Modula3'', 23), (''DW_LANG_Haskell'', 24),
     (''DW_LANG_C_plus_plus_03'', 25), (''DW_LANG_C_plus_plus_11'', 26), (''DW_LANG_OCaml'', 27),
     (''DW_LANG_Rust'', 28), (''DW_LANG_C11'', 29), (''DW_LANG_Swift'', 30),
     (''DW_LANG_Julia'', 31), (''DW_LANG_Dylan'', 32), (''DW_LANG_C_plus_plus_14'', 33),
     (''DW_LANG_Fortran03'', 34), (''DW_LANG_Fortran08'', 35), (''DW_LANG_RenderScript'', 36),
     (''DW_LANG_BLISS'', 37), (''DW_LANG_lo_user'', 32768), (''DW_LANG_hi_user'', 65535)], NoDefault)"

definition ENUM_DW_ATE :: enum where
  "ENUM_DW_ATE =
  ([
     (''DW_ATE_address'', 1), (''DW_ATE_boolean'', 2), (''DW_ATE_complex_float'', 3),
     (''DW_ATE_float'', 4), (''DW_ATE_signed'', 5), (''DW_ATE_signed_char'', 6),
     (''DW_ATE_unsigned'', 7), (''DW_ATE_unsigned_char'', 8), (''DW_ATE_imaginary_float'', 9),
     (''DW_ATE_packed_decimal'', 10), (''DW_ATE_numeric_string'', 11), (''DW_ATE_edited'', 12),
     (''DW_ATE_signed_fixed'', 13), (''DW_ATE_unsigned_fixed'', 14),
     (''DW_ATE_decimal_float'', 15), (''DW_ATE_UTF'', 16), (''DW_ATE_UCS'', 17),
     (''DW_ATE_ASCII'', 18), (''DW_ATE_lo_user'', 128), (''DW_ATE_hi_user'', 255)], NoDefault)"

definition ENUM_DW_ACCESS :: enum where
  "ENUM_DW_ACCESS =
  ([
     (''DW_ACCESS_public'', 1), (''DW_ACCESS_protected'', 2), (''DW_ACCESS_private'', 3)], NoDefault)"

definition ENUM_DW_INL :: enum where
  "ENUM_DW_INL =
  ([
     (''DW_INL_not_inlined'', 0), (''DW_INL_inlined'', 1), (''DW_INL_declared_not_inlined'', 2),
     (''DW_INL_declared_inlined'', 3)], NoDefault)"

definition ENUM_DW_CC :: enum where
  "ENUM_DW_CC =
  ([
     (''DW_CC_normal'', 1), (''DW_CC_program'', 2), (''DW_CC_nocall'', 3),
     (''DW_CC_pass_by_reference'', 4), (''DW_CC_pass_by_value'', 5), (''DW_CC_lo_user'', 64),
     (''DW_CC_hi_user'', 255)], NoDefault)"

section \<open>Constants\<close>

text \<open>A constant by its name.\<close>

definition const :: "(string \<times> int) list \<Rightarrow> string \<Rightarrow> int" where
  "const t nm = (case map_of t nm of Some i \<Rightarrow> i | None \<Rightarrow> -1)"

definition DW_INL_constants :: "(string \<times> int) list" where
  "DW_INL_constants =
  [
     (''DW_INL_not_inlined'', 0), (''DW_INL_inlined'', 1), (''DW_INL_declared_not_inlined'', 2),
     (''DW_INL_declared_inlined'', 3)]"

definition DW_LANG_constants :: "(string \<times> int) list" where
  "DW_LANG_constants =
  [
     (''DW_LANG_C89'', 1), (''DW_LANG_C'', 2), (''DW_LANG_Ada83'', 3),
     (''DW_LANG_C_plus_plus'', 4), (''DW_LANG_Cobol74'', 5), (''DW_LANG_Cobol85'', 6),
     (''DW_LANG_Fortran77'', 7), (''DW_LANG_Fortran90'', 8), (''DW_LANG_Pascal83'', 9),
     (''DW_LANG_Modula2'', 10), (''DW_LANG_Java'', 11), (''DW_LANG_C99'', 12),
     (''DW_LANG_Ada95'', 13), (''DW_LANG_Fortran95'', 14), (''DW_LANG_PLI'', 15),
     (''DW_LANG_ObjC'', 16), (''DW_LANG_ObjC_plus_plus'', 17), (''DW_LANG_UPC'', 18),
     (''DW_LANG_D'', 19), (''DW_LANG_Python'', 20), (''DW_LANG_OpenCL'', 21),
     (''DW_LANG_Go'', 22), (''DW_LANG_Modula3'', 23), (''DW_LANG_Haskell'', 24),
     (''DW_LANG_C_plus_plus_03'', 25), (''DW_LANG_C_plus_plus_11'', 26), (''DW_LANG_OCaml'', 27),
     (''DW_LANG_Rust'', 28), (''DW_LANG_C11'', 29), (''DW_LANG_Swift'', 30),
     (''DW_LANG_Julia'', 31), (''DW_LANG_Dylan'', 32), (''DW_LANG_C_plus_plus_14'', 33),
     (''DW_LANG_Fortran03'', 34), (''DW_LANG_Fortran08'', 35), (''DW_LANG_RenderScript'', 36),
     (''DW_LANG_BLISS'', 37), (''DW_LANG_Mips_Assembler'', 32769), (''DW_LANG_Upc'', 34661),
     (''DW_LANG_HP_Bliss'', 32771), (''DW_LANG_HP_Basic91'', 32772),
     (''DW_LANG_HP_Pascal91'', 32773), (''DW_LANG_HP_IMacro'', 32774),
     (''DW_LANG_HP_Assembler'', 32775), (''DW_LANG_GOOGLE_RenderScript'', 36439),
     (''DW_LANG_BORLAND_Delphi'', 45056)]"

definition DW_ATE_constants :: "(string \<times> int) list" where
  "DW_ATE_constants =
  [
     (''DW_ATE_void'', 0), (''DW_ATE_address'', 1), (''DW_ATE_boolean'', 2),
     (''DW_ATE_complex_float'', 3), (''DW_ATE_float'', 4), (''DW_ATE_signed'', 5),
     (''DW_ATE_signed_char'', 6), (''DW_ATE_unsigned'', 7), (''DW_ATE_unsigned_char'', 8),
     (''DW_ATE_imaginary_float'', 9), (''DW_ATE_packed_decimal'', 10),
     (''DW_ATE_numeric_string'', 11), (''DW_ATE_edited'', 12), (''DW_ATE_signed_fixed'', 13),
     (''DW_ATE_unsigned_fixed'', 14), (''DW_ATE_decimal_float'', 15), (''DW_ATE_UTF'', 16),
     (''DW_ATE_UCS'', 17), (''DW_ATE_ASCII'', 18), (''DW_ATE_lo_user'', 128),
     (''DW_ATE_hi_user'', 255), (''DW_ATE_HP_float80'', 128),
     (''DW_ATE_HP_complex_float80'', 129), (''DW_ATE_HP_float128'', 130),
     (''DW_ATE_HP_complex_float128'', 131), (''DW_ATE_HP_floathpintel'', 132),
     (''DW_ATE_HP_imaginary_float80'', 133), (''DW_ATE_HP_imaginary_float128'', 134)]"

definition DW_ACCESS_constants :: "(string \<times> int) list" where
  "DW_ACCESS_constants =
  [
     (''DW_ACCESS_public'', 1), (''DW_ACCESS_protected'', 2), (''DW_ACCESS_private'', 3)]"

definition DW_VIS_constants :: "(string \<times> int) list" where
  "DW_VIS_constants =
  [
     (''DW_VIS_local'', 1), (''DW_VIS_exported'', 2), (''DW_VIS_qualified'', 3)]"

definition DW_VIRTUALITY_constants :: "(string \<times> int) list" where
  "DW_VIRTUALITY_constants =
  [
     (''DW_VIRTUALITY_none'', 0), (''DW_VIRTUALITY_virtual'', 1),
     (''DW_VIRTUALITY_pure_virtual'', 2)]"

definition DW_ID_constants :: "(string \<times> int) list" where
  "DW_ID_constants =
  [
     (''DW_ID_case_sensitive'', 0), (''DW_ID_up_case'', 1), (''DW_ID_down_case'', 2),
     (''DW_ID_case_insensitive'', 3)]"

definition DW_CC_constants :: "(string \<times> int) list" where
  "DW_CC_constants =
  [
     (''DW_CC_normal'', 1), (''DW_CC_program'', 2), (''DW_CC_nocall'', 3),
     (''DW_CC_pass_by_reference'', 4), (''DW_CC_pass_by_valuee'', 5)]"

definition DW_ORD_constants :: "(string \<times> int) list" where
  "DW_ORD_constants =
  [
     (''DW_ORD_row_major'', 0), (''DW_ORD_col_major'', 1)]"

definition DW_LNS_constants :: "(string \<times> int) list" where
  "DW_LNS_constants =
  [
     (''DW_LNS_copy'', 1), (''DW_LNS_advance_pc'', 2), (''DW_LNS_advance_line'', 3),
     (''DW_LNS_set_file'', 4), (''DW_LNS_set_column'', 5), (''DW_LNS_negate_stmt'', 6),
     (''DW_LNS_set_basic_block'', 7), (''DW_LNS_const_add_pc'', 8),
     (''DW_LNS_fixed_advance_pc'', 9), (''DW_LNS_set_prologue_end'', 10),
     (''DW_LNS_set_epilogue_begin'', 11), (''DW_LNS_set_isa'', 12)]"

definition DW_LNE_constants :: "(string \<times> int) list" where
  "DW_LNE_constants =
  [
     (''DW_LNE_end_sequence'', 1), (''DW_LNE_set_address'', 2), (''DW_LNE_define_file'', 3),
     (''DW_LNE_set_discriminator'', 4), (''DW_LNE_lo_user'', 128), (''DW_LNE_hi_user'', 255)]"

definition DW_LNCT_constants :: "(string \<times> int) list" where
  "DW_LNCT_constants =
  [
     (''DW_LNCT_path'', 1), (''DW_LNCT_directory_index'', 2), (''DW_LNCT_timestamp'', 3),
     (''DW_LNCT_size'', 4), (''DW_LNCT_MD5'', 5), (''DW_LNCT_lo_user'', 8192),
     (''DW_LNCT_LLVM_source'', 8193), (''DW_LNCT_LLVM_is_MD5'', 8194),
     (''DW_LNCT_hi_user'', 16383)]"

definition DW_CFA_constants :: "(string \<times> int) list" where
  "DW_CFA_constants =
  [
     (''DW_CFA_advance_loc'', 64), (''DW_CFA_offset'', 128), (''DW_CFA_restore'', 192),
     (''DW_CFA_nop'', 0), (''DW_CFA_set_loc'', 1), (''DW_CFA_advance_loc1'', 2),
     (''DW_CFA_advance_loc2'', 3), (''DW_CFA_advance_loc4'', 4), (''DW_CFA_offset_extended'', 5),
     (''DW_CFA_restore_extended'', 6), (''DW_CFA_undefined'', 7), (''DW_CFA_same_value'', 8),
     (''DW_CFA_register'', 9), (''DW_CFA_remember_state'', 10), (''DW_CFA_restore_state'', 11),
     (''DW_CFA_def_cfa'', 12), (''DW_CFA_def_cfa_register'', 13),
     (''DW_CFA_def_cfa_offset'', 14), (''DW_CFA_def_cfa_expression'', 15),
     (''DW_CFA_expression'', 16), (''DW_CFA_offset_extended_sf'', 17),
     (''DW_CFA_def_cfa_sf'', 18), (''DW_CFA_def_cfa_offset_sf'', 19),
     (''DW_CFA_val_offset'', 20), (''DW_CFA_val_offset_sf'', 21),
     (''DW_CFA_val_expression'', 22), (''DW_CFA_GNU_window_save'', 45),
     (''DW_CFA_AARCH64_negate_ra_state'', 45), (''DW_CFA_GNU_args_size'', 46)]"

definition DW_UT_constants :: "(string \<times> int) list" where
  "DW_UT_constants =
  [
     (''DW_UT_compile'', 1), (''DW_UT_type'', 2), (''DW_UT_partial'', 3),
     (''DW_UT_skeleton'', 4), (''DW_UT_split_compile'', 5), (''DW_UT_split_type'', 6),
     (''DW_UT_lo_user'', 128), (''DW_UT_hi_user'', 255)]"

end
