(* ===== verification/DwarfStructs.thy ===== *)
theory DwarfStructs
  imports DwarfEnums ElfStructs
begin

text \<open>
  \<^verbatim>\<open>elftools/dwarf/structs.py\<close>: the class \<open>DWARFStructs\<close>, which holds the binary formats of the DWARF
  sections.  The object is the record of the parameters it was made with; a format the source keeps
  in an attribute is a function of that record, under the attribute's name.  (The source also keeps
  the objects it made, one per choice of the parameters.)
\<close>

record dwarf_structs =
  dw_little_endian :: bool
  dwarf_format :: int
  address_size :: int
  dwarf_version :: int

definition DWARFStructs_new :: "bool \<Rightarrow> int \<Rightarrow> int \<Rightarrow> int \<Rightarrow> dwarf_structs res" where
  "DWARFStructs_new le fmt asz ver =
     (if \<not> (fmt = 32 \<or> fmt = 64) then Err AssertionError
      else if \<not> (asz = 8 \<or> asz = 4) then Err AssertionError
      else Ok \<lparr>dw_little_endian = le, dwarf_format = fmt, address_size = asz, dwarf_version = ver\<rparr>)"

definition initial_length_field_size :: "dwarf_structs \<Rightarrow> int" where
  "initial_length_field_size ds = (if dwarf_format ds = 32 then 4 else 12)"

section \<open>Data chunks (\<open>_create_structs\<close>)\<close>

definition Dwarf_uint8 :: "dwarf_structs \<Rightarrow> string \<Rightarrow> con" where
  "Dwarf_uint8 ds = (if dw_little_endian ds then ULInt8 else UBInt8)"

definition Dwarf_uint16 :: "dwarf_structs \<Rightarrow> string \<Rightarrow> con" where
  "Dwarf_uint16 ds = (if dw_little_endian ds then ULInt16 else UBInt16)"

definition Dwarf_uint24 :: "dwarf_structs \<Rightarrow> string \<Rightarrow> con" where
  "Dwarf_uint24 ds n = Int24C (Some n) (if dw_little_endian ds then LE else BE)"

definition Dwarf_uint32 :: "dwarf_structs \<Rightarrow> string \<Rightarrow> con" where
  "Dwarf_uint32 ds = (if dw_little_endian ds then ULInt32 else UBInt32)"

definition Dwarf_uint64 :: "dwarf_structs \<Rightarrow> string \<Rightarrow> con" where
  "Dwarf_uint64 ds = (if dw_little_endian ds then ULInt64 else UBInt64)"

definition Dwarf_offset :: "dwarf_structs \<Rightarrow> string \<Rightarrow> con" where
  "Dwarf_offset ds = (if dw_little_endian ds then (if dwarf_format ds = 32 then ULInt32 else ULInt64)
                      else (if dwarf_format ds = 32 then UBInt32 else UBInt64))"

definition Dwarf_length :: "dwarf_structs \<Rightarrow> string \<Rightarrow> con" where
  "Dwarf_length ds = (if dw_little_endian ds then (if dwarf_format ds = 32 then ULInt32 else ULInt64)
                      else (if dwarf_format ds = 32 then UBInt32 else UBInt64))"

definition Dwarf_target_addr :: "dwarf_structs \<Rightarrow> string \<Rightarrow> con" where
  "Dwarf_target_addr ds = (if dw_little_endian ds then (if address_size ds = 4 then ULInt32 else ULInt64)
                           else (if address_size ds = 4 then UBInt32 else UBInt64))"

definition Dwarf_int8 :: "dwarf_structs \<Rightarrow> string \<Rightarrow> con" where
  "Dwarf_int8 ds = (if dw_little_endian ds then SLInt8 else SBInt8)"

definition Dwarf_int16 :: "dwarf_structs \<Rightarrow> string \<Rightarrow> con" where
  "Dwarf_int16 ds = (if dw_little_endian ds then SLInt16 else SBInt16)"

definition Dwarf_int32 :: "dwarf_structs \<Rightarrow> string \<Rightarrow> con" where
  "Dwarf_int32 ds = (if dw_little_endian ds then SLInt32 else SBInt32)"

definition Dwarf_int64 :: "dwarf_structs \<Rightarrow> string \<Rightarrow> con" where
  "Dwarf_int64 ds = (if dw_little_endian ds then SLInt64 else SBInt64)"

lemmas dwarf_chunk_defs = Dwarf_uint8_def Dwarf_uint16_def Dwarf_uint32_def Dwarf_uint64_def
  Dwarf_offset_def Dwarf_length_def Dwarf_target_addr_def Dwarf_int8_def Dwarf_int16_def
  Dwarf_int32_def Dwarf_int64_def

definition Dwarf_uleb128 :: "dwarf_structs \<Rightarrow> string \<Rightarrow> con" where
  "Dwarf_uleb128 ds n = ULEB128C (Some n)"

definition Dwarf_sleb128 :: "dwarf_structs \<Rightarrow> string \<Rightarrow> con" where
  "Dwarf_sleb128 ds n = SLEB128C (Some n)"

text \<open>The parsers made once, with an empty name.\<close>

definition the_Dwarf_offset :: "dwarf_structs \<Rightarrow> con" where
  "the_Dwarf_offset ds = Dwarf_offset ds ''''"
definition the_Dwarf_target_addr :: "dwarf_structs \<Rightarrow> con" where
  "the_Dwarf_target_addr ds = Dwarf_target_addr ds ''''"
definition the_Dwarf_uint32 :: "dwarf_structs \<Rightarrow> con" where
  "the_Dwarf_uint32 ds = Dwarf_uint32 ds ''''"
definition the_Dwarf_uint16 :: "dwarf_structs \<Rightarrow> con" where
  "the_Dwarf_uint16 ds = Dwarf_uint16 ds ''''"
definition the_Dwarf_uint8 :: "dwarf_structs \<Rightarrow> con" where
  "the_Dwarf_uint8 ds = Dwarf_uint8 ds ''''"
definition the_Dwarf_uleb128 :: "dwarf_structs \<Rightarrow> con" where
  "the_Dwarf_uleb128 ds = Dwarf_uleb128 ds ''''"
definition the_Dwarf_sleb128 :: "dwarf_structs \<Rightarrow> con" where
  "the_Dwarf_sleb128 ds = Dwarf_sleb128 ds ''''"

lemmas the_dwarf_defs = the_Dwarf_offset_def the_Dwarf_target_addr_def the_Dwarf_uint32_def
  the_Dwarf_uint16_def the_Dwarf_uint8_def the_Dwarf_uleb128_def the_Dwarf_sleb128_def

section \<open>Initial lengths\<close>

text \<open>\<^verbatim>\<open>ctx.name\<close> of an integer field of the context.\<close>

definition ctx_attr :: "ctx \<Rightarrow> string \<Rightarrow> val res" where
  "ctx_attr c n = get_attr (VCont c) n"

definition ctx_test :: "string \<Rightarrow> (int \<Rightarrow> bool) \<Rightarrow> ctx \<Rightarrow> val res" where
  "ctx_test n P c = rbind (rbind (ctx_attr c n) as_int) (\<lambda>i. Ok (VBool (P i)))"

definition InitialLength_decode :: "val \<Rightarrow> ctx \<Rightarrow> (val \<times> ctx) res" where
  "InitialLength_decode obj c =
     rbind (rbind (get_attr obj ''first'') as_int) (\<lambda>i.
       if i < 0xFFFFFF00 then Ok (VInt i, dput ''is64'' (VBool False) c)
       else if i = 0xFFFFFFFF then
         rbind (get_attr obj ''second'') (\<lambda>second. Ok (second, dput ''is64'' (VBool True) c))
       else Err ConstructError)"

definition Dwarf_initial_length :: "dwarf_structs \<Rightarrow> string \<Rightarrow> con" where
  "Dwarf_initial_length ds n = ContextAdapterC
     (Struct n
        [Dwarf_uint32 ds ''first'',
         If (ctx_test ''first'' (\<lambda>i. i = 0xFFFFFFFF)) (Dwarf_uint64 ds ''second'')])
     InitialLength_decode"

section \<open>Unit headers\<close>

definition dwarfv4_CU_header :: "dwarf_structs \<Rightarrow> con" where
  "dwarfv4_CU_header ds = Struct '''' [Dwarf_offset ds ''debug_abbrev_offset'', Dwarf_uint8 ds ''address_size'']"

definition dwarfv5_CP_CU_header :: "dwarf_structs \<Rightarrow> con" where
  "dwarfv5_CP_CU_header ds = Struct '''' [Dwarf_uint8 ds ''address_size'', Dwarf_offset ds ''debug_abbrev_offset'']"

definition dwarfv5_SS_CU_header :: "dwarf_structs \<Rightarrow> con" where
  "dwarfv5_SS_CU_header ds = Struct ''''
     [Dwarf_uint8 ds ''address_size'', Dwarf_offset ds ''debug_abbrev_offset'', Dwarf_uint64 ds ''dwo_id'']"

definition dwarfv5_TS_CU_header :: "dwarf_structs \<Rightarrow> con" where
  "dwarfv5_TS_CU_header ds = Struct ''''
     [Dwarf_uint8 ds ''address_size'', Dwarf_offset ds ''debug_abbrev_offset'',
      Dwarf_uint64 ds ''type_signature'', Dwarf_offset ds ''type_offset'']"

definition dwarfv5_CU_header :: "dwarf_structs \<Rightarrow> con" where
  "dwarfv5_CU_header ds = Struct ''''
     [Enum (Dwarf_uint8 ds ''unit_type'') ENUM_DW_UT,
      Embedded (SwitchC (Some '''') (\<lambda>c. ctx_attr c ''unit_type'')
        [(VLit ''DW_UT_compile'', dwarfv5_CP_CU_header ds),
         (VLit ''DW_UT_partial'', dwarfv5_CP_CU_header ds),
         (VLit ''DW_UT_skeleton'', dwarfv5_SS_CU_header ds),
         (VLit ''DW_UT_split_compile'', dwarfv5_SS_CU_header ds),
         (VLit ''DW_UT_type'', dwarfv5_TS_CU_header ds),
         (VLit ''DW_UT_split_type'', dwarfv5_TS_CU_header ds)] None False)]"

definition Dwarf_CU_header :: "dwarf_structs \<Rightarrow> con" where
  "Dwarf_CU_header ds = Struct ''Dwarf_CU_header''
     [Dwarf_initial_length ds ''unit_length'',
      Dwarf_uint16 ds ''version'',
      IfThenElse (Some '''') (\<lambda>c. rbind (ctx_int c ''version'') (\<lambda>v. Ok (VBool (v \<ge> 5))))
        (Embedded (dwarfv5_CU_header ds)) (Embedded (dwarfv4_CU_header ds))]"

definition Dwarf_TU_header :: "dwarf_structs \<Rightarrow> con" where
  "Dwarf_TU_header ds = Struct ''Dwarf_TU_header''
     [Dwarf_initial_length ds ''unit_length'',
      Dwarf_uint16 ds ''version'',
      Dwarf_offset ds ''debug_abbrev_offset'',
      Dwarf_uint8 ds ''address_size'',
      Dwarf_uint64 ds ''signature'',
      Dwarf_offset ds ''type_offset'']"

section \<open>Abbreviations and links to other files\<close>

definition null_attr_spec :: "val \<Rightarrow> ctx \<Rightarrow> bool res" where
  "null_attr_spec obj c = rbind (get_attr obj ''name'') (\<lambda>n.
     if n = VLit ''DW_AT_null'' then rbind (get_attr obj ''form'') (\<lambda>f. Ok (f = VLit ''DW_FORM_null''))
     else Ok False)"

definition Dwarf_abbrev_declaration :: "dwarf_structs \<Rightarrow> con" where
  "Dwarf_abbrev_declaration ds = Struct ''Dwarf_abbrev_entry''
     [Enum (Dwarf_uleb128 ds ''tag'') ENUM_DW_TAG,
      Enum (Dwarf_uint8 ds ''children_flag'') ENUM_DW_CHILDREN,
      RepeatUntilExcludingC null_attr_spec
        (Struct ''attr_spec''
           [Enum (Dwarf_uleb128 ds ''name'') ENUM_DW_AT,
            Enum (Dwarf_uleb128 ds ''form'') ENUM_DW_FORM,
            If (\<lambda>c. rbind (dget c ''form'') (\<lambda>f. Ok (VBool (f = VLit ''DW_FORM_implicit_const''))))
              (Dwarf_sleb128 ds ''value'')])]"

definition Dwarf_debugsup :: "dwarf_structs \<Rightarrow> con" where
  "Dwarf_debugsup ds = Struct ''Elf_debugsup''
     [Dwarf_int16 ds ''version'', Dwarf_uint8 ds ''is_supplementary'', CString ''sup_filename'' None]"

definition Dwarf_debugaltlink :: "dwarf_structs \<Rightarrow> con" where
  "Dwarf_debugaltlink ds = Struct ''Elf_debugaltlink''
     [CString ''sup_filename'' None, String ''sup_checksum'' 20]"

definition Dwarf_debuglink :: "dwarf_structs \<Rightarrow> con" where
  "Dwarf_debuglink ds = Struct ''Elf_debuglink''
     [CString ''sup_filename'' None,
      SwitchC (Some '''') (\<lambda>c. rbind (rbind (ctx_attr c ''sup_filename'') vlen) (\<lambda>n. Ok (VInt (n mod 4))))
        [(VInt 0, String ''sup_padding'' 3), (VInt 1, String ''sup_padding'' 2),
         (VInt 2, String ''sup_padding'' 1), (VInt 3, String ''sup_padding'' 0)] None False,
      String ''sup_checksum'' 4]"

section \<open>Forms\<close>

definition make_block_struct :: "dwarf_structs \<Rightarrow> (string \<Rightarrow> con) \<Rightarrow> con" where
  "make_block_struct ds length_field = PrefixedArray (Dwarf_uint8 ds ''elem'') (length_field '''')"

text \<open>The parser of every form; an implicit constant has none.\<close>

definition dw_form_table :: "dwarf_structs \<Rightarrow> (string \<times> con option) list" where
  "dw_form_table ds =
     [(''DW_FORM_addr'', Some (the_Dwarf_target_addr ds)),
      (''DW_FORM_addrx'', Some (the_Dwarf_uleb128 ds)),
      (''DW_FORM_addrx1'', Some (the_Dwarf_uint8 ds)),
      (''DW_FORM_addrx2'', Some (the_Dwarf_uint16 ds)),
      (''DW_FORM_addrx3'', Some (Dwarf_uint24 ds '''')),
      (''DW_FORM_addrx4'', Some (the_Dwarf_uint32 ds)),
      (''DW_FORM_block1'', Some (make_block_struct ds (Dwarf_uint8 ds))),
      (''DW_FORM_block2'', Some (make_block_struct ds (Dwarf_uint16 ds))),
      (''DW_FORM_block4'', Some (make_block_struct ds (Dwarf_uint32 ds))),
      (''DW_FORM_block'', Some (make_block_struct ds (Dwarf_uleb128 ds))),
      (''DW_FORM_data1'', Some (the_Dwarf_uint8 ds)),
      (''DW_FORM_data2'', Some (the_Dwarf_uint16 ds)),
      (''DW_FORM_data4'', Some (the_Dwarf_uint32 ds)),
      (''DW_FORM_data8'', Some (Dwarf_uint64 ds '''')),
      (''DW_FORM_data16'', Some (Array 16 (the_Dwarf_uint8 ds))),
      (''DW_FORM_sdata'', Some (the_Dwarf_sleb128 ds)),
      (''DW_FORM_udata'', Some (the_Dwarf_uleb128 ds)),
      (''DW_FORM_string'', Some (CString '''' None)),
      (''DW_FORM_strp'', Some (the_Dwarf_offset ds)),
      (''DW_FORM_strp_sup'', Some (the_Dwarf_offset ds)),
      (''DW_FORM_line_strp'', Some (the_Dwarf_offset ds)),
      (''DW_FORM_strx1'', Some (the_Dwarf_uint8 ds)),
      (''DW_FORM_strx2'', Some (the_Dwarf_uint16 ds)),
      (''DW_FORM_strx3'', Some (Dwarf_uint24 ds '''')),
      (''DW_FORM_strx4'', Some (Dwarf_uint64 ds '''')),
      (''DW_FORM_flag'', Some (the_Dwarf_uint8 ds)),
      (''DW_FORM_ref'', Some (the_Dwarf_uint32 ds)),
      (''DW_FORM_ref1'', Some (the_Dwarf_uint8 ds)),
      (''DW_FORM_ref2'', Some (the_Dwarf_uint16 ds)),
      (''DW_FORM_ref4'', Some (the_Dwarf_uint32 ds)),
      (''DW_FORM_ref_sup4'', Some (the_Dwarf_uint32 ds)),
      (''DW_FORM_ref8'', Some (Dwarf_uint64 ds '''')),
      (''DW_FORM_ref_sup8'', Some (Dwarf_uint64 ds '''')),
      (''DW_FORM_ref_udata'', Some (the_Dwarf_uleb128 ds)),
      (''DW_FORM_ref_addr'', Some (if dwarf_version ds = 2 then the_Dwarf_target_addr ds else the_Dwarf_offset ds)),
      (''DW_FORM_indirect'', Some (the_Dwarf_uleb128 ds)),
      (''DW_FORM_implicit_const'', None),
      (''DW_FORM_flag_present'', Some (StaticFieldC (Some '''') 0)),
      (''DW_FORM_sec_offset'', Some (the_Dwarf_offset ds)),
      (''DW_FORM_exprloc'', Some (make_block_struct ds (Dwarf_uleb128 ds))),
      (''DW_FORM_ref_sig8'', Some (Dwarf_uint64 ds '''')),
      (''DW_FORM_GNU_strp_alt'', Some (the_Dwarf_offset ds)),
      (''DW_FORM_GNU_ref_alt'', Some (the_Dwarf_offset ds)),
      (''DW_AT_GNU_all_call_sites'', Some (the_Dwarf_uleb128 ds)),
      (''DW_FORM_loclistx'', Some (the_Dwarf_uleb128 ds)),
      (''DW_FORM_rnglistx'', Some (the_Dwarf_uleb128 ds))]"

definition Dwarf_dw_form :: "dwarf_structs \<Rightarrow> (val \<times> con option) list" where
  "Dwarf_dw_form ds = map (\<lambda>(n, c). (VLit n, c)) (dw_form_table ds)"

text \<open>\<^verbatim>\<open>self.structs.Dwarf_dw_form[form]\<close>, as a parser: the entry may be \<^verbatim>\<open>None\<close>.\<close>

definition form_parser :: "dwarf_structs \<Rightarrow> val \<Rightarrow> con res" where
  "form_parser ds form =
     (if \<not> hashable form then Err TypeError
      else case vlookup (Dwarf_dw_form ds) form of
          None \<Rightarrow> Err KeyError
        | Some None \<Rightarrow> Err AttributeError
        | Some (Some c) \<Rightarrow> Ok c)"

section \<open>Headers of tables\<close>

definition Dwarf_aranges_header :: "dwarf_structs \<Rightarrow> con" where
  "Dwarf_aranges_header ds = Struct ''Dwarf_aranges_header''
     [Dwarf_initial_length ds ''unit_length'',
      Dwarf_uint16 ds ''version'',
      Dwarf_offset ds ''debug_info_offset'',
      Dwarf_uint8 ds ''address_size'',
      Dwarf_uint8 ds ''segment_size'']"

definition Dwarf_nameLUT_header :: "dwarf_structs \<Rightarrow> con" where
  "Dwarf_nameLUT_header ds = Struct ''Dwarf_nameLUT_header''
     [Dwarf_initial_length ds ''unit_length'',
      Dwarf_uint16 ds ''version'',
      Dwarf_offset ds ''debug_info_offset'',
      Dwarf_length ds ''debug_info_length'']"

definition Dwarf_string_offsets_table_header :: "dwarf_structs \<Rightarrow> con" where
  "Dwarf_string_offsets_table_header ds = Struct ''Dwarf_string_offets_table_header''
     [Dwarf_initial_length ds ''unit_length'',
      Dwarf_uint16 ds ''version'',
      Dwarf_uint16 ds ''padding'']"

definition Dwarf_address_table_header :: "dwarf_structs \<Rightarrow> con" where
  "Dwarf_address_table_header ds = Struct ''Dwarf_address_table_header''
     [Dwarf_initial_length ds ''unit_length'',
      Dwarf_uint16 ds ''version'',
      Dwarf_uint8 ds ''address_size'',
      Dwarf_uint8 ds ''segment_selector_size'']"

section \<open>The header of a line program\<close>

definition has_name :: "ctx \<Rightarrow> val res" where
  "has_name c = rbind (rbind (ctx_attr c ''name'') vlen) (\<lambda>n. Ok (VBool (n \<noteq> 0)))"

definition Dwarf_lineprog_file_entry :: "dwarf_structs \<Rightarrow> con" where
  "Dwarf_lineprog_file_entry ds = Struct ''file_entry''
     [CString ''name'' None,
      If has_name
        (Embedded (Struct ''''
           [Dwarf_uleb128 ds ''dir_index'', Dwarf_uleb128 ds ''mtime'', Dwarf_uleb128 ds ''length'']))]"

definition ver5 :: "ctx \<Rightarrow> val res" where
  "ver5 = ctx_test ''version'' (\<lambda>v. v \<ge> 5)"

definition entry_format :: "dwarf_structs \<Rightarrow> string \<Rightarrow> con" where
  "entry_format ds n = Struct n
     [Enum (Dwarf_uleb128 ds ''content_type'') ENUM_DW_LNCT,
      Enum (Dwarf_uleb128 ds ''form'') ENUM_DW_FORM]"

definition Dwarf_lineprog_header :: "dwarf_structs \<Rightarrow> con" where
  "Dwarf_lineprog_header ds = Struct ''Dwarf_lineprog_header''
     [Dwarf_initial_length ds ''unit_length'',
      Dwarf_uint16 ds ''version'',
      If ver5 (Dwarf_uint8 ds ''address_size''),
      If ver5 (Dwarf_uint8 ds ''segment_selector_size''),
      Dwarf_offset ds ''header_length'',
      Dwarf_uint8 ds ''minimum_instruction_length'',
      If_else (ctx_test ''version'' (\<lambda>v. v \<ge> 4)) (Dwarf_uint8 ds ''maximum_operations_per_instruction'') (VInt 1),
      Dwarf_uint8 ds ''default_is_stmt'',
      Dwarf_int8 ds ''line_base'',
      Dwarf_uint8 ds ''line_range'',
      Dwarf_uint8 ds ''opcode_base'',
      DynArray (\<lambda>c. rbind (rbind (ctx_attr c ''opcode_base'') as_int) (\<lambda>n. Ok (n - 1)))
        (Dwarf_uint8 ds ''standard_opcode_lengths''),
      If ver5 (PrefixedArray (entry_format ds ''directory_entry_format'')
        (Dwarf_uint8 ds ''directory_entry_format_count'')),
      If ver5 (PrefixedArray (FormattedEntryC (Some ''directories'') ''directory_entry_format'' (Dwarf_dw_form ds))
        (Dwarf_uleb128 ds ''directories_count'')),
      If ver5 (PrefixedArray (entry_format ds ''file_name_entry_format'')
        (Dwarf_uint8 ds ''file_name_entry_format_count'')),
      If ver5 (PrefixedArray (FormattedEntryC (Some ''file_names'') ''file_name_entry_format'' (Dwarf_dw_form ds))
        (Dwarf_uleb128 ds ''file_names_count'')),
      If (ctx_test ''version'' (\<lambda>v. v < 5))
        (RepeatUntilExcludingC (\<lambda>obj c. Ok (py_eq obj (VBytes []))) (CString ''include_directory'' None)),
      If (ctx_test ''version'' (\<lambda>v. v < 5))
        (RepeatUntilExcludingC (\<lambda>obj c. rbind (rbind (get_attr obj ''name'') vlen) (\<lambda>n. Ok (n = 0)))
          (Dwarf_lineprog_file_entry ds))]"

section \<open>Call frames\<close>

definition Dwarf_CIE_header :: "dwarf_structs \<Rightarrow> con" where
  "Dwarf_CIE_header ds = Struct ''Dwarf_CIE_header''
     [Dwarf_initial_length ds ''length'',
      Dwarf_offset ds ''CIE_id'',
      Dwarf_uint8 ds ''version'',
      CString ''augmentation'' None,
      If (ctx_test ''version'' (\<lambda>v. v \<ge> 4)) (Dwarf_uint8 ds ''address_size''),
      If (ctx_test ''version'' (\<lambda>v. v \<ge> 4)) (Dwarf_uint8 ds ''segment_size''),
      Dwarf_uleb128 ds ''code_alignment_factor'',
      Dwarf_sleb128 ds ''data_alignment_factor'',
      IfThenElse (Some ''return_address_register'') (ctx_test ''version'' (\<lambda>v. v > 1))
        (Dwarf_uleb128 ds '''') (Dwarf_uint8 ds '''')]"

definition EH_CIE_header :: "dwarf_structs \<Rightarrow> con" where
  "EH_CIE_header ds = Dwarf_CIE_header ds"

definition Dwarf_FDE_header :: "dwarf_structs \<Rightarrow> con" where
  "Dwarf_FDE_header ds = Struct ''Dwarf_FDE_header''
     [Dwarf_initial_length ds ''length'',
      Dwarf_offset ds ''CIE_pointer'',
      Dwarf_target_addr ds ''initial_location'',
      Dwarf_target_addr ds ''address_range'']"

section \<open>Location and range lists of version 5\<close>

definition lists_CU_header :: "string \<Rightarrow> dwarf_structs \<Rightarrow> con" where
  "lists_CU_header n ds = Struct n
     [StreamOffsetC (Some ''cu_offset''),
      Dwarf_initial_length ds ''unit_length'',
      ValueC (Some ''is64'') (\<lambda>c. ctx_attr c ''is64''),
      StreamOffsetC (Some ''offset_after_length''),
      Dwarf_uint16 ds ''version'',
      Dwarf_uint8 ds ''address_size'',
      Dwarf_uint8 ds ''segment_selector_size'',
      Dwarf_uint32 ds ''offset_count'',
      StreamOffsetC (Some ''offset_table_offset'')]"

definition Dwarf_loclists_CU_header :: "dwarf_structs \<Rightarrow> con" where
  "Dwarf_loclists_CU_header ds = lists_CU_header ''Dwarf_loclists_CU_header'' ds"

definition Dwarf_rnglists_CU_header :: "dwarf_structs \<Rightarrow> con" where
  "Dwarf_rnglists_CU_header ds = lists_CU_header ''Dwarf_rnglists_CU_header'' ds"

text \<open>Entries up to one of the given type; each is an offset, a type, what the type asks for, and its length.\<close>

definition list_entries :: "string \<Rightarrow> enum \<Rightarrow> (val \<times> con) list \<Rightarrow> dwarf_structs \<Rightarrow> con" where
  "list_entries final types cases ds = RepeatUntilExcludingC
     (\<lambda>obj c. rbind (get_attr obj ''entry_type'') (\<lambda>t. Ok (t = VLit final)))
     (Struct ''entry''
        [StreamOffsetC (Some ''entry_offset''),
         Enum (Dwarf_uint8 ds ''entry_type'') types,
         Embedded (SwitchC (Some '''') (\<lambda>c. ctx_attr c ''entry_type'') cases None False),
         StreamOffsetC (Some ''entry_end_offset''),
         ValueC (Some ''entry_length'')
           (\<lambda>c. rbind (rbind (ctx_attr c ''entry_end_offset'') as_int) (\<lambda>e.
              rbind (rbind (ctx_attr c ''entry_offset'') as_int) (\<lambda>b. Ok (VInt (e - b)))))])"

definition counted_location :: "dwarf_structs \<Rightarrow> con" where
  "counted_location ds = PrefixedArray (Dwarf_uint8 ds ''loc_expr'') (the_Dwarf_uleb128 ds)"

definition Dwarf_loclists_entries :: "dwarf_structs \<Rightarrow> con" where
  "Dwarf_loclists_entries ds = list_entries ''DW_LLE_end_of_list'' ENUM_DW_LLE
     [(VLit ''DW_LLE_end_of_list'', Struct ''end_of_list'' []),
      (VLit ''DW_LLE_base_addressx'', Struct ''base_addressx'' [Dwarf_uleb128 ds ''index'']),
      (VLit ''DW_LLE_startx_endx'', Struct ''startx_endx''
         [Dwarf_uleb128 ds ''start_index'', Dwarf_uleb128 ds ''end_index'', counted_location ds]),
      (VLit ''DW_LLE_startx_length'', Struct ''startx_endx''
         [Dwarf_uleb128 ds ''start_index'', Dwarf_uleb128 ds ''length'', counted_location ds]),
      (VLit ''DW_LLE_offset_pair'', Struct ''startx_endx''
         [Dwarf_uleb128 ds ''start_offset'', Dwarf_uleb128 ds ''end_offset'', counted_location ds]),
      (VLit ''DW_LLE_default_location'', Struct ''default_location'' [counted_location ds]),
      (VLit ''DW_LLE_base_address'', Struct ''base_address'' [Dwarf_target_addr ds ''address'']),
      (VLit ''DW_LLE_start_end'', Struct ''start_end''
         [Dwarf_target_addr ds ''start_address'', Dwarf_target_addr ds ''end_address'', counted_location ds]),
      (VLit ''DW_LLE_start_length'', Struct ''start_length''
         [Dwarf_target_addr ds ''start_address'', Dwarf_uleb128 ds ''length'', counted_location ds])] ds"

definition Dwarf_locview_pair :: "dwarf_structs \<Rightarrow> con" where
  "Dwarf_locview_pair ds = Struct ''locview_pair''
     [StreamOffsetC (Some ''entry_offset''), Dwarf_uleb128 ds ''begin'', Dwarf_uleb128 ds ''end'']"

definition Dwarf_rnglists_entries :: "dwarf_structs \<Rightarrow> con" where
  "Dwarf_rnglists_entries ds = list_entries ''DW_RLE_end_of_list'' ENUM_DW_RLE
     [(VLit ''DW_RLE_end_of_list'', Struct ''end_of_list'' []),
      (VLit ''DW_RLE_base_addressx'', Struct ''base_addressx'' [Dwarf_uleb128 ds ''index'']),
      (VLit ''DW_RLE_startx_endx'', Struct ''startx_endx''
         [Dwarf_uleb128 ds ''start_index'', Dwarf_uleb128 ds ''end_index'']),
      (VLit ''DW_RLE_startx_length'', Struct ''startx_endx''
         [Dwarf_uleb128 ds ''start_index'', Dwarf_uleb128 ds ''length'']),
      (VLit ''DW_RLE_offset_pair'', Struct ''startx_endx''
         [Dwarf_uleb128 ds ''start_offset'', Dwarf_uleb128 ds ''end_offset'']),
      (VLit ''DW_RLE_base_address'', Struct ''base_address'' [Dwarf_target_addr ds ''address'']),
      (VLit ''DW_RLE_start_end'', Struct ''start_end''
         [Dwarf_target_addr ds ''start_address'', Dwarf_target_addr ds ''end_address'']),
      (VLit ''DW_RLE_start_length'', Struct ''start_length''
         [Dwarf_target_addr ds ''start_address'', Dwarf_uleb128 ds ''length''])] ds"

end
