(* ===== verification/DwarfUtil.thy ===== *)
theory DwarfUtil
  imports DwarfStructs Returning
begin

text \<open>
  What the DWARF components share: operations of a section's stream, \<^verbatim>\<open>dwarf/abbrevtable.py\<close>, and the iteration over the units of a list section of
  \<^verbatim>\<open>dwarf/dwarf_util.py\<close>.  An operation on one section is a computation on that section's stream.
\<close>

type_synonym 'a S = "(stream, 'a) M"

definition s_pos :: "int S" where
  "s_pos = (\<lambda>t. (Ok (s_tell t), t))"

text \<open>\<^verbatim>\<open>stream.seek(n, os.SEEK_CUR)\<close> of a \<open>BytesIO\<close>: before the start means at the start.\<close>

definition s_seek_cur :: "int \<Rightarrow> unit S" where
  "s_seek_cur n = (\<lambda>t. if 2 ^ 63 \<le> n \<or> n < - (2 ^ 63) \<or> 2 ^ 63 \<le> s_tell t + n then (Err OverflowError, t)
     else (Ok (), t\<lparr>spos := nat (s_tell t + n)\<rparr>))"

definition parse_int :: "con \<Rightarrow> int option \<Rightarrow> int S" where
  "parse_int c p = mbind (struct_parse c p) (\<lambda>v. lift_res (as_int v))"

section \<open>Abbreviation tables (abbrevtable.py)\<close>

record abbrev_decl =
  ab_code :: int
  ab_decl :: val
  ab_has_children :: bool

type_synonym abbrev_table = "(int \<times> abbrev_decl) list"

definition AbbrevDecl_init :: "int \<Rightarrow> val \<Rightarrow> abbrev_decl res" where
  "AbbrevDecl_init code decl = rbind (get_item decl ''children_flag'') (\<lambda>f.
     Ok \<lparr>ab_code = code, ab_decl = decl, ab_has_children = (f = VLit ''DW_CHILDREN_yes'')\<rparr>)"

definition has_children :: "abbrev_decl \<Rightarrow> bool" where
  "has_children d = ab_has_children d"

definition iter_attr_specs :: "abbrev_decl \<Rightarrow> (val \<times> val) list res" where
  "iter_attr_specs d = rbind (rbind (get_item (ab_decl d) ''attr_spec'') viter)
     (rmap (\<lambda>s. rbind (get_attr s ''name'') (\<lambda>n. rbind (get_attr s ''form'') (\<lambda>f. Ok (n, f)))))"

text \<open>Every round reads a code of at least a byte.\<close>

primrec abbrev_loop :: "nat \<Rightarrow> dwarf_structs \<Rightarrow> abbrev_table \<Rightarrow> abbrev_table S" where
  "abbrev_loop 0 ds tab = lift_res NoFuel"
| "abbrev_loop (Suc fuel) ds tab =
     mbind (parse_int (the_Dwarf_uleb128 ds) None) (\<lambda>code.
       if code = 0 then ret tab
       else mbind (struct_parse (Dwarf_abbrev_declaration ds) None) (\<lambda>v.
         mbind (lift_res (AbbrevDecl_init code v)) (\<lambda>d. abbrev_loop fuel ds (AList.update code d tab))))"

definition parse_abbrev_table :: "dwarf_structs \<Rightarrow> int \<Rightarrow> abbrev_table S" where
  "parse_abbrev_table ds offset =
     mbind (s_seek offset) (\<lambda>_ t. abbrev_loop (remaining t + 1) ds [] t)"

definition get_abbrev :: "abbrev_table \<Rightarrow> int \<Rightarrow> abbrev_decl res" where
  "get_abbrev tab code = (case map_of tab code of None \<Rightarrow> Err KeyError | Some d \<Rightarrow> Ok d)"

section \<open>Units of a list section (dwarf_util.py)\<close>

text \<open>
  Each unit's header, with its table of offsets.  The next unit starts after this one's length field
  and as many bytes as it says, so each round goes on by at least the size of that field.
\<close>

definition unit_offsets :: "dwarf_structs \<Rightarrow> val \<Rightarrow> val S" where
  "unit_offsets ds header =
     mbind (lift_res (rbind (get_attr header ''offset_count'') as_int)) (\<lambda>n.
       if n > 0 then
         mbind (lift_res (get_attr header ''is64'')) (\<lambda>is64.
           struct_parse (Array n ((if truthy is64 then Dwarf_uint64 ds else Dwarf_uint32 ds) '''')) None)
       else ret (VBool False))"

definition put_item :: "val \<Rightarrow> string \<Rightarrow> val \<Rightarrow> val res" where
  "put_item v k x = (case v of VCont d \<Rightarrow> Ok (VCont (dput k x d)) | _ \<Rightarrow> Err TypeError)"

primrec units_loop :: "nat \<Rightarrow> dwarf_structs \<Rightarrow> con \<Rightarrow> int \<Rightarrow> int \<Rightarrow> val list S" where
  "units_loop 0 ds parser endpos offset = lift_res NoFuel"
| "units_loop (Suc fuel) ds parser endpos offset =
     (if offset < endpos then
        mbind (struct_parse parser (Some offset)) (\<lambda>header.
        mbind (unit_offsets ds header) (\<lambda>offsets.
        mbind (lift_res (put_item header ''offsets'' offsets)) (\<lambda>header.
        mbind (lift_res (rbind (get_attr header ''offset_after_length'') as_int)) (\<lambda>start.
        mbind (lift_res (rbind (get_attr header ''unit_length'') as_int)) (\<lambda>len.
        mbind (units_loop fuel ds parser endpos (start + len)) (\<lambda>hs. ret (header # hs)))))))
      else ret [])"

definition iter_CUs_in_section :: "dwarf_structs \<Rightarrow> con \<Rightarrow> val list S" where
  "iter_CUs_in_section ds parser =
     mbind get_state (\<lambda>t. mbind (s_seek 0) (\<lambda>_.
       units_loop (length (sdata t) + 1) ds parser (int (length (sdata t))) 0))"

end
