(* ===== verification/Leb128.thy ===== *)
theory Leb128
  imports Progress DwarfUtil
begin

text \<open>
  The variable-length integers of \<^verbatim>\<open>common/construct_utils.py\<close> against their definition in the DWARF
  standard: \<open>uleb128\<close> and \<open>sleb128\<close> are the standard's encoders (its figures 43 and 44), and parsing what
  they wrote gives the number back.
\<close>

section \<open>Encoders\<close>

function uleb128 :: "nat \<Rightarrow> bytes" where
  "uleb128 n = (if n < 128 then [word_of_nat n] else word_of_nat (n mod 128 + 128) # uleb128 (n div 128))"
  by pat_completeness auto
termination
  by (relation "measure id") auto

declare uleb128.simps [simp del]

function sleb128 :: "int \<Rightarrow> bytes" where
  "sleb128 v = (if -64 \<le> v \<and> v < 64 then [word_of_int (v mod 128)]
     else word_of_int (v mod 128 + 128) # sleb128 (v div 128))"
  by pat_completeness auto
termination
proof (relation "measure (\<lambda>v. nat \<bar>2 * v + 1\<bar>)", goal_cases)
  case (2 v)
  then show ?case by (auto simp: not_le not_less)
qed simp

declare sleb128.simps [simp del]

lemma uleb128_nonempty [simp]: "uleb128 n \<noteq> []"
  by (subst uleb128.simps) simp

lemma sleb128_nonempty [simp]: "sleb128 v \<noteq> []"
  by (subst sleb128.simps) simp

section \<open>Positions\<close>

text \<open>The stream \<open>k\<close> bytes further on.\<close>

definition adv :: "nat \<Rightarrow> stream \<Rightarrow> stream" where
  "adv k t = t\<lparr>spos := spos t + k\<rparr>"

lemma adv_simps [simp]: "sdata (adv k t) = sdata t" "spos (adv k t) = spos t + k" "adv 0 t = t"
  "adv j (adv k t) = adv (k + j) t"
  by (simp_all add: adv_def)

lemma tail_adv: "tail_bytes t = bs @ rest \<Longrightarrow> tail_bytes (adv (length bs) t) = rest"
  by (simp add: tail_bytes_def adv_def) (metis add.commute append_eq_conv_conj drop_drop)

lemma tail_adv_Cons: "tail_bytes t = b # rest \<Longrightarrow> tail_bytes (adv 1 t) = rest"
  using tail_adv [of t "[b]" rest] by simp

text \<open>Reading what is there.\<close>

lemma read_here:
  assumes "tail_bytes t = bs @ rest" "length bs < 2 ^ 63"
  shows "s_read (int (length bs)) t = (Ok bs, adv (length bs) t)"
proof -
  have "length bs \<le> length (sdata t) - spos t"
    using arg_cong [OF assms(1), of length] by (simp add: tail_bytes_def)
  then show ?thesis
    using assms by (simp add: s_read_def tail_bytes_def adv_def Let_def min_absorb2)
qed

lemma read_byte: "tail_bytes t = b # rest \<Longrightarrow> s_read 1 t = (Ok [b], adv 1 t)"
  using read_here [of t "[b]" rest] by simp

lemma remaining_tail: "remaining t = length (tail_bytes t)"
  by (simp add: remaining_def tail_bytes_def)

section \<open>Decoding\<close>

lemma or_push_bit: "0 \<le> v \<Longrightarrow> v < 2 ^ sh \<Longrightarrow> v OR push_bit sh x = v + x * 2 ^ sh" for v x :: int
proof -
  assume v: "0 \<le> v" "v < 2 ^ sh"
  then have "take_bit sh v = v"
    by (simp add: take_bit_int_eq_self)
  then show ?thesis
    using concat_bit_eq [of sh v x] concat_bit_def [of sh v x] by (simp add: push_bit_eq_mult)
qed

lemma byte_parts:
  assumes "0 \<le> m" "m < 128"
  shows "uint (word_of_int m :: byte) AND 127 = m" "uint (word_of_int m :: byte) AND 128 = 0"
    "uint (word_of_int (m + 128) :: byte) AND 127 = m" "uint (word_of_int (m + 128) :: byte) AND 128 \<noteq> 0"
proof -
  have u: "uint (word_of_int m :: byte) = m" "uint (word_of_int (m + 128) :: byte) = m + 128"
    using assms by (simp_all only: uint_word_of_int) simp_all
  have t: "take_bit 7 m = m" "take_bit 7 (m + 128) = m"
    using assms by (simp_all add: take_bit_eq_mod)
  have "m AND 127 = m" "(m + 128) AND 127 = m"
    using t by (simp_all add: take_bit_eq_mask mask_eq_exp_minus_1)
  then show "uint (word_of_int m :: byte) AND 127 = m" "uint (word_of_int (m + 128) :: byte) AND 127 = m"
    by (simp_all only: u)
  have "m AND 128 = 0"
    using and_exp_eq_0_iff_not_bit [of m 7] assms by (simp add: bit_iff_odd)
  moreover have "(m + 128) AND 128 \<noteq> 0"
  proof -
    have "(m + 128) div 128 = 1" using assms by simp
    then show ?thesis
      using and_exp_eq_0_iff_not_bit [of "m + 128" 7] by (simp add: bit_iff_odd)
  qed
  ultimately show "uint (word_of_int m :: byte) AND 128 = 0" "uint (word_of_int (m + 128) :: byte) AND 128 \<noteq> 0"
    by (simp_all only: u) simp_all
qed

lemma leb_step:
  assumes "tail_bytes (pstm s) = b # rest"
  shows "leb_loop (Suc n) sgnd v sh s =
    (let v' = v OR push_bit sh (uint b AND 127); sh' = sh + 7; s' = s\<lparr>pstm := adv 1 (pstm s)\<rparr> in
     if uint b AND 128 = 0 then
       (Ok (VInt (if sgnd \<and> uint b AND 64 \<noteq> 0 then v' OR push_bit sh' (NOT 0) else v')), s')
     else leb_loop n sgnd v' sh' s')"
proof -
  have "on_stream (s_read 1) s = (Ok [b], s\<lparr>pstm := adv 1 (pstm s)\<rparr>)"
    by (simp add: on_stream_run read_byte [OF assms])
  then show ?thesis
    by (simp add: mbind_Ok [where m = "on_stream (s_read 1)"] Let_def)
qed

lemma leb_low_bits: "0 \<le> v \<Longrightarrow> v < 2 ^ sh \<Longrightarrow> 0 \<le> x \<Longrightarrow> x < 128 \<Longrightarrow> v + x * 2 ^ sh < 2 ^ (sh + 7)" for v x :: int
proof -
  assume "0 \<le> v" "v < 2 ^ sh" "0 \<le> x" "x < 128"
  then have "v + x * 2 ^ sh < (x + 1) * 2 ^ sh" "(x + 1) * 2 ^ sh \<le> 128 * 2 ^ sh"
    by (simp add: algebra_simps, intro mult_right_mono) simp_all
  then have "v + x * 2 ^ sh < 128 * 2 ^ sh" by linarith
  then show ?thesis by (simp add: power_add)
qed

lemma uleb_loop:
  assumes "tail_bytes (pstm s) = uleb128 m @ rest" "length (uleb128 m) \<le> n" "0 \<le> v" "v < 2 ^ sh"
  shows "leb_loop n False v sh s =
    (Ok (VInt (v + int m * 2 ^ sh)), s\<lparr>pstm := adv (length (uleb128 m)) (pstm s)\<rparr>)"
  using assms
proof (induction m arbitrary: n v sh s rule: uleb128.induct)
  case (1 m)
  obtain n' where n: "n = Suc n'"
    using 1(3) by (cases n) auto
  show ?case
  proof (cases "m < 128")
    case True
    have w: "(word_of_nat m :: byte) = word_of_int (int m)" by simp
    have u: "uleb128 m = [word_of_nat m]" using True by (simp add: uleb128.simps)
    have t: "tail_bytes (pstm s) = word_of_nat m # rest" using 1(2) u by simp
    show ?thesis
      using True byte_parts [of "int m"] 1(4,5)
      unfolding n u leb_step [OF t] Let_def w by (simp add: or_push_bit)
  next
    case False
    let ?b = "word_of_nat (m mod 128 + 128) :: byte"
    have w: "?b = word_of_int (int m mod 128 + 128)"
      by (metis of_int_of_nat_eq of_nat_add of_nat_mod of_nat_numeral)
    have u: "uleb128 m = ?b # uleb128 (m div 128)" using False by (subst uleb128.simps) simp
    have t: "tail_bytes (pstm s) = ?b # uleb128 (m div 128) @ rest" using 1(2) u by simp
    let ?v = "v + (int m mod 128) * 2 ^ sh" and ?s = "s\<lparr>pstm := adv 1 (pstm s)\<rparr>"
    have b: "uint ?b AND 127 = int m mod 128" "uint ?b AND 128 \<noteq> 0"
      unfolding w using byte_parts [of "int m mod 128"] by simp_all
    have step: "leb_loop n False v sh s = leb_loop n' False ?v (sh + 7) ?s"
      unfolding n leb_step [OF t] Let_def using b 1(4,5) by (simp add: or_push_bit)
    have "leb_loop n' False ?v (sh + 7) ?s =
        (Ok (VInt (?v + int (m div 128) * 2 ^ (sh + 7))), ?s\<lparr>pstm := adv (length (uleb128 (m div 128))) (pstm ?s)\<rparr>)"
    proof (rule 1(1) [OF False])
      show "tail_bytes (pstm ?s) = uleb128 (m div 128) @ rest"
        using tail_adv_Cons [OF t] by simp
      show "length (uleb128 (m div 128)) \<le> n'" using 1(3) n u by simp
      show "0 \<le> ?v" "?v < 2 ^ (sh + 7)" using 1(4,5) leb_low_bits [of v sh "int m mod 128"] by simp_all
    qed
    moreover have "?v + int (m div 128) * 2 ^ (sh + 7) = v + int m * 2 ^ sh"
    proof -
      have "int m = int m mod 128 + 128 * (int m div 128)" by simp
      then have "int m * 2 ^ sh = (int m mod 128) * 2 ^ sh + (int m div 128) * 128 * 2 ^ sh"
        by (metis distrib_right mult.commute mult.left_commute)
      then show ?thesis by (simp add: zdiv_int power_add)
    qed
    ultimately show ?thesis
      by (simp add: step u)
  qed
qed

lemma sign_bit: "0 \<le> m \<Longrightarrow> m < 128 \<Longrightarrow> uint (word_of_int m :: byte) AND 64 \<noteq> 0 \<longleftrightarrow> 64 \<le> m"
proof -
  assume m: "0 \<le> m" "m < 128"
  have "m AND 64 \<noteq> 0 \<longleftrightarrow> odd (m div 64)"
    using and_exp_eq_0_iff_not_bit [of m 6] by (simp add: bit_iff_odd)
  moreover have "m div 64 = (if 64 \<le> m then 1 else 0)"
    using m by (auto simp: div_pos_pos_trivial)
  ultimately show ?thesis
    using m by (simp add: uint_word_of_int)
qed

lemma sleb_loop:
  assumes "tail_bytes (pstm s) = sleb128 m @ rest" "length (sleb128 m) \<le> n" "0 \<le> v" "v < 2 ^ sh"
  shows "leb_loop n True v sh s =
    (Ok (VInt (v + m * 2 ^ sh)), s\<lparr>pstm := adv (length (sleb128 m)) (pstm s)\<rparr>)"
  using assms
proof (induction m arbitrary: n v sh s rule: sleb128.induct)
  case (1 m)
  obtain n' where n: "n = Suc n'"
    using 1(3) by (cases n) auto
  let ?v = "v + (m mod 128) * 2 ^ sh" and ?s = "s\<lparr>pstm := adv 1 (pstm s)\<rparr>"
  have v: "0 \<le> ?v" "?v < 2 ^ (sh + 7)"
    using 1(4,5) leb_low_bits [of v sh "m mod 128"] by simp_all
  show ?case
  proof (cases "-64 \<le> m \<and> m < 64")
    case True
    have u: "sleb128 m = [word_of_int (m mod 128)]" using True by (simp add: sleb128.simps)
    have t: "tail_bytes (pstm s) = word_of_int (m mod 128) # rest" using 1(2) u by simp
    have or: "v OR push_bit sh (m mod 128) = ?v"
      using 1(4,5) by (simp add: or_push_bit)
    have "leb_loop n True v sh s =
        (Ok (VInt (if 64 \<le> m mod 128 then ?v OR push_bit (sh + 7) (NOT 0) else ?v)), ?s)"
      unfolding n leb_step [OF t] Let_def
      using byte_parts [of "m mod 128"] sign_bit [of "m mod 128"] or by simp
    moreover have "?v OR push_bit (sh + 7) (NOT 0) = ?v - 2 ^ (sh + 7)"
      using or_push_bit [OF v, of "-1"] by simp
    moreover have "m mod 128 = (if m < 0 then m + 128 else m)"
      using True mod_pos_pos_trivial [of "m + 128" 128] mod_pos_pos_trivial [of m 128] by auto
    ultimately show ?thesis
      using True by (auto simp: u power_add algebra_simps)
  next
    case False
    let ?b = "word_of_int (m mod 128 + 128) :: byte"
    have u: "sleb128 m = ?b # sleb128 (m div 128)" using False by (subst sleb128.simps) simp
    have t: "tail_bytes (pstm s) = ?b # sleb128 (m div 128) @ rest" using 1(2) u by simp
    have b: "uint ?b AND 127 = m mod 128" "uint ?b AND 128 \<noteq> 0"
      using byte_parts [of "m mod 128"] by simp_all
    have step: "leb_loop n True v sh s = leb_loop n' True ?v (sh + 7) ?s"
      unfolding n leb_step [OF t] Let_def using b 1(4,5) by (simp add: or_push_bit)
    have "leb_loop n' True ?v (sh + 7) ?s =
        (Ok (VInt (?v + (m div 128) * 2 ^ (sh + 7))), ?s\<lparr>pstm := adv (length (sleb128 (m div 128))) (pstm ?s)\<rparr>)"
    proof (rule 1(1) [OF False])
      show "tail_bytes (pstm ?s) = sleb128 (m div 128) @ rest"
        using tail_adv_Cons [OF t] by simp
      show "length (sleb128 (m div 128)) \<le> n'" using 1(3) n u by simp
      show "0 \<le> ?v" "?v < 2 ^ (sh + 7)" by (fact v)+
    qed
    moreover have "?v + (m div 128) * 2 ^ (sh + 7) = v + m * 2 ^ sh"
    proof -
      have "m = m mod 128 + 128 * (m div 128)" by simp
      then have "m * 2 ^ sh = (m mod 128) * 2 ^ sh + (m div 128) * 128 * 2 ^ sh"
        by (metis distrib_right mult.commute mult.left_commute)
      then show ?thesis by (simp add: power_add)
    qed
    ultimately show ?thesis
      by (simp add: step u)
  qed
qed

section \<open>Parsing a structure at the stream's position\<close>

text \<open>\<open>reads_as c bs v\<close>: wherever the stream holds \<open>bs\<close>, parsing \<open>c\<close> there gives \<open>v\<close> and goes past them.\<close>

definition reads_as :: "con \<Rightarrow> bytes \<Rightarrow> val \<Rightarrow> bool" where
  "reads_as c bs v \<longleftrightarrow> (\<forall>s rest. tail_bytes (pstm s) = bs @ rest \<longrightarrow>
     con_parse c s = (Ok v, s\<lparr>pstm := adv (length bs) (pstm s)\<rparr>))"

lemma reads_as_run:
  "reads_as c bs v \<Longrightarrow> tail_bytes (pstm s) = bs @ rest \<Longrightarrow>
   con_parse c s = (Ok v, s\<lparr>pstm := adv (length bs) (pstm s)\<rparr>)"
  unfolding reads_as_def by blast

lemma reads_as_parse:
  assumes "reads_as c bs v" "tail_bytes t = bs @ rest"
  shows "struct_parse c None t = (Ok v, adv (length bs) t)"
  using reads_as_run [OF assms(1), of "\<lparr>pctx = [], pstm = t\<rparr>" rest] assms(2)
  by (simp add: struct_parse_def try_except_def parse_stream_def)

lemma reads_as_uleb: "reads_as (ULEB128C n) (uleb128 m) (VInt (int m))"
  unfolding reads_as_def con_parse.simps ULEB128_parse_def
  by (auto simp: mbind_def bytes_left_def remaining_tail uleb_loop simp del: leb_loop.simps)

lemma reads_as_sleb: "reads_as (SLEB128C n) (sleb128 m) (VInt m)"
  unfolding reads_as_def con_parse.simps SLEB128_parse_def
  by (auto simp: mbind_def bytes_left_def remaining_tail sleb_loop simp del: leb_loop.simps)

lemma reads_as_field:
  assumes "unpack e f bs = Ok v"
  shows "reads_as (FormatFieldC n e f) bs (VInt v)"
proof -
  have l: "length bs = fmt_size f"
    using assms by (simp add: unpack_def split: if_splits)
  then have b: "int (length bs) = int (fmt_size f)" "length bs < 2 ^ 63"
    using fmt_size_le [of f] by simp_all
  show ?thesis
    unfolding reads_as_def con_parse.simps FormatField_parse_def
  proof (intro allI impI)
    fix s :: pst and rest assume t: "tail_bytes (pstm s) = bs @ rest"
    have "read_stream (int (fmt_size f)) s = (Ok bs, s\<lparr>pstm := adv (length bs) (pstm s)\<rparr>)"
      using read_here [OF t b(2)] by (simp add: read_stream_def mbind_def on_stream_run l)
    then show "try_except (mbind (read_stream (int (fmt_size f)))
        (\<lambda>d. lift_res (rbind (unpack e f d) (\<lambda>v. Ok (VInt v))))) (\<lambda>_. True) (\<lambda>_. raise FieldError) s =
        (Ok (VInt v), s\<lparr>pstm := adv (length bs) (pstm s)\<rparr>)"
      by (simp add: mbind_Ok [where m = "read_stream _"] try_except_def assms)
  qed
qed

lemma reads_as_parse_int:
  assumes "reads_as c bs (VInt v)" "tail_bytes t = bs @ rest"
  shows "parse_int c None t = (Ok v, adv (length bs) t)"
  by (simp add: parse_int_def mbind_Ok [where m = "struct_parse c None", OF reads_as_parse [OF assms]])

end
