(* ===== verification/SectionReads.thy ===== *)
theory SectionReads
  imports Leb128
begin

text \<open>
  Operations on a section's stream: which of them always return, and how far they go.  The DWARF
  formats that the decoders read one by one are all of the kind of the theory \<^verbatim>\<open>Progress\<close>.
\<close>

section \<open>The formats\<close>

lemma chunk_ok [simp]:
  "con_ok (Dwarf_uint8 ds n)" "con_ok (Dwarf_uint16 ds n)" "con_ok (Dwarf_uint24 ds n)" "con_ok (Dwarf_uint32 ds n)"
  "con_ok (Dwarf_uint64 ds n)" "con_ok (Dwarf_offset ds n)" "con_ok (Dwarf_length ds n)"
  "con_ok (Dwarf_target_addr ds n)" "con_ok (Dwarf_int8 ds n)" "con_ok (Dwarf_int16 ds n)"
  "con_ok (Dwarf_int32 ds n)" "con_ok (Dwarf_int64 ds n)" "con_ok (Dwarf_uleb128 ds n)" "con_ok (Dwarf_sleb128 ds n)"
  by (simp_all add: dwarf_chunk_defs Dwarf_uint24_def Dwarf_uleb128_def Dwarf_sleb128_def int_field_defs)

lemma the_chunk_ok [simp]:
  "con_ok (the_Dwarf_offset ds)" "con_ok (the_Dwarf_target_addr ds)" "con_ok (the_Dwarf_uint32 ds)"
  "con_ok (the_Dwarf_uint16 ds)" "con_ok (the_Dwarf_uint8 ds)" "con_ok (the_Dwarf_uleb128 ds)"
  "con_ok (the_Dwarf_sleb128 ds)"
  by (simp_all add: the_dwarf_defs)

lemma chunk_min [simp]:
  "con_min (Dwarf_uint8 ds n) = 1" "con_min (Dwarf_uint16 ds n) = 2" "con_min (Dwarf_uint32 ds n) = 4"
  "con_min (Dwarf_uint64 ds n) = 8" "con_min (Dwarf_uleb128 ds n) = 1" "con_min (Dwarf_sleb128 ds n) = 1"
  "con_min (Dwarf_uint24 ds n) = 3" "con_min (Dwarf_int8 ds n) = 1" "con_min (Dwarf_int16 ds n) = 2"
  "con_min (Dwarf_int32 ds n) = 4" "con_min (Dwarf_int64 ds n) = 8"
  by (simp_all add: dwarf_chunk_defs Dwarf_uint24_def Dwarf_uleb128_def Dwarf_sleb128_def int_field_defs)

lemma word_min [simp]:
  "con_min (Dwarf_offset ds n) = (if dwarf_format ds = 32 then 4 else 8)"
  "con_min (Dwarf_length ds n) = (if dwarf_format ds = 32 then 4 else 8)"
  "con_min (Dwarf_target_addr ds n) = (if address_size ds = 4 then 4 else 8)"
  by (simp_all add: dwarf_chunk_defs int_field_defs)

lemma get_attr_returns [returns_intros]: "get_attr v n \<noteq> NoFuel" "ctx_attr c n \<noteq> NoFuel" "vlen v \<noteq> NoFuel"
  by (auto simp: get_attr_def ctx_attr_def vlen_def rbind_NoFuel value_returns split: val.split option.split)

lemma ctx_test_returns [simp]: "ctx_test n P c \<noteq> NoFuel"
  by (simp add: ctx_test_def rbind_NoFuel get_attr_returns value_returns)

lemma CString_ok [simp]: "con_ok (CString n enc)" "con_min (CString n enc) = 1"
  by (simp_all add: CString_def Rename_def Field_def)

lemma If_ok [simp]: "con_ok (If f c) \<longleftrightarrow> con_ok c \<and> (\<forall>x. f x \<noteq> NoFuel)" "con_min (If f c) = 0"
  "con_ok (If_else f c v) \<longleftrightarrow> con_ok c \<and> (\<forall>x. f x \<noteq> NoFuel)" "con_min (If_else f c v) = 0"
  by (auto simp: If_def If_else_def IfThenElse_def rbind_NoFuel)

lemma IfThenElse_ok [simp]:
  "con_ok (IfThenElse n f a b) \<longleftrightarrow> con_ok a \<and> con_ok b \<and> (\<forall>x. f x \<noteq> NoFuel)" "con_min (IfThenElse n f a b) = 0"
  by (auto simp: IfThenElse_def rbind_NoFuel)

lemma Struct_ok [simp]: "con_ok (Struct n cs) \<longleftrightarrow> list_all con_ok cs" "con_min (Struct n cs) = sum_list (map con_min cs)"
  by (simp_all add: Struct_def list_all_iff)

lemma wrapped_ok [simp]: "con_ok (Embedded c) = con_ok c" "con_min (Embedded c) = con_min c"
  "con_ok (Rename n c) = con_ok c" "con_min (Rename n c) = con_min c"
  "con_ok (Enum c e) = con_ok c" "con_min (Enum c e) = con_min c"
  "con_ok (String n l)" "con_min (String n l) = nat l"
  by (simp_all add: Embedded_def Rename_def Enum_def SymmetricMapping_def String_def Field_def)

lemma array_ok [simp]: "con_ok (Array n c) = con_ok c" "con_ok (DynArray f c) \<longleftrightarrow> con_ok c \<and> (\<forall>x. f x \<noteq> NoFuel)"
  "con_min (Array n c) = 0" "con_min (DynArray f c) = 0"
  by (simp_all add: Array_def DynArray_def)

lemma PrefixedArray_ok [simp]:
  "con_ok (PrefixedArray c l) \<longleftrightarrow> con_ok c \<and> con_ok l" "con_min (PrefixedArray c l) = con_min l"
  by (auto simp: PrefixedArray_def rbind_NoFuel value_returns)

lemma initial_length_ok [simp]: "con_ok (Dwarf_initial_length ds n)" "con_min (Dwarf_initial_length ds n) = 4"
  by (auto simp: Dwarf_initial_length_def InitialLength_decode_def rbind_NoFuel get_attr_returns value_returns)

section \<open>Going forward in a section\<close>

definition sadv :: "int \<Rightarrow> 'a S \<Rightarrow> bool" where
  "sadv k m \<longleftrightarrow> (\<forall>t v t'. m t = (Ok v, t') \<longrightarrow>
     sdata t' = sdata t \<and> int (remaining t') + k \<le> int (remaining t))"

lemma sadvD: "sadv k m \<Longrightarrow> m t = (Ok v, t') \<Longrightarrow> sdata t' = sdata t \<and> int (remaining t') + k \<le> int (remaining t)"
  unfolding sadv_def by blast

lemma sadv_simple: "sadv 0 (ret a)" "sadv 0 (lift_res r)" "sadv 0 get_state" "sadv 0 s_pos" "sadv k (raise e)"
  by (simp_all add: sadv_def s_pos_def)

lemma sadv_weaken: "sadv k m \<Longrightarrow> j \<le> k \<Longrightarrow> sadv j m"
  by (fastforce simp: sadv_def)

lemma sadv_mbind: "sadv j m \<Longrightarrow> (\<And>a. sadv k (f a)) \<Longrightarrow> sadv (j + k) (mbind m f)"
  by (fastforce simp: sadv_def mbind_eq_Ok)

lemma sadv_left: "sadv j m \<Longrightarrow> (\<And>a. sadv 0 (f a)) \<Longrightarrow> sadv j (mbind m f)"
  using sadv_mbind [of j m 0 f] by simp

lemma sadv_right: "sadv 0 m \<Longrightarrow> (\<And>a. sadv k (f a)) \<Longrightarrow> sadv k (mbind m f)"
  using sadv_mbind [of 0 m k f] by simp

lemma sadv_if: "(b \<Longrightarrow> sadv k m) \<Longrightarrow> (\<not> b \<Longrightarrow> sadv k m') \<Longrightarrow> sadv k (if b then m else m')"
  by simp

lemma sadv_struct: "sadv (int (con_min c)) (struct_parse c None)"
  unfolding sadv_def using struct_parse_advances struct_parse_keeps by (metis of_nat_add of_nat_mono snd_conv)

lemma sadv_parse_int: "sadv (int (con_min c)) (parse_int c None)"
  unfolding parse_int_def by (rule sadv_left [OF sadv_struct sadv_simple(2)])

lemma sadv_any: "sadv 0 (struct_parse c None)" "sadv 0 (parse_int c None)"
  by (rule sadv_weaken [OF sadv_struct], simp, rule sadv_weaken [OF sadv_parse_int], simp)

text \<open>Going back a little.\<close>

lemma sadv_seek_cur: "k \<le> n \<Longrightarrow> k \<le> 0 \<Longrightarrow> sadv k (s_seek_cur n)"
  by (auto simp: sadv_def s_seek_cur_def s_tell_def remaining_def split: if_splits)

text \<open>Reading at a position that has at least a byte: the stream is further on afterwards.\<close>

lemma sadv_seek:
  assumes "sadv k m" "0 < k" "mbind (s_seek p) (\<lambda>_. m) t = (Ok v, t')"
  shows "0 \<le> p" "p + k \<le> s_tell t'" "sdata t' = sdata t" "p + k \<le> int (length (sdata t))"
proof -
  from assms(3) have p: "0 \<le> p" and run: "m (t\<lparr>spos := nat p\<rparr>) = (Ok v, t')"
    by (auto simp: mbind_def s_seek_def split: if_splits)
  then show "0 \<le> p" by simp
  from sadvD [OF assms(1) run] have s: "sdata t' = sdata t"
    "int (length (sdata t) - spos t') + k \<le> int (length (sdata t) - nat p)"
    by (auto simp: remaining_def)
  then show "sdata t' = sdata t" by simp
  from s(2) assms(2) p show "p + k \<le> int (length (sdata t))" "p + k \<le> s_tell t'"
    by (auto simp: s_tell_def)
qed

lemma struct_parse_seek: "struct_parse c (Some p) = mbind (s_seek p) (\<lambda>_. struct_parse c None)"
  by (rule ext) (simp add: struct_parse_def try_except_def mbind_def s_seek_def)

lemma parse_int_seek: "parse_int c (Some p) = mbind (s_seek p) (\<lambda>_. parse_int c None)"
  unfolding parse_int_def struct_parse_seek mbind_assoc ..

lemma parse_int_at:
  assumes "reads_as c bs (VInt v)" "0 \<le> p" "p < 2 ^ 63" "drop (nat p) (sdata t) = bs @ rest"
  shows "parse_int c (Some p) t = (Ok v, t\<lparr>spos := nat p + length bs\<rparr>)"
proof -
  have "tail_bytes (t\<lparr>spos := nat p\<rparr>) = bs @ rest"
    using assms(4) by (simp add: tail_bytes_def)
  from reads_as_parse_int [OF assms(1) this] show ?thesis
    using assms(2,3) by (simp add: parse_int_seek mbind_def s_seek_def adv_def)
qed

section \<open>Returning\<close>

lemma parse_int_returns: "con_ok c \<Longrightarrow> returns (parse_int c p)"
  unfolding parse_int_def by (intro returns_intros struct_parse_ok_returns)

lemma section_returns [returns_intros]: "returns s_pos" "returns (s_seek_cur n)" "returns (dwarf_assert b)"
  by (auto simp: returns_def s_pos_def s_seek_cur_def dwarf_assert_def)

lemma returns_res_case [returns_intros]: "r \<noteq> NoFuel \<Longrightarrow> returns (lift_res r)"
  by (rule returns_lift_res)

lemma mbind_returns_at: "fst (m s) \<noteq> NoFuel \<Longrightarrow> (\<And>a s'. m s = (Ok a, s') \<Longrightarrow> fst (f a s') \<noteq> NoFuel) \<Longrightarrow>
    fst (mbind m f s) \<noteq> NoFuel"
  by (auto simp: mbind_def split: prod.split res.split)

text \<open>An unsigned number is not negative.\<close>

lemma leb_unsigned:
  "0 \<le> v \<Longrightarrow> leb_loop n False v sh s = (Ok x, s') \<Longrightarrow> \<exists>i. x = VInt i \<and> 0 \<le> i"
proof (induction n arbitrary: v sh s)
  case (Suc n)
  from Suc.prems(2) obtain data t where "on_stream (s_read 1) s = (Ok data, t)" and rest: "(case data of [b] \<Rightarrow>
            let value' = v OR push_bit sh (uint b AND 127); shift' = sh + 7 in
            if uint b AND 128 = 0 then
              ret (VInt (if False \<and> uint b AND 64 \<noteq> 0
                         then value' OR push_bit shift' (NOT 0) else value'))
            else leb_loop n False value' shift'
        | _ \<Rightarrow> raise FieldError) t = (Ok x, s')"
    unfolding leb_loop.simps mbind_eq_Ok by blast
  then obtain b where b: "data = [b]"
    by (cases data; cases "tl data") auto
  have v': "0 \<le> v OR push_bit sh (uint b AND 127)"
    using Suc.prems(1) by (simp add: uint_byte_bounds)
  from rest b consider "x = VInt (v OR push_bit sh (uint b AND 127))"
    | "leb_loop n False (v OR push_bit sh (uint b AND 127)) (sh + 7) t = (Ok x, s')"
    by (simp only: list.case Let_def) (auto split: if_splits)
  then show ?case
    using v' Suc.IH by cases blast+
qed simp

lemma parse_uleb_nonneg:
  assumes "parse_int (ULEB128C n) None t = (Ok v, t')"
  shows "0 \<le> v"
proof -
  obtain r s' where run: "ULEB128_parse \<lparr>pctx = [], pstm = t\<rparr> = (r, s')" by fastforce
  have "\<exists>x. r = Ok x \<and> as_int x = Ok v"
    using assms run by (auto simp: parse_int_def struct_parse_def try_except_def parse_stream_def mbind_def
      simp del: mbind_lift_res split: res.splits if_splits)
  then obtain x where "r = Ok x" "as_int x = Ok v" by blast
  moreover from this(1) run obtain n where "leb_loop n False 0 0 \<lparr>pctx = [], pstm = t\<rparr> = (Ok x, s')"
    by (auto simp: ULEB128_parse_def mbind_def bytes_left_def simp del: leb_loop.simps)
  from leb_unsigned [OF order_refl this] obtain i where "x = VInt i" "0 \<le> i" by blast
  ultimately show ?thesis by simp
qed

end
