(* ===== verification/NumberCodes.thy ===== *)
theory NumberCodes
  imports SectionReads
begin

text \<open>
  The bytes of a number in each of the formats the DWARF decoders read one at a time, independently of
  how the code reads them: fixed-width integers of either byte order and signedness, and LEB128.  Reading
  the bytes gives the number back.
\<close>

definition encode_number :: "con \<Rightarrow> int \<Rightarrow> bytes option" where
  "encode_number c v = (case c of
       FormatFieldC n e f \<Rightarrow> (case pack e f v of Ok bs \<Rightarrow> Some bs | _ \<Rightarrow> None)
     | ULEB128C n \<Rightarrow> (if v < 0 then None else Some (uleb128 (nat v)))
     | SLEB128C n \<Rightarrow> Some (sleb128 v)
     | _ \<Rightarrow> None)"

lemma encode_number_reads: "encode_number c v = Some bs \<Longrightarrow> reads_as c bs (VInt v)"
  using reads_as_uleb [of _ "nat v"]
  by (auto simp: encode_number_def reads_as_sleb intro!: reads_as_field unpack_pack
      split: con.splits res.splits if_splits)

text \<open>Several numbers, one after the other.\<close>

fun encode_numbers :: "con list \<Rightarrow> int list \<Rightarrow> bytes option" where
  "encode_numbers [] [] = Some []"
| "encode_numbers (c # cs) (v # vs) = (case encode_number c v of None \<Rightarrow> None
     | Some b \<Rightarrow> (case encode_numbers cs vs of None \<Rightarrow> None | Some bs \<Rightarrow> Some (b @ bs)))"
| "encode_numbers cs vs = None"

lemma parse_number:
  assumes "encode_number c v = Some bs" "tail_bytes t = bs @ rest"
  shows "struct_parse c None t = (Ok (VInt v), adv (length bs) t)" "parse_int c None t = (Ok v, adv (length bs) t)"
  using reads_as_parse [OF encode_number_reads [OF assms(1)] assms(2)]
    reads_as_parse_int [OF encode_number_reads [OF assms(1)] assms(2)] by simp_all

lemma parse_numbers:
  "encode_numbers cs vs = Some bs \<Longrightarrow> tail_bytes t = bs @ rest \<Longrightarrow>
   mmap (\<lambda>c. struct_parse c None) cs t = (Ok (map VInt vs), adv (length bs) t)"
proof (induction cs vs arbitrary: t bs rule: encode_numbers.induct)
  case (2 c cs v vs)
  from 2(2) obtain b bs' where b: "encode_number c v = Some b" "encode_numbers cs vs = Some bs'" "bs = b @ bs'"
    by (auto split: option.splits)
  have t: "tail_bytes t = b @ (bs' @ rest)" using 2(3) b(3) by simp
  from 2(1) [OF b(1,2) tail_adv [OF t]]
  show ?case
    unfolding mmap.simps mbind_Ok [where m = "struct_parse c None", OF parse_number(1) [OF b(1) t]]
    by (simp add: mbind_Ok b(3))
qed simp_all

text \<open>A byte.\<close>

lemma uint8_reads: "reads_as (the_Dwarf_uint8 ds) [n] (VInt (uint n))"
  by (cases "dw_little_endian ds")
    (simp_all add: the_dwarf_defs Dwarf_uint8_def ULInt8_def UBInt8_def reads_as_field unpack_def order_bytes_def)

lemma byte_number: "tail_bytes t = n # rest \<Longrightarrow> parse_int (the_Dwarf_uint8 ds) None t = (Ok (uint n), adv 1 t)"
  using reads_as_parse_int [OF uint8_reads, of t n rest] by simp

text \<open>A list of bytes.\<close>

lemma byte_reads: "reads_as (ULInt8 n) [b] (VInt (uint b))"
  unfolding ULInt8_def
  by (rule reads_as_field) (simp add: unpack_def order_bytes_def)

lemma parse_blob:
  "tail_bytes t = bs @ rest \<Longrightarrow> read_blob (int (length bs)) t = (Ok (map (VInt \<circ> uint) bs), adv (length bs) t)"
proof -
  have "tail_bytes t = bs @ rest \<Longrightarrow> mmap (\<lambda>_. struct_parse (ULInt8 '''') None) [k..<k + length bs] t =
      (Ok (map (VInt \<circ> uint) bs), adv (length bs) t)" for k
  proof (induction bs arbitrary: t k)
    case (Cons b bs)
    have u: "[k..<k + length (b # bs)] = k # [Suc k..<Suc k + length bs]"
      by (simp add: upt_rec)
    have t: "tail_bytes t = [b] @ (bs @ rest)" using Cons.prems by simp
    from Cons.IH [OF tail_adv [OF t], of "Suc k"] show ?case
      unfolding u mmap.simps mbind_Ok [where m = "struct_parse _ None", OF reads_as_parse [OF byte_reads t]]
      by (simp add: mbind_Ok)
  qed simp
  from this [of 0] show "tail_bytes t = bs @ rest \<Longrightarrow> ?thesis"
    by (simp add: read_blob_def)
qed

lemma sadv_mmap: "(\<And>x. sadv 0 (f x)) \<Longrightarrow> sadv 0 (mmap f xs)"
  by (induction xs) (auto intro!: sadv_right sadv_simple)

text \<open>However much it reads, a list of bytes is no longer than what it consumes.\<close>

lemma read_blob_length:
  assumes "read_blob n t = (Ok vs, t')"
  shows "length vs + remaining t' \<le> remaining t" "sdata t' = sdata t"
proof -
  have "mmap (\<lambda>_. struct_parse (ULInt8 '''') None) xs t = (Ok vs, t') \<Longrightarrow>
      length vs + remaining t' \<le> remaining t \<and> sdata t' = sdata t" for xs :: "nat list"
  proof (induction xs arbitrary: t vs)
    case (Cons x xs)
    from Cons.prems obtain v t1 vs' where v: "struct_parse (ULInt8 '''') None t = (Ok v, t1)"
      "mmap (\<lambda>_. struct_parse (ULInt8 '''') None) xs t1 = (Ok vs', t')" "vs = v # vs'"
      by (auto simp: mbind_eq_Ok)
    have "con_min (ULInt8 '''') = 1" by (simp add: ULInt8_def)
    with sadvD [OF sadv_struct v(1)] have "sdata t1 = sdata t" "remaining t1 + 1 \<le> remaining t" by simp_all
    with Cons.IH [OF v(2)] v(3) show ?case by simp
  qed simp
  then show "length vs + remaining t' \<le> remaining t" "sdata t' = sdata t"
    using assms unfolding read_blob_def by blast+
qed

lemma sadv_blob: "sadv 0 (read_blob n)"
  unfolding sadv_def using read_blob_length by fastforce

lemma blob_returns [returns_intros]: "returns (read_blob n)"
  unfolding read_blob_def by (intro returns_intros struct_parse_ok_returns) (simp add: ULInt8_def)

lemma bytelist_back: "bytelist2string (map uint bs) = Ok (bs :: bytes)"
proof -
  have "rmap (\<lambda>b. if 0 \<le> b \<and> b < 256 then Ok [word_of_int b] else Err ValueError) (map uint bs) =
      Ok (map (\<lambda>b. [b]) bs)" for bs :: bytes
    by (induction bs) (simp_all add: uint_byte_bounds)
  moreover have "concat (map (\<lambda>b. [b]) bs) = bs" by (induction bs) simp_all
  ultimately show ?thesis by (simp add: bytelist2string_def)
qed

lemma bytelist_length: "bytelist2string e = Ok bs \<Longrightarrow> length bs = length e"
proof (induction e arbitrary: bs)
  case (Cons b e)
  then show ?case
    by (fastforce simp: bytelist2string_def rbind_eq_Ok split: if_splits)
qed (simp add: bytelist2string_def)

end
