(* ===== verification/HeaderReads.thy ===== *)
theory HeaderReads
  imports NumberCodes
begin

text \<open>
  Reading a structure whose fields depend on one another.  \<open>reads_with c x bs v x'\<close>: in the context \<open>x\<close>,
  wherever the stream holds \<open>bs\<close>, parsing \<open>c\<close> gives \<open>v\<close>, goes past them and leaves the context \<open>x'\<close>.
\<close>

definition reads_with :: "con \<Rightarrow> ctx \<Rightarrow> bytes \<Rightarrow> val \<Rightarrow> ctx \<Rightarrow> bool" where
  "reads_with c x bs v x' \<longleftrightarrow> (\<forall>s rest. pctx s = x \<longrightarrow> tail_bytes (pstm s) = bs @ rest \<longrightarrow>
     con_parse c s = (Ok v, \<lparr>pctx = x', pstm = adv (length bs) (pstm s)\<rparr>))"

lemma reads_withI:
  "(\<And>t rest. tail_bytes t = bs @ rest \<Longrightarrow>
     con_parse c \<lparr>pctx = x, pstm = t\<rparr> = (Ok v, \<lparr>pctx = x', pstm = adv (length bs) t\<rparr>)) \<Longrightarrow> reads_with c x bs v x'"
  unfolding reads_with_def by (metis (full_types) pst.surjective old.unit.exhaust)

lemma reads_withD:
  "reads_with c x bs v x' \<Longrightarrow> tail_bytes t = bs @ rest \<Longrightarrow>
     con_parse c \<lparr>pctx = x, pstm = t\<rparr> = (Ok v, \<lparr>pctx = x', pstm = adv (length bs) t\<rparr>)"
  unfolding reads_with_def by (metis pst.select_convs)

lemma reads_with_plain: "reads_as c bs v \<Longrightarrow> reads_with c x bs v x"
  by (rule reads_withI) (simp add: reads_as_run)

lemma reads_with_parse:
  assumes "reads_with c [] bs v x'" "tail_bytes t = bs @ rest"
  shows "struct_parse c None t = (Ok v, adv (length bs) t)"
  using reads_withD [OF assms] by (simp add: struct_parse_def try_except_def parse_stream_def)

lemma reads_with_parse_at:
  assumes "reads_with c [] bs v x'" "0 \<le> p" "p < 2 ^ 63" "drop (nat p) (sdata t) = bs @ rest"
  shows "struct_parse c (Some p) t = (Ok v, t\<lparr>spos := nat p + length bs\<rparr>)"
proof -
  have "tail_bytes (t\<lparr>spos := nat p\<rparr>) = bs @ rest"
    using assms(4) by (simp add: tail_bytes_def)
  from reads_with_parse [OF assms(1) this] show ?thesis
    using assms(2,3) by (simp add: struct_parse_seek mbind_def s_seek_def adv_def)
qed

section \<open>Fields\<close>

text \<open>The fields of a structure, each in the context that the ones before it leave; those without a name leave no value.\<close>

inductive fields_read :: "con list \<Rightarrow> ctx \<Rightarrow> (string \<times> val) list \<Rightarrow> bytes \<Rightarrow> (string \<times> val) list \<Rightarrow> bool" where
  read_end: "fields_read [] x d [] d"
| read_field: "con_name c = Some n \<Longrightarrow> \<not> is_flag (con_flags c) FLAG_EMBED \<Longrightarrow> reads_with c x bs v x1 \<Longrightarrow>
    fields_read cs (dput n v x1) (dput n v d) bs' d' \<Longrightarrow> fields_read (c # cs) x d (bs @ bs') d'"

lemma fields_read_run:
  "fields_read cs x d bs d' \<Longrightarrow> tail_bytes t = bs @ rest \<Longrightarrow>
   \<exists>x'. fields_parse False (subs_of cs) (VCont d) \<lparr>pctx = x, pstm = t\<rparr> =
     (Ok (VCont d'), \<lparr>pctx = x', pstm = adv (length bs) t\<rparr>)"
proof (induction arbitrary: t rule: fields_read.induct)
  case (read_field c n x bs v x1 cs d bs' d')
  have t: "tail_bytes t = bs @ (bs' @ rest)" using read_field.prems by simp
  from read_field.IH [OF tail_adv [OF t]] read_field.hyps reads_withD [OF read_field.hyps(3) t] show ?case
    by (simp add: mbind_def add_field_def)
qed simp

lemma reads_with_Struct:
  assumes "fields_read cs (nest_ctx x) [] bs d" "map_of x ''<obj>'' = None"
  shows "reads_with (Struct n cs) x bs (VCont d) x"
proof (rule reads_withI)
  fix t rest assume "tail_bytes t = bs @ rest"
  from fields_read_run [OF assms(1) this] assms(2)
  show "con_parse (Struct n cs) \<lparr>pctx = x, pstm = t\<rparr> = (Ok (VCont d), \<lparr>pctx = x, pstm = adv (length bs) t\<rparr>)"
    by (auto simp: Struct_def Struct_parse_def mbind_def with_ctx_def)
qed

lemma reads_with_adapter:
  assumes "reads_with c x bs v x1" "dec v x1 = Ok (w, x2)"
  shows "reads_with (ContextAdapterC c dec) x bs w x2"
  by (rule reads_withI) (simp add: ContextAdapter_parse_def mbind_def reads_withD [OF assms(1)] assms(2) put_ctx_def)

lemma reads_with_If:
  assumes "f x = Ok (VBool b)"
  shows "b \<Longrightarrow> reads_with c x bs v x' \<Longrightarrow> reads_with (If f c) x bs v x'" "\<not> b \<Longrightarrow> reads_with (If f c) x [] VNone x"
  using assms by (auto intro!: reads_withI
      simp: If_def If_else_def IfThenElse_def Switch_parse_def mbind_def switch_case_def Value_parse_def reads_withD py_eq_def)

lemma choice_names [simp]:
  "con_name (If f c) = con_name c" "con_name (IfThenElse n f c c') = n"
  by (simp_all add: If_def If_else_def IfThenElse_def)

lemma choice_flags [simp]:
  "is_flag (con_flags (If f c)) FLAG_EMBED \<longleftrightarrow> is_flag (con_flags c) FLAG_EMBED"
  "is_flag (con_flags (IfThenElse n f c c')) FLAG_EMBED \<longleftrightarrow> is_flag (con_flags c) FLAG_EMBED \<or> is_flag (con_flags c') FLAG_EMBED"
  unfolding is_flag_EMBED
  by (simp_all add: If_def If_else_def IfThenElse_def inherit_flags_def set_flag_def bit_or_iff flag_defs)

lemma reads_with_IfThenElse:
  assumes "f x = Ok (VBool b)"
  shows "b \<Longrightarrow> reads_with c x bs v x' \<Longrightarrow> reads_with (IfThenElse n f c c') x bs v x'"
    "\<not> b \<Longrightarrow> reads_with c' x bs v x' \<Longrightarrow> reads_with (IfThenElse n f c c') x bs v x'"
  using assms by (auto intro!: reads_withI
      simp: IfThenElse_def Switch_parse_def mbind_def switch_case_def reads_withD py_eq_def)

section \<open>Numbers in the byte order of the section\<close>

definition num_bytes :: "dwarf_structs \<Rightarrow> nat \<Rightarrow> int \<Rightarrow> bytes" where
  "num_bytes ds k v = order_bytes (if dw_little_endian ds then LE else BE) (le_bytes k v)"

lemma length_num_bytes [simp]: "length (num_bytes ds k v) = k"
  by (simp add: num_bytes_def)

lemma unsigned_field:
  "0 \<le> v \<Longrightarrow> v < 256 ^ fmt_size f \<Longrightarrow> \<not> fmt_signed f \<Longrightarrow>
   reads_as (FormatFieldC n e f) (order_bytes e (le_bytes (fmt_size f) v)) (VInt v)"
  by (rule reads_as_field) (simp add: unpack_def le_uint_bytes)

lemma read_unsigned:
  "0 \<le> v \<Longrightarrow> v < 2 ^ 8 \<Longrightarrow> reads_as (Dwarf_uint8 ds n) (num_bytes ds 1 v) (VInt v)"
  "0 \<le> v \<Longrightarrow> v < 2 ^ 16 \<Longrightarrow> reads_as (Dwarf_uint16 ds n) (num_bytes ds 2 v) (VInt v)"
  "0 \<le> v \<Longrightarrow> v < 2 ^ 32 \<Longrightarrow> reads_as (Dwarf_uint32 ds n) (num_bytes ds 4 v) (VInt v)"
  "0 \<le> v \<Longrightarrow> v < 2 ^ 64 \<Longrightarrow> reads_as (Dwarf_uint64 ds n) (num_bytes ds 8 v) (VInt v)"
  using unsigned_field [of v FmtB] unsigned_field [of v FmtH] unsigned_field [of v FmtL] unsigned_field [of v FmtQ]
  by (simp_all add: dwarf_chunk_defs int_field_defs num_bytes_def)

definition offset_size :: "dwarf_structs \<Rightarrow> nat" where
  "offset_size ds = (if dwarf_format ds = 32 then 4 else 8)"

definition addr_size :: "dwarf_structs \<Rightarrow> nat" where
  "addr_size ds = (if address_size ds = 4 then 4 else 8)"

lemma read_offset: "0 \<le> v \<Longrightarrow> v < 256 ^ offset_size ds \<Longrightarrow> reads_as (Dwarf_offset ds n) (num_bytes ds (offset_size ds) v) (VInt v)"
  using read_unsigned(3,4) [of v ds n]
  by (auto simp: Dwarf_offset_def Dwarf_uint32_def Dwarf_uint64_def offset_size_def split: if_splits)

lemma read_address: "0 \<le> v \<Longrightarrow> v < 256 ^ addr_size ds \<Longrightarrow> reads_as (Dwarf_target_addr ds n) (num_bytes ds (addr_size ds) v) (VInt v)"
  using read_unsigned(3,4) [of v ds n]
  by (auto simp: Dwarf_target_addr_def Dwarf_uint32_def Dwarf_uint64_def addr_size_def split: if_splits)

lemma chunk_names [simp]:
  "con_name (Dwarf_uint8 ds n) = Some n" "con_name (Dwarf_uint16 ds n) = Some n" "con_name (Dwarf_uint32 ds n) = Some n"
  "con_name (Dwarf_uint64 ds n) = Some n" "con_name (Dwarf_offset ds n) = Some n" "con_name (Dwarf_target_addr ds n) = Some n"
  "con_name (Dwarf_uleb128 ds n) = Some n" "con_name (Dwarf_sleb128 ds n) = Some n"
  "con_flags (Dwarf_uint8 ds n) = 0" "con_flags (Dwarf_uint16 ds n) = 0" "con_flags (Dwarf_uint32 ds n) = 0"
  "con_flags (Dwarf_uint64 ds n) = 0" "con_flags (Dwarf_offset ds n) = 0" "con_flags (Dwarf_target_addr ds n) = 0"
  "con_flags (Dwarf_uleb128 ds n) = 0" "con_flags (Dwarf_sleb128 ds n) = 0"
  by (simp_all add: dwarf_chunk_defs int_field_defs Dwarf_uleb128_def Dwarf_sleb128_def)

lemma read_leb:
  "reads_as (Dwarf_uleb128 ds n) (uleb128 k) (VInt (int k))" "reads_as (Dwarf_sleb128 ds n) (sleb128 v) (VInt v)"
  by (simp_all add: Dwarf_uleb128_def Dwarf_sleb128_def reads_as_uleb reads_as_sleb)

section \<open>Initial lengths\<close>

lemma ctx_test_put [simp]: "ctx_test n P (dput n (VInt i) x) = Ok (VBool (P i))"
  by (simp add: ctx_test_def ctx_attr_def get_attr_def update_conv')

lemma ctx_test_other [simp]: "k \<noteq> n \<Longrightarrow> ctx_test n P (dput k v x) = ctx_test n P x"
  by (simp add: ctx_test_def ctx_attr_def get_attr_def update_conv')

definition length_bytes :: "dwarf_structs \<Rightarrow> bool \<Rightarrow> int \<Rightarrow> bytes" where
  "length_bytes ds is64 len = (if is64 then num_bytes ds 4 0xFFFFFFFF @ num_bytes ds 8 len else num_bytes ds 4 len)"

definition length_ok :: "bool \<Rightarrow> int \<Rightarrow> bool" where
  "length_ok is64 len \<longleftrightarrow> 0 \<le> len \<and> (if is64 then len < 2 ^ 64 else len < 0xFFFFFF00)"

lemma initial_length_name [simp]:
  "con_name (Dwarf_initial_length ds n) = Some n" "\<not> is_flag (con_flags (Dwarf_initial_length ds n)) FLAG_EMBED"
  by (simp_all add: Dwarf_initial_length_def Struct_def)

lemma read_initial_length:
  assumes "length_ok is64 len" "map_of x ''<obj>'' = None"
  shows "reads_with (Dwarf_initial_length ds n) x (length_bytes ds is64 len) (VInt len) (dput ''is64'' (VBool is64) x)"
  unfolding Dwarf_initial_length_def
proof (rule reads_with_adapter [OF reads_with_Struct [OF _ assms(2)]])
  let ?first = "VInt (if is64 then 0xFFFFFFFF else len)"
  let ?second = "if is64 then VInt len else VNone"
  let ?x = "dput ''first'' ?first (nest_ctx x)"
  have first: "reads_with (Dwarf_uint32 ds ''first'') (nest_ctx x)
      (num_bytes ds 4 (if is64 then 0xFFFFFFFF else len)) ?first (nest_ctx x)"
    using assms(1) by (intro reads_with_plain) (auto simp: length_ok_def intro!: read_unsigned)
  have t: "ctx_test ''first'' (\<lambda>i. i = 0xFFFFFFFF) ?x = Ok (VBool is64)"
    using assms(1) by (auto simp: length_ok_def)
  have second: "reads_with (If (ctx_test ''first'' (\<lambda>i. i = 0xFFFFFFFF)) (Dwarf_uint64 ds ''second'')) ?x
      (if is64 then num_bytes ds 8 len else []) ?second ?x"
  proof (cases is64)
    case True
    with assms(1) have "reads_as (Dwarf_uint64 ds ''second'') (num_bytes ds 8 len) (VInt len)"
      by (intro read_unsigned) (auto simp: length_ok_def)
    from reads_with_If(1) [where f = "ctx_test _ _", OF t True reads_with_plain [OF this]] True show ?thesis by simp
  next
    case False
    from reads_with_If(2) [where f = "ctx_test _ _", OF t False] False show ?thesis by simp
  qed
  have "fields_read [If (ctx_test ''first'' (\<lambda>i. i = 0xFFFFFFFF)) (Dwarf_uint64 ds ''second'')] ?x (dput ''first'' ?first [])
      ((if is64 then num_bytes ds 8 len else []) @ []) (dput ''second'' ?second (dput ''first'' ?first []))"
    by (rule read_field [OF _ _ second read_end]) simp_all
  from read_field [OF _ _ first this]
  have "fields_read [Dwarf_uint32 ds ''first'', If (ctx_test ''first'' (\<lambda>i. i = 0xFFFFFFFF)) (Dwarf_uint64 ds ''second'')]
      (nest_ctx x) [] (num_bytes ds 4 (if is64 then 0xFFFFFFFF else len) @ (if is64 then num_bytes ds 8 len else []) @ [])
      (dput ''second'' ?second (dput ''first'' ?first []))"
    by (simp only: chunk_names is_flag_0 simp_thms)
  moreover have "num_bytes ds 4 (if is64 then 0xFFFFFFFF else len) @ (if is64 then num_bytes ds 8 len else []) @ [] =
      length_bytes ds is64 len"
    by (simp add: length_bytes_def)
  ultimately show "fields_read [Dwarf_uint32 ds ''first'', If (ctx_test ''first'' (\<lambda>i. i = 0xFFFFFFFF)) (Dwarf_uint64 ds ''second'')]
      (nest_ctx x) [] (length_bytes ds is64 len) (dput ''second'' ?second (dput ''first'' ?first []))"
    by (simp only:)
  show "InitialLength_decode (VCont (dput ''second'' ?second (dput ''first'' ?first []))) x =
      Ok (VInt len, dput ''is64'' (VBool is64) x)"
    using assms(1) by (auto simp: InitialLength_decode_def get_attr_def length_ok_def)
qed

section \<open>Strings\<close>

text \<open>A string and the zero that ends it; the string may be empty.\<close>

definition plain_string :: "bytes \<Rightarrow> bool" where
  "plain_string s \<longleftrightarrow> 0 \<notin> set s"

lemma read_char:
  "tail_bytes (pstm s) = b # rest \<Longrightarrow> con_parse (Field n 1) s = (Ok (VBytes [b]), s\<lparr>pstm := adv 1 (pstm s)\<rparr>)"
  by (simp add: Field_def StaticField_parse_def read_stream_def mbind_def on_stream_run read_byte)

lemma until_zero:
  assumes "tail_bytes (pstm s) = str @ 0 # rest" "plain_string str" "length str < fuel"
  shows "until_loop fuel (\<lambda>obj c. Ok (py_eq obj (VBytes [0]) \<or> py_eq obj (VBytes []))) True (con_parse (Field n 1)) s =
    (Ok (map (\<lambda>b. VBytes [b]) (str @ [0])), s\<lparr>pstm := adv (length str + 1) (pstm s)\<rparr>)"
  using assms
proof (induction str arbitrary: s fuel)
  case Nil
  then obtain f where "fuel = Suc f" by (cases fuel) auto
  with Nil show ?case by (simp add: mbind_Ok [where m = "con_parse _", OF read_char] del: con_parse.simps)
next
  case (Cons b str)
  then obtain f where f: "fuel = Suc f" by (cases fuel) auto
  have t: "tail_bytes (pstm s) = b # (str @ 0 # rest)" using Cons.prems(1) by simp
  let ?s = "s\<lparr>pstm := adv 1 (pstm s)\<rparr>"
  have "tail_bytes (pstm ?s) = str @ 0 # rest" using tail_adv_Cons [OF t] by simp
  from Cons.IH [OF this] Cons.prems(2,3) f show ?case
    by (simp add: mbind_Ok [where m = "con_parse _", OF read_char [OF t]] mbind_Ok [where m = "until_loop _ _ _ _"]
        plain_string_def py_eq_def del: con_parse.simps)
qed

lemma join_chars: "join_bytes (map (\<lambda>b. VBytes [b]) bs) = Ok bs"
  by (induction bs) simp_all

lemma read_string:
  assumes "plain_string str"
  shows "reads_as (CString n None) (str @ [0]) (VBytes str)"
  unfolding reads_as_def
proof (intro allI impI)
  fix s :: pst and rest assume "tail_bytes (pstm s) = (str @ [0]) @ rest"
  then have t: "tail_bytes (pstm s) = str @ 0 # rest" by simp
  have "remaining (pstm s) = Suc (length str + length rest)" by (simp add: remaining_tail t)
  with until_zero [OF t assms] show "con_parse (CString n None) s =
      (Ok (VBytes str), s\<lparr>pstm := adv (length (str @ [0])) (pstm s)\<rparr>)"
    by (simp add: CString_def Rename_def Adapter_parse_def RepeatUntil_parse_def mbind_def bytes_left_def try_except_def
        maybe_copy_def CString_decode_def join_chars String_decode_def butlast_append Field_def
        del: until_loop.simps)
qed

end
