(* ===== verification/NoteProperties.thy ===== *)
theory NoteProperties
  imports ElfNotes Returning HeaderReads
begin

text \<open>Properties of \<^verbatim>\<open>elf/notes.py\<close>: notes written one after the other, each with its name and its
  descriptor filled up to four bytes, are read back.\<close>

lemma read_bytes_at:
  assumes "spos t + n \<le> length (sdata t)" "int n < 2 ^ 63"
  shows "s_read (int n) t = (Ok (bytes_at (sdata t) (spos t) n), t\<lparr>spos := spos t + n\<rparr>)"
  using assms by (simp add: s_read_enough remaining_def bytes_at_def)

section \<open>Notes as they are written\<close>

text \<open>A note: its type, its name if it has one, and its descriptor.\<close>

record note_text =
  nt_type :: int
  nt_name :: "bytes option"
  nt_desc :: bytes

definition note_word :: "elf_structs \<Rightarrow> int \<Rightarrow> bytes" where
  "note_word st v = order_bytes (endn st) (le_bytes 4 v)"

text \<open>Filled up with zeros to a multiple of four.\<close>

definition padded :: "bytes \<Rightarrow> bytes" where
  "padded b = b @ replicate ((4 - length b mod 4) mod 4) 0"

definition name_bytes :: "note_text \<Rightarrow> bytes" where
  "name_bytes n = (case nt_name n of None \<Rightarrow> [] | Some b \<Rightarrow> b @ [0])"

definition encode_note :: "elf_structs \<Rightarrow> note_text \<Rightarrow> bytes" where
  "encode_note st n = note_word st (int (length (name_bytes n))) @ note_word st (int (length (nt_desc n))) @
     note_word st (nt_type n) @ padded (name_bytes n) @ padded (nt_desc n)"

definition type_name :: "elf_structs \<Rightarrow> note_text \<Rightarrow> val" where
  "type_name st n = enum_name (n_type_dict st) (nt_type n)"

definition owned_by_gnu :: "note_text \<Rightarrow> bool" where
  "owned_by_gnu n \<longleftrightarrow> nt_name n = Some [71, 78, 85]"

text \<open>The notes whose descriptor is a text, or a string of bytes: all but those with a structure.\<close>

definition note_ok :: "elf_structs \<Rightarrow> note_text \<Rightarrow> bool" where
  "note_ok st n \<longleftrightarrow> 0 \<le> nt_type n \<and> nt_type n < 2 ^ 32 \<and> length (name_bytes n) < 2 ^ 32 \<and> length (nt_desc n) < 2 ^ 32 \<and>
     (case nt_name n of None \<Rightarrow> True | Some b \<Rightarrow> 0 \<notin> set b) \<and>
     type_name st n \<notin> {VLit ''NT_PRPSINFO'', VLit ''NT_FILE''} \<and>
     (owned_by_gnu n \<longrightarrow> type_name st n \<notin> {VLit ''NT_GNU_ABI_TAG'', VLit ''NT_GNU_PROPERTY_TYPE_0''})"

text \<open>A descriptor without a structure: the build id in hexadecimal, the version of the gold linker as a text, others as they are.\<close>

definition plain_desc :: "val \<Rightarrow> bool \<Rightarrow> bytes \<Rightarrow> val" where
  "plain_desc ty gnu b =
     (if ty = VLit ''NT_GNU_BUILD_ID'' \<and> gnu then VStr (bytes2hex b [])
      else if ty = VLit ''NT_GNU_GOLD_VERSION'' \<and> gnu then VStr (decode_latin1 b)
      else VBytes b)"

definition note_value :: "elf_structs \<Rightarrow> nat \<Rightarrow> note_text \<Rightarrow> val" where
  "note_value st off n = VCont
     [(''n_namesz'', VInt (int (length (name_bytes n)))), (''n_descsz'', VInt (int (length (nt_desc n)))),
      (''n_type'', type_name st n), (''n_offset'', VInt (int off)),
      (''n_name'', case nt_name n of None \<Rightarrow> VNone | Some b \<Rightarrow> VStr (decode_latin1 b)),
      (''n_descdata'', VBytes (nt_desc n)),
      (''n_desc'', plain_desc (type_name st n) (owned_by_gnu n) (nt_desc n)),
      (''n_size'', VInt (int (length (encode_note st n))))]"

fun note_values :: "elf_structs \<Rightarrow> nat \<Rightarrow> note_text list \<Rightarrow> val list" where
  "note_values st off [] = []"
| "note_values st off (n # ns) = note_value st off n # note_values st (off + length (encode_note st n)) ns"

lemma note_word_length [simp]: "length (note_word st v) = 4"
  by (simp add: note_word_def)

lemma uint_at_word: "0 \<le> v \<Longrightarrow> v < 2 ^ 32 \<Longrightarrow> length xs = k \<Longrightarrow> uint_at st k 4 (xs @ note_word st v @ ys) = v"
  by (simp add: uint_at_def note_word_def le_uint_bytes)

lemma roundup_4: "roundup (int n) 2 = int (n + (4 - n mod 4) mod 4)"
proof -
  have n: "n = 4 * (n div 4) + n mod 4" by simp
  have r: "2 ^ 2 dvd roundup (int n) 2" "int n \<le> roundup (int n) 2" "roundup (int n) 2 < int n + 2 ^ 2"
    using roundup_least [where bits = 2 and num = "int n"] by simp_all
  then obtain k where k: "roundup (int n) 2 = 4 * k" by (auto simp: dvd_def)
  have "int (n mod 4) < 4" by simp
  with r(2,3) k n show ?thesis by (cases "n mod 4 = 0") (simp_all; presburger)+
qed

lemma length_padded: "int (length (padded b)) = roundup (int (length b)) 2"
  by (simp add: padded_def roundup_4)

lemma latin1_gnu: "decode_latin1 b = lit ''GNU'' \<longleftrightarrow> b = [71, 78, 85]"
proof -
  have "lit ''GNU'' = map uint ([71, 78, 85] :: bytes)"
    by code_simp
  moreover have "inj (uint :: 8 word \<Rightarrow> int)"
    by (simp add: inj_on_def word_uint_eq_iff)
  ultimately show ?thesis
    by (simp add: decode_latin1_def inj_map_eq_map del: list.map)
qed

lemma length_encode:
  "length (encode_note st n) = 12 + length (padded (name_bytes n)) + length (padded (nt_desc n))"
  by (simp add: encode_note_def)

lemma parse_name:
  assumes "0 \<notin> set b"
  shows "parse_bytes (CString '''' None) (padded (b @ [0])) = Ok (VBytes b)"
proof -
  have "tail_bytes (bytesio (padded (b @ [0]))) =
      (b @ [0]) @ replicate ((4 - length (b @ [0]) mod 4) mod 4) 0"
    by (simp add: tail_bytes_def padded_def bytesio_def)
  from reads_as_run [OF read_string, of b "\<lparr>pctx = [], pstm = bytesio (padded (b @ [0]))\<rparr>", unfolded pst.simps, OF _ this]
  show ?thesis
    using assms by (simp add: parse_bytes_def parse_stream_def plain_string_def)
qed

lemma note_desc_plain:
  assumes "name = Some (lit ''GNU'') \<longleftrightarrow> g" "ty \<notin> {VLit ''NT_PRPSINFO'', VLit ''NT_FILE''}"
    and "g \<longrightarrow> ty \<notin> {VLit ''NT_GNU_ABI_TAG'', VLit ''NT_GNU_PROPERTY_TYPE_0''}"
  shows "note_desc st ty name b d off = ret (plain_desc ty g b)"
  using assms by (cases g) (simp_all add: note_desc_def Let_def plain_desc_def bytes2str_def)

lemma read_encoded:
  assumes d: "fdata s = pre @ encode_note st n @ post" "length pre = off"
    and small: "off + length (encode_note st n) < 2 ^ 62"
    and ok: "note_ok st n"
  shows "\<exists>t. read_note st 12 (int off) s =
    (Ok (note_value st off n, int off + int (length (encode_note st n))), t) \<and> fdata t = fdata s"
proof -
  let ?d = "fdata s"
  let ?nl = "length (name_bytes n)" and ?dl = "length (nt_desc n)"
  let ?pl = "length (padded (name_bytes n))"
  let ?hdr = "VCont [(''n_namesz'', VInt (int ?nl)), (''n_descsz'', VInt (int ?dl)), (''n_type'', type_name st n)]"
  let ?at = "\<lambda>p. s\<lparr>f_stream := (f_stream s)\<lparr>spos := p\<rparr>\<rparr>"
  have len: "off + 12 + ?pl + length (padded (nt_desc n)) \<le> length ?d"
    using d by (simp add: length_encode)
  have dl: "?dl \<le> length (padded (nt_desc n))"
    by (simp add: padded_def)
  have words: "uint_at st off 4 ?d = int ?nl" "uint_at st (off + 4) 4 ?d = int ?dl" "uint_at st (off + 8) 4 ?d = nt_type n"
    using uint_at_word [of "int ?nl" pre off st] uint_at_word [of "int ?dl" "pre @ note_word st (int ?nl)" "off + 4" st]
      uint_at_word [of "nt_type n" "pre @ note_word st (int ?nl) @ note_word st (int ?dl)" "off + 8" st] d ok
    by (simp_all add: encode_note_def note_ok_def)
  have "nhdr_value st (bytes_at ?d off 12) = ?hdr"
    using words by (simp add: nhdr_value_def bytes_at_def uint_at_take uint_at_drop add.commute type_name_def)
  then have hdr: "on_file (struct_parse (Elf_Nhdr st) (Some (int off))) s = (Ok ?hdr, ?at (off + 12))"
    using nhdr.struct_parse_at [of "int off" "f_stream s" st] len small by (simp add: on_file_run length_encode)
  have seek: "on_file (s_seek (int off + 12)) (?at p) = (Ok (), ?at (off + 12))" for p
    using small by (simp add: on_file_run s_seek_ok nat_add_distrib length_encode)
  let ?name = "map_option decode_latin1 (nt_name n)"
  have bytes: "bytes_at ?d (off + 12) ?pl = padded (name_bytes n)" "bytes_at ?d (off + 12 + ?pl) ?dl = nt_desc n"
    using d by (simp_all add: bytes_at_def encode_note_def) (simp add: padded_def)
  have name: "note_name v (int off + 12) (?at (off + 12)) = (Ok (?name, int off + 12 + int ?pl), ?at (off + 12 + ?pl))"
    if "get_item v ''n_namesz'' = Ok (VInt (int ?nl))" for v
  proof (cases "nt_name n")
    case None
    then show ?thesis using that by (simp add: note_name_def get_int_def name_bytes_def padded_def)
  next
    case (Some b)
    then have nb: "name_bytes n = b @ [0]" "0 \<notin> set b" using ok by (auto simp: name_bytes_def note_ok_def)
    have r: "roundup (int ?nl) 2 = int ?pl" using length_padded [of "name_bytes n"] by simp
    have "on_file (s_read (int ?pl)) (?at (off + 12)) = (Ok (padded (name_bytes n)), ?at (off + 12 + ?pl))"
      using read_bytes_at [of "(f_stream s)\<lparr>spos := off + 12\<rparr>" ?pl] len small bytes
      by (simp add: on_file_run length_encode)
    moreover have "int ?nl \<noteq> 0" using nb by simp
    ultimately show ?thesis
      using that Some parse_name [OF nb(2)]
      by (simp add: note_name_def mbind_def get_int_def r Let_def nb(1) [symmetric] bytes2str_def del: of_nat_eq_0_iff)
  qed
  have desc: "on_file (s_read (int ?dl)) (?at (off + 12 + ?pl)) = (Ok (nt_desc n), ?at (off + 12 + ?pl + ?dl))"
    using read_bytes_at [of "(f_stream s)\<lparr>spos := off + 12 + ?pl\<rparr>" ?dl] len dl small bytes
    by (simp add: on_file_run length_encode)
  have gnu: "?name = Some (lit ''GNU'') \<longleftrightarrow> owned_by_gnu n"
    by (auto simp: owned_by_gnu_def latin1_gnu)
  have nd: "note_desc st (type_name st n) ?name (nt_desc n) d' o' = ret (plain_desc (type_name st n) (owned_by_gnu n) (nt_desc n))" for d' o'
    using ok by (intro note_desc_plain gnu) (auto simp: note_ok_def)
  have r: "roundup (int ?dl) 2 = int (length (padded (nt_desc n)))" using length_padded [of "nt_desc n"] by simp
  show ?thesis
    by (simp add: read_note_def mbind_def hdr seek name desc add_item_def get_int_def nd note_value_def length_encode r Let_def)
      (simp split: option.split)
qed

text \<open>The notes that are read: a header and at least one more byte must be left, so a note that is just a header
  is passed over where the section ends with it.\<close>

definition notes_reached :: "elf_structs \<Rightarrow> bytes \<Rightarrow> note_text list \<Rightarrow> note_text list" where
  "notes_reached st fill ns =
     (if fill = [] \<and> ns \<noteq> [] \<and> length (encode_note st (last ns)) = 12 then butlast ns else ns)"

definition encode_notes :: "elf_structs \<Rightarrow> note_text list \<Rightarrow> bytes" where
  "encode_notes st ns = concat (map (encode_note st) ns)"

lemma encode_notes_simps [simp]:
  "encode_notes st [] = []" "encode_notes st (n # ns) = encode_note st n @ encode_notes st ns"
  by (simp_all add: encode_notes_def)

lemma length_encode_notes: "12 * length ns \<le> length (encode_notes st ns)"
  by (induction ns) (simp_all add: length_encode)

lemma notes_loop_encoded:
  assumes "fdata s = pre @ encode_notes st ns @ fill @ post" "length pre = off" "length fill \<le> 12"
    and "\<forall>n \<in> set ns. note_ok st n" "off + length (encode_notes st ns) < 2 ^ 62" "length ns < fuel"
  shows "fst (notes_loop fuel st 12 (int off) (int (off + length (encode_notes st ns) + length fill)) s) =
    Ok (note_values st off (notes_reached st fill ns))"
  using assms
proof (induction ns arbitrary: pre off s fuel)
  case Nil
  then show ?case by (cases fuel) (auto simp: notes_reached_def)
next
  case (Cons n ns)
  then obtain f where f: "fuel = Suc f" "length ns < f" by (cases fuel) auto
  let ?off = "off + length (encode_note st n)"
  let ?stop = "int (off + length (encode_notes st (n # ns)) + length fill)"
  show ?case
  proof (cases "fill = [] \<and> ns = [] \<and> length (encode_note st n) = 12")
    case True
    then show ?thesis by (simp add: f notes_reached_def)
  next
    case False
    then have more: "int off + 12 < ?stop"
      using length_encode_notes [of ns st] length_encode [of st n] by (cases ns; cases fill) (auto simp: length_greater_0_conv [symmetric] simp del: length_greater_0_conv)
    have "\<exists>t. read_note st 12 (int off) s = (Ok (note_value st off n, int ?off), t) \<and> fdata t = fdata s"
      using read_encoded [of s pre st n "encode_notes st ns @ fill @ post" off] Cons.prems by simp
    then obtain t where t: "read_note st 12 (int off) s = (Ok (note_value st off n, int ?off), t)" "fdata t = fdata s" by blast
    have "fst (notes_loop f st 12 (int ?off) (int (?off + length (encode_notes st ns) + length fill)) t) =
        Ok (note_values st ?off (notes_reached st fill ns))"
      using Cons.prems t(2) f by (intro Cons.IH [where pre = "pre @ encode_note st n"]) simp_all
    then obtain t' where "notes_loop f st 12 (int ?off) ?stop t = (Ok (note_values st ?off (notes_reached st fill ns)), t')"
      by (cases "notes_loop f st 12 (int ?off) ?stop t") (simp add: add.assoc)
    moreover have "note_values st off (notes_reached st fill (n # ns)) =
        note_value st off n # note_values st ?off (notes_reached st fill ns)"
      using False by (auto simp: notes_reached_def)
    ultimately show ?thesis
      using more t(1) by (simp add: f mbind_def)
  qed
qed

text \<open>C20: Notes are read back as they were written: type, name and descriptor of each, its offset and its size with the
  padding, a GNU build id in hexadecimal and a version of the gold linker as a text.  At most twelve bytes may follow the
  last note in the section.  A note that is a header alone and ends the section is not read.\<close>

theorem notes_roundtrip:
  assumes "fdata s = pre @ encode_notes st ns @ fill @ post" "length fill \<le> 12"
    and "\<forall>n \<in> set ns. note_ok st n" "length pre + length (encode_notes st ns) < 2 ^ 62"
  shows "fst (iter_notes st (int (length pre)) (int (length (encode_notes st ns) + length fill)) s) =
    Ok (note_values st (length pre) (notes_reached st fill ns))"
proof -
  have "fst (notes_loop (nat (int (length (encode_notes st ns) + length fill)) + 1) st 12 (int (length pre))
      (int (length pre + length (encode_notes st ns) + length fill)) s) = Ok (note_values st (length pre) (notes_reached st fill ns))"
    using length_encode_notes [of ns st] assms by (intro notes_loop_encoded) simp_all
  then show ?thesis
    by (simp add: iter_notes_def nhdr.sizeof_ok add.assoc del: notes_loop.simps)
qed

text \<open>A build id, a note of another owner, and a bare header, which is the one passed over.\<close>

definition note_structs :: elf_structs where
  "note_structs = \<lparr>little_endian = True, elfclass = 64, e_type = VNone, e_machine = VNone, e_ident_osabi = VNone\<rparr>"

definition two_notes :: "note_text list" where
  "two_notes = [\<lparr>nt_type = 3, nt_name = Some [71, 78, 85], nt_desc = [0xde, 0xad, 0xbe, 0xef, 1]\<rparr>,
     \<lparr>nt_type = 1, nt_name = Some [67, 79, 82, 69], nt_desc = [7]\<rparr>, \<lparr>nt_type = 0, nt_name = None, nt_desc = []\<rparr>]"

lemma two_note_types:
  "enum_name (n_type_dict note_structs) 3 = VLit ''NT_GNU_BUILD_ID''"
  "enum_name (n_type_dict note_structs) 1 = VLit ''NT_GNU_ABI_TAG''"
  "enum_name (n_type_dict note_structs) 0 = VInt 0"
  by code_simp+

lemma two_notes_ok:
  "\<forall>n \<in> set two_notes. note_ok note_structs n" "length (encode_notes note_structs two_notes) = 60"
  by (simp_all add: two_notes_def note_ok_def type_name_def two_note_types owned_by_gnu_def name_bytes_def length_encode padded_def)

theorem notes_roundtrip_witness:
  "fst (iter_notes note_structs (int (length ([0, 0] :: bytes))) (int (length (encode_notes note_structs two_notes) + length ([] :: bytes)))
      \<lparr>f_stream = bytesio ([0, 0] @ encode_notes note_structs two_notes @ [] @ [255]), f_names = None\<rparr>) =
    Ok (note_values note_structs (length ([0, 0] :: bytes)) (notes_reached note_structs [] two_notes))"
  by (rule notes_roundtrip [where post = "[255]"]) (simp_all add: two_notes_ok [simplified])

end
