(* ===== verification/ElfDynamic.thy ===== *)
theory ElfDynamic
  imports ElfHash ElfRelocation
begin

text \<open>
  \<^verbatim>\<open>elftools/elf/dynamic.py\<close>: the tags of a dynamic section or segment, the tables they point to,
  and the symbols of a file without section headers.

  The object is a record: where its tags are, and what it keeps once computed (the number of tags,
  the string table, the number of symbols).  Operations that fill such a field return the new
  record.  The generators of tags are loops with a body that may stop them.
\<close>

section \<open>String tables and tags\<close>

datatype strtab = SectionStrings elf_section | BareStrings int

text \<open>A section that is no string table has no \<^verbatim>\<open>get_string\<close>; the bare table decodes strictly.\<close>

definition strtab_get_string :: "strtab \<Rightarrow> int \<Rightarrow> pystr F" where
  "strtab_get_string tab offset = (case tab of
     SectionStrings sec \<Rightarrow> if s_kind sec = StringTableSection then get_string sec offset else raise AttributeError
   | BareStrings table_offset \<Rightarrow>
       mbind (on_file (parse_cstring_from_stream (Some (table_offset + offset)))) (\<lambda>s.
         (case s of None \<Rightarrow> ret [] | Some b \<Rightarrow> lift_res (decode_utf8 b))))"

definition HANDLED_TAGS :: "string list" where
  "HANDLED_TAGS = [''DT_NEEDED'', ''DT_RPATH'', ''DT_RUNPATH'', ''DT_SONAME'', ''DT_SUNW_FILTER'']"

text \<open>A tag object: its entry and, for the handled tags, the string.\<close>

record dtag =
  dt_entry :: val
  dt_string :: "pystr option"

definition DynamicTag_init :: "val \<Rightarrow> strtab option \<Rightarrow> dtag F" where
  "DynamicTag_init entry stringtable = (case stringtable of
     None \<Rightarrow> raise ELFError
   | Some tab \<Rightarrow>
       mbind (lift_res (get_attr entry ''d_tag'')) (\<lambda>ty.
       if \<exists>t \<in> set HANDLED_TAGS. ty = VLit t then
         mbind (lift_res (rbind (get_attr entry ''d_val'') as_int)) (\<lambda>v.
         mbind (strtab_get_string tab v) (\<lambda>s. ret \<lparr>dt_entry = entry, dt_string = Some s\<rparr>))
       else ret \<lparr>dt_entry = entry, dt_string = None\<rparr>))"

section \<open>The table of tags\<close>

record dynamic =
  dy_offset :: int
  dy_empty :: bool
  dy_num_tags :: int
  dy_strtab :: "strtab option"

definition Dynamic_init :: "strtab option \<Rightarrow> int \<Rightarrow> bool \<Rightarrow> dynamic" where
  "Dynamic_init stringtable position no_tags =
     \<lparr>dy_offset = position, dy_empty = no_tags, dy_num_tags = (if no_tags then 0 else -1), dy_strtab = stringtable\<rparr>"

definition get_raw_tag :: "elf_structs \<Rightarrow> dynamic \<Rightarrow> int \<Rightarrow> val F" where
  "get_raw_tag st dy n =
     (if dy_num_tags dy \<noteq> -1 \<and> n \<ge> dy_num_tags dy then raise IndexError
      else mbind (lift_res (sizeof (Elf_Dyn st) [])) (\<lambda>tagsize.
        on_file (struct_parse (Elf_Dyn st) (Some (dy_offset dy + n * tagsize)))))"

text \<open>
  The generator \<^verbatim>\<open>_iter_tags\<close> with the loop that consumes it: the body takes an accumulator and a
  tag and says whether to go on.  Every round reads a tag of at least eight bytes.
\<close>

primrec tags_loop ::
  "nat \<Rightarrow> elf_structs \<Rightarrow> dynamic \<Rightarrow> val option \<Rightarrow> int \<Rightarrow> ('a \<Rightarrow> val \<Rightarrow> ('a \<times> bool) F) \<Rightarrow> 'a \<Rightarrow> 'a F" where
  "tags_loop 0 st dy ty n body acc = lift_res NoFuel"
| "tags_loop (Suc fuel) st dy ty n body acc =
     mbind (get_raw_tag st dy n) (\<lambda>tag.
     mbind (lift_res (get_item tag ''d_tag'')) (\<lambda>d_tag.
     mbind (if ty = None \<or> ty = Some d_tag then body acc tag else ret (acc, True)) (\<lambda>(acc', more).
       if \<not> more \<or> d_tag = VLit ''DT_NULL'' then ret acc'
       else tags_loop fuel st dy ty (n + 1) body acc')))"

definition for_tags :: "elf_structs \<Rightarrow> dynamic \<Rightarrow> val option \<Rightarrow> ('a \<Rightarrow> val \<Rightarrow> ('a \<times> bool) F) \<Rightarrow> 'a \<Rightarrow> 'a F" where
  "for_tags st dy ty body acc = (\<lambda>s.
     if dy_empty dy then (Ok acc, s)
     else tags_loop (length (fdata s) + 2) st dy ty 0 body acc s)"

text \<open>\<^verbatim>\<open>next(self.elffile.address_offsets(ptr), None)\<close>: the segments are fetched until one has the
  address.\<close>

primrec first_offset :: "elffile \<Rightarrow> int \<Rightarrow> int list \<Rightarrow> int option F" where
  "first_offset ef ptr [] = ret None"
| "first_offset ef ptr (i # is) =
     mbind (get_segment ef i) (\<lambda>seg.
     mbind (lift_res (seg_get seg ''p_type'')) (\<lambda>ty.
     mbind (if ty = VLit ''PT_LOAD'' then lift_res (region_offset ptr 1 seg) else ret []) (\<lambda>offs.
       (case offs of off # _ \<Rightarrow> ret (Some off) | [] \<Rightarrow> first_offset ef ptr is))))"

definition get_table_offset :: "elffile \<Rightarrow> dynamic \<Rightarrow> string \<Rightarrow> (int option \<times> int option) F" where
  "get_table_offset ef dy tag_name =
     mbind (for_tags (ef_structs ef) dy (Some (VLit tag_name))
       (\<lambda>_ tag. mbind (lift_res (get_int tag ''d_ptr'')) (\<lambda>p. ret (Some p, False))) None) (\<lambda>ptr.
     mbind (case ptr of
         None \<Rightarrow> ret None
       | Some p \<Rightarrow> if p = 0 then ret None
           else mbind (num_segments ef) (\<lambda>n. first_offset ef p [0..n - 1])) (\<lambda>offset.
       ret (ptr, offset)))"

definition get_stringtable :: "elffile \<Rightarrow> dynamic \<Rightarrow> (strtab option \<times> dynamic) F" where
  "get_stringtable ef dy = (case dy_strtab dy of
     Some tab \<Rightarrow> ret (Some tab, dy)
   | None \<Rightarrow>
       mbind (get_table_offset ef dy ''DT_STRTAB'') (\<lambda>(_, table_offset). (case table_offset of
         Some off \<Rightarrow> ret (Some (BareStrings off), dy\<lparr>dy_strtab := Some (BareStrings off)\<rparr>)
       | None \<Rightarrow>
           mbind (get_section_by_name ef (lit ''.dynstr'')) (\<lambda>sec.
             (let tab = map_option SectionStrings sec in ret (tab, dy\<lparr>dy_strtab := tab\<rparr>))))))"

text \<open>The tags as objects; the loop threads the record, for the string table that it finds.\<close>

definition for_dtags ::
  "elffile \<Rightarrow> dynamic \<Rightarrow> val option \<Rightarrow> ('a \<Rightarrow> dtag \<Rightarrow> ('a \<times> bool) F) \<Rightarrow> 'a \<Rightarrow> ('a \<times> dynamic) F" where
  "for_dtags ef dy ty body acc =
     for_tags (ef_structs ef) dy ty (\<lambda>(acc, dy) tag.
       mbind (get_stringtable ef dy) (\<lambda>(tab, dy').
       mbind (DynamicTag_init tag tab) (\<lambda>t.
       mbind (body acc t) (\<lambda>(acc', more). ret ((acc', dy'), more))))) (acc, dy)"

definition iter_tags :: "elffile \<Rightarrow> dynamic \<Rightarrow> val option \<Rightarrow> (dtag list \<times> dynamic) F" where
  "iter_tags ef dy ty = for_dtags ef dy ty (\<lambda>ts t. ret (ts @ [t], True)) []"

definition get_tag :: "elffile \<Rightarrow> dynamic \<Rightarrow> int \<Rightarrow> (dtag \<times> dynamic) F" where
  "get_tag ef dy n =
     mbind (get_raw_tag (ef_structs ef) dy n) (\<lambda>tag.
     mbind (get_stringtable ef dy) (\<lambda>(tab, dy').
     mbind (DynamicTag_init tag tab) (\<lambda>t. ret (t, dy'))))"

primrec count_tags :: "nat \<Rightarrow> elffile \<Rightarrow> dynamic \<Rightarrow> int \<Rightarrow> (int \<times> dynamic) F" where
  "count_tags 0 ef dy n = lift_res NoFuel"
| "count_tags (Suc fuel) ef dy n =
     mbind (get_tag ef dy n) (\<lambda>(tag, dy').
     mbind (lift_res (get_attr (dt_entry tag) ''d_tag'')) (\<lambda>ty.
       if ty = VLit ''DT_NULL'' then ret (n + 1, dy'\<lparr>dy_num_tags := n + 1\<rparr>)
       else count_tags fuel ef dy' (n + 1)))"

definition num_tags :: "elffile \<Rightarrow> dynamic \<Rightarrow> (int \<times> dynamic) F" where
  "num_tags ef dy = (\<lambda>s.
     if dy_num_tags dy \<noteq> -1 then (Ok (dy_num_tags dy, dy), s)
     else count_tags (length (fdata s) + 2) ef dy 0 s)"

section \<open>Relocation tables\<close>

text \<open>A table's offset is \<open>None\<close> when no segment holds its address.\<close>

datatype dyn_table =
    DynRel (dr_offset: "int option") (dr_size: int) (dr_is_rela: bool) (dr_entry_size: int)
  | DynRelr (dr_offset: "int option") (dr_size: int) (dr_entry_size: int)

text \<open>\<^verbatim>\<open>next(self.iter_tags(name))['d_val']\<close>.\<close>

definition next_tag_val :: "elffile \<Rightarrow> dynamic \<Rightarrow> string \<Rightarrow> (val \<times> dynamic) F" where
  "next_tag_val ef dy nm =
     mbind (for_dtags ef dy (Some (VLit nm)) (\<lambda>_ t. ret (Some t, False)) None) (\<lambda>(r, dy'). (case r of
         None \<Rightarrow> raise StopIteration
       | Some t \<Rightarrow> mbind (lift_res (get_item (dt_entry t) ''d_val'')) (\<lambda>v. ret (v, dy'))))"

definition has_tag :: "elffile \<Rightarrow> dynamic \<Rightarrow> string \<Rightarrow> (bool \<times> dynamic) F" where
  "has_tag ef dy nm = mbind (iter_tags ef dy (Some (VLit nm))) (\<lambda>(ts, dy'). ret (ts \<noteq> [], dy'))"

definition rel_table :: "elffile \<Rightarrow> dynamic \<Rightarrow> string \<Rightarrow> string \<Rightarrow> string \<Rightarrow> bool \<Rightarrow> (dyn_table \<times> dynamic) F" where
  "rel_table ef dy tag szt entt is_rela =
     mbind (get_table_offset ef dy tag) (\<lambda>(_, off).
     mbind (next_tag_val ef dy szt) (\<lambda>(sz, dy).
     mbind (lift_res (as_int sz)) (\<lambda>sz.
     mbind (lift_res (sizeof (entry_struct (ef_structs ef) is_rela) [])) (\<lambda>n.
     mbind (next_tag_val ef dy entt) (\<lambda>(relentsz, dy).
     mbind (elf_assert (VInt n = relentsz)) (\<lambda>_. ret (DynRel off sz is_rela n, dy)))))))"

definition relr_table :: "elffile \<Rightarrow> dynamic \<Rightarrow> (dyn_table \<times> dynamic) F" where
  "relr_table ef dy =
     mbind (get_table_offset ef dy ''DT_RELR'') (\<lambda>(_, off).
     mbind (next_tag_val ef dy ''DT_RELRSZ'') (\<lambda>(sz, dy).
     mbind (next_tag_val ef dy ''DT_RELRENT'') (\<lambda>(ent, dy).
     mbind (lift_res (as_int sz)) (\<lambda>sz.
     mbind (lift_res (sizeof (Elf_Relr (ef_structs ef)) [])) (\<lambda>n.
     mbind (elf_assert (VInt n = ent)) (\<lambda>_. ret (DynRelr off sz n, dy)))))))"

text \<open>The constant \<open>ENUM_D_TAG['DT_RELA']\<close> is 7.\<close>

definition jmprel_table :: "elffile \<Rightarrow> dynamic \<Rightarrow> (dyn_table \<times> dynamic) F" where
  "jmprel_table ef dy =
     mbind (get_table_offset ef dy ''DT_JMPREL'') (\<lambda>(_, off).
     mbind (next_tag_val ef dy ''DT_PLTRELSZ'') (\<lambda>(sz, dy).
     mbind (next_tag_val ef dy ''DT_PLTREL'') (\<lambda>(kind, dy).
     mbind (lift_res (as_int sz)) (\<lambda>sz.
       (let is_rela = (map_option VInt (map_of (fst ENUM_D_TAG) ''DT_RELA'') = Some kind) in
        mbind (lift_res (sizeof (entry_struct (ef_structs ef) is_rela) [])) (\<lambda>n.
          ret (DynRel off sz is_rela n, dy)))))))"

definition add_table ::
  "elffile \<Rightarrow> string \<Rightarrow> string \<Rightarrow> (dynamic \<Rightarrow> (dyn_table \<times> dynamic) F) \<Rightarrow> (string \<times> dyn_table) list \<times> dynamic
    \<Rightarrow> ((string \<times> dyn_table) list \<times> dynamic) F" where
  "add_table ef tag key build acc = (case acc of (result, dy) \<Rightarrow>
     mbind (has_tag ef dy tag) (\<lambda>(there, dy).
     if there then mbind (build dy) (\<lambda>(t, dy). ret (AList.update key t result, dy))
     else ret (result, dy)))"

definition get_relocation_tables :: "elffile \<Rightarrow> dynamic \<Rightarrow> ((string \<times> dyn_table) list \<times> dynamic) F" where
  "get_relocation_tables ef dy =
     mbind (add_table ef ''DT_REL'' ''REL'' (\<lambda>dy. rel_table ef dy ''DT_REL'' ''DT_RELSZ'' ''DT_RELENT'' False) ([], dy)) (\<lambda>acc.
     mbind (add_table ef ''DT_RELA'' ''RELA'' (\<lambda>dy. rel_table ef dy ''DT_RELA'' ''DT_RELASZ'' ''DT_RELAENT'' True) acc) (\<lambda>acc.
     mbind (add_table ef ''DT_RELR'' ''RELR'' (relr_table ef) acc) (\<lambda>acc.
       add_table ef ''DT_JMPREL'' ''JMPREL'' (jmprel_table ef) acc)))"

section \<open>Sections and segments\<close>

definition dynamic_of_section :: "elf_section \<Rightarrow> dynamic res" where
  "dynamic_of_section sec =
     rbind (sec_int sec ''sh_offset'') (\<lambda>off.
     rbind (sec_get sec ''sh_type'') (\<lambda>ty.
       Ok (Dynamic_init (map_option SectionStrings (s_link sec)) off (ty = VLit ''SHT_NOBITS''))))"

definition dynamic_of_segment :: "elf_segment \<Rightarrow> dynamic res" where
  "dynamic_of_segment seg =
     rbind (seg_int seg ''p_offset'') (\<lambda>off.
     rbind (seg_int seg ''p_filesz'') (\<lambda>sz.
       Ok (Dynamic_init (map_option SectionStrings (g_strtab seg)) off (sz = 0))))"

section \<open>Symbols of a segment\<close>

text \<open>The count out of one of the hash tables.\<close>

definition hash_num_symbols :: "elffile \<Rightarrow> dynamic \<Rightarrow> int option F" where
  "hash_num_symbols ef dy =
     mbind (get_table_offset ef dy ''DT_GNU_HASH'') (\<lambda>(_, gnu_off). (case gnu_off of
       Some off \<Rightarrow>
         mbind (GNUHashTable_init ef off) (\<lambda>params.
         mbind (gnu_number_of_symbols (ef_structs ef) params) (\<lambda>n. ret (Some n)))
     | None \<Rightarrow>
         mbind (get_table_offset ef dy ''DT_HASH'') (\<lambda>(_, off). (case off of
           Some off \<Rightarrow>
             mbind (ELFHashTable_init ef off) (\<lambda>params.
             mbind (lift_res (sysv_number_of_symbols params)) (\<lambda>n. ret (Some n)))
         | None \<Rightarrow> ret None))))"

text \<open>The nearest pointer above the table, among all tags.\<close>

definition nearest_step :: "int \<Rightarrow> int \<Rightarrow> int option \<Rightarrow> dtag \<Rightarrow> (int option \<times> bool) F" where
  "nearest_step symbol_size tab_ptr nearest tag =
     mbind (lift_res (get_int (dt_entry tag) ''d_ptr'')) (\<lambda>tag_ptr.
     mbind (lift_res (get_item (dt_entry tag) ''d_tag'')) (\<lambda>ty.
     mbind (if ty = VLit ''DT_SYMENT'' then
              mbind (lift_res (get_int (dt_entry tag) ''d_val'')) (\<lambda>v.
                if symbol_size \<noteq> v then raise ELFError else ret ())
            else ret ()) (\<lambda>_.
       ret (if tag_ptr > tab_ptr \<and> (case nearest of None \<Rightarrow> True | Some p \<Rightarrow> p > tag_ptr) then Some tag_ptr else nearest,
            True))))"

text \<open>Else the end of a segment (the last one) that holds the table's address.\<close>

definition segment_end :: "int \<Rightarrow> int option \<Rightarrow> elf_segment \<Rightarrow> int option res" where
  "segment_end tab_ptr nearest seg =
     rbind (seg_int seg ''p_vaddr'') (\<lambda>vaddr.
     if vaddr \<le> tab_ptr then
       rbind (seg_int seg ''p_filesz'') (\<lambda>filesz.
         Ok (if tab_ptr \<le> vaddr + filesz then Some (vaddr + filesz) else nearest))
     else Ok nearest)"

primrec segment_ends :: "elffile \<Rightarrow> int \<Rightarrow> int option \<Rightarrow> int list \<Rightarrow> int option F" where
  "segment_ends ef tab_ptr nearest [] = ret nearest"
| "segment_ends ef tab_ptr nearest (i # is) =
     mbind (get_segment ef i) (\<lambda>seg.
     mbind (lift_res (segment_end tab_ptr nearest seg)) (\<lambda>nearest. segment_ends ef tab_ptr nearest is))"

text \<open>\<^verbatim>\<open>(end_ptr - tab_ptr) // self._symbol_size\<close>, where \<^verbatim>\<open>end_ptr\<close> may be \<^verbatim>\<open>None\<close>; the check after
  it for a missing number is never reached.\<close>

definition symbols_up_to :: "int option \<Rightarrow> int \<Rightarrow> int \<Rightarrow> int res" where
  "symbols_up_to end_ptr tab_ptr symbol_size = (case end_ptr of
     None \<Rightarrow> Err TypeError | Some e \<Rightarrow> Ok ((e - tab_ptr) div symbol_size))"

definition table_num_symbols :: "elffile \<Rightarrow> dynamic \<Rightarrow> (int \<times> dynamic) F" where
  "table_num_symbols ef dy =
     mbind (get_table_offset ef dy ''DT_SYMTAB'') (\<lambda>(tab_ptr, tab_offset). (case (tab_ptr, tab_offset) of
       (Some tab_ptr, Some _) \<Rightarrow>
         mbind (lift_res (sizeof (Elf_Sym (ef_structs ef)) [])) (\<lambda>symbol_size.
         mbind (for_dtags ef dy None (nearest_step symbol_size tab_ptr) None) (\<lambda>(nearest, dy).
         mbind (if nearest = None then
                  mbind (num_segments ef) (\<lambda>n. segment_ends ef tab_ptr None [0..n - 1])
                else ret nearest) (\<lambda>nearest.
         mbind (lift_res (symbols_up_to nearest tab_ptr symbol_size)) (\<lambda>n. ret (n, dy)))))
     | _ \<Rightarrow> raise ELFError))"

text \<open>The number is kept once computed (\<open>cache\<close>).\<close>

definition seg_num_symbols :: "elffile \<Rightarrow> dynamic \<Rightarrow> int option \<Rightarrow> (int \<times> dynamic) F" where
  "seg_num_symbols ef dy cache = (case cache of
     Some n \<Rightarrow> ret (n, dy)
   | None \<Rightarrow> mbind (hash_num_symbols ef dy) (\<lambda>r. (case r of
       Some n \<Rightarrow> ret (n, dy)
     | None \<Rightarrow> table_num_symbols ef dy)))"

definition seg_get_symbol :: "elffile \<Rightarrow> dynamic \<Rightarrow> int \<Rightarrow> (symbol \<times> dynamic) F" where
  "seg_get_symbol ef dy n =
     mbind (get_table_offset ef dy ''DT_SYMTAB'') (\<lambda>(tab_ptr, tab_offset). (case (tab_ptr, tab_offset) of
       (Some _, Some off) \<Rightarrow>
         mbind (lift_res (sizeof (Elf_Sym (ef_structs ef)) [])) (\<lambda>symbol_size.
         mbind (on_file (struct_parse (Elf_Sym (ef_structs ef)) (Some (off + n * symbol_size)))) (\<lambda>entry.
         mbind (get_stringtable ef dy) (\<lambda>(tab, dy). (case tab of
           None \<Rightarrow> raise AttributeError
         | Some tab \<Rightarrow>
             mbind (lift_res (get_int entry ''st_name'')) (\<lambda>nm.
             mbind (strtab_get_string tab nm) (\<lambda>name.
               ret (\<lparr>sym_entry = entry, sym_name = name\<rparr>, dy)))))))
     | _ \<Rightarrow> raise ELFError))"

primrec seg_symbols :: "elffile \<Rightarrow> dynamic \<Rightarrow> int list \<Rightarrow> (symbol list \<times> dynamic) F" where
  "seg_symbols ef dy [] = ret ([], dy)"
| "seg_symbols ef dy (i # is) =
     mbind (seg_get_symbol ef dy i) (\<lambda>(sy, dy).
     mbind (seg_symbols ef dy is) (\<lambda>(sys, dy). ret (sy # sys, dy)))"

definition seg_iter_symbols :: "elffile \<Rightarrow> dynamic \<Rightarrow> int option \<Rightarrow> (symbol list \<times> dynamic) F" where
  "seg_iter_symbols ef dy cache =
     mbind (seg_num_symbols ef dy cache) (\<lambda>(n, dy). seg_symbols ef dy [0..n - 1])"

text \<open>The lookup by name builds the map of names first.\<close>

definition seg_get_symbol_by_name :: "elffile \<Rightarrow> dynamic \<Rightarrow> int option \<Rightarrow> pystr \<Rightarrow> (symbol list option \<times> dynamic) F" where
  "seg_get_symbol_by_name ef dy cache name =
     mbind (seg_iter_symbols ef dy cache) (\<lambda>(sys, dy). (case map_of (add_names [] 0 sys) name of
         None \<Rightarrow> ret (None, dy)
       | Some nums \<Rightarrow> mbind (seg_symbols ef dy nums) (\<lambda>(found, dy). ret (Some found, dy))))"

end
