(* ===== verification/DynamicProperties.thy ===== *)
theory DynamicProperties
  imports ElfDynamic Returning
begin

text \<open>Properties of \<^verbatim>\<open>elf/dynamic.py\<close>: what the tags of a dynamic table are.\<close>

section \<open>The tags of a table\<close>

text \<open>Entry \<open>i\<close> of the table in the file's contents, and the number of whole entries there.\<close>

definition tag_at :: "elf_structs \<Rightarrow> int \<Rightarrow> bytes \<Rightarrow> nat \<Rightarrow> val" where
  "tag_at st off d i = dyn_value st (bytes_at d (nat off + i * (2 * wsize st)) (2 * wsize st))"

definition tag_type :: "elf_structs \<Rightarrow> int \<Rightarrow> bytes \<Rightarrow> nat \<Rightarrow> val" where
  "tag_type st off d i = (case get_item (tag_at st off d i) ''d_tag'' of Ok v \<Rightarrow> v | _ \<Rightarrow> VNone)"

definition whole_tags :: "elf_structs \<Rightarrow> int \<Rightarrow> bytes \<Rightarrow> nat" where
  "whole_tags st off d = (length d - nat off) div (2 * wsize st)"

text \<open>The tags up to the first \<^verbatim>\<open>DT_NULL\<close>; \<open>None\<close> when the file ends before one.\<close>

fun tags_from :: "elf_structs \<Rightarrow> int \<Rightarrow> bytes \<Rightarrow> nat list \<Rightarrow> nat list option" where
  "tags_from st off d [] = None"
| "tags_from st off d (i # is) =
     (if tag_type st off d i = VLit ''DT_NULL'' then Some [i] else map_option ((#) i) (tags_from st off d is))"

lemma tag_type_item: "get_item (tag_at st off d i) ''d_tag'' = Ok (tag_type st off d i)"
  by (simp add: tag_type_def tag_at_def dyn_value_def Let_def)

definition collect :: "val list \<Rightarrow> val \<Rightarrow> (val list \<times> bool) F" where
  "collect ts t = ret (ts @ [t], True)"

lemma collect_run: "collect ts t s = (Ok (ts @ [t], True), s)"
  by (simp add: collect_def)

lemma whole_tags_le: "i < whole_tags st off d \<longleftrightarrow> nat off + i * (2 * wsize st) + 2 * wsize st \<le> length d"
  if "0 \<le> off" "nat off \<le> length d"
proof -
  have pos: "0 < 2 * wsize st" by (simp add: wsize_def)
  have "i < whole_tags st off d \<longleftrightarrow> Suc i \<le> (length d - nat off) div (2 * wsize st)"
    by (simp add: whole_tags_def Suc_le_eq)
  also have "\<dots> \<longleftrightarrow> Suc i * (2 * wsize st) \<le> length d - nat off"
    by (rule less_eq_div_iff_mult_less_eq [OF pos])
  also have "\<dots> \<longleftrightarrow> nat off + i * (2 * wsize st) + 2 * wsize st \<le> length d"
    using that by auto
  finally show ?thesis .
qed

lemma raw_tag_at:
  assumes "0 \<le> dy_offset dy" "nat (dy_offset dy) \<le> length (fdata s)" "length (fdata s) < 2 ^ 62" "dy_num_tags dy = -1"
  shows "i < whole_tags st (dy_offset dy) (fdata s) \<Longrightarrow>
      \<exists>t. get_raw_tag st dy (int i) s = (Ok (tag_at st (dy_offset dy) (fdata s) i), t) \<and> fdata t = fdata s"
    and "i = whole_tags st (dy_offset dy) (fdata s) \<Longrightarrow>
      \<exists>t. get_raw_tag st dy (int i) s = (Err ELFParseError, t) \<and> fdata t = fdata s"
proof -
  let ?p = "dy_offset dy + int i * int (2 * wsize st)"
  have p: "0 \<le> ?p" "nat ?p = nat (dy_offset dy) + i * (2 * wsize st)"
    using assms(1) by (simp_all add: nat_add_distrib nat_mult_distrib)
  have small: "i \<le> whole_tags st (dy_offset dy) (fdata s) \<Longrightarrow> ?p < 2 ^ 63"
  proof -
    assume "i \<le> whole_tags st (dy_offset dy) (fdata s)"
    then have "i * (2 * wsize st) \<le> length (fdata s) - nat (dy_offset dy)"
      unfolding whole_tags_def by (metis div_times_less_eq_dividend mult_le_mono1 order_trans)
    then have "nat ?p \<le> length (fdata s)" using p assms(2) by simp
    then show ?thesis using assms(3) p(1) by simp
  qed
  have size: "sizeof (Elf_Dyn st) [] = Ok (int (2 * wsize st))"
    by (rule dyn.sizeof_ok)
  note in_file = whole_tags_le [OF assms(1,2), of i st]
  show "\<exists>t. get_raw_tag st dy (int i) s = (Ok (tag_at st (dy_offset dy) (fdata s) i), t) \<and> fdata t = fdata s"
    if "i < whole_tags st (dy_offset dy) (fdata s)"
    using dyn.struct_parse_at [OF p(1) small, of st "f_stream s" _] in_file that p assms(4) size
    by (simp add: get_raw_tag_def mbind_def on_file_run tag_at_def)
  show "\<exists>t. get_raw_tag st dy (int i) s = (Err ELFParseError, t) \<and> fdata t = fdata s"
    if "i = whole_tags st (dy_offset dy) (fdata s)"
    using dyn.struct_parse_error [OF p(1) small, of st "f_stream s"] in_file that p assms(4) size
    by (auto simp: get_raw_tag_def mbind_def on_file_run wsize_pos)
qed

definition chosen :: "elf_structs \<Rightarrow> int \<Rightarrow> bytes \<Rightarrow> val option \<Rightarrow> nat list \<Rightarrow> val list" where
  "chosen st off d ty is = map (tag_at st off d) (filter (\<lambda>j. ty = None \<or> ty = Some (tag_type st off d j)) is)"

lemma tags_loop_collect:
  assumes "0 \<le> dy_offset dy" "nat (dy_offset dy) \<le> length (fdata s)" "length (fdata s) < 2 ^ 62" "dy_num_tags dy = -1"
    and "i \<le> whole_tags st (dy_offset dy) (fdata s)" "whole_tags st (dy_offset dy) (fdata s) - i < fuel"
  shows "fst (tags_loop fuel st dy ty (int i) collect acc s) =
    (case tags_from st (dy_offset dy) (fdata s) [i..<whole_tags st (dy_offset dy) (fdata s)] of
       Some is \<Rightarrow> Ok (acc @ chosen st (dy_offset dy) (fdata s) ty is) | None \<Rightarrow> Err ELFParseError)"
  using assms
proof (induction fuel arbitrary: i acc s)
  case 0
  then show ?case by simp
next
  case (Suc fuel)
  let ?n = "whole_tags st (dy_offset dy) (fdata s)"
  show ?case
  proof (cases "i = ?n")
    case True
    then obtain t where "get_raw_tag st dy (int i) s = (Err ELFParseError, t)"
      using raw_tag_at(2) [OF Suc.prems(1-4), of i st] by auto
    then show ?thesis
      using True by (simp add: mbind_def)
  next
    case False
    then have i: "i < ?n" using Suc.prems(5) by simp
    then obtain t where t: "get_raw_tag st dy (int i) s = (Ok (tag_at st (dy_offset dy) (fdata s) i), t)" "fdata t = fdata s"
      using raw_tag_at(1) [OF Suc.prems(1-4), of i st] by auto
    have upt: "[i..<?n] = i # [Suc i..<?n]"
      using i by (simp add: upt_conv_Cons)
    show ?thesis
    proof (cases "tag_type st (dy_offset dy) (fdata s) i = VLit ''DT_NULL''")
      case True
      then show ?thesis
        using t by (simp add: mbind_def tag_type_item collect_run upt chosen_def)
    next
      case False
      have rest: "fst (tags_loop fuel st dy ty (int (Suc i)) collect acc' t) =
        (case tags_from st (dy_offset dy) (fdata t) [Suc i..<whole_tags st (dy_offset dy) (fdata t)] of
           Some is \<Rightarrow> Ok (acc' @ chosen st (dy_offset dy) (fdata t) ty is) | None \<Rightarrow> Err ELFParseError)" for acc'
        by (rule Suc.IH) (use Suc.prems t i in simp_all)
      have step: "tags_loop (Suc fuel) st dy ty (int i) collect acc s = tags_loop fuel st dy ty (int (Suc i)) collect
          (acc @ chosen st (dy_offset dy) (fdata s) ty [i]) t"
        using t False by (simp add: mbind_def tag_type_item collect_run chosen_def add.commute)
      show ?thesis
        unfolding step rest upt using t(2) False by (auto simp: chosen_def split: option.split)
    qed
  qed
qed

text \<open>C21: The tags of a dynamic table in the file are its entries up to and including the first
  \<^verbatim>\<open>DT_NULL\<close>, of the asked type if one is asked for; a file that ends before a \<^verbatim>\<open>DT_NULL\<close> is an
  \<open>ELFParseError\<close>.  In particular the iteration always ends.\<close>

theorem dynamic_tags:
  assumes "0 \<le> dy_offset dy" "nat (dy_offset dy) \<le> length (fdata s)" "length (fdata s) < 2 ^ 62"
    and "dy_num_tags dy = -1" "\<not> dy_empty dy"
  shows "fst (for_tags st dy ty collect [] s) =
    (case tags_from st (dy_offset dy) (fdata s) [0..<whole_tags st (dy_offset dy) (fdata s)] of
       Some is \<Rightarrow> Ok (chosen st (dy_offset dy) (fdata s) ty is) | None \<Rightarrow> Err ELFParseError)"
proof -
  have "whole_tags st (dy_offset dy) (fdata s) \<le> length (fdata s)"
    unfolding whole_tags_def by (rule order_trans [OF div_le_dividend]) simp
  then show ?thesis
    using tags_loop_collect [OF assms(1-4), of 0 st "length (fdata s) + 2" ty "[]"] assms(5)
    by (simp add: for_tags_def del: tags_loop.simps split: option.splits)
qed

definition dyn_structs :: elf_structs where
  "dyn_structs = \<lparr>little_endian = True, elfclass = 32, e_type = VNone, e_machine = VNone, e_ident_osabi = VNone\<rparr>"

definition dyn_state :: fstate where
  "dyn_state = \<lparr>f_stream = bytesio [9, 9, 9, 9, 1, 0, 0, 0, 7, 0, 0, 0, 5, 0, 0, 0, 6, 0, 0, 0, 0, 0, 0, 0, 0, 0, 0, 0, 1, 0, 0, 0],
     f_names = None\<rparr>"

theorem dynamic_tags_witness:
  "fst (for_tags dyn_structs (Dynamic_init None 4 False) (Some (VLit ''DT_NEEDED'')) collect [] dyn_state) =
    Ok [VCont [(''d_tag'', VLit ''DT_NEEDED''), (''d_val'', VInt 7), (''d_ptr'', VInt 7)]]"
proof -
  let ?dy = "Dynamic_init None 4 False"
  have "fst (for_tags dyn_structs ?dy (Some (VLit ''DT_NEEDED'')) collect [] dyn_state) =
    (case tags_from dyn_structs (dy_offset ?dy) (fdata dyn_state) [0..<whole_tags dyn_structs (dy_offset ?dy) (fdata dyn_state)] of
       Some is \<Rightarrow> Ok (chosen dyn_structs (dy_offset ?dy) (fdata dyn_state) (Some (VLit ''DT_NEEDED'')) is) | None \<Rightarrow> Err ELFParseError)"
    by (rule dynamic_tags) (simp_all add: Dynamic_init_def dyn_state_def)
  also have "\<dots> = Ok [VCont [(''d_tag'', VLit ''DT_NEEDED''), (''d_val'', VInt 7), (''d_ptr'', VInt 7)]]"
    by code_simp
  finally show ?thesis .
qed

end
