(* ===== verification/ElfAttributes.thy ===== *)
theory ElfAttributes
  imports ReadOnly
begin

text \<open>
  The build attributes of \<^verbatim>\<open>elftools/elf/sections.py\<close> (ARM and RISC-V): a section has subsections,
  these have subsubsections, these have attributes.  All of them read the file's stream where it
  stands; a generator is modelled as the list it yields when nothing else moves the stream
  (\<^verbatim>\<open>subsections\<close>, \<^verbatim>\<open>subsubsections\<close>, \<^verbatim>\<open>attributes\<close>).
\<close>

text \<open>The extra of an attribute is a list, or one value, here a list of one.\<close>

datatype attribute = Attribute (a_tag: val) (a_value: attr_value) (a_extra: "val list option")
  and attr_value = Plain val | Nested attribute

text \<open>The class of the attributes.\<close>

datatype attr_class = ARMAttribute | RISCVAttribute

definition file_parse :: "con \<Rightarrow> val F" where
  "file_parse c = on_file (struct_parse c None)"

definition file_tell :: "int F" where
  "file_tell = (\<lambda>s. (Ok (s_tell (f_stream s)), s))"

section \<open>Attributes\<close>

text \<open>The numbers after a section or symbol attribute, up to a zero; each is at least a byte.\<close>

primrec s_numbers :: "nat \<Rightarrow> elf_structs \<Rightarrow> val list \<Rightarrow> val list F" where
  "s_numbers 0 st acc = lift_res NoFuel"
| "s_numbers (Suc fuel) st acc =
     mbind (file_parse (Elf_uleb128 st ''s_number'')) (\<lambda>n.
       if n = VInt 0 then ret acc else s_numbers fuel st (acc @ [n]))"

definition scoped_value :: "elf_structs \<Rightarrow> val \<Rightarrow> attribute F" where
  "scoped_value st tag =
     mbind (file_parse (Elf_word st ''value'')) (\<lambda>v.
       if tag \<noteq> VLit ''TAG_FILE'' then
         (\<lambda>s. mbind (s_numbers (remaining (f_stream s) + 1) st []) (\<lambda>ns. ret (Attribute tag (Plain v) (Some ns))) s)
       else ret (Attribute tag (Plain v) None))"

definition scoped_tags :: "val list" where
  "scoped_tags = [VLit ''TAG_FILE'', VLit ''TAG_SECTION'', VLit ''TAG_SYMBOL'']"

definition is_text :: "attr_value \<Rightarrow> bool" where
  "is_text v = (case v of Plain (VStr _) \<Rightarrow> True | _ \<Rightarrow> False)"

text \<open>An attribute may hold another one; each starts with a tag of at least a byte.\<close>

primrec arm_attribute :: "nat \<Rightarrow> elf_structs \<Rightarrow> attribute F" where
  "arm_attribute 0 st = lift_res NoFuel"
| "arm_attribute (Suc fuel) st =
     mbind (file_parse (Elf_Arm_Attribute_Tag st)) (\<lambda>c.
     mbind (lift_res (get_item c ''tag'')) (\<lambda>tag.
       if tag \<in> set scoped_tags then scoped_value st tag
       else if tag \<in> {VLit ''TAG_CPU_RAW_NAME'', VLit ''TAG_CPU_NAME'', VLit ''TAG_CONFORMANCE''} then
         mbind (file_parse (Elf_ntbs st ''value'' (Some Utf8))) (\<lambda>v. ret (Attribute tag (Plain v) None))
       else if tag = VLit ''TAG_COMPATIBILITY'' then
         mbind (file_parse (Elf_uleb128 st ''value'')) (\<lambda>v.
         mbind (file_parse (Elf_ntbs st ''vendor_name'' (Some Utf8))) (\<lambda>x. ret (Attribute tag (Plain v) (Some [x]))))
       else if tag = VLit ''TAG_ALSO_COMPATIBLE_WITH'' then
         mbind (arm_attribute fuel st) (\<lambda>a.
         mbind (if \<not> is_text (a_value a) then
                  mbind (file_parse (Elf_byte st ''nul'')) (\<lambda>nul. elf_assert (nul = VInt 0))
                else ret ()) (\<lambda>_. ret (Attribute tag (Nested a) None)))
       else mbind (file_parse (Elf_uleb128 st ''value'')) (\<lambda>v. ret (Attribute tag (Plain v) None))))"

definition riscv_attribute :: "elf_structs \<Rightarrow> attribute F" where
  "riscv_attribute st =
     mbind (file_parse (Elf_RiscV_Attribute_Tag st)) (\<lambda>c.
     mbind (lift_res (get_item c ''tag'')) (\<lambda>tag.
       if tag \<in> set scoped_tags then scoped_value st tag
       else if tag = VLit ''TAG_ARCH'' then
         mbind (file_parse (Elf_ntbs st ''value'' (Some Utf8))) (\<lambda>v. ret (Attribute tag (Plain v) None))
       else mbind (file_parse (Elf_uleb128 st ''value'')) (\<lambda>v. ret (Attribute tag (Plain v) None))))"

definition read_attribute :: "attr_class \<Rightarrow> elf_structs \<Rightarrow> attribute F" where
  "read_attribute cls st = (case cls of
     ARMAttribute \<Rightarrow> (\<lambda>s. arm_attribute (remaining (f_stream s) + 2) st s)
   | RISCVAttribute \<Rightarrow> riscv_attribute st)"

section \<open>Subsubsections\<close>

record subsubsection_obj =
  ss_offset :: int
  ss_header :: attribute
  ss_attr_start :: int

definition AttributesSubsubsection_init :: "attr_class \<Rightarrow> elf_structs \<Rightarrow> int \<Rightarrow> subsubsection_obj F" where
  "AttributesSubsubsection_init cls st offset =
     mbind (read_attribute cls st) (\<lambda>header.
     mbind file_tell (\<lambda>start. ret \<lparr>ss_offset = offset, ss_header = header, ss_attr_start = start\<rparr>))"

text \<open>\<^verbatim>\<open>header.value\<close> used as a number.\<close>

definition header_size :: "subsubsection_obj \<Rightarrow> int res" where
  "header_size ss = (case a_value (ss_header ss) of Plain v \<Rightarrow> as_int v | Nested _ \<Rightarrow> Err TypeError)"

text \<open>Every attribute is at least a byte.\<close>

primrec attributes_loop :: "nat \<Rightarrow> attr_class \<Rightarrow> elf_structs \<Rightarrow> int \<Rightarrow> attribute list F" where
  "attributes_loop 0 cls st stop = lift_res NoFuel"
| "attributes_loop (Suc fuel) cls st stop =
     mbind file_tell (\<lambda>pos.
       if pos = stop then ret []
       else mbind (read_attribute cls st) (\<lambda>a.
         mbind (attributes_loop fuel cls st stop) (\<lambda>as. ret (a # as))))"

definition make_attributes :: "attr_class \<Rightarrow> elf_structs \<Rightarrow> subsubsection_obj \<Rightarrow> attribute list F" where
  "make_attributes cls st ss =
     mbind (lift_res (header_size ss)) (\<lambda>n.
     mbind (on_file (s_seek (ss_attr_start ss))) (\<lambda>_ s.
       attributes_loop (remaining (f_stream s) + 2) cls st (ss_offset ss + n) s))"

definition iter_attributes :: "attr_class \<Rightarrow> elf_structs \<Rightarrow> subsubsection_obj \<Rightarrow> val option \<Rightarrow> attribute list F" where
  "iter_attributes cls st ss tag =
     mbind (make_attributes cls st ss) (\<lambda>as. ret (filter (\<lambda>a. tag = None \<or> tag = Some (a_tag a)) as))"

definition num_attributes :: "attr_class \<Rightarrow> elf_structs \<Rightarrow> subsubsection_obj \<Rightarrow> int F" where
  "num_attributes cls st ss = mbind (iter_attributes cls st ss None) (\<lambda>as. ret (int (length as) + 1))"

definition attributes :: "attr_class \<Rightarrow> elf_structs \<Rightarrow> subsubsection_obj \<Rightarrow> attribute list F" where
  "attributes cls st ss = mbind (iter_attributes cls st ss None) (\<lambda>as. ret (ss_header ss # as))"

section \<open>Subsections\<close>

record subsection_obj =
  sb_offset :: int
  sb_header :: val
  sb_start :: int

definition AttributesSubsection_init :: "elf_structs \<Rightarrow> int \<Rightarrow> subsection_obj F" where
  "AttributesSubsection_init st offset =
     mbind (on_file (struct_parse (Elf_Attr_Subsection_Header st) (Some offset))) (\<lambda>header.
     mbind file_tell (\<lambda>start. ret \<lparr>sb_offset = offset, sb_header = header, sb_start = start\<rparr>))"

text \<open>
  After a subsubsection the stream goes to the size in its header, counted from the first
  subsubsection.  A run with more rounds than the file has positions is at a position twice and
  goes on forever.
\<close>

primrec subsubsections_loop ::
  "nat \<Rightarrow> attr_class \<Rightarrow> elf_structs \<Rightarrow> int \<Rightarrow> int \<Rightarrow> subsubsection_obj list F" where
  "subsubsections_loop 0 cls st start stop = lift_res NoFuel"
| "subsubsections_loop (Suc fuel) cls st start stop =
     mbind file_tell (\<lambda>pos.
       if pos = stop then ret []
       else mbind (AttributesSubsubsection_init cls st pos) (\<lambda>ss.
         mbind (lift_res (header_size ss)) (\<lambda>n.
         mbind (on_file (s_seek (start + n))) (\<lambda>_.
         mbind (subsubsections_loop fuel cls st start stop) (\<lambda>sss. ret (ss # sss))))))"

definition subsubsections :: "attr_class \<Rightarrow> elf_structs \<Rightarrow> subsection_obj \<Rightarrow> subsubsection_obj list F" where
  "subsubsections cls st sb =
     mbind (lift_res (get_int (sb_header sb) ''length'')) (\<lambda>n.
     mbind (on_file (s_seek (sb_start sb))) (\<lambda>_ s.
       subsubsections_loop (length (fdata s) + 2) cls st (sb_start sb) (sb_offset sb + n) s))"

definition iter_subsubsections :: "attr_class \<Rightarrow> elf_structs \<Rightarrow> subsection_obj \<Rightarrow> val option \<Rightarrow> subsubsection_obj list F" where
  "iter_subsubsections cls st sb scope =
     mbind (subsubsections cls st sb) (\<lambda>sss.
       ret (filter (\<lambda>ss. scope = None \<or> scope = Some (a_tag (ss_header ss))) sss))"

definition num_subsubsections :: "attr_class \<Rightarrow> elf_structs \<Rightarrow> subsection_obj \<Rightarrow> int F" where
  "num_subsubsections cls st sb = mbind (iter_subsubsections cls st sb None) (\<lambda>sss. ret (int (length sss)))"

section \<open>The section\<close>

text \<open>Here too the stream goes to the length of the subsection, counted from the first one.\<close>

primrec subsections_loop :: "nat \<Rightarrow> elf_structs \<Rightarrow> int \<Rightarrow> int \<Rightarrow> subsection_obj list F" where
  "subsections_loop 0 st start stop = lift_res NoFuel"
| "subsections_loop (Suc fuel) st start stop =
     mbind file_tell (\<lambda>pos.
       if pos = stop then ret []
       else mbind (AttributesSubsection_init st pos) (\<lambda>sb.
         mbind (lift_res (get_int (sb_header sb) ''length'')) (\<lambda>n.
         mbind (on_file (s_seek (start + n))) (\<lambda>_.
         mbind (subsections_loop fuel st start stop) (\<lambda>sbs. ret (sb # sbs))))))"

text \<open>The start of the subsections is what the section's constructor kept (\<open>s_extra\<close>).\<close>

definition subsections :: "elf_structs \<Rightarrow> elf_section \<Rightarrow> subsection_obj list F" where
  "subsections st sec =
     mbind (lift_res (sec_int sec ''sh_offset'')) (\<lambda>off.
     mbind (lift_res (data_size sec)) (\<lambda>n.
     mbind (lift_res (as_int (s_extra sec))) (\<lambda>start.
     mbind (on_file (s_seek start)) (\<lambda>_ s. subsections_loop (length (fdata s) + 2) st start (off + n) s))))"

definition iter_subsections :: "elf_structs \<Rightarrow> elf_section \<Rightarrow> val option \<Rightarrow> subsection_obj list F" where
  "iter_subsections st sec vendor_name =
     mbind (subsections st sec) (\<lambda>sbs.
       ret (filter (\<lambda>sb. vendor_name = None \<or> get_item (sb_header sb) ''vendor_name'' = Ok (the vendor_name)) sbs))"

definition num_subsections :: "elf_structs \<Rightarrow> elf_section \<Rightarrow> int F" where
  "num_subsections st sec = mbind (iter_subsections st sec None) (\<lambda>sbs. ret (int (length sbs)))"

end
