(* ===== verification/AttributeProperties.thy ===== *)
theory AttributeProperties
  imports ElfAttributes Returning
begin

text \<open>A property of the attribute sections: what happens to a section with a second subsection.\<close>

lemma reads_parse_at: "reads (on_file (struct_parse c (Some p)))"
  by (intro readsI blind_intros nblind_intros blind_on_file sblind_struct_parse)

lemma subsection_init_at:
  assumes "run_on (fdata s) (on_file (struct_parse (Elf_Attr_Subsection_Header st) (Some p))) = Ok h"
  shows "\<exists>sb t. AttributesSubsection_init st p s = (Ok sb, t) \<and> sb_header sb = h \<and> fdata t = fdata s"
proof -
  obtain t where "on_file (struct_parse (Elf_Attr_Subsection_Header st) (Some p)) s = (Ok h, t)" "fdata t = fdata s"
    using reads_run [OF reads_parse_at, of "Elf_Attr_Subsection_Header st" p s] assms by metis
  then show ?thesis
    by (simp add: AttributesSubsection_init_def mbind_def file_tell_def)
qed

text \<open>One round at a position with a header.\<close>

lemma subsections_step:
  assumes "s_tell (f_stream s) = p" "p \<noteq> stop" "0 \<le> start + n" "start + n < 2 ^ 63"
    and "run_on (fdata s) (on_file (struct_parse (Elf_Attr_Subsection_Header st) (Some p))) = Ok h"
    and "get_int h ''length'' = Ok n"
  obtains t where "fdata t = fdata s" "s_tell (f_stream t) = start + n"
    and "\<And>k. fst (subsections_loop k st start stop t) = NoFuel \<Longrightarrow> fst (subsections_loop (Suc k) st start stop s) = NoFuel"
proof -
  obtain sb t where t: "AttributesSubsection_init st p s = (Ok sb, t)" "sb_header sb = h" "fdata t = fdata s"
    using subsection_init_at [OF assms(5)] by auto
  let ?t = "t\<lparr>f_stream := (f_stream t)\<lparr>spos := nat (start + n)\<rparr>\<rparr>"
  have seek: "on_file (s_seek (start + n)) t = (Ok (), ?t)"
    using assms(3,4) by (simp add: on_file_run s_seek_ok)
  have "fst (subsections_loop (Suc k) st start stop s) = NoFuel" if "fst (subsections_loop k st start stop ?t) = NoFuel" for k
    using that assms(1,2,6) t seek
    by (cases "subsections_loop k st start stop ?t") (simp add: mbind_def file_tell_def)
  then show thesis
    using that [of ?t] t assms(3) by (simp add: s_tell_def)
qed

lemma subsections_stuck:
  assumes "run_on d (on_file (struct_parse (Elf_Attr_Subsection_Header st) (Some (start + n)))) = Ok h"
    and "get_int h ''length'' = Ok n" "start + n \<noteq> stop" "0 \<le> start + n" "start + n < 2 ^ 63"
  shows "fdata s = d \<Longrightarrow> s_tell (f_stream s) = start + n \<Longrightarrow> fst (subsections_loop k st start stop s) = NoFuel"
proof (induction k arbitrary: s)
  case (Suc k)
  obtain t where "fdata t = fdata s" "s_tell (f_stream t) = start + n"
    and "\<And>k. fst (subsections_loop k st start stop t) = NoFuel \<Longrightarrow> fst (subsections_loop (Suc k) st start stop s) = NoFuel"
    using subsections_step [of s "start + n" stop start n st h] Suc.prems assms by metis
  then show ?case
    using Suc by simp
qed simp

text \<open>C22: The subsections of an attributes section with a second subsection.  After each one the stream
  is placed at its length, counted from the start of the first.  When the second subsection is as
  long as the first, the loop stays at the second one: whatever the bound, it does not end.\<close>

theorem second_subsection_repeats:
  assumes "sec_int sec ''sh_offset'' = Ok off" "data_size sec = Ok sz" "as_int (s_extra sec) = Ok start"
    and "run_on (fdata s) (on_file (struct_parse (Elf_Attr_Subsection_Header st) (Some start))) = Ok h1"
    and "run_on (fdata s) (on_file (struct_parse (Elf_Attr_Subsection_Header st) (Some (start + n)))) = Ok h2"
    and "get_int h1 ''length'' = Ok n" "get_int h2 ''length'' = Ok n"
    and "start \<noteq> off + sz" "start + n \<noteq> off + sz" "0 \<le> start" "start < 2 ^ 63" "0 \<le> start + n" "start + n < 2 ^ 63"
  shows "fst (subsections st sec s) = NoFuel \<and>
    (\<forall>k. fst (subsections_loop k st start (off + sz) (s\<lparr>f_stream := (f_stream s)\<lparr>spos := nat start\<rparr>\<rparr>)) = NoFuel)"
proof -
  let ?s = "s\<lparr>f_stream := (f_stream s)\<lparr>spos := nat start\<rparr>\<rparr>"
  have all: "fst (subsections_loop k st start (off + sz) ?s) = NoFuel" for k
  proof (cases k)
    case (Suc j)
    obtain t where t: "fdata t = fdata ?s" "s_tell (f_stream t) = start + n"
      and step: "\<And>k. fst (subsections_loop k st start (off + sz) t) = NoFuel \<Longrightarrow>
        fst (subsections_loop (Suc k) st start (off + sz) ?s) = NoFuel"
      by (rule subsections_step [of ?s start "off + sz" start n st h1]) (use assms in \<open>simp_all add: s_tell_def\<close>)
    have "fst (subsections_loop j st start (off + sz) t) = NoFuel"
      by (rule subsections_stuck [OF assms(5,7,9,12,13)]) (use t in simp_all)
    then show ?thesis
      unfolding Suc by (rule step)
  qed simp
  moreover have "fst (subsections st sec s) = NoFuel"
    using all [of "length (fdata s) + 2"] assms(1-3,10,11)
    by (simp add: subsections_def mbind_def on_file_run s_seek_ok del: subsections_loop.simps)
  ultimately show ?thesis by blast
qed

text \<open>A section of two subsections of eight bytes each.\<close>

definition two_subsections :: bytes where
  "two_subsections = 65 # [8, 0, 0, 0, 97, 98, 99, 0] @ [8, 0, 0, 0, 97, 98, 100, 0]"

definition attr_section :: elf_section where
  "attr_section = Section ARMAttributesSection (VCont [(''sh_offset'', VInt 0), (''sh_size'', VInt 17)]) [] None None (VInt 1)"

definition attr_structs :: elf_structs where
  "attr_structs = \<lparr>little_endian = True, elfclass = 32, e_type = VNone, e_machine = VNone, e_ident_osabi = VNone\<rparr>"

definition attr_state :: fstate where
  "attr_state = \<lparr>f_stream = bytesio two_subsections, f_names = None\<rparr>"

theorem second_subsection_repeats_witness:
  "fst (subsections attr_structs attr_section attr_state) = NoFuel \<and>
    (\<forall>k. fst (subsections_loop k attr_structs 1 (0 + 17)
       (attr_state\<lparr>f_stream := (f_stream attr_state)\<lparr>spos := nat 1\<rparr>\<rparr>)) = NoFuel)"
proof (rule second_subsection_repeats)
  show "run_on (fdata attr_state) (on_file (struct_parse (Elf_Attr_Subsection_Header attr_structs) (Some 1))) =
      Ok (VCont [(''length'', VInt 8), (''vendor_name'', VStr (lit ''abc''))])"
    by code_simp
  show "run_on (fdata attr_state) (on_file (struct_parse (Elf_Attr_Subsection_Header attr_structs) (Some (1 + 8)))) =
      Ok (VCont [(''length'', VInt 8), (''vendor_name'', VStr (lit ''abd''))])"
    by code_simp
qed (simp_all add: attr_section_def sec_int_def get_int_def data_size_def)

end
