(* ===== verification/DwarfLine.thy ===== *)
theory DwarfLine
  imports DwarfUtil
begin

text \<open>
  \<^verbatim>\<open>elftools/dwarf/lineprogram.py\<close>: the state machine of line number programs.  The object is the
  record \<open>line_program\<close>; decoding returns the entries together with the header, to which the
  instruction \<open>DW_LNE_define_file\<close> appends.
\<close>

record line_state =
  ls_address :: int
  ls_file :: int
  ls_line :: int
  ls_column :: int
  ls_op_index :: int
  ls_is_stmt :: val
  ls_basic_block :: bool
  ls_end_sequence :: bool
  ls_prologue_end :: bool
  ls_epilogue_begin :: bool
  ls_isa :: int
  ls_discriminator :: int

record line_entry =
  le_command :: int
  le_is_extended :: bool
  le_args :: "val list"
  le_state :: "line_state option"

record line_program =
  lp_header :: val
  lp_structs :: dwarf_structs
  lp_start :: int
  lp_end :: int

definition LineState_init :: "val \<Rightarrow> line_state" where
  "LineState_init default_is_stmt = \<lparr>ls_address = 0, ls_file = 1, ls_line = 1, ls_column = 0, ls_op_index = 0,
     ls_is_stmt = default_is_stmt, ls_basic_block = False, ls_end_sequence = False, ls_prologue_end = False,
     ls_epilogue_begin = False, ls_isa = 0, ls_discriminator = 0\<rparr>"

section \<open>The machine\<close>

text \<open>The registers, what has been decoded, and the header.\<close>

record line_run =
  lr_entries :: "line_entry list"
  lr_state :: line_state
  lr_header :: val

definition add_entry_new_state :: "int \<Rightarrow> val list \<Rightarrow> bool \<Rightarrow> line_run \<Rightarrow> line_run" where
  "add_entry_new_state cmd args ext r =
     r\<lparr>lr_entries := lr_entries r @ [\<lparr>le_command = cmd, le_is_extended = ext, le_args = args,
                                       le_state = Some (lr_state r)\<rparr>],
       lr_state := (lr_state r)\<lparr>ls_discriminator := 0, ls_basic_block := False,
                                 ls_prologue_end := False, ls_epilogue_begin := False\<rparr>\<rparr>"

definition add_entry_old_state :: "int \<Rightarrow> val list \<Rightarrow> bool \<Rightarrow> line_run \<Rightarrow> line_run" where
  "add_entry_old_state cmd args ext r =
     r\<lparr>lr_entries := lr_entries r @ [\<lparr>le_command = cmd, le_is_extended = ext, le_args = args,
                                       le_state = None\<rparr>]\<rparr>"

definition upd_state :: "(line_state \<Rightarrow> line_state) \<Rightarrow> line_run \<Rightarrow> line_run" where
  "upd_state f r = r\<lparr>lr_state := f (lr_state r)\<rparr>"

text \<open>\<^verbatim>\<open>a // b\<close> and \<^verbatim>\<open>a % b\<close>.\<close>

definition py_div :: "int \<Rightarrow> int \<Rightarrow> int res" where
  "py_div a b = (if b = 0 then Err ZeroDivisionError else Ok (a div b))"

definition py_mod :: "int \<Rightarrow> int \<Rightarrow> int res" where
  "py_mod a b = (if b = 0 then Err ZeroDivisionError else Ok (a mod b))"

text \<open>A special opcode: the recipe of section 6.2.5.1 of the standard.\<close>

definition special_opcode :: "int \<Rightarrow> line_run \<Rightarrow> line_run res" where
  "special_opcode opcode r =
     (let h = lr_header r; s = lr_state r in
      rbind (get_int h ''maximum_operations_per_instruction'') (\<lambda>max_ops.
      rbind (get_int h ''opcode_base'') (\<lambda>base.
      rbind (get_int h ''line_range'') (\<lambda>range.
      rbind (py_div (opcode - base) range) (\<lambda>operation_advance.
      rbind (get_int h ''minimum_instruction_length'') (\<lambda>min_len.
      rbind (py_div (ls_op_index s + operation_advance) max_ops) (\<lambda>q.
      rbind (py_mod (ls_op_index s + operation_advance) max_ops) (\<lambda>op_index.
      rbind (get_int h ''line_base'') (\<lambda>line_base.
      rbind (py_mod (opcode - base) range) (\<lambda>m.
        let address_addend = min_len * q; line_addend = line_base + m;
            s' = s\<lparr>ls_address := ls_address s + address_addend, ls_op_index := op_index,
                     ls_line := ls_line s + line_addend\<rparr> in
        Ok (add_entry_new_state opcode [VInt line_addend, VInt address_addend, VInt op_index] False
              (r\<lparr>lr_state := s'\<rparr>))))))))))))"

text \<open>\<^verbatim>\<open>self['file_entry'].append(operand)\<close>: only a list can be appended to.\<close>

definition append_file :: "val \<Rightarrow> val \<Rightarrow> val res" where
  "append_file h operand = rbind (get_item h ''file_entry'') (\<lambda>fs. (case fs of
     VList vs \<Rightarrow> put_item h ''file_entry'' (VList (vs @ [operand]))
   | _ \<Rightarrow> Err AttributeError))"

abbreviation DW_LNE :: "string \<Rightarrow> int" where "DW_LNE \<equiv> const DW_LNE_constants"
abbreviation DW_LNS :: "string \<Rightarrow> int" where "DW_LNS \<equiv> const DW_LNS_constants"

definition extended_instruction :: "dwarf_structs \<Rightarrow> int \<Rightarrow> int \<Rightarrow> line_run \<Rightarrow> line_run S" where
  "extended_instruction ds inst_len op r =
      (if op = DW_LNE ''DW_LNE_end_sequence'' then
         mbind (lift_res (get_item (lr_header r) ''default_is_stmt'')) (\<lambda>dflt.
           ret ((add_entry_new_state op [] True
             (upd_state (\<lambda>s. s\<lparr>ls_end_sequence := True, ls_is_stmt := VInt 0\<rparr>) r))
               \<lparr>lr_state := LineState_init dflt\<rparr>))
       else if op = DW_LNE ''DW_LNE_set_address'' then
         mbind (parse_int (the_Dwarf_target_addr ds) None) (\<lambda>x.
           ret (add_entry_old_state op [VInt x] True (upd_state (\<lambda>s. s\<lparr>ls_address := x\<rparr>) r)))
       else if op = DW_LNE ''DW_LNE_define_file'' then
         mbind (struct_parse (Dwarf_lineprog_file_entry ds) None) (\<lambda>v.
         mbind (lift_res (append_file (lr_header r) v)) (\<lambda>h.
           ret (add_entry_old_state op [v] True (r\<lparr>lr_header := h\<rparr>))))
       else if op = DW_LNE ''DW_LNE_set_discriminator'' then
         mbind (parse_int (the_Dwarf_uleb128 ds) None) (\<lambda>x.
           ret (upd_state (\<lambda>s. s\<lparr>ls_discriminator := x\<rparr>) r))
       else mbind (s_seek_cur (inst_len - 1)) (\<lambda>_. ret r))"

definition extended_opcode :: "dwarf_structs \<Rightarrow> line_run \<Rightarrow> line_run S" where
  "extended_opcode ds r =
     mbind (parse_int (the_Dwarf_uleb128 ds) None) (\<lambda>inst_len.
     mbind (parse_int (the_Dwarf_uint8 ds) None) (\<lambda>op. extended_instruction ds inst_len op r))"

definition standard_opcode :: "dwarf_structs \<Rightarrow> int \<Rightarrow> line_run \<Rightarrow> line_run S" where
  "standard_opcode ds op r =
     (if op = DW_LNS ''DW_LNS_copy'' then ret (add_entry_new_state op [] False r)
      else if op = DW_LNS ''DW_LNS_advance_pc'' then
        mbind (parse_int (the_Dwarf_uleb128 ds) None) (\<lambda>x.
        mbind (lift_res (get_int (lr_header r) ''minimum_instruction_length'')) (\<lambda>m.
          ret (add_entry_old_state op [VInt (x * m)] False
            (upd_state (\<lambda>s. s\<lparr>ls_address := ls_address s + x * m\<rparr>) r))))
      else if op = DW_LNS ''DW_LNS_advance_line'' then
        mbind (parse_int (the_Dwarf_sleb128 ds) None) (\<lambda>x.
          ret (upd_state (\<lambda>s. s\<lparr>ls_line := ls_line s + x\<rparr>) r))
      else if op = DW_LNS ''DW_LNS_set_file'' then
        mbind (parse_int (the_Dwarf_uleb128 ds) None) (\<lambda>x.
          ret (add_entry_old_state op [VInt x] False (upd_state (\<lambda>s. s\<lparr>ls_file := x\<rparr>) r)))
      else if op = DW_LNS ''DW_LNS_set_column'' then
        mbind (parse_int (the_Dwarf_uleb128 ds) None) (\<lambda>x.
          ret (add_entry_old_state op [VInt x] False (upd_state (\<lambda>s. s\<lparr>ls_column := x\<rparr>) r)))
      else if op = DW_LNS ''DW_LNS_negate_stmt'' then
        ret (add_entry_old_state op [] False
          (upd_state (\<lambda>s. s\<lparr>ls_is_stmt := VBool (\<not> truthy (ls_is_stmt s))\<rparr>) r))
      else if op = DW_LNS ''DW_LNS_set_basic_block'' then
        ret (add_entry_old_state op [] False (upd_state (\<lambda>s. s\<lparr>ls_basic_block := True\<rparr>) r))
      else if op = DW_LNS ''DW_LNS_const_add_pc'' then
        mbind (lift_res (get_int (lr_header r) ''opcode_base'')) (\<lambda>base.
        mbind (lift_res (get_int (lr_header r) ''line_range'')) (\<lambda>range.
        mbind (lift_res (py_div (255 - base) range)) (\<lambda>q.
        mbind (lift_res (get_int (lr_header r) ''minimum_instruction_length'')) (\<lambda>m.
          ret (add_entry_old_state op [VInt (q * m)] False
            (upd_state (\<lambda>s. s\<lparr>ls_address := ls_address s + q * m\<rparr>) r))))))
      else if op = DW_LNS ''DW_LNS_fixed_advance_pc'' then
        mbind (parse_int (the_Dwarf_uint16 ds) None) (\<lambda>x.
          ret (add_entry_old_state op [VInt x] False
            (upd_state (\<lambda>s. s\<lparr>ls_address := ls_address s + x\<rparr>) r)))
      else if op = DW_LNS ''DW_LNS_set_prologue_end'' then
        ret (add_entry_old_state op [] False (upd_state (\<lambda>s. s\<lparr>ls_prologue_end := True\<rparr>) r))
      else if op = DW_LNS ''DW_LNS_set_epilogue_begin'' then
        ret (add_entry_old_state op [] False (upd_state (\<lambda>s. s\<lparr>ls_epilogue_begin := True\<rparr>) r))
      else if op = DW_LNS ''DW_LNS_set_isa'' then
        mbind (parse_int (the_Dwarf_uleb128 ds) None) (\<lambda>x.
          ret (add_entry_old_state op [VInt x] False (upd_state (\<lambda>s. s\<lparr>ls_isa := x\<rparr>) r)))
      else mbind (dwarf_assert False) (\<lambda>_. ret r))"

definition line_step :: "dwarf_structs \<Rightarrow> int \<Rightarrow> line_run \<Rightarrow> line_run S" where
  "line_step ds offset r =
     mbind (parse_int (the_Dwarf_uint8 ds) (Some offset)) (\<lambda>opcode.
     mbind (lift_res (get_int (lr_header r) ''opcode_base'')) (\<lambda>base.
       if opcode \<ge> base then lift_res (special_opcode opcode r)
       else if opcode = 0 then extended_opcode ds r
       else standard_opcode ds opcode r))"

text \<open>Every round goes on by at least the byte of its opcode.\<close>

primrec line_loop :: "nat \<Rightarrow> dwarf_structs \<Rightarrow> int \<Rightarrow> int \<Rightarrow> line_run \<Rightarrow> line_run S" where
  "line_loop 0 ds stop offset r = lift_res NoFuel"
| "line_loop (Suc fuel) ds stop offset r =
     (if offset < stop then
        mbind (line_step ds offset r) (\<lambda>r'. mbind s_pos (\<lambda>offset'. line_loop fuel ds stop offset' r'))
      else ret r)"

definition decode_line_program :: "line_program \<Rightarrow> (line_entry list \<times> val) S" where
  "decode_line_program lp =
     mbind (lift_res (get_item (lp_header lp) ''default_is_stmt'')) (\<lambda>dflt t.
       mbind (line_loop (nat (lp_end lp - lp_start lp) + 1) (lp_structs lp) (lp_end lp) (lp_start lp)
           \<lparr>lr_entries = [], lr_state = LineState_init dflt, lr_header = lp_header lp\<rparr>)
         (\<lambda>r. ret (lr_entries r, lr_header r)) t)"

end
