(* ===== verification/LineProperties.thy ===== *)
theory LineProperties
  imports SectionReads DwarfLine
begin

text \<open>
  Properties of line programs: decoding comes to an end on any section, and the table that a program
  describes is the one its entries give.
\<close>

section \<open>Every instruction goes forward\<close>

lemma file_entry_ok [simp]: "con_ok (Dwarf_lineprog_file_entry ds)"
  by (auto simp: Dwarf_lineprog_file_entry_def has_name_def rbind_NoFuel get_attr_returns)

lemma put_item_returns [returns_intros]: "put_item v k x \<noteq> NoFuel" "append_file h v \<noteq> NoFuel"
  by (auto simp: put_item_def append_file_def rbind_NoFuel value_returns split: val.split)

lemma arith_returns [returns_intros]: "py_div a b \<noteq> NoFuel" "py_mod a b \<noteq> NoFuel"
  by (simp_all add: py_div_def py_mod_def)

lemma special_returns [returns_intros]: "special_opcode op r \<noteq> NoFuel"
  unfolding special_opcode_def Let_def by (intro returns_intros)

lemma steps_return:
  "returns (extended_opcode ds r)" "returns (standard_opcode ds op r)" "returns (line_step ds offset r)"
proof -
  show e: "returns (extended_opcode ds r)" for r
    unfolding extended_opcode_def extended_instruction_def by (intro returns_intros parse_int_returns struct_parse_ok_returns; simp)
  show s: "returns (standard_opcode ds op r)" for op
    unfolding standard_opcode_def by (intro returns_intros parse_int_returns; simp)
  show "returns (line_step ds offset r)"
    unfolding line_step_def by (intro returns_intros parse_int_returns e s; simp)
qed

lemma standard_forward: "sadv 0 (standard_opcode ds op r)"
  unfolding standard_opcode_def dwarf_assert_def
  by (intro sadv_if sadv_right sadv_any sadv_simple)

text \<open>An unknown extended instruction may go back by one byte, after three it has read.\<close>

lemma extended_instruction_back: "0 \<le> inst_len \<Longrightarrow> sadv (-1) (extended_instruction ds inst_len op r)"
  unfolding extended_instruction_def
  by (intro sadv_if; (rule sadv_left [OF sadv_seek_cur], simp, simp, rule sadv_simple
    | rule sadv_weaken [of 0], intro sadv_right sadv_any sadv_simple, simp))

lemma extended_forward: "sadv 0 (extended_opcode ds r)"
  unfolding sadv_def
proof (intro allI impI)
  fix t v t' assume "extended_opcode ds r t = (Ok v, t')"
  then obtain inst_len t1 op t2 where len: "parse_int (the_Dwarf_uleb128 ds) None t = (Ok inst_len, t1)"
    and op: "parse_int (the_Dwarf_uint8 ds) None t1 = (Ok op, t2)"
    and run: "extended_instruction ds inst_len op r t2 = (Ok v, t')"
    unfolding extended_opcode_def mbind_eq_Ok by blast
  have "0 \<le> inst_len"
    using parse_uleb_nonneg len by (simp add: the_dwarf_defs Dwarf_uleb128_def)
  from sadvD [OF extended_instruction_back [OF this] run] sadvD [OF sadv_parse_int len] sadvD [OF sadv_parse_int op]
  show "sdata t' = sdata t \<and> int (remaining t') + 0 \<le> int (remaining t)"
    by (simp add: the_dwarf_defs)
qed

text \<open>After a step the stream is behind the byte of its opcode.\<close>

lemma line_step_forward:
  assumes "line_step ds offset r t = (Ok r', t')"
  shows "offset + 1 \<le> s_tell t'" "sdata t' = sdata t"
proof -
  let ?step = "\<lambda>opcode. mbind (lift_res (get_int (lr_header r) ''opcode_base'')) (\<lambda>base.
       if opcode \<ge> base then lift_res (special_opcode opcode r)
       else if opcode = 0 then extended_opcode ds r
       else standard_opcode ds opcode r)"
  have "sadv 1 (mbind (parse_int (the_Dwarf_uint8 ds) None) ?step)"
    by (rule sadv_left [OF sadv_weaken [OF sadv_parse_int]])
      (simp add: the_dwarf_defs, intro sadv_right sadv_if sadv_simple extended_forward standard_forward)
  moreover have "mbind (s_seek offset) (\<lambda>_. mbind (parse_int (the_Dwarf_uint8 ds) None) ?step) t = (Ok r', t')"
    using assms unfolding line_step_def parse_int_seek mbind_assoc .
  ultimately show "offset + 1 \<le> s_tell t'" "sdata t' = sdata t"
    using sadv_seek [of 1] by fastforce+
qed

lemma line_loop_returns: "stop - offset < int n \<Longrightarrow> 0 < n \<Longrightarrow> fst (line_loop n ds stop offset r t) \<noteq> NoFuel"
proof (induction n arbitrary: offset r t)
  case 0
  then show ?case by simp
next
  case (Suc n)
  show ?case
  proof (cases "offset < stop")
    case True
    obtain x t' where run: "line_step ds offset r t = (x, t')" by fastforce
    show ?thesis
    proof (cases x)
      case (Ok r')
      from line_step_forward [OF run [unfolded Ok]] Suc.prems
      have "fst (line_loop n ds stop (s_tell t') r' t') \<noteq> NoFuel"
        using True by (intro Suc.IH) auto
      then show ?thesis
        by (simp add: True run [unfolded Ok] s_pos_def mbind_def)
    next
      case (Err e)
      then show ?thesis
        by (simp add: True mbind_Err [where m = "line_step ds offset r"] run)
    next
      case NoFuel
      then show ?thesis
        using returns_at [OF steps_return(3)] run by (metis fst_conv)
    qed
  qed simp
qed

text \<open>C23: decoding a line program always ends.  Whatever the header, the instructions and the offsets are,
  \<open>get_entries\<close> returns the entries or raises an exception; it does not run on, even though an unknown
  extended instruction seeks backwards when the length it declares is zero.\<close>

theorem line_program_ends: "fst (decode_line_program lp t) \<noteq> NoFuel"
proof -
  let ?loop = "\<lambda>dflt. line_loop (nat (lp_end lp - lp_start lp) + 1) (lp_structs lp) (lp_end lp) (lp_start lp)
      \<lparr>lr_entries = [], lr_state = LineState_init dflt, lr_header = lp_header lp\<rparr>"
  have "fst (lift_res (get_item (lp_header lp) k) t) \<noteq> NoFuel" for k
    by (simp add: value_returns)
  moreover have "fst (mbind (?loop dflt) (\<lambda>r. ret (lr_entries r, lr_header r)) s) \<noteq> NoFuel" for dflt s
    by (rule mbind_returns_at, rule line_loop_returns) auto
  ultimately show ?thesis
    unfolding decode_line_program_def by (rule mbind_returns_at)
qed

section \<open>Tables and programs\<close>

text \<open>
  The rows that a compiler wants to describe, as differences: each row is so many lines and so many
  instruction lengths after the one before it.  A row is written as a special opcode or, when its
  differences do not fit one, with the instructions that advance the line and the address.
\<close>

datatype row_code = Special int int | Spelled int nat

fun row_lines :: "row_code \<Rightarrow> int" where
  "row_lines (Special dl da) = dl"
| "row_lines (Spelled dl da) = dl"

fun row_advance :: "row_code \<Rightarrow> int" where
  "row_advance (Special dl da) = da"
| "row_advance (Spelled dl da) = int da"

record line_params =
  lq_min_len :: int
  lq_line_base :: int
  lq_line_range :: int
  lq_opcode_base :: int
  lq_is_stmt :: val

definition params_ok :: "line_params \<Rightarrow> bool" where
  "params_ok q \<longleftrightarrow> 0 < lq_line_range q \<and> 3 < lq_opcode_base q"

definition special_code :: "line_params \<Rightarrow> int \<Rightarrow> int \<Rightarrow> int" where
  "special_code q dl da = dl - lq_line_base q + lq_line_range q * da + lq_opcode_base q"

fun encodable :: "line_params \<Rightarrow> row_code \<Rightarrow> bool" where
  "encodable q (Special dl da) \<longleftrightarrow> lq_line_base q \<le> dl \<and> dl < lq_line_base q + lq_line_range q \<and>
     0 \<le> da \<and> special_code q dl da < 256"
| "encodable q (Spelled dl da) = True"

fun row_bytes :: "line_params \<Rightarrow> row_code \<Rightarrow> bytes" where
  "row_bytes q (Special dl da) = [word_of_int (special_code q dl da)]"
| "row_bytes q (Spelled dl da) = [3] @ sleb128 dl @ [2] @ uleb128 da @ [1]"

text \<open>The rows themselves: line and address, from the ones before.\<close>

fun table_rows :: "int \<Rightarrow> int \<Rightarrow> int \<Rightarrow> row_code list \<Rightarrow> (int \<times> int) list" where
  "table_rows m l a [] = []"
| "table_rows m l a (r # rs) =
     (l + row_lines r, a + m * row_advance r) # table_rows m (l + row_lines r) (a + m * row_advance r) rs"

text \<open>What the entries of a decoded program show.\<close>

definition rows_of :: "line_entry list \<Rightarrow> (int \<times> int) list" where
  "rows_of es = concat (map (\<lambda>e. case le_state e of None \<Rightarrow> [] | Some s \<Rightarrow> [(ls_line s, ls_address s)]) es)"

definition header_for :: "line_params \<Rightarrow> val \<Rightarrow> bool" where
  "header_for q h \<longleftrightarrow> get_int h ''minimum_instruction_length'' = Ok (lq_min_len q) \<and>
     get_int h ''maximum_operations_per_instruction'' = Ok 1 \<and>
     get_int h ''line_base'' = Ok (lq_line_base q) \<and> get_int h ''line_range'' = Ok (lq_line_range q) \<and>
     get_int h ''opcode_base'' = Ok (lq_opcode_base q) \<and> get_item h ''default_is_stmt'' = Ok (lq_is_stmt q)"

lemma rows_of_append: "rows_of (es @ es') = rows_of es @ rows_of es'"
  by (simp add: rows_of_def)

text \<open>A run of the machine with the registers that matter for the table.\<close>

definition run_at :: "val \<Rightarrow> int \<Rightarrow> int \<Rightarrow> (int \<times> int) list \<Rightarrow> line_run \<Rightarrow> bool" where
  "run_at h l a rows r \<longleftrightarrow> lr_header r = h \<and> ls_line (lr_state r) = l \<and> ls_address (lr_state r) = a \<and>
     ls_op_index (lr_state r) = 0 \<and> rows_of (lr_entries r) = rows"

lemma special_row:
  assumes "header_for q h" "params_ok q" "encodable q (Special dl da)" "run_at h l a rows r"
  shows "\<exists>r'. special_opcode (special_code q dl da) r = Ok r' \<and>
    run_at h (l + dl) (a + lq_min_len q * da) (rows @ [(l + dl, a + lq_min_len q * da)]) r'"
proof -
  let ?adj = "dl - lq_line_base q + lq_line_range q * da"
  have lr: "0 < lq_line_range q"
    using assms(2) by (simp add: params_ok_def)
  have q: "?adj div lq_line_range q = da" "?adj mod lq_line_range q = dl - lq_line_base q"
    using assms(3) lr by (simp_all add: div_pos_pos_trivial mod_pos_pos_trivial)
  show ?thesis
    using assms(1,4) lr q
    by (simp add: special_opcode_def header_for_def run_at_def special_code_def py_div_def py_mod_def Let_def
      add_entry_new_state_def rows_of_append) (simp add: rows_of_def)
qed


lemma DW_LNS_values: "DW_LNS ''DW_LNS_copy'' = 1" "DW_LNS ''DW_LNS_advance_pc'' = 2" "DW_LNS ''DW_LNS_advance_line'' = 3"
  by code_simp+

lemma reads_as_byte: "reads_as (the_Dwarf_uint8 ds) [b] (VInt (uint b))"
proof -
  have "unpack e FmtB [b] = Ok (uint b)" for e
    by (simp add: unpack_def order_bytes_def split: endian.split)
  then show ?thesis
    by (auto simp: the_dwarf_defs Dwarf_uint8_def int_field_defs intro: reads_as_field)
qed

lemma reads_as_leb: "reads_as (the_Dwarf_uleb128 ds) (uleb128 m) (VInt (int m))"
  "reads_as (the_Dwarf_sleb128 ds) (sleb128 v) (VInt v)"
  by (simp_all add: the_dwarf_defs Dwarf_uleb128_def Dwarf_sleb128_def reads_as_uleb reads_as_sleb)

lemma line_loop_step:
  assumes "line_step ds offset r t = (Ok r', t')" "offset < stop"
  shows "line_loop (Suc n) ds stop offset r t = line_loop n ds stop (s_tell t') r' t'"
  using assms by (simp add: mbind_def s_pos_def)

lemma step_at:
  assumes "0 \<le> p" "p < 2 ^ 63" "drop (nat p) (sdata t) = b # rest" "get_int (lr_header r) ''opcode_base'' = Ok base"
  shows "line_step ds p r t = (if uint b \<ge> base then lift_res (special_opcode (uint b) r)
     else if uint b = 0 then extended_opcode ds r else standard_opcode ds (uint b) r) (t\<lparr>spos := nat p + 1\<rparr>)"
  using parse_int_at [OF reads_as_byte assms(1,2), of t b rest] assms(3,4)
  by (simp add: line_step_def mbind_def)

lemma operand_at:
  assumes "reads_as c bs (VInt v)" "drop k (sdata t) = bs @ rest"
  shows "parse_int c None (t\<lparr>spos := k\<rparr>) = (Ok v, t\<lparr>spos := k + length bs\<rparr>)"
  using reads_as_parse_int [OF assms(1), of "t\<lparr>spos := k\<rparr>" rest] assms(2)
  by (simp add: tail_bytes_def adv_def)

lemma drop_further: "drop k d = xs @ ys \<Longrightarrow> drop (k + length xs) d = ys"
  by (metis add.commute append_eq_conv_conj drop_drop)

text \<open>A row that is spelled out: three instructions.\<close>

lemma spelled_row:
  assumes "header_for q h" "params_ok q" "run_at h l a rows r" "0 \<le> p" "p + int (length (row_bytes q (Spelled dl da))) < 2 ^ 63"
    "drop (nat p) (sdata t) = row_bytes q (Spelled dl da) @ rest"
  shows "\<exists>r1 t1 r2 t2 r3 t3.
    line_step ds p r t = (Ok r1, t1) \<and> line_step ds (s_tell t1) r1 t1 = (Ok r2, t2) \<and>
    line_step ds (s_tell t2) r2 t2 = (Ok r3, t3) \<and> sdata t3 = sdata t \<and>
    s_tell t1 < s_tell t2 \<and> p < s_tell t1 \<and> s_tell t2 < s_tell t3 \<and>
    s_tell t3 = p + int (length (row_bytes q (Spelled dl da))) \<and>
    run_at h (l + dl) (a + lq_min_len q * int da) (rows @ [(l + dl, a + lq_min_len q * int da)]) r3"
proof -
  let ?s = "sleb128 dl" and ?u = "uleb128 da"
  have base: "get_int h ''opcode_base'' = Ok (lq_opcode_base q)" "3 < lq_opcode_base q"
    and hdr: "lr_header r = h"
    using assms(1-3) by (simp_all add: header_for_def params_ok_def run_at_def)
  define p1 where "p1 = p + 1 + int (length ?s)"
  define p2 where "p2 = p1 + 1 + int (length ?u)"
  have d0: "drop (nat p) (sdata t) = 3 # ?s @ [2] @ ?u @ [1] @ rest"
    using assms(6) by simp
  then have d0': "drop (nat p + 1) (sdata t) = ?s @ [2] @ ?u @ [1] @ rest"
    using drop_further [of "nat p" "sdata t" "[3]"] by simp
  have n1: "nat p + 1 + length ?s = nat p1" and n2: "nat p1 + 1 + length ?u = nat p2"
    using assms(4) by (simp_all add: p1_def p2_def)
  have d1: "drop (nat p1) (sdata t) = 2 # ?u @ [1] @ rest"
    using drop_further [OF d0'] n1 by simp
  then have d1': "drop (nat p1 + 1) (sdata t) = ?u @ [1] @ rest"
    using drop_further [of "nat p1" "sdata t" "[2]"] by simp
  have d2: "drop (nat p2) (sdata t) = 1 # rest"
    using drop_further [OF d1'] n2 by simp
  have less: "p1 < 2 ^ 63" "p2 < 2 ^ 63" "0 \<le> p1" "0 \<le> p2"
    using assms(4,5) by (simp_all add: p1_def p2_def)
  let ?r1 = "upd_state (\<lambda>s. s\<lparr>ls_line := ls_line s + dl\<rparr>) r"
  let ?t1 = "t\<lparr>spos := nat p1\<rparr>"
  have s1: "line_step ds p r t = (Ok ?r1, ?t1)"
    using operand_at [OF reads_as_leb(2) d0'] assms(5) base hdr n1 d0 assms(4)
    by (simp add: step_at [OF assms(4) _ d0] standard_opcode_def DW_LNS_values mbind_def)
  let ?r2 = "add_entry_old_state 2 [VInt (int da * lq_min_len q)] False
            (upd_state (\<lambda>s. s\<lparr>ls_address := ls_address s + int da * lq_min_len q\<rparr>) ?r1)"
  let ?t2 = "t\<lparr>spos := nat p2\<rparr>"
  have s2: "line_step ds (s_tell ?t1) ?r1 ?t1 = (Ok ?r2, ?t2)"
    using operand_at [OF reads_as_leb(1) d1'] base hdr n2 d1 less assms(1)
    by (simp add: step_at [OF less(3) less(1), of ?t1 2 "?u @ [1] @ rest"] s_tell_def upd_state_def standard_opcode_def
      DW_LNS_values mbind_def header_for_def)
  let ?r3 = "add_entry_new_state 1 [] False ?r2"
  let ?t3 = "t\<lparr>spos := nat p2 + 1\<rparr>"
  have s3: "line_step ds (s_tell ?t2) ?r2 ?t2 = (Ok ?r3, ?t3)"
    using base hdr d2 less
    by (simp add: step_at [OF less(4) less(2), of ?t2 1 rest] s_tell_def upd_state_def add_entry_old_state_def
      standard_opcode_def DW_LNS_values)
  have "run_at h (l + dl) (a + lq_min_len q * int da) (rows @ [(l + dl, a + lq_min_len q * int da)]) ?r3"
    using assms(3) by (simp add: run_at_def add_entry_new_state_def add_entry_old_state_def upd_state_def rows_of_append)
      (simp add: rows_of_def mult.commute)
  moreover have "p < p1" "p1 < p2" "p2 + 1 = p + int (length (row_bytes q (Spelled dl da)))"
    by (simp_all add: p1_def p2_def)
  ultimately show ?thesis
    using s1 s2 s3 less by (intro exI conjI) (assumption | simp add: s_tell_def)+
qed

lemma special_step:
  assumes "header_for q h" "params_ok q" "encodable q (Special dl da)" "run_at h l a rows r" "0 \<le> p" "p < 2 ^ 63"
    "drop (nat p) (sdata t) = row_bytes q (Special dl da) @ rest"
  shows "\<exists>r'. line_step ds p r t = (Ok r', t\<lparr>spos := nat p + 1\<rparr>) \<and>
    run_at h (l + dl) (a + lq_min_len q * da) (rows @ [(l + dl, a + lq_min_len q * da)]) r'"
proof -
  have b: "lq_opcode_base q \<le> special_code q dl da" "0 \<le> special_code q dl da" "special_code q dl da < 256"
    using assms(2,3) by (auto simp: special_code_def params_ok_def)
  then have u: "uint (word_of_int (special_code q dl da) :: byte) = special_code q dl da"
    by (simp add: uint_word_of_int)
  have base: "get_int (lr_header r) ''opcode_base'' = Ok (lq_opcode_base q)"
    using assms(1,4) by (simp add: header_for_def run_at_def)
  from step_at [OF assms(5,6) _ base, of t "word_of_int (special_code q dl da)" rest ds] assms(7) u b
  have "line_step ds p r t = (special_opcode (special_code q dl da) r, t\<lparr>spos := nat p + 1\<rparr>)"
    by simp
  with special_row [OF assms(1-4)] show ?thesis by metis
qed

lemma table_loop:
  assumes "header_for q h" "params_ok q" "list_all (encodable q) rs" "run_at h l a rows r" "0 \<le> p"
    "drop (nat p) (sdata t) = concat (map (row_bytes q) rs) @ rest"
    "stop = p + int (length (concat (map (row_bytes q) rs)))" "stop < 2 ^ 63"
    "length (concat (map (row_bytes q) rs)) < n"
  shows "\<exists>r' t'. line_loop n ds stop p r t = (Ok r', t') \<and> lr_header r' = h \<and>
    rows_of (lr_entries r') = rows @ table_rows (lq_min_len q) l a rs"
  using assms
proof (induction rs arbitrary: l a rows r p t n)
  case Nil
  then obtain n' where "n = Suc n'" by (cases n) auto
  with Nil show ?case by (simp add: run_at_def)
next
  case (Cons x rs)
  let ?rest = "concat (map (row_bytes q) rs)"
  have enc: "encodable q x" "list_all (encodable q) rs" using Cons.prems(3) by simp_all
  have d: "drop (nat p) (sdata t) = row_bytes q x @ ?rest @ rest" using Cons.prems(6) by simp
  have stop: "stop = p + int (length (row_bytes q x)) + int (length ?rest)" using Cons.prems(7) by simp
  show ?case
  proof (cases x)
    case (Special dl da)
    have p: "p < stop" "p < 2 ^ 63" using stop Cons.prems(8) by (simp_all add: Special)
    obtain n' where n: "n = Suc n'" using Cons.prems(9) by (cases n) auto
    from special_step [OF Cons.prems(1,2) _ Cons.prems(4,5) p(2), of dl da t "?rest @ rest" ds] enc d
    obtain r' where s: "line_step ds p r t = (Ok r', t\<lparr>spos := nat p + 1\<rparr>)"
      and at: "run_at h (l + dl) (a + lq_min_len q * da) (rows @ [(l + dl, a + lq_min_len q * da)]) r'"
      unfolding Special by blast
    have "\<exists>r'' t'. line_loop n' ds stop (p + 1) r' (t\<lparr>spos := nat p + 1\<rparr>) = (Ok r'', t') \<and> lr_header r'' = h \<and>
        rows_of (lr_entries r'') = (rows @ [(l + dl, a + lq_min_len q * da)]) @ table_rows (lq_min_len q) (l + dl) (a + lq_min_len q * da) rs"
    proof (rule Cons.IH [OF Cons.prems(1,2) enc(2) at])
      show "0 \<le> p + 1" "stop = p + 1 + int (length ?rest)" "stop < 2 ^ 63" "length ?rest < n'"
        using Cons.prems(5,8,9) stop by (simp_all add: Special n)
      show "drop (nat (p + 1)) (sdata (t\<lparr>spos := nat p + 1\<rparr>)) = ?rest @ rest"
        using drop_further [OF d] Cons.prems(5) by (simp add: Special nat_add_distrib)
    qed
    then show ?thesis
      using Cons.prems(5) by (simp add: n line_loop_step [OF s p(1)] s_tell_def Special add.commute [of 1 p] del: line_loop.simps)
  next
    case (Spelled dl da)
    let ?len = "length (row_bytes q (Spelled dl da))"
    have p: "p + int ?len < 2 ^ 63" using stop Cons.prems(8) by (simp add: Spelled)
    have "3 \<le> ?len" by (simp add: Suc_leI)
    then obtain n' where n: "n = Suc (Suc (Suc n'))" and n': "length ?rest < n'"
      using Cons.prems(9) by (cases n; cases "n - 1"; cases "n - 2") (auto simp: Spelled)
    from spelled_row [OF Cons.prems(1,2,4,5) p, of t "?rest @ rest" ds] d
    obtain r1 t1 r2 t2 r3 t3 where s1: "line_step ds p r t = (Ok r1, t1)"
      and s2: "line_step ds (s_tell t1) r1 t1 = (Ok r2, t2)" and s3: "line_step ds (s_tell t2) r2 t2 = (Ok r3, t3)"
      and t3: "sdata t3 = sdata t" "s_tell t3 = p + int ?len" and order: "s_tell t1 < s_tell t2" "p < s_tell t1" "s_tell t2 < s_tell t3"
      and at: "run_at h (l + dl) (a + lq_min_len q * int da) (rows @ [(l + dl, a + lq_min_len q * int da)]) r3"
      unfolding Spelled by blast
    have "s_tell t3 \<le> stop" using stop t3(2) by (simp add: Spelled)
    with order have less: "p < stop" "s_tell t1 < stop" "s_tell t2 < stop" by linarith+
    have "\<exists>r'' t'. line_loop n' ds stop (s_tell t3) r3 t3 = (Ok r'', t') \<and> lr_header r'' = h \<and>
        rows_of (lr_entries r'') = (rows @ [(l + dl, a + lq_min_len q * int da)]) @
          table_rows (lq_min_len q) (l + dl) (a + lq_min_len q * int da) rs"
    proof (rule Cons.IH [OF Cons.prems(1,2) enc(2) at])
      show "0 \<le> s_tell t3" "stop < 2 ^ 63" "length ?rest < n'" "stop = s_tell t3 + int (length ?rest)"
        using Cons.prems(8) n' stop t3(2) by (simp_all add: s_tell_def Spelled)
      show "drop (nat (s_tell t3)) (sdata t3) = ?rest @ rest"
        using drop_further [OF d] Cons.prems(5) t3 by (simp add: Spelled nat_add_distrib del: row_bytes.simps)
    qed
    then show ?thesis
      by (simp add: n line_loop_step [OF s1 less(1)] line_loop_step [OF s2 less(2)] line_loop_step [OF s3 less(3)] Spelled
        del: line_loop.simps)
  qed
qed

text \<open>C24: a line table survives being written and decoded.  Any sequence of rows, each written as a special
  opcode where its differences fit one and spelled out with the advancing instructions where they do not, is
  decoded (for a header of that coding, anywhere in a section) to entries whose states are exactly those rows:
  the recipe for special opcodes, the signed and unsigned variable-length operands, and the accumulation of
  lines and addresses all agree with what the writer meant.\<close>

theorem line_table_roundtrip:
  assumes "header_for q h" "params_ok q" "list_all (encodable q) rs" "0 \<le> start"
    "drop (nat start) (sdata t) = concat (map (row_bytes q) rs) @ rest"
    "start + int (length (concat (map (row_bytes q) rs))) < 2 ^ 63"
  shows "\<exists>es t'. decode_line_program \<lparr>lp_header = h, lp_structs = ds, lp_start = start,
        lp_end = start + int (length (concat (map (row_bytes q) rs)))\<rparr> t = (Ok (es, h), t') \<and>
      rows_of es = table_rows (lq_min_len q) 1 0 rs"
proof -
  let ?r = "\<lparr>lr_entries = [], lr_state = LineState_init (lq_is_stmt q), lr_header = h\<rparr>"
  have "run_at h 1 0 [] ?r"
    by (simp add: run_at_def LineState_init_def rows_of_def)
  from table_loop [OF assms(1-3) this assms(4,5) refl assms(6), of "nat (int (length (concat (map (row_bytes q) rs)))) + 1" ds]
  obtain r' t' where "line_loop (nat (int (length (concat (map (row_bytes q) rs)))) + 1) ds
        (start + int (length (concat (map (row_bytes q) rs)))) start ?r t = (Ok r', t')"
      "lr_header r' = h" "rows_of (lr_entries r') = table_rows (lq_min_len q) 1 0 rs"
    by auto
  then show ?thesis
    using assms(1) by (simp add: decode_line_program_def header_for_def mbind_def del: line_loop.simps)
qed

theorem line_table_roundtrip_witness:
  "\<exists>q h rs t es t'. length rs = 3 \<and>
     decode_line_program \<lparr>lp_header = h,
       lp_structs = \<lparr>dw_little_endian = True, dwarf_format = 32, address_size = 8, dwarf_version = 4\<rparr>,
       lp_start = 2, lp_end = 2 + int (length (concat (map (row_bytes q) rs)))\<rparr> t = (Ok (es, h), t') \<and>
     rows_of es = [(3, 4), (203, 1004), (202, 1008)]"
proof -
  let ?q = "\<lparr>lq_min_len = 4, lq_line_base = -5, lq_line_range = 14, lq_opcode_base = 13, lq_is_stmt = VInt 1\<rparr>"
  let ?h = "VCont [(''minimum_instruction_length'', VInt 4), (''maximum_operations_per_instruction'', VInt 1),
     (''line_base'', VInt (-5)), (''line_range'', VInt 14), (''opcode_base'', VInt 13), (''default_is_stmt'', VInt 1)]"
  let ?rs = "[Special 2 1, Spelled 200 250, Special (-1) 1]"
  let ?t = "bytesio ([9, 9] @ concat (map (row_bytes ?q) ?rs) @ [7])"
  have len: "length (concat (map (row_bytes ?q) ?rs)) < 100" by code_simp
  have "list_all (encodable ?q) ?rs" by (simp add: special_code_def)
  moreover have "header_for ?q ?h" "params_ok ?q"
    by (simp_all add: header_for_def params_ok_def get_int_def)
  ultimately have "\<exists>es t'. decode_line_program \<lparr>lp_header = ?h,
       lp_structs = \<lparr>dw_little_endian = True, dwarf_format = 32, address_size = 8, dwarf_version = 4\<rparr>,
       lp_start = 2, lp_end = 2 + int (length (concat (map (row_bytes ?q) ?rs)))\<rparr> ?t = (Ok (es, ?h), t') \<and>
     rows_of es = table_rows (lq_min_len ?q) 1 0 ?rs"
    using len by (intro line_table_roundtrip [of _ _ _ _ _ "[7]"]) (simp_all only: bytesio_simps, simp_all)
  moreover have "table_rows (lq_min_len ?q) 1 0 ?rs = [(3, 4), (203, 1004), (202, 1008)]" by simp
  moreover have "length ?rs = 3" by simp
  ultimately show ?thesis by metis
qed

end
