(* ===== verification/DwarfExpr.thy ===== *)
theory DwarfExpr
  imports SectionReads
begin

text \<open>
  \<^verbatim>\<open>elftools/dwarf/dwarf_expr.py\<close>: parsing DWARF expressions into lists of operations, which may hold
  expressions themselves.  The closures of the dispatch table are the values of \<open>arg_kind\<close>.
\<close>

section \<open>Operations\<close>

text \<open>An operation: opcode, name, arguments and offset; an argument is a number, a list of bytes or an expression.\<close>

datatype expr_arg = ArgVal val | ArgBlob "val list" | ArgExpr "expr_op list"
and expr_op = ExprOp int pystr "expr_arg list" int

definition decimal :: "nat \<Rightarrow> string" where
  "decimal n = (if n < 10 then [char_of (48 + n)] else [char_of (48 + n div 10), char_of (48 + n mod 10)])"

definition generate_dynamic_values :: "int dict \<Rightarrow> string \<Rightarrow> nat \<Rightarrow> nat \<Rightarrow> int \<Rightarrow> int dict" where
  "generate_dynamic_values m prefix index_start index_end value_start =
     foldl (\<lambda>m i. dput (prefix @ decimal i) (value_start + int i - int index_start) m) m
       [index_start..<index_end + 1]"

definition static_opcodes :: "int dict" where
  "static_opcodes =
    [(''DW_OP_addr'', 3), (''DW_OP_deref'', 6), (''DW_OP_const1u'', 8), (''DW_OP_const1s'', 9),
     (''DW_OP_const2u'', 10), (''DW_OP_const2s'', 11), (''DW_OP_const4u'', 12),
     (''DW_OP_const4s'', 13), (''DW_OP_const8u'', 14), (''DW_OP_const8s'', 15),
     (''DW_OP_constu'', 16), (''DW_OP_consts'', 17), (''DW_OP_dup'', 18), (''DW_OP_drop'', 19),
     (''DW_OP_over'', 20), (''DW_OP_pick'', 21), (''DW_OP_swap'', 22), (''DW_OP_rot'', 23),
     (''DW_OP_xderef'', 24), (''DW_OP_abs'', 25), (''DW_OP_and'', 26), (''DW_OP_div'', 27),
     (''DW_OP_minus'', 28), (''DW_OP_mod'', 29), (''DW_OP_mul'', 30), (''DW_OP_neg'', 31),
     (''DW_OP_not'', 32), (''DW_OP_or'', 33), (''DW_OP_plus'', 34), (''DW_OP_plus_uconst'', 35),
     (''DW_OP_shl'', 36), (''DW_OP_shr'', 37), (''DW_OP_shra'', 38), (''DW_OP_xor'', 39),
     (''DW_OP_bra'', 40), (''DW_OP_eq'', 41), (''DW_OP_ge'', 42), (''DW_OP_gt'', 43),
     (''DW_OP_le'', 44), (''DW_OP_lt'', 45), (''DW_OP_ne'', 46), (''DW_OP_skip'', 47),
     (''DW_OP_regx'', 144), (''DW_OP_fbreg'', 145), (''DW_OP_bregx'', 146), (''DW_OP_piece'', 147),
     (''DW_OP_deref_size'', 148), (''DW_OP_xderef_size'', 149), (''DW_OP_nop'', 150),
     (''DW_OP_push_object_address'', 151), (''DW_OP_call2'', 152), (''DW_OP_call4'', 153),
     (''DW_OP_call_ref'', 154), (''DW_OP_form_tls_address'', 155), (''DW_OP_call_frame_cfa'', 156),
     (''DW_OP_bit_piece'', 157), (''DW_OP_implicit_value'', 158), (''DW_OP_stack_value'', 159),
     (''DW_OP_implicit_pointer'', 160), (''DW_OP_addrx'', 161), (''DW_OP_constx'', 162),
     (''DW_OP_entry_value'', 163), (''DW_OP_const_type'', 164), (''DW_OP_regval_type'', 165),
     (''DW_OP_deref_type'', 166), (''DW_OP_xderef_type'', 167), (''DW_OP_convert'', 168),
     (''DW_OP_reinterpret'', 169), (''DW_OP_lo_user'', 224), (''DW_OP_GNU_push_tls_address'', 224),
     (''DW_OP_WASM_location'', 237), (''DW_OP_GNU_uninit'', 240),
     (''DW_OP_GNU_implicit_pointer'', 242), (''DW_OP_GNU_entry_value'', 243),
     (''DW_OP_GNU_const_type'', 244), (''DW_OP_GNU_regval_type'', 245),
     (''DW_OP_GNU_deref_type'', 246), (''DW_OP_GNU_convert'', 247),
     (''DW_OP_GNU_parameter_ref'', 250), (''DW_OP_hi_user'', 255)]"

definition DW_OP_name2opcode :: "int dict" where
  "DW_OP_name2opcode =
     generate_dynamic_values
       (generate_dynamic_values
         (generate_dynamic_values static_opcodes ''DW_OP_lit'' 0 31 0x30)
         ''DW_OP_reg'' 0 31 0x50)
       ''DW_OP_breg'' 0 31 0x70"

definition DW_OP_opcode2name :: "(int \<times> string) list" where
  "DW_OP_opcode2name = foldl (\<lambda>m (k, v). AList.update v k m) [] DW_OP_name2opcode"

definition hex_int :: "int \<Rightarrow> pystr" where
  "hex_int op = (if op < 16 then [hex_digit op] else [hex_digit (op div 16), hex_digit (op mod 16)])"

definition op_name :: "int \<Rightarrow> pystr" where
  "op_name op = (case map_of DW_OP_opcode2name op of Some n \<Rightarrow> lit n | None \<Rightarrow> lit ''OP:0x'' @ hex_int op)"

section \<open>The dispatch table\<close>

datatype arg_kind = Parsed "con list" | NestedExpr | Blob | TypedBlob | WasmLoc

definition fixed_parsers :: "dwarf_structs \<Rightarrow> (string \<times> arg_kind) list" where
  "fixed_parsers ds =
     [(''DW_OP_addr'', Parsed [the_Dwarf_target_addr ds]),
      (''DW_OP_addrx'', Parsed [the_Dwarf_uleb128 ds]),
      (''DW_OP_const1u'', Parsed [the_Dwarf_uint8 ds]),
      (''DW_OP_const1s'', Parsed [Dwarf_int8 ds '''']),
      (''DW_OP_const2u'', Parsed [the_Dwarf_uint16 ds]),
      (''DW_OP_const2s'', Parsed [Dwarf_int16 ds '''']),
      (''DW_OP_const4u'', Parsed [the_Dwarf_uint32 ds]),
      (''DW_OP_const4s'', Parsed [Dwarf_int32 ds '''']),
      (''DW_OP_const8u'', Parsed [Dwarf_uint64 ds '''']),
      (''DW_OP_const8s'', Parsed [Dwarf_int64 ds '''']),
      (''DW_OP_constu'', Parsed [the_Dwarf_uleb128 ds]),
      (''DW_OP_consts'', Parsed [the_Dwarf_sleb128 ds]), (''DW_OP_pick'', Parsed [the_Dwarf_uint8 ds]),
      (''DW_OP_plus_uconst'', Parsed [the_Dwarf_uleb128 ds]),
      (''DW_OP_bra'', Parsed [Dwarf_int16 ds '''']), (''DW_OP_skip'', Parsed [Dwarf_int16 ds '''']),
      (''DW_OP_deref'', Parsed []), (''DW_OP_dup'', Parsed []), (''DW_OP_drop'', Parsed []),
      (''DW_OP_over'', Parsed []), (''DW_OP_swap'', Parsed []), (''DW_OP_swap'', Parsed []),
      (''DW_OP_rot'', Parsed []), (''DW_OP_xderef'', Parsed []), (''DW_OP_abs'', Parsed []),
      (''DW_OP_and'', Parsed []), (''DW_OP_div'', Parsed []), (''DW_OP_minus'', Parsed []),
      (''DW_OP_mod'', Parsed []), (''DW_OP_mul'', Parsed []), (''DW_OP_neg'', Parsed []),
      (''DW_OP_not'', Parsed []), (''DW_OP_or'', Parsed []), (''DW_OP_plus'', Parsed []),
      (''DW_OP_shl'', Parsed []), (''DW_OP_shr'', Parsed []), (''DW_OP_shra'', Parsed []),
      (''DW_OP_xor'', Parsed []), (''DW_OP_eq'', Parsed []), (''DW_OP_ge'', Parsed []),
      (''DW_OP_gt'', Parsed []), (''DW_OP_le'', Parsed []), (''DW_OP_lt'', Parsed []),
      (''DW_OP_ne'', Parsed []), (''DW_OP_nop'', Parsed []),
      (''DW_OP_push_object_address'', Parsed []), (''DW_OP_form_tls_address'', Parsed []),
      (''DW_OP_call_frame_cfa'', Parsed []), (''DW_OP_stack_value'', Parsed []),
      (''DW_OP_GNU_push_tls_address'', Parsed []), (''DW_OP_GNU_uninit'', Parsed [])]"

definition register_parsers :: "dwarf_structs \<Rightarrow> (string \<times> arg_kind) list" where
  "register_parsers ds = concat (map (\<lambda>n.
     [(''DW_OP_lit'' @ decimal n, Parsed []), (''DW_OP_reg'' @ decimal n, Parsed []),
      (''DW_OP_breg'' @ decimal n, Parsed [the_Dwarf_sleb128 ds])]) [0..<32])"

definition later_parsers :: "dwarf_structs \<Rightarrow> (string \<times> arg_kind) list" where
  "later_parsers ds =
     [(''DW_OP_fbreg'', Parsed [the_Dwarf_sleb128 ds]), (''DW_OP_regx'', Parsed [the_Dwarf_uleb128 ds]),
      (''DW_OP_bregx'', Parsed [the_Dwarf_uleb128 ds, the_Dwarf_sleb128 ds]),
      (''DW_OP_piece'', Parsed [the_Dwarf_uleb128 ds]),
      (''DW_OP_bit_piece'', Parsed [the_Dwarf_uleb128 ds, the_Dwarf_uleb128 ds]),
      (''DW_OP_deref_size'', Parsed [Dwarf_int8 ds '''']),
      (''DW_OP_xderef_size'', Parsed [Dwarf_int8 ds '''']),
      (''DW_OP_call2'', Parsed [the_Dwarf_uint16 ds]), (''DW_OP_call4'', Parsed [the_Dwarf_uint32 ds]),
      (''DW_OP_call_ref'', Parsed [the_Dwarf_offset ds]), (''DW_OP_implicit_value'', Blob),
      (''DW_OP_entry_value'', NestedExpr), (''DW_OP_const_type'', TypedBlob),
      (''DW_OP_regval_type'', Parsed [the_Dwarf_uleb128 ds, the_Dwarf_uleb128 ds]),
      (''DW_OP_deref_type'', Parsed [the_Dwarf_uint8 ds, the_Dwarf_uleb128 ds]),
      (''DW_OP_implicit_pointer'', Parsed [the_Dwarf_offset ds, the_Dwarf_sleb128 ds]),
      (''DW_OP_convert'', Parsed [the_Dwarf_uleb128 ds]), (''DW_OP_GNU_entry_value'', NestedExpr),
      (''DW_OP_GNU_const_type'', TypedBlob),
      (''DW_OP_GNU_regval_type'', Parsed [the_Dwarf_uleb128 ds, the_Dwarf_uleb128 ds]),
      (''DW_OP_GNU_deref_type'', Parsed [the_Dwarf_uint8 ds, the_Dwarf_uleb128 ds]),
      (''DW_OP_GNU_implicit_pointer'', Parsed [the_Dwarf_offset ds, the_Dwarf_sleb128 ds]),
      (''DW_OP_GNU_parameter_ref'', Parsed [the_Dwarf_offset ds]),
      (''DW_OP_GNU_convert'', Parsed [the_Dwarf_uleb128 ds]), (''DW_OP_WASM_location'', WasmLoc)]"

definition init_dispatch_table :: "dwarf_structs \<Rightarrow> (int \<times> arg_kind) list res" where
  "init_dispatch_table ds =
     foldl (\<lambda>tab (n, k). rbind tab (\<lambda>tab. rbind (dget DW_OP_name2opcode n) (\<lambda>c. Ok (AList.update c k tab))))
       (Ok []) (fixed_parsers ds @ register_parsers ds @ later_parsers ds)"

definition arg_parser :: "dwarf_structs \<Rightarrow> int \<Rightarrow> arg_kind res" where
  "arg_parser ds op = rbind (init_dispatch_table ds) (\<lambda>tab.
     case map_of tab op of None \<Rightarrow> Err KeyError | Some k \<Rightarrow> Ok k)"

section \<open>Parsing\<close>

text \<open>The arguments of an operation; \<open>nested\<close> parses an expression given as a list of numbers.\<close>

definition parse_args :: "dwarf_structs \<Rightarrow> (int list \<Rightarrow> expr_op list res) \<Rightarrow> arg_kind \<Rightarrow> expr_arg list S" where
  "parse_args ds nested k = (case k of
       Parsed cs \<Rightarrow> mbind (mmap (\<lambda>c. struct_parse c None) cs) (\<lambda>vs. ret (map ArgVal vs))
     | NestedExpr \<Rightarrow>
         mbind (parse_int (the_Dwarf_uleb128 ds) None) (\<lambda>size.
         mbind (read_blob size) (\<lambda>blob.
         mbind (lift_res (rbind (rmap as_int blob) nested)) (\<lambda>e. ret [ArgExpr e])))
     | Blob \<Rightarrow>
         mbind (parse_int (the_Dwarf_uleb128 ds) None) (\<lambda>size.
         mbind (read_blob size) (\<lambda>blob. ret [ArgBlob blob]))
     | TypedBlob \<Rightarrow>
         mbind (struct_parse (the_Dwarf_uleb128 ds) None) (\<lambda>ty.
         mbind (parse_int (the_Dwarf_uint8 ds) None) (\<lambda>size.
         mbind (read_blob size) (\<lambda>blob. ret [ArgVal ty, ArgBlob blob])))
     | WasmLoc \<Rightarrow>
         mbind (parse_int (the_Dwarf_uint8 ds) None) (\<lambda>op.
           if 0 \<le> op \<and> op \<le> 2 then
             mbind (struct_parse (the_Dwarf_uleb128 ds) None) (\<lambda>v. ret [ArgVal (VInt op), ArgVal v])
           else if op = 3 then
             mbind (struct_parse (the_Dwarf_uint32 ds) None) (\<lambda>v. ret [ArgVal (VInt op), ArgVal v])
           else raise DWARFError))"

text \<open>Every round reads an opcode, and a nested expression is shorter than what it is part of.\<close>

primrec ops_loop :: "nat \<Rightarrow> dwarf_structs \<Rightarrow> expr_op list S" where
  "ops_loop 0 ds = lift_res NoFuel"
| "ops_loop (Suc fuel) ds =
     mbind s_pos (\<lambda>offset.
     mbind (s_read 1) (\<lambda>byte. case byte of [] \<Rightarrow> ret []
       | b # _ \<Rightarrow>
         let op = uint b in
         mbind (lift_res (arg_parser ds op)) (\<lambda>k.
         mbind (parse_args ds (\<lambda>e. rbind (bytelist2string e) (\<lambda>bs. fst (ops_loop fuel ds (bytesio bs)))) k) (\<lambda>args.
         mbind (ops_loop fuel ds) (\<lambda>ops. ret (ExprOp op (op_name op) args offset # ops))))))"

definition parse_expr :: "dwarf_structs \<Rightarrow> int list \<Rightarrow> expr_op list res" where
  "parse_expr ds expr = rbind (bytelist2string expr) (\<lambda>bs. fst (ops_loop (length bs + 1) ds (bytesio bs)))"

end
