(* ===== verification/ExprOpcodes.thy ===== *)
theory ExprOpcodes
  imports DwarfExpr
begin

text \<open>
  The tables of \<^verbatim>\<open>dwarf/dwarf_expr.py\<close> reasoned about by name: which code a name has, which parser and
  which name a code gets, and which codes have a name but no parser.
\<close>

section \<open>Looking up opcodes\<close>

lemma generate_other:
  "take (length p) k \<noteq> p \<Longrightarrow> dget (generate_dynamic_values m p a b v) k = dget m k"
proof -
  have "take (length p) k \<noteq> p \<Longrightarrow> dget (foldl (\<lambda>m i. dput (p @ decimal i) (f i) m) m is) k = dget m k" for f "is"
  proof (induction "is" arbitrary: m)
    case (Cons i "is")
    then have "p @ decimal i \<noteq> k" by auto
    with Cons show ?case by simp
  qed simp
  then show "take (length p) k \<noteq> p \<Longrightarrow> ?thesis" by (simp add: generate_dynamic_values_def)
qed

lemma name_static:
  "take 9 n \<noteq> ''DW_OP_lit'' \<Longrightarrow> take 9 n \<noteq> ''DW_OP_reg'' \<Longrightarrow> take 10 n \<noteq> ''DW_OP_breg'' \<Longrightarrow>
   dget DW_OP_name2opcode n = dget static_opcodes n"
  unfolding DW_OP_name2opcode_def by (simp add: generate_other eval_nat_numeral)

lemma generate_cases:
  assumes "dget (generate_dynamic_values m p a b v) n = Ok c"
  shows "(\<exists>i. a \<le> i \<and> i \<le> b \<and> n = p @ decimal i \<and> c = v + int i - int a) \<or> dget m n = Ok c"
proof -
  have "dget (foldl (\<lambda>m i. dput (p @ decimal i) (f i) m) m is) n = Ok c \<Longrightarrow>
      (\<exists>i \<in> set is. n = p @ decimal i \<and> c = f i) \<or> dget m n = Ok c" for f "is"
  proof (induction "is" arbitrary: m)
    case (Cons i "is")
    from Cons.IH [of "dput (p @ decimal i) (f i) m"] Cons.prems show ?case
      by (auto simp: dget_dput split: if_splits)
  qed simp
  from this [of "\<lambda>i. v + int i - int a" "[a..<b + 1]"] show ?thesis
    using assms by (auto simp: generate_dynamic_values_def)
qed

lemma opcode_static:
  assumes "dget DW_OP_name2opcode n = Ok c" "c < 0x30 \<or> 0x90 \<le> c"
  shows "(n, c) \<in> set static_opcodes"
proof -
  have "dget static_opcodes n = Ok c"
    using assms generate_cases [OF assms(1) [unfolded DW_OP_name2opcode_def]]
    by (auto dest!: generate_cases)
  then show ?thesis
    by (auto simp: dget_def map_of_SomeD split: option.splits)
qed

lemma generate_known:
  assumes "dget m n = Ok c \<or> n \<in> (\<lambda>i. p @ decimal i) ` {a..b}"
  shows "\<exists>c. dget (generate_dynamic_values m p a b v) n = Ok c"
proof -
  have "(\<exists>c. dget m n = Ok c) \<or> n \<in> (\<lambda>i. p @ decimal i) ` set is \<Longrightarrow>
      \<exists>c. dget (foldl (\<lambda>m i. dput (p @ decimal i) (f i) m) m is) n = Ok c" for f "is"
    by (induction "is" arbitrary: m) (auto simp: dget_dput)
  from this [of "[a..<b + 1]" "\<lambda>i. v + int i - int a"] assms show ?thesis
    unfolding generate_dynamic_values_def by (fastforce simp del: upt_Suc)
qed

lemma generate_old: "\<exists>c. dget m n = Ok c \<Longrightarrow> \<exists>c. dget (generate_dynamic_values m p a b v) n = Ok c"
  using generate_known by blast

lemma generate_new: "i \<in> {a..b} \<Longrightarrow> \<exists>c. dget (generate_dynamic_values m p a b v) (p @ decimal i) = Ok c"
  by (rule generate_known) blast

text \<open>Every name that is given a parser is that of an opcode, so the table is made.\<close>

lemma names_known:
  "\<forall>n \<in> fst ` set (fixed_parsers ds @ register_parsers ds @ later_parsers ds). \<exists>c. dget DW_OP_name2opcode n = Ok c"
proof -
  have static: "\<exists>c. dget DW_OP_name2opcode n = Ok c" if "n \<in> fst ` set static_opcodes" for n
  proof -
    from that obtain c where "dget static_opcodes n = Ok c"
      by (cases "map_of static_opcodes n") (auto simp: dget_def map_of_eq_None_iff)
    then show ?thesis
      unfolding DW_OP_name2opcode_def by (intro generate_old) blast
  qed
  have fixed: "list_all (\<lambda>(n, k). n \<in> fst ` set static_opcodes) (fixed_parsers ds)"
    by (simp add: fixed_parsers_def static_opcodes_def)
  have later: "list_all (\<lambda>(n, k). n \<in> fst ` set static_opcodes) (later_parsers ds)"
    by (simp add: later_parsers_def static_opcodes_def)
  have register: "\<exists>c. dget DW_OP_name2opcode n = Ok c" if "(n, k) \<in> set (register_parsers ds)" for n k
  proof -
    from that obtain i where "i < 32" "n = ''DW_OP_lit'' @ decimal i \<or> n = ''DW_OP_reg'' @ decimal i \<or>
        n = ''DW_OP_breg'' @ decimal i"
      unfolding register_parsers_def by (fastforce simp del: upt_rec_numeral append.simps)
    then consider (lit) "n = ''DW_OP_lit'' @ decimal i" | (reg) "n = ''DW_OP_reg'' @ decimal i"
      | (breg) "n = ''DW_OP_breg'' @ decimal i" and "i \<in> {0..31}" by fastforce
    then show ?thesis
    proof cases
      case lit
      show ?thesis
        unfolding lit DW_OP_name2opcode_def by (rule generate_old, rule generate_old, rule generate_new) (use \<open>i < 32\<close> in simp)
    next
      case reg
      show ?thesis
        unfolding reg DW_OP_name2opcode_def by (rule generate_old, rule generate_new) (use \<open>i < 32\<close> in simp)
    next
      case breg
      show ?thesis
        unfolding breg DW_OP_name2opcode_def by (rule generate_new) (use \<open>i < 32\<close> in simp)
    qed
  qed
  show ?thesis
  proof
    fix n assume "n \<in> fst ` set (fixed_parsers ds @ register_parsers ds @ later_parsers ds)"
    then consider k where "(n, k) \<in> set (fixed_parsers ds)" | k where "(n, k) \<in> set (register_parsers ds)"
      | k where "(n, k) \<in> set (later_parsers ds)"
      unfolding set_append image_iff by (metis Un_iff prod.exhaust_sel)
    then show "\<exists>c. dget DW_OP_name2opcode n = Ok c"
    proof cases
      case (1 k)
      with fixed have "n \<in> fst ` set static_opcodes" unfolding list_all_iff by blast
      then show ?thesis by (rule static)
    next
      case (3 k)
      with later have "n \<in> fst ` set static_opcodes" unfolding list_all_iff by blast
      then show ?thesis by (rule static)
    qed (rule register)
  qed
qed

text \<open>What the table holds: the parser added last for the opcode.\<close>

lemma table_lookup:
  assumes "\<forall>n \<in> fst ` set ps. \<exists>c. dget DW_OP_name2opcode n = Ok c"
  shows "\<exists>tab. foldl (\<lambda>tab (n, k). rbind tab (\<lambda>tab. rbind (dget DW_OP_name2opcode n) (\<lambda>c. Ok (AList.update c k tab))))
     (Ok start) ps = Ok tab \<and>
   (\<forall>c k xs ys n. ps = xs @ (n, k) # ys \<longrightarrow> dget DW_OP_name2opcode n = Ok c \<longrightarrow>
      (\<forall>(n', k') \<in> set ys. dget DW_OP_name2opcode n' \<noteq> Ok c) \<longrightarrow> map_of tab c = Some k) \<and>
   (\<forall>c. (\<forall>(n, k) \<in> set ps. dget DW_OP_name2opcode n \<noteq> Ok c) \<longrightarrow> map_of tab c = map_of start c)"
  using assms
proof (induction ps arbitrary: start)
  case (Cons p ps)
  obtain n k where p: "p = (n, k)" by fastforce
  obtain c where c: "dget DW_OP_name2opcode n = Ok c" using Cons.prems p by auto
  have known: "\<forall>n \<in> fst ` set ps. \<exists>c. dget DW_OP_name2opcode n = Ok c"
    using Cons.prems by auto
  from Cons.IH [OF known, where start = "AList.update c k start"] obtain tab where tab:
    "foldl (\<lambda>tab (n, k). rbind tab (\<lambda>tab. rbind (dget DW_OP_name2opcode n) (\<lambda>c. Ok (AList.update c k tab))))
       (Ok (AList.update c k start)) ps = Ok tab"
    "\<And>c' k' xs ys n'. ps = xs @ (n', k') # ys \<Longrightarrow> dget DW_OP_name2opcode n' = Ok c' \<Longrightarrow>
       \<forall>(n', k') \<in> set ys. dget DW_OP_name2opcode n' \<noteq> Ok c' \<Longrightarrow> map_of tab c' = Some k'"
    "\<And>c'. \<forall>(n, k) \<in> set ps. dget DW_OP_name2opcode n \<noteq> Ok c' \<Longrightarrow>
       map_of tab c' = map_of (AList.update c k start) c'"
    by blast
  show ?case
  proof (intro exI conjI allI impI)
    show "foldl (\<lambda>tab (n, k). rbind tab (\<lambda>tab. rbind (dget DW_OP_name2opcode n) (\<lambda>c. Ok (AList.update c k tab))))
       (Ok start) (p # ps) = Ok tab"
      using tab(1) p c by simp
  next
    fix c' k' xs ys n'
    assume a: "p # ps = xs @ (n', k') # ys" "dget DW_OP_name2opcode n' = Ok c'"
      "\<forall>(n', k') \<in> set ys. dget DW_OP_name2opcode n' \<noteq> Ok c'"
    show "map_of tab c' = Some k'"
    proof (cases xs)
      case Nil
      with a p c have "c' = c" "k' = k" "ys = ps" by auto
      with tab(3) [of c'] a(3) show ?thesis by (simp add: update_conv')
    qed (use tab(2) a in auto)
  next
    fix c' assume a: "\<forall>(n, k) \<in> set (p # ps). dget DW_OP_name2opcode n \<noteq> Ok c'"
    then have "c' \<noteq> c" using p c by auto
    with tab(3) [of c'] a show "map_of tab c' = map_of start c'" by (simp add: update_conv')
  qed
qed simp

abbreviation all_parsers :: "dwarf_structs \<Rightarrow> (string \<times> arg_kind) list" where
  "all_parsers ds \<equiv> fixed_parsers ds @ register_parsers ds @ later_parsers ds"

lemma arg_parser_at:
  assumes "(n, k) \<in> set (all_parsers ds)" "dget DW_OP_name2opcode n = Ok c"
    and same: "\<And>n' k'. (n', k') \<in> set (all_parsers ds) \<Longrightarrow> dget DW_OP_name2opcode n' = Ok c \<Longrightarrow> k' = k"
  shows "arg_parser ds c = Ok k"
proof -
  have "\<exists>p \<in> set (all_parsers ds). dget DW_OP_name2opcode (fst p) = Ok c"
    using assms(1,2) by (metis fst_conv)
  from split_list_last_prop [OF this] obtain xs n' k' ys where s: "all_parsers ds = xs @ (n', k') # ys"
    "dget DW_OP_name2opcode n' = Ok c" "\<forall>p \<in> set ys. dget DW_OP_name2opcode (fst p) \<noteq> Ok c"
    by (metis prod.exhaust_sel)
  have "(n', k') \<in> set (all_parsers ds)" unfolding s(1) by simp
  with same s(2) have "k' = k" by blast
  moreover have "\<forall>(n, k) \<in> set ys. dget DW_OP_name2opcode n \<noteq> Ok c" using s(3) by auto
  ultimately show ?thesis
    using table_lookup [OF names_known [of ds], where start = "[]"] s(1,2)
    unfolding arg_parser_def init_dispatch_table_def by (metis (no_types, lifting) option.case(2) rbind_simps(1))
qed

lemma register_names:
  assumes "(n, k) \<in> set (register_parsers ds)"
  shows "take 9 n = ''DW_OP_lit'' \<or> take 9 n = ''DW_OP_reg'' \<or> take 10 n = ''DW_OP_breg''"
proof -
  have "list_all (\<lambda>(n, k). take 9 n = ''DW_OP_lit'' \<or> take 9 n = ''DW_OP_reg'' \<or> take 10 n = ''DW_OP_breg'')
     (concat (map (\<lambda>n.
      [(''DW_OP_lit'' @ decimal n, Parsed []), (''DW_OP_reg'' @ decimal n, Parsed []),
       (''DW_OP_breg'' @ decimal n, Parsed [the_Dwarf_sleb128 ds])]) ns))" for ns
    by (induction ns) auto
  with assms show ?thesis
    unfolding register_parsers_def by (fastforce simp: list_all_iff)
qed

lemma arg_parser_static:
  assumes "map_of static_opcodes n = Some c" "list_all (\<lambda>(n', c'). c' = c \<longrightarrow> n' = n) static_opcodes"
    and "c < 0x30 \<or> 0x90 \<le> c" "take 9 n \<noteq> ''DW_OP_lit''" "take 9 n \<noteq> ''DW_OP_reg''" "take 10 n \<noteq> ''DW_OP_breg''"
    and "(n, k) \<in> set (fixed_parsers ds @ later_parsers ds)"
    and "\<And>k'. (n, k') \<in> set (fixed_parsers ds @ later_parsers ds) \<Longrightarrow> k' = k"
  shows "arg_parser ds c = Ok k"
proof (rule arg_parser_at)
  show "(n, k) \<in> set (all_parsers ds)" using assms(7) by auto
  show "dget DW_OP_name2opcode n = Ok c"
    unfolding name_static [OF assms(4-6)] using assms(1) by (simp add: dget_def)
  fix n' k' assume a: "(n', k') \<in> set (all_parsers ds)" "dget DW_OP_name2opcode n' = Ok c"
  have "n' = n"
    using opcode_static [OF a(2) assms(3)] assms(2) by (auto simp: list_all_iff)
  then show "k' = k"
    using a(1) assms(4-6,8) register_names by auto
qed

text \<open>Four opcodes have a name but no parser.\<close>

lemma arg_parser_missing:
  assumes "c \<in> {0xa2, 0xa7, 0xa9, 0xff}"
  shows "arg_parser ds c = Err KeyError"
proof -
  let ?names = "{''DW_OP_constx'', ''DW_OP_xderef_type'', ''DW_OP_reinterpret'', ''DW_OP_hi_user''}"
  have name: "n \<in> ?names" if "dget DW_OP_name2opcode n = Ok c" for n
    using opcode_static [OF that] assms by (auto simp: static_opcodes_def)
  have no: "n \<notin> ?names" if "(n, k) \<in> set (fixed_parsers ds @ register_parsers ds @ later_parsers ds)" for n k
  proof -
    have "list_all (\<lambda>(n, k). n \<notin> ?names) (fixed_parsers ds)" "list_all (\<lambda>(n, k). n \<notin> ?names) (later_parsers ds)"
      by (simp_all add: fixed_parsers_def later_parsers_def)
    then show ?thesis
      using that register_names [of n k ds] by (auto simp: list_all_iff)
  qed
  have "\<forall>(n, k) \<in> set (fixed_parsers ds @ register_parsers ds @ later_parsers ds). dget DW_OP_name2opcode n \<noteq> Ok c"
    using name no by blast
  then show ?thesis
    using table_lookup [OF names_known [of ds], where start = "[]"]
    by (fastforce simp: arg_parser_def init_dispatch_table_def)
qed

text \<open>And the name: the one in the table of names that has the code.\<close>

lemma op_name_at:
  assumes "dget DW_OP_name2opcode n = Ok c" "\<And>n'. dget DW_OP_name2opcode n' = Ok c \<Longrightarrow> n' = n"
  shows "op_name c = lit n"
proof -
  have d: "distinct (map fst (generate_dynamic_values m p a b v))" if "distinct (map fst m)" for m p a b v
  proof -
    have "distinct (map fst (foldl (\<lambda>m i. dput (p @ decimal i) (f i) m) m is))" for f "is"
      using that by (induction "is" arbitrary: m) (simp_all add: distinct_update)
    then show ?thesis by (simp add: generate_dynamic_values_def)
  qed
  have "distinct (map fst static_opcodes)" by (simp add: static_opcodes_def)
  then have dist: "distinct (map fst DW_OP_name2opcode)" unfolding DW_OP_name2opcode_def by (intro d)
  have m: "(n', c') \<in> set DW_OP_name2opcode \<longleftrightarrow> dget DW_OP_name2opcode n' = Ok c'" for n' c'
    unfolding map_of_eq_Some_iff [OF dist, symmetric] dget_def by (simp split: option.split)
  have "map_of (foldl (\<lambda>m (k, v). AList.update v k m) start ps) c =
      (if \<exists>n'. (n', c) \<in> set ps then Some n else map_of start c)"
    if "\<And>n'. (n', c) \<in> set ps \<Longrightarrow> n' = n" for start and ps :: "(string \<times> int) list"
    using that by (induction ps arbitrary: start) (auto simp: update_conv')
  from this [of DW_OP_name2opcode "[]", OF assms(2) [OF iffD1 [OF m]]]
  have "map_of DW_OP_opcode2name c = (if \<exists>n'. (n', c) \<in> set DW_OP_name2opcode then Some n else None)"
    unfolding DW_OP_opcode2name_def by (simp only: map_of.simps)
  moreover have "\<exists>n'. (n', c) \<in> set DW_OP_name2opcode"
    using iffD2 [OF m assms(1)] by (rule exI)
  ultimately have "map_of DW_OP_opcode2name c = Some n" by (simp only: if_True)
  then show ?thesis by (simp add: op_name_def)
qed

lemma op_name_static:
  assumes "map_of static_opcodes n = Some c" "list_all (\<lambda>(n', c'). c' = c \<longrightarrow> n' = n) static_opcodes"
    and "c < 0x30 \<or> 0x90 \<le> c" "take 9 n \<noteq> ''DW_OP_lit''" "take 9 n \<noteq> ''DW_OP_reg''" "take 10 n \<noteq> ''DW_OP_breg''"
  shows "op_name c = lit n"
proof (rule op_name_at)
  show "dget DW_OP_name2opcode n = Ok c"
    unfolding name_static [OF assms(4-6)] using assms(1) by (simp add: dget_def)
  show "n' = n" if "dget DW_OP_name2opcode n' = Ok c" for n'
    using opcode_static [OF that assms(3)] assms(2) by (auto simp: list_all_iff)
qed

lemma sample_parsers: "arg_parser ds 0xa3 = Ok NestedExpr" "arg_parser ds 0x9c = Ok (Parsed [])"
  "arg_parser ds 0x91 = Ok (Parsed [the_Dwarf_sleb128 ds])" "arg_parser ds 0x9f = Ok (Parsed [])"
  by (rule arg_parser_static [of "''DW_OP_entry_value''"]; simp add: static_opcodes_def fixed_parsers_def later_parsers_def)
    (rule arg_parser_static [of "''DW_OP_call_frame_cfa''"] arg_parser_static [of "''DW_OP_fbreg''"]
      arg_parser_static [of "''DW_OP_stack_value''"]; simp add: static_opcodes_def fixed_parsers_def later_parsers_def)+


lemma sample_names: "op_name 0xa3 = lit ''DW_OP_entry_value''" "op_name 0x9c = lit ''DW_OP_call_frame_cfa''"
  "op_name 0x91 = lit ''DW_OP_fbreg''" "op_name 0x9f = lit ''DW_OP_stack_value''"
  by (rule op_name_static; simp add: static_opcodes_def)+

end
