(* ===== verification/ExprProperties.thy ===== *)
theory ExprProperties
  imports ExprOpcodes NumberCodes
begin

text \<open>
  What parsing a DWARF expression promises: it ends on every sequence of numbers, however lengths of nested
  expressions are set; and the operations of an expression come back from its bytes.
\<close>

section \<open>Ending\<close>

definition kind_ok :: "arg_kind \<Rightarrow> bool" where
  "kind_ok k = (case k of Parsed cs \<Rightarrow> list_all con_ok cs | _ \<Rightarrow> True)"

lemma kind_ok_simps [simp]: "kind_ok (Parsed cs) = list_all con_ok cs" "kind_ok NestedExpr" "kind_ok Blob"
  "kind_ok TypedBlob" "kind_ok WasmLoc"
  by (simp_all add: kind_ok_def)

lemma fixed_kinds_ok: "list_all (kind_ok \<circ> snd) (fixed_parsers ds)"
  by (simp add: fixed_parsers_def)

lemma later_kinds_ok: "list_all (kind_ok \<circ> snd) (later_parsers ds)"
  by (simp add: later_parsers_def)

lemma register_kinds_ok: "list_all (kind_ok \<circ> snd) (register_parsers ds)"
proof -
  have "list_all (kind_ok \<circ> snd) (concat (map (\<lambda>n.
     [(''DW_OP_lit'' @ decimal n, Parsed []), (''DW_OP_reg'' @ decimal n, Parsed []),
      (''DW_OP_breg'' @ decimal n, Parsed [the_Dwarf_sleb128 ds])]) ns))" for ns
    by (induction ns) (simp_all del: append.simps)
  then show ?thesis by (simp only: register_parsers_def)
qed

lemma kinds_ok: "list_all (kind_ok \<circ> snd) (fixed_parsers ds @ register_parsers ds @ later_parsers ds)"
  by (simp only: list_all_append fixed_kinds_ok later_kinds_ok register_kinds_ok simp_thms)

lemma dget_returns: "dget d k \<noteq> NoFuel"
  by (simp add: dget_def split: option.split)

lemma arg_parser_returns [returns_intros]: "arg_parser ds op \<noteq> NoFuel"
proof -
  have "foldl (\<lambda>tab (n, k). rbind tab (\<lambda>tab. rbind (dget DW_OP_name2opcode n) (\<lambda>c. Ok (AList.update c k tab))))
      t ps \<noteq> NoFuel" if "t \<noteq> NoFuel" for t and ps :: "(string \<times> arg_kind) list"
    using that
  proof (induction ps arbitrary: t)
    case (Cons p ps)
    have "rbind t (\<lambda>tab. rbind (dget DW_OP_name2opcode (fst p)) (\<lambda>c. Ok (AList.update c (snd p) tab))) \<noteq> NoFuel"
      using Cons.prems by (simp add: rbind_NoFuel dget_returns)
    from Cons.IH [OF this] show ?case by (simp add: case_prod_beta)
  qed simp
  then show ?thesis
    by (simp add: arg_parser_def init_dispatch_table_def rbind_NoFuel split: option.split)
qed

lemma arg_parser_ok:
  assumes "arg_parser ds op = Ok (Parsed cs)"
  shows "list_all con_ok cs"
proof -
  have "\<forall>(c, k) \<in> set tab. kind_ok k"
    if "foldl (\<lambda>tab (n, k). rbind tab (\<lambda>tab. rbind (dget DW_OP_name2opcode n) (\<lambda>c. Ok (AList.update c k tab))))
          r ps = Ok tab" "\<And>t. r = Ok t \<Longrightarrow> \<forall>(c, k) \<in> set t. kind_ok k" "list_all (kind_ok \<circ> snd) ps" for r tab ps
    using that
  proof (induction ps arbitrary: r)
    case (Cons p ps)
    obtain n k where p: "p = (n, k)" by fastforce
    show ?case
    proof (rule Cons.IH)
      show "foldl (\<lambda>tab (n, k). rbind tab (\<lambda>tab. rbind (dget DW_OP_name2opcode n) (\<lambda>c. Ok (AList.update c k tab))))
          (rbind r (\<lambda>tab. rbind (dget DW_OP_name2opcode n) (\<lambda>c. Ok (AList.update c k tab)))) ps = Ok tab"
        using Cons.prems(1) p by simp
      show "list_all (kind_ok \<circ> snd) ps" using Cons.prems(3) by (simp add: o_def)
      fix t assume "rbind r (\<lambda>tab. rbind (dget DW_OP_name2opcode n) (\<lambda>c. Ok (AList.update c k tab))) = Ok t"
      then obtain t0 c where t: "r = Ok t0" "t = AList.update c k t0" by (auto simp: rbind_eq_Ok)
      have "set t \<subseteq> insert (c, k) (set t0)"
        unfolding t(2) by (induction t0) auto
      then show "\<forall>(c, k) \<in> set t. kind_ok k"
        using Cons.prems(2) [OF t(1)] Cons.prems(3) p by auto
    qed
  qed simp
  from this [OF _ _ kinds_ok, of "Ok []"] show ?thesis
    using assms by (fastforce simp: arg_parser_def init_dispatch_table_def rbind_eq_Ok
        split: option.splits dest: map_of_SomeD)
qed

lemma args_advance: "sadv 0 (parse_args ds nested k)"
  by (cases k) (auto simp: parse_args_def
      intro!: sadv_right sadv_any sadv_simple sadv_blob sadv_mmap sadv_if)

lemma mmap_as_int_length: "rmap as_int vs = Ok e \<Longrightarrow> length e = length vs"
  by (rule rmap_length)

lemma args_return:
  assumes "\<And>e. length e \<le> remaining t \<Longrightarrow> nested e \<noteq> NoFuel"
    and "\<And>cs. k = Parsed cs \<Longrightarrow> list_all con_ok cs"
  shows "fst (parse_args ds nested k t) \<noteq> NoFuel"
proof (cases k)
  case (Parsed cs)
  have "list_all con_ok cs \<Longrightarrow> returns (mmap (\<lambda>c. struct_parse c None) cs)"
    by (induction cs) (auto intro!: returns_intros struct_parse_ok_returns)
  then show ?thesis
    using assms(2) [OF Parsed] Parsed
    by (auto simp: parse_args_def intro!: returns_at returns_intros)
next
  case NestedExpr
  have "fst (lift_res (rbind (rmap as_int blob) nested) t2) \<noteq> NoFuel"
    if "parse_int (the_Dwarf_uleb128 ds) None t = (Ok n, t1)" "read_blob n t1 = (Ok blob, t2)" for n t1 blob t2
    using sadvD [OF sadv_any(2) that(1)] read_blob_length(1) [OF that(2)]
    by (auto simp: rbind_NoFuel rmap_returns value_returns dest: rmap_length intro!: assms(1))
  then show ?thesis
    unfolding NestedExpr parse_args_def arg_kind.case
    by (intro mbind_returns_at) (auto intro!: returns_at returns_intros parse_int_returns)
qed (auto simp: parse_args_def intro!: returns_at returns_intros parse_int_returns struct_parse_ok_returns)

lemma bytelist_returns: "bytelist2string e \<noteq> NoFuel"
  unfolding bytelist2string_def by (intro rbind_returns rmap_returns) simp_all

lemma one_byte:
  assumes "s_read 1 t = (Ok bs, t')"
  shows "sdata t' = sdata t" "bs = [] \<or> (\<exists>b. bs = [b] \<and> remaining t' < remaining t)"
  using assms by (auto simp: s_read_def Let_def remaining_def take_Suc neq_Nil_conv)

lemma ops_loop_returns: "remaining t < fuel \<Longrightarrow> fst (ops_loop fuel ds t) \<noteq> NoFuel"
proof (induction fuel arbitrary: t)
  case (Suc fuel)
  let ?nested = "\<lambda>e. rbind (bytelist2string e) (\<lambda>bs. fst (ops_loop fuel ds (bytesio bs)))"
  have nested: "?nested e \<noteq> NoFuel" if "length e < fuel" for e
  proof -
    note bytelist_returns [of e]
    moreover have "fst (ops_loop fuel ds (bytesio bs)) \<noteq> NoFuel" if "bytelist2string e = Ok bs" for bs
      using Suc.IH [of "bytesio bs"] bytelist_length [OF that] \<open>length e < fuel\<close> by (simp add: remaining_def)
    ultimately show ?thesis by (auto simp: rbind_NoFuel)
  qed
  have op: "fst (mbind (lift_res (arg_parser ds op)) (\<lambda>k. mbind (parse_args ds ?nested k) (\<lambda>args.
      mbind (ops_loop fuel ds) (\<lambda>ops. ret (f args ops)))) t1) \<noteq> NoFuel"
    if r: "remaining t1 < fuel" for op t1 and f :: "expr_arg list \<Rightarrow> expr_op list \<Rightarrow> expr_op list"
  proof (intro mbind_returns_at)
    show "fst (lift_res (arg_parser ds op) t1) \<noteq> NoFuel" by (simp add: arg_parser_returns)
    fix k t2 assume k: "lift_res (arg_parser ds op) t1 = (Ok k, t2)"
    then show "fst (parse_args ds ?nested k t2) \<noteq> NoFuel"
      using r by (intro args_return nested) (auto dest: arg_parser_ok)
    fix args t3 assume "parse_args ds ?nested k t2 = (Ok args, t3)"
    from sadvD [OF args_advance this] k r have "remaining t3 < fuel" by simp
    then show "fst (ops_loop fuel ds t3) \<noteq> NoFuel" by (rule Suc.IH)
  qed simp
  show ?case
    unfolding ops_loop.simps Let_def
  proof (intro mbind_returns_at)
    fix off t1 bs t2
    assume "s_pos t = (Ok off, t1)" and b: "s_read 1 t1 = (Ok bs, t2)"
    then have t1: "t1 = t" by (simp add: s_pos_def)
    show "fst ((case bs of [] \<Rightarrow> ret [] | b # _ \<Rightarrow>
        mbind (lift_res (arg_parser ds (uint b))) (\<lambda>k. mbind (parse_args ds ?nested k) (\<lambda>args.
        mbind (ops_loop fuel ds) (\<lambda>ops. ret (ExprOp (uint b) (op_name (uint b)) args off # ops))))) t2) \<noteq> NoFuel"
      using one_byte(2) [OF b]
    proof (elim disjE exE conjE)
      fix x assume bs: "bs = [x]" and "remaining t2 < remaining t1"
      then have "remaining t2 < fuel" using Suc.prems t1 by simp
      from op [OF this, of "uint x" "\<lambda>args ops. ExprOp (uint x) (op_name (uint x)) args off # ops"] show ?thesis
        unfolding bs list.case .
    qed simp
  qed (simp_all add: returns_at section_returns returns_stream)
qed simp

text \<open>C25: parsing an expression ends on every input.  An expression may contain expressions, whose length it
  states itself; the parser nevertheless returns a list of operations or raises an exception, whatever the
  numbers in the list are.\<close>

theorem expr_ends: "parse_expr ds expr \<noteq> NoFuel"
  by (auto simp: parse_expr_def rbind_NoFuel bytelist_returns ops_loop_returns remaining_def
      simp del: ops_loop.simps)

section \<open>Round trip\<close>

text \<open>
  The bytes of an expression, by rules: an operation is its opcode's byte and the bytes of its arguments as
  the opcode's entry of the dispatch table asks for; its offset is where its opcode is.
\<close>

inductive expr_code :: "dwarf_structs \<Rightarrow> nat \<Rightarrow> expr_op list \<Rightarrow> bytes \<Rightarrow> bool" for ds where
  code_end: "expr_code ds off [] []"
| code_numbers:
    "arg_parser ds (uint b) = Ok (Parsed cs) \<Longrightarrow> encode_numbers cs vs = Some bs \<Longrightarrow>
     expr_code ds (off + 1 + length bs) ops rest \<Longrightarrow>
     expr_code ds off (ExprOp (uint b) (op_name (uint b)) (map (ArgVal \<circ> VInt) vs) (int off) # ops) (b # bs @ rest)"
| code_nested:
    "arg_parser ds (uint b) = Ok NestedExpr \<Longrightarrow> expr_code ds 0 inner bs \<Longrightarrow>
     expr_code ds (off + 1 + length (uleb128 (length bs) @ bs)) ops rest \<Longrightarrow>
     expr_code ds off (ExprOp (uint b) (op_name (uint b)) [ArgExpr inner] (int off) # ops)
       (b # (uleb128 (length bs) @ bs) @ rest)"
| code_blob:
    "arg_parser ds (uint b) = Ok Blob \<Longrightarrow>
     expr_code ds (off + 1 + length (uleb128 (length bs) @ bs)) ops rest \<Longrightarrow>
     expr_code ds off (ExprOp (uint b) (op_name (uint b)) [ArgBlob (map (VInt \<circ> uint) bs)] (int off) # ops)
       (b # (uleb128 (length bs) @ bs) @ rest)"
| code_typed:
    "arg_parser ds (uint b) = Ok TypedBlob \<Longrightarrow> length bs = unat n \<Longrightarrow>
     expr_code ds (off + 1 + length (uleb128 ty @ n # bs)) ops rest \<Longrightarrow>
     expr_code ds off (ExprOp (uint b) (op_name (uint b)) [ArgVal (VInt (int ty)), ArgBlob (map (VInt \<circ> uint) bs)]
         (int off) # ops) (b # (uleb128 ty @ n # bs) @ rest)"
| code_wasm:
    "arg_parser ds (uint b) = Ok WasmLoc \<Longrightarrow>
     (if uint n \<le> 2 then encode_number (the_Dwarf_uleb128 ds) v = Some bs
      else uint n = 3 \<and> encode_number (the_Dwarf_uint32 ds) v = Some bs) \<Longrightarrow>
     expr_code ds (off + 1 + length (n # bs)) ops rest \<Longrightarrow>
     expr_code ds off (ExprOp (uint b) (op_name (uint b)) [ArgVal (VInt (uint n)), ArgVal (VInt v)] (int off) # ops)
       (b # (n # bs) @ rest)"

text \<open>One round of the loop, at an opcode.\<close>

lemma ops_loop_step:
  assumes "tail_bytes t = b # bs @ rest" "spos t = off" "arg_parser ds (uint b) = Ok k"
    and "parse_args ds (\<lambda>e. rbind (bytelist2string e) (\<lambda>bs. fst (ops_loop fuel ds (bytesio bs)))) k (adv 1 t) =
           (Ok args, adv (1 + length bs) t)"
    and "ops_loop fuel ds (adv (1 + length bs) t) = (Ok ops, t')"
  shows "ops_loop (Suc fuel) ds t = (Ok (ExprOp (uint b) (op_name (uint b)) args (int off) # ops), t')"
  using assms(2-5) read_byte [OF assms(1)]
  by (simp add: mbind_def s_pos_def s_tell_def Let_def)

lemma tail_step: "tail_bytes t = b # bs @ rest \<Longrightarrow> tail_bytes (adv 1 t) = bs @ rest \<and>
    tail_bytes (adv (1 + length bs) t) = rest"
  using tail_adv_Cons [of t b "bs @ rest"] tail_adv [of "adv 1 t" bs rest] by simp

lemma uleb_length: "tail_bytes t = uleb128 n @ rest \<Longrightarrow>
    parse_int (the_Dwarf_uleb128 ds) None t = (Ok (int n), adv (length (uleb128 n)) t) \<and>
    struct_parse (the_Dwarf_uleb128 ds) None t = (Ok (VInt (int n)), adv (length (uleb128 n)) t)"
  using parse_number [of "the_Dwarf_uleb128 ds" "int n" "uleb128 n" t rest]
  by (simp add: encode_number_def the_dwarf_defs Dwarf_uleb128_def)

lemma ops_loop_code:
  "expr_code ds off ops bs \<Longrightarrow> tail_bytes t = bs \<Longrightarrow> spos t = off \<Longrightarrow> length bs < fuel \<Longrightarrow>
   \<exists>t'. ops_loop fuel ds t = (Ok ops, t')"
proof (induction arbitrary: t fuel rule: expr_code.induct)
  case (code_end off)
  then obtain f where "fuel = Suc f" by (cases fuel) auto
  moreover have "s_read 1 t = (Ok [], t)"
    using code_end(1) by (simp add: s_read_def tail_bytes_def)
  ultimately show ?case
    by (simp add: mbind_def s_pos_def)
next
  case (code_numbers b cs vs bs off ops rest)
  obtain f where f: "fuel = Suc f" using code_numbers.prems(3) by (cases fuel) auto
  note t = tail_step [OF code_numbers.prems(1)]
  obtain t' where loop: "ops_loop f ds (adv (1 + length bs) t) = (Ok ops, t')"
    using code_numbers.IH [of "adv (1 + length bs) t" f] t code_numbers.prems(2,3) f by auto
  show ?case
    unfolding f using parse_numbers [OF code_numbers.hyps(2) conjunct1 [OF t]] code_numbers.prems(2)
    by (intro exI) (rule ops_loop_step [OF code_numbers.prems(1) _ code_numbers.hyps(1) _ loop],
      simp_all add: parse_args_def mbind_Ok)
next
  case (code_nested b inner bs off ops rest)
  obtain f where f: "fuel = Suc f" using code_nested.prems(3) by (cases fuel) auto
  let ?bs = "uleb128 (length bs) @ bs"
  note t = tail_step [OF code_nested.prems(1)]
  obtain t' where loop: "ops_loop f ds (adv (1 + length ?bs) t) = (Ok ops, t')"
    using code_nested.IH(2) [of "adv (1 + length ?bs) t" f] t code_nested.prems(2,3) f by auto
  obtain u where inner: "ops_loop f ds (bytesio bs) = (Ok inner, u)"
    using code_nested.IH(1) [of "bytesio bs" f] code_nested.prems(3) f by (auto simp: tail_bytes_def)
  have len: "tail_bytes (adv 1 t) = uleb128 (length bs) @ (bs @ rest)"
    using t by simp
  have "rmap as_int (map (VInt \<circ> uint) bs) = Ok (map uint bs)" by (induction bs) simp_all
  with inner have "parse_args ds (\<lambda>e. rbind (bytelist2string e) (\<lambda>bs. fst (ops_loop f ds (bytesio bs)))) NestedExpr
      (adv 1 t) = (Ok [ArgExpr inner], adv (1 + length ?bs) t)"
    using conjunct1 [OF uleb_length [OF len]] parse_blob [OF tail_adv [OF len]]
    by (simp add: parse_args_def mbind_Ok bytelist_back)
  then show ?case
    unfolding f using code_nested.prems(2)
    by (intro exI) (rule ops_loop_step [OF code_nested.prems(1) _ code_nested.hyps(1) _ loop], simp_all)
next
  case (code_blob b off bs ops rest)
  obtain f where f: "fuel = Suc f" using code_blob.prems(3) by (cases fuel) auto
  let ?bs = "uleb128 (length bs) @ bs"
  note t = tail_step [OF code_blob.prems(1)]
  obtain t' where loop: "ops_loop f ds (adv (1 + length ?bs) t) = (Ok ops, t')"
    using code_blob.IH [of "adv (1 + length ?bs) t" f] t code_blob.prems(2,3) f by auto
  have len: "tail_bytes (adv 1 t) = uleb128 (length bs) @ (bs @ rest)"
    using t by simp
  show ?case
    unfolding f using conjunct1 [OF uleb_length [OF len]] parse_blob [OF tail_adv [OF len]] code_blob.prems(2)
    by (intro exI) (rule ops_loop_step [OF code_blob.prems(1) _ code_blob.hyps(1) _ loop],
      simp_all add: parse_args_def mbind_Ok)
next
  case (code_typed b bs n off ty ops rest)
  obtain f where f: "fuel = Suc f" using code_typed.prems(3) by (cases fuel) auto
  let ?bs = "uleb128 ty @ n # bs"
  note t = tail_step [OF code_typed.prems(1)]
  obtain t' where loop: "ops_loop f ds (adv (1 + length ?bs) t) = (Ok ops, t')"
    using code_typed.IH [of "adv (1 + length ?bs) t" f] t code_typed.prems(2,3) f by auto
  have ty: "tail_bytes (adv 1 t) = uleb128 ty @ (n # bs @ rest)"
    using t by simp
  note n = tail_adv [OF ty]
  have bs: "tail_bytes (adv (1 + length (uleb128 ty) + 1) t) = bs @ rest"
    using tail_adv_Cons [OF n] by simp
  have "uint n = int (length bs)" using code_typed.hyps(2) by simp
  then show ?case
    unfolding f using conjunct2 [OF uleb_length [OF ty]] byte_number [OF n] parse_blob [OF bs] code_typed.prems(2)
    by (intro exI) (rule ops_loop_step [OF code_typed.prems(1) _ code_typed.hyps(1) _ loop],
      simp_all add: parse_args_def mbind_Ok)
next
  case (code_wasm b n v bs off ops rest)
  obtain f where f: "fuel = Suc f" using code_wasm.prems(3) by (cases fuel) auto
  note t = tail_step [OF code_wasm.prems(1)]
  obtain t' where loop: "ops_loop f ds (adv (1 + length (n # bs)) t) = (Ok ops, t')"
    using code_wasm.IH [of "adv (1 + length (n # bs)) t" f] t code_wasm.prems(2,3) f by auto
  have n: "tail_bytes (adv 1 t) = n # (bs @ rest)"
    using t by simp
  note v = tail_adv_Cons [OF n]
  show ?case
    unfolding f using byte_number [OF n] parse_number(1) [OF _ v] code_wasm.prems(2) code_wasm.hyps(2)
    by (intro exI) (rule ops_loop_step [OF code_wasm.prems(1) _ code_wasm.hyps(1) _ loop],
      auto simp: parse_args_def mbind_Ok split: if_splits)
qed

text \<open>C26: the operations of an expression come back from its bytes.  For every list of operations with the bytes
  that the standard gives it (opcodes, fixed-width and LEB128 operands, blocks of bytes, expressions within
  expressions to any depth), parsing the bytes returns exactly these operations, each with its offset.\<close>

theorem expr_roundtrip:
  assumes "expr_code ds 0 ops bs"
  shows "parse_expr ds (map uint bs) = Ok ops"
proof -
  obtain t' where "ops_loop (length bs + 1) ds (bytesio bs) = (Ok ops, t')"
    using ops_loop_code [OF assms, of "bytesio bs"] by (auto simp: tail_bytes_def simp del: ops_loop.simps)
  then show ?thesis
    by (simp add: parse_expr_def bytelist_back del: ops_loop.simps)
qed

section \<open>An instance\<close>

text \<open>
  The frame's base address less 20, after the address of the frame on entry: an expression within an expression.
\<close>

theorem expr_roundtrip_witness:
  "parse_expr \<lparr>dw_little_endian = True, dwarf_format = 32, address_size = 8, dwarf_version = 4\<rparr>
     [0xa3, 1, 0x9c, 0x91, 0x6c, 0x9f] =
   Ok [ExprOp 0xa3 (lit ''DW_OP_entry_value'') [ArgExpr [ExprOp 0x9c (lit ''DW_OP_call_frame_cfa'') [] 0]] 0,
       ExprOp 0x91 (lit ''DW_OP_fbreg'') [ArgVal (VInt (-20))] 3,
       ExprOp 0x9f (lit ''DW_OP_stack_value'') [] 5]"
proof -
  let ?ds = "\<lparr>dw_little_endian = True, dwarf_format = 32, address_size = 8, dwarf_version = 4\<rparr>"
  have u: "uleb128 (Suc 0) = [1]" "sleb128 (-20) = [0x6c]"
    by (simp_all add: uleb128.simps sleb128.simps)
  have last: "expr_code ?ds off [ExprOp 0x9f (op_name 0x9f) [] (int off)] [0x9f]" for off
    using code_numbers [of ?ds "0x9f" "[]" "[]" "[]" off "[]" "[]"] by (simp add: sample_parsers code_end)
  have inner: "expr_code ?ds 0 [ExprOp 0x9c (op_name 0x9c) [] 0] [0x9c]"
    using code_numbers [of ?ds "0x9c" "[]" "[]" "[]" 0 "[]" "[]"] by (simp add: sample_parsers code_end)
  have "expr_code ?ds 3 [ExprOp 0x91 (op_name 0x91) [ArgVal (VInt (-20))] 3, ExprOp 0x9f (op_name 0x9f) [] 5]
      [0x91, 0x6c, 0x9f]"
    using code_numbers [of ?ds "0x91" "[the_Dwarf_sleb128 ?ds]" "[-20]" "[0x6c]" 3, OF _ _ last]
    by (simp add: sample_parsers encode_number_def the_dwarf_defs Dwarf_sleb128_def u)
  then have "expr_code ?ds 0
     [ExprOp 0xa3 (op_name 0xa3) [ArgExpr [ExprOp 0x9c (op_name 0x9c) [] 0]] 0,
      ExprOp 0x91 (op_name 0x91) [ArgVal (VInt (-20))] 3, ExprOp 0x9f (op_name 0x9f) [] 5]
     [0xa3, 1, 0x9c, 0x91, 0x6c, 0x9f]"
    using code_nested [of ?ds "0xa3", OF _ inner, of 0] by (simp add: sample_parsers u numeral_3_eq_3)
  from expr_roundtrip [OF this] show ?thesis
    by (simp add: sample_names)
qed

end
