(* ===== verification/DwarfCallframe.thy ===== *)
theory DwarfCallframe
  imports DwarfUtil
begin

text \<open>
  \<^verbatim>\<open>elftools/dwarf/callframe.py\<close>: call frame information.  First the instructions of an entry and how
  they are parsed, then the entries of a section (\<open>.debug_frame\<close> or \<open>.eh_frame\<close>) with the cache that
  \<open>CallFrameInfo\<close> keeps of them, then the decoding of an entry's instructions to a table.
\<close>

section \<open>Instructions\<close>

record cfi_instr =
  ci_opcode :: int
  ci_args :: "val list"

abbreviation DW_CFA :: "string \<Rightarrow> int" where "DW_CFA \<equiv> const DW_CFA_constants"

definition PRIMARY_MASK :: int where "PRIMARY_MASK = 0xc0"
definition PRIMARY_ARG_MASK :: int where "PRIMARY_ARG_MASK = 0x3f"

definition OPCODE_NAME_MAP :: "(int \<times> string) list" where
  "OPCODE_NAME_MAP = foldl (\<lambda>m (k, v). AList.update v k m) [] DW_CFA_constants"

definition instruction_name :: "int \<Rightarrow> string res" where
  "instruction_name opcode =
     (let primary = opcode AND PRIMARY_MASK in
      case map_of OPCODE_NAME_MAP (if primary = 0 then opcode else primary) of
        None \<Rightarrow> Err KeyError | Some n \<Rightarrow> Ok n)"

text \<open>\<^verbatim>\<open>[struct_parse(c, self.stream), ...]\<close>, and the parser of a block.\<close>

definition parse_all :: "con list \<Rightarrow> val list S" where
  "parse_all cs = mmap (\<lambda>c. struct_parse c None) cs"

definition parse_block :: "dwarf_structs \<Rightarrow> val S" where
  "parse_block ds = mbind (lift_res (form_parser ds (VLit ''DW_FORM_block''))) (\<lambda>c. struct_parse c None)"

definition instruction_args :: "dwarf_structs \<Rightarrow> int \<Rightarrow> val list S" where
  "instruction_args ds opcode =
     (let primary = opcode AND PRIMARY_MASK; primary_arg = opcode AND PRIMARY_ARG_MASK in
      if primary = DW_CFA ''DW_CFA_advance_loc'' then ret [VInt primary_arg]
      else if primary = DW_CFA ''DW_CFA_offset'' then
        mbind (struct_parse (the_Dwarf_uleb128 ds) None) (\<lambda>v. ret [VInt primary_arg, v])
      else if primary = DW_CFA ''DW_CFA_restore'' then ret [VInt primary_arg]
      else if opcode \<in> {DW_CFA ''DW_CFA_nop'', DW_CFA ''DW_CFA_remember_state'',
                        DW_CFA ''DW_CFA_restore_state'', DW_CFA ''DW_CFA_AARCH64_negate_ra_state''} then ret []
      else if opcode = DW_CFA ''DW_CFA_set_loc'' then parse_all [the_Dwarf_target_addr ds]
      else if opcode = DW_CFA ''DW_CFA_advance_loc1'' then parse_all [the_Dwarf_uint8 ds]
      else if opcode = DW_CFA ''DW_CFA_advance_loc2'' then parse_all [the_Dwarf_uint16 ds]
      else if opcode = DW_CFA ''DW_CFA_advance_loc4'' then parse_all [the_Dwarf_uint32 ds]
      else if opcode \<in> {DW_CFA ''DW_CFA_offset_extended'', DW_CFA ''DW_CFA_register'',
                        DW_CFA ''DW_CFA_def_cfa'', DW_CFA ''DW_CFA_val_offset''} then
        parse_all [the_Dwarf_uleb128 ds, the_Dwarf_uleb128 ds]
      else if opcode \<in> {DW_CFA ''DW_CFA_restore_extended'', DW_CFA ''DW_CFA_undefined'',
                        DW_CFA ''DW_CFA_same_value'', DW_CFA ''DW_CFA_def_cfa_register'',
                        DW_CFA ''DW_CFA_def_cfa_offset''} then
        parse_all [the_Dwarf_uleb128 ds]
      else if opcode = DW_CFA ''DW_CFA_def_cfa_offset_sf'' then parse_all [the_Dwarf_sleb128 ds]
      else if opcode = DW_CFA ''DW_CFA_def_cfa_expression'' then mbind (parse_block ds) (\<lambda>b. ret [b])
      else if opcode \<in> {DW_CFA ''DW_CFA_expression'', DW_CFA ''DW_CFA_val_expression''} then
        mbind (struct_parse (the_Dwarf_uleb128 ds) None) (\<lambda>v. mbind (parse_block ds) (\<lambda>b. ret [v, b]))
      else if opcode \<in> {DW_CFA ''DW_CFA_offset_extended_sf'', DW_CFA ''DW_CFA_def_cfa_sf'',
                        DW_CFA ''DW_CFA_val_offset_sf''} then
        parse_all [the_Dwarf_uleb128 ds, the_Dwarf_sleb128 ds]
      else if opcode = DW_CFA ''DW_CFA_GNU_args_size'' then parse_all [the_Dwarf_uleb128 ds]
      else mbind (dwarf_assert False) (\<lambda>_. ret []))"

text \<open>Every round goes on by at least the byte of its opcode.\<close>

primrec instructions_loop :: "nat \<Rightarrow> dwarf_structs \<Rightarrow> int \<Rightarrow> int \<Rightarrow> cfi_instr list S" where
  "instructions_loop 0 ds end_offset offset = lift_res NoFuel"
| "instructions_loop (Suc fuel) ds end_offset offset =
     (if offset < end_offset then
        mbind (parse_int (the_Dwarf_uint8 ds) (Some offset)) (\<lambda>opcode.
        mbind (instruction_args ds opcode) (\<lambda>args.
        mbind s_pos (\<lambda>offset'.
        mbind (instructions_loop fuel ds end_offset offset') (\<lambda>is.
          ret (\<lparr>ci_opcode = opcode, ci_args = args\<rparr> # is)))))
      else ret [])"

definition parse_instructions :: "dwarf_structs \<Rightarrow> int \<Rightarrow> int \<Rightarrow> cfi_instr list S" where
  "parse_instructions ds offset end_offset =
     instructions_loop (nat (end_offset - offset) + 1) ds end_offset offset"

section \<open>Entries\<close>

text \<open>
  A common information entry, a frame description entry (which has the former), or the end marker of
  \<open>.eh_frame\<close>.  The keys of an augmentation dictionary are names, and \<open>True\<close> for the character \<open>S\<close>.
\<close>

type_synonym aug_dict = "(val \<times> val) list"

datatype cfi_entry =
    CIE (en_header: val) (en_structs: dwarf_structs) (en_instrs: "cfi_instr list") (en_offset: int)
      (en_aug_dict: aug_dict) (en_aug_bytes: val)
  | FDE (en_header: val) (en_structs: dwarf_structs) (en_instrs: "cfi_instr list") (en_offset: int)
      (en_aug_bytes: val) (en_cie: cfi_entry) (en_lsda: val)
  | ZERO (en_offset: int)

record cfi =
  ci_size :: int
  ci_address :: int
  ci_base :: dwarf_structs
  ci_for_eh :: bool

record cfi_state =
  cs_stream :: stream
  cs_cache :: "(int \<times> cfi_entry) list"
  cs_entries :: "cfi_entry list option"

type_synonym 'a C = "(cfi_state, 'a) M"

definition on_sec :: "'a S \<Rightarrow> 'a C" where
  "on_sec m = (\<lambda>s. case m (cs_stream s) of (r, t) \<Rightarrow> (r, s\<lparr>cs_stream := t\<rparr>))"

definition put_cache :: "int \<Rightarrow> cfi_entry \<Rightarrow> unit C" where
  "put_cache off e = (\<lambda>s. (Ok (), s\<lparr>cs_cache := AList.update off e (cs_cache s)\<rparr>))"

definition keep_pos :: "'a C \<Rightarrow> 'a C" where
  "keep_pos body = mbind (on_sec s_pos) (\<lambda>p. mbind body (\<lambda>a. mbind (on_sec (s_seek p)) (\<lambda>_. ret a)))"

text \<open>Attributes of an entry: the end marker has none of them.\<close>

definition entry_header :: "cfi_entry \<Rightarrow> val res" where
  "entry_header e = (case e of ZERO _ \<Rightarrow> Err AttributeError | _ \<Rightarrow> Ok (en_header e))"

definition augmentation_dict :: "cfi_entry \<Rightarrow> aug_dict res" where
  "augmentation_dict e = (case e of ZERO _ \<Rightarrow> Err AttributeError | FDE _ _ _ _ _ _ _ \<Rightarrow> Ok []
     | CIE _ _ _ _ d _ \<Rightarrow> Ok d)"

abbreviation DW_EH :: "string \<Rightarrow> int" where "DW_EH n \<equiv> const (fst DW_EH_encoding_flags) n"

definition eh_encoding_to_field :: "dwarf_structs \<Rightarrow> (int \<times> (string \<Rightarrow> con)) list" where
  "eh_encoding_to_field ds =
     [(DW_EH ''DW_EH_PE_absptr'', Dwarf_target_addr ds),
      (DW_EH ''DW_EH_PE_uleb128'', Dwarf_uleb128 ds),
      (DW_EH ''DW_EH_PE_udata2'', Dwarf_uint16 ds),
      (DW_EH ''DW_EH_PE_udata4'', Dwarf_uint32 ds),
      (DW_EH ''DW_EH_PE_udata8'', Dwarf_uint64 ds),
      (DW_EH ''DW_EH_PE_sleb128'', Dwarf_sleb128 ds),
      (DW_EH ''DW_EH_PE_sdata2'', Dwarf_int16 ds),
      (DW_EH ''DW_EH_PE_sdata4'', Dwarf_int32 ds),
      (DW_EH ''DW_EH_PE_sdata8'', Dwarf_int64 ds)]"

definition eh_field :: "dwarf_structs \<Rightarrow> int \<Rightarrow> (string \<Rightarrow> con) res" where
  "eh_field ds enc = (case map_of (eh_encoding_to_field ds) enc of None \<Rightarrow> Err KeyError | Some f \<Rightarrow> Ok f)"

definition read_augmentation_data :: "cfi \<Rightarrow> dwarf_structs \<Rightarrow> bytes S" where
  "read_augmentation_data ci ds =
     (if \<not> ci_for_eh ci then ret []
      else mbind (struct_parse (Struct ''Dummy_Augmentation_Data'' [Dwarf_uleb128 ds ''length'']) None) (\<lambda>v.
        mbind (lift_res (get_int v ''length'')) s_read))"

text \<open>A field of the augmentation, or the flag \<open>S\<close> that has none.\<close>

definition augmentation_field :: "dwarf_structs \<Rightarrow> byte \<Rightarrow> con option option" where
  "augmentation_field ds b =
     (if b = 0x7a then Some (Some (Dwarf_uleb128 ds ''length''))
      else if b = 0x4c then Some (Some (Dwarf_uint8 ds ''LSDA_encoding''))
      else if b = 0x52 then Some (Some (Dwarf_uint8 ds ''FDE_encoding''))
      else if b = 0x53 then Some None
      else if b = 0x50 then Some (Some (Struct ''personality''
        [Dwarf_uint8 ds ''encoding'',
         SwitchC (Some ''function'')
           (\<lambda>c. rbind (rbind (ctx_attr c ''encoding'') as_int) (\<lambda>i. Ok (VInt (i AND 0x0f))))
           (map (\<lambda>(enc, f). (VInt enc, f ''function'')) (eh_encoding_to_field ds)) None False]))
      else None)"

fun augmentation_fields :: "dwarf_structs \<Rightarrow> bytes \<Rightarrow> con list \<times> aug_dict" where
  "augmentation_fields ds [] = ([], [])"
| "augmentation_fields ds (b # bs) = (case augmentation_field ds b of
       None \<Rightarrow> ([], [])
     | Some None \<Rightarrow> (let (fs, d) = augmentation_fields ds bs in (fs, AList.update (VBool True) (VBool True) d))
     | Some (Some f) \<Rightarrow> (let (fs, d) = augmentation_fields ds bs in (f # fs, d)))"

definition dict_items :: "val \<Rightarrow> aug_dict res" where
  "dict_items v = (case v of VCont d \<Rightarrow> Ok (map (\<lambda>(k, x). (VLit k, x)) d) | _ \<Rightarrow> Err TypeError)"

definition parse_cie_augmentation :: "cfi \<Rightarrow> val \<Rightarrow> dwarf_structs \<Rightarrow> (val \<times> aug_dict) S" where
  "parse_cie_augmentation ci header ds =
     (case get_item header ''augmentation'' of
        Ok (VBytes aug) \<Rightarrow>
          if aug = [] then ret (VStr [], [])
          else if hd aug \<noteq> 0x7a then raise AssertionError
          else
            let (fields, d) = augmentation_fields ds aug in
            mbind s_pos (\<lambda>offset.
            mbind (struct_parse (Struct ''Augmentation_Data'' fields) (Some offset)) (\<lambda>v.
            mbind (lift_res (dict_items v)) (\<lambda>items.
            mbind (s_seek offset) (\<lambda>_.
            mbind (read_augmentation_data ci ds) (\<lambda>bs.
              ret (VBytes bs, foldl (\<lambda>d (k, x). AList.update k x d) d items))))))
      | _ \<Rightarrow> ret (VStr [], []))"

definition parse_lsda_pointer :: "cfi \<Rightarrow> dwarf_structs \<Rightarrow> int \<Rightarrow> int \<Rightarrow> int S" where
  "parse_lsda_pointer ci ds stream_offset encoding =
     (if encoding = DW_EH ''DW_EH_PE_omit'' then raise AssertionError
      else
        let basic_encoding = encoding AND 0x0f; modifier = encoding AND 0xf0 in
        mbind (lift_res (eh_field ds basic_encoding)) (\<lambda>f.
        mbind (struct_parse (Struct ''Augmentation_Data'' [f ''LSDA_pointer'']) (Some stream_offset)) (\<lambda>v.
        mbind (lift_res (get_int v ''LSDA_pointer'')) (\<lambda>ptr.
          if modifier = DW_EH ''DW_EH_PE_absptr'' then ret ptr
          else if modifier = DW_EH ''DW_EH_PE_pcrel'' then ret (ptr + (ci_address ci + stream_offset))
          else raise AssertionError))))"

definition cie_offset_of :: "cfi \<Rightarrow> int \<Rightarrow> int \<Rightarrow> dwarf_structs \<Rightarrow> int" where
  "cie_offset_of ci fde_offset pointer ds =
     (if ci_for_eh ci then fde_offset + dwarf_format ds div 8 - pointer else pointer)"

text \<open>
  The functions that parse an entry call one another: an entry's header may need the entry it
  points to.  \<open>entry_at\<close> stands for \<open>_parse_entry_at\<close> one level deeper.
\<close>

definition parse_cie_for_fde ::
  "(int \<Rightarrow> cfi_entry C) \<Rightarrow> cfi \<Rightarrow> int \<Rightarrow> val \<Rightarrow> dwarf_structs \<Rightarrow> cfi_entry C" where
  "parse_cie_for_fde entry_at ci fde_offset header ds =
     mbind (lift_res (get_int header ''CIE_pointer'')) (\<lambda>pointer.
       keep_pos (entry_at (cie_offset_of ci fde_offset pointer ds)))"

definition parse_fde_header ::
  "(int \<Rightarrow> cfi_entry C) \<Rightarrow> cfi \<Rightarrow> dwarf_structs \<Rightarrow> int \<Rightarrow> val C" where
  "parse_fde_header entry_at ci ds offset =
     (if \<not> ci_for_eh ci then on_sec (struct_parse (Dwarf_FDE_header ds) (Some offset))
      else
        let fields = [Dwarf_initial_length ds ''length'', Dwarf_offset ds ''CIE_pointer''] in
        mbind (on_sec (struct_parse (Struct ''eh_frame_minimal_header'' fields) (Some offset))) (\<lambda>minimal.
        mbind (parse_cie_for_fde entry_at ci offset minimal ds) (\<lambda>cie.
        mbind (on_sec s_pos) (\<lambda>initial_location_offset.
        mbind (lift_res (augmentation_dict cie)) (\<lambda>d.
        mbind (lift_res (case map_of d (VLit ''FDE_encoding'') of None \<Rightarrow> Err KeyError | Some v \<Rightarrow> as_int v)) (\<lambda>encoding.
          if encoding = DW_EH ''DW_EH_PE_omit'' then raise AssertionError
          else
            mbind (lift_res (eh_field ds (encoding AND 0x0f))) (\<lambda>f.
            mbind (on_sec (struct_parse (Struct ''Dwarf_FDE_header''
                (fields @ [f ''initial_location'', f ''address_range''])) (Some offset))) (\<lambda>result.
              if encoding AND 0xf0 = 0 then ret result
              else if encoding AND 0xf0 = DW_EH ''DW_EH_PE_pcrel'' then
                lift_res (rbind (get_int result ''initial_location'') (\<lambda>loc.
                  put_item result ''initial_location'' (VInt (loc + (ci_address ci + initial_location_offset)))))
              else raise AssertionError))))))))"

definition is_CIE_id :: "cfi \<Rightarrow> int \<Rightarrow> int \<Rightarrow> bool" where
  "is_CIE_id ci fmt i =
     (if ci_for_eh ci then i = 0 else (fmt = 32 \<and> i = 0xFFFFFFFF) \<or> i = 0xFFFFFFFFFFFFFFFF)"

text \<open>From the header on: the instructions end where the length says.\<close>

definition instructions_of :: "dwarf_structs \<Rightarrow> int \<Rightarrow> val \<Rightarrow> cfi_instr list C" where
  "instructions_of ds offset header =
     mbind (lift_res (rbind (get_attr header ''length'') as_int)) (\<lambda>len.
     mbind (on_sec s_pos) (\<lambda>p.
       on_sec (parse_instructions ds p (offset + len + initial_length_field_size ds))))"

definition parse_cie :: "cfi \<Rightarrow> dwarf_structs \<Rightarrow> int \<Rightarrow> cfi_entry C" where
  "parse_cie ci ds offset =
     mbind (on_sec (struct_parse (if ci_for_eh ci then EH_CIE_header ds else Dwarf_CIE_header ds) (Some offset))) (\<lambda>header.
     mbind (on_sec (parse_cie_augmentation ci header ds)) (\<lambda>(aug_bytes, aug_dict).
     mbind (instructions_of ds offset header) (\<lambda>is.
       let e = CIE header ds is offset aug_dict aug_bytes in
       mbind (put_cache offset e) (\<lambda>_. ret e))))"

definition parse_fde :: "(int \<Rightarrow> cfi_entry C) \<Rightarrow> cfi \<Rightarrow> dwarf_structs \<Rightarrow> int \<Rightarrow> cfi_entry C" where
  "parse_fde entry_at ci ds offset =
     mbind (parse_fde_header entry_at ci ds offset) (\<lambda>header.
     mbind (parse_cie_for_fde entry_at ci offset header ds) (\<lambda>cie.
     mbind (on_sec (read_augmentation_data ci ds)) (\<lambda>aug_bytes.
     mbind (lift_res (augmentation_dict cie)) (\<lambda>d.
     mbind (lift_res (case map_of d (VLit ''LSDA_encoding'') of
         None \<Rightarrow> Ok (DW_EH ''DW_EH_PE_omit'') | Some v \<Rightarrow> as_int v)) (\<lambda>lsda_encoding.
     mbind (if lsda_encoding \<noteq> DW_EH ''DW_EH_PE_omit'' then
              mbind (on_sec s_pos) (\<lambda>p.
              mbind (on_sec (parse_lsda_pointer ci ds (p - int (length aug_bytes)) lsda_encoding)) (\<lambda>ptr. ret (VInt ptr)))
            else ret VNone) (\<lambda>lsda.
     mbind (instructions_of ds offset header) (\<lambda>is.
     mbind (parse_cie_for_fde entry_at ci offset header ds) (\<lambda>cie.
       let e = FDE header ds is offset (VBytes aug_bytes) cie lsda in
       mbind (put_cache offset e) (\<lambda>_. ret e)))))))))"

text \<open>The bound on the depth stands for the interpreter's recursion limit.\<close>

primrec parse_entry_at :: "nat \<Rightarrow> cfi \<Rightarrow> int \<Rightarrow> cfi_entry C" where
  "parse_entry_at 0 ci offset = lift_res NoFuel"
| "parse_entry_at (Suc depth) ci offset =
     mbind get_state (\<lambda>s. case map_of (cs_cache s) offset of
       Some e \<Rightarrow>
         mbind (lift_res (rbind (entry_header e) (\<lambda>h. rbind (get_attr h ''length'') as_int))) (\<lambda>len.
         mbind (on_sec (s_seek_cur (len + initial_length_field_size (en_structs e)))) (\<lambda>_. ret e))
     | None \<Rightarrow>
         mbind (on_sec (parse_int (the_Dwarf_uint32 (ci_base ci)) (Some offset))) (\<lambda>entry_length.
           if ci_for_eh ci \<and> entry_length = 0 then ret (ZERO offset)
           else
             let fmt = (if entry_length = 0xFFFFFFFF then 64 else 32) in
             mbind (lift_res (DWARFStructs_new (dw_little_endian (ci_base ci)) fmt (address_size (ci_base ci)) 2)) (\<lambda>ds.
             mbind (on_sec (parse_int (the_Dwarf_offset ds) None)) (\<lambda>id.
               if is_CIE_id ci fmt id then parse_cie ci ds offset
               else parse_fde (parse_entry_at depth ci) ci ds offset))))"

primrec entries_loop :: "nat \<Rightarrow> nat \<Rightarrow> cfi \<Rightarrow> int \<Rightarrow> cfi_entry list C" where
  "entries_loop 0 depth ci offset = lift_res NoFuel"
| "entries_loop (Suc fuel) depth ci offset =
     (if offset < ci_size ci then
        mbind (parse_entry_at depth ci offset) (\<lambda>e.
        mbind (on_sec s_pos) (\<lambda>offset'.
        mbind (entries_loop fuel depth ci offset') (\<lambda>es. ret (e # es))))
      else ret [])"

definition get_entries :: "nat \<Rightarrow> cfi \<Rightarrow> cfi_entry list C" where
  "get_entries depth ci = mbind get_state (\<lambda>s. case cs_entries s of
       Some es \<Rightarrow> ret es
     | None \<Rightarrow> mbind (entries_loop (nat (ci_size ci) + 1) depth ci 0) (\<lambda>es t.
         (Ok es, t\<lparr>cs_entries := Some es\<rparr>)))"

end
