(* ===== verification/CfiTable.thy ===== *)
theory CfiTable
  imports DwarfCallframe
begin

text \<open>
  \<^verbatim>\<open>CFIEntry.get_decoded\<close> of \<^verbatim>\<open>elftools/dwarf/callframe.py\<close>: the instructions of an entry run to a table of
  lines.  A line is the source's dictionary: its keys \<open>pc\<close> and \<open>cfa\<close> are fields, the registers' rules
  an association list.
\<close>

datatype rule_kind = UNDEFINED | SAME_VALUE | OFFSET | VAL_OFFSET | REGISTER | EXPRESSION | VAL_EXPRESSION | ARCHITECTURAL

record reg_rule =
  rr_type :: rule_kind
  rr_arg :: val

record cfa_rule =
  cfa_reg :: val
  cfa_offset :: val
  cfa_expr :: val

record cfi_line =
  ln_pc :: int
  ln_cfa :: cfa_rule
  ln_regs :: "(int \<times> reg_rule) list"

record cfi_table =
  ct_table :: "cfi_line list"
  ct_reg_order :: "int list"

text \<open>The variables of the loop: the current line, the table, the order of the registers, the stack.\<close>

record cfi_run =
  cr_line :: cfi_line
  cr_table :: "cfi_line list"
  cr_order :: "int list"
  cr_stack :: "cfi_line list"

definition add_to_order :: "int \<Rightarrow> cfi_run \<Rightarrow> cfi_run" where
  "add_to_order regnum r = (if regnum \<in> set (cr_order r) then r else r\<lparr>cr_order := cr_order r @ [regnum]\<rparr>)"

definition arg_at :: "cfi_instr \<Rightarrow> int \<Rightarrow> val res" where
  "arg_at i n = py_index (ci_args i) n"

definition int_at :: "cfi_instr \<Rightarrow> int \<Rightarrow> int res" where
  "int_at i n = rbind (arg_at i n) as_int"

definition set_cfa :: "cfa_rule \<Rightarrow> cfi_run \<Rightarrow> cfi_run" where
  "set_cfa c r = r\<lparr>cr_line := (cr_line r)\<lparr>ln_cfa := c\<rparr>\<rparr>"

definition set_pc :: "int \<Rightarrow> cfi_run \<Rightarrow> cfi_run" where
  "set_pc p r = r\<lparr>cr_line := (cr_line r)\<lparr>ln_pc := p\<rparr>\<rparr>"

definition new_line :: "cfi_run \<Rightarrow> cfi_run" where
  "new_line r = r\<lparr>cr_table := cr_table r @ [cr_line r]\<rparr>"

text \<open>\<^verbatim>\<open>_add_to_order(reg); cur_line[reg] = rule\<close>, and \<^verbatim>\<open>cur_line.pop(reg, None)\<close>.\<close>

definition set_rule :: "int \<Rightarrow> reg_rule \<Rightarrow> cfi_run \<Rightarrow> cfi_run" where
  "set_rule reg rule r = (let r = add_to_order reg r in
     r\<lparr>cr_line := (cr_line r)\<lparr>ln_regs := AList.update reg rule (ln_regs (cr_line r))\<rparr>\<rparr>)"

definition drop_rule :: "int \<Rightarrow> cfi_run \<Rightarrow> cfi_run" where
  "drop_rule reg r = r\<lparr>cr_line := (cr_line r)\<lparr>ln_regs := AList.delete reg (ln_regs (cr_line r))\<rparr>\<rparr>"

definition header_int :: "cfi_entry \<Rightarrow> string \<Rightarrow> int res" where
  "header_int e n = rbind (entry_header e) (\<lambda>h. get_int h n)"

text \<open>
  One instruction, by its name.  \<open>self\<close> is the entry that is decoded, \<open>cie\<close> the one whose factors
  count; \<open>lst\<close> is \<open>last_line_in_CIE\<close>, which is unbound when the CIE's table is empty.
\<close>

definition restore_rule :: "cfi_entry \<Rightarrow> cfi_line option \<Rightarrow> cfi_instr \<Rightarrow> cfi_run \<Rightarrow> cfi_run res" where
  "restore_rule self lst i r =
     rbind (int_at i 0) (\<lambda>reg.
       let r = add_to_order reg r in
       case self of
         FDE _ _ _ _ _ _ _ \<Rightarrow>
           (case lst of
              None \<Rightarrow> Err UnboundLocalError
            | Some l \<Rightarrow> (case map_of (ln_regs l) reg of
                Some rule \<Rightarrow> Ok (set_rule reg rule r)
              | None \<Rightarrow> Ok (drop_rule reg r)))
       | _ \<Rightarrow> Err DWARFError)"

definition cfi_step :: "cfi_entry \<Rightarrow> cfi_entry \<Rightarrow> cfi_line option \<Rightarrow> cfi_instr \<Rightarrow> cfi_run \<Rightarrow> cfi_run res" where
  "cfi_step self cie lst i r =
     rbind (instruction_name (ci_opcode i)) (\<lambda>name.
       if name = ''DW_CFA_set_loc'' then rbind (int_at i 0) (\<lambda>pc. Ok (set_pc pc (new_line r)))
       else if name \<in> {''DW_CFA_advance_loc1'', ''DW_CFA_advance_loc2'', ''DW_CFA_advance_loc4'', ''DW_CFA_advance_loc''} then
         rbind (int_at i 0) (\<lambda>delta. rbind (header_int cie ''code_alignment_factor'') (\<lambda>factor.
           Ok (set_pc (ln_pc (cr_line r) + delta * factor) (new_line r))))
       else if name = ''DW_CFA_def_cfa'' then
         rbind (arg_at i 0) (\<lambda>reg. rbind (arg_at i 1) (\<lambda>off.
           Ok (set_cfa \<lparr>cfa_reg = reg, cfa_offset = off, cfa_expr = VNone\<rparr> r)))
       else if name = ''DW_CFA_def_cfa_sf'' then
         rbind (arg_at i 0) (\<lambda>reg. rbind (int_at i 1) (\<lambda>off. rbind (header_int cie ''code_alignment_factor'') (\<lambda>factor.
           Ok (set_cfa \<lparr>cfa_reg = reg, cfa_offset = VInt (off * factor), cfa_expr = VNone\<rparr> r))))
       else if name = ''DW_CFA_def_cfa_register'' then
         rbind (arg_at i 0) (\<lambda>reg.
           Ok (set_cfa \<lparr>cfa_reg = reg, cfa_offset = cfa_offset (ln_cfa (cr_line r)), cfa_expr = VNone\<rparr> r))
       else if name = ''DW_CFA_def_cfa_offset'' then
         rbind (arg_at i 0) (\<lambda>off.
           Ok (set_cfa \<lparr>cfa_reg = cfa_reg (ln_cfa (cr_line r)), cfa_offset = off, cfa_expr = VNone\<rparr> r))
       else if name = ''DW_CFA_def_cfa_offset_sf'' then
         rbind (int_at i 0) (\<lambda>off. rbind (header_int cie ''data_alignment_factor'') (\<lambda>factor.
           Ok (set_cfa \<lparr>cfa_reg = cfa_reg (ln_cfa (cr_line r)), cfa_offset = VInt (off * factor), cfa_expr = VNone\<rparr> r)))
       else if name = ''DW_CFA_def_cfa_expression'' then
         rbind (arg_at i 0) (\<lambda>e. Ok (set_cfa \<lparr>cfa_reg = VNone, cfa_offset = VNone, cfa_expr = e\<rparr> r))
       else if name = ''DW_CFA_undefined'' then
         rbind (int_at i 0) (\<lambda>reg. Ok (set_rule reg \<lparr>rr_type = UNDEFINED, rr_arg = VNone\<rparr> r))
       else if name = ''DW_CFA_same_value'' then
         rbind (int_at i 0) (\<lambda>reg. Ok (set_rule reg \<lparr>rr_type = SAME_VALUE, rr_arg = VNone\<rparr> r))
       else if name \<in> {''DW_CFA_offset'', ''DW_CFA_offset_extended'', ''DW_CFA_offset_extended_sf''} then
         rbind (int_at i 0) (\<lambda>reg. rbind (int_at i 1) (\<lambda>off. rbind (header_int cie ''data_alignment_factor'') (\<lambda>factor.
           Ok (set_rule reg \<lparr>rr_type = OFFSET, rr_arg = VInt (off * factor)\<rparr> r))))
       else if name \<in> {''DW_CFA_val_offset'', ''DW_CFA_val_offset_sf''} then
         rbind (int_at i 0) (\<lambda>reg. rbind (int_at i 1) (\<lambda>off. rbind (header_int cie ''data_alignment_factor'') (\<lambda>factor.
           Ok (set_rule reg \<lparr>rr_type = VAL_OFFSET, rr_arg = VInt (off * factor)\<rparr> r))))
       else if name = ''DW_CFA_register'' then
         rbind (int_at i 0) (\<lambda>reg. rbind (arg_at i 1) (\<lambda>v. Ok (set_rule reg \<lparr>rr_type = REGISTER, rr_arg = v\<rparr> r)))
       else if name = ''DW_CFA_expression'' then
         rbind (int_at i 0) (\<lambda>reg. rbind (arg_at i 1) (\<lambda>v. Ok (set_rule reg \<lparr>rr_type = EXPRESSION, rr_arg = v\<rparr> r)))
       else if name = ''DW_CFA_val_expression'' then
         rbind (int_at i 0) (\<lambda>reg. rbind (arg_at i 1) (\<lambda>v. Ok (set_rule reg \<lparr>rr_type = VAL_EXPRESSION, rr_arg = v\<rparr> r)))
       else if name \<in> {''DW_CFA_restore'', ''DW_CFA_restore_extended''} then restore_rule self lst i r
       else if name = ''DW_CFA_remember_state'' then Ok (r\<lparr>cr_stack := cr_line r # cr_stack r\<rparr>)
       else if name = ''DW_CFA_restore_state'' then
         (case cr_stack r of [] \<Rightarrow> Err IndexError
          | l # ls \<Rightarrow> Ok (r\<lparr>cr_line := l\<lparr>ln_pc := ln_pc (cr_line r)\<rparr>, cr_stack := ls\<rparr>))
       else Ok r)"

fun cfi_steps :: "cfi_entry \<Rightarrow> cfi_entry \<Rightarrow> cfi_line option \<Rightarrow> cfi_instr list \<Rightarrow> cfi_run \<Rightarrow> cfi_run res" where
  "cfi_steps self cie lst [] r = Ok r"
| "cfi_steps self cie lst (i # is) r = rbind (cfi_step self cie lst i r) (cfi_steps self cie lst is)"

text \<open>The last line is only added when it says something.\<close>

definition finish_table :: "cfi_run \<Rightarrow> cfi_table" where
  "finish_table r =
     \<lparr>ct_table = (if cfa_reg (ln_cfa (cr_line r)) \<noteq> VNone \<or> ln_regs (cr_line r) \<noteq> []
                  then cr_table r @ [cr_line r] else cr_table r),
      ct_reg_order = cr_order r\<rparr>"

definition empty_line :: cfi_line where
  "empty_line = \<lparr>ln_pc = 0, ln_cfa = \<lparr>cfa_reg = VNone, cfa_offset = VInt 0, cfa_expr = VNone\<rparr>, ln_regs = []\<rparr>"

definition last_line :: "cfi_table \<Rightarrow> cfi_line option" where
  "last_line t = (if ct_table t = [] then None else Some (last (ct_table t)))"

definition start_run :: "cfi_line \<Rightarrow> int list \<Rightarrow> cfi_run" where
  "start_run l order = \<lparr>cr_line = l, cr_table = [], cr_order = order, cr_stack = []\<rparr>"

fun decode_CFI_table :: "cfi_entry \<Rightarrow> cfi_table res" where
  "decode_CFI_table (CIE h ds is off d b) =
     rbind (cfi_steps (CIE h ds is off d b) (CIE h ds is off d b) None is (start_run empty_line []))
       (\<lambda>r. Ok (finish_table r))"
| "decode_CFI_table (FDE h ds is off b cie lsda) =
     rbind (decode_CFI_table cie) (\<lambda>t.
     rbind (get_int h ''initial_location'') (\<lambda>pc.
       let l = (case last_line t of Some l \<Rightarrow> l | None \<Rightarrow> empty_line) in
       rbind (cfi_steps (FDE h ds is off b cie lsda) cie (last_line t) is
           (start_run (l\<lparr>ln_pc := pc\<rparr>) (ct_reg_order t)))
         (\<lambda>r. Ok (finish_table r))))"
| "decode_CFI_table (ZERO off) = Err AttributeError"

definition get_decoded :: "cfi_entry \<Rightarrow> cfi_table res" where
  "get_decoded e = decode_CFI_table e"

end
