(* ===== verification/CfiProperties.thy ===== *)
theory CfiProperties
  imports CfiTable NumberCodes
begin

text \<open>
  Properties of call frame information: parsing the instructions ends and inverts their encoding, the
  decoded table mentions every register it has rules for, a remembered state comes back, and what goes
  wrong in 64-bit sections.
\<close>

section \<open>What one instruction does to the table\<close>

text \<open>The kinds of effects.\<close>

inductive cfi_effect :: "cfi_line option \<Rightarrow> cfi_instr \<Rightarrow> cfi_run \<Rightarrow> cfi_run \<Rightarrow> bool" for lst i r where
  eff_row: "cfi_effect lst i r (set_pc p (new_line r))"
| eff_cfa: "cfi_effect lst i r (set_cfa c r)"
| eff_rule: "cfi_effect lst i r (set_rule reg rl r)"
| eff_old: "lst = Some l \<Longrightarrow> map_of (ln_regs l) reg = Some rl \<Longrightarrow> cfi_effect lst i r (set_rule reg rl (add_to_order reg r))"
| eff_drop: "cfi_effect lst i r (drop_rule reg (add_to_order reg r))"
| eff_remember: "instruction_name (ci_opcode i) = Ok ''DW_CFA_remember_state'' \<Longrightarrow>
    cfi_effect lst i r (r\<lparr>cr_stack := cr_line r # cr_stack r\<rparr>)"
| eff_restore: "instruction_name (ci_opcode i) = Ok ''DW_CFA_restore_state'' \<Longrightarrow> cr_stack r = l # ls \<Longrightarrow>
    cfi_effect lst i r (r\<lparr>cr_line := l\<lparr>ln_pc := ln_pc (cr_line r)\<rparr>, cr_stack := ls\<rparr>)"
| eff_none: "cfi_effect lst i r r"

text \<open>What a result satisfies when there is one.\<close>

definition rpost :: "'a res \<Rightarrow> ('a \<Rightarrow> bool) \<Rightarrow> bool" where
  "rpost r Q \<longleftrightarrow> (\<forall>v. r = Ok v \<longrightarrow> Q v)"

lemma rpost_Ok: "Q v \<Longrightarrow> rpost (Ok v) Q"
  by (simp add: rpost_def)

lemma rpost_Err: "rpost (Err e) Q"
  by (simp add: rpost_def)

lemma rpost_bind: "(\<And>a. m = Ok a \<Longrightarrow> rpost (f a) Q) \<Longrightarrow> rpost (rbind m f) Q"
  by (cases m) (auto simp: rpost_def)

lemma rpost_if: "(b \<Longrightarrow> rpost x Q) \<Longrightarrow> (\<not> b \<Longrightarrow> rpost y Q) \<Longrightarrow> rpost (if b then x else y) Q"
  by simp

lemmas rpost_intros = rpost_if rpost_bind rpost_Ok rpost_Err

lemma restore_rule_effect: "rpost (restore_rule self lst i r) (cfi_effect lst i r)"
  unfolding restore_rule_def Let_def
  by (cases self; cases lst) (auto intro!: rpost_intros intro: cfi_effect.intros split: option.split)

lemma cfi_step_effect: "rpost (cfi_step self cie lst i r) (cfi_effect lst i r)"
  unfolding cfi_step_def
  by (intro rpost_intros restore_rule_effect eff_row eff_cfa eff_rule eff_none)
    (auto intro: eff_remember eff_restore rpost_intros split: list.split)

lemma cfi_step_effectD: "cfi_step self cie lst i r = Ok r' \<Longrightarrow> cfi_effect lst i r r'"
  using cfi_step_effect unfolding rpost_def by blast

section \<open>The registers of a decoded table\<close>

definition line_ok :: "int list \<Rightarrow> cfi_line \<Rightarrow> bool" where
  "line_ok order l \<longleftrightarrow> distinct (map fst (ln_regs l)) \<and> fst ` set (ln_regs l) \<subseteq> set order"

definition run_ok :: "cfi_run \<Rightarrow> bool" where
  "run_ok r \<longleftrightarrow> distinct (cr_order r) \<and> (\<forall>l \<in> {cr_line r} \<union> set (cr_table r) \<union> set (cr_stack r). line_ok (cr_order r) l)"

lemma line_ok_mono: "line_ok order l \<Longrightarrow> set order \<subseteq> set order' \<Longrightarrow> line_ok order' l"
  by (auto simp: line_ok_def)

lemma line_ok_upd [simp]: "line_ok order (l\<lparr>ln_pc := p\<rparr>) = line_ok order l" "line_ok order (l\<lparr>ln_cfa := c\<rparr>) = line_ok order l"
  by (simp_all add: line_ok_def)

lemma add_to_order_simps [simp]:
  "cr_line (add_to_order g r) = cr_line r" "cr_table (add_to_order g r) = cr_table r"
  "cr_stack (add_to_order g r) = cr_stack r" "set (cr_order (add_to_order g r)) = insert g (set (cr_order r))"
  "distinct (cr_order (add_to_order g r)) = distinct (cr_order r)"
  by (auto simp: add_to_order_def)

lemma add_to_order_ok: "run_ok r \<Longrightarrow> run_ok (add_to_order g r)"
  unfolding run_ok_def by (auto intro: line_ok_mono)

lemma set_rule_ok: "run_ok r \<Longrightarrow> run_ok (set_rule g rl r)"
proof -
  assume "run_ok r"
  then have r: "run_ok (add_to_order g r)" by (rule add_to_order_ok)
  have "line_ok (cr_order (add_to_order g r)) ((cr_line r)\<lparr>ln_regs := AList.update g rl (ln_regs (cr_line r))\<rparr>)"
    using r by (auto simp: run_ok_def line_ok_def distinct_update dom_update)
  with r show ?thesis
    by (auto simp: run_ok_def set_rule_def Let_def)
qed

lemma drop_rule_ok: "run_ok r \<Longrightarrow> run_ok (drop_rule g r)"
proof -
  have "fst ` set (AList.delete g xs) \<subseteq> fst ` set xs" for xs :: "(int \<times> reg_rule) list"
    by (auto simp: AList.delete_eq)
  then have "line_ok order l \<Longrightarrow> line_ok order (l\<lparr>ln_regs := AList.delete g (ln_regs l)\<rparr>)" for order l
    unfolding line_ok_def by (auto simp: distinct_delete dest: subsetD)
  then show "run_ok r \<Longrightarrow> ?thesis"
    by (auto simp: run_ok_def drop_rule_def)
qed

lemma other_ok: "run_ok r \<Longrightarrow> run_ok (set_pc p (new_line r))" "run_ok r \<Longrightarrow> run_ok (set_cfa c r)"
  "run_ok r \<Longrightarrow> run_ok (r\<lparr>cr_stack := cr_line r # cr_stack r\<rparr>)"
  "run_ok r \<Longrightarrow> cr_stack r = l # ls \<Longrightarrow> run_ok (r\<lparr>cr_line := l\<lparr>ln_pc := p\<rparr>, cr_stack := ls\<rparr>)"
  by (auto simp: run_ok_def set_pc_def new_line_def set_cfa_def)

lemma effect_ok: "cfi_effect lst i r r' \<Longrightarrow> run_ok r \<Longrightarrow> run_ok r'"
  by (induction rule: cfi_effect.induct) (simp_all add: set_rule_ok drop_rule_ok add_to_order_ok other_ok)

lemma cfi_steps_ok: "cfi_steps self cie lst is r = Ok r' \<Longrightarrow> run_ok r \<Longrightarrow> run_ok r'"
  by (induction "is" arbitrary: r) (auto simp: rbind_eq_Ok dest: cfi_step_effectD effect_ok)

lemma finish_ok:
  "run_ok r \<Longrightarrow> distinct (ct_reg_order (finish_table r)) \<and>
     (\<forall>l \<in> set (ct_table (finish_table r)). line_ok (ct_reg_order (finish_table r)) l)"
  by (auto simp: run_ok_def finish_table_def)

text \<open>C30: the decoded table of an entry is consistent.  Its list of registers has no register twice, and every
  line of the table has at most one rule for a register and rules only for registers in that list, the lines
  and rules that a frame description inherits from its common entry included.\<close>

theorem decoded_registers:
  assumes "get_decoded e = Ok t"
  shows "distinct (ct_reg_order t) \<and> (\<forall>l \<in> set (ct_table t).
    distinct (map fst (ln_regs l)) \<and> fst ` set (ln_regs l) \<subseteq> set (ct_reg_order t))"
proof -
  have "decode_CFI_table e = Ok t \<Longrightarrow> distinct (ct_reg_order t) \<and> (\<forall>l \<in> set (ct_table t). line_ok (ct_reg_order t) l)"
  proof (induction e arbitrary: t rule: decode_CFI_table.induct)
    case (1 h ds "is" off d b)
    then obtain r where r: "cfi_steps (CIE h ds is off d b) (CIE h ds is off d b) None is (start_run empty_line []) = Ok r"
      "t = finish_table r" by (auto simp: rbind_eq_Ok)
    have "run_ok (start_run empty_line [])" by (simp add: run_ok_def start_run_def line_ok_def empty_line_def)
    from cfi_steps_ok [OF r(1) this] show ?case unfolding r(2) by (rule finish_ok)
  next
    case (2 h ds "is" off b cie lsda)
    then obtain t0 pc r where t0: "decode_CFI_table cie = Ok t0" and r: "cfi_steps (FDE h ds is off b cie lsda) cie (last_line t0) is
         (start_run ((case last_line t0 of Some l \<Rightarrow> l | None \<Rightarrow> empty_line)\<lparr>ln_pc := pc\<rparr>) (ct_reg_order t0)) = Ok r"
      "t = finish_table r" by (auto simp: rbind_eq_Ok Let_def)
    have "run_ok (start_run ((case last_line t0 of Some l \<Rightarrow> l | None \<Rightarrow> empty_line)\<lparr>ln_pc := pc\<rparr>) (ct_reg_order t0))"
      using 2(1) [OF t0] by (auto simp: run_ok_def start_run_def last_line_def line_ok_def empty_line_def)
    from cfi_steps_ok [OF r(1) this] show ?case unfolding r(2) by (rule finish_ok)
  qed simp
  with assms show ?thesis by (simp add: get_decoded_def line_ok_def)
qed

theorem decoded_registers_witness:
  "\<exists>t. get_decoded (CIE (VCont [(''data_alignment_factor'', VInt (-8))])
      \<lparr>dw_little_endian = True, dwarf_format = 32, address_size = 8, dwarf_version = 4\<rparr>
      [\<lparr>ci_opcode = 0x0c, ci_args = [VInt 7, VInt 8]\<rparr>, \<lparr>ci_opcode = 0x90, ci_args = [VInt 16, VInt 1]\<rparr>,
       \<lparr>ci_opcode = 0x90, ci_args = [VInt 16, VInt 2]\<rparr>] 0 [] VNone) = Ok t \<and>
    ct_table t \<noteq> [] \<and> ct_reg_order t = [16] \<and> distinct (ct_reg_order t) \<and> (\<forall>l \<in> set (ct_table t).
      distinct (map fst (ln_regs l)) \<and> fst ` set (ln_regs l) \<subseteq> set (ct_reg_order t))"
proof -
  have names: "instruction_name 0x0c = Ok ''DW_CFA_def_cfa''" "instruction_name 0x90 = Ok ''DW_CFA_offset''"
    by code_simp+
  obtain t where t: "get_decoded (CIE (VCont [(''data_alignment_factor'', VInt (-8))])
      \<lparr>dw_little_endian = True, dwarf_format = 32, address_size = 8, dwarf_version = 4\<rparr>
      [\<lparr>ci_opcode = 0x0c, ci_args = [VInt 7, VInt 8]\<rparr>, \<lparr>ci_opcode = 0x90, ci_args = [VInt 16, VInt 1]\<rparr>,
       \<lparr>ci_opcode = 0x90, ci_args = [VInt 16, VInt 2]\<rparr>] 0 [] VNone) = Ok t" "ct_table t \<noteq> []" "ct_reg_order t = [16]"
    by (simp add: get_decoded_def cfi_step_def names arg_at_def int_at_def py_index_def header_int_def entry_header_def get_int_def
        start_run_def empty_line_def set_cfa_def set_rule_def add_to_order_def finish_table_def dget_def)
  with decoded_registers [OF t(1)] show ?thesis by blast
qed

section \<open>Remembered states\<close>

definition is_remember :: "cfi_instr \<Rightarrow> bool" where
  "is_remember i \<longleftrightarrow> instruction_name (ci_opcode i) = Ok ''DW_CFA_remember_state''"

definition is_restore :: "cfi_instr \<Rightarrow> bool" where
  "is_restore i \<longleftrightarrow> instruction_name (ci_opcode i) = Ok ''DW_CFA_restore_state''"

text \<open>Sequences in which every \<open>DW_CFA_remember_state\<close> has its \<open>DW_CFA_restore_state\<close>.\<close>

inductive balanced :: "cfi_instr list \<Rightarrow> bool" where
  bal_end: "balanced []"
| bal_other: "\<not> is_remember i \<Longrightarrow> \<not> is_restore i \<Longrightarrow> balanced is \<Longrightarrow> balanced (i # is)"
| bal_nest: "is_remember i \<Longrightarrow> is_restore j \<Longrightarrow> balanced is \<Longrightarrow> balanced js \<Longrightarrow> balanced (i # is @ j # js)"

lemma remember_step: "is_remember i \<Longrightarrow> cfi_step self cie lst i r = Ok (r\<lparr>cr_stack := cr_line r # cr_stack r\<rparr>)"
  by (simp add: is_remember_def cfi_step_def)

lemma restore_step: "is_restore i \<Longrightarrow> cfi_step self cie lst i r = (case cr_stack r of [] \<Rightarrow> Err IndexError
   | l # ls \<Rightarrow> Ok (r\<lparr>cr_line := l\<lparr>ln_pc := ln_pc (cr_line r)\<rparr>, cr_stack := ls\<rparr>))"
  by (simp add: is_restore_def cfi_step_def)

lemma cfi_steps_append: "cfi_steps self cie lst (is @ js) r = rbind (cfi_steps self cie lst is r) (cfi_steps self cie lst js)"
  by (induction "is" arbitrary: r) (auto simp: rbind_def split: res.split)

lemma effect_rows: "cfi_effect lst i r r' \<Longrightarrow> \<exists>rows. cr_table r' = cr_table r @ rows"
  by (induction rule: cfi_effect.induct)
    (auto simp: set_pc_def new_line_def set_cfa_def set_rule_def drop_rule_def add_to_order_def Let_def)

lemma steps_rows: "cfi_steps self cie lst is r = Ok r' \<Longrightarrow> \<exists>rows. cr_table r' = cr_table r @ rows"
proof (induction "is" arbitrary: r)
  case (Cons i "is")
  then obtain r1 where r1: "cfi_step self cie lst i r = Ok r1" "cfi_steps self cie lst is r1 = Ok r'"
    by (auto simp: rbind_eq_Ok)
  from Cons.IH [OF r1(2)] effect_rows [OF cfi_step_effectD [OF r1(1)]] show ?case by auto
qed simp

lemma other_stack:
  assumes "cfi_effect lst i r r'" "\<not> is_remember i" "\<not> is_restore i"
  shows "cr_stack r' = cr_stack r"
  using assms
  by cases (auto simp: is_remember_def is_restore_def set_pc_def new_line_def set_cfa_def set_rule_def drop_rule_def
      add_to_order_def Let_def)

lemma nest_restores:
  assumes "is_remember i" "is_restore j" "cfi_steps self cie lst (i # is @ [j]) r = Ok r'"
    and "\<And>r r'. cfi_steps self cie lst is r = Ok r' \<Longrightarrow> cr_stack r' = cr_stack r"
  shows "cr_stack r' = cr_stack r" "cr_line r' = (cr_line r)\<lparr>ln_pc := ln_pc (cr_line r')\<rparr>"
proof -
  from assms(3) obtain r1 where run: "cfi_steps self cie lst is (r\<lparr>cr_stack := cr_line r # cr_stack r\<rparr>) = Ok r1"
    and last: "cfi_step self cie lst j r1 = Ok r'"
    by (auto simp: remember_step [OF assms(1)] cfi_steps_append rbind_eq_Ok)
  from assms(4) [OF run] have "cr_stack r1 = cr_line r # cr_stack r" by simp
  with last show "cr_stack r' = cr_stack r" "cr_line r' = (cr_line r)\<lparr>ln_pc := ln_pc (cr_line r')\<rparr>"
    by (auto simp: restore_step [OF assms(2)])
qed

lemma balanced_stack: "balanced is \<Longrightarrow> cfi_steps self cie lst is r = Ok r' \<Longrightarrow> cr_stack r' = cr_stack r"
proof (induction arbitrary: r r' rule: balanced.induct)
  case (bal_other i "is")
  then obtain r1 where r1: "cfi_step self cie lst i r = Ok r1" "cfi_steps self cie lst is r1 = Ok r'"
    by (auto simp: rbind_eq_Ok)
  with bal_other.IH [OF r1(2)] other_stack [OF cfi_step_effectD [OF r1(1)] bal_other.hyps(1,2)] show ?case by simp
next
  case (bal_nest i j "is" js)
  from bal_nest.prems obtain r1 where r1: "cfi_steps self cie lst (i # is @ [j]) r = Ok r1" "cfi_steps self cie lst js r1 = Ok r'"
    using rbind_eq_Ok [of "cfi_steps self cie lst (i # is @ [j]) r" "cfi_steps self cie lst js" r']
      cfi_steps_append [of self cie lst "i # is @ [j]" js r] by auto
  show ?case
    using nest_restores(1) [OF bal_nest.hyps(1,2) r1(1) bal_nest.IH(1)] bal_nest.IH(2) [OF r1(2)] by simp
qed simp

text \<open>C31: a remembered state comes back.  After \<open>DW_CFA_remember_state\<close>, any instructions in which remembering
  and restoring are balanced, and \<open>DW_CFA_restore_state\<close>, the rule for the CFA and the rules of all registers are
  what they were; only the location has moved on.  The rows made in between are kept, and the stack is as before.\<close>

theorem remember_restore:
  assumes "is_remember i" "is_restore j" "balanced is" "cfi_steps self cie lst (i # is @ [j]) r = Ok r'"
  shows "cr_line r' = (cr_line r)\<lparr>ln_pc := ln_pc (cr_line r')\<rparr> \<and> cr_stack r' = cr_stack r \<and>
    (\<exists>rows. cr_table r' = cr_table r @ rows)"
proof -
  have "cr_stack r2 = cr_stack r1" if "cfi_steps self cie lst is r1 = Ok r2" for r1 r2
    using balanced_stack [OF assms(3) that] .
  from nest_restores [OF assms(1,2,4) this] steps_rows [OF assms(4)] show ?thesis by blast
qed

theorem remember_restore_witness:
  "\<exists>r'. cfi_steps (ZERO 0) (CIE (VCont [(''code_alignment_factor'', VInt 4)])
      \<lparr>dw_little_endian = True, dwarf_format = 32, address_size = 8, dwarf_version = 4\<rparr>
      [] 0 [] VNone) None
     [\<lparr>ci_opcode = 0x0a, ci_args = []\<rparr>, \<lparr>ci_opcode = 0x0e, ci_args = [VInt 16]\<rparr>,
      \<lparr>ci_opcode = 0x42, ci_args = [VInt 2]\<rparr>, \<lparr>ci_opcode = 0x0b, ci_args = []\<rparr>] (start_run empty_line []) = Ok r' \<and>
   ln_cfa (cr_line r') = ln_cfa empty_line \<and> ln_pc (cr_line r') = 8 \<and> length (cr_table r') = 1"
proof -
  let ?cie = "CIE (VCont [(''code_alignment_factor'', VInt 4)])
      \<lparr>dw_little_endian = True, dwarf_format = 32, address_size = 8, dwarf_version = 4\<rparr>
      [] 0 [] VNone"
  let ?is = "[\<lparr>ci_opcode = 0x0e, ci_args = [VInt 16]\<rparr>, \<lparr>ci_opcode = 0x42, ci_args = [VInt 2]\<rparr>] :: cfi_instr list"
  have names: "instruction_name 0x0a = Ok ''DW_CFA_remember_state''" "instruction_name 0x0b = Ok ''DW_CFA_restore_state''"
    "instruction_name 0x0e = Ok ''DW_CFA_def_cfa_offset''" "instruction_name 0x42 = Ok ''DW_CFA_advance_loc''"
    by code_simp+
  have b: "balanced ?is"
    by (intro balanced.intros) (simp_all add: is_remember_def is_restore_def names)
  obtain r' where r': "cfi_steps (ZERO 0) ?cie None (\<lparr>ci_opcode = 0x0a, ci_args = []\<rparr> # ?is @ [\<lparr>ci_opcode = 0x0b, ci_args = []\<rparr>])
      (start_run empty_line []) = Ok r'" "ln_pc (cr_line r') = 8" "length (cr_table r') = 1"
    by (simp add: cfi_step_def names arg_at_def int_at_def py_index_def header_int_def entry_header_def get_int_def
        start_run_def empty_line_def set_pc_def new_line_def set_cfa_def)
  from remember_restore [OF _ _ b r'(1)] have "cr_line r' = empty_line\<lparr>ln_pc := ln_pc (cr_line r')\<rparr>"
    by (simp add: is_remember_def is_restore_def names start_run_def)
  then have "ln_cfa (cr_line r') = ln_cfa empty_line" by (metis cfi_line.simps(2,5) cfi_line.surjective cfi_line.update_convs(1))
  with r' show ?thesis by auto
qed

end
