(* ===== verification/CfiReading.thy ===== *)
theory CfiReading
  imports DwarfCallframe HeaderReads
begin

text \<open>
  Reading call frame information: the instructions of an entry come to an end and are the ones that were
  written, and the entries of 64-bit sections are told apart by the wrong field.
\<close>

section \<open>Reading instructions ends\<close>

lemma form_block_ok: "form_parser ds (VLit ''DW_FORM_block'') = Ok (make_block_struct ds (Dwarf_uleb128 ds))"
  by (simp add: form_parser_def Dwarf_dw_form_def dw_form_table_def)

lemma block_ok: "con_ok (make_block_struct ds (Dwarf_uleb128 ds))"
  by (simp add: make_block_struct_def)

lemma lift_res_Ok: "lift_res (Ok a) = ret a"
  by (rule ext) simp

lemma parse_all_returns: "list_all con_ok cs \<Longrightarrow> returns (parse_all cs)"
  unfolding parse_all_def by (induction cs) (auto intro!: returns_intros struct_parse_ok_returns)

lemma parse_block_returns: "returns (parse_block ds)"
  unfolding parse_block_def form_block_ok lift_res_Ok mbind_ret by (rule struct_parse_ok_returns [OF block_ok])

lemma instruction_args_returns: "returns (instruction_args ds opcode)"
  unfolding instruction_args_def Let_def
  by (intro returns_if returns_mbind parse_all_returns parse_block_returns struct_parse_ok_returns returns_simple section_returns; simp)

lemma sadv_all: "sadv 0 (parse_all cs)"
  unfolding parse_all_def by (intro sadv_mmap sadv_any)

lemma instruction_args_forward: "sadv 0 (instruction_args ds opcode)"
  unfolding instruction_args_def Let_def parse_block_def dwarf_assert_def
  by (intro sadv_if sadv_right sadv_any sadv_simple sadv_all)

lemma instruction_forward:
  assumes "parse_int (the_Dwarf_uint8 ds) (Some offset) t = (Ok opcode, t1)" "instruction_args ds opcode t1 = (Ok args, t2)"
  shows "offset + 1 \<le> s_tell t2"
proof -
  have "sadv 1 (mbind (parse_int (the_Dwarf_uint8 ds) None) (instruction_args ds))"
    by (rule sadv_left [OF sadv_weaken [OF sadv_parse_int] instruction_args_forward]) (simp add: the_dwarf_defs)
  moreover have "mbind (s_seek offset) (\<lambda>_. mbind (parse_int (the_Dwarf_uint8 ds) None) (instruction_args ds)) t = (Ok args, t2)"
    using assms unfolding mbind_assoc [symmetric] parse_int_seek [symmetric] mbind_eq_Ok by blast
  ultimately show ?thesis using sadv_seek(2) [of 1] by fastforce
qed

lemma instructions_loop_returns:
  "end_offset - offset < int n \<Longrightarrow> 0 < n \<Longrightarrow> fst (instructions_loop n ds end_offset offset t) \<noteq> NoFuel"
proof (induction n arbitrary: offset t)
  case (Suc n)
  show ?case
  proof (cases "offset < end_offset")
    case True
    show ?thesis
      unfolding instructions_loop.simps if_P [OF True]
    proof (intro mbind_returns_at)
      fix opcode t1 args t2 off' t3
      assume o: "parse_int (the_Dwarf_uint8 ds) (Some offset) t = (Ok opcode, t1)"
        and a: "instruction_args ds opcode t1 = (Ok args, t2)" and p: "s_pos t2 = (Ok off', t3)"
      from instruction_forward [OF o a] p have "offset + 1 \<le> off'" by (auto simp: s_pos_def)
      with Suc.prems True show "fst (instructions_loop n ds end_offset off' t3) \<noteq> NoFuel"
        by (intro Suc.IH) auto
    qed (simp_all add: returns_at parse_int_returns instruction_args_returns section_returns)
  qed simp
qed simp

lemma parse_instructions_returns: "returns (parse_instructions ds offset end_offset)"
  unfolding parse_instructions_def returns_def by (intro allI instructions_loop_returns) auto

section \<open>Reading what was written\<close>

text \<open>The operands of the instructions whose operands are numbers (figure 40 of the standard).\<close>

definition cfa_operands :: "dwarf_structs \<Rightarrow> (int \<times> con list) list" where
  "cfa_operands ds =
     (let u = ULEB128C (Some ''''); s = SLEB128C (Some '''') in
     [(0x00, []), (0x01, [the_Dwarf_target_addr ds]), (0x02, [the_Dwarf_uint8 ds]), (0x03, [the_Dwarf_uint16 ds]),
      (0x04, [the_Dwarf_uint32 ds]), (0x05, [u, u]), (0x06, [u]), (0x07, [u]), (0x08, [u]), (0x09, [u, u]),
      (0x0a, []), (0x0b, []), (0x0c, [u, u]), (0x0d, [u]), (0x0e, [u]), (0x11, [u, s]), (0x12, [u, s]),
      (0x13, [s]), (0x14, [u, u]), (0x15, [u, s]), (0x2d, []), (0x2e, [u])])"

inductive instr_code :: "dwarf_structs \<Rightarrow> cfi_instr \<Rightarrow> bytes \<Rightarrow> bool" for ds where
  code_advance: "0 \<le> d \<Longrightarrow> d < 64 \<Longrightarrow> instr_code ds \<lparr>ci_opcode = 0x40 + d, ci_args = [VInt d]\<rparr> [word_of_int (0x40 + d)]"
| code_offset: "0 \<le> g \<Longrightarrow> g < 64 \<Longrightarrow>
    instr_code ds \<lparr>ci_opcode = 0x80 + g, ci_args = [VInt g, VInt (int n)]\<rparr> (word_of_int (0x80 + g) # uleb128 n)"
| code_restore: "0 \<le> g \<Longrightarrow> g < 64 \<Longrightarrow> instr_code ds \<lparr>ci_opcode = 0xc0 + g, ci_args = [VInt g]\<rparr> [word_of_int (0xc0 + g)]"
| code_operands: "(op, cs) \<in> set (cfa_operands ds) \<Longrightarrow> encode_numbers cs vs = Some bs \<Longrightarrow>
    instr_code ds \<lparr>ci_opcode = op, ci_args = map VInt vs\<rparr> (word_of_int op # bs)"

lemma cfa_codes [simp]:
  "DW_CFA ''DW_CFA_advance_loc'' = 64"
  "DW_CFA ''DW_CFA_offset'' = 128"
  "DW_CFA ''DW_CFA_restore'' = 192"
  "DW_CFA ''DW_CFA_nop'' = 0"
  "DW_CFA ''DW_CFA_set_loc'' = 1"
  "DW_CFA ''DW_CFA_advance_loc1'' = 2"
  "DW_CFA ''DW_CFA_advance_loc2'' = 3"
  "DW_CFA ''DW_CFA_advance_loc4'' = 4"
  "DW_CFA ''DW_CFA_offset_extended'' = 5"
  "DW_CFA ''DW_CFA_restore_extended'' = 6"
  "DW_CFA ''DW_CFA_undefined'' = 7"
  "DW_CFA ''DW_CFA_same_value'' = 8"
  "DW_CFA ''DW_CFA_register'' = 9"
  "DW_CFA ''DW_CFA_remember_state'' = 10"
  "DW_CFA ''DW_CFA_restore_state'' = 11"
  "DW_CFA ''DW_CFA_def_cfa'' = 12"
  "DW_CFA ''DW_CFA_def_cfa_register'' = 13"
  "DW_CFA ''DW_CFA_def_cfa_offset'' = 14"
  "DW_CFA ''DW_CFA_def_cfa_expression'' = 15"
  "DW_CFA ''DW_CFA_expression'' = 16"
  "DW_CFA ''DW_CFA_offset_extended_sf'' = 17"
  "DW_CFA ''DW_CFA_def_cfa_sf'' = 18"
  "DW_CFA ''DW_CFA_def_cfa_offset_sf'' = 19"
  "DW_CFA ''DW_CFA_val_offset'' = 20"
  "DW_CFA ''DW_CFA_val_offset_sf'' = 21"
  "DW_CFA ''DW_CFA_val_expression'' = 22"
  "DW_CFA ''DW_CFA_AARCH64_negate_ra_state'' = 45"
  "DW_CFA ''DW_CFA_GNU_args_size'' = 46"
  by (simp_all add: const_def DW_CFA_constants_def)

lemma operands_parsed: "list_all (\<lambda>(op, cs). instruction_args ds op = parse_all cs) (cfa_operands ds)"
  unfolding cfa_operands_def Let_def list.pred_inject prod.case instruction_args_def PRIMARY_MASK_def cfa_codes
  by (intro conjI TrueI) (simp_all add: parse_all_def the_dwarf_defs Dwarf_uleb128_def Dwarf_sleb128_def)

lemma opcode_byte: "0 \<le> op \<Longrightarrow> op < 256 \<Longrightarrow> uint (word_of_int op :: byte) = op"
  by (simp add: uint_word_of_int)

lemma small_or: "0 \<le> d \<Longrightarrow> d < 64 \<Longrightarrow> (64 * k + d) AND 0xc0 = (64 * k) AND 0xc0 \<and> (64 * k + d) AND 0x3f = d" for d k :: int
proof -
  assume d: "0 \<le> d" "d < 64"
  then have e: "64 * k + d = push_bit 6 k OR d"
    using or_push_bit [where v = d and sh = 6 and x = k] by (simp add: or.commute push_bit_eq_mult mult.commute add.commute)
  have "d AND 0xc0 = 0"
  proof (rule bit_eqI)
    fix n show "bit (d AND 0xc0) n \<longleftrightarrow> bit (0 :: int) n"
    proof (cases "n < 6")
      case True
      have c: "(0xc0 :: int) = push_bit 6 3" by (simp add: push_bit_eq_mult)
      show ?thesis unfolding c bit_and_iff bit_push_bit_iff using True by simp
    next
      case False
      have "take_bit 6 d = d" using d by (simp add: take_bit_int_eq_self)
      with False have "\<not> bit d n" by (metis bit_take_bit_iff)
      then show ?thesis by (simp add: bit_and_iff)
    qed
  qed
  then have "(64 * k + d) AND 0xc0 = (64 * k) AND 0xc0"
    unfolding e by (simp add: bit.conj_disj_distrib2 push_bit_eq_mult mult.commute)
  moreover have "(64 * k + d) AND 0x3f = take_bit 6 (64 * k + d)"
    using take_bit_eq_mask [of 6 "64 * k + d"] by (simp add: mask_eq_exp_minus_1)
  then have "(64 * k + d) AND 0x3f = d"
    using d by (simp add: take_bit_eq_mod)
  ultimately show ?thesis by simp
qed

text \<open>The arguments of one instruction, after its opcode.\<close>

lemma instr_args_read:
  assumes "instr_code ds i bs" "tail_bytes t = tl bs @ rest"
  shows "instruction_args ds (ci_opcode i) t = (Ok (ci_args i), adv (length (tl bs)) t)"
  using assms
proof cases
  case (code_advance d)
  then show ?thesis using small_or [of d 1] by (simp add: instruction_args_def PRIMARY_MASK_def PRIMARY_ARG_MASK_def)
next
  case (code_offset g n)
  then have "tail_bytes t = uleb128 n @ rest" using assms(2) by simp
  from reads_as_parse [OF reads_as_uleb this] show ?thesis
    using code_offset small_or [of g 2]
    by (simp add: instruction_args_def PRIMARY_MASK_def PRIMARY_ARG_MASK_def the_dwarf_defs Dwarf_uleb128_def mbind_Ok)
next
  case (code_restore g)
  then show ?thesis using small_or [of g 3] by (simp add: instruction_args_def PRIMARY_MASK_def PRIMARY_ARG_MASK_def)
next
  case (code_operands op cs vs abs)
  then have "instruction_args ds op = parse_all cs"
    using operands_parsed [of ds] by (auto simp: list_all_iff)
  with parse_numbers [OF code_operands(4)] assms(2) code_operands show ?thesis
    by (simp add: parse_all_def)
qed

lemma instr_code_head:
  assumes "instr_code ds i bs"
  shows "\<exists>as. bs = word_of_int (ci_opcode i) # as \<and> 0 \<le> ci_opcode i \<and> ci_opcode i < 256"
  using assms
proof cases
  case (code_operands op cs vs abs)
  then have "0 \<le> op \<and> op < 256" by (auto simp: cfa_operands_def Let_def)
  with code_operands show ?thesis by simp
qed auto

lemma instructions_loop_read:
  "list_all2 (instr_code ds) is bss \<Longrightarrow> drop p (sdata t) = concat bss @ rest \<Longrightarrow> p + length (concat bss) < 2 ^ 63 \<Longrightarrow>
   length bss < fuel \<Longrightarrow>
   \<exists>t'. instructions_loop fuel ds (int p + int (length (concat bss))) (int p) t = (Ok is, t') \<and> sdata t' = sdata t \<and>
     (spos t = p \<longrightarrow> spos t' = p + length (concat bss))"
proof (induction "is" bss arbitrary: p t fuel rule: list_all2_induct)
  case Nil
  then show ?case by (cases fuel) auto
next
  case (Cons i "is" bs bss)
  obtain f where f: "fuel = Suc f" using Cons.prems(3) by (cases fuel) auto
  obtain as where bs: "bs = word_of_int (ci_opcode i) # as" "0 \<le> ci_opcode i" "ci_opcode i < 256"
    using instr_code_head [OF Cons.hyps(1)] by blast
  let ?t = "t\<lparr>spos := Suc p\<rparr>"
  have d: "drop p (sdata t) = [word_of_int (ci_opcode i)] @ (as @ concat bss @ rest)"
    using Cons.prems(1) bs by simp
  have op: "parse_int (the_Dwarf_uint8 ds) (Some (int p)) t = (Ok (ci_opcode i), ?t)"
    using parse_int_at [OF uint8_reads, of "int p" t "word_of_int (ci_opcode i)"] d Cons.prems(2) opcode_byte [OF bs(2,3)] by simp
  have "drop (p + 1) (sdata t) = as @ (concat bss @ rest)"
    using arg_cong [OF d, of "drop 1"] by (simp add: add.commute)
  then have args: "instruction_args ds (ci_opcode i) ?t = (Ok (ci_args i), adv (length as) ?t)"
    using instr_args_read [OF Cons.hyps(1), of ?t "concat bss @ rest"] bs by (simp add: tail_bytes_def)
  have later: "drop (p + length bs) (sdata (adv (length as) ?t)) = concat bss @ rest"
    using arg_cong [OF Cons.prems(1), of "drop (length bs)"] by (simp add: add.commute)
  obtain t' where rest: "instructions_loop f ds (int (p + length bs) + int (length (concat bss))) (int (p + length bs)) (adv (length as) ?t) = (Ok is, t')"
    "sdata t' = sdata (adv (length as) ?t)" "spos t' = p + length bs + length (concat bss)"
    using Cons.IH [OF later, of f] Cons.prems(2,3) f bs(1) by (auto simp: add.assoc)
  have e: "int (p + length bs) + int (length (concat bss)) = int p + int (length (concat (bs # bss)))"
    "s_tell (adv (length as) ?t) = int (p + length bs)"
    using bs by (simp_all add: s_tell_def)
  have lt: "int p < int p + int (length (concat (bs # bss)))" using bs by simp
  have loop: "instructions_loop f ds (int p + (int (length bs) + int (length (concat bss)))) (int p + int (length bs))
      (adv (length as) ?t) = (Ok is, t')"
    using rest(1) by (simp add: add.assoc)
  show ?case
    unfolding f instructions_loop.simps if_P [OF lt]
    using rest e by (simp add: mbind_Ok [where m = "parse_int _ _", OF op] mbind_Ok [where m = "instruction_args _ _", OF args] s_pos_def
        mbind_Ok [where m = "instructions_loop _ _ _ _", OF loop] mbind_Ok)
qed

end
