(* ===== verification/CfiEntries.thy ===== *)
theory CfiEntries
  imports CfiReading
begin

text \<open>
  The entries of \<open>.debug_frame\<close>: a common information entry comes back from its bytes in the 32-bit format,
  and never does in the 64-bit format.
\<close>

record cie_params =
  cq_version :: int
  cq_augmentation :: bytes
  cq_address_size :: int
  cq_segment_size :: int
  cq_code_factor :: nat
  cq_data_factor :: int
  cq_return_reg :: nat

definition cie_params_ok :: "cie_params \<Rightarrow> bool" where
  "cie_params_ok q \<longleftrightarrow> 0 \<le> cq_version q \<and> cq_version q < 256 \<and> plain_string (cq_augmentation q) \<and>
     0 \<le> cq_address_size q \<and> cq_address_size q < 256 \<and> 0 \<le> cq_segment_size q \<and> cq_segment_size q < 256 \<and>
     (cq_version q \<le> 1 \<longrightarrow> cq_return_reg q < 256)"

definition cie_rest_bytes :: "dwarf_structs \<Rightarrow> cie_params \<Rightarrow> bytes" where
  "cie_rest_bytes ds q = num_bytes ds 1 (cq_version q) @ (cq_augmentation q @ [0]) @
     (if cq_version q \<ge> 4 then num_bytes ds 1 (cq_address_size q) else []) @
     (if cq_version q \<ge> 4 then num_bytes ds 1 (cq_segment_size q) else []) @
     uleb128 (cq_code_factor q) @ sleb128 (cq_data_factor q) @
     (if cq_version q > 1 then uleb128 (cq_return_reg q) else num_bytes ds 1 (int (cq_return_reg q)))"

definition cie_header_for :: "int \<Rightarrow> int \<Rightarrow> cie_params \<Rightarrow> val" where
  "cie_header_for len i q = VCont
     [(''length'', VInt len), (''CIE_id'', VInt i), (''version'', VInt (cq_version q)),
      (''augmentation'', VBytes (cq_augmentation q)),
      (''address_size'', if cq_version q \<ge> 4 then VInt (cq_address_size q) else VNone),
      (''segment_size'', if cq_version q \<ge> 4 then VInt (cq_segment_size q) else VNone),
      (''code_alignment_factor'', VInt (int (cq_code_factor q))), (''data_alignment_factor'', VInt (cq_data_factor q)),
      (''return_address_register'', VInt (int (cq_return_reg q)))]"

lemma nest_obj [simp]: "map_of (nest_ctx x) ''<obj>'' = None"
  by (simp add: nest_ctx_def)

lemma put_obj [simp]: "n \<noteq> ''<obj>'' \<Longrightarrow> map_of (dput n v x) ''<obj>'' = map_of x ''<obj>''"
  by (simp add: update_conv')

lemma cstring_name [simp]: "con_name (CString n enc) = Some n" "\<not> is_flag (con_flags (CString n enc)) FLAG_EMBED"
  by (simp_all add: CString_def Rename_def Field_def)

lemma read_field_into: "con_name c = Some n \<Longrightarrow> \<not> is_flag (con_flags c) FLAG_EMBED \<Longrightarrow> reads_with c x bs v x1 \<Longrightarrow>
    fields_read cs (dput n v x1) (dput n v d) bs' d' \<Longrightarrow> b = bs @ bs' \<Longrightarrow> fields_read (c # cs) x d b d'"
  using read_field by blast

lemma read_end_eq: "d = d' \<Longrightarrow> b = [] \<Longrightarrow> fields_read [] x d b d'"
  using read_end by simp

lemma read_if_byte:
  assumes "f x = Ok (VBool b)" "0 \<le> v" "v < 256"
  shows "reads_with (If f (Dwarf_uint8 ds n)) x (if b then num_bytes ds 1 v else []) (if b then VInt v else VNone) x"
  using reads_with_If(1) [where f = f and x = x and b = b, OF assms(1) _ reads_with_plain [OF read_unsigned(1) [OF assms(2)]]] assms(3)
    reads_with_If(2) [where f = f and x = x and b = b, OF assms(1)] by simp

lemma read_cie_header:
  assumes "length_ok is64 len" "0 \<le> i" "i < 256 ^ offset_size ds" "cie_params_ok q"
  shows "reads_with (Dwarf_CIE_header ds) [] (length_bytes ds is64 len @ num_bytes ds (offset_size ds) i @ cie_rest_bytes ds q)
    (cie_header_for len i q) []"
proof -
  have ra: "reads_with (IfThenElse (Some ''return_address_register'') (ctx_test ''version'' (\<lambda>v. v > 1))
        (Dwarf_uleb128 ds '''') (Dwarf_uint8 ds '''')) x
      (if cq_version q > 1 then uleb128 (cq_return_reg q) else num_bytes ds 1 (int (cq_return_reg q)))
      (VInt (int (cq_return_reg q))) x"
    if t: "ctx_test ''version'' (\<lambda>v. v > 1) x = Ok (VBool (cq_version q > 1))" for x
  proof (cases "cq_version q > 1")
    case True
    from reads_with_IfThenElse(1) [where f = "ctx_test _ _", OF t True reads_with_plain [OF read_leb(1)]] True
    show ?thesis by simp
  next
    case False
    with assms(4) have "reads_as (Dwarf_uint8 ds '''') (num_bytes ds 1 (int (cq_return_reg q))) (VInt (int (cq_return_reg q)))"
      by (intro read_unsigned) (simp_all add: cie_params_ok_def)
    from reads_with_IfThenElse(2) [where f = "ctx_test _ _", OF t False reads_with_plain [OF this]] False
    show ?thesis by simp
  qed
  note q = assms(4) [unfolded cie_params_ok_def]
  note byte = reads_with_plain [OF read_unsigned(1)]
  have v4: "ctx_test ''version'' (\<lambda>v. v \<ge> 4) x = Ok (VBool (cq_version q \<ge> 4)) \<Longrightarrow> 0 \<le> v \<Longrightarrow> v < 256 \<Longrightarrow>
      reads_with (If (ctx_test ''version'' (\<lambda>v. v \<ge> 4)) (Dwarf_uint8 ds n)) x
        (if cq_version q \<ge> 4 then num_bytes ds 1 v else []) (if cq_version q \<ge> 4 then VInt v else VNone) x" for x n v
    by (rule read_if_byte [where f = "ctx_test _ _"])
  show ?thesis
    unfolding Dwarf_CIE_header_def cie_header_for_def
    apply (rule reads_with_Struct)
     apply (rule read_field_into [OF _ _ read_initial_length [OF assms(1)]], simp, simp, simp)
      apply (rule read_field_into [OF _ _ reads_with_plain [OF read_offset [OF assms(2,3)]]], simp, simp)
       apply (rule read_field_into [OF _ _ byte [of "cq_version q"]], simp, simp, use q in simp, use q in simp)
        apply (rule read_field_into [OF _ _ reads_with_plain [OF read_string [of "cq_augmentation q"]]], simp, simp, use q in simp)
         apply (rule read_field_into [OF _ _ v4 [of _ "cq_address_size q"]], simp, simp, simp, use q in simp, use q in simp)
          apply (rule read_field_into [OF _ _ v4 [of _ "cq_segment_size q"]], simp, simp, simp, use q in simp, use q in simp)
           apply (rule read_field_into [OF _ _ reads_with_plain [OF read_leb(1)]], simp, simp)
            apply (rule read_field_into [OF _ _ reads_with_plain [OF read_leb(2)]], simp, simp)
             apply (rule read_field_into [OF _ _ ra], simp, simp, simp)
              apply (rule read_end_eq, simp, simp)
             apply (simp add: cie_rest_bytes_def)+
    done
qed

section \<open>Common information entries\<close>

lemma on_sec_run: "on_sec m s = (fst (m (cs_stream s)), s\<lparr>cs_stream := snd (m (cs_stream s))\<rparr>)"
  by (simp add: on_sec_def split: prod.split)

lemma on_sec_Ok: "m (cs_stream s) = (Ok a, t) \<Longrightarrow> on_sec m s = (Ok a, s\<lparr>cs_stream := t\<rparr>)"
  by (simp add: on_sec_run)

lemma drop_next: "drop p d = xs @ ys \<Longrightarrow> drop (p + length xs) d = ys"
  by (metis add.commute append_eq_conv_conj drop_drop)

text \<open>The instructions that end an entry.\<close>

lemma instructions_of_read:
  assumes "list_all2 (instr_code ds) is bss" "drop p (sdata (cs_stream s)) = concat bss @ rest" "p + length (concat bss) < 2 ^ 63"
    "spos (cs_stream s) = p" "get_attr header ''length'' = Ok (VInt len)"
    "offset + len + initial_length_field_size ds = int p + int (length (concat bss))"
  shows "\<exists>t. instructions_of ds offset header s = (Ok is, s\<lparr>cs_stream := t\<rparr>) \<and> sdata t = sdata (cs_stream s) \<and>
    spos t = p + length (concat bss)"
proof -
  have "length bss \<le> length (concat bss)"
    using assms(1) by (induction rule: list_all2_induct) (auto dest!: instr_code_head)
  then obtain t where t: "parse_instructions ds (int p) (int p + int (length (concat bss))) (cs_stream s) = (Ok is, t)"
    "sdata t = sdata (cs_stream s)" "spos t = p + length (concat bss)"
    using assms(4) instructions_loop_read [OF assms(1-3), of "nat (int p + int (length (concat bss)) - int p) + 1"]
    by (auto simp: parse_instructions_def)
  have pos: "on_sec s_pos s = (Ok (int p), s)"
    using assms(4) by (simp add: on_sec_run s_pos_def s_tell_def)
  have "instructions_of ds offset header s = (Ok is, s\<lparr>cs_stream := t\<rparr>)"
    using t(1) assms(5,6)
    by (simp add: instructions_of_def mbind_Ok [where m = "on_sec s_pos", OF pos] on_sec_Ok)
  with t(2,3) show ?thesis by blast
qed

definition entry_bytes :: "dwarf_structs \<Rightarrow> bytes \<Rightarrow> bytes" where
  "entry_bytes ds body = length_bytes ds False (int (length body)) @ body"

definition cie_body :: "dwarf_structs \<Rightarrow> cie_params \<Rightarrow> bytes list \<Rightarrow> bytes" where
  "cie_body ds q code = num_bytes ds (offset_size ds) 0xFFFFFFFF @ cie_rest_bytes ds q @ concat code"

text \<open>The structures of the 32-bit entries of a section.\<close>

definition entry_structs :: "cfi \<Rightarrow> dwarf_structs" where
  "entry_structs ci = \<lparr>dw_little_endian = dw_little_endian (ci_base ci), dwarf_format = 32,
     address_size = address_size (ci_base ci), dwarf_version = 2\<rparr>"

definition frame_section :: "cfi \<Rightarrow> bool" where
  "frame_section ci \<longleftrightarrow> \<not> ci_for_eh ci \<and> address_size (ci_base ci) \<in> {4, 8}"

lemma entry_structs_simps [simp]:
  "dwarf_format (entry_structs ci) = 32" "address_size (entry_structs ci) = address_size (ci_base ci)"
  "offset_size (entry_structs ci) = 4" "initial_length_field_size (entry_structs ci) = 4"
  "num_bytes (entry_structs ci) = num_bytes (ci_base ci)" "length_bytes (entry_structs ci) = length_bytes (ci_base ci)"
  by (auto simp: entry_structs_def offset_size_def initial_length_field_size_def num_bytes_def length_bytes_def fun_eq_iff)

lemma new_entry_structs: "frame_section ci \<Longrightarrow>
    DWARFStructs_new (dw_little_endian (ci_base ci)) 32 (address_size (ci_base ci)) 2 = Ok (entry_structs ci)"
  by (auto simp: frame_section_def DWARFStructs_new_def entry_structs_def)

text \<open>What stands before the kind of an entry is decided: its length and the number behind it.\<close>

lemma entry_start:
  assumes "frame_section ci" "map_of (cs_cache s) (int p) = None"
    "drop p (sdata (cs_stream s)) = entry_bytes (entry_structs ci) (num_bytes (ci_base ci) 4 i @ body) @ rest"
    "length body + 4 < 0xFFFFFF00" "0 \<le> i" "i < 2 ^ 32" "p + 4 < 2 ^ 63"
  shows "parse_entry_at (Suc d) ci (int p) s =
    (if i = 0xFFFFFFFF then parse_cie ci (entry_structs ci) (int p) else parse_fde (parse_entry_at d ci) ci (entry_structs ci) (int p))
      (s\<lparr>cs_stream := (cs_stream s)\<lparr>spos := p + 8\<rparr>\<rparr>)"
proof -
  let ?len = "int (length body + 4)"
  let ?t = "(cs_stream s)\<lparr>spos := p + 4\<rparr>"
  have d: "drop p (sdata (cs_stream s)) = num_bytes (ci_base ci) 4 ?len @ (num_bytes (ci_base ci) 4 i @ body @ rest)"
    using assms(3) by (simp add: entry_bytes_def length_bytes_def add.commute)
  have "reads_as (the_Dwarf_uint32 (ci_base ci)) (num_bytes (ci_base ci) 4 ?len) (VInt ?len)"
    using assms(4) by (simp only: the_dwarf_defs) (intro read_unsigned; simp)
  from parse_int_at [OF this, of "int p" "cs_stream s"] d assms(7)
  have len: "on_sec (parse_int (the_Dwarf_uint32 (ci_base ci)) (Some (int p))) s = (Ok ?len, s\<lparr>cs_stream := ?t\<rparr>)"
    by (intro on_sec_Ok) simp
  have "reads_as (the_Dwarf_offset (entry_structs ci)) (num_bytes (ci_base ci) 4 i) (VInt i)"
    using read_offset [of i "entry_structs ci" "''''"] assms(5,6) by (simp add: the_dwarf_defs)
  moreover have "tail_bytes ?t = num_bytes (ci_base ci) 4 i @ (body @ rest)"
    using drop_next [OF d] by (simp add: tail_bytes_def)
  ultimately have "parse_int (the_Dwarf_offset (entry_structs ci)) None ?t = (Ok i, (cs_stream s)\<lparr>spos := p + 8\<rparr>)"
    using reads_as_parse_int by (fastforce simp: adv_def)
  then have i: "on_sec (parse_int (the_Dwarf_offset (entry_structs ci)) None) (s\<lparr>cs_stream := ?t\<rparr>) =
      (Ok i, s\<lparr>cs_stream := (cs_stream s)\<lparr>spos := p + 8\<rparr>\<rparr>)"
    by (subst on_sec_Ok) simp_all
  show ?thesis
    using assms(1,2,4-6) new_entry_structs [OF assms(1)]
    by (simp add: mbind_Ok [where m = "on_sec (parse_int _ (Some _))", OF len] mbind_Ok [where m = "on_sec (parse_int _ None)", OF i]
        frame_section_def is_CIE_id_def)
qed

definition cie_entry :: "cfi \<Rightarrow> cie_params \<Rightarrow> cfi_instr list \<Rightarrow> int \<Rightarrow> int \<Rightarrow> cfi_entry" where
  "cie_entry ci q is len offset = CIE (cie_header_for len 0xFFFFFFFF q) (entry_structs ci) is offset [] (VStr [])"

lemma cie_header_attrs [simp]:
  "get_attr (cie_header_for len i q) ''length'' = Ok (VInt len)"
  "get_item (cie_header_for len i q) ''augmentation'' = Ok (VBytes (cq_augmentation q))"
  by (simp_all add: cie_header_for_def get_attr_def dget_def)

lemma cie_read:
  assumes "frame_section ci" "map_of (cs_cache s) (int p) = None" "cie_params_ok q" "cq_augmentation q = []"
    "list_all2 (instr_code (entry_structs ci)) is code"
    "drop p (sdata (cs_stream s)) = entry_bytes (entry_structs ci) (cie_body (entry_structs ci) q code) @ rest"
    "length (cie_body (entry_structs ci) q code) < 0xFFFFFF00" "p < 2 ^ 62"
  defines "e \<equiv> cie_entry ci q is (int (length (cie_body (entry_structs ci) q code))) (int p)"
  shows "\<exists>t. parse_entry_at (Suc d) ci (int p) s =
      (Ok e, s\<lparr>cs_stream := t, cs_cache := AList.update (int p) e (cs_cache s)\<rparr>) \<and> sdata t = sdata (cs_stream s)"
proof -
  let ?ds = "entry_structs ci"
  let ?len = "int (length (cie_body ?ds q code))"
  let ?h = "cie_header_for ?len 0xFFFFFFFF q"
  let ?s = "s\<lparr>cs_stream := (cs_stream s)\<lparr>spos := p + 8\<rparr>\<rparr>"
  let ?hb = "length_bytes ?ds False ?len @ num_bytes ?ds (offset_size ?ds) 0xFFFFFFFF @ cie_rest_bytes ?ds q"
  obtain n where n: "n = length ?hb" by simp
  have b: "cie_body ?ds q code = num_bytes (ci_base ci) 4 0xFFFFFFFF @ (cie_rest_bytes ?ds q @ concat code)"
    by (simp add: cie_body_def)
  have l: "length (cie_rest_bytes ?ds q @ concat code) + 4 < 0xFFFFFF00" using assms(7) b by simp
  have start: "parse_entry_at (Suc d) ci (int p) s = parse_cie ci ?ds (int p) ?s"
    using entry_start [OF assms(1,2) assms(6) [unfolded b] l] assms(8) by simp
  have d: "drop p (sdata (cs_stream s)) = ?hb @ (concat code @ rest)"
    using assms(6) by (simp add: entry_bytes_def cie_body_def)
  have "length_ok False ?len" using assms(7) by (simp add: length_ok_def)
  from reads_with_parse_at [OF read_cie_header [OF this _ _ assms(3), of "0xFFFFFFFF" ?ds], of "int p" "cs_stream ?s" "concat code @ rest"] d assms(8)
  have h: "on_sec (struct_parse (Dwarf_CIE_header ?ds) (Some (int p))) ?s =
      (Ok ?h, s\<lparr>cs_stream := (cs_stream s)\<lparr>spos := p + n\<rparr>\<rparr>)"
    by (subst on_sec_Ok) (simp_all add: n)
  have aug: "parse_cie_augmentation ci ?h ?ds t = (Ok (VStr [], []), t)" for t
    by (simp add: parse_cie_augmentation_def assms(4))
  have "drop (p + n) (sdata (cs_stream s)) = concat code @ rest"
    using drop_next [OF d] n by simp
  moreover have "int p + ?len + 4 = int (p + n) + int (length (concat code))"
    by (simp add: n cie_body_def length_bytes_def)
  moreover have "p + n + length (concat code) < 2 ^ 63"
    using assms(7,8) by (simp add: n cie_body_def length_bytes_def)
  ultimately obtain t where t: "instructions_of ?ds (int p) ?h (s\<lparr>cs_stream := (cs_stream s)\<lparr>spos := p + n\<rparr>\<rparr>) = (Ok is, s\<lparr>cs_stream := t\<rparr>)"
    "sdata t = sdata (cs_stream s)"
    using instructions_of_read [OF assms(5), of "p + n" "s\<lparr>cs_stream := (cs_stream s)\<lparr>spos := p + n\<rparr>\<rparr>" rest ?h ?len "int p"]
    by auto
  have "parse_cie ci ?ds (int p) ?s = (Ok e, s\<lparr>cs_stream := t, cs_cache := AList.update (int p) e (cs_cache s)\<rparr>)"
    using assms(1)
    by (simp add: parse_cie_def frame_section_def mbind_Ok [where m = "on_sec (struct_parse _ _)", OF h]
        mbind_Ok [where m = "on_sec (parse_cie_augmentation _ _ _)", OF on_sec_Ok [OF aug]]
        mbind_Ok [where m = "instructions_of _ _ _", OF t(1)] put_cache_def e_def cie_entry_def Let_def mbind_def [where m = "\<lambda>s. (Ok (), _ s)"])
  with start t(2) show ?thesis by auto
qed

section \<open>Frame descriptions\<close>

record fde_params =
  fq_location :: int
  fq_range :: int

definition fde_params_ok :: "cfi \<Rightarrow> fde_params \<Rightarrow> bool" where
  "fde_params_ok ci f \<longleftrightarrow> 0 \<le> fq_location f \<and> fq_location f < 256 ^ addr_size (ci_base ci) \<and>
     0 \<le> fq_range f \<and> fq_range f < 256 ^ addr_size (ci_base ci)"

definition fde_body :: "dwarf_structs \<Rightarrow> int \<Rightarrow> fde_params \<Rightarrow> bytes list \<Rightarrow> bytes" where
  "fde_body ds pointer f code = num_bytes ds (offset_size ds) pointer @ num_bytes ds (addr_size ds) (fq_location f) @
     num_bytes ds (addr_size ds) (fq_range f) @ concat code"

definition fde_header_for :: "int \<Rightarrow> int \<Rightarrow> fde_params \<Rightarrow> val" where
  "fde_header_for len pointer f = VCont [(''length'', VInt len), (''CIE_pointer'', VInt pointer),
     (''initial_location'', VInt (fq_location f)), (''address_range'', VInt (fq_range f))]"

definition fde_entry :: "cfi \<Rightarrow> cfi_entry \<Rightarrow> int \<Rightarrow> fde_params \<Rightarrow> cfi_instr list \<Rightarrow> int \<Rightarrow> int \<Rightarrow> cfi_entry" where
  "fde_entry ci cie pointer f is len offset =
     FDE (fde_header_for len pointer f) (entry_structs ci) is offset (VBytes []) cie VNone"

lemma addr_size_entry [simp]: "addr_size (entry_structs ci) = addr_size (ci_base ci)"
  by (simp add: addr_size_def)

lemma read_fde_header:
  assumes "length_ok is64 len" "0 \<le> i" "i < 256 ^ offset_size ds"
    "0 \<le> fq_location f" "fq_location f < 256 ^ addr_size ds" "0 \<le> fq_range f" "fq_range f < 256 ^ addr_size ds"
  shows "reads_with (Dwarf_FDE_header ds) [] (length_bytes ds is64 len @ num_bytes ds (offset_size ds) i @
      num_bytes ds (addr_size ds) (fq_location f) @ num_bytes ds (addr_size ds) (fq_range f)) (fde_header_for len i f) []"
  unfolding Dwarf_FDE_header_def fde_header_for_def
  apply (rule reads_with_Struct)
   apply (rule read_field_into [OF _ _ read_initial_length [OF assms(1)]], simp, simp, simp)
    apply (rule read_field_into [OF _ _ reads_with_plain [OF read_offset [OF assms(2,3)]]], simp, simp)
     apply (rule read_field_into [OF _ _ reads_with_plain [OF read_address [OF assms(4,5)]]], simp, simp)
      apply (rule read_field_into [OF _ _ reads_with_plain [OF read_address [OF assms(6,7)]]], simp, simp)
       apply (rule read_end_eq, simp, simp)
      apply simp_all
  done

lemma fde_header_attrs [simp]:
  "get_attr (fde_header_for len i f) ''length'' = Ok (VInt len)" "get_int (fde_header_for len i f) ''CIE_pointer'' = Ok i"
  by (simp_all add: fde_header_for_def get_attr_def get_int_def dget_def)

text \<open>The entry of a frame description's pointer, read or found; the stream stays where it is.\<close>

lemma keep_pos_run:
  assumes "body s = (Ok a, s')" "sdata (cs_stream s') = sdata (cs_stream s)" "spos (cs_stream s) < 2 ^ 63"
  shows "keep_pos body s = (Ok a, s'\<lparr>cs_stream := cs_stream s\<rparr>)"
proof -
  have "s_seek (int (spos (cs_stream s))) (cs_stream s') = (Ok (), cs_stream s)"
    using assms(2,3) by (simp add: s_seek_def)
  with assms(1) show ?thesis
    by (simp add: keep_pos_def mbind_def on_sec_run s_pos_def s_tell_def)
qed

lemma cached_entry:
  assumes "map_of (cs_cache s) off = Some e" "e = CIE h ds is off d b" "get_attr h ''length'' = Ok (VInt len)"
    "0 \<le> len" "int (spos (cs_stream s)) + len + initial_length_field_size ds < 2 ^ 63" "0 \<le> initial_length_field_size ds"
  shows "\<exists>t. parse_entry_at (Suc depth) ci off s = (Ok e, s\<lparr>cs_stream := t\<rparr>) \<and> sdata t = sdata (cs_stream s)"
  using assms by (simp add: entry_header_def mbind_def on_sec_run s_seek_cur_def s_tell_def)
    (rule exI, rule conjI, rule refl, simp)

lemma cie_for_fde_run:
  assumes "frame_section ci" "get_int h ''CIE_pointer'' = Ok off"
    "entry_at off s = (Ok e, s')" "sdata (cs_stream s') = sdata (cs_stream s)" "spos (cs_stream s) < 2 ^ 63"
  shows "parse_cie_for_fde entry_at ci p h ds s = (Ok e, s'\<lparr>cs_stream := cs_stream s\<rparr>)"
  using keep_pos_run [of "entry_at off", OF assms(3-5)] assms(1,2)
  by (simp add: parse_cie_for_fde_def cie_offset_of_def frame_section_def)

text \<open>
  A frame description comes back from its bytes, with its common information entry, which is read on
  the way (both are in the cache then).
\<close>

lemma fde_read:
  fixes ci :: cfi
  assumes "frame_section ci" "map_of (cs_cache s) (int p) = None" "map_of (cs_cache s) (int c) = None"
    and cie: "cie_params_ok q" "cq_augmentation q = []" "list_all2 (instr_code (entry_structs ci)) is code"
      "drop c (sdata (cs_stream s)) = entry_bytes (entry_structs ci) (cie_body (entry_structs ci) q code) @ rest"
      "length (cie_body (entry_structs ci) q code) < 0xFFFFFF00" "int c < 0xFFFFFFFF"
    and fde: "fde_params_ok ci f" "list_all2 (instr_code (entry_structs ci)) js code'"
      "drop p (sdata (cs_stream s)) = entry_bytes (entry_structs ci) (fde_body (entry_structs ci) (int c) f code') @ rest'"
      "length (fde_body (entry_structs ci) (int c) f code') < 0xFFFFFF00" "p < 2 ^ 62"
  shows "fst (parse_entry_at (Suc (Suc d)) ci (int p) s) = Ok
    (fde_entry ci (cie_entry ci q is (int (length (cie_body (entry_structs ci) q code))) (int c)) (int c) f js
      (int (length (fde_body (entry_structs ci) (int c) f code'))) (int p))"
proof -
  let ?ds = "entry_structs ci"
  let ?len = "int (length (fde_body ?ds (int c) f code'))"
  let ?cl = "int (length (cie_body ?ds q code))"
  let ?h = "fde_header_for ?len (int c) f"
  let ?cie = "cie_entry ci q is ?cl (int c)"
  let ?at = "\<lambda>k. (cs_stream s)\<lparr>spos := k\<rparr>"
  let ?s = "s\<lparr>cs_stream := ?at (p + 8)\<rparr>"
  let ?hb = "length_bytes ?ds False ?len @ num_bytes ?ds (offset_size ?ds) (int c) @
      num_bytes ?ds (addr_size ?ds) (fq_location f) @ num_bytes ?ds (addr_size ?ds) (fq_range f)"
  obtain n where n: "n = length ?hb" by simp
  let ?s1 = "s\<lparr>cs_stream := ?at (p + n), cs_cache := AList.update (int c) ?cie (cs_cache s)\<rparr>"
  have n_small: "n \<le> 24" by (simp add: n length_bytes_def addr_size_def)
  have b: "fde_body ?ds (int c) f code' = num_bytes (ci_base ci) 4 (int c) @
      (num_bytes ?ds (addr_size ?ds) (fq_location f) @ num_bytes ?ds (addr_size ?ds) (fq_range f) @ concat code')"
    by (simp add: fde_body_def)
  have start: "parse_entry_at (Suc (Suc d)) ci (int p) s = parse_fde (parse_entry_at (Suc d) ci) ci ?ds (int p) ?s"
    using entry_start [OF assms(1,2) fde(3) [unfolded b], of "Suc d"] fde(4) [unfolded b] fde(5) cie(6) by simp
  have d: "drop p (sdata (cs_stream s)) = ?hb @ (concat code' @ rest')"
    using fde(3) by (simp add: entry_bytes_def fde_body_def)
  have "length_ok False ?len" using fde(4) by (simp add: length_ok_def)
  from reads_with_parse_at [OF read_fde_header [OF this, of "int c" ?ds f], of "int p" "cs_stream ?s" "concat code' @ rest'"]
    d fde(1,5) cie(6)
  have h: "parse_fde_header (parse_entry_at (Suc d) ci) ci ?ds (int p) ?s = (Ok ?h, s\<lparr>cs_stream := ?at (p + n)\<rparr>)"
    using assms(1) by (simp add: parse_fde_header_def frame_section_def on_sec_run fde_params_ok_def n)
  obtain t where "parse_entry_at (Suc d) ci (int c) (s\<lparr>cs_stream := ?at (p + n)\<rparr>) =
      (Ok ?cie, s\<lparr>cs_stream := t, cs_cache := AList.update (int c) ?cie (cs_cache s)\<rparr>)" "sdata t = sdata (cs_stream s)"
    using cie_read [OF assms(1) _ cie(1,2,3), of "s\<lparr>cs_stream := ?at (p + n)\<rparr>" c rest d] assms(3) cie(4-6) by auto
  then have c1: "parse_cie_for_fde (parse_entry_at (Suc d) ci) ci (int p) ?h ?ds (s\<lparr>cs_stream := ?at (p + n)\<rparr>) = (Ok ?cie, ?s1)"
    using cie_for_fde_run [OF assms(1), of ?h "int c" "parse_entry_at (Suc d) ci"] fde(5) n_small by (simp add: n)
  have drop1: "drop (p + n) (sdata (cs_stream ?s1)) = concat code' @ rest'"
    using drop_next [OF d] n by simp
  have stop: "int p + ?len + 4 = int (p + n) + int (length (concat code'))"
    by (simp add: n fde_body_def length_bytes_def)
  have small: "p + n + length (concat code') < 2 ^ 62 + 2 ^ 33"
    using fde(4,5) by (simp add: n fde_body_def length_bytes_def)
  then have "p + n + length (concat code') < 2 ^ 63" by simp
  from instructions_of_read [OF fde(2) drop1 this, of ?h ?len "int p"] stop
  obtain t2 where t2: "instructions_of ?ds (int p) ?h ?s1 = (Ok js, ?s1\<lparr>cs_stream := t2\<rparr>)"
    "sdata t2 = sdata (cs_stream s)" "spos t2 = p + n + length (concat code')"
    by (auto simp: n)
  let ?s2 = "s\<lparr>cs_cache := AList.update (int c) ?cie (cs_cache s), cs_stream := t2\<rparr>"
  have "map_of (cs_cache ?s2) (int c) = Some ?cie" by (simp add: update_conv')
  from cached_entry [OF this cie_entry_def, of ?cl d ci] small t2(3) cie(5)
  obtain t3 where t3: "parse_entry_at (Suc d) ci (int c) ?s2 = (Ok ?cie, ?s2\<lparr>cs_stream := t3\<rparr>)" "sdata t3 = sdata t2"
    by (auto simp del: parse_entry_at.simps)
  have c2: "parse_cie_for_fde (parse_entry_at (Suc d) ci) ci (int p) ?h ?ds ?s2 = (Ok ?cie, ?s2)"
    using cie_for_fde_run [OF assms(1), of ?h "int c" "parse_entry_at (Suc d) ci" ?s2] t3 t2(3) small by (simp del: parse_entry_at.simps)
  have none: "augmentation_dict ?cie = Ok []" "read_augmentation_data ci ?ds = ret []"
    using assms(1) by (simp_all add: augmentation_dict_def cie_entry_def read_augmentation_data_def frame_section_def)
  have "fst (parse_fde (parse_entry_at (Suc d) ci) ci ?ds (int p) ?s) = Ok (fde_entry ci ?cie (int c) f js ?len (int p))"
    unfolding parse_fde_def none
    by (simp add: mbind_Ok [where m = "parse_fde_header _ _ _ _", OF h] mbind_Ok [where m = "parse_cie_for_fde _ _ _ _ _", OF c1]
        mbind_Ok [where m = "instructions_of _ _ _", OF t2(1)] mbind_Ok [where m = "parse_cie_for_fde _ _ _ _ _", OF c2]
        on_sec_run none mbind_def [where m = "on_sec (ret _)"] fde_entry_def put_cache_def Let_def mbind_def [where m = "\<lambda>s. (Ok (), _ s)"] del: parse_entry_at.simps)
  with start show ?thesis by (simp only:)
qed

definition holds_cie :: "cfi \<Rightarrow> bytes \<Rightarrow> nat \<Rightarrow> cie_params \<Rightarrow> cfi_instr list \<Rightarrow> bytes list \<Rightarrow> bool" where
  "holds_cie ci d c q is code \<longleftrightarrow> cie_params_ok q \<and> cq_augmentation q = [] \<and>
     list_all2 (instr_code (entry_structs ci)) is code \<and>
     take (length (entry_bytes (entry_structs ci) (cie_body (entry_structs ci) q code))) (drop c d) =
       entry_bytes (entry_structs ci) (cie_body (entry_structs ci) q code) \<and>
     length (cie_body (entry_structs ci) q code) < 0xFFFFFF00 \<and> int c < 0xFFFFFFFF"

definition holds_fde :: "cfi \<Rightarrow> bytes \<Rightarrow> nat \<Rightarrow> nat \<Rightarrow> fde_params \<Rightarrow> cfi_instr list \<Rightarrow> bytes list \<Rightarrow> bool" where
  "holds_fde ci d p c f is code \<longleftrightarrow> fde_params_ok ci f \<and>
     list_all2 (instr_code (entry_structs ci)) is code \<and>
     take (length (entry_bytes (entry_structs ci) (fde_body (entry_structs ci) (int c) f code))) (drop p d) =
       entry_bytes (entry_structs ci) (fde_body (entry_structs ci) (int c) f code) \<and>
     length (fde_body (entry_structs ci) (int c) f code) < 0xFFFFFF00 \<and> p < 2 ^ 62"

lemma take_prefix: "take (length xs) ys = xs \<Longrightarrow> ys = xs @ drop (length xs) ys" for xs ys :: bytes
  by (metis append_take_drop_id)

lemma frame_description_read:
  assumes "frame_section ci" "holds_cie ci (sdata (cs_stream s)) c q is code"
    "holds_fde ci (sdata (cs_stream s)) p c f js code'"
    "map_of (cs_cache s) (int p) = None" "map_of (cs_cache s) (int c) = None"
  shows "fst (parse_entry_at (Suc (Suc d)) ci (int p) s) = Ok
    (fde_entry ci (cie_entry ci q is (int (length (cie_body (entry_structs ci) q code))) (int c)) (int c) f js
      (int (length (fde_body (entry_structs ci) (int c) f code'))) (int p))"
  using assms fde_read [OF assms(1,4,5)] take_prefix unfolding holds_cie_def holds_fde_def by blast

text \<open>From version 4 on a common information entry states the size of addresses, and of the segment selectors in front of
  them, in the frame descriptions that point to it; here the sizes that the section's addresses are written in.\<close>

definition states_sizes :: "cfi \<Rightarrow> cie_params \<Rightarrow> bool" where
  "states_sizes ci q \<longleftrightarrow> (4 \<le> cq_version q \<longrightarrow> cq_address_size q = int (addr_size (ci_base ci)) \<and> cq_segment_size q = 0)"

text \<open>C32: the entries of a \<open>.debug_frame\<close> section come back from their bytes, in the 32-bit format and without
  augmentation.  Where the section holds a common information entry, and somewhere else a frame description that points to it,
  both written as the standard says (with any version, factors, registers and instructions, and from version 4 on
  stating the file's address size and no segment selectors), parsing the
  frame description gives exactly the header and instructions that were written, together with its common information
  entry, read on the way and then found in the cache.\<close>

theorem frame_description_roundtrip:
  assumes "frame_section ci" "holds_cie ci (sdata (cs_stream s)) c q is code" "states_sizes ci q"
    "holds_fde ci (sdata (cs_stream s)) p c f js code'"
    "map_of (cs_cache s) (int p) = None" "map_of (cs_cache s) (int c) = None"
  shows "fst (parse_entry_at (Suc (Suc d)) ci (int p) s) = Ok
    (fde_entry ci (cie_entry ci q is (int (length (cie_body (entry_structs ci) q code))) (int c)) (int c) f js
      (int (length (fde_body (entry_structs ci) (int c) f code'))) (int p))"
  by (rule frame_description_read [OF assms(1,2,4-6)])

text \<open>C33: the address size and the segment selector size that a common information entry of version 4 states are read and
  then ignored, though the class's documentation says that the address size is taken from there.  Under an entry that states
  another address size, or segment selectors, the frame description that is read has its location and range
  in the file's address size (\<open>holds_fde\<close>), directly behind the pointer.\<close>

theorem cie_address_size_ignored:
  assumes "frame_section ci" "holds_cie ci (sdata (cs_stream s)) c q is code"
    "4 \<le> cq_version q" "cq_address_size q \<noteq> int (addr_size (ci_base ci)) \<or> cq_segment_size q \<noteq> 0"
    "holds_fde ci (sdata (cs_stream s)) p c f js code'"
    "map_of (cs_cache s) (int p) = None" "map_of (cs_cache s) (int c) = None"
  shows "\<not> states_sizes ci q \<and> fst (parse_entry_at (Suc (Suc d)) ci (int p) s) = Ok
    (fde_entry ci (cie_entry ci q is (int (length (cie_body (entry_structs ci) q code))) (int c)) (int c) f js
      (int (length (fde_body (entry_structs ci) (int c) f code'))) (int p))"
  using frame_description_read [OF assms(1,2,5-7)] assms(3,4) by (auto simp: states_sizes_def)

text \<open>A section with one of each, for a little-endian machine with addresses of eight bytes.\<close>

definition sample_cfi :: cfi where
  "sample_cfi = \<lparr>ci_size = 60, ci_address = 0, ci_base = \<lparr>dw_little_endian = True, dwarf_format = 32, address_size = 8,
     dwarf_version = 2\<rparr>, ci_for_eh = False\<rparr>"

definition sample_cie :: cie_params where
  "sample_cie = \<lparr>cq_version = 4, cq_augmentation = [], cq_address_size = 8, cq_segment_size = 0, cq_code_factor = 1,
     cq_data_factor = -8, cq_return_reg = 16\<rparr>"

definition sample_fde :: fde_params where
  "sample_fde = \<lparr>fq_location = 0x1000, fq_range = 0x20\<rparr>"

definition sample_code :: "bytes list" where
  "sample_code = [[0x0c, 7, 8], [0x90, 1]]"

definition sample_section :: bytes where
  "sample_section = entry_bytes (entry_structs sample_cfi) (cie_body (entry_structs sample_cfi) sample_cie sample_code) @
     entry_bytes (entry_structs sample_cfi) (fde_body (entry_structs sample_cfi) 0 sample_fde [[0x41]])"

lemma sample_instrs:
  "list_all2 (instr_code (entry_structs sample_cfi)) [\<lparr>ci_opcode = 0x0c, ci_args = [VInt 7, VInt 8]\<rparr>, \<lparr>ci_opcode = 0x90, ci_args = [VInt 16, VInt 1]\<rparr>] sample_code"
  "list_all2 (instr_code (entry_structs sample_cfi)) [\<lparr>ci_opcode = 0x41, ci_args = [VInt 1]\<rparr>] [[0x41]]"
proof -
  have u: "uleb128 7 = [7]" "uleb128 8 = [8]" "uleb128 (Suc 0) = [1]" by (simp_all add: uleb128.simps)
  have "instr_code ds \<lparr>ci_opcode = 0x0c, ci_args = map VInt [7, 8]\<rparr> (word_of_int 0x0c # [7, 8])" for ds
    by (rule code_operands [of _ "[ULEB128C (Some ''''), ULEB128C (Some '''')]"])
      (simp_all add: cfa_operands_def Let_def encode_number_def u)
  moreover have "instr_code ds \<lparr>ci_opcode = 0x80 + 16, ci_args = [VInt 16, VInt (int 1)]\<rparr> (word_of_int (0x80 + 16) # uleb128 1)" for ds
    by (rule code_offset) simp_all
  moreover have "instr_code ds \<lparr>ci_opcode = 0x40 + 1, ci_args = [VInt 1]\<rparr> [word_of_int (0x40 + 1)]" for ds
    by (rule code_advance) simp_all
  ultimately show "list_all2 (instr_code (entry_structs sample_cfi)) [\<lparr>ci_opcode = 0x0c, ci_args = [VInt 7, VInt 8]\<rparr>, \<lparr>ci_opcode = 0x90, ci_args = [VInt 16, VInt 1]\<rparr>] sample_code"
    "list_all2 (instr_code (entry_structs sample_cfi)) [\<lparr>ci_opcode = 0x41, ci_args = [VInt 1]\<rparr>] [[0x41]]"
    by (simp_all add: sample_code_def u)
qed

lemma sample_lengths:
  "length (cie_body (entry_structs sample_cfi) sample_cie sample_code) = 16"
  "length (fde_body (entry_structs sample_cfi) 0 sample_fde [[0x41]]) = 21"
  by (simp_all add: cie_body_def fde_body_def cie_rest_bytes_def sample_cie_def sample_code_def uleb128.simps sleb128.simps
      addr_size_def sample_cfi_def)

lemma sample_ok:
  "cie_params_ok sample_cie" "cq_augmentation sample_cie = []" "fde_params_ok sample_cfi sample_fde" "frame_section sample_cfi"
  by (simp_all add: cie_params_ok_def fde_params_ok_def sample_cie_def sample_fde_def plain_string_def addr_size_def
      sample_cfi_def frame_section_def)

lemma sample_held:
  "holds_cie sample_cfi sample_section 0 sample_cie [\<lparr>ci_opcode = 0x0c, ci_args = [VInt 7, VInt 8]\<rparr>, \<lparr>ci_opcode = 0x90, ci_args = [VInt 16, VInt 1]\<rparr>] sample_code"
  "holds_fde sample_cfi sample_section 20 0 sample_fde [\<lparr>ci_opcode = 0x41, ci_args = [VInt 1]\<rparr>] [[0x41]]"
  using sample_instrs
  by (simp_all add: holds_cie_def holds_fde_def sample_lengths sample_section_def sample_ok entry_bytes_def length_bytes_def)

lemma sample_states: "states_sizes sample_cfi sample_cie"
  by (simp add: states_sizes_def sample_cie_def sample_cfi_def addr_size_def)

theorem frame_description_roundtrip_witness:
  "fst (parse_entry_at 2 sample_cfi 20 \<lparr>cs_stream = bytesio sample_section, cs_cache = [], cs_entries = None\<rparr>) = Ok
    (fde_entry sample_cfi (cie_entry sample_cfi sample_cie
       [\<lparr>ci_opcode = 0x0c, ci_args = [VInt 7, VInt 8]\<rparr>, \<lparr>ci_opcode = 0x90, ci_args = [VInt 16, VInt 1]\<rparr>] 16 0)
       0 sample_fde [\<lparr>ci_opcode = 0x41, ci_args = [VInt 1]\<rparr>] 21 20)"
  using frame_description_roundtrip [where d = 0, OF sample_ok(4), where s = "\<lparr>cs_stream = bytesio sample_section, cs_cache = [], cs_entries = None\<rparr>"]
    sample_held sample_states by (fastforce simp: sample_lengths bytesio_def numeral_2_eq_2 simp del: parse_entry_at.simps)

text \<open>The same section, but for the address size that the entry states.\<close>

definition other_cie :: cie_params where
  "other_cie = sample_cie\<lparr>cq_address_size := 4\<rparr>"

definition other_section :: bytes where
  "other_section = entry_bytes (entry_structs sample_cfi) (cie_body (entry_structs sample_cfi) other_cie sample_code) @
     entry_bytes (entry_structs sample_cfi) (fde_body (entry_structs sample_cfi) 0 sample_fde [[0x41]])"

lemma other_held:
  "length (cie_body (entry_structs sample_cfi) other_cie sample_code) = 16"
  "holds_cie sample_cfi other_section 0 other_cie [\<lparr>ci_opcode = 0x0c, ci_args = [VInt 7, VInt 8]\<rparr>, \<lparr>ci_opcode = 0x90, ci_args = [VInt 16, VInt 1]\<rparr>] sample_code"
  "holds_fde sample_cfi other_section 20 0 sample_fde [\<lparr>ci_opcode = 0x41, ci_args = [VInt 1]\<rparr>] [[0x41]]"
proof -
  show l: "length (cie_body (entry_structs sample_cfi) other_cie sample_code) = 16"
    by (simp add: cie_body_def cie_rest_bytes_def other_cie_def sample_cie_def sample_code_def uleb128.simps sleb128.simps)
  have "cie_params_ok other_cie" "cq_augmentation other_cie = []"
    using sample_ok(1,2) by (simp_all add: other_cie_def cie_params_ok_def)
  then show "holds_cie sample_cfi other_section 0 other_cie [\<lparr>ci_opcode = 0x0c, ci_args = [VInt 7, VInt 8]\<rparr>, \<lparr>ci_opcode = 0x90, ci_args = [VInt 16, VInt 1]\<rparr>] sample_code"
    "holds_fde sample_cfi other_section 20 0 sample_fde [\<lparr>ci_opcode = 0x41, ci_args = [VInt 1]\<rparr>] [[0x41]]"
    using sample_instrs l
    by (simp_all add: holds_cie_def holds_fde_def sample_lengths other_section_def sample_ok entry_bytes_def length_bytes_def)
qed

theorem cie_address_size_ignored_witness:
  "\<not> states_sizes sample_cfi other_cie \<and>
   fst (parse_entry_at 2 sample_cfi 20 \<lparr>cs_stream = bytesio other_section, cs_cache = [], cs_entries = None\<rparr>) = Ok
    (fde_entry sample_cfi (cie_entry sample_cfi other_cie
       [\<lparr>ci_opcode = 0x0c, ci_args = [VInt 7, VInt 8]\<rparr>, \<lparr>ci_opcode = 0x90, ci_args = [VInt 16, VInt 1]\<rparr>] 16 0)
       0 sample_fde [\<lparr>ci_opcode = 0x41, ci_args = [VInt 1]\<rparr>] 21 20)"
proof -
  have v: "4 \<le> cq_version other_cie" "cq_address_size other_cie \<noteq> int (addr_size (ci_base sample_cfi))"
    by (simp_all add: other_cie_def sample_cie_def sample_cfi_def addr_size_def)
  show ?thesis
    using cie_address_size_ignored [where d = 0 and s = "\<lparr>cs_stream = bytesio other_section, cs_cache = [], cs_entries = None\<rparr>",
        OF sample_ok(4) _ v(1) disjI1 [OF v(2)], of 0 _ sample_code 20 sample_fde _ "[[0x41]]"] other_held sample_lengths
    by (fastforce simp: bytesio_def numeral_2_eq_2 simp del: parse_entry_at.simps)
qed

section \<open>The 64-bit format\<close>

lemma as_number: "\<exists>v. bs = num_bytes ds (length bs) v \<and> 0 \<le> v \<and> v < 256 ^ length bs"
proof (intro exI conjI)
  let ?v = "le_uint (order_bytes (if dw_little_endian ds then LE else BE) bs)"
  show "bs = num_bytes ds (length bs) ?v" "0 \<le> ?v"
    by (simp_all add: num_bytes_def le_bytes_uint)
  show "?v < 256 ^ length bs"
    using le_uint_less [of "order_bytes (if dw_little_endian ds then LE else BE) bs"] by simp
qed

lemma mbind_fails: "fst (m s) = Err e \<Longrightarrow> fst (mbind m f s) = Err e"
  by (auto simp: mbind_def split: prod.split)

lemma keep_pos_fails: "fst (body s) = Err e \<Longrightarrow> fst (keep_pos body s) = Err e"
proof -
  have "on_sec s_pos s = (Ok (s_tell (cs_stream s)), s)" by (simp add: on_sec_run s_pos_def)
  then show "fst (body s) = Err e \<Longrightarrow> ?thesis"
    by (simp add: keep_pos_def mbind_Ok [where m = "on_sec s_pos"] mbind_fails)
qed

definition wide_structs :: "cfi \<Rightarrow> dwarf_structs" where
  "wide_structs ci = (entry_structs ci)\<lparr>dwarf_format := 64\<rparr>"

lemma wide_structs_simps [simp]:
  "dwarf_format (wide_structs ci) = 64" "address_size (wide_structs ci) = address_size (ci_base ci)"
  "offset_size (wide_structs ci) = 8" "addr_size (wide_structs ci) = addr_size (ci_base ci)"
  "num_bytes (wide_structs ci) = num_bytes (ci_base ci)" "length_bytes (wide_structs ci) = length_bytes (ci_base ci)"
  by (auto simp: wide_structs_def entry_structs_def offset_size_def addr_size_def num_bytes_def length_bytes_def fun_eq_iff)

lemma wide_entry_start:
  assumes "frame_section ci" "map_of (cs_cache s) (int p) = None"
    "drop p (sdata (cs_stream s)) = length_bytes (ci_base ci) True len @ rest"
    "0 \<le> len" "len < 2 ^ 64 - 1" "p + 4 < 2 ^ 63"
  shows "\<exists>k. parse_entry_at (Suc d) ci (int p) s =
    parse_fde (parse_entry_at d ci) ci (wide_structs ci) (int p) (s\<lparr>cs_stream := (cs_stream s)\<lparr>spos := k\<rparr>\<rparr>)"
proof -
  let ?t = "(cs_stream s)\<lparr>spos := p + 4\<rparr>"
  have d: "drop p (sdata (cs_stream s)) = num_bytes (ci_base ci) 4 0xFFFFFFFF @ (num_bytes (ci_base ci) 8 len @ rest)"
    using assms(3) by (simp add: length_bytes_def)
  have "reads_as (the_Dwarf_uint32 (ci_base ci)) (num_bytes (ci_base ci) 4 0xFFFFFFFF) (VInt 0xFFFFFFFF)"
    unfolding the_dwarf_defs by (rule read_unsigned) simp_all
  from parse_int_at [OF this, of "int p" "cs_stream s"] d assms(6)
  have escape: "on_sec (parse_int (the_Dwarf_uint32 (ci_base ci)) (Some (int p))) s = (Ok 0xFFFFFFFF, s\<lparr>cs_stream := ?t\<rparr>)"
    by (intro on_sec_Ok) simp
  have "reads_as (the_Dwarf_offset (wide_structs ci)) (num_bytes (ci_base ci) 8 len) (VInt len)"
    using read_offset [of len "wide_structs ci" "''''"] assms(4,5) by (simp add: the_dwarf_defs)
  moreover have "tail_bytes ?t = num_bytes (ci_base ci) 8 len @ rest"
    using drop_next [OF d] by (simp add: tail_bytes_def)
  ultimately have "parse_int (the_Dwarf_offset (wide_structs ci)) None ?t = (Ok len, (cs_stream s)\<lparr>spos := p + 12\<rparr>)"
    using reads_as_parse_int by (fastforce simp: adv_def)
  then have i: "on_sec (parse_int (the_Dwarf_offset (wide_structs ci)) None) (s\<lparr>cs_stream := ?t\<rparr>) =
      (Ok len, s\<lparr>cs_stream := (cs_stream s)\<lparr>spos := p + 12\<rparr>\<rparr>)"
    by (subst on_sec_Ok) simp_all
  have new: "DWARFStructs_new (dw_little_endian (ci_base ci)) 64 (address_size (ci_base ci)) 2 = Ok (wide_structs ci)"
    using assms(1) by (auto simp: frame_section_def DWARFStructs_new_def wide_structs_def entry_structs_def)
  have "parse_entry_at (Suc d) ci (int p) s =
      parse_fde (parse_entry_at d ci) ci (wide_structs ci) (int p) (s\<lparr>cs_stream := (cs_stream s)\<lparr>spos := p + 12\<rparr>\<rparr>)"
    using assms(1,2,5) new
    by (simp add: mbind_Ok [where m = "on_sec (parse_int _ (Some _))", OF escape] mbind_Ok [where m = "on_sec (parse_int _ None)", OF i]
        frame_section_def is_CIE_id_def)
  then show ?thesis ..
qed

text \<open>C34: a 64-bit entry that is a common information entry is never read as one.  Which kind of entry it is is
  decided from the eight bytes right after the four of the escape, which hold its length, not its id; so it is taken
  for a frame description, its id for the position of another entry, and the attempt to go there raises
  \<^verbatim>\<open>OverflowError\<close>.\<close>

theorem wide_cie_fails:
  assumes "frame_section ci" "map_of (cs_cache s) (int p) = None" "map_of (cs_cache s) (2 ^ 64 - 1) = None"
    "drop p (sdata (cs_stream s)) = length_bytes (ci_base ci) True len @ num_bytes (ci_base ci) 8 (2 ^ 64 - 1) @ rest"
    "0 \<le> len" "len < 2 ^ 64 - 1" "2 * addr_size (ci_base ci) \<le> length rest" "p + 4 < 2 ^ 63"
  shows "fst (parse_entry_at (Suc (Suc d)) ci (int p) s) = Err OverflowError"
proof -
  let ?ds = "wide_structs ci"
  let ?n = "addr_size (ci_base ci)"
  obtain loc where loc: "take ?n rest = num_bytes (ci_base ci) ?n loc" "0 \<le> loc" "loc < 256 ^ ?n"
    using as_number [of "take ?n rest" "ci_base ci"] assms(7) by auto
  obtain rng where rng: "take ?n (drop ?n rest) = num_bytes (ci_base ci) ?n rng" "0 \<le> rng" "rng < 256 ^ ?n"
    using as_number [of "take ?n (drop ?n rest)" "ci_base ci"] assms(7) by auto
  let ?f = "\<lparr>fq_location = loc, fq_range = rng\<rparr>"
  let ?h = "fde_header_for len (2 ^ 64 - 1) ?f"
  have "rest = num_bytes (ci_base ci) ?n loc @ num_bytes (ci_base ci) ?n rng @ drop ?n (drop ?n rest)"
    unfolding loc(1) [symmetric] rng(1) [symmetric] by (simp del: drop_drop)
  with assms(4) have d: "drop p (sdata (cs_stream s)) = (length_bytes ?ds True len @ num_bytes ?ds (offset_size ?ds) (2 ^ 64 - 1) @
      num_bytes ?ds (addr_size ?ds) loc @ num_bytes ?ds (addr_size ?ds) rng) @ drop ?n (drop ?n rest)"
    by simp
  obtain k where start: "parse_entry_at (Suc (Suc d)) ci (int p) s =
      parse_fde (parse_entry_at (Suc d) ci) ci ?ds (int p) (s\<lparr>cs_stream := (cs_stream s)\<lparr>spos := k\<rparr>\<rparr>)"
    using wide_entry_start [OF assms(1,2,4-6,8)] by blast
  have "length_ok True len" using assms(5,6) by (simp add: length_ok_def)
  from reads_with_parse_at [OF read_fde_header [OF this, of "2 ^ 64 - 1" ?ds ?f], of "int p" "(cs_stream s)\<lparr>spos := k\<rparr>"] d loc rng assms(8)
  obtain m where h: "parse_fde_header (parse_entry_at (Suc d) ci) ci ?ds (int p) (s\<lparr>cs_stream := (cs_stream s)\<lparr>spos := k\<rparr>\<rparr>) =
      (Ok ?h, s\<lparr>cs_stream := (cs_stream s)\<lparr>spos := m\<rparr>\<rparr>)"
    using assms(1) by (simp add: parse_fde_header_def frame_section_def on_sec_run)
  have "parse_int (the_Dwarf_uint32 (ci_base ci)) (Some (2 ^ 64 - 1)) t = (Err OverflowError, t)" for t
    by (simp add: parse_int_seek mbind_def s_seek_def)
  then have far: "fst (parse_entry_at (Suc d) ci (2 ^ 64 - 1) t) = Err OverflowError" if "map_of (cs_cache t) (2 ^ 64 - 1) = None" for t
    using that by (simp add: mbind_def on_sec_run)
  then have "fst (parse_cie_for_fde (parse_entry_at (Suc d) ci) ci (int p) ?h ?ds (s\<lparr>cs_stream := (cs_stream s)\<lparr>spos := m\<rparr>\<rparr>)) = Err OverflowError"
    using assms(1,3) far [of "s\<lparr>cs_stream := (cs_stream s)\<lparr>spos := m\<rparr>\<rparr>"]
    by (simp add: parse_cie_for_fde_def cie_offset_of_def frame_section_def keep_pos_fails del: parse_entry_at.simps)
  then show ?thesis
    unfolding start parse_fde_def mbind_Ok [where m = "parse_fde_header _ _ _ _", OF h]
    by (rule mbind_fails)
qed

theorem wide_cie_fails_witness:
  "fst (parse_entry_at (Suc (Suc 0)) sample_cfi 0 \<lparr>cs_stream = bytesio (length_bytes (ci_base sample_cfi) True 24 @
     num_bytes (ci_base sample_cfi) 8 (2 ^ 64 - 1) @ [4, 0, 8, 0, 1, 0x78, 16, 0x0c, 7, 8, 0x90, 1, 0, 0, 0, 0]),
     cs_cache = [], cs_entries = None\<rparr>) = Err OverflowError"
  using wide_cie_fails [where p = 0 and d = 0 and len = 24, OF sample_ok(4), of "\<lparr>cs_stream = bytesio (length_bytes (ci_base sample_cfi) True 24 @
     num_bytes (ci_base sample_cfi) 8 (2 ^ 64 - 1) @ [4, 0, 8, 0, 1, 0x78, 16, 0x0c, 7, 8, 0x90, 1, 0, 0, 0, 0]), cs_cache = [], cs_entries = None\<rparr>"]
  by (simp add: bytesio_def addr_size_def sample_cfi_def del: parse_entry_at.simps)

end
