(* ===== verification/PyNumerals.thy ===== *)
theory PyNumerals
  imports CommonUtils
begin

text \<open>Numbers as text: \<^verbatim>\<open>'%d' % n\<close> (also \<^verbatim>\<open>str(n)\<close>) and \<^verbatim>\<open>'%x' % n\<close>.\<close>

function base_digits :: "nat \<Rightarrow> nat \<Rightarrow> pystr" where
  "base_digits b n = (if n < b \<or> b < 2 then [hex_digit (int n)]
     else base_digits b (n div b) @ [hex_digit (int (n mod b))])"
  by pat_completeness auto
termination
  by (relation "measure snd") auto

declare base_digits.simps [simp del]

definition number_text :: "nat \<Rightarrow> int \<Rightarrow> pystr" where
  "number_text b n = (if n < 0 then lit ''-'' else []) @ base_digits b (nat \<bar>n\<bar>)"

abbreviation py_str :: "int \<Rightarrow> pystr" where "py_str \<equiv> number_text 10"
abbreviation hex_text :: "int \<Rightarrow> pystr" where "hex_text \<equiv> number_text 16"

end
