(* ===== verification/Ehabi.thy ===== *)
theory Ehabi
  imports ElfSections PyNumerals
begin

text \<open>
  \<^verbatim>\<open>elftools/ehabi\<close>: the ARM exception tables.  \<^verbatim>\<open>structs.py\<close> and \<^verbatim>\<open>ehabiinfo.py\<close> find the entry of a
  function and the bytes of its unwinding program; \<^verbatim>\<open>decoder.py\<close> turns these into mnemonics.
\<close>

section \<open>Structures (structs.py)\<close>

definition EHABI_uint32 :: "bool \<Rightarrow> string \<Rightarrow> con" where
  "EHABI_uint32 le = (if le then ULInt32 else UBInt32)"

definition EH_index_struct :: "bool \<Rightarrow> con" where
  "EH_index_struct le = Struct ''EH_index'' [EHABI_uint32 le ''word0'', EHABI_uint32 le ''word1'']"

definition EH_table_struct :: "bool \<Rightarrow> con" where
  "EH_table_struct le = Struct ''EH_table'' [EHABI_uint32 le ''word0'']"

definition EHABI_INDEX_ENTRY_SIZE :: int where "EHABI_INDEX_ENTRY_SIZE = 8"

section \<open>Entries (ehabiinfo.py)\<close>

text \<open>The subclasses of \<open>EHABIEntry\<close> differ in what they leave out; so do the constructors.\<close>

datatype ehabi_entry =
    EHABIEntry (eh_function: int) (eh_personality: int) (eh_bytecode: "int list") (eh_table: "int option")
  | CorruptEHABIEntry pystr
  | CannotUnwindEHABIEntry (eh_function: int)
  | GenericEHABIEntry (eh_function: int) (eh_personality: int)

definition arm_expand_prel31 :: "int \<Rightarrow> int \<Rightarrow> int" where
  "arm_expand_prel31 address place =
     (let location = address AND 0x7fffffff;
          location = (if location AND 0x04000000 \<noteq> 0 then location OR 0xffffffff80000000 else location) in
      (location + place) AND 0xffffffffffffffff)"

text \<open>The section, as far as it is used: where it is in the file and how long; its stream is the file's.\<close>

record ehabi_info =
  ei_offset :: int
  ei_size :: int
  ei_little_endian :: bool

definition num_entry :: "ehabi_info \<Rightarrow> int" where
  "num_entry ei = ei_size ei div EHABI_INDEX_ENTRY_SIZE"

definition get_word :: "con \<Rightarrow> int option \<Rightarrow> (stream, int) M" where
  "get_word c p = mbind (struct_parse c p) (\<lambda>v. lift_res (get_int v ''word0''))"

text \<open>\<^verbatim>\<open>for i in range(more_word): ...\<close>: four opcodes a word.\<close>

primrec more_words :: "nat \<Rightarrow> bool \<Rightarrow> (stream, int list) M" where
  "more_words 0 le = ret []"
| "more_words (Suc n) le = mbind (get_word (EH_table_struct le) None) (\<lambda>r.
     mbind (more_words n le) (\<lambda>rest.
       ret ([drop_bit 24 r AND 0xFF, drop_bit 16 r AND 0xFF, drop_bit 8 r AND 0xFF, drop_bit 0 r AND 0xFF] @ rest)))"

definition three_opcodes :: "int \<Rightarrow> int list" where
  "three_opcodes w = [drop_bit 16 (w AND 0xFF0000), drop_bit 8 (w AND 0xFF00), w AND 0xFF]"

definition table_entry :: "ehabi_info \<Rightarrow> int \<Rightarrow> int \<Rightarrow> int \<Rightarrow> (stream, ehabi_entry) M" where
  "table_entry ei n function_offset eh_table_offset =
     mbind (get_word (EH_table_struct (ei_little_endian ei)) (Some eh_table_offset)) (\<lambda>word0.
       if word0 AND 0x80000000 = 0 then
         ret (GenericEHABIEntry function_offset (arm_expand_prel31 word0 eh_table_offset))
       else if word0 AND 0x70000000 \<noteq> 0 then
         ret (CorruptEHABIEntry (lit ''Corrupt ARM compact model table entry: '' @ hex_text n))
       else
         let per_index = drop_bit 24 word0 AND 0x7f in
         if per_index = 0 then ret (EHABIEntry function_offset per_index (three_opcodes word0) None)
         else if per_index = 1 \<or> per_index = 2 then
           let more_word = drop_bit 16 word0 AND 0xff;
               opcode = [drop_bit 8 word0 AND 0xff, drop_bit 0 word0 AND 0xff] in
           mbind (s_seek (eh_table_offset + 4)) (\<lambda>_.
           mbind (more_words (nat more_word) (ei_little_endian ei)) (\<lambda>more.
             ret (EHABIEntry function_offset per_index (opcode @ more) (Some eh_table_offset))))
         else ret (CorruptEHABIEntry (lit ''Unknown ARM compact model '' @ py_str per_index @ lit '' at table entry: '' @ hex_text n)))"

definition get_entry :: "ehabi_info \<Rightarrow> int \<Rightarrow> (stream, ehabi_entry) M" where
  "get_entry ei n =
     (if n \<ge> num_entry ei then raise IndexError
      else
        let at = ei_offset ei + n * EHABI_INDEX_ENTRY_SIZE in
        mbind (struct_parse (EH_index_struct (ei_little_endian ei)) (Some at)) (\<lambda>d.
        mbind (lift_res (get_int d ''word0'')) (\<lambda>word0.
        mbind (lift_res (get_int d ''word1'')) (\<lambda>word1.
          if word0 AND 0x80000000 \<noteq> 0 then
            ret (CorruptEHABIEntry (lit ''Corrupt ARM exception handler table entry: '' @ hex_text n))
          else
            let function_offset = arm_expand_prel31 word0 at in
            if word1 = 1 then ret (CannotUnwindEHABIEntry function_offset)
            else if word1 AND 0x80000000 = 0 then
              table_entry ei n function_offset (arm_expand_prel31 word1 (at + 4))
            else if word1 AND 0x7f000000 \<noteq> 0 then
              ret (CorruptEHABIEntry (lit ''Corrupt ARM compact model table entry: '' @ hex_text n))
            else ret (EHABIEntry function_offset 0 (three_opcodes word1) None)))))"

section \<open>Mnemonics (decoder.py)\<close>

record mnemonic_item =
  mi_bytecode :: "int list"
  mi_mnemonic :: pystr

text \<open>A handler: from the bytes and the index to the new index and the text.\<close>

type_synonym handler = "int list \<Rightarrow> nat \<Rightarrow> (nat \<times> pystr) res"

definition byte_at :: "int list \<Rightarrow> nat \<Rightarrow> int res" where
  "byte_at bs i = py_index bs (int i)"

definition gpr_register_names :: "pystr list" where
  "gpr_register_names = map lit [''r0'', ''r1'', ''r2'', ''r3'', ''r4'', ''r5'', ''r6'', ''r7'', ''r8'', ''r9'',
     ''r10'', ''fp'', ''ip'', ''sp'', ''lr'', ''pc'']"

definition calculate_range :: "int \<Rightarrow> int \<Rightarrow> int" where
  "calculate_range start count = push_bit (nat start) (push_bit (nat (count + 1)) 1 - 1)"

definition braces :: "pystr list \<Rightarrow> pystr" where
  "braces hits = lit ''{'' @ (case hits of [] \<Rightarrow> [] | h # hs \<Rightarrow> h @ concat (map (\<lambda>x. lit '', '' @ x) hs)) @ lit ''}''"

definition bits_of :: "int \<Rightarrow> nat list" where
  "bits_of msk = filter (\<lambda>i. msk AND push_bit i 1 \<noteq> 0) [0..<32]"

definition printGPR :: "int \<Rightarrow> pystr res" where
  "printGPR msk = rbind (rmap (\<lambda>i. py_index gpr_register_names (int i)) (bits_of msk)) (\<lambda>hits. Ok (braces hits))"

definition print_registers :: "int \<Rightarrow> string \<Rightarrow> pystr" where
  "print_registers msk prefix = braces (map (\<lambda>i. lit prefix @ py_str (int i)) (bits_of msk))"

definition with_opcode :: "(int \<Rightarrow> pystr res) \<Rightarrow> handler" where
  "with_opcode f bs i = rbind (byte_at bs i) (\<lambda>op. rbind (f op) (\<lambda>t. Ok (i + 1, t)))"

definition with_second :: "(int \<Rightarrow> pystr res) \<Rightarrow> handler" where
  "with_second f bs i = rbind (byte_at bs (i + 1)) (\<lambda>op. rbind (f op) (\<lambda>t. Ok (i + 2, t)))"

definition constant_text :: "string \<Rightarrow> handler" where
  "constant_text t bs i = Ok (i + 1, lit t)"

definition pop_text :: "pystr \<Rightarrow> pystr" where
  "pop_text t = lit ''pop '' @ t"

definition decode_00xxxxxx :: handler where
  "decode_00xxxxxx = with_opcode (\<lambda>op. Ok (lit ''vsp = vsp + '' @ py_str (push_bit 2 (op AND 0x3f) + 4)))"

definition decode_01xxxxxx :: handler where
  "decode_01xxxxxx = with_opcode (\<lambda>op. Ok (lit ''vsp = vsp - '' @ py_str (push_bit 2 (op AND 0x3f) + 4)))"

definition decode_1000iiii_iiiiiiii :: handler where
  "decode_1000iiii_iiiiiiii bs i =
     rbind (byte_at bs i) (\<lambda>op0. rbind (byte_at bs (i + 1)) (\<lambda>op1.
       let gpr_mask = push_bit 4 op1 OR push_bit 12 (op0 AND 0x0f) in
       if gpr_mask = 0 then Ok (i + 2, lit ''refuse to unwind'')
       else rbind (printGPR gpr_mask) (\<lambda>t. Ok (i + 2, pop_text t))))"

definition decode_10011101 :: handler where
  "decode_10011101 = constant_text ''reserved (ARM MOVrr)''"

definition decode_10011111 :: handler where
  "decode_10011111 = constant_text ''reserved (WiMMX MOVrr)''"

definition decode_1001nnnn :: handler where
  "decode_1001nnnn = with_opcode (\<lambda>op. Ok (lit ''vsp = r'' @ py_str (op AND 0x0f)))"

definition decode_10100nnn :: handler where
  "decode_10100nnn = with_opcode (\<lambda>op. rbind (printGPR (calculate_range 4 (op AND 0x07))) (\<lambda>t. Ok (pop_text t)))"

definition decode_10101nnn :: handler where
  "decode_10101nnn = with_opcode (\<lambda>op.
     rbind (printGPR (calculate_range 4 (op AND 0x07) OR push_bit 14 1)) (\<lambda>t. Ok (pop_text t)))"

definition decode_10110000 :: handler where
  "decode_10110000 = constant_text ''finish''"

definition decode_10110001_0000iiii :: handler where
  "decode_10110001_0000iiii = with_second (\<lambda>op1.
     if op1 AND 0xf0 \<noteq> 0 \<or> op1 = 0 then Ok (lit ''spare'')
     else rbind (printGPR (op1 AND 0x0f)) (\<lambda>t. Ok (pop_text t)))"

text \<open>The bytes from the index on that have the highest bit clear; at the end of the array there is none to test.\<close>

fun uleb_rest :: "int list \<Rightarrow> int list res" where
  "uleb_rest [] = Err IndexError"
| "uleb_rest (b # bs) = (if b AND 0x80 = 0 then rbind (uleb_rest bs) (\<lambda>r. Ok (b # r)) else Ok [])"

definition decode_10110010_uleb128 :: handler where
  "decode_10110010_uleb128 bs i =
     rbind (byte_at bs (i + 1)) (\<lambda>b0. rbind (uleb_rest (drop (i + 2) bs)) (\<lambda>rest.
       let value = foldl (\<lambda>v b. push_bit 7 v + (b AND 0x7F)) 0 (rev (b0 # rest)) in
       Ok (i + 2 + length rest, lit ''vsp = vsp + '' @ py_str (0x204 + push_bit 2 value))))"

definition pop_range :: "int \<Rightarrow> string \<Rightarrow> handler" where
  "pop_range base prefix = with_second (\<lambda>op1.
     let start = base + drop_bit 4 (op1 AND 0xf0); count = drop_bit 0 (op1 AND 0x0f) in
     Ok (pop_text (print_registers (calculate_range start count) prefix)))"

definition decode_11001001_sssscccc :: handler where
  "decode_11001001_sssscccc = pop_range 0 ''d''"

definition decode_10110011_sssscccc :: handler where
  "decode_10110011_sssscccc = decode_11001001_sssscccc"

definition spare :: handler where
  "spare = constant_text ''spare''"

definition decode_101101nn :: handler where "decode_101101nn = spare"

definition decode_10111nnn :: handler where
  "decode_10111nnn = with_opcode (\<lambda>op. Ok (pop_text (print_registers (calculate_range 8 (op AND 0x07)) ''d'')))"

definition decode_11000110_sssscccc :: handler where
  "decode_11000110_sssscccc = pop_range 0 ''wR''"

definition decode_11000111_0000iiii :: handler where
  "decode_11000111_0000iiii = with_second (\<lambda>op1.
     if op1 AND 0xf0 \<noteq> 0 \<or> op1 = 0 then Ok (lit ''spare'')
     else Ok (pop_text (print_registers (op1 AND 0x0f) ''wCGR'')))"

definition decode_11001000_sssscccc :: handler where
  "decode_11001000_sssscccc = pop_range 16 ''d''"

definition decode_11001yyy :: handler where "decode_11001yyy = spare"

definition decode_11000nnn :: handler where
  "decode_11000nnn = with_opcode (\<lambda>op. Ok (pop_text (print_registers (calculate_range 10 (op AND 0x07)) ''wR'')))"

definition decode_11010nnn :: handler where "decode_11010nnn = decode_10111nnn"

definition decode_11xxxyyy :: handler where "decode_11xxxyyy = spare"

definition ring :: "(int \<times> int \<times> handler) list" where
  "ring =
     [(0xc0, 0x00, decode_00xxxxxx), (0xc0, 0x40, decode_01xxxxxx), (0xf0, 0x80, decode_1000iiii_iiiiiiii),
      (0xff, 0x9d, decode_10011101), (0xff, 0x9f, decode_10011111), (0xf0, 0x90, decode_1001nnnn),
      (0xf8, 0xa0, decode_10100nnn), (0xf8, 0xa8, decode_10101nnn), (0xff, 0xb0, decode_10110000),
      (0xff, 0xb1, decode_10110001_0000iiii), (0xff, 0xb2, decode_10110010_uleb128),
      (0xff, 0xb3, decode_10110011_sssscccc), (0xfc, 0xb4, decode_101101nn), (0xf8, 0xb8, decode_10111nnn),
      (0xff, 0xc6, decode_11000110_sssscccc), (0xff, 0xc7, decode_11000111_0000iiii),
      (0xff, 0xc8, decode_11001000_sssscccc), (0xff, 0xc9, decode_11001001_sssscccc),
      (0xc8, 0xc8, decode_11001yyy), (0xf8, 0xc0, decode_11000nnn), (0xf8, 0xd0, decode_11010nnn),
      (0xc0, 0xc0, decode_11xxxyyy)]"

text \<open>The first handler of the ring that takes the byte; without one the loop would not go on.\<close>

definition handler_for :: "int \<Rightarrow> handler option" where
  "handler_for b = map_option (\<lambda>(m, v, h). h) (find (\<lambda>(m, v, h). b AND m = v) ring)"

primrec decode_loop :: "nat \<Rightarrow> int list \<Rightarrow> nat \<Rightarrow> mnemonic_item list res" where
  "decode_loop 0 bs i = NoFuel"
| "decode_loop (Suc fuel) bs i =
     (if i < length bs then
        (case handler_for (bs ! i) of
           None \<Rightarrow> decode_loop fuel bs i
         | Some h \<Rightarrow> rbind (h bs i) (\<lambda>(j, t). rbind (decode_loop fuel bs j) (\<lambda>ms.
             Ok (\<lparr>mi_bytecode = drop i (take j bs), mi_mnemonic = t\<rparr> # ms))))
      else Ok [])"

definition decode_bytecode :: "int list \<Rightarrow> mnemonic_item list res" where
  "decode_bytecode bs = decode_loop (length bs + 1) bs 0"

definition mnmemonic_array :: "ehabi_entry \<Rightarrow> mnemonic_item list option res" where
  "mnmemonic_array e = (case e of
       EHABIEntry _ _ bs _ \<Rightarrow> if bs = [] then Ok None else rbind (decode_bytecode bs) (\<lambda>ms. Ok (Some ms))
     | _ \<Rightarrow> Ok None)"

end
