(* ===== verification/EhabiProperties.thy ===== *)
theory EhabiProperties
  imports Ehabi Leb128
begin

text \<open>
  Properties of the decoder of ARM unwinding programs and of the relative addresses of its tables.
\<close>

section \<open>Every byte has a handler\<close>

lemma and_low_byte: "0 \<le> m \<Longrightarrow> m < 256 \<Longrightarrow> b AND m = (b mod 256) AND m" for b m :: int
proof -
  assume "0 \<le> m" "m < 256"
  then have "m = take_bit 8 m" by (simp add: take_bit_int_eq_self)
  then have "b AND m = take_bit 8 b AND m"
    by (metis and.assoc and.commute take_bit_eq_mask)
  then show ?thesis by (simp add: take_bit_eq_mod)
qed

lemma handler_for_mod: "handler_for b = handler_for (b mod 256)"
proof -
  have "list_all (\<lambda>(m, v, h). 0 \<le> m \<and> m < 256) ring" by (simp add: ring_def)
  then have "find (\<lambda>(m, v, h). b AND m = v) xs = find (\<lambda>(m, v, h). b mod 256 AND m = v) xs" if "set xs \<subseteq> set ring" for xs
    using that
  proof (induction xs)
    case (Cons x xs)
    obtain m v h where x: "x = (m, v, h)" by (cases x)
    then have "0 \<le> m" "m < 256" using Cons.prems by (auto simp: list_all_iff)
    with Cons x show ?case using and_low_byte [of m b] by auto
  qed simp
  then show ?thesis by (simp add: handler_for_def)
qed

lemma handler_for_byte: "list_all (\<lambda>x. \<not> Option.is_none (handler_for (int x))) [0..<256]"
  by code_simp

lemma handler_for_some: "handler_for b \<noteq> None"
proof -
  have "nat (b mod 256) \<in> set [0..<256]" by (simp add: nat_less_iff)
  then have "\<not> Option.is_none (handler_for (int (nat (b mod 256))))"
    using handler_for_byte unfolding list_all_iff by blast
  then show ?thesis by (simp add: handler_for_mod [of b] Option.is_none_def)
qed

section \<open>What a handler does\<close>

text \<open>It goes on by at least a byte and not past the end, or it runs out of bytes.\<close>

definition good_handler :: "handler \<Rightarrow> bool" where
  "good_handler h \<longleftrightarrow> (\<forall>bs i. i < length bs \<longrightarrow> (case h bs i of
     Ok (j, t) \<Rightarrow> i < j \<and> j \<le> length bs | Err e \<Rightarrow> e = IndexError | NoFuel \<Rightarrow> False))"

definition text_or_index :: "'a res \<Rightarrow> bool" where
  "text_or_index r \<longleftrightarrow> (case r of Ok _ \<Rightarrow> True | Err e \<Rightarrow> e = IndexError | NoFuel \<Rightarrow> False)"

lemma text_or_index_simps [simp]:
  "text_or_index (Ok a)" "text_or_index (Err e) \<longleftrightarrow> e = IndexError" "\<not> text_or_index NoFuel"
  by (simp_all add: text_or_index_def)

lemma text_or_index_bind: "text_or_index r \<Longrightarrow> (\<And>a. text_or_index (f a)) \<Longrightarrow> text_or_index (rbind r f)"
  by (cases r) auto

lemma py_index_kind: "text_or_index (py_index xs i)"
  by (simp add: py_index_def Let_def)

lemma rmap_kind: "(\<And>x. text_or_index (f x)) \<Longrightarrow> text_or_index (rmap f xs)"
  by (induction xs) (auto intro!: text_or_index_bind)

lemma printGPR_kind: "text_or_index (printGPR m)"
  by (auto simp: printGPR_def intro!: text_or_index_bind rmap_kind py_index_kind)

lemma byte_at_next: "byte_at bs i = (if i < length bs then Ok (bs ! i) else Err IndexError)"
  by (simp add: byte_at_def py_index_def)

lemma good_constant: "good_handler (constant_text t)"
  by (auto simp: good_handler_def constant_text_def)

lemma good_opcode: "(\<And>op. text_or_index (f op)) \<Longrightarrow> good_handler (with_opcode f)"
  by (auto simp: good_handler_def with_opcode_def byte_at_next text_or_index_def rbind_def split: res.splits)
    (metis res.simps)+

lemma good_second: "(\<And>op. text_or_index (f op)) \<Longrightarrow> good_handler (with_second f)"
  by (auto simp: good_handler_def with_second_def byte_at_next text_or_index_def rbind_def split: res.splits)
    (metis res.simps)+

lemma uleb_rest_cases:
  "case uleb_rest bs of Ok r \<Rightarrow> length r < length bs | Err e \<Rightarrow> e = IndexError | NoFuel \<Rightarrow> False"
  by (induction bs) (auto simp: rbind_def split: res.splits)

lemma good_uleb: "good_handler decode_10110010_uleb128"
  unfolding good_handler_def decode_10110010_uleb128_def
proof (intro allI impI)
  fix bs :: "int list" and i assume "i < length bs"
  then show "case rbind (byte_at bs (i + 1)) (\<lambda>b0. rbind (uleb_rest (drop (i + 2) bs)) (\<lambda>rest.
       let value = foldl (\<lambda>v b. push_bit 7 v + (b AND 0x7F)) 0 (rev (b0 # rest)) in
       Ok (i + 2 + length rest, lit ''vsp = vsp + '' @ py_str (0x204 + push_bit 2 value)))) of
     Ok (j, t) \<Rightarrow> i < j \<and> j \<le> length bs | Err e \<Rightarrow> e = IndexError | NoFuel \<Rightarrow> False"
    using uleb_rest_cases [of "drop (i + 2) bs"]
    by (cases "uleb_rest (drop (i + 2) bs)") (auto simp: byte_at_next)
qed

lemma good_pop: "good_handler decode_1000iiii_iiiiiiii"
  unfolding good_handler_def
proof (intro allI impI)
  fix bs :: "int list" and i assume i: "i < length bs"
  let ?m = "push_bit 4 (bs ! (i + 1)) OR push_bit 12 (bs ! i AND 0x0f)"
  show "case decode_1000iiii_iiiiiiii bs i of
     Ok (j, t) \<Rightarrow> i < j \<and> j \<le> length bs | Err e \<Rightarrow> e = IndexError | NoFuel \<Rightarrow> False"
    using i printGPR_kind [of ?m]
    by (cases "printGPR ?m") (simp_all add: decode_1000iiii_iiiiiiii_def byte_at_next Let_def)
qed

lemma ring_good: "list_all (\<lambda>(m, v, h). good_handler h) ring"
  unfolding ring_def list.pred_inject prod.case
  by (intro conjI good_pop good_uleb TrueI)
    (auto simp: decode_00xxxxxx_def decode_01xxxxxx_def decode_10011101_def decode_10011111_def decode_1001nnnn_def
      decode_10100nnn_def decode_10101nnn_def decode_10110000_def decode_10110001_0000iiii_def
      decode_10110011_sssscccc_def decode_11001001_sssscccc_def decode_101101nn_def spare_def decode_10111nnn_def
      decode_11000110_sssscccc_def decode_11000111_0000iiii_def decode_11001000_sssscccc_def decode_11001yyy_def
      decode_11000nnn_def decode_11010nnn_def decode_11xxxyyy_def pop_range_def
      intro!: good_constant good_opcode good_second text_or_index_bind printGPR_kind)

lemma handler_good: "handler_for b = Some h \<Longrightarrow> good_handler h"
  using ring_good by (auto simp: handler_for_def list_all_iff find_Some_iff dest!: nth_mem)

lemma good_handlerD: "good_handler h \<Longrightarrow> i < length bs \<Longrightarrow> (case h bs i of
     Ok (j, t) \<Rightarrow> i < j \<and> j \<le> length bs | Err e \<Rightarrow> e = IndexError | NoFuel \<Rightarrow> False)"
  unfolding good_handler_def by blast

section \<open>The decoder\<close>

lemma decode_loop_partitions:
  "length bs < i + fuel \<Longrightarrow> i \<le> length bs \<Longrightarrow>
   (case decode_loop fuel bs i of
      Ok ms \<Rightarrow> concat (map mi_bytecode ms) = drop i bs \<and> (\<forall>m \<in> set ms. mi_bytecode m \<noteq> [])
    | Err e \<Rightarrow> e = IndexError | NoFuel \<Rightarrow> False)"
proof (induction fuel arbitrary: i)
  case (Suc fuel)
  show ?case
  proof (cases "i < length bs")
    case True
    obtain h where h: "handler_for (bs ! i) = Some h"
      using handler_for_some [of "bs ! i"] by blast
    show ?thesis
    proof (cases "h bs i")
      case (Ok p)
      obtain j t where p: "p = (j, t)" by fastforce
      from good_handlerD [OF handler_good [OF h] True] Ok p have j: "i < j" "j \<le> length bs"
        by simp_all
      then have split: "drop i bs = drop i (take j bs) @ drop j bs"
        by (metis append_take_drop_id drop_take le_add_diff_inverse less_or_eq_imp_le drop_drop add.commute)
      have "drop i (take j bs) \<noteq> []" using j by simp
      with Suc.IH [of j] j Suc.prems split show ?thesis
        by (cases "decode_loop fuel bs j") (auto simp: True h Ok p)
    next
      case (Err e)
      with good_handlerD [OF handler_good [OF h] True] show ?thesis
        by (simp add: True h)
    next
      case NoFuel
      with good_handlerD [OF handler_good [OF h] True] show ?thesis
        by (simp add: True h)
    qed
  qed (use Suc.prems in simp)
qed simp

text \<open>C27: decoding an unwinding program ends for every array of numbers, and loses nothing.  The mnemonics,
  each of at least a byte, together have exactly the bytes of the array in their order; the only other outcome
  is an \<open>IndexError\<close> for an instruction that the end of the array cuts off.  (The loop goes on only when a
  handler of the ring takes the byte: every byte has one.)\<close>

theorem bytecode_partitioned:
  "(\<exists>ms. decode_bytecode bs = Ok ms \<and> concat (map mi_bytecode ms) = bs \<and> [] \<notin> set (map mi_bytecode ms)) \<or>
   decode_bytecode bs = Err IndexError"
  using decode_loop_partitions [of bs 0 "length bs + 1"]
  by (fastforce simp: decode_bytecode_def simp del: decode_loop.simps split: res.splits)


section \<open>The variable-length stack adjustment\<close>

lemma high_bit: "0 \<le> b \<Longrightarrow> b < 128 \<Longrightarrow> b AND 0x80 = 0" for b :: int
  using and_exp_eq_0_iff_not_bit [of b 7] by (simp add: bit_iff_odd)

lemma low_seven: "0 \<le> b \<Longrightarrow> b < 128 \<Longrightarrow> b AND 0x7F = b" for b :: int
  by (simp add: take_bit_int_eq_self flip: take_bit_eq_mask [of 7 b, unfolded mask_eq_exp_minus_1, simplified])

lemma handler_b2: "handler_for 0xb2 = Some decode_10110010_uleb128"
  "handler_for 0xb0 = Some decode_10110000"
  by (simp_all add: handler_for_def ring_def)

text \<open>The number that the bytes of a ULEB128 operand stand for.\<close>

definition uleb_value :: "int list \<Rightarrow> int" where
  "uleb_value xs = foldr (\<lambda>b v. b mod 128 + 128 * v) xs 0"

lemma high_bit_iff: "0 \<le> b \<Longrightarrow> b < 256 \<Longrightarrow> b AND 0x80 = 0 \<longleftrightarrow> b < 128" for b :: int
proof -
  assume b: "0 \<le> b" "b < 256"
  have "b AND 0x80 = 0 \<longleftrightarrow> \<not> odd (b div 128)"
    using and_exp_eq_0_iff_not_bit [of b 7] by (simp add: bit_iff_odd)
  moreover have "b div 128 = (if b < 128 then 0 else 1)"
    using b by auto
  ultimately show ?thesis by (simp split: if_splits)
qed

lemma seven_bits: "b AND 0x7F = b mod 128" for b :: int
  using take_bit_eq_mask [of 7 b] by (simp add: take_bit_eq_mod mask_eq_exp_minus_1)

lemma uleb_foldl: "foldl (\<lambda>v b. push_bit 7 v + (b AND 0x7F)) 0 (rev xs) = uleb_value xs"
  by (simp add: uleb_value_def foldl_conv_foldr push_bit_eq_mult seven_bits algebra_simps)

lemma uleb_rest_bytes:
  assumes "\<forall>b \<in> set bs. 0 \<le> b \<and> b < 256"
  shows "uleb_rest bs = (if dropWhile (\<lambda>b. b < 128) bs = [] then Err IndexError else Ok (takeWhile (\<lambda>b. b < 128) bs))"
  using assms by (induction bs) (auto simp: high_bit_iff)

text \<open>C28: the adjustment of the stack pointer (0xb2 and a ULEB128 number, here bytes \<open>hs\<close> with the continuation bit and
  a last one \<open>l\<close> without) is read with the test of that bit the wrong way round.  The handler reads exactly the operand, and
  so shows the adjustment it stands for, if and only if the operand has at most two bytes and an instruction from 0x80 on
  follows.  Otherwise the end of the program is an \<open>IndexError\<close>, following instructions below 0x80 are taken for a part
  of the number, or the third byte of the number is decoded as an instruction.\<close>

theorem stack_adjustment_exact:
  assumes hs: "\<forall>b \<in> set hs. 128 \<le> b \<and> b < 256" and l: "0 \<le> l" "l < 128" and rest: "\<forall>b \<in> set rest. 0 \<le> b \<and> b < 256"
  shows "decode_10110010_uleb128 (pre @ 0xb2 # hs @ l # rest) (length pre) =
      Ok (length pre + 2 + length hs, lit ''vsp = vsp + '' @ py_str (0x204 + 4 * uleb_value (hs @ [l]))) \<longleftrightarrow>
    length hs \<le> 1 \<and> rest \<noteq> [] \<and> 128 \<le> hd rest"
proof -
  obtain b bs where bs: "hs @ l # rest = b # bs" by (cases hs) auto
  have "\<forall>b \<in> set hs. 0 \<le> b \<and> b < 256" using hs by force
  then have "\<forall>b \<in> set bs. 0 \<le> b \<and> b < 256"
    using bs l rest by (cases hs) auto
  note tail = uleb_rest_bytes [OF this]
  have b0: "byte_at (pre @ 0xb2 # b # bs) (length pre + 1) = Ok b" by (simp add: byte_at_next nth_append)
  have behind: "uleb_rest (drop (length pre + 2) (pre @ 0xb2 # b # bs)) =
      (if dropWhile (\<lambda>b. b < 128) bs = [] then Err IndexError else Ok (takeWhile (\<lambda>b. b < 128) bs))"
    using tail by simp
  have run: "decode_10110010_uleb128 (pre @ 0xb2 # hs @ l # rest) (length pre) =
    (if dropWhile (\<lambda>b. b < 128) bs = [] then Err IndexError else
       Ok (length pre + 2 + length (takeWhile (\<lambda>b. b < 128) bs),
         lit ''vsp = vsp + '' @ py_str (0x204 + 4 * uleb_value (b # takeWhile (\<lambda>b. b < 128) bs))))"
    unfolding bs decode_10110010_uleb128_def Let_def uleb_foldl unfolding b0 behind by (simp add: push_bit_eq_mult mult.commute)
  show ?thesis
  proof (cases hs)
    case Nil
    then show ?thesis
      using bs run l by (cases rest) (auto split: if_splits)
  next
    case (Cons h gs)
    then show ?thesis
      using bs run l hs by (cases gs; cases rest) (auto split: if_splits)
  qed
qed

theorem stack_adjustment_exact_witness:
  "decode_10110010_uleb128 [0xb2, 0x81, 1, 0xb0] 0 = Ok (3, lit ''vsp = vsp + '' @ py_str (0x204 + 4 * uleb_value [0x81, 1])) \<and>
   decode_10110010_uleb128 [0xb2, 1] 0 \<noteq> Ok (2, lit ''vsp = vsp + '' @ py_str (0x204 + 4 * uleb_value [1]))"
  using stack_adjustment_exact [of "[0x81]" 1 "[0xb0]" "[]"] stack_adjustment_exact [of "[]" 1 "[]" "[]"] by (simp add: numeral_2_eq_2 numeral_3_eq_3)

text \<open>Whole programs: an operand of one byte at the end, and one that swallows the instruction \<open>vsp = vsp + 4 + 4 * b\<close>.\<close>

lemma stack_adjustment_misread:
  assumes "0 \<le> a" "a < 128" "0 \<le> b" "b < 128"
  shows "decode_bytecode [0xb2, a] = Err IndexError \<and>
    decode_bytecode [0xb2, a, b, 0xb0] =
      Ok [\<lparr>mi_bytecode = [0xb2, a, b], mi_mnemonic = lit ''vsp = vsp + '' @ py_str (0x204 + 4 * (128 * b + a))\<rparr>,
          \<lparr>mi_bytecode = [0xb0], mi_mnemonic = lit ''finish''\<rparr>]"
  using assms
  by (simp_all add: decode_bytecode_def handler_b2 decode_10110010_uleb128_def byte_at_next high_bit low_seven
      decode_10110000_def constant_text_def push_bit_eq_mult mult.commute)

section \<open>Relative addresses\<close>

text \<open>The place-relative offset of the ABI: the low 31 bits, as a signed number.\<close>

definition sign_31 :: "int \<Rightarrow> int" where
  "sign_31 a = (let l = take_bit 31 a in if bit a 30 then l - 2 ^ 31 else l)"

lemma prel31_eq:
  "arm_expand_prel31 a p = (take_bit 31 a - (if bit a 26 then 2 ^ 31 else 0) + p) mod 2 ^ 64"
proof -
  let ?l = "take_bit 31 a"
  have l: "a AND 0x7fffffff = ?l" by (simp add: take_bit_eq_mask mask_eq_exp_minus_1)
  have b: "?l AND 0x04000000 \<noteq> 0 \<longleftrightarrow> bit a 26"
    using and_exp_eq_0_iff_not_bit [of ?l 26] by (simp add: bit_take_bit_iff)
  have w: "x AND 0xffffffffffffffff = x mod 2 ^ 64" for x :: int
    using take_bit_eq_mask [of 64 x] by (simp add: take_bit_eq_mod mask_eq_exp_minus_1)
  have "push_bit 31 0x1ffffffff = (0xffffffff80000000 :: int)" by (simp add: push_bit_eq_mult)
  then have or: "?l OR 0xffffffff80000000 = ?l + 0xffffffff80000000"
    using or_push_bit [where v = "?l" and sh = 31 and x = "0x1ffffffff"] take_bit_int_less_exp [of 31 a] by simp
  have "(?l - 2 ^ 31 + p + 2 ^ 64) mod 2 ^ 64 = (?l - 2 ^ 31 + p) mod 2 ^ 64"
    by (rule mod_add_self2)
  moreover have "?l + 0xffffffff80000000 + p = ?l - 2 ^ 31 + p + 2 ^ 64" by simp
  ultimately have s: "(?l + 0xffffffff80000000 + p) mod 2 ^ 64 = (?l - 2 ^ 31 + p) mod 2 ^ 64" by (simp only:)
  show ?thesis
    unfolding arm_expand_prel31_def l Let_def w by (cases "bit a 26") (simp_all only: b if_True if_False or s, simp)
qed

text \<open>C29: an address relative to its place is expanded correctly, to the sum with the signed 31-bit offset
  modulo 2^64, exactly when the bits 26 and 30 of the word agree: the code tests bit 26 for the sign.  It is
  right for offsets of up to 64 MB in either direction and wrong for every offset whose bit 26 differs from its
  sign.\<close>

theorem prel31_correct_iff:
  "arm_expand_prel31 a p = (sign_31 a + p) mod 2 ^ 64 \<longleftrightarrow> (bit a 26 \<longleftrightarrow> bit a 30)"
proof -
  have ne: "(x - 2 ^ 31 + p) mod 2 ^ 64 \<noteq> (x + p) mod 2 ^ 64" for x :: int
    by (simp add: mod_eq_dvd_iff)
  have s: "sign_31 a = take_bit 31 a - (if bit a 30 then 2 ^ 31 else 0)"
    by (simp add: sign_31_def Let_def)
  show ?thesis
    unfolding prel31_eq s using ne [of "take_bit 31 a"]
    by (cases "bit a 26"; cases "bit a 30") (simp_all only: if_True if_False simp_thms diff_0_right not_sym)
qed

end
