(* ===== verification/DwarfTables.thy ===== *)
theory DwarfTables
  imports DwarfUtil
begin

text \<open>
  Lookup tables of DWARF: \<^verbatim>\<open>elftools/dwarf/aranges.py\<close> (addresses to units) and \<^verbatim>\<open>elftools/dwarf/namelut.py\<close>
  (names to units and entries).  Binary search is that of the standard library's \<open>bisect\<close>.
\<close>

section \<open>Binary search\<close>

text \<open>\<^verbatim>\<open>bisect.bisect_right(a, x)\<close>.\<close>

function bisect_loop :: "int list \<Rightarrow> int \<Rightarrow> nat \<Rightarrow> nat \<Rightarrow> nat" where
  "bisect_loop a x lo hi =
     (if lo < hi then
        let mid = (lo + hi) div 2 in
        if x < a ! mid then bisect_loop a x lo mid else bisect_loop a x (mid + 1) hi
      else lo)"
  by auto
termination by (relation "measure (\<lambda>(a, x, lo, hi). hi - lo)") auto

declare bisect_loop.simps [simp del]

definition bisect_right :: "int list \<Rightarrow> int \<Rightarrow> nat" where
  "bisect_right a x = bisect_loop a x 0 (length a)"

definition insert_at :: "nat \<Rightarrow> 'a \<Rightarrow> 'a list \<Rightarrow> 'a list" where
  "insert_at i x xs = take i xs @ x # drop i xs"

section \<open>Address ranges (aranges.py)\<close>

record arange_entry =
  ar_begin_addr :: int
  ar_length :: int
  ar_info_offset :: int
  ar_unit_length :: int
  ar_version :: int
  ar_address_size :: int
  ar_segment_size :: int

definition get_addr_size_struct :: "dwarf_structs \<Rightarrow> int \<Rightarrow> (string \<Rightarrow> con) res" where
  "get_addr_size_struct ds v =
     (if v = 4 then Ok (Dwarf_uint32 ds) else if v = 8 then Ok (Dwarf_uint64 ds) else Err AssertionError)"

text \<open>
  \<^verbatim>\<open>int(math.ceil(fp / float(n)) * n)\<close>: the next multiple (the position of a section is far below the
  \<open>2 ^ 53\<close> up to which the quotient is exact enough).
\<close>

definition ceil_multiple :: "int \<Rightarrow> int \<Rightarrow> int" where
  "ceil_multiple fp n = (- ((- fp) div n)) * n"

text \<open>The entries of one set, up to the null entry; each takes at least eight bytes.\<close>

primrec arange_set :: "nat \<Rightarrow> (string \<Rightarrow> con) \<Rightarrow> (int \<Rightarrow> int \<Rightarrow> arange_entry) \<Rightarrow> bool \<Rightarrow> int \<Rightarrow> int \<Rightarrow> arange_entry list S" where
  "arange_set 0 addr_size mk need_empty addr len = lift_res NoFuel"
| "arange_set (Suc fuel) addr_size mk need_empty addr len =
     (if addr \<noteq> 0 \<or> len \<noteq> 0 then
        mbind (parse_int (addr_size ''addr'') None) (\<lambda>addr'.
        mbind (parse_int (addr_size ''length'') None) (\<lambda>len'.
        mbind (arange_set fuel addr_size mk False addr' len') (\<lambda>es. ret (mk addr len # es))))
      else if need_empty then ret [mk addr len]
      else ret [])"

definition arange_unit :: "dwarf_structs \<Rightarrow> bool \<Rightarrow> val \<Rightarrow> arange_entry list S" where
  "arange_unit ds need_empty header =
     mbind (lift_res (rbind (get_int header ''address_size'') (get_addr_size_struct ds))) (\<lambda>addr_size.
     mbind (lift_res (get_int header ''segment_size'')) (\<lambda>segment_size.
       if segment_size \<noteq> 0 then raise NotImplementedError
       else
         mbind (lift_res (get_int header ''address_size'')) (\<lambda>asz.
         mbind (lift_res (get_int header ''debug_info_offset'')) (\<lambda>info_offset.
         mbind (lift_res (get_int header ''unit_length'')) (\<lambda>unit_length.
         mbind (lift_res (get_int header ''version'')) (\<lambda>version.
         mbind s_pos (\<lambda>fp.
         mbind (s_seek (ceil_multiple fp (asz * 2))) (\<lambda>_.
         mbind (parse_int (addr_size ''addr'') None) (\<lambda>addr.
         mbind (parse_int (addr_size ''length'') None) (\<lambda>len t.
           arange_set (remaining t + 1) addr_size
             (\<lambda>a l. \<lparr>ar_begin_addr = a, ar_length = l, ar_info_offset = info_offset, ar_unit_length = unit_length,
                ar_version = version, ar_address_size = asz, ar_segment_size = segment_size\<rparr>)
             need_empty addr len t))))))))))"

text \<open>The next set starts behind this one's length field and as many bytes as it says.\<close>

primrec arange_sets :: "nat \<Rightarrow> dwarf_structs \<Rightarrow> int \<Rightarrow> bool \<Rightarrow> int \<Rightarrow> arange_entry list S" where
  "arange_sets 0 ds sz need_empty offset = lift_res NoFuel"
| "arange_sets (Suc fuel) ds sz need_empty offset =
     (if offset < sz then
        mbind (struct_parse (Dwarf_aranges_header ds) (Some offset)) (\<lambda>header.
        mbind (arange_unit ds need_empty header) (\<lambda>es.
        mbind (lift_res (rbind (get_attr header ''unit_length'') as_int)) (\<lambda>len.
        mbind (arange_sets fuel ds sz need_empty (offset + len + initial_length_field_size ds)) (\<lambda>more. ret (es @ more)))))
      else ret [])"

definition aranges_entries :: "dwarf_structs \<Rightarrow> int \<Rightarrow> bool \<Rightarrow> arange_entry list S" where
  "aranges_entries ds sz need_empty =
     mbind (s_seek 0) (\<lambda>_. arange_sets (nat sz + 1) ds sz need_empty 0)"

text \<open>The object: the entries by their first address, and the list of these.\<close>

record aranges =
  ag_entries :: "arange_entry list"
  ag_keys :: "int list"

definition ARanges_of :: "arange_entry list \<Rightarrow> aranges" where
  "ARanges_of es = (let sorted = sort_key ar_begin_addr es in
     \<lparr>ag_entries = sorted, ag_keys = map ar_begin_addr sorted\<rparr>)"

definition ARanges_init :: "dwarf_structs \<Rightarrow> int \<Rightarrow> aranges S" where
  "ARanges_init ds sz = mbind (aranges_entries ds sz False) (\<lambda>es. ret (ARanges_of es))"

definition cu_offset_at_addr :: "aranges \<Rightarrow> int \<Rightarrow> int option res" where
  "cu_offset_at_addr ag addr =
     rbind (py_index (ag_entries ag) (int (bisect_right (ag_keys ag) addr) - 1)) (\<lambda>e.
       if ar_begin_addr e \<le> addr \<and> addr < ar_begin_addr e + ar_length e then Ok (Some (ar_info_offset e)) else Ok None)"

section \<open>Names (namelut.py)\<close>

record lut_entry =
  lu_cu_ofs :: int
  lu_die_ofs :: int

type_synonym lut = "(pystr \<times> lut_entry) list"

definition name_pair :: "dwarf_structs \<Rightarrow> con" where
  "name_pair ds = Struct ''Dwarf_offset_name_pair''
     [Dwarf_offset ds ''die_ofs'', If (\<lambda>c. dget c ''die_ofs'') (CString ''name'' None)]"

text \<open>The names of one unit; each pair takes at least four bytes.\<close>

primrec names_loop :: "nat \<Rightarrow> dwarf_structs \<Rightarrow> int \<Rightarrow> lut \<Rightarrow> lut S" where
  "names_loop 0 ds cu_ofs entries = lift_res NoFuel"
| "names_loop (Suc fuel) ds cu_ofs entries =
     mbind (struct_parse (name_pair ds) None) (\<lambda>entry.
     mbind (lift_res (rbind (get_attr entry ''die_ofs'') as_int)) (\<lambda>die_ofs.
       if die_ofs = 0 then ret entries
       else
         mbind (lift_res (rbind (get_attr entry ''name'') (\<lambda>v. case v of VBytes b \<Rightarrow> decode_utf8 b | _ \<Rightarrow> Err AttributeError))) (\<lambda>name.
           names_loop fuel ds cu_ofs
             (AList.update name \<lparr>lu_cu_ofs = cu_ofs, lu_die_ofs = cu_ofs + die_ofs\<rparr> entries))))"

primrec lut_units :: "nat \<Rightarrow> dwarf_structs \<Rightarrow> int \<Rightarrow> int \<Rightarrow> lut \<Rightarrow> val list \<Rightarrow> (lut \<times> val list) S" where
  "lut_units 0 ds sz offset entries headers = lift_res NoFuel"
| "lut_units (Suc fuel) ds sz offset entries headers =
     (if offset < sz then
        mbind (struct_parse (Dwarf_nameLUT_header ds) (Some offset)) (\<lambda>header.
        mbind (lift_res (rbind (get_attr header ''unit_length'') as_int)) (\<lambda>len.
        mbind (lift_res (rbind (get_attr header ''debug_info_offset'') as_int)) (\<lambda>cu_ofs.
        mbind (\<lambda>t. names_loop (remaining t + 1) ds cu_ofs entries t) (\<lambda>entries'.
          lut_units fuel ds sz (offset + len + initial_length_field_size ds) entries' (headers @ [header])))))
      else ret (entries, headers))"

definition lut_entries :: "dwarf_structs \<Rightarrow> int \<Rightarrow> (lut \<times> val list) S" where
  "lut_entries ds sz = mbind (s_seek 0) (\<lambda>_. lut_units (nat sz + 1) ds sz 0 [] [])"

text \<open>The object: its table and headers are read when first asked for.\<close>

record name_lut =
  nl_structs :: dwarf_structs
  nl_size :: int
  nl_entries :: "lut option"
  nl_headers :: "val list option"

record lut_state =
  lt_stream :: stream
  lt_lut :: name_lut

type_synonym 'a L = "(lut_state, 'a) M"

definition load_lut :: "(lut \<times> val list) L" where
  "load_lut = (\<lambda>s. let nl = lt_lut s in
     case lut_entries (nl_structs nl) (nl_size nl) (lt_stream s) of
       (Ok (es, hs), t) \<Rightarrow> (Ok (es, hs), \<lparr>lt_stream = t, lt_lut = nl\<lparr>nl_entries := Some es, nl_headers := Some hs\<rparr>\<rparr>)
     | (Err e, t) \<Rightarrow> (Err e, s\<lparr>lt_stream := t\<rparr>)
     | (NoFuel, t) \<Rightarrow> (NoFuel, s\<lparr>lt_stream := t\<rparr>))"

definition lut_get_entries :: "lut L" where
  "lut_get_entries = mbind get_state (\<lambda>s. case nl_entries (lt_lut s) of
     Some es \<Rightarrow> ret es | None \<Rightarrow> mbind load_lut (\<lambda>(es, hs). ret es))"

definition lut_set_entries :: "lut option \<Rightarrow> val list option \<Rightarrow> unit L" where
  "lut_set_entries es hs = (\<lambda>s. (Ok (), s\<lparr>lt_lut := (lt_lut s)\<lparr>nl_entries := es, nl_headers := hs\<rparr>\<rparr>))"

definition lut_len :: "int L" where
  "lut_len = mbind lut_get_entries (\<lambda>es. ret (int (length es)))"

definition lut_get :: "pystr \<Rightarrow> lut_entry option L" where
  "lut_get name = mbind lut_get_entries (\<lambda>es. ret (map_of es name))"

definition lut_iter :: "pystr list L" where
  "lut_iter = mbind lut_get_entries (\<lambda>es. ret (map fst es))"

definition get_cu_headers :: "val list L" where
  "get_cu_headers = mbind get_state (\<lambda>s. case nl_headers (lt_lut s) of
     Some hs \<Rightarrow> ret hs | None \<Rightarrow> mbind load_lut (\<lambda>(es, hs). ret hs))"

end
