(* ===== verification/SearchFacts.thy ===== *)
theory SearchFacts
  imports DwarfTables
begin

text \<open>Binary search in a sorted list, and what an insertion at the place it finds does.\<close>

lemma bisect_loop_inv:
  assumes "sorted a" "lo \<le> hi" "hi \<le> length a" "\<forall>i < lo. a ! i \<le> x" "\<forall>i. hi \<le> i \<and> i < length a \<longrightarrow> x < a ! i"
  shows "bisect_loop a x lo hi \<le> length a \<and> (\<forall>i < bisect_loop a x lo hi. a ! i \<le> x) \<and>
    (\<forall>i. bisect_loop a x lo hi \<le> i \<and> i < length a \<longrightarrow> x < a ! i)"
  using assms
proof (induction a x lo hi rule: bisect_loop.induct)
  case (1 a x lo hi)
  let ?mid = "(lo + hi) div 2"
  let ?found = "\<lambda>r. r \<le> length a \<and> (\<forall>i < r. a ! i \<le> x) \<and> (\<forall>i. r \<le> i \<and> i < length a \<longrightarrow> x < a ! i)"
  show ?case
  proof (cases "lo < hi")
    case True
    show ?thesis
    proof (cases "x < a ! ?mid")
      case left: True
      have up: "\<forall>i. ?mid \<le> i \<and> i < length a \<longrightarrow> x < a ! i"
        using left sorted_nth_mono [OF 1(3)] by (metis less_le_trans)
      have mid: "lo \<le> ?mid" "?mid \<le> length a" using True 1(5) by simp_all
      have "?found (bisect_loop a x lo ?mid)" by (rule "1.IH"(1) [OF True refl left 1(3) mid 1(6) up])
      moreover have "bisect_loop a x lo hi = bisect_loop a x lo ?mid"
        by (subst bisect_loop.simps) (simp only: True left Let_def if_True)
      ultimately show ?thesis by (elim ssubst)
    next
      case right: False
      have low: "\<forall>i < ?mid + 1. a ! i \<le> x"
      proof (intro allI impI)
        fix i assume "i < ?mid + 1"
        then have "a ! i \<le> a ! ?mid" using sorted_nth_mono [OF 1(3), of i ?mid] True 1(5) by simp
        with right show "a ! i \<le> x" by simp
      qed
      have mid: "?mid + 1 \<le> hi" using True by simp
      have "?found (bisect_loop a x (?mid + 1) hi)" by (rule "1.IH"(2) [OF True refl right 1(3) mid 1(5) low 1(7)])
      moreover have "bisect_loop a x lo hi = bisect_loop a x (?mid + 1) hi"
        by (subst bisect_loop.simps) (simp only: True right Let_def if_True if_False)
      ultimately show ?thesis by (elim ssubst)
    qed
  next
    case False
    then have lo: "bisect_loop a x lo hi = lo" by (subst bisect_loop.simps) (simp only: if_False)
    have hi: "lo = hi" using False 1(4) by linarith
    show ?thesis unfolding lo by (intro conjI) (fact 1(5) [folded hi] 1(6) 1(7) [folded hi])+
  qed
qed

lemma bisect_right_spec:
  assumes "sorted a"
  shows "bisect_right a x \<le> length a" "i < bisect_right a x \<Longrightarrow> a ! i \<le> x"
    "bisect_right a x \<le> i \<Longrightarrow> i < length a \<Longrightarrow> x < a ! i"
  using bisect_loop_inv [OF assms, of 0 "length a" x] by (simp_all add: bisect_right_def)

lemma bisect_right_set:
  assumes "sorted a"
  shows "set (take (bisect_right a x) a) = {y \<in> set a. y \<le> x}" "set (drop (bisect_right a x) a) = {y \<in> set a. x < y}"
proof -
  let ?i = "bisect_right a x"
  have t: "y \<le> x" if y: "y \<in> set (take ?i a)" for y
    using y bisect_right_spec(1,2) [OF assms] by (fastforce simp: in_set_conv_nth)
  have d: "x < y" if y: "y \<in> set (drop ?i a)" for y
  proof -
    from y obtain j where "j < length a - ?i" "y = a ! (?i + j)" by (auto simp: in_set_conv_nth)
    with bisect_right_spec(3) [OF assms, of x "?i + j"] show ?thesis by simp
  qed
  have "set a = set (take ?i a) \<union> set (drop ?i a)" by (metis append_take_drop_id set_append)
  with t d show "set (take ?i a) = {y \<in> set a. y \<le> x}" "set (drop ?i a) = {y \<in> set a. x < y}" by fastforce+
qed

lemma length_insert_at [simp]: "i \<le> length xs \<Longrightarrow> length (insert_at i x xs) = Suc (length xs)"
  by (simp add: insert_at_def)

lemma set_insert_at [simp]: "set (insert_at i x xs) = insert x (set xs)"
proof -
  have "set xs = set (take i xs) \<union> set (drop i xs)" by (metis append_take_drop_id set_append)
  then show ?thesis by (auto simp: insert_at_def)
qed

lemma map_insert_at [simp]: "map f (insert_at i x xs) = insert_at i (f x) (map f xs)"
  by (simp add: insert_at_def take_map drop_map)

lemma insert_at_nth: "i \<le> length xs \<Longrightarrow> insert_at i x xs ! j = (if j < i then xs ! j else if j = i then x else xs ! (j - 1))"
  by (auto simp: insert_at_def nth_append nth_Cons' min_def)

text \<open>A key that is not in the list keeps it strictly sorted.\<close>

lemma strict_sorted_insert:
  assumes s: "sorted_wrt (<) a" and "x \<notin> set a"
  shows "sorted_wrt (<) (insert_at (bisect_right a x) x a)"
proof -
  let ?i = "bisect_right a x"
  have "sorted a" using s by (simp add: strict_sorted_iff)
  note parts = bisect_right_set [OF this, of x]
  have "sorted_wrt (<) (take ?i a @ drop ?i a)" using s by simp
  with parts \<open>x \<notin> set a\<close> show ?thesis
    by (fastforce simp: insert_at_def sorted_wrt_append simp del: append_take_drop_id)
qed

text \<open>A key of the list is the last one not above itself.\<close>

lemma bisect_right_key:
  assumes s: "sorted_wrt (<) a" and i: "i < length a"
  shows "bisect_right a (a ! i) = Suc i"
proof (rule antisym)
  have so: "sorted a" using s by (simp add: strict_sorted_iff)
  show "Suc i \<le> bisect_right a (a ! i)"
    using bisect_right_spec(3) [OF so, where x = "a ! i" and i = i] i by (meson less_irrefl not_less_eq_eq)
  show "bisect_right a (a ! i) \<le> Suc i"
  proof (rule ccontr)
    assume "\<not> ?thesis"
    then have less: "Suc i < bisect_right a (a ! i)" by simp
    then have "a ! Suc i \<le> a ! i" "Suc i < length a"
      using bisect_right_spec(2) [OF so less] bisect_right_spec(1) [OF so, of "a ! i"] by simp_all
    with s show False by (metis leD lessI sorted_wrt_nth_less)
  qed
qed

lemma bisect_right_missing:
  assumes s: "sorted_wrt (<) a" and x: "x \<notin> set a" and i: "0 < bisect_right a x"
  shows "a ! (bisect_right a x - 1) \<noteq> x"
proof -
  have "sorted a" using s by (simp add: strict_sorted_iff)
  with bisect_right_spec(1) [OF this, of x] i x show ?thesis
    by (metis One_nat_def Suc_pred less_eq_Suc_le nth_mem)
qed

end
