(* ===== verification/LookupProperties.thy ===== *)
theory LookupProperties
  imports SearchFacts
begin

text \<open>The address table of \<^verbatim>\<open>aranges.py\<close> finds what a search through all its entries would find.\<close>

definition covers :: "int \<Rightarrow> arange_entry \<Rightarrow> bool" where
  "covers addr e \<longleftrightarrow> ar_begin_addr e \<le> addr \<and> addr < ar_begin_addr e + ar_length e"

definition apart :: "arange_entry \<Rightarrow> arange_entry \<Rightarrow> bool" where
  "apart e f \<longleftrightarrow> ar_begin_addr e + ar_length e \<le> ar_begin_addr f \<or> ar_begin_addr f + ar_length f \<le> ar_begin_addr e"

definition separate :: "arange_entry list \<Rightarrow> bool" where
  "separate es \<longleftrightarrow> sorted_wrt apart es \<and> list_all (\<lambda>e. 0 < ar_length e) es"

lemma separate_in:
  assumes "separate es" "e \<in> set es" "f \<in> set es" "e \<noteq> f"
  shows "apart e f"
  using assms
proof (induction es)
  case (Cons x es)
  then show ?case by (auto simp: separate_def apart_def)
qed simp

lemma found_in: "find P es = Some f \<Longrightarrow> f \<in> set es \<and> P f"
  by (induction es) (auto split: if_splits)

lemma find_covering:
  assumes s: "separate es" and e: "e \<in> set es" "covers addr e"
  shows "find (covers addr) es = Some e"
proof (cases "find (covers addr) es")
  case None
  with e show ?thesis by (auto simp: find_None_iff)
next
  case (Some f)
  with found_in have f: "f \<in> set es" "covers addr f" by metis+
  have "f = e" using separate_in [OF s e(1) f(1)] e(2) f(2) by (auto simp: apart_def covers_def)
  with Some show ?thesis by simp
qed

lemma py_index_last: "xs \<noteq> [] \<Longrightarrow> py_index xs (- 1) = Ok (last xs)"
  by (simp add: py_index_def Let_def last_conv_nth nat_diff_distrib Suc_le_eq)

text \<open>C40: looking an address up in the table of address ranges, by binary search over the sorted first addresses,
  gives the unit of the entry that covers the address, and nothing when no entry does.  The ranges have to be
  disjoint and not empty, in any order, and there has to be one: in an empty table the search ends in an
  \<open>IndexError\<close>.\<close>

theorem address_lookup:
  assumes "separate es"
  shows "cu_offset_at_addr (ARanges_of es) addr =
    (if es = [] then Err IndexError else Ok (map_option ar_info_offset (find (covers addr) es)))"
proof (cases "es = []")
  case False
  let ?s = "sort_key ar_begin_addr es"
  let ?k = "map ar_begin_addr ?s"
  let ?i = "bisect_right ?k addr"
  have sorted: "sorted ?k" by simp
  note i = bisect_right_spec [OF sorted, where x = addr]
  have none: "find (covers addr) es = None" if "\<And>f. f \<in> set ?s \<Longrightarrow> \<not> covers addr f"
    using that by (simp add: find_None_iff)
  show ?thesis
  proof (cases "?i = 0")
    case True
    have above: "addr < ar_begin_addr f" if "f \<in> set ?s" for f
      using that i(3) True by (metis in_set_conv_nth length_map nth_map zero_le)
    then have "find (covers addr) es = None" by (intro none) (metis covers_def not_le)
    moreover have ne: "?s \<noteq> []" using False by (metis length_0_conv length_sort)
    then have "last ?s \<in> set ?s" by (rule last_in_set)
    with above have "addr < ar_begin_addr (last ?s)" by blast
    ultimately show ?thesis
      using False True by (simp add: cu_offset_at_addr_def ARanges_of_def Let_def py_index_last [OF ne])
  next
    case pos: False
    let ?e = "?s ! (?i - 1)"
    have l: "?i - 1 < length ?s" using i(1) pos by simp
    then have e: "?e \<in> set ?s" "ar_begin_addr ?e \<le> addr"
      using i(2) [of "?i - 1"] pos by (simp_all only: nth_mem nth_map)
    have at: "py_index ?s (int ?i - 1) = Ok ?e"
      using i(1) pos by (simp add: py_index_def nat_diff_distrib)
    show ?thesis
    proof (cases "covers addr ?e")
      case True
      with find_covering [OF assms, of ?e addr] e at False show ?thesis
        by (simp add: cu_offset_at_addr_def ARanges_of_def Let_def covers_def)
    next
      case nc: False
      have "\<not> covers addr f" if f: "f \<in> set ?s" for f
      proof
        assume cf: "covers addr f"
        then have le: "ar_begin_addr f \<le> addr" by (simp add: covers_def)
        from f obtain j where j: "j < length ?s" "?s ! j = f" unfolding in_set_conv_nth by blast
        have "j < ?i" using i(3) [of j] j le by (metis length_map not_le nth_map)
        then have "?k ! j \<le> ?k ! (?i - 1)" using i(1) by (intro sorted_nth_mono [OF sorted]) simp_all
        then have "ar_begin_addr f \<le> ar_begin_addr ?e" using i(1) j pos by (simp add: Suc_le_eq)
        moreover have "apart ?e f"
          using cf nc e(1) f separate_in [OF assms, of ?e f] by (metis set_sort)
        moreover have "0 < ar_length ?e" using assms e(1) by (simp add: separate_def list_all_iff)
        ultimately show False using cf e(2) by (auto simp: apart_def covers_def)
      qed
      with none have "find (covers addr) es = None" by blast
      with nc at False show ?thesis by (simp add: cu_offset_at_addr_def ARanges_of_def Let_def covers_def)
    qed
  qed
qed (simp add: cu_offset_at_addr_def ARanges_of_def py_index_def)

theorem address_lookup_witness:
  "cu_offset_at_addr (ARanges_of [
       \<lparr>ar_begin_addr = 0x2000, ar_length = 16, ar_info_offset = 99, ar_unit_length = 60, ar_version = 2, ar_address_size = 8, ar_segment_size = 0\<rparr>,
       \<lparr>ar_begin_addr = 0x1000, ar_length = 64, ar_info_offset = 0, ar_unit_length = 60, ar_version = 2, ar_address_size = 8, ar_segment_size = 0\<rparr>])
     0x103f = Ok (Some 0)"
  by (subst address_lookup) (simp_all add: separate_def apart_def covers_def)

end
