(* ===== verification/DwarfUnits.thy ===== *)
theory DwarfUnits
  imports DwarfTables DwarfLine
begin

text \<open>
  Units and their debugging information entries: \<^verbatim>\<open>elftools/dwarf/die.py\<close>, \<^verbatim>\<open>compileunit.py\<close>, \<^verbatim>\<open>typeunit.py\<close>,
  and what they need of \<^verbatim>\<open>dwarfinfo.py\<close> and \<^verbatim>\<open>dwarf_util.py\<close>.  The state is that of a \<open>DWARFInfo\<close> object and all
  that it holds: the sections' streams, its caches, and the units.  A unit is named by its number in the order of
  creation, an entry by its unit and its offset; the fields of an entry that are set later (its parent and the
  entry that ends its children) are kept with the unit.  There is no supplementary file.
\<close>

section \<open>The state\<close>

datatype section_name = Debug_info | Debug_types | Debug_abbrev | Debug_str | Debug_line_str | Debug_str_offsets
  | Debug_addr | Debug_loclists | Debug_rnglists | Debug_loc | Debug_ranges | Debug_line | Debug_aranges
  | Debug_pubtypes | Debug_pubnames | Debug_frame | Eh_frame | Debug_sup | Gnu_debugaltlink | Gnu_debuglink

text \<open>\<open>DebugSectionDescriptor\<close>; its other fields are for description only.\<close>

record debug_section =
  sec_stream :: stream
  sec_size :: int
  sec_address :: int

record attribute =
  at_name :: val
  at_form :: val
  at_value :: val
  at_raw :: val
  at_offset :: int
  at_indirection :: int

record die =
  die_offset :: int
  die_tag :: val
  die_has_children :: bool
  die_abbrev_code :: int
  die_size :: int
  die_attributes :: "(val \<times> attribute) list"

record unit_obj =
  un_types :: bool
  un_header :: val
  un_structs :: dwarf_structs
  un_offset :: int
  un_die_offset :: int
  un_abbrev :: "abbrev_table option"
  un_dielist :: "die list"
  un_diemap :: "int list"
  un_parent :: "(int \<times> int) list"
  un_terminator :: "(int \<times> int) list"

record dwarf =
  dw_le :: bool
  dw_default_address_size :: int
  dw_secs :: "section_name \<Rightarrow> debug_section option"
  dw_abbrevs :: "(int \<times> abbrev_table) list"
  dw_units :: "unit_obj list"
  dw_cu_offsets :: "int list"
  dw_cu_cache :: "nat list"
  dw_by_sig :: "(int \<times> nat) list option"
  dw_linetables :: "(int \<times> line_program) list"

text \<open>A new object: nothing is read yet.\<close>

definition DWARFInfo_new :: "bool \<Rightarrow> int \<Rightarrow> (section_name \<Rightarrow> debug_section option) \<Rightarrow> dwarf" where
  "DWARFInfo_new le default_address_size secs = \<lparr>dw_le = le, dw_default_address_size = default_address_size, dw_secs = secs,
     dw_abbrevs = [], dw_units = [], dw_cu_offsets = [], dw_cu_cache = [], dw_by_sig = None, dw_linetables = []\<rparr>"

type_synonym 'a D = "(dwarf, 'a) M"

text \<open>A computation on a section's stream; a section that is missing is \<^verbatim>\<open>None\<close>.\<close>

definition in_sec :: "section_name \<Rightarrow> 'a S \<Rightarrow> 'a D" where
  "in_sec n m = (\<lambda>s. case dw_secs s n of
       None \<Rightarrow> (Err AttributeError, s)
     | Some d \<Rightarrow> (case m (sec_stream d) of (r, t) \<Rightarrow>
         (r, s\<lparr>dw_secs := (dw_secs s)(n := Some (d\<lparr>sec_stream := t\<rparr>))\<rparr>)))"

definition the_size :: "section_name \<Rightarrow> int D" where
  "the_size n = (\<lambda>s. (case dw_secs s n of None \<Rightarrow> Err AttributeError | Some d \<Rightarrow> Ok (sec_size d), s))"

definition has_sec :: "section_name \<Rightarrow> bool D" where
  "has_sec n = (\<lambda>s. (Ok (dw_secs s n \<noteq> None), s))"

definition the_unit :: "nat \<Rightarrow> unit_obj D" where
  "the_unit u = (\<lambda>s. (Ok (dw_units s ! u), s))"

definition set_unit :: "nat \<Rightarrow> (unit_obj \<Rightarrow> unit_obj) \<Rightarrow> unit D" where
  "set_unit u f = (\<lambda>s. (Ok (), s\<lparr>dw_units := (dw_units s)[u := f (dw_units s ! u)]\<rparr>))"

definition info_structs :: "dwarf_structs D" where
  "info_structs = (\<lambda>s. (DWARFStructs_new (dw_le s) 32 (dw_default_address_size s) 2, s))"

definition unit_section :: "unit_obj \<Rightarrow> section_name" where
  "unit_section un = (if un_types un then Debug_types else Debug_info)"

section \<open>Tables of the file\<close>

definition get_string :: "section_name \<Rightarrow> val \<Rightarrow> val D" where
  "get_string n v = mbind (lift_res (as_int v)) (\<lambda>off.
     mbind (in_sec n (parse_cstring_from_stream (Some off))) (\<lambda>r.
       ret (case r of Some b \<Rightarrow> VBytes b | None \<Rightarrow> VNone)))"

definition get_string_from_table :: "val \<Rightarrow> val D" where
  "get_string_from_table = get_string Debug_str"

definition get_string_from_linetable :: "val \<Rightarrow> val D" where
  "get_string_from_linetable = get_string Debug_line_str"

definition get_abbrev_table :: "int \<Rightarrow> abbrev_table D" where
  "get_abbrev_table offset =
     mbind (the_size Debug_abbrev) (\<lambda>size.
     mbind (dwarf_assert (offset < size)) (\<lambda>_.
     mbind get_state (\<lambda>s. case map_of (dw_abbrevs s) offset of
       Some t \<Rightarrow> ret t
     | None \<Rightarrow>
         mbind info_structs (\<lambda>ds.
         mbind (in_sec Debug_abbrev (parse_abbrev_table ds offset)) (\<lambda>t s.
           (Ok t, s\<lparr>dw_abbrevs := AList.update offset t (dw_abbrevs s)\<rparr>))))))"

definition unit_abbrev_table :: "nat \<Rightarrow> abbrev_table D" where
  "unit_abbrev_table u = mbind (the_unit u) (\<lambda>un. case un_abbrev un of
       Some t \<Rightarrow> ret t
     | None \<Rightarrow>
         mbind (lift_res (get_int (un_header un) ''debug_abbrev_offset'')) (\<lambda>off.
         mbind (get_abbrev_table off) (\<lambda>t.
         mbind (set_unit u (\<lambda>un. un\<lparr>un_abbrev := Some t\<rparr>)) (\<lambda>_. ret t))))"

section \<open>Parsing an entry (die.py)\<close>

definition DW_FORM_raw2name :: "(int \<times> string) list" where
  "DW_FORM_raw2name = foldl (\<lambda>m (k, v). AList.update v k m) [] (fst ENUM_DW_FORM)"

text \<open>Every round reads at least a byte.\<close>

primrec resolve_loop :: "nat \<Rightarrow> dwarf_structs \<Rightarrow> int \<Rightarrow> int \<Rightarrow> (val \<times> val \<times> int) S" where
  "resolve_loop 0 ds code len = lift_res NoFuel"
| "resolve_loop (Suc fuel) ds code len = (case map_of DW_FORM_raw2name code of
       None \<Rightarrow> raise DWARFError
     | Some real \<Rightarrow>
         mbind (lift_res (form_parser ds (VLit real))) (\<lambda>c.
         mbind (struct_parse c None) (\<lambda>raw.
           if real \<noteq> ''DW_FORM_indirect'' then ret (VLit real, raw, len)
           else mbind (lift_res (as_int raw)) (\<lambda>code. resolve_loop fuel ds code (len + 1)))))"

definition resolve_indirect :: "dwarf_structs \<Rightarrow> (val \<times> val \<times> int) S" where
  "resolve_indirect ds = mbind (parse_int (the_Dwarf_uleb128 ds) None) (\<lambda>code t.
     resolve_loop (remaining t + 1) ds code 1 t)"

text \<open>
  \<open>_translate_attr_value\<close>.  The forms that are indices into a table of the unit are only translated once
  the unit's top entry is known (\<open>index_form\<close>); the others never need it.
\<close>

definition index_form :: "val \<Rightarrow> bool" where
  "index_form form \<longleftrightarrow> form \<in> VLit ` {''DW_FORM_strx'', ''DW_FORM_strx1'', ''DW_FORM_strx2'', ''DW_FORM_strx3'',
     ''DW_FORM_strx4'', ''DW_FORM_addrx'', ''DW_FORM_addrx1'', ''DW_FORM_addrx2'', ''DW_FORM_addrx3'', ''DW_FORM_addrx4'',
     ''DW_FORM_loclistx'', ''DW_FORM_rnglistx''}"

definition translate_direct :: "val \<Rightarrow> val \<Rightarrow> val D" where
  "translate_direct form raw =
     (if form = VLit ''DW_FORM_strp'' then get_string_from_table raw
      else if form = VLit ''DW_FORM_line_strp'' then get_string_from_linetable raw
      else if form = VLit ''DW_FORM_flag'' then ret (VBool (\<not> py_eq raw (VInt 0)))
      else if form = VLit ''DW_FORM_flag_present'' then ret (VBool True)
      else ret raw)"

text \<open>One attribute of a declaration, read from the entry's section.\<close>

definition parse_attribute :: "(val \<Rightarrow> val \<Rightarrow> val D) \<Rightarrow> dwarf_structs \<Rightarrow> section_name \<Rightarrow> val \<Rightarrow> attribute D" where
  "parse_attribute translate ds sec spec =
     mbind (lift_res (get_attr spec ''form'')) (\<lambda>form.
     mbind (lift_res (get_attr spec ''name'')) (\<lambda>name.
     mbind (in_sec sec s_pos) (\<lambda>attr_offset.
     mbind
       (if form = VLit ''DW_FORM_implicit_const'' then
          mbind (lift_res (get_attr spec ''value'')) (\<lambda>v. ret (form, v, v, 0))
        else if form = VLit ''DW_FORM_indirect'' then
          mbind (in_sec sec (resolve_indirect ds)) (\<lambda>(real, raw, len).
          mbind (translate real raw) (\<lambda>v. ret (real, v, raw, len)))
        else
          mbind (lift_res (form_parser ds form)) (\<lambda>c.
          mbind (in_sec sec (parse_stream c)) (\<lambda>raw.
          mbind (translate form raw) (\<lambda>v. ret (form, v, raw, 0)))))
       (\<lambda>(form, v, raw, len). ret \<lparr>at_name = name, at_form = form, at_value = v, at_raw = raw,
          at_offset = attr_offset, at_indirection = len\<rparr>))))"

primrec parse_attributes ::
  "(val \<Rightarrow> val \<Rightarrow> val D) \<Rightarrow> dwarf_structs \<Rightarrow> section_name \<Rightarrow> val list \<Rightarrow> (val \<times> attribute) list \<Rightarrow> (val \<times> attribute) list D" where
  "parse_attributes translate ds sec [] attrs = ret attrs"
| "parse_attributes translate ds sec (spec # specs) attrs =
     mbind (parse_attribute translate ds sec spec) (\<lambda>a.
       parse_attributes translate ds sec specs (AList.update (at_name a) a attrs))"

definition parse_DIE :: "(val \<Rightarrow> val \<Rightarrow> val D) \<Rightarrow> nat \<Rightarrow> int \<Rightarrow> die D" where
  "parse_DIE translate u offset = try_except
     (mbind (the_unit u) (\<lambda>un.
      let ds = un_structs un; sec = unit_section un in
      mbind (in_sec sec (s_seek offset)) (\<lambda>_.
      mbind (in_sec sec (parse_stream (the_Dwarf_uleb128 ds))) (\<lambda>c.
      mbind (lift_res (as_int c)) (\<lambda>code.
        if code = 0 then
          mbind (in_sec sec s_pos) (\<lambda>p.
            ret \<lparr>die_offset = offset, die_tag = VNone, die_has_children = False, die_abbrev_code = code,
              die_size = p - offset, die_attributes = []\<rparr>)
        else
          mbind (unit_abbrev_table u) (\<lambda>tab.
          mbind (lift_res (get_abbrev tab code)) (\<lambda>decl.
          mbind (lift_res (get_item (ab_decl decl) ''tag'')) (\<lambda>tag.
          mbind (lift_res (rbind (get_item (ab_decl decl) ''attr_spec'') viter)) (\<lambda>specs.
          mbind (parse_attributes translate ds sec specs []) (\<lambda>attrs.
          mbind (in_sec sec s_pos) (\<lambda>p.
            ret \<lparr>die_offset = offset, die_tag = tag, die_has_children = has_children decl, die_abbrev_code = code,
              die_size = p - offset, die_attributes = attrs\<rparr>)))))))))))
     is_ConstructError (\<lambda>_. raise ELFParseError)"

definition is_null :: "die \<Rightarrow> bool" where
  "is_null d \<longleftrightarrow> die_tag d = VNone"

definition die_attr :: "die \<Rightarrow> string \<Rightarrow> attribute option" where
  "die_attr d n = map_of (die_attributes d) (VLit n)"

section \<open>The top entry, and values that depend on it\<close>

text \<open>\<open>_get_base_offset\<close> of a unit whose top entry is there.\<close>

definition base_of :: "die \<Rightarrow> string \<Rightarrow> int res" where
  "base_of topd n = (case die_attr topd n of None \<Rightarrow> Err DWARFError | Some a \<Rightarrow> as_int (at_value a))"

definition cached_base :: "nat \<Rightarrow> string \<Rightarrow> int D" where
  "cached_base u n = mbind (the_unit u) (\<lambda>un. case un_dielist un of
       [] \<Rightarrow> raise IndexError | topd # _ \<Rightarrow> lift_res (base_of topd n))"

definition address_at :: "(string \<Rightarrow> int D) \<Rightarrow> nat \<Rightarrow> val \<Rightarrow> val D" where
  "address_at base u index =
     mbind (has_sec Debug_addr) (\<lambda>there.
       if \<not> there then raise DWARFError
       else
         mbind (base ''DW_AT_addr_base'') (\<lambda>b.
         mbind (the_unit u) (\<lambda>un.
         mbind (lift_res (as_int index)) (\<lambda>i.
         mbind (lift_res (rbind (get_attr (un_header un) ''address_size'') as_int)) (\<lambda>size.
           in_sec Debug_addr (struct_parse (the_Dwarf_target_addr (un_structs un)) (Some (b + i * size))))))))"

definition table_entry_size :: "dwarf_structs \<Rightarrow> int" where
  "table_entry_size ds = (if dwarf_format ds = 32 then 4 else 8)"

definition resolve_via_offset_table :: "(string \<Rightarrow> int D) \<Rightarrow> section_name \<Rightarrow> nat \<Rightarrow> val \<Rightarrow> string \<Rightarrow> val D" where
  "resolve_via_offset_table base sec u index base_name =
     mbind (has_sec sec) (\<lambda>there.
       if \<not> there then raise AttributeError
       else
         mbind (base base_name) (\<lambda>b.
         mbind (the_unit u) (\<lambda>un.
         mbind (in_sec sec s_pos) (\<lambda>saved.
         mbind (lift_res (as_int index)) (\<lambda>i.
         mbind (in_sec sec (parse_int (the_Dwarf_offset (un_structs un)) (Some (b + i * table_entry_size (un_structs un))))) (\<lambda>off.
         mbind (in_sec sec (s_seek saved)) (\<lambda>_. ret (VInt (b + off)))))))))"

definition translate_index :: "(string \<Rightarrow> int D) \<Rightarrow> nat \<Rightarrow> val \<Rightarrow> val \<Rightarrow> val D" where
  "translate_index base u form raw =
     (if form \<in> VLit ` {''DW_FORM_addrx'', ''DW_FORM_addrx1'', ''DW_FORM_addrx2'', ''DW_FORM_addrx3'', ''DW_FORM_addrx4''} then
        address_at base u raw
      else if form \<in> VLit ` {''DW_FORM_strx'', ''DW_FORM_strx1'', ''DW_FORM_strx2'', ''DW_FORM_strx3'', ''DW_FORM_strx4''} then
        mbind (has_sec Debug_str_offsets) (\<lambda>there.
          if \<not> there then raise AttributeError
          else
            mbind (base ''DW_AT_str_offsets_base'') (\<lambda>b.
            mbind (the_unit u) (\<lambda>un.
            mbind (lift_res (as_int raw)) (\<lambda>i.
            mbind (in_sec Debug_str_offsets
                (struct_parse (the_Dwarf_offset (un_structs un)) (Some (b + i * table_entry_size (un_structs un))))) (\<lambda>off.
              get_string_from_table off)))))
      else if form = VLit ''DW_FORM_loclistx'' then resolve_via_offset_table base Debug_loclists u raw ''DW_AT_loclists_base''
      else resolve_via_offset_table base Debug_rnglists u raw ''DW_AT_rnglists_base'')"

definition translate_attr_value :: "(string \<Rightarrow> int D) \<Rightarrow> nat \<Rightarrow> val \<Rightarrow> val \<Rightarrow> val D" where
  "translate_attr_value base u form raw =
     (if index_form form then translate_index base u form raw else translate_direct form raw)"

text \<open>\<open>_translate_indirect_attributes\<close> of the top entry, in place.\<close>

definition set_top_attribute :: "nat \<Rightarrow> val \<Rightarrow> val \<Rightarrow> unit D" where
  "set_top_attribute u k v = set_unit u (\<lambda>un. un\<lparr>un_dielist := (case un_dielist un of
       [] \<Rightarrow> []
     | topd # ds \<Rightarrow> topd\<lparr>die_attributes := (case map_of (die_attributes topd) k of
           None \<Rightarrow> die_attributes topd
         | Some a \<Rightarrow> AList.update k (a\<lparr>at_value := v\<rparr>) (die_attributes topd))\<rparr> # ds)\<rparr>)"

primrec translate_top :: "nat \<Rightarrow> (val \<times> attribute) list \<Rightarrow> unit D" where
  "translate_top u [] = ret ()"
| "translate_top u (ka # attrs) =
     mbind (if index_form (at_form (snd ka)) then
              mbind (translate_attr_value (cached_base u) u (at_form (snd ka)) (at_raw (snd ka))) (\<lambda>v.
                set_top_attribute u (fst ka) v)
            else ret ()) (\<lambda>_. translate_top u attrs)"

definition get_top_DIE :: "nat \<Rightarrow> die D" where
  "get_top_DIE u = mbind (the_unit u) (\<lambda>un.
     if un_diemap un \<noteq> [] then lift_res (py_index (un_dielist un) 0)
     else
       mbind (parse_DIE translate_direct u (un_die_offset un)) (\<lambda>topd.
       mbind (set_unit u (\<lambda>un. un\<lparr>un_dielist := topd # un_dielist un, un_diemap := un_die_offset un # un_diemap un\<rparr>)) (\<lambda>_.
       mbind (translate_top u (die_attributes topd)) (\<lambda>_.
       mbind (the_unit u) (\<lambda>un. lift_res (py_index (un_dielist un) 0))))))"

definition get_base_offset :: "nat \<Rightarrow> string \<Rightarrow> int D" where
  "get_base_offset u n = mbind (get_top_DIE u) (\<lambda>topd. lift_res (base_of topd n))"

definition get_addr :: "nat \<Rightarrow> val \<Rightarrow> val D" where
  "get_addr u index = address_at (get_base_offset u) u index"

section \<open>Entries by offset (compileunit.py)\<close>

definition get_cached_DIE :: "nat \<Rightarrow> int \<Rightarrow> die D" where
  "get_cached_DIE u offset =
     mbind (get_top_DIE u) (\<lambda>_.
     mbind (the_unit u) (\<lambda>un.
       let i = bisect_right (un_diemap un) offset in
       mbind (lift_res (py_index (un_diemap un) (int i - 1))) (\<lambda>k.
         if offset = k then lift_res (py_index (un_dielist un) (int i - 1))
         else
           mbind (parse_DIE (translate_attr_value (get_base_offset u) u) u offset) (\<lambda>d.
           mbind (set_unit u (\<lambda>un. un\<lparr>un_dielist := insert_at i d (un_dielist un),
               un_diemap := insert_at i offset (un_diemap un)\<rparr>)) (\<lambda>_. ret d)))))"

definition unit_size :: "unit_obj \<Rightarrow> int res" where
  "unit_size un = rbind (get_int (un_header un) ''unit_length'') (\<lambda>n. Ok (n + initial_length_field_size (un_structs un)))"

text \<open>A type unit has no such method.\<close>

definition unit_DIE_from_refaddr :: "nat \<Rightarrow> int \<Rightarrow> die D" where
  "unit_DIE_from_refaddr u refaddr =
     mbind (the_unit u) (\<lambda>un.
       if un_types un then raise AttributeError
       else
         mbind (if un_die_offset un \<le> refaddr then
                  mbind (lift_res (unit_size un)) (\<lambda>size. dwarf_assert (refaddr < un_offset un + size))
                else dwarf_assert False) (\<lambda>_.
           get_cached_DIE u refaddr))"

text \<open>
  \<open>iter_DIE_children\<close>, run to its end, with what is done for each child (\<open>body\<close>) before the next one is looked for;
  the result is what the body yields, child by child.  The next child is behind this one, where its
  \<^verbatim>\<open>DW_AT_sibling\<close> says, or behind the entry that ends this one's children, who are looked at for that
  (\<open>inner\<close>).  Every round is at another place in the section, or the iteration repeats itself forever: as many
  rounds as the section has bytes are enough.
\<close>

definition sibling_offset :: "unit_obj \<Rightarrow> attribute \<Rightarrow> int res" where
  "sibling_offset un a =
     (if at_form a \<in> VLit ` {''DW_FORM_ref1'', ''DW_FORM_ref2'', ''DW_FORM_ref4'', ''DW_FORM_ref8'', ''DW_FORM_ref'',
          ''DW_FORM_ref_udata''} then rbind (as_int (at_value a)) (\<lambda>i. Ok (i + un_offset un))
      else if at_form a = VLit ''DW_FORM_ref_addr'' then as_int (at_value a)
      else Err NotImplementedError)"

definition terminator :: "unit_obj \<Rightarrow> int \<Rightarrow> die option" where
  "terminator un off = (case map_of (un_terminator un) off of
       None \<Rightarrow> None
     | Some t \<Rightarrow> find (\<lambda>d. die_offset d = t) (un_dielist un))"

definition behind_children :: "(die \<Rightarrow> unit D) \<Rightarrow> nat \<Rightarrow> die \<Rightarrow> int D" where
  "behind_children inner u child =
     mbind (the_unit u) (\<lambda>un.
     mbind (if map_of (un_terminator un) (die_offset child) = None then inner child else ret ()) (\<lambda>_.
     mbind (the_unit u) (\<lambda>un. case terminator un (die_offset child) of
         None \<Rightarrow> raise AttributeError
       | Some t \<Rightarrow> ret (die_offset t + die_size t))))"

definition next_child :: "(die \<Rightarrow> unit D) \<Rightarrow> nat \<Rightarrow> die \<Rightarrow> int \<Rightarrow> int D" where
  "next_child inner u child cur_offset =
     (if \<not> die_has_children child then ret (cur_offset + die_size child)
      else case die_attr child ''DW_AT_sibling'' of
          Some a \<Rightarrow> mbind (the_unit u) (\<lambda>un. lift_res (sibling_offset un a))
        | None \<Rightarrow> behind_children inner u child)"

definition set_parent :: "nat \<Rightarrow> die \<Rightarrow> die \<Rightarrow> unit D" where
  "set_parent u child parent = set_unit u (\<lambda>un. un\<lparr>un_parent := AList.update (die_offset child) (die_offset parent) (un_parent un)\<rparr>)"

primrec children_loop :: "nat \<Rightarrow> (die \<Rightarrow> unit D) \<Rightarrow> (die \<Rightarrow> die list D) \<Rightarrow> nat \<Rightarrow> die \<Rightarrow> int \<Rightarrow> die list D" where
  "children_loop 0 inner body u d cur_offset = lift_res NoFuel"
| "children_loop (Suc fuel) inner body u d cur_offset =
     mbind (get_cached_DIE u cur_offset) (\<lambda>child.
     mbind (set_parent u child d) (\<lambda>_.
       if is_null child then
         mbind (set_unit u (\<lambda>un. un\<lparr>un_terminator := AList.update (die_offset d) (die_offset child) (un_terminator un)\<rparr>))
           (\<lambda>_. ret [])
       else
         mbind (body child) (\<lambda>xs.
         mbind (next_child inner u child cur_offset) (\<lambda>off.
         mbind (children_loop fuel inner body u d off) (\<lambda>ys. ret (xs @ ys))))))"

text \<open>The depth stands for the interpreter's recursion limit.\<close>

definition unit_bytes :: "nat \<Rightarrow> nat D" where
  "unit_bytes u = mbind (the_unit u) (\<lambda>un. in_sec (unit_section un) (\<lambda>t. (Ok (length (sdata t)), t)))"

primrec iter_DIE_children :: "nat \<Rightarrow> (die \<Rightarrow> die list D) \<Rightarrow> nat \<Rightarrow> die \<Rightarrow> die list D" where
  "iter_DIE_children 0 body u d = lift_res NoFuel"
| "iter_DIE_children (Suc depth) body u d =
     (if \<not> die_has_children d then ret []
      else mbind (unit_bytes u) (\<lambda>n.
        children_loop (n + 1) (\<lambda>c. mbind (iter_DIE_children depth (\<lambda>_. ret []) u c) (\<lambda>_. ret ())) body u d
          (die_offset d + die_size d)))"

definition iter_children :: "nat \<Rightarrow> nat \<Rightarrow> die \<Rightarrow> die list D" where
  "iter_children depth u d = iter_DIE_children depth (\<lambda>c. ret [c]) u d"

text \<open>\<open>_iter_DIE_subtree\<close>: the entry, its children's subtrees, and the null entry that ends them.\<close>

definition the_terminator :: "nat \<Rightarrow> die \<Rightarrow> die D" where
  "the_terminator u d = mbind (the_unit u) (\<lambda>un. case terminator un (die_offset d) of
     None \<Rightarrow> raise AttributeError | Some t \<Rightarrow> ret t)"

primrec iter_DIE_subtree :: "nat \<Rightarrow> nat \<Rightarrow> die \<Rightarrow> die list D" where
  "iter_DIE_subtree 0 u d = lift_res NoFuel"
| "iter_DIE_subtree (Suc depth) u d =
     (if \<not> die_has_children d then ret [d]
      else
        mbind (iter_DIE_children depth (iter_DIE_subtree depth u) u d) (\<lambda>subs.
        mbind (the_terminator u d) (\<lambda>t. ret (d # subs @ [t]))))"

definition iter_DIEs :: "nat \<Rightarrow> nat \<Rightarrow> die list D" where
  "iter_DIEs depth u = mbind (get_top_DIE u) (iter_DIE_subtree depth u)"

section \<open>Parents and siblings (die.py)\<close>

primrec search_parent :: "nat \<Rightarrow> nat \<Rightarrow> nat \<Rightarrow> die \<Rightarrow> die \<Rightarrow> unit D" where
  "search_parent 0 depth u self search = lift_res NoFuel"
| "search_parent (Suc fuel) depth u self search =
     (if die_offset search < die_offset self then
        mbind (iter_children depth u search) (\<lambda>cs.
        let prev = foldl (\<lambda>prev child. if die_offset child \<le> die_offset self then child else prev) search cs in
        mbind (if die_has_children search then
                 mbind (the_terminator u search) (\<lambda>t. ret (if die_offset t \<le> die_offset self then t else prev))
               else ret prev) (\<lambda>prev.
          if die_offset prev = die_offset search then raise ValueError
          else search_parent fuel depth u self prev))
      else ret ())"

definition parent_of :: "nat \<Rightarrow> die \<Rightarrow> die option D" where
  "parent_of u d = mbind (the_unit u) (\<lambda>un. ret (case map_of (un_parent un) (die_offset d) of
       None \<Rightarrow> None | Some p \<Rightarrow> find (\<lambda>x. die_offset x = p) (un_dielist un)))"

definition get_parent :: "nat \<Rightarrow> nat \<Rightarrow> die \<Rightarrow> die option D" where
  "get_parent depth u d =
     mbind (parent_of u d) (\<lambda>p. case p of
       Some p \<Rightarrow> ret (Some p)
     | None \<Rightarrow>
         mbind (get_top_DIE u) (\<lambda>topd.
         mbind (unit_bytes u) (\<lambda>n.
         mbind (search_parent (n + 1) depth u d topd) (\<lambda>_. parent_of u d))))"

text \<open>A generator that raises \<^verbatim>\<open>StopIteration\<close> ends in a \<^verbatim>\<open>RuntimeError\<close>.\<close>

definition iter_siblings :: "nat \<Rightarrow> nat \<Rightarrow> die \<Rightarrow> die list D" where
  "iter_siblings depth u d =
     mbind (get_parent depth u d) (\<lambda>p. case p of
       None \<Rightarrow> raise RuntimeError
     | Some p \<Rightarrow> mbind (iter_children depth u p) (\<lambda>cs. ret (filter (\<lambda>c. die_offset c \<noteq> die_offset d) cs)))"

text \<open>\<^verbatim>\<open>os.path.join\<close> of two parts, and the full path of an entry.\<close>

definition path_join :: "pystr \<Rightarrow> pystr \<Rightarrow> pystr" where
  "path_join a b =
     (if starts_with (lit ''/'') b then b
      else if a = [] \<or> ends_with (lit ''/'') a then a @ b
      else a @ lit ''/'' @ b)"

definition attr_text :: "die \<Rightarrow> string \<Rightarrow> pystr res" where
  "attr_text d n = (case die_attr d n of
       None \<Rightarrow> Ok []
     | Some a \<Rightarrow> (case at_value a of VBytes b \<Rightarrow> Ok (bytes2str b) | _ \<Rightarrow> Err AttributeError))"

definition get_full_path :: "die \<Rightarrow> pystr res" where
  "get_full_path d = rbind (attr_text d ''DW_AT_comp_dir'') (\<lambda>comp_dir.
     rbind (attr_text d ''DW_AT_name'') (\<lambda>fname. Ok (path_join comp_dir fname)))"

section \<open>Type units (typeunit.py)\<close>

text \<open>
  The class \<open>TypeUnit\<close> repeats these methods of \<open>CompileUnit\<close> line by line, over \<^verbatim>\<open>.debug_types\<close>: they are the same
  operations on a unit whose \<open>un_types\<close> is set.
\<close>

abbreviation (input) TU_abbrev_table :: "nat \<Rightarrow> abbrev_table D" where "TU_abbrev_table \<equiv> unit_abbrev_table"
abbreviation (input) TU_top_DIE :: "nat \<Rightarrow> die D" where "TU_top_DIE \<equiv> get_top_DIE"
abbreviation (input) TU_size :: "unit_obj \<Rightarrow> int res" where "TU_size \<equiv> unit_size"
abbreviation (input) TU_iter_DIEs :: "nat \<Rightarrow> nat \<Rightarrow> die list D" where "TU_iter_DIEs \<equiv> iter_DIEs"
abbreviation (input) TU_iter_DIE_children :: "nat \<Rightarrow> (die \<Rightarrow> die list D) \<Rightarrow> nat \<Rightarrow> die \<Rightarrow> die list D" where
  "TU_iter_DIE_children \<equiv> iter_DIE_children"
abbreviation (input) TU_iter_DIE_subtree :: "nat \<Rightarrow> nat \<Rightarrow> die \<Rightarrow> die list D" where
  "TU_iter_DIE_subtree \<equiv> iter_DIE_subtree"
abbreviation (input) TU_cached_DIE :: "nat \<Rightarrow> int \<Rightarrow> die D" where "TU_cached_DIE \<equiv> get_cached_DIE"

end
