(* ===== verification/DwarfInfo.thy ===== *)
theory DwarfInfo
  imports DwarfUnits DwarfCallframe PyNumerals
begin

text \<open>
  \<^verbatim>\<open>elftools/dwarf/dwarfinfo.py\<close>: finding and making units, references between entries, line programs and the
  other tables.
\<close>

section \<open>Making units\<close>

definition unit_format :: "section_name \<Rightarrow> int \<Rightarrow> int D" where
  "unit_format sec offset =
     mbind info_structs (\<lambda>ds.
     mbind (in_sec sec (parse_int (the_Dwarf_uint32 ds) (Some offset))) (\<lambda>initial_length.
       ret (if initial_length = 0xFFFFFFFF then 64 else 32)))"

definition is_supported_version :: "int \<Rightarrow> bool" where
  "is_supported_version v \<longleftrightarrow> 2 \<le> v \<and> v \<le> 5"

definition add_unit :: "unit_obj \<Rightarrow> nat D" where
  "add_unit un = (\<lambda>s. (Ok (length (dw_units s)), s\<lparr>dw_units := dw_units s @ [un]\<rparr>))"

text \<open>\<open>_parse_CU_at_offset\<close> and \<open>_parse_TU_at_offset\<close> differ in the section and the format of the header.\<close>

definition parse_unit_at_offset :: "bool \<Rightarrow> int \<Rightarrow> nat D" where
  "parse_unit_at_offset types offset =
     (let sec = (if types then Debug_types else Debug_info) in
      mbind (unit_format sec offset) (\<lambda>fmt.
      mbind get_state (\<lambda>s.
      mbind (lift_res (DWARFStructs_new (dw_le s) fmt 4 2)) (\<lambda>ds.
      mbind (in_sec sec (struct_parse (if types then Dwarf_TU_header ds else Dwarf_CU_header ds) (Some offset))) (\<lambda>header.
      mbind (lift_res (get_int header ''address_size'')) (\<lambda>asz.
      mbind (lift_res (get_int header ''version'')) (\<lambda>version.
      mbind (lift_res (DWARFStructs_new (dw_le s) fmt asz version)) (\<lambda>ds.
      mbind (in_sec sec s_pos) (\<lambda>die_offset.
      mbind (dwarf_assert (is_supported_version version)) (\<lambda>_.
        add_unit \<lparr>un_types = types, un_header = header, un_structs = ds, un_offset = offset, un_die_offset = die_offset,
          un_abbrev = None, un_dielist = [], un_diemap = [], un_parent = [], un_terminator = []\<rparr>))))))))))"

abbreviation parse_CU_at_offset :: "int \<Rightarrow> nat D" where "parse_CU_at_offset \<equiv> parse_unit_at_offset False"
abbreviation parse_TU_at_offset :: "int \<Rightarrow> nat D" where "parse_TU_at_offset \<equiv> parse_unit_at_offset True"

definition cached_CU_at_offset :: "int \<Rightarrow> nat D" where
  "cached_CU_at_offset offset = mbind get_state (\<lambda>s.
     let i = bisect_right (dw_cu_offsets s) offset in
     if i \<ge> 1 \<and> py_index (dw_cu_offsets s) (int i - 1) = Ok offset then lift_res (py_index (dw_cu_cache s) (int i - 1))
     else
       mbind (parse_CU_at_offset offset) (\<lambda>cu s.
         (Ok cu, s\<lparr>dw_cu_offsets := insert_at i offset (dw_cu_offsets s), dw_cu_cache := insert_at i cu (dw_cu_cache s)\<rparr>)))"

text \<open>The offset of the next unit; each is behind a length field of at least four bytes.\<close>

definition next_unit_offset :: "nat \<Rightarrow> int \<Rightarrow> int D" where
  "next_unit_offset u offset = mbind (the_unit u) (\<lambda>un. lift_res (rbind (unit_size un) (\<lambda>n. Ok (offset + n))))"

text \<open>
  A loop over the units in the order of the section: what it does with each of them (\<open>body\<close>, with what it has
  gathered so far) is done before the next one is made.
\<close>

primrec CUs_from :: "nat \<Rightarrow> int \<Rightarrow> (nat \<Rightarrow> 'a \<Rightarrow> 'a D) \<Rightarrow> 'a \<Rightarrow> 'a D" where
  "CUs_from 0 offset body acc = lift_res NoFuel"
| "CUs_from (Suc fuel) offset body acc =
     mbind (the_size Debug_info) (\<lambda>sz.
       if offset < sz then
         mbind (cached_CU_at_offset offset) (\<lambda>cu.
         mbind (next_unit_offset cu offset) (\<lambda>offset'.
         mbind (body cu acc) (\<lambda>acc. CUs_from fuel offset' body acc)))
       else ret acc)"

definition parse_CUs_iter :: "(nat \<Rightarrow> 'a \<Rightarrow> 'a D) \<Rightarrow> 'a \<Rightarrow> 'a D" where
  "parse_CUs_iter body acc = mbind (has_sec Debug_info) (\<lambda>there.
     if \<not> there then ret acc else mbind (the_size Debug_info) (\<lambda>sz. CUs_from (nat sz + 1) 0 body acc))"

definition iter_CUs :: "nat list D" where
  "iter_CUs = parse_CUs_iter (\<lambda>u us. ret (us @ [u])) []"

text \<open>\<^verbatim>\<open>next(self.iter_CUs())\<close>.\<close>

definition first_CU :: "nat D" where
  "first_CU = mbind (has_sec Debug_info) (\<lambda>there.
     if \<not> there then raise StopIteration
     else mbind (the_size Debug_info) (\<lambda>sz.
       if 0 < sz then mbind (cached_CU_at_offset 0) (\<lambda>cu. mbind (next_unit_offset cu 0) (\<lambda>_. ret cu))
       else raise StopIteration))"

text \<open>The first of the units from an offset on that holds an address; the ones behind it are not looked at.\<close>

primrec find_CU :: "nat \<Rightarrow> int \<Rightarrow> int \<Rightarrow> nat D" where
  "find_CU 0 offset refaddr = lift_res NoFuel"
| "find_CU (Suc fuel) offset refaddr =
     mbind (the_size Debug_info) (\<lambda>sz.
       if offset < sz then
         mbind (cached_CU_at_offset offset) (\<lambda>cu.
         mbind (next_unit_offset cu offset) (\<lambda>offset'.
         mbind (the_unit cu) (\<lambda>un.
         mbind (lift_res (unit_size un)) (\<lambda>n.
           if un_offset un \<le> refaddr \<and> refaddr < un_offset un + n then ret cu
           else find_CU fuel offset' refaddr))))
       else raise ValueError)"

definition check_info_offset :: "int \<Rightarrow> unit D" where
  "check_info_offset refaddr =
     mbind (has_sec Debug_info) (\<lambda>there. mbind (dwarf_assert there) (\<lambda>_.
     mbind (if 0 \<le> refaddr then the_size Debug_info else ret 0) (\<lambda>sz. dwarf_assert (0 \<le> refaddr \<and> refaddr < sz))))"

definition get_CU_containing :: "int \<Rightarrow> nat D" where
  "get_CU_containing refaddr =
     mbind (check_info_offset refaddr) (\<lambda>_.
     mbind get_state (\<lambda>s.
     mbind (the_size Debug_info) (\<lambda>sz.
       let i = bisect_right (dw_cu_offsets s) refaddr in
       mbind (if i > 0 then lift_res (py_index (dw_cu_offsets s) (int i - 1)) else ret 0) (\<lambda>start.
         find_CU (nat (sz - start) + 1) start refaddr))))"

definition get_CU_at :: "int \<Rightarrow> nat D" where
  "get_CU_at offset = mbind (check_info_offset offset) (\<lambda>_. cached_CU_at_offset offset)"

section \<open>Type units\<close>

primrec TUs_from :: "nat \<Rightarrow> int \<Rightarrow> (nat \<Rightarrow> 'a \<Rightarrow> 'a D) \<Rightarrow> 'a \<Rightarrow> 'a D" where
  "TUs_from 0 offset body acc = lift_res NoFuel"
| "TUs_from (Suc fuel) offset body acc =
     mbind (the_size Debug_types) (\<lambda>sz.
       if offset < sz then
         mbind (parse_TU_at_offset offset) (\<lambda>tu.
         mbind (next_unit_offset tu offset) (\<lambda>offset'.
         mbind (body tu acc) (\<lambda>acc. TUs_from fuel offset' body acc)))
       else ret acc)"

definition parse_TUs_iter :: "(nat \<Rightarrow> 'a \<Rightarrow> 'a D) \<Rightarrow> 'a \<Rightarrow> 'a D" where
  "parse_TUs_iter body acc = mbind (has_sec Debug_types) (\<lambda>there.
     if \<not> there then ret acc else mbind (the_size Debug_types) (\<lambda>sz. TUs_from (nat sz + 1) 0 body acc))"

definition iter_TUs :: "nat list D" where
  "iter_TUs = parse_TUs_iter (\<lambda>u us. ret (us @ [u])) []"

text \<open>The dictionary is made first and filled while the units are made.\<close>

definition note_type_unit :: "nat \<Rightarrow> unit \<Rightarrow> unit D" where
  "note_type_unit tu _ = mbind (the_unit tu) (\<lambda>un.
     mbind (lift_res (get_int (un_header un) ''signature'')) (\<lambda>sig s.
       (Ok (), s\<lparr>dw_by_sig := map_option (AList.update sig tu) (dw_by_sig s)\<rparr>)))"

definition parse_debug_types :: "unit D" where
  "parse_debug_types = mbind get_state (\<lambda>s.
     if dw_by_sig s \<noteq> None then ret ()
     else mbind (put_state (s\<lparr>dw_by_sig := Some []\<rparr>)) (\<lambda>_. parse_TUs_iter note_type_unit ()))"

definition get_TU_by_sig8 :: "int \<Rightarrow> nat D" where
  "get_TU_by_sig8 sig8 = mbind parse_debug_types (\<lambda>_. mbind get_state (\<lambda>s.
     case dw_by_sig s of None \<Rightarrow> raise AttributeError
     | Some m \<Rightarrow> (case map_of m sig8 of None \<Rightarrow> raise KeyError | Some tu \<Rightarrow> ret tu)))"

section \<open>References\<close>

definition get_DIE_from_refaddr :: "int \<Rightarrow> nat option \<Rightarrow> (nat \<times> die) D" where
  "get_DIE_from_refaddr refaddr cu =
     mbind (case cu of None \<Rightarrow> get_CU_containing refaddr | Some u \<Rightarrow> ret u) (\<lambda>u.
     mbind (unit_DIE_from_refaddr u refaddr) (\<lambda>d. ret (u, d)))"

definition get_DIE_from_lut_entry :: "lut_entry \<Rightarrow> (nat \<times> die) D" where
  "get_DIE_from_lut_entry e = mbind (get_CU_at (lu_cu_ofs e)) (\<lambda>cu. get_DIE_from_refaddr (lu_die_ofs e) (Some cu))"

text \<open>
  \<open>get_DIE_from_attribute\<close> of die.py.  \<^verbatim>\<open>form in ('DW_FORM_ref_addr')\<close> asks whether the form is a part of the string;
  the message of the last error formats a tuple with one \<^verbatim>\<open>%s\<close>, which is a \<^verbatim>\<open>TypeError\<close>.
\<close>

definition in_string :: "val \<Rightarrow> string \<Rightarrow> bool res" where
  "in_string v s = (case v of VStr t \<Rightarrow> Ok (occurs_in t (lit s)) | _ \<Rightarrow> Err TypeError)"

definition get_DIE_from_attribute :: "nat \<Rightarrow> die \<Rightarrow> string \<Rightarrow> (nat \<times> die) D" where
  "get_DIE_from_attribute u d n = (case die_attr d n of
       None \<Rightarrow> raise KeyError
     | Some a \<Rightarrow>
         if at_form a \<in> VLit ` {''DW_FORM_ref1'', ''DW_FORM_ref2'', ''DW_FORM_ref4'', ''DW_FORM_ref8'', ''DW_FORM_ref'', ''DW_FORM_ref_udata''} then
           mbind (the_unit u) (\<lambda>un.
           mbind (lift_res (as_int (at_raw a))) (\<lambda>raw.
           mbind (unit_DIE_from_refaddr u (un_offset un + raw)) (\<lambda>d. ret (u, d))))
         else
           mbind (lift_res (in_string (at_form a) ''DW_FORM_ref_addr'')) (\<lambda>addr.
             if addr then mbind (lift_res (as_int (at_raw a))) (\<lambda>raw. get_DIE_from_refaddr raw None)
             else
               mbind (lift_res (in_string (at_form a) ''DW_FORM_ref_sig8'')) (\<lambda>sig8.
                 if sig8 then raise NotImplementedError
                 else if at_form a \<in> VLit ` {''DW_FORM_ref_sup4'', ''DW_FORM_ref_sup8'', ''DW_FORM_GNU_ref_alt''} then
                   raise NotImplementedError
                 else raise TypeError)))"

section \<open>Line programs\<close>

text \<open>\<open>replace_value\<close>: one field of every entry of a list, through a lookup; the strings of DWARF 5.\<close>

primrec replace_value :: "(val \<Rightarrow> val D) \<Rightarrow> string \<Rightarrow> val list \<Rightarrow> val list D" where
  "replace_value replacer k [] = ret []"
| "replace_value replacer k (e # es) =
     mbind (lift_res (get_item e k)) (\<lambda>v.
     mbind (replacer v) (\<lambda>v'.
     mbind (lift_res (put_item e k v')) (\<lambda>e'.
     mbind (replace_value replacer k es) (\<lambda>es'. ret (e' # es')))))"

definition str_of :: "val \<Rightarrow> val D" where
  "str_of v = mbind (lift_res (as_int v)) (\<lambda>i. ret (VStr (py_str i)))"

definition resolve_field :: "val \<Rightarrow> val list \<Rightarrow> val list D" where
  "resolve_field field data =
     mbind (lift_res (get_attr field ''form'')) (\<lambda>form.
       if form \<in> VLit ` {''DW_FORM_line_strp'', ''DW_FORM_strp'', ''DW_FORM_strp_sup'', ''DW_FORM_GNU_strp_alt''} then
         mbind (lift_res (get_attr field ''content_type'')) (\<lambda>k. case k of
             VStr k \<Rightarrow> replace_value (if form = VLit ''DW_FORM_line_strp'' then get_string_from_linetable
                 else if form = VLit ''DW_FORM_strp'' then get_string_from_table else str_of) (unlit k) data
           | _ \<Rightarrow> (if data = [] then ret [] else raise KeyError))
       else if form \<in> VLit ` {''DW_FORM_strx'', ''DW_FORM_strx1'', ''DW_FORM_strx2'', ''DW_FORM_strx3'', ''DW_FORM_strx4''} then
         raise NotImplementedError
       else ret data)"

primrec resolve_fields :: "val list \<Rightarrow> val list \<Rightarrow> val list D" where
  "resolve_fields [] data = ret data"
| "resolve_fields (f # fs) data = mbind (resolve_field f data) (\<lambda>data. resolve_fields fs data)"

definition get_default :: "val \<Rightarrow> string \<Rightarrow> val \<Rightarrow> val" where
  "get_default v k d = (case get_item v k of Ok x \<Rightarrow> x | _ \<Rightarrow> d)"

definition resolve_strings :: "string \<Rightarrow> string \<Rightarrow> val \<Rightarrow> val D" where
  "resolve_strings format_field data_field header =
     (if truthy (get_default header format_field (VBool False)) then
        mbind (lift_res (rbind (get_item header data_field) viter)) (\<lambda>data.
        mbind (lift_res (rbind (get_item header format_field) viter)) (\<lambda>fields.
        mbind (resolve_fields fields data) (\<lambda>data'. lift_res (put_item header data_field (VList data')))))
      else ret header)"

text \<open>The arrays of names as before DWARF 5.\<close>

definition legacy_file :: "val \<Rightarrow> val" where
  "legacy_file e = VCont [(''name'', get_default e ''DW_LNCT_path'' VNone),
     (''dir_index'', get_default e ''DW_LNCT_directory_index'' VNone),
     (''mtime'', get_default e ''DW_LNCT_timestamp'' VNone),
     (''length'', get_default e ''DW_LNCT_size'' VNone)]"

definition legacy_names :: "val \<Rightarrow> val res" where
  "legacy_names header =
     rbind (if truthy (get_default header ''directories'' (VBool False)) then
              rbind (rbind (get_attr header ''directories'') viter) (\<lambda>ds.
              rbind (rmap (\<lambda>d. get_attr d ''DW_LNCT_path'') ds) (\<lambda>paths. put_item header ''include_directory'' (VTuple paths)))
            else Ok header) (\<lambda>header.
       if truthy (get_default header ''file_names'' (VBool False)) then
         rbind (rbind (get_attr header ''file_names'') viter) (\<lambda>es. put_item header ''file_entry'' (VTuple (map legacy_file es)))
       else Ok header)"

definition parse_line_program_at_offset :: "int \<Rightarrow> dwarf_structs \<Rightarrow> line_program D" where
  "parse_line_program_at_offset offset ds = mbind get_state (\<lambda>s. case map_of (dw_linetables s) offset of
       Some lp \<Rightarrow> ret lp
     | None \<Rightarrow>
         mbind (in_sec Debug_line (struct_parse (Dwarf_lineprog_header ds) (Some offset))) (\<lambda>header.
         mbind (resolve_strings ''directory_entry_format'' ''directories'' header) (\<lambda>header.
         mbind (resolve_strings ''file_name_entry_format'' ''file_names'' header) (\<lambda>header.
         mbind (lift_res (legacy_names header)) (\<lambda>header.
         mbind (lift_res (get_int header ''unit_length'')) (\<lambda>len.
         mbind (in_sec Debug_line s_pos) (\<lambda>p s.
           let lp = \<lparr>lp_header = header, lp_structs = ds, lp_start = p,
             lp_end = offset + len + initial_length_field_size ds\<rparr> in
           (Ok lp, s\<lparr>dw_linetables := AList.update offset lp (dw_linetables s)\<rparr>))))))))"

definition line_program_for_CU :: "nat \<Rightarrow> line_program option D" where
  "line_program_for_CU u = mbind (get_top_DIE u) (\<lambda>topd. case die_attr topd ''DW_AT_stmt_list'' of
       None \<Rightarrow> ret None
     | Some a \<Rightarrow>
         mbind (lift_res (as_int (at_value a))) (\<lambda>off.
         mbind (the_unit u) (\<lambda>un.
         mbind (parse_line_program_at_offset off (un_structs un)) (\<lambda>lp. ret (Some lp)))))"

section \<open>Call frames, tables and links\<close>

definition frame_entries :: "section_name \<Rightarrow> bool \<Rightarrow> nat \<Rightarrow> cfi_entry list D" where
  "frame_entries sec for_eh depth =
     mbind (the_size sec) (\<lambda>sz.
     mbind info_structs (\<lambda>ds.
     mbind get_state (\<lambda>s.
       let ci = \<lparr>ci_size = sz, ci_address = (case dw_secs s sec of None \<Rightarrow> 0 | Some d \<Rightarrow> sec_address d), ci_base = ds,
         ci_for_eh = for_eh\<rparr> in
       in_sec sec (\<lambda>t. case get_entries depth ci \<lparr>cs_stream = t, cs_cache = [], cs_entries = None\<rparr> of
         (r, c) \<Rightarrow> (r, cs_stream c)))))"

definition CFI_entries :: "nat \<Rightarrow> cfi_entry list D" where
  "CFI_entries = frame_entries Debug_frame False"

definition EH_CFI_entries :: "nat \<Rightarrow> cfi_entry list D" where
  "EH_CFI_entries = frame_entries Eh_frame True"

definition has_CFI :: "bool D" where
  "has_CFI = has_sec Debug_frame"

definition has_EH_CFI :: "bool D" where
  "has_EH_CFI = has_sec Eh_frame"

definition get_aranges :: "aranges option D" where
  "get_aranges = mbind (has_sec Debug_aranges) (\<lambda>there.
     if there then
       mbind (the_size Debug_aranges) (\<lambda>sz.
       mbind info_structs (\<lambda>ds.
       mbind (in_sec Debug_aranges (ARanges_init ds sz)) (\<lambda>a. ret (Some a))))
     else ret None)"

definition name_table :: "section_name \<Rightarrow> name_lut option D" where
  "name_table sec = mbind (has_sec sec) (\<lambda>there.
     if there then
       mbind (the_size sec) (\<lambda>sz.
       mbind info_structs (\<lambda>ds. ret (Some \<lparr>nl_structs = ds, nl_size = sz, nl_entries = None, nl_headers = None\<rparr>)))
     else ret None)"

definition get_pubtypes :: "name_lut option D" where
  "get_pubtypes = name_table Debug_pubtypes"

definition get_pubnames :: "name_lut option D" where
  "get_pubnames = name_table Debug_pubnames"

definition link_name :: "section_name \<Rightarrow> (dwarf_structs \<Rightarrow> con) \<Rightarrow> (val \<Rightarrow> val option res) \<Rightarrow> (unit \<Rightarrow> val D) \<Rightarrow> val D" where
  "link_name sec fmt pick otherwise = mbind (has_sec sec) (\<lambda>there.
     if \<not> there then otherwise ()
     else
       mbind (in_sec sec (s_seek 0)) (\<lambda>_.
       mbind info_structs (\<lambda>ds.
       mbind (in_sec sec (parse_stream (fmt ds))) (\<lambda>v.
       mbind (lift_res (pick v)) (\<lambda>r. case r of Some name \<Rightarrow> ret name | None \<Rightarrow> otherwise ())))))"

definition parse_debugsupinfo :: "val D" where
  "parse_debugsupinfo =
     link_name Debug_sup Dwarf_debugsup
       (\<lambda>v. rbind (get_attr v ''is_supplementary'') (\<lambda>f.
          if py_eq f (VInt 0) then rbind (get_attr v ''sup_filename'') (\<lambda>n. Ok (Some n)) else Ok None))
       (\<lambda>_. link_name Gnu_debugaltlink Dwarf_debugaltlink (\<lambda>v. rbind (get_attr v ''sup_filename'') (\<lambda>n. Ok (Some n)))
         (\<lambda>_. link_name Gnu_debuglink Dwarf_debuglink (\<lambda>v. rbind (get_attr v ''sup_filename'') (\<lambda>n. Ok (Some n)))
           (\<lambda>_. ret VNone)))"

end
