(* ===== verification/DwarfLists.thy ===== *)
theory DwarfLists
  imports DwarfInfo
begin

text \<open>
  Lists of address ranges: \<^verbatim>\<open>elftools/dwarf/ranges.py\<close>.  A generator is
  the list of what it yields when run to its end; of the entries of a unit it is run before its consumer.
\<close>

definition attr_int :: "val \<Rightarrow> string \<Rightarrow> int res" where
  "attr_int e n = rbind (get_attr e n) as_int"

text \<open>\<^verbatim>\<open>cu.dwarfinfo.get_addr(cu, e.n)\<close>, where the unit may be \<^verbatim>\<open>None\<close>.\<close>

definition addr_of :: "nat option \<Rightarrow> val \<Rightarrow> string \<Rightarrow> int D" where
  "addr_of cu e n = (case cu of
       None \<Rightarrow> raise AttributeError
     | Some u \<Rightarrow> mbind (lift_res (get_attr e n)) (\<lambda>i. mbind (get_addr u i) (\<lambda>v. lift_res (as_int v))))"

definition field_of :: "val \<Rightarrow> string \<Rightarrow> int D" where
  "field_of e n = lift_res (attr_int e n)"

section \<open>Ranges (ranges.py)\<close>

datatype range_item =
    RangeEntry (re_offset: int) (re_length: int) (re_begin: int) (re_end: int) (re_absolute: bool)
  | BaseAddressEntry (re_offset: int) (re_base: int)

definition range_entry :: "val \<Rightarrow> int D \<Rightarrow> (int \<Rightarrow> int D) \<Rightarrow> bool \<Rightarrow> range_item D" where
  "range_entry e first last_of absolute =
     mbind (field_of e ''entry_offset'') (\<lambda>off.
     mbind (field_of e ''entry_length'') (\<lambda>len.
     mbind first (\<lambda>b. mbind (last_of b) (\<lambda>n. ret (RangeEntry off len b n absolute)))))"

definition base_entry :: "val \<Rightarrow> int D \<Rightarrow> range_item D" where
  "base_entry e base = mbind (field_of e ''entry_offset'') (\<lambda>off. mbind base (\<lambda>b. ret (BaseAddressEntry off b)))"

definition startx_length :: "nat option \<Rightarrow> val \<Rightarrow> range_item D" where
  "startx_length cu e =
     mbind (addr_of cu e ''start_index'') (\<lambda>start.
       range_entry e (ret start) (\<lambda>b. mbind (field_of e ''length'') (\<lambda>n. ret (b + n))) True)"

definition translate_range_entry :: "nat option \<Rightarrow> val \<Rightarrow> range_item D" where
  "translate_range_entry cu e =
     mbind (lift_res (get_attr e ''entry_type'')) (\<lambda>ty.
       if ty = VLit ''DW_RLE_base_address'' then base_entry e (field_of e ''address'')
       else if ty = VLit ''DW_RLE_offset_pair'' then
         range_entry e (field_of e ''start_offset'') (\<lambda>_. field_of e ''end_offset'') False
       else if ty = VLit ''DW_RLE_start_end'' then
         range_entry e (field_of e ''start_address'') (\<lambda>_. field_of e ''end_address'') True
       else if ty = VLit ''DW_RLE_start_length'' then
         range_entry e (field_of e ''start_address'') (\<lambda>b. mbind (field_of e ''length'') (\<lambda>n. ret (b + n))) True
       else if ty = VLit ''DW_RLE_base_addressx'' then base_entry e (addr_of cu e ''index'')
       else if ty = VLit ''DW_RLE_startx_endx'' then
         range_entry e (addr_of cu e ''start_index'') (\<lambda>_. addr_of cu e ''end_index'') True
       else if ty = VLit ''DW_RLE_startx_length'' then startx_length cu e
       else raise KeyError)"

record range_lists =
  rl_sec :: section_name
  rl_structs :: dwarf_structs
  rl_version :: int

definition max_addr :: "dwarf_structs \<Rightarrow> int" where
  "max_addr ds = 2 ^ nat (address_size ds * 8) - 1"

text \<open>A list of version 4: pairs of addresses up to a pair of zeros.\<close>

primrec range_loop :: "nat \<Rightarrow> dwarf_structs \<Rightarrow> range_item list S" where
  "range_loop 0 ds = lift_res NoFuel"
| "range_loop (Suc fuel) ds =
     mbind s_pos (\<lambda>entry_offset.
     mbind (parse_int (the_Dwarf_target_addr ds) None) (\<lambda>begin_offset.
     mbind (parse_int (the_Dwarf_target_addr ds) None) (\<lambda>end_offset.
       if begin_offset = 0 \<and> end_offset = 0 then ret []
       else
         mbind (if begin_offset = max_addr ds then ret (BaseAddressEntry entry_offset end_offset)
                else mbind s_pos (\<lambda>p. ret (RangeEntry entry_offset (p - entry_offset) begin_offset end_offset False))) (\<lambda>e.
         mbind (range_loop fuel ds) (\<lambda>es. ret (e # es))))))"

definition parse_range_list :: "range_lists \<Rightarrow> nat option \<Rightarrow> range_item list D" where
  "parse_range_list rl cu =
     (if rl_version rl \<ge> 5 then
        mbind (in_sec (rl_sec rl) (struct_parse (Dwarf_rnglists_entries (rl_structs rl)) None)) (\<lambda>v.
        mbind (lift_res (viter v)) (\<lambda>es. mmap (translate_range_entry cu) es))
      else in_sec (rl_sec rl) (\<lambda>t. range_loop (remaining t + 1) (rl_structs rl) t))"

definition get_range_list_at_offset :: "range_lists \<Rightarrow> int \<Rightarrow> nat option \<Rightarrow> range_item list D" where
  "get_range_list_at_offset rl offset cu =
     mbind (in_sec (rl_sec rl) (s_seek offset)) (\<lambda>_. parse_range_list rl cu)"

definition get_range_list_at_offset_ex :: "range_lists \<Rightarrow> int \<Rightarrow> val D" where
  "get_range_list_at_offset_ex rl offset =
     in_sec (rl_sec rl) (struct_parse (Dwarf_rnglists_entries (rl_structs rl)) (Some offset))"

definition unit_version :: "nat \<Rightarrow> int D" where
  "unit_version u = mbind (the_unit u) (\<lambda>un. lift_res (get_int (un_header un) ''version''))"

text \<open>Which unit a list belongs to: a dictionary by offset, filled entry by entry.\<close>

primrec note_ranges :: "bool \<Rightarrow> int \<Rightarrow> nat \<Rightarrow> die list \<Rightarrow> (int \<times> nat) list \<Rightarrow> (int \<times> nat) list res" where
  "note_ranges v5 version u [] m = Ok m"
| "note_ranges v5 version u (d # ds) m = (case die_attr d ''DW_AT_ranges'' of
       None \<Rightarrow> note_ranges v5 version u ds m
     | Some a \<Rightarrow>
         if (version \<ge> 5) = v5 then
           rbind (as_int (at_value a)) (\<lambda>off. note_ranges v5 version u ds (AList.update off u m))
         else note_ranges v5 version u ds m)"

definition range_map :: "nat \<Rightarrow> bool \<Rightarrow> nat \<Rightarrow> (int \<times> nat) list \<Rightarrow> (int \<times> nat) list D" where
  "range_map depth v5 u m =
     mbind (iter_DIEs depth u) (\<lambda>ds.
     mbind (unit_version u) (\<lambda>version. lift_res (note_ranges v5 version u ds m)))"

definition iter_range_lists :: "nat \<Rightarrow> range_lists \<Rightarrow> range_item list list D" where
  "iter_range_lists depth rl =
     mbind (parse_CUs_iter (range_map depth (rl_version rl \<ge> 5)) []) (\<lambda>m.
       mmap (\<lambda>off. get_range_list_at_offset rl off (map_of m off)) (sort (map fst m)))"

definition range_list_units :: "range_lists \<Rightarrow> val list D" where
  "range_list_units rl =
     (if rl_version rl < 5 then raise DWARFError
      else mbind first_CU (\<lambda>u. mbind (the_unit u) (\<lambda>un.
        in_sec (rl_sec rl) (iter_CUs_in_section (un_structs un) (Dwarf_rnglists_CU_header (un_structs un))))))"

text \<open>The lists of a unit's header, untranslated.\<close>

primrec lists_until :: "nat \<Rightarrow> con \<Rightarrow> int \<Rightarrow> val list S" where
  "lists_until 0 c stop = lift_res NoFuel"
| "lists_until (Suc fuel) c stop =
     mbind s_pos (\<lambda>p.
       if p < stop then mbind (struct_parse c None) (\<lambda>v. mbind (lists_until fuel c stop) (\<lambda>vs. ret (v # vs)))
       else ret [])"

definition iter_CU_range_lists_ex :: "range_lists \<Rightarrow> val \<Rightarrow> val list D" where
  "iter_CU_range_lists_ex rl cu =
     mbind (field_of cu ''offset_table_offset'') (\<lambda>table.
     mbind (lift_res (get_attr cu ''is64'')) (\<lambda>is64.
     mbind (field_of cu ''offset_count'') (\<lambda>count.
     mbind (in_sec (rl_sec rl) (s_seek (table + (if truthy is64 then 64 else 32) * count))) (\<lambda>_.
     mbind (field_of cu ''offset_after_length'') (\<lambda>start.
     mbind (field_of cu ''unit_length'') (\<lambda>len.
       in_sec (rl_sec rl) (\<lambda>t. lists_until (remaining t + 1) (Dwarf_rnglists_entries (rl_structs rl)) (start + len) t)))))))"

text \<open>Both sections: the version of the unit decides.\<close>

datatype range_source = OneRanges range_lists | RangesPair range_lists range_lists

definition range_lists_of :: "range_source option D" where
  "range_lists_of =
     mbind info_structs (\<lambda>ds.
     mbind (has_sec Debug_rnglists) (\<lambda>v5.
     mbind (has_sec Debug_ranges) (\<lambda>v4.
       let r5 = \<lparr>rl_sec = Debug_rnglists, rl_structs = ds, rl_version = 5\<rparr>;
           r4 = \<lparr>rl_sec = Debug_ranges, rl_structs = ds, rl_version = 4\<rparr> in
       ret (if v5 \<and> \<not> v4 then Some (OneRanges r5) else if v4 \<and> \<not> v5 then Some (OneRanges r4)
            else if v4 \<and> v5 then Some (RangesPair r4 r5) else None))))"

definition source_range_list :: "range_source \<Rightarrow> int \<Rightarrow> nat option \<Rightarrow> range_item list D" where
  "source_range_list src offset cu = (case src of
       OneRanges rl \<Rightarrow> get_range_list_at_offset rl offset cu
     | RangesPair r4 r5 \<Rightarrow> (case cu of
           None \<Rightarrow> raise DWARFError
         | Some u \<Rightarrow> mbind (unit_version u) (\<lambda>v. get_range_list_at_offset (if v \<ge> 5 then r5 else r4) offset cu)))"

definition source_iter_range_lists :: "nat \<Rightarrow> range_source \<Rightarrow> range_item list list D" where
  "source_iter_range_lists depth src = (case src of
       OneRanges rl \<Rightarrow> iter_range_lists depth rl | RangesPair r4 r5 \<Rightarrow> raise DWARFError)"

text \<open>The interface of version 5, on whichever object there is.\<close>

definition source_v5 :: "range_source \<Rightarrow> range_lists" where
  "source_v5 src = (case src of OneRanges rl \<Rightarrow> rl | RangesPair r4 r5 \<Rightarrow> r5)"

end
