(* ===== verification/LocationLists.thy ===== *)
theory LocationLists
  imports DwarfLists
begin

text \<open>
  Lists of locations: \<^verbatim>\<open>elftools/dwarf/locationlists.py\<close>.  An entry that is passed along is only asked for its
  unit; the generator \<open>iter_location_lists\<close> is run to its end.
\<close>

section \<open>The entries of a list\<close>

datatype location_item =
    LocationEntry (le_offset: int) (le_length: int) (le_begin: int) (le_end: int) (le_expr: val) (le_absolute: bool)
  | LocBaseAddressEntry (le_offset: int) (le_length: int) (le_base: int)
  | LocationViewPair (le_offset: int) (lv_begin: int) (lv_end: int)

definition location_entry :: "val \<Rightarrow> int D \<Rightarrow> (int \<Rightarrow> int D) \<Rightarrow> bool \<Rightarrow> location_item D" where
  "location_entry e first last_of absolute =
     mbind (field_of e ''entry_offset'') (\<lambda>off.
     mbind (field_of e ''entry_length'') (\<lambda>len.
     mbind first (\<lambda>b.
     mbind (last_of b) (\<lambda>n.
     mbind (lift_res (get_attr e ''loc_expr'')) (\<lambda>x. ret (LocationEntry off len b n x absolute))))))"

definition loc_base_entry :: "val \<Rightarrow> int D \<Rightarrow> location_item D" where
  "loc_base_entry e base =
     mbind (field_of e ''entry_offset'') (\<lambda>off.
     mbind (field_of e ''entry_length'') (\<lambda>len. mbind base (\<lambda>b. ret (LocBaseAddressEntry off len b))))"

definition loc_startx_length :: "nat option \<Rightarrow> val \<Rightarrow> location_item D" where
  "loc_startx_length cu e =
     mbind (addr_of cu e ''start_index'') (\<lambda>start.
       location_entry e (ret start) (\<lambda>b. mbind (field_of e ''length'') (\<lambda>n. ret (b + n))) True)"

definition translate_location_entry :: "nat option \<Rightarrow> val \<Rightarrow> location_item D" where
  "translate_location_entry cu e =
     mbind (lift_res (get_attr e ''entry_type'')) (\<lambda>ty.
       if ty = VLit ''DW_LLE_base_address'' then loc_base_entry e (field_of e ''address'')
       else if ty = VLit ''DW_LLE_offset_pair'' then
         location_entry e (field_of e ''start_offset'') (\<lambda>_. field_of e ''end_offset'') False
       else if ty = VLit ''DW_LLE_start_length'' then
         location_entry e (field_of e ''start_address'') (\<lambda>b. mbind (field_of e ''length'') (\<lambda>n. ret (b + n))) True
       else if ty = VLit ''DW_LLE_start_end'' then
         location_entry e (field_of e ''start_address'') (\<lambda>_. field_of e ''end_address'') True
       else if ty = VLit ''DW_LLE_default_location'' then location_entry e (ret (- 1)) (\<lambda>_. ret (- 1)) True
       else if ty = VLit ''DW_LLE_base_addressx'' then loc_base_entry e (addr_of cu e ''index'')
       else if ty = VLit ''DW_LLE_startx_endx'' then
         location_entry e (addr_of cu e ''start_index'') (\<lambda>_. addr_of cu e ''end_index'') True
       else if ty = VLit ''DW_LLE_startx_length'' then loc_startx_length cu e
       else raise KeyError)"

section \<open>One list (LocationLists)\<close>

record location_lists =
  ll_sec :: section_name
  ll_structs :: dwarf_structs
  ll_version :: int

text \<open>A list of version 4: pairs of addresses, each with a counted expression, up to a pair of zeros.\<close>

definition location_v4 :: "dwarf_structs \<Rightarrow> int \<Rightarrow> int \<Rightarrow> int \<Rightarrow> location_item S" where
  "location_v4 ds eoff begin_offset end_offset =
     (if begin_offset = max_addr ds then mbind s_pos (\<lambda>p. ret (LocBaseAddressEntry eoff (p - eoff) end_offset))
      else
        mbind (parse_int (the_Dwarf_uint16 ds) None) (\<lambda>expr_len.
        mbind (mmap (\<lambda>_. struct_parse (the_Dwarf_uint8 ds) None) [0..<nat expr_len]) (\<lambda>loc_expr.
        mbind s_pos (\<lambda>p.
          ret (LocationEntry eoff (p - eoff) begin_offset end_offset (VList loc_expr) False)))))"

primrec location_loop :: "nat \<Rightarrow> dwarf_structs \<Rightarrow> location_item list S" where
  "location_loop 0 ds = lift_res NoFuel"
| "location_loop (Suc fuel) ds =
     mbind s_pos (\<lambda>entry_offset.
     mbind (parse_int (the_Dwarf_target_addr ds) None) (\<lambda>begin_offset.
     mbind (parse_int (the_Dwarf_target_addr ds) None) (\<lambda>end_offset.
       if begin_offset = 0 \<and> end_offset = 0 then ret []
       else
         mbind (location_v4 ds entry_offset begin_offset end_offset) (\<lambda>e.
         mbind (location_loop fuel ds) (\<lambda>es. ret (e # es))))))"

definition parse_location_list_v4 :: "location_lists \<Rightarrow> location_item list D" where
  "parse_location_list_v4 ll = in_sec (ll_sec ll) (\<lambda>t. location_loop (remaining t + 1) (ll_structs ll) t)"

definition parse_location_list_v5 :: "location_lists \<Rightarrow> nat option \<Rightarrow> location_item list D" where
  "parse_location_list_v5 ll cu =
     mbind (in_sec (ll_sec ll) (struct_parse (Dwarf_loclists_entries (ll_structs ll)) None)) (\<lambda>v.
     mbind (lift_res (viter v)) (\<lambda>es. mmap (translate_location_entry cu) es))"

text \<open>The list at an offset; \<open>cu\<close> is the unit of the entry that is passed along, if one is.\<close>

definition get_location_list_at_offset :: "location_lists \<Rightarrow> int \<Rightarrow> nat option \<Rightarrow> location_item list D" where
  "get_location_list_at_offset ll offset cu =
     (if ll_version ll \<ge> 5 \<and> cu = None then raise DWARFError
      else
        mbind (in_sec (ll_sec ll) (s_seek offset)) (\<lambda>_.
          if ll_version ll \<ge> 5 then parse_location_list_v5 ll cu else parse_location_list_v4 ll))"

section \<open>Which attributes hold locations (LocationParser)\<close>

text \<open>The form of an attribute that was read is always a string.\<close>

definition form_starts_with :: "val \<Rightarrow> string \<Rightarrow> bool" where
  "form_starts_with form p = (case form of VStr s \<Rightarrow> starts_with (lit p) s | _ \<Rightarrow> False)"

definition data_forms :: "val set" where
  "data_forms = VLit ` {''DW_FORM_data1'', ''DW_FORM_data2'', ''DW_FORM_data4'', ''DW_FORM_data8''}"

definition attribute_is_constant :: "attribute \<Rightarrow> int \<Rightarrow> bool" where
  "attribute_is_constant a version \<longleftrightarrow>
     ((version \<ge> 3 \<and> at_name a = VLit ''DW_AT_data_member_location'') \<or>
      at_name a \<in> VLit ` {''DW_AT_upper_bound'', ''DW_AT_count''}) \<and>
     at_form a \<in> data_forms \<union> VLit ` {''DW_FORM_sdata'', ''DW_FORM_udata''}"

definition attribute_has_loc_expr :: "attribute \<Rightarrow> int \<Rightarrow> bool" where
  "attribute_has_loc_expr a version \<longleftrightarrow>
     version < 4 \<and> form_starts_with (at_form a) ''DW_FORM_block'' \<and> at_name a \<noteq> VLit ''DW_AT_const_value'' \<or>
     at_form a = VLit ''DW_FORM_exprloc''"

definition attribute_has_loc_list :: "attribute \<Rightarrow> int \<Rightarrow> bool" where
  "attribute_has_loc_list a version \<longleftrightarrow>
     (version < 4 \<and> at_form a \<in> data_forms \<and> at_name a \<noteq> VLit ''DW_AT_const_value'' \<or>
      at_form a \<in> VLit ` {''DW_FORM_sec_offset'', ''DW_FORM_loclistx''}) \<and>
     \<not> attribute_is_constant a version"

definition attribute_is_loclistptr_class :: "attribute \<Rightarrow> bool" where
  "attribute_is_loclistptr_class a \<longleftrightarrow> at_name a \<in> VLit `
     {''DW_AT_location'', ''DW_AT_string_length'', ''DW_AT_const_value'', ''DW_AT_return_addr'',
      ''DW_AT_data_member_location'', ''DW_AT_frame_base'', ''DW_AT_segment'', ''DW_AT_static_link'',
      ''DW_AT_use_location'', ''DW_AT_vtable_elem_location'', ''DW_AT_call_value'', ''DW_AT_GNU_call_site_value'',
      ''DW_AT_GNU_call_site_target'', ''DW_AT_GNU_call_site_data_value'', ''DW_AT_call_target'',
      ''DW_AT_call_target_clobbered'', ''DW_AT_call_data_location'', ''DW_AT_call_data_value'',
      ''DW_AT_upper_bound'', ''DW_AT_count''}"

definition attribute_has_location :: "attribute \<Rightarrow> int \<Rightarrow> bool" where
  "attribute_has_location a version \<longleftrightarrow>
     attribute_is_loclistptr_class a \<and> (attribute_has_loc_expr a version \<or> attribute_has_loc_list a version)"

section \<open>All lists of the section\<close>

text \<open>What the entries refer to: the offsets to read at, the lists behind view pairs, the unit of each list.\<close>

record loc_refs =
  lr_offsets :: "int list"
  lr_views :: "(int \<times> int) list"
  lr_units :: "(int \<times> nat) list"

definition note_views :: "int \<Rightarrow> nat \<Rightarrow> die \<Rightarrow> loc_refs \<Rightarrow> loc_refs res" where
  "note_views version u d m = (case die_attr d ''DW_AT_GNU_locviews'' of
       None \<Rightarrow> Ok m
     | Some v \<Rightarrow> (case die_attr d ''DW_AT_location'' of
         None \<Rightarrow> Err AssertionError
       | Some a \<Rightarrow>
           if \<not> attribute_has_loc_list a version then Err AssertionError
           else rbind (as_int (at_value v)) (\<lambda>views_offset. rbind (as_int (at_value a)) (\<lambda>list_offset.
             Ok \<lparr>lr_offsets = List.insert views_offset (lr_offsets m),
               lr_views = AList.update views_offset list_offset (lr_views m),
               lr_units = AList.update list_offset u (lr_units m)\<rparr>))))"

primrec note_attributes :: "int \<Rightarrow> nat \<Rightarrow> bool \<Rightarrow> (val \<times> attribute) list \<Rightarrow> loc_refs \<Rightarrow> loc_refs res" where
  "note_attributes version u views [] m = Ok m"
| "note_attributes version u views (ka # attrs) m =
     (if (fst ka \<noteq> VLit ''DW_AT_location'' \<or> \<not> views) \<and> attribute_has_location (snd ka) version \<and>
          attribute_has_loc_list (snd ka) version then
        rbind (as_int (at_value (snd ka))) (\<lambda>list_offset. note_attributes version u views attrs
          (m\<lparr>lr_offsets := List.insert list_offset (lr_offsets m), lr_units := AList.update list_offset u (lr_units m)\<rparr>))
      else note_attributes version u views attrs m)"

primrec note_entries :: "int \<Rightarrow> nat \<Rightarrow> die list \<Rightarrow> loc_refs \<Rightarrow> loc_refs res" where
  "note_entries version u [] m = Ok m"
| "note_entries version u (d # ds) m =
     rbind (note_views version u d m) (\<lambda>m.
     rbind (note_attributes version u (die_attr d ''DW_AT_GNU_locviews'' \<noteq> None) (die_attributes d) m) (\<lambda>m.
       note_entries version u ds m))"

definition note_unit :: "nat \<Rightarrow> bool \<Rightarrow> nat \<Rightarrow> loc_refs \<Rightarrow> loc_refs D" where
  "note_unit depth v5 u m =
     mbind (unit_version u) (\<lambda>version.
       if (version \<ge> 5) = v5 then mbind (iter_DIEs depth u) (\<lambda>ds. lift_res (note_entries version u ds m))
       else ret m)"

text \<open>The view pairs in front of a list; a pair takes at least two bytes.\<close>

primrec locview_loop :: "nat \<Rightarrow> dwarf_structs \<Rightarrow> int \<Rightarrow> location_item list S" where
  "locview_loop 0 ds list_offset = lift_res NoFuel"
| "locview_loop (Suc fuel) ds list_offset =
     mbind s_pos (\<lambda>p.
       if p < list_offset then
         mbind (struct_parse (Dwarf_locview_pair ds) None) (\<lambda>pair.
         mbind (lift_res (attr_int pair ''entry_offset'')) (\<lambda>off.
         mbind (lift_res (attr_int pair ''begin'')) (\<lambda>b.
         mbind (lift_res (attr_int pair ''end'')) (\<lambda>e.
         mbind (locview_loop fuel ds list_offset) (\<lambda>ps. ret (LocationViewPair off b e # ps))))))
       else if p = list_offset then ret []
       else raise AssertionError)"

definition parse_locview_pairs :: "location_lists \<Rightarrow> (int \<times> int) list \<Rightarrow> location_item list D" where
  "parse_locview_pairs ll locviews =
     in_sec (ll_sec ll) (mbind s_pos (\<lambda>p. case map_of locviews p of
         None \<Rightarrow> ret []
       | Some list_offset \<Rightarrow> (\<lambda>t. locview_loop (remaining t + 1) (ll_structs ll) list_offset t)))"

text \<open>
  The lists of a section of version 5, unit by unit.  A round reads the next object or moves to it (or to the
  end of the unit), so there are at most twice as many rounds as objects, and one more.
\<close>

definition loc_object :: "location_lists \<Rightarrow> loc_refs \<Rightarrow> location_item list D" where
  "loc_object ll m =
     mbind (parse_locview_pairs ll (lr_views m)) (\<lambda>pairs.
     mbind (in_sec (ll_sec ll) s_pos) (\<lambda>p. case map_of (lr_units m) p of
         None \<Rightarrow> raise KeyError
       | Some cu \<Rightarrow> mbind (parse_location_list_v5 ll (Some cu)) (\<lambda>es. ret (pairs @ es))))"

primrec loc_unit :: "nat \<Rightarrow> location_lists \<Rightarrow> loc_refs \<Rightarrow> int list \<Rightarrow> int \<Rightarrow> nat \<Rightarrow> (location_item list list \<times> nat) D" where
  "loc_unit 0 ll m offsets cu_end i = lift_res NoFuel"
| "loc_unit (Suc fuel) ll m offsets cu_end i =
     mbind (in_sec (ll_sec ll) s_pos) (\<lambda>p.
       if p < cu_end then
         mbind (lift_res (py_index offsets (int i))) (\<lambda>next_offset.
           if next_offset = p then
             mbind (loc_object ll m) (\<lambda>x.
             mbind (loc_unit fuel ll m offsets cu_end (i + 1)) (\<lambda>(xs, j). ret (x # xs, j)))
           else
             mbind (in_sec (ll_sec ll) (s_seek (min next_offset cu_end))) (\<lambda>_.
               loc_unit fuel ll m offsets cu_end i))
       else ret ([], i))"

primrec loc_units :: "nat \<Rightarrow> location_lists \<Rightarrow> loc_refs \<Rightarrow> int list \<Rightarrow> int \<Rightarrow> nat \<Rightarrow> location_item list list D" where
  "loc_units 0 ll m offsets endpos i = lift_res NoFuel"
| "loc_units (Suc fuel) ll m offsets endpos i =
     mbind (in_sec (ll_sec ll) s_pos) (\<lambda>p.
       if p < endpos then
         mbind (in_sec (ll_sec ll) (struct_parse (Dwarf_loclists_CU_header (ll_structs ll)) None)) (\<lambda>h.
         mbind (field_of h ''version'') (\<lambda>version.
           if version \<noteq> 5 then raise AssertionError
           else
             mbind (field_of h ''offset_after_length'') (\<lambda>start.
             mbind (field_of h ''unit_length'') (\<lambda>len.
             mbind (loc_unit (2 * length offsets + 3) ll m offsets (start + len) i) (\<lambda>(xs, j).
             mbind (loc_units fuel ll m offsets endpos j) (\<lambda>ys. ret (xs @ ys)))))))
       else ret [])"

definition loc_lists_v4 :: "location_lists \<Rightarrow> loc_refs \<Rightarrow> int list \<Rightarrow> location_item list list D" where
  "loc_lists_v4 ll m offsets = mbind (mmap (\<lambda>offset.
     let list_offset = (case map_of (lr_views m) offset of None \<Rightarrow> offset | Some l \<Rightarrow> l) in
     (case map_of (lr_units m) list_offset of
         None \<Rightarrow> raise KeyError
       | Some cu \<Rightarrow> mbind (unit_version cu) (\<lambda>version.
           if version < 5 then
             mbind (in_sec (ll_sec ll) (s_seek offset)) (\<lambda>_.
             mbind (parse_locview_pairs ll (lr_views m)) (\<lambda>pairs.
             mbind (parse_location_list_v4 ll) (\<lambda>es. ret [pairs @ es])))
           else ret []))) offsets) (\<lambda>xss. ret (concat xss))"

definition iter_location_lists :: "nat \<Rightarrow> location_lists \<Rightarrow> location_item list list D" where
  "iter_location_lists depth ll =
     mbind (in_sec (ll_sec ll) (\<lambda>t. (Ok (int (length (sdata t))), t\<lparr>spos := length (sdata t)\<rparr>))) (\<lambda>endpos.
     mbind (in_sec (ll_sec ll) (s_seek 0)) (\<lambda>_.
     mbind (parse_CUs_iter (note_unit depth (ll_version ll \<ge> 5)) \<lparr>lr_offsets = [], lr_views = [], lr_units = []\<rparr>) (\<lambda>m.
     let offsets = sort (lr_offsets m) in
       if ll_version ll \<ge> 5 then loc_units (nat endpos + 1) ll m offsets endpos 0
       else loc_lists_v4 ll m offsets)))"

definition location_list_units :: "location_lists \<Rightarrow> val list D" where
  "location_list_units ll =
     (if ll_version ll < 5 then raise DWARFError
      else mbind first_CU (\<lambda>u. mbind (the_unit u) (\<lambda>un.
        in_sec (ll_sec ll) (iter_CUs_in_section (un_structs un) (Dwarf_loclists_CU_header (un_structs un))))))"

section \<open>Both sections, and the parser of attributes\<close>

datatype location_source = OneLocations location_lists | LocationsPair location_lists location_lists

definition location_lists_of :: "location_source option D" where
  "location_lists_of =
     mbind info_structs (\<lambda>ds.
     mbind (has_sec Debug_loclists) (\<lambda>v5.
     mbind (has_sec Debug_loc) (\<lambda>v4.
       let l5 = \<lparr>ll_sec = Debug_loclists, ll_structs = ds, ll_version = 5\<rparr>;
           l4 = \<lparr>ll_sec = Debug_loc, ll_structs = ds, ll_version = 4\<rparr> in
       ret (if v5 \<and> \<not> v4 then Some (OneLocations l5) else if v4 \<and> \<not> v5 then Some (OneLocations l4)
            else if v4 \<and> v5 then Some (LocationsPair l4 l5) else None))))"

definition source_location_list :: "location_source option \<Rightarrow> int \<Rightarrow> nat option \<Rightarrow> location_item list D" where
  "source_location_list src offset cu = (case src of
       None \<Rightarrow> raise AttributeError
     | Some (OneLocations ll) \<Rightarrow> get_location_list_at_offset ll offset cu
     | Some (LocationsPair l4 l5) \<Rightarrow> (case cu of
           None \<Rightarrow> raise DWARFError
         | Some u \<Rightarrow> mbind (unit_version u) (\<lambda>v. get_location_list_at_offset (if v \<ge> 5 then l5 else l4) offset cu)))"

definition source_iter_location_lists :: "nat \<Rightarrow> location_source \<Rightarrow> location_item list list D" where
  "source_iter_location_lists depth src = (case src of
       OneLocations ll \<Rightarrow> iter_location_lists depth ll | LocationsPair l4 l5 \<Rightarrow> raise DWARFError)"

datatype location = LocationExpr val | LocationList "location_item list"

definition parse_from_attribute :: "location_source option \<Rightarrow> attribute \<Rightarrow> int \<Rightarrow> nat option \<Rightarrow> location D" where
  "parse_from_attribute src a version cu =
     (if attribute_has_location a version then
        (if attribute_has_loc_expr a version then ret (LocationExpr (at_value a))
         else
           mbind (lift_res (as_int (at_value a))) (\<lambda>off.
           mbind (source_location_list src off cu) (\<lambda>es. ret (LocationList es))))
      else raise ValueError)"

end
