(* ===== verification/UnitCaches.thy ===== *)
theory UnitCaches
  imports SearchFacts LocationLists
begin

text \<open>
  The caches of a \<open>DWARFInfo\<close> object: units by their offset, the entries of each unit by theirs.  How far an
  operation may change the state is a relation between the states before and after; what composes is
  proved once for all such relations.
\<close>

section \<open>Operations and the relations they respect\<close>

definition moves :: "('s \<Rightarrow> 's \<Rightarrow> bool) \<Rightarrow> ('s, 'a) M \<Rightarrow> bool" where
  "moves R m \<longleftrightarrow> (\<forall>s. R s (snd (m s)))"

lemma movesI: "(\<And>s. R s (snd (m s))) \<Longrightarrow> moves R m"
  by (simp add: moves_def)

lemma movesD: "moves R m \<Longrightarrow> m s = (r, s') \<Longrightarrow> R s s'"
  by (metis moves_def snd_conv)

lemma moves_mono: "moves R m \<Longrightarrow> (\<And>s t. R s t \<Longrightarrow> Q s t) \<Longrightarrow> moves Q m"
  by (simp add: moves_def)

locale step_relation =
  fixes R :: "'s \<Rightarrow> 's \<Rightarrow> bool"
  assumes refl: "R s s"
    and trans: "R s t \<Longrightarrow> R t v \<Longrightarrow> R s v"
begin

lemma moves_simple: "moves R (ret a)" "moves R (raise e)" "moves R (lift_res r)" "moves R get_state"
  by (simp_all add: moves_def refl)

lemma moves_mbind: "moves R m \<Longrightarrow> (\<And>a. moves R (f a)) \<Longrightarrow> moves R (mbind m f)"
  by (auto simp: moves_def mbind_def split: prod.split res.split) (metis snd_conv trans)+

lemma moves_try: "moves R m \<Longrightarrow> (\<And>e. moves R (h e)) \<Longrightarrow> moves R (try_except m P h)"
  by (auto simp: moves_def try_except_def split: prod.split res.split) (metis snd_conv trans)+

lemma moves_if: "(b \<Longrightarrow> moves R m) \<Longrightarrow> (\<not> b \<Longrightarrow> moves R m') \<Longrightarrow> moves R (if b then m else m')"
  by simp

lemma moves_option: "moves R m \<Longrightarrow> (\<And>x. moves R (f x)) \<Longrightarrow> moves R (case q of None \<Rightarrow> m | Some x \<Rightarrow> f x)"
  by (cases q) auto

lemma moves_pair: "(\<And>a b. moves R (f a b)) \<Longrightarrow> moves R (case p of (a, b) \<Rightarrow> f a b)"
  by (cases p) auto

lemma moves_mmap: "(\<And>x. moves R (f x)) \<Longrightarrow> moves R (mmap f xs)"
  by (induction xs) (auto intro!: moves_simple moves_mbind)

lemma moves_with_state: "(\<And>s. moves R (f s)) \<Longrightarrow> moves R (\<lambda>s. f s s)"
  by (simp add: moves_def)

lemmas moves_rules = moves_simple moves_mbind moves_try moves_if moves_option moves_pair moves_mmap

end

section \<open>What reading leaves alone\<close>

text \<open>The units and what they have cached: everything but the streams, the tables and the links between entries.\<close>

definition unit_key :: "unit_obj \<Rightarrow> bool \<times> int \<times> int \<times> die list \<times> int list" where
  "unit_key un = (un_types un, un_offset un, un_die_offset un, un_dielist un, un_diemap un)"

definition same_units :: "dwarf \<Rightarrow> dwarf \<Rightarrow> bool" where
  "same_units s t \<longleftrightarrow> dw_cu_offsets t = dw_cu_offsets s \<and> dw_cu_cache t = dw_cu_cache s \<and>
     map unit_key (dw_units t) = map unit_key (dw_units s)"

lemma same_units_unit:
  assumes "same_units s t"
  shows "length (dw_units t) = length (dw_units s)"
    "u < length (dw_units s) \<Longrightarrow> unit_key (dw_units t ! u) = unit_key (dw_units s ! u)"
  using assms unfolding same_units_def by (metis length_map, metis length_map nth_map)

lemma same_units_set:
  assumes "\<And>un. unit_key (f un) = unit_key un"
  shows "same_units s (s\<lparr>dw_units := (dw_units s)[u := f (dw_units s ! u)]\<rparr>)"
proof (cases "u < length (dw_units s)")
  case True
  then have "(map unit_key (dw_units s))[u := unit_key (dw_units s ! u)] = map unit_key (dw_units s)"
    by (metis list_update_id nth_map)
  with assms show ?thesis by (simp add: same_units_def map_update)
next
  case False
  then show ?thesis by (simp add: same_units_def list_update_beyond)
qed

locale unit_relation = step_relation R for R :: "dwarf \<Rightarrow> dwarf \<Rightarrow> bool" +
  assumes same: "same_units s t \<Longrightarrow> R s t"
begin

lemma moves_same: "moves same_units m \<Longrightarrow> moves R m"
  by (rule moves_mono [OF _ same])

lemma moves_set_unit: "(\<And>un. unit_key (f un) = unit_key un) \<Longrightarrow> moves R (set_unit u f)"
  by (rule movesI, rule same) (simp add: set_unit_def same_units_set)

lemma moves_in_sec: "moves R (in_sec n m)"
  by (rule movesI) (auto simp: in_sec_def same_units_def split: option.split prod.split intro!: same)

lemma moves_reads: "moves R (the_size n)" "moves R (has_sec n)" "moves R (the_unit u)" "moves R info_structs"
  "moves R (dwarf_assert b)"
  by (auto simp: moves_def the_size_def has_sec_def the_unit_def info_structs_def dwarf_assert_def refl)

lemmas moves_basic = moves_rules moves_set_unit moves_in_sec moves_reads

lemma moves_put: "(\<And>s. same_units s (f s)) \<Longrightarrow> moves R (\<lambda>s. (r s, f s))"
  by (simp add: moves_def same)

text \<open>Everything an entry is parsed with respects the relation when the translation of values does.\<close>

lemma moves_get_string: "moves R (get_string n v)"
  unfolding get_string_def by (intro moves_basic)

lemma moves_abbrev_table: "moves R (get_abbrev_table off)"
  unfolding get_abbrev_table_def
  by (intro moves_basic moves_put) (simp add: same_units_def)

lemma moves_unit_abbrev_table: "moves R (unit_abbrev_table u)"
  unfolding unit_abbrev_table_def by (intro moves_basic moves_abbrev_table) (simp add: unit_key_def)

lemma moves_translate_direct: "moves R (translate_direct form raw)"
  unfolding translate_direct_def get_string_from_table_def get_string_from_linetable_def
  by (intro moves_basic moves_get_string)

lemma moves_parse_attribute: "(\<And>f v. moves R (tr f v)) \<Longrightarrow> moves R (parse_attribute tr ds sec spec)"
  unfolding parse_attribute_def by (intro moves_basic)

lemma moves_parse_attributes: "(\<And>f v. moves R (tr f v)) \<Longrightarrow> moves R (parse_attributes tr ds sec specs attrs)"
  by (induction specs arbitrary: attrs) (auto intro!: moves_simple moves_mbind moves_parse_attribute)

lemma moves_parse_DIE: "(\<And>f v. moves R (tr f v)) \<Longrightarrow> moves R (parse_DIE tr u off)"
  unfolding parse_DIE_def Let_def by (intro moves_basic moves_unit_abbrev_table moves_parse_attributes)

lemma moves_cached_base: "moves R (cached_base u n)"
  unfolding cached_base_def by (rule moves_mbind [OF moves_reads(3)]) (auto split: list.split intro: moves_basic)

lemma moves_address_at: "(\<And>n. moves R (base n)) \<Longrightarrow> moves R (address_at base u i)"
  unfolding address_at_def by (intro moves_basic)

lemma moves_resolve: "(\<And>n. moves R (base n)) \<Longrightarrow> moves R (resolve_via_offset_table base sec u i n)"
  unfolding resolve_via_offset_table_def by (intro moves_basic)

lemma moves_translate: "(\<And>n. moves R (base n)) \<Longrightarrow> moves R (translate_attr_value base u form raw)"
  unfolding translate_attr_value_def translate_index_def get_string_from_table_def
  by (intro moves_basic moves_address_at moves_resolve moves_get_string moves_translate_direct)

end

text \<open>The relation itself, and: once the unit has its top entry, nothing changes.\<close>

definition quiet :: "nat \<Rightarrow> dwarf \<Rightarrow> dwarf \<Rightarrow> bool" where
  "quiet u s t \<longleftrightarrow> (u < length (dw_units s) \<and> un_diemap (dw_units s ! u) \<noteq> [] \<longrightarrow> same_units s t)"

interpretation same: unit_relation same_units
  by unfold_locales (auto simp: same_units_def)

lemma same_diemap: "same_units s t \<Longrightarrow> u < length (dw_units s) \<Longrightarrow> un_diemap (dw_units t ! u) = un_diemap (dw_units s ! u)"
  using same_units_unit(2) [of s t u] by (simp add: unit_key_def)

interpretation quiet: unit_relation "quiet u" for u
proof unfold_locales
  show "quiet u s v" if "quiet u s t" "quiet u t v" for s t v
    using that same_diemap [of s t u] same_units_unit(1) [of s t] same.trans [of s t v] by (auto simp: quiet_def)
qed (auto simp: quiet_def same.refl)

text \<open>The number of units.\<close>

definition same_count :: "dwarf \<Rightarrow> dwarf \<Rightarrow> bool" where
  "same_count s t \<longleftrightarrow> length (dw_units t) = length (dw_units s)"

interpretation count: unit_relation same_count
  by unfold_locales (auto simp: same_count_def dest: same_units_unit(1))

lemma count_set_unit: "moves same_count (set_unit u f)"
  by (rule movesI) (simp add: same_count_def set_unit_def)

lemma count_translate_top: "moves same_count (translate_top u attrs)"
proof (induction attrs)
  case (Cons ka attrs)
  show ?case unfolding translate_top.simps set_top_attribute_def
    by (intro count.moves_rules count.moves_translate count.moves_cached_base count_set_unit Cons.IH)
qed (unfold translate_top.simps, rule count.moves_simple)

lemma count_get_top_DIE: "moves same_count (get_top_DIE u)"
  unfolding get_top_DIE_def
  by (intro count.moves_rules count.moves_reads count.moves_parse_DIE count.moves_translate_direct count_set_unit count_translate_top)

lemma count_base: "moves same_count (get_base_offset u n)"
  unfolding get_base_offset_def by (intro count.moves_basic count_get_top_DIE)

section \<open>The caches agree with their keys\<close>

definition unit_coherent :: "unit_obj \<Rightarrow> bool" where
  "unit_coherent un \<longleftrightarrow> sorted_wrt (<) (un_diemap un) \<and> un_diemap un = map die_offset (un_dielist un)"

definition cached_unit :: "unit_obj list \<Rightarrow> int \<Rightarrow> nat \<Rightarrow> bool" where
  "cached_unit us off u \<longleftrightarrow> u < length us \<and> \<not> un_types (us ! u) \<and> un_offset (us ! u) = off"

definition coherent :: "dwarf \<Rightarrow> bool" where
  "coherent s \<longleftrightarrow> list_all unit_coherent (dw_units s) \<and> sorted_wrt (<) (dw_cu_offsets s) \<and>
     list_all2 (cached_unit (dw_units s)) (dw_cu_offsets s) (dw_cu_cache s)"

definition kept :: "dwarf \<Rightarrow> dwarf \<Rightarrow> bool" where
  "kept s t \<longleftrightarrow> (coherent s \<longrightarrow> coherent t)"

lemma unit_coherent_key: "unit_key un = unit_key un' \<Longrightarrow> unit_coherent un = unit_coherent un'"
  by (simp add: unit_key_def unit_coherent_def)

lemma coherent_same: "same_units s t \<Longrightarrow> coherent s \<Longrightarrow> coherent t"
proof -
  assume st: "same_units s t" and c: "coherent s"
  have "unit_coherent (dw_units t ! u)" if "u < length (dw_units s)" for u
    using that c unit_coherent_key [OF same_units_unit(2) [OF st that]] by (simp add: coherent_def list_all_length)
  then have "list_all unit_coherent (dw_units t)"
    by (simp add: list_all_length same_units_unit(1) [OF st])
  moreover have "cached_unit (dw_units t) off u" if "cached_unit (dw_units s) off u" for off u
    using that same_units_unit [OF st] by (simp add: cached_unit_def unit_key_def)
  then have "list_all2 (cached_unit (dw_units t)) (dw_cu_offsets s) (dw_cu_cache s)"
    using c by (auto simp: coherent_def intro: list_all2_mono)
  ultimately show ?thesis using c st by (simp add: coherent_def same_units_def)
qed

interpretation kept: unit_relation kept
  by unfold_locales (auto simp: kept_def intro: coherent_same)

lemma moves_keptD: "moves kept m \<Longrightarrow> coherent s \<Longrightarrow> m s = (r, t) \<Longrightarrow> coherent t"
  by (drule movesD) (auto simp: kept_def)

lemma kept_set_unit_at:
  assumes c: "coherent s" and f: "u < length (dw_units s) \<Longrightarrow> unit_coherent (f (dw_units s ! u))"
    and k: "un_types (f (dw_units s ! u)) = un_types (dw_units s ! u)" "un_offset (f (dw_units s ! u)) = un_offset (dw_units s ! u)"
  shows "coherent (snd (set_unit u f s))"
proof -
  let ?us = "(dw_units s)[u := f (dw_units s ! u)]"
  have "cached_unit ?us off v" if "cached_unit (dw_units s) off v" for off v
    using that k by (cases "v = u") (simp_all add: cached_unit_def)
  then have "list_all2 (cached_unit ?us) (dw_cu_offsets s) (dw_cu_cache s)"
    using c by (auto simp: coherent_def intro: list_all2_mono)
  moreover have "list_all unit_coherent ?us"
    using c f by (cases "u < length (dw_units s)")
      (auto simp: coherent_def list_all_length nth_list_update list_update_beyond)
  ultimately show ?thesis using c by (simp add: coherent_def set_unit_def)
qed

lemma coherent_unit: "coherent s \<Longrightarrow> u < length (dw_units s) \<Longrightarrow> unit_coherent (dw_units s ! u)"
  by (simp add: coherent_def list_all_length)

text \<open>The top entry.\<close>

definition gives :: "('a \<Rightarrow> bool) \<Rightarrow> ('s, 'a) M \<Rightarrow> bool" where
  "gives P m \<longleftrightarrow> (\<forall>s a t. m s = (Ok a, t) \<longrightarrow> P a)"

lemma givesD: "gives P m \<Longrightarrow> m s = (Ok a, t) \<Longrightarrow> P a"
  by (auto simp: gives_def)

lemma gives_rules:
  "P a \<Longrightarrow> gives P (ret a)" "gives P (raise e)" "(\<And>a. gives P (f a)) \<Longrightarrow> gives P (mbind g f)"
  "gives P m \<Longrightarrow> (\<And>e. gives P (h e)) \<Longrightarrow> gives P (try_except m Q h)"
  "(b \<Longrightarrow> gives P m) \<Longrightarrow> (\<not> b \<Longrightarrow> gives P m') \<Longrightarrow> gives P (if b then m else m')"
  by (auto simp: gives_def mbind_eq_Ok try_except_def split: prod.splits res.splits if_splits)

lemma parse_DIE_offset: "gives (\<lambda>d. die_offset d = off) (parse_DIE tr u off)"
  unfolding parse_DIE_def Let_def by (intro gives_rules) simp_all

lemma kept_top_attribute: "moves kept (set_top_attribute u k v)"
proof (rule movesI, unfold kept_def, intro impI)
  fix s assume "coherent s"
  then show "coherent (snd (set_top_attribute u k v s))"
    unfolding set_top_attribute_def
    by (rule kept_set_unit_at)
      (auto simp: unit_coherent_def split: list.split dest!: coherent_unit [OF \<open>coherent s\<close>])
qed

lemma kept_translate_top: "moves kept (translate_top u attrs)"
proof (induction attrs)
  case (Cons ka attrs)
  show ?case unfolding translate_top.simps
    by (intro kept.moves_basic kept.moves_translate kept.moves_cached_base kept_top_attribute Cons.IH)
qed (unfold translate_top.simps, rule kept.moves_simple)

definition put_top :: "nat \<Rightarrow> die \<Rightarrow> unit D" where
  "put_top u d = set_unit u (\<lambda>un. un\<lparr>un_dielist := d # un_dielist un, un_diemap := un_die_offset un # un_diemap un\<rparr>)"

lemma kept_put_top:
  assumes c: "coherent s"
    and u: "u < length (dw_units s) \<Longrightarrow> die_offset d = un_die_offset (dw_units s ! u) \<and> un_diemap (dw_units s ! u) = []"
  shows "coherent (snd (put_top u d s))"
  unfolding put_top_def using c
  by (rule kept_set_unit_at) (use u coherent_unit [OF c, of u] in \<open>auto simp: unit_coherent_def\<close>)

lemma get_top_DIE_steps:
  "get_top_DIE u = mbind (the_unit u) (\<lambda>un. if un_diemap un \<noteq> [] then lift_res (py_index (un_dielist un) 0)
     else mbind (parse_DIE translate_direct u (un_die_offset un)) (\<lambda>d. mbind (put_top u d) (\<lambda>_.
       mbind (translate_top u (die_attributes d)) (\<lambda>_. mbind (the_unit u) (\<lambda>un. lift_res (py_index (un_dielist un) 0))))))"
  unfolding get_top_DIE_def put_top_def ..

lemma the_unit_run [simp]: "the_unit u s = (Ok (dw_units s ! u), s)" "mbind (the_unit u) f s = f (dw_units s ! u) s"
  by (simp_all add: the_unit_def mbind_def)

lemma moves_result: "moves R m \<Longrightarrow> R s (snd (m s))"
  by (simp add: moves_def)

lemma mbind_result:
  assumes "\<And>a t. m s = (Ok a, t) \<Longrightarrow> P (snd (f a t))" "P (snd (m s))"
  shows "P (snd (mbind m f s))"
  using assms by (auto simp: mbind_def split: prod.split res.split)

lemma kept_get_top_DIE: "moves kept (get_top_DIE u)"
proof (rule movesI, unfold kept_def, intro impI)
  fix s assume c: "coherent s"
  have parse: "same_units s (snd (parse_DIE translate_direct u off s))" for off
    by (rule moves_result) (intro same.moves_parse_DIE same.moves_translate_direct)
  have step: "coherent (snd (mbind (put_top u d) f t))"
    if e: "un_diemap (dw_units s ! u) = []" and d: "parse_DIE translate_direct u (un_die_offset (dw_units s ! u)) s = (Ok d, t)"
      and f: "\<And>a. moves kept (f a)" for d t f
  proof -
    have st: "same_units s t" using parse [of "un_die_offset (dw_units s ! u)"] d by simp
    have put: "coherent (snd (put_top u d t))"
    proof (rule kept_put_top)
      show "coherent t" by (rule coherent_same [OF st c])
      show "die_offset d = un_die_offset (dw_units t ! u) \<and> un_diemap (dw_units t ! u) = []" if "u < length (dw_units t)"
        using that same_units_unit [OF st] givesD [OF parse_DIE_offset d] e by (simp add: unit_key_def)
    qed
    show ?thesis
    proof (rule mbind_result)
      fix a t' assume "put_top u d t = (Ok a, t')"
      with put f [of a] show "coherent (snd (f a t'))" by (simp add: moves_def kept_def)
    qed (rule put)
  qed
  have rest: "moves kept (mbind (translate_top u attrs) (\<lambda>_. mbind (the_unit u) (\<lambda>un. lift_res (py_index (un_dielist un) 0))))" for attrs
    by (intro kept.moves_basic kept_translate_top)
  show "coherent (snd (get_top_DIE u s))"
  proof (cases "un_diemap (dw_units s ! u) = []")
    case True
    have "coherent (snd (mbind (parse_DIE translate_direct u (un_die_offset (dw_units s ! u))) (\<lambda>d. mbind (put_top u d) (\<lambda>_.
       mbind (translate_top u (die_attributes d)) (\<lambda>_. mbind (the_unit u) (\<lambda>un. lift_res (py_index (un_dielist un) 0))))) s))"
      by (rule mbind_result, rule step [OF True _ rest], assumption, rule coherent_same [OF parse c])
    with True show ?thesis by (simp add: get_top_DIE_steps)
  qed (simp add: get_top_DIE_steps c)
qed

text \<open>Any entry.\<close>

lemma quiet_get_top_DIE: "moves (quiet u) (get_top_DIE u)"
  by (rule movesI) (simp add: quiet_def get_top_DIE_steps same.refl)

lemma quiet_base: "moves (quiet u) (get_base_offset u n)"
  unfolding get_base_offset_def by (intro quiet.moves_basic quiet_get_top_DIE)

definition parse_at :: "nat \<Rightarrow> int \<Rightarrow> die D" where
  "parse_at u off = parse_DIE (translate_attr_value (get_base_offset u) u) u off"

lemma quiet_parse: "moves (quiet u) (parse_at u off)"
  unfolding parse_at_def by (intro quiet.moves_parse_DIE quiet.moves_translate quiet_base)

lemma count_parse: "moves same_count (parse_at u off)"
  unfolding parse_at_def by (intro count.moves_parse_DIE count.moves_translate count_base)

lemma kept_base: "moves kept (get_base_offset u n)"
  unfolding get_base_offset_def by (intro kept.moves_basic kept_get_top_DIE)

lemma kept_parse: "moves kept (parse_at u off)"
  unfolding parse_at_def by (intro kept.moves_parse_DIE kept.moves_translate kept_base)

definition put_entry :: "nat \<Rightarrow> nat \<Rightarrow> int \<Rightarrow> die \<Rightarrow> unit D" where
  "put_entry u i off d = set_unit u (\<lambda>un. un\<lparr>un_dielist := insert_at i d (un_dielist un), un_diemap := insert_at i off (un_diemap un)\<rparr>)"

lemma get_cached_DIE_steps:
  "get_cached_DIE u off = mbind (get_top_DIE u) (\<lambda>_. mbind (the_unit u) (\<lambda>un.
     mbind (lift_res (py_index (un_diemap un) (int (bisect_right (un_diemap un) off) - 1))) (\<lambda>k.
       if off = k then lift_res (py_index (un_dielist un) (int (bisect_right (un_diemap un) off) - 1))
       else mbind (parse_at u off) (\<lambda>d. mbind (put_entry u (bisect_right (un_diemap un) off) off d) (\<lambda>_. ret d)))))"
  unfolding get_cached_DIE_def parse_at_def put_entry_def Let_def ..

lemma py_index_nonempty: "py_index a i = Ok k \<Longrightarrow> a \<noteq> []"
  by (auto simp: py_index_def Let_def split: if_splits)

text \<open>The key in front of the place where an offset belongs is the offset exactly when it is cached.\<close>

lemma key_before:
  assumes s: "sorted_wrt (<) a" and k: "py_index a (int (bisect_right a off) - 1) = Ok k"
  shows "k = off \<longleftrightarrow> off \<in> set a" "k = off \<Longrightarrow> 0 < bisect_right a off"
proof -
  have so: "sorted a" using s by (simp add: strict_sorted_iff)
  show pos: "0 < bisect_right a off" if "k = off"
  proof (rule ccontr)
    assume "\<not> ?thesis"
    with k that have "0 < length a" "a ! (length a - 1) = off"
      by (auto simp: py_index_def Let_def nat_diff_distrib' split: if_splits)
    with \<open>\<not> ?thesis\<close> bisect_right_spec(3) [OF so, of off "length a - 1"] show False by simp
  qed
  show "k = off \<longleftrightarrow> off \<in> set a"
  proof
    assume "k = off"
    with k pos bisect_right_spec(1) [OF so, of off] show "off \<in> set a"
      by (auto simp: py_index_def Let_def in_set_conv_nth split: if_splits intro!: exI [of _ "bisect_right a off - 1"] simp: nat_diff_distrib)
  next
    assume "off \<in> set a"
    then obtain i where i: "i < length a" "a ! i = off" by (auto simp: in_set_conv_nth)
    with bisect_right_key [OF s i(1)] k show "k = off" by simp
  qed
qed

lemma kept_put_entry:
  assumes c: "coherent s" and d: "die_offset d = off"
    and u: "u < length (dw_units s) \<Longrightarrow> i = bisect_right (un_diemap (dw_units s ! u)) off \<and> off \<notin> set (un_diemap (dw_units s ! u))"
  shows "coherent (snd (put_entry u i off d s))"
  unfolding put_entry_def using c
  by (rule kept_set_unit_at)
    (use d u coherent_unit [OF c, of u] in \<open>auto simp: unit_coherent_def strict_sorted_insert\<close>)

lemma kept_get_cached_DIE: "moves kept (get_cached_DIE u off)"
proof (rule movesI, unfold kept_def, intro impI)
  fix s assume c: "coherent s"
  have ct: "coherent (snd (get_top_DIE u s))" using moves_result [OF kept_get_top_DIE, of s u] c by (simp add: kept_def)
  have step: "coherent (snd (mbind (parse_at u off) (\<lambda>d. mbind (put_entry u (bisect_right (un_diemap (dw_units t ! u)) off) off d) (\<lambda>_. ret d)) t))"
    if t: "coherent t" and k: "py_index (un_diemap (dw_units t ! u)) (int (bisect_right (un_diemap (dw_units t ! u)) off) - 1) = Ok k" "off \<noteq> k"
    for t k
  proof (rule mbind_result)
    show ck: "coherent (snd (parse_at u off t))" using moves_result [OF kept_parse, of t u off] t by (simp add: kept_def)
    fix d t' assume d: "parse_at u off t = (Ok d, t')"
    have "coherent (snd (put_entry u (bisect_right (un_diemap (dw_units t ! u)) off) off d t'))"
    proof (rule kept_put_entry)
      show "coherent t'" using ck d by simp
      show "die_offset d = off" using d givesD [OF parse_DIE_offset] unfolding parse_at_def by blast
      assume "u < length (dw_units t')"
      with movesD [OF count_parse d] have u: "u < length (dw_units t)" by (simp add: same_count_def)
      have ne: "un_diemap (dw_units t ! u) \<noteq> []" by (rule py_index_nonempty [OF k(1)])
      have "same_units t t'" using movesD [OF quiet_parse d] u ne by (simp add: quiet_def)
      then have m: "un_diemap (dw_units t' ! u) = un_diemap (dw_units t ! u)" using u by (rule same_diemap)
      have "off \<notin> set (un_diemap (dw_units t ! u))"
        using key_before(1) [OF _ k(1)] k(2) coherent_unit [OF t u] by (auto simp: unit_coherent_def)
      with m show "bisect_right (un_diemap (dw_units t ! u)) off = bisect_right (un_diemap (dw_units t' ! u)) off \<and>
        off \<notin> set (un_diemap (dw_units t' ! u))" by simp
    qed
    then show "coherent (snd (mbind (put_entry u (bisect_right (un_diemap (dw_units t ! u)) off) off d) (\<lambda>_. ret d) t'))"
      by (auto intro: mbind_result)
  qed
  show "coherent (snd (get_cached_DIE u off s))"
    unfolding get_cached_DIE_steps
  proof (rule mbind_result [where P = coherent and m = "get_top_DIE u" and s = s, OF _ ct])
    fix a t assume "get_top_DIE u s = (Ok a, t)"
    with ct have t: "coherent t" by simp
    let ?i = "int (bisect_right (un_diemap (dw_units t ! u)) off) - 1"
    show "coherent (snd (mbind (the_unit u) (\<lambda>un. mbind (lift_res (py_index (un_diemap un) (int (bisect_right (un_diemap un) off) - 1))) (\<lambda>k.
       if off = k then lift_res (py_index (un_dielist un) (int (bisect_right (un_diemap un) off) - 1))
       else mbind (parse_at u off) (\<lambda>d. mbind (put_entry u (bisect_right (un_diemap un) off) off d) (\<lambda>_. ret d)))) t))"
      using step [OF t] t by (cases "py_index (un_diemap (dw_units t ! u)) ?i") auto
  qed
qed

section \<open>Units by their offset\<close>

text \<open>Making a unit adds it behind the others and changes nothing else that is cached.\<close>

definition one_more :: "bool \<Rightarrow> int \<Rightarrow> dwarf \<Rightarrow> nat \<Rightarrow> dwarf \<Rightarrow> bool" where
  "one_more types off s u t \<longleftrightarrow> u = length (dw_units s) \<and> dw_cu_offsets t = dw_cu_offsets s \<and> dw_cu_cache t = dw_cu_cache s \<and>
     (\<exists>un. map unit_key (dw_units t) = map unit_key (dw_units s) @ [unit_key un] \<and>
       un_types un = types \<and> un_offset un = off \<and> un_dielist un = [] \<and> un_diemap un = [])"

definition made :: "bool \<Rightarrow> int \<Rightarrow> dwarf \<Rightarrow> nat res \<Rightarrow> dwarf \<Rightarrow> bool" where
  "made types off s r t \<longleftrightarrow> (case r of Ok u \<Rightarrow> one_more types off s u t | _ \<Rightarrow> same_units s t)"

definition adds :: "bool \<Rightarrow> int \<Rightarrow> nat D \<Rightarrow> bool" where
  "adds types off m \<longleftrightarrow> (\<forall>s r t. m s = (r, t) \<longrightarrow> made types off s r t)"

lemma made_after: "same_units s t \<Longrightarrow> made types off t r v \<Longrightarrow> made types off s r v"
  using same_units_unit(1) [of s t]
  by (auto simp: made_def one_more_def same_units_def split: res.splits)

lemma adds_mbind: "moves same_units m \<Longrightarrow> (\<And>a. adds types off (f a)) \<Longrightarrow> adds types off (mbind m f)"
  unfolding adds_def mbind_def
  by (auto split: prod.splits res.splits dest: movesD intro: made_after simp: made_def [of _ _ _ "Err _"] made_def [of _ _ _ NoFuel])

lemma adds_unit: "un_types un = types \<Longrightarrow> un_offset un = off \<Longrightarrow> un_dielist un = [] \<Longrightarrow> un_diemap un = [] \<Longrightarrow> adds types off (add_unit un)"
  by (auto simp: adds_def made_def add_unit_def one_more_def)

lemma adds_parse_unit: "adds types off (parse_unit_at_offset types off)"
  unfolding parse_unit_at_offset_def unit_format_def Let_def
  by (intro adds_mbind same.moves_basic adds_unit) simp_all

lemma one_more_coherent:
  assumes c: "coherent s" and m: "one_more types off s u t"
  shows "coherent t" "un_types (dw_units t ! u) = types" "un_offset (dw_units t ! u) = off" "u < length (dw_units t)"
proof -
  obtain un where un: "map unit_key (dw_units t) = map unit_key (dw_units s @ [un])"
      "un_types un = types" "un_offset un = off" "un_dielist un = []" "un_diemap un = []"
    using m by (auto simp: one_more_def)
  have s: "u = length (dw_units s)" "dw_cu_offsets t = dw_cu_offsets s" "dw_cu_cache t = dw_cu_cache s"
    using m by (auto simp: one_more_def)
  define s' where "s' = s\<lparr>dw_units := dw_units s @ [un]\<rparr>"
  have st: "same_units s' t" using un(1) s by (simp add: same_units_def s'_def)
  have "cached_unit (dw_units s @ [un]) o' v" if "cached_unit (dw_units s) o' v" for o' v
    using that by (simp add: cached_unit_def nth_append)
  then have "list_all2 (cached_unit (dw_units s @ [un])) (dw_cu_offsets s) (dw_cu_cache s)"
    using c by (auto simp: coherent_def intro: list_all2_mono)
  then have "coherent s'" using c un by (simp add: coherent_def s'_def unit_coherent_def)
  then show "coherent t" by (rule coherent_same [OF st])
  show u: "u < length (dw_units t)" using same_units_unit(1) [OF st] s by (simp add: s'_def)
  have "unit_key (dw_units t ! u) = unit_key un" using same_units_unit(2) [OF st, of u] s by (simp add: s'_def nth_append)
  with un show "un_types (dw_units t ! u) = types" "un_offset (dw_units t ! u) = off" by (simp_all add: unit_key_def)
qed

lemma kept_parse_unit: "moves kept (parse_unit_at_offset types off)"
proof (rule movesI, unfold kept_def, intro impI)
  fix s assume c: "coherent s"
  obtain r t where r: "parse_unit_at_offset types off s = (r, t)" by fastforce
  then have "made types off s r t" using adds_parse_unit by (simp add: adds_def)
  with r one_more_coherent(1) [OF c] coherent_same [OF _ c] show "coherent (snd (parse_unit_at_offset types off s))"
    by (cases r) (auto simp: made_def)
qed

definition put_unit :: "nat \<Rightarrow> int \<Rightarrow> nat \<Rightarrow> nat D" where
  "put_unit i off u s = (Ok u, s\<lparr>dw_cu_offsets := insert_at i off (dw_cu_offsets s), dw_cu_cache := insert_at i u (dw_cu_cache s)\<rparr>)"

lemma cached_CU_steps:
  "cached_CU_at_offset off s = (let i = bisect_right (dw_cu_offsets s) off in
     if i \<ge> 1 \<and> py_index (dw_cu_offsets s) (int i - 1) = Ok off then (py_index (dw_cu_cache s) (int i - 1), s)
     else mbind (parse_CU_at_offset off) (put_unit i off) s)"
  by (simp add: cached_CU_at_offset_def put_unit_def [abs_def] Let_def)

lemma list_all2_insert_at:
  "list_all2 P xs ys \<Longrightarrow> P x y \<Longrightarrow> i \<le> length xs \<Longrightarrow> list_all2 P (insert_at i x xs) (insert_at i y ys)"
  by (auto simp: insert_at_def intro!: list_all2_appendI list_all2_takeI list_all2_dropI)

lemma zip_insert_at:
  "length xs = length ys \<Longrightarrow> set (zip (insert_at i x xs) (insert_at i y ys)) = insert (x, y) (set (zip xs ys))"
proof -
  assume l: "length xs = length ys"
  have "set (zip xs ys) = set (zip (take i xs) (take i ys)) \<union> set (zip (drop i xs) (drop i ys))"
    using l by (metis append_take_drop_id length_take set_append zip_append)
  with l show ?thesis by (simp add: insert_at_def)
qed

lemma bisect_insert:
  assumes s: "sorted_wrt (<) a" and x: "x \<notin> set a"
  shows "bisect_right (insert_at (bisect_right a x) x a) x = Suc (bisect_right a x)"
proof -
  have i: "bisect_right a x \<le> length a" using s by (intro bisect_right_spec) (simp add: strict_sorted_iff)
  then have "insert_at (bisect_right a x) x a ! bisect_right a x = x" by (simp add: insert_at_nth)
  with i bisect_right_key [OF strict_sorted_insert [OF s x], of "bisect_right a x"] show ?thesis by simp
qed

lemma cached_CU_found:
  assumes c: "coherent s" and o: "off \<in> set (dw_cu_offsets s)"
  shows "\<exists>u. cached_CU_at_offset off s = (Ok u, s) \<and> cached_unit (dw_units s) off u \<and>
    (off, u) \<in> set (zip (dw_cu_offsets s) (dw_cu_cache s))"
proof -
  from o obtain i where i: "i < length (dw_cu_offsets s)" "dw_cu_offsets s ! i = off" by (auto simp: in_set_conv_nth)
  from c have k: "bisect_right (dw_cu_offsets s) off = Suc i" using bisect_right_key [OF _ i(1)] i(2) by (simp add: coherent_def)
  from c have "i < length (dw_cu_cache s)" "cached_unit (dw_units s) off (dw_cu_cache s ! i)"
    using i by (auto simp: coherent_def list_all2_conv_all_nth)
  moreover from this i have "(off, dw_cu_cache s ! i) \<in> set (zip (dw_cu_offsets s) (dw_cu_cache s))" by (auto simp: set_zip)
  ultimately show ?thesis using i k by (simp add: cached_CU_steps)
qed

text \<open>A unit that is asked for is at the offset, and is the one found the next time.\<close>

lemma cached_CU_coherent:
  assumes c: "coherent s" and r: "cached_CU_at_offset off s = (r, t)"
  shows "coherent t \<and> (\<forall>u. r = Ok u \<longrightarrow> cached_unit (dw_units t) off u \<and> cached_CU_at_offset off t = (Ok u, t) \<and>
    (off, u) \<in> set (zip (dw_cu_offsets t) (dw_cu_cache t)))"
proof (cases "off \<in> set (dw_cu_offsets s)")
  case True
  with cached_CU_found [OF c True] c r show ?thesis by auto
next
  case False
  let ?i = "bisect_right (dw_cu_offsets s) off"
  have "\<not> (?i \<ge> 1 \<and> py_index (dw_cu_offsets s) (int ?i - 1) = Ok off)"
    using False c key_before(1) [of "dw_cu_offsets s" off] by (auto simp: coherent_def)
  with r have m: "mbind (parse_CU_at_offset off) (put_unit ?i off) s = (r, t)"
    by (simp add: cached_CU_steps Let_def split: if_splits)
  obtain q v where q: "parse_CU_at_offset off s = (q, v)" by fastforce
  then have made: "made False off s q v" using adds_parse_unit by (simp add: adds_def)
  show ?thesis
  proof (cases q)
    case (Ok u)
    with made have one: "one_more False off s u v" by (simp add: made_def)
    note v = one_more_coherent [OF c one]
    have o: "dw_cu_offsets v = dw_cu_offsets s" "dw_cu_cache v = dw_cu_cache s" using one by (simp_all add: one_more_def)
    from m q Ok have t: "r = Ok u" "t = v\<lparr>dw_cu_offsets := insert_at ?i off (dw_cu_offsets v), dw_cu_cache := insert_at ?i u (dw_cu_cache v)\<rparr>"
      by (simp_all add: mbind_def put_unit_def)
    have so: "sorted (dw_cu_offsets s)" "sorted_wrt (<) (dw_cu_offsets s)" using c by (simp_all add: coherent_def strict_sorted_iff)
    have cu: "cached_unit (dw_units v) off u" using v by (simp add: cached_unit_def)
    have "coherent t"
      using v(1) o t cu strict_sorted_insert [OF so(2) False] bisect_right_spec(1) [OF so(1), of off]
      by (auto simp: coherent_def intro!: list_all2_insert_at)
    moreover have l: "length (dw_cu_cache s) = length (dw_cu_offsets s)" using c by (auto simp: coherent_def dest: list_all2_lengthD)
    then have "(off, u) \<in> set (zip (dw_cu_offsets t) (dw_cu_cache t))" using t o by (simp add: zip_insert_at)
    moreover have "cached_CU_at_offset off t = (Ok u, t)"
    proof -
      from l show ?thesis
        using t o bisect_insert [OF so(2) False] bisect_right_spec(1) [OF so(1), of off]
        by (simp add: cached_CU_steps Let_def insert_at_nth)
    qed
    ultimately show ?thesis using t cu by simp
  qed (use m q made coherent_same [OF _ c] in \<open>auto simp: mbind_def made_def\<close>)
qed

text \<open>The same of entries.\<close>

lemma unit_keys:
  assumes "unit_coherent (dw_units s ! u)"
  shows "sorted_wrt (<) (un_diemap (dw_units s ! u))" "sorted (un_diemap (dw_units s ! u))"
    "un_diemap (dw_units s ! u) = map die_offset (un_dielist (dw_units s ! u))"
    "length (un_dielist (dw_units s ! u)) = length (un_diemap (dw_units s ! u))"
proof -
  show k: "sorted_wrt (<) (un_diemap (dw_units s ! u))"
    and m: "un_diemap (dw_units s ! u) = map die_offset (un_dielist (dw_units s ! u))"
    using assms by (auto simp only: unit_coherent_def)
  show "sorted (un_diemap (dw_units s ! u))" using k by (simp only: strict_sorted_iff)
  show "length (un_dielist (dw_units s ! u)) = length (un_diemap (dw_units s ! u))" using m by (metis length_map)
qed

lemmas coherent_keys = unit_keys [OF coherent_unit]

lemma cached_DIE_found:
  assumes c: "unit_coherent (dw_units s ! u)" and i: "i < length (un_diemap (dw_units s ! u))"
    "un_diemap (dw_units s ! u) ! i = off"
  shows "get_cached_DIE u off s = (Ok (un_dielist (dw_units s ! u) ! i), s)"
proof -
  let ?un = "dw_units s ! u"
  note k = unit_keys [OF c]
  have "bisect_right (un_diemap ?un) off = Suc i" using bisect_right_key [OF k(1) i(1)] i(2) by simp
  moreover note l = k(4)
  moreover have "get_top_DIE u s = (Ok (un_dielist ?un ! 0), s)"
    using i(1) l by (auto simp: get_top_DIE_steps py_index_def)
  ultimately show ?thesis using i by (simp add: get_cached_DIE_steps mbind_Ok)
qed

lemma get_top_DIE_again: "un_diemap (dw_units s ! u) \<noteq> [] \<Longrightarrow> get_top_DIE u s = (py_index (un_dielist (dw_units s ! u)) 0, s)"
  by (simp add: get_top_DIE_steps)

lemma py_index_before: "a \<noteq> [] \<Longrightarrow> i \<le> length a \<Longrightarrow> \<exists>x. py_index a (int i - 1) = Ok x"
  by (cases i) (simp_all add: py_index_def Let_def Suc_le_eq)

lemma get_cached_miss:
  assumes c: "unit_coherent (dw_units s ! u)" and e: "un_diemap (dw_units s ! u) \<noteq> []" and o: "off \<notin> set (un_diemap (dw_units s ! u))"
  shows "get_cached_DIE u off s = mbind (parse_at u off) (\<lambda>d. mbind (put_entry u (bisect_right (un_diemap (dw_units s ! u)) off) off d) (\<lambda>_. ret d)) s"
proof -
  note k = unit_keys [OF c]
  let ?m = "un_diemap (dw_units s ! u)"
  have top: "get_top_DIE u s = (Ok (un_dielist (dw_units s ! u) ! 0), s)"
    using e k(4) by (auto simp: get_top_DIE_again py_index_def)
  have "bisect_right ?m off \<le> length ?m" by (rule bisect_right_spec(1) [OF k(2)])
  then obtain x where x: "py_index ?m (int (bisect_right ?m off) - 1) = Ok x"
    using py_index_before [OF e] by blast
  have n: "off \<noteq> x" using key_before(1) [OF k(1) x] o by blast
  show ?thesis unfolding get_cached_DIE_steps mbind_Ok [where m = "get_top_DIE u", OF top] by (simp add: x n)
qed

lemma cached_DIE_inserts:
  assumes c: "coherent s" and u: "u < length (dw_units s)" and top: "un_diemap (dw_units s ! u) \<noteq> []"
    and new: "off \<notin> set (un_diemap (dw_units s ! u))" and d: "get_cached_DIE u off s = (Ok d, t)"
  defines "i \<equiv> bisect_right (un_diemap (dw_units s ! u)) off"
  shows "die_offset d = off" "u < length (dw_units t)" "un_diemap (dw_units t ! u) = insert_at i off (un_diemap (dw_units s ! u))"
    "un_dielist (dw_units t ! u) = insert_at i d (un_dielist (dw_units s ! u))"
proof -
  let ?un = "dw_units s ! u"
  from d top new key_before(1) [OF coherent_keys(1) [OF c u], of off]
  have "mbind (parse_at u off) (\<lambda>d. mbind (put_entry u i off d) (\<lambda>_. ret d)) s = (Ok d, t)"
    by (auto simp: i_def get_cached_DIE_steps mbind_eq_Ok get_top_DIE_again res_case_Ok split: if_splits)
  then obtain w where w: "parse_at u off s = (Ok d, w)" "t = snd (put_entry u i off d w)"
    by (auto simp: mbind_eq_Ok)
  from movesD [OF quiet_parse w(1)] u top have sw: "same_units s w" by (simp add: quiet_def)
  have k: "un_diemap (dw_units w ! u) = un_diemap ?un" "un_dielist (dw_units w ! u) = un_dielist ?un" "u < length (dw_units w)"
    using same_units_unit [OF sw] u by (simp_all add: unit_key_def)
  show "u < length (dw_units t)" "un_diemap (dw_units t ! u) = insert_at i off (un_diemap ?un)"
    "un_dielist (dw_units t ! u) = insert_at i d (un_dielist ?un)"
    using w(2) k by (simp_all add: put_entry_def set_unit_def)
  show "die_offset d = off" using w(1) givesD [OF parse_DIE_offset] unfolding parse_at_def by blast
qed

lemma cached_DIE_new:
  assumes c: "coherent s" and u: "u < length (dw_units s)" and top: "un_diemap (dw_units s ! u) \<noteq> []"
    and new: "off \<notin> set (un_diemap (dw_units s ! u))" and d: "get_cached_DIE u off s = (Ok d, t)"
  shows "die_offset d = off \<and> get_cached_DIE u off t = (Ok d, t)"
proof -
  let ?un = "dw_units s ! u" and ?i = "bisect_right (un_diemap (dw_units s ! u)) off"
  note so = coherent_keys(2,4) [OF c u] and t = cached_DIE_inserts [OF assms]
  have ct: "coherent t" by (rule moves_keptD [OF kept_get_cached_DIE c d])
  have i: "?i \<le> length (un_diemap ?un)" by (rule bisect_right_spec(1) [OF so(1)])
  have "get_cached_DIE u off t = (Ok (un_dielist (dw_units t ! u) ! ?i), t)"
    by (rule cached_DIE_found [OF coherent_unit [OF ct t(2)]]) (use i in \<open>simp_all add: t insert_at_nth less_Suc_eq_le\<close>)
  moreover have "un_dielist (dw_units t ! u) ! ?i = d" using t i so(2) by (simp add: insert_at_nth)
  ultimately show ?thesis using t(1) by simp
qed

lemma cached_DIE_coherent:
  assumes c: "coherent s" and u: "u < length (dw_units s)" and d: "get_cached_DIE u off s = (Ok d, t)"
  shows "die_offset d = off \<and> get_cached_DIE u off t = (Ok d, t) \<and> d \<in> set (un_dielist (dw_units t ! u))"
proof -
  obtain a v where v: "get_top_DIE u s = (Ok a, v)" using d by (auto simp: get_cached_DIE_steps mbind_eq_Ok)
  have cv: "coherent v" by (rule moves_keptD [OF kept_get_top_DIE c v])
  have uv: "u < length (dw_units v)" using movesD [OF count_get_top_DIE v] u by (simp add: same_count_def)
  let ?un = "dw_units v ! u"
  have co: "un_diemap ?un = map die_offset (un_dielist ?un)" using coherent_unit [OF cv uv] by (simp add: unit_coherent_def)
  have top: "un_diemap ?un \<noteq> []"
    using d v by (auto simp: get_cached_DIE_steps mbind_Ok res_case_Ok dest: py_index_nonempty)
  then have "get_top_DIE u v = (Ok (un_dielist ?un ! 0), v)" using co by (simp add: get_top_DIE_again py_index_def)
  with d v have dv: "get_cached_DIE u off v = (Ok d, t)" by (simp add: get_cached_DIE_steps mbind_Ok)
  show ?thesis
  proof (cases "off \<in> set (un_diemap ?un)")
    case True
    then obtain i where i: "i < length (un_diemap ?un)" "un_diemap ?un ! i = off" by (auto simp: in_set_conv_nth)
    with cached_DIE_found [OF coherent_unit [OF cv uv] i] dv co show ?thesis by auto
  next
    case False
    with cached_DIE_new [OF cv uv top False dv] cached_DIE_inserts(4) [OF cv uv top False dv] show ?thesis by simp
  qed
qed

end
