(* ===== verification/CacheInvariant.thy ===== *)
theory CacheInvariant
  imports UnitCaches
begin

text \<open>
  Every operation of a \<open>DWARFInfo\<close> object and its units is composed of four that change the caches.  A relation between
  states that these four respect is respected by all of them (the locale \<open>cache_relation\<close>), however they are
  interleaved: the caches stay coherent, and what they hold they keep.
\<close>

section \<open>Any sequence of calls\<close>

text \<open>A call of an operation, whatever it returns or raises.\<close>

inductive dwarf_call :: "dwarf \<Rightarrow> dwarf \<Rightarrow> bool" where
  "dwarf_call s (snd (iter_CUs s))"
| "dwarf_call s (snd (iter_TUs s))"
| "dwarf_call s (snd (get_CU_at off s))"
| "dwarf_call s (snd (get_CU_containing off s))"
| "dwarf_call s (snd (get_TU_by_sig8 sig s))"
| "dwarf_call s (snd (get_top_DIE u s))"
| "dwarf_call s (snd (get_cached_DIE u off s))"
| "dwarf_call s (snd (iter_DIEs depth u s))"
| "dwarf_call s (snd (iter_children depth u d s))"
| "dwarf_call s (snd (get_parent depth u d s))"
| "dwarf_call s (snd (iter_siblings depth u d s))"
| "dwarf_call s (snd (get_DIE_from_refaddr off cu s))"
| "dwarf_call s (snd (get_DIE_from_attribute u d n s))"
| "dwarf_call s (snd (get_DIE_from_lut_entry e s))"
| "dwarf_call s (snd (line_program_for_CU u s))"
| "dwarf_call s (snd (get_addr u i s))"
| "dwarf_call s (snd (source_range_list ranges off cu s))"
| "dwarf_call s (snd (iter_range_lists depth rl s))"
| "dwarf_call s (snd (source_location_list locations off cu s))"
| "dwarf_call s (snd (iter_location_lists depth ll s))"
| "dwarf_call s (snd (get_aranges s))"
| "dwarf_call s (snd (name_table n s))"
| "dwarf_call s (snd (parse_debugsupinfo s))"
| "dwarf_call s (snd (CFI_entries depth s))"
| "dwarf_call s (snd (EH_CFI_entries depth s))"

inductive dwarf_reachable :: "dwarf \<Rightarrow> bool" where
  dwarf_start: "dwarf_reachable (DWARFInfo_new le asz secs)"
| dwarf_step: "dwarf_reachable s \<Longrightarrow> dwarf_call s t \<Longrightarrow> dwarf_reachable t"

section \<open>What all operations respect\<close>

named_theorems cache_intros \<open>operations that respect a relation between states\<close>

locale cache_relation = unit_relation R for R :: "dwarf \<Rightarrow> dwarf \<Rightarrow> bool" +
  assumes cached_CU: "moves R (cached_CU_at_offset off)"
    and parse_unit: "moves R (parse_unit_at_offset types off)"
    and top_DIE: "moves R (get_top_DIE u)"
    and cached_DIE: "moves R (get_cached_DIE u off)"
begin

lemmas [cache_intros] = moves_basic cached_CU parse_unit top_DIE cached_DIE

lemma cache_base [cache_intros]: "moves R (get_base_offset u n)"
  unfolding get_base_offset_def by (intro cache_intros)

lemma cache_next_unit [cache_intros]: "moves R (next_unit_offset u off)"
  unfolding next_unit_offset_def by (intro cache_intros)

lemma cache_CUs_from [cache_intros]:
  assumes b: "\<And>u a. moves R (body u a)"
  shows "moves R (CUs_from n off body acc)"
  by (induction n arbitrary: off acc) (unfold CUs_from.simps, (intro cache_intros b | assumption)+)

lemma cache_parse_CUs [cache_intros]: "(\<And>u a. moves R (body u a)) \<Longrightarrow> moves R (parse_CUs_iter body acc)"
  unfolding parse_CUs_iter_def by (intro cache_intros)

lemma cache_iter_CUs [cache_intros]: "moves R iter_CUs"
  unfolding iter_CUs_def by (intro cache_intros)

lemma cache_first_CU [cache_intros]: "moves R first_CU"
  unfolding first_CU_def by (intro cache_intros)

lemma cache_find_CU [cache_intros]: "moves R (find_CU n off r)"
  by (induction n arbitrary: off) (unfold find_CU.simps, (intro cache_intros | assumption)+)

lemma cache_check_offset [cache_intros]: "moves R (check_info_offset r)"
  unfolding check_info_offset_def by (intro cache_intros)

lemma cache_CU_containing [cache_intros]: "moves R (get_CU_containing r)"
  unfolding get_CU_containing_def Let_def by (intro cache_intros)

lemma cache_CU_at [cache_intros]: "moves R (get_CU_at off)"
  unfolding get_CU_at_def by (intro cache_intros)

lemma cache_TUs_from [cache_intros]:
  assumes b: "\<And>u a. moves R (body u a)"
  shows "moves R (TUs_from n off body acc)"
  by (induction n arbitrary: off acc) (unfold TUs_from.simps, (intro cache_intros b | assumption)+)

lemma cache_parse_TUs [cache_intros]: "(\<And>u a. moves R (body u a)) \<Longrightarrow> moves R (parse_TUs_iter body acc)"
  unfolding parse_TUs_iter_def by (intro cache_intros)

lemma cache_iter_TUs [cache_intros]: "moves R iter_TUs"
  unfolding iter_TUs_def by (intro cache_intros)

lemma cache_note_type_unit [cache_intros]: "moves R (note_type_unit u a)"
  unfolding note_type_unit_def by (intro cache_intros moves_put) (simp add: same_units_def)

lemma cache_fields [cache_intros]: "moves R (parent_of u d)" "moves R (the_terminator u d)" "moves R (unit_bytes u)"
  unfolding parent_of_def the_terminator_def unit_bytes_def by (intro cache_intros)+

lemma cache_parse_types [cache_intros]: "moves R parse_debug_types"
proof (rule movesI)
  fix s
  have "moves R (parse_TUs_iter note_type_unit ())" by (intro cache_intros)
  then have "R t (snd (parse_TUs_iter note_type_unit () t))" for t by (rule moves_result)
  moreover have "R s (s\<lparr>dw_by_sig := Some []\<rparr>)" by (rule same) (simp add: same_units_def)
  ultimately show "R s (snd (parse_debug_types s))"
    by (simp add: parse_debug_types_def refl) (blast intro: trans)
qed

lemma cache_TU_by_sig [cache_intros]: "moves R (get_TU_by_sig8 sig)"
  unfolding get_TU_by_sig8_def by (intro cache_intros)

lemma cache_refaddr [cache_intros]: "moves R (unit_DIE_from_refaddr u r)" "moves R (get_DIE_from_refaddr r cu)"
    "moves R (get_DIE_from_lut_entry e)"
  unfolding get_DIE_from_lut_entry_def get_DIE_from_refaddr_def unit_DIE_from_refaddr_def by (intro cache_intros)+

lemma cache_from_attribute [cache_intros]: "moves R (get_DIE_from_attribute u d n)"
  unfolding get_DIE_from_attribute_def by (intro cache_intros)

lemma cache_next_child [cache_intros]:
  assumes i: "\<And>c. moves R (inner c)"
  shows "moves R (next_child inner u c off)"
  unfolding next_child_def behind_children_def by (intro cache_intros i)

lemma cache_links [cache_intros]:
  "moves R (set_unit u (\<lambda>un. un\<lparr>un_terminator := f un\<rparr>))" "moves R (set_parent u c d)"
  unfolding set_parent_def by (intro cache_intros, simp add: unit_key_def)+

lemma cache_children_loop [cache_intros]:
  assumes i: "\<And>c. moves R (inner c)" and b: "\<And>c. moves R (body c)"
  shows "moves R (children_loop n inner body u d off)"
  by (induction n arbitrary: off) (unfold children_loop.simps, (intro moves_rules cache_links cached_DIE cache_next_child i b | assumption)+)

lemma cache_iter_DIE_children [cache_intros]:
  assumes b: "\<And>c. moves R (body c)"
  shows "moves R (iter_DIE_children n body u d)"
  using b
proof (induction n arbitrary: body d)
  case (Suc n)
  show ?case unfolding iter_DIE_children.simps
    by (intro moves_rules cache_fields cache_children_loop Suc.IH Suc.prems)
qed (unfold iter_DIE_children.simps, rule moves_simple)

lemma cache_subtree [cache_intros]: "moves R (iter_DIE_subtree n u d)"
  by (induction n arbitrary: d) (unfold iter_DIE_subtree.simps, (intro cache_intros | assumption)+)

lemma cache_iter_DIEs [cache_intros]: "moves R (iter_DIEs n u)" "moves R (iter_children n u d)"
  unfolding iter_DIEs_def iter_children_def by (intro cache_intros)+

lemma cache_search [cache_intros]: "moves R (search_parent n depth u d e)"
  by (induction n arbitrary: e) (unfold search_parent.simps Let_def, (intro cache_intros | assumption)+)

lemma cache_family [cache_intros]: "moves R (get_parent n u d)" "moves R (iter_siblings n u d)"
  unfolding iter_siblings_def get_parent_def by (intro cache_intros)+

text \<open>Line programs, range lists and location lists.\<close>

lemma cache_replace_value [cache_intros]:
  assumes r: "\<And>v. moves R (f v)"
  shows "moves R (replace_value f k es)"
  by (induction es) (unfold replace_value.simps, (intro cache_intros r | assumption)+)

lemma cache_resolve_field [cache_intros]: "moves R (resolve_field f data)"
proof -
  have f: "moves R (str_of v)" "moves R (get_string_from_table v)" "moves R (get_string_from_linetable v)" for v
    unfolding str_of_def get_string_from_table_def get_string_from_linetable_def by (intro cache_intros moves_get_string)+
  then show ?thesis
    unfolding resolve_field_def by (intro cache_intros) (auto split: val.split intro!: cache_intros f)
qed

lemma cache_resolve_fields [cache_intros]: "moves R (resolve_fields fs data)"
  by (induction fs arbitrary: data) (unfold resolve_fields.simps, (intro cache_intros | assumption)+)

lemma cache_line_program [cache_intros]: "moves R (parse_line_program_at_offset off ds)" "moves R (line_program_for_CU u)"
proof -
  show "moves R (parse_line_program_at_offset off ds)" for off ds
    unfolding parse_line_program_at_offset_def resolve_strings_def Let_def
    by (intro cache_intros moves_put) (simp add: same_units_def)
  then show "moves R (line_program_for_CU u)" unfolding line_program_for_CU_def by (intro cache_intros)
qed

lemma cache_get_addr [cache_intros]: "moves R (get_addr u i)" "moves R (addr_of cu e n)" "moves R (field_of e n)" "moves R (unit_version u)"
  unfolding addr_of_def field_of_def get_addr_def unit_version_def by (intro cache_intros moves_address_at)+

lemma cache_translate_range [cache_intros]: "moves R (translate_range_entry cu e)"
  unfolding translate_range_entry_def range_entry_def base_entry_def startx_length_def by (intro cache_intros)

lemma cache_ranges [cache_intros]: "moves R (get_range_list_at_offset rl off cu)" "moves R (iter_range_lists n rl)"
    "moves R (source_range_list src off cu)"
proof -
  show g: "moves R (get_range_list_at_offset rl off cu)" for rl off cu
    unfolding get_range_list_at_offset_def parse_range_list_def by (intro cache_intros)
  show "moves R (iter_range_lists n rl)"
    unfolding iter_range_lists_def range_map_def by (intro cache_intros g)
  show "moves R (source_range_list src off cu)"
    unfolding source_range_list_def by (auto split: range_source.split option.split intro!: g cache_intros)
qed

lemma cache_translate_location [cache_intros]: "moves R (translate_location_entry cu e)"
  unfolding translate_location_entry_def location_entry_def loc_base_entry_def loc_startx_length_def by (intro cache_intros)

lemma cache_loc_parts [cache_intros]: "moves R (parse_location_list_v5 ll cu)" "moves R (parse_location_list_v4 ll)"
    "moves R (parse_locview_pairs ll vs)" "moves R (note_unit n v5 u m)"
  unfolding parse_location_list_v5_def parse_location_list_v4_def parse_locview_pairs_def note_unit_def by (intro cache_intros)+

lemma cache_location_list [cache_intros]: "moves R (get_location_list_at_offset ll off cu)"
  unfolding get_location_list_at_offset_def by (intro cache_intros)

lemma cache_loc_object [cache_intros]: "moves R (loc_object ll m)"
  unfolding loc_object_def by (intro cache_intros)

lemma cache_loc_unit [cache_intros]: "moves R (loc_unit n ll m offs e i)"
  by (induction n arbitrary: i) (unfold loc_unit.simps, (intro cache_intros | assumption)+)

lemma cache_loc_units [cache_intros]: "moves R (loc_units n ll m offs e i)"
  by (induction n arbitrary: i) (unfold loc_units.simps, (intro cache_intros | assumption)+)

lemma cache_locations [cache_intros]: "moves R (iter_location_lists n ll)" "moves R (source_location_list src off cu)"
    "moves R (parse_from_attribute src a v cu)"
proof -
  show "moves R (iter_location_lists n ll)"
    unfolding iter_location_lists_def loc_lists_v4_def Let_def by (intro cache_intros)
  show s: "moves R (source_location_list src off cu)" for off
    unfolding source_location_list_def by (auto split: location_source.split option.split intro!: cache_intros)
  show "moves R (parse_from_attribute src a v cu)"
    unfolding parse_from_attribute_def by (intro cache_intros s)
qed

lemma cache_link_name: "(\<And>x. moves R (f x)) \<Longrightarrow> moves R (link_name n c p f)"
  unfolding link_name_def by (intro cache_intros)

lemma cache_tables [cache_intros]: "moves R get_aranges" "moves R (name_table n)" "moves R parse_debugsupinfo"
  unfolding get_aranges_def name_table_def parse_debugsupinfo_def by (intro cache_intros cache_link_name)+

lemma cache_frames [cache_intros]: "moves R (CFI_entries n)" "moves R (EH_CFI_entries n)"
  unfolding CFI_entries_def EH_CFI_entries_def frame_entries_def Let_def by (intro cache_intros)+

lemma cache_call: "dwarf_call s t \<Longrightarrow> R s t"
  by (induction rule: dwarf_call.induct) (rule moves_result, intro cache_intros)+

lemma cache_calls: "dwarf_call\<^sup>*\<^sup>* s t \<Longrightarrow> R s t"
  by (induction rule: rtranclp_induct) (blast intro: refl trans cache_call)+

end

section \<open>The caches stay coherent\<close>

lemma kept_cached_CU: "moves kept (cached_CU_at_offset off)"
proof (rule movesI, unfold kept_def, intro impI)
  fix s assume "coherent s"
  from cached_CU_coherent [OF this] show "coherent (snd (cached_CU_at_offset off s))"
    by (metis prod.collapse)
qed

interpretation keeps: cache_relation kept
  by unfold_locales (rule kept_cached_CU kept_parse_unit kept_get_top_DIE kept_get_cached_DIE)+

lemma reachable_coherent: "dwarf_reachable s \<Longrightarrow> coherent s"
proof (induction rule: dwarf_reachable.induct)
  case (dwarf_start le asz secs)
  show ?case by (simp add: coherent_def DWARFInfo_new_def)
next
  case (dwarf_step s t)
  with keeps.cache_call show ?case by (auto simp: kept_def)
qed

lemma reachable_calls: "dwarf_call\<^sup>*\<^sup>* s t \<Longrightarrow> dwarf_reachable s \<Longrightarrow> dwarf_reachable t"
  by (induction rule: rtranclp_induct) (auto intro: dwarf_step)

end
