(* ===== verification/CacheGrowth.thy ===== *)
theory CacheGrowth
  imports CacheInvariant
begin

text \<open>What the caches hold they keep: no operation takes an entry or a unit out of them, or puts another in its place.\<close>

section \<open>Operations on one unit\<close>

definition only :: "nat \<Rightarrow> dwarf \<Rightarrow> dwarf \<Rightarrow> bool" where
  "only u s t \<longleftrightarrow> length (dw_units t) = length (dw_units s) \<and> dw_cu_offsets t = dw_cu_offsets s \<and> dw_cu_cache t = dw_cu_cache s \<and>
     (\<forall>v < length (dw_units s). v \<noteq> u \<longrightarrow> un_dielist (dw_units t ! v) = un_dielist (dw_units s ! v))"

lemma same_dielist: "same_units s t \<Longrightarrow> v < length (dw_units s) \<Longrightarrow> un_dielist (dw_units t ! v) = un_dielist (dw_units s ! v)"
  using same_units_unit(2) [of s t v] by (simp add: unit_key_def)

interpretation only: unit_relation "only u" for u
proof unfold_locales
  show "only u s v" if "only u s t" "only u t v" for s t v
    using that unfolding only_def by metis
  show "only u s t" if "same_units s t" for s t
    using same_dielist [OF that] same_units_unit(1) [OF that] that by (simp add: only_def same_units_def)
qed (simp add: only_def)

lemma only_set_unit: "moves (only u) (set_unit u f)"
  by (rule movesI) (simp add: only_def set_unit_def)

lemma only_translate_top: "moves (only u) (translate_top u attrs)"
proof (induction attrs)
  case (Cons ka attrs)
  show ?case unfolding translate_top.simps set_top_attribute_def
    by (intro only.moves_basic only.moves_translate only.moves_cached_base only_set_unit Cons.IH)
qed (unfold translate_top.simps, rule only.moves_simple)

lemma only_get_top_DIE: "moves (only u) (get_top_DIE u)"
  unfolding get_top_DIE_def
  by (intro only.moves_rules only.moves_reads only.moves_parse_DIE only.moves_translate_direct only_set_unit only_translate_top)

lemma only_base: "moves (only u) (get_base_offset u n)"
  unfolding get_base_offset_def by (intro only.moves_basic only_get_top_DIE)

lemma only_get_cached_DIE: "moves (only u) (get_cached_DIE u off)"
  unfolding get_cached_DIE_def Let_def
  by (intro only.moves_rules only.moves_reads only.moves_parse_DIE only.moves_translate only_base only_get_top_DIE only_set_unit)

section \<open>Growth\<close>

definition grows :: "dwarf \<Rightarrow> dwarf \<Rightarrow> bool" where
  "grows s t \<longleftrightarrow> (coherent s \<longrightarrow> coherent t \<and> length (dw_units s) \<le> length (dw_units t) \<and>
     (\<forall>v < length (dw_units s). set (un_dielist (dw_units s ! v)) \<subseteq> set (un_dielist (dw_units t ! v))) \<and>
     set (zip (dw_cu_offsets s) (dw_cu_cache s)) \<subseteq> set (zip (dw_cu_offsets t) (dw_cu_cache t)))"

interpretation grows: unit_relation grows
proof unfold_locales
  show "grows s v" if "grows s t" "grows t v" for s t v
    using that unfolding grows_def by (meson dual_order.trans order_less_le_trans subset_trans)
  show "grows s t" if "same_units s t" for s t
    using that coherent_same [OF that] same_units_unit(1) [OF that] same_dielist [OF that] by (auto simp: grows_def same_units_def)
qed (simp add: grows_def)

lemma only_grows:
  assumes o: "only u s t" and c: "coherent s \<Longrightarrow> coherent t"
    and u: "coherent s \<Longrightarrow> u < length (dw_units s) \<Longrightarrow> set (un_dielist (dw_units s ! u)) \<subseteq> set (un_dielist (dw_units t ! u))"
  shows "grows s t"
proof -
  have "set (un_dielist (dw_units s ! v)) \<subseteq> set (un_dielist (dw_units t ! v))" if "coherent s" "v < length (dw_units s)" for v
    using o u that by (cases "v = u") (auto simp: only_def)
  with o c show ?thesis by (simp add: grows_def only_def)
qed

lemma no_entries: "coherent s \<Longrightarrow> u < length (dw_units s) \<Longrightarrow> un_diemap (dw_units s ! u) = [] \<Longrightarrow> un_dielist (dw_units s ! u) = []"
  using coherent_keys(4) [of s u] by simp

lemma grows_top: "moves grows (get_top_DIE u)"
proof (rule movesI, rule only_grows [of u])
  fix s
  show "only u s (snd (get_top_DIE u s))" by (rule moves_result [OF only_get_top_DIE])
  show "coherent (snd (get_top_DIE u s))" if "coherent s"
    using that moves_result [OF kept_get_top_DIE, of s u] by (simp add: kept_def)
  show "set (un_dielist (dw_units s ! u)) \<subseteq> set (un_dielist (dw_units (snd (get_top_DIE u s)) ! u))"
    if "coherent s" "u < length (dw_units s)"
    using no_entries [OF that] by (cases "un_diemap (dw_units s ! u) = []") (simp_all add: get_top_DIE_again)
qed

lemma cached_DIE_grows_unit:
  assumes c: "coherent s" and u: "u < length (dw_units s)" and r: "get_cached_DIE u off s = (r, t)"
  shows "set (un_dielist (dw_units s ! u)) \<subseteq> set (un_dielist (dw_units t ! u))"
proof (cases "un_diemap (dw_units s ! u) = []")
  case True
  then show ?thesis using no_entries [OF c u] by simp
next
  case top: False
  show ?thesis
  proof (cases "off \<in> set (un_diemap (dw_units s ! u))")
    case True
    then obtain i where "i < length (un_diemap (dw_units s ! u))" "un_diemap (dw_units s ! u) ! i = off" by (auto simp: in_set_conv_nth)
    with cached_DIE_found [OF coherent_unit [OF c u]] r show ?thesis by simp
  next
    case new: False
    show ?thesis
    proof (cases r)
      case (Ok d)
      with cached_DIE_inserts(4) [OF c u top new] r show ?thesis by auto
    next
      case fail: (Err e)
      have "snd (parse_at u off s) = t"
        using r fail unfolding get_cached_miss [OF coherent_unit [OF c u] top new]
        by (auto simp: mbind_def put_entry_def set_unit_def split: prod.splits res.splits)
      with moves_result [OF quiet_parse [of u off], of s] u top have "same_units s t" by (simp add: quiet_def)
      with u show ?thesis by (simp add: same_dielist)
    next
      case fail: NoFuel
      have "snd (parse_at u off s) = t"
        using r fail unfolding get_cached_miss [OF coherent_unit [OF c u] top new]
        by (auto simp: mbind_def put_entry_def set_unit_def split: prod.splits res.splits)
      with moves_result [OF quiet_parse [of u off], of s] u top have "same_units s t" by (simp add: quiet_def)
      with u show ?thesis by (simp add: same_dielist)
    qed
  qed
qed

lemma grows_cached_DIE: "moves grows (get_cached_DIE u off)"
proof (rule movesI, rule only_grows [of u])
  fix s
  show "only u s (snd (get_cached_DIE u off s))" by (rule moves_result [OF only_get_cached_DIE])
  show "coherent (snd (get_cached_DIE u off s))" if "coherent s"
    using that moves_result [OF kept_get_cached_DIE, of s u off] by (simp add: kept_def)
  show "set (un_dielist (dw_units s ! u)) \<subseteq> set (un_dielist (dw_units (snd (get_cached_DIE u off s)) ! u))"
    if "coherent s" "u < length (dw_units s)"
    by (rule cached_DIE_grows_unit [OF that, of off "fst (get_cached_DIE u off s)"]) simp
qed

section \<open>Making units\<close>

lemma one_more_dielists:
  assumes "one_more types off s u t"
  shows "length (dw_units s) \<le> length (dw_units t)"
    "v < length (dw_units s) \<Longrightarrow> un_dielist (dw_units t ! v) = un_dielist (dw_units s ! v)"
proof -
  obtain un where un: "map unit_key (dw_units t) = map unit_key (dw_units s @ [un])" using assms by (auto simp: one_more_def)
  have l: "length (dw_units t) = Suc (length (dw_units s))" using arg_cong [OF un, of length] by simp
  then show "length (dw_units s) \<le> length (dw_units t)" by simp
  assume v: "v < length (dw_units s)"
  have "map unit_key (dw_units t) ! v = map unit_key (dw_units s @ [un]) ! v" by (simp only: un)
  with v l show "un_dielist (dw_units t ! v) = un_dielist (dw_units s ! v)" by (simp add: nth_append unit_key_def)
qed

lemma one_more_grows: "one_more types off s u t \<Longrightarrow> grows s t"
  using one_more_dielists [of types off s u t] one_more_coherent(1) [of s types off u t]
  by (auto simp: grows_def one_more_def)

lemma made_grows: "made types off s r t \<Longrightarrow> grows s t"
  by (auto simp: made_def split: res.splits intro: one_more_grows grows.same)

lemma parse_unit_grows: "parse_unit_at_offset types off s = (r, t) \<Longrightarrow> grows s t"
  using adds_parse_unit [of types off] by (auto simp: adds_def intro: made_grows)

lemma grows_parse_unit: "moves grows (parse_unit_at_offset types off)"
  by (rule movesI, rule parse_unit_grows) (rule prod.collapse [symmetric])

lemma put_unit_grows:
  assumes "coherent s" "coherent (snd (put_unit i off u s))"
  shows "grows s (snd (put_unit i off u s))"
proof -
  have "length (dw_cu_offsets s) = length (dw_cu_cache s)" using assms(1) by (auto simp: coherent_def dest: list_all2_lengthD)
  with assms show ?thesis by (auto simp: grows_def put_unit_def zip_insert_at)
qed

lemma grows_cached_CU: "moves grows (cached_CU_at_offset off)"
proof (rule movesI)
  fix s :: dwarf
  let ?i = "bisect_right (dw_cu_offsets s) off"
  obtain r t where r: "cached_CU_at_offset off s = (r, t)" by fastforce
  show "grows s (snd (cached_CU_at_offset off s))"
  proof (cases "coherent s \<and> t \<noteq> s")
    case True
    then have c: "coherent s" "coherent t" using cached_CU_coherent [OF _ r] by simp_all
    from r True have m: "mbind (parse_CU_at_offset off) (put_unit ?i off) s = (r, t)"
      by (auto simp: cached_CU_steps Let_def split: if_splits)
    obtain q v where q: "parse_CU_at_offset off s = (q, v)" by fastforce
    have v: "grows s v" by (rule parse_unit_grows [OF q])
    show ?thesis
    proof (cases q)
      case (Ok u)
      with m q have t: "t = snd (put_unit ?i off u v)" by (simp add: mbind_def)
      have "coherent v" using v c(1) by (simp add: grows_def)
      from put_unit_grows [OF this, of ?i off u] c(2) t have "grows v t" by simp
      with v r show ?thesis by (auto intro: grows.trans)
    qed (use m q r v in \<open>simp_all add: mbind_def\<close>)
  qed (use r in \<open>auto simp: grows_def\<close>)
qed

interpretation growth: cache_relation grows
  by unfold_locales (rule grows_cached_CU grows_parse_unit grows_top grows_cached_DIE)+

section \<open>What is in the caches is found\<close>

lemma found_later:
  assumes c: "coherent s" and g: "grows s t" and u: "u < length (dw_units s)" and d: "d \<in> set (un_dielist (dw_units s ! u))"
  shows "get_cached_DIE u (die_offset d) t = (Ok d, t)"
proof -
  have t: "coherent t" "u < length (dw_units t)" "d \<in> set (un_dielist (dw_units t ! u))" using c g u d by (auto simp: grows_def)
  then obtain i where i: "i < length (un_dielist (dw_units t ! u))" "un_dielist (dw_units t ! u) ! i = d" by (auto simp: in_set_conv_nth)
  note k = coherent_keys [OF t(1,2)]
  have m: "i < length (un_diemap (dw_units t ! u))" using i(1) k(4) by simp
  have "un_diemap (dw_units t ! u) ! i = die_offset d" by (subst k(3)) (simp add: i)
  from cached_DIE_found [OF coherent_unit [OF t(1,2)] m this] i(2) show ?thesis by simp
qed

lemma unit_found_later:
  assumes c: "coherent s" and g: "grows s t" and u: "(off, u) \<in> set (zip (dw_cu_offsets s) (dw_cu_cache s))"
  shows "cached_CU_at_offset off t = (Ok u, t)"
proof -
  have t: "coherent t" "(off, u) \<in> set (zip (dw_cu_offsets t) (dw_cu_cache t))" using c g u by (auto simp: grows_def)
  then obtain u' where u': "cached_CU_at_offset off t = (Ok u', t)" "(off, u') \<in> set (zip (dw_cu_offsets t) (dw_cu_cache t))"
    using cached_CU_found [OF t(1), of off] by (auto dest: set_zip_leftD)
  have "distinct (dw_cu_offsets t)" using t(1) by (simp add: coherent_def strict_sorted_iff)
  then have "u' = u" using t(2) u'(2) by (auto simp: set_zip nth_eq_iff_index_eq)
  with u' show ?thesis by simp
qed

end
