(* ===== verification/EntryTrees.thy ===== *)
theory EntryTrees
  imports UnitCaches HeaderReads
begin

text \<open>
  Trees of entries and how a producer writes them: each entry is the code of its declaration and the values of its
  attributes, followed by its children and a zero if the declaration says that it has any.  The entries that
  reading them back should give are computed from the tree alone.
\<close>

section \<open>Trees\<close>

datatype form_value = Number int | Text bytes

datatype entry = Entry int "form_value list" "entry list"

text \<open>A declaration: tag, whether there are children, and the names and forms of the attributes.\<close>

type_synonym entry_decl = "string \<times> bool \<times> (string \<times> string) list"
type_synonym entry_decls = "(int \<times> entry_decl) list"

primrec raw_value :: "form_value \<Rightarrow> val" where
  "raw_value (Number n) = VInt n"
| "raw_value (Text b) = VBytes b"

definition value_of :: "string \<Rightarrow> form_value \<Rightarrow> val" where
  "value_of f v = (if f = ''DW_FORM_flag'' then VBool (\<not> py_eq (raw_value v) (VInt 0)) else raw_value v)"

text \<open>Forms whose value needs no other section and no other entry.\<close>

definition plain_form :: "string \<Rightarrow> bool" where
  "plain_form f \<longleftrightarrow> \<not> index_form (VLit f) \<and>
     f \<notin> {''DW_FORM_strp'', ''DW_FORM_line_strp'', ''DW_FORM_indirect'', ''DW_FORM_implicit_const'', ''DW_FORM_flag_present''}"

definition form_code :: "dwarf_structs \<Rightarrow> string \<Rightarrow> form_value \<Rightarrow> bytes option" where
  "form_code ds f v = (case v of
       Number n \<Rightarrow> (case form_parser ds (VLit f) of Ok c \<Rightarrow> if plain_form f then encode_number c n else None | _ \<Rightarrow> None)
     | Text b \<Rightarrow> if f = ''DW_FORM_string'' \<and> 0 \<notin> set b then Some (b @ [0]) else None)"

fun values_code :: "dwarf_structs \<Rightarrow> (string \<times> string) list \<Rightarrow> form_value list \<Rightarrow> bytes option" where
  "values_code ds [] [] = Some []"
| "values_code ds ((n, f) # specs) (v # vs) = (case form_code ds f v of None \<Rightarrow> None
     | Some b \<Rightarrow> map_option ((@) b) (values_code ds specs vs))"
| "values_code ds specs vs = None"

fun attributes_at :: "dwarf_structs \<Rightarrow> int \<Rightarrow> (string \<times> string) list \<Rightarrow> form_value list \<Rightarrow> (val \<times> attribute) list" where
  "attributes_at ds p ((n, f) # specs) (v # vs) =
     (VLit n, \<lparr>at_name = VLit n, at_form = VLit f, at_value = value_of f v, at_raw = raw_value v, at_offset = p, at_indirection = 0\<rparr>) #
     attributes_at ds (p + int (length (the (form_code ds f v)))) specs vs"
| "attributes_at ds p specs vs = []"

definition decl_of :: "entry_decls \<Rightarrow> int \<Rightarrow> entry_decl" where
  "decl_of al c = the (map_of al c)"

definition has_kids :: "entry_decls \<Rightarrow> int \<Rightarrow> bool" where
  "has_kids al c = fst (snd (decl_of al c))"

definition specs_of :: "entry_decls \<Rightarrow> int \<Rightarrow> (string \<times> string) list" where
  "specs_of al c = snd (snd (decl_of al c))"

definition head_code :: "dwarf_structs \<Rightarrow> entry_decls \<Rightarrow> int \<Rightarrow> form_value list \<Rightarrow> bytes" where
  "head_code ds al c vs = uleb128 (nat c) @ the (values_code ds (specs_of al c) vs)"

definition head_ok :: "dwarf_structs \<Rightarrow> entry_decls \<Rightarrow> int \<Rightarrow> form_value list \<Rightarrow> bool" where
  "head_ok ds al c vs \<longleftrightarrow> 0 < c \<and> map_of al c \<noteq> None \<and> distinct (map fst (specs_of al c)) \<and> values_code ds (specs_of al c) vs \<noteq> None"

text \<open>The entries that are read.\<close>

definition head_die :: "dwarf_structs \<Rightarrow> entry_decls \<Rightarrow> int \<Rightarrow> int \<Rightarrow> form_value list \<Rightarrow> die" where
  "head_die ds al off c vs = \<lparr>die_offset = off, die_tag = VLit (fst (decl_of al c)), die_has_children = has_kids al c,
     die_abbrev_code = c, die_size = int (length (head_code ds al c vs)),
     die_attributes = attributes_at ds (off + int (length (uleb128 (nat c)))) (specs_of al c) vs\<rparr>"

definition null_die :: "int \<Rightarrow> die" where
  "null_die off = \<lparr>die_offset = off, die_tag = VNone, die_has_children = False, die_abbrev_code = 0, die_size = 1, die_attributes = []\<rparr>"

fun entry_code :: "dwarf_structs \<Rightarrow> entry_decls \<Rightarrow> entry \<Rightarrow> bytes"
  and entries_code :: "dwarf_structs \<Rightarrow> entry_decls \<Rightarrow> entry list \<Rightarrow> bytes" where
  "entry_code ds al (Entry c vs es) = head_code ds al c vs @ (if has_kids al c then entries_code ds al es @ [0] else [])"
| "entries_code ds al [] = []"
| "entries_code ds al (e # es) = entry_code ds al e @ entries_code ds al es"

definition entry_end :: "dwarf_structs \<Rightarrow> entry_decls \<Rightarrow> int \<Rightarrow> entry \<Rightarrow> int" where
  "entry_end ds al off e = off + int (length (entry_code ds al e))"

definition entries_end :: "dwarf_structs \<Rightarrow> entry_decls \<Rightarrow> int \<Rightarrow> entry list \<Rightarrow> int" where
  "entries_end ds al off es = off + int (length (entries_code ds al es))"

text \<open>Where the children of an entry start.\<close>

definition head_end :: "dwarf_structs \<Rightarrow> entry_decls \<Rightarrow> int \<Rightarrow> int \<Rightarrow> form_value list \<Rightarrow> int" where
  "head_end ds al off c vs = off + int (length (head_code ds al c vs))"

text \<open>An entry, its descendants, and the null entries that end lists of children, in the order of the section.\<close>

fun entry_dies :: "dwarf_structs \<Rightarrow> entry_decls \<Rightarrow> int \<Rightarrow> entry \<Rightarrow> die list"
  and entries_dies :: "dwarf_structs \<Rightarrow> entry_decls \<Rightarrow> int \<Rightarrow> entry list \<Rightarrow> die list" where
  "entry_dies ds al off (Entry c vs es) = head_die ds al off c vs # (if has_kids al c then
     entries_dies ds al (head_end ds al off c vs) es @ [null_die (entries_end ds al (head_end ds al off c vs) es)] else [])"
| "entries_dies ds al off [] = []"
| "entries_dies ds al off (e # es) = entry_dies ds al off e @ entries_dies ds al (entry_end ds al off e) es"

fun root_die :: "dwarf_structs \<Rightarrow> entry_decls \<Rightarrow> int \<Rightarrow> entry \<Rightarrow> die" where
  "root_die ds al off (Entry c vs es) = head_die ds al off c vs"

text \<open>
  Well-formed: every entry has a declaration and values for its attributes, only one that is declared to have children
  has any, and a \<^verbatim>\<open>DW_AT_sibling\<close>, where there is one, points behind the entry's subtree.
\<close>

definition sibling_ok :: "unit_obj \<Rightarrow> die \<Rightarrow> int \<Rightarrow> bool" where
  "sibling_ok un d off = (case die_attr d ''DW_AT_sibling'' of None \<Rightarrow> True | Some a \<Rightarrow> sibling_offset un a = Ok off)"

fun entry_ok :: "unit_obj \<Rightarrow> dwarf_structs \<Rightarrow> entry_decls \<Rightarrow> int \<Rightarrow> entry \<Rightarrow> bool"
  and entries_ok :: "unit_obj \<Rightarrow> dwarf_structs \<Rightarrow> entry_decls \<Rightarrow> int \<Rightarrow> entry list \<Rightarrow> bool" where
  "entry_ok un ds al off (Entry c vs es) \<longleftrightarrow> head_ok ds al c vs \<and> (has_kids al c \<or> es = []) \<and>
     entries_ok un ds al (head_end ds al off c vs) es"
| "entries_ok un ds al off [] \<longleftrightarrow> True"
| "entries_ok un ds al off (e # es) \<longleftrightarrow> entry_ok un ds al off e \<and> sibling_ok un (root_die ds al off e) (entry_end ds al off e) \<and>
     entries_ok un ds al (entry_end ds al off e) es"

fun height :: "entry \<Rightarrow> nat" and heights :: "entry list \<Rightarrow> nat" where
  "height (Entry c vs es) = Suc (heights es)"
| "heights [] = 0"
| "heights (e # es) = max (height e) (heights es)"

section \<open>Offsets\<close>

lemma uleb_nonempty: "uleb128 n \<noteq> []"
  by (subst uleb128.simps) simp

lemma code_nonempty: "0 < length (head_code ds al c vs)" "0 < length (entry_code ds al e)"
proof -
  show h: "0 < length (head_code ds al c vs)" for c vs using uleb_nonempty by (simp add: head_code_def)
  then show "0 < length (entry_code ds al e)" by (cases e) (auto simp: add_pos_nonneg)
qed

lemma head_die_sel [simp]:
  "die_offset (head_die ds al off c vs) = off" "die_size (head_die ds al off c vs) = int (length (head_code ds al c vs))"
  "die_has_children (head_die ds al off c vs) = has_kids al c" "\<not> is_null (head_die ds al off c vs)"
  "die_offset (null_die off) = off" "die_size (null_die off) = 1" "is_null (null_die off)" "\<not> die_has_children (null_die off)"
  by (simp_all add: head_die_def null_die_def is_null_def)

lemma root_die_in: "root_die ds al off e \<in> set (entry_dies ds al off e)" "die_offset (root_die ds al off e) = off"
  by (cases e; simp)+

lemma ends:
  "entries_end ds al off [] = off" "entries_end ds al off (e # es) = entries_end ds al (entry_end ds al off e) es"
  "entry_end ds al off (Entry c vs es) =
     (if has_kids al c then entries_end ds al (head_end ds al off c vs) es + 1 else head_end ds al off c vs)"
  by (simp_all add: entries_end_def entry_end_def head_end_def)

lemma ends_after: "off < head_end ds al off c vs" "off < entry_end ds al off e" "off \<le> entries_end ds al off es"
  using code_nonempty by (simp_all add: head_end_def entry_end_def entries_end_def)

lemma dies_range:
  "d \<in> set (entry_dies ds al off e) \<Longrightarrow> off \<le> die_offset d \<and> die_offset d < entry_end ds al off e"
  "d \<in> set (entries_dies ds al off es) \<Longrightarrow> off \<le> die_offset d \<and> die_offset d < entries_end ds al off es"
proof (induction ds al off e and ds al off es rule: entry_dies_entries_dies.induct)
  case (1 ds al off c vs es)
  then show ?case
    using ends_after(1) [of off ds al c vs] ends_after(3) [of "head_end ds al off c vs" ds al es]
    by (auto simp: ends split: if_splits)
next
  case (3 ds al off e es)
  then show ?case
    using ends_after(2) [of off ds al e] ends_after(3) [of "entry_end ds al off e" ds al es] by (auto simp: ends)
qed simp

lemma dies_sorted:
  "sorted_wrt (<) (map die_offset (entry_dies ds al off e))"
  "sorted_wrt (<) (map die_offset (entries_dies ds al off es))"
proof (induction ds al off e and ds al off es rule: entry_dies_entries_dies.induct)
  case (1 ds al off c vs es)
  then show ?case
    using ends_after(1) [of off ds al c vs] ends_after(3) [of "head_end ds al off c vs" ds al es]
      dies_range(2) [of _ ds al "head_end ds al off c vs" es]
    by (fastforce simp: sorted_wrt_append)
next
  case (3 ds al off e es)
  then show ?case
    using dies_range(1) [of _ ds al off e] dies_range(2) [of _ ds al "entry_end ds al off e" es]
    by (fastforce simp: sorted_wrt_append)
qed simp

lemma dies_unique:
  assumes "d \<in> set (entry_dies ds al off e)" "d' \<in> set (entry_dies ds al off e)" "die_offset d = die_offset d'"
  shows "d = d'"
proof -
  have "distinct (map die_offset (entry_dies ds al off e))" using dies_sorted(1) by (simp add: strict_sorted_iff)
  with assms show ?thesis by (simp add: distinct_map inj_on_def)
qed

end
