(* ===== verification/EntryReads.thy ===== *)
theory EntryReads
  imports EntryTrees
begin

text \<open>Reading one entry from the bytes it is written as.\<close>

section \<open>A section of the file\<close>

definition sec_bytes :: "dwarf \<Rightarrow> section_name \<Rightarrow> bytes option" where
  "sec_bytes s n = map_option (\<lambda>d. sdata (sec_stream d)) (dw_secs s n)"

definition seek_sec :: "section_name \<Rightarrow> nat \<Rightarrow> dwarf \<Rightarrow> dwarf" where
  "seek_sec n p s = s\<lparr>dw_secs := (dw_secs s)(n := map_option (\<lambda>d. d\<lparr>sec_stream := (sec_stream d)\<lparr>spos := p\<rparr>\<rparr>) (dw_secs s n))\<rparr>"

lemma seek_sec_simps [simp]:
  "seek_sec n q (seek_sec n p s) = seek_sec n q s" "dw_units (seek_sec n p s) = dw_units s"
  "sec_bytes (seek_sec n p s) m = sec_bytes s m"
  by (cases "dw_secs s n"; simp add: seek_sec_def sec_bytes_def)+

lemma in_sec_run:
  "dw_secs s n = Some d \<Longrightarrow> m (sec_stream d) = (r, t) \<Longrightarrow>
   in_sec n m s = (r, s\<lparr>dw_secs := (dw_secs s)(n \<mapsto> d\<lparr>sec_stream := t\<rparr>)\<rparr>)"
  by (simp add: in_sec_def)

lemma in_sec_seek:
  "sec_bytes s n = Some data \<Longrightarrow> 0 \<le> p \<Longrightarrow> p < 2 ^ 63 \<Longrightarrow> in_sec n (s_seek p) s = (Ok (), seek_sec n (nat p) s)"
  by (auto simp: sec_bytes_def in_sec_def s_seek_def seek_sec_def)

lemma in_sec_pos:
  "sec_bytes s n = Some data \<Longrightarrow> in_sec n s_pos (seek_sec n p s) = (Ok (int p), seek_sec n p s)"
  by (auto simp: sec_bytes_def in_sec_def s_pos_def s_tell_def seek_sec_def)

lemma in_sec_parse:
  assumes "sec_bytes s n = Some data" "drop p data = bs @ rest" "reads_as c bs v"
  shows "in_sec n (parse_stream c) (seek_sec n p s) = (Ok v, seek_sec n (p + length bs) s)"
proof -
  obtain d where d: "dw_secs s n = Some d" "sdata (sec_stream d) = data" using assms(1) by (auto simp: sec_bytes_def)
  let ?t = "(sec_stream d)\<lparr>spos := p\<rparr>"
  have "tail_bytes ?t = bs @ rest" using d assms(2) by (simp add: tail_bytes_def)
  from reads_as_run [OF assms(3), of "\<lparr>pctx = [], pstm = ?t\<rparr>" rest] this
  have "parse_stream c ?t = (Ok v, adv (length bs) ?t)" by (simp add: parse_stream_def)
  then show ?thesis by (simp add: in_sec_def seek_sec_def d adv_def)
qed

section \<open>Values\<close>

definition translates :: "(val \<Rightarrow> val \<Rightarrow> val D) \<Rightarrow> bool" where
  "translates tr \<longleftrightarrow> (\<forall>f v. plain_form f \<longrightarrow> tr (VLit f) (raw_value v) = ret (value_of f v))"

lemma translates_direct: "translates translate_direct"
  by (auto simp: translates_def translate_direct_def plain_form_def value_of_def)

lemma translates_any: "translates (translate_attr_value base u)"
  using translates_direct by (simp add: translates_def translate_attr_value_def plain_form_def)

lemma form_code_reads:
  assumes "form_code ds f v = Some bs"
  shows "\<exists>c. form_parser ds (VLit f) = Ok c \<and> reads_as c bs (raw_value v)" "plain_form f"
proof -
  have "form_parser ds (VLit ''DW_FORM_string'') = Ok (CString '''' None)" "plain_form ''DW_FORM_string''"
    by (simp_all add: form_parser_def Dwarf_dw_form_def dw_form_table_def plain_form_def index_form_def)
  with assms show "\<exists>c. form_parser ds (VLit f) = Ok c \<and> reads_as c bs (raw_value v)" "plain_form f"
    by (auto simp: form_code_def encode_number_reads plain_string_def intro!: read_string
        split: form_value.splits res.splits if_splits)
qed

definition spec_of :: "string \<times> string \<Rightarrow> val \<Rightarrow> bool" where
  "spec_of nf sv \<longleftrightarrow> get_attr sv ''name'' = Ok (VLit (fst nf)) \<and> get_attr sv ''form'' = Ok (VLit (snd nf))"

lemma parse_attribute_run:
  assumes tr: "translates tr" and b: "form_code ds f v = Some bs" and sv: "spec_of (n, f) sv"
    and s: "sec_bytes s sec = Some data" "drop p data = bs @ rest"
  shows "parse_attribute tr ds sec sv (seek_sec sec p s) =
    (Ok \<lparr>at_name = VLit n, at_form = VLit f, at_value = value_of f v, at_raw = raw_value v, at_offset = int p, at_indirection = 0\<rparr>,
     seek_sec sec (p + length bs) s)"
proof -
  obtain c where c: "form_parser ds (VLit f) = Ok c" "reads_as c bs (raw_value v)" using form_code_reads [OF b] by blast
  have f: "f \<noteq> ''DW_FORM_implicit_const''" "f \<noteq> ''DW_FORM_indirect''" "plain_form f"
    using form_code_reads(2) [OF b] by (simp_all add: plain_form_def)
  show ?thesis
    using sv tr f c(1) in_sec_pos [OF s(1), of p] in_sec_parse [OF s c(2)]
    by (simp add: parse_attribute_def spec_of_def translates_def mbind_Ok)
qed

lemma drop_behind: "drop p data = b @ r \<Longrightarrow> drop (p + length b) data = r"
  by (metis add.commute append_eq_conv_conj drop_drop)

lemma update_new: "k \<notin> fst ` set m \<Longrightarrow> AList.update k v m = m @ [(k, v)]"
  by (induction m) auto

lemma parse_attributes_run:
  assumes tr: "translates tr" and s: "sec_bytes s sec = Some data"
  shows "values_code ds specs vs = Some bs \<Longrightarrow> list_all2 spec_of specs svs \<Longrightarrow> drop p data = bs @ rest \<Longrightarrow>
    distinct (map fst specs) \<Longrightarrow> (\<forall>n \<in> set (map fst specs). VLit n \<notin> fst ` set attrs) \<Longrightarrow>
    parse_attributes tr ds sec svs attrs (seek_sec sec p s) =
      (Ok (attrs @ attributes_at ds (int p) specs vs), seek_sec sec (p + length bs) s)"
proof (induction ds specs vs arbitrary: svs attrs p bs rule: values_code.induct)
  case (2 ds n f specs v vs)
  from 2(2) obtain b bs' where b: "form_code ds f v = Some b" "values_code ds specs vs = Some bs'" "bs = b @ bs'"
    by (auto split: option.splits)
  from 2(3) obtain sv svs' where sv: "svs = sv # svs'" "spec_of (n, f) sv" "list_all2 spec_of specs svs'"
    by (auto simp: list_all2_Cons1)
  have p: "drop p data = b @ (bs' @ rest)" using 2(4) b(3) by simp
  let ?a = "\<lparr>at_name = VLit n, at_form = VLit f, at_value = value_of f v, at_raw = raw_value v, at_offset = int p, at_indirection = 0\<rparr>"
  have u: "AList.update (VLit n) ?a attrs = attrs @ [(VLit n, ?a)]" using 2(6) by (intro update_new) simp
  have "\<forall>m \<in> set (map fst specs). VLit m \<notin> fst ` set (attrs @ [(VLit n, ?a)])" using 2(5,6) by auto
  from 2(1) [OF b(1,2) sv(3) drop_behind [OF p] _ this] 2(5)
  show ?case
    by (simp add: sv(1) b mbind_Ok [where m = "parse_attribute _ _ _ _", OF parse_attribute_run [OF tr b(1) sv(2) s p]] u add.assoc)
qed simp_all

section \<open>Entries\<close>

definition declares :: "abbrev_table \<Rightarrow> entry_decls \<Rightarrow> bool" where
  "declares tab al \<longleftrightarrow> (\<forall>c \<in> fst ` set al. \<exists>d svs. get_abbrev tab c = Ok d \<and>
     get_item (ab_decl d) ''tag'' = Ok (VLit (fst (decl_of al c))) \<and> has_children d = has_kids al c \<and>
     rbind (get_item (ab_decl d) ''attr_spec'') viter = Ok svs \<and> list_all2 spec_of (specs_of al c) svs)"

text \<open>What stands in a section at the offset of an entry.\<close>

definition stands :: "dwarf_structs \<Rightarrow> entry_decls \<Rightarrow> bytes \<Rightarrow> die \<Rightarrow> bool" where
  "stands ds al data d \<longleftrightarrow> 0 \<le> die_offset d \<and> die_offset d < 2 ^ 63 \<and>
     ((\<exists>rest. drop (nat (die_offset d)) data = 0 # rest \<and> d = null_die (die_offset d)) \<or>
      (\<exists>c vs rest. head_ok ds al c vs \<and> drop (nat (die_offset d)) data = head_code ds al c vs @ rest \<and>
         d = head_die ds al (die_offset d) c vs))"

lemma drop_behind_nat: "0 \<le> p \<Longrightarrow> drop (nat p) data = b @ r \<Longrightarrow> drop (nat (p + int (length b))) data = r"
  by (metis drop_behind nat_int_add int_nat_eq)

lemma dies_stand:
  "0 \<le> off \<Longrightarrow> entry_end ds al off e \<le> 2 ^ 63 \<Longrightarrow> entry_ok un ds al off e \<Longrightarrow>
     drop (nat off) data = entry_code ds al e @ rest \<Longrightarrow> d \<in> set (entry_dies ds al off e) \<Longrightarrow> stands ds al data d"
  "0 \<le> off \<Longrightarrow> entries_end ds al off es \<le> 2 ^ 63 \<Longrightarrow> entries_ok un ds al off es \<Longrightarrow>
     drop (nat off) data = entries_code ds al es @ rest \<Longrightarrow> d \<in> set (entries_dies ds al off es) \<Longrightarrow> stands ds al data d"
proof (induction ds al off e and ds al off es arbitrary: rest and rest rule: entry_dies_entries_dies.induct)
  case (1 ds al off c vs es)
  let ?h = "head_end ds al off c vs" and ?n = "null_die (entries_end ds al (head_end ds al off c vs) es)"
  note after = ends_after(1) [of off ds al c vs] ends_after(3) [of ?h ds al es]
  have h: "stands ds al data (head_die ds al off c vs)"
    using 1(2-5) ends_after(2) [of off ds al "Entry c vs es"] by (auto simp: stands_def)
  show ?case
  proof (cases "has_kids al c \<and> d \<noteq> head_die ds al off c vs")
    case True
    let ?code = "entries_code ds al es"
    have code: "drop (nat ?h) data = ?code @ (0 # rest)"
      using 1(2,5) True unfolding head_end_def by (intro drop_behind_nat) simp_all
    have bound: "0 \<le> ?h" "entries_end ds al ?h es < 2 ^ 63" using 1(2,3) True after by (simp_all add: ends)
    have "drop (nat (entries_end ds al ?h es)) data = 0 # rest"
      unfolding entries_end_def using bound(1) code by (rule drop_behind_nat)
    then have "stands ds al data ?n" using bound after by (simp add: stands_def)
    moreover have "stands ds al data d" if "d \<in> set (entries_dies ds al ?h es)"
      using 1(1) [OF _ bound(1) _ _ code that] True bound(2) 1(4) by simp
    ultimately show ?thesis using 1(6) True by auto
  next
    case False
    with 1(6) h show ?thesis by (auto split: if_splits)
  qed
next
  case (3 ds al off e es)
  note after = ends_after(2) [of off ds al e] ends_after(3) [of "entry_end ds al off e" ds al es]
  have code: "drop (nat off) data = entry_code ds al e @ (entries_code ds al es @ rest)" using 3(6) by simp
  have code': "drop (nat (entry_end ds al off e)) data = entries_code ds al es @ rest"
    unfolding entry_end_def using 3(3) code by (rule drop_behind_nat)
  from 3(1) [OF 3(3) _ _ code] 3(2) [OF _ _ _ code'] 3(3-5,7) after show ?case by (auto simp: ends)
qed simp

lemma reads_code: "reads_as (the_Dwarf_uleb128 ds) (uleb128 n) (VInt (int n))"
  by (simp add: the_dwarf_defs read_leb)

text \<open>Parsing at an entry's offset gives the entry, wherever the section's position was.\<close>

lemma parse_DIE_run:
  assumes tr: "translates tr" and d: "stands ds al data d" and t: "declares tab al"
    and u: "un_structs (dw_units s ! u) = ds" "un_abbrev (dw_units s ! u) = Some tab" "unit_section (dw_units s ! u) = sec"
    and s: "sec_bytes s sec = Some data"
  shows "\<exists>p. parse_DIE tr u (die_offset d) s = (Ok d, seek_sec sec p s)"
proof -
  let ?off = "die_offset d"
  have off: "0 \<le> ?off" "?off < 2 ^ 63" using d by (simp_all add: stands_def)
  note seek = in_sec_seek [OF s off]
  from d consider (null) rest where "drop (nat ?off) data = 0 # rest" "d = null_die ?off"
    | (entry) c vs rest where "head_ok ds al c vs" "drop (nat ?off) data = head_code ds al c vs @ rest" "d = head_die ds al ?off c vs"
    by (auto simp: stands_def)
  then show ?thesis
  proof cases
    case null
    then have z: "drop (nat ?off) data = uleb128 0 @ rest" by (simp add: uleb128.simps)
    have z: "in_sec sec (parse_stream (the_Dwarf_uleb128 ds)) (seek_sec sec (nat ?off) s) = (Ok (VInt 0), seek_sec sec (nat ?off + 1) s)"
      using in_sec_parse [OF s z reads_code] by (simp add: uleb128.simps)
    show ?thesis
      using u seek off in_sec_pos [OF s, of "nat ?off + 1"] null(2) z
      by (auto simp: parse_DIE_def try_except_def mbind_Ok null_die_def Let_def intro!: exI [of _ "nat ?off + 1"])
  next
    case entry
    let ?l = "length (uleb128 (nat c))" and ?sp = "specs_of al c"
    obtain b where b: "values_code ds ?sp vs = Some b" using entry(1) by (auto simp: head_ok_def)
    have h: "head_code ds al c vs = uleb128 (nat c) @ b" by (simp add: head_code_def b)
    have k: "0 < c" "c \<in> fst ` set al" "distinct (map fst ?sp)" using entry(1) by (auto simp: head_ok_def map_of_eq_None_iff)
    obtain a svs where a: "get_abbrev tab c = Ok a" "get_item (ab_decl a) ''tag'' = Ok (VLit (fst (decl_of al c)))"
      "has_children a = has_kids al c" "rbind (get_item (ab_decl a) ''attr_spec'') viter = Ok svs" "list_all2 spec_of ?sp svs"
      using t k(2) unfolding declares_def by blast
    have d0: "drop (nat ?off) data = uleb128 (nat c) @ (b @ rest)" using entry(2) h by simp
    have d1: "drop (nat ?off + ?l) data = b @ rest" by (rule drop_behind [OF d0])
    have c: "in_sec sec (parse_stream (the_Dwarf_uleb128 ds)) (seek_sec sec (nat ?off) s) = (Ok (VInt c), seek_sec sec (nat ?off + ?l) s)"
      using in_sec_parse [OF s d0 reads_code] k(1) by simp
    have at: "parse_attributes tr ds sec svs [] (seek_sec sec (nat ?off + ?l) s) =
        (Ok (attributes_at ds (?off + int ?l) ?sp vs), seek_sec sec (nat ?off + ?l + length b) s)"
      using parse_attributes_run [OF tr s b a(5) d1 k(3), of "[]"] off by simp
    have tb: "unit_abbrev_table u v = (Ok tab, v)" if "dw_units v = dw_units s" for v
      using u(2) that by (simp add: unit_abbrev_table_def)
    have "parse_DIE tr u ?off s = (Ok \<lparr>die_offset = ?off, die_tag = VLit (fst (decl_of al c)), die_has_children = has_kids al c,
        die_abbrev_code = c, die_size = int (nat ?off + ?l + length b) - ?off,
        die_attributes = attributes_at ds (?off + int ?l) ?sp vs\<rparr>, seek_sec sec (nat ?off + ?l + length b) s)"
      using u(1,3) seek c tb a at k(1) in_sec_pos [OF s, of "nat ?off + ?l + length b"]
      by (simp add: parse_DIE_def try_except_def mbind_Ok Let_def)
    moreover have "int (nat ?off + ?l + length b) - ?off = int (length (head_code ds al c vs))" using off h by simp
    ultimately show ?thesis using entry(3) by (auto simp: head_die_def)
  qed
qed

end
