(* ===== verification/EntryWalk.thy ===== *)
theory EntryWalk
  imports EntryReads
begin

text \<open>
  Walking a unit whose section holds the code of a tree of entries.  What is true of the unit all along: what it has
  cached are entries of the tree, and the ends it has noted for lists of children are the ends they have.
\<close>

section \<open>Where lists of children end\<close>

fun entry_terms :: "dwarf_structs \<Rightarrow> entry_decls \<Rightarrow> int \<Rightarrow> entry \<Rightarrow> (int \<times> int) list"
  and entries_terms :: "dwarf_structs \<Rightarrow> entry_decls \<Rightarrow> int \<Rightarrow> entry list \<Rightarrow> (int \<times> int) list" where
  "entry_terms ds al off (Entry c vs es) = (if has_kids al c then
     (off, entries_end ds al (head_end ds al off c vs) es) # entries_terms ds al (head_end ds al off c vs) es else [])"
| "entries_terms ds al off [] = []"
| "entries_terms ds al off (e # es) = entry_terms ds al off e @ entries_terms ds al (entry_end ds al off e) es"

lemma terms_range:
  "ot \<in> set (entry_terms ds al off e) \<Longrightarrow> off \<le> fst ot \<and> fst ot < entry_end ds al off e"
  "ot \<in> set (entries_terms ds al off es) \<Longrightarrow> off \<le> fst ot \<and> fst ot < entries_end ds al off es"
proof (induction ds al off e and ds al off es rule: entry_terms_entries_terms.induct)
  case (1 ds al off c vs es)
  then show ?case
    using ends_after(1) [of off ds al c vs] ends_after(3) [of "head_end ds al off c vs" ds al es]
    by (auto simp: ends split: if_splits)
next
  case (3 ds al off e es)
  then show ?case
    using ends_after(2) [of off ds al e] ends_after(3) [of "entry_end ds al off e" ds al es] by (auto simp: ends)
qed simp

lemma terms_unique:
  "(k, t) \<in> set (entry_terms ds al off e) \<Longrightarrow> (k, t') \<in> set (entry_terms ds al off e) \<Longrightarrow> t = t'"
  "(k, t) \<in> set (entries_terms ds al off es) \<Longrightarrow> (k, t') \<in> set (entries_terms ds al off es) \<Longrightarrow> t = t'"
proof (induction ds al off e and ds al off es rule: entry_terms_entries_terms.induct)
  case (1 ds al off c vs es)
  then show ?case
    using terms_range(2) [of _ ds al "head_end ds al off c vs" es] ends_after(1) [of off ds al c vs]
    by (fastforce split: if_splits)
next
  case (3 ds al off e es)
  then show ?case
    using terms_range(1) [of _ ds al off e] terms_range(2) [of _ ds al "entry_end ds al off e" es] by fastforce
qed simp

section \<open>Looking up an entry of the tree\<close>

text \<open>The entries of a tree, and its ends; each entry stands in the section.\<close>

definition of_tree :: "dwarf_structs \<Rightarrow> entry_decls \<Rightarrow> bytes \<Rightarrow> die list \<Rightarrow> bool" where
  "of_tree ds al data dies \<longleftrightarrow> (\<forall>d \<in> set dies. stands ds al data d) \<and> inj_on die_offset (set dies)"

definition on_track :: "nat \<Rightarrow> unit_obj \<Rightarrow> bytes \<Rightarrow> die list \<Rightarrow> (int \<times> int) list \<Rightarrow> dwarf \<Rightarrow> bool" where
  "on_track u un data dies ts s \<longleftrightarrow> u < length (dw_units s) \<and> un_types (dw_units s ! u) = un_types un \<and>
     un_structs (dw_units s ! u) = un_structs un \<and> un_offset (dw_units s ! u) = un_offset un \<and>
     un_abbrev (dw_units s ! u) = un_abbrev un \<and> sec_bytes s (unit_section un) = Some data \<and>
     unit_coherent (dw_units s ! u) \<and> un_diemap (dw_units s ! u) \<noteq> [] \<and> set (un_dielist (dw_units s ! u)) \<subseteq> set dies \<and>
     (\<forall>k t. map_of (un_terminator (dw_units s ! u)) k = Some t \<longrightarrow> (k, t) \<in> set ts \<and> t \<in> set (un_diemap (dw_units s ! u)))"

lemma insert_at_nonempty: "insert_at i x xs \<noteq> []"
  by (simp add: insert_at_def)

lemma lookup_entry:
  assumes tr: "of_tree (un_structs un) al data dies" and t: "un_abbrev un = Some tab" "declares tab al"
    and s: "on_track u un data dies ts s" and d: "d \<in> set dies"
  shows "\<exists>s'. get_cached_DIE u (die_offset d) s = (Ok d, s') \<and> on_track u un data dies ts s' \<and>
    die_offset d \<in> set (un_diemap (dw_units s' ! u))"
proof (cases "die_offset d \<in> set (un_diemap (dw_units s ! u))")
  case True
  let ?un = "dw_units s ! u"
  from s have c: "unit_coherent ?un" by (simp add: on_track_def)
  from True obtain i where i: "i < length (un_diemap ?un)" "un_diemap ?un ! i = die_offset d" by (auto simp: in_set_conv_nth)
  have l: "i < length (un_dielist ?un)" using i(1) unit_keys(4) [OF c] by simp
  with s have "un_dielist ?un ! i \<in> set dies" unfolding on_track_def by (metis nth_mem subset_iff)
  moreover have "die_offset (un_dielist ?un ! i) = die_offset d" using i(2) l unit_keys(3) [OF c] by (metis nth_map)
  ultimately have "un_dielist ?un ! i = d" using tr d unfolding of_tree_def inj_on_def by blast
  with cached_DIE_found [OF c i] s True show ?thesis by metis
next
  case False
  let ?un = "dw_units s ! u" and ?off = "die_offset d" and ?sec = "unit_section un"
  let ?i = "bisect_right (un_diemap (dw_units s ! u)) (die_offset d)"
  from s have c: "unit_coherent ?un" "un_diemap ?un \<noteq> []" "u < length (dw_units s)" by (simp_all add: on_track_def)
  note k = unit_keys [OF c(1)]
  have "stands (un_structs un) al data d" using tr d by (simp add: of_tree_def)
  moreover have "un_structs ?un = un_structs un" "un_abbrev ?un = Some tab" "unit_section ?un = ?sec" "sec_bytes s ?sec = Some data"
    using s t(1) by (simp_all add: on_track_def unit_section_def)
  ultimately obtain p where p: "parse_at u ?off s = (Ok d, seek_sec ?sec p s)"
    using parse_DIE_run [OF translates_any _ t(2)] unfolding parse_at_def by blast
  let ?new = "?un\<lparr>un_dielist := insert_at ?i d (un_dielist ?un), un_diemap := insert_at ?i ?off (un_diemap ?un)\<rparr>"
  let ?s = "(seek_sec ?sec p s)\<lparr>dw_units := (dw_units s)[u := ?new]\<rparr>"
  have "get_cached_DIE u ?off s = (Ok d, ?s)"
    by (simp add: get_cached_miss [OF c(1,2) False] mbind_def p put_entry_def set_unit_def)
  moreover have "unit_coherent ?new"
    using strict_sorted_insert [OF k(1) False] k(3) by (simp add: unit_coherent_def)
  then have "on_track u un data dies ts ?s"
    using s c(3) d by (auto simp: on_track_def sec_bytes_def seek_sec_def insert_at_nonempty split: if_splits)
  ultimately show ?thesis using c(3) by auto
qed

section \<open>Walking\<close>

fun placed :: "dwarf_structs \<Rightarrow> entry_decls \<Rightarrow> int \<Rightarrow> entry list \<Rightarrow> (int \<times> entry) list" where
  "placed ds al off [] = []"
| "placed ds al off (e # es) = (off, e) # placed ds al (entry_end ds al off e) es"

lemma entries_dies_placed: "entries_dies ds al off es = concat (map (\<lambda>(o', e). entry_dies ds al o' e) (placed ds al off es))"
  by (induction es arbitrary: off) auto

lemma placed_parts:
  "(o', e) \<in> set (placed ds al off es) \<Longrightarrow> set (entry_dies ds al o' e) \<subseteq> set (entries_dies ds al off es)"
  "(o', e) \<in> set (placed ds al off es) \<Longrightarrow> set (entry_terms ds al o' e) \<subseteq> set (entries_terms ds al off es)"
  "(o', e) \<in> set (placed ds al off es) \<Longrightarrow> entries_ok un ds al off es \<Longrightarrow>
     entry_ok un ds al o' e \<and> sibling_ok un (root_die ds al o' e) (entry_end ds al o' e)"
  "(o', e) \<in> set (placed ds al off es) \<Longrightarrow> length (entry_code ds al e) \<le> length (entries_code ds al es)"
  "(o', e) \<in> set (placed ds al off es) \<Longrightarrow> height e \<le> heights es"
  by (induction es arbitrary: off) (auto intro: trans_le_add2 max.coboundedI2)

lemma entries_length: "length es \<le> length (entries_code ds al es)"
proof (induction es)
  case (Cons e es)
  have "Suc 0 \<le> length (entry_code ds al e)" using code_nonempty(2) [of ds al e] by (simp only: Suc_le_eq)
  with Cons show ?case unfolding entries_code.simps length_append list.size by linarith
qed simp

text \<open>What the walk rests on, for the whole tree and for an entry in it.\<close>

definition walkable :: "unit_obj \<Rightarrow> entry_decls \<Rightarrow> bytes \<Rightarrow> die list \<Rightarrow> (int \<times> int) list \<Rightarrow> bool" where
  "walkable un al data dies ts \<longleftrightarrow> of_tree (un_structs un) al data dies \<and> (\<exists>tab. un_abbrev un = Some tab \<and> declares tab al) \<and>
     (\<forall>k t t'. (k, t) \<in> set ts \<longrightarrow> (k, t') \<in> set ts \<longrightarrow> t = t') \<and> (\<forall>k t. (k, t) \<in> set ts \<longrightarrow> null_die t \<in> set dies)"

definition fits :: "unit_obj \<Rightarrow> entry_decls \<Rightarrow> bytes \<Rightarrow> die list \<Rightarrow> (int \<times> int) list \<Rightarrow> int \<Rightarrow> entry \<Rightarrow> bool" where
  "fits un al data dies ts off e \<longleftrightarrow> entry_ok un (un_structs un) al off e \<and> set (entry_dies (un_structs un) al off e) \<subseteq> set dies \<and>
     set (entry_terms (un_structs un) al off e) \<subseteq> set ts \<and> length (entry_code (un_structs un) al e) \<le> length data"

definition noted :: "nat \<Rightarrow> int \<Rightarrow> dwarf \<Rightarrow> bool" where
  "noted u k s \<longleftrightarrow> map_of (un_terminator (dw_units s ! u)) k \<noteq> None"

text \<open>\<open>m\<close> returns \<open>v\<close> from every state of the walk, and the walk goes on.\<close>

definition walks :: "nat \<Rightarrow> unit_obj \<Rightarrow> bytes \<Rightarrow> die list \<Rightarrow> (int \<times> int) list \<Rightarrow> 'a D \<Rightarrow> 'a \<Rightarrow> (dwarf \<Rightarrow> bool) \<Rightarrow> bool" where
  "walks u un data dies ts m v Q \<longleftrightarrow> (\<forall>s. on_track u un data dies ts s \<longrightarrow> (\<exists>s'. m s = (Ok v, s') \<and> on_track u un data dies ts s' \<and> Q s'))"

lemma walksI:
  "(\<And>s. on_track u un data dies ts s \<Longrightarrow> \<exists>s'. m s = (Ok v, s') \<and> on_track u un data dies ts s' \<and> Q s') \<Longrightarrow> walks u un data dies ts m v Q"
  by (simp add: walks_def)

lemma walksD:
  "walks u un data dies ts m v Q \<Longrightarrow> on_track u un data dies ts s \<Longrightarrow> \<exists>s'. m s = (Ok v, s') \<and> on_track u un data dies ts s' \<and> Q s'"
  by (simp add: walks_def)

lemma walks_ret: "walks u un data dies ts (ret v) v (\<lambda>_. True)"
  by (simp add: walks_def)

text \<open>Changing what \<open>unit_key\<close> does not contain.\<close>

lemma on_track_key:
  assumes s: "on_track u un data dies ts s" and k: "unit_key (f (dw_units s ! u)) = unit_key (dw_units s ! u)"
    and e: "un_structs (f (dw_units s ! u)) = un_structs (dw_units s ! u)" "un_abbrev (f (dw_units s ! u)) = un_abbrev (dw_units s ! u)"
    and t: "\<And>k t. map_of (un_terminator (f (dw_units s ! u))) k = Some t \<Longrightarrow>
       map_of (un_terminator (dw_units s ! u)) k = Some t \<or> ((k, t) \<in> set ts \<and> t \<in> set (un_diemap (dw_units s ! u)))"
  shows "set_unit u f s = (Ok (), s\<lparr>dw_units := (dw_units s)[u := f (dw_units s ! u)]\<rparr>)"
    "on_track u un data dies ts (s\<lparr>dw_units := (dw_units s)[u := f (dw_units s ! u)]\<rparr>)"
proof -
  show "set_unit u f s = (Ok (), s\<lparr>dw_units := (dw_units s)[u := f (dw_units s ! u)]\<rparr>)" by (simp add: set_unit_def)
  have c: "unit_coherent (f (dw_units s ! u)) = unit_coherent (dw_units s ! u)" by (rule unit_coherent_key [OF k])
  have fs: "un_types (f (dw_units s ! u)) = un_types (dw_units s ! u)" "un_offset (f (dw_units s ! u)) = un_offset (dw_units s ! u)"
    "un_dielist (f (dw_units s ! u)) = un_dielist (dw_units s ! u)" "un_diemap (f (dw_units s ! u)) = un_diemap (dw_units s ! u)"
    using k by (simp_all add: unit_key_def)
  show "on_track u un data dies ts (s\<lparr>dw_units := (dw_units s)[u := f (dw_units s ! u)]\<rparr>)"
    using s c fs e t unfolding on_track_def by (fastforce simp: sec_bytes_def)
qed

lemma on_track_parent:
  assumes s: "on_track u un data dies ts s"
  shows "\<exists>s'. set_parent u c d s = (Ok (), s') \<and> on_track u un data dies ts s' \<and> un_diemap (dw_units s' ! u) = un_diemap (dw_units s ! u)"
proof -
  let ?f = "\<lambda>un. un\<lparr>un_parent := AList.update (die_offset c) (die_offset d) (un_parent un)\<rparr>"
  have "u < length (dw_units s)" using s by (simp add: on_track_def)
  with on_track_key [OF s, of ?f] show ?thesis by (simp add: set_parent_def unit_key_def)
qed

lemma on_track_terminator:
  assumes s: "on_track u un data dies ts s" and t: "(k, t) \<in> set ts" "t \<in> set (un_diemap (dw_units s ! u))"
  shows "\<exists>s'. set_unit u (\<lambda>un. un\<lparr>un_terminator := AList.update k t (un_terminator un)\<rparr>) s = (Ok (), s') \<and>
    on_track u un data dies ts s' \<and> noted u k s'"
proof -
  let ?f = "\<lambda>un. un\<lparr>un_terminator := AList.update k t (un_terminator un)\<rparr>"
  have u: "u < length (dw_units s)" using s by (simp add: on_track_def)
  have "map_of (un_terminator (dw_units s ! u)) k' = Some t' \<or> ((k', t') \<in> set ts \<and> t' \<in> set (un_diemap (dw_units s ! u)))"
    if "map_of (un_terminator (?f (dw_units s ! u))) k' = Some t'" for k' t'
    using that t by (simp add: update_conv' split: if_splits)
  from on_track_key [OF s, of ?f, OF _ _ _ this] u show ?thesis by (simp add: unit_key_def noted_def update_conv')
qed

lemma terminator_found:
  assumes w: "walkable un al data dies ts" and s: "on_track u un data dies ts s" and n: "noted u k s" and t: "(k, t) \<in> set ts"
  shows "terminator (dw_units s ! u) k = Some (null_die t)"
proof -
  let ?un = "dw_units s ! u"
  obtain t' where t': "map_of (un_terminator ?un) k = Some t'" using n by (auto simp: noted_def)
  with s have "(k, t') \<in> set ts" "t' \<in> set (un_diemap ?un)" by (auto simp: on_track_def)
  moreover from this t w have eq: "t' = t" unfolding walkable_def by blast
  ultimately have "t \<in> die_offset ` set (un_dielist ?un)"
    using s unit_keys(3) [of s u] by (metis on_track_def list.set_map)
  then have "find (\<lambda>d. die_offset d = t) (un_dielist ?un) \<noteq> None" by (auto simp: find_None_iff)
  then obtain d where d: "find (\<lambda>d. die_offset d = t) (un_dielist ?un) = Some d" by blast
  then have "d \<in> set (un_dielist ?un)" "die_offset d = t" by (auto simp: find_Some_iff)
  moreover have "null_die t \<in> set dies" using w t by (auto simp: walkable_def)
  ultimately have "d = null_die t" using s w by (auto simp: walkable_def of_tree_def on_track_def inj_on_def)
  with t' d eq show ?thesis by (simp add: terminator_def)
qed

section \<open>The next child\<close>

lemma same_sibling_offset: "un_offset un = un_offset un' \<Longrightarrow> sibling_offset un a = sibling_offset un' a"
  by (simp add: sibling_offset_def)

lemma walks_next:
  assumes w: "walkable un al data dies ts" and f: "fits un al data dies ts off e"
    and sib: "sibling_ok un (root_die (un_structs un) al off e) (entry_end (un_structs un) al off e)"
    and i: "walks u un data dies ts (inner (root_die (un_structs un) al off e)) ()
      (\<lambda>s. die_has_children (root_die (un_structs un) al off e) \<longrightarrow> noted u off s)"
  shows "walks u un data dies ts (next_child inner u (root_die (un_structs un) al off e) off) (entry_end (un_structs un) al off e) (\<lambda>_. True)"
proof (rule walksI)
  fix s assume s: "on_track u un data dies ts s"
  obtain c vs es where e: "e = Entry c vs es" by (cases e)
  let ?ds = "un_structs un" and ?d = "head_die (un_structs un) al off c vs"
  let ?m = "next_child inner u (root_die ?ds al off e) off" and ?stop = "entry_end ?ds al off e"
  consider (leaf) "\<not> has_kids al c" | (sibling) a where "has_kids al c" "die_attr ?d ''DW_AT_sibling'' = Some a"
    | (walk) "has_kids al c" "die_attr ?d ''DW_AT_sibling'' = None" by (cases "die_attr ?d ''DW_AT_sibling''") auto
  then show "\<exists>s'. ?m s = (Ok ?stop, s') \<and> on_track u un data dies ts s' \<and> True"
  proof cases
    case leaf
    then show ?thesis using s by (simp add: e next_child_def ends head_end_def)
  next
    case sibling
    have "un_offset (dw_units s ! u) = un_offset un" using s by (simp add: on_track_def)
    from same_sibling_offset [OF this] sibling sib s show ?thesis by (simp add: e next_child_def sibling_ok_def)
  next
    case walk
    let ?t = "entries_end ?ds al (head_end ?ds al off c vs) es"
    have t: "(off, ?t) \<in> set ts" using f walk(1) by (simp add: fits_def e)
    have e1: "?stop = ?t + 1" using walk(1) by (simp add: e ends)
    obtain s1 where s1: "(if map_of (un_terminator (dw_units s ! u)) off = None then inner ?d else ret ()) s = (Ok (), s1)"
      "on_track u un data dies ts s1" "noted u off s1"
    proof (cases "map_of (un_terminator (dw_units s ! u)) off = None")
      case True
      with walksD [OF i s] walk(1) that show ?thesis by (auto simp: e)
    next
      case False
      with s that [of s] show ?thesis by (simp add: noted_def)
    qed
    from s1(1) terminator_found [OF w s1(2,3) t] s1(2) e1 walk show ?thesis
      by (simp add: e next_child_def behind_children_def mbind_Ok)
  qed
qed

section \<open>The children of an entry\<close>

lemma noted_keep: "un_terminator (dw_units t ! u) = un_terminator (dw_units s ! u) \<Longrightarrow> noted u k s = noted u k t"
  by (simp add: noted_def)

lemma null_round:
  assumes w: "walkable un al data dies ts" and t: "(die_offset d, off) \<in> set ts"
  shows "walks u un data dies ts (children_loop (Suc fuel) inner body u d off) [] (noted u (die_offset d))"
proof (rule walksI)
  fix s assume s: "on_track u un data dies ts s"
  have n: "null_die off \<in> set dies" using w t by (auto simp: walkable_def)
  from w obtain tab where tab: "un_abbrev un = Some tab" "declares tab al" "of_tree (un_structs un) al data dies" by (auto simp: walkable_def)
  obtain s1 where s1: "get_cached_DIE u off s = (Ok (null_die off), s1)" "on_track u un data dies ts s1" "off \<in> set (un_diemap (dw_units s1 ! u))"
    using lookup_entry [OF tab(3,1,2) s n] by auto
  obtain s2 where s2: "set_parent u (null_die off) d s1 = (Ok (), s2)" "on_track u un data dies ts s2" "off \<in> set (un_diemap (dw_units s2 ! u))"
    using on_track_parent [OF s1(2)] s1(3) by metis
  obtain s3 where "set_unit u (\<lambda>un. un\<lparr>un_terminator := AList.update (die_offset d) off (un_terminator un)\<rparr>) s2 = (Ok (), s3)"
    "on_track u un data dies ts s3" "noted u (die_offset d) s3"
    using on_track_terminator [OF s2(2) t s2(3)] by blast
  then show "\<exists>s'. children_loop (Suc fuel) inner body u d off s = (Ok [], s') \<and> on_track u un data dies ts s' \<and> noted u (die_offset d) s'"
    by (simp add: mbind_Ok s1(1) s2(1))
qed

lemma walks_children:
  assumes w: "walkable un al data dies ts"
    and p: "\<And>o' e. (o', e) \<in> set (placed (un_structs un) al off es) \<Longrightarrow> fits un al data dies ts o' e \<and>
      sibling_ok un (root_die (un_structs un) al o' e) (entry_end (un_structs un) al o' e) \<and>
      walks u un data dies ts (inner (root_die (un_structs un) al o' e)) () (\<lambda>s. die_has_children (root_die (un_structs un) al o' e) \<longrightarrow> noted u o' s) \<and>
      walks u un data dies ts (body (root_die (un_structs un) al o' e)) (g o' e) (\<lambda>_. True)"
    and t: "(die_offset d, entries_end (un_structs un) al off es) \<in> set ts" and fuel: "length es < fuel"
  shows "walks u un data dies ts (children_loop fuel inner body u d off)
    (concat (map (\<lambda>(o', e). g o' e) (placed (un_structs un) al off es))) (noted u (die_offset d))"
  using p t fuel
proof (induction es arbitrary: off fuel)
  case Nil
  then obtain k where "fuel = Suc k" "(die_offset d, off) \<in> set ts" by (cases fuel) (auto simp: ends)
  with null_round [OF w] show ?case by (simp del: children_loop.simps)
next
  case (Cons e es)
  let ?ds = "un_structs un" and ?r = "root_die (un_structs un) al off e" and ?stop = "entry_end (un_structs un) al off e"
  let ?rest = "concat (map (\<lambda>(o', e). g o' e) (placed ?ds al ?stop es))"
  obtain fuel' where fuel: "fuel = Suc fuel'" using Cons.prems(3) by (cases fuel) auto
  have e: "fits un al data dies ts off e" "sibling_ok un ?r ?stop" "walks u un data dies ts (inner ?r) () (\<lambda>s. die_has_children ?r \<longrightarrow> noted u off s)"
    "walks u un data dies ts (body ?r) (g off e) (\<lambda>_. True)"
    using Cons.prems(1) [of off e] by simp_all
  have rest: "walks u un data dies ts (children_loop fuel' inner body u d ?stop) ?rest (noted u (die_offset d))"
    using Cons.prems by (intro Cons.IH) (simp_all add: fuel ends)
  have r: "?r \<in> set dies" "\<not> is_null ?r" "die_offset ?r = off"
    using e(1) root_die_in [of ?ds al off e] by (auto simp: fits_def) (cases e; simp)
  from w obtain tab where tab: "un_abbrev un = Some tab" "declares tab al" "of_tree (un_structs un) al data dies" by (auto simp: walkable_def)
  have "\<exists>s'. children_loop fuel inner body u d off s = (Ok (g off e @ ?rest), s') \<and> on_track u un data dies ts s' \<and> noted u (die_offset d) s'"
    if s: "on_track u un data dies ts s" for s
  proof -
    obtain s1 where s1: "get_cached_DIE u off s = (Ok ?r, s1)" "on_track u un data dies ts s1"
      using lookup_entry [OF tab(3,1,2) s r(1)] r(3) by auto
    obtain s2 where s2: "set_parent u ?r d s1 = (Ok (), s2)" "on_track u un data dies ts s2" using on_track_parent [OF s1(2)] by blast
    obtain s3 where s3: "body ?r s2 = (Ok (g off e), s3)" "on_track u un data dies ts s3" using walksD [OF e(4) s2(2)] by blast
    obtain s4 where s4: "next_child inner u ?r off s3 = (Ok ?stop, s4)" "on_track u un data dies ts s4"
      using walksD [OF walks_next [where inner = inner, OF w e(1-3)] s3(2)] by blast
    obtain s5 where "children_loop fuel' inner body u d ?stop s4 = (Ok ?rest, s5)" "on_track u un data dies ts s5" "noted u (die_offset d) s5"
      using walksD [OF rest s4(2)] by blast
    then show ?thesis
      by (simp add: fuel r(2) mbind_Ok s1(1) s2(1) s3(1) s4(1))
  qed
  then show ?case by (simp add: walks_def)
qed

lemma fits_children:
  assumes f: "fits un al data dies ts off (Entry c vs es)" and k: "has_kids al c"
    and p: "(o', e) \<in> set (placed (un_structs un) al (head_end (un_structs un) al off c vs) es)"
  shows "fits un al data dies ts o' e" "sibling_ok un (root_die (un_structs un) al o' e) (entry_end (un_structs un) al o' e)"
  using f k placed_parts(1,2,4) [OF p] placed_parts(3) [OF p, of un] by (auto simp: fits_def)

lemma walks_unit_bytes:
  assumes "\<And>s. on_track u un data dies ts s \<Longrightarrow> sec_bytes s (unit_section un) = Some data \<Longrightarrow>
      \<exists>s'. f (length data) s = (Ok v, s') \<and> on_track u un data dies ts s' \<and> Q s'"
  shows "walks u un data dies ts (mbind (unit_bytes u) f) v Q"
proof (rule walksI)
  fix s assume s: "on_track u un data dies ts s"
  have b: "sec_bytes s (unit_section un) = Some data" "unit_section (dw_units s ! u) = unit_section un"
    using s by (simp_all add: on_track_def unit_section_def)
  then obtain d where d: "dw_secs s (unit_section un) = Some d" "sdata (sec_stream d) = data" by (auto simp: sec_bytes_def)
  then have "unit_bytes u s = (Ok (length data), s)"
    using b(2) by (simp add: unit_bytes_def in_sec_def fun_upd_idem)
  with assms [OF s b(1)] show "\<exists>s'. mbind (unit_bytes u) f s = (Ok v, s') \<and> on_track u un data dies ts s' \<and> Q s'"
    by (simp add: mbind_Ok)
qed

lemma walks_iter_children:
  assumes w: "walkable un al data dies ts"
  shows "fits un al data dies ts off (Entry c vs es) \<Longrightarrow> height (Entry c vs es) \<le> depth \<Longrightarrow>
    (\<And>o' e. (o', e) \<in> set (placed (un_structs un) al (head_end (un_structs un) al off c vs) es) \<Longrightarrow> has_kids al c \<Longrightarrow>
       walks u un data dies ts (body (root_die (un_structs un) al o' e)) (g o' e) (\<lambda>_. True)) \<Longrightarrow>
    walks u un data dies ts (iter_DIE_children depth body u (head_die (un_structs un) al off c vs))
      (concat (map (\<lambda>(o', e). g o' e) (placed (un_structs un) al (head_end (un_structs un) al off c vs) es)))
      (\<lambda>s. has_kids al c \<longrightarrow> noted u off s)"
proof (induction depth arbitrary: off c vs es body g)
  case (Suc depth)
  let ?ds = "un_structs un"
  let ?d = "head_die ?ds al off c vs" and ?h = "head_end ?ds al off c vs"
  let ?v = "concat (map (\<lambda>(o', e). g o' e) (placed ?ds al ?h es))"
  show ?case
  proof (cases "has_kids al c")
    case False
    with Suc.prems(1) have "es = []" by (simp add: fits_def)
    with False show ?thesis by (simp add: walks_def)
  next
    case True
    let ?inner = "\<lambda>c. mbind (iter_DIE_children depth (\<lambda>_. ret []) u c) (\<lambda>_. ret ())"
    have kid: "fits un al data dies ts o' e \<and> sibling_ok un (root_die ?ds al o' e) (entry_end ?ds al o' e) \<and>
        walks u un data dies ts (?inner (root_die ?ds al o' e)) () (\<lambda>s. die_has_children (root_die ?ds al o' e) \<longrightarrow> noted u o' s) \<and>
        walks u un data dies ts (body (root_die ?ds al o' e)) (g o' e) (\<lambda>_. True)"
      if p: "(o', e) \<in> set (placed ?ds al ?h es)" for o' e
    proof -
      note f = fits_children [OF Suc.prems(1) True p]
      obtain c' vs' es' where e: "e = Entry c' vs' es'" by (cases e)
      have "height (Entry c' vs' es') \<le> depth" using placed_parts(5) [OF p] Suc.prems(2) by (simp add: e)
      from Suc.IH [of o' c' vs' es' "\<lambda>_. ret []" "\<lambda>_ _. []", OF _ this walks_ret] f(1)
      have "walks u un data dies ts (?inner (root_die ?ds al o' e)) () (\<lambda>s. die_has_children (root_die ?ds al o' e) \<longrightarrow> noted u o' s)"
        by (fastforce simp: walks_def e mbind_Ok)
      with f Suc.prems(3) [OF p True] show ?thesis by blast
    qed
    have t: "(die_offset ?d, entries_end ?ds al ?h es) \<in> set ts" using Suc.prems(1) True by (simp add: fits_def)
    have "length es < length data + 1"
      using Suc.prems(1) True entries_length [of es ?ds al] by (simp add: fits_def)
    from walks_children [where body = body and inner = ?inner and d = ?d and off = ?h, OF w kid t this]
    have loop: "walks u un data dies ts (children_loop (length data + 1) ?inner body u ?d ?h) ?v (noted u off)" by simp
    have "?h = die_offset ?d + die_size ?d" by (simp add: head_end_def)
    with loop True show ?thesis by (auto simp: walks_def simp del: children_loop.simps intro!: walks_unit_bytes [unfolded walks_def, rule_format])
  qed
qed simp

section \<open>The subtree of an entry\<close>

lemma walks_subtree:
  assumes w: "walkable un al data dies ts"
  shows "fits un al data dies ts off e \<Longrightarrow> height e < depth \<Longrightarrow>
    walks u un data dies ts (iter_DIE_subtree depth u (root_die (un_structs un) al off e)) (entry_dies (un_structs un) al off e) (\<lambda>_. True)"
proof (induction depth arbitrary: off e)
  case (Suc depth)
  obtain c vs es where e: "e = Entry c vs es" by (cases e)
  let ?ds = "un_structs un"
  let ?h = "head_end ?ds al off c vs" and ?d = "head_die ?ds al off c vs"
  show ?case
  proof (cases "has_kids al c")
    case True
    let ?t = "entries_end ?ds al ?h es"
    have "walks u un data dies ts (iter_DIE_subtree depth u (root_die ?ds al o' e')) (entry_dies ?ds al o' e') (\<lambda>_. True)"
      if p: "(o', e') \<in> set (placed ?ds al ?h es)" for o' e'
      using Suc.IH fits_children(1) [OF _ True p] placed_parts(5) [OF p] Suc.prems by (simp add: e)
    with walks_iter_children [where body = "iter_DIE_subtree depth u" and g = "entry_dies ?ds al", OF w, of off c vs es depth] Suc.prems
    have kids: "walks u un data dies ts (iter_DIE_children depth (iter_DIE_subtree depth u) u ?d) (entries_dies ?ds al ?h es) (noted u off)"
      using True by (simp add: e entries_dies_placed)
    have t: "(off, ?t) \<in> set ts" using Suc.prems(1) True by (simp add: fits_def e)
    have "\<exists>s'. iter_DIE_subtree (Suc depth) u ?d s = (Ok (entry_dies ?ds al off e), s') \<and> on_track u un data dies ts s'"
      if s: "on_track u un data dies ts s" for s
    proof -
      obtain s1 where s1: "iter_DIE_children depth (iter_DIE_subtree depth u) u ?d s = (Ok (entries_dies ?ds al ?h es), s1)"
        "on_track u un data dies ts s1" "noted u off s1"
        using walksD [OF kids s] by blast
      from terminator_found [OF w s1(2,3) t] s1 True show ?thesis by (simp add: e mbind_Ok the_terminator_def)
    qed
    then show ?thesis by (simp add: walks_def e)
  next
    case False
    then show ?thesis by (simp add: walks_def e)
  qed
qed simp

end
