(* ===== verification/UnitEntries.thy ===== *)
theory UnitEntries
  imports EntryWalk
begin

text \<open>Iterating over a unit gives the tree of entries that its section was written from.\<close>

section \<open>The top entry\<close>

lemma terms_dies:
  "(k, t) \<in> set (entry_terms ds al off e) \<Longrightarrow> null_die t \<in> set (entry_dies ds al off e)"
  "(k, t) \<in> set (entries_terms ds al off es) \<Longrightarrow> null_die t \<in> set (entries_dies ds al off es)"
  by (induction ds al off e and ds al off es rule: entry_terms_entries_terms.induct) (auto split: if_splits)

lemma plain_not_index: "plain_form f \<Longrightarrow> \<not> index_form (VLit f)"
  by (simp add: plain_form_def)

lemma attributes_plain:
  "values_code ds specs vs = Some bs \<Longrightarrow> \<forall>ka \<in> set (attributes_at ds p specs vs). \<not> index_form (at_form (snd ka))"
proof (induction ds specs vs arbitrary: p bs rule: values_code.induct)
  case (2 ds n f specs v vs)
  from 2(2) obtain b bs' where b: "form_code ds f v = Some b" "values_code ds specs vs = Some bs'" by (auto split: option.splits)
  with 2(1) [OF b] form_code_reads(2) [OF b(1)] show ?case by (simp add: plain_not_index)
qed simp_all

lemma translate_top_plain: "\<forall>ka \<in> set attrs. \<not> index_form (at_form (snd ka)) \<Longrightarrow> translate_top u attrs s = (Ok (), s)"
  by (induction attrs) (simp_all add: mbind_Ok)

lemma head_plain: "head_ok ds al c vs \<Longrightarrow> translate_top u (die_attributes (head_die ds al off c vs)) s = (Ok (), s)"
  by (rule translate_top_plain) (auto simp: head_ok_def head_die_def dest: attributes_plain)

text \<open>The unit's section holds the code of a tree from the unit's first entry on, and nothing of it is cached yet.\<close>

definition holds_tree :: "dwarf \<Rightarrow> nat \<Rightarrow> entry_decls \<Rightarrow> entry \<Rightarrow> bool" where
  "holds_tree s u al e \<longleftrightarrow> (let un = dw_units s ! u; ds = un_structs un; off = un_die_offset un in
     u < length (dw_units s) \<and> un_dielist un = [] \<and> un_diemap un = [] \<and> un_terminator un = [] \<and>
     (case un_abbrev un of None \<Rightarrow> False | Some tab \<Rightarrow> declares tab al) \<and>
     (case sec_bytes s (unit_section un) of None \<Rightarrow> False
      | Some data \<Rightarrow> take (length (entry_code ds al e)) (drop (nat off) data) = entry_code ds al e) \<and>
     0 \<le> off \<and> entry_end ds al off e \<le> 2 ^ 63 \<and> entry_ok un ds al off e)"

abbreviation tree_dies :: "dwarf \<Rightarrow> nat \<Rightarrow> entry_decls \<Rightarrow> entry \<Rightarrow> die list" where
  "tree_dies s u al e \<equiv> entry_dies (un_structs (dw_units s ! u)) al (un_die_offset (dw_units s ! u)) e"

abbreviation tree_terms :: "dwarf \<Rightarrow> nat \<Rightarrow> entry_decls \<Rightarrow> entry \<Rightarrow> (int \<times> int) list" where
  "tree_terms s u al e \<equiv> entry_terms (un_structs (dw_units s ! u)) al (un_die_offset (dw_units s ! u)) e"

lemma tree_walkable:
  assumes h: "holds_tree s u al e"
  obtains data where "sec_bytes s (unit_section (dw_units s ! u)) = Some data"
    "walkable (dw_units s ! u) al data (tree_dies s u al e) (tree_terms s u al e)"
    "fits (dw_units s ! u) al data (tree_dies s u al e) (tree_terms s u al e) (un_die_offset (dw_units s ! u)) e"
proof -
  let ?un = "dw_units s ! u"
  let ?ds = "un_structs ?un" and ?off = "un_die_offset ?un"
  obtain data rest where data: "sec_bytes s (unit_section ?un) = Some data" "drop (nat ?off) data = entry_code ?ds al e @ rest"
    using h by (auto simp: holds_tree_def Let_def split: option.splits) (metis append_take_drop_id)
  have ok: "0 \<le> ?off" "entry_end ?ds al ?off e \<le> 2 ^ 63" "entry_ok ?un ?ds al ?off e" "\<exists>tab. un_abbrev ?un = Some tab \<and> declares tab al"
    using h by (auto simp: holds_tree_def Let_def split: option.splits)
  have "stands ?ds al data d" if "d \<in> set (tree_dies s u al e)" for d
    by (rule dies_stand(1) [OF ok(1-3) data(2) that])
  then have "of_tree ?ds al data (tree_dies s u al e)" by (auto simp: of_tree_def inj_on_def intro: dies_unique)
  then have w: "walkable ?un al data (tree_dies s u al e) (tree_terms s u al e)"
    using ok(4) terms_unique(1) [of _ _ ?ds al ?off e] terms_dies(1) [of _ _ ?ds al ?off e]
    unfolding walkable_def by blast
  have "length (entry_code ?ds al e) \<le> length data" using arg_cong [OF data(2), of length] by simp
  with ok(3) have "fits ?un al data (tree_dies s u al e) (tree_terms s u al e) ?off e" by (simp add: fits_def)
  with data(1) w that show ?thesis by blast
qed

lemma tree_top:
  assumes h: "holds_tree s u al e" and d: "sec_bytes s (unit_section (dw_units s ! u)) = Some data"
    and w: "walkable (dw_units s ! u) al data (tree_dies s u al e) (tree_terms s u al e)"
  obtains s' where "get_top_DIE u s = (Ok (root_die (un_structs (dw_units s ! u)) al (un_die_offset (dw_units s ! u)) e), s')"
    "on_track u (dw_units s ! u) data (tree_dies s u al e) (tree_terms s u al e) s'"
proof -
  let ?un = "dw_units s ! u"
  let ?ds = "un_structs ?un" and ?off = "un_die_offset ?un" and ?sec = "unit_section ?un"
  let ?d = "root_die ?ds al ?off e"
  obtain c vs es where e: "e = Entry c vs es" by (cases e)
  have f: "u < length (dw_units s)" "un_dielist ?un = []" "un_diemap ?un = []" "un_terminator ?un = []" "head_ok ?ds al c vs"
    using h by (simp_all add: holds_tree_def Let_def e)
  obtain tab where tab: "un_abbrev ?un = Some tab" "declares tab al" "of_tree ?ds al data (tree_dies s u al e)"
    using w by (auto simp: walkable_def)
  have r: "?d \<in> set (tree_dies s u al e)" "die_offset ?d = ?off" using root_die_in by auto
  have st: "stands ?ds al data ?d" using tab(3) r(1) by (simp add: of_tree_def)
  obtain p where p: "parse_DIE translate_direct u ?off s = (Ok ?d, seek_sec ?sec p s)"
    using parse_DIE_run [OF translates_direct st tab(2) refl tab(1) refl d] r(2) by auto
  let ?new = "?un\<lparr>un_dielist := [?d], un_diemap := [?off]\<rparr>"
  let ?s' = "(seek_sec ?sec p s)\<lparr>dw_units := (dw_units s)[u := ?new]\<rparr>"
  have put: "put_top u ?d (seek_sec ?sec p s) = (Ok (), ?s')" using f by (simp add: put_top_def set_unit_def)
  have tr: "translate_top u (die_attributes ?d) ?s' = (Ok (), ?s')" using head_plain [OF f(5)] by (simp add: e)
  have "get_top_DIE u s = (Ok ?d, ?s')"
    using f by (simp add: get_top_DIE_steps mbind_Ok p put tr py_index_def)
  moreover have "on_track u ?un data (tree_dies s u al e) (tree_terms s u al e) ?s'"
    using f d r by (auto simp: on_track_def unit_coherent_def sec_bytes_def seek_sec_def)
  ultimately show ?thesis by (rule that)
qed

end
