(* ===== verification/DwarfSamples.thy ===== *)
theory DwarfSamples
  imports CacheGrowth UnitEntries
begin

text \<open>
  A small file: one unit whose top entry has a variable, a subprogram with a variable and a \<^verbatim>\<open>DW_AT_sibling\<close>, and
  a block with a variable.
\<close>

definition sample_abbrev :: bytes where
  "sample_abbrev = [1, 0x11, 1, 0, 0, 2, 0x34, 0, 0x3a, 0x0b, 0, 0, 3, 0x2e, 1, 0x01, 0x11, 0, 0, 4, 0x0b, 1, 0, 0, 0]"

definition sample_info :: bytes where
  "sample_info = [20, 0, 0, 0, 4, 0, 0, 0, 0, 0, 8, 1, 2, 7, 3, 19, 2, 9, 0, 4, 2, 5, 0, 0]"

definition section_of :: "bytes \<Rightarrow> debug_section" where
  "section_of bs = \<lparr>sec_stream = bytesio bs, sec_size = int (length bs), sec_address = 0\<rparr>"

definition sample_dwarf :: dwarf where
  "sample_dwarf = DWARFInfo_new True 8 (Map.empty(Debug_info \<mapsto> section_of sample_info, Debug_abbrev \<mapsto> section_of sample_abbrev))"

text \<open>A smaller one, whose unit has only its top entry, and the state when its units have been asked for.\<close>

definition small_dwarf :: dwarf where
  "small_dwarf = DWARFInfo_new True 8 (Map.empty(Debug_info \<mapsto> section_of [8, 0, 0, 0, 4, 0, 0, 0, 0, 0, 8, 1],
     Debug_abbrev \<mapsto> section_of [1, 0x11, 0, 0, 0, 0]))"

definition small_units :: dwarf where
  "small_units = snd (iter_CUs small_dwarf)"

lemma small_units_reachable: "dwarf_reachable small_units"
  unfolding small_units_def small_dwarf_def by (rule dwarf_step [OF dwarf_start]) (rule dwarf_call.intros)

text \<open>The object with its unit and the unit's declarations loaded, and the tree that the section was written from.\<close>

definition sample_structs :: dwarf_structs where
  "sample_structs = (case DWARFStructs_new True 32 8 4 of Ok ds \<Rightarrow> ds)"

definition sample_decls :: entry_decls where
  "sample_decls = [(1, ''DW_TAG_compile_unit'', True, []), (2, ''DW_TAG_variable'', False, [(''DW_AT_decl_file'', ''DW_FORM_data1'')]),
     (3, ''DW_TAG_subprogram'', True, [(''DW_AT_sibling'', ''DW_FORM_ref1'')]), (4, ''DW_TAG_lexical_block'', True, [])]"

definition sample_table :: abbrev_table where
  "sample_table = map (\<lambda>(c, tag, k, specs). (c, \<lparr>ab_code = c, ab_decl = VCont [(''tag'', VLit tag),
     (''children_flag'', VLit (if k then ''DW_CHILDREN_yes'' else ''DW_CHILDREN_no'')),
     (''attr_spec'', VList (map (\<lambda>(n, f). VCont [(''name'', VLit n), (''form'', VLit f), (''value'', VNone)]) specs))], ab_has_children = k\<rparr>)) sample_decls"

definition sample_unit :: unit_obj where
  "sample_unit = \<lparr>un_types = False, un_header = VNone, un_structs = sample_structs, un_offset = 0, un_die_offset = 11,
     un_abbrev = Some sample_table, un_dielist = [], un_diemap = [], un_parent = [], un_terminator = []\<rparr>"

definition sample_loaded :: dwarf where
  "sample_loaded = sample_dwarf\<lparr>dw_units := [sample_unit]\<rparr>"

definition sample_tree :: entry where
  "sample_tree = Entry 1 [] [Entry 2 [Number 7] [], Entry 3 [Number 19] [Entry 2 [Number 9] []], Entry 4 [] [Entry 2 [Number 5] []]]"

lemma ex_Ok: "(\<exists>x. r = Ok x \<and> P x) = (case r of Ok x \<Rightarrow> P x | _ \<Rightarrow> False)"
  by (cases r) auto

lemma declares_code [code]:
  "declares tab al \<longleftrightarrow> list_all (\<lambda>c. case get_abbrev tab c of
     Ok d \<Rightarrow> get_item (ab_decl d) ''tag'' = Ok (VLit (fst (decl_of al c))) \<and> has_children d = has_kids al c \<and>
       (case rbind (get_item (ab_decl d) ''attr_spec'') viter of Ok svs \<Rightarrow> list_all2 spec_of (specs_of al c) svs | _ \<Rightarrow> False)
   | _ \<Rightarrow> False) (map fst al)"
  unfolding declares_def ex_Ok [symmetric] by (simp add: list_all_iff)

end
