(* ===== verification/DwarfFiles.thy ===== *)
theory DwarfFiles
  imports DwarfInfo ElfRelocation Ehabi
begin

text \<open>
  The methods of \<open>ELFFile\<close> (\<^verbatim>\<open>elftools/elf/elffile.py\<close>) that hand a file's sections to the DWARF and EHABI
  components.  Two decompressors are parameters: \<open>zlib\<close> of a section's data (as in \<open>section_data\<close>), and \<open>inflate\<close> of
  a \<^verbatim>\<open>.zdebug\<close> section: what a decompressor returns that is fed the chunks of a list and flushed.  The loader of
  supplementary files is a parameter too, and may be missing.
\<close>

section \<open>The sections\<close>

definition debug_section_names :: "(section_name \<times> string) list" where
  "debug_section_names = [(Debug_info, ''.debug_info''), (Debug_aranges, ''.debug_aranges''), (Debug_abbrev, ''.debug_abbrev''),
     (Debug_str, ''.debug_str''), (Debug_line, ''.debug_line''), (Debug_frame, ''.debug_frame''),
     (Debug_loc, ''.debug_loc''), (Debug_ranges, ''.debug_ranges''), (Debug_pubtypes, ''.debug_pubtypes''),
     (Debug_pubnames, ''.debug_pubnames''), (Debug_addr, ''.debug_addr''), (Debug_str_offsets, ''.debug_str_offsets''),
     (Debug_line_str, ''.debug_line_str''), (Debug_loclists, ''.debug_loclists''), (Debug_rnglists, ''.debug_rnglists''),
     (Debug_sup, ''.debug_sup''), (Gnu_debugaltlink, ''.gnu_debugaltlink''), (Gnu_debuglink, ''.gnu_debuglink''),
     (Debug_types, ''.debug_types'')]"

text \<open>The names that are looked for; \<^verbatim>\<open>.eh_frame\<close> is never compressed.\<close>

definition section_names :: "bool \<Rightarrow> (section_name \<times> string) list" where
  "section_names zdebug =
     (if zdebug then map (\<lambda>(n, x). (n, ''.z'' @ drop 1 x)) debug_section_names else debug_section_names) @ [(Eh_frame, ''.eh_frame'')]"

text \<open>\<^verbatim>\<open>data[::2]\<close>.\<close>

fun every_second :: "'a list \<Rightarrow> 'a list" where
  "every_second (x # _ # xs) = x # every_second xs"
| "every_second xs = xs"

definition read_dwarf_section :: "(bytes \<Rightarrow> int \<Rightarrow> bytes res) \<Rightarrow> elffile \<Rightarrow> bool \<Rightarrow> elf_section \<Rightarrow> debug_section F" where
  "read_dwarf_section zlib ef relocate sec =
     mbind (lift_res (has_phantom_bytes ef)) (\<lambda>phantom.
     mbind (section_data zlib (ef_structs ef) sec) (\<lambda>bs.
     let bs = (if phantom then every_second bs else bs); stream = \<lparr>sdata = bs, spos = length bs\<rparr> in
     mbind (if relocate then
              mbind (find_relocations_for_section ef sec) (\<lambda>r. case r of
                None \<Rightarrow> ret stream
              | Some rs \<Rightarrow> if phantom then raise ELFParseError else apply_section_relocations ef stream rs)
            else ret stream) (\<lambda>stream.
     mbind (lift_res (data_size sec)) (\<lambda>n.
     mbind (lift_res (sec_int sec ''sh_addr'')) (\<lambda>addr.
       ret \<lparr>sec_stream = stream, sec_size = (if phantom then n div 2 else n), sec_address = addr\<rparr>)))))"

text \<open>A stream is read in chunks of 4096 bytes.\<close>

function chunks_of :: "bytes \<Rightarrow> bytes list" where
  "chunks_of bs = (if bs = [] then [] else take 4096 bs # chunks_of (drop 4096 bs))"
  by auto
termination by (relation "measure length") auto

declare chunks_of.simps [simp del]

definition decompress_dwarf_section :: "(bytes list \<Rightarrow> bytes res) \<Rightarrow> debug_section \<Rightarrow> debug_section res" where
  "decompress_dwarf_section inflate d =
     (if \<not> 12 < sec_size d then Err AssertionError
      else fst (mbind (s_seek 0) (\<lambda>_.
        mbind (s_read 4) (\<lambda>magic.
          if magic \<noteq> [0x5A, 0x4C, 0x49, 0x42] then raise AssertionError
          else
            mbind (s_read 8) (\<lambda>b.
            mbind (lift_res (unpack BE FmtQ b)) (\<lambda>uncompressed_size.
            mbind (s_read (- 1)) (\<lambda>rest.
            mbind (lift_res (inflate (chunks_of rest))) (\<lambda>out.
              if uncompressed_size \<noteq> int (length out) then raise AssertionError
              else ret (d\<lparr>sec_stream := \<lparr>sdata = out, spos = length out\<rparr>, sec_size := int (length out)\<rparr>)))))))
        (sec_stream d)))"

primrec read_sections ::
  "(bytes \<Rightarrow> int \<Rightarrow> bytes res) \<Rightarrow> (bytes list \<Rightarrow> bytes res) \<Rightarrow> elffile \<Rightarrow> bool \<Rightarrow> bool \<Rightarrow> (section_name \<times> string) list \<Rightarrow>
   (section_name \<Rightarrow> debug_section option) \<Rightarrow> (section_name \<Rightarrow> debug_section option) F" where
  "read_sections zlib inflate ef relocate zdebug [] secs = ret secs"
| "read_sections zlib inflate ef relocate zdebug (n # ns) secs =
     mbind (get_section_by_name ef (lit (snd n))) (\<lambda>sec.
     mbind (case sec of
         None \<Rightarrow> ret None
       | Some sec \<Rightarrow>
           mbind (read_dwarf_section zlib ef relocate sec) (\<lambda>d.
             if zdebug \<and> take 2 (snd n) = ''.z'' then lift_res (rbind (decompress_dwarf_section inflate d) (\<lambda>d. Ok (Some d)))
             else ret (Some d)))
       (\<lambda>d. read_sections zlib inflate ef relocate zdebug ns (secs(fst n := d))))"

section \<open>DWARF information\<close>

definition dwarf_of_file :: "(bytes \<Rightarrow> int \<Rightarrow> bytes res) \<Rightarrow> (bytes list \<Rightarrow> bytes res) \<Rightarrow> elffile \<Rightarrow> bool \<Rightarrow> dwarf F" where
  "dwarf_of_file zlib inflate ef relocate =
     mbind (get_section_by_name ef (lit ''.zdebug_info'')) (\<lambda>z.
     mbind (read_sections zlib inflate ef relocate (z \<noteq> None) (section_names (z \<noteq> None)) Map.empty) (\<lambda>secs.
     mbind (lift_res (get_machine_arch ef)) (\<lambda>_.
       ret (DWARFInfo_new (elf_structs.little_endian (ef_structs ef)) (elf_structs.elfclass (ef_structs ef) div 8) secs))))"

text \<open>The path of the supplementary file is read from the object's sections, whose streams move.\<close>

definition link_path :: "dwarf \<Rightarrow> (val \<times> dwarf) res" where
  "link_path d = (case parse_debugsupinfo d of
     (Ok p, d') \<Rightarrow> Ok (p, d') | (Err e, _) \<Rightarrow> Err e | (NoFuel, _) \<Rightarrow> NoFuel)"

text \<open>\<open>get_dwarf_info\<close> of a file that was opened without a loader: the path is read, and nothing is loaded.\<close>

definition get_dwarf_info_alone :: "(bytes \<Rightarrow> int \<Rightarrow> bytes res) \<Rightarrow> (bytes list \<Rightarrow> bytes res) \<Rightarrow> elffile \<Rightarrow> bool \<Rightarrow> bool \<Rightarrow> dwarf F" where
  "get_dwarf_info_alone zlib inflate ef relocate follow_links =
     mbind (dwarf_of_file zlib inflate ef relocate) (\<lambda>d.
       if follow_links then lift_res (rbind (link_path d) (\<lambda>(_, d). Ok d)) else ret d)"

definition get_supplementary_dwarfinfo ::
  "(bytes \<Rightarrow> int \<Rightarrow> bytes res) \<Rightarrow> (bytes list \<Rightarrow> bytes res) \<Rightarrow> (val \<Rightarrow> stream res) option \<Rightarrow> dwarf \<Rightarrow> (dwarf \<times> dwarf option) res" where
  "get_supplementary_dwarfinfo zlib inflate loader d =
     rbind (link_path d) (\<lambda>(path, d). case loader of
       None \<Rightarrow> Ok (d, None)
     | Some load \<Rightarrow>
         if path = VNone then Ok (d, None)
         else rbind (load path) (\<lambda>stream.
           rbind (fst (mbind ELFFile_init (\<lambda>sup. get_dwarf_info_alone zlib inflate sup True True)
               \<lparr>f_stream = stream, f_names = None\<rparr>)) (\<lambda>sup.
             Ok (d, Some sup))))"

text \<open>The object, and the one of the supplementary file.\<close>

definition get_dwarf_info ::
  "(bytes \<Rightarrow> int \<Rightarrow> bytes res) \<Rightarrow> (bytes list \<Rightarrow> bytes res) \<Rightarrow> (val \<Rightarrow> stream res) option \<Rightarrow> elffile \<Rightarrow> bool \<Rightarrow> bool \<Rightarrow>
   (dwarf \<times> dwarf option) F" where
  "get_dwarf_info zlib inflate loader ef relocate follow_links =
     mbind (dwarf_of_file zlib inflate ef relocate) (\<lambda>d.
       if follow_links then lift_res (get_supplementary_dwarfinfo zlib inflate loader d) else ret (d, None))"

section \<open>EHABI\<close>

definition EHABIInfo_new :: "bool \<Rightarrow> elf_section \<Rightarrow> ehabi_info res" where
  "EHABIInfo_new le sec = rbind (sec_int sec ''sh_offset'') (\<lambda>off. rbind (sec_int sec ''sh_size'') (\<lambda>sz.
     Ok \<lparr>ei_offset = off, ei_size = sz, ei_little_endian = le\<rparr>))"

definition get_ehabi_infos :: "elffile \<Rightarrow> ehabi_info list option F" where
  "get_ehabi_infos ef =
     mbind (lift_res (ef_get ef ''e_type'')) (\<lambda>t.
       if t = VLit ''ET_REL'' then raise AssertionError
       else
         mbind (iter_sections ef (Some (VLit ''SHT_ARM_EXIDX''))) (\<lambda>secs.
         mbind (lift_res (rmap (EHABIInfo_new (elf_structs.little_endian (ef_structs ef))) secs)) (\<lambda>infos.
           ret (if infos = [] then None else Some infos))))"

end
