(* ===== verification/UnitProperties.thy ===== *)
theory UnitProperties
  imports DwarfSamples DwarfFiles
begin

text \<open>What holds of units and entries in every state that a \<open>DWARFInfo\<close> object can get into.\<close>

section \<open>The tree of a unit\<close>

text \<open>C35: the entries of a unit come back from the bytes they were written as.  If the section holds, from the unit's first
  entry on, the code of a tree - for each entry the code of its declaration and its attributes' values, then its
  children and a zero - then iterating over the unit yields the entries of the tree in order, each with its
  offset, size, tag, attributes and their offsets, with a null entry behind every list of children.  Any
  \<^verbatim>\<open>DW_AT_sibling\<close> has to point behind its entry's subtree; the recursion limit has to be greater than the tree's
  height.\<close>

theorem unit_entries_roundtrip:
  assumes "holds_tree s u al e" "height e < depth"
  shows "fst (iter_DIEs depth u s) = Ok (tree_dies s u al e)"
proof -
  obtain data where d: "sec_bytes s (unit_section (dw_units s ! u)) = Some data"
    and w: "walkable (dw_units s ! u) al data (tree_dies s u al e) (tree_terms s u al e)"
    and f: "fits (dw_units s ! u) al data (tree_dies s u al e) (tree_terms s u al e) (un_die_offset (dw_units s ! u)) e"
    using tree_walkable [OF assms(1)] .
  obtain s' where s': "get_top_DIE u s = (Ok (root_die (un_structs (dw_units s ! u)) al (un_die_offset (dw_units s ! u)) e), s')"
    "on_track u (dw_units s ! u) data (tree_dies s u al e) (tree_terms s u al e) s'"
    using tree_top [OF assms(1) d w] .
  from walksD [OF walks_subtree [OF w f assms(2)] s'(2)] show ?thesis
    by (auto simp: iter_DIEs_def mbind_Ok [where m = "get_top_DIE u", OF s'(1)])
qed

lemma sample_holds: "holds_tree sample_loaded 0 sample_decls sample_tree"
  by code_simp

theorem unit_entries_roundtrip_witness:
  "fst (iter_DIEs 4 0 sample_loaded) = Ok (tree_dies sample_loaded 0 sample_decls sample_tree)"
  by (rule unit_entries_roundtrip [OF sample_holds]) (simp add: sample_tree_def)

section \<open>Entries by offset\<close>

text \<open>C36: whatever has been asked of a \<open>DWARFInfo\<close> object before, in any order and with any exceptions: the entry that
  is returned for an offset is the entry at this offset.  And whatever is asked of the object afterwards, asking for
  the offset again returns the same entry and changes nothing.\<close>

theorem entries_found_again:
  assumes r: "dwarf_reachable s" and u: "u < length (dw_units s)" and d: "get_cached_DIE u off s = (Ok d, t)"
    and calls: "dwarf_call\<^sup>*\<^sup>* t v"
  shows "die_offset d = off \<and> get_cached_DIE u off v = (Ok d, v)"
proof -
  note c = reachable_coherent [OF r]
  note e = cached_DIE_coherent [OF c u d]
  from movesD [OF grows_cached_DIE d] c u have t: "coherent t" "u < length (dw_units t)" by (auto simp: grows_def)
  from e found_later [OF t(1) growth.cache_calls [OF calls] t(2)] show ?thesis by auto
qed

lemma small_entry: "case get_cached_DIE 0 11 small_units of (Ok d, t) \<Rightarrow> dw_units small_units \<noteq> [] | _ \<Rightarrow> False"
  by code_simp

theorem entries_found_again_witness:
  "case get_cached_DIE 0 11 small_units of
     (Ok d, t) \<Rightarrow> (let v = snd (get_cached_DIE 0 8 t) in get_cached_DIE 0 11 v = (Ok d, v)) | _ \<Rightarrow> False"
proof -
  obtain d t where dt: "get_cached_DIE 0 11 small_units = (Ok d, t)" "0 < length (dw_units small_units)"
    using small_entry by (auto split: prod.splits res.splits)
  have "dwarf_call\<^sup>*\<^sup>* t (snd (get_cached_DIE 0 8 t))" by (rule r_into_rtranclp) (rule dwarf_call.intros)
  from entries_found_again [OF small_units_reachable dt(2,1) this] dt(1) show ?thesis by simp
qed

text \<open>C38: an entry is looked up at any offset the caller gives, a \<^verbatim>\<open>DW_AT_sibling\<close> for example.  One in front of the
  unit's top entry becomes the first of the cached entries, and so the unit's top entry from then on.\<close>

theorem early_entry_becomes_top:
  assumes r: "dwarf_reachable s" and u: "u < length (dw_units s)"
    and top: "un_diemap (dw_units s ! u) \<noteq> []" "off < hd (un_diemap (dw_units s ! u))"
    and d: "get_cached_DIE u off s = (Ok d, t)"
  shows "get_top_DIE u t = (Ok d, t)"
proof -
  let ?m = "un_diemap (dw_units s ! u)"
  note c = reachable_coherent [OF r]
  note so = coherent_keys [OF c u]
  have le: "hd ?m \<le> x" if "x \<in> set ?m" for x using so(2) that by (cases ?m) auto
  have "off \<notin> set ?m" using le top(2) by fastforce
  note t = cached_DIE_inserts [OF c u top(1) this d]
  have "bisect_right ?m off = 0"
    using bisect_right_spec(1,2) [OF so(2), where x = off] top by (metis bot_nat_0.not_eq_extremum hd_conv_nth length_greater_0_conv not_le)
  with t show ?thesis by (simp add: get_top_DIE_again insert_at_def py_index_def)
qed

lemma small_early: "case get_top_DIE 0 small_units of (Ok d, s) \<Rightarrow>
    dw_units s \<noteq> [] \<and> un_diemap (dw_units s ! 0) = [11] \<and> (case fst (get_cached_DIE 0 8 s) of Ok d \<Rightarrow> True | _ \<Rightarrow> False) | _ \<Rightarrow> False"
  by code_simp

theorem early_entry_becomes_top_witness:
  "case get_cached_DIE 0 8 (snd (get_top_DIE 0 small_units)) of (Ok d, t) \<Rightarrow> die_offset d = 8 \<and> get_top_DIE 0 t = (Ok d, t) | _ \<Rightarrow> False"
proof -
  let ?s = "snd (get_top_DIE 0 small_units)"
  have r: "dwarf_reachable ?s" by (rule dwarf_step [OF small_units_reachable dwarf_call.intros(6)])
  obtain d t where dt: "get_cached_DIE 0 8 ?s = (Ok d, t)" "dw_units ?s \<noteq> []" "un_diemap (dw_units ?s ! 0) = [11]"
    using small_early by (auto split: prod.splits res.splits simp: prod_eq_iff)
  with early_entry_becomes_top [OF r _ _ _ dt(1)] cached_DIE_coherent [OF reachable_coherent [OF r] _ dt(1)] show ?thesis by simp
qed

section \<open>The objects of a file\<close>

text \<open>What \<open>get_dwarf_info\<close> makes of an ELF file, and of its supplementary file, are objects of which all this holds.\<close>

lemma link_path_reachable: "dwarf_reachable d \<Longrightarrow> link_path d = Ok (p, d') \<Longrightarrow> dwarf_reachable d'"
  using dwarf_call.intros(23) [of d] by (auto simp: link_path_def intro: dwarf_step split: prod.splits res.splits)

lemma dwarf_of_file_reachable: "dwarf_of_file zlib inflate ef relocate s = (Ok d, t) \<Longrightarrow> dwarf_reachable d"
  by (cases "get_machine_arch ef") (auto simp: dwarf_of_file_def mbind_eq_Ok intro: dwarf_start)

lemma dwarf_info_alone_reachable: "get_dwarf_info_alone zlib inflate ef relocate follow_links s = (Ok d, t) \<Longrightarrow> dwarf_reachable d"
  by (auto simp: get_dwarf_info_alone_def mbind_eq_Ok rbind_eq_Ok split: if_splits
    intro: dwarf_of_file_reachable link_path_reachable)

lemma fst_eq_Ok: "fst p = Ok a \<longleftrightarrow> (\<exists>s. p = (Ok a, s))"
  by (cases p) auto

lemma supplementary_reachable:
  assumes "get_supplementary_dwarfinfo zlib inflate loader d0 = Ok (d, extra)" "dwarf_reachable d0"
  shows "dwarf_reachable d \<and> (\<forall>e. extra = Some e \<longrightarrow> dwarf_reachable e)"
proof -
  obtain path d1 where path: "link_path d0 = Ok (path, d1)"
    using assms(1) by (auto simp: get_supplementary_dwarfinfo_def rbind_eq_Ok)
  have d1: "dwarf_reachable d1"
    using assms(2) path by (rule link_path_reachable)
  show ?thesis
  proof (cases "loader = None \<or> path = VNone")
    case True
    then show ?thesis
      using assms(1) path d1 by (auto simp: get_supplementary_dwarfinfo_def split: option.splits)
  next
    case False
    then obtain load st ef s e s' where "d = d1" "extra = Some e" "get_dwarf_info_alone zlib inflate ef True True s = (Ok e, s')"
      using assms(1) path
      by (auto simp: get_supplementary_dwarfinfo_def rbind_eq_Ok mbind_eq_Ok fst_eq_Ok)
    then show ?thesis
      using d1 by (auto intro: dwarf_info_alone_reachable)
  qed
qed

lemma file_objects_reachable:
  assumes "get_dwarf_info zlib inflate loader ef relocate follow_links s = (Ok (d, extra), t)"
  shows "dwarf_reachable d" "extra = Some e \<Longrightarrow> dwarf_reachable e"
proof -
  obtain d0 s' where "dwarf_of_file zlib inflate ef relocate s = (Ok d0, s')"
    and r: "(if follow_links then lift_res (get_supplementary_dwarfinfo zlib inflate loader d0) else ret (d0, None)) s' = (Ok (d, extra), t)"
    using assms by (auto simp: get_dwarf_info_def mbind_eq_Ok)
  then have "dwarf_reachable d0"
    by (blast intro: dwarf_of_file_reachable)
  then have "dwarf_reachable d \<and> (\<forall>e. extra = Some e \<longrightarrow> dwarf_reachable e)"
    using r supplementary_reachable [of zlib inflate loader d0 d extra] by (auto split: if_splits)
  then show "dwarf_reachable d" "extra = Some e \<Longrightarrow> dwarf_reachable e" by blast+
qed

section \<open>Units by address\<close>

lemma find_CU_coherent:
  "coherent s \<Longrightarrow> find_CU fuel offset a s = (Ok u, t) \<Longrightarrow>
   coherent t \<and> (\<exists>o'. cached_unit (dw_units t) o' u \<and> (o', u) \<in> set (zip (dw_cu_offsets t) (dw_cu_cache t))) \<and>
   (\<exists>n. unit_size (dw_units t ! u) = Ok n \<and> un_offset (dw_units t ! u) \<le> a \<and> a < un_offset (dw_units t ! u) + n)"
proof (induction fuel arbitrary: offset s)
  case (Suc fuel)
  from Suc.prems(2) obtain u' s' offset' where s': "cached_CU_at_offset offset s = (Ok u', s')"
    and size: "(case unit_size (dw_units s' ! u') of
        Ok n \<Rightarrow> (if un_offset (dw_units s' ! u') \<le> a \<and> a < un_offset (dw_units s' ! u') + n then ret u' else find_CU fuel offset' a) s'
      | Err e \<Rightarrow> (Err e, s') | NoFuel \<Rightarrow> (NoFuel, s')) = (Ok u, t)"
    by (auto simp: mbind_eq_Ok next_unit_offset_def the_size_def split: if_split_asm)
  from size obtain n where n: "unit_size (dw_units s' ! u') = Ok n"
    and rest: "(if un_offset (dw_units s' ! u') \<le> a \<and> a < un_offset (dw_units s' ! u') + n then ret u' else find_CU fuel offset' a) s' = (Ok u, t)"
    by (cases "unit_size (dw_units s' ! u')") simp_all
  note c = cached_CU_coherent [OF Suc.prems(1) s']
  show ?case
  proof (cases "un_offset (dw_units s' ! u') \<le> a \<and> a < un_offset (dw_units s' ! u') + n")
    case True
    with rest have "u' = u" "t = s'" by simp_all
    with c n True show ?thesis by auto
  next
    case False
    with rest have "find_CU fuel offset' a s' = (Ok u, t)" by simp
    with Suc.IH c show ?thesis by blast
  qed
qed simp

text \<open>C37: the unit that is returned for an offset in \<^verbatim>\<open>.debug_info\<close>, in any state the object can get into, is a compile unit
  that contains the offset; and whatever is asked of the object afterwards, it is the unit that is returned for its
  own offset.\<close>

theorem containing_unit:
  assumes r: "dwarf_reachable s" and u: "get_CU_containing a s = (Ok u, t)" and calls: "dwarf_call\<^sup>*\<^sup>* t v"
  shows "u < length (dw_units t) \<and> \<not> un_types (dw_units t ! u) \<and>
    (case unit_size (dw_units t ! u) of Ok n \<Rightarrow> un_offset (dw_units t ! u) \<le> a \<and> a < un_offset (dw_units t ! u) + n | _ \<Rightarrow> False) \<and>
    cached_CU_at_offset (un_offset (dw_units t ! u)) v = (Ok u, v)"
proof -
  obtain fuel start where f: "find_CU fuel start a s = (Ok u, t)"
    using u by (auto simp: get_CU_containing_def check_info_offset_def mbind_eq_Ok dwarf_assert_def the_size_def has_sec_def
      get_state_def Let_def simp del: find_CU.simps split: if_splits)
  from find_CU_coherent [OF reachable_coherent [OF r] f] obtain n where c: "coherent t"
    "cached_unit (dw_units t) (un_offset (dw_units t ! u)) u" "(un_offset (dw_units t ! u), u) \<in> set (zip (dw_cu_offsets t) (dw_cu_cache t))"
    "unit_size (dw_units t ! u) = Ok n" "un_offset (dw_units t ! u) \<le> a" "a < un_offset (dw_units t ! u) + n"
    by (auto simp: cached_unit_def)
  from unit_found_later [OF c(1) growth.cache_calls [OF calls] c(3)] c show ?thesis by (simp add: cached_unit_def)
qed

lemma small_containing: "case fst (get_CU_containing 7 small_dwarf) of Ok u \<Rightarrow> u = 0 | _ \<Rightarrow> False"
  by code_simp

theorem containing_unit_witness:
  "let t = snd (get_CU_containing 7 small_dwarf); v = snd (iter_CUs t) in
     un_offset (dw_units t ! 0) \<le> 7 \<and> cached_CU_at_offset (un_offset (dw_units t ! 0)) v = (Ok 0, v)"
proof -
  obtain t where t: "get_CU_containing 7 small_dwarf = (Ok 0, t)"
    using small_containing by (auto split: res.splits simp: prod_eq_iff)
  have "dwarf_reachable small_dwarf" unfolding small_dwarf_def by (rule dwarf_start)
  moreover have "dwarf_call\<^sup>*\<^sup>* t (snd (iter_CUs t))" by (rule r_into_rtranclp) (rule dwarf_call.intros)
  ultimately show ?thesis using containing_unit [OF _ t, of "snd (iter_CUs t)"] t by (auto split: res.splits)
qed

section \<open>Type units by signature\<close>

text \<open>The dictionary of type units, once made, is not thrown away.\<close>

definition keeps_types :: "dwarf \<Rightarrow> dwarf \<Rightarrow> bool" where
  "keeps_types s t \<longleftrightarrow> (dw_by_sig s \<noteq> None \<longrightarrow> dw_by_sig t \<noteq> None)"

interpretation types: step_relation keeps_types
  by unfold_locales (auto simp: keeps_types_def)

lemma types_basic: "moves keeps_types (in_sec n m)" "moves keeps_types (the_size n)" "moves keeps_types (has_sec n)"
  "moves keeps_types (the_unit u)" "moves keeps_types info_structs" "moves keeps_types (dwarf_assert b)" "moves keeps_types (add_unit un)"
  "moves keeps_types (note_type_unit u a)"
  by (auto simp: moves_def keeps_types_def in_sec_def the_size_def has_sec_def the_unit_def info_structs_def dwarf_assert_def
    add_unit_def note_type_unit_def mbind_def split: option.splits prod.splits res.splits)

lemmas types_intros = types.moves_rules types_basic

lemma types_TUs_from: "moves keeps_types (TUs_from n off note_type_unit acc)"
proof (induction n arbitrary: off acc)
  case (Suc n)
  show ?case unfolding TUs_from.simps parse_unit_at_offset_def unit_format_def next_unit_offset_def Let_def
    by (intro types_intros Suc.IH)
qed (unfold TUs_from.simps, rule types.moves_simple)

lemma parse_types_made: "parse_debug_types s = (r, t) \<Longrightarrow> dw_by_sig t \<noteq> None"
proof -
  assume r: "parse_debug_types s = (r, t)"
  have "moves keeps_types (parse_TUs_iter note_type_unit ())"
    unfolding parse_TUs_iter_def by (intro types_intros types_TUs_from)
  from movesD [OF this] r show ?thesis
    by (fastforce simp: parse_debug_types_def keeps_types_def split: if_splits)
qed

text \<open>C39: when making the type units fails, the lookup of any signature fails with that exception, but only the first time:
  from then on lookups answer from the dictionary of the units that were made before the failure, and a
  signature that is not among them is a \<open>KeyError\<close>.\<close>

theorem stale_type_units:
  assumes "parse_debug_types s = (Err e, t)"
  shows "get_TU_by_sig8 sig s = (Err e, t) \<and>
    get_TU_by_sig8 sig' t = (case map_of (the (dw_by_sig t)) sig' of None \<Rightarrow> Err KeyError | Some tu \<Rightarrow> Ok tu, t)"
proof -
  have "dw_by_sig t \<noteq> None" by (rule parse_types_made [OF assms])
  then have "parse_debug_types t = (Ok (), t)" by (simp add: parse_debug_types_def)
  with \<open>dw_by_sig t \<noteq> None\<close> assms show ?thesis
    by (auto simp: get_TU_by_sig8_def mbind_def [of parse_debug_types] split: option.splits)
qed

text \<open>A section that ends within the first unit's header.\<close>

definition cut_types :: dwarf where
  "cut_types = DWARFInfo_new True 8 (Map.empty(Debug_types \<mapsto> section_of [30, 0, 0, 0, 4, 0, 0, 0]))"

lemma cut_types_fails: "fst (parse_debug_types cut_types) = Err ELFParseError"
  by code_simp

theorem stale_type_units_witness:
  "fst (get_TU_by_sig8 5 cut_types) = Err ELFParseError \<and> fst (get_TU_by_sig8 5 (snd (get_TU_by_sig8 5 cut_types))) \<noteq> Err ELFParseError"
proof -
  obtain t where t: "parse_debug_types cut_types = (Err ELFParseError, t)"
    using cut_types_fails by (metis prod.collapse)
  from stale_type_units [OF t, of 5 5] show ?thesis by (auto split: option.splits)
qed

end
