(* ===== verification/ElfDescriptions.thy ===== *)
theory ElfDescriptions
  imports ElfDynamic PyNumerals
begin

text \<open>
  \<^verbatim>\<open>elftools/elf/descriptions.py\<close>: the texts for enumerations and flags, and the flag classes of
  \<^verbatim>\<open>elftools/elf/constants.py\<close> that they are made from.  What an enumeration's format yields is a name or, for a number
  it does not know, the number (\<open>field\<close>).
\<close>

section \<open>Flags (constants.py)\<close>

definition SH_FLAGS :: "(string \<times> int) list" where
  "SH_FLAGS = [
   (''SHF_WRITE'', 1), (''SHF_ALLOC'', 2), (''SHF_EXECINSTR'', 4), (''SHF_MERGE'', 0x10),
   (''SHF_STRINGS'', 0x20), (''SHF_INFO_LINK'', 0x40), (''SHF_LINK_ORDER'', 0x80),
   (''SHF_OS_NONCONFORMING'', 0x100), (''SHF_GROUP'', 0x200), (''SHF_TLS'', 0x400),
   (''SHF_COMPRESSED'', 0x800), (''SHF_MASKOS'', 0xff00000), (''SHF_EXCLUDE'', 0x80000000),
   (''SHF_MASKPROC'', 0xf0000000)]"

definition RH_FLAGS :: "(string \<times> int) list" where
  "RH_FLAGS = [
   (''RHF_NONE'', 0), (''RHF_QUICKSTART'', 1), (''RHF_NOTPOT'', 2), (''RHF_NO_LIBRARY_REPLACEMENT'', 4),
   (''RHF_NO_MOVE'', 8), (''RHF_SGI_ONLY'', 0x10), (''RHF_GUARANTEE_INIT'', 0x20),
   (''RHF_DELTA_C_PLUS_PLUS'', 0x40), (''RHF_GUARANTEE_START_INIT'', 0x80), (''RHF_PIXIE'', 0x100),
   (''RHF_DEFAULT_DELAY_LOAD'', 0x200), (''RHF_REQUICKSTART'', 0x400), (''RHF_REQUICKSTARTED'', 0x800),
   (''RHF_CORD'', 0x1000), (''RHF_NO_UNRES_UNDEF'', 0x2000), (''RHF_RLD_ORDER_SAFE'', 0x4000)]"

definition P_FLAGS :: "(string \<times> int) list" where
  "P_FLAGS = [
   (''PF_X'', 1), (''PF_W'', 2), (''PF_R'', 4), (''PF_MASKOS'', 0xff0000), (''PF_MASKPROC'', 0xff000000)]"

definition SUNW_SYMINFO_FLAGS :: "(string \<times> int) list" where
  "SUNW_SYMINFO_FLAGS = [
   (''SYMINFO_FLG_DIRECT'', 1), (''SYMINFO_FLG_FILTER'', 2), (''SYMINFO_FLG_COPY'', 4),
   (''SYMINFO_FLG_LAZYLOAD'', 8), (''SYMINFO_FLG_DIRECTBIND'', 0x10), (''SYMINFO_FLG_NOEXTDIRECT'', 0x20),
   (''SYMINFO_FLG_AUXILIARY'', 0x40), (''SYMINFO_FLG_INTERPOSE'', 0x80), (''SYMINFO_FLG_CAP'', 0x100),
   (''SYMINFO_FLG_DEFERRED'', 0x200)]"

definition VER_FLAGS :: "(string \<times> int) list" where
  "VER_FLAGS = [
   (''VER_FLG_BASE'', 1), (''VER_FLG_WEAK'', 2), (''VER_FLG_INFO'', 4)]"

section \<open>Tables\<close>

text \<open>\<open>_reverse_dict\<close>: a name with low priority does not replace another.\<close>

definition reverse_dict :: "(string \<times> int) list \<Rightarrow> string list \<Rightarrow> (int \<times> string) list" where
  "reverse_dict d low = foldl (\<lambda>out (k, v). if map_of out v \<noteq> None \<and> k \<in> set low then out else AList.update v k out) [] d"

definition DESCR_EI_CLASS :: "(string \<times> string) list" where
  "DESCR_EI_CLASS = [
   (''ELFCLASSNONE'', ''none''), (''ELFCLASS32'', ''ELF32''), (''ELFCLASS64'', ''ELF64'')]"

definition DESCR_EI_DATA :: "(string \<times> string) list" where
  "DESCR_EI_DATA = [
   (''ELFDATANONE'', ''none''), (''ELFDATA2LSB'', ''2's complement, little endian''),
   (''ELFDATA2MSB'', ''2's complement, big endian'')]"

definition DESCR_EI_OSABI :: "(string \<times> string) list" where
  "DESCR_EI_OSABI = [
   (''ELFOSABI_SYSV'', ''UNIX - System V''), (''ELFOSABI_HPUX'', ''UNIX - HP-UX''),
   (''ELFOSABI_NETBSD'', ''UNIX - NetBSD''), (''ELFOSABI_LINUX'', ''UNIX - Linux''),
   (''ELFOSABI_HURD'', ''UNIX - GNU/Hurd''), (''ELFOSABI_SOLARIS'', ''UNIX - Solaris''),
   (''ELFOSABI_AIX'', ''UNIX - AIX''), (''ELFOSABI_IRIX'', ''UNIX - IRIX''),
   (''ELFOSABI_FREEBSD'', ''UNIX - FreeBSD''), (''ELFOSABI_TRU64'', ''UNIX - TRU64''),
   (''ELFOSABI_MODESTO'', ''Novell - Modesto''), (''ELFOSABI_OPENBSD'', ''UNIX - OpenBSD''),
   (''ELFOSABI_OPENVMS'', ''VMS - OpenVMS''), (''ELFOSABI_NSK'', ''HP - Non-Stop Kernel''),
   (''ELFOSABI_AROS'', ''AROS''), (''ELFOSABI_FENIXOS'', ''Fenix OS''),
   (''ELFOSABI_CLOUD'', ''Nuxi - CloudABI''), (''ELFOSABI_SORTIX'', ''Sortix''),
   (''ELFOSABI_ARM_AEABI'', ''ARM - EABI''), (''ELFOSABI_ARM'', ''ARM - ABI''),
   (''ELFOSABI_CELL_LV2'', ''CellOS Lv-2''), (''ELFOSABI_STANDALONE'', ''Standalone App'')]"

definition DESCR_E_TYPE :: "(string \<times> string) list" where
  "DESCR_E_TYPE = [
   (''ET_NONE'', ''NONE (None)''), (''ET_REL'', ''REL (Relocatable file)''),
   (''ET_EXEC'', ''EXEC (Executable file)''), (''ET_DYN'', ''DYN (Shared object file)''),
   (''ET_CORE'', ''CORE (Core file)''), (''PROC_SPECIFIC'', ''Processor Specific'')]"

definition DESCR_E_MACHINE :: "(string \<times> string) list" where
  "DESCR_E_MACHINE = [
   (''EM_NONE'', ''None''), (''EM_M32'', ''WE32100''), (''EM_SPARC'', ''Sparc''),
   (''EM_386'', ''Intel 80386''), (''EM_68K'', ''MC68000''), (''EM_88K'', ''MC88000''),
   (''EM_860'', ''Intel 80860''), (''EM_MIPS'', ''MIPS R3000''), (''EM_S370'', ''IBM System/370''),
   (''EM_S390'', ''IBM S/390''), (''EM_MIPS_RS4_BE'', ''MIPS 4000 big-endian''),
   (''EM_IA_64'', ''Intel IA-64''), (''EM_X86_64'', ''Advanced Micro Devices X86-64''),
   (''EM_AVR'', ''Atmel AVR 8-bit microcontroller''), (''EM_ARM'', ''ARM''), (''EM_AARCH64'', ''AArch64''),
   (''EM_BLACKFIN'', ''Analog Devices Blackfin''), (''EM_PPC'', ''PowerPC''), (''EM_PPC64'', ''PowerPC64''),
   (''EM_RISCV'', ''RISC-V''), (''EM_LOONGARCH'', ''LoongArch''), (''RESERVED'', ''RESERVED'')]"

definition DESCR_P_TYPE :: "(string \<times> string) list" where
  "DESCR_P_TYPE = [
   (''PT_NULL'', ''NULL''), (''PT_LOAD'', ''LOAD''), (''PT_DYNAMIC'', ''DYNAMIC''),
   (''PT_INTERP'', ''INTERP''), (''PT_NOTE'', ''NOTE''), (''PT_SHLIB'', ''SHLIB''), (''PT_PHDR'', ''PHDR''),
   (''PT_GNU_EH_FRAME'', ''GNU_EH_FRAME''), (''PT_GNU_STACK'', ''GNU_STACK''),
   (''PT_GNU_RELRO'', ''GNU_RELRO''), (''PT_GNU_PROPERTY'', ''GNU_PROPERTY''),
   (''PT_ARM_ARCHEXT'', ''ARM_ARCHEXT''), (''PT_ARM_EXIDX'', ''EXIDX''),
   (''PT_AARCH64_ARCHEXT'', ''AARCH64_ARCHEXT''), (''PT_AARCH64_UNWIND'', ''AARCH64_UNWIND''),
   (''PT_TLS'', ''TLS''), (''PT_MIPS_ABIFLAGS'', ''ABIFLAGS''), (''PT_RISCV_ATTRIBUTES'', ''RISCV_ATTRIBUT'')]"

definition DESCR_P_FLAGS :: "(string \<times> string) list" where
  "DESCR_P_FLAGS = [
   (''PF_X'', ''E''), (''PF_R'', ''R''), (''PF_W'', ''W'')]"

definition DESCR_SH_TYPE :: "(string \<times> string) list" where
  "DESCR_SH_TYPE = [
   (''SHT_NULL'', ''NULL''), (''SHT_PROGBITS'', ''PROGBITS''), (''SHT_SYMTAB'', ''SYMTAB''),
   (''SHT_STRTAB'', ''STRTAB''), (''SHT_RELA'', ''RELA''), (''SHT_HASH'', ''HASH''),
   (''SHT_DYNAMIC'', ''DYNAMIC''), (''SHT_NOTE'', ''NOTE''), (''SHT_NOBITS'', ''NOBITS''),
   (''SHT_REL'', ''REL''), (''SHT_SHLIB'', ''SHLIB''), (''SHT_DYNSYM'', ''DYNSYM''),
   (''SHT_INIT_ARRAY'', ''INIT_ARRAY''), (''SHT_FINI_ARRAY'', ''FINI_ARRAY''),
   (''SHT_PREINIT_ARRAY'', ''PREINIT_ARRAY''), (''SHT_GNU_ATTRIBUTES'', ''GNU_ATTRIBUTES''),
   (''SHT_GNU_HASH'', ''GNU_HASH''), (''SHT_GROUP'', ''GROUP''),
   (''SHT_SYMTAB_SHNDX'', ''SYMTAB SECTION INDICIES''), (''SHT_RELR'', ''RELR''),
   (''SHT_GNU_verdef'', ''VERDEF''), (''SHT_GNU_verneed'', ''VERNEED''), (''SHT_GNU_versym'', ''VERSYM''),
   (''SHT_GNU_LIBLIST'', ''GNU_LIBLIST''), (''SHT_AMD64_UNWIND'', ''X86_64_UNWIND''),
   (''SHT_ARM_EXIDX'', ''ARM_EXIDX''), (''SHT_ARM_PREEMPTMAP'', ''ARM_PREEMPTMAP''),
   (''SHT_ARM_ATTRIBUTES'', ''ARM_ATTRIBUTES''), (''SHT_ARM_DEBUGOVERLAY'', ''ARM_DEBUGOVERLAY''),
   (''SHT_AARCH64_ATTRIBUTES'', ''AARCH64_ATTRIBUTES''), (''SHT_RISCV_ATTRIBUTES'', ''RISCV_ATTRIBUTES''),
   (''SHT_MIPS_LIBLIST'', ''MIPS_LIBLIST''), (''SHT_MIPS_DEBUG'', ''MIPS_DEBUG''),
   (''SHT_MIPS_REGINFO'', ''MIPS_REGINFO''), (''SHT_MIPS_PACKAGE'', ''MIPS_PACKAGE''),
   (''SHT_MIPS_PACKSYM'', ''MIPS_PACKSYM''), (''SHT_MIPS_RELD'', ''MIPS_RELD''),
   (''SHT_MIPS_IFACE'', ''MIPS_IFACE''), (''SHT_MIPS_CONTENT'', ''MIPS_CONTENT''),
   (''SHT_MIPS_OPTIONS'', ''MIPS_OPTIONS''), (''SHT_MIPS_SHDR'', ''MIPS_SHDR''),
   (''SHT_MIPS_FDESC'', ''MIPS_FDESC''), (''SHT_MIPS_EXTSYM'', ''MIPS_EXTSYM''),
   (''SHT_MIPS_DENSE'', ''MIPS_DENSE''), (''SHT_MIPS_PDESC'', ''MIPS_PDESC''),
   (''SHT_MIPS_LOCSYM'', ''MIPS_LOCSYM''), (''SHT_MIPS_AUXSYM'', ''MIPS_AUXSYM''),
   (''SHT_MIPS_OPTSYM'', ''MIPS_OPTSYM''), (''SHT_MIPS_LOCSTR'', ''MIPS_LOCSTR''),
   (''SHT_MIPS_LINE'', ''MIPS_LINE''), (''SHT_MIPS_RFDESC'', ''MIPS_RFDESC''),
   (''SHT_MIPS_DELTASYM'', ''MIPS_DELTASYM''), (''SHT_MIPS_DELTAINST'', ''MIPS_DELTAINST''),
   (''SHT_MIPS_DELTACLASS'', ''MIPS_DELTACLASS''), (''SHT_MIPS_DWARF'', ''MIPS_DWARF''),
   (''SHT_MIPS_DELTADECL'', ''MIPS_DELTADECL''), (''SHT_MIPS_SYMBOL_LIB'', ''MIPS_SYMBOL_LIB''),
   (''SHT_MIPS_EVENTS'', ''MIPS_EVENTS''), (''SHT_MIPS_TRANSLATE'', ''MIPS_TRANSLATE''),
   (''SHT_MIPS_PIXIE'', ''MIPS_PIXIE''), (''SHT_MIPS_XLATE'', ''MIPS_XLATE''),
   (''SHT_MIPS_XLATE_DEBUG'', ''MIPS_XLATE_DEBUG''), (''SHT_MIPS_WHIRL'', ''MIPS_WHIRL''),
   (''SHT_MIPS_EH_REGION'', ''MIPS_EH_REGION''), (''SHT_MIPS_XLATE_OLD'', ''MIPS_XLATE_OLD''),
   (''SHT_MIPS_PDR_EXCEPTION'', ''MIPS_PDR_EXCEPTION''), (''SHT_MIPS_ABIFLAGS'', ''MIPS_ABIFLAGS'')]"

definition DESCR_SH_FLAGS :: "(string \<times> string) list" where
  "DESCR_SH_FLAGS = [
   (''SHF_WRITE'', ''W''), (''SHF_ALLOC'', ''A''), (''SHF_EXECINSTR'', ''X''), (''SHF_MERGE'', ''M''),
   (''SHF_STRINGS'', ''S''), (''SHF_INFO_LINK'', ''I''), (''SHF_LINK_ORDER'', ''L''),
   (''SHF_OS_NONCONFORMING'', ''O''), (''SHF_GROUP'', ''G''), (''SHF_TLS'', ''T''), (''SHF_MASKOS'', ''o''),
   (''SHF_EXCLUDE'', ''E'')]"

definition DESCR_RH_FLAGS :: "(string \<times> string) list" where
  "DESCR_RH_FLAGS = [
   (''RHF_NONE'', ''NONE''), (''RHF_QUICKSTART'', ''QUICKSTART''), (''RHF_NOTPOT'', ''NOTPOT''),
   (''RHF_NO_LIBRARY_REPLACEMENT'', ''NO_LIBRARY_REPLACEMENT''), (''RHF_NO_MOVE'', ''NO_MOVE''),
   (''RHF_SGI_ONLY'', ''SGI_ONLY''), (''RHF_GUARANTEE_INIT'', ''GUARANTEE_INIT''),
   (''RHF_DELTA_C_PLUS_PLUS'', ''DELTA_C_PLUS_PLUS''),
   (''RHF_GUARANTEE_START_INIT'', ''GUARANTEE_START_INIT''), (''RHF_PIXIE'', ''PIXIE''),
   (''RHF_DEFAULT_DELAY_LOAD'', ''DEFAULT_DELAY_LOAD''), (''RHF_REQUICKSTART'', ''REQUICKSTART''),
   (''RHF_REQUICKSTARTED'', ''REQUICKSTARTED''), (''RHF_CORD'', ''CORD''),
   (''RHF_NO_UNRES_UNDEF'', ''NO_UNRES_UNDEF''), (''RHF_RLD_ORDER_SAFE'', ''RLD_ORDER_SAFE'')]"

definition DESCR_ST_INFO_TYPE :: "(string \<times> string) list" where
  "DESCR_ST_INFO_TYPE = [
   (''STT_NOTYPE'', ''NOTYPE''), (''STT_OBJECT'', ''OBJECT''), (''STT_FUNC'', ''FUNC''),
   (''STT_SECTION'', ''SECTION''), (''STT_FILE'', ''FILE''), (''STT_COMMON'', ''COMMON''),
   (''STT_TLS'', ''TLS''), (''STT_NUM'', ''NUM''), (''STT_RELC'', ''RELC''), (''STT_SRELC'', ''SRELC'')]"

definition DESCR_ST_INFO_BIND :: "(string \<times> string) list" where
  "DESCR_ST_INFO_BIND = [
   (''STB_LOCAL'', ''LOCAL''), (''STB_GLOBAL'', ''GLOBAL''), (''STB_WEAK'', ''WEAK'')]"

definition DESCR_ST_VISIBILITY :: "(string \<times> string) list" where
  "DESCR_ST_VISIBILITY = [
   (''STV_DEFAULT'', ''DEFAULT''), (''STV_INTERNAL'', ''INTERNAL''), (''STV_HIDDEN'', ''HIDDEN''),
   (''STV_PROTECTED'', ''PROTECTED''), (''STV_EXPORTED'', ''EXPORTED''), (''STV_SINGLETON'', ''SINGLETON''),
   (''STV_ELIMINATE'', ''ELIMINATE'')]"

definition DESCR_ST_SHNDX :: "(string \<times> string) list" where
  "DESCR_ST_SHNDX = [
   (''SHN_UNDEF'', ''UND''), (''SHN_ABS'', ''ABS''), (''SHN_COMMON'', ''COM'')]"

definition DESCR_SYMINFO_FLAGS :: "(string \<times> string) list" where
  "DESCR_SYMINFO_FLAGS = [
   (''SYMINFO_FLG_DIRECT'', ''D''), (''SYMINFO_FLG_DIRECTBIND'', ''B''), (''SYMINFO_FLG_COPY'', ''C''),
   (''SYMINFO_FLG_LAZYLOAD'', ''L''), (''SYMINFO_FLG_NOEXTDIRECT'', ''N''),
   (''SYMINFO_FLG_AUXILIARY'', ''A''), (''SYMINFO_FLG_FILTER'', ''F''), (''SYMINFO_FLG_INTERPOSE'', ''I''),
   (''SYMINFO_FLG_CAP'', ''S''), (''SYMINFO_FLG_DEFERRED'', ''P'')]"

definition DESCR_SYMINFO_BOUNDTO :: "(string \<times> string) list" where
  "DESCR_SYMINFO_BOUNDTO = [
   (''SYMINFO_BT_SELF'', ''<self>''), (''SYMINFO_BT_PARENT'', ''<parent>''), (''SYMINFO_BT_NONE'', ''''),
   (''SYMINFO_BT_EXTERN'', ''<extern>'')]"

definition DESCR_VER_FLAGS :: "(string \<times> string) list" where
  "DESCR_VER_FLAGS = [
   (''0'', ''''), (''VER_FLG_BASE'', ''BASE''), (''VER_FLG_WEAK'', ''WEAK''), (''VER_FLG_INFO'', ''INFO'')]"

definition DESCR_NOTE_N_TYPE :: "(string \<times> string) list" where
  "DESCR_NOTE_N_TYPE = [
   (''NT_GNU_ABI_TAG'', ''ABI version tag''), (''NT_GNU_HWCAP'', ''DSO-supplied software HWCAP info''),
   (''NT_GNU_BUILD_ID'', ''unique build ID bitstring''), (''NT_GNU_GOLD_VERSION'', ''gold version''),
   (''NT_GNU_PROPERTY_TYPE_0'', ''program properties'')]"

definition DESCR_NOTE_ABI_TAG_OS :: "(string \<times> string) list" where
  "DESCR_NOTE_ABI_TAG_OS = [
   (''ELF_NOTE_OS_LINUX'', ''Linux''), (''ELF_NOTE_OS_GNU'', ''GNU''),
   (''ELF_NOTE_OS_SOLARIS2'', ''Solaris 2''), (''ELF_NOTE_OS_FREEBSD'', ''FreeBSD''),
   (''ELF_NOTE_OS_NETBSD'', ''NetBSD''), (''ELF_NOTE_OS_SYLLABLE'', ''Syllable'')]"

definition DESCR_NOTE_GNU_PROPERTY_TYPE_LOPROC :: "int" where
  "DESCR_NOTE_GNU_PROPERTY_TYPE_LOPROC = 0xc0000000"

definition DESCR_NOTE_GNU_PROPERTY_TYPE_HIPROC :: "int" where
  "DESCR_NOTE_GNU_PROPERTY_TYPE_HIPROC = 0xdfffffff"

definition DESCR_NOTE_GNU_PROPERTY_TYPE_LOUSER :: "int" where
  "DESCR_NOTE_GNU_PROPERTY_TYPE_LOUSER = 0xe0000000"

definition DESCR_NOTE_GNU_PROPERTY_TYPE_HIUSER :: "int" where
  "DESCR_NOTE_GNU_PROPERTY_TYPE_HIUSER = 0xffffffff"

definition DESCR_NOTE_GNU_PROPERTY_X86_FEATURE_1_FLAGS :: "(int \<times> string) list" where
  "DESCR_NOTE_GNU_PROPERTY_X86_FEATURE_1_FLAGS = [(1, ''IBT''), (2, ''SHSTK''), (4, ''LAM_U48''), (8, ''LAM_U57'')]"

definition DESCR_NOTE_GNU_PROPERTY_X86_FEATURE_2_FLAGS :: "(int \<times> string) list" where
  "DESCR_NOTE_GNU_PROPERTY_X86_FEATURE_2_FLAGS = [(1, ''x86''), (2, ''x87''), (4, ''MMX''), (8, ''XMM''), (16, ''YMM''), (32, ''ZMM'')]"

definition DESCR_NOTE_GNU_PROPERTY_X86_ISA_1_FLAGS :: "(int \<times> string) list" where
  "DESCR_NOTE_GNU_PROPERTY_X86_ISA_1_FLAGS = [(1, ''x86-64-baseline'')]"

definition DESCR_NOTE_GNU_PROPERTY_AARCH64_FEATURE_1_AND :: "(int \<times> string) list" where
  "DESCR_NOTE_GNU_PROPERTY_AARCH64_FEATURE_1_AND = [(1, ''bti''), (2, ''pac'')]"

definition DESCR_NOTE_GNU_PROPERTY_RISCV_FEATURE_1_AND :: "(int \<times> string) list" where
  "DESCR_NOTE_GNU_PROPERTY_RISCV_FEATURE_1_AND = [(1, ''ZICFILP''), (2, ''ZICFISS'')]"

definition DESCR_RELOC_TYPE_i386 :: "(int \<times> string) list" where
  "DESCR_RELOC_TYPE_i386 = reverse_dict (fst ENUM_RELOC_TYPE_i386) []"

definition DESCR_RELOC_TYPE_x64 :: "(int \<times> string) list" where
  "DESCR_RELOC_TYPE_x64 = reverse_dict (fst ENUM_RELOC_TYPE_x64) []"

definition DESCR_RELOC_TYPE_ARM :: "(int \<times> string) list" where
  "DESCR_RELOC_TYPE_ARM = reverse_dict (fst ENUM_RELOC_TYPE_ARM) []"

definition DESCR_RELOC_TYPE_AARCH64 :: "(int \<times> string) list" where
  "DESCR_RELOC_TYPE_AARCH64 = reverse_dict (fst ENUM_RELOC_TYPE_AARCH64) []"

definition DESCR_RELOC_TYPE_PPC64 :: "(int \<times> string) list" where
  "DESCR_RELOC_TYPE_PPC64 = reverse_dict (fst ENUM_RELOC_TYPE_PPC64) []"

definition DESCR_RELOC_TYPE_PPC :: "(int \<times> string) list" where
  "DESCR_RELOC_TYPE_PPC = reverse_dict (fst ENUM_RELOC_TYPE_PPC) []"

definition DESCR_RELOC_TYPE_S390X :: "(int \<times> string) list" where
  "DESCR_RELOC_TYPE_S390X = reverse_dict (fst ENUM_RELOC_TYPE_S390X) []"

definition DESCR_RELOC_TYPE_MIPS :: "(int \<times> string) list" where
  "DESCR_RELOC_TYPE_MIPS = reverse_dict (fst ENUM_RELOC_TYPE_MIPS) []"

definition DESCR_RELOC_TYPE_LOONGARCH :: "(int \<times> string) list" where
  "DESCR_RELOC_TYPE_LOONGARCH = reverse_dict (fst ENUM_RELOC_TYPE_LOONGARCH) []"

definition low_priority_D_TAG :: "string list" where
  "low_priority_D_TAG = [''DT_LOOS'', ''DT_HIOS'', ''DT_LOPROC'', ''DT_HIPROC'', ''DT_ENCODING'']"

definition DESCR_D_TAG :: "(int \<times> string) list" where
  "DESCR_D_TAG = reverse_dict (fst ENUM_D_TAG) low_priority_D_TAG"

definition DESCR_ATTR_TAG_ARM :: "(string \<times> string) list" where
  "DESCR_ATTR_TAG_ARM = [
   (''TAG_FILE'', ''File Attributes''), (''TAG_SECTION'', ''Section Attributes:''),
   (''TAG_SYMBOL'', ''Symbol Attributes:''), (''TAG_CPU_RAW_NAME'', ''Tag_CPU_raw_name: ''),
   (''TAG_CPU_NAME'', ''Tag_CPU_name: ''), (''TAG_CPU_ARCH'', ''Tag_CPU_arch: ''),
   (''TAG_CPU_ARCH_PROFILE'', ''Tag_CPU_arch_profile: ''), (''TAG_ARM_ISA_USE'', ''Tag_ARM_ISA_use: ''),
   (''TAG_THUMB_ISA_USE'', ''Tag_Thumb_ISA_use: ''), (''TAG_FP_ARCH'', ''Tag_FP_arch: ''),
   (''TAG_WMMX_ARCH'', ''Tag_WMMX_arch: ''), (''TAG_ADVANCED_SIMD_ARCH'', ''Tag_Advanced_SIMD_arch: ''),
   (''TAG_PCS_CONFIG'', ''Tag_PCS_config: ''), (''TAG_ABI_PCS_R9_USE'', ''Tag_ABI_PCS_R9_use: ''),
   (''TAG_ABI_PCS_RW_DATA'', ''Tag_ABI_PCS_RW_use: ''), (''TAG_ABI_PCS_RO_DATA'', ''Tag_ABI_PCS_RO_use: ''),
   (''TAG_ABI_PCS_GOT_USE'', ''Tag_ABI_PCS_GOT_use: ''),
   (''TAG_ABI_PCS_WCHAR_T'', ''Tag_ABI_PCS_wchar_t: ''),
   (''TAG_ABI_FP_ROUNDING'', ''Tag_ABI_FP_rounding: ''),
   (''TAG_ABI_FP_DENORMAL'', ''Tag_ABI_FP_denormal: ''),
   (''TAG_ABI_FP_EXCEPTIONS'', ''Tag_ABI_FP_exceptions: ''),
   (''TAG_ABI_FP_USER_EXCEPTIONS'', ''Tag_ABI_FP_user_exceptions: ''),
   (''TAG_ABI_FP_NUMBER_MODEL'', ''Tag_ABI_FP_number_model: ''),
   (''TAG_ABI_ALIGN_NEEDED'', ''Tag_ABI_align_needed: ''),
   (''TAG_ABI_ALIGN_PRESERVED'', ''Tag_ABI_align_preserved: ''),
   (''TAG_ABI_ENUM_SIZE'', ''Tag_ABI_enum_size: ''), (''TAG_ABI_HARDFP_USE'', ''Tag_ABI_HardFP_use: ''),
   (''TAG_ABI_VFP_ARGS'', ''Tag_ABI_VFP_args: ''), (''TAG_ABI_WMMX_ARGS'', ''Tag_ABI_WMMX_args: ''),
   (''TAG_ABI_OPTIMIZATION_GOALS'', ''Tag_ABI_optimization_goals: ''),
   (''TAG_ABI_FP_OPTIMIZATION_GOALS'', ''Tag_ABI_FP_optimization_goals: ''),
   (''TAG_COMPATIBILITY'', ''Tag_compatibility: ''),
   (''TAG_CPU_UNALIGNED_ACCESS'', ''Tag_CPU_unaligned_access: ''),
   (''TAG_FP_HP_EXTENSION'', ''Tag_FP_HP_extension: ''),
   (''TAG_ABI_FP_16BIT_FORMAT'', ''Tag_ABI_FP_16bit_format: ''),
   (''TAG_MPEXTENSION_USE'', ''Tag_MPextension_use: ''), (''TAG_DIV_USE'', ''Tag_DIV_use: ''),
   (''TAG_NODEFAULTS'', ''Tag_nodefaults: ''),
   (''TAG_ALSO_COMPATIBLE_WITH'', ''Tag_also_compatible_with: ''), (''TAG_T2EE_USE'', ''Tag_T2EE_use: ''),
   (''TAG_CONFORMANCE'', ''Tag_conformance: ''), (''TAG_VIRTUALIZATION_USE'', ''Tag_Virtualization_use: ''),
   (''TAG_MPEXTENSION_USE_OLD'', ''Tag_MPextension_use_old: '')]"

definition DESCR_ATTR_VAL_ARM :: "(int \<times> string) list option list" where
  "DESCR_ATTR_VAL_ARM = [
   None, None, None, None, None,
   Some [
      (0, ''Pre-v4''), (1, ''v4''), (2, ''v4T''), (3, ''v5T''), (4, ''v5TE''), (5, ''v5TEJ''), (6, ''v6''),
      (7, ''v6KZ''), (8, ''v6T2''), (9, ''v6K''), (10, ''v7''), (11, ''v6-M''), (12, ''v6S-M''),
      (13, ''v7E-M''), (14, ''v8''), (15, ''v8-R''), (16, ''v8-M.baseline''), (17, ''v8-M.mainline'')],
   Some [
      (0, ''None''), (65, ''Application''), (82, ''Realtime''), (77, ''Microcontroller''),
      (83, ''Application or Realtime'')],
   Some [
      (0, ''No''), (1, ''Yes'')],
   Some [
      (0, ''No''), (1, ''Thumb-1''), (2, ''Thumb-2''), (3, ''Yes'')],
   Some [
      (0, ''No''), (1, ''VFPv1''), (2, ''VFPv2 ''), (3, ''VFPv3''), (4, ''VFPv3-D16''), (5, ''VFPv4''),
      (6, ''VFPv4-D16''), (7, ''FP ARM v8''), (8, ''FPv5/FP-D16 for ARMv8'')],
   Some [
      (0, ''No''), (1, ''WMMXv1''), (2, ''WMMXv2'')],
   Some [
      (0, ''No''), (1, ''NEONv1''), (2, ''NEONv1 with Fused-MAC''), (3, ''NEON for ARMv8''),
      (4, ''NEON for ARMv8.1'')],
   Some [
      (0, ''None''), (1, ''Bare platform''), (2, ''Linux application''), (3, ''Linux DSO''),
      (4, ''PalmOS 2004''), (5, ''PalmOS (reserved)''), (6, ''SymbianOS 2004''), (7, ''SymbianOS (reserved)'')],
   Some [
      (0, ''v6''), (1, ''SB''), (2, ''TLS''), (3, ''Unused'')],
   Some [
      (0, ''Absolute''), (1, ''PC-relative''), (2, ''SB-relative''), (3, ''None'')],
   Some [
      (0, ''Absolute''), (1, ''PC-relative''), (2, ''None'')],
   Some [
      (0, ''None''), (1, ''direct''), (2, ''GOT-indirect'')],
   Some [
      (0, ''None''), (1, ''??? 1''), (2, ''2''), (3, ''??? 3''), (4, ''4'')],
   Some [
      (0, ''Unused''), (1, ''Needed'')],
   Some [
      (0, ''Unused''), (1, ''Needed''), (2, ''Sign only'')],
   Some [
      (0, ''Unused''), (1, ''Needed'')],
   Some [
      (0, ''Unused''), (1, ''Needed'')],
   Some [
      (0, ''Unused''), (1, ''Finite''), (2, ''RTABI''), (3, ''IEEE 754'')],
   Some [
      (0, ''None''), (1, ''8-byte''), (2, ''4-byte''), (3, ''??? 3'')],
   Some [
      (0, ''None''), (1, ''8-byte, except leaf SP''), (2, ''8-byte''), (3, ''??? 3'')],
   Some [
      (0, ''Unused''), (1, ''small''), (2, ''int''), (3, ''forced to int'')],
   Some [
      (0, ''As Tag_FP_arch''), (1, ''SP only''), (2, ''Reserved''), (3, ''Deprecated'')],
   Some [
      (0, ''AAPCS''), (1, ''VFP registers''), (2, ''custom''), (3, ''compatible'')],
   Some [
      (0, ''AAPCS''), (1, ''WMMX registers''), (2, ''custom'')],
   Some [
      (0, ''None''), (1, ''Prefer Speed''), (2, ''Aggressive Speed''), (3, ''Prefer Size''),
      (4, ''Aggressive Size''), (5, ''Prefer Debug''), (6, ''Aggressive Debug'')],
   Some [
      (0, ''None''), (1, ''Prefer Speed''), (2, ''Aggressive Speed''), (3, ''Prefer Size''),
      (4, ''Aggressive Size''), (5, ''Prefer Accuracy''), (6, ''Aggressive Accuracy'')],
   Some [
      (0, ''No''), (1, ''Yes'')],
   None,
   Some [
      (0, ''None''), (1, ''v6'')],
   None,
   Some [
      (0, ''Not Allowed''), (1, ''Allowed'')],
   None,
   Some [
      (0, ''None''), (1, ''IEEE 754''), (2, ''Alternative Format'')],
   None, None, None,
   Some [
      (0, ''Not Allowed''), (1, ''Allowed'')],
   None,
   Some [
      (0, ''Allowed in Thumb-ISA, v7-R or v7-M''), (1, ''Not allowed''),
      (2, ''Allowed in v7-A with integer division extension'')],
   None, None, None, None, None, None, None, None, None, None, None, None, None, None, None, None, None,
   None, None, None, None,
   Some [
      (0, ''Not Allowed''), (1, ''Allowed'')],
   None,
   Some [
      (0, ''Not Allowed''), (1, ''TrustZone''), (2, ''Virtualization Extensions''),
      (3, ''TrustZone and Virtualization Extensions'')],
   None,
   Some [
      (0, ''Not Allowed''), (1, ''Allowed'')]]"

definition DESCR_ATTR_TAG_RISCV :: "(string \<times> string) list" where
  "DESCR_ATTR_TAG_RISCV = [
   (''TAG_FILE'', ''File Attributes''), (''TAG_SECTION'', ''Section Attributes:''),
   (''TAG_SYMBOL'', ''Symbol Attributes:''), (''TAG_STACK_ALIGN'', ''Tag_RISCV_stack_align: ''),
   (''TAG_ARCH'', ''Tag_RISCV_arch: ''), (''TAG_UNALIGNED'', ''Tag_RISCV_unaligned_access: ''),
   (''TAG_PRIV_SPEC'', ''Tag_RISCV_priv_spec: ''),
   (''TAG_PRIV_SPEC_MINOR'', ''Tag_RISCV_priv_spec_minor: ''),
   (''TAG_PRIV_SPEC_REVISION'', ''Tag_RISCV_priv_spec_revision: ''),
   (''TAG_ATOMIC_ABI'', ''Tag_RISCV_atomic_abi: ''), (''TAG_X3_REG_USAGE'', ''Tag_RISCV_x3_reg_usage: '')]"

definition DESCR_ATTR_VAL_RISCV :: "(int \<times> string) list option list" where
  "DESCR_ATTR_VAL_RISCV = [
   None, None, None,
   Some [
      (4, ''4-bytes''), (16, ''16-bytes'')],
   None,
   Some [
      (0, ''Not Allowed''), (1, ''Allowed'')],
   None, None, None,
   Some [
      (0, ''UNKNOWN: This object uses unknown atomic ABI.''),
      (1, ''A6C: This object uses the A6 classical atomic ABI.''),
      (2, ''A6S: This object uses the strengthened A6 ABI.''),
      (3, ''A7: This object uses the A7 atomic ABI.'')],
   Some [
      (0, ''This object uses x3 as a fixed register with unknown purpose.''),
      (1, ''This object uses x3 as the global pointer, for relaxation purposes.''),
      (2, ''This object uses x3 as the shadow stack pointer.''),
      (3, ''This object uses X3 as a temporary register.'')]]"

section \<open>Names\<close>

datatype field = Name pystr | Code int

definition unknown_text :: pystr where
  "unknown_text = lit ''<unknown>''"

definition name_text :: "(string \<times> string) list \<Rightarrow> pystr \<Rightarrow> pystr option" where
  "name_text t s = map_option lit (map_of (map (\<lambda>(k, v). (lit k, v)) t) s)"

text \<open>\<^verbatim>\<open>table.get(x, default)\<close>.\<close>

definition table_get :: "(string \<times> string) list \<Rightarrow> field \<Rightarrow> pystr \<Rightarrow> pystr" where
  "table_get t x d = (case x of Code _ \<Rightarrow> d | Name s \<Rightarrow> (case name_text t s of None \<Rightarrow> d | Some r \<Rightarrow> r))"

definition describe_ei_class :: "field \<Rightarrow> pystr" where
  "describe_ei_class x = table_get DESCR_EI_CLASS x unknown_text"

definition describe_ei_data :: "field \<Rightarrow> pystr" where
  "describe_ei_data x = table_get DESCR_EI_DATA x unknown_text"

definition enum_number :: "enum \<Rightarrow> field \<Rightarrow> int res" where
  "enum_number e x = (case x of Code _ \<Rightarrow> Err KeyError
     | Name s \<Rightarrow> (case map_of (map (\<lambda>(k, v). (lit k, v)) (fst e)) s of None \<Rightarrow> Err KeyError | Some n \<Rightarrow> Ok n))"

definition describe_ei_version :: "field \<Rightarrow> pystr res" where
  "describe_ei_version x = rbind (enum_number ENUM_E_VERSION x) (\<lambda>n.
     Ok (py_str n @ (if x = Name (lit ''EV_CURRENT'') then lit '' (current)'' else [])))"

definition describe_ei_osabi :: "field \<Rightarrow> pystr" where
  "describe_ei_osabi x = table_get DESCR_EI_OSABI x unknown_text"

text \<open>Only a dynamic section can list tags; any other, or none, is an \<open>AttributeError\<close>.\<close>

definition pie_flag :: "elffile \<Rightarrow> dynamic \<Rightarrow> (bool \<times> dynamic) F" where
  "pie_flag ef dy = for_dtags ef dy (Some (VLit ''DT_FLAGS_1''))
     (\<lambda>_ t. mbind (lift_res (get_int (dt_entry t) ''d_val'')) (\<lambda>v.
       mbind (lift_res (enum_number ENUM_DT_FLAGS_1 (Name (lit ''DF_1_PIE'')))) (\<lambda>m.
         ret (v AND m \<noteq> 0, v AND m = 0)))) False"

definition describe_e_type :: "field \<Rightarrow> elffile option \<Rightarrow> pystr F" where
  "describe_e_type x elffile = (case elffile of
       Some ef \<Rightarrow>
         if x = Name (lit ''ET_DYN'') then
           mbind (get_section_by_name ef (lit ''.dynamic'')) (\<lambda>sec. case sec of
             None \<Rightarrow> raise AttributeError
           | Some sec \<Rightarrow>
               if s_kind sec \<noteq> DynamicSection then raise AttributeError
               else
                 mbind (lift_res (dynamic_of_section sec)) (\<lambda>dy.
                 mbind (pie_flag ef dy) (\<lambda>(pie, _).
                   ret (if pie then lit ''DYN (Position-Independent Executable file)''
                        else table_get DESCR_E_TYPE x unknown_text))))
         else ret (table_get DESCR_E_TYPE x unknown_text)
     | None \<Rightarrow> ret (table_get DESCR_E_TYPE x unknown_text))"

definition describe_e_machine :: "field \<Rightarrow> pystr" where
  "describe_e_machine x = table_get DESCR_E_MACHINE x unknown_text"

definition describe_e_version_numeric :: "field \<Rightarrow> pystr res" where
  "describe_e_version_numeric x = rbind (enum_number ENUM_E_VERSION x) (\<lambda>n. Ok (lit ''0x'' @ hex_text n))"

text \<open>Ranges of numbers; a name that the table does not have cannot be compared with a number.\<close>

definition base_number :: "enum \<Rightarrow> string \<Rightarrow> int" where
  "base_number e n = (case map_of (fst e) n of Some i \<Rightarrow> i | None \<Rightarrow> 0)"

definition describe_p_type :: "field \<Rightarrow> pystr res" where
  "describe_p_type x = (case x of
       Name s \<Rightarrow> (case name_text DESCR_P_TYPE s of Some r \<Rightarrow> Ok r | None \<Rightarrow> Err TypeError)
     | Code n \<Rightarrow>
         if base_number ENUM_P_TYPE_BASE ''PT_LOOS'' \<le> n \<and> n \<le> base_number ENUM_P_TYPE_BASE ''PT_HIOS'' then
           Ok (lit ''LOOS+'' @ hex_text (n - base_number ENUM_P_TYPE_BASE ''PT_LOOS''))
         else Ok unknown_text)"

definition describe_sh_type :: "field \<Rightarrow> pystr res" where
  "describe_sh_type x = (case x of
       Name s \<Rightarrow> (case name_text DESCR_SH_TYPE s of Some r \<Rightarrow> Ok r | None \<Rightarrow> Err TypeError)
     | Code n \<Rightarrow>
         if base_number ENUM_SH_TYPE_BASE ''SHT_LOOS'' \<le> n \<and> n < base_number ENUM_SH_TYPE_BASE ''SHT_GNU_versym'' then
           Ok (lit ''loos+0x'' @ hex_text (n - base_number ENUM_SH_TYPE_BASE ''SHT_LOOS''))
         else Ok unknown_text)"

section \<open>Flags\<close>

definition flag_of :: "(string \<times> int) list \<Rightarrow> string \<Rightarrow> int" where
  "flag_of cls n = (case map_of cls n of Some i \<Rightarrow> i | None \<Rightarrow> 0)"

definition has_flag :: "int \<Rightarrow> (string \<times> int) list \<Rightarrow> string \<Rightarrow> bool" where
  "has_flag x cls n \<longleftrightarrow> x AND flag_of cls n \<noteq> 0"

definition flag_text :: "(string \<times> string) list \<Rightarrow> string \<Rightarrow> pystr" where
  "flag_text t n = (case map_of t n of Some d \<Rightarrow> lit d | None \<Rightarrow> [])"

fun join_with :: "pystr \<Rightarrow> pystr list \<Rightarrow> pystr" where
  "join_with sep [] = []"
| "join_with sep [x] = x"
| "join_with sep (x # xs) = x @ sep @ join_with sep xs"

definition flag_texts :: "(string \<times> int) list \<Rightarrow> (string \<times> string) list \<Rightarrow> string list \<Rightarrow> int \<Rightarrow> pystr list" where
  "flag_texts cls t order x = map (flag_text t) (filter (has_flag x cls) order)"

definition describe_p_flags :: "int \<Rightarrow> pystr" where
  "describe_p_flags x = concat (map (\<lambda>n. if has_flag x P_FLAGS n then flag_text DESCR_P_FLAGS n else lit '' '') [''PF_R'', ''PF_W'', ''PF_X''])"

definition describe_rh_flags :: "int \<Rightarrow> pystr" where
  "describe_rh_flags x = join_with (lit '' '') (flag_texts RH_FLAGS DESCR_RH_FLAGS
     [''RHF_NONE'', ''RHF_QUICKSTART'', ''RHF_NOTPOT'', ''RHF_NO_LIBRARY_REPLACEMENT'', ''RHF_NO_MOVE'', ''RHF_SGI_ONLY'',
      ''RHF_GUARANTEE_INIT'', ''RHF_DELTA_C_PLUS_PLUS'', ''RHF_GUARANTEE_START_INIT'', ''RHF_PIXIE'', ''RHF_DEFAULT_DELAY_LOAD'',
      ''RHF_REQUICKSTART'', ''RHF_REQUICKSTARTED'', ''RHF_CORD'', ''RHF_NO_UNRES_UNDEF'', ''RHF_RLD_ORDER_SAFE''] x)"

definition describe_sh_flags :: "int \<Rightarrow> pystr" where
  "describe_sh_flags x = concat (flag_texts SH_FLAGS DESCR_SH_FLAGS
     [''SHF_WRITE'', ''SHF_ALLOC'', ''SHF_EXECINSTR'', ''SHF_MERGE'', ''SHF_STRINGS'', ''SHF_INFO_LINK'', ''SHF_LINK_ORDER'',
      ''SHF_OS_NONCONFORMING'', ''SHF_GROUP'', ''SHF_TLS'', ''SHF_MASKOS'', ''SHF_EXCLUDE''] x) @
     (if \<not> has_flag x SH_FLAGS ''SHF_EXCLUDE'' \<and> has_flag x SH_FLAGS ''SHF_MASKPROC'' then lit ''p'' else [])"

definition describe_syminfo_flags :: "int \<Rightarrow> pystr" where
  "describe_syminfo_flags x = concat (flag_texts SUNW_SYMINFO_FLAGS DESCR_SYMINFO_FLAGS
     [''SYMINFO_FLG_CAP'', ''SYMINFO_FLG_DIRECT'', ''SYMINFO_FLG_FILTER'', ''SYMINFO_FLG_AUXILIARY'', ''SYMINFO_FLG_DIRECTBIND'',
      ''SYMINFO_FLG_COPY'', ''SYMINFO_FLG_LAZYLOAD'', ''SYMINFO_FLG_NOEXTDIRECT'', ''SYMINFO_FLG_INTERPOSE'', ''SYMINFO_FLG_DEFERRED''] x)"

definition describe_ver_flags :: "int \<Rightarrow> pystr" where
  "describe_ver_flags x = join_with (lit '' | '') (flag_texts VER_FLAGS DESCR_VER_FLAGS [''VER_FLG_WEAK'', ''VER_FLG_BASE'', ''VER_FLG_INFO''] x)"

text \<open>\<^verbatim>\<open>key[k:]\<close> of the flags that are set, by their values.\<close>

definition set_flags :: "enum \<Rightarrow> nat \<Rightarrow> int \<Rightarrow> pystr" where
  "set_flags e k x = join_with (lit '' '') (map (\<lambda>(n, _). lit (drop k n)) (filter (\<lambda>(_, v). x AND v \<noteq> 0) (sort_key snd (fst e))))"

definition describe_dt_flags :: "int \<Rightarrow> pystr" where
  "describe_dt_flags x = set_flags ENUM_DT_FLAGS 3 x"

definition describe_dt_flags_1 :: "int \<Rightarrow> pystr" where
  "describe_dt_flags_1 x = set_flags ENUM_DT_FLAGS_1 5 x"

section \<open>Symbols\<close>

definition describe_symbol_type :: "field \<Rightarrow> pystr" where
  "describe_symbol_type x = table_get DESCR_ST_INFO_TYPE x unknown_text"

definition describe_symbol_bind :: "field \<Rightarrow> pystr" where
  "describe_symbol_bind x = table_get DESCR_ST_INFO_BIND x unknown_text"

definition describe_symbol_visibility :: "field \<Rightarrow> pystr" where
  "describe_symbol_visibility x = table_get DESCR_ST_VISIBILITY x unknown_text"

text \<open>A shift by a negative number is an error.\<close>

definition describe_symbol_local :: "int \<Rightarrow> pystr res" where
  "describe_symbol_local x = (if x < 0 then Err ValueError
     else Ok (lit ''[<localentry>: '' @ py_str (push_bit (nat x) 1) @ lit '']''))"

text \<open>The fields are \<^verbatim>\<open>visibility\<close> and \<^verbatim>\<open>local\<close>; a name is not compared with a number.\<close>

definition describe_symbol_other :: "field \<Rightarrow> field \<Rightarrow> pystr res" where
  "describe_symbol_other visibility local = (case local of
       Name _ \<Rightarrow> Err TypeError
     | Code n \<Rightarrow>
         let vis = describe_symbol_visibility visibility in
         if n > 1 \<and> n < 7 then rbind (describe_symbol_local n) (\<lambda>l. Ok (vis @ lit '' '' @ l)) else Ok vis)"

text \<open>\<^verbatim>\<open>'%3s' % x\<close>.\<close>

definition field_text :: "field \<Rightarrow> pystr" where
  "field_text x = (case x of Name s \<Rightarrow> s | Code n \<Rightarrow> py_str n)"

definition pad_left :: "nat \<Rightarrow> pystr \<Rightarrow> pystr" where
  "pad_left n s = concat (replicate (n - length s) (lit '' '')) @ s"

definition describe_symbol_shndx :: "field \<Rightarrow> pystr" where
  "describe_symbol_shndx x = table_get DESCR_ST_SHNDX x (pad_left 3 (field_text x))"

definition describe_symbol_boundto :: "field \<Rightarrow> pystr" where
  "describe_symbol_boundto x = table_get DESCR_SYMINFO_BOUNDTO x (pad_left 3 (field_text x))"

section \<open>Relocations and dynamic tags\<close>

definition number_get :: "(int \<times> string) list \<Rightarrow> int \<Rightarrow> pystr" where
  "number_get t n = (case map_of t n of None \<Rightarrow> unknown_text | Some s \<Rightarrow> lit s)"

definition reloc_tables :: "(string \<times> (int \<times> string) list) list" where
  "reloc_tables = [(''x86'', DESCR_RELOC_TYPE_i386), (''x64'', DESCR_RELOC_TYPE_x64), (''ARM'', DESCR_RELOC_TYPE_ARM),
     (''AArch64'', DESCR_RELOC_TYPE_AARCH64), (''64-bit PowerPC'', DESCR_RELOC_TYPE_PPC64), (''PowerPC'', DESCR_RELOC_TYPE_PPC),
     (''IBM S/390'', DESCR_RELOC_TYPE_S390X), (''MIPS'', DESCR_RELOC_TYPE_MIPS), (''LoongArch'', DESCR_RELOC_TYPE_LOONGARCH)]"

definition pad_right :: "nat \<Rightarrow> pystr \<Rightarrow> pystr" where
  "pad_right n s = s @ concat (replicate (n - length s) (lit '' ''))"

definition describe_reloc_type :: "int \<Rightarrow> elffile \<Rightarrow> pystr res" where
  "describe_reloc_type x ef = rbind (get_machine_arch ef) (\<lambda>arch.
     case map_of (map (\<lambda>(a, t). (lit a, t)) reloc_tables) arch of
       Some t \<Rightarrow> Ok (number_get t x)
     | None \<Rightarrow> Ok (lit ''unrecognized: '' @ pad_right 7 (hex_text (x AND 0xFFFFFFFF))))"

definition describe_dyn_tag :: "int \<Rightarrow> pystr" where
  "describe_dyn_tag x = number_get DESCR_D_TAG x"

section \<open>Build attributes\<close>

text \<open>An attribute's value: a number, a text, or an attribute, of which only the tag matters.\<close>

datatype attr_val = NumVal int | StrVal pystr | AttrVal field

definition is_true :: "attr_val \<Rightarrow> bool" where
  "is_true v = (case v of NumVal n \<Rightarrow> n \<noteq> 0 | StrVal s \<Rightarrow> s \<noteq> [] | AttrVal _ \<Rightarrow> True)"

text \<open>The entry of a tag: its text, and the texts of its values, which are listed by the tag's number.\<close>

definition tag_entry ::
  "enum \<Rightarrow> (int \<times> string) list option list \<Rightarrow> field \<Rightarrow> (int \<times> string) list option res" where
  "tag_entry e vals tag = rbind (enum_number e tag) (\<lambda>n. py_index vals (n - 1))"

definition tag_text :: "(string \<times> string) list \<Rightarrow> field \<Rightarrow> pystr res" where
  "tag_text t tag = (case tag of Code _ \<Rightarrow> Err KeyError
     | Name s \<Rightarrow> (case name_text t s of None \<Rightarrow> Err KeyError | Some r \<Rightarrow> Ok r))"

definition value_text :: "(int \<times> string) list \<Rightarrow> attr_val \<Rightarrow> pystr res" where
  "value_text d v = (case v of
       NumVal n \<Rightarrow> (case map_of d n of None \<Rightarrow> Err KeyError | Some s \<Rightarrow> Ok (lit s))
     | _ \<Rightarrow> Err KeyError)"

text \<open>\<^verbatim>\<open>'"%s"' % val if val else ''\<close>, of a number or a text.\<close>

definition quoted :: "attr_val \<Rightarrow> pystr" where
  "quoted v = (if \<not> is_true v then [] else [34] @ (case v of NumVal n \<Rightarrow> py_str n | StrVal s \<Rightarrow> s | AttrVal _ \<Rightarrow> []) @ [34])"

definition describe_attr_tag_riscv :: "field \<Rightarrow> attr_val \<Rightarrow> pystr res" where
  "describe_attr_tag_riscv tag val = rbind (tag_entry ENUM_ATTR_TAG_RISCV DESCR_ATTR_VAL_RISCV tag) (\<lambda>d_entry.
     rbind (tag_text DESCR_ATTR_TAG_RISCV tag) (\<lambda>s. case d_entry of
       None \<Rightarrow> Ok (s @ quoted val)
     | Some d \<Rightarrow> rbind (value_text d val) (\<lambda>v. Ok (s @ v))))"

text \<open>
  \<^verbatim>\<open>TAG_ALSO_COMPATIBLE_WITH\<close> is described from the attribute that is its value: either an entry that is \<^verbatim>\<open>None\<close> is
  indexed or a text is formatted as a number, each a \<open>TypeError\<close>; only a tag that is a number is shown.
\<close>

definition describe_attr_tag_arm :: "field \<Rightarrow> attr_val \<Rightarrow> pystr \<Rightarrow> pystr res" where
  "describe_attr_tag_arm tag val extra = rbind (tag_entry ENUM_ATTR_TAG_ARM DESCR_ATTR_VAL_ARM tag) (\<lambda>d_entry. case d_entry of
       None \<Rightarrow>
         rbind (tag_text DESCR_ATTR_TAG_ARM tag) (\<lambda>s.
           if tag = Name (lit ''TAG_COMPATIBILITY'') then
             (case val of NumVal n \<Rightarrow> Ok (s @ lit ''flag = '' @ py_str n @ lit '', vendor = '' @ extra) | _ \<Rightarrow> Err TypeError)
           else if tag = Name (lit ''TAG_ALSO_COMPATIBLE_WITH'') then
             (case val of
                AttrVal (Code n) \<Rightarrow> Ok (s @ lit ''??? ('' @ py_str n @ lit '')'')
              | AttrVal (Name _) \<Rightarrow> Err TypeError
              | _ \<Rightarrow> Err AttributeError)
           else if tag = Name (lit ''TAG_NODEFAULTS'') then Ok (s @ lit ''True'')
           else Ok (s @ quoted val))
     | Some d \<Rightarrow> rbind (tag_text DESCR_ATTR_TAG_ARM tag) (\<lambda>s. rbind (value_text d val) (\<lambda>v. Ok (s @ v))))"

section \<open>GNU properties\<close>

datatype prop_data = IntData int | RawData bytes

record gnu_prop =
  pr_type :: field
  pr_data :: prop_data
  pr_datasz :: int

definition describe_note_gnu_property_bitmap_and :: "(int \<times> string) list \<Rightarrow> pystr \<Rightarrow> prop_data \<Rightarrow> pystr res" where
  "describe_note_gnu_property_bitmap_and values prefix value = (case value of
       RawData _ \<Rightarrow> (if values = [] then Ok (prefix @ lit '': '') else Err TypeError)
     | IntData n \<Rightarrow> Ok (prefix @ lit '': '' @ join_with (lit '', '') (map (\<lambda>(_, d). lit d) (filter (\<lambda>(m, _). n AND m \<noteq> 0) values))))"

definition hex_0x :: "int \<Rightarrow> pystr" where
  "hex_0x n = lit ''0x'' @ hex_text n"

definition bitmap_prop :: "gnu_prop \<Rightarrow> (int \<times> string) list \<Rightarrow> string \<Rightarrow> pystr res" where
  "bitmap_prop p values prefix =
     (if pr_datasz p \<noteq> 4 then Ok (lit '' <corrupt length: '' @ hex_0x (pr_datasz p) @ lit ''>'')
      else describe_note_gnu_property_bitmap_and values (lit prefix) (pr_data p))"

definition numbered_prop :: "string \<Rightarrow> int \<Rightarrow> prop_data \<Rightarrow> pystr res" where
  "numbered_prop kind t d = (case d of
       RawData b \<Rightarrow> Ok (lit (''<'' @ kind @ '' type '') @ hex_0x t @ lit '' data: '' @ bytes2hex b (lit '' '') @ lit '' >'')
     | IntData _ \<Rightarrow> Err TypeError)"

definition describe_gnu_property :: "pystr \<Rightarrow> gnu_prop \<Rightarrow> pystr res" where
  "describe_gnu_property machine p =
     (let t = pr_type p; is_type = (\<lambda>n. t = Name (lit n)) in
      if is_type ''GNU_PROPERTY_STACK_SIZE'' then
        (case pr_data p of IntData n \<Rightarrow> Ok (lit ''stack size: '' @ hex_0x n)
         | RawData _ \<Rightarrow> Ok (lit ''stack size: <corrupt length: '' @ hex_0x (pr_datasz p) @ lit ''>''))
      else if is_type ''GNU_PROPERTY_NO_COPY_ON_PROTECTED'' then
        (if pr_datasz p \<noteq> 0 then Ok (lit '' <corrupt length: '' @ hex_0x (pr_datasz p) @ lit ''>'')
         else Ok (lit ''no copy on protected''))
      else if is_type ''GNU_PROPERTY_X86_FEATURE_1_AND'' then
        bitmap_prop p DESCR_NOTE_GNU_PROPERTY_X86_FEATURE_1_FLAGS ''x86 feature''
      else if is_type ''GNU_PROPERTY_X86_FEATURE_2_USED'' then
        bitmap_prop p DESCR_NOTE_GNU_PROPERTY_X86_FEATURE_2_FLAGS ''x86 feature used''
      else if is_type ''GNU_PROPERTY_X86_ISA_1_NEEDED'' then
        bitmap_prop p DESCR_NOTE_GNU_PROPERTY_X86_ISA_1_FLAGS ''x86 ISA needed''
      else if is_type ''GNU_PROPERTY_X86_ISA_1_USED'' then
        bitmap_prop p DESCR_NOTE_GNU_PROPERTY_X86_ISA_1_FLAGS ''x86 ISA used''
      else if is_type ''GNU_PROPERTY_AARCH64_FEATURE_1_AND'' \<and> machine = lit ''EM_AARCH64'' then
        bitmap_prop p DESCR_NOTE_GNU_PROPERTY_AARCH64_FEATURE_1_AND ''aarch64 feature''
      else if is_type ''GNU_PROPERTY_AARCH64_FEATURE_1_AND'' \<and> machine = lit ''EM_RISCV'' then
        bitmap_prop p DESCR_NOTE_GNU_PROPERTY_RISCV_FEATURE_1_AND ''RISC-V AND feature''
      else (case t of
          Name _ \<Rightarrow> Err TypeError
        | Code n \<Rightarrow>
            if DESCR_NOTE_GNU_PROPERTY_TYPE_LOPROC \<le> n \<and> n \<le> DESCR_NOTE_GNU_PROPERTY_TYPE_HIPROC then
              numbered_prop ''processor-specific'' n (pr_data p)
            else if DESCR_NOTE_GNU_PROPERTY_TYPE_LOUSER \<le> n \<and> n \<le> DESCR_NOTE_GNU_PROPERTY_TYPE_HIUSER then
              numbered_prop ''application-specific'' n (pr_data p)
            else numbered_prop ''unknown'' n (pr_data p)))"

definition describe_note_gnu_properties :: "gnu_prop list \<Rightarrow> pystr \<Rightarrow> pystr res" where
  "describe_note_gnu_properties properties machine =
     rbind (rmap (describe_gnu_property machine) properties) (\<lambda>ds. Ok (join_with (10 # lit ''        '') ds))"

section \<open>What is described wrongly\<close>

text \<open>The texts of RISC-V's values are listed by position, the tags are numbered with gaps.\<close>

lemma riscv_tags_shifted:
  "describe_attr_tag_riscv (Name (lit ''TAG_ATOMIC_ABI'')) (NumVal 1) = Err IndexError"
  "describe_attr_tag_riscv (Name (lit ''TAG_UNALIGNED_ACCESS'')) (NumVal 1) = Err KeyError"
  "describe_attr_tag_riscv (Name (lit ''TAG_PRIV_SPEC_MINOR'')) (NumVal 2) =
     Ok (lit ''Tag_RISCV_priv_spec_minor: A6S: This object uses the strengthened A6 ABI.'')"
  by code_simp+

text \<open>A shared object without a \<^verbatim>\<open>.dynamic\<close> section is not described.\<close>

lemma static_dyn_not_described:
  "get_section_by_name ef (lit ''.dynamic'') s = (Ok None, t) \<Longrightarrow>
     describe_e_type (Name (lit ''ET_DYN'')) (Some ef) s = (Err AttributeError, t)"
  by (simp add: describe_e_type_def mbind_Ok)

lemma p_flags_width: "length (describe_p_flags x) = 3"
  by (simp add: describe_p_flags_def flag_text_def DESCR_P_FLAGS_def lit_def)

end
