(* ===== verification/DwarfDescriptions.thy ===== *)
theory DwarfDescriptions
  imports DwarfInfo DwarfExpr CfiTable
begin

text \<open>
  \<^verbatim>\<open>elftools/dwarf/descriptions.py\<close>: texts for attributes, expressions, registers and call frame information.  The
  global machine architecture is an argument (\<open>arch\<close>, \<open>None\<close> before it is set).  The pretty-printer of lists, for
  values that are lists (\<^verbatim>\<open>DW_FORM_data16\<close>), is the parameter \<open>pformat\<close>.
\<close>

section \<open>Tables\<close>

text \<open>How an attribute of a form is described, and what is said in addition of an attribute by its name.\<close>

datatype attr_kind = Ref | Split_64bit | Hex_addr | Hex | Debool | Value_passthrough | Text_string | Strp | Line_strp | Block
  | Present | Ref_sig8

datatype extra_kind = Mapped "(int \<times> string) list" string | Interpolated "(int \<times> string) list" string string
  | Location_list_extra | Data_member_location_extra | Import_extra

definition const_table :: "(string \<times> int) list \<Rightarrow> (string \<times> string) list \<Rightarrow> (int \<times> string) list" where
  "const_table cs t = map (\<lambda>(n, d). (const cs n, d)) t"

definition ATTR_DESCRIPTION_MAP :: "(string \<times> attr_kind) list" where
  "ATTR_DESCRIPTION_MAP = [
   (''DW_FORM_ref1'', Ref), (''DW_FORM_ref2'', Ref), (''DW_FORM_ref4'', Ref),
   (''DW_FORM_ref8'', Split_64bit), (''DW_FORM_ref_udata'', Ref), (''DW_FORM_ref_addr'', Hex_addr),
   (''DW_FORM_data4'', Hex), (''DW_FORM_data8'', Hex), (''DW_FORM_addr'', Hex),
   (''DW_FORM_sec_offset'', Hex), (''DW_FORM_flag'', Debool), (''DW_FORM_data1'', Value_passthrough),
   (''DW_FORM_data2'', Value_passthrough), (''DW_FORM_sdata'', Value_passthrough),
   (''DW_FORM_udata'', Value_passthrough), (''DW_FORM_string'', Text_string), (''DW_FORM_strp'', Strp),
   (''DW_FORM_line_strp'', Line_strp), (''DW_FORM_block1'', Block), (''DW_FORM_block2'', Block),
   (''DW_FORM_block4'', Block), (''DW_FORM_block'', Block), (''DW_FORM_flag_present'', Present),
   (''DW_FORM_exprloc'', Block), (''DW_FORM_ref_sig8'', Ref_sig8)]"

definition FORM_CLASS :: "(string \<times> string option) list" where
  "FORM_CLASS = [
   (''DW_FORM_addr'', Some ''address''), (''DW_FORM_block2'', Some ''block''),
   (''DW_FORM_block4'', Some ''block''), (''DW_FORM_data2'', Some ''constant''),
   (''DW_FORM_data4'', Some ''constant''), (''DW_FORM_data8'', Some ''constant''),
   (''DW_FORM_string'', Some ''string''), (''DW_FORM_block'', Some ''block''),
   (''DW_FORM_block1'', Some ''block''), (''DW_FORM_data1'', Some ''constant''),
   (''DW_FORM_flag'', Some ''flag''), (''DW_FORM_sdata'', Some ''constant''),
   (''DW_FORM_strp'', Some ''string''), (''DW_FORM_udata'', Some ''constant''),
   (''DW_FORM_ref_addr'', Some ''reference''), (''DW_FORM_ref1'', Some ''reference''),
   (''DW_FORM_ref2'', Some ''reference''), (''DW_FORM_ref4'', Some ''reference''),
   (''DW_FORM_ref8'', Some ''reference''), (''DW_FORM_ref_udata'', Some ''reference''),
   (''DW_FORM_indirect'', None), (''DW_FORM_sec_offset'', None), (''DW_FORM_exprloc'', Some ''exprloc''),
   (''DW_FORM_flag_present'', Some ''flag''), (''DW_FORM_ref_sig8'', Some ''reference'')]"

definition DESCR_DW_INL :: "(string \<times> string) list" where
  "DESCR_DW_INL = [
   (''DW_INL_not_inlined'', ''(not inlined)''), (''DW_INL_inlined'', ''(inlined)''),
   (''DW_INL_declared_not_inlined'', ''(declared as inline but ignored)''),
   (''DW_INL_declared_inlined'', ''(declared as inline and inlined)'')]"

definition DESCR_DW_LANG :: "(string \<times> string) list" where
  "DESCR_DW_LANG = [
   (''DW_LANG_C89'', ''(ANSI C)''), (''DW_LANG_C'', ''(non-ANSI C)''), (''DW_LANG_Ada83'', ''(Ada)''),
   (''DW_LANG_C_plus_plus'', ''(C++)''), (''DW_LANG_Cobol74'', ''(Cobol 74)''),
   (''DW_LANG_Cobol85'', ''(Cobol 85)''), (''DW_LANG_Fortran77'', ''(FORTRAN 77)''),
   (''DW_LANG_Fortran90'', ''(Fortran 90)''), (''DW_LANG_Pascal83'', ''(ANSI Pascal)''),
   (''DW_LANG_Modula2'', ''(Modula 2)''), (''DW_LANG_Java'', ''(Java)''), (''DW_LANG_C99'', ''(ANSI C99)''),
   (''DW_LANG_Ada95'', ''(ADA 95)''), (''DW_LANG_Fortran95'', ''(Fortran 95)''),
   (''DW_LANG_PLI'', ''(PLI)''), (''DW_LANG_ObjC'', ''(Objective C)''),
   (''DW_LANG_ObjC_plus_plus'', ''(Objective C++)''), (''DW_LANG_UPC'', ''(Unified Parallel C)''),
   (''DW_LANG_D'', ''(D)''), (''DW_LANG_Python'', ''(Python)''), (''DW_LANG_OpenCL'', ''(OpenCL)''),
   (''DW_LANG_Go'', ''(Go)''), (''DW_LANG_Modula3'', ''(Modula 3)''), (''DW_LANG_Haskell'', ''(Haskell)''),
   (''DW_LANG_C_plus_plus_03'', ''(C++03)''), (''DW_LANG_C_plus_plus_11'', ''(C++11)''),
   (''DW_LANG_OCaml'', ''(OCaml)''), (''DW_LANG_Rust'', ''(Rust)''), (''DW_LANG_C11'', ''(C11)''),
   (''DW_LANG_Swift'', ''(Swift)''), (''DW_LANG_Julia'', ''(Julia)''), (''DW_LANG_Dylan'', ''(Dylan)''),
   (''DW_LANG_C_plus_plus_14'', ''(C++14)''), (''DW_LANG_Fortran03'', ''(Fortran 03)''),
   (''DW_LANG_Fortran08'', ''(Fortran 08)''), (''DW_LANG_RenderScript'', ''(RenderScript)''),
   (''DW_LANG_BLISS'', ''(Bliss)''), (''DW_LANG_Mips_Assembler'', ''(MIPS assembler)''),
   (''DW_LANG_HP_Bliss'', ''(HP Bliss)''), (''DW_LANG_HP_Basic91'', ''(HP Basic 91)''),
   (''DW_LANG_HP_Pascal91'', ''(HP Pascal 91)''), (''DW_LANG_HP_IMacro'', ''(HP IMacro)''),
   (''DW_LANG_HP_Assembler'', ''(HP assembler)'')]"

definition DESCR_DW_ATE :: "(string \<times> string) list" where
  "DESCR_DW_ATE = [
   (''DW_ATE_void'', ''(void)''), (''DW_ATE_address'', ''(machine address)''),
   (''DW_ATE_boolean'', ''(boolean)''), (''DW_ATE_complex_float'', ''(complex float)''),
   (''DW_ATE_float'', ''(float)''), (''DW_ATE_signed'', ''(signed)''),
   (''DW_ATE_signed_char'', ''(signed char)''), (''DW_ATE_unsigned'', ''(unsigned)''),
   (''DW_ATE_unsigned_char'', ''(unsigned char)''), (''DW_ATE_imaginary_float'', ''(imaginary float)''),
   (''DW_ATE_decimal_float'', ''(decimal float)''), (''DW_ATE_packed_decimal'', ''(packed_decimal)''),
   (''DW_ATE_numeric_string'', ''(numeric_string)''), (''DW_ATE_edited'', ''(edited)''),
   (''DW_ATE_signed_fixed'', ''(signed_fixed)''), (''DW_ATE_unsigned_fixed'', ''(unsigned_fixed)''),
   (''DW_ATE_UTF'', ''(unicode string)''), (''DW_ATE_HP_float80'', ''(HP_float80)''),
   (''DW_ATE_HP_complex_float80'', ''(HP_complex_float80)''), (''DW_ATE_HP_float128'', ''(HP_float128)''),
   (''DW_ATE_HP_complex_float128'', ''(HP_complex_float128)''),
   (''DW_ATE_HP_floathpintel'', ''(HP_floathpintel)''),
   (''DW_ATE_HP_imaginary_float80'', ''(HP_imaginary_float80)''),
   (''DW_ATE_HP_imaginary_float128'', ''(HP_imaginary_float128)'')]"

definition DESCR_DW_ACCESS :: "(string \<times> string) list" where
  "DESCR_DW_ACCESS = [
   (''DW_ACCESS_public'', ''(public)''), (''DW_ACCESS_protected'', ''(protected)''),
   (''DW_ACCESS_private'', ''(private)'')]"

definition DESCR_DW_VIS :: "(string \<times> string) list" where
  "DESCR_DW_VIS = [
   (''DW_VIS_local'', ''(local)''), (''DW_VIS_exported'', ''(exported)''),
   (''DW_VIS_qualified'', ''(qualified)'')]"

definition DESCR_DW_VIRTUALITY :: "(string \<times> string) list" where
  "DESCR_DW_VIRTUALITY = [
   (''DW_VIRTUALITY_none'', ''(none)''), (''DW_VIRTUALITY_virtual'', ''(virtual)''),
   (''DW_VIRTUALITY_pure_virtual'', ''(pure virtual)'')]"

definition DESCR_DW_ID_CASE :: "(string \<times> string) list" where
  "DESCR_DW_ID_CASE = [
   (''DW_ID_case_sensitive'', ''(case_sensitive)''), (''DW_ID_up_case'', ''(up_case)''),
   (''DW_ID_down_case'', ''(down_case)''), (''DW_ID_case_insensitive'', ''(case_insensitive)'')]"

definition DESCR_DW_CC :: "(string \<times> string) list" where
  "DESCR_DW_CC = [
   (''DW_CC_normal'', ''(normal)''), (''DW_CC_program'', ''(program)''), (''DW_CC_nocall'', ''(nocall)''),
   (''DW_CC_pass_by_reference'', ''(pass by ref)''), (''DW_CC_pass_by_valuee'', ''(pass by value)'')]"

definition DESCR_DW_ORD :: "(string \<times> string) list" where
  "DESCR_DW_ORD = [
   (''DW_ORD_row_major'', ''(row major)''), (''DW_ORD_col_major'', ''(column major)'')]"

definition DESCR_CFI_REGISTER_RULE_TYPE :: "(string \<times> string) list" where
  "DESCR_CFI_REGISTER_RULE_TYPE = [
   (''UNDEFINED'', ''u''), (''SAME_VALUE'', ''s''), (''OFFSET'', ''c''), (''VAL_OFFSET'', ''v''),
   (''REGISTER'', ''''), (''EXPRESSION'', ''exp''), (''VAL_EXPRESSION'', ''vexp''), (''ARCHITECTURAL'', ''a'')]"

definition EXTRA_INFO_DESCRIPTION_MAP :: "(string \<times> extra_kind) list" where
  "EXTRA_INFO_DESCRIPTION_MAP = [
   (''DW_AT_inline'', Interpolated (const_table DW_INL_constants DESCR_DW_INL) ''(Unknown inline attribute value: '' ''''),
   (''DW_AT_language'', Interpolated (const_table DW_LANG_constants DESCR_DW_LANG) ''(Unknown: '' '')''),
   (''DW_AT_encoding'', Mapped (const_table DW_ATE_constants DESCR_DW_ATE) ''(unknown type)''),
   (''DW_AT_accessibility'', Mapped (const_table DW_ACCESS_constants DESCR_DW_ACCESS) ''(unknown accessibility)''),
   (''DW_AT_visibility'', Mapped (const_table DW_VIS_constants DESCR_DW_VIS) ''(unknown visibility)''),
   (''DW_AT_virtuality'', Mapped (const_table DW_VIRTUALITY_constants DESCR_DW_VIRTUALITY) ''(unknown virtuality)''),
   (''DW_AT_identifier_case'', Mapped (const_table DW_ID_constants DESCR_DW_ID_CASE) ''(unknown case)''),
   (''DW_AT_calling_convention'', Mapped (const_table DW_CC_constants DESCR_DW_CC) ''(unknown convention)''),
   (''DW_AT_ordering'', Mapped (const_table DW_ORD_constants DESCR_DW_ORD) ''(undefined)''),
   (''DW_AT_frame_base'', Location_list_extra), (''DW_AT_location'', Location_list_extra),
   (''DW_AT_string_length'', Location_list_extra), (''DW_AT_return_addr'', Location_list_extra),
   (''DW_AT_data_member_location'', Data_member_location_extra),
   (''DW_AT_vtable_elem_location'', Location_list_extra), (''DW_AT_segment'', Location_list_extra),
   (''DW_AT_static_link'', Location_list_extra), (''DW_AT_use_location'', Location_list_extra),
   (''DW_AT_allocated'', Location_list_extra), (''DW_AT_associated'', Location_list_extra),
   (''DW_AT_data_location'', Location_list_extra), (''DW_AT_stride'', Location_list_extra),
   (''DW_AT_call_value'', Location_list_extra), (''DW_AT_import'', Import_extra),
   (''DW_AT_GNU_call_site_value'', Location_list_extra),
   (''DW_AT_GNU_call_site_data_value'', Location_list_extra),
   (''DW_AT_GNU_call_site_target'', Location_list_extra),
   (''DW_AT_GNU_call_site_target_clobbered'', Location_list_extra)]"

definition REG_NAMES_x86 :: "string list" where
  "REG_NAMES_x86 = [
   ''eax'', ''ecx'', ''edx'', ''ebx'', ''esp'', ''ebp'', ''esi'', ''edi'', ''eip'', ''eflags'', ''<none>'',
   ''st0'', ''st1'', ''st2'', ''st3'', ''st4'', ''st5'', ''st6'', ''st7'', ''<none>'', ''<none>'', ''xmm0'',
   ''xmm1'', ''xmm2'', ''xmm3'', ''xmm4'', ''xmm5'', ''xmm6'', ''xmm7'', ''mm0'', ''mm1'', ''mm2'', ''mm3'',
   ''mm4'', ''mm5'', ''mm6'', ''mm7'', ''fcw'', ''fsw'', ''mxcsr'', ''es'', ''cs'', ''ss'', ''ds'', ''fs'',
   ''gs'', ''<none>'', ''<none>'', ''tr'', ''ldtr'']"

definition REG_NAMES_x64 :: "string list" where
  "REG_NAMES_x64 = [
   ''rax'', ''rdx'', ''rcx'', ''rbx'', ''rsi'', ''rdi'', ''rbp'', ''rsp'', ''r8'', ''r9'', ''r10'', ''r11'',
   ''r12'', ''r13'', ''r14'', ''r15'', ''rip'', ''xmm0'', ''xmm1'', ''xmm2'', ''xmm3'', ''xmm4'', ''xmm5'',
   ''xmm6'', ''xmm7'', ''xmm8'', ''xmm9'', ''xmm10'', ''xmm11'', ''xmm12'', ''xmm13'', ''xmm14'', ''xmm15'',
   ''st0'', ''st1'', ''st2'', ''st3'', ''st4'', ''st5'', ''st6'', ''st7'', ''mm0'', ''mm1'', ''mm2'',
   ''mm3'', ''mm4'', ''mm5'', ''mm6'', ''mm7'', ''rflags'', ''es'', ''cs'', ''ss'', ''ds'', ''fs'', ''gs'',
   ''<none>'', ''<none>'', ''fs.base'', ''gs.base'', ''<none>'', ''<none>'', ''tr'', ''ldtr'', ''mxcsr'',
   ''fcw'', ''fsw'']"

definition REG_NAMES_AArch64 :: "string list" where
  "REG_NAMES_AArch64 = [
   ''x0'', ''x1'', ''x2'', ''x3'', ''x4'', ''x5'', ''x6'', ''x7'', ''x8'', ''x9'', ''x10'', ''x11'', ''x12'',
   ''x13'', ''x14'', ''x15'', ''x16'', ''x17'', ''x18'', ''x19'', ''x20'', ''x21'', ''x22'', ''x23'',
   ''x24'', ''x25'', ''x26'', ''x27'', ''x28'', ''x29'', ''x30'', ''sp'', ''<none>'', ''ELR_mode'',
   ''RA_SIGN_STATE'', ''<none>'', ''<none>'', ''<none>'', ''<none>'', ''<none>'', ''<none>'', ''<none>'',
   ''<none>'', ''<none>'', ''<none>'', ''<none>'', ''VG'', ''FFR'', ''p0'', ''p1'', ''p2'', ''p3'', ''p4'',
   ''p5'', ''p6'', ''p7'', ''p8'', ''p9'', ''p10'', ''p11'', ''p12'', ''p13'', ''p14'', ''p15'', ''v0'',
   ''v1'', ''v2'', ''v3'', ''v4'', ''v5'', ''v6'', ''v7'', ''v8'', ''v9'', ''v10'', ''v11'', ''v12'',
   ''v13'', ''v14'', ''v15'', ''v16'', ''v17'', ''v18'', ''v19'', ''v20'', ''v21'', ''v22'', ''v23'',
   ''v24'', ''v25'', ''v26'', ''v27'', ''v28'', ''v29'', ''v30'', ''v31'', ''z0'', ''z1'', ''z2'', ''z3'',
   ''z4'', ''z5'', ''z6'', ''z7'', ''z8'', ''z9'', ''z10'', ''z11'', ''z12'', ''z13'', ''z14'', ''z15'',
   ''z16'', ''z17'', ''z18'', ''z19'', ''z20'', ''z21'', ''z22'', ''z23'', ''z24'', ''z25'', ''z26'',
   ''z27'', ''z28'', ''z29'', ''z30'', ''z31'']"

section \<open>Texts of numbers and values\<close>

text \<open>\<^verbatim>\<open>'%+d' % n\<close> and \<^verbatim>\<open>'%08x' % n\<close>.\<close>

definition signed_text :: "int \<Rightarrow> pystr" where
  "signed_text n = (if n < 0 then [] else lit ''+'') @ py_str n"

definition hex_8 :: "int \<Rightarrow> pystr" where
  "hex_8 n = (let s = hex_text \<bar>n\<bar>; sign = (if n < 0 then lit ''-'' else []) in
     sign @ concat (replicate (8 - length sign - length s) (lit ''0'')) @ s)"

text \<open>\<^verbatim>\<open>repr(b)\<close> of a byte string: in double quotes if that saves escaping.\<close>

definition byte_repr :: "int \<Rightarrow> int \<Rightarrow> pystr" where
  "byte_repr quote c =
     (if c = 92 \<or> c = quote then [92, c]
      else if c = 9 then [92, 116] else if c = 10 then [92, 110] else if c = 13 then [92, 114]
      else if 32 \<le> c \<and> c < 127 then [c]
      else [92, 120, hex_digit (c div 16), hex_digit (c mod 16)])"

definition bytes_repr :: "bytes \<Rightarrow> pystr" where
  "bytes_repr b = (let cs = map uint b; quote = (if 39 \<in> set cs \<and> 34 \<notin> set cs then 34 else 39) in
     lit ''b'' @ [quote] @ concat (map (byte_repr quote) cs) @ [quote])"

definition str_of_val :: "(val \<Rightarrow> pystr) \<Rightarrow> val \<Rightarrow> pystr" where
  "str_of_val pformat v = (case v of
       VNone \<Rightarrow> lit ''None''
     | VBool b \<Rightarrow> lit (if b then ''True'' else ''False'')
     | VInt n \<Rightarrow> py_str n
     | VBytes b \<Rightarrow> bytes_repr b
     | VStr s \<Rightarrow> s
     | _ \<Rightarrow> pformat v)"

definition format_hex :: "int \<Rightarrow> pystr" where
  "format_hex n = (if n \<noteq> 0 then lit ''0x'' @ hex_text n else lit ''0'')"

fun comma_join :: "pystr \<Rightarrow> pystr list \<Rightarrow> pystr" where
  "comma_join sep [] = []"
| "comma_join sep [x] = x"
| "comma_join sep (x # xs) = x @ sep @ comma_join sep xs"

section \<open>Registers\<close>

definition describe_reg_name :: "pystr option \<Rightarrow> pystr option \<Rightarrow> int \<Rightarrow> bool \<Rightarrow> pystr option res" where
  "describe_reg_name arch machine_arch regnum dflt =
     (let m = (case machine_arch of None \<Rightarrow> arch | Some _ \<Rightarrow> machine_arch) in
      if m = Some (lit ''x86'') then rbind (py_index REG_NAMES_x86 regnum) (\<lambda>s. Ok (Some (lit s)))
      else if m = Some (lit ''x64'') then rbind (py_index REG_NAMES_x64 regnum) (\<lambda>s. Ok (Some (lit s)))
      else if m = Some (lit ''AArch64'') then rbind (py_index REG_NAMES_AArch64 regnum) (\<lambda>s. Ok (Some (lit s)))
      else if dflt then Ok (Some (lit ''r'' @ py_str regnum))
      else Ok None)"

text \<open>With the default there is always a text.\<close>

definition reg_text :: "pystr option \<Rightarrow> int \<Rightarrow> pystr res" where
  "reg_text arch regnum = rbind (describe_reg_name arch None regnum True) (\<lambda>r. Ok (case r of Some s \<Rightarrow> s | None \<Rightarrow> lit ''None''))"

definition full_reg_name :: "pystr option \<Rightarrow> int \<Rightarrow> pystr res" where
  "full_reg_name arch regnum = rbind (describe_reg_name arch arch regnum False) (\<lambda>r. Ok (case r of
       Some name \<Rightarrow> lit ''r'' @ py_str regnum @ lit '' ('' @ name @ lit '')''
     | None \<Rightarrow> lit ''r'' @ py_str regnum))"

definition describe_form_class :: "val \<Rightarrow> string option res" where
  "describe_form_class form = (case form of
       VStr s \<Rightarrow> (case map_of (map (\<lambda>(n, c). (lit n, c)) FORM_CLASS) s of None \<Rightarrow> Err KeyError | Some c \<Rightarrow> Ok c)
     | VList _ \<Rightarrow> Err TypeError | VCont _ \<Rightarrow> Err TypeError | _ \<Rightarrow> Err KeyError)"

section \<open>Expressions\<close>

definition ops_with_decimal_arg :: "string list" where
  "ops_with_decimal_arg = [''DW_OP_const1u'', ''DW_OP_const1s'', ''DW_OP_const2u'', ''DW_OP_const2s'', ''DW_OP_const4u'',
     ''DW_OP_const4s'', ''DW_OP_const8u'', ''DW_OP_const8s'', ''DW_OP_constu'', ''DW_OP_consts'', ''DW_OP_pick'',
     ''DW_OP_plus_uconst'', ''DW_OP_bra'', ''DW_OP_skip'', ''DW_OP_fbreg'', ''DW_OP_piece'', ''DW_OP_deref_size'',
     ''DW_OP_xderef_size'', ''DW_OP_regx''] @ map (\<lambda>n. ''DW_OP_breg'' @ decimal n) [0..<32]"

definition ops_with_hex_arg :: "string list" where
  "ops_with_hex_arg = [''DW_OP_addr'', ''DW_OP_call2'', ''DW_OP_call4'', ''DW_OP_call_ref'']"

definition named :: "pystr \<Rightarrow> string list \<Rightarrow> bool" where
  "named name ns \<longleftrightarrow> name \<in> set (map lit ns)"

definition arg_num :: "expr_arg list \<Rightarrow> int \<Rightarrow> int res" where
  "arg_num args i = rbind (py_index args i) (\<lambda>a. case a of ArgVal v \<Rightarrow> as_int v | _ \<Rightarrow> Err TypeError)"

definition arg_blob :: "expr_arg list \<Rightarrow> int \<Rightarrow> int list res" where
  "arg_blob args i = rbind (py_index args i) (\<lambda>a. case a of ArgBlob vs \<Rightarrow> rmap as_int vs | _ \<Rightarrow> Err TypeError)"

text \<open>\<open>_dump_to_string\<close> of an operation whose nested expression is described by \<open>nested\<close>.\<close>

definition dump_plain :: "pystr option \<Rightarrow> pystr \<Rightarrow> pystr res" where
  "dump_plain arch name =
     (if starts_with (lit ''DW_OP_reg'') name then
        rbind (py_int_of_digits (drop 9 name)) (\<lambda>n. rbind (reg_text arch n) (\<lambda>r. Ok (name @ lit '' ('' @ r @ lit '')'')))
      else Ok name)"

definition dump_decimal :: "pystr option \<Rightarrow> pystr \<Rightarrow> expr_arg list \<Rightarrow> pystr res" where
  "dump_decimal arch name args = rbind (arg_num args 0) (\<lambda>a.
     if starts_with (lit ''DW_OP_breg'') name then
       rbind (py_int_of_digits (drop 10 name)) (\<lambda>n. rbind (reg_text arch n) (\<lambda>r.
         Ok (name @ lit '' ('' @ r @ lit ''): '' @ py_str a)))
     else if ends_with (lit ''regx'') name then
       rbind (reg_text arch a) (\<lambda>r. Ok (name @ lit '': '' @ py_str a @ lit '' ('' @ r @ lit '')''))
     else Ok (name @ lit '': '' @ py_str a))"

definition dump_with_args :: "pystr option \<Rightarrow> int \<Rightarrow> pystr \<Rightarrow> expr_arg list \<Rightarrow> pystr list res \<Rightarrow> pystr res" where
  "dump_with_args arch cu_offset name args nested =
     (if named name ops_with_decimal_arg then dump_decimal arch name args
      else if named name ops_with_hex_arg then rbind (arg_num args 0) (\<lambda>a. Ok (name @ lit '': '' @ hex_text a))
      else if named name [''DW_OP_bregx''] then
        rbind (arg_num args 0) (\<lambda>a. rbind (arg_num args 1) (\<lambda>b. Ok (name @ lit '': '' @ py_str a @ lit '' '' @ py_str b)))
      else if named name [''DW_OP_GNU_entry_value'', ''DW_OP_entry_value''] then
        rbind nested (\<lambda>ss. Ok (name @ lit '': ('' @ comma_join (lit '','') ss @ lit '')''))
      else if named name [''DW_OP_implicit_value''] then
        rbind (arg_blob args 0) (\<lambda>b. Ok (name @ lit '' '' @ py_str (int (length b)) @ lit '' byte block: '' @
          concat (map (\<lambda>x. hex_text x @ lit '' '') b)))
      else if named name [''DW_OP_GNU_parameter_ref''] then
        rbind (arg_num args 0) (\<lambda>a. Ok (name @ lit '': <0x'' @ hex_text (a + cu_offset) @ lit ''>''))
      else if named name [''DW_OP_GNU_implicit_pointer'', ''DW_OP_implicit_pointer''] then
        rbind (arg_num args 0) (\<lambda>a. rbind (arg_num args 1) (\<lambda>b. Ok (name @ lit '': <0x'' @ hex_text a @ lit ''> '' @ py_str b)))
      else if named name [''DW_OP_GNU_convert'', ''DW_OP_convert''] then
        rbind (arg_num args 0) (\<lambda>a. Ok (name @ lit '' <0x'' @ hex_text (a + cu_offset) @ lit ''>''))
      else if named name [''DW_OP_GNU_deref_type'', ''DW_OP_deref_type''] then
        rbind (arg_num args 0) (\<lambda>a. rbind (arg_num args 1) (\<lambda>b.
          Ok (name @ lit '': '' @ py_str a @ lit '' <0x'' @ hex_text (b + cu_offset) @ lit ''>'')))
      else if named name [''DW_OP_GNU_const_type'', ''DW_OP_const_type''] then
        rbind (arg_num args 0) (\<lambda>a. rbind (arg_blob args 1) (\<lambda>b.
          Ok (name @ lit '': <0x'' @ hex_text (a + cu_offset) @ lit ''>  '' @ py_str (int (length b)) @ lit '' byte block: '' @
            comma_join (lit '' '') (map hex_text b) @ lit '' '')))
      else if named name [''DW_OP_GNU_regval_type'', ''DW_OP_regval_type''] then
        rbind (arg_num args 0) (\<lambda>a. rbind (reg_text arch a) (\<lambda>r. rbind (arg_num args 1) (\<lambda>b.
          Ok (name @ lit '': '' @ py_str a @ lit '' ('' @ r @ lit '') <0x'' @ hex_text (b + cu_offset) @ lit ''>''))))
      else if named name [''DW_OP_bit_piece''] then
        rbind (arg_num args 0) (\<lambda>a. rbind (arg_num args 1) (\<lambda>b.
          Ok (name @ lit '': size: '' @ py_str a @ lit '' offset: '' @ py_str b)))
      else Ok (lit ''<unknown '' @ name @ lit ''>''))"

fun dump_to_string :: "pystr option \<Rightarrow> int \<Rightarrow> expr_op \<Rightarrow> pystr res"
  and dump_ops :: "pystr option \<Rightarrow> int \<Rightarrow> expr_op list \<Rightarrow> pystr list res" where
  "dump_to_string arch cu_offset (ExprOp code name [] off) = dump_plain arch name"
| "dump_to_string arch cu_offset (ExprOp code name (a # as) off) = dump_with_args arch cu_offset name (a # as)
     (case a of ArgExpr ops \<Rightarrow> dump_ops arch cu_offset ops | _ \<Rightarrow> Err TypeError)"
| "dump_ops arch cu_offset [] = Ok []"
| "dump_ops arch cu_offset (op # ops) = rbind (dump_to_string arch cu_offset op) (\<lambda>s. rbind (dump_ops arch cu_offset ops) (\<lambda>ss. Ok (s # ss)))"

definition dump_expr :: "pystr option \<Rightarrow> dwarf_structs \<Rightarrow> int list \<Rightarrow> int option \<Rightarrow> pystr res" where
  "dump_expr arch ds expr cu_offset = rbind (parse_expr ds expr) (\<lambda>ops.
     rbind (dump_ops arch (case cu_offset of None \<Rightarrow> 0 | Some n \<Rightarrow> n) ops) (\<lambda>ss. Ok (comma_join (lit ''; '') ss)))"

definition describe_DWARF_expr :: "pystr option \<Rightarrow> val \<Rightarrow> dwarf_structs \<Rightarrow> int option \<Rightarrow> pystr res" where
  "describe_DWARF_expr arch expr ds cu_offset = rbind (rbind (viter expr) (rmap as_int)) (\<lambda>e.
     rbind (dump_expr arch ds e cu_offset) (\<lambda>s. Ok (lit ''('' @ s @ lit '')'')))"

section \<open>Call frame information\<close>

definition describe_CFI_register_rule :: "pystr option \<Rightarrow> reg_rule \<Rightarrow> pystr res" where
  "describe_CFI_register_rule arch rule = (case rr_type rule of
       UNDEFINED \<Rightarrow> Ok (lit ''u'') | SAME_VALUE \<Rightarrow> Ok (lit ''s'')
     | OFFSET \<Rightarrow> rbind (as_int (rr_arg rule)) (\<lambda>n. Ok (lit ''c'' @ signed_text n))
     | VAL_OFFSET \<Rightarrow> rbind (as_int (rr_arg rule)) (\<lambda>n. Ok (lit ''v'' @ signed_text n))
     | REGISTER \<Rightarrow> rbind (as_int (rr_arg rule)) (reg_text arch)
     | EXPRESSION \<Rightarrow> Ok (lit ''exp'') | VAL_EXPRESSION \<Rightarrow> Ok (lit ''vexp'') | ARCHITECTURAL \<Rightarrow> Ok (lit ''a''))"

definition describe_CFI_CFA_rule :: "pystr option \<Rightarrow> cfa_rule \<Rightarrow> pystr res" where
  "describe_CFI_CFA_rule arch rule =
     (if truthy (cfa_expr rule) then Ok (lit ''exp'')
      else rbind (rbind (as_int (cfa_reg rule)) (reg_text arch)) (\<lambda>r.
        rbind (as_int (cfa_offset rule)) (\<lambda>n. Ok (r @ signed_text n))))"

definition instr_num :: "cfi_instr \<Rightarrow> int \<Rightarrow> int res" where
  "instr_num i n = rbind (py_index (ci_args i) n) as_int"

definition instr_expr :: "pystr option \<Rightarrow> dwarf_structs \<Rightarrow> cfi_instr \<Rightarrow> int \<Rightarrow> pystr res" where
  "instr_expr arch ds i n = rbind (py_index (ci_args i) n) (\<lambda>v. rbind (rbind (viter v) (rmap as_int)) (\<lambda>e. dump_expr arch ds e None))"

definition is_FDE :: "cfi_entry \<Rightarrow> bool" where
  "is_FDE e = (case e of FDE _ _ _ _ _ _ _ \<Rightarrow> True | _ \<Rightarrow> False)"

text \<open>A line of text is \<open>line\<close>: two blanks, the name, what follows, a line feed.  The location is only there in a frame description.\<close>

definition line :: "string \<Rightarrow> pystr \<Rightarrow> pystr" where
  "line name rest = lit (''  '' @ name) @ rest @ [10]"

text \<open>The offset of \<^verbatim>\<open>DW_CFA_def_cfa_offset_sf\<close> is scaled with the common entry that the entry points to, which a common entry does not.\<close>

definition describe_instr :: "pystr option \<Rightarrow> cfi_entry \<Rightarrow> val \<Rightarrow> cfi_instr \<Rightarrow> int option \<Rightarrow> (pystr \<times> int option) res" where
  "describe_instr arch entry cie_header instr pc = rbind (instruction_name (ci_opcode instr)) (\<lambda>name.
     let arg = instr_num instr; reg = (\<lambda>n. rbind (arg n) (full_reg_name arch));
         scaled = (\<lambda>n. rbind (arg n) (\<lambda>a. rbind (get_int cie_header ''data_alignment_factor'') (\<lambda>f. Ok (a * f))));
         says = (\<lambda>r. rbind r (\<lambda>s. Ok (line name s, pc))) in
     if name \<in> {''DW_CFA_offset'', ''DW_CFA_offset_extended'', ''DW_CFA_offset_extended_sf'', ''DW_CFA_val_offset'', ''DW_CFA_val_offset_sf''} then
       says (rbind (reg 0) (\<lambda>r. rbind (scaled 1) (\<lambda>n. Ok (lit '': '' @ r @ lit '' at cfa'' @ signed_text n))))
     else if name \<in> {''DW_CFA_restore'', ''DW_CFA_restore_extended'', ''DW_CFA_undefined'', ''DW_CFA_same_value'', ''DW_CFA_def_cfa_register''} then
       says (rbind (reg 0) (\<lambda>r. Ok (lit '': '' @ r)))
     else if name = ''DW_CFA_register'' then
       rbind (reg 0) (\<lambda>r. rbind (reg 1) (\<lambda>q. Ok (lit (''  '' @ name @ '': '') @ r @ lit '' in '' @ q, pc)))
     else if name = ''DW_CFA_set_loc'' then
       rbind (arg 0) (\<lambda>n. Ok (line name (lit '': '' @ hex_8 n), Some n))
     else if name \<in> {''DW_CFA_advance_loc1'', ''DW_CFA_advance_loc2'', ''DW_CFA_advance_loc4'', ''DW_CFA_advance_loc''} then
       (if \<not> is_FDE entry then Err DWARFError
        else rbind (arg 0) (\<lambda>n. rbind (get_int cie_header ''code_alignment_factor'') (\<lambda>f. case pc of
          None \<Rightarrow> Err UnboundLocalError
        | Some pc \<Rightarrow> Ok (line name (lit '': '' @ py_str (n * f) @ lit '' to '' @ hex_8 (n * f + pc)), Some (pc + n * f)))))
     else if name \<in> {''DW_CFA_remember_state'', ''DW_CFA_restore_state'', ''DW_CFA_nop'', ''DW_CFA_AARCH64_negate_ra_state''} then
       says (Ok [])
     else if name = ''DW_CFA_def_cfa'' then
       says (rbind (reg 0) (\<lambda>r. rbind (arg 1) (\<lambda>n. Ok (lit '': '' @ r @ lit '' ofs '' @ py_str n))))
     else if name = ''DW_CFA_def_cfa_sf'' then
       says (rbind (reg 0) (\<lambda>r. rbind (scaled 1) (\<lambda>n. Ok (lit '': '' @ r @ lit '' ofs '' @ py_str n))))
     else if name \<in> {''DW_CFA_def_cfa_offset'', ''DW_CFA_GNU_args_size''} then
       says (rbind (arg 0) (\<lambda>n. Ok (lit '': '' @ py_str n)))
     else if name = ''DW_CFA_def_cfa_offset_sf'' then
       (if is_FDE entry then says (rbind (scaled 0) (\<lambda>n. Ok (lit '': '' @ py_str n))) else rbind (arg 0) (\<lambda>_. Err TypeError))
     else if name = ''DW_CFA_def_cfa_expression'' then
       says (rbind (instr_expr arch (en_structs entry) instr 0) (\<lambda>s. Ok (lit '' ('' @ s @ lit '')'')))
     else if name = ''DW_CFA_expression'' then
       says (rbind (reg 0) (\<lambda>r. rbind (instr_expr arch (en_structs entry) instr 1) (\<lambda>s. Ok (lit '': '' @ r @ lit '' ('' @ s @ lit '')''))))
     else says (Ok (lit '': <??>'')))"

primrec describe_instrs :: "pystr option \<Rightarrow> cfi_entry \<Rightarrow> val \<Rightarrow> cfi_instr list \<Rightarrow> int option \<Rightarrow> pystr res" where
  "describe_instrs arch entry h [] pc = Ok []"
| "describe_instrs arch entry h (i # is) pc = rbind (describe_instr arch entry h i pc) (\<lambda>(s, pc).
     rbind (describe_instrs arch entry h is pc) (\<lambda>ss. Ok (s @ ss)))"

definition describe_CFI_instructions :: "pystr option \<Rightarrow> cfi_entry \<Rightarrow> pystr res" where
  "describe_CFI_instructions arch entry = (case entry of
       CIE h _ is _ _ _ \<Rightarrow> describe_instrs arch entry h is None
     | FDE h _ is _ _ cie _ \<Rightarrow> rbind (get_int h ''initial_location'') (\<lambda>pc. describe_instrs arch entry (en_header cie) is (Some pc))
     | ZERO _ \<Rightarrow> Err AttributeError)"

section \<open>Attributes\<close>

definition attr_kind_of :: "val \<Rightarrow> attr_kind" where
  "attr_kind_of form = (case form of
       VStr s \<Rightarrow> (case map_of (map (\<lambda>(n, k). (lit n, k)) ATTR_DESCRIPTION_MAP) s of Some k \<Rightarrow> k | None \<Rightarrow> Value_passthrough)
     | _ \<Rightarrow> Value_passthrough)"

definition bytes_text :: "val \<Rightarrow> pystr res" where
  "bytes_text v = (case v of VBytes b \<Rightarrow> Ok (bytes2str b) | _ \<Rightarrow> Err AttributeError)"

definition describe_value :: "(val \<Rightarrow> pystr) \<Rightarrow> attribute \<Rightarrow> int \<Rightarrow> pystr res" where
  "describe_value pformat a cu_offset =
     (let num = (\<lambda>f. rbind (as_int (at_value a)) (\<lambda>n. Ok (f n)));
          indirect = (\<lambda>what. rbind (as_int (at_raw a)) (\<lambda>r. rbind (bytes_text (at_value a)) (\<lambda>s.
            Ok (lit (''(indirect '' @ what @ '', offset: '') @ format_hex r @ lit ''): '' @ s)))) in
      case attr_kind_of (at_form a) of
        Ref \<Rightarrow> num (\<lambda>n. lit ''<'' @ format_hex (n + cu_offset) @ lit ''>'')
      | Ref_sig8 \<Rightarrow> num (\<lambda>n. lit ''signature: '' @ format_hex n)
      | Value_passthrough \<Rightarrow> Ok (str_of_val pformat (at_value a))
      | Hex \<Rightarrow> num format_hex
      | Hex_addr \<Rightarrow> num (\<lambda>n. lit ''<'' @ format_hex n @ lit ''>'')
      | Split_64bit \<Rightarrow> num (\<lambda>n. format_hex (n AND 0xFFFFFFFF) @ lit '' '' @ format_hex (drop_bit 32 n AND 0xFFFFFFFF))
      | Strp \<Rightarrow> indirect ''string''
      | Line_strp \<Rightarrow> indirect ''line string''
      | Text_string \<Rightarrow> bytes_text (at_value a)
      | Debool \<Rightarrow> Ok (lit (if truthy (at_value a) then ''1'' else ''0''))
      | Present \<Rightarrow> Ok (lit ''1'')
      | Block \<Rightarrow> rbind (viter (at_value a)) (\<lambda>vs. rbind (rmap as_int vs) (\<lambda>ns.
          Ok (py_str (int (length ns)) @ lit '' byte block: '' @ comma_join (lit '' '') (map hex_text ns) @ lit '' ''))))"

text \<open>\<^verbatim>\<open>mapping.get(attr.value, d)\<close>.\<close>

definition mapping_get :: "(int \<times> string) list \<Rightarrow> val \<Rightarrow> pystr \<Rightarrow> pystr res" where
  "mapping_get m v d = (case v of
       VList _ \<Rightarrow> Err TypeError | VCont _ \<Rightarrow> Err TypeError
     | _ \<Rightarrow> (case as_int v of Ok n \<Rightarrow> Ok (case map_of m n of Some s \<Rightarrow> lit s | None \<Rightarrow> d) | _ \<Rightarrow> Ok d))"

text \<open>
  \<open>_import_extra\<close>: the first unit whose bytes, less its length field, span the offset; the entry is parsed again, and
  the stream's position put back.
\<close>

definition import_text :: "nat \<Rightarrow> section_name \<Rightarrow> int \<Rightarrow> pystr D" where
  "import_text cu sec ref =
     mbind (in_sec sec s_pos) (\<lambda>saved.
     mbind (parse_DIE (translate_attr_value (get_base_offset cu) cu) cu ref) (\<lambda>d.
     mbind (in_sec sec (s_seek saved)) (\<lambda>_.
       ret (lit ''[Abbrev Number: '' @ py_str (die_abbrev_code d) @ lit '' ('' @ str_of_val (\<lambda>_. []) (die_tag d) @ lit '')]''))))"

primrec import_from :: "nat \<Rightarrow> int \<Rightarrow> section_name \<Rightarrow> int \<Rightarrow> pystr D" where
  "import_from 0 offset sec ref = lift_res NoFuel"
| "import_from (Suc fuel) offset sec ref =
     mbind (the_size Debug_info) (\<lambda>sz.
       if offset < sz then
         mbind (cached_CU_at_offset offset) (\<lambda>cu.
         mbind (next_unit_offset cu offset) (\<lambda>offset'.
         mbind (the_unit cu) (\<lambda>un.
         mbind (lift_res (get_int (un_header un) ''unit_length'')) (\<lambda>n.
           if n + un_offset un > ref \<and> ref \<ge> un_offset un then import_text cu sec ref
           else import_from fuel offset' sec ref))))
       else ret (lit ''[unknown]''))"

definition import_extra :: "attribute \<Rightarrow> nat \<Rightarrow> int \<Rightarrow> pystr D" where
  "import_extra a u sec_off =
     mbind (the_unit u) (\<lambda>un.
     mbind (lift_res (as_int (at_value a))) (\<lambda>v.
     let ref = (if at_form a = VLit ''DW_FORM_ref_addr'' then sec_off + v else v + un_offset un) in
     mbind (has_sec Debug_info) (\<lambda>there.
       if \<not> there then ret (lit ''[unknown]'')
       else mbind (the_size Debug_info) (\<lambda>sz. import_from (nat sz + 1) 0 (unit_section un) ref))))"

definition expr_extra :: "pystr option \<Rightarrow> attribute \<Rightarrow> nat \<Rightarrow> pystr D" where
  "expr_extra arch a u = mbind (the_unit u) (\<lambda>un. lift_res (describe_DWARF_expr arch (at_value a) (un_structs un) (Some (un_offset un))))"

definition extra_info :: "pystr option \<Rightarrow> attribute \<Rightarrow> nat \<Rightarrow> int \<Rightarrow> pystr D" where
  "extra_info arch a u sec_off =
     (case (case at_name a of VStr s \<Rightarrow> map_of (map (\<lambda>(n, k). (lit n, k)) EXTRA_INFO_DESCRIPTION_MAP) s | _ \<Rightarrow> None) of
        None \<Rightarrow> ret []
      | Some (Mapped m d) \<Rightarrow> lift_res (mapping_get m (at_value a) (lit d))
      | Some (Interpolated m x y) \<Rightarrow> lift_res (rbind (as_int (at_value a)) (\<lambda>n. mapping_get m (at_value a) (lit x @ hex_text n @ lit y)))
      | Some Location_list_extra \<Rightarrow>
          if at_form a \<in> VLit ` {''DW_FORM_data4'', ''DW_FORM_data8'', ''DW_FORM_sec_offset''} then ret (lit ''(location list)'')
          else expr_extra arch a u
      | Some Data_member_location_extra \<Rightarrow>
          if at_form a \<in> VLit ` {''DW_FORM_data1'', ''DW_FORM_data2'', ''DW_FORM_data4'', ''DW_FORM_data8'', ''DW_FORM_sdata'',
             ''DW_FORM_implicit_const''} then ret []
          else expr_extra arch a u
      | Some Import_extra \<Rightarrow> import_extra a u sec_off)"

definition describe_attr_value :: "(val \<Rightarrow> pystr) \<Rightarrow> pystr option \<Rightarrow> attribute \<Rightarrow> nat \<Rightarrow> int \<Rightarrow> pystr D" where
  "describe_attr_value pformat arch a u sec_off =
     mbind (the_unit u) (\<lambda>un.
     mbind (lift_res (describe_value pformat a (un_offset un))) (\<lambda>s.
     mbind (extra_info arch a u sec_off) (\<lambda>extra. ret (s @ [9] @ extra))))"

section \<open>What is not described\<close>

text \<open>A common entry that sets the offset of the frame with a scaled operand is not described.\<close>

lemma scaled_offset_not_described:
  "ci_opcode i = DW_CFA ''DW_CFA_def_cfa_offset_sf'' \<Longrightarrow> ci_args i = [VInt n] \<Longrightarrow>
     describe_CFI_instructions arch (CIE h ds (i # is) off d b) = Err TypeError"
proof -
  assume i: "ci_opcode i = DW_CFA ''DW_CFA_def_cfa_offset_sf''" "ci_args i = [VInt n]"
  have "instruction_name (DW_CFA ''DW_CFA_def_cfa_offset_sf'') = Ok ''DW_CFA_def_cfa_offset_sf''" by code_simp
  with i show ?thesis
    by (simp add: describe_CFI_instructions_def describe_instr_def instr_num_def is_FDE_def py_index_def as_int_def)
qed

end
