(* ===== verification/Spec2Isabelle.thy ===== *)
theory Spec2Isabelle
  imports AuditProperties FormatProperties FileProperties HashProperties RelocProperties NoteProperties
    DynamicProperties AttributeProperties LineProperties ExprProperties
    CfiProperties CfiEntries EhabiProperties LookupProperties UnitProperties
    ElfDescriptions DwarfDescriptions DwarfFiles
begin

text \<open>
  A verification library of \<^verbatim>\<open>audit_libstdcxx\<close>: the Python audit hook that makes a process load the
  newest \<^verbatim>\<open>libstdc++.so.6\<close> (\<^verbatim>\<open>src/pyaudit/audit_libstdcxx.py\<close>), and the ELF parser it rests on
  (\<^verbatim>\<open>src/pyaudit/elftools\<close>).

  The hook watches the interpreter's audit events.  When a shared library that depends on
  \<^verbatim>\<open>libstdc++.so.6\<close> is about to be loaded it disables itself, finds the system's library (with a
  subprocess if it is not loaded yet), reads the GLIBCXX versions that the system's and the
  shipped library define out of their \<^verbatim>\<open>.gnu.version_d\<close> sections, and loads the shipped one when
  it is newer.  The ELF file is read with declarative formats (\<^verbatim>\<open>construct\<close>).

  \<^bold>\<open>Theories, in the order of the layers\<close>
  \<^item> \<open>Prelude\<close>: bytes, text, exceptions as values (\<open>exn\<close>, \<open>res\<close>), the state-and-exception monad
    \<open>M\<close>, the byte stream, dictionaries.  A result is \<open>Ok\<close>, \<open>Err\<close>, or \<open>NoFuel\<close> when a loop
    was cut off by its bound; the state survives an exception.
  \<^item> \<open>PyText\<close>, \<open>PyStruct\<close>: UTF-8, Latin-1, digits, substrings; the integer formats of the \<open>struct\<close>
    module.
  \<^item> \<open>ConstructLib\<close>, \<open>ConstructCore\<close>, \<open>Construct\<close>: \<^verbatim>\<open>elftools/construct\<close>.  Each class's \<open>_parse\<close>,
    \<open>_build\<close> and \<open>_sizeof\<close> is a definition (\<open>Struct_parse\<close>, \<open>Switch_build\<close>, ...) over a state of
    context and stream; the datatype \<open>con\<close> has a constructor per class, \<open>con_parse\<close> dispatches.
    The integer builders of \<^verbatim>\<open>macros.py\<close> in the byte order of the machine have that order as an argument.
  \<^item> \<open>CommonUtils\<close>: \<^verbatim>\<open>elftools/common/utils.py\<close>: \<open>struct_parse\<close>, C strings, \<open>roundup\<close>.
  \<^item> \<open>ConstructFacts\<close>: the locales \<open>fixed_format\<close> and \<open>file_format\<close>: a format that reads a fixed
    number of bytes and decodes them by a function, with rules to compose formats.
  \<^item> \<open>ElfEnums\<close>, \<open>ElfStructs\<close>: \<^verbatim>\<open>elf/enums.py\<close> and \<^verbatim>\<open>elf/structs.py\<close>.  \<open>ElfFormats\<close>: for each
    fixed-size structure the offset, width and decoding of its fields, an interpretation of
    \<open>file_format\<close> each.
  \<^item> \<open>ElfSections\<close>, \<open>ElfFile\<close>, \<open>GnuVersions\<close>: \<^verbatim>\<open>elf/sections.py\<close>, \<^verbatim>\<open>elf/segments.py\<close>,
    \<^verbatim>\<open>elf/elffile.py\<close>, \<^verbatim>\<open>elf/gnuversions.py\<close>.  The state is that of the open file: its stream and
    the cache of section names.
  \<^item> \<open>ReadOnly\<close>: parsing does not change the file, and what is parsed at an offset does not depend
    on where the stream was.
  \<^item> \<open>AuditLib\<close>: the audit module.  What it asks of the operating system is a record of functions
    (\<open>env\<close>); what it does to the process is the state \<open>world\<close>.  Its field \<open>loaded\<close> lists every library that the
    module has \<^verbatim>\<open>ctypes\<close> load: the shipped library, and \<^verbatim>\<open>libdl\<close>, which \<open>get_cdll_library_path\<close> loads to ask
    where a library that is loaded already lies.  \<open>script_main\<close> is what the subprocess runs.
  \<^item> \<open>AuditVersions\<close>: the version scan delivers the names in file order and keeps the maximum.
    \<open>AuditHook\<close>: the hook as a state machine (the locale \<open>preserved\<close>).  \<open>AuditSamples\<close>: small
    libraries whose versions the parser computes from their bytes.
  \<^item> \<open>FileReads\<close>, \<open>Returning\<close>: operations that are functions of the file's contents, and operations
    that always return.  \<open>ElfHash\<close>, \<open>ElfRelocation\<close>, \<open>ElfNotes\<close>, \<open>ElfDynamic\<close>, \<open>ElfAttributes\<close>:
    \<^verbatim>\<open>elf/hash.py\<close>, \<^verbatim>\<open>elf/relocation.py\<close>, \<^verbatim>\<open>elf/notes.py\<close>, \<^verbatim>\<open>elf/dynamic.py\<close> and the build attributes
    of \<^verbatim>\<open>elf/sections.py\<close>.  \<open>ElfDescriptions\<close>: \<^verbatim>\<open>elf/descriptions.py\<close> and the flag classes of
    \<^verbatim>\<open>elf/constants.py\<close>: the texts for the values that the formats yield.
  \<^item> \<open>AuditProperties\<close>, \<open>FormatProperties\<close>, \<open>FileProperties\<close>, \<open>HashProperties\<close>, \<open>RelocProperties\<close>,
    \<open>NoteProperties\<close>, \<open>DynamicProperties\<close>, \<open>AttributeProperties\<close>: the properties, with instances.
    \<open>HashProperties\<close> also has the locale \<open>symbol_source\<close>, what a hash table asks of
    its symbol table.

  \<^bold>\<open>DWARF\<close> (\<^verbatim>\<open>elftools/dwarf\<close>), which the hook does not reach but the package ships
  \<^item> \<open>DwarfEnums\<close>, \<open>DwarfStructs\<close>: \<^verbatim>\<open>enums.py\<close>, \<^verbatim>\<open>structs.py\<close>.  The formats are functions of the
    parameters a \<open>DWARFStructs\<close> object is made with.
  \<^item> \<open>Progress\<close>: which formats consume at least how many bytes, and that parsing with a format whose
    conditions are well-behaved always returns.  \<open>Leb128\<close>, \<open>SectionReads\<close>, \<open>NumberCodes\<close>: the encodings of
    numbers and their round trips, and the rules for decoders that read a section value by value.
  \<^item> \<open>DwarfUtil\<close>: \<^verbatim>\<open>abbrevtable.py\<close>, \<^verbatim>\<open>dwarf_util.py\<close>.  \<open>DwarfLine\<close>: \<^verbatim>\<open>lineprogram.py\<close>; a section is
    its stream, a decoder a computation on it.  \<open>DwarfExpr\<close>: \<^verbatim>\<open>dwarf_expr.py\<close>; \<open>ExprOpcodes\<close> looks its
    tables up by name.
  \<^item> \<open>DwarfCallframe\<close>, \<open>CfiTable\<close>: \<^verbatim>\<open>callframe.py\<close>: the entries of a section (the state is the stream and the
    cache of entries), and the decoding of an entry to its table.
  \<^item> \<open>HeaderReads\<close>: rules for reading structures whose fields depend on one another (and strings, also of ELF notes).
  \<^item> \<open>DwarfTables\<close>: the standard library's bisection, \<^verbatim>\<open>aranges.py\<close> and \<^verbatim>\<open>namelut.py\<close>.  \<open>PyNumerals\<close>: numbers as text.
  \<^item> \<open>DwarfUnits\<close>: \<^verbatim>\<open>die.py\<close>, \<^verbatim>\<open>compileunit.py\<close>, \<^verbatim>\<open>typeunit.py\<close>.  The state \<open>dwarf\<close> is a \<open>DWARFInfo\<close> object with everything that
    hangs on it: the sections' streams, the units in the order they were made, their caches of entries, the
    caches of units.  A unit is a number, an entry is named by its unit and offset; parents and terminators, which
    the code stores in the entries, are kept with the unit.  A generator is run to its end with what its
    consumer does for each item given as a function (\<open>body\<close>), so that reads interleave as they do in the code.
  \<^item> \<open>DwarfInfo\<close>: \<^verbatim>\<open>dwarfinfo.py\<close>: finding and making units, type units by signature, references, line programs, call
    frames, name and address tables.  \<open>DwarfLists\<close>: \<^verbatim>\<open>ranges.py\<close>.  \<open>LocationLists\<close>: \<^verbatim>\<open>locationlists.py\<close>.
  \<^item> \<open>SearchFacts\<close>: bisection finds the place of a number in a sorted list.  \<open>UnitCaches\<close>: how far an operation may change
    the state is a relation of states (the locales \<open>step_relation\<close>, \<open>unit_relation\<close>); the caches stay coherent.
    \<open>CacheInvariant\<close>: what four basic operations respect every operation respects (\<open>cache_relation\<close>), and so
    every sequence of calls.  \<open>CacheGrowth\<close>: what the caches hold they keep.
  \<^item> \<open>EntryTrees\<close>, \<open>EntryReads\<close>, \<open>EntryWalk\<close>, \<open>UnitEntries\<close>: trees of entries, the bytes they are written as, the reading of
    one entry, and the walk of a unit.  \<open>DwarfSamples\<close>: small files.  \<open>LookupProperties\<close>, \<open>UnitProperties\<close>: the
    properties.
  \<^item> \<open>DwarfFiles\<close>: how \<^verbatim>\<open>elf/elffile.py\<close> makes a \<open>DWARFInfo\<close> object (and the one of a supplementary file) of a file's sections.
    The decompressors and the loader of supplementary files are parameters.  \<open>file_objects_reachable\<close>: what is proved of
    reachable objects holds of these.
  \<^item> \<open>DwarfDescriptions\<close>: \<^verbatim>\<open>descriptions.py\<close>.  The machine architecture, a global variable, is an argument; the
    standard library's pretty-printer is a parameter.
  \<^item> \<open>LineProperties\<close>, \<open>ExprProperties\<close>, \<open>CfiReading\<close>, \<open>CfiEntries\<close>: decoding ends and inverts encoding.
    \<open>CfiProperties\<close>: what holds of every decoded table.

  \<^bold>\<open>EHABI\<close> (\<^verbatim>\<open>elftools/ehabi\<close>): \<open>Ehabi\<close> has the index, the table entries and the bytecode decoder, with the
    texts it makes; \<open>EhabiProperties\<close> its properties.

  \<^bold>\<open>Bounds\<close>.  Loops that need a bound get one from what is left to read: \<open>RepeatUntil\<close> and the C
  string reader consume at least one byte, or a chunk, a round, so the bytes left (plus one) are
  enough rounds.  An expression's nested expressions are shorter than the
  expression, a line program's rounds go on by at least a byte.  A unit of \<^verbatim>\<open>.debug_info\<close> takes at least the four
  bytes of its length, an entry at least one, so the bytes of the section (plus one) are enough rounds over
  units, entries, lists and tables; a list of children is longer only when a \<^verbatim>\<open>DW_AT_sibling\<close> leads backwards, and
  then it does not end.  Sections linked to sections are made up to the depth \<open>max_depth\<close>, which stands
  for the interpreter's recursion limit; so do the depths of \<open>parse_entry_at\<close>
  and of the walks through trees of entries.

  \<^bold>\<open>Not modelled\<close>: the texts of notes (\<^verbatim>\<open>describe_note\<close>) and of C++ types (\<^verbatim>\<open>datatype_cpp.py\<close>, which nothing calls), and
  printing; references into a supplementary file (its object is made and returned, but the branches that look something
  up in it are modelled as those of a file without one); the method \<^verbatim>\<open>_translate_entry_v5\<close> of location lists, which
  nothing calls; \<^verbatim>\<open>load_from_path\<close> and \<^verbatim>\<open>close\<close>, pure input and output; the entries a line program keeps after the
  first call; bit streams of dynamic formats, floating-point fields, and the parts of the repository in C and CMake.
  \<^verbatim>\<open>zlib\<close>, \<^verbatim>\<open>ctypes\<close>, the dynamic linker and \<^verbatim>\<open>ldd\<close> are parameters.
\<close>

end
